(* ===== verification/Prelude.thy ===== *)
theory Prelude
  imports Complex_Main "HOL-Library.Char_ord" "HOL-Library.List_Lexorder"
begin

section \<open>Shared vocabulary of the development\<close>

text \<open>
  What every component uses: the result of an asynchronous method of the source (an error
  or a value, together with the state it leaves behind, because a JavaScript exception does
  not undo the writes made before it), decimal digit strings, and the padding functions of
  \<open>String.prototype\<close>. A HOL \<^typ>\<open>string\<close> models a JavaScript string whose code units
  are below 256; a \<open>Uint8Array\<close> is the same type read as bytes.
\<close>

type_synonym bytes = string

named_theorems io_simps \<open>unfolding rules of the result monad\<close>

subsection \<open>Options\<close>

text \<open>\<open>x ?? d\<close>.\<close>

definition or_default :: "'a option \<Rightarrow> 'a \<Rightarrow> 'a" where
  "or_default x d = (case x of None \<Rightarrow> d | Some y \<Rightarrow> y)"

subsection \<open>Results with state\<close>

text \<open>
  \<open>('e, 's, 'a) io\<close> is an async method body: it runs on the state \<open>'s\<close>, throws \<open>Inl\<close> or
  returns \<open>Inr\<close>, and in both cases leaves a state.
\<close>

type_synonym ('e, 's, 'a) io = "'s \<Rightarrow> ('e + 'a) \<times> 's"

definition ret :: "'a \<Rightarrow> ('e, 's, 'a) io" where
  "ret x = (\<lambda>s. (Inr x, s))"

definition throw :: "'e \<Rightarrow> ('e, 's, 'a) io" where
  "throw e = (\<lambda>s. (Inl e, s))"

definition bind_io :: "('e, 's, 'a) io \<Rightarrow> ('a \<Rightarrow> ('e, 's, 'b) io) \<Rightarrow> ('e, 's, 'b) io" where
  "bind_io m f = (\<lambda>s. case m s of (Inl e, s') \<Rightarrow> (Inl e, s') | (Inr x, s') \<Rightarrow> f x s')"

definition catch_io :: "('e, 's, 'a) io \<Rightarrow> ('e \<Rightarrow> ('f, 's, 'a) io) \<Rightarrow> ('f, 's, 'a) io" where
  "catch_io m h = (\<lambda>s. case m s of (Inl e, s') \<Rightarrow> h e s' | (Inr x, s') \<Rightarrow> (Inr x, s'))"

definition lift_io :: "'e + 'a \<Rightarrow> ('e, 's, 'a) io" where
  "lift_io r = (\<lambda>s. (r, s))"

definition modify_io :: "('s \<Rightarrow> 's) \<Rightarrow> ('e, 's, unit) io" where
  "modify_io f = (\<lambda>s. (Inr (), f s))"

definition bind_sum :: "'e + 'a \<Rightarrow> ('a \<Rightarrow> 'e + 'b) \<Rightarrow> 'e + 'b" where
  "bind_sum r f = (case r of Inl e \<Rightarrow> Inl e | Inr x \<Rightarrow> f x)"

lemma ret_apply [simp, io_simps]: "ret x s = (Inr x, s)"
  by (simp add: ret_def)

lemma throw_apply [simp, io_simps]: "throw e s = (Inl e, s)"
  by (simp add: throw_def)

lemma lift_io_apply [simp, io_simps]: "lift_io r s = (r, s)"
  by (simp add: lift_io_def)

lemma modify_io_apply [simp, io_simps]: "modify_io f s = (Inr (), f s)"
  by (simp add: modify_io_def)

lemma bind_io_apply [io_simps]:
  "bind_io m f s = (case m s of (Inl e, s') \<Rightarrow> (Inl e, s') | (Inr x, s') \<Rightarrow> f x s')"
  by (simp add: bind_io_def)

lemma catch_io_apply [io_simps]:
  "catch_io m h s = (case m s of (Inl e, s') \<Rightarrow> h e s' | (Inr x, s') \<Rightarrow> (Inr x, s'))"
  by (simp add: catch_io_def)

lemma bind_sum_simps [simp]:
  "bind_sum (Inl e) f = Inl e"
  "bind_sum (Inr x) f = f x"
  by (simp_all add: bind_sum_def)

lemma bind_sum_Inr: "bind_sum r f = Inr y \<longleftrightarrow> (\<exists>x. r = Inr x \<and> f x = Inr y)"
  by (cases r) simp_all

lemma bind_io_Inr:
  "bind_io m f s = (Inr y, s'') \<longleftrightarrow> (\<exists>x s'. m s = (Inr x, s') \<and> f x s' = (Inr y, s''))"
  by (auto simp: bind_io_apply split: prod.splits sum.splits)

lemma throw_Inr: "throw e s = (Inr x, s') \<longleftrightarrow> False"
  by simp

lemma bind_ret_state: "snd (bind_io m (\<lambda>x. ret (f x)) s) = snd (m s)"
  by (simp add: bind_io_apply split: prod.splits sum.splits)

lemma bind_io_assoc: "bind_io (bind_io m f) g = bind_io m (\<lambda>x. bind_io (f x) g)"
  by (rule ext) (auto simp: bind_io_apply split: prod.splits sum.splits)

lemma bind_io_ret: "bind_io (ret x) f = f x"
  by (rule ext) (simp add: bind_io_apply)

text \<open>
  \<open>keeps R m\<close>: whatever \<open>m\<close> returns or throws, the state it leaves is related to the state it
  ran in. For a preorder \<open>R\<close> the rules below reduce it to the operations \<open>m\<close> is made of.
\<close>

named_theorems keeps_intros \<open>rules for relations between the states before and after\<close>

definition keeps :: "('s \<Rightarrow> 's \<Rightarrow> bool) \<Rightarrow> ('e, 's, 'a) io \<Rightarrow> bool" where
  "keeps R m \<longleftrightarrow> (\<forall>s. R s (snd (m s)))"

definition state_order :: "('s \<Rightarrow> 's \<Rightarrow> bool) \<Rightarrow> bool" where
  "state_order R \<longleftrightarrow> (\<forall>s. R s s) \<and> (\<forall>s t u. R s t \<longrightarrow> R t u \<longrightarrow> R s u)"

lemma keepsD: "keeps R m \<Longrightarrow> m s = (r, s') \<Longrightarrow> R s s'"
  unfolding keeps_def by (metis snd_conv)

lemma keeps_ret [keeps_intros]: "state_order R \<Longrightarrow> keeps R (ret x)"
  by (simp add: keeps_def state_order_def)

lemma keeps_throw [keeps_intros]: "state_order R \<Longrightarrow> keeps R (throw e)"
  by (simp add: keeps_def state_order_def)

lemma keeps_lift [keeps_intros]: "state_order R \<Longrightarrow> keeps R (lift_io r)"
  by (simp add: keeps_def state_order_def)

lemma keeps_modify [keeps_intros]: "(\<And>s. R s (f s)) \<Longrightarrow> keeps R (modify_io f)"
  by (simp add: keeps_def)

lemma keeps_bind [keeps_intros]:
  assumes R: "state_order R" and m: "keeps R m" and f: "\<And>x. keeps R (f x)"
  shows "keeps R (bind_io m f)"
  unfolding keeps_def
proof
  fix s
  obtain r s1 where e: "m s = (r, s1)" by fastforce
  then have "R s s1" using m by (rule keepsD [rotated])
  moreover have "R s1 (snd (f x s1))" for x using f by (simp add: keeps_def)
  ultimately show "R s (snd (bind_io m f s))"
    using R by (cases r) (auto simp: bind_io_apply e state_order_def)
qed

lemma keeps_bind_lift:
  "state_order R \<Longrightarrow> (\<And>x. r = Inr x \<Longrightarrow> keeps R (f x)) \<Longrightarrow> keeps R (bind_io (lift_io r) f)"
  by (cases r) (auto simp: keeps_def bind_io_apply state_order_def)

lemma keeps_catch [keeps_intros]:
  assumes R: "state_order R" and m: "keeps R m" and h: "\<And>e. keeps R (h e)"
  shows "keeps R (catch_io m h)"
  unfolding keeps_def
proof
  fix s
  obtain r s1 where e: "m s = (r, s1)" by fastforce
  then have "R s s1" using m by (rule keepsD [rotated])
  moreover have "R s1 (snd (h x s1))" for x using h by (simp add: keeps_def)
  ultimately show "R s (snd (catch_io m h s))"
    using R by (cases r) (auto simp: catch_io_apply e state_order_def)
qed

lemma keeps_if [keeps_intros]: "(b \<Longrightarrow> keeps R m) \<Longrightarrow> (\<not> b \<Longrightarrow> keeps R n) \<Longrightarrow> keeps R (if b then m else n)"
  by simp

lemma keeps_option [keeps_intros]:
  "(x = None \<Longrightarrow> keeps R m) \<Longrightarrow> (\<And>y. x = Some y \<Longrightarrow> keeps R (f y)) \<Longrightarrow>
    keeps R (case x of None \<Rightarrow> m | Some y \<Rightarrow> f y)"
  by (cases x) simp_all

lemma keeps_prod [keeps_intros]: "(\<And>y z. x = (y, z) \<Longrightarrow> keeps R (f y z)) \<Longrightarrow> keeps R (case x of (y, z) \<Rightarrow> f y z)"
  by (cases x) simp

lemma keeps_sum [keeps_intros]:
  "(\<And>y. x = Inl y \<Longrightarrow> keeps R (f y)) \<Longrightarrow> (\<And>y. x = Inr y \<Longrightarrow> keeps R (g y)) \<Longrightarrow>
    keeps R (case x of Inl y \<Rightarrow> f y | Inr y \<Rightarrow> g y)"
  by (cases x) simp_all

subsection \<open>Sequences of operations\<close>

fun run_ops :: "('c \<Rightarrow> ('e, 's, 'r) io) \<Rightarrow> 'c list \<Rightarrow> 's \<Rightarrow> ('e + 'r) list \<times> 's" where
  "run_ops f [] s = ([], s)"
| "run_ops f (c # cs) s =
     (case f c s of (r, s') \<Rightarrow> (case run_ops f cs s' of (rs, s'') \<Rightarrow> (r # rs, s'')))"

lemma run_ops_append:
  "run_ops f (cs @ ds) s =
     (case run_ops f cs s of (rs, s') \<Rightarrow> (case run_ops f ds s' of (qs, s'') \<Rightarrow> (rs @ qs, s'')))"
  by (induction cs arbitrary: s) (auto split: prod.splits)

lemma run_ops_length: "run_ops f cs s = (rs, s') \<Longrightarrow> length rs = length cs"
  by (induction cs arbitrary: s rs s') (auto split: prod.splits)

text \<open>A property of the state that every operation keeps holds after a run.\<close>

lemma run_ops_invariant:
  assumes "\<And>c s. P s \<Longrightarrow> P (snd (f c s))" and "P s" "run_ops f cs s = (rs, s')"
  shows "P s'"
  using assms(2,3)
proof (induction cs arbitrary: s rs)
  case (Cons c cs)
  then show ?case using assms(1) [of s c] by (cases "f c s") (auto split: prod.splits)
qed simp

text \<open>The state in which the operation at an index ran.\<close>

definition state_at :: "('c \<Rightarrow> ('e, 's, 'r) io) \<Rightarrow> 'c list \<Rightarrow> 's \<Rightarrow> nat \<Rightarrow> 's" where
  "state_at f cs s i = snd (run_ops f (take i cs) s)"

lemma run_ops_nth:
  "run_ops f cs s = (rs, s') \<Longrightarrow> i < length cs \<Longrightarrow>
     f (cs ! i) (state_at f cs s i) = (rs ! i, state_at f cs s (Suc i))"
proof (induction cs arbitrary: s rs s' i)
  case (Cons c cs)
  obtain r s1 where f: "f c s = (r, s1)" by fastforce
  obtain qs where q: "run_ops f cs s1 = (qs, s')" "rs = r # qs"
    using Cons.prems(1) f by (auto split: prod.splits)
  show ?case
  proof (cases i)
    case 0
    then show ?thesis using f q by (simp add: state_at_def)
  next
    case (Suc j)
    then show ?thesis using Cons.IH [OF q(1), of j] Cons.prems(2) f q(2)
      by (auto simp: state_at_def split: prod.splits)
  qed
qed simp

lemma state_at_invariant:
  assumes "\<And>c s. P s \<Longrightarrow> P (snd (f c s))" and "P (state_at f cs s i)" "i \<le> j"
  shows "P (state_at f cs s j)"
proof -
  obtain k where j: "j = i + k" using \<open>i \<le> j\<close> le_Suc_ex by blast
  have "state_at f cs s j = snd (run_ops f (take k (drop i cs)) (state_at f cs s i))"
    by (auto simp: state_at_def j take_add run_ops_append split: prod.splits)
  then show ?thesis
    using run_ops_invariant [of P f, OF assms(1,2)] by (metis prod.collapse)
qed

subsection \<open>Options and association lists\<close>

definition option_list :: "'a option \<Rightarrow> 'a list" where
  "option_list x = (case x of None \<Rightarrow> [] | Some y \<Rightarrow> [y])"

lemma set_option_list [simp]: "set (option_list x) = set_option x"
  by (cases x) (simp_all add: option_list_def)

lemma find_Some_iff2:
  "find P xs = Some x \<Longrightarrow> x \<in> set xs \<and> P x"
  by (induction xs) (auto split: if_splits)

lemma find_None: "find P xs = None \<longleftrightarrow> (\<forall>x \<in> set xs. \<not> P x)"
  by (induction xs) auto

lemma map_of_filter: "map_of xs k = (case filter (\<lambda>x. fst x = k) xs of [] \<Rightarrow> None | x # _ \<Rightarrow> Some (snd x))"
  by (induction xs) auto

lemma map_of_sort_key: "map_of (sort_key fst xs) k = map_of xs k"
proof -
  have "sort_key fst (filter (\<lambda>x. fst x = k) xs) = filter (\<lambda>x. fst x = k) xs"
    by (rule sort_key_id_if_sorted) (induction xs, auto)
  then show ?thesis by (simp add: map_of_filter filter_sort)
qed

text \<open>\<open>Array.prototype.join\<close>.\<close>

fun join_with :: "string \<Rightarrow> string list \<Rightarrow> string" where
  "join_with sep [] = []"
| "join_with sep [x] = x"
| "join_with sep (x # xs) = x @ sep @ join_with sep xs"

subsection \<open>Decimal digit strings\<close>

definition is_digit :: "char \<Rightarrow> bool" where
  "is_digit c \<longleftrightarrow> 48 \<le> (of_char c :: nat) \<and> (of_char c :: nat) \<le> 57"

definition digit_value :: "char \<Rightarrow> nat" where
  "digit_value c = of_char c - 48"

definition digit_char :: "nat \<Rightarrow> char" where
  "digit_char n = char_of (48 + n)"

definition digits_value :: "string \<Rightarrow> nat" where
  "digits_value s = foldl (\<lambda>n c. 10 * n + digit_value c) 0 s"

text \<open>\<open>BigInt(n).toString()\<close> and \<open>String(n)\<close> for a non-negative integer.\<close>

fun nat_string :: "nat \<Rightarrow> string" where
  "nat_string n = (if n < 10 then [digit_char n] else nat_string (n div 10) @ [digit_char (n mod 10)])"

declare nat_string.simps [simp del]

text \<open>The pattern \<open>^(0|[1-9]\d*)$\<close>.\<close>

definition uint_string :: "string \<Rightarrow> bool" where
  "uint_string s \<longleftrightarrow> s = ''0'' \<or> (s \<noteq> [] \<and> list_all is_digit s \<and> hd s \<noteq> CHR ''0'')"

definition pad_start :: "nat \<Rightarrow> char \<Rightarrow> string \<Rightarrow> string" where
  "pad_start n c s = replicate (n - length s) c @ s"

definition pad_end :: "nat \<Rightarrow> char \<Rightarrow> string \<Rightarrow> string" where
  "pad_end n c s = s @ replicate (n - length s) c"

lemma digit_char_value [simp]: "n < 10 \<Longrightarrow> digit_value (digit_char n) = n"
  by (simp add: digit_value_def digit_char_def)

lemma is_digit_digit_char [simp]: "n < 10 \<Longrightarrow> is_digit (digit_char n)"
  by (simp add: is_digit_def digit_char_def)

lemma digit_value_lt: "is_digit c \<Longrightarrow> digit_value c < 10"
  by (auto simp: is_digit_def digit_value_def)

lemma digit_char_0 [simp]: "digit_char 0 = CHR ''0''"
  by (simp add: digit_char_def char_of_def bit_0)

lemma digit_value_0 [simp]: "digit_value (CHR ''0'') = 0"
  by (simp add: digit_value_def)

lemma digit_char_of_value: "is_digit c \<Longrightarrow> digit_char (digit_value c) = c"
  by (simp add: is_digit_def digit_value_def digit_char_def)

lemma digit_value_inj: "is_digit c \<Longrightarrow> is_digit d \<Longrightarrow> digit_value c = digit_value d \<Longrightarrow> c = d"
  by (metis digit_char_of_value)

lemma digits_value_Nil [simp]: "digits_value [] = 0"
  by (simp add: digits_value_def)

lemma digits_value_snoc [simp]: "digits_value (s @ [c]) = 10 * digits_value s + digit_value c"
  by (simp add: digits_value_def)

lemma digits_value_append:
  "digits_value (s @ t) = digits_value s * 10 ^ length t + digits_value t"
proof (induction t rule: rev_induct)
  case (snoc c t)
  have "digits_value (s @ t @ [c]) = 10 * digits_value (s @ t) + digit_value c"
    by (metis append_assoc digits_value_snoc)
  then show ?case by (simp add: snoc.IH algebra_simps)
qed simp

lemma digits_value_single [simp]: "digits_value [c] = digit_value c"
  using digits_value_snoc [of "[]" c] by simp

lemma digits_value_Cons: "digits_value (c # s) = digit_value c * 10 ^ length s + digits_value s"
  using digits_value_append [of "[c]" s] by simp

lemma digits_value_lt: "list_all is_digit s \<Longrightarrow> digits_value s < 10 ^ length s"
proof (induction s rule: rev_induct)
  case (snoc c s)
  then have "digits_value s < 10 ^ length s" and "digit_value c < 10"
    by (auto simp: digit_value_lt)
  then show ?case by simp
qed simp

lemma digits_value_zeros [simp]: "digits_value (replicate n CHR ''0'') = 0"
  by (induction n) (simp_all add: digits_value_Cons digit_value_def)

lemma is_digit_zero [simp]: "is_digit (CHR ''0'')"
  by (simp add: is_digit_def)

lemma list_all_digit_zeros [simp]: "list_all is_digit (replicate n CHR ''0'')"
  by (simp add: list_all_iff)

text \<open>Two digit strings of one length and one value are equal.\<close>

lemma digits_value_inj:
  "length s = length t \<Longrightarrow> list_all is_digit s \<Longrightarrow> list_all is_digit t \<Longrightarrow>
    digits_value s = digits_value t \<Longrightarrow> s = t"
proof (induction s t rule: rev_induct2)
  case (4 c s d t)
  from "4.prems" have dv: "digit_value c < 10" "digit_value d < 10"
    by (auto simp: digit_value_lt)
  with "4.prems" have "digits_value s = digits_value t \<and> digit_value c = digit_value d"
    by (simp, presburger)
  with 4 show ?case using digit_value_inj by auto
qed auto

lemma nat_string_value [simp]: "digits_value (nat_string n) = n"
proof (induction n rule: nat_string.induct)
  case (1 n)
  show ?case
  proof (cases "n < 10")
    case True
    then show ?thesis by (simp add: nat_string.simps [of n])
  next
    case False
    then have "digits_value (nat_string n) = 10 * digits_value (nat_string (n div 10)) + n mod 10"
      by (simp add: nat_string.simps [of n])
    with False "1.IH" show ?thesis by simp
  qed
qed

lemma nat_string_digits [simp]: "list_all is_digit (nat_string n)"
proof (induction n rule: nat_string.induct)
  case (1 n)
  then show ?case by (cases "n < 10") (simp_all add: nat_string.simps [of n])
qed

lemma nat_string_nonempty [simp]: "nat_string n \<noteq> []"
  by (simp add: nat_string.simps [of n])

lemma nat_string_hd: "0 < n \<Longrightarrow> hd (nat_string n) \<noteq> CHR ''0''"
proof (induction n rule: nat_string.induct)
  case (1 n)
  show ?case
  proof (cases "n < 10")
    case True
    have "digit_char n \<noteq> CHR ''0''"
    proof
      assume "digit_char n = CHR ''0''"
      then have "digit_value (digit_char n) = 0" by simp
      with True "1.prems" show False by simp
    qed
    with True show ?thesis by (simp add: nat_string.simps [of n])
  next
    case False
    with "1.IH" show ?thesis by (simp add: nat_string.simps [of n])
  qed
qed

lemma nat_string_uint [simp]: "uint_string (nat_string n)"
proof (cases "n = 0")
  case True
  then show ?thesis by (simp add: nat_string.simps uint_string_def)
qed (simp add: uint_string_def nat_string_hd)

lemma uint_string_digits: "uint_string s \<Longrightarrow> list_all is_digit s"
  by (auto simp: uint_string_def)

lemma uint_string_pos: "uint_string s \<Longrightarrow> s \<noteq> ''0'' \<Longrightarrow> 10 ^ (length s - 1) \<le> digits_value s"
proof (cases s)
  case (Cons c t)
  assume a: "uint_string s" "s \<noteq> ''0''"
  then have "is_digit c" "c \<noteq> CHR ''0''" by (auto simp: uint_string_def Cons)
  then have "1 \<le> digit_value c"
    using digit_value_inj [of c "CHR ''0''"] by (cases "digit_value c") (auto simp: digit_value_def)
  then have "1 * 10 ^ length t \<le> digit_value c * 10 ^ length t" by (rule mult_le_mono1)
  then show ?thesis by (simp add: Cons digits_value_Cons trans_le_add1)
qed (simp add: uint_string_def)

text \<open>An unsigned integer string is determined by its value.\<close>

lemma uint_string_inj:
  assumes s: "uint_string s" and t: "uint_string t" and eq: "digits_value s = digits_value t"
  shows "s = t"
proof -
  have len: "length a \<le> length b"
    if a: "uint_string a" and b: "uint_string b" and ab: "digits_value a = digits_value b" for a b
  proof (rule ccontr)
    assume "\<not> length a \<le> length b"
    then have l: "length b \<le> length a - 1" and "b \<noteq> []" "a \<noteq> ''0''"
      using b by (auto simp: uint_string_def Suc_le_eq)
    then have "10 ^ length b \<le> (10::nat) ^ (length a - 1)" by (simp add: power_increasing)
    also have "\<dots> \<le> digits_value a" using a \<open>a \<noteq> ''0''\<close> by (rule uint_string_pos)
    finally show False
      using digits_value_lt [OF uint_string_digits [OF b]] ab by simp
  qed
  from len [OF s t eq] len [OF t s eq [symmetric]] have "length s = length t" by simp
  with eq s t show ?thesis
    by (intro digits_value_inj uint_string_digits)
qed

lemma nat_string_digits_value: "uint_string s \<Longrightarrow> nat_string (digits_value s) = s"
  by (rule uint_string_inj) simp_all

lemma digits_value_pad_start [simp]: "digits_value (pad_start n CHR ''0'' s) = digits_value s"
  by (simp add: pad_start_def digits_value_append)

lemma length_pad_start: "length (pad_start n c s) = max n (length s)"
  by (simp add: pad_start_def)

lemma list_all_pad_start [simp]:
  "list_all is_digit s \<Longrightarrow> list_all is_digit (pad_start n CHR ''0'' s)"
  by (simp add: pad_start_def)

end
