(* ===== verification/Json.thy ===== *)
theory Json
  imports Prelude "HOL-Library.Monad_Syntax"
begin

section \<open>JSON values and base64url\<close>

text \<open>
  The JSON values that cross the boundaries of the program, with objects as association
  lists in property order, and the equality up to property order that RFC 8785 makes
  canonical. The readers used by the schema theories. Base64url as Node's \<open>Buffer\<close> encodes
  and decodes it, with its round trip.
\<close>

datatype json =
  JNull | JBool bool | JNum rat | JStr string | JArr "json list" | JObj "(string \<times> json) list"

text \<open>Sorting the properties of every object: two values with one normal form differ at most
  in property order.\<close>

primrec json_norm :: "json \<Rightarrow> json" where
  "json_norm JNull = JNull"
| "json_norm (JBool b) = JBool b"
| "json_norm (JNum q) = JNum q"
| "json_norm (JStr s) = JStr s"
| "json_norm (JArr xs) = JArr (map json_norm xs)"
| "json_norm (JObj kvs) = JObj (sort_key fst (map (map_prod id json_norm) kvs))"

lemma json_norm_obj_lookup:
  assumes "json_norm (JObj a) = json_norm (JObj b)"
  shows "map_option json_norm (map_of a k) = map_option json_norm (map_of b k)"
proof -
  have m: "map_of (map (map_prod id json_norm) c) k = map_option json_norm (map_of c k)" for c
    by (induction c) auto
  from assms have "map_of (sort_key fst (map (map_prod id json_norm) a)) k
      = map_of (sort_key fst (map (map_prod id json_norm) b)) k" by simp
  then show ?thesis by (simp only: map_of_sort_key m)
qed

lemma json_norm_JStr [simp]: "json_norm v = JStr s \<longleftrightarrow> v = JStr s"
  by (cases v) auto

lemma json_norm_JNum [simp]: "json_norm v = JNum s \<longleftrightarrow> v = JNum s"
  by (cases v) auto

lemma json_norm_JNull [simp]: "json_norm v = JNull \<longleftrightarrow> v = JNull"
  by (cases v) auto

subsection \<open>Reading properties\<close>

definition get_str :: "(string \<times> json) list \<Rightarrow> string \<Rightarrow> string option" where
  "get_str ob k = (case map_of ob k of Some (JStr s) \<Rightarrow> Some s | _ \<Rightarrow> None)"

definition get_null_str :: "(string \<times> json) list \<Rightarrow> string \<Rightarrow> string option option" where
  "get_null_str ob k =
     (case map_of ob k of Some (JStr s) \<Rightarrow> Some (Some s) | Some JNull \<Rightarrow> Some None | _ \<Rightarrow> None)"

definition get_lit :: "(string \<times> json) list \<Rightarrow> string \<Rightarrow> string \<Rightarrow> unit option" where
  "get_lit ob k s = (if map_of ob k = Some (JStr s) then Some () else None)"

fun get_strs :: "json list \<Rightarrow> string list option" where
  "get_strs [] = Some []"
| "get_strs (JStr s # xs) = map_option ((#) s) (get_strs xs)"
| "get_strs _ = None"

text \<open>\<open>z.object({...}).strict()\<close>: an object with no property outside the given names.\<close>

definition strict_obj :: "string list \<Rightarrow> json \<Rightarrow> (string \<times> json) list option" where
  "strict_obj ks v =
     (case v of JObj ob \<Rightarrow> if list_all (\<lambda>p. fst p \<in> set ks) ob then Some ob else None | _ \<Rightarrow> None)"

definition null_str :: "string option \<Rightarrow> json" where
  "null_str x = (case x of None \<Rightarrow> JNull | Some s \<Rightarrow> JStr s)"

lemma get_strs_map [simp]: "get_strs (map JStr xs) = Some xs"
  by (induction xs) simp_all

lemma null_str_inj [simp]: "null_str x = null_str y \<longleftrightarrow> x = y"
  by (cases x; cases y) (simp_all add: null_str_def)

lemma json_norm_null_str [simp]: "json_norm (null_str x) = null_str x"
  by (cases x) (simp_all add: null_str_def)

lemma map_json_norm_strs [simp]: "map json_norm (map JStr xs) = map JStr xs"
  by simp

lemmas json_read_defs = get_str_def get_null_str_def get_lit_def strict_obj_def null_str_def

subsection \<open>UTF-8\<close>

text \<open>\<open>Buffer.from(s, "utf8")\<close> on code units below 256.\<close>

definition utf8_char :: "char \<Rightarrow> bytes" where
  "utf8_char c = (let n = of_char c :: nat in
     if n < 128 then [c] else [char_of (192 + n div 64), char_of (128 + n mod 64)])"

definition utf8 :: "string \<Rightarrow> bytes" where
  "utf8 s = concat (map utf8_char s)"

lemma of_char_lt_256: "(of_char c :: nat) < 256"
  by (rule nat_of_char_less_256)

lemma utf8_inj: "utf8 s = utf8 t \<Longrightarrow> s = t"
proof (induction s arbitrary: t)
  case Nil
  then show ?case by (cases t) (auto simp: utf8_def utf8_char_def Let_def split: if_splits)
next
  case (Cons c s)
  from Cons.prems obtain d u where t: "t = d # u"
    by (cases t) (auto simp: utf8_def utf8_char_def Let_def split: if_splits)
  have bound: "(of_char c :: nat) < 256" "(of_char d :: nat) < 256"
    by (rule of_char_lt_256)+
  have "c = d \<and> utf8 s = utf8 u"
  proof (cases "(of_char c :: nat) < 128"; cases "(of_char d :: nat) < 128")
    assume "(of_char c :: nat) < 128" "(of_char d :: nat) < 128"
    then show ?thesis using Cons.prems t by (simp add: utf8_def utf8_char_def Let_def)
  next
    assume a: "(of_char c :: nat) < 128" "\<not> (of_char d :: nat) < 128"
    then have "c = char_of (192 + (of_char d :: nat) div 64)"
      using Cons.prems t by (simp add: utf8_def utf8_char_def Let_def)
    then have "(of_char c :: nat) = 192 + of_char d div 64" using bound by simp
    with a show ?thesis by simp
  next
    assume a: "\<not> (of_char c :: nat) < 128" "(of_char d :: nat) < 128"
    then have "char_of (192 + (of_char c :: nat) div 64) = d"
      using Cons.prems t by (simp add: utf8_def utf8_char_def Let_def)
    moreover have "(192 + (of_char c :: nat) div 64) mod 256 = 192 + of_char c div 64"
      using less_mult_imp_div_less [of "of_char c :: nat" 4 64] bound(1) by simp
    ultimately have "(of_char d :: nat) = 192 + of_char c div 64" by auto
    with a show ?thesis by simp
  next
    assume a: "\<not> (of_char c :: nat) < 128" "\<not> (of_char d :: nat) < 128"
    let ?m = "of_char c :: nat" and ?n = "of_char d :: nat"
    have "char_of (192 + ?m div 64) = (char_of (192 + ?n div 64) :: char)"
      and "char_of (128 + ?m mod 64) = (char_of (128 + ?n mod 64) :: char)"
      and rest: "utf8 s = utf8 u"
      using a Cons.prems t by (simp_all add: utf8_def utf8_char_def Let_def)
    then have "(192 + ?m div 64) mod 256 = (192 + ?n div 64) mod 256"
      and "(128 + ?m mod 64) mod 256 = (128 + ?n mod 64) mod 256"
      by (metis of_char_of)+
    then have "?m div 64 = ?n div 64" and "?m mod 64 = ?n mod 64"
      using bound by (simp_all add: less_mult_imp_div_less)
    then have "?m = ?n" by (metis div_mod_decomp)
    with rest show ?thesis by simp
  qed
  with Cons.IH t show ?case by blast
qed

subsection \<open>Base64url\<close>

definition b64_char :: "nat \<Rightarrow> char" where
  "b64_char n =
     (if n < 26 then char_of (65 + n) else if n < 52 then char_of (71 + n)
      else if n < 62 then char_of (n - 4) else if n = 62 then CHR ''-'' else CHR ''_'')"

definition b64_value :: "char \<Rightarrow> nat option" where
  "b64_value c = (let n = of_char c :: nat in
     if 65 \<le> n \<and> n \<le> 90 then Some (n - 65)
     else if 97 \<le> n \<and> n \<le> 122 then Some (n - 71)
     else if 48 \<le> n \<and> n \<le> 57 then Some (n + 4)
     else if n = 45 \<or> n = 43 then Some 62
     else if n = 95 \<or> n = 47 then Some 63 else None)"

text \<open>The pattern \<open>^[A-Za-z0-9_-]+$\<close> of \<open>Base64UrlSchema\<close>.\<close>

definition b64url_char :: "char \<Rightarrow> bool" where
  "b64url_char c \<longleftrightarrow> (let n = of_char c :: nat in
     65 \<le> n \<and> n \<le> 90 \<or> 97 \<le> n \<and> n \<le> 122 \<or> 48 \<le> n \<and> n \<le> 57 \<or> n = 95 \<or> n = 45)"

definition base64url :: "string \<Rightarrow> bool" where
  "base64url s \<longleftrightarrow> s \<noteq> [] \<and> list_all b64url_char s"

fun b64_sextets :: "nat list \<Rightarrow> nat list" where
  "b64_sextets (a # b # c # r) =
     [a div 4, a mod 4 * 16 + b div 16, b mod 16 * 4 + c div 64, c mod 64] @ b64_sextets r"
| "b64_sextets [a, b] = [a div 4, a mod 4 * 16 + b div 16, b mod 16 * 4]"
| "b64_sextets [a] = [a div 4, a mod 4 * 16]"
| "b64_sextets [] = []"

fun b64_octets :: "nat list \<Rightarrow> nat list" where
  "b64_octets (a # b # c # d # r) =
     [a * 4 + b div 16, b mod 16 * 16 + c div 4, c mod 4 * 64 + d] @ b64_octets r"
| "b64_octets [a, b, c] = [a * 4 + b div 16, b mod 16 * 16 + c div 4]"
| "b64_octets [a, b] = [a * 4 + b div 16]"
| "b64_octets _ = []"

definition b64url_encode :: "bytes \<Rightarrow> string" where
  "b64url_encode bs = map b64_char (b64_sextets (map of_char bs))"

definition b64url_decode :: "string \<Rightarrow> bytes" where
  "b64url_decode s = map char_of (b64_octets (List.map_filter b64_value s))"

lemma b64_roundtrip_nat: "list_all (\<lambda>n. n < 256) ns \<Longrightarrow> b64_octets (b64_sextets ns) = ns"
  by (induction ns rule: b64_sextets.induct)
    (auto simp: less_mult_imp_div_less div_add1_eq mod_mult_self2_is_0)

lemma b64_sextets_lt: "list_all (\<lambda>n. n < 256) ns \<Longrightarrow> list_all (\<lambda>n. n < 64) (b64_sextets ns)"
  by (induction ns rule: b64_sextets.induct) (auto simp: less_mult_imp_div_less)

lemma b64_value_char [simp]: "n < 64 \<Longrightarrow> b64_value (b64_char n) = Some n"
  by (auto simp: b64_value_def b64_char_def Let_def)

lemma b64url_char_char [simp]: "n < 64 \<Longrightarrow> b64url_char (b64_char n)"
  by (auto simp: b64url_char_def b64_char_def Let_def)

lemma map_filter_b64: "list_all (\<lambda>n. n < 64) ns \<Longrightarrow> List.map_filter b64_value (map b64_char ns) = ns"
  by (induction ns) (simp_all add: map_filter_simps)

lemma map_of_char_lt: "list_all (\<lambda>n. n < 256) (map of_char bs :: nat list)"
  by (simp add: list_all_iff of_char_lt_256)

text \<open>What \<open>toString("base64url")\<close> prints, \<open>Buffer.from\<close> reads back.\<close>

theorem b64url_roundtrip: "b64url_decode (b64url_encode bs) = bs"
proof -
  let ?ns = "map of_char bs :: nat list"
  have "List.map_filter b64_value (b64url_encode bs) = b64_sextets ?ns"
    unfolding b64url_encode_def by (rule map_filter_b64 [OF b64_sextets_lt [OF map_of_char_lt]])
  then have "b64url_decode (b64url_encode bs) = map char_of ?ns"
    by (simp add: b64url_decode_def b64_roundtrip_nat [OF map_of_char_lt])
  then show ?thesis by (simp add: map_idI)
qed

lemma b64_sextets_Nil: "b64_sextets ns = [] \<longleftrightarrow> ns = []"
  by (cases ns rule: b64_sextets.cases) auto

lemma b64url_encode_ok: "bs \<noteq> [] \<Longrightarrow> base64url (b64url_encode bs)"
  using b64_sextets_lt [OF map_of_char_lt, of bs]
  by (auto simp: base64url_def b64url_encode_def b64_sextets_Nil list_all_iff)

end
