(* ===== verification/Amounts.thy ===== *)
theory Amounts
  imports Prelude
begin

section \<open>Monetary decimal strings\<close>

text \<open>
  The decimal representation of money: the canonical form of \<open>CanonicalAmountSchema\<close>
  (\<open>decision-core/src/schemas.ts\<close>) and, with fewer fraction digits, of \<open>KyaAmountSchema\<close>
  (\<open>kya-os-authority/src/schemas.ts\<close>), and the conversion of atomic units into it that the
  x402 and EVM bindings share. The lemmas give the value of such a string as a rational, show
  that the canonical form of a value is unique, and that the conversion is exact.
\<close>

definition whole_part :: "string \<Rightarrow> string" where
  "whole_part s = takeWhile (\<lambda>c. c \<noteq> CHR ''.'') s"

definition fraction_part :: "string \<Rightarrow> string option" where
  "fraction_part s = (case dropWhile (\<lambda>c. c \<noteq> CHR ''.'') s of [] \<Rightarrow> None | _ # f \<Rightarrow> Some f)"

text \<open>
  \<open>/^(0|[1-9]\d*)\.\d{2,k}$/\<close> refined by "two fraction digits or no trailing zero".
\<close>

definition canonical_decimal :: "nat \<Rightarrow> string \<Rightarrow> bool" where
  "canonical_decimal k s \<longleftrightarrow>
     uint_string (whole_part s) \<and>
     (case fraction_part s of
        None \<Rightarrow> False
      | Some f \<Rightarrow> list_all is_digit f \<and> 2 \<le> length f \<and> length f \<le> k \<and>
          (length f = 2 \<or> last f \<noteq> CHR ''0''))"

definition canonical_amount :: "string \<Rightarrow> bool" where
  "canonical_amount s \<longleftrightarrow> canonical_decimal 18 s"

text \<open>A decimal without sign or exponent, with or without a fraction.\<close>

definition plain_decimal :: "string \<Rightarrow> bool" where
  "plain_decimal s \<longleftrightarrow> uint_string (whole_part s) \<and>
     (case fraction_part s of None \<Rightarrow> True | Some f \<Rightarrow> f \<noteq> [] \<and> list_all is_digit f)"

definition decimal_value :: "string \<Rightarrow> rat" where
  "decimal_value s =
     (case fraction_part s of
        None \<Rightarrow> of_nat (digits_value (whole_part s))
      | Some f \<Rightarrow> of_nat (digits_value (whole_part s)) + of_nat (digits_value f) / 10 ^ length f)"

text \<open>Joining a whole part and a fraction, and taking them apart again.\<close>

lemma no_dot_digit: "is_digit c \<Longrightarrow> c \<noteq> CHR ''.''"
  by (auto simp: is_digit_def)

lemma no_dot_digits: "list_all is_digit w \<Longrightarrow> \<forall>c \<in> set w. c \<noteq> CHR ''.''"
  by (auto simp: list_all_iff dest: no_dot_digit)

lemma parts_join:
  assumes "list_all is_digit w"
  shows "whole_part (w @ CHR ''.'' # f) = w" "fraction_part (w @ CHR ''.'' # f) = Some f"
  using no_dot_digits [OF assms]
  by (simp_all add: whole_part_def fraction_part_def takeWhile_append2 dropWhile_append2)

lemma parts_whole:
  assumes "list_all is_digit w"
  shows "whole_part w = w" "fraction_part w = None"
proof -
  have "takeWhile (\<lambda>c. c \<noteq> CHR ''.'') w = w" "dropWhile (\<lambda>c. c \<noteq> CHR ''.'') w = []"
    using no_dot_digits [OF assms] by (simp_all add: takeWhile_eq_all_conv dropWhile_eq_Nil_conv)
  then show "whole_part w = w" "fraction_part w = None"
    by (simp_all only: whole_part_def fraction_part_def list.case)
qed

lemma split_join: "fraction_part s = Some f \<Longrightarrow> s = whole_part s @ CHR ''.'' # f"
proof -
  assume "fraction_part s = Some f"
  then obtain c where d: "dropWhile (\<lambda>c. c \<noteq> CHR ''.'') s = c # f"
    by (auto simp: fraction_part_def split: list.splits)
  then have "c = CHR ''.''" using hd_dropWhile [of "\<lambda>c. c \<noteq> CHR ''.''" s] by simp
  with d show ?thesis
    by (metis takeWhile_dropWhile_id whole_part_def)
qed

lemma canonical_decimal_parts:
  assumes "canonical_decimal k s"
  obtains w f where "s = w @ CHR ''.'' # f" "uint_string w" "list_all is_digit f"
    "2 \<le> length f" "length f \<le> k" "length f = 2 \<or> last f \<noteq> CHR ''0''"
    "decimal_value s = of_nat (digits_value w) + of_nat (digits_value f) / 10 ^ length f"
  using assms split_join [of s] that
  by (auto simp: canonical_decimal_def decimal_value_def split: option.splits)

lemma canonical_decimal_join:
  "uint_string w \<Longrightarrow> list_all is_digit f \<Longrightarrow> 2 \<le> length f \<Longrightarrow> length f \<le> k \<Longrightarrow>
    length f = 2 \<or> last f \<noteq> CHR ''0'' \<Longrightarrow> canonical_decimal k (w @ CHR ''.'' # f)"
  by (simp add: canonical_decimal_def parts_join uint_string_digits)

lemma decimal_value_join:
  "list_all is_digit w \<Longrightarrow>
    decimal_value (w @ CHR ''.'' # f) = of_nat (digits_value w) + of_nat (digits_value f) / 10 ^ length f"
  by (simp add: decimal_value_def parts_join)

lemma canonical_plain: "canonical_decimal k s \<Longrightarrow> plain_decimal s"
  by (auto simp: canonical_decimal_def plain_decimal_def split: option.splits)

lemma canonical_decimal_mono: "canonical_decimal j s \<Longrightarrow> j \<le> k \<Longrightarrow> canonical_decimal k s"
  by (auto simp: canonical_decimal_def split: option.splits)

lemma decimal_value_nonneg: "0 \<le> decimal_value s"
  by (auto simp: decimal_value_def split: option.splits)

subsection \<open>The canonical form of a value is unique\<close>

lemma fraction_scaled:
  assumes "length f \<le> n"
  shows "of_nat (digits_value f) / (10::rat) ^ length f
    = of_nat (digits_value (f @ replicate (n - length f) CHR ''0'')) / 10 ^ n"
proof -
  have "(10::rat) ^ n = 10 ^ length f * 10 ^ (n - length f)"
    using assms by (simp flip: power_add)
  then show ?thesis by (simp add: digits_value_append)
qed

lemma whole_fraction_inj:
  fixes a b c d n :: nat
  assumes "of_nat a + of_nat c / (10::rat) ^ n = of_nat b + of_nat d / 10 ^ n"
    and "c < 10 ^ n" "d < 10 ^ n"
  shows "a = b \<and> c = d"
proof -
  have "of_nat (a * 10 ^ n + c) = (of_nat (b * 10 ^ n + d) :: rat)"
    using assms(1) by (simp add: field_simps)
  then have eq: "a * 10 ^ n + c = b * 10 ^ n + d" by (simp only: of_nat_eq_iff)
  then have "(a * 10 ^ n + c) div 10 ^ n = (b * 10 ^ n + d) div 10 ^ n" by simp
  then have "a = b" using assms(2,3) by simp
  with eq show ?thesis by simp
qed

lemma last_padded:
  assumes "f @ replicate k CHR ''0'' = g" "k \<noteq> 0"
  shows "last g = CHR ''0''"
  using assms by (metis last_appendR last_replicate replicate_empty)

theorem canonical_decimal_unique:
  assumes s: "canonical_decimal k s" and t: "canonical_decimal k t"
    and eq: "decimal_value s = decimal_value t"
  shows "s = t"
proof -
  obtain w f where s': "s = w @ CHR ''.'' # f" "uint_string w" "list_all is_digit f"
    "2 \<le> length f" "length f = 2 \<or> last f \<noteq> CHR ''0''"
    "decimal_value s = of_nat (digits_value w) + of_nat (digits_value f) / 10 ^ length f"
    using s by (rule canonical_decimal_parts)
  obtain v g where t': "t = v @ CHR ''.'' # g" "uint_string v" "list_all is_digit g"
    "2 \<le> length g" "length g = 2 \<or> last g \<noteq> CHR ''0''"
    "decimal_value t = of_nat (digits_value v) + of_nat (digits_value g) / 10 ^ length g"
    using t by (rule canonical_decimal_parts)
  define n where "n = max (length f) (length g)"
  define f' g' where fg': "f' = f @ replicate (n - length f) CHR ''0''"
    "g' = g @ replicate (n - length g) CHR ''0''"
  have len: "length f' = n" "length g' = n" and dig: "list_all is_digit f'" "list_all is_digit g'"
    using s' t' by (simp_all add: fg' n_def)
  have "of_nat (digits_value w) + of_nat (digits_value f') / (10::rat) ^ n
      = of_nat (digits_value v) + of_nat (digits_value g') / 10 ^ n"
    using eq s'(6) t'(6) fraction_scaled [of f n] fraction_scaled [of g n] by (simp add: fg' n_def)
  from whole_fraction_inj [OF this] digits_value_lt [OF dig(1)] digits_value_lt [OF dig(2)] len
  have "digits_value w = digits_value v" "digits_value f' = digits_value g'" by auto
  then have wv: "w = v" and "f' = g'"
    using s'(2) t'(2) uint_string_inj digits_value_inj [of f' g'] len dig by auto
  have "f = g"
  proof (cases "length f = length g")
    case True
    with \<open>f' = g'\<close> show ?thesis by (simp add: fg')
  next
    case False
    then consider "n - length f \<noteq> 0" "n = length g" | "n - length g \<noteq> 0" "n = length f"
      unfolding n_def by linarith
    then show ?thesis
    proof cases
      case 1
      then have "last g = CHR ''0''"
        using \<open>f' = g'\<close> last_padded [of f "n - length f" g] by (simp add: fg')
      with 1 t'(4,5) s'(4) show ?thesis by auto
    next
      case 2
      then have "last f = CHR ''0''"
        using \<open>f' = g'\<close> last_padded [of g "n - length g" f] by (simp add: fg')
      with 2 t'(4) s'(4,5) show ?thesis by auto
    qed
  qed
  with wv s'(1) t'(1) show ?thesis by simp
qed

subsection \<open>From atomic units to the canonical form\<close>

fun trim_fraction :: "string \<Rightarrow> string" where
  "trim_fraction f =
     (if 2 < length f \<and> last f = CHR ''0'' then trim_fraction (butlast f) else f)"

declare trim_fraction.simps [simp del]

definition format_units :: "string \<Rightarrow> nat \<Rightarrow> string" where
  "format_units amt d =
     (let padded = pad_start (d + 1) CHR ''0'' amt;
          whole = (if d = 0 then padded else take (length padded - d) padded);
          raw = (if d = 0 then [] else drop (length padded - d) padded);
          fr = trim_fraction raw
      in nat_string (digits_value whole) @ CHR ''.'' # (if length fr < 2 then pad_end 2 CHR ''0'' fr else fr))"

lemma trim_fraction_props:
  "list_all is_digit f \<Longrightarrow> list_all is_digit (trim_fraction f) \<and> length (trim_fraction f) \<le> length f \<and>
    (length (trim_fraction f) \<le> 2 \<or> last (trim_fraction f) \<noteq> CHR ''0'') \<and>
    of_nat (digits_value (trim_fraction f)) / (10::rat) ^ length (trim_fraction f)
      = of_nat (digits_value f) / 10 ^ length f"
proof (induction f rule: trim_fraction.induct)
  case (1 f)
  show ?case
  proof (cases "2 < length f \<and> last f = CHR ''0''")
    case True
    then have f: "f = butlast f @ [CHR ''0'']" by (metis append_butlast_last_id list.size(3) not_less0)
    with "1.prems" have dig: "list_all is_digit (butlast f)" by (metis list_all_append)
    have "digits_value f = digits_value (butlast f) * 10"
      by (subst f) (simp del: append_butlast_last_id)
    moreover obtain m where "length f = Suc m" "length (butlast f) = m" using True by (cases f) auto
    ultimately have "of_nat (digits_value f) / (10::rat) ^ length f
        = of_nat (digits_value (butlast f)) / 10 ^ length (butlast f)"
      by simp
    with "1.IH" [OF True dig] True show ?thesis
      by (simp add: trim_fraction.simps [of f]) linarith
  next
    case False
    with "1.prems" show ?thesis by (auto simp: trim_fraction.simps [of f])
  qed
qed

lemma trim_fraction_long: "2 \<le> length f \<Longrightarrow> 2 \<le> length (trim_fraction f)"
proof (induction f rule: trim_fraction.induct)
  case (1 f)
  then show ?case
    by (cases "2 < length f \<and> last f = CHR ''0''") (auto simp: trim_fraction.simps [of f])
qed

lemma pad_end_value:
  "of_nat (digits_value (pad_end n CHR ''0'' f)) / (10::rat) ^ length (pad_end n CHR ''0'' f)
     = of_nat (digits_value f) / 10 ^ length f"
proof -
  have "length (pad_end n CHR ''0'' f) = max n (length f)" by (simp add: pad_end_def)
  moreover have "pad_end n CHR ''0'' f = f @ replicate (max n (length f) - length f) CHR ''0''"
    by (simp add: pad_end_def max_def)
  ultimately show ?thesis
    using fraction_scaled [of f "max n (length f)"] by (metis max.cobounded2)
qed

theorem format_units_exact:
  assumes a: "uint_string a" and d: "d \<le> 18"
  shows "canonical_decimal 18 (format_units a d)"
    and "decimal_value (format_units a d) = of_nat (digits_value a) / 10 ^ d"
proof -
  define p where "p = pad_start (d + 1) CHR ''0'' a"
  define w where "w = take (length p - d) p"
  define r where "r = drop (length p - d) p"
  define fr where "fr = trim_fraction r"
  define fin where "fin = (if length fr < 2 then pad_end 2 CHR ''0'' fr else fr)"
  have fmt: "format_units a d = nat_string (digits_value w) @ CHR ''.'' # fin"
    by (simp add: format_units_def Let_def p_def w_def r_def fr_def fin_def)
  have lp: "d < length p" and dp: "list_all is_digit p"
    using uint_string_digits [OF a] by (simp_all add: p_def length_pad_start)
  have lr: "length r = d" using lp by (simp add: r_def)
  have dr: "list_all is_digit r" using dp by (simp add: r_def list_all_iff) (meson in_set_dropD)
  have pwr: "p = w @ r" by (simp add: w_def r_def)
  note tr = trim_fraction_props [OF dr, folded fr_def]
  have fin_val: "of_nat (digits_value fin) / (10::rat) ^ length fin = of_nat (digits_value r) / 10 ^ d"
    using tr pad_end_value [of 2 fr] lr by (simp add: fin_def)
  have fin_ok: "list_all is_digit fin" "2 \<le> length fin" "length fin \<le> 18"
      "length fin = 2 \<or> last fin \<noteq> CHR ''0''"
    using tr lr d by (auto simp: fin_def pad_end_def)
  show "canonical_decimal 18 (format_units a d)"
    unfolding fmt using fin_ok by (intro canonical_decimal_join) auto
  have "digits_value a = digits_value p" by (simp add: p_def)
  also have "\<dots> = digits_value w * 10 ^ d + digits_value r"
    by (subst pwr) (simp add: digits_value_append lr)
  finally have "of_nat (digits_value a) / (10::rat) ^ d
      = of_nat (digits_value w) + of_nat (digits_value r) / 10 ^ d"
    by (simp add: field_simps)
  with fin_val show "decimal_value (format_units a d) = of_nat (digits_value a) / 10 ^ d"
    unfolding fmt by (simp add: decimal_value_join)
qed

text \<open>With the number of decimals fixed, the conversion loses nothing.\<close>

lemma format_units_inj:
  assumes "uint_string a" "uint_string b" "d \<le> 18" "format_units a d = format_units b d"
  shows "a = b"
proof -
  have "of_nat (digits_value a) / (10::rat) ^ d = of_nat (digits_value b) / 10 ^ d"
    using format_units_exact(2) [OF assms(1,3)] format_units_exact(2) [OF assms(2,3)] assms(4) by simp
  then have "digits_value a = digits_value b" by simp
  with assms show ?thesis by (intro uint_string_inj)
qed

end
