(* ===== verification/JsDate.thy ===== *)
theory JsDate
  imports Prelude
begin

section \<open>Dates of the language runtime\<close>

text \<open>
  The part of the JavaScript \<open>Date\<close> object the source uses: \<open>Date.parse\<close> on the strings
  that \<open>IsoTimestampSchema\<close> admits and \<open>Date.prototype.toISOString\<close>, both over the time
  value in milliseconds since 1970. The calendar arithmetic is that of the ECMAScript
  specification (DayFromYear, MakeDay); the inverse needed by \<open>toISOString\<close> is computed from
  an estimate of the year and proved right. Main result: \<open>Date.parse\<close> reads back what
  \<open>toISOString\<close> prints, for the years 0 to 9999.
\<close>

subsection \<open>Calendar arithmetic\<close>

definition leap :: "int \<Rightarrow> bool" where
  "leap y \<longleftrightarrow> 4 dvd y \<and> (\<not> 100 dvd y \<or> 400 dvd y)"

definition days_before_year :: "int \<Rightarrow> int" where
  "days_before_year y =
     365 * (y - 1970) + (y - 1969) div 4 - (y - 1901) div 100 + (y - 1601) div 400"

definition year_length :: "int \<Rightarrow> int" where
  "year_length y = (if leap y then 366 else 365)"

definition month_start :: "bool \<Rightarrow> int \<Rightarrow> int" where
  "month_start lp m =
     (if m \<le> 1 then 0 else if m = 2 then 31
      else (if lp then 1 else 0) +
        (if m = 3 then 59 else if m = 4 then 90 else if m = 5 then 120 else if m = 6 then 151
         else if m = 7 then 181 else if m = 8 then 212 else if m = 9 then 243
         else if m = 10 then 273 else if m = 11 then 304 else 334))"

definition month_of :: "bool \<Rightarrow> int \<Rightarrow> int" where
  "month_of lp d =
     (if d < month_start lp 2 then 1 else if d < month_start lp 3 then 2
      else if d < month_start lp 4 then 3 else if d < month_start lp 5 then 4
      else if d < month_start lp 6 then 5 else if d < month_start lp 7 then 6
      else if d < month_start lp 8 then 7 else if d < month_start lp 9 then 8
      else if d < month_start lp 10 then 9 else if d < month_start lp 11 then 10
      else if d < month_start lp 12 then 11 else 12)"

definition make_day :: "int \<Rightarrow> int \<Rightarrow> int \<Rightarrow> int" where
  "make_day y m d = days_before_year y + month_start (leap y) m + d - 1"

definition year_of_day :: "int \<Rightarrow> int" where
  "year_of_day n =
     (let y = 1970 + (n * 400) div 146097
      in if n < days_before_year y then y - 1
         else if days_before_year (y + 1) \<le> n then y + 1 else y)"

lemma div_lower: "0 < k \<Longrightarrow> k * (x div k) \<le> (x::int)"
  using minus_mod_eq_mult_div [of x k] pos_mod_sign [of k x] by linarith

lemma div_upper: "0 < k \<Longrightarrow> (x::int) < k * (x div k) + k"
  using minus_mod_eq_mult_div [of x k] pos_mod_bound [of k x] by linarith

lemma div_succ:
  assumes "0 < (k::int)"
  shows "(x + 1) div k = x div k + (if k dvd x + 1 then 1 else 0)"
proof (cases "k dvd x + 1")
  case True
  then obtain j where j: "x + 1 = k * j" by (auto simp: dvd_def)
  then have "x = k * (j - 1) + (k - 1)" by (simp add: algebra_simps)
  with assms have "x div k = j - 1"
    using int_div_pos_eq [of x k "j - 1" "k - 1"] by simp
  with j assms True show ?thesis by simp
next
  case False
  have "(x + 1) mod k \<noteq> 0" using False by (simp add: dvd_eq_mod_eq_0)
  then have "x = k * ((x + 1) div k) + ((x + 1) mod k - 1) \<and> 0 \<le> (x + 1) mod k - 1"
    using assms mult_div_mod_eq [of k "x + 1"] pos_mod_sign [of k "x + 1"] by linarith
  moreover have "(x + 1) mod k - 1 < k" using pos_mod_bound [of k "x + 1"] assms by linarith
  ultimately have "x div k = (x + 1) div k" by (intro int_div_pos_eq) auto
  with False show ?thesis by simp
qed

lemma div_step:
  "(y - 1968) div 4 = (y - 1969) div 4 + (if 4 dvd y then 1 else (0::int))"
  "(y - 1900) div 100 = (y - 1901) div 100 + (if 100 dvd y then 1 else (0::int))"
  "(y - 1600) div 400 = (y - 1601) div 400 + (if 400 dvd y then 1 else (0::int))"
  using div_succ [of 4 "y - 1969"] div_succ [of 100 "y - 1901"] div_succ [of 400 "y - 1601"]
  by (simp_all add: dvd_diff_left_iff)

lemma days_before_year_Suc: "days_before_year (y + 1) = days_before_year y + year_length y"
proof -
  define a b c where "a = (y - 1969) div 4" "b = (y - 1901) div 100" "c = (y - 1601) div 400"
  have "(y - 1968) div 4 = a + (if 4 dvd y then 1 else 0)"
    "(y - 1900) div 100 = b + (if 100 dvd y then 1 else 0)"
    "(y - 1600) div 400 = c + (if 400 dvd y then 1 else 0)"
    unfolding a_b_c_def by (rule div_step)+
  then have "days_before_year (y + 1) = 365 * (y + 1 - 1970) + (a + (if 4 dvd y then 1 else 0))
      - (b + (if 100 dvd y then 1 else 0)) + (c + (if 400 dvd y then 1 else 0))"
    by (simp add: days_before_year_def)
  moreover have "days_before_year y = 365 * (y - 1970) + a - b + c"
    by (simp add: days_before_year_def a_b_c_def)
  moreover have "100 dvd y \<Longrightarrow> 4 dvd y" and "400 dvd y \<Longrightarrow> 100 dvd y"
    using dvd_trans [of 4 100 y] dvd_trans [of 100 400 y] by simp_all
  ultimately show ?thesis
    by (cases "4 dvd y"; cases "100 dvd y"; cases "400 dvd y") (simp_all add: year_length_def leap_def)
qed

lemma days_before_year_mono: "y \<le> z \<Longrightarrow> days_before_year y \<le> days_before_year z"
proof (induction z rule: int_ge_induct)
  case (step z)
  then show ?case by (simp add: days_before_year_Suc year_length_def)
qed simp

lemma days_before_year_lower:
  "146097 * (y - 1970) - 507 \<le> 400 * days_before_year y"
proof -
  define a b c where "a = (y - 1969) div 4" "b = (y - 1901) div 100" "c = (y - 1601) div 400"
  have "y - 1969 < 4 * a + 4" "100 * b \<le> y - 1901" "y - 1601 < 400 * c + 400"
    unfolding a_b_c_def by (rule div_upper div_lower, simp)+
  then show ?thesis unfolding days_before_year_def a_b_c_def [symmetric] by (simp add: algebra_simps)
qed

lemma days_before_year_upper:
  "400 * days_before_year y \<le> 146097 * (y - 1970) + 589"
proof -
  define a b c where "a = (y - 1969) div 4" "b = (y - 1901) div 100" "c = (y - 1601) div 400"
  have "4 * a \<le> y - 1969" "y - 1901 < 100 * b + 100" "400 * c \<le> y - 1601"
    unfolding a_b_c_def by (rule div_upper div_lower, simp)+
  then show ?thesis unfolding days_before_year_def a_b_c_def [symmetric] by (simp add: algebra_simps)
qed

lemma year_of_day_bounds:
  "days_before_year (year_of_day n) \<le> n \<and> n < days_before_year (year_of_day n + 1)"
proof -
  define q where "q = (n * 400) div 146097"
  have q: "146097 * q \<le> n * 400" "n * 400 < 146097 * q + 146097"
    unfolding q_def using div_lower [of 146097] div_upper [of 146097] by simp_all
  have lo: "days_before_year (1970 + q - 1) \<le> n"
    using days_before_year_upper [of "1970 + q - 1"] q by simp
  have hi: "n < days_before_year (1970 + q + 2)"
    using days_before_year_lower [of "1970 + q + 2"] q by simp
  show ?thesis
    using lo hi by (auto simp: year_of_day_def Let_def q_def [symmetric] add.assoc)
qed

lemma month_of_bounds:
  assumes "0 \<le> d"
  shows "1 \<le> month_of lp d" "month_of lp d \<le> 12" "month_start lp (month_of lp d) \<le> d"
  using assms by (auto simp: month_of_def month_start_def)

lemma month_of_day_lt:
  assumes "0 \<le> d" "d < (if lp then 366 else 365)"
  shows "d - month_start lp (month_of lp d) < 31"
  using assms by (auto simp: month_of_def month_start_def split: if_splits)

subsection \<open>Fixed-width fields\<close>

definition field :: "nat \<Rightarrow> nat \<Rightarrow> string" where
  "field w n = pad_start w CHR ''0'' (nat_string n)"

lemma nat_string_length: "n < 10 ^ k \<Longrightarrow> 0 < k \<Longrightarrow> length (nat_string n) \<le> k"
proof (induction k arbitrary: n)
  case (Suc k)
  show ?case
  proof (cases "n < 10")
    case True
    then show ?thesis by (simp add: nat_string.simps [of n])
  next
    case False
    with Suc.prems have "n div 10 < 10 ^ k" "0 < k"
      by (auto simp: less_mult_imp_div_less mult.commute intro: ccontr)
    from Suc.IH [OF this] False show ?thesis by (simp add: nat_string.simps [of n])
  qed
qed simp

lemma field_length: "n < 10 ^ w \<Longrightarrow> 0 < w \<Longrightarrow> length (field w n) = w"
  using nat_string_length [of n w] by (simp add: field_def length_pad_start max_def)

lemma field_digits [simp]: "list_all is_digit (field w n)"
  by (simp add: field_def)

lemma field_value [simp]: "digits_value (field w n) = n"
  by (simp add: field_def)

subsection \<open>Printing and parsing\<close>

definition ms_per_day :: int where
  "ms_per_day = 86400000"

text \<open>
  \<open>toISOString\<close>: a \<open>RangeError\<close> (here \<^const>\<open>None\<close>) outside the time range of the language;
  a signed six-digit year outside 0 to 9999.
\<close>

definition year_field :: "int \<Rightarrow> string" where
  "year_field y =
     (if 0 \<le> y \<and> y \<le> 9999 then field 4 (nat y)
      else if y < 0 then CHR ''-'' # field 6 (nat (- y))
      else CHR ''+'' # field 6 (nat y))"

definition iso_text :: "int \<Rightarrow> string" where
  "iso_text t =
     (let n = t div ms_per_day; r = nat (t mod ms_per_day);
          y = year_of_day n; lp = leap y; yd = n - days_before_year y; m = month_of lp yd
      in year_field y @ ''-'' @ field 2 (nat m) @ ''-''
         @ field 2 (nat (yd - month_start lp m + 1)) @ ''T''
         @ field 2 (r div 3600000) @ '':'' @ field 2 (r div 60000 mod 60) @ '':''
         @ field 2 (r div 1000 mod 60) @ ''.'' @ field 3 (r mod 1000) @ ''Z'')"

definition to_iso_string :: "int \<Rightarrow> string option" where
  "to_iso_string t = (if \<bar>t\<bar> \<le> 8640000000000000 then Some (iso_text t) else None)"

text \<open>The pattern \<open>^\d{4}-\d{2}-\d{2}T\d{2}:\d{2}:\d{2}\.\d{3}Z$\<close>, field by field.\<close>

definition timestamp_shape :: "string \<Rightarrow> bool" where
  "timestamp_shape s \<longleftrightarrow> length s = 24 \<and>
     list_all is_digit (take 4 s) \<and> s ! 4 = CHR ''-'' \<and>
     list_all is_digit (take 2 (drop 5 s)) \<and> s ! 7 = CHR ''-'' \<and>
     list_all is_digit (take 2 (drop 8 s)) \<and> s ! 10 = CHR ''T'' \<and>
     list_all is_digit (take 2 (drop 11 s)) \<and> s ! 13 = CHR '':'' \<and>
     list_all is_digit (take 2 (drop 14 s)) \<and> s ! 16 = CHR '':'' \<and>
     list_all is_digit (take 2 (drop 17 s)) \<and> s ! 19 = CHR ''.'' \<and>
     list_all is_digit (take 3 (drop 20 s)) \<and> s ! 23 = CHR ''Z''"

text \<open>
  \<open>Date.parse\<close> on such a string; \<^const>\<open>None\<close> is \<open>NaN\<close>. Months run from 1 to 12, days from
  1 to 31 (a day past the end of its month carries over, as MakeDay computes it) and hour 24
  is midnight only.
\<close>

definition date_parse :: "string \<Rightarrow> int option" where
  "date_parse s =
     (if \<not> timestamp_shape s then None
      else let y = int (digits_value (take 4 s)); mo = int (digits_value (take 2 (drop 5 s)));
               d = int (digits_value (take 2 (drop 8 s))); h = int (digits_value (take 2 (drop 11 s)));
               mi = int (digits_value (take 2 (drop 14 s))); sec = int (digits_value (take 2 (drop 17 s)));
               ms = int (digits_value (take 3 (drop 20 s)))
           in if 1 \<le> mo \<and> mo \<le> 12 \<and> 1 \<le> d \<and> d \<le> 31 \<and> mi \<le> 59 \<and> sec \<le> 59 \<and>
                 (h \<le> 23 \<or> h = 24 \<and> mi = 0 \<and> sec = 0 \<and> ms = 0)
              then Some (make_day y mo d * ms_per_day + h * 3600000 + mi * 60000 + sec * 1000 + ms)
              else None)"

definition timestamp_ok :: "string \<Rightarrow> bool" where
  "timestamp_ok s \<longleftrightarrow> timestamp_shape s \<and> date_parse s \<noteq> None"

text \<open>The comparison \<open>Date.parse(a) <= Date.parse(b)\<close>, false when either is \<open>NaN\<close>.\<close>

definition time_of :: "string \<Rightarrow> int" where
  "time_of s = (case date_parse s of None \<Rightarrow> 0 | Some t \<Rightarrow> t)"

definition four_digit_years :: "int \<Rightarrow> bool" where
  "four_digit_years t \<longleftrightarrow> - 62167219200000 \<le> t \<and> t < 253402300800000"

subsection \<open>Reading back what was printed\<close>

lemma assemble_shape:
  assumes "length Y = 4" "length M = 2" "length D = 2" "length h = 2" "length mi = 2" "length sc = 2"
    "length ms = 3"
    and "list_all is_digit Y" "list_all is_digit M" "list_all is_digit D" "list_all is_digit h"
    "list_all is_digit mi" "list_all is_digit sc" "list_all is_digit ms"
  defines "s \<equiv> Y @ ''-'' @ M @ ''-'' @ D @ ''T'' @ h @ '':'' @ mi @ '':'' @ sc @ ''.'' @ ms @ ''Z''"
  shows "timestamp_shape s" and "take 4 s = Y" and "take 2 (drop 5 s) = M" and "take 2 (drop 8 s) = D"
    and "take 2 (drop 11 s) = h" and "take 2 (drop 14 s) = mi" and "take 2 (drop 17 s) = sc"
    and "take 3 (drop 20 s) = ms"
  using assms by (auto simp: timestamp_shape_def nth_append)

lemma split_day_ms:
  fixes r :: int
  assumes "0 \<le> r" "r < 86400000"
  shows "int (nat r div 3600000) * 3600000 + int (nat r div 60000 mod 60) * 60000
           + int (nat r div 1000 mod 60) * 1000 + int (nat r mod 1000) = r"
    and "nat r div 3600000 \<le> 23"
proof -
  define k where "k = nat r"
  have k: "k < 86400000" "int k = r" using assms by (auto simp: k_def)
  define c where "c = k div 1000"
  have c: "k div 60000 = c div 60" "k div 3600000 = c div 60 div 60"
    using div_mult2_eq [of k 1000 60] div_mult2_eq [of k 1000 3600] div_mult2_eq [of c 60 60]
    by (simp_all add: c_def)
  have "c div 60 div 60 * 3600000 + c div 60 mod 60 * 60000 + c mod 60 * 1000 + k mod 1000 = k"
    using div_mult_mod_eq [of k 1000, folded c_def] div_mult_mod_eq [of c 60]
      div_mult_mod_eq [of "c div 60" 60] by linarith
  then have "int (c div 60 div 60 * 3600000 + c div 60 mod 60 * 60000 + c mod 60 * 1000 + k mod 1000) = r"
    using k(2) by simp
  then show "int (nat r div 3600000) * 3600000 + int (nat r div 60000 mod 60) * 60000
           + int (nat r div 1000 mod 60) * 1000 + int (nat r mod 1000) = r"
    unfolding k_def [symmetric] c c_def [symmetric] by simp
  show "nat r div 3600000 \<le> 23"
    unfolding k_def [symmetric] using k(1) by (simp add: less_mult_imp_div_less Suc_le_eq less_Suc_eq_le [symmetric])
qed

lemma four_digit_year:
  assumes "four_digit_years t"
  shows "0 \<le> year_of_day (t div ms_per_day)" "year_of_day (t div ms_per_day) \<le> 9999"
proof -
  define n where "n = t div ms_per_day"
  have n: "-719528 \<le> n" "n < 2932897"
    using assms div_lower [of ms_per_day t] div_upper [of ms_per_day t]
    unfolding four_digit_years_def n_def ms_per_day_def by simp_all
  note b = year_of_day_bounds [of n]
  show "0 \<le> year_of_day (t div ms_per_day)" unfolding n_def [symmetric]
  proof (rule ccontr)
    assume "\<not> 0 \<le> year_of_day n"
    then have "year_of_day n + 1 \<le> 0" by simp
    then have "days_before_year (year_of_day n + 1) \<le> days_before_year 0"
      by (rule days_before_year_mono)
    also have "\<dots> = -719528" by (simp add: days_before_year_def)
    finally show False using b n by simp
  qed
  show "year_of_day (t div ms_per_day) \<le> 9999" unfolding n_def [symmetric]
  proof (rule ccontr)
    assume "\<not> year_of_day n \<le> 9999"
    then have "days_before_year 10000 \<le> days_before_year (year_of_day n)"
      by (intro days_before_year_mono) simp
    moreover have "days_before_year 10000 = 2932897" by (simp add: days_before_year_def)
    ultimately show False using b n by simp
  qed
qed

theorem date_parse_iso_text:
  assumes t: "four_digit_years t"
  shows "date_parse (iso_text t) = Some t"
proof -
  define n r y where defs: "n = t div ms_per_day" "r = t mod ms_per_day" "y = year_of_day n"
  define lp yd where defs2: "lp = leap y" "yd = n - days_before_year y"
  define m where "m = month_of lp yd"
  have r: "0 \<le> r" "r < 86400000" unfolding defs ms_per_day_def by auto
  have y: "0 \<le> y" "y \<le> 9999" using four_digit_year [OF t] by (simp_all add: defs)
  have yd: "0 \<le> yd" "yd < (if lp then 366 else 365)"
    using year_of_day_bounds [of n] days_before_year_Suc [of y]
    by (simp_all add: defs defs2 year_length_def split: if_splits)
  note mo = month_of_bounds [OF yd(1), of lp, folded m_def]
  have dd: "0 \<le> yd - month_start lp m" "yd - month_start lp m < 31"
    using mo month_of_day_lt [OF yd] by (simp_all add: m_def)
  have eq: "iso_text t = field 4 (nat y) @ ''-'' @ field 2 (nat m) @ ''-''
      @ field 2 (nat (yd - month_start lp m + 1)) @ ''T''
      @ field 2 (nat r div 3600000) @ '':'' @ field 2 (nat r div 60000 mod 60) @ '':''
      @ field 2 (nat r div 1000 mod 60) @ ''.'' @ field 3 (nat r mod 1000) @ ''Z''"
    using y by (simp add: iso_text_def Let_def defs defs2 m_def year_field_def)
  have h23: "nat r div 3600000 \<le> 23" by (rule split_day_ms [OF r])
  have len: "length (field 4 (nat y)) = 4" "length (field 2 (nat m)) = 2"
    "length (field 2 (nat (yd - month_start lp m + 1))) = 2" "length (field 2 (nat r div 3600000)) = 2"
    "length (field 2 (nat r div 60000 mod 60)) = 2" "length (field 2 (nat r div 1000 mod 60)) = 2"
    "length (field 3 (nat r mod 1000)) = 3"
    using y mo dd h23 by (auto intro!: field_length)
  note parts = assemble_shape [OF len field_digits field_digits field_digits field_digits field_digits
      field_digits field_digits, folded eq]
  have "make_day y m (yd - month_start lp m + 1) = n"
    by (simp add: make_day_def defs2)
  then have "make_day y m (yd - month_start lp m + 1) * ms_per_day + r = t"
    unfolding defs by simp
  moreover note split_day_ms(1) [OF r]
  moreover have "int (nat r div 60000 mod 60) \<le> 59" "int (nat r div 1000 mod 60) \<le> 59" by simp_all
  ultimately show ?thesis
    using mo dd y h23 unfolding date_parse_def parts Let_def by (simp add: parts(1))
qed

lemma to_iso_string_four_digit: "four_digit_years t \<Longrightarrow> to_iso_string t = Some (iso_text t)"
  by (auto simp: four_digit_years_def to_iso_string_def)

lemma timestamp_ok_parse: "timestamp_ok s \<Longrightarrow> date_parse s = Some (time_of s)"
  by (auto simp: timestamp_ok_def time_of_def)

lemma date_parse_shape: "date_parse s = Some t \<Longrightarrow> timestamp_shape s"
  by (auto simp: date_parse_def split: if_splits)

lemma timestamp_ok_iso_text: "four_digit_years t \<Longrightarrow> timestamp_ok (iso_text t)"
  by (auto simp: timestamp_ok_def date_parse_iso_text date_parse_shape)

lemma time_of_iso_text [simp]: "four_digit_years t \<Longrightarrow> time_of (iso_text t) = t"
  by (simp add: time_of_def date_parse_iso_text)

text \<open>A printed instant has the shape of \<open>IsoTimestampSchema\<close> only in the four-digit years.\<close>

lemma iso_text_four_digit:
  assumes "timestamp_shape (iso_text t)"
  shows "four_digit_years t"
proof -
  define n where "n = t div ms_per_day"
  define y where "y = year_of_day n"
  obtain rest where e: "iso_text t = year_field y @ rest"
    by (simp add: iso_text_def Let_def y_def n_def)
  have "year_field y \<noteq> []"
    by (auto simp: year_field_def field_def pad_start_def)
  then have "hd (iso_text t) = hd (year_field y)" by (simp add: e)
  moreover have "is_digit (hd (iso_text t))"
    using assms by (cases "iso_text t") (auto simp: timestamp_shape_def)
  ultimately have "0 \<le> y \<and> y \<le> 9999" by (auto simp: year_field_def is_digit_def split: if_splits)
  then have "days_before_year 0 \<le> days_before_year y" "days_before_year (y + 1) \<le> days_before_year 10000"
    by (auto intro: days_before_year_mono)
  with year_of_day_bounds [of n] have "-719528 \<le> n" "n < 2932897"
    by (simp_all add: y_def days_before_year_def)
  then show ?thesis
    using div_lower [of ms_per_day t] div_upper [of ms_per_day t]
    unfolding four_digit_years_def n_def ms_per_day_def by simp_all
qed

lemma to_iso_string_time: "to_iso_string t = Some s \<Longrightarrow> timestamp_ok s \<Longrightarrow> time_of s = t"
  using iso_text_four_digit [of t] by (auto simp: to_iso_string_def timestamp_ok_def split: if_splits)

end
