(* ===== verification/Host.thy ===== *)
theory Host
  imports Json Amounts JsDate
begin

section \<open>What the program takes from outside its repository\<close>

text \<open>
  Third-party packages and the services of the runtime are parameters of the model, gathered
  in one record: \<open>canonicalize\<close> (RFC 8785), the SHA-256 digest of \<open>node:crypto\<close>, the URL check
  of zod, \<open>tweetnacl\<close> (Ed25519), \<open>decimal.js\<close> and the time-zone data behind
  \<open>Intl.DateTimeFormat\<close>. The laws below state what their documentation promises; a theorem
  that needs one names it. The last section gives concrete functions that satisfy every law.
\<close>

record host =
  canonicalize :: "json \<Rightarrow> string"
  sha256_hex :: "bytes \<Rightarrow> string"
  url_ok :: "string \<Rightarrow> bool"
  ed_keypair :: "bytes \<Rightarrow> bytes \<times> bytes"
  ed_sign :: "bytes \<Rightarrow> bytes \<Rightarrow> bytes"
  ed_verify :: "bytes \<Rightarrow> bytes \<Rightarrow> bytes \<Rightarrow> bool"
  dec_new :: "string \<Rightarrow> rat option"
  dec_plus :: "rat \<Rightarrow> rat \<Rightarrow> rat"
  dec_fixed :: "rat \<Rightarrow> string"
  intl_parts :: "int \<Rightarrow> string \<Rightarrow> (string \<times> string) list option"

text \<open>RFC 8785: the canonical form of a JSON value determines it up to property order. (On
  \<open>undefined\<close>, which is no JSON value, the package returns \<open>undefined\<close>.)\<close>

definition jcs_ok :: "host \<Rightarrow> bool" where
  "jcs_ok H \<longleftrightarrow> (\<forall>v w. canonicalize H v = canonicalize H w \<longleftrightarrow> json_norm v = json_norm w)"

definition hex_char :: "char \<Rightarrow> bool" where
  "hex_char c \<longleftrightarrow> (let n = of_char c :: nat in 48 \<le> n \<and> n \<le> 57 \<or> 97 \<le> n \<and> n \<le> 102)"

text \<open>\<open>digest("hex")\<close> of SHA-256 is 64 lowercase hexadecimal digits.\<close>

definition sha_ok :: "host \<Rightarrow> bool" where
  "sha_ok H \<longleftrightarrow> (\<forall>x. length (sha256_hex H x) = 64 \<and> list_all hex_char (sha256_hex H x))"

text \<open>
  \<open>tweetnacl\<close>: a key pair made from a 32-byte seed has a 32-byte public key, and a detached
  signature has 64 bytes and verifies under it.
\<close>

definition ed_ok :: "host \<Rightarrow> bool" where
  "ed_ok H \<longleftrightarrow> (\<forall>seed. length seed = 32 \<longrightarrow>
     (case ed_keypair H seed of (pk, sk) \<Rightarrow>
        length pk = 32 \<and> (\<forall>m. length (ed_sign H sk m) = 64 \<and> ed_verify H m (ed_sign H sk m) pk)))"

text \<open>Collision resistance, for the two byte strings a property is about.\<close>

definition no_collision :: "host \<Rightarrow> bytes \<Rightarrow> bytes \<Rightarrow> bool" where
  "no_collision H x y \<longleftrightarrow> (sha256_hex H x = sha256_hex H y \<longrightarrow> x = y)"

text \<open>
  \<open>decimal.js\<close>: the constructor is exact on plain decimals (\<open>None\<close> is its exception on what is
  no number); \<open>plus\<close> rounds to the default
  precision of 20 significant digits, so it is exact when the sum needs no more;
  \<open>toFixed()\<close> prints a finite non-negative decimal in plain notation without rounding and
  without trailing zeros.
\<close>

definition decimal_digits :: "nat \<Rightarrow> rat \<Rightarrow> bool" where
  "decimal_digits p q \<longleftrightarrow> (\<exists>m k. q = of_nat m / 10 ^ k \<and> m < 10 ^ p)"

definition decimal_ok :: "host \<Rightarrow> bool" where
  "decimal_ok H \<longleftrightarrow>
     (\<forall>s. plain_decimal s \<longrightarrow> dec_new H s = Some (decimal_value s)) \<and>
     (\<forall>x y. decimal_digits 20 (x + y) \<longrightarrow> dec_plus H x y = x + y) \<and>
     (\<forall>m k. k \<le> 18 \<longrightarrow> (let q = of_nat m / 10 ^ k; s = dec_fixed H q in
        plain_decimal s \<and> decimal_value s = q \<and>
        (case fraction_part s of None \<Rightarrow> True | Some f \<Rightarrow> length f \<le> 18 \<and> last f \<noteq> CHR ''0'')))"

lemma hex_char_digit: "is_digit c \<Longrightarrow> hex_char c"
  by (simp add: is_digit_def hex_char_def)

subsection \<open>Concrete functions that satisfy the laws\<close>

text \<open>
  A self-delimiting printer of JSON values: every value is a tag and its length-prefixed
  contents, so that the text determines the value and what follows it.
\<close>

definition net_string :: "string \<Rightarrow> string" where
  "net_string s = nat_string (length s) @ CHR '':'' # s"

definition rat_text :: "rat \<Rightarrow> string" where
  "rat_text q = (case quotient_of q of (a, b) \<Rightarrow>
     net_string ((if a < 0 then ''-'' else ''+'') @ nat_string (nat \<bar>a\<bar>)) @ net_string (nat_string (nat b)))"

primrec json_text :: "json \<Rightarrow> string" where
  "json_text JNull = ''n''"
| "json_text (JBool b) = (if b then ''t'' else ''f'')"
| "json_text (JNum q) = CHR ''q'' # rat_text q"
| "json_text (JStr s) = CHR ''s'' # net_string s"
| "json_text (JArr xs) = CHR ''a'' # nat_string (length xs) @ CHR '':'' # concat (map json_text xs)"
| "json_text (JObj kvs) = CHR ''o'' # nat_string (length kvs) @ CHR '':'' #
     concat (map (\<lambda>p. net_string (fst p) @ snd p) (map (map_prod id json_text) kvs))"

lemma digits_colon_inj:
  assumes "list_all is_digit s" "list_all is_digit t" "s @ CHR '':'' # r = t @ CHR '':'' # u"
  shows "s = t \<and> r = u"
proof -
  have nc: "list_all is_digit x \<Longrightarrow> takeWhile is_digit (x @ CHR '':'' # y) = x" for x y
    by (simp add: takeWhile_append2 list_all_iff is_digit_def)
  from assms nc [of s r] nc [of t u] have "s = t" by simp
  with assms(3) show ?thesis by simp
qed

lemma nat_string_inj: "nat_string m = nat_string n \<Longrightarrow> m = n"
  by (metis nat_string_value)

lemma count_colon_inj:
  "nat_string m @ CHR '':'' # r = nat_string n @ CHR '':'' # u \<Longrightarrow> m = n \<and> r = u"
  using digits_colon_inj [of "nat_string m" "nat_string n" r u] nat_string_inj by auto

lemma net_string_inj: "net_string s @ r = net_string t @ u \<Longrightarrow> s = t \<and> r = u"
  by (auto simp: net_string_def dest: count_colon_inj)

lemma rat_text_inj: "rat_text p @ r = rat_text q @ u \<Longrightarrow> p = q \<and> r = u"
proof -
  assume a: "rat_text p @ r = rat_text q @ u"
  obtain a1 b1 a2 b2 where q: "quotient_of p = (a1, b1)" "quotient_of q = (a2, b2)"
    by (cases "quotient_of p"; cases "quotient_of q") auto
  have pos: "0 < b1" "0 < b2" using quotient_of_denom_pos [OF q(1)] quotient_of_denom_pos [OF q(2)] by auto
  define g where "g = (\<lambda>a::int. (if a < 0 then ''-'' else ''+'') @ nat_string (nat \<bar>a\<bar>))"
  have g: "g a = g b \<Longrightarrow> a = b" for a b
    by (auto simp: g_def split: if_splits dest!: nat_string_inj)
  from a have "net_string (g a1) @ net_string (nat_string (nat b1)) @ r
      = net_string (g a2) @ net_string (nat_string (nat b2)) @ u"
    by (simp add: rat_text_def q g_def)
  then have ga: "g a1 = g a2" and b: "nat_string (nat b1) = nat_string (nat b2)" and r: "r = u"
    by (blast dest: net_string_inj)+
  from ga have "a1 = a2" by (rule g)
  moreover have "b1 = b2" using nat_string_inj [OF b] pos by simp
  ultimately show ?thesis using q r quotient_of_inject [of p q] by simp
qed

lemma concat_text_inj:
  assumes "\<And>x y r u. x \<in> set xs \<Longrightarrow> f x @ r = f y @ u \<Longrightarrow> x = y \<and> r = u"
    and "length xs = length ys" "concat (map f xs) @ r = concat (map f ys) @ u"
  shows "xs = ys \<and> r = u"
  using assms(2,1,3)
proof (induction xs ys rule: list_induct2)
  case (Cons x xs y ys)
  have "f x @ (concat (map f xs) @ r) = f y @ (concat (map f ys) @ u)"
    using Cons.prems(2) by simp
  from Cons.prems(1) [OF _ this] have "x = y \<and> concat (map f xs) @ r = concat (map f ys) @ u"
    by simp
  moreover from this have "xs = ys \<and> r = u"
    using Cons.IH [OF Cons.prems(1)] by simp
  ultimately show ?case by simp
qed simp

lemma json_text_inj: "json_text v @ r = json_text w @ u \<Longrightarrow> v = w \<and> r = u"
proof (induction v arbitrary: w r u)
  case (JNum q)
  then show ?case by (cases w) (auto dest: rat_text_inj split: if_splits)
next
  case (JStr s)
  then show ?case by (cases w) (auto dest: net_string_inj split: if_splits)
next
  case (JArr xs)
  then obtain ys where w: "w = JArr ys" by (cases w) (auto split: if_splits)
  with JArr.prems have "length xs = length ys"
    "concat (map json_text xs) @ r = concat (map json_text ys) @ u"
    by (auto dest: count_colon_inj)
  from concat_text_inj [OF _ this] JArr.IH w show ?case by blast
next
  case (JObj kvs)
  then obtain kvs' where w: "w = JObj kvs'" by (cases w) (auto split: if_splits)
  let ?f = "\<lambda>p. net_string (fst p) @ json_text (snd p)"
  have "concat (map (\<lambda>p. net_string (fst p) @ snd p) (map (map_prod id json_text) k)) = concat (map ?f k)" for k
    by (simp add: comp_def)
  with JObj.prems w have "length kvs = length kvs'" "concat (map ?f kvs) @ r = concat (map ?f kvs') @ u"
    by (auto dest: count_colon_inj)
  moreover have "x = y \<and> r = u" if x: "x \<in> set kvs" and e: "?f x @ r = ?f y @ u" for x y r u
  proof -
    from e have "fst x = fst y" and e2: "json_text (snd x) @ r = json_text (snd y) @ u"
      by (auto dest: net_string_inj)
    moreover have "snd x = snd y \<and> r = u" using JObj.IH [OF x _ e2] by (simp add: snds.simps)
    ultimately show ?thesis by (simp add: prod_eq_iff)
  qed
  ultimately show ?case using concat_text_inj [of kvs ?f kvs' r u] w by blast
next
  case JNull
  then show ?case by (cases w) (auto split: if_splits)
next
  case (JBool b)
  then show ?case by (cases w) (auto split: if_splits)
qed

lemma json_text_eq: "json_text v = json_text w \<longleftrightarrow> v = w"
  using json_text_inj [of v "[]" w "[]"] by auto

text \<open>A checksum of 64 decimal digits, in the shape of a digest.\<close>

definition ref_digest :: "bytes \<Rightarrow> string" where
  "ref_digest bs = pad_start 64 CHR ''0'' (nat_string (foldl (\<lambda>h c. (31 * h + of_char c) mod 1000003) 7 bs))"

lemma ref_digest_ok: "length (ref_digest x) = 64" "list_all hex_char (ref_digest x)"
proof -
  define h where "h = foldl (\<lambda>h c. (31 * h + of_char c) mod 1000003) (7::nat) x"
  have "h < 1000003" unfolding h_def by (cases x rule: rev_cases) auto
  then have "h < 10 ^ 64" by simp
  have "length (nat_string n) \<le> 64" if "n < 10 ^ 64" for n
  proof (rule ccontr)
    assume c: "\<not> length (nat_string n) \<le> 64"
    then have "n \<noteq> 0" by (cases n) (auto simp: nat_string.simps [of 0])
    then have "nat_string n \<noteq> ''0''" using nat_string_hd [of n] by auto
    then have "10 ^ (length (nat_string n) - 1) \<le> n"
      using uint_string_pos [of "nat_string n"] by simp
    moreover have "(10::nat) ^ 64 \<le> 10 ^ (length (nat_string n) - 1)" using c by (intro power_increasing) auto
    ultimately show False using that by linarith
  qed
  from this [OF \<open>h < 10 ^ 64\<close>] show "length (ref_digest x) = 64"
    by (simp add: ref_digest_def h_def length_pad_start)
  have "list_all is_digit (ref_digest x)" by (simp add: ref_digest_def)
  then show "list_all hex_char (ref_digest x)" by (simp add: list_all_iff hex_char_digit)
qed

text \<open>The signature of a message in the reference host: 64 bytes made from its checksum.\<close>

definition ref_signature :: "bytes \<Rightarrow> bytes \<Rightarrow> bytes" where
  "ref_signature pk m = ref_digest (m @ pk)"

text \<open>Printing a terminating decimal: the least number of fraction digits, at most 18.\<close>

fun shortest_fraction :: "nat \<Rightarrow> rat \<Rightarrow> nat \<Rightarrow> nat" where
  "shortest_fraction 0 q j = j"
| "shortest_fraction (Suc n) q j =
     (if of_int \<lfloor>q * 10 ^ j\<rfloor> = q * 10 ^ j then j else shortest_fraction n q (Suc j))"

definition ref_fixed :: "rat \<Rightarrow> string" where
  "ref_fixed q =
     (let j = shortest_fraction 18 q 0; w = nat \<lfloor>q\<rfloor>
      in if j = 0 then nat_string w
         else nat_string w @ CHR ''.'' # field j (nat \<lfloor>(q - of_nat w) * 10 ^ j\<rfloor>))"

lemma shortest_fraction_least:
  assumes "of_int \<lfloor>q * 10 ^ k\<rfloor> = q * 10 ^ k" "j \<le> k" "k \<le> j + n"
  defines "i \<equiv> shortest_fraction n q j"
  shows "j \<le> i \<and> i \<le> k \<and> of_int \<lfloor>q * 10 ^ i\<rfloor> = q * 10 ^ i
    \<and> (\<forall>l. j \<le> l \<and> l < i \<longrightarrow> of_int \<lfloor>q * 10 ^ l\<rfloor> \<noteq> q * 10 ^ l)"
  using assms(1-3) unfolding i_def
proof (induction n arbitrary: j)
  case (Suc n)
  show ?case
  proof (cases "of_int \<lfloor>q * 10 ^ j\<rfloor> = q * 10 ^ j")
    case False
    with Suc.prems have "Suc j \<le> k" "k \<le> Suc j + n" by (auto simp: le_less Suc_le_eq)
    from Suc.IH [OF Suc.prems(1) this] False show ?thesis
      by (metis Suc_leD Suc_leI le_neq_implies_less shortest_fraction.simps(2))
  qed (use Suc.prems in simp)
qed (auto simp: le_antisym)

lemma last_digit_zero:
  assumes "list_all is_digit f" "f \<noteq> []" "last f = CHR ''0''"
  shows "10 dvd digits_value f"
  using assms by (cases f rule: rev_cases) auto

lemma ref_fixed_ok:
  fixes k m :: nat
  assumes "k \<le> 18"
  defines "q \<equiv> of_nat m / (10::rat) ^ k"
  shows "plain_decimal (ref_fixed q) \<and> decimal_value (ref_fixed q) = q \<and>
    (case fraction_part (ref_fixed q) of None \<Rightarrow> True | Some f \<Rightarrow> length f \<le> 18 \<and> last f \<noteq> CHR ''0'')"
proof -
  define i w where iw: "i = shortest_fraction 18 q 0" "w = nat \<lfloor>q\<rfloor>"
  have "q * 10 ^ k = of_nat m" by (simp add: q_def)
  then have "of_int \<lfloor>q * 10 ^ k\<rfloor> = q * 10 ^ k" by simp
  from shortest_fraction_least [OF this, of 0 18] assms(1)
  have i: "i \<le> 18" "of_int \<lfloor>q * 10 ^ i\<rfloor> = q * 10 ^ i"
    and least: "\<And>l. l < i \<Longrightarrow> of_int \<lfloor>q * 10 ^ l\<rfloor> \<noteq> q * 10 ^ l"
    by (auto simp: iw)
  have "0 \<le> q" by (simp add: q_def)
  then have w: "of_nat w \<le> q" "q < of_nat w + 1"
    by (simp_all add: iw of_nat_nat le_floor_iff floor_le_iff) linarith
  define x where "x = (q - of_nat w) * 10 ^ i"
  have xq: "x = of_int (\<lfloor>q * 10 ^ i\<rfloor> - int w * 10 ^ i)"
    using i(2) [symmetric] by (simp add: x_def algebra_simps)
  have x0: "0 \<le> x" "x < 10 ^ i" using w by (simp_all add: x_def)
  define v where "v = nat \<lfloor>x\<rfloor>"
  have v: "of_nat v = x" using xq x0 by (simp add: v_def)
  have "(of_nat v :: rat) < of_nat (10 ^ i)" using v x0 by simp
  then have vlt: "v < 10 ^ i" by (simp only: of_nat_less_iff)
  show ?thesis
  proof (cases "i = 0")
    case True
    then have "q = of_nat w" using v vlt by (simp add: x_def)
    moreover have "ref_fixed q = nat_string w" using True by (simp add: ref_fixed_def iw Let_def)
    ultimately show ?thesis
      using parts_whole [OF nat_string_digits, of w] by (simp add: plain_decimal_def decimal_value_def)
  next
    case False
    then have eq: "ref_fixed q = nat_string w @ CHR ''.'' # field i v"
      unfolding ref_fixed_def Let_def iw(1) [symmetric] iw(2) [symmetric] v_def x_def by simp
    have len: "length (field i v) = i" using field_length [OF vlt] False by simp
    then have ne: "field i v \<noteq> []" using False by auto
    have "last (field i v) \<noteq> CHR ''0''"
    proof
      assume "last (field i v) = CHR ''0''"
      then obtain u where u: "v = 10 * u" using last_digit_zero [OF field_digits ne] by (auto simp: dvd_def)
      obtain l where l: "i = Suc l" using False by (cases i) auto
      have "q * 10 ^ i = of_nat v + of_nat w * 10 ^ i" using v by (simp add: x_def algebra_simps)
      then have "q * 10 ^ l = of_int (int u + int w * 10 ^ l)" by (simp add: u l)
      then have "of_int \<lfloor>q * 10 ^ l\<rfloor> = q * 10 ^ l" by simp
      with least [of l] l show False by simp
    qed
    moreover have "of_nat w + of_nat v / 10 ^ i = q" using v by (simp add: x_def)
    ultimately show ?thesis
      unfolding eq using parts_join [OF nat_string_digits, of w "field i v"] len ne i(1)
      by (simp add: plain_decimal_def decimal_value_def)
  qed
qed

definition utc_parts :: "int \<Rightarrow> (string \<times> string) list" where
  "utc_parts t =
     (let s = iso_text t
      in [(''weekday'', [''Thu'', ''Fri'', ''Sat'', ''Sun'', ''Mon'', ''Tue'', ''Wed''] ! nat (t div ms_per_day mod 7)),
          (''year'', take 4 s), (''month'', take 2 (drop 5 s)), (''day'', take 2 (drop 8 s)),
          (''hour'', take 2 (drop 11 s)), (''minute'', take 2 (drop 14 s))])"

definition ref_host :: host where
  "ref_host = \<lparr>
     canonicalize = (\<lambda>v. json_text (json_norm v)),
     sha256_hex = ref_digest,
     url_ok = (\<lambda>s. take 8 s = ''https://'' \<and> 8 < length s),
     ed_keypair = (\<lambda>seed. (seed, seed)),
     ed_sign = ref_signature,
     ed_verify = (\<lambda>m s pk. s = ref_signature pk m),
     dec_new = (\<lambda>s. if plain_decimal s then Some (decimal_value s) else None),
     dec_plus = (+),
     dec_fixed = ref_fixed,
     intl_parts = (\<lambda>t tz. if tz = ''UTC'' then Some (utc_parts t) else None)\<rparr>"

lemma ref_host_jcs [simp]: "jcs_ok ref_host"
  by (simp add: jcs_ok_def ref_host_def json_text_eq)

lemma ref_host_sha [simp]: "sha_ok ref_host"
  by (simp add: sha_ok_def ref_host_def ref_digest_ok)

lemma ref_host_ed [simp]: "ed_ok ref_host"
  by (simp add: ed_ok_def ref_host_def ref_signature_def ref_digest_ok)

lemma ref_host_decimal [simp]: "decimal_ok ref_host"
  unfolding decimal_ok_def Let_def by (simp add: ref_host_def ref_fixed_ok)

lemma no_collision_refl [simp]: "no_collision H x x"
  by (simp add: no_collision_def)

end
