(* ===== verification/Schemas.thy ===== *)
theory Schemas
  imports Host
begin

section \<open>The data of decision-core\<close>

text \<open>
  \<open>decision-core/src/schemas.ts\<close>: actions, decisions and the key registry as records and
  datatypes with the source's fields and constructors, the schema checks as executable
  predicates, and the JSON form of each value with the strict parser that reads it. Literal
  fields (\<open>version\<close>, \<open>action_type\<close>, \<open>alg\<close>) appear in the JSON form only. Lemmas: parsing
  the JSON form of a value succeeds exactly when the schema predicate holds and returns the
  value, and everything a parser returns satisfies its predicate.
\<close>

subsection \<open>Enumerations\<close>

datatype verdict = ALLOW | BLOCK | REQUIRE_APPROVAL

datatype rail = X402 | AP2 | EVM | CARD | MCP

datatype key_status = Active | Retired | Revoked

datatype approval_mode = PolicyEngine | Human

datatype evm_type = EIP1559 | Legacy

datatype reason_code =
    MERCHANT_ALLOWED
  | WITHIN_TRANSACTION_LIMIT
  | WITHIN_DAILY_LIMIT
  | DEFAULT_DENY
  | NETWORK_NOT_ALLOWED
  | ASSET_NOT_ALLOWED
  | PAYEE_NOT_ALLOWED
  | RESOURCE_NOT_ALLOWED
  | PURPOSE_NOT_ALLOWED
  | AMOUNT_EXCEEDS_TRANSACTION_LIMIT
  | DAILY_LIMIT_EXCEEDED
  | OUTSIDE_ALLOWED_TIME
  | HUMAN_APPROVAL_REQUIRED
  | HUMAN_APPROVAL_GRANTED
  | HUMAN_APPROVAL_REFUSED
  | APPROVAL_NOT_PENDING
  | APPROVAL_ALREADY_RESOLVED
  | POLICY_EXPIRED
  | POLICY_VERSION_MISMATCH
  | ACTION_HASH_MISMATCH
  | PAYMENT_REQUIREMENTS_MISMATCH
  | DECISION_BINDING_MISMATCH
  | DECISION_EXPIRED
  | INVALID_DECISION_SCHEMA
  | FINGERPRINT_MISMATCH
  | INVALID_SIGNATURE
  | UNKNOWN_SIGNING_KEY
  | NONCE_ALREADY_CONSUMED
  | DECISION_NOT_ALLOW
  | DECISION_SERVICE_UNAVAILABLE
  | EXECUTION_STATE_UNAVAILABLE
  | EXECUTION_CONFLICT
  | EXECUTION_OUTCOME_UNKNOWN
  | EXECUTION_ALREADY_COMPLETED
  | EXECUTION_FAILED_FINAL
  | RECONCILIATION_REQUIRED
  | KYA_AUTHORITY_REQUIRED
  | KYA_PRESENTATION_INVALID
  | KYA_PROOF_INVALID
  | KYA_PROOF_REPLAYED
  | KYA_AGENT_IDENTITY_MISMATCH
  | KYA_DELEGATION_INVALID
  | KYA_DELEGATION_SIGNATURE_INVALID
  | KYA_DELEGATION_EXPIRED
  | KYA_DELEGATION_REVOKED
  | KYA_REVOCATION_UNAVAILABLE
  | KYA_ACTION_NOT_DELEGATED
  | KYA_MAX_AMOUNT_REQUIRED
  | KYA_AMOUNT_EXCEEDS_DELEGATION
  | KYA_CURRENCY_MISMATCH
  | KYA_INVOCATION_TARGET_MISMATCH
  | KYA_AUDIENCE_MISMATCH
  | KYA_RESPONSIBLE_PARTY_NOT_ALLOWED
  | KYA_PRINCIPAL_MISMATCH
  | KYA_PROOF_ASSURANCE_INSUFFICIENT
  | KYA_AUTHORITY_STATE_UNAVAILABLE
  | KYA_AUTHORITY_BINDING_MISMATCH

text \<open>The string of each enumeration member.\<close>

fun reason_string :: "reason_code \<Rightarrow> string" where
  "reason_string MERCHANT_ALLOWED = ''MERCHANT_ALLOWED''"
| "reason_string WITHIN_TRANSACTION_LIMIT = ''WITHIN_TRANSACTION_LIMIT''"
| "reason_string WITHIN_DAILY_LIMIT = ''WITHIN_DAILY_LIMIT''"
| "reason_string DEFAULT_DENY = ''DEFAULT_DENY''"
| "reason_string NETWORK_NOT_ALLOWED = ''NETWORK_NOT_ALLOWED''"
| "reason_string ASSET_NOT_ALLOWED = ''ASSET_NOT_ALLOWED''"
| "reason_string PAYEE_NOT_ALLOWED = ''PAYEE_NOT_ALLOWED''"
| "reason_string RESOURCE_NOT_ALLOWED = ''RESOURCE_NOT_ALLOWED''"
| "reason_string PURPOSE_NOT_ALLOWED = ''PURPOSE_NOT_ALLOWED''"
| "reason_string AMOUNT_EXCEEDS_TRANSACTION_LIMIT = ''AMOUNT_EXCEEDS_TRANSACTION_LIMIT''"
| "reason_string DAILY_LIMIT_EXCEEDED = ''DAILY_LIMIT_EXCEEDED''"
| "reason_string OUTSIDE_ALLOWED_TIME = ''OUTSIDE_ALLOWED_TIME''"
| "reason_string HUMAN_APPROVAL_REQUIRED = ''HUMAN_APPROVAL_REQUIRED''"
| "reason_string HUMAN_APPROVAL_GRANTED = ''HUMAN_APPROVAL_GRANTED''"
| "reason_string HUMAN_APPROVAL_REFUSED = ''HUMAN_APPROVAL_REFUSED''"
| "reason_string APPROVAL_NOT_PENDING = ''APPROVAL_NOT_PENDING''"
| "reason_string APPROVAL_ALREADY_RESOLVED = ''APPROVAL_ALREADY_RESOLVED''"
| "reason_string POLICY_EXPIRED = ''POLICY_EXPIRED''"
| "reason_string POLICY_VERSION_MISMATCH = ''POLICY_VERSION_MISMATCH''"
| "reason_string ACTION_HASH_MISMATCH = ''ACTION_HASH_MISMATCH''"
| "reason_string PAYMENT_REQUIREMENTS_MISMATCH = ''PAYMENT_REQUIREMENTS_MISMATCH''"
| "reason_string DECISION_BINDING_MISMATCH = ''DECISION_BINDING_MISMATCH''"
| "reason_string DECISION_EXPIRED = ''DECISION_EXPIRED''"
| "reason_string INVALID_DECISION_SCHEMA = ''INVALID_DECISION_SCHEMA''"
| "reason_string FINGERPRINT_MISMATCH = ''FINGERPRINT_MISMATCH''"
| "reason_string INVALID_SIGNATURE = ''INVALID_SIGNATURE''"
| "reason_string UNKNOWN_SIGNING_KEY = ''UNKNOWN_SIGNING_KEY''"
| "reason_string NONCE_ALREADY_CONSUMED = ''NONCE_ALREADY_CONSUMED''"
| "reason_string DECISION_NOT_ALLOW = ''DECISION_NOT_ALLOW''"
| "reason_string DECISION_SERVICE_UNAVAILABLE = ''DECISION_SERVICE_UNAVAILABLE''"
| "reason_string EXECUTION_STATE_UNAVAILABLE = ''EXECUTION_STATE_UNAVAILABLE''"
| "reason_string EXECUTION_CONFLICT = ''EXECUTION_CONFLICT''"
| "reason_string EXECUTION_OUTCOME_UNKNOWN = ''EXECUTION_OUTCOME_UNKNOWN''"
| "reason_string EXECUTION_ALREADY_COMPLETED = ''EXECUTION_ALREADY_COMPLETED''"
| "reason_string EXECUTION_FAILED_FINAL = ''EXECUTION_FAILED_FINAL''"
| "reason_string RECONCILIATION_REQUIRED = ''RECONCILIATION_REQUIRED''"
| "reason_string KYA_AUTHORITY_REQUIRED = ''KYA_AUTHORITY_REQUIRED''"
| "reason_string KYA_PRESENTATION_INVALID = ''KYA_PRESENTATION_INVALID''"
| "reason_string KYA_PROOF_INVALID = ''KYA_PROOF_INVALID''"
| "reason_string KYA_PROOF_REPLAYED = ''KYA_PROOF_REPLAYED''"
| "reason_string KYA_AGENT_IDENTITY_MISMATCH = ''KYA_AGENT_IDENTITY_MISMATCH''"
| "reason_string KYA_DELEGATION_INVALID = ''KYA_DELEGATION_INVALID''"
| "reason_string KYA_DELEGATION_SIGNATURE_INVALID = ''KYA_DELEGATION_SIGNATURE_INVALID''"
| "reason_string KYA_DELEGATION_EXPIRED = ''KYA_DELEGATION_EXPIRED''"
| "reason_string KYA_DELEGATION_REVOKED = ''KYA_DELEGATION_REVOKED''"
| "reason_string KYA_REVOCATION_UNAVAILABLE = ''KYA_REVOCATION_UNAVAILABLE''"
| "reason_string KYA_ACTION_NOT_DELEGATED = ''KYA_ACTION_NOT_DELEGATED''"
| "reason_string KYA_MAX_AMOUNT_REQUIRED = ''KYA_MAX_AMOUNT_REQUIRED''"
| "reason_string KYA_AMOUNT_EXCEEDS_DELEGATION = ''KYA_AMOUNT_EXCEEDS_DELEGATION''"
| "reason_string KYA_CURRENCY_MISMATCH = ''KYA_CURRENCY_MISMATCH''"
| "reason_string KYA_INVOCATION_TARGET_MISMATCH = ''KYA_INVOCATION_TARGET_MISMATCH''"
| "reason_string KYA_AUDIENCE_MISMATCH = ''KYA_AUDIENCE_MISMATCH''"
| "reason_string KYA_RESPONSIBLE_PARTY_NOT_ALLOWED = ''KYA_RESPONSIBLE_PARTY_NOT_ALLOWED''"
| "reason_string KYA_PRINCIPAL_MISMATCH = ''KYA_PRINCIPAL_MISMATCH''"
| "reason_string KYA_PROOF_ASSURANCE_INSUFFICIENT = ''KYA_PROOF_ASSURANCE_INSUFFICIENT''"
| "reason_string KYA_AUTHORITY_STATE_UNAVAILABLE = ''KYA_AUTHORITY_STATE_UNAVAILABLE''"
| "reason_string KYA_AUTHORITY_BINDING_MISMATCH = ''KYA_AUTHORITY_BINDING_MISMATCH''"

definition all_reasons :: "reason_code list" where
  "all_reasons = [MERCHANT_ALLOWED, WITHIN_TRANSACTION_LIMIT, WITHIN_DAILY_LIMIT, DEFAULT_DENY,
     NETWORK_NOT_ALLOWED, ASSET_NOT_ALLOWED, PAYEE_NOT_ALLOWED, RESOURCE_NOT_ALLOWED,
     PURPOSE_NOT_ALLOWED, AMOUNT_EXCEEDS_TRANSACTION_LIMIT, DAILY_LIMIT_EXCEEDED, OUTSIDE_ALLOWED_TIME,
     HUMAN_APPROVAL_REQUIRED, HUMAN_APPROVAL_GRANTED, HUMAN_APPROVAL_REFUSED, APPROVAL_NOT_PENDING,
     APPROVAL_ALREADY_RESOLVED, POLICY_EXPIRED, POLICY_VERSION_MISMATCH, ACTION_HASH_MISMATCH,
     PAYMENT_REQUIREMENTS_MISMATCH, DECISION_BINDING_MISMATCH, DECISION_EXPIRED, INVALID_DECISION_SCHEMA,
     FINGERPRINT_MISMATCH, INVALID_SIGNATURE, UNKNOWN_SIGNING_KEY, NONCE_ALREADY_CONSUMED,
     DECISION_NOT_ALLOW, DECISION_SERVICE_UNAVAILABLE, EXECUTION_STATE_UNAVAILABLE, EXECUTION_CONFLICT,
     EXECUTION_OUTCOME_UNKNOWN, EXECUTION_ALREADY_COMPLETED, EXECUTION_FAILED_FINAL, RECONCILIATION_REQUIRED,
     KYA_AUTHORITY_REQUIRED, KYA_PRESENTATION_INVALID, KYA_PROOF_INVALID, KYA_PROOF_REPLAYED,
     KYA_AGENT_IDENTITY_MISMATCH, KYA_DELEGATION_INVALID, KYA_DELEGATION_SIGNATURE_INVALID, KYA_DELEGATION_EXPIRED,
     KYA_DELEGATION_REVOKED, KYA_REVOCATION_UNAVAILABLE, KYA_ACTION_NOT_DELEGATED, KYA_MAX_AMOUNT_REQUIRED,
     KYA_AMOUNT_EXCEEDS_DELEGATION, KYA_CURRENCY_MISMATCH, KYA_INVOCATION_TARGET_MISMATCH, KYA_AUDIENCE_MISMATCH,
     KYA_RESPONSIBLE_PARTY_NOT_ALLOWED, KYA_PRINCIPAL_MISMATCH, KYA_PROOF_ASSURANCE_INSUFFICIENT, KYA_AUTHORITY_STATE_UNAVAILABLE,
     KYA_AUTHORITY_BINDING_MISMATCH]"

fun verdict_string :: "verdict \<Rightarrow> string" where
  "verdict_string ALLOW = ''ALLOW''"
| "verdict_string BLOCK = ''BLOCK''"
| "verdict_string REQUIRE_APPROVAL = ''REQUIRE_APPROVAL''"

fun rail_string :: "rail \<Rightarrow> string" where
  "rail_string X402 = ''x402''"
| "rail_string AP2 = ''ap2''"
| "rail_string EVM = ''evm''"
| "rail_string CARD = ''card''"
| "rail_string MCP = ''mcp''"

fun status_string :: "key_status \<Rightarrow> string" where
  "status_string Active = ''active''"
| "status_string Retired = ''retired''"
| "status_string Revoked = ''revoked''"

fun mode_string :: "approval_mode \<Rightarrow> string" where
  "mode_string PolicyEngine = ''policy_engine''"
| "mode_string Human = ''human''"

fun evm_type_string :: "evm_type \<Rightarrow> string" where
  "evm_type_string EIP1559 = ''eip1559''"
| "evm_type_string Legacy = ''legacy''"

text \<open>\<open>z.enum\<close>: the member with the given string.\<close>

definition enum_read :: "('a \<Rightarrow> string) \<Rightarrow> 'a list \<Rightarrow> string \<Rightarrow> 'a option" where
  "enum_read f xs s = find (\<lambda>x. f x = s) xs"

lemma enum_read_ok: "distinct (map f xs) \<Longrightarrow> x \<in> set xs \<Longrightarrow> enum_read f xs (f x) = Some x"
  by (induction xs) (auto simp: enum_read_def)

lemma reason_string_distinct: "distinct (map reason_string all_reasons)"
  by code_simp

lemma reason_in_all [simp]: "r \<in> set all_reasons"
  by (cases r) (simp_all add: all_reasons_def)

lemma enum_read_reason [simp]: "enum_read reason_string all_reasons (reason_string r) = Some r"
  by (rule enum_read_ok [OF reason_string_distinct]) simp

lemma reason_string_inj [simp]: "reason_string r = reason_string s \<longleftrightarrow> r = s"
  using enum_read_reason by (metis option.inject)

lemma enum_reads [simp]:
  "enum_read verdict_string [ALLOW, BLOCK, REQUIRE_APPROVAL] (verdict_string v) = Some v"
  "enum_read rail_string [X402, AP2, EVM, CARD, MCP] (rail_string r) = Some r"
  "enum_read status_string [Active, Retired, Revoked] (status_string k) = Some k"
  "enum_read mode_string [PolicyEngine, Human] (mode_string m) = Some m"
  "enum_read evm_type_string [EIP1559, Legacy] (evm_type_string t) = Some t"
  by ((cases v, simp_all add: enum_read_def)[1], (cases r, simp_all add: enum_read_def)[1],
      (cases k, simp_all add: enum_read_def)[1], (cases m, simp_all add: enum_read_def)[1],
      (cases t, simp_all add: enum_read_def)[1])

lemma enum_strings_inj [simp]:
  "verdict_string v = verdict_string v' \<longleftrightarrow> v = v'"
  "rail_string r = rail_string r' \<longleftrightarrow> r = r'"
  "status_string k = status_string k' \<longleftrightarrow> k = k'"
  "mode_string m = mode_string m' \<longleftrightarrow> m = m'"
  "evm_type_string t = evm_type_string t' \<longleftrightarrow> t = t'"
  using enum_reads by (metis option.inject)+

subsection \<open>Errors\<close>

text \<open>
  What the code throws: a \<open>ZodError\<close> from \<open>parse\<close>, an error class with its message, an error
  class that carries Inntris reason codes, and the gates' errors with a reason string of
  their own and an optional cause.
\<close>

datatype error =
    ZodError
  | JsError string string
  | CodedError string "reason_code list" string
  | GateError string string "string option" string

fun error_name :: "error \<Rightarrow> string" where
  "error_name ZodError = ''ZodError''"
| "error_name (JsError n m) = n"
| "error_name (CodedError n rs m) = n"
| "error_name (GateError n r c m) = n"

subsection \<open>Scalar schemas\<close>

definition len_between :: "nat \<Rightarrow> nat \<Rightarrow> string \<Rightarrow> bool" where
  "len_between lo hi s \<longleftrightarrow> lo \<le> length s \<and> length s \<le> hi"

definition hash_ok :: "string \<Rightarrow> bool" where
  "hash_ok s \<longleftrightarrow> length s = 71 \<and> take 7 s = ''sha256:'' \<and> list_all hex_char (drop 7 s)"

definition identifier_ok :: "string \<Rightarrow> bool" where
  "identifier_ok s \<longleftrightarrow> len_between 1 128 s"

text \<open>\<open>^0x[0-9a-f]{40}$\<close> and \<open>^[1-9]\d*$\<close>.\<close>

definition evm_address :: "string \<Rightarrow> bool" where
  "evm_address s \<longleftrightarrow> length s = 42 \<and> take 2 s = ''0x'' \<and> list_all hex_char (drop 2 s)"

definition positive_string :: "string \<Rightarrow> bool" where
  "positive_string s \<longleftrightarrow> uint_string s \<and> s \<noteq> ''0''"

subsection \<open>Transactions and protocol references\<close>

record transaction =
  tx_amount :: string
  tx_asset :: string
  tx_network :: string
  tx_payee :: string
  tx_purpose :: string

definition transaction_ok :: "transaction \<Rightarrow> bool" where
  "transaction_ok t \<longleftrightarrow>
     canonical_amount (tx_amount t) \<and> len_between 1 128 (tx_asset t) \<and>
     len_between 1 128 (tx_network t) \<and> len_between 1 512 (tx_payee t) \<and>
     len_between 1 128 (tx_purpose t)"

datatype protocol_reference =
    X402Ref (pr_resource: string) (x_scheme: string) (x_requirements_hash: string)
      (x_payload_hash: "string option")
  | AP2Ref (pr_resource: string) (ap2_intent_hash: string) (ap2_checkout_mandate_hash: string)
      (ap2_payment_mandate_hash: string) (ap2_checkout_hash: string) (ap2_transaction_id: string)
  | EVMRef (pr_resource: string) (evm_tx_type: evm_type) (evm_chain_id: string) (evm_from: string)
      (evm_to: string) (evm_value_wei: string) (evm_nonce: string) (evm_unsigned_hash: string)
      (evm_data_hash: string)
  | CardRef (pr_resource: string) (card_request_id: string) (card_merchant_id: string)
      (card_network: string) (card_credential_hash: string) (card_request_hash: string)
  | MCPRef (pr_resource: string) (mcp_server_id: string) (mcp_tool_name: string)
      (mcp_tool_call_id: string) (mcp_arguments_hash: string) (mcp_payment_hash: string)

fun reference_ok :: "host \<Rightarrow> protocol_reference \<Rightarrow> bool" where
  "reference_ok H (X402Ref r sc rh ph) \<longleftrightarrow>
     url_ok H r \<and> len_between 1 64 sc \<and> hash_ok rh \<and> (case ph of None \<Rightarrow> True | Some h \<Rightarrow> hash_ok h)"
| "reference_ok H (AP2Ref r ih ch ph cs ti) \<longleftrightarrow>
     url_ok H r \<and> hash_ok ih \<and> hash_ok ch \<and> hash_ok ph \<and> base64url cs \<and> base64url ti"
| "reference_ok H (EVMRef r ty ci fr to vw n uh dh) \<longleftrightarrow>
     url_ok H r \<and> positive_string ci \<and> evm_address fr \<and> evm_address to \<and> uint_string vw \<and>
     uint_string n \<and> hash_ok uh \<and> hash_ok dh"
| "reference_ok H (CardRef r ri mi nw crh rh) \<longleftrightarrow>
     url_ok H r \<and> identifier_ok ri \<and> identifier_ok mi \<and> len_between 1 64 nw \<and> hash_ok crh \<and> hash_ok rh"
| "reference_ok H (MCPRef r si tn ti ah ph) \<longleftrightarrow>
     url_ok H r \<and> identifier_ok si \<and> identifier_ok tn \<and> identifier_ok ti \<and> hash_ok ah \<and> hash_ok ph"

fun reference_rail :: "protocol_reference \<Rightarrow> rail" where
  "reference_rail (X402Ref _ _ _ _) = X402"
| "reference_rail (AP2Ref _ _ _ _ _ _) = AP2"
| "reference_rail (EVMRef _ _ _ _ _ _ _ _ _) = EVM"
| "reference_rail (CardRef _ _ _ _ _ _) = CARD"
| "reference_rail (MCPRef _ _ _ _ _ _) = MCP"

subsection \<open>Actions\<close>

record action =
  a_principal_id :: string
  a_agent_id :: string
  a_rail :: rail
  a_reference :: protocol_reference
  a_transaction :: transaction
  a_extensions :: "(string \<times> json) list option"

definition action_ok :: "host \<Rightarrow> action \<Rightarrow> bool" where
  "action_ok H a \<longleftrightarrow>
     identifier_ok (a_principal_id a) \<and> identifier_ok (a_agent_id a) \<and>
     reference_rail (a_reference a) = a_rail a \<and> reference_ok H (a_reference a) \<and>
     transaction_ok (a_transaction a)"

definition check_action :: "host \<Rightarrow> action \<Rightarrow> error + action" where
  "check_action H a = (if action_ok H a then Inr a else Inl ZodError)"

subsection \<open>Decisions\<close>

record approval =
  ap_mode :: approval_mode
  ap_reference :: "string option"
  ap_approver_ids :: "string list"

definition approval_ok :: "approval \<Rightarrow> bool" where
  "approval_ok p \<longleftrightarrow>
     (case ap_reference p of None \<Rightarrow> True | Some r \<Rightarrow> len_between 1 256 r) \<and>
     length (ap_approver_ids p) \<le> 32 \<and> list_all identifier_ok (ap_approver_ids p)"

record decision =
  d_decision_id :: string
  d_fingerprint :: string
  d_verdict :: verdict
  d_principal_id :: string
  d_agent_id :: string
  d_action_hash :: string
  d_rail :: rail
  d_reference :: protocol_reference
  d_transaction :: transaction
  d_policy_hash :: string
  d_policy_version :: string
  d_approval :: approval
  d_reason_codes :: "reason_code list"
  d_issued_at :: string
  d_expires_at :: string
  d_nonce :: string
  d_supersedes :: "string option"
  d_key_id :: string
  d_signature :: string

definition decision_ok :: "host \<Rightarrow> decision \<Rightarrow> bool" where
  "decision_ok H d \<longleftrightarrow>
     identifier_ok (d_decision_id d) \<and> hash_ok (d_fingerprint d) \<and>
     identifier_ok (d_principal_id d) \<and> identifier_ok (d_agent_id d) \<and> hash_ok (d_action_hash d) \<and>
     reference_rail (d_reference d) = d_rail d \<and> reference_ok H (d_reference d) \<and>
     transaction_ok (d_transaction d) \<and> hash_ok (d_policy_hash d) \<and>
     len_between 1 64 (d_policy_version d) \<and> approval_ok (d_approval d) \<and>
     d_reason_codes d \<noteq> [] \<and> timestamp_ok (d_issued_at d) \<and> timestamp_ok (d_expires_at d) \<and>
     base64url (d_nonce d) \<and>
     (case d_supersedes d of None \<Rightarrow> True | Some i \<Rightarrow> identifier_ok i) \<and>
     identifier_ok (d_key_id d) \<and> base64url (d_signature d) \<and>
     \<not> time_of (d_expires_at d) \<le> time_of (d_issued_at d) \<and>
     distinct (d_reason_codes d)"

definition check_decision :: "host \<Rightarrow> decision \<Rightarrow> error + decision" where
  "check_decision H d = (if decision_ok H d then Inr d else Inl ZodError)"

subsection \<open>The key registry\<close>

record key_entry =
  k_key_id :: string
  k_public_key :: string
  k_fingerprint :: string
  k_status :: key_status
  k_not_before :: string
  k_not_after :: "string option"

definition key_entry_ok :: "key_entry \<Rightarrow> bool" where
  "key_entry_ok k \<longleftrightarrow>
     identifier_ok (k_key_id k) \<and> base64url (k_public_key k) \<and> hash_ok (k_fingerprint k) \<and>
     timestamp_ok (k_not_before k) \<and>
     (case k_not_after k of None \<Rightarrow> True | Some t \<Rightarrow> timestamp_ok t)"

definition registry_ok :: "key_entry list \<Rightarrow> bool" where
  "registry_ok ks \<longleftrightarrow> ks \<noteq> [] \<and> list_all key_entry_ok ks \<and> distinct (map k_key_id ks)"

definition check_registry :: "key_entry list \<Rightarrow> error + key_entry list" where
  "check_registry ks = (if registry_ok ks then Inr ks else Inl ZodError)"

end
