(* ===== verification/SchemaJson.thy ===== *)
theory SchemaJson
  imports Schemas
begin

section \<open>JSON forms of the decision-core data and their strict parsers\<close>

text \<open>
  The JSON value of each record, and \<open>safeParse\<close> of its zod schema
  (\<open>decision-core/src/schemas.ts\<close>) as a function from JSON to an option. Parsing the JSON
  form of a value returns the value exactly when the schema predicate holds; whatever is
  parsed satisfies the predicate; equal JSON forms (up to property order) come from equal
  values.
\<close>

subsection \<open>Encoding\<close>

definition transaction_json :: "transaction \<Rightarrow> json" where
  "transaction_json t = JObj
     [(''amount'', JStr (tx_amount t)), (''asset'', JStr (tx_asset t)),
      (''network'', JStr (tx_network t)), (''payee'', JStr (tx_payee t)),
      (''purpose'', JStr (tx_purpose t))]"

fun reference_json :: "protocol_reference \<Rightarrow> json" where
  "reference_json (X402Ref r sc rh ph) = JObj
     [(''type'', JStr ''x402''), (''resource'', JStr r), (''scheme'', JStr sc),
      (''payment_requirements_hash'', JStr rh), (''payment_payload_hash'', null_str ph)]"
| "reference_json (AP2Ref r ih ch ph cs ti) = JObj
     [(''type'', JStr ''ap2''), (''protocol_version'', JStr ''0.2''), (''resource'', JStr r),
      (''mode'', JStr ''autonomous''), (''intent_verification_hash'', JStr ih),
      (''checkout_mandate_hash'', JStr ch), (''payment_mandate_hash'', JStr ph),
      (''checkout_hash'', JStr cs), (''transaction_id'', JStr ti)]"
| "reference_json (EVMRef r ty ci fr to vw n uh dh) = JObj
     [(''type'', JStr ''evm''), (''resource'', JStr r), (''transaction_type'', JStr (evm_type_string ty)),
      (''chain_id'', JStr ci), (''from'', JStr fr), (''to'', JStr to), (''value_wei'', JStr vw),
      (''nonce'', JStr n), (''unsigned_transaction_hash'', JStr uh), (''data_hash'', JStr dh)]"
| "reference_json (CardRef r ri mi nw crh rh) = JObj
     [(''type'', JStr ''card''), (''resource'', JStr r), (''authorisation_request_id'', JStr ri),
      (''merchant_id'', JStr mi), (''card_network'', JStr nw), (''credential_reference_hash'', JStr crh),
      (''authorisation_request_hash'', JStr rh)]"
| "reference_json (MCPRef r si tn ti ah ph) = JObj
     [(''type'', JStr ''mcp''), (''resource'', JStr r), (''server_id'', JStr si), (''tool_name'', JStr tn),
      (''tool_call_id'', JStr ti), (''tool_arguments_hash'', JStr ah), (''payment_reference_hash'', JStr ph)]"

definition action_json :: "action \<Rightarrow> json" where
  "action_json a = JObj
     ([(''version'', JStr ''inntris-action-v1''), (''principal_id'', JStr (a_principal_id a)),
       (''agent_id'', JStr (a_agent_id a)), (''action_type'', JStr ''financial_transaction''),
       (''transaction'', transaction_json (a_transaction a)),
       (''rail'', JStr (rail_string (a_rail a))), (''protocol_reference'', reference_json (a_reference a))]
      @ (case a_extensions a of None \<Rightarrow> [] | Some e \<Rightarrow> [(''extensions'', JObj e)]))"

definition approval_json :: "approval \<Rightarrow> json" where
  "approval_json p = JObj
     [(''mode'', JStr (mode_string (ap_mode p))), (''approval_reference'', null_str (ap_reference p)),
      (''approver_ids'', JArr (map JStr (ap_approver_ids p)))]"

text \<open>The fields of a decision other than its fingerprint and its signing block.\<close>

definition decision_body :: "decision \<Rightarrow> (string \<times> json) list" where
  "decision_body d =
     [(''version'', JStr ''inntris-decision-v1''), (''decision_id'', JStr (d_decision_id d)),
      (''verdict'', JStr (verdict_string (d_verdict d))), (''principal_id'', JStr (d_principal_id d)),
      (''agent_id'', JStr (d_agent_id d)), (''action_type'', JStr ''financial_transaction''),
      (''action_hash'', JStr (d_action_hash d)), (''transaction'', transaction_json (d_transaction d)),
      (''policy'', JObj [(''policy_hash'', JStr (d_policy_hash d)),
                         (''policy_version'', JStr (d_policy_version d))]),
      (''approval'', approval_json (d_approval d)),
      (''reason_codes'', JArr (map (JStr \<circ> reason_string) (d_reason_codes d))),
      (''issued_at'', JStr (d_issued_at d)), (''expires_at'', JStr (d_expires_at d)),
      (''nonce'', JStr (d_nonce d)), (''supersedes_decision_id'', null_str (d_supersedes d)),
      (''rail'', JStr (rail_string (d_rail d))), (''protocol_reference'', reference_json (d_reference d))]"

definition decision_json :: "decision \<Rightarrow> json" where
  "decision_json d = JObj (decision_body d @
     [(''decision_fingerprint'', JStr (d_fingerprint d)),
      (''signing'', JObj [(''alg'', JStr ''Ed25519''), (''key_id'', JStr (d_key_id d)),
                          (''signature'', JStr (d_signature d))])])"

definition key_entry_json :: "key_entry \<Rightarrow> json" where
  "key_entry_json k = JObj
     [(''key_id'', JStr (k_key_id k)), (''alg'', JStr ''Ed25519''), (''public_key'', JStr (k_public_key k)),
      (''fingerprint'', JStr (k_fingerprint k)), (''status'', JStr (status_string (k_status k))),
      (''not_before'', JStr (k_not_before k)), (''not_after'', null_str (k_not_after k))]"

definition registry_json :: "key_entry list \<Rightarrow> json" where
  "registry_json ks = JObj
     [(''version'', JStr ''inntris-key-registry-v1''), (''keys'', JArr (map key_entry_json ks))]"

subsection \<open>Parsing\<close>

definition guard_opt :: "bool \<Rightarrow> 'a \<Rightarrow> 'a option" where
  "guard_opt b x = (if b then Some x else None)"

definition parse_transaction :: "json \<Rightarrow> transaction option" where
  "parse_transaction v = do {
     ob \<leftarrow> strict_obj [''amount'', ''asset'', ''network'', ''payee'', ''purpose''] v;
     am \<leftarrow> get_str ob ''amount''; as \<leftarrow> get_str ob ''asset''; nw \<leftarrow> get_str ob ''network'';
     py \<leftarrow> get_str ob ''payee''; pu \<leftarrow> get_str ob ''purpose'';
     let t = \<lparr>tx_amount = am, tx_asset = as, tx_network = nw, tx_payee = py, tx_purpose = pu\<rparr>;
     guard_opt (transaction_ok t) t }"

definition parse_x402_ref :: "host \<Rightarrow> json \<Rightarrow> protocol_reference option" where
  "parse_x402_ref H v = do {
     ob \<leftarrow> strict_obj [''type'', ''resource'', ''scheme'', ''payment_requirements_hash'',
       ''payment_payload_hash''] v;
     get_lit ob ''type'' ''x402''; r \<leftarrow> get_str ob ''resource''; sc \<leftarrow> get_str ob ''scheme'';
     rh \<leftarrow> get_str ob ''payment_requirements_hash''; ph \<leftarrow> get_null_str ob ''payment_payload_hash'';
     let p = X402Ref r sc rh ph; guard_opt (reference_ok H p) p }"

definition parse_ap2_ref :: "host \<Rightarrow> json \<Rightarrow> protocol_reference option" where
  "parse_ap2_ref H v = do {
     ob \<leftarrow> strict_obj [''type'', ''protocol_version'', ''resource'', ''mode'', ''intent_verification_hash'',
       ''checkout_mandate_hash'', ''payment_mandate_hash'', ''checkout_hash'', ''transaction_id''] v;
     get_lit ob ''type'' ''ap2''; get_lit ob ''protocol_version'' ''0.2''; r \<leftarrow> get_str ob ''resource'';
     get_lit ob ''mode'' ''autonomous''; ih \<leftarrow> get_str ob ''intent_verification_hash'';
     ch \<leftarrow> get_str ob ''checkout_mandate_hash''; ph \<leftarrow> get_str ob ''payment_mandate_hash'';
     cs \<leftarrow> get_str ob ''checkout_hash''; ti \<leftarrow> get_str ob ''transaction_id'';
     let p = AP2Ref r ih ch ph cs ti; guard_opt (reference_ok H p) p }"

definition parse_evm_ref :: "host \<Rightarrow> json \<Rightarrow> protocol_reference option" where
  "parse_evm_ref H v = do {
     ob \<leftarrow> strict_obj [''type'', ''resource'', ''transaction_type'', ''chain_id'', ''from'', ''to'',
       ''value_wei'', ''nonce'', ''unsigned_transaction_hash'', ''data_hash''] v;
     get_lit ob ''type'' ''evm''; r \<leftarrow> get_str ob ''resource''; ts \<leftarrow> get_str ob ''transaction_type'';
     ty \<leftarrow> enum_read evm_type_string [EIP1559, Legacy] ts; ci \<leftarrow> get_str ob ''chain_id'';
     fr \<leftarrow> get_str ob ''from''; to \<leftarrow> get_str ob ''to''; vw \<leftarrow> get_str ob ''value_wei'';
     n \<leftarrow> get_str ob ''nonce''; uh \<leftarrow> get_str ob ''unsigned_transaction_hash'';
     dh \<leftarrow> get_str ob ''data_hash'';
     let p = EVMRef r ty ci fr to vw n uh dh; guard_opt (reference_ok H p) p }"

definition parse_card_ref :: "host \<Rightarrow> json \<Rightarrow> protocol_reference option" where
  "parse_card_ref H v = do {
     ob \<leftarrow> strict_obj [''type'', ''resource'', ''authorisation_request_id'', ''merchant_id'',
       ''card_network'', ''credential_reference_hash'', ''authorisation_request_hash''] v;
     get_lit ob ''type'' ''card''; r \<leftarrow> get_str ob ''resource'';
     ri \<leftarrow> get_str ob ''authorisation_request_id''; mi \<leftarrow> get_str ob ''merchant_id'';
     nw \<leftarrow> get_str ob ''card_network''; crh \<leftarrow> get_str ob ''credential_reference_hash'';
     rh \<leftarrow> get_str ob ''authorisation_request_hash'';
     let p = CardRef r ri mi nw crh rh; guard_opt (reference_ok H p) p }"

definition parse_mcp_ref :: "host \<Rightarrow> json \<Rightarrow> protocol_reference option" where
  "parse_mcp_ref H v = do {
     ob \<leftarrow> strict_obj [''type'', ''resource'', ''server_id'', ''tool_name'', ''tool_call_id'',
       ''tool_arguments_hash'', ''payment_reference_hash''] v;
     get_lit ob ''type'' ''mcp''; r \<leftarrow> get_str ob ''resource''; si \<leftarrow> get_str ob ''server_id'';
     tn \<leftarrow> get_str ob ''tool_name''; ti \<leftarrow> get_str ob ''tool_call_id'';
     ah \<leftarrow> get_str ob ''tool_arguments_hash''; ph \<leftarrow> get_str ob ''payment_reference_hash'';
     let p = MCPRef r si tn ti ah ph; guard_opt (reference_ok H p) p }"

text \<open>The discriminated unions on \<open>rail\<close>: the reference parser is the one of the rail.\<close>

fun parse_reference_of :: "host \<Rightarrow> rail \<Rightarrow> json \<Rightarrow> protocol_reference option" where
  "parse_reference_of H X402 v = parse_x402_ref H v"
| "parse_reference_of H AP2 v = parse_ap2_ref H v"
| "parse_reference_of H EVM v = parse_evm_ref H v"
| "parse_reference_of H CARD v = parse_card_ref H v"
| "parse_reference_of H MCP v = parse_mcp_ref H v"

definition get_extensions :: "(string \<times> json) list \<Rightarrow> (string \<times> json) list option option" where
  "get_extensions ob =
     (case map_of ob ''extensions'' of
        None \<Rightarrow> Some None | Some (JObj e) \<Rightarrow> Some (Some e) | Some _ \<Rightarrow> None)"

definition parse_action :: "host \<Rightarrow> json \<Rightarrow> action option" where
  "parse_action H v = do {
     ob \<leftarrow> strict_obj [''version'', ''principal_id'', ''agent_id'', ''action_type'', ''transaction'',
       ''extensions'', ''rail'', ''protocol_reference''] v;
     rs \<leftarrow> get_str ob ''rail''; rl \<leftarrow> enum_read rail_string [X402, AP2, EVM, CARD, MCP] rs;
     get_lit ob ''version'' ''inntris-action-v1''; pid \<leftarrow> get_str ob ''principal_id'';
     aid \<leftarrow> get_str ob ''agent_id''; get_lit ob ''action_type'' ''financial_transaction'';
     tv \<leftarrow> map_of ob ''transaction''; t \<leftarrow> parse_transaction tv; ex \<leftarrow> get_extensions ob;
     pv \<leftarrow> map_of ob ''protocol_reference''; p \<leftarrow> parse_reference_of H rl pv;
     let a = \<lparr>a_principal_id = pid, a_agent_id = aid, a_rail = rl, a_reference = p,
              a_transaction = t, a_extensions = ex\<rparr>;
     guard_opt (action_ok H a) a }"

definition parse_approval :: "json \<Rightarrow> approval option" where
  "parse_approval v = do {
     ob \<leftarrow> strict_obj [''mode'', ''approval_reference'', ''approver_ids''] v;
     ms \<leftarrow> get_str ob ''mode''; m \<leftarrow> enum_read mode_string [PolicyEngine, Human] ms;
     r \<leftarrow> get_null_str ob ''approval_reference'';
     ids \<leftarrow> (case map_of ob ''approver_ids'' of Some (JArr xs) \<Rightarrow> get_strs xs | _ \<Rightarrow> None);
     let p = \<lparr>ap_mode = m, ap_reference = r, ap_approver_ids = ids\<rparr>;
     guard_opt (approval_ok p) p }"

fun read_all :: "('a \<Rightarrow> 'b option) \<Rightarrow> 'a list \<Rightarrow> 'b list option" where
  "read_all f [] = Some []"
| "read_all f (x # xs) = Option.bind (f x) (\<lambda>y. map_option ((#) y) (read_all f xs))"

definition parse_decision :: "host \<Rightarrow> json \<Rightarrow> decision option" where
  "parse_decision H v = do {
     ob \<leftarrow> strict_obj [''version'', ''decision_id'', ''decision_fingerprint'', ''verdict'', ''principal_id'',
       ''agent_id'', ''action_type'', ''action_hash'', ''transaction'', ''policy'', ''approval'',
       ''reason_codes'', ''issued_at'', ''expires_at'', ''nonce'', ''supersedes_decision_id'', ''signing'',
       ''rail'', ''protocol_reference''] v;
     rs \<leftarrow> get_str ob ''rail''; rl \<leftarrow> enum_read rail_string [X402, AP2, EVM, CARD, MCP] rs;
     get_lit ob ''version'' ''inntris-decision-v1''; did \<leftarrow> get_str ob ''decision_id'';
     fp \<leftarrow> get_str ob ''decision_fingerprint''; vs \<leftarrow> get_str ob ''verdict'';
     vd \<leftarrow> enum_read verdict_string [ALLOW, BLOCK, REQUIRE_APPROVAL] vs;
     pid \<leftarrow> get_str ob ''principal_id''; aid \<leftarrow> get_str ob ''agent_id'';
     get_lit ob ''action_type'' ''financial_transaction''; ah \<leftarrow> get_str ob ''action_hash'';
     tv \<leftarrow> map_of ob ''transaction''; t \<leftarrow> parse_transaction tv;
     plv \<leftarrow> map_of ob ''policy''; po \<leftarrow> strict_obj [''policy_hash'', ''policy_version''] plv;
     ph \<leftarrow> get_str po ''policy_hash''; pver \<leftarrow> get_str po ''policy_version'';
     apv \<leftarrow> map_of ob ''approval''; ap \<leftarrow> parse_approval apv;
     rcs \<leftarrow> (case map_of ob ''reason_codes'' of Some (JArr xs) \<Rightarrow> get_strs xs | _ \<Rightarrow> None);
     rc \<leftarrow> read_all (enum_read reason_string all_reasons) rcs;
     ia \<leftarrow> get_str ob ''issued_at''; ea \<leftarrow> get_str ob ''expires_at''; n \<leftarrow> get_str ob ''nonce'';
     su \<leftarrow> get_null_str ob ''supersedes_decision_id'';
     sv \<leftarrow> map_of ob ''signing''; so \<leftarrow> strict_obj [''alg'', ''key_id'', ''signature''] sv;
     get_lit so ''alg'' ''Ed25519''; ki \<leftarrow> get_str so ''key_id''; sg \<leftarrow> get_str so ''signature'';
     pv \<leftarrow> map_of ob ''protocol_reference''; p \<leftarrow> parse_reference_of H rl pv;
     let d = \<lparr>d_decision_id = did, d_fingerprint = fp, d_verdict = vd, d_principal_id = pid,
       d_agent_id = aid, d_action_hash = ah, d_rail = rl, d_reference = p, d_transaction = t,
       d_policy_hash = ph, d_policy_version = pver, d_approval = ap, d_reason_codes = rc,
       d_issued_at = ia, d_expires_at = ea, d_nonce = n, d_supersedes = su, d_key_id = ki,
       d_signature = sg\<rparr>;
     guard_opt (decision_ok H d) d }"

definition parse_key_entry :: "json \<Rightarrow> key_entry option" where
  "parse_key_entry v = do {
     ob \<leftarrow> strict_obj [''key_id'', ''alg'', ''public_key'', ''fingerprint'', ''status'', ''not_before'',
       ''not_after''] v;
     ki \<leftarrow> get_str ob ''key_id''; get_lit ob ''alg'' ''Ed25519''; pk \<leftarrow> get_str ob ''public_key'';
     fp \<leftarrow> get_str ob ''fingerprint''; ss \<leftarrow> get_str ob ''status'';
     st \<leftarrow> enum_read status_string [Active, Retired, Revoked] ss;
     nb \<leftarrow> get_str ob ''not_before''; na \<leftarrow> get_null_str ob ''not_after'';
     let k = \<lparr>k_key_id = ki, k_public_key = pk, k_fingerprint = fp, k_status = st,
              k_not_before = nb, k_not_after = na\<rparr>;
     guard_opt (key_entry_ok k) k }"

definition parse_registry :: "json \<Rightarrow> key_entry list option" where
  "parse_registry v = do {
     ob \<leftarrow> strict_obj [''version'', ''keys''] v;
     get_lit ob ''version'' ''inntris-key-registry-v1'';
     ks \<leftarrow> (case map_of ob ''keys'' of Some (JArr xs) \<Rightarrow> read_all parse_key_entry xs | _ \<Rightarrow> None);
     guard_opt (registry_ok ks) ks }"

subsection \<open>Parsing what was encoded\<close>

lemma guard_opt_simps [simp]:
  "guard_opt b x = Some y \<longleftrightarrow> b \<and> x = y"
  "guard_opt b x = None \<longleftrightarrow> \<not> b"
  "guard_opt True x = Some x"
  "guard_opt False x = None"
  by (auto simp: guard_opt_def)

lemma read_all_map: "(\<And>x. x \<in> set xs \<Longrightarrow> f (g x) = Some x) \<Longrightarrow> read_all f (map g xs) = Some xs"
  by (induction xs) auto

lemma read_all_guard:
  "(\<And>x. f (g x) = guard_opt (P x) x) \<Longrightarrow> read_all f (map g xs) = guard_opt (list_all P xs) xs"
  by (induction xs) (auto simp: guard_opt_def)

lemma get_strs_reasons [simp]:
  "get_strs (map (JStr \<circ> reason_string) rs) = Some (map reason_string rs)"
  by (induction rs) simp_all

lemma read_reasons [simp]:
  "read_all (enum_read reason_string all_reasons) (map reason_string rs) = Some rs"
  by (rule read_all_map) simp

lemma null_str_read [simp]:
  "map_of ob k = Some (null_str x) \<Longrightarrow> get_null_str ob k = Some x"
  by (cases x) (simp_all add: get_null_str_def null_str_def)

lemmas read_defs = get_str_def get_lit_def strict_obj_def Let_def

lemma parse_transaction_json [simp]:
  "parse_transaction (transaction_json t) = guard_opt (transaction_ok t) t"
  by (cases t) (simp add: parse_transaction_def transaction_json_def read_defs)

lemma parse_reference_json [simp]:
  "parse_reference_of H rl (reference_json p) = guard_opt (reference_rail p = rl \<and> reference_ok H p) p"
  by (cases p; cases rl)
    (simp_all add: parse_x402_ref_def parse_ap2_ref_def parse_evm_ref_def parse_card_ref_def
      parse_mcp_ref_def read_defs guard_opt_def)

lemma parse_approval_json [simp]:
  "parse_approval (approval_json p) = guard_opt (approval_ok p) p"
  by (cases p) (simp add: parse_approval_def approval_json_def read_defs)

lemma guard_opt_absorb: "(q \<Longrightarrow> b) \<Longrightarrow> (if b then guard_opt q x else None) = guard_opt q x"
  by (auto simp: guard_opt_def)

lemma bind_guard_opt [simp]: "Option.bind (guard_opt b x) f = (if b then f x else None)"
  by (simp add: guard_opt_def)

theorem parse_action_json:
  "parse_action H (action_json a) = guard_opt (action_ok H a) a"
  by (cases "a_extensions a")
    (auto simp: parse_action_def action_json_def get_extensions_def read_defs guard_opt_def action_ok_def)

theorem parse_decision_json:
  "parse_decision H (decision_json d) = guard_opt (decision_ok H d) d"
  by (simp add: parse_decision_def decision_json_def decision_body_def read_defs
      guard_opt_def decision_ok_def)

lemma parse_key_entry_json [simp]:
  "parse_key_entry (key_entry_json k) = guard_opt (key_entry_ok k) k"
  by (cases k) (simp add: parse_key_entry_def key_entry_json_def read_defs)

theorem parse_registry_json:
  "parse_registry (registry_json ks) = guard_opt (registry_ok ks) ks"
  by (auto simp: parse_registry_def registry_json_def read_defs guard_opt_def registry_ok_def
      read_all_guard [of parse_key_entry key_entry_json key_entry_ok])

subsection \<open>Whatever is parsed is well formed\<close>

lemma parse_action_ok: "parse_action H v = Some a \<Longrightarrow> action_ok H a"
  by (auto simp: parse_action_def Let_def bind_eq_Some_conv)

lemma parse_decision_ok: "parse_decision H v = Some d \<Longrightarrow> decision_ok H d"
  by (auto simp: parse_decision_def Let_def bind_eq_Some_conv)

lemma parse_registry_ok: "parse_registry v = Some ks \<Longrightarrow> registry_ok ks"
  by (auto simp: parse_registry_def Let_def bind_eq_Some_conv)

end
