(* ===== verification/Signing.thy ===== *)
theory Signing
  imports SchemaJson
begin

section \<open>Canonical hashes, fingerprints and signatures\<close>

text \<open>
  \<open>canonical.ts\<close>, \<open>signing.ts\<close> and \<open>decision.ts\<close> of decision-core: hashes over canonical
  JSON, the two preimages of a decision (fingerprint and signature), issuing a signed
  decision, and the in-process Ed25519 signing provider. Lemmas: equal hashes of two values
  whose bytes do not collide mean equal values; the fingerprint covers every field but
  itself and the signature; an issued decision passes its schema, carries its own
  fingerprint and verifies under the signer's key.
\<close>

subsection \<open>canonical.ts\<close>

definition canonicalise :: "host \<Rightarrow> json option \<Rightarrow> error + string" where
  "canonicalise H v =
     (case v of
        None \<Rightarrow> Inl (JsError ''TypeError'' ''Value cannot be represented by RFC 8785 JCS'')
      | Some j \<Rightarrow> Inr (canonicalize H j))"

definition canonical_bytes :: "host \<Rightarrow> json \<Rightarrow> bytes" where
  "canonical_bytes H v = utf8 (canonicalize H v)"

definition sha256_bytes :: "host \<Rightarrow> bytes \<Rightarrow> string" where
  "sha256_bytes H b = ''sha256:'' @ sha256_hex H b"

definition hash_canonical :: "host \<Rightarrow> json \<Rightarrow> string" where
  "hash_canonical H v = sha256_bytes H (canonical_bytes H v)"

definition hash_action :: "host \<Rightarrow> action \<Rightarrow> error + string" where
  "hash_action H a = bind_sum (check_action H a) (\<lambda>a'. Inr (hash_canonical H (action_json a')))"

lemma hash_action_ok [simp]:
  "action_ok H a \<Longrightarrow> hash_action H a = Inr (hash_canonical H (action_json a))"
  by (simp add: hash_action_def check_action_def)

lemma canonical_bytes_inj:
  "jcs_ok H \<Longrightarrow> canonical_bytes H v = canonical_bytes H w \<Longrightarrow> json_norm v = json_norm w"
  by (auto simp: canonical_bytes_def jcs_ok_def dest: utf8_inj)

definition hash_binds :: "host \<Rightarrow> json \<Rightarrow> json \<Rightarrow> bool" where
  "hash_binds H v w \<longleftrightarrow> no_collision H (canonical_bytes H v) (canonical_bytes H w)"

lemma hash_canonical_inj:
  "jcs_ok H \<Longrightarrow> hash_binds H v w \<Longrightarrow> hash_canonical H v = hash_canonical H w \<Longrightarrow>
    json_norm v = json_norm w"
  by (rule canonical_bytes_inj) (simp_all add: hash_canonical_def sha256_bytes_def hash_binds_def no_collision_def)

lemma hash_canonical_hash_ok: "sha_ok H \<Longrightarrow> hash_ok (hash_canonical H v)"
  by (simp add: hash_ok_def hash_canonical_def sha256_bytes_def sha_ok_def)

subsection \<open>Equal JSON forms come from equal values\<close>

definition obj_fields :: "json \<Rightarrow> (string \<times> json) list" where
  "obj_fields v = (case v of JObj ob \<Rightarrow> ob | _ \<Rightarrow> [])"

lemma obj_fields_JObj [simp]: "obj_fields (JObj ob) = ob"
  by (simp add: obj_fields_def)

lemma json_norm_JObj: "json_norm v = json_norm (JObj ob) \<Longrightarrow> \<exists>ob'. v = JObj ob'"
  by (cases v) auto

lemma json_norm_field:
  assumes "json_norm v = json_norm w"
  shows "map_option json_norm (map_of (obj_fields v) k) = map_option json_norm (map_of (obj_fields w) k)"
proof (cases "\<exists>ob. w = JObj ob")
  case True
  then obtain ob where w: "w = JObj ob" by blast
  obtain ob' where v: "v = JObj ob'" using json_norm_JObj [OF assms [unfolded w]] by blast
  show ?thesis using json_norm_obj_lookup [OF assms [unfolded v w], of k] by (simp add: v w)
next
  case False
  then have "obj_fields w = []" by (cases w) (simp_all add: obj_fields_def)
  moreover have "obj_fields v = []"
  proof (cases v)
    case (JObj ob)
    with False json_norm_JObj [of w ob] assms show ?thesis by simp
  qed (simp_all add: obj_fields_def)
  ultimately show ?thesis by simp
qed

lemma json_norm_field_Some:
  "json_norm v = json_norm w \<Longrightarrow> map_of (obj_fields v) k = Some x \<Longrightarrow>
    map_of (obj_fields w) k = Some y \<Longrightarrow> json_norm x = json_norm y"
  using json_norm_field [of v w k] by simp

lemma json_norm_field_str:
  "json_norm v = json_norm w \<Longrightarrow> map_of (obj_fields v) k = Some (JStr x) \<Longrightarrow>
    map_of (obj_fields w) k = Some (JStr y) \<Longrightarrow> x = y"
  using json_norm_field_Some [of v w k "JStr x" "JStr y"] by simp

lemma transaction_json_inj:
  assumes "json_norm (transaction_json s) = json_norm (transaction_json t)"
  shows "s = t"
proof -
  note f = json_norm_field_str [OF assms]
  have "tx_amount s = tx_amount t" by (rule f [of "''amount''"]) (simp_all add: transaction_json_def)
  moreover have "tx_asset s = tx_asset t" by (rule f [of "''asset''"]) (simp_all add: transaction_json_def)
  moreover have "tx_network s = tx_network t" by (rule f [of "''network''"]) (simp_all add: transaction_json_def)
  moreover have "tx_payee s = tx_payee t" by (rule f [of "''payee''"]) (simp_all add: transaction_json_def)
  moreover have "tx_purpose s = tx_purpose t" by (rule f [of "''purpose''"]) (simp_all add: transaction_json_def)
  ultimately show ?thesis by (cases s; cases t) simp
qed

lemma reference_json_rail:
  "map_of (obj_fields (reference_json p)) ''type'' = Some (JStr (rail_string (reference_rail p)))"
  by (cases p) simp_all

lemma reference_json_resource:
  "map_of (obj_fields (reference_json p)) ''resource'' = Some (JStr (pr_resource p))"
  by (cases p) simp_all

lemma reference_json_inj:
  assumes a: "json_norm (reference_json p) = json_norm (reference_json q)"
  shows "p = q"
proof -
  note f = json_norm_field_str [OF a]
  have rl: "reference_rail p = reference_rail q"
    using f [OF reference_json_rail reference_json_rail] by simp
  have res: "pr_resource p = pr_resource q"
    using f [OF reference_json_resource reference_json_resource] .
  show ?thesis
  proof (cases p)
    case p: (X402Ref r sc rh ph)
    with rl obtain r' sc' rh' ph' where q: "q = X402Ref r' sc' rh' ph'" by (cases q) auto
    have "sc = sc'" by (rule f [of "''scheme''"]) (simp_all add: p q)
    moreover have "rh = rh'" by (rule f [of "''payment_requirements_hash''"]) (simp_all add: p q)
    moreover have "json_norm (null_str ph) = json_norm (null_str ph')"
      by (rule json_norm_field_Some [OF a, of "''payment_payload_hash''"]) (simp_all add: p q)
    ultimately show ?thesis using res by (simp add: p q)
  next
    case p: (AP2Ref r ih ch ph cs ti)
    with rl obtain r' ih' ch' ph' cs' ti' where q: "q = AP2Ref r' ih' ch' ph' cs' ti'" by (cases q) auto
    have "ih = ih'" by (rule f [of "''intent_verification_hash''"]) (simp_all add: p q)
    moreover have "ch = ch'" by (rule f [of "''checkout_mandate_hash''"]) (simp_all add: p q)
    moreover have "ph = ph'" by (rule f [of "''payment_mandate_hash''"]) (simp_all add: p q)
    moreover have "cs = cs'" by (rule f [of "''checkout_hash''"]) (simp_all add: p q)
    moreover have "ti = ti'" by (rule f [of "''transaction_id''"]) (simp_all add: p q)
    ultimately show ?thesis using res by (simp add: p q)
  next
    case p: (EVMRef r ty ci fr to vw n uh dh)
    with rl obtain r' ty' ci' fr' to' vw' n' uh' dh'
      where q: "q = EVMRef r' ty' ci' fr' to' vw' n' uh' dh'" by (cases q) auto
    have "evm_type_string ty = evm_type_string ty'" by (rule f [of "''transaction_type''"]) (simp_all add: p q)
    moreover have "ci = ci'" by (rule f [of "''chain_id''"]) (simp_all add: p q)
    moreover have "fr = fr'" by (rule f [of "''from''"]) (simp_all add: p q)
    moreover have "to = to'" by (rule f [of "''to''"]) (simp_all add: p q)
    moreover have "vw = vw'" by (rule f [of "''value_wei''"]) (simp_all add: p q)
    moreover have "n = n'" by (rule f [of "''nonce''"]) (simp_all add: p q)
    moreover have "uh = uh'" by (rule f [of "''unsigned_transaction_hash''"]) (simp_all add: p q)
    moreover have "dh = dh'" by (rule f [of "''data_hash''"]) (simp_all add: p q)
    ultimately show ?thesis using res by (simp add: p q)
  next
    case p: (CardRef r ri mi nw crh rh)
    with rl obtain r' ri' mi' nw' crh' rh' where q: "q = CardRef r' ri' mi' nw' crh' rh'" by (cases q) auto
    have "ri = ri'" by (rule f [of "''authorisation_request_id''"]) (simp_all add: p q)
    moreover have "mi = mi'" by (rule f [of "''merchant_id''"]) (simp_all add: p q)
    moreover have "nw = nw'" by (rule f [of "''card_network''"]) (simp_all add: p q)
    moreover have "crh = crh'" by (rule f [of "''credential_reference_hash''"]) (simp_all add: p q)
    moreover have "rh = rh'" by (rule f [of "''authorisation_request_hash''"]) (simp_all add: p q)
    ultimately show ?thesis using res by (simp add: p q)
  next
    case p: (MCPRef r si tn ti ah ph)
    with rl obtain r' si' tn' ti' ah' ph' where q: "q = MCPRef r' si' tn' ti' ah' ph'" by (cases q) auto
    have "si = si'" by (rule f [of "''server_id''"]) (simp_all add: p q)
    moreover have "tn = tn'" by (rule f [of "''tool_name''"]) (simp_all add: p q)
    moreover have "ti = ti'" by (rule f [of "''tool_call_id''"]) (simp_all add: p q)
    moreover have "ah = ah'" by (rule f [of "''tool_arguments_hash''"]) (simp_all add: p q)
    moreover have "ph = ph'" by (rule f [of "''payment_reference_hash''"]) (simp_all add: p q)
    ultimately show ?thesis using res by (simp add: p q)
  qed
qed

text \<open>Two actions that agree in everything, their extensions up to property order.\<close>

definition same_action :: "action \<Rightarrow> action \<Rightarrow> bool" where
  "same_action a b \<longleftrightarrow>
     a_principal_id a = a_principal_id b \<and> a_agent_id a = a_agent_id b \<and> a_rail a = a_rail b \<and>
     a_reference a = a_reference b \<and> a_transaction a = a_transaction b \<and>
     map_option (json_norm \<circ> JObj) (a_extensions a) = map_option (json_norm \<circ> JObj) (a_extensions b)"

lemma action_json_inj:
  assumes eq: "json_norm (action_json a) = json_norm (action_json b)"
  shows "same_action a b"
proof -
  note f = json_norm_field_str [OF eq] and g = json_norm_field_Some [OF eq]
  have "a_principal_id a = a_principal_id b" by (rule f [of "''principal_id''"]) (simp_all add: action_json_def)
  moreover have "a_agent_id a = a_agent_id b" by (rule f [of "''agent_id''"]) (simp_all add: action_json_def)
  moreover have "rail_string (a_rail a) = rail_string (a_rail b)"
    by (rule f [of "''rail''"]) (simp_all add: action_json_def)
  moreover have "a_reference a = a_reference b"
    by (rule reference_json_inj, rule g [of "''protocol_reference''"]) (simp_all add: action_json_def)
  moreover have "a_transaction a = a_transaction b"
    by (rule transaction_json_inj, rule g [of "''transaction''"]) (simp_all add: action_json_def)
  moreover have "map_option (json_norm \<circ> JObj) (a_extensions a) = map_option (json_norm \<circ> JObj) (a_extensions b)"
    using json_norm_field [OF eq, of "''extensions''"]
    by (cases "a_extensions a"; cases "a_extensions b") (simp_all add: action_json_def)
  ultimately show ?thesis by (simp add: same_action_def)
qed

subsection \<open>signing.ts: the preimages of a decision\<close>

definition fingerprint_payload :: "decision \<Rightarrow> json" where
  "fingerprint_payload d = JObj (decision_body d @
     [(''signing'', JObj [(''alg'', JStr ''Ed25519''), (''key_id'', JStr (d_key_id d))])])"

definition signable_payload :: "decision \<Rightarrow> json" where
  "signable_payload d = JObj (decision_body d @
     [(''decision_fingerprint'', JStr (d_fingerprint d)),
      (''signing'', JObj [(''alg'', JStr ''Ed25519''), (''key_id'', JStr (d_key_id d))])])"

definition calculate_fingerprint :: "host \<Rightarrow> decision \<Rightarrow> string" where
  "calculate_fingerprint H d = sha256_bytes H (canonical_bytes H (fingerprint_payload d))"

definition verify_ed25519 :: "host \<Rightarrow> bytes \<Rightarrow> string \<Rightarrow> bytes \<Rightarrow> bool" where
  "verify_ed25519 H payload sig pk \<longleftrightarrow>
     length pk = 32 \<and>
     (let s = b64url_decode sig in length s = 64 \<and> ed_verify H payload s pk)"

definition verify_signature :: "host \<Rightarrow> decision \<Rightarrow> bytes \<Rightarrow> bool" where
  "verify_signature H d pk =
     verify_ed25519 H (canonical_bytes H (signable_payload d)) (d_signature d) pk"

definition public_key_fingerprint :: "host \<Rightarrow> bytes \<Rightarrow> string" where
  "public_key_fingerprint H pk = sha256_bytes H pk"

text \<open>The interface \<open>SigningProvider\<close>; its \<open>algorithm\<close> is the literal \<open>Ed25519\<close>.\<close>

record signer =
  s_key_id :: string
  s_public_key :: bytes
  s_sign :: "bytes \<Rightarrow> error + string"

text \<open>\<open>Ed25519SigningProvider.fromSeed\<close> and \<open>fromBase64UrlSeed\<close>.\<close>

definition signer_from_seed :: "host \<Rightarrow> string \<Rightarrow> bytes \<Rightarrow> error + signer" where
  "signer_from_seed H kid seed =
     (if length seed \<noteq> 32 then Inl (JsError ''TypeError'' ''Ed25519 seed must be 32 bytes'')
      else case ed_keypair H seed of (pk, sk) \<Rightarrow>
        Inr \<lparr>s_key_id = kid, s_public_key = pk,
             s_sign = (\<lambda>payload. Inr (b64url_encode (ed_sign H sk payload)))\<rparr>)"

definition signer_from_base64 :: "host \<Rightarrow> string \<Rightarrow> string \<Rightarrow> error + signer" where
  "signer_from_base64 H kid enc =
     (if base64url enc then signer_from_seed H kid (b64url_decode enc) else Inl ZodError)"

text \<open>
  \<open>attachDecisionSignature\<close>. The record given stands for the unsigned decision: its
  fingerprint and signature fields are not read.
\<close>

definition attach_signature :: "host \<Rightarrow> signer \<Rightarrow> decision \<Rightarrow> error + decision" where
  "attach_signature H sg d =
     (if d_key_id d \<noteq> s_key_id sg
      then Inl (JsError ''TypeError'' ''Signing identity does not match the selected signing provider'')
      else let signable = d\<lparr>d_fingerprint := calculate_fingerprint H d\<rparr>
           in bind_sum (s_sign sg (canonical_bytes H (signable_payload signable)))
                (\<lambda>sig. check_decision H (signable\<lparr>d_signature := sig\<rparr>)))"

definition key_registry_entry ::
  "host \<Rightarrow> signer \<Rightarrow> int \<Rightarrow> int option \<Rightarrow> key_status option \<Rightarrow> error + key_entry" where
  "key_registry_entry H sg not_before not_after status =
     (case (to_iso_string not_before, map_option to_iso_string not_after) of
        (None, _) \<Rightarrow> Inl (JsError ''RangeError'' ''Invalid time value'')
      | (_, Some None) \<Rightarrow> Inl (JsError ''RangeError'' ''Invalid time value'')
      | (Some nb, na) \<Rightarrow>
          (let k = \<lparr>k_key_id = s_key_id sg, k_public_key = b64url_encode (s_public_key sg),
                    k_fingerprint = public_key_fingerprint H (s_public_key sg),
                    k_status = (case status of None \<Rightarrow> Active | Some st \<Rightarrow> st),
                    k_not_before = nb, k_not_after = Option.bind na (\<lambda>x. x)\<rparr>
           in if key_entry_ok k then Inr k else Inl ZodError))"

subsection \<open>decision.ts: issuing a decision\<close>

record evaluation =
  ev_verdict :: verdict
  ev_reasons :: "reason_code list"
  ev_approval :: approval

text \<open>
  What \<open>createSignedDecision\<close> is given besides the action and the signer; \<open>ci_now\<close> is the
  reading of the clock, \<open>ci_decision_id\<close> and \<open>ci_nonce\<close> what the caller or the runtime's
  \<open>randomUUID\<close> and \<open>randomBytes\<close> supplied.
\<close>

record create_input =
  ci_evaluation :: evaluation
  ci_policy_hash :: string
  ci_policy_version :: string
  ci_ttl_seconds :: int
  ci_now :: int
  ci_decision_id :: string
  ci_nonce :: string
  ci_supersedes :: "string option"

definition unsigned_decision ::
  "host \<Rightarrow> signer \<Rightarrow> action \<Rightarrow> create_input \<Rightarrow> string \<Rightarrow> string \<Rightarrow> decision" where
  "unsigned_decision H sg a ci issued expires =
     \<lparr>d_decision_id = ci_decision_id ci, d_fingerprint = [], d_verdict = ev_verdict (ci_evaluation ci),
      d_principal_id = a_principal_id a, d_agent_id = a_agent_id a,
      d_action_hash = hash_canonical H (action_json a), d_rail = a_rail a,
      d_reference = a_reference a, d_transaction = a_transaction a,
      d_policy_hash = ci_policy_hash ci, d_policy_version = ci_policy_version ci,
      d_approval = ev_approval (ci_evaluation ci), d_reason_codes = ev_reasons (ci_evaluation ci),
      d_issued_at = issued, d_expires_at = expires, d_nonce = ci_nonce ci,
      d_supersedes = ci_supersedes ci, d_key_id = s_key_id sg, d_signature = []\<rparr>"

definition create_signed_decision ::
  "host \<Rightarrow> signer \<Rightarrow> action \<Rightarrow> create_input \<Rightarrow> error + decision" where
  "create_signed_decision H sg input_action ci =
     bind_sum (check_action H input_action) (\<lambda>a.
       (case (to_iso_string (ci_now ci), to_iso_string (ci_now ci + ci_ttl_seconds ci * 1000)) of
          (Some issued, Some expires) \<Rightarrow>
            attach_signature H sg (unsigned_decision H sg a ci issued expires)
        | _ \<Rightarrow> Inl (JsError ''RangeError'' ''Invalid time value'')))"

subsection \<open>What the fingerprint covers\<close>

text \<open>All fields of two decisions agree except the fingerprint and the signature.\<close>

definition same_content :: "decision \<Rightarrow> decision \<Rightarrow> bool" where
  "same_content d e \<longleftrightarrow> d\<lparr>d_fingerprint := [], d_signature := []\<rparr> = e\<lparr>d_fingerprint := [], d_signature := []\<rparr>"

definition fingerprint_binds :: "host \<Rightarrow> decision \<Rightarrow> decision \<Rightarrow> bool" where
  "fingerprint_binds H d e \<longleftrightarrow> hash_binds H (fingerprint_payload d) (fingerprint_payload e)"

lemma approval_json_inj:
  assumes a: "json_norm (approval_json p) = json_norm (approval_json q)"
  shows "p = q"
proof -
  note g = json_norm_field_Some [OF a]
  have "json_norm (JStr (mode_string (ap_mode p))) = json_norm (JStr (mode_string (ap_mode q)))"
    by (rule g [of "''mode''"]) (simp_all add: approval_json_def)
  moreover have "json_norm (null_str (ap_reference p)) = json_norm (null_str (ap_reference q))"
    by (rule g [of "''approval_reference''"]) (simp_all add: approval_json_def)
  moreover have "json_norm (JArr (map JStr (ap_approver_ids p))) = json_norm (JArr (map JStr (ap_approver_ids q)))"
    by (rule g [of "''approver_ids''"]) (simp_all add: approval_json_def)
  ultimately show ?thesis by (cases p; cases q) (simp add: inj_map_eq_map inj_on_def comp_def)
qed

lemma fingerprint_payload_inj:
  assumes a: "json_norm (fingerprint_payload d) = json_norm (fingerprint_payload e)"
  shows "same_content d e"
proof -
  note f = json_norm_field_str [OF a] and g = json_norm_field_Some [OF a]
  note u = fingerprint_payload_def decision_body_def
  have "d_decision_id d = d_decision_id e" by (rule f [of "''decision_id''"]) (simp_all add: u)
  moreover have "verdict_string (d_verdict d) = verdict_string (d_verdict e)"
    by (rule f [of "''verdict''"]) (simp_all add: u)
  moreover have "d_principal_id d = d_principal_id e" by (rule f [of "''principal_id''"]) (simp_all add: u)
  moreover have "d_agent_id d = d_agent_id e" by (rule f [of "''agent_id''"]) (simp_all add: u)
  moreover have "d_action_hash d = d_action_hash e" by (rule f [of "''action_hash''"]) (simp_all add: u)
  moreover have "rail_string (d_rail d) = rail_string (d_rail e)" by (rule f [of "''rail''"]) (simp_all add: u)
  moreover have "d_reference d = d_reference e"
    by (rule reference_json_inj, rule g [of "''protocol_reference''"]) (simp_all add: u)
  moreover have "d_transaction d = d_transaction e"
    by (rule transaction_json_inj, rule g [of "''transaction''"]) (simp_all add: u)
  moreover have "d_approval d = d_approval e"
    by (rule approval_json_inj, rule g [of "''approval''"]) (simp_all add: u)
  moreover have "d_policy_hash d = d_policy_hash e \<and> d_policy_version d = d_policy_version e"
  proof -
    have p: "json_norm (JObj [(''policy_hash'', JStr (d_policy_hash d)), (''policy_version'', JStr (d_policy_version d))])
      = json_norm (JObj [(''policy_hash'', JStr (d_policy_hash e)), (''policy_version'', JStr (d_policy_version e))])"
      by (rule g [of "''policy''"]) (simp_all add: u)
    have "d_policy_hash d = d_policy_hash e"
      by (rule json_norm_field_str [OF p, of "''policy_hash''"]) simp_all
    moreover have "d_policy_version d = d_policy_version e"
      by (rule json_norm_field_str [OF p, of "''policy_version''"]) simp_all
    ultimately show ?thesis by simp
  qed
  moreover have "d_key_id d = d_key_id e"
  proof -
    have p: "json_norm (JObj [(''alg'', JStr ''Ed25519''), (''key_id'', JStr (d_key_id d))])
      = json_norm (JObj [(''alg'', JStr ''Ed25519''), (''key_id'', JStr (d_key_id e))])"
      by (rule g [of "''signing''"]) (simp_all add: u)
    show ?thesis by (rule json_norm_field_str [OF p, of "''key_id''"]) simp_all
  qed
  moreover have "d_reason_codes d = d_reason_codes e"
  proof -
    have "json_norm (JArr (map (JStr \<circ> reason_string) (d_reason_codes d)))
      = json_norm (JArr (map (JStr \<circ> reason_string) (d_reason_codes e)))"
      by (rule g [of "''reason_codes''"]) (simp_all add: u)
    then have "map (JStr \<circ> reason_string) (d_reason_codes d) = map (JStr \<circ> reason_string) (d_reason_codes e)"
      by (simp add: comp_def)
    then show ?thesis by (rule map_injective) (simp add: inj_on_def)
  qed
  moreover have "d_issued_at d = d_issued_at e" by (rule f [of "''issued_at''"]) (simp_all add: u)
  moreover have "d_expires_at d = d_expires_at e" by (rule f [of "''expires_at''"]) (simp_all add: u)
  moreover have "d_nonce d = d_nonce e" by (rule f [of "''nonce''"]) (simp_all add: u)
  moreover have "json_norm (null_str (d_supersedes d)) = json_norm (null_str (d_supersedes e))"
    by (rule g [of "''supersedes_decision_id''"]) (simp_all add: u)
  ultimately show ?thesis by (cases d; cases e) (simp add: same_content_def)
qed

text \<open>
  Two decisions with one fingerprint agree in every field it covers, unless SHA-256 collides
  on their two preimages.
\<close>

theorem fingerprint_determines_content:
  "jcs_ok H \<Longrightarrow> fingerprint_binds H d e \<Longrightarrow> calculate_fingerprint H d = calculate_fingerprint H e \<Longrightarrow>
    same_content d e"
  by (rule fingerprint_payload_inj, rule hash_canonical_inj [of H])
    (simp_all add: fingerprint_binds_def calculate_fingerprint_def hash_canonical_def)

lemma same_content_refl [simp]: "same_content d d"
  by (simp add: same_content_def)

lemma calculate_fingerprint_cong:
  "same_content d e \<Longrightarrow> calculate_fingerprint H d = calculate_fingerprint H e"
  by (cases d; cases e)
    (simp add: same_content_def calculate_fingerprint_def fingerprint_payload_def decision_body_def)

theorem hash_action_binds:
  assumes "jcs_ok H" "hash_action H a = Inr h" "hash_action H b = Inr h"
    "hash_binds H (action_json a) (action_json b)"
  shows "same_action a b"
  using assms hash_canonical_inj [of H "action_json a" "action_json b"]
  by (intro action_json_inj) (auto simp: hash_action_def check_action_def split: if_splits)

subsection \<open>Issued decisions\<close>

text \<open>The contract of a signing provider: what it returns is a base64url signature that
  verifies under its public key.\<close>

definition signer_ok :: "host \<Rightarrow> signer \<Rightarrow> bool" where
  "signer_ok H sg \<longleftrightarrow>
     (\<forall>m sig. s_sign sg m = Inr sig \<longrightarrow> base64url sig \<and> verify_ed25519 H m sig (s_public_key sg))"

lemma signer_from_seed_cases:
  "signer_from_seed H kid seed = Inr sg \<longleftrightarrow> length seed = 32 \<and>
    sg = \<lparr>s_key_id = kid, s_public_key = fst (ed_keypair H seed),
          s_sign = (\<lambda>payload. Inr (b64url_encode (ed_sign H (snd (ed_keypair H seed)) payload)))\<rparr>"
  by (auto simp: signer_from_seed_def split: prod.splits)

lemma signer_from_seed_ok:
  assumes "ed_ok H" and s: "signer_from_seed H kid seed = Inr sg"
  shows "signer_ok H sg \<and> s_key_id sg = kid \<and> length (s_public_key sg) = 32"
proof -
  obtain pk sk where k: "ed_keypair H seed = (pk, sk)" by fastforce
  from s have len: "length seed = 32"
    and sg: "sg = \<lparr>s_key_id = kid, s_public_key = pk, s_sign = (\<lambda>m. Inr (b64url_encode (ed_sign H sk m)))\<rparr>"
    by (auto simp: signer_from_seed_cases k)
  have "case ed_keypair H seed of (pk, sk) \<Rightarrow>
      length pk = 32 \<and> (\<forall>m. length (ed_sign H sk m) = 64 \<and> ed_verify H m (ed_sign H sk m) pk)"
    by (rule assms(1) [unfolded ed_ok_def, rule_format, OF len])
  then have ok: "length pk = 32" "\<And>m. length (ed_sign H sk m) = 64" "\<And>m. ed_verify H m (ed_sign H sk m) pk"
    by (simp_all add: k)
  have "base64url (b64url_encode (ed_sign H sk m))" for m
  proof (rule b64url_encode_ok)
    show "ed_sign H sk m \<noteq> []" using ok(2) [of m] by force
  qed
  with ok show ?thesis by (simp add: sg signer_ok_def verify_ed25519_def b64url_roundtrip)
qed

lemma check_decision_Inr [simp]: "check_decision H d = Inr e \<longleftrightarrow> decision_ok H d \<and> e = d"
  by (auto simp: check_decision_def)

lemma check_action_Inr [simp]: "check_action H d = Inr e \<longleftrightarrow> action_ok H d \<and> e = d"
  by (auto simp: check_action_def)

lemma signable_payload_signature [simp]:
  "signable_payload (d\<lparr>d_signature := s\<rparr>) = signable_payload d"
  by (cases d) (simp add: signable_payload_def decision_body_def)

lemma calculate_fingerprint_update [simp]:
  "calculate_fingerprint H (d\<lparr>d_fingerprint := f\<rparr>) = calculate_fingerprint H d"
  "calculate_fingerprint H (d\<lparr>d_signature := s\<rparr>) = calculate_fingerprint H d"
  by (cases d, simp add: calculate_fingerprint_def fingerprint_payload_def decision_body_def)+

lemma attach_signature_Inr:
  assumes "attach_signature H sg u = Inr d"
  shows "decision_ok H d \<and> d_key_id d = s_key_id sg \<and> same_content d u \<and>
    d_fingerprint d = calculate_fingerprint H d \<and>
    (signer_ok H sg \<longrightarrow> verify_signature H d (s_public_key sg))"
proof -
  let ?s = "u\<lparr>d_fingerprint := calculate_fingerprint H u\<rparr>"
  from assms obtain sig where k: "d_key_id u = s_key_id sg"
    and sig: "s_sign sg (canonical_bytes H (signable_payload ?s)) = Inr sig"
    and d: "d = ?s\<lparr>d_signature := sig\<rparr>" and ok: "decision_ok H d"
    by (auto simp: attach_signature_def Let_def bind_sum_Inr split: if_splits)
  have "verify_ed25519 H (canonical_bytes H (signable_payload ?s)) sig (s_public_key sg)" if "signer_ok H sg"
    using that sig unfolding signer_ok_def by blast
  then have "signer_ok H sg \<longrightarrow> verify_signature H d (s_public_key sg)"
    by (simp add: verify_signature_def d)
  with ok k show ?thesis by (simp add: d same_content_def)
qed

definition issued_for :: "host \<Rightarrow> signer \<Rightarrow> action \<Rightarrow> create_input \<Rightarrow> decision \<Rightarrow> bool" where
  "issued_for H sg a ci d \<longleftrightarrow>
     (\<exists>issued expires. to_iso_string (ci_now ci) = Some issued \<and>
        to_iso_string (ci_now ci + ci_ttl_seconds ci * 1000) = Some expires \<and>
        same_content d (unsigned_decision H sg a ci issued expires))"

theorem create_signed_decision_correct:
  assumes "create_signed_decision H sg a ci = Inr d"
  shows "action_ok H a \<and> decision_ok H d \<and> issued_for H sg a ci d \<and>
    d_fingerprint d = calculate_fingerprint H d \<and>
    (signer_ok H sg \<longrightarrow> verify_signature H d (s_public_key sg))"
  using assms
  by (auto simp: create_signed_decision_def bind_sum_Inr issued_for_def
      dest: attach_signature_Inr split: option.splits)

end
