(* ===== verification/PolicyEval.thy ===== *)
theory PolicyEval
  imports Signing
begin

section \<open>Policies and their evaluation\<close>

text \<open>
  \<open>policy-engine/src/policy.ts\<close> and \<open>evaluate.ts\<close>: the policy document, its schema
  check and JSON form, the spend states, the local time of the policy's zone, and
  \<open>evaluatePolicy\<close>. Lemmas: comparing \<open>HH:MM\<close> strings compares minutes; the evaluation is the
  first failure of an ordered list of checks; it allows an action exactly when every
  condition of the policy holds; recording spend adds exactly and keeps the canonical form.
\<close>

subsection \<open>The policy document\<close>

datatype weekday = MONDAY | TUESDAY | WEDNESDAY | THURSDAY | FRIDAY | SATURDAY | SUNDAY

fun weekday_string :: "weekday \<Rightarrow> string" where
  "weekday_string MONDAY = ''MONDAY''"
| "weekday_string TUESDAY = ''TUESDAY''"
| "weekday_string WEDNESDAY = ''WEDNESDAY''"
| "weekday_string THURSDAY = ''THURSDAY''"
| "weekday_string FRIDAY = ''FRIDAY''"
| "weekday_string SATURDAY = ''SATURDAY''"
| "weekday_string SUNDAY = ''SUNDAY''"

record merchant =
  m_merchant_id :: string
  m_payees :: "string list"
  m_purposes :: "string list"
  m_resources :: "string list"
  m_limit :: string

record deny_rules =
  dn_networks :: "string list"
  dn_assets :: "string list"
  dn_payees :: "string list"
  dn_purposes :: "string list"
  dn_resources :: "string list"

record rail_policy =
  rp_networks :: "string list"
  rp_assets :: "string list"

record time_windows =
  tw_timezone :: string
  tw_weekdays :: "weekday list"
  tw_start :: string
  tw_end :: string

record policy =
  pl_policy_id :: string
  pl_version :: string
  pl_expires_at :: "string option"
  pl_ttl_seconds :: int
  pl_deny :: "deny_rules option"
  pl_x402 :: rail_policy
  pl_ap2 :: "rail_policy option"
  pl_evm :: "rail_policy option"
  pl_card :: "rail_policy option"
  pl_mcp :: "rail_policy option"
  pl_per_transaction :: string
  pl_daily :: string
  pl_require_human_above :: string
  pl_request_ttl :: "int option"
  pl_merchants :: "merchant list"
  pl_windows :: time_windows

text \<open>\<open>policy.rails[action.rail]\<close>.\<close>

fun rail_rules :: "policy \<Rightarrow> rail \<Rightarrow> rail_policy option" where
  "rail_rules p X402 = Some (pl_x402 p)"
| "rail_rules p AP2 = pl_ap2 p"
| "rail_rules p EVM = pl_evm p"
| "rail_rules p CARD = pl_card p"
| "rail_rules p MCP = pl_mcp p"

text \<open>\<open>^(?:[01]\d|2[0-3]):[0-5]\d$\<close>.\<close>

definition time_shape :: "string \<Rightarrow> bool" where
  "time_shape s \<longleftrightarrow>
     (case s of
        [a, b, c, d, e] \<Rightarrow> list_all is_digit [a, b, d, e] \<and> c = CHR '':'' \<and>
          10 * digit_value a + digit_value b < 24 \<and> digit_value d < 6
      | _ \<Rightarrow> False)"

definition merchant_ok :: "host \<Rightarrow> merchant \<Rightarrow> bool" where
  "merchant_ok H m \<longleftrightarrow>
     len_between 1 128 (m_merchant_id m) \<and> m_payees m \<noteq> [] \<and> list_all (len_between 1 512) (m_payees m) \<and>
     m_purposes m \<noteq> [] \<and> list_all (len_between 1 128) (m_purposes m) \<and>
     m_resources m \<noteq> [] \<and> list_all (url_ok H) (m_resources m) \<and> canonical_amount (m_limit m)"

definition rail_policy_ok :: "rail_policy \<Rightarrow> bool" where
  "rail_policy_ok r \<longleftrightarrow>
     rp_networks r \<noteq> [] \<and> list_all (\<lambda>s. s \<noteq> []) (rp_networks r) \<and>
     rp_assets r \<noteq> [] \<and> list_all (\<lambda>s. s \<noteq> []) (rp_assets r)"

text \<open>\<open>InntrisPolicyV1Schema\<close>; the refinement tries the zone on the current date.\<close>

definition policy_ok :: "host \<Rightarrow> int \<Rightarrow> policy \<Rightarrow> bool" where
  "policy_ok H now p \<longleftrightarrow>
     len_between 1 128 (pl_policy_id p) \<and> len_between 1 64 (pl_version p) \<and>
     (case pl_expires_at p of None \<Rightarrow> True | Some t \<Rightarrow> timestamp_ok t) \<and>
     1 \<le> pl_ttl_seconds p \<and> pl_ttl_seconds p \<le> 300 \<and>
     (case pl_deny p of None \<Rightarrow> True | Some d \<Rightarrow> list_all (url_ok H) (dn_resources d)) \<and>
     rail_policy_ok (pl_x402 p) \<and>
     list_all rail_policy_ok (concat (map option_list [pl_ap2 p, pl_evm p, pl_card p, pl_mcp p])) \<and>
     canonical_amount (pl_per_transaction p) \<and> canonical_amount (pl_daily p) \<and>
     canonical_amount (pl_require_human_above p) \<and>
     (case pl_request_ttl p of None \<Rightarrow> True | Some n \<Rightarrow> 1 \<le> n \<and> n \<le> 86400) \<and>
     pl_merchants p \<noteq> [] \<and> list_all (merchant_ok H) (pl_merchants p) \<and>
     len_between 1 128 (tw_timezone (pl_windows p)) \<and> tw_weekdays (pl_windows p) \<noteq> [] \<and>
     time_shape (tw_start (pl_windows p)) \<and> time_shape (tw_end (pl_windows p)) \<and>
     intl_parts H now (tw_timezone (pl_windows p)) \<noteq> None"

text \<open>The validated policy object, whose canonical hash the decisions carry.\<close>

definition strs_json :: "string list \<Rightarrow> json" where
  "strs_json xs = JArr (map JStr xs)"

definition rail_policy_json :: "rail_policy \<Rightarrow> json" where
  "rail_policy_json r = JObj [(''allowed_networks'', strs_json (rp_networks r)),
     (''allowed_assets'', strs_json (rp_assets r))]"

definition opt_field :: "string \<Rightarrow> ('a \<Rightarrow> json) \<Rightarrow> 'a option \<Rightarrow> (string \<times> json) list" where
  "opt_field k f x = (case x of None \<Rightarrow> [] | Some y \<Rightarrow> [(k, f y)])"

definition deny_json :: "deny_rules \<Rightarrow> json" where
  "deny_json d = JObj [(''networks'', strs_json (dn_networks d)), (''assets'', strs_json (dn_assets d)),
     (''payees'', strs_json (dn_payees d)), (''purposes'', strs_json (dn_purposes d)),
     (''resources'', strs_json (dn_resources d))]"

definition merchant_json :: "merchant \<Rightarrow> json" where
  "merchant_json m = JObj [(''merchant_id'', JStr (m_merchant_id m)), (''payees'', strs_json (m_payees m)),
     (''purposes'', strs_json (m_purposes m)), (''resources'', strs_json (m_resources m)),
     (''per_transaction_limit'', JStr (m_limit m))]"

definition policy_json :: "policy \<Rightarrow> json" where
  "policy_json p = JObj
     ([(''version'', JNum 1), (''policy_id'', JStr (pl_policy_id p)), (''policy_version'', JStr (pl_version p))]
      @ opt_field ''expires_at'' JStr (pl_expires_at p)
      @ [(''defaults'', JObj [(''verdict'', JStr ''BLOCK''),
           (''decision_ttl_seconds'', JNum (of_int (pl_ttl_seconds p)))])]
      @ opt_field ''deny'' deny_json (pl_deny p)
      @ [(''rails'', JObj ([(''x402'', rail_policy_json (pl_x402 p))]
            @ opt_field ''ap2'' rail_policy_json (pl_ap2 p) @ opt_field ''evm'' rail_policy_json (pl_evm p)
            @ opt_field ''card'' rail_policy_json (pl_card p) @ opt_field ''mcp'' rail_policy_json (pl_mcp p))),
         (''limits'', JObj [(''per_transaction'', JStr (pl_per_transaction p)), (''daily'', JStr (pl_daily p))]),
         (''approval'', JObj ((''require_human_above'', JStr (pl_require_human_above p))
            # opt_field ''request_ttl_seconds'' (\<lambda>n. JNum (of_int n)) (pl_request_ttl p))),
         (''merchants'', JArr (map merchant_json (pl_merchants p))),
         (''time_windows'', JObj [(''timezone'', JStr (tw_timezone (pl_windows p))),
            (''allowed_weekdays'', strs_json (map weekday_string (tw_weekdays (pl_windows p)))),
            (''start'', JStr (tw_start (pl_windows p))), (''end'', JStr (tw_end (pl_windows p)))])])"

definition hash_policy :: "host \<Rightarrow> policy \<Rightarrow> string" where
  "hash_policy H p = hash_canonical H (policy_json p)"

subsection \<open>Decimals and the spend state\<close>

text \<open>\<open>new Decimal(s)\<close>.\<close>

definition new_decimal :: "host \<Rightarrow> string \<Rightarrow> error + rat" where
  "new_decimal H s =
     (case dec_new H s of None \<Rightarrow> Inl (JsError ''Error'' ''[DecimalError] Invalid argument'') | Some q \<Rightarrow> Inr q)"

definition to_canonical_amount :: "host \<Rightarrow> rat \<Rightarrow> string" where
  "to_canonical_amount H q =
     (let s = dec_fixed H q; f = (case fraction_part s of None \<Rightarrow> [] | Some f \<Rightarrow> f)
      in whole_part s @ CHR ''.'' # pad_end 2 CHR ''0'' f)"

record spend =
  sp_principal :: string
  sp_day :: string
  sp_amount :: string

text \<open>\<open>InMemorySpendState\<close>: its map, keyed by principal and day.\<close>

type_synonym spend_map = "string \<Rightarrow> string option"

definition spend_key :: "string \<Rightarrow> string \<Rightarrow> string" where
  "spend_key prin day = prin @ CHR '':'' # day"

definition stored_spend :: "spend_map \<Rightarrow> string \<Rightarrow> string" where
  "stored_spend m k = (case m k of None \<Rightarrow> ''0.00'' | Some v \<Rightarrow> v)"

definition mem_daily_spend :: "string \<Rightarrow> string \<Rightarrow> (error, spend_map, string) io" where
  "mem_daily_spend prin day m = (Inr (stored_spend m (spend_key prin day)), m)"

definition mem_set_daily_spend :: "string \<Rightarrow> string \<Rightarrow> string \<Rightarrow> spend_map \<Rightarrow> spend_map" where
  "mem_set_daily_spend prin day amount m = m(spend_key prin day \<mapsto> amount)"

definition mem_record_spend :: "host \<Rightarrow> spend \<Rightarrow> (error, spend_map, unit) io" where
  "mem_record_spend H sp m =
     (let k = spend_key (sp_principal sp) (sp_day sp)
      in case (new_decimal H (stored_spend m k), new_decimal H (sp_amount sp)) of
           (Inr current, Inr amount) \<Rightarrow>
             (Inr (), m(k \<mapsto> to_canonical_amount H (dec_plus H current amount)))
         | (Inl e, _) \<Rightarrow> (Inl e, m)
         | (_, Inl e) \<Rightarrow> (Inl e, m))"

text \<open>\<open>ZeroSpendState\<close>.\<close>

definition zero_daily_spend :: "string \<Rightarrow> string \<Rightarrow> (error, 's, string) io" where
  "zero_daily_spend prin day = ret ''0.00''"

definition zero_record_spend :: "spend \<Rightarrow> (error, 's, unit) io" where
  "zero_record_spend sp = ret ()"

subsection \<open>Local time\<close>

definition weekday_map :: "string \<Rightarrow> weekday option" where
  "weekday_map s = map_of
     [(''Mon'', MONDAY), (''Tue'', TUESDAY), (''Wed'', WEDNESDAY), (''Thu'', THURSDAY),
      (''Fri'', FRIDAY), (''Sat'', SATURDAY), (''Sun'', SUNDAY)] s"

definition intl_value :: "(string \<times> string) list \<Rightarrow> string \<Rightarrow> error + string" where
  "intl_value parts ty =
     (case map_of parts ty of
        None \<Rightarrow> Inl (JsError ''Error'' (''Intl formatter did not return '' @ ty))
      | Some v \<Rightarrow> Inr v)"

record local_time =
  lt_weekday :: weekday
  lt_time :: string
  lt_day_key :: string

definition local_time_parts :: "host \<Rightarrow> int \<Rightarrow> string \<Rightarrow> error + local_time" where
  "local_time_parts H inst tz =
     (case intl_parts H inst tz of
        None \<Rightarrow> Inl (JsError ''RangeError'' ''Invalid time zone specified'')
      | Some parts \<Rightarrow>
          bind_sum (intl_value parts ''weekday'') (\<lambda>w.
          case weekday_map w of
            None \<Rightarrow> Inl (JsError ''Error'' ''Unsupported weekday emitted by Intl'')
          | Some wd \<Rightarrow>
              bind_sum (intl_value parts ''hour'') (\<lambda>h.
              bind_sum (intl_value parts ''minute'') (\<lambda>mi.
              bind_sum (intl_value parts ''year'') (\<lambda>y.
              bind_sum (intl_value parts ''month'') (\<lambda>mo.
              bind_sum (intl_value parts ''day'') (\<lambda>d.
                Inr \<lparr>lt_weekday = wd, lt_time = h @ CHR '':'' # mi,
                     lt_day_key = y @ CHR ''-'' # mo @ CHR ''-'' # d\<rparr>)))))))"

definition spend_day_key :: "host \<Rightarrow> int \<Rightarrow> string \<Rightarrow> error + string" where
  "spend_day_key H inst tz = bind_sum (local_time_parts H inst tz) (\<lambda>l. Inr (lt_day_key l))"

definition within_time_window :: "string \<Rightarrow> string \<Rightarrow> string \<Rightarrow> bool" where
  "within_time_window time start fin \<longleftrightarrow>
     (if start \<le> fin then start \<le> time \<and> time \<le> fin else start \<le> time \<or> time \<le> fin)"

subsection \<open>Evaluation\<close>

definition engine_approval :: "approval_mode \<Rightarrow> approval" where
  "engine_approval m = \<lparr>ap_mode = m, ap_reference = None, ap_approver_ids = []\<rparr>"

definition block :: "reason_code \<Rightarrow> evaluation" where
  "block r = \<lparr>ev_verdict = BLOCK, ev_reasons = [r], ev_approval = engine_approval PolicyEngine\<rparr>"

definition denied_by_explicit_rule :: "action \<Rightarrow> policy \<Rightarrow> reason_code option" where
  "denied_by_explicit_rule a p =
     (case pl_deny p of
        None \<Rightarrow> None
      | Some d \<Rightarrow>
          if tx_network (a_transaction a) \<in> set (dn_networks d) then Some NETWORK_NOT_ALLOWED
          else if tx_asset (a_transaction a) \<in> set (dn_assets d) then Some ASSET_NOT_ALLOWED
          else if tx_payee (a_transaction a) \<in> set (dn_payees d) then Some PAYEE_NOT_ALLOWED
          else if pr_resource (a_reference a) \<in> set (dn_resources d) then Some RESOURCE_NOT_ALLOWED
          else if tx_purpose (a_transaction a) \<in> set (dn_purposes d) then Some PURPOSE_NOT_ALLOWED
          else None)"

definition positive_reasons :: "reason_code list" where
  "positive_reasons = [MERCHANT_ALLOWED, WITHIN_TRANSACTION_LIMIT, WITHIN_DAILY_LIMIT]"

text \<open>The part of \<open>evaluatePolicy\<close> before the first decimal: a blocking reason or the merchant.\<close>

definition match_merchant :: "int \<Rightarrow> policy \<Rightarrow> action \<Rightarrow> reason_code + merchant" where
  "match_merchant now p a =
     (if (case pl_expires_at p of None \<Rightarrow> False | Some e \<Rightarrow>
            (case date_parse e of None \<Rightarrow> False | Some t \<Rightarrow> t \<le> now))
      then Inl POLICY_EXPIRED
      else case denied_by_explicit_rule a p of
        Some r \<Rightarrow> Inl r
      | None \<Rightarrow>
         (case rail_rules p (a_rail a) of
            None \<Rightarrow> Inl DEFAULT_DENY
          | Some rp \<Rightarrow>
              if tx_network (a_transaction a) \<notin> set (rp_networks rp) then Inl NETWORK_NOT_ALLOWED
              else if tx_asset (a_transaction a) \<notin> set (rp_assets rp) then Inl ASSET_NOT_ALLOWED
              else
                let payee_merchants = filter (\<lambda>m. tx_payee (a_transaction a) \<in> set (m_payees m)) (pl_merchants p);
                    resource_merchants = filter (\<lambda>m. pr_resource (a_reference a) \<in> set (m_resources m)) payee_merchants
                in if payee_merchants = [] then Inl PAYEE_NOT_ALLOWED
                   else if resource_merchants = [] then Inl RESOURCE_NOT_ALLOWED
                   else case find (\<lambda>m. tx_purpose (a_transaction a) \<in> set (m_purposes m)) resource_merchants of
                     None \<Rightarrow> Inl PURPOSE_NOT_ALLOWED
                   | Some m \<Rightarrow> Inr m))"

definition evaluate_policy ::
  "host \<Rightarrow> policy \<Rightarrow> (string \<Rightarrow> string \<Rightarrow> (error, 's, string) io) \<Rightarrow> int \<Rightarrow> action \<Rightarrow> (error, 's, evaluation) io" where
  "evaluate_policy H p get_daily now a =
     (case match_merchant now p a of
        Inl r \<Rightarrow> ret (block r)
      | Inr m \<Rightarrow>
          bind_io (lift_io (new_decimal H (tx_amount (a_transaction a)))) (\<lambda>amount.
          bind_io (lift_io (new_decimal H (pl_per_transaction p))) (\<lambda>overall.
          bind_io (lift_io (new_decimal H (m_limit m))) (\<lambda>merchant_limit.
          if amount > min overall merchant_limit then ret (block AMOUNT_EXCEEDS_TRANSACTION_LIMIT)
          else
            bind_io (lift_io (local_time_parts H now (tw_timezone (pl_windows p)))) (\<lambda>local.
            bind_io (get_daily (a_principal_id a) (lt_day_key local)) (\<lambda>spent.
            bind_io (lift_io (new_decimal H spent)) (\<lambda>daily_spend.
            bind_io (lift_io (new_decimal H (pl_daily p))) (\<lambda>daily_limit.
            if dec_plus H daily_spend amount > daily_limit then ret (block DAILY_LIMIT_EXCEEDED)
            else if lt_weekday local \<notin> set (tw_weekdays (pl_windows p)) \<or>
                    \<not> within_time_window (lt_time local) (tw_start (pl_windows p)) (tw_end (pl_windows p))
            then ret (block OUTSIDE_ALLOWED_TIME)
            else
              bind_io (lift_io (new_decimal H (pl_require_human_above p))) (\<lambda>human.
              if amount > human
              then ret \<lparr>ev_verdict = REQUIRE_APPROVAL, ev_reasons = positive_reasons @ [HUMAN_APPROVAL_REQUIRED],
                        ev_approval = engine_approval Human\<rparr>
              else ret \<lparr>ev_verdict = ALLOW, ev_reasons = positive_reasons,
                        ev_approval = engine_approval PolicyEngine\<rparr>)))))))))"

text \<open>What \<open>getDailySpend\<close> answers is all the verdict depends on beside the policy, the action and the time.\<close>

lemma evaluate_policy_reads:
  assumes "\<And>q day. fst (f q day s) = fst (g q day t)"
  shows "fst (evaluate_policy H p f now a s) = fst (evaluate_policy H p g now a t)"
proof -
  have step: "fst (bind_io (f q day) k s) = fst (bind_io (g q day) k' t)"
    if "\<And>x s t. fst (k x s) = fst (k' x t)" for q day k k'
    using assms [of q day] that
    by (cases "f q day s"; cases "g q day t") (auto simp: bind_io_apply split: sum.splits)
  have pure: "fst (bind_io (lift_io m) k s) = fst (bind_io (lift_io m) k' t)"
    if "\<And>x. fst (k x s) = fst (k' x t)" for m k k' and s :: 'a and t :: 'b
    using that by (simp add: bind_io_apply lift_io_def split: sum.split)
  show ?thesis
    unfolding evaluate_policy_def
    by (simp split: sum.split add: ret_def) (intro pure step allI impI | simp add: ret_def)+
qed

subsection \<open>Comparing times of day\<close>

definition minutes :: "string \<Rightarrow> nat" where
  "minutes s = 600 * digit_value (s ! 0) + 60 * digit_value (s ! 1) + 10 * digit_value (s ! 3) + digit_value (s ! 4)"

lemma digit_less: "is_digit c \<Longrightarrow> is_digit d \<Longrightarrow> c < d \<longleftrightarrow> digit_value c < digit_value d"
  by (auto simp: less_char_def is_digit_def digit_value_def)

lemma time_shape_cases:
  assumes "time_shape s"
  obtains a b d e where "s = [a, b, CHR '':'', d, e]" "is_digit a" "is_digit b" "is_digit d" "is_digit e"
    "digit_value d < 6"
  using assms by (auto simp: time_shape_def split: list.splits)

text \<open>Comparing two times as strings compares the minutes since midnight.\<close>

lemma time_le_minutes:
  assumes "time_shape s" "time_shape t"
  shows "s \<le> t \<longleftrightarrow> minutes s \<le> minutes t"
proof -
  from assms(1) obtain a b d e where s: "s = [a, b, CHR '':'', d, e]"
    and ds: "is_digit a" "is_digit b" "is_digit d" "is_digit e" "digit_value d < 6" by (rule time_shape_cases)
  from assms(2) obtain a' b' d' e' where t: "t = [a', b', CHR '':'', d', e']"
    and dt: "is_digit a'" "is_digit b'" "is_digit d'" "is_digit e'" "digit_value d' < 6" by (rule time_shape_cases)
  have eq: "\<And>c c'. is_digit c \<Longrightarrow> is_digit c' \<Longrightarrow> c = c' \<longleftrightarrow> digit_value c = digit_value c'"
    using digit_value_inj by blast
  have "s \<le> t \<longleftrightarrow> digit_value a < digit_value a' \<or> digit_value a = digit_value a' \<and>
      (digit_value b < digit_value b' \<or> digit_value b = digit_value b' \<and>
      (digit_value d < digit_value d' \<or> digit_value d = digit_value d' \<and> digit_value e \<le> digit_value e'))"
    using ds dt by (auto simp: s t digit_less eq)
  also have "\<dots> \<longleftrightarrow> minutes s \<le> minutes t"
    using ds dt digit_value_lt [of b] digit_value_lt [of b'] digit_value_lt [of e] digit_value_lt [of e']
    by (auto simp: s t minutes_def)
  finally show ?thesis .
qed

text \<open>The window over minutes: an interval of the day, or its complement's closure when it
  crosses midnight.\<close>

definition in_window :: "nat \<Rightarrow> nat \<Rightarrow> nat \<Rightarrow> bool" where
  "in_window t start fin \<longleftrightarrow> (if start \<le> fin then t \<in> {start..fin} else t \<notin> {fin<..<start})"

lemma within_time_window_minutes:
  "time_shape t \<Longrightarrow> time_shape s \<Longrightarrow> time_shape e \<Longrightarrow>
    within_time_window t s e \<longleftrightarrow> in_window (minutes t) (minutes s) (minutes e)"
  by (auto simp: within_time_window_def in_window_def time_le_minutes)

subsection \<open>The evaluation as an ordered list of checks\<close>

definition first_failure :: "(bool \<times> reason_code) list \<Rightarrow> reason_code option" where
  "first_failure cs = map_option snd (find (\<lambda>c. \<not> fst c) cs)"

lemma first_failure_simps [simp]:
  "first_failure [] = None"
  "first_failure ((b, r) # cs) = (if b then first_failure cs else Some r)"
  by (simp_all add: first_failure_def)

lemma first_failure_append:
  "first_failure (cs @ ds) = (case first_failure cs of None \<Rightarrow> first_failure ds | Some r \<Rightarrow> Some r)"
  by (induction cs) auto

lemma first_failure_None: "first_failure cs = None \<longleftrightarrow> list_all fst cs"
  by (induction cs) (auto split: if_splits)

definition serves :: "action \<Rightarrow> merchant \<Rightarrow> bool" where
  "serves a m \<longleftrightarrow> tx_payee (a_transaction a) \<in> set (m_payees m) \<and>
     pr_resource (a_reference a) \<in> set (m_resources m) \<and> tx_purpose (a_transaction a) \<in> set (m_purposes m)"

definition not_denied :: "policy \<Rightarrow> (deny_rules \<Rightarrow> string list) \<Rightarrow> string \<Rightarrow> bool" where
  "not_denied p f x \<longleftrightarrow> (case pl_deny p of None \<Rightarrow> True | Some d \<Rightarrow> x \<notin> set (f d))"

definition rail_admits :: "policy \<Rightarrow> rail \<Rightarrow> (rail_policy \<Rightarrow> string list) \<Rightarrow> string \<Rightarrow> bool" where
  "rail_admits p r f x \<longleftrightarrow> (case rail_rules p r of None \<Rightarrow> False | Some rp \<Rightarrow> x \<in> set (f rp))"

definition unexpired :: "policy \<Rightarrow> int \<Rightarrow> bool" where
  "unexpired p now \<longleftrightarrow> (case pl_expires_at p of None \<Rightarrow> True
     | Some e \<Rightarrow> (case date_parse e of None \<Rightarrow> True | Some t \<Rightarrow> now < t))"

definition static_checks :: "int \<Rightarrow> policy \<Rightarrow> action \<Rightarrow> (bool \<times> reason_code) list" where
  "static_checks now p a =
     (let t = a_transaction a; res = pr_resource (a_reference a) in
     [(unexpired p now, POLICY_EXPIRED),
      (not_denied p dn_networks (tx_network t), NETWORK_NOT_ALLOWED),
      (not_denied p dn_assets (tx_asset t), ASSET_NOT_ALLOWED),
      (not_denied p dn_payees (tx_payee t), PAYEE_NOT_ALLOWED),
      (not_denied p dn_resources res, RESOURCE_NOT_ALLOWED),
      (not_denied p dn_purposes (tx_purpose t), PURPOSE_NOT_ALLOWED),
      (rail_rules p (a_rail a) \<noteq> None, DEFAULT_DENY),
      (rail_admits p (a_rail a) rp_networks (tx_network t), NETWORK_NOT_ALLOWED),
      (rail_admits p (a_rail a) rp_assets (tx_asset t), ASSET_NOT_ALLOWED),
      (list_ex (\<lambda>m. tx_payee t \<in> set (m_payees m)) (pl_merchants p), PAYEE_NOT_ALLOWED),
      (list_ex (\<lambda>m. tx_payee t \<in> set (m_payees m) \<and> res \<in> set (m_resources m)) (pl_merchants p), RESOURCE_NOT_ALLOWED),
      (list_ex (serves a) (pl_merchants p), PURPOSE_NOT_ALLOWED)])"

text \<open>The monetary and time checks, over exact rationals and minutes of the day.\<close>

definition limit_checks :: "policy \<Rightarrow> local_time \<Rightarrow> rat \<Rightarrow> action \<Rightarrow> (bool \<times> reason_code) list" where
  "limit_checks p lt spent a =
     (let amount = decimal_value (tx_amount (a_transaction a)) in
     [(amount \<le> decimal_value (pl_per_transaction p) \<and>
        (case find (serves a) (pl_merchants p) of None \<Rightarrow> False | Some m \<Rightarrow> amount \<le> decimal_value (m_limit m)),
       AMOUNT_EXCEEDS_TRANSACTION_LIMIT),
      (spent + amount \<le> decimal_value (pl_daily p), DAILY_LIMIT_EXCEEDED),
      (lt_weekday lt \<in> set (tw_weekdays (pl_windows p)) \<and>
        in_window (minutes (lt_time lt)) (minutes (tw_start (pl_windows p))) (minutes (tw_end (pl_windows p))),
       OUTSIDE_ALLOWED_TIME)])"

definition policy_checks :: "int \<Rightarrow> policy \<Rightarrow> local_time \<Rightarrow> rat \<Rightarrow> action \<Rightarrow> (bool \<times> reason_code) list" where
  "policy_checks now p lt spent a = static_checks now p a @ limit_checks p lt spent a"

lemma find_filter: "find P (filter Q xs) = find (\<lambda>x. Q x \<and> P x) xs"
  by (induction xs) auto

lemma filter_empty_ex: "filter P xs = [] \<longleftrightarrow> \<not> list_ex P xs"
  by (induction xs) auto

lemma list_ex_filter: "list_ex P (filter Q xs) = list_ex (\<lambda>x. Q x \<and> P x) xs"
  by (induction xs) auto

lemma find_None_ex: "find P xs = None \<longleftrightarrow> \<not> list_ex P xs"
  by (induction xs) auto

lemma match_merchant_checks:
  "match_merchant now p a =
     (case first_failure (static_checks now p a) of
        Some r \<Rightarrow> Inl r | None \<Rightarrow> Inr (the (find (serves a) (pl_merchants p))))"
proof -
  let ?t = "a_transaction a" and ?res = "pr_resource (a_reference a)"
  have e: "(case pl_expires_at p of None \<Rightarrow> False | Some e \<Rightarrow>
      (case date_parse e of None \<Rightarrow> False | Some t \<Rightarrow> t \<le> now)) \<longleftrightarrow> \<not> unexpired p now"
    by (auto simp: unexpired_def split: option.splits)
  have f: "find (\<lambda>m. tx_purpose ?t \<in> set (m_purposes m))
      (filter (\<lambda>m. ?res \<in> set (m_resources m)) (filter (\<lambda>m. tx_payee ?t \<in> set (m_payees m)) (pl_merchants p)))
    = find (serves a) (pl_merchants p)"
    by (simp add: find_filter serves_def [abs_def] conj_ac)
  have d: "denied_by_explicit_rule a p = first_failure
     [(not_denied p dn_networks (tx_network ?t), NETWORK_NOT_ALLOWED),
      (not_denied p dn_assets (tx_asset ?t), ASSET_NOT_ALLOWED),
      (not_denied p dn_payees (tx_payee ?t), PAYEE_NOT_ALLOWED),
      (not_denied p dn_resources ?res, RESOURCE_NOT_ALLOWED),
      (not_denied p dn_purposes (tx_purpose ?t), PURPOSE_NOT_ALLOWED)]"
    by (simp add: denied_by_explicit_rule_def not_denied_def split: option.splits)
  show ?thesis
    unfolding match_merchant_def e d Let_def f filter_empty_ex list_ex_filter static_checks_def
    using find_None_ex [of "serves a" "pl_merchants p"]
    by (cases "rail_rules p (a_rail a)"; cases "find (serves a) (pl_merchants p)")
      (simp_all add: rail_admits_def)
qed

definition verdict_of_checks :: "policy \<Rightarrow> action \<Rightarrow> reason_code option \<Rightarrow> evaluation" where
  "verdict_of_checks p a f =
     (case f of
        Some r \<Rightarrow> block r
      | None \<Rightarrow>
          if decimal_value (tx_amount (a_transaction a)) \<le> decimal_value (pl_require_human_above p)
          then \<lparr>ev_verdict = ALLOW, ev_reasons = positive_reasons, ev_approval = engine_approval PolicyEngine\<rparr>
          else \<lparr>ev_verdict = REQUIRE_APPROVAL, ev_reasons = positive_reasons @ [HUMAN_APPROVAL_REQUIRED],
                 ev_approval = engine_approval Human\<rparr>)"

lemma new_decimal_canonical:
  "decimal_ok H \<Longrightarrow> canonical_decimal k s \<Longrightarrow> new_decimal H s = Inr (decimal_value s)"
  by (simp add: new_decimal_def decimal_ok_def canonical_plain)

lemma dec_plus_exact: "decimal_ok H \<Longrightarrow> decimal_digits 20 (x + y) \<Longrightarrow> dec_plus H x y = x + y"
  by (simp add: decimal_ok_def)

lemma policy_ok_amounts:
  assumes "policy_ok H t p"
  shows "canonical_decimal 18 (pl_per_transaction p)" "canonical_decimal 18 (pl_daily p)"
    "canonical_decimal 18 (pl_require_human_above p)" "m \<in> set (pl_merchants p) \<Longrightarrow> canonical_decimal 18 (m_limit m)"
    "time_shape (tw_start (pl_windows p))" "time_shape (tw_end (pl_windows p))"
  using assms by (auto simp: policy_ok_def canonical_amount_def list_all_iff merchant_ok_def)

lemma action_ok_amount: "action_ok H a \<Longrightarrow> canonical_decimal 18 (tx_amount (a_transaction a))"
  by (simp add: action_ok_def transaction_ok_def canonical_amount_def)

text \<open>The evaluation is the first failing check, or the verdict by the human threshold.\<close>

lemma evaluate_policy_spec:
  assumes H: "decimal_ok H" and p: "policy_ok H t p" and a: "action_ok H a"
    and lt: "local_time_parts H now (tw_timezone (pl_windows p)) = Inr lt" "time_shape (lt_time lt)"
    and store: "get_daily (a_principal_id a) (lt_day_key lt) s = (Inr spent, s')" "canonical_amount spent"
    and fits: "decimal_digits 20 (decimal_value spent + decimal_value (tx_amount (a_transaction a)))"
  shows "fst (evaluate_policy H p get_daily now a s) =
      Inr (verdict_of_checks p a (first_failure (policy_checks now p lt (decimal_value spent) a)))"
proof (cases "first_failure (static_checks now p a)")
  case (Some r)
  then show ?thesis
    by (simp add: evaluate_policy_def match_merchant_checks policy_checks_def first_failure_append
        verdict_of_checks_def)
next
  case None
  then have "list_ex (serves a) (pl_merchants p)"
    unfolding first_failure_None by (simp add: static_checks_def Let_def)
  then obtain m where m: "find (serves a) (pl_merchants p) = Some m" using find_None_ex by fastforce
  then have "m \<in> set (pl_merchants p)" by (blast dest: find_Some_iff2)
  note ok = policy_ok_amounts [OF p]
  have spent: "canonical_decimal 18 spent" using store(2) by (simp add: canonical_amount_def)
  note dec = new_decimal_canonical [OF H action_ok_amount [OF a]] new_decimal_canonical [OF H ok(1)]
    new_decimal_canonical [OF H ok(2)] new_decimal_canonical [OF H ok(3)]
    new_decimal_canonical [OF H ok(4) [OF \<open>m \<in> _\<close>]] new_decimal_canonical [OF H spent]
    dec_plus_exact [OF H fits]
  show ?thesis
    unfolding evaluate_policy_def match_merchant_checks None option.case sum.case bind_io_apply lift_io_apply
      m option.sel dec lt(1) prod.case policy_checks_def first_failure_append limit_checks_def Let_def
    by (simp add: store(1) dec lt(2) ok(5,6) within_time_window_minutes verdict_of_checks_def
        not_le [symmetric] min_less_iff_disj bind_io_apply)
qed

text \<open>What a policy permits, stated as a conjunction over the document and the instant.\<close>

definition policy_permits :: "int \<Rightarrow> policy \<Rightarrow> local_time \<Rightarrow> rat \<Rightarrow> action \<Rightarrow> bool" where
  "policy_permits now p lt spent a \<longleftrightarrow> list_all fst (policy_checks now p lt spent a)"

theorem evaluate_policy_verdict:
  assumes "decimal_ok H" "policy_ok H t p" "action_ok H a"
    and "local_time_parts H now (tw_timezone (pl_windows p)) = Inr lt" "time_shape (lt_time lt)"
    and "get_daily (a_principal_id a) (lt_day_key lt) s = (Inr spent, s')" "canonical_amount spent"
    and "decimal_digits 20 (decimal_value spent + decimal_value (tx_amount (a_transaction a)))"
  shows "\<exists>ev. fst (evaluate_policy H p get_daily now a s) = Inr ev \<and>
    (ev_verdict ev = ALLOW \<longleftrightarrow> policy_permits now p lt (decimal_value spent) a \<and>
       decimal_value (tx_amount (a_transaction a)) \<le> decimal_value (pl_require_human_above p)) \<and>
    (ev_verdict ev = REQUIRE_APPROVAL \<longleftrightarrow> policy_permits now p lt (decimal_value spent) a \<and>
       decimal_value (tx_amount (a_transaction a)) > decimal_value (pl_require_human_above p)) \<and>
    (ev_verdict ev = BLOCK \<longleftrightarrow> (\<exists>r. first_failure (policy_checks now p lt (decimal_value spent) a) = Some r
       \<and> ev_reasons ev = [r]))"
  using evaluate_policy_spec [where get_daily = get_daily and s = s, OF assms]
  by (cases "first_failure (policy_checks now p lt (decimal_value spent) a)")
    (auto simp: verdict_of_checks_def block_def policy_permits_def first_failure_None [symmetric])

subsection \<open>Recording spend\<close>

definition eighteen_places :: "rat \<Rightarrow> bool" where
  "eighteen_places q \<longleftrightarrow> (\<exists>m. q = of_nat m / 10 ^ 18)"

lemma decimal_value_places:
  assumes "canonical_decimal 18 s"
  shows "eighteen_places (decimal_value s)"
proof -
  from assms obtain w f where s: "s = w @ CHR ''.'' # f" "uint_string w" "length f \<le> 18"
    by (rule canonical_decimal_parts)
  have "decimal_value s = of_nat (digits_value w) + of_nat (digits_value f) / 10 ^ length f"
    using s by (simp add: decimal_value_join uint_string_digits)
  also have "\<dots> = of_nat (digits_value w) + of_nat (digits_value (f @ replicate (18 - length f) CHR ''0'')) / 10 ^ 18"
    using fraction_scaled [OF s(3)] by simp
  also have "\<dots> = of_nat (digits_value w * 10 ^ 18 + digits_value (f @ replicate (18 - length f) CHR ''0'')) / 10 ^ 18"
    by (simp add: field_simps)
  finally show ?thesis unfolding eighteen_places_def by blast
qed

lemma eighteen_places_add: "eighteen_places x \<Longrightarrow> eighteen_places y \<Longrightarrow> eighteen_places (x + y)"
  unfolding eighteen_places_def by (metis add_divide_distrib of_nat_add)

lemma to_canonical_amount_exact:
  assumes H: "decimal_ok H" and q: "eighteen_places q"
  shows "canonical_amount (to_canonical_amount H q) \<and> decimal_value (to_canonical_amount H q) = q"
proof -
  obtain m where m: "q = of_nat m / 10 ^ 18" using q by (auto simp: eighteen_places_def)
  let ?s = "dec_fixed H q"
  have s: "plain_decimal ?s" "decimal_value ?s = q"
    "case fraction_part ?s of None \<Rightarrow> True | Some f \<Rightarrow> length f \<le> 18 \<and> last f \<noteq> CHR ''0''"
    using H [unfolded decimal_ok_def Let_def, THEN conjunct2, THEN conjunct2, THEN spec [of _ m], THEN spec [of _ 18],
        THEN mp, OF order_refl, folded m] by blast+
  define f where "f = (case fraction_part ?s of None \<Rightarrow> [] | Some f \<Rightarrow> f)"
  have f: "list_all is_digit f" "length f \<le> 18" "f = [] \<or> last f \<noteq> CHR ''0''" and w: "uint_string (whole_part ?s)"
    using s(1,3) by (auto simp: f_def plain_decimal_def split: option.splits)
  have eq: "to_canonical_amount H q = whole_part ?s @ CHR ''.'' # pad_end 2 CHR ''0'' f"
    by (simp add: to_canonical_amount_def f_def Let_def)
  have pad: "list_all is_digit (pad_end 2 CHR ''0'' f)" "2 \<le> length (pad_end 2 CHR ''0'' f)"
    "length (pad_end 2 CHR ''0'' f) \<le> 18"
    "length (pad_end 2 CHR ''0'' f) = 2 \<or> last (pad_end 2 CHR ''0'' f) \<noteq> CHR ''0''"
    using f by (cases "length f \<le> 2", auto simp: pad_end_def)
  have "decimal_value (to_canonical_amount H q) = of_nat (digits_value (whole_part ?s)) + of_nat (digits_value f) / 10 ^ length f"
    unfolding eq by (simp add: decimal_value_join uint_string_digits [OF w] pad_end_value)
  also have "\<dots> = decimal_value ?s"
    by (simp add: decimal_value_def f_def split: option.splits)
  finally show ?thesis
    using canonical_decimal_join [OF w pad] s(2) by (simp add: eq canonical_amount_def)
qed

text \<open>The spend map holds canonical amounts.\<close>

definition spend_ok :: "spend_map \<Rightarrow> bool" where
  "spend_ok m \<longleftrightarrow> (\<forall>k v. m k = Some v \<longrightarrow> canonical_amount v)"

lemma stored_spend_canonical: "spend_ok m \<Longrightarrow> canonical_decimal 18 (stored_spend m k)"
proof (cases "m k")
  case None
  have "canonical_decimal 18 ''0.00''" by code_simp
  with None show ?thesis by (simp add: stored_spend_def)
qed (auto simp: stored_spend_def spend_ok_def canonical_amount_def)

theorem mem_record_spend_adds:
  assumes H: "decimal_ok H" and m: "spend_ok m" and amt: "canonical_amount (sp_amount sp)"
    and k: "k = spend_key (sp_principal sp) (sp_day sp)"
    and fits: "decimal_digits 20 (decimal_value (stored_spend m k) + decimal_value (sp_amount sp))"
  shows "\<exists>m'. mem_record_spend H sp m = (Inr (), m') \<and> spend_ok m' \<and>
    decimal_value (stored_spend m' k) = decimal_value (stored_spend m k) + decimal_value (sp_amount sp) \<and>
    (\<forall>j. j \<noteq> k \<longrightarrow> stored_spend m' j = stored_spend m j)"
proof -
  have a: "canonical_decimal 18 (sp_amount sp)" using amt by (simp add: canonical_amount_def)
  note c = stored_spend_canonical [OF m, of k]
  let ?q = "decimal_value (stored_spend m k) + decimal_value (sp_amount sp)"
  have "eighteen_places ?q" by (intro eighteen_places_add decimal_value_places a c)
  note t = to_canonical_amount_exact [OF H this]
  have "mem_record_spend H sp m = (Inr (), m(k \<mapsto> to_canonical_amount H ?q))"
    by (simp add: mem_record_spend_def k [symmetric] new_decimal_canonical [OF H c]
        new_decimal_canonical [OF H a] dec_plus_exact [OF H fits] Let_def)
  then show ?thesis using t m by (auto simp: spend_ok_def stored_spend_def)
qed

end
