(* ===== verification/Stores.thy ===== *)
theory Stores
  imports PolicyEval "HOL-Library.AList"
begin

section \<open>The stores behind a decision provider, and their contracts\<close>

text \<open>
  \<open>decision-core/src/provider.ts\<close>, \<open>metrics.ts\<close> and \<open>policy-engine/src/decision-store.ts\<close>:
  the inputs and results of consumption and approval, the in-memory nonce store and decision
  store, the in-memory metrics. Two locales state what a provider relies on: a nonce store
  gives each (decision, nonce) pair one owner, a decision store returns what was saved and
  lets each approval be claimed once. Their clients' facts (single use, one claim) are proved
  in the locales; the in-memory stores interpret them here, the PostgreSQL stores in theirs.
\<close>

subsection \<open>Inputs and results\<close>

record consume_input =
  co_decision_id :: string
  co_action_hash :: string
  co_execution_ref :: string

datatype consume_status = Consumed | Idempotent | Conflict | Rejected

record consume_result =
  cr_success :: bool
  cr_status :: consume_status
  cr_decision_id :: string
  cr_execution_ref :: string
  cr_consumed_at :: "string option"
  cr_reason :: "reason_code option"

definition consume_rejection :: "consume_input \<Rightarrow> reason_code \<Rightarrow> consume_result" where
  "consume_rejection i r =
     \<lparr>cr_success = False, cr_status = Rejected, cr_decision_id = co_decision_id i,
      cr_execution_ref = co_execution_ref i, cr_consumed_at = None, cr_reason = Some r\<rparr>"

record resolve_input =
  ri_decision_id :: string
  ri_granted :: bool
  ri_approval_reference :: string
  ri_approver_ids :: "string list"

datatype resolve_status = Superseded | ResolveConflict | ResolveRejected

record resolve_result =
  rr_success :: bool
  rr_status :: resolve_status
  rr_decision_id :: string
  rr_decision :: "decision option"
  rr_reason :: "reason_code option"

record consumption =
  nc_decision_id :: string
  nc_nonce :: string
  nc_action_hash :: string
  nc_execution_ref :: string
  nc_expires_at :: int
  nc_consumed_at :: int

subsection \<open>The in-memory nonce store\<close>

type_synonym nonce_map = "string \<Rightarrow> consumption option"

definition nonce_key :: "string \<Rightarrow> string \<Rightarrow> string" where
  "nonce_key d n = d @ CHR '':'' # n"

definition consumed_result :: "consumption \<Rightarrow> consume_status \<Rightarrow> int \<Rightarrow> error + consume_result" where
  "consumed_result c st t =
     (case to_iso_string t of
        None \<Rightarrow> Inl (JsError ''RangeError'' ''Invalid time value'')
      | Some tm \<Rightarrow> Inr \<lparr>cr_success = True, cr_status = st, cr_decision_id = nc_decision_id c,
          cr_execution_ref = nc_execution_ref c, cr_consumed_at = Some tm, cr_reason = None\<rparr>)"

definition conflict_result :: "consumption \<Rightarrow> consume_result" where
  "conflict_result c =
     \<lparr>cr_success = False, cr_status = Conflict, cr_decision_id = nc_decision_id c,
      cr_execution_ref = nc_execution_ref c, cr_consumed_at = None,
      cr_reason = Some NONCE_ALREADY_CONSUMED\<rparr>"

definition mem_consume :: "consumption \<Rightarrow> (error, nonce_map, consume_result) io" where
  "mem_consume c m =
     (let key = nonce_key (nc_decision_id c) (nc_nonce c)
      in case m key of
           None \<Rightarrow> (consumed_result c Consumed (nc_consumed_at c), m(key \<mapsto> c))
         | Some e \<Rightarrow>
             if nc_action_hash e = nc_action_hash c \<and> nc_execution_ref e = nc_execution_ref c
             then (consumed_result c Idempotent (nc_consumed_at e), m)
             else (Inr (conflict_result c), m))"

subsection \<open>The in-memory decision store\<close>

record decision_state =
  dm_records :: "string \<Rightarrow> (decision \<times> action) option"
  dm_claimed :: "string list"

definition mem_save :: "decision \<Rightarrow> action \<Rightarrow> (error, decision_state, unit) io" where
  "mem_save d a s = (Inr (), s\<lparr>dm_records := (dm_records s)(d_decision_id d \<mapsto> (d, a))\<rparr>)"

definition mem_get :: "string \<Rightarrow> (error, decision_state, (decision \<times> action) option) io" where
  "mem_get i s = (Inr (dm_records s i), s)"

text \<open>\<open>True\<close> is the result \<open>"claimed"\<close>.\<close>

definition mem_claim :: "string \<Rightarrow> (error, decision_state, bool) io" where
  "mem_claim i s =
     (if i \<in> set (dm_claimed s) then (Inr False, s)
      else (Inr True, s\<lparr>dm_claimed := i # dm_claimed s\<rparr>))"

subsection \<open>Metrics\<close>

datatype metric =
    DecisionMetric verdict rail rat
  | VerificationFailure reason_code
  | ReplayAttempt

record metrics_state =
  mt_decisions :: "(string \<times> nat) list"
  mt_latencies :: "rat list"
  mt_failures :: "(reason_code \<times> nat) list"
  mt_replays :: nat

definition bump :: "'k \<Rightarrow> ('k \<times> nat) list \<Rightarrow> ('k \<times> nat) list" where
  "bump k m = AList.update k ((case map_of m k of None \<Rightarrow> 0 | Some n \<Rightarrow> n) + 1) m"

fun mem_metric :: "metric \<Rightarrow> metrics_state \<Rightarrow> metrics_state" where
  "mem_metric (DecisionMetric v r ms) s =
     s\<lparr>mt_decisions := bump (verdict_string v @ CHR '':'' # rail_string r) (mt_decisions s),
       mt_latencies := mt_latencies s @ [ms]\<rparr>"
| "mem_metric (VerificationFailure r) s = s\<lparr>mt_failures := bump r (mt_failures s)\<rparr>"
| "mem_metric ReplayAttempt s = s\<lparr>mt_replays := mt_replays s + 1\<rparr>"

lemma bump_count: "map_of (bump k m) j = (if j = k then Some ((case map_of m k of None \<Rightarrow> 0 | Some n \<Rightarrow> n) + 1) else map_of m j)"
  by (simp add: bump_def update_conv')

subsection \<open>The contract of a nonce store\<close>

text \<open>
  \<open>owner s d n\<close> is the action hash and execution reference that the nonce \<open>n\<close> of decision
  \<open>d\<close> was consumed for in state \<open>s\<close>.
\<close>

locale nonce_store =
  fixes consume :: "consumption \<Rightarrow> (error, 's, consume_result) io"
    and owner :: "'s \<Rightarrow> string \<Rightarrow> string \<Rightarrow> (string \<times> string) option"
  assumes owner_kept: "owner s d n = Some w \<Longrightarrow> owner (snd (consume c s)) d n = Some w"
    and owner_frame: "base64url n \<Longrightarrow> base64url (nc_nonce c) \<Longrightarrow>
      (d, n) \<noteq> (nc_decision_id c, nc_nonce c) \<Longrightarrow> owner (snd (consume c s)) d n = owner s d n"
    and consumed: "consume c s = (Inr r, s') \<Longrightarrow> cr_status r = Consumed \<Longrightarrow>
      owner s (nc_decision_id c) (nc_nonce c) = None \<and>
      owner s' (nc_decision_id c) (nc_nonce c) = Some (nc_action_hash c, nc_execution_ref c)"
    and idempotent: "consume c s = (Inr r, s') \<Longrightarrow> cr_status r = Idempotent \<Longrightarrow>
      owner s (nc_decision_id c) (nc_nonce c) = Some (nc_action_hash c, nc_execution_ref c)"
    and success: "consume c s = (Inr r, s') \<Longrightarrow> cr_success r \<longleftrightarrow> cr_status r \<in> {Consumed, Idempotent}"
begin

lemma success_owner:
  assumes "consume c s = (Inr r, s')" "cr_success r"
  shows "owner s' (nc_decision_id c) (nc_nonce c) = Some (nc_action_hash c, nc_execution_ref c)"
proof (cases "cr_status r = Consumed")
  case True
  with assms consumed show ?thesis by blast
next
  case False
  with assms success have "cr_status r = Idempotent" by blast
  with assms idempotent have "owner s (nc_decision_id c) (nc_nonce c) = Some (nc_action_hash c, nc_execution_ref c)"
    by blast
  from owner_kept [OF this, of c] assms(1) show ?thesis by simp
qed

lemma owner_stays:
  "owner (state_at consume cs s i) d n = Some w \<Longrightarrow> i \<le> j \<Longrightarrow> owner (state_at consume cs s j) d n = Some w"
  by (rule state_at_invariant [where P = "\<lambda>s. owner s d n = Some w" and f = consume]) (simp_all add: owner_kept)

text \<open>
  Over any sequence of consumptions, two successes for one decision and nonce are for one
  action and one execution, and only the first of them is a new consumption.
\<close>

lemma single_use:
  assumes run: "run_ops consume cs s = (rs, s')" and ij: "i < j" "j < length cs"
    and ri: "rs ! i = Inr a" "cr_success a" and rj: "rs ! j = Inr b" "cr_success b"
    and same: "nc_decision_id (cs ! i) = nc_decision_id (cs ! j)" "nc_nonce (cs ! i) = nc_nonce (cs ! j)"
  shows "nc_action_hash (cs ! i) = nc_action_hash (cs ! j) \<and>
    nc_execution_ref (cs ! i) = nc_execution_ref (cs ! j) \<and> cr_status b \<noteq> Consumed"
proof -
  let ?w = "(nc_action_hash (cs ! i), nc_execution_ref (cs ! i))"
  have i: "consume (cs ! i) (state_at consume cs s i) = (Inr a, state_at consume cs s (Suc i))"
    using run_ops_nth [OF run, of i] ij ri by simp
  have j: "consume (cs ! j) (state_at consume cs s j) = (Inr b, state_at consume cs s (Suc j))"
    using run_ops_nth [OF run, of j] ij rj by simp
  have "owner (state_at consume cs s j) (nc_decision_id (cs ! j)) (nc_nonce (cs ! j)) = Some ?w"
    using owner_stays [OF success_owner [OF i ri(2)], of j] ij same by simp
  moreover have "cr_status b \<noteq> Consumed" using calculation consumed [OF j] by auto
  moreover have "cr_status b = Idempotent" using success [OF j] rj(2) calculation(2) by blast
  ultimately show ?thesis using idempotent [OF j] by simp
qed

end

text \<open>A store that refuses a consumption only for the owner of that very nonce.\<close>

locale exact_nonce_store = nonce_store consume owner
  for consume :: "consumption \<Rightarrow> (error, 's, consume_result) io"
    and owner :: "'s \<Rightarrow> string \<Rightarrow> string \<Rightarrow> (string \<times> string) option" +
  assumes conflict: "consume c s = (Inr r, s') \<Longrightarrow> cr_status r = Conflict \<Longrightarrow>
      \<exists>w. owner s (nc_decision_id c) (nc_nonce c) = Some w \<and> w \<noteq> (nc_action_hash c, nc_execution_ref c)"
begin

lemma fresh_nonce_is_free:
  "owner s (nc_decision_id c) (nc_nonce c) = None \<Longrightarrow> consume c s = (Inr r, s') \<Longrightarrow> cr_status r \<noteq> Conflict"
  using conflict by fastforce

end

lemma nonce_key_inj:
  assumes "base64url n" "base64url n'" "nonce_key d n = nonce_key d' n'"
  shows "d = d' \<and> n = n'"
proof -
  have nc: "takeWhile (\<lambda>c. c \<noteq> CHR '':'') (rev (nonce_key x y)) = rev y" if "base64url y" for x y
  proof -
    have "\<forall>c \<in> set (rev y). c \<noteq> CHR '':''"
      using that by (auto simp: base64url_def list_all_iff b64url_char_def)
    then have "takeWhile (\<lambda>c. c \<noteq> CHR '':'') (rev y @ CHR '':'' # rev x) = rev y"
      by (subst takeWhile_append2) auto
    then show ?thesis by (simp add: nonce_key_def)
  qed
  from nc [OF assms(1), of d] nc [OF assms(2), of d'] assms(3) have "n = n'" by simp
  with assms(3) show ?thesis by (simp add: nonce_key_def)
qed

definition mem_owner :: "nonce_map \<Rightarrow> string \<Rightarrow> string \<Rightarrow> (string \<times> string) option" where
  "mem_owner m d n = map_option (\<lambda>c. (nc_action_hash c, nc_execution_ref c)) (m (nonce_key d n))"

lemma consumed_result_Inr:
  "consumed_result c st t = Inr r \<Longrightarrow> cr_success r \<and> cr_status r = st"
  by (auto simp: consumed_result_def split: option.splits)

interpretation mem_nonces: exact_nonce_store mem_consume mem_owner
proof
  fix s :: nonce_map and c :: consumption and d n w
  show "mem_owner s d n = Some w \<Longrightarrow> mem_owner (snd (mem_consume c s)) d n = Some w"
    by (auto simp: mem_owner_def mem_consume_def Let_def split: option.splits if_splits)
  show "base64url n \<Longrightarrow> base64url (nc_nonce c) \<Longrightarrow> (d, n) \<noteq> (nc_decision_id c, nc_nonce c) \<Longrightarrow>
      mem_owner (snd (mem_consume c s)) d n = mem_owner s d n"
    using nonce_key_inj [of n "nc_nonce c" d "nc_decision_id c"]
    by (auto simp: mem_owner_def mem_consume_def Let_def split: option.splits)
next
  fix s s' :: nonce_map and c :: consumption and r
  assume e: "mem_consume c s = (Inr r, s')"
  note defs = mem_owner_def mem_consume_def Let_def conflict_result_def
  show "cr_status r = Consumed \<Longrightarrow> mem_owner s (nc_decision_id c) (nc_nonce c) = None \<and>
      mem_owner s' (nc_decision_id c) (nc_nonce c) = Some (nc_action_hash c, nc_execution_ref c)"
    using e by (auto simp: defs split: option.splits if_splits dest: consumed_result_Inr)
  show "cr_status r = Idempotent \<Longrightarrow>
      mem_owner s (nc_decision_id c) (nc_nonce c) = Some (nc_action_hash c, nc_execution_ref c)"
    using e by (auto simp: defs split: option.splits if_splits dest: consumed_result_Inr)
  show "cr_status r = Conflict \<Longrightarrow>
      \<exists>w. mem_owner s (nc_decision_id c) (nc_nonce c) = Some w \<and> w \<noteq> (nc_action_hash c, nc_execution_ref c)"
    using e by (auto simp: defs split: option.splits if_splits dest: consumed_result_Inr)
  show "cr_success r \<longleftrightarrow> cr_status r \<in> {Consumed, Idempotent}"
    using e by (auto simp: defs split: option.splits if_splits dest: consumed_result_Inr)
qed

subsection \<open>The contract of a decision store\<close>

locale decision_store =
  fixes save :: "decision \<Rightarrow> action \<Rightarrow> (error, 's, unit) io"
    and get :: "string \<Rightarrow> (error, 's, (decision \<times> action) option) io"
    and claim :: "string \<Rightarrow> (error, 's, bool) io"
    and records :: "'s \<Rightarrow> string \<Rightarrow> (decision \<times> action) option"
    and claimed :: "'s \<Rightarrow> string set"
  assumes get_reads: "get i s = (Inr x, s') \<Longrightarrow> x = records s i"
    and get_frame: "records (snd (get i s)) = records s \<and> claimed (snd (get i s)) = claimed s"
    and save_stores: "save d a s = (Inr (), s') \<Longrightarrow> records s' (d_decision_id d) = Some (d, a)"
    and save_frame: "j \<noteq> d_decision_id d \<Longrightarrow> records (snd (save d a s)) j = records s j"
    and save_claims: "claimed (snd (save d a s)) = claimed s"
    and claim_new: "claim i s = (Inr True, s') \<Longrightarrow> i \<notin> claimed s \<and> claimed s' = insert i (claimed s)"
    and claim_old: "claim i s = (Inr False, s') \<Longrightarrow> claimed s' = claimed s"
    and claim_mono: "claimed s \<subseteq> claimed (snd (claim i s))"
    and claim_frame: "records (snd (claim i s)) = records s"
begin

lemma saved_is_read:
  assumes "save d a s = (Inr (), s1)" "get (d_decision_id d) s1 = (Inr x, s2)"
  shows "x = Some (d, a)"
  using save_stores [OF assms(1)] get_reads [OF assms(2)] by simp

text \<open>Over any sequence of claims, a decision is claimed at most once.\<close>

lemma claimed_once:
  assumes run: "run_ops claim is s = (rs, s')" and ij: "i < j" "j < length is" and same: "is ! i = is ! j"
    and "rs ! i = Inr True"
  shows "rs ! j \<noteq> Inr True"
proof
  assume rj: "rs ! j = Inr True"
  have i: "claim (is ! i) (state_at claim is s i) = (Inr True, state_at claim is s (Suc i))"
    using run_ops_nth [OF run, of i] ij assms(5) by simp
  have j: "claim (is ! j) (state_at claim is s j) = (Inr True, state_at claim is s (Suc j))"
    using run_ops_nth [OF run, of j] ij rj by simp
  have "is ! i \<in> claimed (state_at claim is s (Suc i))" using claim_new [OF i] by simp
  then have "is ! i \<in> claimed (state_at claim is s j)"
    by (rule state_at_invariant [where P = "\<lambda>s. is ! i \<in> claimed s" and f = claim, rotated])
      (use ij claim_mono in auto)
  with claim_new [OF j] same show False by simp
qed

end

interpretation mem_decisions: decision_store mem_save mem_get mem_claim dm_records "\<lambda>s. set (dm_claimed s)"
  by unfold_locales (auto simp: mem_save_def mem_get_def mem_claim_def split: if_splits)

end
