(* ===== verification/LocalProvider.thy ===== *)
theory LocalProvider
  imports Stores
begin

section \<open>The local policy decision provider\<close>

text \<open>
  \<open>policy-engine/src/local-provider.ts\<close>: \<open>evaluate\<close>, \<open>issueBlock\<close>, \<open>resolveApproval\<close> (with and
  without a replacement action) and \<open>consume\<close>, over the stores they are given as a record of
  operations. Clock readings, the random identifiers and the measured latency of a call are
  an argument of the call. Lemmas: what each operation returned has been signed and saved;
  a human grant never overrides a blocking policy; an approval is resolved at most once;
  only an unexpired \<open>ALLOW\<close> with the right action hash is consumed, once.
\<close>

subsection \<open>The provider and its calls\<close>

text \<open>Either the legacy split stores or the atomic state store (\<open>options.stateStore\<close>).\<close>

datatype 's consumption_path =
    SplitStores "consumption \<Rightarrow> (error, 's, consume_result) io" "spend \<Rightarrow> (error, 's, unit) io"
  | AtomicStore "consumption \<Rightarrow> spend \<Rightarrow> string \<Rightarrow> (error, 's, consume_result) io"

record 's provider =
  lp_policy :: policy
  lp_signer :: signer
  lp_save :: "decision \<Rightarrow> action \<Rightarrow> (error, 's, unit) io"
  lp_get :: "string \<Rightarrow> (error, 's, (decision \<times> action) option) io"
  lp_claim :: "string \<Rightarrow> (error, 's, bool) io"
  lp_daily :: "string \<Rightarrow> string \<Rightarrow> (error, 's, string) io"
  lp_consumption :: "'s consumption_path"
  lp_metric :: "metric \<Rightarrow> 's \<Rightarrow> 's"

record ambient =
  am_clock :: "nat \<Rightarrow> int"
  am_uuid :: string
  am_nonce :: string
  am_elapsed :: rat

definition default_request_ttl :: int where
  "default_request_ttl = 900"

definition lp_create_input ::
  "host \<Rightarrow> 's provider \<Rightarrow> ambient \<Rightarrow> nat \<Rightarrow> evaluation \<Rightarrow> string option \<Rightarrow> create_input" where
  "lp_create_input H P am k ev sps =
     \<lparr>ci_evaluation = ev, ci_policy_hash = hash_policy H (lp_policy P),
      ci_policy_version = pl_version (lp_policy P), ci_ttl_seconds = pl_ttl_seconds (lp_policy P),
      ci_now = am_clock am k, ci_decision_id = am_uuid am, ci_nonce = am_nonce am, ci_supersedes = sps\<rparr>"

definition lp_sign ::
  "host \<Rightarrow> 's provider \<Rightarrow> ambient \<Rightarrow> nat \<Rightarrow> action \<Rightarrow> evaluation \<Rightarrow> string option \<Rightarrow> (error, 's, decision) io" where
  "lp_sign H P am k a ev sps =
     bind_io (lift_io (create_signed_decision H (lp_signer P) a (lp_create_input H P am k ev sps))) (\<lambda>d.
     bind_io (lp_save P d a) (\<lambda>_. ret d))"

definition lp_record_decision :: "'s provider \<Rightarrow> ambient \<Rightarrow> decision \<Rightarrow> (error, 's, unit) io" where
  "lp_record_decision P am d =
     modify_io (lp_metric P (DecisionMetric (d_verdict d) (d_rail d) (am_elapsed am)))"

definition lp_evaluate :: "host \<Rightarrow> 's provider \<Rightarrow> ambient \<Rightarrow> action \<Rightarrow> (error, 's, decision) io" where
  "lp_evaluate H P am a =
     bind_io (evaluate_policy H (lp_policy P) (lp_daily P) (am_clock am 0) a) (\<lambda>ev.
     bind_io (lp_sign H P am 1 a ev None) (\<lambda>d.
     bind_io (lp_record_decision P am d) (\<lambda>_. ret d)))"

definition lp_issue_block ::
  "host \<Rightarrow> 's provider \<Rightarrow> ambient \<Rightarrow> action \<Rightarrow> reason_code list \<Rightarrow> (error, 's, decision) io" where
  "lp_issue_block H P am a rs =
     (if rs = [] then throw (JsError ''TypeError'' ''A signed BLOCK requires at least one reason code'')
      else
        bind_io (lp_sign H P am 0 a
          \<lparr>ev_verdict = BLOCK, ev_reasons = rs, ev_approval = engine_approval PolicyEngine\<rparr> None) (\<lambda>d.
        bind_io (lp_record_decision P am d) (\<lambda>_. ret d)))"

definition resolve_rejection :: "resolve_input \<Rightarrow> reason_code \<Rightarrow> resolve_result" where
  "resolve_rejection ri r =
     \<lparr>rr_success = False,
      rr_status = (if r = APPROVAL_ALREADY_RESOLVED then ResolveConflict else ResolveRejected),
      rr_decision_id = ri_decision_id ri, rr_decision = None, rr_reason = Some r\<rparr>"

definition same_request :: "action \<Rightarrow> action \<Rightarrow> bool" where
  "same_request a b \<longleftrightarrow>
     a_principal_id a = a_principal_id b \<and> a_agent_id a = a_agent_id b \<and> a_rail a = a_rail b \<and>
     a_transaction a = a_transaction b \<and> a_reference a = a_reference b"

text \<open>The evaluation that a resolved approval carries.\<close>

definition resolved_evaluation :: "resolve_input \<Rightarrow> evaluation \<Rightarrow> evaluation" where
  "resolved_evaluation ri pe =
     (let ap = \<lparr>ap_mode = Human, ap_reference = Some (ri_approval_reference ri),
                ap_approver_ids = ri_approver_ids ri\<rparr>
      in if \<not> ri_granted ri
         then \<lparr>ev_verdict = BLOCK, ev_reasons = [HUMAN_APPROVAL_REFUSED], ev_approval = ap\<rparr>
         else if ev_verdict pe = BLOCK then pe\<lparr>ev_approval := ap\<rparr>
         else \<lparr>ev_verdict = ALLOW,
                ev_reasons = filter (\<lambda>c. c \<noteq> HUMAN_APPROVAL_REQUIRED) (ev_reasons pe) @ [HUMAN_APPROVAL_GRANTED],
                ev_approval = ap\<rparr>)"

definition approval_closed :: "policy \<Rightarrow> decision \<Rightarrow> int \<Rightarrow> bool" where
  "approval_closed p d now \<longleftrightarrow>
     (case date_parse (d_issued_at d) of
        None \<Rightarrow> False
      | Some t \<Rightarrow> t + (case pl_request_ttl p of None \<Rightarrow> default_request_ttl | Some n \<Rightarrow> n) * 1000 \<le> now)"

definition lp_resolve ::
  "host \<Rightarrow> 's provider \<Rightarrow> ambient \<Rightarrow> resolve_input \<Rightarrow> action option \<Rightarrow> (error, 's, resolve_result) io" where
  "lp_resolve H P am ri replacement =
     bind_io (lp_get P (ri_decision_id ri)) (\<lambda>issued.
     case issued of
       None \<Rightarrow> ret (resolve_rejection ri APPROVAL_NOT_PENDING)
     | Some (issued_decision, issued_action) \<Rightarrow>
         if d_verdict issued_decision \<noteq> REQUIRE_APPROVAL
         then ret (resolve_rejection ri APPROVAL_NOT_PENDING)
         else if (case replacement of None \<Rightarrow> False | Some r \<Rightarrow> \<not> same_request r issued_action)
         then ret (resolve_rejection ri ACTION_HASH_MISMATCH)
         else if approval_closed (lp_policy P) issued_decision (am_clock am 0)
         then ret (resolve_rejection ri DECISION_EXPIRED)
         else
           bind_io (lp_claim P (ri_decision_id ri)) (\<lambda>claimed.
           if \<not> claimed then ret (resolve_rejection ri APPROVAL_ALREADY_RESOLVED)
           else
             let a = (case replacement of None \<Rightarrow> issued_action | Some r \<Rightarrow> r) in
             bind_io (evaluate_policy H (lp_policy P) (lp_daily P) (am_clock am 1) a) (\<lambda>pe.
             bind_io (lp_sign H P am 2 a (resolved_evaluation ri pe) (Some (d_decision_id issued_decision))) (\<lambda>d.
             bind_io (lp_record_decision P am d) (\<lambda>_.
             ret \<lparr>rr_success = True, rr_status = Superseded, rr_decision_id = ri_decision_id ri,
                  rr_decision = Some d, rr_reason = None\<rparr>)))))"

text \<open>The two consumption paths: the spend is recorded after a first consumption, or with it.\<close>

definition consume_by :: "'s provider \<Rightarrow> spend \<Rightarrow> consumption \<Rightarrow> (error, 's, consume_result) io" where
  "consume_by P sp c =
     (case lp_consumption P of
        SplitStores consume _ \<Rightarrow> consume c
      | AtomicStore consume_and_record \<Rightarrow> consume_and_record c sp (pl_daily (lp_policy P)))"

definition record_by :: "'s provider \<Rightarrow> consume_result \<Rightarrow> spend \<Rightarrow> (error, 's, unit) io" where
  "record_by P r sp =
     (case lp_consumption P of
        SplitStores _ record_spend \<Rightarrow> if cr_status r = Consumed then record_spend sp else ret ()
      | AtomicStore _ \<Rightarrow> ret ())"

definition lp_consume :: "host \<Rightarrow> 's provider \<Rightarrow> ambient \<Rightarrow> consume_input \<Rightarrow> (error, 's, consume_result) io" where
  "lp_consume H P am ci =
     bind_io (lp_get P (co_decision_id ci)) (\<lambda>found.
     case found of
       None \<Rightarrow> ret (consume_rejection ci DECISION_NOT_ALLOW)
     | Some (d, _) \<Rightarrow>
         if d_verdict d \<noteq> ALLOW then ret (consume_rejection ci DECISION_NOT_ALLOW)
         else if d_action_hash d \<noteq> co_action_hash ci then ret (consume_rejection ci ACTION_HASH_MISMATCH)
         else if (case date_parse (d_expires_at d) of None \<Rightarrow> False | Some t \<Rightarrow> t \<le> am_clock am 0)
         then ret (consume_rejection ci DECISION_EXPIRED)
         else
           let c = \<lparr>nc_decision_id = d_decision_id d, nc_nonce = d_nonce d, nc_action_hash = d_action_hash d,
                    nc_execution_ref = co_execution_ref ci, nc_expires_at = time_of (d_expires_at d),
                    nc_consumed_at = am_clock am 0\<rparr> in
           bind_io (lift_io (spend_day_key H (am_clock am 0) (tw_timezone (pl_windows (lp_policy P))))) (\<lambda>day.
           let sp = \<lparr>sp_principal = d_principal_id d, sp_day = day, sp_amount = tx_amount (d_transaction d)\<rparr> in
           bind_io (consume_by P sp c) (\<lambda>r.
           bind_io (if cr_status r = Conflict then modify_io (lp_metric P ReplayAttempt) else ret ()) (\<lambda>_.
           bind_io (record_by P r sp) (\<lambda>_. ret r)))))"

subsection \<open>The provider over the in-memory stores\<close>

record memory =
  me_decisions :: decision_state
  me_nonces :: nonce_map
  me_spend :: spend_map
  me_metrics :: metrics_state

definition on_part :: "('s \<Rightarrow> 't) \<Rightarrow> (('t \<Rightarrow> 't) \<Rightarrow> 's \<Rightarrow> 's) \<Rightarrow> ('e, 't, 'a) io \<Rightarrow> ('e, 's, 'a) io" where
  "on_part sel upd m = (\<lambda>s. case m (sel s) of (r, t) \<Rightarrow> (r, upd (\<lambda>_. t) s))"

definition memory_provider :: "host \<Rightarrow> policy \<Rightarrow> signer \<Rightarrow> memory provider" where
  "memory_provider H p sg =
     \<lparr>lp_policy = p, lp_signer = sg,
      lp_save = (\<lambda>d a. on_part me_decisions me_decisions_update (mem_save d a)),
      lp_get = (\<lambda>i. on_part me_decisions me_decisions_update (mem_get i)),
      lp_claim = (\<lambda>i. on_part me_decisions me_decisions_update (mem_claim i)),
      lp_daily = (\<lambda>prin day. on_part me_spend me_spend_update (mem_daily_spend prin day)),
      lp_consumption = SplitStores (\<lambda>c. on_part me_nonces me_nonces_update (mem_consume c))
        (\<lambda>sp. on_part me_spend me_spend_update (mem_record_spend H sp)),
      lp_metric = (\<lambda>m s. s\<lparr>me_metrics := mem_metric m (me_metrics s)\<rparr>)\<rparr>"

text \<open>A fresh store.\<close>

definition empty_memory :: memory where
  "empty_memory =
     \<lparr>me_decisions = \<lparr>dm_records = Map.empty, dm_claimed = []\<rparr>, me_nonces = Map.empty, me_spend = Map.empty,
      me_metrics = \<lparr>mt_decisions = [], mt_latencies = [], mt_failures = [], mt_replays = 0\<rparr>\<rparr>"

subsection \<open>Histories of calls\<close>

datatype provider_call =
    Evaluate ambient action
  | IssueBlock ambient action "reason_code list"
  | ResolveApproval ambient resolve_input "action option"
  | Consume ambient consume_input

datatype provider_outcome =
    Issued decision
  | Resolved resolve_result
  | ConsumeOutcome consume_result

fun call_ambient :: "provider_call \<Rightarrow> ambient" where
  "call_ambient (Evaluate am a) = am"
| "call_ambient (IssueBlock am a rs) = am"
| "call_ambient (ResolveApproval am ri r) = am"
| "call_ambient (Consume am ci) = am"

fun lp_step :: "host \<Rightarrow> 's provider \<Rightarrow> provider_call \<Rightarrow> (error, 's, provider_outcome) io" where
  "lp_step H P (Evaluate am a) = bind_io (lp_evaluate H P am a) (\<lambda>d. ret (Issued d))"
| "lp_step H P (IssueBlock am a rs) = bind_io (lp_issue_block H P am a rs) (\<lambda>d. ret (Issued d))"
| "lp_step H P (ResolveApproval am ri r) = bind_io (lp_resolve H P am ri r) (\<lambda>x. ret (Resolved x))"
| "lp_step H P (Consume am ci) = bind_io (lp_consume H P am ci) (\<lambda>x. ret (ConsumeOutcome x))"

subsection \<open>What the provider guarantees over a decision store\<close>

lemma keeps_evaluate_policy:
  assumes "state_order R" "\<And>q d. keeps R (get_daily q d)"
  shows "keeps R (evaluate_policy H p get_daily now a)"
  unfolding evaluate_policy_def by (intro keeps_intros assms)

locale decision_provider =
  decision_store "lp_save P" "lp_get P" "lp_claim P" records claimed
  for P :: "'s provider" and records :: "'s \<Rightarrow> string \<Rightarrow> (decision \<times> action) option"
    and claimed :: "'s \<Rightarrow> string set" +
  assumes daily_frame: "keeps (\<lambda>s s'. records s' = records s \<and> claimed s' = claimed s) (lp_daily P q day)"
    and split_frame: "lp_consumption P = SplitStores consume record_spend \<Longrightarrow>
      keeps (\<lambda>s s'. records s' = records s \<and> claimed s' = claimed s) (consume c) \<and>
      keeps (\<lambda>s s'. records s' = records s \<and> claimed s' = claimed s) (record_spend sp)"
    and atomic_frame: "lp_consumption P = AtomicStore consume_and_record \<Longrightarrow>
      keeps (\<lambda>s s'. records s' = records s \<and> claimed s' = claimed s) (consume_and_record c sp daily_limit)"
    and metric_frame: "records (lp_metric P m s) = records s \<and> claimed (lp_metric P m s) = claimed s"
begin

lemma sign_correct:
  assumes "lp_sign H P am k a ev sps s = (Inr d, s')"
  shows "create_signed_decision H (lp_signer P) a (lp_create_input H P am k ev sps) = Inr d \<and>
    records s' (d_decision_id d) = Some (d, a) \<and> claimed s' = claimed s"
  using assms save_stores [of d a s s'] save_claims [of d a s]
  by (auto simp: lp_sign_def bind_io_Inr)

lemma create_fields:
  assumes "create_signed_decision H sg a (lp_create_input H P am k ev sps) = Inr d"
  shows "d_decision_id d = am_uuid am \<and> d_verdict d = ev_verdict ev \<and> d_reason_codes d = ev_reasons ev \<and>
    d_supersedes d = sps \<and> d_approval d = ev_approval ev \<and> d_nonce d = am_nonce am"
  using create_signed_decision_correct [OF assms]
  by (cases d) (auto simp: issued_for_def same_content_def unsigned_decision_def lp_create_input_def)

text \<open>An evaluated action yields a signed decision, saved with the action it was made for.\<close>

lemma evaluate_correct:
  assumes "lp_evaluate H P am a s = (Inr d, s')"
  shows "\<exists>ev s1. evaluate_policy H (lp_policy P) (lp_daily P) (am_clock am 0) a s = (Inr ev, s1) \<and>
    create_signed_decision H (lp_signer P) a (lp_create_input H P am 1 ev None) = Inr d \<and>
    d_verdict d = ev_verdict ev \<and> records s' (d_decision_id d) = Some (d, a)"
proof -
  from assms obtain ev s1 s2 where ev: "evaluate_policy H (lp_policy P) (lp_daily P) (am_clock am 0) a s = (Inr ev, s1)"
    and sg: "lp_sign H P am 1 a ev None s1 = (Inr d, s2)"
    and s': "s' = lp_metric P (DecisionMetric (d_verdict d) (d_rail d) (am_elapsed am)) s2"
    by (auto simp: lp_evaluate_def bind_io_Inr lp_record_decision_def)
  from sign_correct [OF sg] create_fields [of H "lp_signer P" a am 1 ev None d] ev metric_frame show ?thesis
    by (auto simp: s')
qed

lemma issue_block_blocks:
  assumes "lp_issue_block H P am a rs s = (Inr d, s')"
  shows "d_verdict d = BLOCK \<and> d_reason_codes d = rs \<and> rs \<noteq> [] \<and> records s' (d_decision_id d) = Some (d, a)"
proof -
  define ev where "ev = \<lparr>ev_verdict = BLOCK, ev_reasons = rs, ev_approval = engine_approval PolicyEngine\<rparr>"
  from assms obtain s2 where ne: "rs \<noteq> []" and sg: "lp_sign H P am 0 a ev None s = (Inr d, s2)"
    and s': "s' = lp_metric P (DecisionMetric (d_verdict d) (d_rail d) (am_elapsed am)) s2"
    by (auto simp: lp_issue_block_def bind_io_Inr lp_record_decision_def ev_def split: if_splits)
  from sign_correct [OF sg] create_fields [of H "lp_signer P" a am 0 ev None d] ne metric_frame show ?thesis
    by (auto simp: s' ev_def)
qed

lemma evaluate_policy_frame:
  "evaluate_policy H p (lp_daily P) now a s = (r, s') \<Longrightarrow> records s' = records s \<and> claimed s' = claimed s"
  by (rule keepsD [of "\<lambda>s s'. records s' = records s \<and> claimed s' = claimed s"], rule keeps_evaluate_policy)
    (simp_all add: state_order_def daily_frame)

text \<open>
  A resolved approval: the stored decision asked for approval and was still open, the claim is
  new, and the new decision supersedes it. It allows exactly when the human granted and the
  policy, evaluated again, does not block.
\<close>

definition resolution ::
  "host \<Rightarrow> ambient \<Rightarrow> resolve_input \<Rightarrow> action option \<Rightarrow> 's \<Rightarrow> 's \<Rightarrow> decision \<Rightarrow> bool" where
  "resolution H am ri rep s s' d \<longleftrightarrow>
     (\<exists>issued stored_action a pe s0 s1.
        lp_get P (ri_decision_id ri) s = (Inr (Some (issued, stored_action)), s0) \<and>
        lp_claim P (ri_decision_id ri) s0 = (Inr True, s1) \<and>
        a = (case rep of None \<Rightarrow> stored_action | Some r \<Rightarrow> r) \<and>
        records s (ri_decision_id ri) = Some (issued, stored_action) \<and> same_request a stored_action \<and>
        d_verdict issued = REQUIRE_APPROVAL \<and>
        \<not> approval_closed (lp_policy P) issued (am_clock am 0) \<and>
        ri_decision_id ri \<notin> claimed s \<and> ri_decision_id ri \<in> claimed s' \<and>
        fst (evaluate_policy H (lp_policy P) (lp_daily P) (am_clock am 1) a s1) = Inr pe \<and>
        create_signed_decision H (lp_signer P) a
          (lp_create_input H P am 2 (resolved_evaluation ri pe) (Some (d_decision_id issued))) = Inr d \<and>
        records s' (d_decision_id d) = Some (d, a) \<and>
        d_supersedes d = Some (d_decision_id issued) \<and> ap_mode (d_approval d) = Human \<and>
        d_verdict d = (if ri_granted ri \<and> ev_verdict pe \<noteq> BLOCK then ALLOW else BLOCK))"

lemma same_request_refl [simp]: "same_request a a"
  by (simp add: same_request_def)

lemma resolve_correct:
  assumes "lp_resolve H P am ri rep s = (Inr r, s')" "rr_success r"
  shows "\<exists>d. rr_decision r = Some d \<and> resolution H am ri rep s s' d"
proof -
  from assms obtain x s0 where get: "lp_get P (ri_decision_id ri) s = (Inr x, s0)"
    by (auto simp: lp_resolve_def bind_io_Inr)
  have x: "x = records s (ri_decision_id ri)" using get_reads [OF get] .
  have s0: "records s0 = records s" "claimed s0 = claimed s" using get_frame [of "ri_decision_id ri" s] get by auto
  from assms get obtain issued stored_action where rec: "x = Some (issued, stored_action)"
    by (cases x) (auto simp: lp_resolve_def bind_io_Inr resolve_rejection_def)
  define a where "a = (case rep of None \<Rightarrow> stored_action | Some r \<Rightarrow> r)"
  from assms get rec have req: "d_verdict issued = REQUIRE_APPROVAL"
    and open_: "\<not> approval_closed (lp_policy P) issued (am_clock am 0)"
    and same: "same_request a stored_action"
    by (auto simp: lp_resolve_def bind_io_Inr resolve_rejection_def a_def split: if_splits option.splits)
  from assms get rec req open_ obtain s1 s2 s3 pe d where
    claim: "lp_claim P (ri_decision_id ri) s0 = (Inr True, s1)"
    and pe: "evaluate_policy H (lp_policy P) (lp_daily P) (am_clock am 1) a s1 = (Inr pe, s2)"
    and sg: "lp_sign H P am 2 a (resolved_evaluation ri pe) (Some (d_decision_id issued)) s2 = (Inr d, s3)"
    and s': "s' = lp_metric P (DecisionMetric (d_verdict d) (d_rail d) (am_elapsed am)) s3"
    and r: "rr_decision r = Some d"
    by (auto simp: lp_resolve_def bind_io_Inr resolve_rejection_def a_def Let_def lp_record_decision_def
        split: if_splits option.splits)
  note sc = sign_correct [OF sg]
  note cf = create_fields [OF sc [THEN conjunct1]]
  have "ri_decision_id ri \<in> claimed s1" using claim_new [OF claim] by simp
  then have "ri_decision_id ri \<in> claimed s'"
    using evaluate_policy_frame [OF pe] sc metric_frame by (simp add: s')
  moreover have "d_verdict d = (if ri_granted ri \<and> ev_verdict pe \<noteq> BLOCK then ALLOW else BLOCK)"
    and "ap_mode (d_approval d) = Human"
    using cf by (auto simp: resolved_evaluation_def Let_def)
  ultimately have "resolution H am ri rep s s' d"
    unfolding resolution_def
    using x rec req open_ same claim_new [OF claim] s0 pe sc cf metric_frame
    by (intro exI [of _ issued] exI [of _ stored_action] exI [of _ a] exI [of _ pe] exI [of _ s0] exI [of _ s1])
      (simp add: s' get [unfolded rec] claim a_def)
  with r show ?thesis by blast
qed

text \<open>What is consumed is a stored, allowing, unexpired decision with the action hash given.\<close>

lemma consume_correct:
  assumes "lp_consume H P am ci s = (Inr r, s')" "cr_success r"
  shows "\<exists>d a. records s (co_decision_id ci) = Some (d, a) \<and> d_verdict d = ALLOW \<and>
    d_action_hash d = co_action_hash ci \<and>
    (case date_parse (d_expires_at d) of None \<Rightarrow> True | Some t \<Rightarrow> am_clock am 0 < t)"
proof -
  from assms obtain x s0 where get: "lp_get P (co_decision_id ci) s = (Inr x, s0)"
    by (auto simp: lp_consume_def bind_io_Inr)
  have x: "x = records s (co_decision_id ci)" using get_reads [OF get] .
  from assms get obtain d a where rec: "x = Some (d, a)"
    by (cases x) (auto simp: lp_consume_def bind_io_Inr consume_rejection_def)
  have allow: "d_verdict d = ALLOW" and "d_action_hash d = co_action_hash ci"
    using assms get rec by (auto simp: lp_consume_def bind_io_Inr consume_rejection_def split: if_splits)
  moreover from this have "\<not> (case date_parse (d_expires_at d) of None \<Rightarrow> False | Some t \<Rightarrow> t \<le> am_clock am 0)"
    using assms get rec by (auto simp: lp_consume_def bind_io_Inr consume_rejection_def)
  ultimately show ?thesis using x rec
    by (intro exI [of _ d] exI [of _ a]) (auto split: option.splits)
qed

text \<open>Frame properties: claims are never dropped, and a call touches no record but the one
  under the identifier it drew.\<close>

lemma keeps_step:
  assumes R: "state_order R" and "\<And>i. keeps R (lp_get P i)" "\<And>i. keeps R (lp_claim P i)"
    and save: "\<And>d a. d_decision_id d = am_uuid (call_ambient c) \<Longrightarrow> keeps R (lp_save P d a)"
    and "\<And>q day. keeps R (lp_daily P q day)"
    and split: "\<And>consume record_spend x sp. lp_consumption P = SplitStores consume record_spend \<Longrightarrow>
      keeps R (consume x) \<and> keeps R (record_spend sp)"
    and atomic: "\<And>f x sp. lp_consumption P = AtomicStore f \<Longrightarrow> keeps R (f x sp (pl_daily (lp_policy P)))"
    and metric: "\<And>m s. R s (lp_metric P m s)"
  shows "keeps R (lp_step H P c)"
proof -
  have sign: "keeps R (lp_sign H P am k a ev sps)" if "call_ambient c = am" for am k a ev sps
    unfolding lp_sign_def
    by (intro keeps_bind_lift keeps_bind keeps_ret R save)
      (use create_fields [of H "lp_signer P" a am k ev sps] that in auto)
  note rules = keeps_bind keeps_if keeps_option keeps_prod keeps_ret keeps_throw keeps_lift keeps_modify
    sign assms(1-3,5) metric keeps_evaluate_policy
  show ?thesis
  proof (cases c)
    case (Evaluate am a)
    then show ?thesis
      by (auto simp: lp_evaluate_def lp_record_decision_def intro!: rules)
  next
    case (IssueBlock am a rs)
    then show ?thesis
      by (auto simp: lp_issue_block_def lp_record_decision_def intro!: rules)
  next
    case (ResolveApproval am ri r)
    then show ?thesis
      by (auto simp: lp_resolve_def lp_record_decision_def Let_def intro!: rules)
  next
    case (Consume am ci)
    have "keeps R (consume_by P sp x)" for x sp
      using split atomic by (cases "lp_consumption P") (auto simp: consume_by_def)
    moreover have "keeps R (record_by P r sp)" for r sp
      using split R by (cases "lp_consumption P") (auto simp: record_by_def intro: keeps_ret)
    ultimately show ?thesis
      using Consume by (auto simp: lp_consume_def Let_def intro!: rules)
  qed
qed

lemma claims_grow: "claimed s \<subseteq> claimed (snd (lp_step H P c s))"
proof -
  have "keeps (\<lambda>s s'. claimed s \<subseteq> claimed s') (lp_step H P c)"
    using get_frame save_claims claim_mono daily_frame split_frame atomic_frame metric_frame
    by (intro keeps_step) (auto simp: keeps_def state_order_def)
  then show ?thesis by (simp add: keeps_def)
qed

lemma records_kept:
  assumes "j \<noteq> am_uuid (call_ambient c)"
  shows "records (snd (lp_step H P c s)) j = records s j"
proof -
  have "keeps (\<lambda>s s'. records s' j = records s j) (lp_step H P c)"
    using get_frame save_frame claim_frame daily_frame split_frame atomic_frame metric_frame assms
    by (intro keeps_step) (auto simp: keeps_def state_order_def)
  then show ?thesis by (simp add: keeps_def)
qed

lemma claimed_stays:
  "i \<in> claimed (state_at (lp_step H P) cs s m) \<Longrightarrow> m \<le> n \<Longrightarrow> i \<in> claimed (state_at (lp_step H P) cs s n)"
  by (rule state_at_invariant [where P = "\<lambda>s. i \<in> claimed s" and f = "lp_step H P"])
    (use claims_grow in blast)+

text \<open>Over any history of calls, one decision is resolved successfully at most once.\<close>

lemma resolved_once:
  assumes run: "run_ops (lp_step H P) cs s = (rs, s')" and mn: "m < n" "n < length cs"
    and m: "cs ! m = ResolveApproval am ri rep" "rs ! m = Inr (Resolved r)" "rr_success r"
    and n: "cs ! n = ResolveApproval am' ri' rep'" "rs ! n = Inr (Resolved r')"
    and same: "ri_decision_id ri' = ri_decision_id ri"
  shows "\<not> rr_success r'"
proof
  assume ok: "rr_success r'"
  let ?st = "state_at (lp_step H P) cs s"
  have "lp_resolve H P am ri rep (?st m) = (Inr r, ?st (Suc m))"
    using run_ops_nth [OF run, of m] mn m by (auto simp: bind_io_Inr)
  from resolve_correct [OF this m(3)] have "ri_decision_id ri \<in> claimed (?st (Suc m))"
    by (auto simp: resolution_def)
  then have "ri_decision_id ri \<in> claimed (?st n)" by (rule claimed_stays) (use mn in simp)
  moreover have "lp_resolve H P am' ri' rep' (?st n) = (Inr r', ?st (Suc n))"
    using run_ops_nth [OF run, of n] mn n by (auto simp: bind_io_Inr)
  from resolve_correct [OF this ok] have "ri_decision_id ri' \<notin> claimed (?st n)"
    by (auto simp: resolution_def)
  ultimately show False by (simp add: same)
qed

text \<open>A record, once written, stays as long as its identifier is not drawn again.\<close>

lemma record_stays:
  assumes "records (state_at (lp_step H P) cs s m) j = Some x" "m \<le> n" "n \<le> length cs"
    and "\<forall>i. m \<le> i \<and> i < n \<longrightarrow> am_uuid (call_ambient (cs ! i)) \<noteq> j"
  shows "records (state_at (lp_step H P) cs s n) j = Some x"
  using assms(2-4)
proof (induction n rule: dec_induct)
  case base
  show ?case by (rule assms(1))
next
  case (step n)
  obtain rs s' where run: "run_ops (lp_step H P) cs s = (rs, s')" by fastforce
  have "state_at (lp_step H P) cs s (Suc n) = snd (lp_step H P (cs ! n) (state_at (lp_step H P) cs s n))"
    using run_ops_nth [OF run, of n] step.prems by simp
  with step records_kept [of j "cs ! n"] show ?case by auto
qed

lemma unwritten_record:
  "n \<le> length cs \<Longrightarrow> \<forall>i < n. am_uuid (call_ambient (cs ! i)) \<noteq> j \<Longrightarrow>
    records (state_at (lp_step H P) cs s n) j = records s j"
proof (induction n)
  case (Suc n)
  obtain rs s' where run: "run_ops (lp_step H P) cs s = (rs, s')" by fastforce
  have "state_at (lp_step H P) cs s (Suc n) = snd (lp_step H P (cs ! n) (state_at (lp_step H P) cs s n))"
    using run_ops_nth [OF run, of n] Suc.prems by simp
  with Suc records_kept [of j "cs ! n"] show ?case by auto
qed (simp add: state_at_def)

text \<open>With fresh identifiers a record, once there, never changes.\<close>

lemma record_immutable:
  assumes fresh: "distinct (map (am_uuid \<circ> call_ambient) cs)"
    "\<forall>c \<in> set cs. records s (am_uuid (call_ambient c)) = None"
    and "records (state_at (lp_step H P) cs s m) j = Some x" "m \<le> n" "n \<le> length cs"
  shows "records (state_at (lp_step H P) cs s n) j = Some x"
proof (rule record_stays [OF assms(3-5)])
  show "\<forall>i. m \<le> i \<and> i < n \<longrightarrow> am_uuid (call_ambient (cs ! i)) \<noteq> j"
  proof (intro allI impI notI)
    fix i assume i: "m \<le> i \<and> i < n" and j: "am_uuid (call_ambient (cs ! i)) = j"
    then have "\<forall>k < m. am_uuid (call_ambient (cs ! k)) \<noteq> j"
      using fresh(1) assms(4,5) by (auto simp: distinct_conv_nth)
    then have "records s j = Some x" using unwritten_record [of m cs j] assms(3-5) by simp
    moreover have "records s j = None" using fresh(2) i j assms(5) by auto
    ultimately show False by simp
  qed
qed

end

text \<open>
  A provider whose consumptions go to one nonce store, by either path: the store is given the
  consumption alone, or with its spend and the daily limit.
\<close>

locale single_use_provider =
  decision_provider P records claimed
  for P :: "'s provider" and records claimed +
  fixes owner :: "'s \<Rightarrow> string \<Rightarrow> string \<Rightarrow> (string \<times> string) option"
  assumes nonces: "nonce_store (consume_by P sp) owner"
    and others: "keeps (\<lambda>s s'. owner s' = owner s) (lp_get P i)" "keeps (\<lambda>s s'. owner s' = owner s) (lp_claim P i)"
      "keeps (\<lambda>s s'. owner s' = owner s) (lp_save P d a)" "keeps (\<lambda>s s'. owner s' = owner s) (lp_daily P q day)"
      "lp_consumption P = SplitStores consume record_spend \<Longrightarrow> keeps (\<lambda>s s'. owner s' = owner s) (record_spend sp)"
      "owner (lp_metric P m s) = owner s"
begin

lemma owner_grows: "owner s d n = Some w \<Longrightarrow> owner (snd (lp_step H P c s)) d n = Some w"
proof -
  note kept = nonce_store.owner_kept [OF nonces]
  have "keeps (\<lambda>s s'. \<forall>d n w. owner s d n = Some w \<longrightarrow> owner s' d n = Some w) (lp_step H P c)"
  proof (intro keeps_step conjI)
    show "keeps (\<lambda>s s'. \<forall>d n w. owner s d n = Some w \<longrightarrow> owner s' d n = Some w) (consume x)"
      if "lp_consumption P = SplitStores consume record_spend" for consume record_spend x
      using kept that by (simp add: keeps_def consume_by_def)
    show "keeps (\<lambda>s s'. \<forall>d n w. owner s d n = Some w \<longrightarrow> owner s' d n = Some w) (record_spend sp)"
      if "lp_consumption P = SplitStores consume record_spend" for consume record_spend sp
      using others(5) [OF that, of sp] by (simp add: keeps_def)
    show "keeps (\<lambda>s s'. \<forall>d n w. owner s d n = Some w \<longrightarrow> owner s' d n = Some w) (f x sp (pl_daily (lp_policy P)))"
      if "lp_consumption P = AtomicStore f" for f x sp
      using kept that by (simp add: keeps_def consume_by_def)
  qed (use others in \<open>auto simp: keeps_def state_order_def\<close>)
  then show "owner s d n = Some w \<Longrightarrow> ?thesis" unfolding keeps_def by blast
qed

lemma consume_owner:
  assumes "lp_consume H P am ci s = (Inr r, s')" "cr_success r" "records s (co_decision_id ci) = Some (d, a)"
  shows "\<exists>sp c s1 s2. nc_decision_id c = d_decision_id d \<and> nc_nonce c = d_nonce d \<and>
    nc_action_hash c = d_action_hash d \<and> nc_execution_ref c = co_execution_ref ci \<and>
    consume_by P sp c s1 = (Inr r, s2) \<and> owner s1 = owner s \<and> owner s' = owner s2"
proof -
  from assms obtain x s0 where get: "lp_get P (co_decision_id ci) s = (Inr x, s0)"
    by (auto simp: lp_consume_def bind_io_Inr)
  with get_reads [OF get] assms(3) have x: "x = Some (d, a)" by simp
  have o0: "owner s0 = owner s" using keepsD [OF others(1) get] .
  define c where "c = \<lparr>nc_decision_id = d_decision_id d, nc_nonce = d_nonce d, nc_action_hash = d_action_hash d,
    nc_execution_ref = co_execution_ref ci, nc_expires_at = time_of (d_expires_at d), nc_consumed_at = am_clock am 0\<rparr>"
  let ?sp = "\<lambda>day. \<lparr>sp_principal = d_principal_id d, sp_day = day, sp_amount = tx_amount (d_transaction d)\<rparr>"
  obtain day s2 s3 where con: "consume_by P (?sp day) c s0 = (Inr r, s2)" and s3: "owner s3 = owner s2"
    and s': "record_by P r (?sp day) s3 = (Inr (), s')"
  proof (cases "cr_status r = Conflict")
    case True
    with assms get x that others(6) show ?thesis
      by (auto simp: lp_consume_def bind_io_Inr consume_rejection_def Let_def c_def split: if_splits) metis
  next
    case False
    with assms get x that show ?thesis
      by (auto simp: lp_consume_def bind_io_Inr consume_rejection_def Let_def c_def split: if_splits)
  qed
  have "owner s' = owner s3"
    using s' keepsD [OF others(5)] by (auto simp: record_by_def split: consumption_path.splits if_splits)
  moreover have "nc_decision_id c = d_decision_id d \<and> nc_nonce c = d_nonce d \<and>
    nc_action_hash c = d_action_hash d \<and> nc_execution_ref c = co_execution_ref ci"
    by (simp add: c_def)
  ultimately show ?thesis using con o0 s3 by metis
qed

text \<open>Over any history with fresh identifiers, a decision pays for one execution only.\<close>

lemma consumed_once:
  assumes run: "run_ops (lp_step H P) cs s = (rs, s')" and mn: "m < n" "n < length cs"
    and fresh: "distinct (map (am_uuid \<circ> call_ambient) cs)"
      "\<forall>c \<in> set cs. records s (am_uuid (call_ambient c)) = None"
    and m: "cs ! m = Consume am ci" "rs ! m = Inr (ConsumeOutcome r)" "cr_success r"
    and n: "cs ! n = Consume am' ci'" "rs ! n = Inr (ConsumeOutcome r')" "cr_success r'"
    and same: "co_decision_id ci' = co_decision_id ci"
  shows "co_execution_ref ci' = co_execution_ref ci \<and> cr_status r' \<noteq> Consumed"
proof -
  let ?st = "state_at (lp_step H P) cs s"
  have cm: "lp_consume H P am ci (?st m) = (Inr r, ?st (Suc m))"
    using run_ops_nth [OF run, of m] mn m by (auto simp: bind_io_Inr)
  have cn: "lp_consume H P am' ci' (?st n) = (Inr r', ?st (Suc n))"
    using run_ops_nth [OF run, of n] mn n by (auto simp: bind_io_Inr)
  from consume_correct [OF cm m(3)] obtain d a where rm: "records (?st m) (co_decision_id ci) = Some (d, a)" by blast
  have rn: "records (?st n) (co_decision_id ci') = Some (d, a)"
    using record_immutable [OF fresh rm, of n] mn by (simp add: same)
  from consume_owner [OF cm m(3) rm] obtain sp c s1 s2 where
    c: "nc_decision_id c = d_decision_id d" "nc_nonce c = d_nonce d" "nc_action_hash c = d_action_hash d"
      "nc_execution_ref c = co_execution_ref ci" "consume_by P sp c s1 = (Inr r, s2)" "owner (?st (Suc m)) = owner s2" by blast
  have "owner (?st (Suc m)) (d_decision_id d) (d_nonce d) = Some (d_action_hash d, co_execution_ref ci)"
    using nonce_store.success_owner [OF nonces c(5) m(3)] c by simp
  then have on: "owner (?st n) (d_decision_id d) (d_nonce d) = Some (d_action_hash d, co_execution_ref ci)"
    by (rule state_at_invariant [where f = "lp_step H P" and
          P = "\<lambda>s. owner s (d_decision_id d) (d_nonce d) = Some (d_action_hash d, co_execution_ref ci)", rotated])
      (use mn owner_grows in auto)
  from consume_owner [OF cn n(3) rn] obtain sp' c' s3 s4 where
    c': "nc_decision_id c' = d_decision_id d" "nc_nonce c' = d_nonce d" "nc_action_hash c' = d_action_hash d"
      "nc_execution_ref c' = co_execution_ref ci'" "consume_by P sp' c' s3 = (Inr r', s4)" "owner s3 = owner (?st n)" by blast
  have "cr_status r' \<noteq> Consumed" using nonce_store.consumed [OF nonces c'(5)] on c' by auto
  moreover from this have "cr_status r' = Idempotent" using nonce_store.success [OF nonces c'(5)] n(3) by blast
  ultimately show ?thesis using nonce_store.idempotent [OF nonces c'(5)] on c' by simp
qed

end

subsection \<open>The in-memory provider keeps the contracts\<close>

definition memory_owner :: "memory \<Rightarrow> string \<Rightarrow> string \<Rightarrow> (string \<times> string) option" where
  "memory_owner s = mem_owner (me_nonces s)"

lemma on_part_apply: "on_part sel upd m s = (case m (sel s) of (r, t) \<Rightarrow> (r, upd (\<lambda>_. t) s))"
  by (simp add: on_part_def)

lemma memory_provider_sel [simp]:
  "lp_policy (memory_provider H p sg) = p" "lp_signer (memory_provider H p sg) = sg"
  "lp_save (memory_provider H p sg) d a = on_part me_decisions me_decisions_update (mem_save d a)"
  "lp_get (memory_provider H p sg) i = on_part me_decisions me_decisions_update (mem_get i)"
  "lp_claim (memory_provider H p sg) i = on_part me_decisions me_decisions_update (mem_claim i)"
  "lp_daily (memory_provider H p sg) q day = on_part me_spend me_spend_update (mem_daily_spend q day)"
  "lp_consumption (memory_provider H p sg) = SplitStores (\<lambda>c. on_part me_nonces me_nonces_update (mem_consume c))
        (\<lambda>sp. on_part me_spend me_spend_update (mem_record_spend H sp))"
  "lp_metric (memory_provider H p sg) m s = s\<lparr>me_metrics := mem_metric m (me_metrics s)\<rparr>"
  by (simp_all add: memory_provider_def)

lemma on_part_result:
  "on_part sel upd m s = (r, s') \<longleftrightarrow> (\<exists>t. m (sel s) = (r, t) \<and> s' = upd (\<lambda>_. t) s)"
  by (auto simp: on_part_def split: prod.splits)

lemma on_part_state: "snd (on_part sel upd m s) = upd (\<lambda>_. snd (m (sel s))) s"
  by (simp add: on_part_def split: prod.splits)

lemma keeps_on_part: "(\<And>s t. R s (upd (\<lambda>_. t) s)) \<Longrightarrow> keeps R (on_part sel upd m)"
  by (simp add: keeps_def on_part_state)

interpretation memory_nonces: nonce_store
  "\<lambda>c. on_part me_nonces me_nonces_update (mem_consume c)" memory_owner
proof
  fix s s' :: memory and c :: consumption and r d n w
  show "memory_owner s d n = Some w \<Longrightarrow>
      memory_owner (snd (on_part me_nonces me_nonces_update (mem_consume c) s)) d n = Some w"
    by (simp add: memory_owner_def on_part_state mem_nonces.owner_kept)
  show "base64url n \<Longrightarrow> base64url (nc_nonce c) \<Longrightarrow> (d, n) \<noteq> (nc_decision_id c, nc_nonce c) \<Longrightarrow>
      memory_owner (snd (on_part me_nonces me_nonces_update (mem_consume c) s)) d n = memory_owner s d n"
    unfolding memory_owner_def on_part_state using mem_nonces.owner_frame [of n c d "me_nonces s"] by simp
  assume "on_part me_nonces me_nonces_update (mem_consume c) s = (Inr r, s')"
  then have e: "mem_consume c (me_nonces s) = (Inr r, me_nonces s')" by (auto simp: on_part_result)
  note facts = mem_nonces.consumed [OF e] mem_nonces.idempotent [OF e] mem_nonces.success [OF e]
  show "cr_status r = Consumed \<Longrightarrow> memory_owner s (nc_decision_id c) (nc_nonce c) = None \<and>
      memory_owner s' (nc_decision_id c) (nc_nonce c) = Some (nc_action_hash c, nc_execution_ref c)"
    using facts by (simp add: memory_owner_def)
  show "cr_status r = Idempotent \<Longrightarrow>
      memory_owner s (nc_decision_id c) (nc_nonce c) = Some (nc_action_hash c, nc_execution_ref c)"
    using facts by (simp add: memory_owner_def)
  show "cr_success r \<longleftrightarrow> cr_status r \<in> {Consumed, Idempotent}" using facts by simp
qed

interpretation memory_provider: single_use_provider "memory_provider H p sg"
  "\<lambda>s. dm_records (me_decisions s)" "\<lambda>s. set (dm_claimed (me_decisions s))" memory_owner
proof (intro single_use_provider.intro single_use_provider_axioms.intro)
  show "decision_provider (memory_provider H p sg) (\<lambda>s. dm_records (me_decisions s)) (\<lambda>s. set (dm_claimed (me_decisions s)))"
    by unfold_locales
      (auto simp: on_part_result on_part_state mem_save_def mem_get_def mem_claim_def intro!: keeps_on_part split: if_splits)
  show "nonce_store (consume_by (memory_provider H p sg) sp) memory_owner" for sp
    using memory_nonces.nonce_store_axioms by (simp add: consume_by_def [abs_def])
qed (auto simp: memory_owner_def intro!: keeps_on_part)

text \<open>The policy is evaluated against the recorded spend: the state that the store reads is the only part of the state it
  depends on.\<close>

lemma memory_resolution:
  assumes "lp_resolve H (memory_provider H p sg) am ri rep s = (Inr r, s')" "rr_success r"
  shows "\<exists>d issued stored_action a pe. rr_decision r = Some d \<and>
    dm_records (me_decisions s) (ri_decision_id ri) = Some (issued, stored_action) \<and>
    a = (case rep of None \<Rightarrow> stored_action | Some x \<Rightarrow> x) \<and> same_request a stored_action \<and>
    d_verdict issued = REQUIRE_APPROVAL \<and> \<not> approval_closed p issued (am_clock am 0) \<and>
    ri_decision_id ri \<notin> set (dm_claimed (me_decisions s)) \<and> ri_decision_id ri \<in> set (dm_claimed (me_decisions s')) \<and>
    fst (evaluate_policy H p (\<lambda>q day m. (Inr (stored_spend m (spend_key q day)), m)) (am_clock am 1) a (me_spend s)) = Inr pe \<and>
    create_signed_decision H sg a (lp_create_input H (memory_provider H p sg) am 2 (resolved_evaluation ri pe)
      (Some (d_decision_id issued))) = Inr d \<and>
    dm_records (me_decisions s') (d_decision_id d) = Some (d, a) \<and>
    d_supersedes d = Some (d_decision_id issued) \<and> ap_mode (d_approval d) = Human \<and>
    d_verdict d = (if ri_granted ri \<and> ev_verdict pe \<noteq> BLOCK then ALLOW else BLOCK)"
proof -
  from memory_provider.resolve_correct [OF assms] obtain d where d: "rr_decision r = Some d"
    and res: "memory_provider.resolution H p sg H am ri rep s s' d" by blast
  have same: "fst (evaluate_policy H p (lp_daily (memory_provider H p sg)) now a s1) =
      fst (evaluate_policy H p (\<lambda>q day m. (Inr (stored_spend m (spend_key q day)), m)) now a (me_spend s))"
    if "me_spend s1 = me_spend s" for now a s1
    by (rule evaluate_policy_reads) (simp add: on_part_def mem_daily_spend_def that)
  have spend: "me_spend s1 = me_spend s" if "lp_get (memory_provider H p sg) i s = (x, s0)" "lp_claim (memory_provider H p sg) i s0 = (y, s1)"
    for i x y s0 s1
    using that by (auto simp: on_part_result)
  from res [unfolded memory_provider.resolution_def] d same spend show ?thesis
    by (elim exE conjE) (intro exI conjI; simp)
qed

end
