(* ===== verification/Verifier.thy ===== *)
theory Verifier
  imports LocalProvider
begin

section \<open>The decision verifier\<close>

text \<open>
  \<open>decision-verifier/src/verify.ts\<close>: verification of a signed envelope alone and of a decision
  against the action it was made for, on untrusted JSON. Lemmas: a result is valid exactly
  when no reason is given; a valid result means the schema, key, fingerprint, signature,
  action hash, binding, expiry and version conditions; a decision a provider issued verifies
  while it is current; changing a covered field without a new fingerprint is detected.
\<close>

record checks =
  ck_schema :: bool
  ck_signature :: bool
  ck_fingerprint :: bool
  ck_action_hash :: bool
  ck_decision_binding :: bool
  ck_expiry :: bool
  ck_policy_version :: bool
  ck_payment_requirements :: bool

definition empty_checks :: checks where
  "empty_checks = \<lparr>ck_schema = False, ck_signature = False, ck_fingerprint = False, ck_action_hash = False,
     ck_decision_binding = False, ck_expiry = False, ck_policy_version = False, ck_payment_requirements = False\<rparr>"

definition all_checks :: "checks \<Rightarrow> bool" where
  "all_checks c \<longleftrightarrow> ck_schema c \<and> ck_signature c \<and> ck_fingerprint c \<and> ck_action_hash c \<and>
     ck_decision_binding c \<and> ck_expiry c \<and> ck_policy_version c \<and> ck_payment_requirements c"

record verification =
  vr_valid :: bool
  vr_verdict :: "verdict option"
  vr_decision_id :: "string option"
  vr_checks :: checks
  vr_reasons :: "reason_code list"

definition binds_supplied_action :: "host \<Rightarrow> decision \<Rightarrow> action \<Rightarrow> bool" where
  "binds_supplied_action H d a \<longleftrightarrow>
     d_principal_id d = a_principal_id a \<and> d_agent_id d = a_agent_id a \<and> d_rail d = a_rail a \<and>
     hash_canonical H (transaction_json (d_transaction d)) = hash_canonical H (transaction_json (a_transaction a)) \<and>
     hash_canonical H (reference_json (d_reference d)) = hash_canonical H (reference_json (a_reference a))"

definition add_reason :: "reason_code \<Rightarrow> reason_code list \<Rightarrow> reason_code list" where
  "add_reason r rs = (if r \<in> set rs then rs else rs @ [r])"

text \<open>The reason is added when the check fails.\<close>

definition note_failure :: "bool \<Rightarrow> reason_code \<Rightarrow> reason_code list \<Rightarrow> reason_code list" where
  "note_failure ok r rs = (if ok then rs else add_reason r rs)"

definition find_usable_key :: "host \<Rightarrow> decision \<Rightarrow> key_entry list \<Rightarrow> bytes option" where
  "find_usable_key H d ks =
     (case find (\<lambda>k. k_key_id k = d_key_id d) ks of
        None \<Rightarrow> None
      | Some k \<Rightarrow>
          if k_status k = Revoked then None
          else if time_of (d_issued_at d) < time_of (k_not_before k) \<or>
                  (case k_not_after k of None \<Rightarrow> False | Some t \<Rightarrow> time_of t \<le> time_of (d_issued_at d))
          then None
          else let pk = b64url_decode (k_public_key k)
               in if length pk \<noteq> 32 \<or> public_key_fingerprint H pk \<noteq> k_fingerprint k then None else Some pk)"

record envelope =
  en_valid :: bool
  en_schema :: bool
  en_fingerprint :: bool
  en_signature :: bool
  en_reasons :: "reason_code list"

definition verify_signed_decision :: "host \<Rightarrow> json \<Rightarrow> json \<Rightarrow> envelope" where
  "verify_signed_decision H decision_input registry_input =
     (case (parse_decision H decision_input, parse_registry registry_input) of
        (Some d, Some ks) \<Rightarrow>
          (let fp = calculate_fingerprint H d = d_fingerprint d;
               r1 = note_failure fp FINGERPRINT_MISMATCH [];
               key = find_usable_key H d ks;
               sg = (case key of None \<Rightarrow> False | Some pk \<Rightarrow> verify_signature H d pk);
               r2 = (case key of None \<Rightarrow> add_reason UNKNOWN_SIGNING_KEY r1
                     | Some _ \<Rightarrow> note_failure sg INVALID_SIGNATURE r1)
           in \<lparr>en_valid = (fp \<and> sg), en_schema = True, en_fingerprint = fp, en_signature = sg, en_reasons = r2\<rparr>)
      | _ \<Rightarrow> \<lparr>en_valid = False, en_schema = False, en_fingerprint = False, en_signature = False,
              en_reasons = [INVALID_DECISION_SCHEMA]\<rparr>)"

record verify_input =
  vi_decision :: json
  vi_action :: json
  vi_registry :: json
  vi_at :: int
  vi_policy_version :: "string option"
  vi_requirements_hash :: "string option"

definition bound_requirements :: "protocol_reference \<Rightarrow> string option" where
  "bound_requirements p = (case p of X402Ref r sc rh ph \<Rightarrow> Some rh | _ \<Rightarrow> None)"

definition verify_decision :: "host \<Rightarrow> verify_input \<Rightarrow> verification" where
  "verify_decision H i =
     (case (parse_decision H (vi_decision i), parse_action H (vi_action i), parse_registry (vi_registry i)) of
        (Some d, Some a, Some ks) \<Rightarrow>
          (let fp = calculate_fingerprint H d = d_fingerprint d;
               r1 = note_failure fp FINGERPRINT_MISMATCH [];
               key = find_usable_key H d ks;
               sg = (case key of None \<Rightarrow> False | Some pk \<Rightarrow> verify_signature H d pk);
               r2 = (case key of None \<Rightarrow> add_reason UNKNOWN_SIGNING_KEY r1
                     | Some _ \<Rightarrow> note_failure sg INVALID_SIGNATURE r1);
               ah = hash_action H a = Inr (d_action_hash d);
               r3 = note_failure ah ACTION_HASH_MISMATCH r2;
               db = binds_supplied_action H d a;
               r4 = note_failure db DECISION_BINDING_MISMATCH r3;
               ex = (time_of (d_issued_at d) \<le> vi_at i \<and> vi_at i < time_of (d_expires_at d));
               r5 = note_failure ex DECISION_EXPIRED r4;
               pv = (case vi_policy_version i of None \<Rightarrow> True | Some v \<Rightarrow> d_policy_version d = v);
               r6 = note_failure pv POLICY_VERSION_MISMATCH r5;
               pr = (case vi_requirements_hash i of None \<Rightarrow> True
                     | Some h \<Rightarrow> bound_requirements (d_reference d) = Some h);
               r7 = note_failure pr PAYMENT_REQUIREMENTS_MISMATCH r6;
               cs = \<lparr>ck_schema = True, ck_signature = sg, ck_fingerprint = fp, ck_action_hash = ah,
                     ck_decision_binding = db, ck_expiry = ex, ck_policy_version = pv,
                     ck_payment_requirements = pr\<rparr>
           in \<lparr>vr_valid = all_checks cs, vr_verdict = Some (d_verdict d), vr_decision_id = Some (d_decision_id d),
               vr_checks = cs, vr_reasons = r7\<rparr>)
      | _ \<Rightarrow> \<lparr>vr_valid = False, vr_verdict = None, vr_decision_id = None, vr_checks = empty_checks,
              vr_reasons = [INVALID_DECISION_SCHEMA]\<rparr>)"

definition pass_line :: "bool \<Rightarrow> string \<Rightarrow> string" where
  "pass_line b what = (if b then ''PASS'' else ''FAIL'') @ CHR '' '' # what"

definition human_verification_output :: "verification \<Rightarrow> string" where
  "human_verification_output r =
     (let c = vr_checks r in join_with [CHR 0x0A] (
     [pass_line (ck_schema c) ''schema'',
      pass_line (ck_fingerprint c) ''decision fingerprint'',
      pass_line (ck_signature c) ''Ed25519 signature'',
      pass_line (ck_action_hash c) ''action hash'',
      pass_line (ck_decision_binding c) ''decision binds the supplied action'',
      pass_line (ck_expiry c) ''decision expiry at supplied execution time'',
      pass_line (ck_policy_version c) ''policy version'',
      pass_line (ck_payment_requirements c) ''x402 payment-requirements binding'',
      [],
      ''VERDICT: '' @ (case vr_verdict r of None \<Rightarrow> ''UNKNOWN'' | Some v \<Rightarrow> verdict_string v),
      ''DECISION: '' @ (if vr_valid r then ''VALID'' else ''INVALID'')]
     @ (if vr_reasons r = [] then []
        else [''REASONS: '' @ join_with '', '' (map reason_string (vr_reasons r))])))"

subsection \<open>Results and their reasons\<close>

lemma note_failure_Nil [simp]: "note_failure ok r rs = [] \<longleftrightarrow> ok \<and> rs = []"
  by (auto simp: note_failure_def add_reason_def)

lemma add_reason_nonempty [simp]: "add_reason r rs \<noteq> []"
  by (auto simp: add_reason_def)

lemma distinct_note_failure [simp]: "distinct (note_failure ok r rs) = distinct rs"
  by (auto simp: note_failure_def add_reason_def)

lemma distinct_add_reason [simp]: "distinct (add_reason r rs) = distinct rs"
  by (auto simp: add_reason_def)

text \<open>A result is valid exactly when it gives no reason, and reasons are not repeated.\<close>

lemma verify_decision_reasons:
  "(vr_valid (verify_decision H i) \<longleftrightarrow> vr_reasons (verify_decision H i) = []) \<and>
    distinct (vr_reasons (verify_decision H i))"
  by (auto simp: verify_decision_def Let_def all_checks_def empty_checks_def split: option.splits)

text \<open>The meaning of a valid result.\<close>

definition verified :: "host \<Rightarrow> verify_input \<Rightarrow> decision \<Rightarrow> action \<Rightarrow> key_entry list \<Rightarrow> bool" where
  "verified H i d a ks \<longleftrightarrow>
     parse_decision H (vi_decision i) = Some d \<and> parse_action H (vi_action i) = Some a \<and>
     parse_registry (vi_registry i) = Some ks \<and>
     d_fingerprint d = calculate_fingerprint H d \<and>
     (\<exists>pk. find_usable_key H d ks = Some pk \<and> verify_signature H d pk) \<and>
     d_action_hash d = hash_canonical H (action_json a) \<and> binds_supplied_action H d a \<and>
     time_of (d_issued_at d) \<le> vi_at i \<and> vi_at i < time_of (d_expires_at d) \<and>
     (\<forall>v. vi_policy_version i = Some v \<longrightarrow> d_policy_version d = v) \<and>
     (\<forall>h. vi_requirements_hash i = Some h \<longrightarrow> bound_requirements (d_reference d) = Some h)"

lemma verify_decision_valid:
  "vr_valid (verify_decision H i) \<longleftrightarrow> (\<exists>d a ks. verified H i d a ks)"
  by (auto simp: verify_decision_def verified_def Let_def all_checks_def parse_action_ok
      split: option.splits)

lemma verify_decision_verdict:
  "verified H i d a ks \<Longrightarrow> vr_verdict (verify_decision H i) = Some (d_verdict d)"
  by (simp add: verify_decision_def verified_def Let_def)

text \<open>A valid decision is about the very action that was supplied.\<close>

lemma verified_binds_action:
  assumes "jcs_ok H" "verified H i d a ks"
    and "hash_binds H (transaction_json (d_transaction d)) (transaction_json (a_transaction a))"
    and "hash_binds H (reference_json (d_reference d)) (reference_json (a_reference a))"
  shows "d_principal_id d = a_principal_id a \<and> d_agent_id d = a_agent_id a \<and> d_rail d = a_rail a \<and>
    d_transaction d = a_transaction a \<and> d_reference d = a_reference a"
  using assms hash_canonical_inj [OF assms(1,3)] hash_canonical_inj [OF assms(1,4)]
  by (auto simp: verified_def binds_supplied_action_def intro: transaction_json_inj reference_json_inj)

lemma find_usable_key_sound:
  "find_usable_key H d ks = Some pk \<Longrightarrow> \<exists>k \<in> set ks. k_key_id k = d_key_id d \<and> k_status k \<noteq> Revoked \<and>
    time_of (k_not_before k) \<le> time_of (d_issued_at d) \<and>
    (\<forall>t. k_not_after k = Some t \<longrightarrow> time_of (d_issued_at d) < time_of t) \<and>
    pk = b64url_decode (k_public_key k) \<and> length pk = 32 \<and> public_key_fingerprint H pk = k_fingerprint k"
  by (auto simp: find_usable_key_def Let_def split: option.splits if_splits dest!: find_Some_iff2)

subsection \<open>Issued decisions verify, altered ones do not\<close>

lemma decision_ok_times: "decision_ok H d \<Longrightarrow> timestamp_ok (d_issued_at d) \<and> timestamp_ok (d_expires_at d)"
  by (simp add: decision_ok_def)

text \<open>What the fields of an issued decision are.\<close>

lemma create_signed_decision_fields:
  assumes "create_signed_decision H sg a ci = Inr d"
  shows "d_key_id d = s_key_id sg" "d_verdict d = ev_verdict (ci_evaluation ci)"
    "d_action_hash d = hash_canonical H (action_json a)" "binds_supplied_action H d a"
    "d_policy_version d = ci_policy_version ci" "d_reference d = a_reference a"
    "d_transaction d = a_transaction a" "d_decision_id d = ci_decision_id ci"
    "time_of (d_issued_at d) = ci_now ci"
    "time_of (d_expires_at d) = ci_now ci + ci_ttl_seconds ci * 1000"
proof -
  note c = create_signed_decision_correct [OF assms]
  then obtain issued expires where iso: "to_iso_string (ci_now ci) = Some issued"
      "to_iso_string (ci_now ci + ci_ttl_seconds ci * 1000) = Some expires"
    and same: "same_content d (unsigned_decision H sg a ci issued expires)"
    by (auto simp: issued_for_def)
  then show "d_key_id d = s_key_id sg" "d_verdict d = ev_verdict (ci_evaluation ci)"
    "d_action_hash d = hash_canonical H (action_json a)" "binds_supplied_action H d a"
    "d_policy_version d = ci_policy_version ci" "d_reference d = a_reference a"
    "d_transaction d = a_transaction a" "d_decision_id d = ci_decision_id ci"
    by (cases d; simp add: same_content_def unsigned_decision_def binds_supplied_action_def)+
  have "d_issued_at d = issued" "d_expires_at d = expires"
    using same by (cases d; simp add: same_content_def unsigned_decision_def)+
  with iso decision_ok_times [of H d] c
  show "time_of (d_issued_at d) = ci_now ci" "time_of (d_expires_at d) = ci_now ci + ci_ttl_seconds ci * 1000"
    using to_iso_string_time by auto
qed

lemma key_registry_entry_fields:
  assumes "key_registry_entry H sg nb na st = Inr k"
  shows "k_key_id k = s_key_id sg \<and> k_public_key k = b64url_encode (s_public_key sg) \<and>
    k_fingerprint k = public_key_fingerprint H (s_public_key sg) \<and>
    k_status k = (case st of None \<Rightarrow> Active | Some x \<Rightarrow> x) \<and>
    time_of (k_not_before k) = nb \<and> map_option time_of (k_not_after k) = na \<and> key_entry_ok k"
proof -
  from assms obtain b where b: "to_iso_string nb = Some b" "k_not_before k = b"
    by (auto simp: key_registry_entry_def Let_def split: option.splits if_splits)
  have ok: "key_entry_ok k" using assms
    by (auto simp: key_registry_entry_def Let_def split: option.splits if_splits)
  have "time_of (k_not_before k) = nb" using b ok to_iso_string_time by (auto simp: key_entry_ok_def)
  moreover have "map_option time_of (k_not_after k) = na"
  proof (cases na)
    case None
    then show ?thesis using assms by (auto simp: key_registry_entry_def Let_def b split: if_splits)
  next
    case (Some t)
    then obtain e where "to_iso_string t = Some e" "k_not_after k = Some e"
      using assms by (auto simp: key_registry_entry_def Let_def split: option.splits if_splits)
    with ok Some to_iso_string_time show ?thesis by (auto simp: key_entry_ok_def)
  qed
  ultimately show ?thesis using assms ok
    by (auto simp: key_registry_entry_def Let_def split: option.splits if_splits)
qed

lemma find_key_distinct:
  "distinct (map k_key_id ks) \<Longrightarrow> k \<in> set ks \<Longrightarrow> find (\<lambda>x. k_key_id x = k_key_id k) ks = Some k"
  by (induction ks) auto

text \<open>
  A decision signed by a provider whose registered key covers the issuing instant verifies
  against the action it was made for, at every instant of its validity.
\<close>

lemma issued_decision_verifies:
  assumes d: "create_signed_decision H sg a ci = Inr d" and sg: "signer_ok H sg" "length (s_public_key sg) = 32"
    and k: "key_registry_entry H sg nb na st = Inr k" "st \<noteq> Some Revoked"
    and ks: "registry_ok ks" "k \<in> set ks"
    and window: "nb \<le> ci_now ci" "\<forall>t. na = Some t \<longrightarrow> ci_now ci < t"
    and time: "ci_now ci \<le> now" "now < ci_now ci + ci_ttl_seconds ci * 1000"
    and i: "i = \<lparr>vi_decision = decision_json d, vi_action = action_json a, vi_registry = registry_json ks,
      vi_at = now, vi_policy_version = Some (ci_policy_version ci),
      vi_requirements_hash = bound_requirements (a_reference a)\<rparr>"
  shows "vr_valid (verify_decision H i) \<and> vr_verdict (verify_decision H i) = Some (ev_verdict (ci_evaluation ci))"
proof -
  note c = create_signed_decision_correct [OF d] and f = create_signed_decision_fields [OF d]
  note kf = key_registry_entry_fields [OF k(1)]
  have "find (\<lambda>x. k_key_id x = d_key_id d) ks = Some k"
    using find_key_distinct [of ks k] ks kf f(1) by (simp add: registry_ok_def)
  moreover have "\<not> (case k_not_after k of None \<Rightarrow> False | Some t \<Rightarrow> time_of t \<le> time_of (d_issued_at d))"
    using kf window(2) f(9) by (auto split: option.splits)
  moreover have "k_status k \<noteq> Revoked" using kf k(2) by (auto split: option.splits)
  ultimately have key: "find_usable_key H d ks = Some (s_public_key sg)"
    using kf f(9) window(1) sg(2) by (simp add: find_usable_key_def b64url_roundtrip)
  have "verified H i d a ks"
    unfolding verified_def
    using c f key sg(1) ks(1) time
    by (simp add: i parse_decision_json parse_action_json parse_registry_json)
  then show ?thesis using verify_decision_verdict [of H i d a ks] f(2) by (auto simp: verify_decision_valid)
qed

text \<open>
  Changing what the fingerprint covers while keeping the fingerprint of a well-formed decision
  makes verification fail, unless SHA-256 collides on the two preimages.
\<close>

lemma altered_decision_rejected:
  assumes "jcs_ok H" "d_fingerprint d = calculate_fingerprint H d" "d_fingerprint e = d_fingerprint d"
    and "\<not> same_content d e" "fingerprint_binds H d e" "vi_decision i = decision_json e"
  shows "\<not> vr_valid (verify_decision H i)"
proof
  assume "vr_valid (verify_decision H i)"
  then obtain e' a ks where v: "verified H i e' a ks" using verify_decision_valid by blast
  with assms(6) have "e' = e" by (auto simp: verified_def parse_decision_json)
  with v have "d_fingerprint e = calculate_fingerprint H e" by (simp add: verified_def)
  with assms have "same_content d e" by (intro fingerprint_determines_content [of H]) simp_all
  with assms(4) show False by simp
qed

subsection \<open>Issuing succeeds on well-formed input\<close>

definition create_input_ok :: "create_input \<Rightarrow> bool" where
  "create_input_ok ci \<longleftrightarrow>
     hash_ok (ci_policy_hash ci) \<and> len_between 1 64 (ci_policy_version ci) \<and>
     approval_ok (ev_approval (ci_evaluation ci)) \<and> ev_reasons (ci_evaluation ci) \<noteq> [] \<and>
     distinct (ev_reasons (ci_evaluation ci)) \<and> 1 \<le> ci_ttl_seconds ci \<and>
     four_digit_years (ci_now ci) \<and> four_digit_years (ci_now ci + ci_ttl_seconds ci * 1000) \<and>
     identifier_ok (ci_decision_id ci) \<and> base64url (ci_nonce ci) \<and>
     (case ci_supersedes ci of None \<Rightarrow> True | Some i \<Rightarrow> identifier_ok i)"

lemma create_signed_decision_total:
  assumes "sha_ok H" "action_ok H a" "create_input_ok ci" "identifier_ok (s_key_id sg)"
    and sg: "signer_ok H sg" "\<And>m. \<exists>sig. s_sign sg m = Inr sig"
  shows "\<exists>d. create_signed_decision H sg a ci = Inr d"
proof -
  define u where "u = unsigned_decision H sg a ci (iso_text (ci_now ci)) (iso_text (ci_now ci + ci_ttl_seconds ci * 1000))"
  define v where "v = u\<lparr>d_fingerprint := calculate_fingerprint H u\<rparr>"
  obtain sig where sig: "s_sign sg (canonical_bytes H (signable_payload v)) = Inr sig" using sg(2) by blast
  have years: "four_digit_years (ci_now ci)" "four_digit_years (ci_now ci + ci_ttl_seconds ci * 1000)"
    using assms(3) by (auto simp: create_input_ok_def)
  have fp: "hash_ok (calculate_fingerprint H u)"
    using hash_canonical_hash_ok [OF assms(1)] by (simp add: calculate_fingerprint_def hash_canonical_def)
  have "base64url sig" using sg(1) sig by (auto simp: signer_ok_def)
  then have "decision_ok H (v\<lparr>d_signature := sig\<rparr>)"
    using assms(2-4) years fp hash_canonical_hash_ok [OF assms(1)]
    by (simp add: decision_ok_def v_def u_def unsigned_decision_def create_input_ok_def action_ok_def
        timestamp_ok_iso_text)
  moreover have "d_key_id u = s_key_id sg" by (simp add: u_def unsigned_decision_def)
  ultimately show ?thesis
    using assms(2) sig years
    by (simp add: create_signed_decision_def check_action_def to_iso_string_four_digit u_def [symmetric]
        attach_signature_def Let_def v_def [symmetric] check_decision_def)
qed

end
