(* ===== verification/Samples.thy ===== *)
theory Samples
  imports Verifier
begin

section \<open>Concrete data for the witnesses\<close>

text \<open>
  One well-formed action, policy, signer and clock over the reference host, used to show that
  the hypotheses of the properties can hold.
\<close>

definition sample_hash :: string where
  "sample_hash = ''sha256:'' @ replicate 64 CHR ''a''"

definition sample_transaction :: transaction where
  "sample_transaction = \<lparr>tx_amount = ''12.50'', tx_asset = ''USDC'', tx_network = ''eip155:8453'',
     tx_payee = ''0xpayee'', tx_purpose = ''data''\<rparr>"

definition sample_reference :: protocol_reference where
  "sample_reference = X402Ref ''https://api.example/data'' ''exact'' sample_hash None"

definition sample_action :: action where
  "sample_action = \<lparr>a_principal_id = ''org-1'', a_agent_id = ''agent-1'', a_rail = X402,
     a_reference = sample_reference, a_transaction = sample_transaction, a_extensions = None\<rparr>"

definition sample_policy :: policy where
  "sample_policy = \<lparr>pl_policy_id = ''p-1'', pl_version = ''1.0.0'', pl_expires_at = None, pl_ttl_seconds = 60,
     pl_deny = None, pl_x402 = \<lparr>rp_networks = [''eip155:8453''], rp_assets = [''USDC'']\<rparr>,
     pl_ap2 = None, pl_evm = None, pl_card = None, pl_mcp = None,
     pl_per_transaction = ''100.00'', pl_daily = ''500.00'', pl_require_human_above = ''30.00'',
     pl_request_ttl = None,
     pl_merchants = [\<lparr>m_merchant_id = ''m-1'', m_payees = [''0xpayee''], m_purposes = [''data''],
        m_resources = [''https://api.example/data''], m_limit = ''40.00''\<rparr>],
     pl_windows = \<lparr>tw_timezone = ''UTC'',
        tw_weekdays = [MONDAY, TUESDAY, WEDNESDAY, THURSDAY, FRIDAY, SATURDAY, SUNDAY],
        tw_start = ''00:00'', tw_end = ''23:59''\<rparr>\<rparr>"

text \<open>The instant 2023-11-14T22:13:20.000Z.\<close>

definition sample_now :: int where
  "sample_now = 1700000000000"

definition sample_seed :: bytes where
  "sample_seed = replicate 32 CHR ''s''"

definition sample_signer :: signer where
  "sample_signer = \<lparr>s_key_id = ''key-1'', s_public_key = sample_seed,
     s_sign = (\<lambda>m. Inr (b64url_encode (ref_signature sample_seed m)))\<rparr>"

definition sample_evaluation :: evaluation where
  "sample_evaluation = \<lparr>ev_verdict = ALLOW, ev_reasons = positive_reasons, ev_approval = engine_approval PolicyEngine\<rparr>"

definition sample_input :: create_input where
  "sample_input = \<lparr>ci_evaluation = sample_evaluation, ci_policy_hash = sample_hash, ci_policy_version = ''1.0.0'',
     ci_ttl_seconds = 60, ci_now = sample_now, ci_decision_id = ''decision-1'', ci_nonce = ''bm9uY2U'',
     ci_supersedes = None\<rparr>"

definition sample_ambient :: "string \<Rightarrow> ambient" where
  "sample_ambient i = \<lparr>am_clock = (\<lambda>_. sample_now), am_uuid = i, am_nonce = ''bm9uY2U'', am_elapsed = 1\<rparr>"

lemma sample_hash_ok [simp]: "hash_ok sample_hash"
  by code_simp

lemma ref_host_url [simp]: "url_ok ref_host s \<longleftrightarrow> take 8 s = ''https://'' \<and> 8 < length s"
  by (simp add: ref_host_def)

lemma sample_amounts [simp]:
  "canonical_amount ''12.50''" "canonical_amount ''100.00''" "canonical_amount ''500.00''"
  "canonical_amount ''30.00''" "canonical_amount ''40.00''" "canonical_amount ''0.00''"
  "time_shape ''00:00''" "time_shape ''23:59''" "time_shape ''22:13''"
  by code_simp+

lemma sample_transaction_ok [simp]: "transaction_ok sample_transaction"
  by code_simp

lemma sample_action_ok [simp]: "action_ok ref_host sample_action"
  by (simp add: action_ok_def sample_action_def sample_reference_def identifier_ok_def len_between_def)

lemma sample_policy_ok [simp]: "policy_ok ref_host sample_now sample_policy"
  by (simp add: policy_ok_def sample_policy_def merchant_ok_def rail_policy_ok_def len_between_def
      option_list_def ref_host_def)

lemma sample_fields:
  "sample_now div ms_per_day = 19675" "nat (sample_now mod ms_per_day) = 80000000"
  "year_of_day 19675 = 2023" "leap 2023 = False" "days_before_year 2023 = 19358"
  "month_of False 317 = 11" "month_start False 11 = 304" "year_field 2023 = ''2023''"
  "field 2 13 = ''13''" "field 2 11 = ''11''" "field 2 14 = ''14''" "field 2 22 = ''22''"
  "field 2 20 = ''20''" "field 3 0 = ''000''"
  by (simp_all add: sample_now_def ms_per_day_def) code_simp+

lemma sample_iso: "iso_text sample_now = ''2023-11-14T22:13:20.000Z''"
  by (simp add: iso_text_def sample_fields Let_def)

lemma sample_years [simp]: "four_digit_years sample_now" "four_digit_years (sample_now + 60000)"
  by (simp_all add: four_digit_years_def sample_now_def)

lemma sample_input_ok [simp]: "create_input_ok sample_input"
  by (simp add: create_input_ok_def sample_input_def sample_evaluation_def len_between_def approval_ok_def
      engine_approval_def positive_reasons_def identifier_ok_def base64url_def b64url_char_def)

lemma sample_seed_length [simp]: "length sample_seed = 32"
  by (simp add: sample_seed_def)

lemma sample_signer_from_seed: "signer_from_seed ref_host ''key-1'' sample_seed = Inr sample_signer"
  by (simp add: signer_from_seed_cases sample_signer_def ref_host_def)

lemma sample_signer_ok [simp]: "signer_ok ref_host sample_signer"
  using signer_from_seed_ok [OF ref_host_ed sample_signer_from_seed] by simp

lemma sample_signer_total: "\<exists>sig. s_sign sample_signer m = Inr sig"
  by (simp add: sample_signer_def)

lemma sample_signer_sel [simp]: "s_key_id sample_signer = ''key-1''" "s_public_key sample_signer = sample_seed"
  by (simp_all add: sample_signer_def)

lemma sample_key_id_ok [simp]: "identifier_ok ''key-1''"
  by code_simp

lemma sample_decision: "\<exists>d. create_signed_decision ref_host sample_signer sample_action sample_input = Inr d"
  by (rule create_signed_decision_total) (simp_all add: sample_signer_total)

definition sample_local :: local_time where
  "sample_local = \<lparr>lt_weekday = TUESDAY, lt_time = ''22:13'', lt_day_key = ''2023-11-14''\<rparr>"

lemma sample_local_time: "local_time_parts ref_host sample_now ''UTC'' = Inr sample_local"
proof -
  have "sample_now div ms_per_day mod 7 = 5" by (simp add: sample_now_def ms_per_day_def)
  then have "intl_parts ref_host sample_now ''UTC'' = Some [(''weekday'', ''Tue''), (''year'', ''2023''),
      (''month'', ''11''), (''day'', ''14''), (''hour'', ''22''), (''minute'', ''13'')]"
    by (simp add: ref_host_def utc_parts_def sample_iso Let_def)
  then show ?thesis
    by (simp add: local_time_parts_def intl_value_def weekday_map_def sample_local_def)
qed

lemma sample_key:
  "\<exists>k. key_registry_entry ref_host sample_signer sample_now None None = Inr k \<and> registry_ok [k]"
proof -
  define k where "k = \<lparr>k_key_id = ''key-1'', k_public_key = b64url_encode sample_seed,
    k_fingerprint = public_key_fingerprint ref_host sample_seed, k_status = Active,
    k_not_before = iso_text sample_now, k_not_after = None\<rparr>"
  have "sample_seed \<noteq> []" by (simp add: sample_seed_def)
  then have "key_entry_ok k"
    using ref_host_sha
    by (simp add: k_def key_entry_ok_def b64url_encode_ok timestamp_ok_iso_text public_key_fingerprint_def
        hash_ok_def sha256_bytes_def sha_ok_def)
  then show ?thesis
    by (intro exI [of _ k]) (simp add: key_registry_entry_def to_iso_string_four_digit Let_def registry_ok_def k_def)
qed

text \<open>A host whose digest is the identity: nothing collides in it.\<close>

definition clear_host :: host where
  "clear_host = ref_host\<lparr>sha256_hex := (\<lambda>x. x)\<rparr>"

lemma clear_host_jcs [simp]: "jcs_ok clear_host"
  using ref_host_jcs by (simp add: jcs_ok_def clear_host_def)

lemma clear_host_collision [simp]: "no_collision clear_host x y"
  by (simp add: no_collision_def clear_host_def)

lemma clear_host_binds [simp]: "hash_binds clear_host v w" "fingerprint_binds clear_host d e"
  by (simp_all add: hash_binds_def fingerprint_binds_def)

definition sample_unsigned :: decision where
  "sample_unsigned = unsigned_decision clear_host sample_signer sample_action sample_input
     (iso_text sample_now) (iso_text (sample_now + 60000))"

definition sample_fingerprinted :: decision where
  "sample_fingerprinted = sample_unsigned\<lparr>d_fingerprint := calculate_fingerprint clear_host sample_unsigned\<rparr>"

lemma sample_fingerprinted_ok: "d_fingerprint sample_fingerprinted = calculate_fingerprint clear_host sample_fingerprinted"
  by (simp add: sample_fingerprinted_def)

lemma same_content_verdict: "same_content d e \<Longrightarrow> d_verdict d = d_verdict e"
  by (cases d; cases e) (simp add: same_content_def)

lemma sample_altered: "\<not> same_content sample_fingerprinted (sample_fingerprinted\<lparr>d_verdict := BLOCK\<rparr>)"
  by (auto dest!: same_content_verdict
      simp: sample_fingerprinted_def sample_unsigned_def unsigned_decision_def sample_input_def sample_evaluation_def)

subsection \<open>A history of the local provider\<close>

text \<open>The provider over the in-memory stores, two requests (the second needs human approval) and
  what the policy says of them.\<close>

definition sample_provider :: "memory provider" where
  "sample_provider = memory_provider ref_host sample_policy sample_signer"

definition sample_request :: "string \<Rightarrow> action" where
  "sample_request amount = sample_action\<lparr>a_transaction := sample_transaction\<lparr>tx_amount := amount\<rparr>\<rparr>"

definition sample_large :: action where
  "sample_large = sample_request ''35.00''"

lemma sample_amount_values [simp]:
  "decimal_value ''12.50'' = 25 / 2" "decimal_value ''35.00'' = 35" "decimal_value ''100.00'' = 100"
  "decimal_value ''500.00'' = 500" "decimal_value ''30.00'' = 30" "decimal_value ''40.00'' = 40"
  "decimal_value ''0.00'' = 0" "minutes ''00:00'' = 0" "minutes ''23:59'' = 1439" "minutes ''22:13'' = 1333"
  by code_simp+

lemma sample_request_ok [simp]:
  "action_ok ref_host sample_large" "sample_request ''12.50'' = sample_action"
proof -
  have "canonical_amount ''35.00''" by code_simp
  then show "action_ok ref_host sample_large" using sample_action_ok
    by (simp add: action_ok_def sample_large_def sample_request_def sample_action_def transaction_ok_def sample_transaction_def)
  show "sample_request ''12.50'' = sample_action"
    by (simp add: sample_request_def sample_action_def sample_transaction_def)
qed

lemma sample_request_sel [simp]:
  "tx_amount (a_transaction (sample_request x)) = x" "a_principal_id (sample_request x) = ''org-1''"
  by (simp_all add: sample_request_def sample_action_def)

lemma sample_action_sel [simp]: "tx_amount (a_transaction sample_action) = ''12.50''" "a_principal_id sample_action = ''org-1''"
  by (simp_all add: sample_action_def sample_transaction_def)

lemma sample_timezone: "tw_timezone (pl_windows sample_policy) = ''UTC''"
  by (simp add: sample_policy_def)

lemma sample_static_checks:
  "first_failure (static_checks sample_now sample_policy (sample_request amount)) = None"
  by (simp add: static_checks_def sample_policy_def sample_request_def sample_action_def sample_transaction_def
      sample_reference_def unexpired_def not_denied_def rail_admits_def serves_def Let_def)

definition sample_verdict :: "string \<Rightarrow> evaluation" where
  "sample_verdict amount = verdict_of_checks sample_policy (sample_request amount) None"

lemma sample_checks:
  assumes "decimal_value amount \<le> 40"
  shows "first_failure (policy_checks sample_now sample_policy sample_local 0 (sample_request amount)) = None"
proof -
  have "find (serves (sample_request amount)) (pl_merchants sample_policy) = Some (hd (pl_merchants sample_policy))"
    by (simp add: sample_policy_def sample_request_def sample_action_def sample_transaction_def
        sample_reference_def serves_def)
  with assms have "first_failure (limit_checks sample_policy sample_local 0 (sample_request amount)) = None"
    by (simp add: limit_checks_def Let_def)
      (simp add: sample_policy_def sample_local_def in_window_def sample_request_def)
  then show ?thesis by (simp add: policy_checks_def first_failure_append sample_static_checks)
qed

text \<open>Evaluation in a state without spend.\<close>

lemma sample_evaluate_policy:
  assumes "action_ok ref_host (sample_request amount)" "decimal_digits 20 (decimal_value amount)"
    "decimal_value amount \<le> 40" "me_spend s = Map.empty"
  shows "evaluate_policy ref_host sample_policy (lp_daily sample_provider) sample_now (sample_request amount) s =
    (Inr (sample_verdict amount), s)"
proof -
  have get: "lp_daily sample_provider q day t = (Inr (stored_spend (me_spend t) (spend_key q day)), t)" for q day t
    by (simp add: sample_provider_def on_part_def mem_daily_spend_def)
  have "keeps (=) (evaluate_policy ref_host sample_policy (lp_daily sample_provider) sample_now (sample_request amount))"
    by (rule keeps_evaluate_policy) (auto simp: state_order_def keeps_def get)
  then have s: "snd (evaluate_policy ref_host sample_policy (lp_daily sample_provider) sample_now (sample_request amount) s) = s"
    by (simp add: keeps_def)
  have lt: "local_time_parts ref_host sample_now (tw_timezone (pl_windows sample_policy)) = Inr sample_local"
    using sample_local_time by (simp add: sample_policy_def)
  have "fst (evaluate_policy ref_host sample_policy (lp_daily sample_provider) sample_now (sample_request amount) s) =
      Inr (verdict_of_checks sample_policy (sample_request amount)
        (first_failure (policy_checks sample_now sample_policy sample_local (decimal_value ''0.00'') (sample_request amount))))"
    by (rule evaluate_policy_spec [where t = sample_now and s' = s])
      (simp_all add: assms lt get stored_spend_def sample_local_def)
  with s sample_checks [OF assms(3)] show ?thesis
    by (simp add: sample_verdict_def prod_eq_iff)
qed

definition sample_created :: "string \<Rightarrow> string \<Rightarrow> evaluation \<Rightarrow> nat \<Rightarrow> string option \<Rightarrow> decision" where
  "sample_created amount i ev k sps = projr (create_signed_decision ref_host sample_signer (sample_request amount)
     (lp_create_input ref_host sample_provider (sample_ambient i) k ev sps))"

lemma sample_created:
  assumes "action_ok ref_host (sample_request amount)" "identifier_ok i" "approval_ok (ev_approval ev)"
    "ev_reasons ev \<noteq> []" "distinct (ev_reasons ev)" "\<forall>j. sps = Some j \<longrightarrow> identifier_ok j"
  shows "create_signed_decision ref_host sample_signer (sample_request amount)
    (lp_create_input ref_host sample_provider (sample_ambient i) k ev sps) = Inr (sample_created amount i ev k sps)"
proof -
  have "hash_ok (hash_policy ref_host sample_policy)"
    by (simp add: hash_policy_def hash_canonical_hash_ok)
  moreover have "base64url ''bm9uY2U''" by code_simp
  ultimately have "create_input_ok (lp_create_input ref_host sample_provider (sample_ambient i) k ev sps)"
    using assms by (auto simp: create_input_ok_def lp_create_input_def sample_provider_def sample_ambient_def
        sample_policy_def len_between_def split: option.splits)
  from create_signed_decision_total [OF ref_host_sha assms(1) this _ sample_signer_ok sample_signer_total]
  show ?thesis by (auto simp: sample_created_def)
qed

lemma sample_created_fields:
  assumes "create_signed_decision ref_host sample_signer (sample_request amount)
    (lp_create_input ref_host sample_provider (sample_ambient i) k ev sps) = Inr d"
  shows "d_decision_id d = i" "d_verdict d = ev_verdict ev" "d_supersedes d = sps"
    "d_action_hash d = hash_canonical ref_host (action_json (sample_request amount))"
    "time_of (d_issued_at d) = sample_now" "time_of (d_expires_at d) = sample_now + 60000"
    "date_parse (d_issued_at d) = Some sample_now" "date_parse (d_expires_at d) = Some (sample_now + 60000)"
    "d_principal_id d = ''org-1''" "tx_amount (d_transaction d) = amount"
proof -
  note f = create_signed_decision_fields [OF assms]
  show "d_decision_id d = i" "d_verdict d = ev_verdict ev" "time_of (d_issued_at d) = sample_now"
    "time_of (d_expires_at d) = sample_now + 60000" "tx_amount (d_transaction d) = amount"
    "d_action_hash d = hash_canonical ref_host (action_json (sample_request amount))"
    using f by (simp_all add: lp_create_input_def sample_ambient_def sample_provider_def sample_policy_def)
  note c = create_signed_decision_correct [OF assms]
  then show "d_supersedes d = sps" "d_principal_id d = ''org-1''"
    by (cases d; auto simp: issued_for_def same_content_def unsigned_decision_def lp_create_input_def)+
  show "date_parse (d_issued_at d) = Some sample_now" "date_parse (d_expires_at d) = Some (sample_now + 60000)"
    using decision_ok_times [of ref_host d] c f
    by (auto simp: timestamp_ok_parse lp_create_input_def sample_ambient_def sample_provider_def sample_policy_def)
qed

lemma sample_evaluates:
  assumes "action_ok ref_host (sample_request amount)" "decimal_digits 20 (decimal_value amount)"
    "decimal_value amount \<le> 40" "me_spend s = Map.empty" "identifier_ok i"
    and d: "d = sample_created amount i (sample_verdict amount) 1 None"
  shows "\<exists>s'. lp_evaluate ref_host sample_provider (sample_ambient i) (sample_request amount) s = (Inr d, s') \<and>
    dm_records (me_decisions s') = (dm_records (me_decisions s))(i \<mapsto> (d, sample_request amount)) \<and>
    dm_claimed (me_decisions s') = dm_claimed (me_decisions s) \<and> me_nonces s' = me_nonces s \<and> me_spend s' = me_spend s \<and>
    d_decision_id d = i \<and> d_verdict d = ev_verdict (sample_verdict amount)"
proof -
  have "approval_ok (ev_approval (sample_verdict amount))" "ev_reasons (sample_verdict amount) \<noteq> []"
    "distinct (ev_reasons (sample_verdict amount))"
    by (auto simp: sample_verdict_def verdict_of_checks_def positive_reasons_def engine_approval_def approval_ok_def)
  note c = sample_created [OF assms(1,5) this, of None 1, folded d, simplified]
  have "lp_policy sample_provider = sample_policy" "lp_signer sample_provider = sample_signer" "am_clock (sample_ambient i) 0 = sample_now"
    by (simp_all add: sample_provider_def sample_ambient_def)
  then show ?thesis
    using sample_created_fields [OF c] c sample_evaluate_policy [OF assms(1-4)]
    by (simp add: lp_evaluate_def bind_io_apply lp_sign_def lp_record_decision_def mem_save_def
        sample_provider_def on_part_def)
qed

lemma sample_provider_sel [simp]:
  "lp_policy sample_provider = sample_policy" "lp_signer sample_provider = sample_signer"
  "am_clock (sample_ambient i) k = sample_now" "am_uuid (sample_ambient i) = i"
  by (simp_all add: sample_provider_def sample_ambient_def)

lemma sample_day: "spend_day_key ref_host sample_now (tw_timezone (pl_windows sample_policy)) = Inr ''2023-11-14''"
  using sample_local_time by (simp add: spend_day_key_def sample_policy_def sample_local_def)

definition sample_consumption :: "decision \<Rightarrow> string \<Rightarrow> consumption" where
  "sample_consumption d ref = \<lparr>nc_decision_id = d_decision_id d, nc_nonce = d_nonce d, nc_action_hash = d_action_hash d,
     nc_execution_ref = ref, nc_expires_at = time_of (d_expires_at d), nc_consumed_at = sample_now\<rparr>"

definition sample_consume :: "decision \<Rightarrow> string \<Rightarrow> consume_input" where
  "sample_consume d ref = \<lparr>co_decision_id = d_decision_id d, co_action_hash = d_action_hash d, co_execution_ref = ref\<rparr>"

text \<open>A saved \<open>ALLOW\<close> is consumed, and consumed again without effect for the same execution.\<close>

lemma sample_consumes:
  assumes "dm_records (me_decisions s) (d_decision_id d) = Some (d, a)" "d_verdict d = ALLOW"
    "date_parse (d_expires_at d) = Some (sample_now + 60000)"
    and spend: "spend_ok (me_spend s)" "canonical_amount (tx_amount (d_transaction d))"
      "decimal_digits 20 (decimal_value (stored_spend (me_spend s) (spend_key (d_principal_id d) ''2023-11-14''))
        + decimal_value (tx_amount (d_transaction d)))"
    and new: "me_nonces s (nonce_key (d_decision_id d) (d_nonce d)) = None"
  shows "\<exists>r s'. lp_consume ref_host sample_provider (sample_ambient j) (sample_consume d ref) s = (Inr r, s') \<and>
    cr_success r \<and> cr_status r = Consumed \<and> me_decisions s' = me_decisions s \<and>
    me_nonces s' (nonce_key (d_decision_id d) (d_nonce d)) = Some (sample_consumption d ref)"
proof -
  let ?sp = "\<lparr>sp_principal = d_principal_id d, sp_day = ''2023-11-14'', sp_amount = tx_amount (d_transaction d)\<rparr>"
  obtain m where m: "mem_record_spend ref_host ?sp (me_spend s) = (Inr (), m)"
    using mem_record_spend_adds [OF ref_host_decimal spend(1), of ?sp "spend_key (d_principal_id d) ''2023-11-14''"] spend by auto
  show ?thesis
    using assms m sample_day sample_years(1)
    by (simp add: lp_consume_def consume_by_def record_by_def bind_io_apply sample_consume_def sample_consumption_def sample_provider_def on_part_def
        mem_get_def mem_consume_def consumed_result_def to_iso_string_four_digit Let_def)
qed

lemma sample_consumes_again:
  assumes "dm_records (me_decisions s) (d_decision_id d) = Some (d, a)" "d_verdict d = ALLOW"
    "date_parse (d_expires_at d) = Some (sample_now + 60000)"
    and old: "me_nonces s (nonce_key (d_decision_id d) (d_nonce d)) = Some (sample_consumption d ref)"
  shows "\<exists>r s'. lp_consume ref_host sample_provider (sample_ambient j) (sample_consume d ref) s = (Inr r, s') \<and>
    cr_success r \<and> cr_status r = Idempotent"
  using assms sample_day sample_years(1)
  by (simp add: lp_consume_def consume_by_def record_by_def bind_io_apply sample_consume_def sample_consumption_def sample_provider_def on_part_def
      mem_get_def mem_consume_def consumed_result_def to_iso_string_four_digit Let_def)

text \<open>An approval is granted once.\<close>

definition sample_grant :: "string \<Rightarrow> resolve_input" where
  "sample_grant i = \<lparr>ri_decision_id = i, ri_granted = True, ri_approval_reference = ''approval-1'', ri_approver_ids = [''alice'']\<rparr>"

lemma sample_resolves:
  assumes "dm_records (me_decisions s) i = Some (d, sample_large)" "d_decision_id d = i" "d_verdict d = REQUIRE_APPROVAL"
    "date_parse (d_issued_at d) = Some sample_now" "i \<notin> set (dm_claimed (me_decisions s))" "me_spend s = Map.empty"
    "identifier_ok i" "identifier_ok j"
  shows "\<exists>r s'. lp_resolve ref_host sample_provider (sample_ambient j) (sample_grant i) None s = (Inr r, s') \<and>
    rr_success r \<and> dm_records (me_decisions s') i = (if i = j then dm_records (me_decisions s') j else Some (d, sample_large)) \<and>
    i \<in> set (dm_claimed (me_decisions s'))"
proof -
  have amount: "action_ok ref_host (sample_request ''35.00'')" "decimal_digits 20 (decimal_value ''35.00'')"
    using sample_request_ok(1) by (simp_all add: sample_large_def decimal_digits_def exI [of _ 35] exI [of _ 0])
  let ?ev = "resolved_evaluation (sample_grant i) (sample_verdict ''35.00'')"
  have v: "ev_verdict (sample_verdict ''35.00'') \<noteq> BLOCK"
    by (simp add: sample_verdict_def verdict_of_checks_def)
  have "approval_ok (ev_approval ?ev)"
    using v by (simp add: resolved_evaluation_def sample_grant_def approval_ok_def Let_def) code_simp
  moreover have "ev_reasons ?ev \<noteq> []" "distinct (ev_reasons ?ev)"
    using v by (auto simp: resolved_evaluation_def sample_grant_def Let_def sample_verdict_def verdict_of_checks_def positive_reasons_def)
  ultimately have c: "create_signed_decision ref_host sample_signer (sample_request ''35.00'')
      (lp_create_input ref_host sample_provider (sample_ambient j) 2 ?ev (Some i)) =
      Inr (sample_created ''35.00'' j ?ev 2 (Some i))"
    using assms(7,8) amount(1) by (intro sample_created) auto
  let ?s1 = "s\<lparr>me_decisions := (me_decisions s)\<lparr>dm_claimed := i # dm_claimed (me_decisions s)\<rparr>\<rparr>"
  have get: "lp_get sample_provider i s = (Inr (Some (d, sample_large)), s)"
    using assms(1) by (simp add: sample_provider_def on_part_def mem_get_def)
  have claim: "lp_claim sample_provider i s = (Inr True, ?s1)"
    using assms(5) by (simp add: sample_provider_def on_part_def mem_claim_def)
  have ev: "evaluate_policy ref_host sample_policy (lp_daily sample_provider) sample_now (sample_request ''35.00'') ?s1 =
      (Inr (sample_verdict ''35.00''), ?s1)"
    by (rule sample_evaluate_policy [OF amount]) (simp_all add: assms(6))
  have "\<not> approval_closed sample_policy d sample_now"
    using assms(4) by (simp add: approval_closed_def sample_policy_def default_request_ttl_def)
  moreover have "lp_save sample_provider e a t =
      (Inr (), t\<lparr>me_decisions := (me_decisions t)\<lparr>dm_records := (dm_records (me_decisions t))(d_decision_id e \<mapsto> (e, a))\<rparr>\<rparr>)"
    "lp_metric sample_provider m t = t\<lparr>me_metrics := mem_metric m (me_metrics t)\<rparr>" for e a t m
    by (simp_all add: sample_provider_def on_part_def mem_save_def)
  moreover have "ri_decision_id (sample_grant i) = i" by (simp add: sample_grant_def)
  ultimately show ?thesis
    using assms get claim ev c sample_created_fields(1) [OF c]
    unfolding sample_large_def
    by (simp add: lp_resolve_def bind_io_apply lp_sign_def lp_record_decision_def Let_def)
qed

text \<open>The first decision of a fresh provider, for each of the two requests.\<close>

lemma sample_verdicts: "ev_verdict (sample_verdict ''12.50'') = ALLOW" "ev_verdict (sample_verdict ''35.00'') = REQUIRE_APPROVAL"
  by (simp_all add: sample_verdict_def verdict_of_checks_def sample_policy_def)

lemma sample_decimal_digits: "decimal_digits 20 (decimal_value ''12.50'')" "decimal_digits 20 (decimal_value ''35.00'')"
proof -
  have "decimal_value ''12.50'' = of_nat 125 / 10 ^ 1 \<and> (125::nat) < 10 ^ 20"
    "decimal_value ''35.00'' = of_nat 35 / 10 ^ 0 \<and> (35::nat) < 10 ^ 20" by simp_all
  then show "decimal_digits 20 (decimal_value ''12.50'')" "decimal_digits 20 (decimal_value ''35.00'')"
    unfolding decimal_digits_def by blast+
qed

lemma sample_ids [simp]: "identifier_ok ''decision-1''" "identifier_ok ''decision-2''" "identifier_ok ''decision-3''"
  by code_simp+

lemma empty_memory_sel [simp]:
  "me_spend empty_memory = Map.empty" "me_nonces empty_memory = Map.empty"
  "dm_records (me_decisions empty_memory) = Map.empty" "dm_claimed (me_decisions empty_memory) = []"
  by (simp_all add: empty_memory_def)

lemma sample_first:
  assumes "action_ok ref_host (sample_request amount)" "decimal_digits 20 (decimal_value amount)" "decimal_value amount \<le> 40"
  shows "\<exists>d s'. lp_evaluate ref_host sample_provider (sample_ambient ''decision-1'') (sample_request amount) empty_memory = (Inr d, s') \<and>
    d_verdict d = ev_verdict (sample_verdict amount) \<and> d_decision_id d = ''decision-1'' \<and>
    dm_records (me_decisions s') = [''decision-1'' \<mapsto> (d, sample_request amount)] \<and> dm_claimed (me_decisions s') = [] \<and>
    date_parse (d_issued_at d) = Some sample_now \<and> date_parse (d_expires_at d) = Some (sample_now + 60000) \<and>
    me_nonces s' = Map.empty \<and> me_spend s' = Map.empty \<and> tx_amount (d_transaction d) = amount"
proof -
  let ?d = "sample_created amount ''decision-1'' (sample_verdict amount) 1 None"
  have c: "create_signed_decision ref_host sample_signer (sample_request amount)
      (lp_create_input ref_host sample_provider (sample_ambient ''decision-1'') 1 (sample_verdict amount) None) = Inr ?d"
    by (rule sample_created [OF assms(1)])
      (auto simp: sample_verdict_def verdict_of_checks_def positive_reasons_def engine_approval_def approval_ok_def)
  from sample_evaluates [OF assms empty_memory_sel(1) sample_ids(1) refl] sample_created_fields [OF c]
  show ?thesis by fastforce
qed

lemmas sample_first_small = sample_first [OF _ sample_decimal_digits(1), simplified sample_request_ok sample_verdicts, simplified]
lemmas sample_first_large = sample_first [OF sample_request_ok(1) [unfolded sample_large_def] sample_decimal_digits(2),
  unfolded sample_verdicts sample_large_def [symmetric], simplified]

lemma sample_first_decision:
  "\<exists>d s'. lp_evaluate ref_host (memory_provider ref_host sample_policy sample_signer) (sample_ambient ''decision-1'')
      sample_action empty_memory = (Inr d, s') \<and> d_verdict d = ALLOW"
  using sample_first_small unfolding sample_provider_def by blast

text \<open>The allowed request is consumed twice for one execution; the one above the threshold is
  approved once.\<close>

lemma sample_consume_history:
  "\<exists>d r r' s'. run_ops (lp_step ref_host sample_provider)
      [Evaluate (sample_ambient ''decision-1'') sample_action, Consume (sample_ambient ''decision-2'') (sample_consume d ''run-1''),
       Consume (sample_ambient ''decision-3'') (sample_consume d ''run-1'')] empty_memory =
      ([Inr (Issued d), Inr (ConsumeOutcome r), Inr (ConsumeOutcome r')], s') \<and>
    cr_success r \<and> cr_success r' \<and> d_decision_id d = ''decision-1''"
proof -
  obtain d s1 where e: "lp_evaluate ref_host sample_provider (sample_ambient ''decision-1'') sample_action empty_memory = (Inr d, s1)"
    "d_verdict d = ALLOW" "d_decision_id d = ''decision-1''"
    "dm_records (me_decisions s1) (d_decision_id d) = Some (d, sample_action)"
    "date_parse (d_expires_at d) = Some (sample_now + 60000)" "me_nonces s1 = Map.empty" "me_spend s1 = Map.empty"
    "tx_amount (d_transaction d) = ''12.50''"
    using sample_first_small by auto
  obtain r s2 where c: "lp_consume ref_host sample_provider (sample_ambient ''decision-2'') (sample_consume d ''run-1'') s1 = (Inr r, s2)"
    "cr_success r" "me_decisions s2 = me_decisions s1"
    "me_nonces s2 (nonce_key (d_decision_id d) (d_nonce d)) = Some (sample_consumption d ''run-1'')"
    using sample_consumes [OF e(4,2,5), of "''decision-2''" "''run-1''"] e(6-8) sample_decimal_digits
    by (auto simp: spend_ok_def stored_spend_def)
  obtain r' s3 where c': "lp_consume ref_host sample_provider (sample_ambient ''decision-3'') (sample_consume d ''run-1'') s2 = (Inr r', s3)"
    "cr_success r'"
    using sample_consumes_again [OF e(4) [folded c(3)] e(2,5) c(4), of "''decision-3''"] by auto
  show ?thesis
    using e(1,3) c(1,2) c' by (intro exI [of _ d] exI [of _ r] exI [of _ r'] exI [of _ s3]) (simp add: bind_io_apply)
qed

lemma sample_approval_history:
  "\<exists>d r x s'. run_ops (lp_step ref_host sample_provider)
      [Evaluate (sample_ambient ''decision-1'') sample_large, ResolveApproval (sample_ambient ''decision-2'') (sample_grant ''decision-1'') None,
       ResolveApproval (sample_ambient ''decision-3'') (sample_grant ''decision-1'') None] empty_memory =
      ([Inr (Issued d), Inr (Resolved r), Inr (Resolved x)], s') \<and> rr_success r"
proof -
  obtain d s1 where e: "lp_evaluate ref_host sample_provider (sample_ambient ''decision-1'') sample_large empty_memory = (Inr d, s1)"
    "d_verdict d = REQUIRE_APPROVAL" "d_decision_id d = ''decision-1''"
    "dm_records (me_decisions s1) ''decision-1'' = Some (d, sample_large)" "''decision-1'' \<notin> set (dm_claimed (me_decisions s1))"
    "date_parse (d_issued_at d) = Some sample_now" "me_spend s1 = Map.empty"
    using sample_first_large by auto
  obtain r s2 where r: "lp_resolve ref_host sample_provider (sample_ambient ''decision-2'') (sample_grant ''decision-1'') None s1 = (Inr r, s2)"
    "rr_success r" "dm_records (me_decisions s2) ''decision-1'' = Some (d, sample_large)" "''decision-1'' \<in> set (dm_claimed (me_decisions s2))"
    using sample_resolves [OF e(4,3,2,6,5,7) sample_ids(1,2)] by auto
  have "\<not> approval_closed sample_policy d sample_now"
    using e(6) by (simp add: approval_closed_def sample_policy_def default_request_ttl_def)
  then have "\<exists>x. lp_resolve ref_host sample_provider (sample_ambient ''decision-3'') (sample_grant ''decision-1'') None s2 = (Inr x, s2)"
    using r(3,4) e(2) by (simp add: lp_resolve_def bind_io_apply sample_grant_def sample_provider_def sample_ambient_def
        on_part_def mem_get_def mem_claim_def)
  with e(1) r(1,2) show ?thesis by (auto simp: bind_io_apply)
qed

lemma sample_resolution:
  "\<exists>r s s'. lp_resolve ref_host (memory_provider ref_host sample_policy sample_signer) (sample_ambient ''decision-2'')
    (sample_grant ''decision-1'') None s = (Inr r, s') \<and> rr_success r"
proof -
  obtain d r x s' where run: "run_ops (lp_step ref_host sample_provider)
      [Evaluate (sample_ambient ''decision-1'') sample_large, ResolveApproval (sample_ambient ''decision-2'') (sample_grant ''decision-1'') None,
       ResolveApproval (sample_ambient ''decision-3'') (sample_grant ''decision-1'') None] empty_memory =
      ([Inr (Issued d), Inr (Resolved r), Inr (Resolved x)], s')" and r: "rr_success r"
    using sample_approval_history by blast
  from run_ops_nth [OF run, of 1] r show ?thesis by (auto simp: bind_io_Inr sample_provider_def)
qed

lemma sample_consumption_step:
  "\<exists>am ci s r s'. lp_consume ref_host (memory_provider ref_host sample_policy sample_signer) am ci s = (Inr r, s') \<and> cr_success r"
proof -
  obtain d r r' s' where run: "run_ops (lp_step ref_host sample_provider)
      [Evaluate (sample_ambient ''decision-1'') sample_action, Consume (sample_ambient ''decision-2'') (sample_consume d ''run-1''),
       Consume (sample_ambient ''decision-3'') (sample_consume d ''run-1'')] empty_memory =
      ([Inr (Issued d), Inr (ConsumeOutcome r), Inr (ConsumeOutcome r')], s')" and r: "cr_success r"
    using sample_consume_history by blast
  from run_ops_nth [OF run, of 1]
  obtain s t where "lp_consume ref_host sample_provider (sample_ambient ''decision-2'') (sample_consume d ''run-1'') s = (Inr r, t)"
    by (auto simp: bind_io_Inr)
  with r show ?thesis unfolding sample_provider_def by blast
qed

text \<open>Every valid action has a decision that verifies for it.\<close>

lemma sample_verified:
  assumes "action_ok ref_host a"
  shows "\<exists>d k. vr_valid (verify_decision ref_host
      \<lparr>vi_decision = decision_json d, vi_action = action_json a, vi_registry = registry_json [k], vi_at = sample_now,
       vi_policy_version = Some ''1.0.0'', vi_requirements_hash = bound_requirements (a_reference a)\<rparr>) \<and>
    vr_verdict (verify_decision ref_host
      \<lparr>vi_decision = decision_json d, vi_action = action_json a, vi_registry = registry_json [k], vi_at = sample_now,
       vi_policy_version = Some ''1.0.0'', vi_requirements_hash = bound_requirements (a_reference a)\<rparr>) = Some ALLOW \<and>
    d_verdict d = ALLOW \<and> d_action_hash d = hash_canonical ref_host (action_json a)"
proof -
  obtain d where d: "create_signed_decision ref_host sample_signer a sample_input = Inr d"
    using create_signed_decision_total [OF ref_host_sha assms sample_input_ok _ sample_signer_ok sample_signer_total] by auto
  obtain k where k: "key_registry_entry ref_host sample_signer sample_now None None = Inr k" "registry_ok [k]"
    using sample_key by blast
  have i: "ci_now sample_input = sample_now" "ci_ttl_seconds sample_input = 60"
    "ci_policy_version sample_input = ''1.0.0''" "ev_verdict (ci_evaluation sample_input) = ALLOW"
    by (simp_all add: sample_input_def sample_evaluation_def)
  show ?thesis
    using issued_decision_verifies [OF d sample_signer_ok _ k(1) _ k(2), of sample_now] create_signed_decision_fields [OF d] i
    by (intro exI [of _ d] exI [of _ k]) auto
qed

end
