(* ===== verification/Reconciliation.thy ===== *)
theory Reconciliation
  imports Signing "HOL-Library.AList"
begin

section \<open>The journal of external executions\<close>

text \<open>
  \<open>execution-reconciliation/src/types.ts\<close> and \<open>store.ts\<close>: the record of an operation whose
  external effect may be uncertain, its status machine, and the in-memory journal. The locale
  \<open>operation_journal\<close> is the contract of \<open>ExecutionReconciliationStore\<close>: an operation moves
  along the status machine only, keeps its identity, and is claimed when it leaves
  \<open>prepared\<close>. Its facts: one claim per operation over any history, final states are absorbing.
\<close>

subsection \<open>Data\<close>

datatype operation_kind =
  X402Settlement | A2ASettlement | A2ADelegate | AP2Delegate | EVMBroadcast | MTPConsumption

fun kind_string :: "operation_kind \<Rightarrow> string" where
  "kind_string X402Settlement = ''x402_settlement''"
| "kind_string A2ASettlement = ''a2a_settlement''"
| "kind_string A2ADelegate = ''a2a_delegate''"
| "kind_string AP2Delegate = ''ap2_delegate''"
| "kind_string EVMBroadcast = ''evm_broadcast''"
| "kind_string MTPConsumption = ''mtp_consumption''"

datatype op_status = Prepared | InProgress | Succeeded | FailedFinal | OutcomeUnknown

record operation =
  xo_operation_id :: string
  xo_rail :: rail
  xo_kind :: operation_kind
  xo_decision_id :: string
  xo_action_hash :: string
  xo_execution_ref :: string
  xo_binding_hash :: string
  xo_status :: op_status
  xo_attempts :: nat
  xo_prepared_at :: string
  xo_started_at :: "string option"
  xo_updated_at :: string
  xo_resolved_at :: "string option"
  xo_outcome_reference :: "string option"
  xo_last_error :: "string option"
  xo_resolved_by :: "string option"
  xo_note :: "string option"

definition opt_ok :: "('a \<Rightarrow> bool) \<Rightarrow> 'a option \<Rightarrow> bool" where
  "opt_ok P x = (case x of None \<Rightarrow> True | Some y \<Rightarrow> P y)"

text \<open>
  \<open>ExecutionOperationRecordSchema\<close>. Its date-time fields hold texts of \<open>toISOString\<close>, which
  \<open>z.iso.datetime\<close> accepts exactly in the four-digit years.
\<close>

definition operation_ok :: "operation \<Rightarrow> bool" where
  "operation_ok x \<longleftrightarrow>
     hash_ok (xo_operation_id x) \<and> identifier_ok (xo_decision_id x) \<and> hash_ok (xo_action_hash x) \<and>
     len_between 1 512 (xo_execution_ref x) \<and> hash_ok (xo_binding_hash x) \<and>
     timestamp_ok (xo_prepared_at x) \<and> opt_ok timestamp_ok (xo_started_at x) \<and>
     timestamp_ok (xo_updated_at x) \<and> opt_ok timestamp_ok (xo_resolved_at x) \<and>
     opt_ok (len_between 1 512) (xo_outcome_reference x) \<and> opt_ok (len_between 1 128) (xo_last_error x) \<and>
     opt_ok identifier_ok (xo_resolved_by x) \<and> opt_ok (len_between 1 1024) (xo_note x)"

definition check_operation :: "operation \<Rightarrow> error + operation" where
  "check_operation x = (if operation_ok x then Inr x else Inl ZodError)"

text \<open>\<open>z.date()\<close>: a valid \<open>Date\<close>.\<close>

definition date_ok :: "int \<Rightarrow> bool" where
  "date_ok t \<longleftrightarrow> \<bar>t\<bar> \<le> 8640000000000000"

record prepare_input =
  po_rail :: rail
  po_kind :: operation_kind
  po_decision_id :: string
  po_action_hash :: string
  po_execution_ref :: string
  po_binding_hash :: string
  po_prepared_at :: int

definition prepare_input_ok :: "prepare_input \<Rightarrow> bool" where
  "prepare_input_ok i \<longleftrightarrow>
     identifier_ok (po_decision_id i) \<and> hash_ok (po_action_hash i) \<and> len_between 1 512 (po_execution_ref i) \<and>
     hash_ok (po_binding_hash i) \<and> date_ok (po_prepared_at i)"

record resolution_input =
  rs_operation_id :: string
  rs_binding_hash :: string
  rs_succeeded :: bool
  rs_outcome_reference :: string
  rs_error_code :: "string option"
  rs_resolved_by :: string
  rs_note :: string
  rs_resolved_at :: int

definition resolution_input_ok :: "resolution_input \<Rightarrow> bool" where
  "resolution_input_ok i \<longleftrightarrow>
     hash_ok (rs_operation_id i) \<and> hash_ok (rs_binding_hash i) \<and> len_between 1 512 (rs_outcome_reference i) \<and>
     opt_ok (len_between 1 128) (rs_error_code i) \<and> identifier_ok (rs_resolved_by i) \<and>
     len_between 1 1024 (rs_note i) \<and> date_ok (rs_resolved_at i) \<and>
     (rs_succeeded i \<or> rs_error_code i \<noteq> None)"

datatype start_result =
  Claimed operation | Existing operation | StartConflict | StartMissing

subsection \<open>Operations of the in-memory journal\<close>

type_synonym journal = "(string \<times> operation) list"

definition operation_id :: "host \<Rightarrow> rail \<Rightarrow> operation_kind \<Rightarrow> string \<Rightarrow> string" where
  "operation_id H r k ref = hash_canonical H (JObj
     [(''version'', JStr ''inntris-execution-operation-id-v1''), (''rail'', JStr (rail_string r)),
      (''operation_kind'', JStr (kind_string k)), (''execution_ref'', JStr ref)])"

definition same_identity :: "operation \<Rightarrow> prepare_input \<Rightarrow> bool" where
  "same_identity x i \<longleftrightarrow>
     xo_rail x = po_rail i \<and> xo_kind x = po_kind i \<and> xo_decision_id x = po_decision_id i \<and>
     xo_action_hash x = po_action_hash i \<and> xo_execution_ref x = po_execution_ref i \<and>
     xo_binding_hash x = po_binding_hash i"

definition reconciliation_error :: "string \<Rightarrow> error" where
  "reconciliation_error m = JsError ''ExecutionReconciliationError'' m"

definition assert_mutation :: "operation option \<Rightarrow> string \<Rightarrow> error + operation" where
  "assert_mutation x b =
     (case x of
        None \<Rightarrow> Inl (reconciliation_error ''Execution operation does not exist'')
      | Some y \<Rightarrow> if xo_binding_hash y \<noteq> b
          then Inl (reconciliation_error ''Execution operation binding conflicts'') else Inr y)"

text \<open>\<open>toISOString\<close> of a date the schema has accepted.\<close>

definition prepared_operation :: "host \<Rightarrow> prepare_input \<Rightarrow> operation" where
  "prepared_operation H i =
     \<lparr>xo_operation_id = operation_id H (po_rail i) (po_kind i) (po_execution_ref i), xo_rail = po_rail i,
      xo_kind = po_kind i, xo_decision_id = po_decision_id i, xo_action_hash = po_action_hash i,
      xo_execution_ref = po_execution_ref i, xo_binding_hash = po_binding_hash i, xo_status = Prepared,
      xo_attempts = 0, xo_prepared_at = iso_text (po_prepared_at i), xo_started_at = None,
      xo_updated_at = iso_text (po_prepared_at i), xo_resolved_at = None, xo_outcome_reference = None,
      xo_last_error = None, xo_resolved_by = None, xo_note = None\<rparr>"

definition mem_prepare :: "host \<Rightarrow> prepare_input \<Rightarrow> (error, journal, operation) io" where
  "mem_prepare H i s =
     (if \<not> prepare_input_ok i then (Inl ZodError, s)
      else let k = operation_id H (po_rail i) (po_kind i) (po_execution_ref i) in
        case map_of s k of
          Some x \<Rightarrow>
            if same_identity x i then (Inr x, s)
            else (Inl (reconciliation_error ''Execution reference is already bound to a different operation''), s)
        | None \<Rightarrow>
            (let x = prepared_operation H i
             in if operation_ok x then (Inr x, AList.update k x s) else (Inl ZodError, s)))"

definition start_operation :: "operation \<Rightarrow> int \<Rightarrow> operation" where
  "start_operation x t = x\<lparr>xo_status := InProgress, xo_attempts := xo_attempts x + 1,
     xo_started_at := Some (iso_text t), xo_updated_at := iso_text t\<rparr>"

definition mem_start :: "string \<Rightarrow> string \<Rightarrow> int \<Rightarrow> (error, journal, start_result) io" where
  "mem_start k b t s =
     (if \<not> (hash_ok k \<and> hash_ok b \<and> date_ok t) then (Inl ZodError, s)
      else case map_of s k of
        None \<Rightarrow> (Inr StartMissing, s)
      | Some x \<Rightarrow>
          if xo_binding_hash x \<noteq> b then (Inr StartConflict, s)
          else if xo_status x = Prepared
          then (Inr (Claimed (start_operation x t)), AList.update k (start_operation x t) s)
          else (Inr (Existing x), s))"

text \<open>The common end of the mutators: the record is changed in place, then validated.\<close>

definition store_validated :: "string \<Rightarrow> operation \<Rightarrow> (error, journal, operation) io" where
  "store_validated k x s = (check_operation x, AList.update k x s)"

definition mem_mark_succeeded :: "string \<Rightarrow> string \<Rightarrow> string \<Rightarrow> int \<Rightarrow> (error, journal, operation) io" where
  "mem_mark_succeeded k b ref t s =
     (if \<not> (hash_ok k \<and> hash_ok b \<and> len_between 1 512 ref \<and> date_ok t) then (Inl ZodError, s)
      else case assert_mutation (map_of s k) b of
        Inl e \<Rightarrow> (Inl e, s)
      | Inr x \<Rightarrow>
          if xo_status x = Succeeded \<and> xo_outcome_reference x = Some ref then (Inr x, s)
          else if xo_status x \<noteq> InProgress
          then (Inl (reconciliation_error ''Only an in-progress operation can succeed normally''), s)
          else store_validated k (x\<lparr>xo_status := Succeeded, xo_outcome_reference := Some ref,
                 xo_resolved_at := Some (iso_text t), xo_updated_at := iso_text t\<rparr>) s)"

definition mem_mark_failed_final :: "string \<Rightarrow> string \<Rightarrow> string \<Rightarrow> int \<Rightarrow> (error, journal, operation) io" where
  "mem_mark_failed_final k b code t s =
     (if \<not> (hash_ok k \<and> hash_ok b \<and> len_between 1 128 code \<and> date_ok t) then (Inl ZodError, s)
      else case assert_mutation (map_of s k) b of
        Inl e \<Rightarrow> (Inl e, s)
      | Inr x \<Rightarrow>
          if xo_status x = FailedFinal \<and> xo_last_error x = Some code then (Inr x, s)
          else if xo_status x \<noteq> InProgress
          then (Inl (reconciliation_error ''Only an in-progress operation can fail finally without reconciliation''), s)
          else store_validated k (x\<lparr>xo_status := FailedFinal, xo_last_error := Some code,
                 xo_resolved_at := Some (iso_text t), xo_updated_at := iso_text t\<rparr>) s)"

definition mem_mark_outcome_unknown :: "string \<Rightarrow> string \<Rightarrow> string \<Rightarrow> int \<Rightarrow> (error, journal, operation) io" where
  "mem_mark_outcome_unknown k b code t s =
     (if \<not> (hash_ok k \<and> hash_ok b \<and> len_between 1 128 code \<and> date_ok t) then (Inl ZodError, s)
      else case assert_mutation (map_of s k) b of
        Inl e \<Rightarrow> (Inl e, s)
      | Inr x \<Rightarrow>
          if xo_status x = OutcomeUnknown then (Inr x, s)
          else if xo_status x \<noteq> InProgress
          then (Inl (reconciliation_error ''Only an in-progress operation can become outcome-unknown''), s)
          else store_validated k (x\<lparr>xo_status := OutcomeUnknown, xo_last_error := Some code,
                 xo_updated_at := iso_text t\<rparr>) s)"

definition resolved_operation :: "resolution_input \<Rightarrow> operation \<Rightarrow> operation" where
  "resolved_operation i x =
     x\<lparr>xo_status := (if rs_succeeded i then Succeeded else FailedFinal),
       xo_outcome_reference := Some (rs_outcome_reference i),
       xo_last_error := (if rs_succeeded i then None else rs_error_code i),
       xo_resolved_by := Some (rs_resolved_by i), xo_note := Some (rs_note i),
       xo_resolved_at := Some (iso_text (rs_resolved_at i)), xo_updated_at := iso_text (rs_resolved_at i)\<rparr>"

definition mem_resolve :: "resolution_input \<Rightarrow> (error, journal, operation) io" where
  "mem_resolve i s =
     (if \<not> resolution_input_ok i then (Inl ZodError, s)
      else case assert_mutation (map_of s (rs_operation_id i)) (rs_binding_hash i) of
        Inl e \<Rightarrow> (Inl e, s)
      | Inr x \<Rightarrow>
          if xo_status x \<noteq> OutcomeUnknown \<and> xo_status x \<noteq> InProgress
          then (Inl (reconciliation_error ''Only an unresolved operation can receive an authoritative resolution''), s)
          else store_validated (rs_operation_id i) (resolved_operation i x) s)"

definition mem_operation :: "string \<Rightarrow> (error, journal, operation option) io" where
  "mem_operation k s = (Inr (map_of s k), s)"

text \<open>
  \<open>listUnresolved\<close>: on timestamps, which share one shape, \<open>localeCompare\<close> orders as the code
  units do; \<open>sort\<close> and \<^const>\<open>sort_key\<close> are stable.
\<close>

definition mem_list_unresolved :: "int option \<Rightarrow> int option \<Rightarrow> (error, journal, operation list) io" where
  "mem_list_unresolved before limit s =
     (if \<not> (opt_ok date_ok before \<and> opt_ok (\<lambda>n. 1 \<le> n \<and> n \<le> 500) limit) then (Inl ZodError, s)
      else (Inr (take (nat (case limit of None \<Rightarrow> 100 | Some n \<Rightarrow> n))
        (sort_key xo_updated_at
          (filter (\<lambda>x. (xo_status x = InProgress \<or> xo_status x = OutcomeUnknown) \<and>
             (case before of None \<Rightarrow> True | Some t \<Rightarrow> time_of (xo_updated_at x) < t)) (map snd s)))), s))"

subsection \<open>The status machine\<close>

inductive op_transition :: "op_status \<Rightarrow> op_status \<Rightarrow> bool" where
  begin_work: "op_transition Prepared InProgress"
| work_succeeds: "op_transition InProgress Succeeded"
| work_fails: "op_transition InProgress FailedFinal"
| work_uncertain: "op_transition InProgress OutcomeUnknown"
| reconcile_success: "op_transition OutcomeUnknown Succeeded"
| reconcile_failure: "op_transition OutcomeUnknown FailedFinal"

code_pred op_transition .

inductive_cases from_succeeded: "op_transition Succeeded y"
inductive_cases from_failed: "op_transition FailedFinal y"
inductive_cases to_prepared: "op_transition x Prepared"
inductive_simps transition_simps:
  "op_transition Prepared y" "op_transition InProgress y" "op_transition OutcomeUnknown y"

definition final :: "op_status \<Rightarrow> bool" where
  "final st \<longleftrightarrow> st = Succeeded \<or> st = FailedFinal"

lemma final_absorbing: "op_transition\<^sup>*\<^sup>* x y \<Longrightarrow> final x \<Longrightarrow> y = x"
  by (induction rule: rtranclp_induct) (auto simp: final_def elim: from_succeeded from_failed)

lemma never_prepared_again: "op_transition\<^sup>*\<^sup>* x y \<Longrightarrow> x \<noteq> Prepared \<Longrightarrow> y \<noteq> Prepared"
  by (induction rule: rtranclp_induct) (auto elim: to_prepared)

text \<open>How one operation may change: it appears as prepared, keeps its identity, moves along the
  machine, and counts an attempt exactly when it is started.\<close>

definition operation_key :: "operation \<Rightarrow> string \<times> rail \<times> operation_kind \<times> string \<times> string \<times> string \<times> string" where
  "operation_key x = (xo_operation_id x, xo_rail x, xo_kind x, xo_decision_id x, xo_action_hash x,
     xo_execution_ref x, xo_binding_hash x)"

definition evolves :: "operation option \<Rightarrow> operation option \<Rightarrow> bool" where
  "evolves a b \<longleftrightarrow>
     (case (a, b) of
        (None, None) \<Rightarrow> True
      | (None, Some y) \<Rightarrow> xo_status y = Prepared \<and> xo_attempts y = 0
      | (Some x, None) \<Rightarrow> False
      | (Some x, Some y) \<Rightarrow> x = y \<or> operation_key y = operation_key x \<and> op_transition (xo_status x) (xo_status y) \<and>
          xo_attempts y = xo_attempts x + (if xo_status x = Prepared then 1 else 0))"

definition attempts_counted :: "operation option \<Rightarrow> bool" where
  "attempts_counted a \<longleftrightarrow> (\<forall>x. a = Some x \<longrightarrow> xo_attempts x = (if xo_status x = Prepared then 0 else 1))"

lemma evolves_refl [simp]: "evolves a a"
  by (cases a) (simp_all add: evolves_def)

lemma evolves_attempts: "evolves a b \<Longrightarrow> attempts_counted a \<Longrightarrow> attempts_counted b"
  by (cases a; cases b) (auto simp: evolves_def attempts_counted_def elim: to_prepared split: if_splits)

subsection \<open>The contract of a journal\<close>

datatype journal_call =
    PrepareCall prepare_input
  | StartCall string string int
  | SucceedCall string string string int
  | FailCall string string string int
  | UnknownCall string string string int
  | ResolveCall resolution_input

datatype journal_result = OperationResult operation | StartResult start_result

locale operation_journal =
  fixes step :: "journal_call \<Rightarrow> (error, 's, journal_result) io"
    and op_of :: "'s \<Rightarrow> string \<Rightarrow> operation option"
    and sound :: "'s \<Rightarrow> bool"
  assumes step_sound: "sound s \<Longrightarrow> sound (snd (step c s))"
    and step_evolves: "sound s \<Longrightarrow> evolves (op_of s k) (op_of (snd (step c s)) k)"
    and claim_starts: "step (StartCall k b t) s = (Inr (StartResult (Claimed x)), s') \<Longrightarrow>
      (\<exists>y. op_of s k = Some y \<and> xo_status y = Prepared \<and> xo_binding_hash y = b) \<and>
      op_of s' k = Some x \<and> xo_status x = InProgress"
    and existing_reads: "step (StartCall k b t) s = (Inr (StartResult (Existing x)), s') \<Longrightarrow>
      op_of s k = Some x \<and> xo_binding_hash x = b"
begin

lemma sound_at: "sound s \<Longrightarrow> sound (state_at step cs s n)"
  by (rule state_at_invariant [where f = step and P = sound and i = 0]) (simp_all add: state_at_def step_sound)

lemma step_evolves_at:
  "sound s \<Longrightarrow> run_ops step cs s = (rs, s') \<Longrightarrow> n < length cs \<Longrightarrow>
    evolves (op_of (state_at step cs s n) k) (op_of (state_at step cs s (Suc n)) k)"
  using run_ops_nth [of step cs s rs s' n] step_evolves [of "state_at step cs s n" k "cs ! n"] sound_at by simp

text \<open>An operation that has left \<open>prepared\<close> does not return to it; a final one does not change.\<close>

lemma left_prepared:
  assumes "sound s" "op_of (state_at step cs s m) k = Some x" "xo_status x \<noteq> Prepared" "m \<le> n"
  shows "\<exists>y. op_of (state_at step cs s n) k = Some y \<and> xo_status y \<noteq> Prepared \<and> operation_key y = operation_key x"
proof -
  have "sound (state_at step cs s n) \<and> (\<exists>y. op_of (state_at step cs s n) k = Some y \<and> xo_status y \<noteq> Prepared \<and>
      operation_key y = operation_key x)"
    by (rule state_at_invariant [where f = step and P = "\<lambda>s. sound s \<and> (\<exists>y. op_of s k = Some y \<and> xo_status y \<noteq> Prepared \<and>
          operation_key y = operation_key x)", OF _ _ assms(4)])
      (use assms step_evolves step_sound sound_at in \<open>fastforce simp: evolves_def elim: to_prepared split: option.splits\<close>)+
  then show ?thesis ..
qed

lemma final_stays:
  assumes "sound s" "op_of (state_at step cs s m) k = Some x" "final (xo_status x)" "m \<le> n"
  shows "op_of (state_at step cs s n) k = Some x"
proof -
  have "sound (state_at step cs s n) \<and> op_of (state_at step cs s n) k = Some x"
  proof (rule state_at_invariant [where f = step and P = "\<lambda>s. sound s \<and> op_of s k = Some x", OF _ _ assms(4)])
    fix c s
    assume "sound s \<and> op_of s k = Some x"
    with step_evolves [of s k c] step_sound [of s c] assms(3)
    show "sound (snd (step c s)) \<and> op_of (snd (step c s)) k = Some x"
      by (auto simp: evolves_def final_def elim: from_succeeded from_failed split: option.splits)
  qed (use assms sound_at in simp)
  then show ?thesis ..
qed

text \<open>Over any history an operation is claimed at most once: one caller runs its effect.\<close>

lemma claimed_at_most_once:
  assumes "sound s" and run: "run_ops step cs s = (rs, s')" and mn: "m < n" "n < length cs"
    and m: "cs ! m = StartCall k b t" "rs ! m = Inr (StartResult (Claimed x))"
    and n: "cs ! n = StartCall k b' t'"
  shows "rs ! n \<noteq> Inr (StartResult (Claimed y))"
proof
  assume rn: "rs ! n = Inr (StartResult (Claimed y))"
  have "step (StartCall k b t) (state_at step cs s m) = (Inr (StartResult (Claimed x)), state_at step cs s (Suc m))"
    using run_ops_nth [OF run, of m] mn m by simp
  from claim_starts [OF this] have "op_of (state_at step cs s (Suc m)) k = Some x" "xo_status x \<noteq> Prepared" by auto
  from left_prepared [OF \<open>sound s\<close> this, of n] mn
  obtain z where z: "op_of (state_at step cs s n) k = Some z" "xo_status z \<noteq> Prepared" by auto
  have "step (StartCall k b' t') (state_at step cs s n) = (Inr (StartResult (Claimed y)), state_at step cs s (Suc n))"
    using run_ops_nth [OF run, of n] mn n rn by simp
  from claim_starts [OF this] z show False by auto
qed

lemma attempts_at_most_one:
  assumes "sound s" "attempts_counted (op_of s k)"
  shows "attempts_counted (op_of (state_at step cs s n) k)"
proof -
  have "sound (state_at step cs s n) \<and> attempts_counted (op_of (state_at step cs s n) k)"
    by (rule state_at_invariant [where f = step and P = "\<lambda>s. sound s \<and> attempts_counted (op_of s k)" and i = 0])
      (use assms step_sound evolves_attempts [OF step_evolves] in \<open>auto simp: state_at_def\<close>)
  then show ?thesis ..
qed

end

subsection \<open>The in-memory journal keeps the contract\<close>

fun mem_journal_step :: "host \<Rightarrow> journal_call \<Rightarrow> (error, journal, journal_result) io" where
  "mem_journal_step H (PrepareCall i) = bind_io (mem_prepare H i) (\<lambda>x. ret (OperationResult x))"
| "mem_journal_step H (StartCall k b t) = bind_io (mem_start k b t) (\<lambda>x. ret (StartResult x))"
| "mem_journal_step H (SucceedCall k b r t) = bind_io (mem_mark_succeeded k b r t) (\<lambda>x. ret (OperationResult x))"
| "mem_journal_step H (FailCall k b c t) = bind_io (mem_mark_failed_final k b c t) (\<lambda>x. ret (OperationResult x))"
| "mem_journal_step H (UnknownCall k b c t) = bind_io (mem_mark_outcome_unknown k b c t) (\<lambda>x. ret (OperationResult x))"
| "mem_journal_step H (ResolveCall i) = bind_io (mem_resolve i) (\<lambda>x. ret (OperationResult x))"

lemma assert_mutation_Inr: "assert_mutation x b = Inr y \<longleftrightarrow> x = Some y \<and> xo_binding_hash y = b"
  by (auto simp: assert_mutation_def split: option.splits if_splits)

lemma evolves_update:
  assumes "map_of s k = Some x" "operation_key y = operation_key x" "op_transition (xo_status x) (xo_status y)"
    "xo_attempts y = xo_attempts x + (if xo_status x = Prepared then 1 else 0)"
  shows "evolves (map_of s j) (map_of (AList.update k y s) j)"
proof (cases "j = k")
  case True
  then show ?thesis using assms by (simp add: update_conv' evolves_def)
next
  case False
  then show ?thesis by (simp add: update_conv')
qed

lemma mem_prepare_evolves: "evolves (map_of s j) (map_of (snd (mem_prepare H i s)) j)"
  by (auto simp: mem_prepare_def Let_def update_conv' evolves_def prepared_operation_def split: option.splits)

lemma mem_start_evolves: "evolves (map_of s j) (map_of (snd (mem_start k b t s)) j)"
  by (auto simp: mem_start_def start_operation_def operation_key_def intro!: evolves_update op_transition.intros
      split: option.splits)

lemma mem_mark_evolves:
  "evolves (map_of s j) (map_of (snd (mem_mark_succeeded k b r t s)) j)"
  "evolves (map_of s j) (map_of (snd (mem_mark_failed_final k b r t s)) j)"
  "evolves (map_of s j) (map_of (snd (mem_mark_outcome_unknown k b r t s)) j)"
  by (auto simp: mem_mark_succeeded_def mem_mark_failed_final_def mem_mark_outcome_unknown_def
      store_validated_def operation_key_def assert_mutation_Inr
      intro!: evolves_update op_transition.intros split: sum.splits)

lemma mem_resolve_evolves: "evolves (map_of s j) (map_of (snd (mem_resolve i s)) j)"
  by (auto simp: mem_resolve_def store_validated_def operation_key_def assert_mutation_Inr resolved_operation_def
      intro!: evolves_update op_transition.intros split: sum.splits)

interpretation mem_journal: operation_journal "mem_journal_step H" map_of "\<lambda>_. True"
proof
  fix s s' :: journal and c k b t x
  show "evolves (map_of s k) (map_of (snd (mem_journal_step H c s)) k)"
    by (cases c) (simp_all only: mem_journal_step.simps bind_ret_state mem_prepare_evolves mem_start_evolves
        mem_mark_evolves mem_resolve_evolves)
  show "mem_journal_step H (StartCall k b t) s = (Inr (StartResult (Claimed x)), s') \<Longrightarrow>
      (\<exists>y. map_of s k = Some y \<and> xo_status y = Prepared \<and> xo_binding_hash y = b) \<and>
      map_of s' k = Some x \<and> xo_status x = InProgress"
    by (auto simp: bind_io_Inr mem_start_def start_operation_def update_conv' split: option.splits if_splits)
  show "mem_journal_step H (StartCall k b t) s = (Inr (StartResult (Existing x)), s') \<Longrightarrow>
      map_of s k = Some x \<and> xo_binding_hash x = b"
    by (auto simp: bind_io_Inr mem_start_def split: option.splits if_splits)
qed simp

subsection \<open>Preparing is idempotent, unresolved operations are listed in order\<close>

lemma mem_prepare_again:
  assumes "mem_prepare H i s = (Inr x, s1)"
  shows "mem_prepare H i s1 = (Inr x, s1)"
  using assms
  by (auto simp: mem_prepare_def Let_def update_conv' same_identity_def prepared_operation_def
      split: option.splits if_splits)

lemma mem_list_unresolved_sorted:
  assumes "mem_list_unresolved before limit s = (Inr xs, s')"
  shows "s' = s \<and> sorted (map xo_updated_at xs) \<and>
    length xs \<le> 500 \<and>
    set xs \<subseteq> {x \<in> snd ` set s. xo_status x = InProgress \<or> xo_status x = OutcomeUnknown}"
proof -
  from assms have lim: "(case limit of None \<Rightarrow> 100 | Some n \<Rightarrow> n) \<le> (500::int)" and "s' = s"
    and xs: "xs = take (nat (case limit of None \<Rightarrow> 100 | Some n \<Rightarrow> n))
        (sort_key xo_updated_at
          (filter (\<lambda>x. (xo_status x = InProgress \<or> xo_status x = OutcomeUnknown) \<and>
             (case before of None \<Rightarrow> True | Some t \<Rightarrow> time_of (xo_updated_at x) < t)) (map snd s)))"
    by (auto simp: mem_list_unresolved_def opt_ok_def split: if_splits option.splits)
  show ?thesis
    using lim \<open>s' = s\<close> unfolding xs
    by (auto simp: take_map [symmetric] intro!: sorted_wrt_take dest!: in_set_takeD)
qed

subsection \<open>Keys and identifiers agree\<close>

definition journal_valid :: "journal \<Rightarrow> bool" where
  "journal_valid s \<longleftrightarrow> (\<forall>k x. map_of s k = Some x \<longrightarrow> xo_operation_id x = k)"

lemma journal_valid_update: "journal_valid s \<Longrightarrow> xo_operation_id x = k \<Longrightarrow> journal_valid (AList.update k x s)"
  by (simp add: journal_valid_def update_conv')

lemma mem_journal_valid: "journal_valid s \<Longrightarrow> journal_valid (snd (mem_journal_step H c s))"
  by (cases c)
    (auto simp: bind_ret_state mem_prepare_def mem_start_def mem_mark_succeeded_def mem_mark_failed_final_def
      mem_mark_outcome_unknown_def mem_resolve_def store_validated_def prepared_operation_def start_operation_def
      resolved_operation_def Let_def assert_mutation_Inr intro!: journal_valid_update
      split: option.splits sum.splits dest: journal_valid_def [THEN iffD1, rule_format])

lemma mem_prepare_id:
  "journal_valid s \<Longrightarrow> mem_prepare H i s = (Inr x, s') \<Longrightarrow>
    xo_operation_id x = operation_id H (po_rail i) (po_kind i) (po_execution_ref i)"
  by (auto simp: mem_prepare_def Let_def prepared_operation_def journal_valid_def split: option.splits if_splits)

text \<open>An operation that is no longer waiting to be claimed.\<close>

definition left_open :: "journal \<Rightarrow> string \<Rightarrow> bool" where
  "left_open s k \<longleftrightarrow> (\<exists>x. map_of s k = Some x \<and> xo_status x \<noteq> Prepared)"

lemma left_open_stays: "left_open s k \<Longrightarrow> left_open (snd (mem_journal_step H c s)) k"
  using mem_journal.step_evolves [OF TrueI, of s k H c]
  by (auto simp: left_open_def evolves_def elim: to_prepared split: option.splits)

lemma mem_start_claims:
  "mem_start k b t s = (Inr (Claimed x), s') \<Longrightarrow> \<not> left_open s k \<and> left_open s' k"
  by (auto simp: mem_start_def left_open_def update_conv' start_operation_def split: option.splits if_splits)

lemma mem_start_existing: "mem_start k b t s = (Inr (Existing x), s') \<Longrightarrow> xo_status x \<noteq> Prepared"
  by (auto simp: mem_start_def split: option.splits if_splits)

text \<open>What every journal operation preserves, for the clients.\<close>

definition journal_grows :: "journal \<Rightarrow> journal \<Rightarrow> bool" where
  "journal_grows s s' \<longleftrightarrow> (journal_valid s \<longrightarrow> journal_valid s') \<and> (\<forall>k. left_open s k \<longrightarrow> left_open s' k)"

lemma journal_grows_step: "journal_grows s (snd (mem_journal_step H c s))"
  by (simp add: journal_grows_def mem_journal_valid left_open_stays)

lemma journal_grows_calls:
  "journal_grows s (snd (mem_prepare H i s))" "journal_grows s (snd (mem_start k b t s))"
  "journal_grows s (snd (mem_mark_succeeded k b r t s))" "journal_grows s (snd (mem_mark_failed_final k b r t s))"
  "journal_grows s (snd (mem_mark_outcome_unknown k b r t s))"
  using journal_grows_step [of s H "PrepareCall i"] journal_grows_step [of s H "StartCall k b t"]
    journal_grows_step [of s H "SucceedCall k b r t"] journal_grows_step [of s H "FailCall k b r t"]
    journal_grows_step [of s H "UnknownCall k b r t"]
  by (simp_all add: bind_ret_state)

end
