(* ===== verification/Effects.thy ===== *)
theory Effects
  imports Schemas
begin

section \<open>External effects and the stores that guard them\<close>

text \<open>
  What the gates of all rails share. First the execution stores of the EVM, A2A and AP2 gates
  (\<open>wallet-signing-gate/src/store.ts\<close>, \<open>a2a-settlement-gate/src/store.ts\<close>,
  \<open>ap2-runtime-gate/src/store.ts\<close>): a key is claimed for one binding, then completed with a
  result that is replayed. The locale \<open>execution_store\<close> is their contract. Then the log of an
  external effect: if every step either does not touch the log or logs one key that it has
  newly claimed, no key is logged twice over any run.
\<close>

subsection \<open>Execution stores\<close>

datatype ('b, 'v) stored_execution = InFlight 'b | Completed 'b 'v

datatype ('b, 'v) execution_claim = NewClaim | ClaimInFlight | ClaimConflict | ClaimCompleted 'b 'v

fun stored_binding :: "('b, 'v) stored_execution \<Rightarrow> 'b" where
  "stored_binding (InFlight b) = b"
| "stored_binding (Completed b v) = b"

definition claim_execution ::
  "'k \<Rightarrow> 'b \<Rightarrow> (error, 'k \<Rightarrow> ('b, 'v) stored_execution option, ('b, 'v) execution_claim) io" where
  "claim_execution k b m =
     (case m k of
        None \<Rightarrow> (Inr NewClaim, m(k \<mapsto> InFlight b))
      | Some e \<Rightarrow>
          if stored_binding e \<noteq> b then (Inr ClaimConflict, m)
          else (case e of InFlight _ \<Rightarrow> (Inr ClaimInFlight, m) | Completed b' v \<Rightarrow> (Inr (ClaimCompleted b' v), m)))"

definition complete_execution ::
  "string \<Rightarrow> 'k \<Rightarrow> 'b \<Rightarrow> 'v \<Rightarrow> (error, 'k \<Rightarrow> ('b, 'v) stored_execution option, unit) io" where
  "complete_execution msg k b v m =
     (if m k = Some (InFlight b) then (Inr (), m(k \<mapsto> Completed b v)) else (Inl (JsError ''Error'' msg), m))"

locale execution_store =
  fixes claim :: "'k \<Rightarrow> 'b \<Rightarrow> (error, 's, ('b, 'v) execution_claim) io"
    and complete :: "'k \<Rightarrow> 'b \<Rightarrow> 'v \<Rightarrow> (error, 's, unit) io"
    and slot :: "'s \<Rightarrow> 'k \<Rightarrow> ('b, 'v) stored_execution option"
  assumes claim_new: "claim k b s = (Inr NewClaim, s') \<Longrightarrow> slot s k = None \<and> slot s' k = Some (InFlight b)"
    and claim_completed: "claim k b s = (Inr (ClaimCompleted b' v), s') \<Longrightarrow> slot s k = Some (Completed b v) \<and> b' = b"
    and claim_frame: "slot s j = Some e \<Longrightarrow> slot (snd (claim k b s)) j = Some e"
    and complete_result: "complete k b v s = (Inr (), s') \<Longrightarrow> slot s k = Some (InFlight b) \<and> slot s' k = Some (Completed b v)"
    and complete_frame: "slot s j = Some (Completed b' v') \<Longrightarrow> slot (snd (complete k b v s)) j = Some (Completed b' v')"
    and complete_keeps: "slot s j = Some e \<Longrightarrow> \<exists>e'. slot (snd (complete k b v s)) j = Some e' \<and> stored_binding e' = stored_binding e"
begin

lemma completed_replayed:
  assumes "complete k b v s = (Inr (), s1)" "claim k b s1 = (Inr r, s2)" "r = ClaimCompleted b' w"
  shows "b' = b \<and> w = v"
  using complete_result [OF assms(1)] claim_completed [of k b s1 b' w s2] assms(2,3) by simp

lemma claim_grows: "slot s j \<noteq> None \<Longrightarrow> slot (snd (claim k b s)) j \<noteq> None"
  using claim_frame [of s j] by fastforce

lemma complete_grows: "slot s j \<noteq> None \<Longrightarrow> slot (snd (complete k b v s)) j \<noteq> None"
  using complete_keeps [of s j] by fastforce

lemma binding_stays:
  "slot s j = Some e \<Longrightarrow> \<exists>e'. slot (snd (claim k b s)) j = Some e' \<and> stored_binding e' = stored_binding e"
  by (auto dest: claim_frame)

end

lemma claim_execution_Inr: "\<exists>c m'. claim_execution k b m = (Inr c, m')"
  by (auto simp: claim_execution_def split: option.splits stored_execution.splits)

text \<open>The in-memory stores of the three gates satisfy it, whatever they record on completion.\<close>

interpretation memory_executions: execution_store claim_execution "complete_execution msg" "\<lambda>m. m"
  by unfold_locales
    (auto simp: claim_execution_def complete_execution_def split: option.splits
      stored_execution.splits if_splits)

subsection \<open>The log of an external effect\<close>

definition settles :: "('s \<Rightarrow> bool) \<Rightarrow> ('s \<Rightarrow> 'k \<Rightarrow> bool) \<Rightarrow> ('s \<Rightarrow> 'k list) \<Rightarrow> 's \<Rightarrow> 's \<Rightarrow> bool" where
  "settles valid left settled s s' \<longleftrightarrow>
     (valid s \<longrightarrow> valid s') \<and> (\<forall>k. left s k \<longrightarrow> left s' k) \<and> settled s' = settled s"

lemma settles_refl [simp]: "settles valid left settled s s"
  by (simp add: settles_def)

lemma settles_trans:
  "settles valid left settled s t \<Longrightarrow> settles valid left settled t u \<Longrightarrow> settles valid left settled s u"
  by (simp add: settles_def)

lemma settles_order: "state_order (settles valid left settled)"
  by (auto simp: settles_def state_order_def)

text \<open>
  \<open>left s k\<close>: the key \<open>k\<close> has been claimed in \<open>s\<close>; \<open>settled\<close> is the log and \<open>log\<close> the effect on
  it; \<open>valid\<close> is an invariant of the stores.
\<close>

locale effect_log =
  fixes valid :: "'s \<Rightarrow> bool" and left :: "'s \<Rightarrow> 'k \<Rightarrow> bool" and settled :: "'s \<Rightarrow> 'k list"
    and log :: "'k \<Rightarrow> 's \<Rightarrow> 's"
  assumes log_frame: "valid (log k s) = valid s" "left (log k s) = left s" "settled (log k s) = k # settled s"
begin

definition at_most_once :: "'s \<Rightarrow> bool" where
  "at_most_once s \<longleftrightarrow> valid s \<and> (\<forall>k. count_list (settled s) k \<le> (if left s k then 1 else 0))"

text \<open>A step without effect, or with the effect of a key it has newly claimed.\<close>

definition guarded :: "'s \<Rightarrow> 's \<Rightarrow> bool" where
  "guarded s s' \<longleftrightarrow> settles valid left settled s s' \<or>
     (\<exists>k s1. settles valid left settled s s1 \<and> \<not> left s k \<and> left s1 k \<and> settles valid left settled (log k s1) s')"

text \<open>A gate: a part that leaves the log alone and may claim one key, then a part that runs with the
  effect of that key first, if it was claimed.\<close>

lemma guarded_bind:
  assumes m: "keeps (settles valid left settled) m"
    and f: "\<And>x s1. m s = (Inr x, s1) \<Longrightarrow> settles valid left settled s1 (snd (f x s1)) \<or>
      (\<exists>k. \<not> left s k \<and> left s1 k \<and> settles valid left settled (log k s1) (snd (f x s1)))"
  shows "guarded s (snd (bind_io m f s))"
proof -
  obtain r s1 where e: "m s = (r, s1)" by fastforce
  note s1 = keepsD [OF m e]
  show ?thesis
  proof (cases r)
    case (Inl x)
    with e s1 show ?thesis by (simp add: bind_io_apply guarded_def)
  next
    case (Inr x)
    then have st: "snd (bind_io m f s) = snd (f x s1)" using e by (simp add: bind_io_apply)
    from f [OF e [unfolded Inr]] show ?thesis
    proof
      assume "settles valid left settled s1 (snd (f x s1))"
      with settles_trans [OF s1] show ?thesis by (simp add: st guarded_def)
    next
      assume "\<exists>k. \<not> left s k \<and> left s1 k \<and> settles valid left settled (log k s1) (snd (f x s1))"
      then show ?thesis using s1 unfolding st guarded_def by blast
    qed
  qed
qed

lemma at_most_once_settles:
  assumes "at_most_once s" "settles valid left settled s s'"
  shows "at_most_once s'"
proof -
  have "count_list (settled s') k \<le> (if left s' k then 1 else 0)" for k
  proof -
    have "count_list (settled s') k \<le> (if left s k then 1 else 0)" "left s k \<longrightarrow> left s' k"
      using assms by (simp_all add: at_most_once_def settles_def)
    then show ?thesis by (auto split: if_splits)
  qed
  with assms show ?thesis by (simp add: at_most_once_def settles_def)
qed

lemma at_most_once_log:
  assumes "at_most_once s" "\<not> left s k" "settles valid left settled s s1" "left s1 k"
  shows "at_most_once (log k s1)"
proof -
  have "count_list (settled s) k \<le> (if left s k then 1 else 0)"
    using assms(1) unfolding at_most_once_def by blast
  with assms(2) have "count_list (settled s) k = 0" by simp
  moreover have "settled s1 = settled s" using assms(3) by (simp add: settles_def)
  moreover have s1: "at_most_once s1" by (rule at_most_once_settles [OF assms(1,3)])
  ultimately have k: "count_list (k # settled s1) k = 1" by simp
  have "count_list (k # settled s1) j \<le> (if left s1 j then 1 else 0)" for j
  proof (cases "j = k")
    case False
    have "count_list (settled s1) j \<le> (if left s1 j then 1 else 0)" using s1 unfolding at_most_once_def by blast
    with False show ?thesis by simp
  qed (use k assms(4) in simp)
  then show ?thesis using s1 unfolding at_most_once_def log_frame by blast
qed

lemma guarded_step: "at_most_once s \<Longrightarrow> guarded s s' \<Longrightarrow> at_most_once s'"
proof -
  assume s: "at_most_once s" and "guarded s s'"
  then consider "settles valid left settled s s'"
    | k s1 where "settles valid left settled s s1" "\<not> left s k" "left s1 k" "settles valid left settled (log k s1) s'"
    unfolding guarded_def by blast
  then show ?thesis
  proof cases
    case 1
    with s show ?thesis by (rule at_most_once_settles)
  next
    case 2
    show ?thesis by (rule at_most_once_settles [OF at_most_once_log [OF s 2(2,1,3)] 2(4)])
  qed
qed

lemma effect_at_most_once:
  assumes step: "\<And>c s. valid s \<Longrightarrow> guarded s (snd (f c s))"
    and s: "valid s" "settled s = []" and run: "run_ops f cs s = (rs, s')"
  shows "count_list (settled s') k \<le> 1"
proof -
  have "at_most_once s'"
  proof (rule run_ops_invariant [where P = at_most_once and f = f, OF _ _ run])
    show "at_most_once s" unfolding at_most_once_def using s(1) by (simp add: s(2))
    show "at_most_once (snd (f c t))" if t: "at_most_once t" for c t
    proof (rule guarded_step [OF t step])
      show "valid t" using t unfolding at_most_once_def by blast
    qed
  qed
  then have "count_list (settled s') k \<le> (if left s' k then 1 else 0)" by (simp add: at_most_once_def)
  also have "\<dots> \<le> 1" by simp
  finally show ?thesis .
qed

end

end
