(* ===== verification/X402.thy ===== *)
theory X402
  imports Verifier Reconciliation Effects
begin

section \<open>The x402 adapter\<close>

text \<open>
  \<open>x402-adapter/src/binding.ts\<close>, \<open>guard.ts\<close> and \<open>remote-provider.ts\<close>: binding payment
  requirements to an action, the guard around settlement, and the validation of a remote
  provider's answers. The payment schemas of \<open>@x402/core\<close>, the HTTP exchange and the settlement
  itself are parameters. Lemmas: the bound amount is exact and canonical; settlement runs only
  after a valid \<open>ALLOW\<close> for this very action has been consumed and the operation claimed; over
  any sequence of settlement attempts each execution reference is settled at most once.
\<close>

subsection \<open>Binding payment requirements to an action\<close>

record requirements =
  pq_scheme :: string
  pq_network :: string
  pq_asset :: string
  pq_amount :: string
  pq_pay_to :: string
  pq_max_timeout :: rat
  pq_extra :: "(string \<times> json) list option"

text \<open>A payment payload: what it accepted, and its other properties.\<close>

record payload =
  pp_accepted :: requirements
  pp_rest :: "(string \<times> json) list"

text \<open>\<open>PaymentRequirementsV2Schema\<close> and \<open>PaymentPayloadV2Schema\<close> of \<open>@x402/core\<close>.\<close>

record x402_schemas =
  xs_requirements :: "requirements \<Rightarrow> requirements option"
  xs_payload :: "payload \<Rightarrow> payload option"

definition parse_or_zod :: "'a option \<Rightarrow> error + 'a" where
  "parse_or_zod x = (case x of None \<Rightarrow> Inl ZodError | Some y \<Rightarrow> Inr y)"

definition normalise_requirements :: "x402_schemas \<Rightarrow> requirements \<Rightarrow> error + requirements" where
  "normalise_requirements X r =
     bind_sum (parse_or_zod (xs_requirements X r)) (\<lambda>p.
       Inr (p\<lparr>pq_extra := Some (case pq_extra p of None \<Rightarrow> [] | Some e \<Rightarrow> e)\<rparr>))"

definition requirements_json :: "requirements \<Rightarrow> json" where
  "requirements_json r = JObj
     ([(''scheme'', JStr (pq_scheme r)), (''network'', JStr (pq_network r)), (''asset'', JStr (pq_asset r)),
       (''amount'', JStr (pq_amount r)), (''payTo'', JStr (pq_pay_to r)),
       (''maxTimeoutSeconds'', JNum (pq_max_timeout r))]
      @ opt_field ''extra'' JObj (pq_extra r))"

text \<open>The JSON round trip of the source changes nothing on JSON values.\<close>

definition normalise_payload :: "x402_schemas \<Rightarrow> payload \<Rightarrow> error + payload" where
  "normalise_payload X p =
     bind_sum (parse_or_zod (xs_payload X p)) (\<lambda>q.
     bind_sum (normalise_requirements X (pp_accepted q)) (\<lambda>r. Inr (q\<lparr>pp_accepted := r\<rparr>)))"

definition payload_json :: "payload \<Rightarrow> json" where
  "payload_json p = JObj ((''accepted'', requirements_json (pp_accepted p)) # pp_rest p)"

definition requirements_hash :: "host \<Rightarrow> x402_schemas \<Rightarrow> requirements \<Rightarrow> error + string" where
  "requirements_hash H X r =
     bind_sum (normalise_requirements X r) (\<lambda>n. Inr (hash_canonical H (requirements_json n)))"

definition payload_hash :: "host \<Rightarrow> x402_schemas \<Rightarrow> payload \<Rightarrow> error + string" where
  "payload_hash H X p = bind_sum (normalise_payload X p) (\<lambda>n. Inr (hash_canonical H (payload_json n)))"

definition binding_error :: "string \<Rightarrow> error" where
  "binding_error m = JsError ''X402BindingError'' m"

definition format_atomic_amount :: "string \<Rightarrow> rat \<Rightarrow> error + string" where
  "format_atomic_amount amt decimals =
     (if \<not> uint_string amt
      then Inl (binding_error ''x402 amount must be an unsigned atomic-unit integer string'')
      else if of_int \<lfloor>decimals\<rfloor> \<noteq> decimals \<or> decimals < 0 \<or> decimals > 18
      then Inl (binding_error ''assetDecimals must be an integer from 0 to 18'')
      else Inr (format_units amt (nat \<lfloor>decimals\<rfloor>)))"

record x402_input =
  xi_requirements :: requirements
  xi_payload :: "payload option"
  xi_resource :: string
  xi_principal_id :: string
  xi_agent_id :: string
  xi_purpose :: string
  xi_asset_decimals :: rat
  xi_extensions :: "(string \<times> json) list option"

definition action_from_x402 :: "host \<Rightarrow> x402_schemas \<Rightarrow> x402_input \<Rightarrow> error + action" where
  "action_from_x402 H X i =
     bind_sum (normalise_requirements X (xi_requirements i)) (\<lambda>req.
     bind_sum (case xi_payload i of
                 None \<Rightarrow> Inr None
               | Some p \<Rightarrow> bind_sum (normalise_payload X p) (\<lambda>n. Inr (Some n))) (\<lambda>pay.
     bind_sum (case pay of
                 None \<Rightarrow> Inr ()
               | Some p \<Rightarrow>
                   bind_sum (requirements_hash H X (pp_accepted p)) (\<lambda>h1.
                   bind_sum (requirements_hash H X req) (\<lambda>h2.
                     if h1 \<noteq> h2
                     then Inl (binding_error ''The payment payload is bound to different x402 payment requirements'')
                     else Inr ()))) (\<lambda>_.
     bind_sum (format_atomic_amount (pq_amount req) (xi_asset_decimals i)) (\<lambda>amt.
     bind_sum (requirements_hash H X req) (\<lambda>rh.
     bind_sum (case pay of None \<Rightarrow> Inr None
               | Some p \<Rightarrow> bind_sum (payload_hash H X p) (\<lambda>h. Inr (Some h))) (\<lambda>ph.
       check_action H
         \<lparr>a_principal_id = xi_principal_id i, a_agent_id = xi_agent_id i, a_rail = X402,
          a_reference = X402Ref (xi_resource i) (pq_scheme req) rh ph,
          a_transaction = \<lparr>tx_amount = amt, tx_asset = pq_asset req, tx_network = pq_network req,
            tx_payee = pq_pay_to req, tx_purpose = xi_purpose i\<rparr>,
          a_extensions = xi_extensions i\<rparr>))))))"

subsection \<open>The guard\<close>

text \<open>\<open>DecisionProvider\<close> and \<open>ExecutionReconciliationStore\<close> as the guard uses them.\<close>

record 's journal_ops =
  jo_prepare :: "prepare_input \<Rightarrow> (error, 's, operation) io"
  jo_start :: "string \<Rightarrow> string \<Rightarrow> int \<Rightarrow> (error, 's, start_result) io"
  jo_succeed :: "string \<Rightarrow> string \<Rightarrow> string \<Rightarrow> int \<Rightarrow> (error, 's, operation) io"
  jo_fail :: "string \<Rightarrow> string \<Rightarrow> string \<Rightarrow> int \<Rightarrow> (error, 's, operation) io"
  jo_unknown :: "string \<Rightarrow> string \<Rightarrow> string \<Rightarrow> int \<Rightarrow> (error, 's, operation) io"

record 's guard =
  gd_evaluate :: "action \<Rightarrow> (error, 's, decision) io"
  gd_consume :: "consume_input \<Rightarrow> (error, 's, consume_result) io"
  gd_registry :: "key_entry list"
  gd_policy_version :: "string option"
  gd_journal :: "'s journal_ops option"
  gd_classify :: "(error \<Rightarrow> bool) option"

definition guard_error :: "string \<Rightarrow> reason_code list \<Rightarrow> error" where
  "guard_error m rs = CodedError ''InntrisGuardError'' rs m"

definition reject_verdict :: "verification \<Rightarrow> verification" where
  "reject_verdict r =
     (if \<not> vr_valid r \<or> vr_verdict r = Some ALLOW then r
      else r\<lparr>vr_valid := False, vr_reasons := vr_reasons r @ [DECISION_NOT_ALLOW]\<rparr>)"

definition guard_verify :: "host \<Rightarrow> 's guard \<Rightarrow> decision \<Rightarrow> action \<Rightarrow> int \<Rightarrow> string \<Rightarrow> verification" where
  "guard_verify H G d a now rh = verify_decision H
     \<lparr>vi_decision = decision_json d, vi_action = action_json a, vi_registry = registry_json (gd_registry G),
      vi_at = now, vi_policy_version = gd_policy_version G, vi_requirements_hash = Some rh\<rparr>"

definition guard_authorise ::
  "host \<Rightarrow> x402_schemas \<Rightarrow> 's guard \<Rightarrow> int \<Rightarrow> x402_input \<Rightarrow> (error, 's, decision) io" where
  "guard_authorise H X G now i =
     bind_io (lift_io (action_from_x402 H X i)) (\<lambda>a.
     bind_io (catch_io (gd_evaluate G a)
       (\<lambda>_. throw (guard_error ''Inntris evaluation failed closed'' [DECISION_SERVICE_UNAVAILABLE]))) (\<lambda>d.
     bind_io (lift_io (requirements_hash H X (xi_requirements i))) (\<lambda>rh.
       let v = guard_verify H G d a now rh
       in if \<not> vr_valid v
          then throw (guard_error ''Inntris returned a decision that could not be verified'' (vr_reasons v))
          else ret d)))"

definition verify_before_settlement ::
  "host \<Rightarrow> x402_schemas \<Rightarrow> 's guard \<Rightarrow> int \<Rightarrow> x402_input \<Rightarrow> decision \<Rightarrow> error + verification" where
  "verify_before_settlement H X G now i d =
     (case action_from_x402 H X i of
        Inl _ \<Rightarrow> Inr \<lparr>vr_valid = False, vr_verdict = None, vr_decision_id = None, vr_checks = empty_checks,
          vr_reasons = [PAYMENT_REQUIREMENTS_MISMATCH]\<rparr>
      | Inr a \<Rightarrow>
          bind_sum (requirements_hash H X (xi_requirements i)) (\<lambda>rh.
            Inr (reject_verdict (guard_verify H G d a now rh))))"

definition consume_before_execution :: "'s guard \<Rightarrow> decision \<Rightarrow> string \<Rightarrow> (error, 's, consume_result) io" where
  "consume_before_execution G d ref =
     (let ci = \<lparr>co_decision_id = d_decision_id d, co_action_hash = d_action_hash d, co_execution_ref = ref\<rparr>
      in catch_io (gd_consume G ci) (\<lambda>_. ret (consume_rejection ci DECISION_SERVICE_UNAVAILABLE)))"

definition settlement_binding :: "host \<Rightarrow> decision \<Rightarrow> string \<Rightarrow> string" where
  "settlement_binding H d ref = hash_canonical H (JObj
     [(''version'', JStr ''inntris-x402-settlement-binding-v1''), (''decision_id'', JStr (d_decision_id d)),
      (''action_hash'', JStr (d_action_hash d)), (''execution_ref'', JStr ref)])"

definition state_unavailable :: error where
  "state_unavailable = guard_error ''Settlement state is unavailable; execution is blocked'' [EXECUTION_STATE_UNAVAILABLE]"

text \<open>The exception of \<open>settleIfAuthorised\<close> for an operation that is not newly claimed.\<close>

definition start_error :: "start_result \<Rightarrow> error option" where
  "start_error r =
     (case r of
        StartConflict \<Rightarrow> Some (guard_error ''Execution reference conflicts with existing evidence'' [EXECUTION_CONFLICT])
      | StartMissing \<Rightarrow> Some state_unavailable
      | Existing x \<Rightarrow>
          (case xo_status x of
             InProgress \<Rightarrow> Some (guard_error ''Settlement has an unresolved prior attempt; automatic retry is blocked'' [EXECUTION_OUTCOME_UNKNOWN])
           | OutcomeUnknown \<Rightarrow> Some (guard_error ''Settlement has an unresolved prior attempt; automatic retry is blocked'' [EXECUTION_OUTCOME_UNKNOWN])
           | Succeeded \<Rightarrow> Some (guard_error ''Settlement has already completed'' [EXECUTION_ALREADY_COMPLETED])
           | FailedFinal \<Rightarrow> Some (guard_error ''Settlement has a recorded final failure'' [EXECUTION_FAILED_FINAL])
           | Prepared \<Rightarrow> None)
      | Claimed x \<Rightarrow> None)"

text \<open>Everything \<open>settleIfAuthorised\<close> does before it calls \<open>settle\<close>: it returns the operation to
  finalise, if there is a journal.\<close>

definition prepare_settlement ::
  "host \<Rightarrow> x402_schemas \<Rightarrow> 's guard \<Rightarrow> (nat \<Rightarrow> int) \<Rightarrow> x402_input \<Rightarrow> decision \<Rightarrow> string \<Rightarrow>
    (error, 's, ('s journal_ops \<times> string) option) io" where
  "prepare_settlement H X G clk i d ref =
     bind_io (lift_io (verify_before_settlement H X G (clk 0) i d)) (\<lambda>v.
     if \<not> vr_valid v then throw (guard_error ''Settlement blocked by decision verification'' (vr_reasons v))
     else
       bind_io (lift_io (bind_sum (action_from_x402 H X i) (hash_action H))) (\<lambda>h.
       if h \<noteq> d_action_hash d
       then throw (guard_error ''Settlement action differs from the authorised action'' [ACTION_HASH_MISMATCH])
       else
         bind_io (case gd_journal G of
             None \<Rightarrow> ret None
           | Some J \<Rightarrow>
               bind_io (catch_io
                 (jo_prepare J \<lparr>po_rail = X402, po_kind = X402Settlement, po_decision_id = d_decision_id d,
                    po_action_hash = d_action_hash d, po_execution_ref = ref,
                    po_binding_hash = settlement_binding H d ref, po_prepared_at = clk 1\<rparr>)
                 (\<lambda>_. throw state_unavailable)) (\<lambda>x. ret (Some (J, xo_operation_id x)))) (\<lambda>rec.
         bind_io (consume_before_execution G d ref) (\<lambda>c.
         if \<not> cr_success c
         then throw (guard_error ''Settlement blocked because decision consumption failed''
                [case cr_reason c of None \<Rightarrow> DECISION_NOT_ALLOW | Some r \<Rightarrow> r])
         else case rec of
             None \<Rightarrow> ret None
           | Some (J, k) \<Rightarrow>
               bind_io (catch_io (jo_start J k (settlement_binding H d ref) (clk 2)) (\<lambda>_. throw state_unavailable)) (\<lambda>r.
               case start_error r of Some e \<Rightarrow> throw e | None \<Rightarrow> ret (Some (J, k)))))))"

text \<open>What follows the call of \<open>settle\<close>.\<close>

definition finish_settlement ::
  "host \<Rightarrow> 's guard \<Rightarrow> (nat \<Rightarrow> int) \<Rightarrow> decision \<Rightarrow> string \<Rightarrow> ('s journal_ops \<times> string) option \<Rightarrow>
    (error, 's, 't) io \<Rightarrow> (error, 's, 't) io" where
  "finish_settlement H G clk d ref rec settle =
     (case rec of
        None \<Rightarrow> settle
      | Some (J, k) \<Rightarrow> (\<lambda>s.
          (case settle s of
             (Inl e, s1) \<Rightarrow>
               (let failed = (case gd_classify G of None \<Rightarrow> False | Some f \<Rightarrow> f e);
                    code = take 128 (error_name e); b = settlement_binding H d ref
                in case (if failed then jo_fail J k b code (clk 3) s1 else jo_unknown J k b code (clk 3) s1) of
                  (Inl _, s2) \<Rightarrow> (Inl (guard_error ''Settlement failed and its outcome state could not be recorded''
                    [RECONCILIATION_REQUIRED]), s2)
                | (Inr _, s2) \<Rightarrow>
                    (Inl (if failed then guard_error ''Settlement failed finally'' [EXECUTION_FAILED_FINAL]
                     else guard_error ''Settlement outcome is unknown; reconciliation is required''
                       [EXECUTION_OUTCOME_UNKNOWN]), s2))
           | (Inr v, s1) \<Rightarrow>
               (case jo_succeed J k (settlement_binding H d ref) ref (clk 3) s1 of
                  (Inl _, s2) \<Rightarrow> (Inl (guard_error ''Settlement succeeded but its outcome could not be finalised''
                    [RECONCILIATION_REQUIRED]), s2)
                | (Inr _, s2) \<Rightarrow> (Inr v, s2)))))"

definition settle_if_authorised ::
  "host \<Rightarrow> x402_schemas \<Rightarrow> 's guard \<Rightarrow> (nat \<Rightarrow> int) \<Rightarrow> x402_input \<Rightarrow> decision \<Rightarrow> string \<Rightarrow>
    (error, 's, 't) io \<Rightarrow> (error, 's, 't) io" where
  "settle_if_authorised H X G clk i d ref settle =
     bind_io (prepare_settlement H X G clk i d ref) (\<lambda>rec. finish_settlement H G clk d ref rec settle)"

subsection \<open>The bound action\<close>

lemma format_atomic_amount_exact:
  assumes "format_atomic_amount amt q = Inr x"
  shows "canonical_amount x \<and> decimal_value x = of_nat (digits_value amt) / 10 ^ nat \<lfloor>q\<rfloor> \<and>
    uint_string amt \<and> q = of_nat (nat \<lfloor>q\<rfloor>) \<and> nat \<lfloor>q\<rfloor> \<le> 18"
proof -
  from assms have a: "uint_string amt" and q: "of_int \<lfloor>q\<rfloor> = q" "0 \<le> q" "q \<le> 18" and x: "x = format_units amt (nat \<lfloor>q\<rfloor>)"
    by (auto simp: format_atomic_amount_def split: if_splits)
  have "\<lfloor>q\<rfloor> \<le> \<lfloor>18::rat\<rfloor>" using q(3) by (rule floor_mono)
  then have d: "nat \<lfloor>q\<rfloor> \<le> 18" unfolding nat_le_iff by simp
  have "0 \<le> \<lfloor>q\<rfloor>" using q(2) by simp
  then have "of_nat (nat \<lfloor>q\<rfloor>) = (of_int \<lfloor>q\<rfloor> :: rat)" by simp
  then have "q = of_nat (nat \<lfloor>q\<rfloor>)" by (rule trans [OF q(1) [symmetric] sym])
  with format_units_exact [OF a d] a d show ?thesis by (simp add: x canonical_amount_def)
qed

lemma action_from_x402_bound:
  assumes "action_from_x402 H X i = Inr a"
  shows "action_ok H a \<and> a_principal_id a = xi_principal_id i \<and> a_agent_id a = xi_agent_id i \<and>
    tx_purpose (a_transaction a) = xi_purpose i \<and> pr_resource (a_reference a) = xi_resource i \<and>
    (\<exists>req. normalise_requirements X (xi_requirements i) = Inr req \<and>
       tx_payee (a_transaction a) = pq_pay_to req \<and> tx_asset (a_transaction a) = pq_asset req \<and>
       tx_network (a_transaction a) = pq_network req \<and>
       decimal_value (tx_amount (a_transaction a)) =
         of_nat (digits_value (pq_amount req)) / 10 ^ nat \<lfloor>xi_asset_decimals i\<rfloor> \<and>
       requirements_hash H X req = Inr (x_requirements_hash (a_reference a)))"
  using assms format_atomic_amount_exact
  by (auto simp: action_from_x402_def bind_sum_Inr)

text \<open>When a payload is supplied, it accepted requirements with the same hash.\<close>

lemma action_from_x402_payload:
  assumes "action_from_x402 H X i = Inr a" "xi_payload i = Some p"
  shows "\<exists>n req. normalise_payload X p = Inr n \<and> normalise_requirements X (xi_requirements i) = Inr req \<and>
    requirements_hash H X (pp_accepted n) = requirements_hash H X req \<and>
    x_payload_hash (a_reference a) \<noteq> None"
  using assms by (auto simp: action_from_x402_def bind_sum_Inr split: if_splits)

subsection \<open>Settlement is guarded\<close>

lemma guard_verify_valid:
  "vr_valid (guard_verify H G d a now rh) \<longleftrightarrow>
    verified H \<lparr>vi_decision = decision_json d, vi_action = action_json a, vi_registry = registry_json (gd_registry G),
      vi_at = now, vi_policy_version = gd_policy_version G, vi_requirements_hash = Some rh\<rparr> d a (gd_registry G)"
  (is "_ \<longleftrightarrow> verified H ?i d a _")
proof
  assume "vr_valid (guard_verify H G d a now rh)"
  then obtain d' a' ks where v: "verified H ?i d' a' ks"
    unfolding guard_verify_def verify_decision_valid by blast
  then have "d' = d" "a' = a" "ks = gd_registry G"
    by (auto simp: verified_def parse_decision_json parse_action_json parse_registry_json)
  with v show "verified H ?i d a (gd_registry G)" by simp
next
  assume "verified H ?i d a (gd_registry G)"
  then show "vr_valid (guard_verify H G d a now rh)"
    unfolding guard_verify_def verify_decision_valid by blast
qed

lemma verify_before_settlement_valid:
  assumes "verify_before_settlement H X G now i d = Inr v" "vr_valid v"
  shows "\<exists>a rh. action_from_x402 H X i = Inr a \<and> requirements_hash H X (xi_requirements i) = Inr rh \<and>
    d_verdict d = ALLOW \<and>
    verified H \<lparr>vi_decision = decision_json d, vi_action = action_json a, vi_registry = registry_json (gd_registry G),
      vi_at = now, vi_policy_version = gd_policy_version G, vi_requirements_hash = Some rh\<rparr> d a (gd_registry G)"
proof -
  from assms obtain a rh where a: "action_from_x402 H X i = Inr a" "requirements_hash H X (xi_requirements i) = Inr rh"
    and v: "v = reject_verdict (guard_verify H G d a now rh)"
    by (auto simp: verify_before_settlement_def bind_sum_Inr split: sum.splits)
  from v assms(2) have valid: "vr_valid (guard_verify H G d a now rh)"
    and allow: "vr_verdict (guard_verify H G d a now rh) = Some ALLOW"
    by (auto simp: reject_verdict_def split: if_splits)
  note ver = valid [unfolded guard_verify_valid]
  have "vr_verdict (guard_verify H G d a now rh) = Some (d_verdict d)"
    unfolding guard_verify_def by (rule verify_decision_verdict [OF ver])
  with allow a ver show ?thesis by auto
qed

text \<open>Settlement is reached only with a verified \<open>ALLOW\<close> for the action of this input, a
  successful consumption and, with a journal, a claimed operation.\<close>

lemma prepare_settlement_sound:
  assumes "prepare_settlement H X G clk i d ref s = (Inr rec, s')"
  shows "\<exists>a rh. action_from_x402 H X i = Inr a \<and> d_verdict d = ALLOW \<and>
    verified H \<lparr>vi_decision = decision_json d, vi_action = action_json a, vi_registry = registry_json (gd_registry G),
      vi_at = clk 0, vi_policy_version = gd_policy_version G, vi_requirements_hash = Some rh\<rparr> d a (gd_registry G) \<and>
    (\<exists>c s1 s2. gd_consume G \<lparr>co_decision_id = d_decision_id d, co_action_hash = d_action_hash d,
       co_execution_ref = ref\<rparr> s1 = (Inr c, s2) \<and> cr_success c)"
proof -
  from assms obtain v where v: "verify_before_settlement H X G (clk 0) i d = Inr v" "vr_valid v"
    by (auto simp: prepare_settlement_def bind_io_Inr split: if_splits)
  from assms obtain c s1 s2 where c: "consume_before_execution G d ref s1 = (Inr c, s2)" "cr_success c"
    by (auto simp: prepare_settlement_def bind_io_Inr split: if_splits)
  then have "gd_consume G \<lparr>co_decision_id = d_decision_id d, co_action_hash = d_action_hash d,
       co_execution_ref = ref\<rparr> s1 = (Inr c, s2)"
    by (auto simp: consume_before_execution_def Let_def catch_io_apply consume_rejection_def
        split: prod.splits sum.splits)
  with verify_before_settlement_valid [OF v] c(2) show ?thesis by blast
qed

text \<open>The request and the decision that settlement is refused without: an \<open>ALLOW\<close> that verifies now for the action of
  the request.\<close>

definition settlement_verified :: "host \<Rightarrow> x402_schemas \<Rightarrow> 's guard \<Rightarrow> int \<Rightarrow> x402_input \<Rightarrow> decision \<Rightarrow> bool" where
  "settlement_verified H X G now i d \<longleftrightarrow>
     (\<exists>a rh. action_from_x402 H X i = Inr a \<and> requirements_hash H X (xi_requirements i) = Inr rh \<and> d_verdict d = ALLOW \<and>
        verified H \<lparr>vi_decision = decision_json d, vi_action = action_json a, vi_registry = registry_json (gd_registry G),
          vi_at = now, vi_policy_version = gd_policy_version G, vi_requirements_hash = Some rh\<rparr> d a (gd_registry G))"

lemma verify_before_settlement_iff:
  "(\<exists>v. verify_before_settlement H X G now i d = Inr v \<and> vr_valid v) \<longleftrightarrow> settlement_verified H X G now i d"
proof
  assume "\<exists>v. verify_before_settlement H X G now i d = Inr v \<and> vr_valid v"
  then show "settlement_verified H X G now i d"
    using verify_before_settlement_valid unfolding settlement_verified_def by blast
next
  assume "settlement_verified H X G now i d"
  then obtain a rh where a: "action_from_x402 H X i = Inr a" "requirements_hash H X (xi_requirements i) = Inr rh" "d_verdict d = ALLOW"
    and v: "verified H \<lparr>vi_decision = decision_json d, vi_action = action_json a, vi_registry = registry_json (gd_registry G),
          vi_at = now, vi_policy_version = gd_policy_version G, vi_requirements_hash = Some rh\<rparr> d a (gd_registry G)"
    unfolding settlement_verified_def by blast
  have "vr_valid (guard_verify H G d a now rh)" "vr_verdict (guard_verify H G d a now rh) = Some ALLOW"
    using v a(3) verify_decision_verdict [OF v] by (simp_all add: guard_verify_valid) (simp add: guard_verify_def)
  then show "\<exists>v. verify_before_settlement H X G now i d = Inr v \<and> vr_valid v"
    by (simp add: verify_before_settlement_def a reject_verdict_def)
qed

lemma settlement_verified_hash:
  assumes "settlement_verified H X G now i d"
  shows "bind_sum (action_from_x402 H X i) (hash_action H) = Inr (d_action_hash d)"
  using assms by (auto simp: settlement_verified_def verified_def parse_action_json hash_action_def check_action_def guard_opt_def split: if_splits)

lemma settle_unverified:
  assumes "\<not> settlement_verified H X G (clk 0) i d"
  shows "\<exists>e. settle_if_authorised H X G clk i d ref settle s = (Inl e, s)"
proof (cases "verify_before_settlement H X G (clk 0) i d")
  case (Inr v)
  with assms verify_before_settlement_iff [of H X G "clk 0" i d] have "\<not> vr_valid v" by auto
  with Inr show ?thesis by (simp add: settle_if_authorised_def prepare_settlement_def bind_io_apply)
qed (simp add: settle_if_authorised_def prepare_settlement_def bind_io_apply)

text \<open>A verified settlement: preparation in the journal, if there is one, then consumption, each of which may refuse.\<close>

definition prepare_request :: "host \<Rightarrow> (nat \<Rightarrow> int) \<Rightarrow> decision \<Rightarrow> string \<Rightarrow> prepare_input" where
  "prepare_request H clk d ref =
     \<lparr>po_rail = X402, po_kind = X402Settlement, po_decision_id = d_decision_id d, po_action_hash = d_action_hash d,
      po_execution_ref = ref, po_binding_hash = settlement_binding H d ref, po_prepared_at = clk 1\<rparr>"

lemma settle_verified:
  assumes "settlement_verified H X G (clk 0) i d"
  shows "settle_if_authorised H X G clk i d ref settle =
    bind_io (case gd_journal G of
        None \<Rightarrow> ret None
      | Some J \<Rightarrow> bind_io (catch_io (jo_prepare J (prepare_request H clk d ref)) (\<lambda>_. throw state_unavailable))
          (\<lambda>x. ret (Some (J, xo_operation_id x)))) (\<lambda>rec.
    bind_io (consume_before_execution G d ref) (\<lambda>c.
    if \<not> cr_success c
    then throw (guard_error ''Settlement blocked because decision consumption failed''
           [case cr_reason c of None \<Rightarrow> DECISION_NOT_ALLOW | Some r \<Rightarrow> r])
    else bind_io (case rec of
        None \<Rightarrow> ret None
      | Some (J, k) \<Rightarrow>
          bind_io (catch_io (jo_start J k (settlement_binding H d ref) (clk 2)) (\<lambda>_. throw state_unavailable)) (\<lambda>r.
          case start_error r of Some e \<Rightarrow> throw e | None \<Rightarrow> ret (Some (J, k))))
        (\<lambda>rec. finish_settlement H G clk d ref rec settle)))"
proof -
  from assms obtain v where v: "verify_before_settlement H X G (clk 0) i d = Inr v" "vr_valid v"
    using verify_before_settlement_iff by blast
  note h = settlement_verified_hash [OF assms]
  show ?thesis
    by (rule ext) (simp add: settle_if_authorised_def prepare_settlement_def v h bind_io_apply prepare_request_def
        split: option.split prod.split sum.split)
qed

text \<open>The journal prepared the operation, or there is no journal.\<close>

definition settlement_prepared ::
  "host \<Rightarrow> 's guard \<Rightarrow> (nat \<Rightarrow> int) \<Rightarrow> decision \<Rightarrow> string \<Rightarrow> 's \<Rightarrow> ('s journal_ops \<times> string) option \<Rightarrow> 's \<Rightarrow> bool" where
  "settlement_prepared H G clk d ref s rec s1 \<longleftrightarrow>
     (case gd_journal G of
        None \<Rightarrow> rec = None \<and> s1 = s
      | Some J \<Rightarrow> \<exists>x. jo_prepare J (prepare_request H clk d ref) s = (Inr x, s1) \<and> rec = Some (J, xo_operation_id x))"

text \<open>Each way in which the authorisation of a verified settlement is refused: \<open>settle\<close> is any computation, and the outcome
  and the state are those of the step that refused.\<close>

lemma settle_unprepared:
  assumes "settlement_verified H X G (clk 0) i d" "gd_journal G = Some J"
    and "jo_prepare J (prepare_request H clk d ref) s = (Inl e, s')"
  shows "settle_if_authorised H X G clk i d ref settle s = (Inl state_unavailable, s')"
  by (simp add: settle_verified [where clk = clk, OF assms(1)] assms(2,3) bind_io_apply catch_io_apply)

lemma settle_unconsumed:
  assumes "settlement_verified H X G (clk 0) i d" "settlement_prepared H G clk d ref s rec s1"
    and "gd_consume G \<lparr>co_decision_id = d_decision_id d, co_action_hash = d_action_hash d, co_execution_ref = ref\<rparr> s1 = (c, s2)"
    and "\<And>r. c = Inr r \<Longrightarrow> \<not> cr_success r"
  shows "settle_if_authorised H X G clk i d ref settle s =
    (Inl (guard_error ''Settlement blocked because decision consumption failed''
       [case c of Inl _ \<Rightarrow> DECISION_SERVICE_UNAVAILABLE
        | Inr r \<Rightarrow> (case cr_reason r of None \<Rightarrow> DECISION_NOT_ALLOW | Some q \<Rightarrow> q)]), s2)"
  using assms(2-)
  by (auto simp: settle_verified [where clk = clk, OF assms(1)] settlement_prepared_def consume_before_execution_def Let_def bind_io_apply
      catch_io_apply consume_rejection_def split: option.splits sum.splits)

lemma settle_unclaimed:
  assumes "settlement_verified H X G (clk 0) i d" "settlement_prepared H G clk d ref s (Some (J, k)) s1"
    and "gd_consume G \<lparr>co_decision_id = d_decision_id d, co_action_hash = d_action_hash d, co_execution_ref = ref\<rparr> s1 = (Inr c, s2)"
    and "cr_success c" "jo_start J k (settlement_binding H d ref) (clk 2) s2 = (q, s3)"
    and "\<And>r. q = Inr r \<Longrightarrow> start_error r \<noteq> None"
  shows "settle_if_authorised H X G clk i d ref settle s =
    (Inl (case q of Inl _ \<Rightarrow> state_unavailable | Inr r \<Rightarrow> the (start_error r)), s3)"
  using assms(2-)
  by (auto simp: settle_verified [where clk = clk, OF assms(1)] settlement_prepared_def consume_before_execution_def Let_def bind_io_apply
      catch_io_apply split: option.splits sum.splits)

subsection \<open>Each execution reference is settled at most once\<close>

record 't settle_call =
  sc_clock :: "nat \<Rightarrow> int"
  sc_input :: x402_input
  sc_decision :: decision
  sc_ref :: string
  sc_result :: "error + 't"

text \<open>
  A world in which guarded settlements run: \<open>settled\<close> is the log of the external effect, by
  operation, \<open>left\<close> says which operations have been claimed.
\<close>

locale settlement_world = effect_log valid left settled log
  for valid :: "'s \<Rightarrow> bool" and left :: "'s \<Rightarrow> string \<Rightarrow> bool" and settled :: "'s \<Rightarrow> string list"
    and log :: "string \<Rightarrow> 's \<Rightarrow> 's" +
  fixes H :: host and G :: "'s guard" and J :: "'s journal_ops"
  assumes journal: "gd_journal G = Some J"
    and prepare_id: "valid s \<Longrightarrow> jo_prepare J p s = (Inr x, s') \<Longrightarrow>
      xo_operation_id x = operation_id H (po_rail p) (po_kind p) (po_execution_ref p)"
    and claims: "jo_start J k b t s = (Inr (Claimed x), s') \<Longrightarrow> \<not> left s k \<and> left s' k"
    and existing: "jo_start J k b t s = (Inr (Existing x), s') \<Longrightarrow> xo_status x \<noteq> Prepared"
    and consume_frame: "keeps (settles valid left settled) (gd_consume G c)"
    and journal_frame: "keeps (settles valid left settled) (jo_prepare J p)"
      "keeps (settles valid left settled) (jo_start J k b t)"
      "keeps (settles valid left settled) (jo_succeed J k b r t)"
      "keeps (settles valid left settled) (jo_fail J k b r t)"
      "keeps (settles valid left settled) (jo_unknown J k b r t)"
begin

definition settle_step :: "x402_schemas \<Rightarrow> 't settle_call \<Rightarrow> (error, 's, 't) io" where
  "settle_step X c = settle_if_authorised H X G (sc_clock c) (sc_input c) (sc_decision c) (sc_ref c)
     (\<lambda>s. (sc_result c, log (operation_id H X402 X402Settlement (sc_ref c)) s))"

lemma consume_before_keeps: "keeps (settles valid left settled) (consume_before_execution G d ref)"
  unfolding consume_before_execution_def Let_def by (intro keeps_intros settles_order consume_frame)

lemma prepare_keeps: "keeps (settles valid left settled) (prepare_settlement H X G clk i d ref)"
  unfolding prepare_settlement_def journal option.case bind_io_assoc bind_io_ret prod.case
  by (intro keeps_intros settles_order consume_before_keeps journal_frame)

text \<open>What a successful preparation returns is the claimed operation of this reference.\<close>

lemma prepare_claims:
  assumes "valid s" "prepare_settlement H X G clk i d ref s = (Inr rec, s')"
  shows "rec = Some (J, operation_id H X402 X402Settlement ref) \<and>
    \<not> left s (operation_id H X402 X402Settlement ref) \<and> left s' (operation_id H X402 X402Settlement ref)"
proof -
  let ?p = "\<lparr>po_rail = X402, po_kind = X402Settlement, po_decision_id = d_decision_id d,
    po_action_hash = d_action_hash d, po_execution_ref = ref,
    po_binding_hash = settlement_binding H d ref, po_prepared_at = clk 1\<rparr>"
  from assms(2) obtain x s1 s2 r c where p: "catch_io (jo_prepare J ?p) (\<lambda>_. throw state_unavailable) s = (Inr x, s1)"
    and c: "consume_before_execution G d ref s1 = (Inr c, s2)"
    and st: "catch_io (jo_start J (xo_operation_id x) (settlement_binding H d ref) (clk 2)) (\<lambda>_. throw state_unavailable) s2 = (Inr r, s')"
    and rec: "start_error r = None" "rec = Some (J, xo_operation_id x)"
    by (auto simp: prepare_settlement_def journal bind_io_Inr split: if_splits option.splits)
  from p have p': "jo_prepare J ?p s = (Inr x, s1)" by (auto simp: catch_io_apply split: prod.splits sum.splits)
  from prepare_id [OF assms(1) p'] have k: "xo_operation_id x = operation_id H X402 X402Settlement ref" by simp
  from st have st': "jo_start J (xo_operation_id x) (settlement_binding H d ref) (clk 2) s2 = (Inr r, s')"
    by (auto simp: catch_io_apply split: prod.splits sum.splits)
  obtain y where r: "r = Claimed y"
  proof (cases r)
    case (Existing z)
    with st' have "xo_status z \<noteq> Prepared" by (intro existing) simp
    with rec(1) Existing show ?thesis by (auto simp: start_error_def split: op_status.splits)
  qed (use rec(1) that in \<open>auto simp: start_error_def\<close>)
  from claims [OF st' [unfolded r]] k have l: "\<not> left s2 (xo_operation_id x)" "left s' (xo_operation_id x)" by auto
  have "settles valid left settled s s2"
    by (rule settles_trans [OF keepsD [OF journal_frame(1) p'] keepsD [OF consume_before_keeps c]])
  with l(1) have "\<not> left s (xo_operation_id x)" unfolding settles_def by blast
  with l(2) rec(2) k show ?thesis by simp
qed

lemma finish_log:
  "settles valid left settled (log k s)
    (snd (finish_settlement H G clk d ref (Some (J, j)) (\<lambda>s. (r, log k s)) s))"
proof (cases r)
  case (Inl e)
  define failed where "failed = (case gd_classify G of None \<Rightarrow> False | Some f \<Rightarrow> f e)"
  let ?m = "if failed then jo_fail J j (settlement_binding H d ref) (take 128 (error_name e)) (clk 3)
    else jo_unknown J j (settlement_binding H d ref) (take 128 (error_name e)) (clk 3)"
  obtain q s2 where e: "?m (log k s) = (q, s2)" by fastforce
  have "keeps (settles valid left settled) ?m" by (simp add: journal_frame)
  then have "settles valid left settled (log k s) s2" using e by (rule keepsD [where m = ?m])
  moreover have "snd (finish_settlement H G clk d ref (Some (J, j)) (\<lambda>s. (r, log k s)) s) = s2"
    using e by (cases q; cases failed) (simp_all add: finish_settlement_def Inl failed_def [symmetric] Let_def)
  ultimately show ?thesis by simp
next
  case (Inr v)
  obtain q s2 where e: "jo_succeed J j (settlement_binding H d ref) ref (clk 3) (log k s) = (q, s2)" by fastforce
  have "settles valid left settled (log k s) s2" by (rule keepsD [OF journal_frame(3) e])
  moreover have "snd (finish_settlement H G clk d ref (Some (J, j)) (\<lambda>s. (r, log k s)) s) = s2"
    using e by (cases q) (simp_all add: finish_settlement_def Inr)
  ultimately show ?thesis by simp
qed

lemma settle_step_guarded: "valid s \<Longrightarrow> guarded s (snd (settle_step X c s))"
proof -
  assume v: "valid s"
  let ?k = "operation_id H X402 X402Settlement (sc_ref c)"
  obtain r s1 where p: "prepare_settlement H X G (sc_clock c) (sc_input c) (sc_decision c) (sc_ref c) s = (r, s1)"
    by fastforce
  have m: "settles valid left settled s s1" using keepsD [OF prepare_keeps p] .
  show ?thesis
  proof (cases r)
    case (Inl e)
    then have "snd (settle_step X c s) = s1"
      using p by (simp add: settle_step_def settle_if_authorised_def bind_io_apply)
    with m show ?thesis by (simp add: guarded_def)
  next
    case (Inr rec)
    note pc = prepare_claims [OF v p [unfolded Inr]]
    have "snd (settle_step X c s) = snd (finish_settlement H G (sc_clock c) (sc_decision c) (sc_ref c)
        (Some (J, ?k)) (\<lambda>s. (sc_result c, log ?k s)) s1)"
      using p Inr pc by (simp add: settle_step_def settle_if_authorised_def bind_io_apply)
    with finish_log [of ?k s1] m pc show ?thesis unfolding guarded_def by metis
  qed
qed

lemma settled_at_most_once:
  "valid s \<Longrightarrow> settled s = [] \<Longrightarrow> run_ops (settle_step X) cs s = (rs, s') \<Longrightarrow> count_list (settled s') k \<le> 1"
  by (rule effect_at_most_once [OF settle_step_guarded])

end

subsection \<open>A world over the in-memory journal\<close>

text \<open>Any decision provider with its own state, the in-memory journal, and the log of effects.\<close>

record 'p world =
  wd_provider :: 'p
  wd_journal :: journal
  wd_settled :: "string list"

definition world_journal :: "host \<Rightarrow> 'p world journal_ops" where
  "world_journal H =
     \<lparr>jo_prepare = (\<lambda>p. on_part wd_journal wd_journal_update (mem_prepare H p)),
      jo_start = (\<lambda>k b t. on_part wd_journal wd_journal_update (mem_start k b t)),
      jo_succeed = (\<lambda>k b r t. on_part wd_journal wd_journal_update (mem_mark_succeeded k b r t)),
      jo_fail = (\<lambda>k b r t. on_part wd_journal wd_journal_update (mem_mark_failed_final k b r t)),
      jo_unknown = (\<lambda>k b r t. on_part wd_journal wd_journal_update (mem_mark_outcome_unknown k b r t))\<rparr>"

definition world_guard ::
  "host \<Rightarrow> (action \<Rightarrow> (error, 'p, decision) io) \<Rightarrow> (consume_input \<Rightarrow> (error, 'p, consume_result) io) \<Rightarrow>
    key_entry list \<Rightarrow> string option \<Rightarrow> (error \<Rightarrow> bool) option \<Rightarrow> 'p world guard" where
  "world_guard H ev con ks pv cls =
     \<lparr>gd_evaluate = (\<lambda>a. on_part wd_provider wd_provider_update (ev a)),
      gd_consume = (\<lambda>c. on_part wd_provider wd_provider_update (con c)),
      gd_registry = ks, gd_policy_version = pv, gd_journal = Some (world_journal H), gd_classify = cls\<rparr>"

definition log_settlement :: "string \<Rightarrow> 'p world \<Rightarrow> 'p world" where
  "log_settlement k s = s\<lparr>wd_settled := k # wd_settled s\<rparr>"

lemma journal_part_settles:
  "(\<And>t. journal_grows t (snd (m t))) \<Longrightarrow>
    keeps (settles (\<lambda>s. journal_valid (wd_journal s)) (\<lambda>s. left_open (wd_journal s)) wd_settled)
      (on_part wd_journal wd_journal_update m)"
  by (simp add: keeps_def on_part_state settles_def journal_grows_def)

lemma provider_part_settles:
  "keeps (settles (\<lambda>s. journal_valid (wd_journal s)) (\<lambda>s. left_open (wd_journal s)) wd_settled)
    (on_part wd_provider wd_provider_update m)"
  by (rule keeps_on_part) (simp add: settles_def)

interpretation memory_world: settlement_world "\<lambda>s. journal_valid (wd_journal s)"
  "\<lambda>s. left_open (wd_journal s)" wd_settled log_settlement H "world_guard H ev con ks pv cls" "world_journal H"
proof
  show "gd_journal (world_guard H ev con ks pv cls) = Some (world_journal H)" by (simp add: world_guard_def)
  show "\<And>s p x s'. journal_valid (wd_journal s) \<Longrightarrow> jo_prepare (world_journal H) p s = (Inr x, s') \<Longrightarrow>
      xo_operation_id x = operation_id H (po_rail p) (po_kind p) (po_execution_ref p)"
    by (auto simp: world_journal_def on_part_result dest: mem_prepare_id)
  show "\<And>k b t s x s'. jo_start (world_journal H) k b t s = (Inr (Claimed x), s') \<Longrightarrow>
      \<not> left_open (wd_journal s) k \<and> left_open (wd_journal s') k"
    by (auto simp: world_journal_def on_part_result dest: mem_start_claims)
  show "\<And>k b t s x s'. jo_start (world_journal H) k b t s = (Inr (Existing x), s') \<Longrightarrow> xo_status x \<noteq> Prepared"
    by (auto simp: world_journal_def on_part_result dest: mem_start_existing)
qed (simp_all add: world_journal_def world_guard_def log_settlement_def journal_part_settles
    provider_part_settles journal_grows_calls)

lemma world_settled_once:
  "count_list (wd_settled (snd (run_ops (\<lambda>c :: 't settle_call. settle_if_authorised H X (world_guard H ev con ks pv cls) (sc_clock c)
      (sc_input c) (sc_decision c) (sc_ref c)
      (\<lambda>s. (sc_result c, log_settlement (operation_id H X402 X402Settlement (sc_ref c)) s)))
    cs \<lparr>wd_provider = p, wd_journal = [], wd_settled = []\<rparr>))) k \<le> 1"
proof -
  have "(\<lambda>c :: 't settle_call. settle_if_authorised H X (world_guard H ev con ks pv cls) (sc_clock c) (sc_input c) (sc_decision c) (sc_ref c)
      (\<lambda>s. (sc_result c, log_settlement (operation_id H X402 X402Settlement (sc_ref c)) s))) =
      memory_world.settle_step H ev con ks pv cls X"
    by (simp add: fun_eq_iff memory_world.settle_step_def)
  then show ?thesis
    by (simp only:) (rule memory_world.settled_at_most_once [OF _ _ prod.collapse [symmetric]]; simp add: journal_valid_def)
qed

end
