(* ===== verification/EvmGate.thy ===== *)
theory EvmGate
  imports Verifier Effects
begin

section \<open>The EVM wallet signing gate\<close>

text \<open>
  \<open>wallet-signing-gate/src\<close>: \<open>types.ts\<close> (the unsigned transaction and its schema),
  \<open>binding.ts\<close> (normalisation, hash and action), \<open>store.ts\<close>, \<open>verification.ts\<close> (comparing
  signed bytes with what was authorised) and \<open>gate.ts\<close>. The functions of \<open>viem\<close>, the injected
  wallet and the broadcaster are parameters. Lemmas: the bound action carries the normalised
  transaction and its exact amount; a broadcast transaction parses to the authorised fields
  and recovers to the authorised sender; over any sequence of calls one unsigned transaction is
  given to the wallet at most once; a completed execution is replayed, not repeated.
\<close>

subsection \<open>types.ts\<close>

definition hex_any_char :: "char \<Rightarrow> bool" where
  "hex_any_char c \<longleftrightarrow> hex_char c \<or> (let n = of_char c :: nat in 65 \<le> n \<and> n \<le> 70)"

definition hex_body :: "string \<Rightarrow> bool" where
  "hex_body s \<longleftrightarrow> take 2 s = ''0x'' \<and> list_all hex_any_char (drop 2 s)"

definition evm_address_any :: "string \<Rightarrow> bool" where
  "evm_address_any s \<longleftrightarrow> hex_body s \<and> length s = 42"

definition hex_data :: "string \<Rightarrow> bool" where
  "hex_data s \<longleftrightarrow> hex_body s \<and> even (length s)"

definition storage_key :: "string \<Rightarrow> bool" where
  "storage_key s \<longleftrightarrow> hex_body s \<and> length s = 66"

definition signed_transaction_ok :: "string \<Rightarrow> bool" where
  "signed_transaction_ok s \<longleftrightarrow> hex_data s \<and> 2 < length s"

definition safe_integer :: "string \<Rightarrow> bool" where
  "safe_integer s \<longleftrightarrow> digits_value s \<le> 9007199254740991"

record evm_tx =
  et_type :: evm_type
  et_chain_id :: string
  et_from :: string
  et_to :: string
  et_value :: string
  et_data :: string
  et_nonce :: string
  et_gas_limit :: string
  et_max_fee :: "string option"
  et_max_priority_fee :: "string option"
  et_gas_price :: "string option"
  et_access_list :: "(string \<times> string list) list"

definition evm_tx_ok :: "evm_tx \<Rightarrow> bool" where
  "evm_tx_ok t \<longleftrightarrow>
     positive_string (et_chain_id t) \<and> safe_integer (et_chain_id t) \<and>
     evm_address_any (et_from t) \<and> evm_address_any (et_to t) \<and> uint_string (et_value t) \<and>
     hex_data (et_data t) \<and> uint_string (et_nonce t) \<and> safe_integer (et_nonce t) \<and>
     positive_string (et_gas_limit t) \<and>
     list_all uint_string (concat (map option_list [et_max_fee t, et_max_priority_fee t, et_gas_price t])) \<and>
     list_all (\<lambda>e. evm_address_any (fst e) \<and> list_all storage_key (snd e)) (et_access_list t) \<and>
     (et_type t = EIP1559 \<longrightarrow>
        et_max_fee t \<noteq> None \<and> et_max_priority_fee t \<noteq> None \<and> et_gas_price t = None) \<and>
     (et_type t = Legacy \<longrightarrow>
        et_gas_price t \<noteq> None \<and> et_max_fee t = None \<and> et_max_priority_fee t = None \<and> et_access_list t = [])"

record evm_input =
  ei_transaction :: evm_tx
  ei_principal_id :: string
  ei_agent_id :: string
  ei_resource :: string
  ei_purpose :: string
  ei_asset :: string
  ei_asset_decimals :: nat
  ei_extensions :: "(string \<times> json) list option"

definition evm_input_ok :: "host \<Rightarrow> evm_input \<Rightarrow> bool" where
  "evm_input_ok H i \<longleftrightarrow>
     evm_tx_ok (ei_transaction i) \<and> identifier_ok (ei_principal_id i) \<and> identifier_ok (ei_agent_id i) \<and>
     url_ok H (ei_resource i) \<and> len_between 1 128 (ei_purpose i) \<and> len_between 1 128 (ei_asset i) \<and>
     ei_asset_decimals i \<le> 18"

subsection \<open>binding.ts\<close>

text \<open>\<open>toLowerCase\<close> on code units below 256.\<close>

definition lower_char :: "char \<Rightarrow> char" where
  "lower_char c = (let n = of_char c :: nat in
     if 65 \<le> n \<and> n \<le> 90 \<or> 192 \<le> n \<and> n \<le> 222 \<and> n \<noteq> 215 then char_of (n + 32) else c)"

definition to_lower :: "string \<Rightarrow> string" where
  "to_lower s = map lower_char s"

definition normalise_evm :: "evm_tx \<Rightarrow> evm_tx" where
  "normalise_evm t = t\<lparr>et_from := to_lower (et_from t), et_to := to_lower (et_to t),
     et_data := to_lower (et_data t),
     et_access_list := map (\<lambda>e. (to_lower (fst e), map to_lower (snd e))) (et_access_list t)\<rparr>"

text \<open>\<open>normaliseEvmTransaction\<close>: the schema first.\<close>

definition normalise_evm_transaction :: "evm_tx \<Rightarrow> error + evm_tx" where
  "normalise_evm_transaction t = (if evm_tx_ok t then Inr (normalise_evm t) else Inl ZodError)"

definition evm_tx_json :: "evm_tx \<Rightarrow> json" where
  "evm_tx_json t = JObj
     [(''type'', JStr (evm_type_string (et_type t))), (''chain_id'', JStr (et_chain_id t)),
      (''from'', JStr (et_from t)), (''to'', JStr (et_to t)), (''value_wei'', JStr (et_value t)),
      (''data'', JStr (et_data t)), (''nonce'', JStr (et_nonce t)), (''gas_limit'', JStr (et_gas_limit t)),
      (''max_fee_per_gas_wei'', null_str (et_max_fee t)),
      (''max_priority_fee_per_gas_wei'', null_str (et_max_priority_fee t)),
      (''gas_price_wei'', null_str (et_gas_price t)),
      (''access_list'', JArr (map (\<lambda>e. JObj [(''address'', JStr (fst e)),
         (''storage_keys'', JArr (map JStr (snd e)))]) (et_access_list t)))]"

definition evm_unsigned_hash :: "host \<Rightarrow> evm_tx \<Rightarrow> error + string" where
  "evm_unsigned_hash H t =
     bind_sum (normalise_evm_transaction t) (\<lambda>n. Inr (hash_canonical H (evm_tx_json n)))"

text \<open>\<open>formatEvmAmount\<close>; its decimals are an integer from 0 to 18 by the schema of the input.\<close>

definition format_evm_amount :: "string \<Rightarrow> nat \<Rightarrow> error + string" where
  "format_evm_amount v d =
     (if \<not> uint_string v then Inl (JsError ''EvmBindingError'' ''EVM value must be an unsigned wei integer string'')
      else if 18 < d then Inl (JsError ''EvmBindingError'' ''assetDecimals must be an integer from 0 to 18'')
      else Inr (format_units v d))"

definition action_from_evm :: "host \<Rightarrow> evm_input \<Rightarrow> error + action" where
  "action_from_evm H i =
     (if \<not> evm_input_ok H i then Inl ZodError
      else
        bind_sum (normalise_evm_transaction (ei_transaction i)) (\<lambda>t.
        bind_sum (format_evm_amount (et_value t) (ei_asset_decimals i)) (\<lambda>amt.
        bind_sum (evm_unsigned_hash H t) (\<lambda>uh.
          check_action H
            \<lparr>a_principal_id = ei_principal_id i, a_agent_id = ei_agent_id i, a_rail = EVM,
             a_reference = EVMRef (ei_resource i) (et_type t) (et_chain_id t) (et_from t) (et_to t) (et_value t)
               (et_nonce t) uh (hash_canonical H (JStr (et_data t))),
             a_transaction = \<lparr>tx_amount = amt, tx_asset = ei_asset i, tx_network = ''eip155:'' @ et_chain_id t,
               tx_payee = et_to t, tx_purpose = ei_purpose i\<rparr>,
             a_extensions = Some (AList.update ''inntris_evm'' (JObj [(''unsigned_transaction'', evm_tx_json t)])
               (case ei_extensions i of None \<Rightarrow> [] | Some e \<Rightarrow> e))\<rparr>))))"

subsection \<open>verification.ts\<close>

text \<open>What \<open>viem\<close> reads from serialised bytes: absent fields are \<^const>\<open>None\<close>.\<close>

record parsed_tx =
  pt_type :: string
  pt_chain_id :: "nat option"
  pt_to :: "string option"
  pt_value :: "nat option"
  pt_data :: "string option"
  pt_nonce :: "nat option"
  pt_gas :: "nat option"
  pt_max_fee :: "nat option"
  pt_max_priority_fee :: "nat option"
  pt_gas_price :: "nat option"
  pt_access_list :: "(string \<times> string list) list option"

text \<open>\<open>parseTransaction\<close>, \<open>recoverTransactionAddress\<close> (\<^const>\<open>None\<close>: they throw) and \<open>keccak256\<close>.\<close>

record viem =
  vm_parse :: "string \<Rightarrow> parsed_tx option"
  vm_recover :: "string \<Rightarrow> string option"
  vm_keccak :: "string \<Rightarrow> string"

text \<open>\<open>String(n)\<close> of a number that may be \<open>undefined\<close>, and \<open>n?.toString() ?? null\<close>.\<close>

definition string_of_number :: "nat option \<Rightarrow> string" where
  "string_of_number n = (case n of None \<Rightarrow> ''undefined'' | Some k \<Rightarrow> nat_string k)"

definition verify_signed_evm :: "viem \<Rightarrow> string \<Rightarrow> evm_tx \<Rightarrow> error + bool" where
  "verify_signed_evm V signed expected_input =
     bind_sum (normalise_evm_transaction expected_input) (\<lambda>e.
       Inr (case (vm_parse V signed, vm_recover V signed) of
          (Some p, Some r) \<Rightarrow>
            to_lower r = et_from e \<and> pt_type p = evm_type_string (et_type e) \<and>
            string_of_number (pt_chain_id p) = et_chain_id e \<and>
            map_option to_lower (pt_to p) = Some (et_to e) \<and>
            nat_string (case pt_value p of None \<Rightarrow> 0 | Some v \<Rightarrow> v) = et_value e \<and>
            to_lower (case pt_data p of None \<Rightarrow> ''0x'' | Some d \<Rightarrow> d) = et_data e \<and>
            string_of_number (pt_nonce p) = et_nonce e \<and>
            map_option nat_string (pt_gas p) = Some (et_gas_limit e) \<and>
            map_option nat_string (pt_max_fee p) = et_max_fee e \<and>
            map_option nat_string (pt_max_priority_fee p) = et_max_priority_fee e \<and>
            map_option nat_string (pt_gas_price p) = et_gas_price e \<and>
            map (\<lambda>x. (to_lower (fst x), map to_lower (snd x)))
              (case pt_access_list p of None \<Rightarrow> [] | Some l \<Rightarrow> l) = et_access_list e
        | _ \<Rightarrow> False))"

subsection \<open>store.ts\<close>

record evm_completion =
  ce_action :: action
  ce_decision :: decision
  ce_transaction :: evm_tx
  ce_signed :: string
  ce_tx_hash :: string

text \<open>The binding of an execution: its binding hash and execution reference.\<close>

type_synonym evm_executions = "string \<Rightarrow> (string \<times> string, evm_completion) stored_execution option"

definition evm_claim ::
  "string \<Rightarrow> string \<times> string \<Rightarrow> (error, evm_executions, (string \<times> string, evm_completion) execution_claim) io" where
  "evm_claim = claim_execution"

definition evm_complete :: "string \<Rightarrow> string \<times> string \<Rightarrow> evm_completion \<Rightarrow> (error, evm_executions, unit) io" where
  "evm_complete = complete_execution ''EVM execution was not claimed with the same binding''"

subsection \<open>gate.ts\<close>

record 's evm_gate =
  eg_evaluate :: "action \<Rightarrow> (error, 's, decision) io"
  eg_consume :: "consume_input \<Rightarrow> (error, 's, consume_result) io"
  eg_registry :: "key_entry list"
  eg_policy_version :: "string option"
  eg_address :: "(error, 's, string) io"
  eg_sign :: "evm_tx \<Rightarrow> (error, 's, json) io"
  eg_broadcast :: "string \<Rightarrow> evm_tx \<Rightarrow> string \<Rightarrow> (error, 's, json) io"
  eg_claim :: "string \<Rightarrow> string \<times> string \<Rightarrow> (error, 's, (string \<times> string, evm_completion) execution_claim) io"
  eg_complete :: "string \<Rightarrow> string \<times> string \<Rightarrow> evm_completion \<Rightarrow> (error, 's, unit) io"

definition evm_error :: "string \<Rightarrow> string option \<Rightarrow> string \<Rightarrow> error" where
  "evm_error code cause msg = GateError ''InntrisEvmWalletGateError'' code cause msg"

text \<open>\<open>catch (error) { return reject(message, code, error.name) }\<close>.\<close>

definition or_reject :: "(error, 's, 'a) io \<Rightarrow> string \<Rightarrow> string \<Rightarrow> (error, 's, 'a) io" where
  "or_reject m code msg = catch_io m (\<lambda>e. throw (evm_error code (Some (error_name e)) msg))"

definition evm_prepare ::
  "host \<Rightarrow> 's evm_gate \<Rightarrow> evm_input \<Rightarrow> (error, 's, evm_tx \<times> action) io" where
  "evm_prepare H G i =
     (if \<not> evm_input_ok H i then throw (evm_error ''INVALID_EVM_INPUT'' None ''The EVM wallet request is invalid'')
      else
        bind_io (lift_io (normalise_evm_transaction (ei_transaction i))) (\<lambda>t.
        bind_io (or_reject (eg_address G) ''WALLET_UNAVAILABLE'' ''The injected wallet is unavailable'') (\<lambda>addr.
        if to_lower addr \<noteq> et_from t
        then throw (evm_error ''WALLET_ADDRESS_MISMATCH'' None ''The unsigned transaction belongs to a different wallet'')
        else bind_io (lift_io (action_from_evm H (i\<lparr>ei_transaction := t\<rparr>))) (\<lambda>a. ret (t, a)))))"

definition evm_verify :: "host \<Rightarrow> 's evm_gate \<Rightarrow> decision \<Rightarrow> action \<Rightarrow> int \<Rightarrow> verification" where
  "evm_verify H G d a now = verify_decision H
     \<lparr>vi_decision = decision_json d, vi_action = action_json a, vi_registry = registry_json (eg_registry G),
      vi_at = now, vi_policy_version = eg_policy_version G, vi_requirements_hash = None\<rparr>"

definition reasons_cause :: "verification \<Rightarrow> string option" where
  "reasons_cause v = Some (join_with '','' (map reason_string (vr_reasons v)))"

definition evm_authorise ::
  "host \<Rightarrow> 's evm_gate \<Rightarrow> int \<Rightarrow> evm_input \<Rightarrow> (error, 's, action \<times> decision) io" where
  "evm_authorise H G now i =
     bind_io (evm_prepare H G i) (\<lambda>(t, a).
     bind_io (or_reject (eg_evaluate G a) ''DECISION_INVALID'' ''Inntris policy evaluation failed closed'') (\<lambda>d.
       let v = evm_verify H G d a now in
       if \<not> vr_valid v
       then throw (evm_error ''DECISION_INVALID'' (reasons_cause v)
              ''The Inntris decision did not verify against the exact unsigned transaction'')
       else if d_verdict d \<noteq> ALLOW
       then throw (evm_error ''DECISION_NOT_ALLOW'' None ''Current organisational policy did not allow wallet signing'')
       else ret (a, d)))"

definition evm_execution_ref :: "host \<Rightarrow> decision \<Rightarrow> string \<Rightarrow> string" where
  "evm_execution_ref H d uh = ''evm-execution:'' @ drop 7 (hash_canonical H (JObj
     [(''version'', JStr ''inntris-evm-execution-ref-v1''), (''decision_id'', JStr (d_decision_id d)),
      (''action_hash'', JStr (d_action_hash d)), (''unsigned_transaction_hash'', JStr uh)]))"

definition evm_binding_hash :: "host \<Rightarrow> decision \<Rightarrow> string \<Rightarrow> evm_tx \<Rightarrow> string" where
  "evm_binding_hash H d uh t = hash_canonical H (JObj
     [(''version'', JStr ''inntris-evm-execution-binding-v1''), (''action_hash'', JStr (d_action_hash d)),
      (''unsigned_transaction_hash'', JStr uh), (''wallet_address'', JStr (et_from t))])"

record evm_result =
  er_action :: action
  er_decision :: decision
  er_unsigned_hash :: string
  er_signed :: string
  er_tx_hash :: string
  er_execution_ref :: string
  er_replayed :: bool

text \<open>The part of \<open>signAndBroadcast\<close> up to the claim: the action, the key and binding of the
  execution, and the outcome of the claim.\<close>

definition evm_begin ::
  "host \<Rightarrow> 's evm_gate \<Rightarrow> int \<Rightarrow> evm_input \<Rightarrow> decision \<Rightarrow>
    (error, 's, evm_tx \<times> action \<times> string \<times> string \<times> string \<times> (string \<times> string, evm_completion) execution_claim) io" where
  "evm_begin H G now i d =
     bind_io (evm_prepare H G i) (\<lambda>(t, a).
       let v = evm_verify H G d a now in
       if \<not> vr_valid v
       then throw (evm_error ''DECISION_INVALID'' (reasons_cause v)
              ''The Inntris decision is not valid for the transaction presented at signing time'')
       else if d_verdict d \<noteq> ALLOW
       then throw (evm_error ''DECISION_NOT_ALLOW'' None ''Only an ALLOW decision can reach wallet signing'')
       else
         (case a_reference a of
            EVMRef r ty ci fr to vw n uh dh \<Rightarrow>
              (let ref = evm_execution_ref H d uh in
               bind_io (or_reject (eg_consume G \<lparr>co_decision_id = d_decision_id d, co_action_hash = d_action_hash d,
                   co_execution_ref = ref\<rparr>) ''DECISION_CONSUMPTION_FAILED''
                   ''Decision consumption is unavailable; wallet signing is blocked'') (\<lambda>c.
               if \<not> cr_success c
               then throw (evm_error ''DECISION_CONSUMPTION_FAILED'' (map_option reason_string (cr_reason c))
                      ''Decision consumption failed; wallet signing is blocked'')
               else
                 let b = evm_binding_hash H d uh t in
                 bind_io (or_reject (eg_claim G uh (b, ref)) ''EVM_EXECUTION_STORE_UNAVAILABLE''
                   ''EVM execution state is unavailable; wallet signing is blocked'') (\<lambda>cl.
                 ret (t, a, uh, b, ref, cl))))
          | _ \<Rightarrow> throw (evm_error ''DECISION_INVALID'' None ''The decision is not bound to an EVM transaction'')))"

definition signed_text :: "json \<Rightarrow> string option" where
  "signed_text j = (case j of JStr s \<Rightarrow> if signed_transaction_ok s then Some s else None | _ \<Rightarrow> None)"

definition broadcast_hash :: "json \<Rightarrow> string option" where
  "broadcast_hash j =
     (case strict_obj [''transaction_hash''] j of
        None \<Rightarrow> None
      | Some ob \<Rightarrow> (case get_str ob ''transaction_hash'' of
          None \<Rightarrow> None | Some h \<Rightarrow> if storage_key h then Some h else None))"

text \<open>The part after a new claim: sign; then check the signed bytes, broadcast and complete.\<close>

definition evm_after_signing ::
  "host \<Rightarrow> viem \<Rightarrow> 's evm_gate \<Rightarrow> evm_tx \<Rightarrow> action \<Rightarrow> decision \<Rightarrow> string \<Rightarrow> string \<Rightarrow> string \<Rightarrow> json \<Rightarrow>
    (error, 's, evm_result) io" where
  "evm_after_signing H V G t a d uh b ref raw =
     (case signed_text raw of
       None \<Rightarrow> throw (evm_error ''INVALID_SIGNED_TRANSACTION'' None ''The wallet returned an invalid signed transaction'')
     | Some signed \<Rightarrow>
         bind_io (lift_io (verify_signed_evm V signed t)) (\<lambda>ok.
         if \<not> ok
         then throw (evm_error ''INVALID_SIGNED_TRANSACTION'' None
                ''The wallet signed a different transaction or with a different account'')
         else
           bind_io (or_reject (eg_broadcast G signed t ref) ''BROADCAST_FAILED''
             ''Broadcast failed after wallet signing; reconciliation is required'') (\<lambda>raw_broadcast.
           if map_option to_lower (broadcast_hash raw_broadcast) \<noteq> Some (vm_keccak V signed)
           then throw (evm_error ''INVALID_BROADCAST_RESULT'' None
                  ''The broadcaster returned a transaction hash that does not match the signed bytes'')
           else
             bind_io (or_reject (eg_complete G uh (b, ref) \<lparr>ce_action = a, ce_decision = d, ce_transaction = t,
                 ce_signed = signed, ce_tx_hash = vm_keccak V signed\<rparr>) ''EVM_EXECUTION_STORE_UNAVAILABLE''
                 ''The transaction was broadcast but execution state could not be finalised'') (\<lambda>_.
             ret \<lparr>er_action = a, er_decision = d, er_unsigned_hash = uh, er_signed = signed,
                  er_tx_hash = vm_keccak V signed, er_execution_ref = ref, er_replayed = False\<rparr>))))"

definition evm_execute_claimed ::
  "host \<Rightarrow> viem \<Rightarrow> 's evm_gate \<Rightarrow> evm_tx \<Rightarrow> action \<Rightarrow> decision \<Rightarrow> string \<Rightarrow> string \<Rightarrow> string \<Rightarrow> (error, 's, evm_result) io" where
  "evm_execute_claimed H V G t a d uh b ref =
     bind_io (or_reject (eg_sign G t) ''WALLET_SIGNING_FAILED''
       ''The injected wallet failed to sign the authorised transaction'')
       (evm_after_signing H V G t a d uh b ref)"

definition sign_and_broadcast ::
  "host \<Rightarrow> viem \<Rightarrow> 's evm_gate \<Rightarrow> int \<Rightarrow> evm_input \<Rightarrow> decision \<Rightarrow> (error, 's, evm_result) io" where
  "sign_and_broadcast H V G now i d =
     bind_io (evm_begin H G now i d) (\<lambda>(t, a, uh, b, ref, cl).
       case cl of
         ClaimConflict \<Rightarrow> throw (evm_error ''EVM_EXECUTION_CONFLICT'' None
           ''The unsigned transaction is already bound to a different decision'')
       | ClaimInFlight \<Rightarrow> throw (evm_error ''EVM_EXECUTION_IN_PROGRESS'' None
           ''The unsigned transaction has an unresolved signing or broadcast attempt'')
       | ClaimCompleted b' c \<Rightarrow> ret \<lparr>er_action = ce_action c, er_decision = ce_decision c, er_unsigned_hash = uh,
           er_signed = ce_signed c, er_tx_hash = ce_tx_hash c, er_execution_ref = snd b', er_replayed = True\<rparr>
       | NewClaim \<Rightarrow> evm_execute_claimed H V G t a d uh b ref)"

definition evm_execute ::
  "host \<Rightarrow> viem \<Rightarrow> 's evm_gate \<Rightarrow> (nat \<Rightarrow> int) \<Rightarrow> evm_input \<Rightarrow> (error, 's, evm_result) io" where
  "evm_execute H V G clk i =
     bind_io (evm_authorise H G (clk 0) i) (\<lambda>(a, d). sign_and_broadcast H V G (clk 1) i d)"

subsection \<open>Normalisation and the bound action\<close>

lemma lower_hex: "hex_any_char c \<Longrightarrow> hex_any_char (lower_char c) \<and> hex_char (lower_char c)"
proof -
  assume "hex_any_char c"
  then have "hex_char c \<or> 65 \<le> (of_char c :: nat) \<and> (of_char c :: nat) \<le> 70"
    by (auto simp: hex_any_char_def Let_def)
  moreover have "hex_char c \<Longrightarrow> lower_char c = c"
    by (auto simp: hex_char_def lower_char_def Let_def)
  moreover have "65 \<le> (of_char c :: nat) \<Longrightarrow> (of_char c :: nat) \<le> 70 \<Longrightarrow> hex_char (lower_char c)"
    by (simp add: hex_char_def lower_char_def Let_def)
  ultimately show ?thesis by (auto simp: hex_any_char_def)
qed

lemma lower_hex_idem: "hex_char c \<Longrightarrow> lower_char c = c"
  by (auto simp: hex_char_def lower_char_def Let_def)

lemma lower_zero_x: "take 2 s = ''0x'' \<Longrightarrow> take 2 (to_lower s) = ''0x''"
proof -
  assume "take 2 s = ''0x''"
  then have "take 2 (to_lower s) = to_lower ''0x''" by (simp add: to_lower_def take_map)
  also have "\<dots> = ''0x''" by (simp add: to_lower_def lower_char_def)
  finally show ?thesis .
qed

lemma hex_body_lower: "hex_body s \<Longrightarrow> hex_body (to_lower s) \<and> list_all hex_char (drop 2 (to_lower s))"
  using lower_zero_x [of s]
  by (auto simp: hex_body_def to_lower_def drop_map list_all_iff dest: lower_hex)

lemma to_lower_idem: "hex_body s \<Longrightarrow> to_lower (to_lower s) = to_lower s"
proof -
  assume s: "hex_body s"
  have "lower_char c = c" if c: "c \<in> set (to_lower s)" for c
  proof -
    have "set (to_lower s) = set (take 2 (to_lower s)) \<union> set (drop 2 (to_lower s))"
      by (metis append_take_drop_id set_append)
    moreover have "take 2 (to_lower s) = ''0x''" using s lower_zero_x by (simp add: hex_body_def)
    moreover have "list_all hex_char (drop 2 (to_lower s))" using hex_body_lower [OF s] by simp
    ultimately consider "c = CHR ''0''" | "c = CHR ''x''" | "hex_char c" using c by (auto simp: list_all_iff)
    then show ?thesis
    proof cases
      case 3
      then show ?thesis by (rule lower_hex_idem)
    qed (simp_all add: lower_char_def)
  qed
  then show ?thesis by (simp add: to_lower_def [of "to_lower s"] map_idI)
qed

lemma to_lower_length [simp]: "length (to_lower s) = length s"
  by (simp add: to_lower_def)

lemma normalise_evm_ok:
  assumes "evm_tx_ok t"
  shows "evm_tx_ok (normalise_evm t) \<and> normalise_evm (normalise_evm t) = normalise_evm t"
proof -
  have e: "evm_address_any (fst e)" "list_all storage_key (snd e)" if "e \<in> set (et_access_list t)" for e
    using assms that by (auto simp: evm_tx_ok_def list_all_iff)
  have "map (\<lambda>e. (to_lower (fst e), map to_lower (snd e))) (map (\<lambda>e. (to_lower (fst e), map to_lower (snd e))) (et_access_list t))
    = map (\<lambda>e. (to_lower (fst e), map to_lower (snd e))) (et_access_list t)"
    using e by (auto simp: list_all_iff evm_address_any_def storage_key_def to_lower_idem)
  moreover have "list_all (\<lambda>e. evm_address_any (fst e) \<and> list_all storage_key (snd e))
      (map (\<lambda>e. (to_lower (fst e), map to_lower (snd e))) (et_access_list t))"
    using e by (auto simp: list_all_iff evm_address_any_def storage_key_def hex_body_lower)
  ultimately show ?thesis
    using assms
    by (auto simp: evm_tx_ok_def normalise_evm_def evm_address_any_def hex_data_def hex_body_lower to_lower_idem)
qed

lemma normalise_evm_transaction_Inr:
  "normalise_evm_transaction t = Inr n \<longleftrightarrow> evm_tx_ok t \<and> n = normalise_evm t"
  by (auto simp: normalise_evm_transaction_def)

text \<open>What the gate prepares: the normalised transaction and the action that is bound to it.\<close>

definition evm_bound :: "host \<Rightarrow> evm_input \<Rightarrow> evm_tx \<Rightarrow> action \<Rightarrow> bool" where
  "evm_bound H i t a \<longleftrightarrow>
     evm_tx_ok (ei_transaction i) \<and> t = normalise_evm (ei_transaction i) \<and> action_ok H a \<and> a_rail a = EVM \<and>
     a_reference a = EVMRef (ei_resource i) (et_type t) (et_chain_id t) (et_from t) (et_to t) (et_value t)
       (et_nonce t) (hash_canonical H (evm_tx_json t)) (hash_canonical H (JStr (et_data t))) \<and>
     tx_payee (a_transaction a) = et_to t \<and> tx_network (a_transaction a) = ''eip155:'' @ et_chain_id t \<and>
     canonical_amount (tx_amount (a_transaction a)) \<and>
     decimal_value (tx_amount (a_transaction a)) = of_nat (digits_value (et_value t)) / 10 ^ ei_asset_decimals i"

lemma format_evm_amount_exact:
  "format_evm_amount v d = Inr x \<Longrightarrow>
    canonical_amount x \<and> decimal_value x = of_nat (digits_value v) / 10 ^ d"
  using format_units_exact [of v d] by (auto simp: format_evm_amount_def canonical_amount_def split: if_splits)

lemma action_from_evm_bound:
  assumes "action_from_evm H i = Inr a"
  shows "evm_bound H i (normalise_evm (ei_transaction i)) a"
proof -
  let ?t = "normalise_evm (ei_transaction i)"
  from assms have iok: "evm_input_ok H i" by (cases "evm_input_ok H i") (simp_all add: action_from_evm_def)
  then have ok: "evm_tx_ok (ei_transaction i)" by (simp add: evm_input_ok_def)
  then have n: "normalise_evm_transaction (ei_transaction i) = Inr ?t" by (simp add: normalise_evm_transaction_def)
  obtain amt where amt: "format_evm_amount (et_value ?t) (ei_asset_decimals i) = Inr amt"
    using assms iok n by (cases "format_evm_amount (et_value ?t) (ei_asset_decimals i)") (simp_all add: action_from_evm_def)
  obtain uh where uh: "evm_unsigned_hash H ?t = Inr uh"
    using assms iok n amt by (cases "evm_unsigned_hash H ?t") (simp_all add: action_from_evm_def)
  note act = assms [unfolded action_from_evm_def n amt uh bind_sum_simps, simplified iok, simplified]
  from act have a: "action_ok H a" by (auto simp: check_action_def split: if_splits)
  with act have f: "a_rail a = EVM" "a_reference a = EVMRef (ei_resource i) (et_type ?t) (et_chain_id ?t) (et_from ?t) (et_to ?t) (et_value ?t)
               (et_nonce ?t) uh (hash_canonical H (JStr (et_data ?t)))"
      "tx_amount (a_transaction a) = amt" "tx_network (a_transaction a) = ''eip155:'' @ et_chain_id ?t"
      "tx_payee (a_transaction a) = et_to ?t"
    by (auto simp: check_action_def split: if_splits)
  have "uh = hash_canonical H (evm_tx_json ?t)"
    using uh normalise_evm_ok [OF ok] by (auto simp: evm_unsigned_hash_def bind_sum_Inr normalise_evm_transaction_Inr)
  with format_evm_amount_exact [OF amt] ok a f show ?thesis by (simp add: evm_bound_def)
qed

lemma evm_prepare_bound:
  assumes "evm_prepare H G i s = (Inr (t, a), s')"
  shows "evm_bound H i t a"
proof -
  from assms have iok: "evm_input_ok H i" by (cases "evm_input_ok H i") (simp_all add: evm_prepare_def)
  then have ok: "evm_tx_ok (ei_transaction i)" by (simp add: evm_input_ok_def)
  then have n: "normalise_evm_transaction (ei_transaction i) = Inr (normalise_evm (ei_transaction i))"
    by (simp add: normalise_evm_transaction_def)
  from assms iok n have t: "t = normalise_evm (ei_transaction i)"
    and act: "action_from_evm H (i\<lparr>ei_transaction := t\<rparr>) = Inr a"
    by (auto simp: evm_prepare_def bind_io_Inr split: if_splits)
  from action_from_evm_bound [OF act] normalise_evm_ok [OF ok] t ok show ?thesis by (auto simp: evm_bound_def)
qed

text \<open>Signed bytes that pass the check carry every authorised field.\<close>

lemma verify_signed_evm_sound:
  assumes "verify_signed_evm V signed t = Inr True"
  shows "\<exists>p r. vm_parse V signed = Some p \<and> vm_recover V signed = Some r \<and> to_lower r = to_lower (et_from t) \<and>
    pt_type p = evm_type_string (et_type t) \<and> map_option nat_string (pt_chain_id p) = Some (et_chain_id t) \<and>
    map_option to_lower (pt_to p) = Some (to_lower (et_to t)) \<and>
    nat_string (case pt_value p of None \<Rightarrow> 0 | Some v \<Rightarrow> v) = et_value t \<and>
    map_option nat_string (pt_nonce p) = Some (et_nonce t) \<and> map_option nat_string (pt_gas p) = Some (et_gas_limit t) \<and>
    to_lower (case pt_data p of None \<Rightarrow> ''0x'' | Some x \<Rightarrow> x) = to_lower (et_data t) \<and>
    map_option nat_string (pt_max_fee p) = et_max_fee t \<and> map_option nat_string (pt_max_priority_fee p) = et_max_priority_fee t \<and>
    map_option nat_string (pt_gas_price p) = et_gas_price t \<and>
    map (\<lambda>x. (to_lower (fst x), map to_lower (snd x))) (case pt_access_list p of None \<Rightarrow> [] | Some l \<Rightarrow> l) =
      map (\<lambda>x. (to_lower (fst x), map to_lower (snd x))) (et_access_list t)"
proof -
  have u: "string_of_number n = x \<Longrightarrow> uint_string x \<Longrightarrow> map_option nat_string n = Some x" for n x
    by (cases n) (auto simp: string_of_number_def uint_string_def is_digit_def)
  from assms have ok: "evm_tx_ok t"
    by (auto simp: verify_signed_evm_def bind_sum_Inr normalise_evm_transaction_Inr)
  then have "uint_string (et_chain_id t)" "uint_string (et_nonce t)"
    by (auto simp: evm_tx_ok_def positive_string_def)
  note ids = u [OF _ this(1)] u [OF _ this(2)]
  from assms obtain p r where p: "vm_parse V signed = Some p" "vm_recover V signed = Some r"
    by (cases "vm_parse V signed"; cases "vm_recover V signed") (simp_all add: verify_signed_evm_def bind_sum_Inr)
  note all = assms [unfolded verify_signed_evm_def bind_sum_Inr normalise_evm_transaction_Inr normalise_evm_def p,
      simplified]
  have "string_of_number (pt_chain_id p) = et_chain_id t" "string_of_number (pt_nonce p) = et_nonce t"
    using all by simp_all
  from ids(1) [OF this(1)] ids(2) [OF this(2)] all p show ?thesis by simp
qed

subsection \<open>The wallet signs one unsigned transaction at most once\<close>

record evm_call =
  ec_now :: int
  ec_input :: evm_input
  ec_decision :: decision

lemma or_reject_Inr: "or_reject m code msg s = (Inr x, s') \<longleftrightarrow> m s = (Inr x, s')"
  by (auto simp: or_reject_def catch_io_apply split: prod.splits sum.splits)

lemma keeps_or_reject [keeps_intros]: "state_order R \<Longrightarrow> keeps R m \<Longrightarrow> keeps R (or_reject m code msg)"
  unfolding or_reject_def by (intro keeps_intros)

lemma keeps_reference:
  "state_order R \<Longrightarrow> (\<And>r ty ci fr to vw n uh dh. x = EVMRef r ty ci fr to vw n uh dh \<Longrightarrow>
      keeps R (f r ty ci fr to vw n uh dh)) \<Longrightarrow>
    keeps R (case x of EVMRef r ty ci fr to vw n uh dh \<Rightarrow> f r ty ci fr to vw n uh dh | _ \<Rightarrow> throw e)"
  by (cases x) (simp_all add: keeps_throw)

text \<open>What a successful \<open>evm_begin\<close> has established.\<close>

lemma evm_begin_Inr:
  assumes "evm_begin H G now i d s = (Inr (t, a, uh, b, ref, cl), s')"
  shows "evm_bound H i t a \<and> vr_valid (evm_verify H G d a now) \<and> d_verdict d = ALLOW \<and>
    uh = hash_canonical H (evm_tx_json t) \<and> b = evm_binding_hash H d uh t \<and> ref = evm_execution_ref H d uh \<and>
    (\<exists>c s1 s2. evm_prepare H G i s = (Inr (t, a), s1) \<and>
      eg_consume G \<lparr>co_decision_id = d_decision_id d, co_action_hash = d_action_hash d, co_execution_ref = ref\<rparr> s1 = (Inr c, s2) \<and>
      cr_success c \<and> eg_claim G uh (b, ref) s2 = (Inr cl, s'))"
proof -
  from assms obtain t' a' s1 where p: "evm_prepare H G i s = (Inr (t', a'), s1)"
    by (auto simp: evm_begin_def bind_io_Inr)
  note bound = evm_prepare_bound [OF p]
  then obtain r ty ci fr to vw n uh' dh where ref: "a_reference a' = EVMRef r ty ci fr to vw n uh' dh"
    and uh: "uh' = hash_canonical H (evm_tx_json t')"
    by (auto simp: evm_bound_def)
  from assms p ref have "t' = t \<and> a' = a"
    by (auto simp: evm_begin_def bind_io_Inr Let_def split: if_splits)
  with assms p ref bound uh show ?thesis
    by (auto simp: evm_begin_def bind_io_Inr Let_def or_reject_Inr split: if_splits)
qed

text \<open>
  A world in which the gate runs: \<open>settled\<close> is the log of the transactions given to the wallet,
  by hash, and \<open>left\<close> says which executions have been claimed.
\<close>

locale evm_world = effect_log valid left settled log
  for valid :: "'s \<Rightarrow> bool" and left :: "'s \<Rightarrow> string \<Rightarrow> bool" and settled :: "'s \<Rightarrow> string list"
    and log :: "string \<Rightarrow> 's \<Rightarrow> 's" +
  fixes H :: host and G :: "'s evm_gate"
  assumes claim_new: "eg_claim G k b s = (Inr NewClaim, s') \<Longrightarrow> \<not> left s k \<and> left s' k"
    and wallet: "snd (eg_sign G t s) = log (hash_canonical H (evm_tx_json t)) s"
    and calls_frame: "keeps (settles valid left settled) (eg_address G)"
      "keeps (settles valid left settled) (eg_evaluate G a)"
      "keeps (settles valid left settled) (eg_consume G c)"
      "keeps (settles valid left settled) (eg_claim G k b)"
      "keeps (settles valid left settled) (eg_complete G k b v)"
      "keeps (settles valid left settled) (eg_broadcast G signed t ref)"
begin

definition evm_step :: "viem \<Rightarrow> evm_call \<Rightarrow> (error, 's, evm_result) io" where
  "evm_step V c = sign_and_broadcast H V G (ec_now c) (ec_input c) (ec_decision c)"

lemma prepare_keeps: "keeps (settles valid left settled) (evm_prepare H G i)"
  unfolding evm_prepare_def by (intro keeps_intros settles_order calls_frame)

lemma begin_keeps: "keeps (settles valid left settled) (evm_begin H G now i d)"
  unfolding evm_begin_def Let_def
  by (intro keeps_intros keeps_reference settles_order calls_frame prepare_keeps)

lemma after_signing_keeps:
  "keeps (settles valid left settled) (evm_after_signing H V G t a d uh b ref raw)"
  unfolding evm_after_signing_def by (intro keeps_intros settles_order calls_frame)

lemma claimed_keeps:
  "settles valid left settled (log (hash_canonical H (evm_tx_json t)) s)
    (snd (evm_execute_claimed H V G t a d uh b ref s))"
proof -
  obtain r s1 where e: "eg_sign G t s = (r, s1)" by fastforce
  with wallet [of t s] have s1: "s1 = log (hash_canonical H (evm_tx_json t)) s" by simp
  show ?thesis
    using e s1 after_signing_keeps [of V t a d uh b ref]
    by (cases r) (simp_all add: evm_execute_claimed_def bind_io_apply or_reject_def catch_io_apply keeps_def)
qed

lemma evm_step_guarded: "guarded s (snd (evm_step V c s))"
  unfolding evm_step_def sign_and_broadcast_def
proof (rule guarded_bind [OF begin_keeps])
  fix x s1
  assume e: "evm_begin H G (ec_now c) (ec_input c) (ec_decision c) s = (Inr x, s1)"
  obtain t a uh b ref cl where x: "x = (t, a, uh, b, ref, cl)" by (cases x) auto
  let ?rest = "case x of (t, a, uh, b, ref, cl) \<Rightarrow> case cl of
         ClaimConflict \<Rightarrow> throw (evm_error ''EVM_EXECUTION_CONFLICT'' None
           ''The unsigned transaction is already bound to a different decision'')
       | ClaimInFlight \<Rightarrow> throw (evm_error ''EVM_EXECUTION_IN_PROGRESS'' None
           ''The unsigned transaction has an unresolved signing or broadcast attempt'')
       | ClaimCompleted b' r \<Rightarrow> ret \<lparr>er_action = ce_action r, er_decision = ce_decision r, er_unsigned_hash = uh,
           er_signed = ce_signed r, er_tx_hash = ce_tx_hash r, er_execution_ref = snd b', er_replayed = True\<rparr>
       | NewClaim \<Rightarrow> evm_execute_claimed H V G t a (ec_decision c) uh b ref"
  show "settles valid left settled s1 (snd (?rest s1)) \<or>
    (\<exists>k. \<not> left s k \<and> left s1 k \<and> settles valid left settled (log k s1) (snd (?rest s1)))"
  proof (cases "cl = NewClaim")
    case False
    then have "snd (?rest s1) = s1" by (cases cl) (simp_all add: x)
    then show ?thesis by simp
  next
    case True
    from evm_begin_Inr [OF e [unfolded x True]] obtain k w s2 s3 where p: "evm_prepare H G (ec_input c) s = (Inr (t, a), s2)"
      and c: "eg_consume G k s2 = (Inr w, s3)" and cl: "eg_claim G uh (b, ref) s3 = (Inr NewClaim, s1)"
      and uh: "uh = hash_canonical H (evm_tx_json t)"
      by (elim conjE exE) (rule that; assumption)
    have "settles valid left settled s s3"
      by (rule settles_trans [OF keepsD [OF prepare_keeps p] keepsD [OF calls_frame(3) c]])
    moreover note claim_new [OF cl]
    ultimately have "\<not> left s uh" "left s1 uh" by (auto simp: settles_def)
    with claimed_keeps [of t s1 V a "ec_decision c" uh b ref] uh show ?thesis by (auto simp: x True)
  qed
qed

lemma signed_at_most_once:
  "valid s \<Longrightarrow> settled s = [] \<Longrightarrow> run_ops (evm_step V) cs s = (rs, s') \<Longrightarrow> count_list (settled s') k \<le> 1"
  by (rule effect_at_most_once [OF evm_step_guarded])

text \<open>The wallet signs only under a verified \<open>ALLOW\<close> for the action bound to the input.\<close>

lemma signing_authorised:
  assumes "settled (snd (evm_step V c s)) \<noteq> settled s"
  shows "\<exists>t a. evm_bound H (ec_input c) t a \<and> vr_valid (evm_verify H G (ec_decision c) a (ec_now c)) \<and>
    d_verdict (ec_decision c) = ALLOW"
proof -
  obtain r s1 where e: "evm_begin H G (ec_now c) (ec_input c) (ec_decision c) s = (r, s1)" by fastforce
  have "settled s1 = settled s" using keepsD [OF begin_keeps e] by (simp add: settles_def)
  with assms e obtain y where "r = Inr y"
    by (cases r) (auto simp: evm_step_def sign_and_broadcast_def bind_io_apply)
  moreover obtain t a uh b ref cl where "y = (t, a, uh, b, ref, cl)" by (cases y) auto
  ultimately have b: "evm_begin H G (ec_now c) (ec_input c) (ec_decision c) s = (Inr (t, a, uh, b, ref, cl), s1)"
    using e by simp
  from evm_begin_Inr [OF b] show ?thesis by (elim conjE) (intro exI conjI)
qed

end

subsection \<open>A world over the in-memory store\<close>

text \<open>A decision provider, an address and a broadcaster with their own state, the in-memory
  execution store, a wallet that answers \<open>w\<close>, and the log of the transactions it was given.\<close>

record 'p evm_state =
  es_outside :: 'p
  es_executions :: evm_executions
  es_signed :: "string list"

definition memory_evm_gate ::
  "host \<Rightarrow> (action \<Rightarrow> (error, 'p, decision) io) \<Rightarrow> (consume_input \<Rightarrow> (error, 'p, consume_result) io) \<Rightarrow>
    key_entry list \<Rightarrow> string option \<Rightarrow> (error, 'p, string) io \<Rightarrow> (evm_tx \<Rightarrow> error + json) \<Rightarrow>
    (string \<Rightarrow> evm_tx \<Rightarrow> string \<Rightarrow> (error, 'p, json) io) \<Rightarrow> 'p evm_state evm_gate" where
  "memory_evm_gate H ev con ks pv addr w bc =
     \<lparr>eg_evaluate = (\<lambda>a. on_part es_outside es_outside_update (ev a)),
      eg_consume = (\<lambda>c. on_part es_outside es_outside_update (con c)),
      eg_registry = ks, eg_policy_version = pv,
      eg_address = on_part es_outside es_outside_update addr,
      eg_sign = (\<lambda>t s. (w t, s\<lparr>es_signed := hash_canonical H (evm_tx_json t) # es_signed s\<rparr>)),
      eg_broadcast = (\<lambda>signed t ref. on_part es_outside es_outside_update (bc signed t ref)),
      eg_claim = (\<lambda>k b. on_part es_executions es_executions_update (evm_claim k b)),
      eg_complete = (\<lambda>k b v. on_part es_executions es_executions_update (evm_complete k b v))\<rparr>"

definition evm_left :: "'p evm_state \<Rightarrow> string \<Rightarrow> bool" where
  "evm_left s k \<longleftrightarrow> es_executions s k \<noteq> None"

lemma evm_store_settles:
  "(\<And>m k. m k \<noteq> None \<Longrightarrow> snd (f m) k \<noteq> None) \<Longrightarrow>
    keeps (settles (\<lambda>_. True) evm_left es_signed) (on_part es_executions es_executions_update f)"
  by (simp add: keeps_def on_part_state settles_def evm_left_def)

lemma evm_outside_settles:
  "keeps (settles (\<lambda>_. True) evm_left es_signed) (on_part es_outside es_outside_update m)"
  by (rule keeps_on_part) (simp add: settles_def evm_left_def)

interpretation memory_evm: evm_world "\<lambda>_. True" evm_left es_signed "\<lambda>k s. s\<lparr>es_signed := k # es_signed s\<rparr>"
  H "memory_evm_gate H ev con ks pv addr w bc"
proof
  show "\<And>k b s s'. eg_claim (memory_evm_gate H ev con ks pv addr w bc) k b s = (Inr NewClaim, s') \<Longrightarrow>
      \<not> evm_left s k \<and> evm_left s' k"
    by (auto simp: memory_evm_gate_def on_part_result evm_claim_def evm_left_def dest: memory_executions.claim_new)
  show "keeps (settles (\<lambda>_. True) evm_left es_signed) (eg_claim (memory_evm_gate H ev con ks pv addr w bc) k b)" for k b
    by (simp add: memory_evm_gate_def evm_claim_def) (rule evm_store_settles [OF memory_executions.claim_grows])
  show "keeps (settles (\<lambda>_. True) evm_left es_signed) (eg_complete (memory_evm_gate H ev con ks pv addr w bc) k b v)" for k b v
    by (simp add: memory_evm_gate_def evm_complete_def) (rule evm_store_settles [OF memory_executions.complete_grows])
qed (simp_all add: memory_evm_gate_def evm_left_def fun_eq_iff evm_outside_settles)

lemma memory_signing_authorised:
  "es_signed (snd (sign_and_broadcast H V (memory_evm_gate H ev con ks pv addr w bc) now i d s)) \<noteq> es_signed s \<Longrightarrow>
    \<exists>t a. evm_bound H i t a \<and> vr_valid (evm_verify H (memory_evm_gate H ev con ks pv addr w bc) d a now) \<and> d_verdict d = ALLOW"
  using memory_evm.signing_authorised [of H ev con ks pv addr w bc V "\<lparr>ec_now = now, ec_input = i, ec_decision = d\<rparr>" s]
  by (simp add: memory_evm.evm_step_def)

lemma memory_signed_once:
  "count_list (es_signed (snd (run_ops (\<lambda>c :: evm_call. sign_and_broadcast H V (memory_evm_gate H ev con ks pv addr w bc)
      (ec_now c) (ec_input c) (ec_decision c)) cs \<lparr>es_outside = p, es_executions = Map.empty, es_signed = []\<rparr>))) k \<le> 1"
proof -
  have "(\<lambda>c :: evm_call. sign_and_broadcast H V (memory_evm_gate H ev con ks pv addr w bc) (ec_now c) (ec_input c) (ec_decision c)) =
      memory_evm.evm_step H ev con ks pv addr w bc V"
    by (simp add: fun_eq_iff memory_evm.evm_step_def)
  then show ?thesis
    by (simp only:) (rule memory_evm.signed_at_most_once [OF _ _ prod.collapse [symmetric]]; simp)
qed

end
