(* ===== verification/RailSamples.thy ===== *)
theory RailSamples
  imports Samples X402 EvmGate
begin

section \<open>Concrete requests of the rails\<close>

text \<open>Inputs of the x402 guard and the EVM gate, with decisions that verify for them, over the
  reference host of \<open>Host\<close>: the properties are applied at these inputs.\<close>

subsection \<open>x402\<close>

definition sample_requirements :: requirements where
  "sample_requirements = \<lparr>pq_scheme = ''exact'', pq_network = ''eip155:8453'', pq_asset = ''USDC'',
     pq_amount = ''12500000'', pq_pay_to = ''0xpayee'', pq_max_timeout = 60, pq_extra = Some []\<rparr>"

definition sample_schemas :: x402_schemas where
  "sample_schemas = \<lparr>xs_requirements = Some, xs_payload = Some\<rparr>"

definition sample_x402 :: x402_input where
  "sample_x402 = \<lparr>xi_requirements = sample_requirements, xi_payload = None, xi_resource = ''https://api.example/data'',
     xi_principal_id = ''org-1'', xi_agent_id = ''agent-1'', xi_purpose = ''data'', xi_asset_decimals = 6,
     xi_extensions = None\<rparr>"

lemma sample_atomic: "format_atomic_amount ''12500000'' 6 = Inr ''12.50''"
proof -
  have "format_units ''12500000'' 6 = ''12.50''" "uint_string ''12500000''" by code_simp+
  then show ?thesis by (simp add: format_atomic_amount_def)
qed

lemma sample_normalised: "normalise_requirements sample_schemas sample_requirements = Inr sample_requirements"
  by (simp add: normalise_requirements_def sample_schemas_def sample_requirements_def parse_or_zod_def)

definition sample_requirements_hash :: string where
  "sample_requirements_hash = hash_canonical ref_host (requirements_json sample_requirements)"

definition sample_x402_action :: action where
  "sample_x402_action = \<lparr>a_principal_id = ''org-1'', a_agent_id = ''agent-1'', a_rail = X402,
     a_reference = X402Ref ''https://api.example/data'' ''exact'' sample_requirements_hash None,
     a_transaction = sample_transaction, a_extensions = None\<rparr>"

lemma sample_x402_action_ok [simp]: "action_ok ref_host sample_x402_action"
  using sample_action_ok hash_canonical_hash_ok [OF ref_host_sha]
  by (simp add: action_ok_def sample_x402_action_def sample_action_def sample_reference_def sample_requirements_hash_def)

lemma sample_action_from_x402: "action_from_x402 ref_host sample_schemas sample_x402 = Inr sample_x402_action"
proof -
  have h: "requirements_hash ref_host sample_schemas sample_requirements = Inr sample_requirements_hash"
    by (simp add: requirements_hash_def sample_normalised sample_requirements_hash_def)
  have f: "pq_amount sample_requirements = ''12500000''" "pq_scheme sample_requirements = ''exact''"
    "pq_asset sample_requirements = ''USDC''" "pq_network sample_requirements = ''eip155:8453''"
    "pq_pay_to sample_requirements = ''0xpayee''"
    by (simp_all add: sample_requirements_def)
  have "action_from_x402 ref_host sample_schemas sample_x402 = check_action ref_host sample_x402_action"
    by (simp add: action_from_x402_def sample_x402_def sample_normalised f sample_atomic h
        sample_x402_action_def sample_transaction_def)
  then show ?thesis by (simp add: check_action_def)
qed

text \<open>A guard whose provider consumes whatever it is asked to, without a journal.\<close>

definition open_guard :: "key_entry \<Rightarrow> unit guard" where
  "open_guard k = \<lparr>gd_evaluate = (\<lambda>_. throw ZodError),
     gd_consume = (\<lambda>c s. (Inr \<lparr>cr_success = True, cr_status = Consumed, cr_decision_id = co_decision_id c,
       cr_execution_ref = co_execution_ref c, cr_consumed_at = None, cr_reason = None\<rparr>, s)),
     gd_registry = [k], gd_policy_version = Some ''1.0.0'', gd_journal = None, gd_classify = None\<rparr>"

lemma sample_prepared:
  "\<exists>d k. prepare_settlement ref_host sample_schemas (open_guard k) (\<lambda>_. sample_now) sample_x402 d ''run-1'' () = (Inr None, ())"
proof -
  obtain d k where v: "vr_valid (verify_decision ref_host
      \<lparr>vi_decision = decision_json d, vi_action = action_json sample_x402_action, vi_registry = registry_json [k], vi_at = sample_now,
       vi_policy_version = Some ''1.0.0'', vi_requirements_hash = Some sample_requirements_hash\<rparr>)"
    "vr_verdict (verify_decision ref_host
      \<lparr>vi_decision = decision_json d, vi_action = action_json sample_x402_action, vi_registry = registry_json [k], vi_at = sample_now,
       vi_policy_version = Some ''1.0.0'', vi_requirements_hash = Some sample_requirements_hash\<rparr>) = Some ALLOW"
    "d_action_hash d = hash_canonical ref_host (action_json sample_x402_action)"
    using sample_verified [OF sample_x402_action_ok] by (auto simp: sample_x402_action_def bound_requirements_def)
  have "xi_requirements sample_x402 = sample_requirements" by (simp add: sample_x402_def)
  then have "verify_before_settlement ref_host sample_schemas (open_guard k) sample_now sample_x402 d =
      Inr (guard_verify ref_host (open_guard k) d sample_x402_action sample_now sample_requirements_hash)"
    using v(2) by (simp add: verify_before_settlement_def sample_action_from_x402 requirements_hash_def sample_normalised
        sample_requirements_hash_def [symmetric] reject_verdict_def guard_verify_def open_guard_def)
  then show ?thesis
    using v(1,3) by (intro exI [of _ d] exI [of _ k])
      (simp add: prepare_settlement_def bind_io_apply guard_verify_def sample_action_from_x402 
        consume_before_execution_def catch_io_apply open_guard_def)
qed

lemma sample_bad_decimals: "\<exists>e. action_from_x402 ref_host sample_schemas (sample_x402\<lparr>xi_asset_decimals := 19\<rparr>) = Inl e"
  by (simp add: action_from_x402_def sample_x402_def sample_normalised format_atomic_amount_def)

subsection \<open>The reconciliation journal\<close>

definition sample_prepare :: prepare_input where
  "sample_prepare = \<lparr>po_rail = X402, po_kind = X402Settlement, po_decision_id = ''decision-1'', po_action_hash = sample_hash,
     po_execution_ref = ''run-1'', po_binding_hash = sample_hash, po_prepared_at = sample_now\<rparr>"

definition sample_operation :: operation where
  "sample_operation = (prepared_operation ref_host sample_prepare)\<lparr>xo_operation_id := sample_hash\<rparr>"

lemma sample_date [simp]: "date_ok sample_now"
  by (simp add: date_ok_def sample_now_def)

lemma sample_prepare_ok: "\<exists>x s1. mem_prepare ref_host sample_prepare [] = (Inr x, s1)"
proof -
  have "operation_ok (prepared_operation ref_host sample_prepare)"
    using hash_canonical_hash_ok [OF ref_host_sha]
    by (simp add: operation_ok_def prepared_operation_def operation_id_def sample_prepare_def opt_ok_def
        timestamp_ok_iso_text len_between_def)
  moreover have "prepare_input_ok sample_prepare"
    by (simp add: prepare_input_ok_def sample_prepare_def len_between_def)
  ultimately show ?thesis by (simp add: mem_prepare_def Let_def)
qed

lemma sample_start:
  "\<exists>x r s'. run_ops (mem_journal_step H) [StartCall sample_hash sample_hash sample_now, StartCall sample_hash sample_hash sample_now]
      [(sample_hash, sample_operation)] = ([Inr (StartResult (Claimed x)), r], s')"
  by (simp add: bind_io_apply mem_start_def sample_operation_def prepared_operation_def sample_prepare_def start_operation_def
      split: prod.splits)

subsection \<open>EVM\<close>

definition sample_tx :: evm_tx where
  "sample_tx = \<lparr>et_type = Legacy, et_chain_id = ''1'', et_from = ''0x'' @ replicate 40 CHR ''a'',
     et_to = ''0x'' @ replicate 40 CHR ''b'', et_value = ''0'', et_data = ''0x'', et_nonce = ''0'', et_gas_limit = ''21000'',
     et_max_fee = None, et_max_priority_fee = None, et_gas_price = Some ''1'', et_access_list = []\<rparr>"

definition sample_evm :: evm_input where
  "sample_evm = \<lparr>ei_transaction = sample_tx, ei_principal_id = ''org-1'', ei_agent_id = ''agent-1'',
     ei_resource = ''https://api.example/data'', ei_purpose = ''data'', ei_asset = ''ETH'', ei_asset_decimals = 18,
     ei_extensions = None\<rparr>"

lemma sample_tx_ok [simp]: "evm_tx_ok sample_tx"
proof -
  have h: "evm_address_any (''0x'' @ replicate 40 c)" if "hex_char c" for c
    using that by (simp add: evm_address_any_def hex_body_def hex_any_char_def list_all_iff)
  have c: "hex_char CHR ''a''" "hex_char CHR ''b''" by (simp_all add: hex_char_def)
  have "positive_string ''1''" "uint_string ''0''" "hex_data ''0x''" "positive_string ''21000''" "uint_string ''1''"
    by code_simp+
  moreover have "safe_integer ''1''" "safe_integer ''0''"
    by (simp_all add: safe_integer_def digits_value_def digit_value_def)
  ultimately show ?thesis using h [OF c(1)] h [OF c(2)] by (simp add: evm_tx_ok_def sample_tx_def option_list_def)
qed

lemma sample_tx_normal [simp]: "normalise_evm sample_tx = sample_tx"
  by (simp add: normalise_evm_def sample_tx_def to_lower_def lower_char_def)

lemma sample_evm_ok [simp]: "evm_input_ok ref_host sample_evm"
  using sample_action_ok by (simp add: evm_input_ok_def sample_evm_def sample_action_def action_ok_def len_between_def)

lemma sample_action_from_evm: "\<exists>a. action_from_evm ref_host sample_evm = Inr a"
proof -
  have f: "format_units ''0'' 18 = ''0.00''" "uint_string ''0''" by code_simp+
  have n: "normalise_evm_transaction sample_tx = Inr sample_tx" by (simp add: normalise_evm_transaction_def)
  then have u: "evm_unsigned_hash ref_host sample_tx = Inr (hash_canonical ref_host (evm_tx_json sample_tx))"
    by (simp add: evm_unsigned_hash_def)
  have a: "evm_address (''0x'' @ replicate 40 CHR ''a'')" "evm_address (''0x'' @ replicate 40 CHR ''b'')"
    "positive_string ''1''" "len_between 1 128 (''eip155:'' @ ''1'')" "uint_string ''0''"
    "identifier_ok ''org-1''" "identifier_ok ''agent-1''"
    by code_simp+
  have e: "ei_transaction sample_evm = sample_tx" "ei_asset_decimals sample_evm = 18" "ei_resource sample_evm = ''https://api.example/data''"
    "ei_principal_id sample_evm = ''org-1''" "ei_agent_id sample_evm = ''agent-1''" "ei_asset sample_evm = ''ETH''"
    "ei_purpose sample_evm = ''data''"
    by (simp_all add: sample_evm_def)
  have t: "et_value sample_tx = ''0''" "et_from sample_tx = ''0x'' @ replicate 40 CHR ''a''"
    "et_to sample_tx = ''0x'' @ replicate 40 CHR ''b''" "et_chain_id sample_tx = ''1''" "et_nonce sample_tx = ''0''"
    by (simp_all add: sample_tx_def)
  have amt: "format_evm_amount ''0'' 18 = Inr ''0.00''" by (simp add: format_evm_amount_def f)
  show ?thesis
    using hash_canonical_hash_ok [OF ref_host_sha] sample_amounts(6) a
    by (simp add: action_from_evm_def sample_evm_ok e n u t amt check_action_def action_ok_def transaction_ok_def len_between_def)
qed

definition sample_evm_gate :: "key_entry \<Rightarrow> unit evm_state evm_gate" where
  "sample_evm_gate k = memory_evm_gate ref_host (\<lambda>_. throw ZodError)
     (\<lambda>c s. (Inr \<lparr>cr_success = True, cr_status = Consumed, cr_decision_id = co_decision_id c,
       cr_execution_ref = co_execution_ref c, cr_consumed_at = None, cr_reason = None\<rparr>, s))
     [k] (Some ''1.0.0'') (ret (et_from sample_tx)) (\<lambda>_. Inl ZodError) (\<lambda>_ _ _. throw ZodError)"

lemma sample_evm_gate_sel [simp]:
  "eg_consume (sample_evm_gate k) c s = (Inr \<lparr>cr_success = True, cr_status = Consumed, cr_decision_id = co_decision_id c,
     cr_execution_ref = co_execution_ref c, cr_consumed_at = None, cr_reason = None\<rparr>, s)"
  "eg_registry (sample_evm_gate k) = [k]" "eg_policy_version (sample_evm_gate k) = Some ''1.0.0''"
  "eg_address (sample_evm_gate k) s = (Inr (et_from sample_tx), s)"
  "eg_claim (sample_evm_gate k) h b s = on_part es_executions es_executions_update (evm_claim h b) s"
  "eg_sign (sample_evm_gate k) t s = (Inl ZodError, s\<lparr>es_signed := hash_canonical ref_host (evm_tx_json t) # es_signed s\<rparr>)"
  by (simp_all add: sample_evm_gate_def memory_evm_gate_def on_part_def)

definition fresh_evm :: "unit evm_state" where
  "fresh_evm = \<lparr>es_outside = (), es_executions = Map.empty, es_signed = []\<rparr>"

lemma sample_evm_signs:
  "\<exists>d k. es_signed (snd (sign_and_broadcast ref_host V (sample_evm_gate k) sample_now sample_evm d fresh_evm)) \<noteq> es_signed fresh_evm"
proof -
  obtain a where a: "action_from_evm ref_host sample_evm = Inr a" using sample_action_from_evm by blast
  from action_from_evm_bound [OF a] have b: "action_ok ref_host a"
    "a_reference a = EVMRef (ei_resource sample_evm) (et_type sample_tx) (et_chain_id sample_tx) (et_from sample_tx)
      (et_to sample_tx) (et_value sample_tx) (et_nonce sample_tx) (hash_canonical ref_host (evm_tx_json sample_tx))
      (hash_canonical ref_host (JStr (et_data sample_tx)))"
    by (simp_all add: evm_bound_def sample_evm_def)
  obtain d k where v: "vr_valid (verify_decision ref_host
      \<lparr>vi_decision = decision_json d, vi_action = action_json a, vi_registry = registry_json [k], vi_at = sample_now,
       vi_policy_version = Some ''1.0.0'', vi_requirements_hash = None\<rparr>)" "d_verdict d = ALLOW"
    using sample_verified [OF b(1)] by (auto simp: b(2) bound_requirements_def)
  have n: "normalise_evm_transaction sample_tx = Inr sample_tx" by (simp add: normalise_evm_transaction_def)
  have t: "ei_transaction sample_evm = sample_tx" "sample_evm\<lparr>ei_transaction := sample_tx\<rparr> = sample_evm"
    by (simp_all add: sample_evm_def)
  have l: "to_lower (et_from sample_tx) = et_from sample_tx"
    by (simp add: sample_tx_def to_lower_def lower_char_def)
  have p: "evm_prepare ref_host (sample_evm_gate k) sample_evm s = (Inr (sample_tx, a), s)" for s
    by (simp add: evm_prepare_def bind_io_apply t n a or_reject_def catch_io_apply l)
  obtain b ref s where "evm_begin ref_host (sample_evm_gate k) sample_now sample_evm d fresh_evm =
      (Inr (sample_tx, a, hash_canonical ref_host (evm_tx_json sample_tx), b, ref, NewClaim), s)" "es_signed s = []"
    using v by (simp add: evm_begin_def bind_io_apply p evm_verify_def b(2) or_reject_def catch_io_apply Let_def
        on_part_def fresh_evm_def evm_claim_def claim_execution_def)
  then show ?thesis
    by (intro exI [of _ d] exI [of _ k])
      (simp add: sign_and_broadcast_def bind_io_apply evm_execute_claimed_def or_reject_def catch_io_apply fresh_evm_def)
qed

definition sample_parsed :: parsed_tx where
  "sample_parsed = \<lparr>pt_type = ''legacy'', pt_chain_id = Some 1, pt_to = Some (et_to sample_tx), pt_value = None,
     pt_data = None, pt_nonce = Some 0, pt_gas = Some 21000, pt_max_fee = None, pt_max_priority_fee = None,
     pt_gas_price = Some 1, pt_access_list = None\<rparr>"

definition sample_viem :: viem where
  "sample_viem = \<lparr>vm_parse = (\<lambda>_. Some sample_parsed), vm_recover = (\<lambda>_. Some (et_from sample_tx)), vm_keccak = (\<lambda>x. x)\<rparr>"

lemma sample_digits: "digit_char 1 = CHR ''1''" "digit_char 2 = CHR ''2''"
  by code_simp+

lemma sample_signed: "verify_signed_evm sample_viem signed sample_tx = Inr True"
proof -
  have "nat_string 21000 = ''21000''" "nat_string 1 = ''1''" "nat_string 0 = ''0''"
    using sample_digits by (simp_all add: nat_string.simps)
  then show ?thesis
    by (simp add: verify_signed_evm_def normalise_evm_transaction_def)
      (simp add: sample_viem_def sample_parsed_def sample_tx_def to_lower_def lower_char_def string_of_number_def)
qed

end
