(* ===== verification/Receipts.thy ===== *)
theory Receipts
  imports Verifier
begin

section \<open>Signed action receipts\<close>

text \<open>
  What \<open>a2a-settlement-gate/src/receipt.ts\<close> and \<open>ap2-runtime-gate/src/receipt.ts\<close> share: both
  receipts are a version, a list of text properties, a fingerprint over these and the signing
  block, and an Ed25519 signature over the whole; they are verified against a key registry in
  the same steps. Lemmas: a receipt that was just signed verifies with the signer's entry; a
  receipt whose texts were altered under the old fingerprint does not.
\<close>

subsection \<open>The JSON forms\<close>

definition text_fields :: "(string \<times> string) list \<Rightarrow> (string \<times> json) list" where
  "text_fields fs = map (\<lambda>f. (fst f, JStr (snd f))) fs"

definition receipt_payload :: "string \<Rightarrow> (string \<times> string) list \<Rightarrow> string \<Rightarrow> json" where
  "receipt_payload version fs key = JObj ((''version'', JStr version)
     # (''signing'', JObj [(''alg'', JStr ''Ed25519''), (''key_id'', JStr key)]) # text_fields fs)"

definition receipt_signable :: "string \<Rightarrow> (string \<times> string) list \<Rightarrow> string \<Rightarrow> string \<Rightarrow> json" where
  "receipt_signable version fs key fp = JObj ((''version'', JStr version) # (''receipt_fingerprint'', JStr fp)
     # (''signing'', JObj [(''alg'', JStr ''Ed25519''), (''key_id'', JStr key)]) # text_fields fs)"

definition signed_receipt_json :: "string \<Rightarrow> (string \<times> string) list \<Rightarrow> string \<Rightarrow> string \<Rightarrow> string \<Rightarrow> json" where
  "signed_receipt_json version fs key fp sig = JObj ((''version'', JStr version) # (''receipt_fingerprint'', JStr fp)
     # (''signing'', JObj [(''alg'', JStr ''Ed25519''), (''key_id'', JStr key), (''signature'', JStr sig)])
     # text_fields fs)"

definition receipt_fingerprint :: "host \<Rightarrow> string \<Rightarrow> (string \<times> string) list \<Rightarrow> string \<Rightarrow> string" where
  "receipt_fingerprint H version fs key = hash_canonical H (receipt_payload version fs key)"

text \<open>The fingerprint and the signature of a new receipt.\<close>

definition sign_receipt :: "host \<Rightarrow> signer \<Rightarrow> string \<Rightarrow> (string \<times> string) list \<Rightarrow> error + string \<times> string" where
  "sign_receipt H sg version fs =
     (let fp = receipt_fingerprint H version fs (s_key_id sg)
      in bind_sum (s_sign sg (canonical_bytes H (receipt_signable version fs (s_key_id sg) fp))) (\<lambda>sig.
           Inr (fp, sig)))"

subsection \<open>Verification\<close>

record receipt_verification =
  rk_valid :: bool
  rk_schema :: bool
  rk_fingerprint :: bool
  rk_key :: bool
  rk_signature :: bool

definition no_receipt :: receipt_verification where
  "no_receipt = \<lparr>rk_valid = False, rk_schema = False, rk_fingerprint = False, rk_key = False, rk_signature = False\<rparr>"

text \<open>The checks after both schemas; \<open>executed\<close> is the receipt's \<open>executed_at\<close>.\<close>

definition check_receipt ::
  "host \<Rightarrow> string \<Rightarrow> (string \<times> string) list \<Rightarrow> string \<Rightarrow> string \<Rightarrow> string \<Rightarrow> string \<Rightarrow> key_entry list \<Rightarrow> receipt_verification" where
  "check_receipt H version fs executed key fp sig ks =
     (let checks = no_receipt\<lparr>rk_schema := True, rk_fingerprint := receipt_fingerprint H version fs key = fp\<rparr>
      in case find (\<lambda>k. k_key_id k = key) ks of
           None \<Rightarrow> checks
         | Some k \<Rightarrow>
             if k_status k = Revoked \<or> time_of executed < time_of (k_not_before k) \<or>
                (case k_not_after k of None \<Rightarrow> False | Some t \<Rightarrow> time_of t \<le> time_of executed)
             then checks
             else
               let pk = b64url_decode (k_public_key k)
               in if length pk \<noteq> 32 \<or> public_key_fingerprint H pk \<noteq> k_fingerprint k then checks
                  else
                    let ok = verify_ed25519 H (canonical_bytes H (receipt_signable version fs key fp)) sig pk
                    in checks\<lparr>rk_key := True, rk_signature := ok, rk_valid := rk_fingerprint checks \<and> ok\<rparr>)"

subsection \<open>What a valid receipt shows\<close>

lemma check_receipt_valid:
  "rk_valid (check_receipt H version fs executed key fp sig ks) \<longleftrightarrow>
    fp = receipt_fingerprint H version fs key \<and>
    (\<exists>k. find (\<lambda>k. k_key_id k = key) ks = Some k \<and> k_status k \<noteq> Revoked \<and>
       time_of (k_not_before k) \<le> time_of executed \<and>
       (\<forall>t. k_not_after k = Some t \<longrightarrow> time_of executed < time_of t) \<and>
       public_key_fingerprint H (b64url_decode (k_public_key k)) = k_fingerprint k \<and>
       verify_ed25519 H (canonical_bytes H (receipt_signable version fs key fp)) sig (b64url_decode (k_public_key k)))"
  by (auto simp: check_receipt_def no_receipt_def Let_def verify_ed25519_def not_le not_less
      split: option.splits)

lemma signed_receipt_verifies:
  assumes "sign_receipt H sg version fs = Inr (fp, sig)" "signer_ok H sg" "length (s_public_key sg) = 32"
    and k: "key_registry_entry H sg nb na st = Inr k" "st \<noteq> Some Revoked" "registry_ok ks" "k \<in> set ks"
    and window: "nb \<le> time_of executed" "\<forall>t. na = Some t \<longrightarrow> time_of executed < t"
  shows "rk_valid (check_receipt H version fs executed (s_key_id sg) fp sig ks)"
proof -
  from assms(1) have fp: "fp = receipt_fingerprint H version fs (s_key_id sg)"
    and sig: "s_sign sg (canonical_bytes H (receipt_signable version fs (s_key_id sg) fp)) = Inr sig"
    by (auto simp: sign_receipt_def bind_sum_Inr Let_def)
  have "verify_ed25519 H (canonical_bytes H (receipt_signable version fs (s_key_id sg) fp)) sig (s_public_key sg)"
    using assms(2) sig unfolding signer_ok_def by blast
  moreover note kf = key_registry_entry_fields [OF k(1)]
  moreover have "find (\<lambda>x. k_key_id x = s_key_id sg) ks = Some k"
    using find_key_distinct [of ks k] k kf by (simp add: registry_ok_def)
  moreover have "k_status k \<noteq> Revoked" using kf k(2) by (auto split: option.splits)
  moreover have "\<forall>t. k_not_after k = Some t \<longrightarrow> time_of executed < time_of t"
    using kf window(2) by auto
  ultimately show ?thesis
    using fp window(1) by (simp add: check_receipt_valid b64url_roundtrip)
qed

text \<open>The fingerprint determines the texts and the key.\<close>

lemma map_of_text_fields: "map_of (text_fields fs) k = map_option JStr (map_of fs k)"
  by (induction fs) (auto simp: text_fields_def)

lemma receipt_payload_inj:
  assumes "json_norm (receipt_payload version fs key) = json_norm (receipt_payload version gs key')"
    and "map fst fs = map fst gs" "distinct (map fst fs)" "''version'' \<notin> set (map fst fs)" "''signing'' \<notin> set (map fst fs)"
  shows "fs = gs \<and> key = key'"
proof -
  let ?f = "\<lambda>fs key. obj_fields (receipt_payload version fs key)"
  have lookup: "map_of (?f fs key) k = map_option JStr (map_of fs k)" if "k \<noteq> ''version''" "k \<noteq> ''signing''" for fs key k
    using that by (simp add: receipt_payload_def map_of_text_fields)
  have "map_of fs k = map_of gs k" for k
  proof (cases "k \<in> set (map fst fs)")
    case True
    with assms(2) have "k \<in> set (map fst gs)" by simp
    with True have "map_of fs k \<noteq> None" "map_of gs k \<noteq> None" by (simp_all add: map_of_eq_None_iff)
    then obtain v w where vw: "map_of fs k = Some v" "map_of gs k = Some w" by blast
    have k: "k \<noteq> ''version''" "k \<noteq> ''signing''" using True assms(4,5) by metis+
    have "v = w"
      by (rule json_norm_field_str [OF assms(1), of k]) (simp_all add: lookup [OF k] vw)
    with vw show ?thesis by simp
  next
    case False
    with assms(2) have "map_of fs k = None" "map_of gs k = None" by (metis map_of_eq_None_iff set_map)+
    then show ?thesis by simp
  qed
  then have "map_of fs = map_of gs" by (rule ext)
  then have "set fs = set gs" using assms(2,3) by (metis map_of_inject_set)
  moreover have "fs = gs"
  proof (rule nth_equalityI)
    show l: "length fs = length gs" using assms(2) by (metis length_map)
    fix i assume i: "i < length fs"
    have "fst (fs ! i) = fst (gs ! i)" using assms(2) i l by (metis nth_map)
    moreover have "map_of fs (fst (fs ! i)) = Some (snd (fs ! i))" "map_of gs (fst (gs ! i)) = Some (snd (gs ! i))"
      using assms(2,3) i l by (simp_all add: map_of_eq_Some_iff)
    ultimately show "fs ! i = gs ! i" using \<open>map_of fs = map_of gs\<close> by (simp add: prod_eq_iff)
  qed
  moreover have "key = key'"
  proof (rule json_norm_field_str [where k = "''key_id''"])
    show "json_norm (JObj [(''alg'', JStr ''Ed25519''), (''key_id'', JStr key)]) =
        json_norm (JObj [(''alg'', JStr ''Ed25519''), (''key_id'', JStr key')])"
      by (rule json_norm_field_Some [OF assms(1), of "''signing''"]) (simp_all add: receipt_payload_def)
  qed simp_all
  ultimately show ?thesis by simp
qed

lemma altered_receipt_rejected:
  assumes "jcs_ok H" "fp = receipt_fingerprint H version fs key"
    and "hash_binds H (receipt_payload version fs key) (receipt_payload version gs key')"
    and "map fst fs = map fst gs" "distinct (map fst fs)" "''version'' \<notin> set (map fst fs)" "''signing'' \<notin> set (map fst fs)"
    and "fs \<noteq> gs \<or> key \<noteq> key'"
  shows "\<not> rk_valid (check_receipt H version gs executed key' fp sig ks)"
proof
  assume "rk_valid (check_receipt H version gs executed key' fp sig ks)"
  then have "receipt_fingerprint H version fs key = receipt_fingerprint H version gs key'"
    using assms(2) by (simp add: check_receipt_valid)
  then have "json_norm (receipt_payload version fs key) = json_norm (receipt_payload version gs key')"
    unfolding receipt_fingerprint_def by (rule hash_canonical_inj [OF assms(1,3)])
  from receipt_payload_inj [OF this assms(4-7)] assms(8) show False by blast
qed

end
