(* ===== verification/A2aGate.thy ===== *)
theory A2aGate
  imports X402 Receipts
begin

section \<open>The A2A settlement gate\<close>

text \<open>
  \<open>a2a-settlement-gate/src\<close>: \<open>types.ts\<close> (submission, observation and receipt with their
  schemas), \<open>receipt.ts\<close>, \<open>store.ts\<close> (an instance of \<open>claim_execution\<close> in \<open>Effects\<close>) and
  \<open>gate.ts\<close>. The settlement provider and the delegate are parameters. Lemmas: the delegate
  runs only after an observation of the required finality that is bound to this task and
  submission, under an \<open>ALLOW\<close> that verified before and after settlement; over any sequence of
  calls it runs at most once for each execution reference; signed receipts verify.
\<close>

subsection \<open>types.ts\<close>

definition finality_ok :: "string \<Rightarrow> bool" where
  "finality_ok s \<longleftrightarrow> len_between 1 128 s \<and> s \<notin> {''UNKNOWN'', ''PENDING'', ''PAYMENT_SUBMITTED''}"

record a2a_submission =
  as_id :: string
  as_task :: string
  as_context :: string
  as_resource :: string
  as_requirements_hash :: string
  as_submitted_at :: string
  as_settlement_ref :: "string option"

definition submission_ok :: "host \<Rightarrow> a2a_submission \<Rightarrow> bool" where
  "submission_ok H s \<longleftrightarrow>
     identifier_ok (as_id s) \<and> identifier_ok (as_task s) \<and> identifier_ok (as_context s) \<and>
     url_ok H (as_resource s) \<and> hash_ok (as_requirements_hash s) \<and> timestamp_ok (as_submitted_at s) \<and>
     opt_ok (len_between 1 512) (as_settlement_ref s)"

record a2a_binding =
  ab_task :: string
  ab_context :: string
  ab_submission :: string
  ab_requirements_hash :: string
  ab_resource :: string
  ab_finality :: string

definition binding_ok :: "host \<Rightarrow> a2a_binding \<Rightarrow> bool" where
  "binding_ok H b \<longleftrightarrow>
     identifier_ok (ab_task b) \<and> identifier_ok (ab_context b) \<and> identifier_ok (ab_submission b) \<and>
     hash_ok (ab_requirements_hash b) \<and> url_ok H (ab_resource b) \<and> finality_ok (ab_finality b)"

definition binding_json :: "a2a_binding \<Rightarrow> json" where
  "binding_json b = JObj
     [(''version'', JStr ''inntris-a2a-binding-v1''), (''task_id'', JStr (ab_task b)),
      (''context_id'', JStr (ab_context b)), (''payment_submission_id'', JStr (ab_submission b)),
      (''payment_requirements_hash'', JStr (ab_requirements_hash b)), (''resource'', JStr (ab_resource b)),
      (''required_finality'', JStr (ab_finality b))]"

datatype settlement_state = PAYMENT_SUBMITTED | SETTLED | FAILED | UNKNOWN

fun state_string :: "settlement_state \<Rightarrow> string" where
  "state_string PAYMENT_SUBMITTED = ''PAYMENT_SUBMITTED''"
| "state_string SETTLED = ''SETTLED''"
| "state_string FAILED = ''FAILED''"
| "state_string UNKNOWN = ''UNKNOWN''"

record a2a_observation =
  ao_state :: settlement_state
  ao_task :: string
  ao_context :: string
  ao_submission :: string
  ao_requirements_hash :: string
  ao_resource :: string
  ao_settlement_ref :: "string option"
  ao_finality :: "string option"
  ao_observed_at :: string
  ao_evidence :: "(string \<times> json) list"

definition observation_ok :: "host \<Rightarrow> a2a_observation \<Rightarrow> bool" where
  "observation_ok H ob \<longleftrightarrow>
     identifier_ok (ao_task ob) \<and> identifier_ok (ao_context ob) \<and> identifier_ok (ao_submission ob) \<and>
     hash_ok (ao_requirements_hash ob) \<and> url_ok H (ao_resource ob) \<and>
     opt_ok (len_between 1 512) (ao_settlement_ref ob) \<and> opt_ok (len_between 1 128) (ao_finality ob) \<and>
     timestamp_ok (ao_observed_at ob) \<and>
     \<not> (ao_state ob = SETTLED \<and> (ao_settlement_ref ob = None \<or> ao_finality ob = None))"

definition observation_json :: "a2a_observation \<Rightarrow> json" where
  "observation_json ob = JObj
     [(''version'', JStr ''inntris-a2a-settlement-observation-v1''), (''state'', JStr (state_string (ao_state ob))),
      (''task_id'', JStr (ao_task ob)), (''context_id'', JStr (ao_context ob)),
      (''payment_submission_id'', JStr (ao_submission ob)),
      (''payment_requirements_hash'', JStr (ao_requirements_hash ob)), (''resource'', JStr (ao_resource ob)),
      (''settlement_ref'', null_str (ao_settlement_ref ob)), (''finality'', null_str (ao_finality ob)),
      (''observed_at'', JStr (ao_observed_at ob)), (''evidence'', JObj (ao_evidence ob))]"

definition parse_observation :: "host \<Rightarrow> json \<Rightarrow> a2a_observation option" where
  "parse_observation H v = do {
     ob \<leftarrow> strict_obj [''version'', ''state'', ''task_id'', ''context_id'', ''payment_submission_id'',
       ''payment_requirements_hash'', ''resource'', ''settlement_ref'', ''finality'', ''observed_at'', ''evidence''] v;
     get_lit ob ''version'' ''inntris-a2a-settlement-observation-v1''; ss \<leftarrow> get_str ob ''state'';
     st \<leftarrow> enum_read state_string [PAYMENT_SUBMITTED, SETTLED, FAILED, UNKNOWN] ss;
     ti \<leftarrow> get_str ob ''task_id''; ci \<leftarrow> get_str ob ''context_id'';
     si \<leftarrow> get_str ob ''payment_submission_id''; rh \<leftarrow> get_str ob ''payment_requirements_hash'';
     r \<leftarrow> get_str ob ''resource''; sr \<leftarrow> get_null_str ob ''settlement_ref'';
     fi \<leftarrow> get_null_str ob ''finality''; oa \<leftarrow> get_str ob ''observed_at'';
     ev \<leftarrow> (case map_of ob ''evidence'' of Some (JObj e) \<Rightarrow> Some e | _ \<Rightarrow> None);
     let x = \<lparr>ao_state = st, ao_task = ti, ao_context = ci, ao_submission = si, ao_requirements_hash = rh,
       ao_resource = r, ao_settlement_ref = sr, ao_finality = fi, ao_observed_at = oa, ao_evidence = ev\<rparr>;
     guard_opt (observation_ok H x) x }"

subsection \<open>receipt.ts\<close>

record a2a_receipt =
  ar_receipt_id :: string
  ar_fingerprint :: string
  ar_task :: string
  ar_context :: string
  ar_resource :: string
  ar_submission :: string
  ar_decision_id :: string
  ar_decision_fingerprint :: string
  ar_action_hash :: string
  ar_settlement_ref :: string
  ar_evidence_hash :: string
  ar_execution_ref :: string
  ar_result_hash :: string
  ar_executed_at :: string
  ar_key_id :: string
  ar_signature :: string

definition a2a_receipt_version :: string where
  "a2a_receipt_version = ''inntris-a2a-action-receipt-v1''"

definition a2a_receipt_fields :: "a2a_receipt \<Rightarrow> (string \<times> string) list" where
  "a2a_receipt_fields r =
     [(''receipt_id'', ar_receipt_id r), (''task_id'', ar_task r), (''context_id'', ar_context r),
      (''resource'', ar_resource r), (''payment_submission_id'', ar_submission r),
      (''decision_id'', ar_decision_id r), (''decision_fingerprint'', ar_decision_fingerprint r),
      (''action_hash'', ar_action_hash r), (''settlement_ref'', ar_settlement_ref r),
      (''settlement_evidence_hash'', ar_evidence_hash r), (''execution_ref'', ar_execution_ref r),
      (''delegate_result_hash'', ar_result_hash r), (''executed_at'', ar_executed_at r)]"

definition a2a_receipt_ok :: "host \<Rightarrow> a2a_receipt \<Rightarrow> bool" where
  "a2a_receipt_ok H r \<longleftrightarrow>
     identifier_ok (ar_receipt_id r) \<and> hash_ok (ar_fingerprint r) \<and> identifier_ok (ar_task r) \<and>
     identifier_ok (ar_context r) \<and> url_ok H (ar_resource r) \<and> identifier_ok (ar_submission r) \<and>
     identifier_ok (ar_decision_id r) \<and> hash_ok (ar_decision_fingerprint r) \<and> hash_ok (ar_action_hash r) \<and>
     len_between 1 512 (ar_settlement_ref r) \<and> hash_ok (ar_evidence_hash r) \<and>
     len_between 1 512 (ar_execution_ref r) \<and> hash_ok (ar_result_hash r) \<and> timestamp_ok (ar_executed_at r) \<and>
     identifier_ok (ar_key_id r) \<and> base64url (ar_signature r)"

definition a2a_receipt_json :: "a2a_receipt \<Rightarrow> json" where
  "a2a_receipt_json r =
     signed_receipt_json a2a_receipt_version (a2a_receipt_fields r) (ar_key_id r) (ar_fingerprint r) (ar_signature r)"

definition parse_a2a_receipt :: "host \<Rightarrow> json \<Rightarrow> a2a_receipt option" where
  "parse_a2a_receipt H v = do {
     ob \<leftarrow> strict_obj [''version'', ''receipt_id'', ''receipt_fingerprint'', ''task_id'', ''context_id'', ''resource'',
       ''payment_submission_id'', ''decision_id'', ''decision_fingerprint'', ''action_hash'', ''settlement_ref'',
       ''settlement_evidence_hash'', ''execution_ref'', ''delegate_result_hash'', ''executed_at'', ''signing''] v;
     get_lit ob ''version'' ''inntris-a2a-action-receipt-v1''; ri \<leftarrow> get_str ob ''receipt_id'';
     fp \<leftarrow> get_str ob ''receipt_fingerprint''; ti \<leftarrow> get_str ob ''task_id''; ci \<leftarrow> get_str ob ''context_id'';
     r \<leftarrow> get_str ob ''resource''; si \<leftarrow> get_str ob ''payment_submission_id''; di \<leftarrow> get_str ob ''decision_id'';
     df \<leftarrow> get_str ob ''decision_fingerprint''; ah \<leftarrow> get_str ob ''action_hash'';
     sr \<leftarrow> get_str ob ''settlement_ref''; eh \<leftarrow> get_str ob ''settlement_evidence_hash'';
     xr \<leftarrow> get_str ob ''execution_ref''; rh \<leftarrow> get_str ob ''delegate_result_hash'';
     ea \<leftarrow> get_str ob ''executed_at''; sv \<leftarrow> map_of ob ''signing'';
     so \<leftarrow> strict_obj [''alg'', ''key_id'', ''signature''] sv; get_lit so ''alg'' ''Ed25519'';
     ki \<leftarrow> get_str so ''key_id''; sg \<leftarrow> get_str so ''signature'';
     let x = \<lparr>ar_receipt_id = ri, ar_fingerprint = fp, ar_task = ti, ar_context = ci, ar_resource = r,
       ar_submission = si, ar_decision_id = di, ar_decision_fingerprint = df, ar_action_hash = ah,
       ar_settlement_ref = sr, ar_evidence_hash = eh, ar_execution_ref = xr, ar_result_hash = rh,
       ar_executed_at = ea, ar_key_id = ki, ar_signature = sg\<rparr>;
     guard_opt (a2a_receipt_ok H x) x }"

text \<open>\<open>createA2AActionReceipt\<close>: the receipt identifier is an argument, as \<open>randomUUID\<close> draws it when
  the caller gives none; \<open>toISOString\<close> throws outside the range of dates.\<close>

definition create_a2a_receipt ::
  "host \<Rightarrow> signer \<Rightarrow> string \<Rightarrow> string \<times> string \<Rightarrow> string \<Rightarrow> string \<Rightarrow> decision \<Rightarrow> a2a_observation \<Rightarrow> string \<Rightarrow> json \<Rightarrow> int \<Rightarrow>
    error + a2a_receipt" where
  "create_a2a_receipt H sg rid task resource sub d ob ref result executed =
     (case to_iso_string executed of
        None \<Rightarrow> Inl (JsError ''RangeError'' ''Invalid time value'')
      | Some ea \<Rightarrow>
          let u = \<lparr>ar_receipt_id = rid, ar_fingerprint = [], ar_task = fst task, ar_context = snd task,
            ar_resource = resource, ar_submission = sub, ar_decision_id = d_decision_id d,
            ar_decision_fingerprint = d_fingerprint d, ar_action_hash = d_action_hash d,
            ar_settlement_ref = (case ao_settlement_ref ob of None \<Rightarrow> [] | Some r \<Rightarrow> r),
            ar_evidence_hash = hash_canonical H (observation_json ob), ar_execution_ref = ref,
            ar_result_hash = hash_canonical H result, ar_executed_at = ea, ar_key_id = s_key_id sg, ar_signature = []\<rparr>
          in bind_sum (sign_receipt H sg a2a_receipt_version (a2a_receipt_fields u)) (\<lambda>(fp, sig).
               let r = u\<lparr>ar_fingerprint := fp, ar_signature := sig\<rparr>
               in if a2a_receipt_ok H r then Inr r else Inl ZodError))"

definition verify_a2a_receipt :: "host \<Rightarrow> json \<Rightarrow> json \<Rightarrow> receipt_verification" where
  "verify_a2a_receipt H v reg =
     (case (parse_a2a_receipt H v, parse_registry reg) of
        (Some r, Some ks) \<Rightarrow> check_receipt H a2a_receipt_version (a2a_receipt_fields r) (ar_executed_at r) (ar_key_id r)
          (ar_fingerprint r) (ar_signature r) ks
      | _ \<Rightarrow> no_receipt)"

subsection \<open>store.ts\<close>

text \<open>Executions are keyed by their execution reference; a completed one keeps receipt and result.\<close>

type_synonym a2a_executions = "string \<Rightarrow> (string, a2a_receipt \<times> json) stored_execution option"

definition a2a_claim ::
  "string \<Rightarrow> string \<Rightarrow> (error, a2a_executions, (string, a2a_receipt \<times> json) execution_claim) io" where
  "a2a_claim = claim_execution"

definition a2a_complete :: "string \<Rightarrow> string \<Rightarrow> a2a_receipt \<times> json \<Rightarrow> (error, a2a_executions, unit) io" where
  "a2a_complete = complete_execution ''A2A execution was not claimed with the same binding''"

subsection \<open>gate.ts\<close>

record a2a_input =
  aa_task :: string
  aa_context :: string
  aa_submission :: a2a_submission
  aa_payment :: x402_input

text \<open>\<open>PreparedInput\<close>; its task is the pair of the two identifiers.\<close>

record a2a_prepared =
  pa_task :: "string \<times> string"
  pa_submission :: a2a_submission
  pa_payment :: x402_input
  pa_binding :: a2a_binding
  pa_finality :: string

record a2a_request =
  aq_task :: "string \<times> string"
  aq_submission :: a2a_submission
  aq_payment :: x402_input
  aq_decision :: decision
  aq_idempotency_key :: string
  aq_finality :: string

record 's a2a_gate =
  ag_guard :: "'s guard"
  ag_settle :: "a2a_request \<Rightarrow> (error, 's, json) io"
  ag_confirm :: "a2a_request \<Rightarrow> string \<Rightarrow> (error, 's, json) io"
  ag_signer :: signer
  ag_finality :: string
  ag_claim :: "string \<Rightarrow> string \<Rightarrow> (error, 's, (string, a2a_receipt \<times> json) execution_claim) io"
  ag_complete :: "string \<Rightarrow> string \<Rightarrow> a2a_receipt \<times> json \<Rightarrow> (error, 's, unit) io"

record a2a_delegate_input =
  dl_task :: "string \<times> string"
  dl_decision :: decision
  dl_settlement :: a2a_observation
  dl_execution_ref :: string

record a2a_result =
  az_decision :: decision
  az_settlement :: a2a_observation
  az_execution_ref :: string
  az_receipt :: a2a_receipt
  az_result :: json
  az_replayed :: bool

definition a2a_error :: "string \<Rightarrow> string option \<Rightarrow> string \<Rightarrow> error" where
  "a2a_error code cause msg = GateError ''InntrisA2ASettlementGateError'' code cause msg"

definition or_a2a :: "(error, 's, 'a) io \<Rightarrow> string \<Rightarrow> string \<Rightarrow> (error, 's, 'a) io" where
  "or_a2a m code msg = catch_io m (\<lambda>e. throw (a2a_error code (Some (error_name e)) msg))"

text \<open>The constructor: an inconclusive finality is refused.\<close>

definition new_a2a_gate :: "'s a2a_gate \<Rightarrow> error + 's a2a_gate" where
  "new_a2a_gate G = (if finality_ok (ag_finality G) then Inr G else Inl ZodError)"

definition a2a_prepare :: "host \<Rightarrow> x402_schemas \<Rightarrow> a2a_input \<Rightarrow> string \<Rightarrow> error + a2a_prepared" where
  "a2a_prepare H X i finality =
     (let s = aa_submission i; pay = aa_payment i in
      if \<not> (identifier_ok (aa_task i) \<and> identifier_ok (aa_context i) \<and> submission_ok H s \<and> finality_ok finality)
      then Inl (a2a_error ''INVALID_A2A_INPUT'' None ''A2A task, payment submission, or finality input is invalid'')
      else
        (case requirements_hash H X (xi_requirements pay) of
           Inl _ \<Rightarrow> Inl (a2a_error ''INVALID_A2A_INPUT'' None ''The x402 payment requirements are invalid'')
         | Inr rh \<Rightarrow>
             if as_task s \<noteq> aa_task i \<or> as_context s \<noteq> aa_context i \<or> as_resource s \<noteq> xi_resource pay \<or>
                as_requirements_hash s \<noteq> rh
             then Inl (a2a_error ''PAYMENT_BINDING_MISMATCH'' None
                    ''The submitted payment is not bound to this A2A task and x402 challenge'')
             else
               let b = \<lparr>ab_task = aa_task i, ab_context = aa_context i, ab_submission = as_id s,
                 ab_requirements_hash = rh, ab_resource = xi_resource pay, ab_finality = finality\<rparr>
               in if \<not> binding_ok H b then Inl ZodError
                  else Inr \<lparr>pa_task = (aa_task i, aa_context i), pa_submission = s,
                    pa_payment = pay\<lparr>xi_extensions := Some (AList.update ''inntris_a2a'' (binding_json b)
                      (case xi_extensions pay of None \<Rightarrow> [] | Some e \<Rightarrow> e))\<rparr>,
                    pa_binding = b, pa_finality = finality\<rparr>))"

definition verify_settlement_binding :: "a2a_observation \<Rightarrow> a2a_prepared \<Rightarrow> error + unit" where
  "verify_settlement_binding ob p =
     (let s = pa_submission p in
      if ao_task ob \<noteq> fst (pa_task p) \<or> ao_context ob \<noteq> snd (pa_task p) \<or> ao_submission ob \<noteq> as_id s \<or>
         ao_requirements_hash ob \<noteq> as_requirements_hash s \<or> ao_resource ob \<noteq> xi_resource (pa_payment p)
      then Inl (a2a_error ''SETTLEMENT_BINDING_MISMATCH'' None
             ''Settlement evidence is bound to a different task, submission, or resource'')
      else if as_settlement_ref s \<noteq> None \<and> ao_settlement_ref ob \<noteq> as_settlement_ref s
      then Inl (a2a_error ''SETTLEMENT_BINDING_MISMATCH'' None
             ''Settlement evidence is bound to a different settlement reference'')
      else if time_of (ao_observed_at ob) < time_of (as_submitted_at s)
      then Inl (a2a_error ''SETTLEMENT_BINDING_MISMATCH'' None ''Settlement evidence predates the submitted payment'')
      else Inr ())"

definition require_final_settlement :: "a2a_observation \<Rightarrow> string \<Rightarrow> error + unit" where
  "require_final_settlement ob finality =
     (if ao_state ob = UNKNOWN \<or> ao_finality ob = Some ''UNKNOWN''
      then Inl (a2a_error ''SETTLEMENT_UNKNOWN'' None ''Settlement state is unknown; delegate execution is paused'')
      else if ao_state ob = FAILED
      then Inl (a2a_error ''SETTLEMENT_FAILED'' None ''Settlement failed; delegate execution is blocked'')
      else if ao_state ob \<noteq> SETTLED \<or> ao_settlement_ref ob = None \<or> ao_finality ob \<noteq> Some finality
      then Inl (a2a_error ''SETTLEMENT_NOT_FINAL'' None
             ''Payment submission is not proof of the required settlement finality'')
      else Inr ())"

definition a2a_execution_ref :: "host \<Rightarrow> a2a_prepared \<Rightarrow> a2a_observation \<Rightarrow> decision \<Rightarrow> string" where
  "a2a_execution_ref H p ob d = ''a2a-execution:'' @ drop 7 (hash_canonical H (JObj
     [(''version'', JStr ''inntris-a2a-execution-ref-v1''), (''task_id'', JStr (fst (pa_task p))),
      (''context_id'', JStr (snd (pa_task p))), (''payment_submission_id'', JStr (as_id (pa_submission p))),
      (''settlement_ref'', null_str (ao_settlement_ref ob)), (''action_hash'', JStr (d_action_hash d))]))"

definition a2a_binding_hash :: "host \<Rightarrow> a2a_prepared \<Rightarrow> a2a_observation \<Rightarrow> decision \<Rightarrow> string" where
  "a2a_binding_hash H p ob d = hash_canonical H (JObj
     [(''version'', JStr ''inntris-a2a-execution-binding-v1''), (''task_id'', JStr (fst (pa_task p))),
      (''context_id'', JStr (snd (pa_task p))), (''payment_submission_id'', JStr (as_id (pa_submission p))),
      (''resource'', JStr (xi_resource (pa_payment p))), (''settlement_ref'', null_str (ao_settlement_ref ob)),
      (''action_hash'', JStr (d_action_hash d))])"

text \<open>A submission with a settlement reference is confirmed, one without is settled.\<close>

definition a2a_settlement :: "host \<Rightarrow> 's a2a_gate \<Rightarrow> a2a_prepared \<Rightarrow> decision \<Rightarrow> (error, 's, json) io" where
  "a2a_settlement H G p d =
     (let q = \<lparr>aq_task = pa_task p, aq_submission = pa_submission p, aq_payment = pa_payment p, aq_decision = d,
        aq_idempotency_key = ''a2a-settlement:'' @ drop 7 (hash_canonical H (binding_json (pa_binding p))),
        aq_finality = pa_finality p\<rparr>
      in case as_settlement_ref (pa_submission p) of None \<Rightarrow> ag_settle G q | Some r \<Rightarrow> ag_confirm G q r)"

text \<open>\<open>process\<close> up to a conclusive observation.\<close>

definition a2a_settled ::
  "host \<Rightarrow> x402_schemas \<Rightarrow> 's a2a_gate \<Rightarrow> int \<Rightarrow> a2a_input \<Rightarrow> (error, 's, a2a_prepared \<times> decision \<times> a2a_observation) io" where
  "a2a_settled H X G now i =
     bind_io (lift_io (a2a_prepare H X i (ag_finality G))) (\<lambda>p.
     bind_io (or_a2a (guard_authorise H X (ag_guard G) now (pa_payment p)) ''DECISION_INVALID''
       ''Inntris decision evaluation or verification failed closed'') (\<lambda>d.
     if d_verdict d \<noteq> ALLOW
     then throw (a2a_error ''DECISION_NOT_ALLOW'' None ''Inntris did not authorise the paid A2A task'')
     else
       bind_io (or_a2a (a2a_settlement H G p d) ''SETTLEMENT_UNKNOWN''
         ''Settlement provider failed; delegate execution is paused'') (\<lambda>raw.
       case parse_observation H raw of
         None \<Rightarrow> throw (a2a_error ''SETTLEMENT_UNKNOWN'' (Some ''INVALID_SETTLEMENT_SCHEMA'')
                   ''Settlement provider returned malformed evidence'')
       | Some ob \<Rightarrow>
           bind_io (lift_io (verify_settlement_binding ob p)) (\<lambda>_.
           bind_io (lift_io (require_final_settlement ob (pa_finality p))) (\<lambda>_. ret (p, d, ob))))))"

text \<open>\<open>process\<close> up to the claim of the execution.\<close>

definition a2a_begin ::
  "host \<Rightarrow> x402_schemas \<Rightarrow> 's a2a_gate \<Rightarrow> (nat \<Rightarrow> int) \<Rightarrow> a2a_input \<Rightarrow>
    (error, 's, a2a_prepared \<times> decision \<times> a2a_observation \<times> string \<times> string \<times> (string, a2a_receipt \<times> json) execution_claim) io" where
  "a2a_begin H X G clk i =
     bind_io (a2a_settled H X G (clk 0) i) (\<lambda>(p, d, ob).
     bind_io (lift_io (verify_before_settlement H X (ag_guard G) (clk 1) (pa_payment p) d)) (\<lambda>v.
     if \<not> vr_valid v \<or> vr_verdict v \<noteq> Some ALLOW
     then throw (a2a_error ''DECISION_INVALID'' (Some (join_with '','' (map reason_string (vr_reasons v))))
            ''The Inntris decision is no longer valid after settlement confirmation'')
     else
       let ref = a2a_execution_ref H p ob d in
       bind_io (consume_before_execution (ag_guard G) d ref) (\<lambda>c.
       if \<not> cr_success c
       then throw (a2a_error ''DECISION_CONSUMPTION_FAILED'' (map_option reason_string (cr_reason c))
              ''Inntris decision consumption failed; delegate execution is blocked'')
       else
         let b = a2a_binding_hash H p ob d in
         bind_io (or_a2a (ag_claim G ref b) ''DELEGATE_EXECUTION_STORE_UNAVAILABLE''
           ''Delegate execution state is unavailable; automatic execution is paused'') (\<lambda>cl.
         ret (p, d, ob, ref, b, cl)))))"

text \<open>After the delegate: sign the receipt, complete the execution.\<close>

definition a2a_finish ::
  "host \<Rightarrow> 's a2a_gate \<Rightarrow> int \<Rightarrow> string \<Rightarrow> a2a_prepared \<Rightarrow> decision \<Rightarrow> a2a_observation \<Rightarrow> string \<Rightarrow> string \<Rightarrow> json \<Rightarrow>
    (error, 's, a2a_result) io" where
  "a2a_finish H G now rid p d ob ref b result =
     bind_io (or_a2a (lift_io (create_a2a_receipt H (ag_signer G) rid (pa_task p) (xi_resource (pa_payment p))
         (as_id (pa_submission p)) d ob ref result now)) ''RECEIPT_SIGNING_FAILED''
       ''Delegate completed but its action receipt could not be signed; reconciliation is required'') (\<lambda>r.
     bind_io (or_a2a (ag_complete G ref b (r, result)) ''DELEGATE_EXECUTION_STORE_UNAVAILABLE''
       ''Delegate completed but execution state could not be finalised; reconciliation is required'') (\<lambda>_.
     ret \<lparr>az_decision = d, az_settlement = ob, az_execution_ref = ref, az_receipt = r, az_result = result,
          az_replayed = False\<rparr>))"

definition a2a_process ::
  "host \<Rightarrow> x402_schemas \<Rightarrow> 's a2a_gate \<Rightarrow> (nat \<Rightarrow> int) \<Rightarrow> string \<Rightarrow> a2a_input \<Rightarrow>
    (a2a_delegate_input \<Rightarrow> (error, 's, json) io) \<Rightarrow> (error, 's, a2a_result) io" where
  "a2a_process H X G clk rid i delegate =
     bind_io (a2a_begin H X G clk i) (\<lambda>(p, d, ob, ref, b, cl).
       case cl of
         ClaimConflict \<Rightarrow> throw (a2a_error ''DELEGATE_EXECUTION_CONFLICT'' None
           ''Execution reference is already bound to different A2A evidence'')
       | ClaimInFlight \<Rightarrow> throw (a2a_error ''DELEGATE_EXECUTION_IN_PROGRESS'' None
           ''Delegate execution has an unresolved prior attempt; automatic retry is paused'')
       | ClaimCompleted b' c \<Rightarrow> ret \<lparr>az_decision = d, az_settlement = ob, az_execution_ref = ref,
           az_receipt = fst c, az_result = snd c, az_replayed = True\<rparr>
       | NewClaim \<Rightarrow>
           bind_io (or_a2a (delegate \<lparr>dl_task = pa_task p, dl_decision = d, dl_settlement = ob, dl_execution_ref = ref\<rparr>)
             ''DELEGATE_EXECUTION_FAILED''
             ''Delegate execution failed after it was claimed; automatic retry is paused'')
             (a2a_finish H G (clk 2) rid p d ob ref b))"

subsection \<open>Receipts are read back, and verify\<close>

lemma parse_a2a_receipt_json: "parse_a2a_receipt H (a2a_receipt_json r) = guard_opt (a2a_receipt_ok H r) r"
  by (cases r) (simp add: parse_a2a_receipt_def a2a_receipt_json_def signed_receipt_json_def text_fields_def
      a2a_receipt_fields_def a2a_receipt_version_def read_defs)

lemma a2a_receipt_fields_keys:
  "map fst (a2a_receipt_fields r) = map fst (a2a_receipt_fields r')" "distinct (map fst (a2a_receipt_fields r))"
  "''version'' \<notin> set (map fst (a2a_receipt_fields r))" "''signing'' \<notin> set (map fst (a2a_receipt_fields r))"
  by (simp_all add: a2a_receipt_fields_def)

lemma create_a2a_receipt_Inr:
  assumes "create_a2a_receipt H sg rid task resource sub d ob ref result executed = Inr r"
  shows "a2a_receipt_ok H r \<and> ar_key_id r = s_key_id sg \<and>
    sign_receipt H sg a2a_receipt_version (a2a_receipt_fields r) = Inr (ar_fingerprint r, ar_signature r) \<and>
    time_of (ar_executed_at r) = executed \<and> ar_decision_id r = d_decision_id d \<and> ar_action_hash r = d_action_hash d \<and>
    ar_execution_ref r = ref \<and> ar_evidence_hash r = hash_canonical H (observation_json ob) \<and>
    ar_result_hash r = hash_canonical H result"
proof -
  from assms obtain ea where ea: "to_iso_string executed = Some ea" by (auto simp: create_a2a_receipt_def split: option.splits)
  with assms obtain fp sig where r: "a2a_receipt_ok H r" "ar_key_id r = s_key_id sg" "ar_fingerprint r = fp" "ar_signature r = sig"
      "ar_executed_at r = ea" "ar_decision_id r = d_decision_id d" "ar_action_hash r = d_action_hash d"
      "ar_execution_ref r = ref" "ar_evidence_hash r = hash_canonical H (observation_json ob)"
      "ar_result_hash r = hash_canonical H result"
    and sg: "sign_receipt H sg a2a_receipt_version (a2a_receipt_fields r) = Inr (fp, sig)"
    by (auto simp: create_a2a_receipt_def bind_sum_Inr Let_def a2a_receipt_fields_def split: if_splits)
  moreover have "timestamp_ok ea" using r by (simp add: a2a_receipt_ok_def)
  ultimately show ?thesis using to_iso_string_time [OF ea] by simp
qed

lemma created_a2a_receipt_verifies:
  assumes c: "create_a2a_receipt H sg rid task resource sub d ob ref result executed = Inr r"
    and sg: "signer_ok H sg" "length (s_public_key sg) = 32"
    and k: "key_registry_entry H sg nb na st = Inr k" "st \<noteq> Some Revoked" "registry_ok ks" "k \<in> set ks"
    and window: "nb \<le> executed" "\<forall>t. na = Some t \<longrightarrow> executed < t"
  shows "rk_valid (verify_a2a_receipt H (a2a_receipt_json r) (registry_json ks))"
proof -
  note f = create_a2a_receipt_Inr [OF c]
  from f have s: "sign_receipt H sg a2a_receipt_version (a2a_receipt_fields r) = Inr (ar_fingerprint r, ar_signature r)"
    and t: "time_of (ar_executed_at r) = executed" by simp_all
  from signed_receipt_verifies [OF s sg k, of "ar_executed_at r"] window f
  show ?thesis by (simp add: t verify_a2a_receipt_def parse_a2a_receipt_json parse_registry_json k(3))
qed

lemma altered_a2a_receipt_rejected:
  assumes "jcs_ok H" "ar_fingerprint r = receipt_fingerprint H a2a_receipt_version (a2a_receipt_fields r) (ar_key_id r)"
    and "hash_binds H (receipt_payload a2a_receipt_version (a2a_receipt_fields r) (ar_key_id r))
      (receipt_payload a2a_receipt_version (a2a_receipt_fields r') (ar_key_id r'))"
    and "ar_fingerprint r' = ar_fingerprint r" "a2a_receipt_fields r' \<noteq> a2a_receipt_fields r \<or> ar_key_id r' \<noteq> ar_key_id r"
  shows "\<not> rk_valid (verify_a2a_receipt H (a2a_receipt_json r') reg)"
proof
  assume v: "rk_valid (verify_a2a_receipt H (a2a_receipt_json r') reg)"
  then obtain ks where "rk_valid (check_receipt H a2a_receipt_version (a2a_receipt_fields r') (ar_executed_at r') (ar_key_id r')
      (ar_fingerprint r) (ar_signature r') ks)"
    using assms(4) by (auto simp: verify_a2a_receipt_def parse_a2a_receipt_json no_receipt_def guard_opt_def split: option.splits if_splits)
  with altered_receipt_rejected [OF assms(1-3) a2a_receipt_fields_keys(1) a2a_receipt_fields_keys(2-4)] assms(5)
  show False by metis
qed

text \<open>A valid observation is read back.\<close>

lemma parse_observation_json: "parse_observation H (observation_json ob) = guard_opt (observation_ok H ob) ob"
proof -
  have "enum_read state_string [PAYMENT_SUBMITTED, SETTLED, FAILED, UNKNOWN] (state_string st) = Some st" for st
    by (cases st) (simp_all add: enum_read_def)
  then show ?thesis
    by (cases ob) (simp add: parse_observation_def observation_json_def read_defs)
qed

subsection \<open>What reaches the delegate\<close>

lemma or_a2a_Inr: "or_a2a m code msg s = (Inr x, s') \<longleftrightarrow> m s = (Inr x, s')"
  by (auto simp: or_a2a_def catch_io_apply split: prod.splits sum.splits)

lemma keeps_or_a2a [keeps_intros]: "state_order R \<Longrightarrow> keeps R m \<Longrightarrow> keeps R (or_a2a m code msg)"
  unfolding or_a2a_def by (intro keeps_intros)

definition final_and_bound :: "a2a_observation \<Rightarrow> a2a_prepared \<Rightarrow> bool" where
  "final_and_bound ob p \<longleftrightarrow>
     ao_state ob = SETTLED \<and> ao_finality ob = Some (pa_finality p) \<and> ao_settlement_ref ob \<noteq> None \<and>
     (as_settlement_ref (pa_submission p) \<noteq> None \<longrightarrow> ao_settlement_ref ob = as_settlement_ref (pa_submission p)) \<and>
     ao_task ob = fst (pa_task p) \<and> ao_context ob = snd (pa_task p) \<and> ao_submission ob = as_id (pa_submission p) \<and>
     ao_requirements_hash ob = as_requirements_hash (pa_submission p) \<and> ao_resource ob = xi_resource (pa_payment p) \<and>
     time_of (as_submitted_at (pa_submission p)) \<le> time_of (ao_observed_at ob)"

lemma final_and_bound_checked:
  "verify_settlement_binding ob p = Inr () \<Longrightarrow> require_final_settlement ob (pa_finality p) = Inr () \<Longrightarrow> final_and_bound ob p"
  by (auto simp: verify_settlement_binding_def require_final_settlement_def final_and_bound_def Let_def split: if_splits)

lemma a2a_settled_Inr:
  assumes "a2a_settled H X G now i s = (Inr (p, d, ob), s')"
  shows "a2a_prepare H X i (ag_finality G) = Inr p \<and> d_verdict d = ALLOW \<and> final_and_bound ob p \<and> observation_ok H ob"
proof -
  from assms obtain raw where p: "a2a_prepare H X i (ag_finality G) = Inr p" and d: "d_verdict d = ALLOW"
    and ob: "parse_observation H raw = Some ob"
    and b: "verify_settlement_binding ob p = Inr ()" "require_final_settlement ob (pa_finality p) = Inr ()"
    by (auto simp: a2a_settled_def bind_io_Inr or_a2a_Inr split: if_splits option.splits)
  from ob have "observation_ok H ob" by (auto simp: parse_observation_def Let_def bind_eq_Some_conv)
  with p d final_and_bound_checked [OF b] show ?thesis by simp
qed

text \<open>The observation is the answer of the settlement provider to the decision that was just authorised.\<close>

lemma a2a_settled_run:
  assumes "a2a_settled H X G now i s = (Inr (p, d, ob), s')"
  shows "\<exists>s1 raw. guard_authorise H X (ag_guard G) now (pa_payment p) s = (Inr d, s1) \<and>
    a2a_settlement H G p d s1 = (Inr raw, s') \<and> parse_observation H raw = Some ob"
  using assms by (auto simp: a2a_settled_def bind_io_Inr or_a2a_Inr split: if_splits option.splits)

lemma a2a_begin_Inr:
  assumes "a2a_begin H X G clk i s = (Inr (p, d, ob, ref, b, cl), s')"
  shows "a2a_prepare H X i (ag_finality G) = Inr p \<and> d_verdict d = ALLOW \<and> final_and_bound ob p \<and>
    ref = a2a_execution_ref H p ob d \<and> b = a2a_binding_hash H p ob d \<and>
    (\<exists>v. verify_before_settlement H X (ag_guard G) (clk 1) (pa_payment p) d = Inr v \<and> vr_valid v) \<and>
    (\<exists>c s1 s2. a2a_settled H X G (clk 0) i s = (Inr (p, d, ob), s1) \<and>
      consume_before_execution (ag_guard G) d ref s1 = (Inr c, s2) \<and> cr_success c \<and> ag_claim G ref b s2 = (Inr cl, s'))"
proof -
  from assms obtain p' d' ob' s1 where st: "a2a_settled H X G (clk 0) i s = (Inr (p', d', ob'), s1)"
    by (auto simp: a2a_begin_def bind_io_Inr)
  with assms obtain v c s2 where v: "verify_before_settlement H X (ag_guard G) (clk 1) (pa_payment p) d = Inr v" "vr_valid v"
    and e: "p' = p" "d' = d" "ob' = ob" and ref: "ref = a2a_execution_ref H p ob d" and b: "b = a2a_binding_hash H p ob d"
    and c: "consume_before_execution (ag_guard G) d ref s1 = (Inr c, s2)" "cr_success c" "ag_claim G ref b s2 = (Inr cl, s')"
    by (auto simp: a2a_begin_def bind_io_Inr or_a2a_Inr Let_def split: if_splits)
  from a2a_settled_Inr [OF st] st v ref b c show ?thesis unfolding e by blast
qed

subsection \<open>The delegate runs at most once for an execution reference\<close>

text \<open>One call: the readings of the clock, the receipt identifier, the input and how the delegate
  ends.\<close>

record a2a_call =
  xc_clock :: "nat \<Rightarrow> int"
  xc_receipt_id :: string
  xc_input :: a2a_input
  xc_outcome :: "error + json"

text \<open>\<open>settled\<close> is the log of the delegate's runs by execution reference; \<open>left\<close> says which
  references have been claimed.\<close>

locale a2a_world = effect_log valid left settled log
  for valid :: "'s \<Rightarrow> bool" and left :: "'s \<Rightarrow> string \<Rightarrow> bool" and settled :: "'s \<Rightarrow> string list"
    and log :: "string \<Rightarrow> 's \<Rightarrow> 's" +
  fixes G :: "'s a2a_gate"
  assumes claim_new: "ag_claim G k b s = (Inr NewClaim, s') \<Longrightarrow> \<not> left s k \<and> left s' k"
    and calls_frame: "keeps (settles valid left settled) (gd_evaluate (ag_guard G) a)"
      "keeps (settles valid left settled) (gd_consume (ag_guard G) c)"
      "keeps (settles valid left settled) (ag_settle G q)"
      "keeps (settles valid left settled) (ag_confirm G q r)"
      "keeps (settles valid left settled) (ag_claim G k b)"
      "keeps (settles valid left settled) (ag_complete G k b v)"
begin

definition a2a_step :: "host \<Rightarrow> x402_schemas \<Rightarrow> a2a_call \<Rightarrow> (error, 's, a2a_result) io" where
  "a2a_step H X c = a2a_process H X G (xc_clock c) (xc_receipt_id c) (xc_input c)
     (\<lambda>x s. (xc_outcome c, log (dl_execution_ref x) s))"

lemma settled_keeps: "keeps (settles valid left settled) (a2a_settled H X G now i)"
  unfolding a2a_settled_def guard_authorise_def a2a_settlement_def Let_def
  by (intro keeps_intros settles_order calls_frame)

lemma consume_keeps: "keeps (settles valid left settled) (consume_before_execution (ag_guard G) d ref)"
  unfolding consume_before_execution_def Let_def by (intro keeps_intros settles_order calls_frame)

lemma begin_keeps: "keeps (settles valid left settled) (a2a_begin H X G clk i)"
  unfolding a2a_begin_def Let_def by (intro keeps_intros settles_order calls_frame settled_keeps consume_keeps)

lemma finish_keeps: "keeps (settles valid left settled) (a2a_finish H G now rid p d ob ref b result)"
  unfolding a2a_finish_def by (intro keeps_intros settles_order calls_frame)

lemma a2a_step_guarded: "guarded s (snd (a2a_step H X c s))"
  unfolding a2a_step_def a2a_process_def
proof (rule guarded_bind [OF begin_keeps])
  fix x s1
  assume e: "a2a_begin H X G (xc_clock c) (xc_input c) s = (Inr x, s1)"
  obtain p d ob ref b cl where x: "x = (p, d, ob, ref, b, cl)" by (cases x) auto
  let ?rest = "case x of (p, d, ob, ref, b, cl) \<Rightarrow> case cl of
         ClaimConflict \<Rightarrow> throw (a2a_error ''DELEGATE_EXECUTION_CONFLICT'' None
           ''Execution reference is already bound to different A2A evidence'')
       | ClaimInFlight \<Rightarrow> throw (a2a_error ''DELEGATE_EXECUTION_IN_PROGRESS'' None
           ''Delegate execution has an unresolved prior attempt; automatic retry is paused'')
       | ClaimCompleted b' r \<Rightarrow> ret \<lparr>az_decision = d, az_settlement = ob, az_execution_ref = ref,
           az_receipt = fst r, az_result = snd r, az_replayed = True\<rparr>
       | NewClaim \<Rightarrow>
           bind_io (or_a2a ((\<lambda>x s. (xc_outcome c, log (dl_execution_ref x) s))
               \<lparr>dl_task = pa_task p, dl_decision = d, dl_settlement = ob, dl_execution_ref = ref\<rparr>)
             ''DELEGATE_EXECUTION_FAILED''
             ''Delegate execution failed after it was claimed; automatic retry is paused'')
             (a2a_finish H G (xc_clock c 2) (xc_receipt_id c) p d ob ref b)"
  show "settles valid left settled s1 (snd (?rest s1)) \<or>
    (\<exists>k. \<not> left s k \<and> left s1 k \<and> settles valid left settled (log k s1) (snd (?rest s1)))"
  proof (cases "cl = NewClaim")
    case False
    then have "snd (?rest s1) = s1" by (cases cl) (simp_all add: x)
    then show ?thesis by simp
  next
    case True
    from a2a_begin_Inr [OF e [unfolded x True]] obtain k s2 s3 where
      st: "a2a_settled H X G (xc_clock c 0) (xc_input c) s = (Inr (p, d, ob), s2)"
      and c: "consume_before_execution (ag_guard G) d ref s2 = (Inr k, s3)"
      and cl: "ag_claim G ref b s3 = (Inr NewClaim, s1)"
      by (elim conjE exE) (rule that; assumption)
    have "settles valid left settled s s3"
      by (rule settles_trans [OF keepsD [OF settled_keeps st] keepsD [OF consume_keeps c]])
    moreover note claim_new [OF cl]
    ultimately have "\<not> left s ref" "left s1 ref" by (auto simp: settles_def)
    moreover have "settles valid left settled (log ref s1) (snd (?rest s1))"
      using finish_keeps [of H "xc_clock c 2" "xc_receipt_id c" p d ob ref b]
      by (cases "xc_outcome c") (simp_all add: x True or_a2a_def bind_io_apply catch_io_apply keeps_def)
    ultimately show ?thesis by blast
  qed
qed

lemma delegated_at_most_once:
  "valid s \<Longrightarrow> settled s = [] \<Longrightarrow> run_ops (a2a_step H X) cs s = (rs, s') \<Longrightarrow> count_list (settled s') k \<le> 1"
  by (rule effect_at_most_once [OF a2a_step_guarded])

lemma delegation_authorised:
  assumes "settled (snd (a2a_step H X c s)) \<noteq> settled s"
  shows "\<exists>p d s1 raw s2 ob v r s3. a2a_prepare H X (xc_input c) (ag_finality G) = Inr p \<and>
    guard_authorise H X (ag_guard G) (xc_clock c 0) (pa_payment p) s = (Inr d, s1) \<and> d_verdict d = ALLOW \<and>
    a2a_settlement H G p d s1 = (Inr raw, s2) \<and> parse_observation H raw = Some ob \<and> final_and_bound ob p \<and>
    verify_before_settlement H X (ag_guard G) (xc_clock c 1) (pa_payment p) d = Inr v \<and> vr_valid v \<and>
    consume_before_execution (ag_guard G) d (a2a_execution_ref H p ob d) s2 = (Inr r, s3) \<and> cr_success r \<and>
    settled (snd (a2a_step H X c s)) = a2a_execution_ref H p ob d # settled s"
proof -
  obtain r s1 where e: "a2a_begin H X G (xc_clock c) (xc_input c) s = (r, s1)" by fastforce
  have log1: "settled s1 = settled s" using keepsD [OF begin_keeps e] by (simp add: settles_def)
  with assms e obtain y where "r = Inr y"
    by (cases r) (auto simp: a2a_step_def a2a_process_def bind_io_apply)
  moreover obtain p d ob ref b cl where "y = (p, d, ob, ref, b, cl)" by (cases y) auto
  ultimately have b: "a2a_begin H X G (xc_clock c) (xc_input c) s = (Inr (p, d, ob, ref, b, cl), s1)" using e by simp
  note begun = a2a_begin_Inr [OF b]
  then obtain q t1 t2 where st: "a2a_settled H X G (xc_clock c 0) (xc_input c) s = (Inr (p, d, ob), t1)"
    and q: "consume_before_execution (ag_guard G) d ref t1 = (Inr q, t2)" "cr_success q" by blast
  have "cl = NewClaim"
    using assms b log1 by (cases cl) (simp_all add: a2a_step_def a2a_process_def bind_io_apply)
  then have "settled (snd (a2a_step H X c s)) = ref # settled s"
    using finish_keeps [of H "xc_clock c 2" "xc_receipt_id c" p d ob ref b] b log1
    by (cases "xc_outcome c")
      (simp_all add: a2a_step_def a2a_process_def or_a2a_def bind_io_apply catch_io_apply keeps_def settles_def log_frame)
  with begun a2a_settled_run [OF st] q show ?thesis by blast
qed

end

text \<open>Any decision and settlement providers with their own state, the in-memory execution store and
  the log of the delegate's runs.\<close>

record 'p a2a_state =
  xs_outside :: 'p
  xs_executions :: a2a_executions
  xs_delegated :: "string list"

definition outside_guard ::
  "(action \<Rightarrow> (error, 'p, decision) io) \<Rightarrow> (consume_input \<Rightarrow> (error, 'p, consume_result) io) \<Rightarrow>
    key_entry list \<Rightarrow> string option \<Rightarrow> 'p a2a_state guard" where
  "outside_guard ev con ks pv =
     \<lparr>gd_evaluate = (\<lambda>a. on_part xs_outside xs_outside_update (ev a)),
      gd_consume = (\<lambda>c. on_part xs_outside xs_outside_update (con c)),
      gd_registry = ks, gd_policy_version = pv, gd_journal = None, gd_classify = None\<rparr>"

definition memory_a2a_gate ::
  "(action \<Rightarrow> (error, 'p, decision) io) \<Rightarrow> (consume_input \<Rightarrow> (error, 'p, consume_result) io) \<Rightarrow>
    key_entry list \<Rightarrow> string option \<Rightarrow> (a2a_request \<Rightarrow> (error, 'p, json) io) \<Rightarrow>
    (a2a_request \<Rightarrow> string \<Rightarrow> (error, 'p, json) io) \<Rightarrow> signer \<Rightarrow> string \<Rightarrow> 'p a2a_state a2a_gate" where
  "memory_a2a_gate ev con ks pv st cf sg fin =
     \<lparr>ag_guard = outside_guard ev con ks pv,
      ag_settle = (\<lambda>q. on_part xs_outside xs_outside_update (st q)),
      ag_confirm = (\<lambda>q r. on_part xs_outside xs_outside_update (cf q r)),
      ag_signer = sg, ag_finality = fin,
      ag_claim = (\<lambda>k b. on_part xs_executions xs_executions_update (a2a_claim k b)),
      ag_complete = (\<lambda>k b v. on_part xs_executions xs_executions_update (a2a_complete k b v))\<rparr>"

definition a2a_left :: "'p a2a_state \<Rightarrow> string \<Rightarrow> bool" where
  "a2a_left s k \<longleftrightarrow> xs_executions s k \<noteq> None"

lemma a2a_store_settles:
  "(\<And>m k. m k \<noteq> None \<Longrightarrow> snd (f m) k \<noteq> None) \<Longrightarrow>
    keeps (settles (\<lambda>_. True) a2a_left xs_delegated) (on_part xs_executions xs_executions_update f)"
  by (simp add: keeps_def on_part_state settles_def a2a_left_def)

lemma a2a_outside_settles:
  "keeps (settles (\<lambda>_. True) a2a_left xs_delegated) (on_part xs_outside xs_outside_update m)"
  by (rule keeps_on_part) (simp add: settles_def a2a_left_def)

interpretation memory_a2a: a2a_world "\<lambda>_. True" a2a_left xs_delegated "\<lambda>k s. s\<lparr>xs_delegated := k # xs_delegated s\<rparr>"
  "memory_a2a_gate ev con ks pv st cf sg fin"
proof
  show "\<And>k b s s'. ag_claim (memory_a2a_gate ev con ks pv st cf sg fin) k b s = (Inr NewClaim, s') \<Longrightarrow>
      \<not> a2a_left s k \<and> a2a_left s' k"
    by (auto simp: memory_a2a_gate_def on_part_result a2a_claim_def a2a_left_def dest: memory_executions.claim_new)
  show "keeps (settles (\<lambda>_. True) a2a_left xs_delegated) (ag_claim (memory_a2a_gate ev con ks pv st cf sg fin) k b)" for k b
    by (simp add: memory_a2a_gate_def a2a_claim_def) (rule a2a_store_settles [OF memory_executions.claim_grows])
  show "keeps (settles (\<lambda>_. True) a2a_left xs_delegated) (ag_complete (memory_a2a_gate ev con ks pv st cf sg fin) k b v)" for k b v
    by (simp add: memory_a2a_gate_def a2a_complete_def) (rule a2a_store_settles [OF memory_executions.complete_grows])
qed (simp_all add: memory_a2a_gate_def outside_guard_def a2a_left_def fun_eq_iff a2a_outside_settles)

lemma memory_delegation_authorised:
  fixes s :: "'p a2a_state"
  assumes "G = memory_a2a_gate ev con ks pv st cf sg fin"
    and "a2a_process H X G clk rid i (\<lambda>x s. (out, s\<lparr>xs_delegated := dl_execution_ref x # xs_delegated s\<rparr>)) s = (result, s')"
    and "xs_delegated s' \<noteq> xs_delegated s"
  shows "\<exists>p d s1 raw s2 ob v r s3. a2a_prepare H X i fin = Inr p \<and>
    guard_authorise H X (ag_guard G) (clk 0) (pa_payment p) s = (Inr d, s1) \<and> d_verdict d = ALLOW \<and>
    a2a_settlement H G p d s1 = (Inr raw, s2) \<and> parse_observation H raw = Some ob \<and> final_and_bound ob p \<and>
    verify_before_settlement H X (ag_guard G) (clk 1) (pa_payment p) d = Inr v \<and> vr_valid v \<and>
    consume_before_execution (ag_guard G) d (a2a_execution_ref H p ob d) s2 = (Inr r, s3) \<and> cr_success r \<and>
    xs_delegated s' = a2a_execution_ref H p ob d # xs_delegated s"
proof -
  let ?c = "\<lparr>xc_clock = clk, xc_receipt_id = rid, xc_input = i, xc_outcome = out\<rparr>"
  have fin: "ag_finality G = fin" by (simp add: assms(1) memory_a2a_gate_def)
  have step: "memory_a2a.a2a_step ev con ks pv st cf sg fin H X ?c s = (result, s')"
    using assms(2) unfolding assms(1) by (simp add: memory_a2a.a2a_step_def)
  from memory_a2a.delegation_authorised [of ev con ks pv st cf sg fin H X ?c s, unfolded step snd_conv] assms(3)
  show ?thesis by (simp add: fin [unfolded assms(1)] assms(1))
qed

lemma memory_delegated_once:
  "count_list (xs_delegated (snd (run_ops (\<lambda>c :: a2a_call. a2a_process H X (memory_a2a_gate ev con ks pv st cf sg fin)
      (xc_clock c) (xc_receipt_id c) (xc_input c)
      (\<lambda>x s. (xc_outcome c, s\<lparr>xs_delegated := dl_execution_ref x # xs_delegated s\<rparr>)))
    cs \<lparr>xs_outside = p, xs_executions = Map.empty, xs_delegated = []\<rparr>))) k \<le> 1"
proof -
  have "(\<lambda>c :: a2a_call. a2a_process H X (memory_a2a_gate ev con ks pv st cf sg fin) (xc_clock c) (xc_receipt_id c) (xc_input c)
      (\<lambda>x s. (xc_outcome c, s\<lparr>xs_delegated := dl_execution_ref x # xs_delegated s\<rparr>))) =
      memory_a2a.a2a_step ev con ks pv st cf sg fin H X"
    by (simp add: fun_eq_iff memory_a2a.a2a_step_def)
  then show ?thesis
    by (simp only:) (rule memory_a2a.delegated_at_most_once [OF _ _ prod.collapse [symmetric]]; simp)
qed

subsection \<open>A completed execution is replayed, not repeated\<close>

lemma keeps_executions:
  "keeps (\<lambda>s s'. xs_executions s' = xs_executions s) (a2a_settled H X (memory_a2a_gate ev con ks pv st cf sg fin) now i)"
  "keeps (\<lambda>s s'. xs_executions s' = xs_executions s)
    (consume_before_execution (ag_guard (memory_a2a_gate ev con ks pv st cf sg fin)) d ref)"
proof -
  have R: "state_order (\<lambda>s s' :: 'p a2a_state. xs_executions s' = xs_executions s)" by (simp add: state_order_def)
  have out: "keeps (\<lambda>s s' :: 'p a2a_state. xs_executions s' = xs_executions s) (on_part xs_outside xs_outside_update m)" for m
    by (rule keeps_on_part) simp
  show "keeps (\<lambda>s s'. xs_executions s' = xs_executions s) (a2a_settled H X (memory_a2a_gate ev con ks pv st cf sg fin) now i)"
    unfolding a2a_settled_def guard_authorise_def a2a_settlement_def Let_def memory_a2a_gate_def outside_guard_def
    by (simp only: a2a_gate.simps guard.simps) (intro keeps_intros R out)
  show "keeps (\<lambda>s s'. xs_executions s' = xs_executions s)
      (consume_before_execution (ag_guard (memory_a2a_gate ev con ks pv st cf sg fin)) d ref)"
    unfolding consume_before_execution_def Let_def memory_a2a_gate_def outside_guard_def
    by (simp only: a2a_gate.simps guard.simps) (intro keeps_intros R out)
qed

text \<open>The claim of \<open>a2a_begin\<close> is made on the executions it was started with.\<close>

lemma a2a_begin_claims:
  assumes "a2a_begin H X (memory_a2a_gate ev con ks pv st cf sg fin) clk i s = (Inr (p, d, ob, ref, b, cl), s')"
  shows "a2a_claim ref b (xs_executions s) = (Inr cl, xs_executions s')"
proof -
  let ?G = "memory_a2a_gate ev con ks pv st cf sg fin"
  from a2a_begin_Inr [OF assms] obtain c s1 s2 where st: "a2a_settled H X ?G (clk 0) i s = (Inr (p, d, ob), s1)"
    and c: "consume_before_execution (ag_guard ?G) d ref s1 = (Inr c, s2)" and cl: "ag_claim ?G ref b s2 = (Inr cl, s')"
    by (elim conjE exE) (rule that; assumption)
  have "xs_executions s2 = xs_executions s"
    using keepsD [OF keeps_executions(1) st] keepsD [OF keeps_executions(2) c] by simp
  with cl show ?thesis by (auto simp: memory_a2a_gate_def on_part_result)
qed

lemma a2a_process_recorded:
  assumes "a2a_process H X (memory_a2a_gate ev con ks pv st cf sg fin) clk rid i delegate s = (Inr z, s')"
  shows "\<exists>b. xs_executions s' (az_execution_ref z) = Some (Completed b (az_receipt z, az_result z))"
proof -
  let ?G = "memory_a2a_gate ev con ks pv st cf sg fin"
  from assms obtain p d ob ref b cl s1 where bg: "a2a_begin H X ?G clk i s = (Inr (p, d, ob, ref, b, cl), s1)"
    by (auto simp: a2a_process_def bind_io_Inr)
  note claim = a2a_begin_claims [OF bg, unfolded a2a_claim_def]
  show ?thesis
  proof (cases cl)
    case (ClaimCompleted b' v)
    note cc = memory_executions.claim_completed [OF claim [unfolded ClaimCompleted]]
    then have "xs_executions s1 ref = Some (Completed b v)"
      using memory_executions.claim_frame [of "xs_executions s" ref "Completed b v" ref b] claim by simp
    with assms bg ClaimCompleted show ?thesis by (auto simp: a2a_process_def bind_io_apply)
  next
    case NewClaim
    with assms bg obtain result s2 where "a2a_finish H ?G (clk 2) rid p d ob ref b result s2 = (Inr z, s')"
      by (auto simp: a2a_process_def bind_io_Inr bind_io_apply split: prod.splits sum.splits)
    then obtain s3 where z: "az_execution_ref z = ref"
      and "ag_complete ?G ref b (az_receipt z, az_result z) s3 = (Inr (), s')"
      by (auto simp: a2a_finish_def bind_io_Inr or_a2a_Inr)
    then have "complete_execution ''A2A execution was not claimed with the same binding'' ref b (az_receipt z, az_result z)
        (xs_executions s3) = (Inr (), xs_executions s')"
      by (auto simp: memory_a2a_gate_def on_part_result a2a_complete_def)
    from memory_executions.complete_result [OF this] z show ?thesis by auto
  qed (use assms bg in \<open>simp_all add: a2a_process_def bind_io_apply\<close>)
qed

lemma a2a_process_again:
  assumes "a2a_process H X (memory_a2a_gate ev con ks pv st cf sg fin) clk rid i delegate s = (Inr z, s1)"
    and "a2a_begin H X (memory_a2a_gate ev con ks pv st cf sg fin) clk' j t = (Inr (p, d, ob, az_execution_ref z, b, cl), t1)"
    and "xs_executions t (az_execution_ref z) = xs_executions s1 (az_execution_ref z)"
  shows "a2a_process H X (memory_a2a_gate ev con ks pv st cf sg fin) clk' rid' j delegate' t =
    (if cl = ClaimConflict
     then Inl (a2a_error ''DELEGATE_EXECUTION_CONFLICT'' None ''Execution reference is already bound to different A2A evidence'')
     else Inr \<lparr>az_decision = d, az_settlement = ob, az_execution_ref = az_execution_ref z, az_receipt = az_receipt z,
       az_result = az_result z, az_replayed = True\<rparr>, t1)"
proof -
  obtain b0 where "xs_executions t (az_execution_ref z) = Some (Completed b0 (az_receipt z, az_result z))"
    using a2a_process_recorded [OF assms(1)] assms(3) by metis
  with a2a_begin_claims [OF assms(2)]
  have "cl = ClaimConflict \<or> cl = ClaimCompleted b0 (az_receipt z, az_result z)"
    by (auto simp: a2a_claim_def claim_execution_def split: if_splits)
  then show ?thesis using assms(2) by (auto simp: a2a_process_def bind_io_apply)
qed

subsection \<open>A claimed execution completes\<close>

lemma create_a2a_receipt_total:
  assumes "sha_ok H" "decision_ok H d" "observation_ok H ob" "ao_settlement_ref ob \<noteq> None"
    and "identifier_ok rid" "identifier_ok (fst task)" "identifier_ok (snd task)" "url_ok H resource" "identifier_ok sub"
    and "len_between 1 512 ref" "four_digit_years executed"
    and sg: "signer_ok H sg" "identifier_ok (s_key_id sg)" "\<And>m. \<exists>sig. s_sign sg m = Inr sig"
  shows "\<exists>r. create_a2a_receipt H sg rid task resource sub d ob ref result executed = Inr r"
proof -
  obtain x where x: "ao_settlement_ref ob = Some x" "len_between 1 512 x"
    using assms(3,4) by (auto simp: observation_ok_def opt_ok_def)
  note d = assms(2) [unfolded decision_ok_def]
  have b: "s_sign sg m = Inr sig \<Longrightarrow> base64url sig" for m sig using sg(1) by (simp add: signer_ok_def)
  have h: "hash_ok (receipt_fingerprint H v fs k)" for v fs k
    unfolding receipt_fingerprint_def by (rule hash_canonical_hash_ok [OF assms(1)])
  show ?thesis
    unfolding create_a2a_receipt_def to_iso_string_four_digit [OF assms(11)] option.case Let_def sign_receipt_def
    using x assms(5-11) sg(2,3) b h d hash_canonical_hash_ok [OF assms(1)] timestamp_ok_iso_text [OF assms(11)]
    by (simp add: a2a_receipt_ok_def a2a_receipt_fields_def bind_sum_def split: sum.split) (metis sg(3) sum.distinct(1))
qed

lemma a2a_prepare_Inr:
  assumes "a2a_prepare H X i fin = Inr p"
  shows "identifier_ok (fst (pa_task p)) \<and> identifier_ok (snd (pa_task p)) \<and> identifier_ok (as_id (pa_submission p)) \<and>
    url_ok H (xi_resource (pa_payment p))"
  using assms by (auto simp: a2a_prepare_def Let_def submission_ok_def split: if_splits sum.splits)

lemma a2a_execution_ref_length: "sha_ok H \<Longrightarrow> len_between 1 512 (a2a_execution_ref H p ob d)"
  using hash_canonical_hash_ok [of H] by (simp add: a2a_execution_ref_def len_between_def hash_ok_def)

lemma a2a_process_completes:
  fixes s :: "'p a2a_state"
  assumes started: "a2a_begin H X (memory_a2a_gate ev con ks pv st cf sg fin) clk i s = (Inr (p, d, ob, ref, b, NewClaim), s1)"
    and run: "delegate \<lparr>dl_task = pa_task p, dl_decision = d, dl_settlement = ob, dl_execution_ref = ref\<rparr> s1 = (Inr v, s2)"
    and own: "xs_executions s2 = xs_executions s1"
    and host: "sha_ok H" "four_digit_years (clk 2)" "identifier_ok rid"
    and sg: "signer_ok H sg" "identifier_ok (s_key_id sg)" "\<And>m. \<exists>sig. s_sign sg m = Inr sig"
  shows "\<exists>z s'. a2a_process H X (memory_a2a_gate ev con ks pv st cf sg fin) clk rid i delegate s = (Inr z, s') \<and>
    az_result z = v \<and> \<not> az_replayed z \<and> az_execution_ref z = ref \<and>
    create_a2a_receipt H sg rid (pa_task p) (xi_resource (pa_payment p)) (as_id (pa_submission p)) d ob ref v (clk 2) = Inr (az_receipt z) \<and>
    xs_executions s' ref = Some (Completed b (az_receipt z, v))"
proof -
  let ?G = "memory_a2a_gate ev con ks pv st cf sg fin"
  from a2a_begin_Inr [OF started] obtain w t t1 t2 c where p: "a2a_prepare H X i fin = Inr p"
    and w: "verify_before_settlement H X (ag_guard ?G) (clk 1) (pa_payment p) d = Inr w" "vr_valid w"
    and st: "a2a_settled H X ?G (clk 0) i s = (Inr (p, d, ob), t)" and fin: "final_and_bound ob p"
    and ref: "ref = a2a_execution_ref H p ob d"
    by (auto simp: memory_a2a_gate_def)
  have d: "decision_ok H d"
    using verify_before_settlement_valid [OF w] by (auto simp: verified_def parse_decision_json guard_opt_def split: if_splits)
  have ob: "observation_ok H ob" "ao_settlement_ref ob \<noteq> None"
    using a2a_settled_Inr [OF st] fin by (simp_all add: final_and_bound_def)
  note ids = a2a_prepare_Inr [OF p]
  have "\<exists>r. create_a2a_receipt H sg rid (pa_task p) (xi_resource (pa_payment p)) (as_id (pa_submission p)) d ob ref v (clk 2) = Inr r"
    using host d ob ids sg a2a_execution_ref_length [OF host(1)] by (intro create_a2a_receipt_total) (simp_all add: ref)
  then obtain r where r: "create_a2a_receipt H sg rid (pa_task p) (xi_resource (pa_payment p)) (as_id (pa_submission p)) d ob ref v (clk 2) = Inr r"
    by blast
  have slot: "xs_executions s2 ref = Some (InFlight b)"
    using memory_executions.claim_new [of ref b "xs_executions s" "xs_executions s1"] a2a_begin_claims [OF started] own
    by (simp add: a2a_claim_def)
  show ?thesis
    using started run r slot
    by (simp add: a2a_process_def bind_io_apply a2a_finish_def or_a2a_def catch_io_apply memory_a2a_gate_def on_part_def
        a2a_complete_def complete_execution_def)
qed

end
