(* ===== verification/Ap2Gate.thy ===== *)
theory Ap2Gate
  imports X402 Receipts
begin

section \<open>The AP2 runtime gate\<close>

text \<open>
  \<open>ap2-runtime-gate/src\<close>: \<open>types.ts\<close> (mandate presentations, the answer of the official SDK, the
  receipt), \<open>binding.ts\<close>, \<open>receipt.ts\<close>, \<open>store.ts\<close> (an instance of \<open>claim_execution\<close> in
  \<open>Effects\<close>) and \<open>gate.ts\<close>. The verifier, the trust provider, the decision provider and the
  delegate are parameters; \<open>verifier.ts\<close> is modelled in \<open>Ap2Process\<close>. Lemmas: the bound amount is
  exact; the delegate runs only for a current, unexpired, matching verification under a verified
  \<open>ALLOW\<close>, at most once for each payment mandate; signed receipts verify.
\<close>

subsection \<open>types.ts\<close>

definition ap2_repository :: string where
  "ap2_repository = ''https://github.com/google-agentic-commerce/AP2''"

definition ap2_commit :: string where
  "ap2_commit = ''e1ea56db72a6385bce3e5c1112b3a56ce60acb43''"

definition compact_token :: "string \<Rightarrow> bool" where
  "compact_token s \<longleftrightarrow> len_between 16 1000000 s"

definition currency_ok :: "string \<Rightarrow> bool" where
  "currency_ok s \<longleftrightarrow> length s = 3 \<and> list_all (\<lambda>c. 65 \<le> (of_char c :: nat) \<and> (of_char c :: nat) \<le> 90) s"

record mandates =
  md_checkout_token :: string
  md_payment_token :: string
  md_checkout_jwt :: string
  md_checkout_audience :: string
  md_checkout_nonce :: string
  md_checkout_issuer :: string
  md_payment_audience :: string
  md_payment_nonce :: string

definition mandates_ok :: "mandates \<Rightarrow> bool" where
  "mandates_ok m \<longleftrightarrow>
     compact_token (md_checkout_token m) \<and> compact_token (md_payment_token m) \<and> compact_token (md_checkout_jwt m) \<and>
     identifier_ok (md_checkout_audience m) \<and> identifier_ok (md_checkout_nonce m) \<and>
     identifier_ok (md_checkout_issuer m) \<and> identifier_ok (md_payment_audience m) \<and> identifier_ok (md_payment_nonce m)"

record ap2_request =
  vq_mandates :: mandates
  vq_issuer_jwk :: "(string \<times> json) list"
  vq_merchant_jwk :: "(string \<times> json) list"
  vq_merchant_id :: string
  vq_time :: int

definition ap2_request_ok :: "ap2_request \<Rightarrow> bool" where
  "ap2_request_ok q \<longleftrightarrow> mandates_ok (vq_mandates q) \<and> identifier_ok (vq_merchant_id q) \<and> 0 \<le> vq_time q"

record ap2_verification =
  av_intent_verified :: bool
  av_checkout_open_hash :: string
  av_payment_open_hash :: string
  av_checkout_mandate :: string
  av_checkout_expires :: string
  av_checkout_hash :: string
  av_checkout_id :: string
  av_merchant_id :: string
  av_merchant_name :: string
  av_payment_mandate :: string
  av_payment_expires :: string
  av_transaction_id :: string
  av_payee_id :: string
  av_payee_name :: string
  av_amount :: string
  av_currency :: string
  av_instrument :: string
  av_verified_at :: string

definition ap2_verification_ok :: "ap2_verification \<Rightarrow> bool" where
  "ap2_verification_ok v \<longleftrightarrow>
     hash_ok (av_checkout_open_hash v) \<and> hash_ok (av_payment_open_hash v) \<and>
     hash_ok (av_checkout_mandate v) \<and> timestamp_ok (av_checkout_expires v) \<and> base64url (av_checkout_hash v) \<and>
     identifier_ok (av_checkout_id v) \<and> identifier_ok (av_merchant_id v) \<and> len_between 1 512 (av_merchant_name v) \<and>
     hash_ok (av_payment_mandate v) \<and> timestamp_ok (av_payment_expires v) \<and> base64url (av_transaction_id v) \<and>
     identifier_ok (av_payee_id v) \<and> len_between 1 512 (av_payee_name v) \<and> uint_string (av_amount v) \<and>
     currency_ok (av_currency v) \<and> len_between 1 128 (av_instrument v) \<and> timestamp_ok (av_verified_at v)"

definition ap2_verification_json :: "ap2_verification \<Rightarrow> json" where
  "ap2_verification_json v = JObj
     [(''version'', JStr ''inntris-ap2-official-verification-v1''),
      (''sdk'', JObj [(''repository'', JStr ap2_repository), (''commit'', JStr ap2_commit), (''protocol_version'', JStr ''0.2'')]),
      (''mode'', JStr ''autonomous''),
      (''intent'', JObj [(''verified'', JBool (av_intent_verified v)),
        (''checkout_open_mandate_hash'', JStr (av_checkout_open_hash v)),
        (''payment_open_mandate_hash'', JStr (av_payment_open_hash v))]),
      (''checkout'', JObj [(''verified'', JBool True), (''mandate_hash'', JStr (av_checkout_mandate v)),
        (''expires_at'', JStr (av_checkout_expires v)), (''checkout_hash'', JStr (av_checkout_hash v)),
        (''checkout_id'', JStr (av_checkout_id v)), (''merchant_id'', JStr (av_merchant_id v)),
        (''merchant_name'', JStr (av_merchant_name v))]),
      (''payment'', JObj [(''verified'', JBool True), (''mandate_hash'', JStr (av_payment_mandate v)),
        (''expires_at'', JStr (av_payment_expires v)), (''transaction_id'', JStr (av_transaction_id v)),
        (''payee_id'', JStr (av_payee_id v)), (''payee_name'', JStr (av_payee_name v)),
        (''amount_minor'', JStr (av_amount v)), (''currency'', JStr (av_currency v)),
        (''payment_instrument_type'', JStr (av_instrument v))]),
      (''verified_at'', JStr (av_verified_at v))]"

definition get_bool :: "(string \<times> json) list \<Rightarrow> string \<Rightarrow> bool option" where
  "get_bool ob k = (case map_of ob k of Some (JBool b) \<Rightarrow> Some b | _ \<Rightarrow> None)"

definition get_true :: "(string \<times> json) list \<Rightarrow> string \<Rightarrow> unit option" where
  "get_true ob k = (if get_bool ob k = Some True then Some () else None)"

definition parse_ap2_verification :: "json \<Rightarrow> ap2_verification option" where
  "parse_ap2_verification x = do {
     ob \<leftarrow> strict_obj [''version'', ''sdk'', ''mode'', ''intent'', ''checkout'', ''payment'', ''verified_at''] x;
     get_lit ob ''version'' ''inntris-ap2-official-verification-v1'';
     sv \<leftarrow> map_of ob ''sdk''; so \<leftarrow> strict_obj [''repository'', ''commit'', ''protocol_version''] sv;
     get_lit so ''repository'' ap2_repository; get_lit so ''commit'' ap2_commit; get_lit so ''protocol_version'' ''0.2'';
     get_lit ob ''mode'' ''autonomous'';
     iv \<leftarrow> map_of ob ''intent'';
     io \<leftarrow> strict_obj [''verified'', ''checkout_open_mandate_hash'', ''payment_open_mandate_hash''] iv;
     b \<leftarrow> get_bool io ''verified''; coh \<leftarrow> get_str io ''checkout_open_mandate_hash'';
     poh \<leftarrow> get_str io ''payment_open_mandate_hash'';
     cv \<leftarrow> map_of ob ''checkout'';
     co \<leftarrow> strict_obj [''verified'', ''mandate_hash'', ''expires_at'', ''checkout_hash'', ''checkout_id'', ''merchant_id'',
       ''merchant_name''] cv;
     get_true co ''verified''; cm \<leftarrow> get_str co ''mandate_hash''; ce \<leftarrow> get_str co ''expires_at'';
     ch \<leftarrow> get_str co ''checkout_hash''; ci \<leftarrow> get_str co ''checkout_id''; mi \<leftarrow> get_str co ''merchant_id'';
     mn \<leftarrow> get_str co ''merchant_name'';
     pv \<leftarrow> map_of ob ''payment'';
     po \<leftarrow> strict_obj [''verified'', ''mandate_hash'', ''expires_at'', ''transaction_id'', ''payee_id'', ''payee_name'',
       ''amount_minor'', ''currency'', ''payment_instrument_type''] pv;
     get_true po ''verified''; pm \<leftarrow> get_str po ''mandate_hash''; pe \<leftarrow> get_str po ''expires_at'';
     ti \<leftarrow> get_str po ''transaction_id''; pi \<leftarrow> get_str po ''payee_id''; pn \<leftarrow> get_str po ''payee_name'';
     am \<leftarrow> get_str po ''amount_minor''; cu \<leftarrow> get_str po ''currency''; it \<leftarrow> get_str po ''payment_instrument_type'';
     va \<leftarrow> get_str ob ''verified_at'';
     let v = \<lparr>av_intent_verified = b, av_checkout_open_hash = coh, av_payment_open_hash = poh, av_checkout_mandate = cm,
       av_checkout_expires = ce, av_checkout_hash = ch, av_checkout_id = ci, av_merchant_id = mi, av_merchant_name = mn,
       av_payment_mandate = pm, av_payment_expires = pe, av_transaction_id = ti, av_payee_id = pi, av_payee_name = pn,
       av_amount = am, av_currency = cu, av_instrument = it, av_verified_at = va\<rparr>;
     guard_opt (ap2_verification_ok v) v }"

record ap2_input =
  ai_mandates :: mandates
  ai_principal_id :: string
  ai_agent_id :: string
  ai_resource :: string
  ai_purpose :: string
  ai_merchant_id :: string
  ai_amount :: string
  ai_currency :: string
  ai_extensions :: "(string \<times> json) list option"

definition ap2_input_ok :: "host \<Rightarrow> ap2_input \<Rightarrow> bool" where
  "ap2_input_ok H i \<longleftrightarrow>
     mandates_ok (ai_mandates i) \<and> len_between 1 128 (ai_principal_id i) \<and> len_between 1 128 (ai_agent_id i) \<and>
     url_ok H (ai_resource i) \<and> len_between 1 128 (ai_purpose i) \<and> len_between 1 128 (ai_merchant_id i) \<and>
     uint_string (ai_amount i) \<and> currency_ok (ai_currency i)"

subsection \<open>binding.ts\<close>

definition ap2_binding_error :: "string \<Rightarrow> error" where
  "ap2_binding_error m = JsError ''AP2BindingError'' m"

definition format_minor_amount :: "string \<Rightarrow> rat \<Rightarrow> error + string" where
  "format_minor_amount amt decimals =
     (if \<not> uint_string amt
      then Inl (ap2_binding_error ''AP2 amount must be an unsigned minor-unit integer string'')
      else if of_int \<lfloor>decimals\<rfloor> \<noteq> decimals \<or> decimals < 0 \<or> decimals > 18
      then Inl (ap2_binding_error ''currencyDecimals must be an integer from 0 to 18'')
      else Inr (format_units amt (nat \<lfloor>decimals\<rfloor>)))"

definition intent_hash :: "host \<Rightarrow> ap2_verification \<Rightarrow> string" where
  "intent_hash H v = hash_canonical H (JObj
     [(''version'', JStr ''inntris-ap2-intent-verification-v1''),
      (''checkout_open_mandate_hash'', JStr (av_checkout_open_hash v)),
      (''payment_open_mandate_hash'', JStr (av_payment_open_hash v)),
      (''checkout_mandate_hash'', JStr (av_checkout_mandate v)),
      (''payment_mandate_hash'', JStr (av_payment_mandate v))])"

definition action_from_ap2 :: "host \<Rightarrow> ap2_input \<Rightarrow> ap2_verification \<Rightarrow> rat \<Rightarrow> error + action" where
  "action_from_ap2 H i v decimals =
     (if \<not> mandates_ok (ai_mandates i) \<or> \<not> ap2_verification_ok v then Inl ZodError
      else
        bind_sum (format_minor_amount (av_amount v) decimals) (\<lambda>amt.
          check_action H
            \<lparr>a_principal_id = ai_principal_id i, a_agent_id = ai_agent_id i, a_rail = AP2,
             a_reference = AP2Ref (ai_resource i) (intent_hash H v) (av_checkout_mandate v) (av_payment_mandate v)
               (av_checkout_hash v) (av_transaction_id v),
             a_transaction = \<lparr>tx_amount = amt, tx_asset = av_currency v, tx_network = av_instrument v,
               tx_payee = av_payee_id v, tx_purpose = ai_purpose i\<rparr>,
             a_extensions = Some (AList.update ''inntris_ap2'' (JObj [(''sdk_commit'', JStr ap2_commit),
                 (''checkout_id'', JStr (av_checkout_id v)), (''payment_instrument_type'', JStr (av_instrument v))])
               (case ai_extensions i of None \<Rightarrow> [] | Some e \<Rightarrow> e))\<rparr>))"

subsection \<open>receipt.ts\<close>

record ap2_receipt =
  pr_receipt_id :: string
  pr_fingerprint :: string
  pr_intent_hash :: string
  pr_checkout_mandate :: string
  pr_payment_mandate :: string
  pr_checkout_hash :: string
  pr_transaction_id :: string
  pr_decision_id :: string
  pr_decision_fingerprint :: string
  pr_action_hash :: string
  pr_execution_ref :: string
  pr_result_hash :: string
  pr_executed_at :: string
  pr_key_id :: string
  pr_signature :: string

definition ap2_receipt_version :: string where
  "ap2_receipt_version = ''inntris-ap2-action-receipt-v1''"

definition ap2_receipt_fields :: "ap2_receipt \<Rightarrow> (string \<times> string) list" where
  "ap2_receipt_fields r =
     [(''receipt_id'', pr_receipt_id r), (''intent_verification_hash'', pr_intent_hash r),
      (''checkout_mandate_hash'', pr_checkout_mandate r), (''payment_mandate_hash'', pr_payment_mandate r),
      (''checkout_hash'', pr_checkout_hash r), (''transaction_id'', pr_transaction_id r),
      (''decision_id'', pr_decision_id r), (''decision_fingerprint'', pr_decision_fingerprint r),
      (''action_hash'', pr_action_hash r), (''execution_ref'', pr_execution_ref r),
      (''delegate_result_hash'', pr_result_hash r), (''executed_at'', pr_executed_at r)]"

definition ap2_receipt_ok :: "ap2_receipt \<Rightarrow> bool" where
  "ap2_receipt_ok r \<longleftrightarrow>
     identifier_ok (pr_receipt_id r) \<and> hash_ok (pr_fingerprint r) \<and> hash_ok (pr_intent_hash r) \<and>
     hash_ok (pr_checkout_mandate r) \<and> hash_ok (pr_payment_mandate r) \<and> base64url (pr_checkout_hash r) \<and>
     base64url (pr_transaction_id r) \<and> identifier_ok (pr_decision_id r) \<and> hash_ok (pr_decision_fingerprint r) \<and>
     hash_ok (pr_action_hash r) \<and> len_between 1 512 (pr_execution_ref r) \<and> hash_ok (pr_result_hash r) \<and>
     timestamp_ok (pr_executed_at r) \<and> identifier_ok (pr_key_id r) \<and> base64url (pr_signature r)"

definition ap2_receipt_json :: "ap2_receipt \<Rightarrow> json" where
  "ap2_receipt_json r =
     signed_receipt_json ap2_receipt_version (ap2_receipt_fields r) (pr_key_id r) (pr_fingerprint r) (pr_signature r)"

definition parse_ap2_receipt :: "json \<Rightarrow> ap2_receipt option" where
  "parse_ap2_receipt v = do {
     ob \<leftarrow> strict_obj [''version'', ''receipt_id'', ''receipt_fingerprint'', ''intent_verification_hash'',
       ''checkout_mandate_hash'', ''payment_mandate_hash'', ''checkout_hash'', ''transaction_id'', ''decision_id'',
       ''decision_fingerprint'', ''action_hash'', ''execution_ref'', ''delegate_result_hash'', ''executed_at'', ''signing''] v;
     get_lit ob ''version'' ''inntris-ap2-action-receipt-v1''; ri \<leftarrow> get_str ob ''receipt_id'';
     fp \<leftarrow> get_str ob ''receipt_fingerprint''; ih \<leftarrow> get_str ob ''intent_verification_hash'';
     cm \<leftarrow> get_str ob ''checkout_mandate_hash''; pm \<leftarrow> get_str ob ''payment_mandate_hash'';
     ch \<leftarrow> get_str ob ''checkout_hash''; ti \<leftarrow> get_str ob ''transaction_id''; di \<leftarrow> get_str ob ''decision_id'';
     df \<leftarrow> get_str ob ''decision_fingerprint''; ah \<leftarrow> get_str ob ''action_hash'';
     xr \<leftarrow> get_str ob ''execution_ref''; rh \<leftarrow> get_str ob ''delegate_result_hash'';
     ea \<leftarrow> get_str ob ''executed_at''; sv \<leftarrow> map_of ob ''signing'';
     so \<leftarrow> strict_obj [''alg'', ''key_id'', ''signature''] sv; get_lit so ''alg'' ''Ed25519'';
     ki \<leftarrow> get_str so ''key_id''; sg \<leftarrow> get_str so ''signature'';
     let x = \<lparr>pr_receipt_id = ri, pr_fingerprint = fp, pr_intent_hash = ih, pr_checkout_mandate = cm,
       pr_payment_mandate = pm, pr_checkout_hash = ch, pr_transaction_id = ti, pr_decision_id = di,
       pr_decision_fingerprint = df, pr_action_hash = ah, pr_execution_ref = xr, pr_result_hash = rh,
       pr_executed_at = ea, pr_key_id = ki, pr_signature = sg\<rparr>;
     guard_opt (ap2_receipt_ok x) x }"

definition create_ap2_receipt ::
  "host \<Rightarrow> signer \<Rightarrow> string \<Rightarrow> action \<Rightarrow> decision \<Rightarrow> ap2_verification \<Rightarrow> string \<Rightarrow> json \<Rightarrow> int \<Rightarrow> error + ap2_receipt" where
  "create_ap2_receipt H sg rid a d v ref result executed =
     (case a_reference a of
        AP2Ref r ih cm pm ch ti \<Rightarrow>
          (case to_iso_string executed of
             None \<Rightarrow> Inl (JsError ''RangeError'' ''Invalid time value'')
           | Some ea \<Rightarrow>
               let u = \<lparr>pr_receipt_id = rid, pr_fingerprint = [], pr_intent_hash = ih,
                 pr_checkout_mandate = av_checkout_mandate v, pr_payment_mandate = av_payment_mandate v,
                 pr_checkout_hash = av_checkout_hash v, pr_transaction_id = av_transaction_id v,
                 pr_decision_id = d_decision_id d, pr_decision_fingerprint = d_fingerprint d,
                 pr_action_hash = d_action_hash d, pr_execution_ref = ref,
                 pr_result_hash = hash_canonical H result, pr_executed_at = ea, pr_key_id = s_key_id sg,
                 pr_signature = []\<rparr>
               in bind_sum (sign_receipt H sg ap2_receipt_version (ap2_receipt_fields u)) (\<lambda>(fp, sig).
                    let r = u\<lparr>pr_fingerprint := fp, pr_signature := sig\<rparr>
                    in if ap2_receipt_ok r then Inr r else Inl ZodError))
      | _ \<Rightarrow> Inl (JsError ''TypeError'' ''AP2 receipt requires an AP2 action''))"

definition verify_ap2_receipt :: "host \<Rightarrow> json \<Rightarrow> json \<Rightarrow> receipt_verification" where
  "verify_ap2_receipt H v reg =
     (case (parse_ap2_receipt v, parse_registry reg) of
        (Some r, Some ks) \<Rightarrow> check_receipt H ap2_receipt_version (ap2_receipt_fields r) (pr_executed_at r) (pr_key_id r)
          (pr_fingerprint r) (pr_signature r) ks
      | _ \<Rightarrow> no_receipt)"

subsection \<open>store.ts\<close>

text \<open>Executions are keyed by the payment mandate; their binding is the binding hash and the
  execution reference.\<close>

record ap2_completion =
  pc_action :: action
  pc_decision :: decision
  pc_verification :: ap2_verification
  pc_receipt :: ap2_receipt
  pc_result :: json

type_synonym ap2_executions = "string \<Rightarrow> (string \<times> string, ap2_completion) stored_execution option"

definition ap2_claim ::
  "string \<Rightarrow> string \<times> string \<Rightarrow> (error, ap2_executions, (string \<times> string, ap2_completion) execution_claim) io" where
  "ap2_claim = claim_execution"

definition ap2_complete ::
  "string \<Rightarrow> string \<times> string \<Rightarrow> ap2_completion \<Rightarrow> (error, ap2_executions, unit) io" where
  "ap2_complete = complete_execution ''AP2 execution was not claimed with the same binding''"

subsection \<open>gate.ts\<close>

text \<open>The options of the gate; the maximal age and the decimals are numbers of JavaScript.\<close>

record 's ap2_gate =
  pg_evaluate :: "action \<Rightarrow> (error, 's, decision) io"
  pg_consume :: "consume_input \<Rightarrow> (error, 's, consume_result) io"
  pg_registry :: "key_entry list"
  pg_policy_version :: "string option"
  pg_verify :: "ap2_request \<Rightarrow> (error, 's, json) io"
  pg_trust :: "string \<Rightarrow> (error, 's, (string \<times> json) list \<times> (string \<times> json) list) io"
  pg_signer :: signer
  pg_claim :: "string \<Rightarrow> string \<times> string \<Rightarrow> (error, 's, (string \<times> string, ap2_completion) execution_claim) io"
  pg_complete :: "string \<Rightarrow> string \<times> string \<Rightarrow> ap2_completion \<Rightarrow> (error, 's, unit) io"
  pg_max_age :: rat
  pg_decimals :: "(string \<times> rat) list"

record ap2_delegate_input =
  pd_action :: action
  pd_decision :: decision
  pd_verification :: ap2_verification
  pd_execution_ref :: string

record ap2_result =
  pz_action :: action
  pz_decision :: decision
  pz_verification :: ap2_verification
  pz_execution_ref :: string
  pz_receipt :: ap2_receipt
  pz_result :: json
  pz_replayed :: bool

definition ap2_error :: "string \<Rightarrow> string option \<Rightarrow> string \<Rightarrow> error" where
  "ap2_error code cause msg = GateError ''InntrisAP2RuntimeGateError'' code cause msg"

definition or_ap2 :: "(error, 's, 'a) io \<Rightarrow> string \<Rightarrow> string \<Rightarrow> (error, 's, 'a) io" where
  "or_ap2 m code msg = catch_io m (\<lambda>e. throw (ap2_error code (Some (error_name e)) msg))"

definition new_ap2_gate :: "'s ap2_gate \<Rightarrow> error + 's ap2_gate" where
  "new_ap2_gate G =
     (if of_int \<lfloor>pg_max_age G\<rfloor> \<noteq> pg_max_age G \<or> pg_max_age G < 1 \<or> pg_max_age G > 300
      then Inl (JsError ''TypeError'' ''maxVerificationAgeSeconds must be an integer from 1 to 300'')
      else if list_ex (\<lambda>(c, d). \<not> currency_ok c \<or> of_int \<lfloor>d\<rfloor> \<noteq> d \<or> d < 0 \<or> d > 18) (pg_decimals G)
      then Inl (JsError ''TypeError'' ''currencyDecimals must map ISO currency codes to integers from 0 to 18'')
      else Inr G)"

definition require_current :: "ap2_verification \<Rightarrow> int \<Rightarrow> rat \<Rightarrow> error + unit" where
  "require_current v now max_age =
     (let age = now - time_of (av_verified_at v)
      in if age < 0 \<or> of_int age > max_age * 1000
         then Inl (ap2_error ''AP2_VERIFICATION_STALE'' None ''Official AP2 verification is stale or from the future'')
         else if time_of (av_checkout_expires v) \<le> now \<or> time_of (av_payment_expires v) \<le> now
         then Inl (ap2_error ''AP2_MANDATE_EXPIRED'' None ''An AP2 mandate has expired'')
         else Inr ())"

definition require_exact_binding :: "ap2_input \<Rightarrow> ap2_verification \<Rightarrow> error + unit" where
  "require_exact_binding i v =
     (if \<not> av_intent_verified v
      then Inl (ap2_error ''AP2_INTENT_INVALID'' None ''AP2 autonomous intent constraints were not verified'')
      else if av_merchant_id v \<noteq> ai_merchant_id i \<or> av_payee_id v \<noteq> ai_merchant_id i \<or> av_merchant_id v \<noteq> av_payee_id v
      then Inl (ap2_error ''AP2_CHECKOUT_BINDING_MISMATCH'' None
             ''AP2 checkout and payment mandates are bound to a different merchant'')
      else if av_amount v \<noteq> ai_amount i \<or> av_currency v \<noteq> ai_currency i \<or> av_transaction_id v \<noteq> av_checkout_hash v
      then Inl (ap2_error ''AP2_PAYMENT_BINDING_MISMATCH'' None
             ''AP2 payment amount, currency, or checkout reference differs from execution'')
      else Inr ())"

text \<open>An answer that does not parse: does it at least come from the pinned SDK?\<close>

definition pinned_sdk :: "json \<Rightarrow> bool" where
  "pinned_sdk raw =
     (case raw of
        JObj ob \<Rightarrow>
          (case map_of ob ''sdk'' of
             Some (JObj so) \<Rightarrow>
               map_of so ''repository'' = Some (JStr ap2_repository) \<and> map_of so ''commit'' = Some (JStr ap2_commit)
           | _ \<Rightarrow> False)
      | _ \<Rightarrow> False)"

definition read_ap2_verification :: "json \<Rightarrow> error + ap2_verification" where
  "read_ap2_verification raw =
     (case parse_ap2_verification raw of
        Some v \<Rightarrow> Inr v
      | None \<Rightarrow>
          if \<not> pinned_sdk raw
          then Inl (ap2_error ''AP2_SDK_PROVENANCE_MISMATCH'' None
                 ''AP2 verifier provenance does not match the pinned official SDK'')
          else Inl (ap2_error ''AP2_VERIFICATION_FAILED'' None ''AP2 verifier returned invalid evidence''))"

text \<open>\<open>process\<close> up to the bound action.\<close>

definition ap2_prepare :: "host \<Rightarrow> 's ap2_gate \<Rightarrow> int \<Rightarrow> ap2_input \<Rightarrow> (error, 's, ap2_verification \<times> action) io" where
  "ap2_prepare H G now i =
     (if \<not> ap2_input_ok H i then throw (ap2_error ''INVALID_AP2_INPUT'' None ''AP2 runtime input is invalid'')
      else
        bind_io (or_ap2 (pg_trust G (ai_merchant_id i)) ''AP2_TRUST_UNAVAILABLE'' ''AP2 trust material is unavailable'') (\<lambda>(ij, mj).
        let q = \<lparr>vq_mandates = ai_mandates i, vq_issuer_jwk = ij, vq_merchant_jwk = mj,
          vq_merchant_id = ai_merchant_id i, vq_time = now div 1000\<rparr>
        in if \<not> ap2_request_ok q then throw ZodError
           else
             bind_io (or_ap2 (pg_verify G q) ''AP2_VERIFICATION_FAILED'' ''Official AP2 SDK verification failed closed'') (\<lambda>raw.
             bind_io (lift_io (read_ap2_verification raw)) (\<lambda>v.
             bind_io (lift_io (require_current v now (pg_max_age G))) (\<lambda>_.
             bind_io (lift_io (require_exact_binding i v)) (\<lambda>_.
             case map_of (pg_decimals G) (av_currency v) of
               None \<Rightarrow> throw (ap2_error ''INVALID_AP2_INPUT'' None
                 ''The AP2 payment currency has no operator configured minor unit mapping'')
             | Some decimals \<Rightarrow>
                 bind_io (or_ap2 (lift_io (action_from_ap2 H i v decimals)) ''INVALID_AP2_INPUT''
                   ''AP2 evidence could not be bound to an Inntris action'') (\<lambda>a. ret (v, a))))))))"

definition ap2_verify_decision :: "host \<Rightarrow> 's ap2_gate \<Rightarrow> decision \<Rightarrow> action \<Rightarrow> int \<Rightarrow> verification" where
  "ap2_verify_decision H G d a now = verify_decision H
     \<lparr>vi_decision = decision_json d, vi_action = action_json a, vi_registry = registry_json (pg_registry G),
      vi_at = now, vi_policy_version = pg_policy_version G, vi_requirements_hash = None\<rparr>"

definition ap2_execution_ref :: "host \<Rightarrow> ap2_verification \<Rightarrow> decision \<Rightarrow> string" where
  "ap2_execution_ref H v d = ''ap2-execution:'' @ drop 7 (hash_canonical H (JObj
     [(''version'', JStr ''inntris-ap2-execution-ref-v1''), (''checkout_mandate_hash'', JStr (av_checkout_mandate v)),
      (''payment_mandate_hash'', JStr (av_payment_mandate v)), (''action_hash'', JStr (d_action_hash d))]))"

definition ap2_binding_hash :: "host \<Rightarrow> ap2_verification \<Rightarrow> action \<Rightarrow> decision \<Rightarrow> string" where
  "ap2_binding_hash H v a d = hash_canonical H (JObj
     [(''version'', JStr ''inntris-ap2-execution-binding-v1''),
      (''intent_verification_hash'', (case a_reference a of AP2Ref r ih cm pm ch ti \<Rightarrow> JStr ih | _ \<Rightarrow> JNull)),
      (''checkout_mandate_hash'', JStr (av_checkout_mandate v)), (''payment_mandate_hash'', JStr (av_payment_mandate v)),
      (''action_hash'', JStr (d_action_hash d))])"

text \<open>\<open>process\<close> up to a verified \<open>ALLOW\<close>.\<close>

definition ap2_authorise ::
  "host \<Rightarrow> 's ap2_gate \<Rightarrow> (nat \<Rightarrow> int) \<Rightarrow> ap2_input \<Rightarrow> (error, 's, ap2_verification \<times> action \<times> decision) io" where
  "ap2_authorise H G clk i =
     bind_io (ap2_prepare H G (clk 0) i) (\<lambda>(v, a).
     bind_io (or_ap2 (pg_evaluate G a) ''DECISION_INVALID'' ''Inntris policy evaluation failed closed'') (\<lambda>d.
     let w = ap2_verify_decision H G d a (clk 1)
     in if \<not> vr_valid w
        then throw (ap2_error ''DECISION_INVALID'' (Some (join_with '','' (map reason_string (vr_reasons w))))
               ''Inntris returned a decision that could not be verified'')
        else if d_verdict d \<noteq> ALLOW
        then throw (ap2_error ''DECISION_NOT_ALLOW'' None ''Current organisational policy did not allow the AP2 payment'')
        else bind_io (lift_io (require_current v (clk 2) (pg_max_age G))) (\<lambda>_. ret (v, a, d))))"

definition ap2_begin ::
  "host \<Rightarrow> 's ap2_gate \<Rightarrow> (nat \<Rightarrow> int) \<Rightarrow> ap2_input \<Rightarrow>
    (error, 's, ap2_verification \<times> action \<times> decision \<times> string \<times> string \<times>
      (string \<times> string, ap2_completion) execution_claim) io" where
  "ap2_begin H G clk i =
     bind_io (ap2_authorise H G clk i) (\<lambda>(v, a, d).
       let ref = ap2_execution_ref H v d in
       bind_io (or_ap2 (pg_consume G \<lparr>co_decision_id = d_decision_id d, co_action_hash = d_action_hash d,
           co_execution_ref = ref\<rparr>) ''DECISION_CONSUMPTION_FAILED''
         ''Inntris decision consumption is unavailable; AP2 execution is blocked'') (\<lambda>c.
       if \<not> cr_success c
       then throw (ap2_error ''DECISION_CONSUMPTION_FAILED'' (map_option reason_string (cr_reason c))
              ''Inntris decision consumption failed; AP2 execution is blocked'')
       else
         let b = ap2_binding_hash H v a d in
         bind_io (or_ap2 (pg_claim G (av_payment_mandate v) (b, ref)) ''AP2_EXECUTION_STORE_UNAVAILABLE''
           ''AP2 execution state is unavailable; automatic execution is paused'') (\<lambda>cl.
         ret (v, a, d, ref, b, cl))))"

text \<open>After the delegate: sign the receipt, complete the execution.\<close>

definition ap2_finish ::
  "host \<Rightarrow> 's ap2_gate \<Rightarrow> int \<Rightarrow> string \<Rightarrow> ap2_verification \<Rightarrow> action \<Rightarrow> decision \<Rightarrow> string \<Rightarrow> string \<Rightarrow> json \<Rightarrow>
    (error, 's, ap2_result) io" where
  "ap2_finish H G now rid v a d ref b result =
     bind_io (or_ap2 (lift_io (create_ap2_receipt H (pg_signer G) rid a d v ref result now)) ''AP2_RECEIPT_SIGNING_FAILED''
       ''AP2 delegate completed but its receipt could not be signed'') (\<lambda>r.
     bind_io (or_ap2 (pg_complete G (av_payment_mandate v) (b, ref)
         \<lparr>pc_action = a, pc_decision = d, pc_verification = v, pc_receipt = r, pc_result = result\<rparr>)
       ''AP2_EXECUTION_STORE_UNAVAILABLE'' ''AP2 delegate completed but execution state could not be finalised'') (\<lambda>_.
     ret \<lparr>pz_action = a, pz_decision = d, pz_verification = v, pz_execution_ref = ref, pz_receipt = r,
          pz_result = result, pz_replayed = False\<rparr>))"

definition ap2_process ::
  "host \<Rightarrow> 's ap2_gate \<Rightarrow> (nat \<Rightarrow> int) \<Rightarrow> string \<Rightarrow> ap2_input \<Rightarrow> (ap2_delegate_input \<Rightarrow> (error, 's, json) io) \<Rightarrow>
    (error, 's, ap2_result) io" where
  "ap2_process H G clk rid i delegate =
     bind_io (ap2_begin H G clk i) (\<lambda>(v, a, d, ref, b, cl).
       case cl of
         ClaimConflict \<Rightarrow> throw (ap2_error ''AP2_EXECUTION_CONFLICT'' None
           ''The AP2 Payment Mandate was already bound to a different execution'')
       | ClaimInFlight \<Rightarrow> throw (ap2_error ''AP2_EXECUTION_IN_PROGRESS'' None
           ''The AP2 Payment Mandate has an unresolved execution attempt'')
       | ClaimCompleted b' c \<Rightarrow> ret \<lparr>pz_action = pc_action c, pz_decision = pc_decision c,
           pz_verification = pc_verification c, pz_execution_ref = snd b', pz_receipt = pc_receipt c,
           pz_result = pc_result c, pz_replayed = True\<rparr>
       | NewClaim \<Rightarrow>
           bind_io (or_ap2 (delegate \<lparr>pd_action = a, pd_decision = d, pd_verification = v, pd_execution_ref = ref\<rparr>)
             ''AP2_DELEGATE_FAILED'' ''AP2 delegate failed after execution was claimed; reconciliation is required'')
             (ap2_finish H G (clk 3) rid v a d ref b))"

subsection \<open>Parsers read back what is printed\<close>

lemma parse_ap2_verification_json: "parse_ap2_verification (ap2_verification_json v) = guard_opt (ap2_verification_ok v) v"
  by (cases v) (simp add: parse_ap2_verification_def ap2_verification_json_def get_bool_def get_true_def read_defs)

lemma parse_ap2_receipt_json: "parse_ap2_receipt (ap2_receipt_json r) = guard_opt (ap2_receipt_ok r) r"
  by (cases r) (simp add: parse_ap2_receipt_def ap2_receipt_json_def signed_receipt_json_def text_fields_def
      ap2_receipt_fields_def ap2_receipt_version_def read_defs)

lemma parse_ap2_verification_ok: "parse_ap2_verification x = Some v \<Longrightarrow> ap2_verification_ok v"
  by (auto simp: parse_ap2_verification_def Let_def bind_eq_Some_conv guard_opt_def split: if_splits)

subsection \<open>Receipts verify\<close>

lemma ap2_receipt_fields_keys:
  "map fst (ap2_receipt_fields r) = map fst (ap2_receipt_fields r')" "distinct (map fst (ap2_receipt_fields r))"
  "''version'' \<notin> set (map fst (ap2_receipt_fields r))" "''signing'' \<notin> set (map fst (ap2_receipt_fields r))"
  by (simp_all add: ap2_receipt_fields_def)

lemma create_ap2_receipt_Inr:
  assumes "create_ap2_receipt H sg rid a d v ref result executed = Inr r"
  shows "ap2_receipt_ok r \<and> pr_key_id r = s_key_id sg \<and>
    sign_receipt H sg ap2_receipt_version (ap2_receipt_fields r) = Inr (pr_fingerprint r, pr_signature r) \<and>
    time_of (pr_executed_at r) = executed \<and> pr_decision_id r = d_decision_id d \<and> pr_action_hash r = d_action_hash d \<and>
    pr_payment_mandate r = av_payment_mandate v \<and> pr_execution_ref r = ref \<and> pr_result_hash r = hash_canonical H result"
proof -
  from assms obtain ea where ea: "to_iso_string executed = Some ea"
    by (auto simp: create_ap2_receipt_def split: option.splits protocol_reference.splits)
  with assms obtain fp sig where r: "ap2_receipt_ok r" "pr_key_id r = s_key_id sg" "pr_fingerprint r = fp" "pr_signature r = sig"
      "pr_executed_at r = ea" "pr_decision_id r = d_decision_id d" "pr_action_hash r = d_action_hash d"
      "pr_payment_mandate r = av_payment_mandate v" "pr_execution_ref r = ref" "pr_result_hash r = hash_canonical H result"
    and sg: "sign_receipt H sg ap2_receipt_version (ap2_receipt_fields r) = Inr (fp, sig)"
    by (auto simp: create_ap2_receipt_def bind_sum_Inr Let_def ap2_receipt_fields_def split: if_splits protocol_reference.splits)
  moreover have "timestamp_ok ea" using r by (simp add: ap2_receipt_ok_def)
  ultimately show ?thesis using to_iso_string_time [OF ea] by simp
qed

lemma created_ap2_receipt_verifies:
  assumes c: "create_ap2_receipt H sg rid a d v ref result executed = Inr r"
    and sg: "signer_ok H sg" "length (s_public_key sg) = 32"
    and k: "key_registry_entry H sg nb na st = Inr k" "st \<noteq> Some Revoked" "registry_ok ks" "k \<in> set ks"
    and window: "nb \<le> executed" "\<forall>t. na = Some t \<longrightarrow> executed < t"
  shows "rk_valid (verify_ap2_receipt H (ap2_receipt_json r) (registry_json ks))"
proof -
  note f = create_ap2_receipt_Inr [OF c]
  from f have s: "sign_receipt H sg ap2_receipt_version (ap2_receipt_fields r) = Inr (pr_fingerprint r, pr_signature r)"
    and t: "time_of (pr_executed_at r) = executed" by simp_all
  from signed_receipt_verifies [OF s sg k, of "pr_executed_at r"] window f
  show ?thesis by (simp add: t verify_ap2_receipt_def parse_ap2_receipt_json parse_registry_json k(3))
qed

subsection \<open>The bound action\<close>

lemma format_minor_amount_exact:
  assumes "format_minor_amount amt q = Inr x"
  shows "canonical_amount x \<and> decimal_value x = of_nat (digits_value amt) / 10 ^ nat \<lfloor>q\<rfloor>"
proof -
  from assms have "format_atomic_amount amt q = Inr x"
    by (auto simp: format_minor_amount_def format_atomic_amount_def split: if_splits)
  from format_atomic_amount_exact [OF this] show ?thesis by blast
qed

definition ap2_bound :: "host \<Rightarrow> ap2_input \<Rightarrow> ap2_verification \<Rightarrow> rat \<Rightarrow> action \<Rightarrow> bool" where
  "ap2_bound H i v decimals a \<longleftrightarrow>
     action_ok H a \<and> a_rail a = AP2 \<and> a_principal_id a = ai_principal_id i \<and> a_agent_id a = ai_agent_id i \<and>
     a_reference a = AP2Ref (ai_resource i) (intent_hash H v) (av_checkout_mandate v) (av_payment_mandate v)
       (av_checkout_hash v) (av_transaction_id v) \<and>
     tx_payee (a_transaction a) = av_payee_id v \<and> tx_asset (a_transaction a) = av_currency v \<and>
     tx_network (a_transaction a) = av_instrument v \<and> tx_purpose (a_transaction a) = ai_purpose i \<and>
     canonical_amount (tx_amount (a_transaction a)) \<and>
     decimal_value (tx_amount (a_transaction a)) = of_nat (digits_value (av_amount v)) / 10 ^ nat \<lfloor>decimals\<rfloor>"

lemma action_from_ap2_bound: "action_from_ap2 H i v decimals = Inr a \<Longrightarrow> ap2_bound H i v decimals a"
  using format_minor_amount_exact
  by (auto simp: action_from_ap2_def bind_sum_Inr check_action_def ap2_bound_def split: if_splits)

subsection \<open>What reaches the delegate\<close>

lemma or_ap2_Inr: "or_ap2 m code msg s = (Inr x, s') \<longleftrightarrow> m s = (Inr x, s')"
  by (auto simp: or_ap2_def catch_io_apply split: prod.splits sum.splits)

lemma keeps_or_ap2 [keeps_intros]: "state_order R \<Longrightarrow> keeps R m \<Longrightarrow> keeps R (or_ap2 m code msg)"
  unfolding or_ap2_def by (intro keeps_intros)

definition ap2_current :: "ap2_verification \<Rightarrow> int \<Rightarrow> rat \<Rightarrow> bool" where
  "ap2_current v now max_age \<longleftrightarrow>
     time_of (av_verified_at v) \<le> now \<and> of_int (now - time_of (av_verified_at v)) \<le> max_age * 1000 \<and>
     now < time_of (av_checkout_expires v) \<and> now < time_of (av_payment_expires v)"

lemma require_current_Inr: "require_current v now max_age = Inr () \<longleftrightarrow> ap2_current v now max_age"
  by (auto simp: require_current_def ap2_current_def Let_def)

definition ap2_matches :: "ap2_input \<Rightarrow> ap2_verification \<Rightarrow> bool" where
  "ap2_matches i v \<longleftrightarrow> av_intent_verified v \<and> av_merchant_id v = ai_merchant_id i \<and> av_payee_id v = ai_merchant_id i \<and>
     av_amount v = ai_amount i \<and> av_currency v = ai_currency i \<and> av_transaction_id v = av_checkout_hash v"

lemma require_exact_binding_Inr: "require_exact_binding i v = Inr () \<longleftrightarrow> ap2_matches i v"
  by (auto simp: require_exact_binding_def ap2_matches_def)

lemma read_ap2_verification_Inr: "read_ap2_verification raw = Inr v \<longleftrightarrow> parse_ap2_verification raw = Some v"
  by (auto simp: read_ap2_verification_def split: option.splits)

lemma ap2_prepare_Inr:
  assumes "ap2_prepare H G now i s = (Inr (v, a), s')"
  shows "\<exists>decimals. map_of (pg_decimals G) (av_currency v) = Some decimals \<and> ap2_bound H i v decimals a \<and>
    ap2_matches i v \<and> ap2_current v now (pg_max_age G) \<and> ap2_verification_ok v"
  using assms
  by (auto simp: ap2_prepare_def bind_io_Inr or_ap2_Inr Let_def require_current_Inr require_exact_binding_Inr
      read_ap2_verification_Inr parse_ap2_verification_ok
      dest!: action_from_ap2_bound split: if_splits option.splits prod.splits)

lemma ap2_authorise_Inr:
  assumes "ap2_authorise H G clk i s = (Inr (v, a, d), s')"
  shows "(\<exists>decimals. map_of (pg_decimals G) (av_currency v) = Some decimals \<and> ap2_bound H i v decimals a) \<and>
    ap2_matches i v \<and> ap2_current v (clk 0) (pg_max_age G) \<and> ap2_current v (clk 2) (pg_max_age G) \<and>
    vr_valid (ap2_verify_decision H G d a (clk 1)) \<and> d_verdict d = ALLOW"
proof -
  from assms obtain s1 where p: "ap2_prepare H G (clk 0) i s = (Inr (v, a), s1)"
    and rest: "vr_valid (ap2_verify_decision H G d a (clk 1))" "d_verdict d = ALLOW"
      "require_current v (clk 2) (pg_max_age G) = Inr ()"
    by (auto simp: ap2_authorise_def bind_io_Inr or_ap2_Inr Let_def split: if_splits)
  with ap2_prepare_Inr [OF p] show ?thesis by (auto simp: require_current_Inr)
qed

text \<open>The verification is the verifier's answer to a request for this input's mandates, with the trust material of its
  merchant and the time of the call; the decision is the provider's answer for the action it was bound to.\<close>

definition ap2_trust_request :: "ap2_input \<Rightarrow> int \<Rightarrow> (string \<times> json) list \<times> (string \<times> json) list \<Rightarrow> ap2_request" where
  "ap2_trust_request i now trust =
     \<lparr>vq_mandates = ai_mandates i, vq_issuer_jwk = fst trust, vq_merchant_jwk = snd trust,
      vq_merchant_id = ai_merchant_id i, vq_time = now div 1000\<rparr>"

lemma ap2_authorise_run:
  assumes "ap2_authorise H G clk i s = (Inr (v, a, d), s')"
  shows "\<exists>trust s1 raw s2. pg_trust G (ai_merchant_id i) s = (Inr trust, s1) \<and>
    pg_verify G (ap2_trust_request i (clk 0) trust) s1 = (Inr raw, s2) \<and> parse_ap2_verification raw = Some v \<and>
    pg_evaluate G a s2 = (Inr d, s')"
  using assms
  by (auto simp: ap2_authorise_def ap2_prepare_def ap2_trust_request_def bind_io_Inr or_ap2_Inr Let_def
      read_ap2_verification_Inr split: if_splits option.splits prod.splits)

lemma ap2_begin_Inr:
  assumes "ap2_begin H G clk i s = (Inr (v, a, d, ref, b, cl), s')"
  shows "ref = ap2_execution_ref H v d \<and> b = ap2_binding_hash H v a d \<and>
    (\<exists>c s1 s2. ap2_authorise H G clk i s = (Inr (v, a, d), s1) \<and>
      pg_consume G \<lparr>co_decision_id = d_decision_id d, co_action_hash = d_action_hash d, co_execution_ref = ref\<rparr> s1 = (Inr c, s2) \<and>
      cr_success c \<and> pg_claim G (av_payment_mandate v) (b, ref) s2 = (Inr cl, s'))"
  using assms by (auto simp: ap2_begin_def bind_io_Inr or_ap2_Inr Let_def split: if_splits)

subsection \<open>The delegate runs at most once for a payment mandate\<close>

record ap2_call =
  pl_clock :: "nat \<Rightarrow> int"
  pl_receipt_id :: string
  pl_input :: ap2_input
  pl_outcome :: "error + json"

text \<open>\<open>settled\<close> is the log of the delegate's runs by payment mandate.\<close>

locale ap2_world = effect_log valid left settled log
  for valid :: "'s \<Rightarrow> bool" and left :: "'s \<Rightarrow> string \<Rightarrow> bool" and settled :: "'s \<Rightarrow> string list"
    and log :: "string \<Rightarrow> 's \<Rightarrow> 's" +
  fixes G :: "'s ap2_gate"
  assumes claim_new: "pg_claim G k b s = (Inr NewClaim, s') \<Longrightarrow> \<not> left s k \<and> left s' k"
    and calls_frame: "keeps (settles valid left settled) (pg_evaluate G a)"
      "keeps (settles valid left settled) (pg_consume G c)"
      "keeps (settles valid left settled) (pg_verify G q)"
      "keeps (settles valid left settled) (pg_trust G m)"
      "keeps (settles valid left settled) (pg_claim G k b)"
      "keeps (settles valid left settled) (pg_complete G k b w)"
begin

definition ap2_step :: "host \<Rightarrow> ap2_call \<Rightarrow> (error, 's, ap2_result) io" where
  "ap2_step H c = ap2_process H G (pl_clock c) (pl_receipt_id c) (pl_input c)
     (\<lambda>x s. (pl_outcome c, log (av_payment_mandate (pd_verification x)) s))"

lemma authorise_keeps: "keeps (settles valid left settled) (ap2_authorise H G clk i)"
  unfolding ap2_authorise_def ap2_prepare_def Let_def by (intro keeps_intros settles_order calls_frame)

lemma begin_keeps: "keeps (settles valid left settled) (ap2_begin H G clk i)"
  unfolding ap2_begin_def Let_def by (intro keeps_intros settles_order calls_frame authorise_keeps)

lemma finish_keeps: "keeps (settles valid left settled) (ap2_finish H G now rid v a d ref b result)"
  unfolding ap2_finish_def by (intro keeps_intros settles_order calls_frame)

lemma ap2_step_guarded: "guarded s (snd (ap2_step H c s))"
  unfolding ap2_step_def ap2_process_def
proof (rule guarded_bind [OF begin_keeps])
  fix x s1
  assume e: "ap2_begin H G (pl_clock c) (pl_input c) s = (Inr x, s1)"
  obtain v a d ref b cl where x: "x = (v, a, d, ref, b, cl)" by (cases x) auto
  let ?rest = "case x of (v, a, d, ref, b, cl) \<Rightarrow> case cl of
         ClaimConflict \<Rightarrow> throw (ap2_error ''AP2_EXECUTION_CONFLICT'' None
           ''The AP2 Payment Mandate was already bound to a different execution'')
       | ClaimInFlight \<Rightarrow> throw (ap2_error ''AP2_EXECUTION_IN_PROGRESS'' None
           ''The AP2 Payment Mandate has an unresolved execution attempt'')
       | ClaimCompleted b' c \<Rightarrow> ret \<lparr>pz_action = pc_action c, pz_decision = pc_decision c,
           pz_verification = pc_verification c, pz_execution_ref = snd b', pz_receipt = pc_receipt c,
           pz_result = pc_result c, pz_replayed = True\<rparr>
       | NewClaim \<Rightarrow>
           bind_io (or_ap2 ((\<lambda>x s. (pl_outcome c, log (av_payment_mandate (pd_verification x)) s))
               \<lparr>pd_action = a, pd_decision = d, pd_verification = v, pd_execution_ref = ref\<rparr>)
             ''AP2_DELEGATE_FAILED'' ''AP2 delegate failed after execution was claimed; reconciliation is required'')
             (ap2_finish H G (pl_clock c 3) (pl_receipt_id c) v a d ref b)"
  show "settles valid left settled s1 (snd (?rest s1)) \<or>
    (\<exists>k. \<not> left s k \<and> left s1 k \<and> settles valid left settled (log k s1) (snd (?rest s1)))"
  proof (cases "cl = NewClaim")
    case False
    then have "snd (?rest s1) = s1" by (cases cl) (simp_all add: x)
    then show ?thesis by simp
  next
    case True
    let ?k = "av_payment_mandate v"
    from ap2_begin_Inr [OF e [unfolded x True]] obtain w s2 s3 where
      st: "ap2_authorise H G (pl_clock c) (pl_input c) s = (Inr (v, a, d), s2)"
      and c: "pg_consume G \<lparr>co_decision_id = d_decision_id d, co_action_hash = d_action_hash d, co_execution_ref = ref\<rparr> s2 = (Inr w, s3)"
      and cl: "pg_claim G ?k (b, ref) s3 = (Inr NewClaim, s1)"
      by (elim conjE exE) (rule that; assumption)
    have "settles valid left settled s s3"
      by (rule settles_trans [OF keepsD [OF authorise_keeps st] keepsD [OF calls_frame(2) c]])
    moreover note claim_new [OF cl]
    ultimately have "\<not> left s ?k" "left s1 ?k" by (auto simp: settles_def)
    moreover have "settles valid left settled (log ?k s1) (snd (?rest s1))"
      using finish_keeps [of H "pl_clock c 3" "pl_receipt_id c" v a d ref b]
      by (cases "pl_outcome c") (simp_all add: x True or_ap2_def bind_io_apply catch_io_apply keeps_def)
    ultimately show ?thesis by blast
  qed
qed

lemma executed_at_most_once:
  "valid s \<Longrightarrow> settled s = [] \<Longrightarrow> run_ops (ap2_step H) cs s = (rs, s') \<Longrightarrow> count_list (settled s') k \<le> 1"
  by (rule effect_at_most_once [OF ap2_step_guarded])

lemma execution_authorised:
  assumes "settled (snd (ap2_step H c s)) \<noteq> settled s"
  shows "\<exists>trust s1 raw s2 v decimals a d s3 r s4. pg_trust G (ai_merchant_id (pl_input c)) s = (Inr trust, s1) \<and>
    pg_verify G (ap2_trust_request (pl_input c) (pl_clock c 0) trust) s1 = (Inr raw, s2) \<and> parse_ap2_verification raw = Some v \<and>
    ap2_matches (pl_input c) v \<and> ap2_current v (pl_clock c 0) (pg_max_age G) \<and> ap2_current v (pl_clock c 2) (pg_max_age G) \<and>
    map_of (pg_decimals G) (av_currency v) = Some decimals \<and> ap2_bound H (pl_input c) v decimals a \<and>
    pg_evaluate G a s2 = (Inr d, s3) \<and> vr_valid (ap2_verify_decision H G d a (pl_clock c 1)) \<and> d_verdict d = ALLOW \<and>
    pg_consume G \<lparr>co_decision_id = d_decision_id d, co_action_hash = d_action_hash d,
      co_execution_ref = ap2_execution_ref H v d\<rparr> s3 = (Inr r, s4) \<and> cr_success r \<and>
    settled (snd (ap2_step H c s)) = av_payment_mandate v # settled s"
proof -
  obtain r s1 where e: "ap2_begin H G (pl_clock c) (pl_input c) s = (r, s1)" by fastforce
  have log1: "settled s1 = settled s" using keepsD [OF begin_keeps e] by (simp add: settles_def)
  with assms e obtain y where "r = Inr y"
    by (cases r) (auto simp: ap2_step_def ap2_process_def bind_io_apply)
  moreover obtain v a d ref b cl where "y = (v, a, d, ref, b, cl)" by (cases y) auto
  ultimately have b: "ap2_begin H G (pl_clock c) (pl_input c) s = (Inr (v, a, d, ref, b, cl), s1)" using e by simp
  from ap2_begin_Inr [OF b] obtain q s2 s3 where au: "ap2_authorise H G (pl_clock c) (pl_input c) s = (Inr (v, a, d), s2)"
    and ref: "ref = ap2_execution_ref H v d"
    and q: "pg_consume G \<lparr>co_decision_id = d_decision_id d, co_action_hash = d_action_hash d, co_execution_ref = ref\<rparr> s2 = (Inr q, s3)"
      "cr_success q" by blast
  have "cl = NewClaim"
    using assms b log1 by (cases cl) (simp_all add: ap2_step_def ap2_process_def bind_io_apply)
  then have "settled (snd (ap2_step H c s)) = av_payment_mandate v # settled s"
    using finish_keeps [of H "pl_clock c 3" "pl_receipt_id c" v a d ref b] b log1
    by (cases "pl_outcome c")
      (simp_all add: ap2_step_def ap2_process_def or_ap2_def bind_io_apply catch_io_apply keeps_def settles_def log_frame)
  with ap2_authorise_Inr [OF au] ap2_authorise_run [OF au] q show ?thesis unfolding ref by blast
qed

end

subsection \<open>A world over the in-memory store\<close>

record 'p ap2_state =
  ys_outside :: 'p
  ys_executions :: ap2_executions
  ys_executed :: "string list"

definition memory_ap2_gate ::
  "(action \<Rightarrow> (error, 'p, decision) io) \<Rightarrow> (consume_input \<Rightarrow> (error, 'p, consume_result) io) \<Rightarrow>
    key_entry list \<Rightarrow> string option \<Rightarrow> (ap2_request \<Rightarrow> (error, 'p, json) io) \<Rightarrow>
    (string \<Rightarrow> (error, 'p, (string \<times> json) list \<times> (string \<times> json) list) io) \<Rightarrow> signer \<Rightarrow> rat \<Rightarrow> (string \<times> rat) list \<Rightarrow>
    'p ap2_state ap2_gate" where
  "memory_ap2_gate ev con ks pv vf tr sg age cur =
     \<lparr>pg_evaluate = (\<lambda>a. on_part ys_outside ys_outside_update (ev a)),
      pg_consume = (\<lambda>c. on_part ys_outside ys_outside_update (con c)),
      pg_registry = ks, pg_policy_version = pv,
      pg_verify = (\<lambda>q. on_part ys_outside ys_outside_update (vf q)),
      pg_trust = (\<lambda>m. on_part ys_outside ys_outside_update (tr m)),
      pg_signer = sg,
      pg_claim = (\<lambda>k b. on_part ys_executions ys_executions_update (ap2_claim k b)),
      pg_complete = (\<lambda>k b w. on_part ys_executions ys_executions_update (ap2_complete k b w)),
      pg_max_age = age, pg_decimals = cur\<rparr>"

definition ap2_left :: "'p ap2_state \<Rightarrow> string \<Rightarrow> bool" where
  "ap2_left s k \<longleftrightarrow> ys_executions s k \<noteq> None"

lemma ap2_store_settles:
  "(\<And>m k. m k \<noteq> None \<Longrightarrow> snd (f m) k \<noteq> None) \<Longrightarrow>
    keeps (settles (\<lambda>_. True) ap2_left ys_executed) (on_part ys_executions ys_executions_update f)"
  by (simp add: keeps_def on_part_state settles_def ap2_left_def)

lemma ap2_outside_settles:
  "keeps (settles (\<lambda>_. True) ap2_left ys_executed) (on_part ys_outside ys_outside_update m)"
  by (rule keeps_on_part) (simp add: settles_def ap2_left_def)

interpretation memory_ap2: ap2_world "\<lambda>_. True" ap2_left ys_executed "\<lambda>k s. s\<lparr>ys_executed := k # ys_executed s\<rparr>"
  "memory_ap2_gate ev con ks pv vf tr sg age cur"
proof
  show "\<And>k b s s'. pg_claim (memory_ap2_gate ev con ks pv vf tr sg age cur) k b s = (Inr NewClaim, s') \<Longrightarrow>
      \<not> ap2_left s k \<and> ap2_left s' k"
    by (auto simp: memory_ap2_gate_def on_part_result ap2_claim_def ap2_left_def dest: memory_executions.claim_new)
  show "keeps (settles (\<lambda>_. True) ap2_left ys_executed) (pg_claim (memory_ap2_gate ev con ks pv vf tr sg age cur) k b)" for k b
    by (simp add: memory_ap2_gate_def ap2_claim_def) (rule ap2_store_settles [OF memory_executions.claim_grows])
  show "keeps (settles (\<lambda>_. True) ap2_left ys_executed) (pg_complete (memory_ap2_gate ev con ks pv vf tr sg age cur) k b w)" for k b w
    by (simp add: memory_ap2_gate_def ap2_complete_def) (rule ap2_store_settles [OF memory_executions.complete_grows])
qed (simp_all add: memory_ap2_gate_def ap2_left_def fun_eq_iff ap2_outside_settles)

lemma memory_execution_authorised:
  fixes s :: "'p ap2_state"
  assumes "G = memory_ap2_gate ev con ks pv vf tr sg age cur"
    and "ap2_process H G clk rid i (\<lambda>x s. (out, s\<lparr>ys_executed := av_payment_mandate (pd_verification x) # ys_executed s\<rparr>)) s = (result, s')"
    and "ys_executed s' \<noteq> ys_executed s"
  shows "\<exists>trust s1 raw s2 v decimals a d s3 r s4. pg_trust G (ai_merchant_id i) s = (Inr trust, s1) \<and>
    pg_verify G (ap2_trust_request i (clk 0) trust) s1 = (Inr raw, s2) \<and> parse_ap2_verification raw = Some v \<and>
    ap2_matches i v \<and> ap2_current v (clk 0) (pg_max_age G) \<and> ap2_current v (clk 2) (pg_max_age G) \<and>
    map_of (pg_decimals G) (av_currency v) = Some decimals \<and> ap2_bound H i v decimals a \<and>
    pg_evaluate G a s2 = (Inr d, s3) \<and>
    vr_valid (verify_decision H \<lparr>vi_decision = decision_json d, vi_action = action_json a, vi_registry = registry_json ks,
      vi_at = clk 1, vi_policy_version = pv, vi_requirements_hash = None\<rparr>) \<and> d_verdict d = ALLOW \<and>
    pg_consume G \<lparr>co_decision_id = d_decision_id d, co_action_hash = d_action_hash d,
      co_execution_ref = ap2_execution_ref H v d\<rparr> s3 = (Inr r, s4) \<and> cr_success r \<and>
    ys_executed s' = av_payment_mandate v # ys_executed s"
proof -
  let ?c = "\<lparr>pl_clock = clk, pl_receipt_id = rid, pl_input = i, pl_outcome = out\<rparr>"
  have step: "memory_ap2.ap2_step ev con ks pv vf tr sg age cur H ?c s = (result, s')"
    using assms(2) unfolding assms(1) by (simp add: memory_ap2.ap2_step_def)
  from memory_ap2.execution_authorised [of ev con ks pv vf tr sg age cur H ?c s, unfolded step snd_conv] assms(3)
  moreover have "ap2_verify_decision H (memory_ap2_gate ev con ks pv vf tr sg age cur) d a now =
      verify_decision H \<lparr>vi_decision = decision_json d, vi_action = action_json a, vi_registry = registry_json ks,
        vi_at = now, vi_policy_version = pv, vi_requirements_hash = None\<rparr>" for d a now
    by (simp add: ap2_verify_decision_def memory_ap2_gate_def)
  ultimately show ?thesis by (simp add: assms(1))
qed

lemma memory_executed_once:
  "count_list (ys_executed (snd (run_ops (\<lambda>c :: ap2_call. ap2_process H (memory_ap2_gate ev con ks pv vf tr sg age cur)
      (pl_clock c) (pl_receipt_id c) (pl_input c)
      (\<lambda>x s. (pl_outcome c, s\<lparr>ys_executed := av_payment_mandate (pd_verification x) # ys_executed s\<rparr>)))
    cs \<lparr>ys_outside = p, ys_executions = Map.empty, ys_executed = []\<rparr>))) k \<le> 1"
proof -
  have "(\<lambda>c :: ap2_call. ap2_process H (memory_ap2_gate ev con ks pv vf tr sg age cur) (pl_clock c) (pl_receipt_id c) (pl_input c)
      (\<lambda>x s. (pl_outcome c, s\<lparr>ys_executed := av_payment_mandate (pd_verification x) # ys_executed s\<rparr>))) =
      memory_ap2.ap2_step ev con ks pv vf tr sg age cur H"
    by (simp add: fun_eq_iff memory_ap2.ap2_step_def)
  then show ?thesis
    by (simp only:) (rule memory_ap2.executed_at_most_once [OF _ _ prod.collapse [symmetric]]; simp)
qed

end
