(* ===== verification/Ap2Process.thy ===== *)
theory Ap2Process
  imports Ap2Gate
begin

section \<open>The verifier process of the AP2 gate\<close>

text \<open>
  \<open>ap2-runtime-gate/src/verifier.ts\<close>: the official Python SDK runs in a child process with a
  filtered environment, a bounded output and a deadline. The child is a state machine driven by
  the events of its streams, its timer and its exit, in any order; \<open>JSON.parse\<close> and the decoding of
  the error text are parameters. Lemmas: the first outcome stays; the buffers stay within their
  bounds; an answer is read from the complete output of a process that ended with status 0.
\<close>

subsection \<open>Options and environment\<close>

record sdk_options =
  so_timeout_ms :: rat
  so_max_output :: rat

definition new_sdk_verifier :: "sdk_options \<Rightarrow> error + sdk_options" where
  "new_sdk_verifier opts =
     (if of_int \<lfloor>so_timeout_ms opts\<rfloor> \<noteq> so_timeout_ms opts \<or> so_timeout_ms opts < 1 \<or> so_timeout_ms opts > 60000
      then Inl (JsError ''TypeError'' ''timeoutMs must be an integer from 1 to 60000'')
      else if of_int \<lfloor>so_max_output opts\<rfloor> \<noteq> so_max_output opts \<or> so_max_output opts < 1024 \<or> so_max_output opts > 10000000
      then Inl (JsError ''TypeError'' ''maxOutputBytes must be an integer from 1024 to 10000000'')
      else Inr opts)"

definition passed_variables :: "string list" where
  "passed_variables = [''PATH'', ''SYSTEMROOT'', ''WINDIR'', ''TEMP'', ''TMP'', ''TMPDIR'', ''LANG'', ''LC_ALL'', ''LD_LIBRARY_PATH'']"

definition fixed_variables :: "(string \<times> string) list" where
  "fixed_variables = [(''PYTHONDONTWRITEBYTECODE'', ''1''), (''PYTHONNOUSERSITE'', ''1''), (''PYTHONUTF8'', ''1'')]"

text \<open>\<open>upper\<close> is \<open>String.prototype.toUpperCase\<close>.\<close>

definition python_environment :: "(string \<Rightarrow> string) \<Rightarrow> (string \<times> string) list \<Rightarrow> (string \<times> string) list" where
  "python_environment upper env =
     foldl (\<lambda>e (k, v). if upper k \<in> set passed_variables then AList.update k v e else e) fixed_variables env"

subsection \<open>The child process\<close>

record child =
  ch_stdout :: "bytes list"
  ch_stderr :: "bytes list"
  ch_output_bytes :: nat
  ch_stderr_bytes :: nat
  ch_killed :: bool
  ch_result :: "(error + json) option"

datatype child_event = Deadline | StdoutData bytes | StderrData bytes | StdinError | SpawnError | Closed "int option"

definition started_child :: child where
  "started_child = \<lparr>ch_stdout = [], ch_stderr = [], ch_output_bytes = 0, ch_stderr_bytes = 0, ch_killed = False,
     ch_result = None\<rparr>"

definition sdk_error :: "string \<Rightarrow> error" where
  "sdk_error m = JsError ''AP2PythonSdkVerifierError'' m"

definition finish_child :: "error + json \<Rightarrow> child \<Rightarrow> child" where
  "finish_child r s = (if ch_result s \<noteq> None then s else s\<lparr>ch_result := Some r\<rparr>)"

text \<open>One event. \<open>decode\<close> decodes and trims the error output, \<open>read\<close> is \<open>JSON.parse\<close> of the decoded
  output. The timer is cleared when the outcome is known, so it does not fire after that.\<close>

fun on_event :: "(bytes \<Rightarrow> json option) \<Rightarrow> (bytes \<Rightarrow> string) \<Rightarrow> nat \<Rightarrow> child_event \<Rightarrow> child \<Rightarrow> child" where
  "on_event read decode bound Deadline s =
     (if ch_result s \<noteq> None then s
      else finish_child (Inl (sdk_error ''Official AP2 SDK verification timed out'')) (s\<lparr>ch_killed := True\<rparr>))"
| "on_event read decode bound (StdoutData chunk) s =
     (let s1 = s\<lparr>ch_output_bytes := ch_output_bytes s + length chunk\<rparr>
      in if bound < ch_output_bytes s1
         then finish_child (Inl (sdk_error ''Official AP2 SDK output exceeded the limit'')) (s1\<lparr>ch_killed := True\<rparr>)
         else s1\<lparr>ch_stdout := ch_stdout s1 @ [chunk]\<rparr>)"
| "on_event read decode bound (StderrData chunk) s =
     (if 8192 \<le> ch_stderr_bytes s then s
      else
        let bounded = take (8192 - ch_stderr_bytes s) chunk
        in s\<lparr>ch_stderr := ch_stderr s @ [bounded], ch_stderr_bytes := ch_stderr_bytes s + length bounded\<rparr>)"
| "on_event read decode bound StdinError s =
     finish_child (Inl (sdk_error ''Official AP2 SDK process rejected its input'')) s"
| "on_event read decode bound SpawnError s =
     finish_child (Inl (sdk_error ''Official AP2 SDK process could not start'')) s"
| "on_event read decode bound (Closed code) s =
     (if ch_result s \<noteq> None then s
      else if code \<noteq> Some 0
      then finish_child (Inl (sdk_error (''Official AP2 SDK rejected the mandate set'' @
             (if ch_stderr s = [] then [] else '': '' @ decode (concat (ch_stderr s)))))) s
      else
        (case read (concat (ch_stdout s)) of
           None \<Rightarrow> finish_child (Inl (sdk_error ''Official AP2 SDK returned invalid JSON'')) s
         | Some j \<Rightarrow> finish_child (Inr j) s))"

definition run_child :: "(bytes \<Rightarrow> json option) \<Rightarrow> (bytes \<Rightarrow> string) \<Rightarrow> nat \<Rightarrow> child_event list \<Rightarrow> child" where
  "run_child read decode bound es = foldl (\<lambda>s e. on_event read decode bound e s) started_child es"

text \<open>\<open>verify\<close>: the outcome of its promise after some events, \<^const>\<open>None\<close> while it is pending.\<close>

definition sdk_verify ::
  "(bytes \<Rightarrow> json option) \<Rightarrow> (bytes \<Rightarrow> string) \<Rightarrow> nat \<Rightarrow> ap2_request \<Rightarrow> child_event list \<Rightarrow> (error + json) option" where
  "sdk_verify read decode bound q es =
     (if \<not> ap2_request_ok q then Some (Inl ZodError) else ch_result (run_child read decode bound es))"

subsection \<open>The environment\<close>

lemma python_environment_keys:
  "k \<in> fst ` set (python_environment upper env) \<Longrightarrow>
    k \<in> fst ` set fixed_variables \<or> upper k \<in> set passed_variables \<and> k \<in> fst ` set env"
proof -
  let ?add = "\<lambda>e (k, v). if upper k \<in> set passed_variables then AList.update k v e else e"
  have "k \<in> fst ` set (foldl ?add e0 env) \<Longrightarrow>
      k \<in> fst ` set e0 \<or> upper k \<in> set passed_variables \<and> k \<in> fst ` set env" for e0
  proof (induction env arbitrary: e0)
    case (Cons x env)
    obtain n v where x: "x = (n, v)" by fastforce
    from Cons.IH [of "?add e0 x"] Cons.prems
    have "k \<in> fst ` set (?add e0 x) \<or> upper k \<in> set passed_variables \<and> k \<in> fst ` set env" by simp
    moreover have "k \<in> fst ` set (?add e0 x) \<Longrightarrow> k \<in> fst ` set e0 \<or> upper k \<in> set passed_variables \<and> k = n"
      by (simp add: x dom_update split: if_splits) blast
    ultimately show ?case by (auto simp: x)
  qed simp
  then show "k \<in> fst ` set (python_environment upper env) \<Longrightarrow> ?thesis" by (simp add: python_environment_def)
qed

subsection \<open>Reachable states\<close>

inductive child_reachable :: "nat \<Rightarrow> child \<Rightarrow> bool" for bound where
  child_started: "child_reachable bound started_child"
| child_event: "child_reachable bound s \<Longrightarrow> child_reachable bound (on_event read decode bound e s)"

text \<open>The buffers: the counters are exact until the limit is exceeded, and then the outcome is set.\<close>

definition child_bounded :: "nat \<Rightarrow> child \<Rightarrow> bool" where
  "child_bounded bound s \<longleftrightarrow>
     length (concat (ch_stdout s)) \<le> ch_output_bytes s \<and> length (concat (ch_stdout s)) \<le> bound \<and>
     length (concat (ch_stderr s)) = ch_stderr_bytes s \<and> ch_stderr_bytes s \<le> 8192 \<and>
     (bound < ch_output_bytes s \<longrightarrow> ch_result s \<noteq> None) \<and> (ch_killed s \<longrightarrow> ch_result s \<noteq> None)"

lemma finish_child_sel [simp]:
  "ch_stdout (finish_child r s) = ch_stdout s" "ch_stderr (finish_child r s) = ch_stderr s"
  "ch_output_bytes (finish_child r s) = ch_output_bytes s" "ch_stderr_bytes (finish_child r s) = ch_stderr_bytes s"
  "ch_killed (finish_child r s) = ch_killed s" "\<exists>x. ch_result (finish_child r s) = Some x"
  "ch_result s = Some x \<Longrightarrow> finish_child r s = s" "ch_result s = None \<Longrightarrow> ch_result (finish_child r s) = Some r"
  by (auto simp: finish_child_def)

lemma child_bounded_event: "child_bounded bound s \<Longrightarrow> child_bounded bound (on_event read decode bound e s)"
  by (cases e) (auto simp: child_bounded_def Let_def min_def split: option.splits if_splits)

lemma child_reachable_bounded: "child_reachable bound s \<Longrightarrow> child_bounded bound s"
  by (induction rule: child_reachable.induct) (simp_all add: child_bounded_event, simp add: child_bounded_def started_child_def)

lemma run_child_snoc: "run_child read decode bound (es @ [e]) = on_event read decode bound e (run_child read decode bound es)"
  by (simp add: run_child_def)

lemma run_child_reachable: "child_reachable bound (run_child read decode bound es)"
  by (induction es rule: rev_induct)
    (simp_all add: run_child_snoc child_event, simp add: run_child_def child_started)

subsection \<open>The outcome\<close>

lemma on_event_result: "ch_result s = Some r \<Longrightarrow> ch_result (on_event read decode bound e s) = Some r"
  by (cases e) (auto simp: Let_def split: option.splits)

text \<open>What the process has written to its standard output.\<close>

fun written :: "child_event list \<Rightarrow> bytes" where
  "written [] = []"
| "written (StdoutData c # es) = c @ written es"
| "written (_ # es) = written es"

lemma written_append [simp]: "written (es @ fs) = written es @ written fs"
  by (induction es rule: written.induct) simp_all

text \<open>The contract of a child process that is asked one question, which this verifier and the one of the conformance
  evaluator keep: its first outcome is final, the output is collected while there is none and stays within
  the bound, an answer is read from it at a proper end, and some events settle the outcome.\<close>

definition settling :: "child_event \<Rightarrow> bool" where
  "settling e \<longleftrightarrow> (case e of StdoutData _ \<Rightarrow> False | StderrData _ \<Rightarrow> False | _ \<Rightarrow> True)"

locale child_machine =
  fixes step :: "child_event \<Rightarrow> 's \<Rightarrow> 's" and start :: 's and valid :: "'s \<Rightarrow> bool"
    and outcome :: "'s \<Rightarrow> (error + 'a) option" and wrote :: "'s \<Rightarrow> bytes" and read :: "bytes \<Rightarrow> 'a option" and bound :: nat
  assumes start: "valid start" "outcome start = None" "wrote start = []"
    and step_valid: "valid s \<Longrightarrow> valid (step e s)"
    and within: "valid s \<Longrightarrow> outcome s = None \<Longrightarrow> length (wrote s) \<le> bound"
    and final: "outcome s = Some r \<Longrightarrow> outcome (step e s) = Some r"
    and collects: "outcome (step e s) = None \<Longrightarrow> wrote (step e s) = wrote s @ written [e]"
    and answers: "outcome s = None \<Longrightarrow> outcome (step e s) = Some (Inr x) \<Longrightarrow> e = Closed (Some 0) \<and> read (wrote s) = Some x"
    and settles: "settling e \<Longrightarrow> outcome (step e s) \<noteq> None"
begin

definition after :: "child_event list \<Rightarrow> 's" where
  "after es = foldl (\<lambda>s e. step e s) start es"

lemma after_Nil: "after [] = start"
  by (simp add: after_def)

lemma after_snoc: "after (es @ [e]) = step e (after es)"
  by (simp add: after_def)

lemma valid_after: "valid (after es)"
  by (induction es rule: rev_induct) (simp_all add: after_Nil after_snoc start step_valid)

text \<open>The first outcome stays.\<close>

lemma outcome_stays: "outcome (after es) = Some r \<Longrightarrow> outcome (after (es @ fs)) = Some r"
proof (induction fs rule: rev_induct)
  case (snoc e fs)
  then show ?case by (simp add: after_snoc append_assoc [symmetric] final del: append_assoc)
qed simp

lemma pending_collects: "outcome (after es) = None \<Longrightarrow> wrote (after es) = written es"
proof (induction es rule: rev_induct)
  case (snoc e es)
  have "outcome (after es) = None" using snoc.prems final by (cases "outcome (after es)") (auto simp: after_snoc)
  with snoc show ?case by (simp add: after_snoc collects)
qed (simp add: after_Nil start)

text \<open>An answer is read from everything the process has written before it ended with status 0.\<close>

lemma answer_complete:
  "outcome (after es) = Some (Inr x) \<Longrightarrow>
    \<exists>pre post. es = pre @ Closed (Some 0) # post \<and> read (written pre) = Some x \<and> length (written pre) \<le> bound"
proof (induction es rule: rev_induct)
  case (snoc e es)
  show ?case
  proof (cases "outcome (after es)")
    case (Some r)
    with snoc.prems final have "outcome (after es) = Some (Inr x)" by (metis after_snoc)
    from snoc.IH [OF this] show ?thesis by force
  next
    case None
    have "e = Closed (Some 0)" "read (wrote (after es)) = Some x"
      using answers [OF None, of e x] snoc.prems by (simp_all add: after_snoc)
    with pending_collects [OF None] within [OF valid_after None] show ?thesis
      by (intro exI [of _ es] exI [of _ "[]"]) simp
  qed
qed (simp add: after_Nil start)

text \<open>The promise is settled by the end of the process, a failed start or input and the deadline.\<close>

lemma settled_after: "e \<in> set es \<Longrightarrow> settling e \<Longrightarrow> outcome (after es) \<noteq> None"
proof -
  assume "e \<in> set es" and e: "settling e"
  then obtain pre post where es: "es = (pre @ [e]) @ post" by (auto dest: split_list)
  have "outcome (after (pre @ [e])) \<noteq> None" unfolding after_snoc by (rule settles [OF e])
  then show ?thesis using outcome_stays [of "pre @ [e]" _ post] unfolding es by auto
qed

end

interpretation sdk_process: child_machine "on_event read decode bound" started_child "child_bounded bound" ch_result
  "\<lambda>s. concat (ch_stdout s)" read bound
  for read decode bound
proof
  show "child_bounded bound started_child" by (simp add: child_bounded_def started_child_def)
  show "ch_result started_child = None" "concat (ch_stdout started_child) = []" by (simp_all add: started_child_def)
  fix s :: child and e r
  show "child_bounded bound (on_event read decode bound e s)" if "child_bounded bound s" using that by (rule child_bounded_event)
  show "length (concat (ch_stdout s)) \<le> bound" if "child_bounded bound s" using that by (simp add: child_bounded_def)
  show "ch_result (on_event read decode bound e s) = Some r" if "ch_result s = Some r" using that by (rule on_event_result)
  show "concat (ch_stdout (on_event read decode bound e s)) = concat (ch_stdout s) @ written [e]"
    if "ch_result (on_event read decode bound e s) = None"
    using that by (cases e) (auto simp: Let_def finish_child_def split: option.splits if_splits)
  show "e = Closed (Some 0) \<and> read (concat (ch_stdout s)) = Some x"
    if "ch_result s = None" "ch_result (on_event read decode bound e s) = Some (Inr x)" for x
    using that by (cases e) (auto simp: Let_def finish_child_def split: option.splits if_splits)
  show "ch_result (on_event read decode bound e s) \<noteq> None" if "settling e"
    using that by (cases e) (auto simp: settling_def split: option.splits)
qed

lemma after_run_child: "sdk_process.after read decode bound es = run_child read decode bound es"
  by (simp add: sdk_process.after_def run_child_def)

lemmas run_child_result_stays = sdk_process.outcome_stays [unfolded after_run_child]
lemmas answer_is_complete = sdk_process.answer_complete [unfolded after_run_child]

lemma run_child_settles:
  assumes "e \<in> set es" "e \<in> {Deadline, SpawnError, StdinError} \<or> (\<exists>c. e = Closed c)"
  shows "ch_result (run_child read decode bound es) \<noteq> None"
  using sdk_process.settled_after [of e es read decode bound] assms unfolding after_run_child
  by (auto simp: settling_def)

end
