(* ===== verification/GateSamples.thy ===== *)
theory GateSamples
  imports RailSamples A2aGate Ap2Process
begin

section \<open>Concrete runs of the settlement and mandate gates\<close>

text \<open>A paid A2A task whose settlement is final, with a decision that verifies for it, over the
  reference host of \<open>Host\<close>; and a receipt for it.\<close>

subsection \<open>A2A\<close>

definition sample_submission :: a2a_submission where
  "sample_submission = \<lparr>as_id = ''sub-1'', as_task = ''task-1'', as_context = ''ctx-1'',
     as_resource = ''https://api.example/data'', as_requirements_hash = sample_requirements_hash,
     as_submitted_at = iso_text sample_now, as_settlement_ref = None\<rparr>"

definition sample_a2a :: a2a_input where
  "sample_a2a = \<lparr>aa_task = ''task-1'', aa_context = ''ctx-1'', aa_submission = sample_submission, aa_payment = sample_x402\<rparr>"

definition sample_observation :: a2a_observation where
  "sample_observation = \<lparr>ao_state = SETTLED, ao_task = ''task-1'', ao_context = ''ctx-1'', ao_submission = ''sub-1'',
     ao_requirements_hash = sample_requirements_hash, ao_resource = ''https://api.example/data'',
     ao_settlement_ref = Some ''tx-1'', ao_finality = Some ''FINAL'', ao_observed_at = iso_text sample_now, ao_evidence = []\<rparr>"

definition sample_binding :: a2a_binding where
  "sample_binding = \<lparr>ab_task = ''task-1'', ab_context = ''ctx-1'', ab_submission = ''sub-1'',
     ab_requirements_hash = sample_requirements_hash, ab_resource = ''https://api.example/data'', ab_finality = ''FINAL''\<rparr>"

definition sample_paid :: x402_input where
  "sample_paid = sample_x402\<lparr>xi_extensions := Some [(''inntris_a2a'', binding_json sample_binding)]\<rparr>"

definition sample_a2a_prepared :: a2a_prepared where
  "sample_a2a_prepared = \<lparr>pa_task = (''task-1'', ''ctx-1''), pa_submission = sample_submission, pa_payment = sample_paid,
     pa_binding = sample_binding, pa_finality = ''FINAL''\<rparr>"

lemma sample_a2a_texts [simp]:
  "identifier_ok ''task-1''" "identifier_ok ''ctx-1''" "identifier_ok ''sub-1''" "identifier_ok ''receipt-1''"
  "finality_ok ''FINAL''"
  by code_simp+

lemma sample_requirements_hash_ok [simp]: "hash_ok sample_requirements_hash"
  using hash_canonical_hash_ok [OF ref_host_sha] by (simp add: sample_requirements_hash_def)

lemma sample_timestamp [simp]: "timestamp_ok (iso_text sample_now)" "time_of (iso_text sample_now) = sample_now"
  by (simp_all add: timestamp_ok_iso_text)

lemma sample_x402_sel:
  "xi_requirements sample_x402 = sample_requirements" "xi_resource sample_x402 = ''https://api.example/data''"
  "xi_extensions sample_x402 = None"
  by (simp_all add: sample_x402_def)

lemma sample_rh: "requirements_hash ref_host sample_schemas sample_requirements = Inr sample_requirements_hash"
  by (simp add: requirements_hash_def sample_normalised sample_requirements_hash_def)

lemma sample_a2a_prepare: "a2a_prepare ref_host sample_schemas sample_a2a ''FINAL'' = Inr sample_a2a_prepared"
  by (simp add: a2a_prepare_def sample_a2a_def sample_submission_def submission_ok_def opt_ok_def sample_x402_sel sample_rh Let_def
      binding_ok_def sample_a2a_prepared_def sample_paid_def sample_binding_def)

definition sample_paid_action :: action where
  "sample_paid_action = sample_x402_action\<lparr>a_extensions := Some [(''inntris_a2a'', binding_json sample_binding)]\<rparr>"

lemma sample_paid_action_ok: "action_ok ref_host sample_paid_action"
  using sample_x402_action_ok by (simp add: action_ok_def sample_paid_action_def)

lemma sample_action_from_paid: "action_from_x402 ref_host sample_schemas sample_paid = Inr sample_paid_action"
proof -
  have f: "pq_amount sample_requirements = ''12500000''" "pq_scheme sample_requirements = ''exact''"
    "pq_asset sample_requirements = ''USDC''" "pq_network sample_requirements = ''eip155:8453''"
    "pq_pay_to sample_requirements = ''0xpayee''"
    by (simp_all add: sample_requirements_def)
  have "action_from_x402 ref_host sample_schemas sample_paid = check_action ref_host sample_paid_action"
    by (simp add: action_from_x402_def sample_paid_def sample_x402_def sample_normalised f sample_atomic sample_rh
        sample_x402_action_def sample_transaction_def sample_paid_action_def)
  then show ?thesis by (simp add: check_action_def sample_paid_action_ok)
qed

definition sample_a2a_gate :: "decision \<Rightarrow> key_entry \<Rightarrow> unit a2a_state a2a_gate" where
  "sample_a2a_gate d k = memory_a2a_gate (\<lambda>_. ret d)
     (\<lambda>c s. (Inr \<lparr>cr_success = True, cr_status = Consumed, cr_decision_id = co_decision_id c,
       cr_execution_ref = co_execution_ref c, cr_consumed_at = None, cr_reason = None\<rparr>, s))
     [k] (Some ''1.0.0'') (\<lambda>_. ret (observation_json sample_observation)) (\<lambda>_ _. throw ZodError) sample_signer ''FINAL''"

definition fresh_a2a :: "unit a2a_state" where
  "fresh_a2a = \<lparr>xs_outside = (), xs_executions = Map.empty, xs_delegated = []\<rparr>"

lemma sample_a2a_gate_sel [simp]:
  "gd_evaluate (ag_guard (sample_a2a_gate d k)) a s = (Inr d, s)"
  "gd_consume (ag_guard (sample_a2a_gate d k)) c s = (Inr \<lparr>cr_success = True, cr_status = Consumed, cr_decision_id = co_decision_id c,
     cr_execution_ref = co_execution_ref c, cr_consumed_at = None, cr_reason = None\<rparr>, s)"
  "gd_registry (ag_guard (sample_a2a_gate d k)) = [k]" "gd_policy_version (ag_guard (sample_a2a_gate d k)) = Some ''1.0.0''"
  "ag_settle (sample_a2a_gate d k) q s = (Inr (observation_json sample_observation), s)"
  "ag_signer (sample_a2a_gate d k) = sample_signer" "ag_finality (sample_a2a_gate d k) = ''FINAL''"
  "ag_claim (sample_a2a_gate d k) r b s = on_part xs_executions xs_executions_update (a2a_claim r b) s"
  "ag_complete (sample_a2a_gate d k) r b v s = on_part xs_executions xs_executions_update (a2a_complete r b v) s"
  by (simp_all add: sample_a2a_gate_def memory_a2a_gate_def outside_guard_def on_part_def)

lemma sample_observed: "parse_observation ref_host (observation_json sample_observation) = Some sample_observation"
proof -
  have "observation_ok ref_host sample_observation"
    by (simp add: observation_ok_def sample_observation_def opt_ok_def len_between_def)
  then show ?thesis by (simp add: parse_observation_json)
qed

lemma sample_final: "verify_settlement_binding sample_observation sample_a2a_prepared = Inr ()"
  "require_final_settlement sample_observation (pa_finality sample_a2a_prepared) = Inr ()"
  by (simp_all add: verify_settlement_binding_def require_final_settlement_def sample_observation_def
      sample_a2a_prepared_def sample_submission_def sample_paid_def sample_x402_sel Let_def)

lemma sample_a2a_begins:
  "\<exists>d k ref b. \<forall>s. a2a_begin ref_host sample_schemas (sample_a2a_gate d k) (\<lambda>_. sample_now) sample_a2a s =
    (map_sum id (\<lambda>cl. (sample_a2a_prepared, d, sample_observation, ref, b, cl)) (fst (a2a_claim ref b (xs_executions s))),
     s\<lparr>xs_executions := snd (a2a_claim ref b (xs_executions s))\<rparr>)"
proof -
  obtain d k where v: "vr_valid (verify_decision ref_host
      \<lparr>vi_decision = decision_json d, vi_action = action_json sample_paid_action, vi_registry = registry_json [k], vi_at = sample_now,
       vi_policy_version = Some ''1.0.0'', vi_requirements_hash = Some sample_requirements_hash\<rparr>)"
    "vr_verdict (verify_decision ref_host
      \<lparr>vi_decision = decision_json d, vi_action = action_json sample_paid_action, vi_registry = registry_json [k], vi_at = sample_now,
       vi_policy_version = Some ''1.0.0'', vi_requirements_hash = Some sample_requirements_hash\<rparr>) = Some ALLOW"
    "d_verdict d = ALLOW"
    using sample_verified [OF sample_paid_action_ok]
    by (auto simp: sample_paid_action_def sample_x402_action_def bound_requirements_def)
  have p: "pa_payment sample_a2a_prepared = sample_paid" "as_settlement_ref (pa_submission sample_a2a_prepared) = None"
    "xi_requirements sample_paid = sample_requirements"
    by (simp_all add: sample_a2a_prepared_def sample_submission_def sample_paid_def sample_x402_sel)
  let ?G = "sample_a2a_gate d k"
  have auth: "guard_authorise ref_host sample_schemas (ag_guard ?G) sample_now sample_paid s = (Inr d, s)" for s
    using v(1) by (simp add: guard_authorise_def bind_io_apply catch_io_apply sample_action_from_paid p sample_rh guard_verify_def)
  have st: "a2a_settled ref_host sample_schemas ?G sample_now sample_a2a s = (Inr (sample_a2a_prepared, d, sample_observation), s)" for s
    by (simp add: a2a_settled_def bind_io_apply sample_a2a_prepare p or_a2a_def catch_io_apply auth v(3) a2a_settlement_def
        Let_def sample_observed sample_final)
  have ver: "verify_before_settlement ref_host sample_schemas (ag_guard ?G) sample_now sample_paid d =
      Inr (guard_verify ref_host (ag_guard ?G) d sample_paid_action sample_now sample_requirements_hash)"
    using v(2) by (simp add: verify_before_settlement_def sample_action_from_paid p sample_rh reject_verdict_def guard_verify_def)
  let ?ref = "a2a_execution_ref ref_host sample_a2a_prepared sample_observation d"
  let ?b = "a2a_binding_hash ref_host sample_a2a_prepared sample_observation d"
  have "a2a_begin ref_host sample_schemas ?G (\<lambda>_. sample_now) sample_a2a s =
    (map_sum id (\<lambda>cl. (sample_a2a_prepared, d, sample_observation, ?ref, ?b, cl)) (fst (a2a_claim ?ref ?b (xs_executions s))),
     s\<lparr>xs_executions := snd (a2a_claim ?ref ?b (xs_executions s))\<rparr>)" for s
  proof -
    obtain cl m where "a2a_claim ?ref ?b (xs_executions s) = (Inr cl, m)"
      using claim_execution_Inr [of ?ref ?b "xs_executions s"] unfolding a2a_claim_def by blast
    then show ?thesis
      using v by (simp add: a2a_begin_def bind_io_apply st p ver guard_verify_def consume_before_execution_def catch_io_apply
          or_a2a_def Let_def on_part_def)
  qed
  then show ?thesis by blast
qed

lemma sample_a2a_starts:
  "\<exists>d k ref b. a2a_begin ref_host sample_schemas (sample_a2a_gate d k) (\<lambda>_. sample_now) sample_a2a fresh_a2a =
    (Inr (sample_a2a_prepared, d, sample_observation, ref, b, NewClaim), fresh_a2a\<lparr>xs_executions := [ref \<mapsto> InFlight b]\<rparr>)"
proof -
  obtain d k ref b where all: "\<And>s. a2a_begin ref_host sample_schemas (sample_a2a_gate d k) (\<lambda>_. sample_now) sample_a2a s =
    (map_sum id (\<lambda>cl. (sample_a2a_prepared, d, sample_observation, ref, b, cl)) (fst (a2a_claim ref b (xs_executions s))),
     s\<lparr>xs_executions := snd (a2a_claim ref b (xs_executions s))\<rparr>)"
    using sample_a2a_begins by blast
  show ?thesis
    by (rule exI [of _ d], rule exI [of _ k], rule exI [of _ ref], rule exI [of _ b]) (simp add: all fresh_a2a_def a2a_claim_def claim_execution_def)
qed

lemma sample_a2a_delegates:
  "\<exists>d k. xs_delegated (snd (a2a_process ref_host sample_schemas (sample_a2a_gate d k) (\<lambda>_. sample_now) ''receipt-1'' sample_a2a
      (\<lambda>x s. (Inl ZodError, s\<lparr>xs_delegated := dl_execution_ref x # xs_delegated s\<rparr>)) fresh_a2a)) \<noteq> xs_delegated fresh_a2a"
proof -
  obtain d k ref b where "a2a_begin ref_host sample_schemas (sample_a2a_gate d k) (\<lambda>_. sample_now) sample_a2a fresh_a2a =
    (Inr (sample_a2a_prepared, d, sample_observation, ref, b, NewClaim), fresh_a2a\<lparr>xs_executions := [ref \<mapsto> InFlight b]\<rparr>)"
    using sample_a2a_starts by blast
  then show ?thesis
    by (intro exI [of _ d] exI [of _ k])
      (simp add: a2a_process_def bind_io_apply or_a2a_def catch_io_apply fresh_a2a_def)
qed

text \<open>The sample task runs to its end, and a second time after that.\<close>

lemma sample_signer_signs: "\<exists>sig. s_sign sample_signer m = Inr sig"
  by (simp add: sample_signer_total)

lemma sample_a2a_twice:
  "\<exists>d k z s1 p' d' ob b cl t1.
    a2a_process ref_host sample_schemas (sample_a2a_gate d k) (\<lambda>_. sample_now) ''receipt-1'' sample_a2a (\<lambda>_. ret (JStr ''done'')) fresh_a2a = (Inr z, s1) \<and>
    a2a_begin ref_host sample_schemas (sample_a2a_gate d k) (\<lambda>_. sample_now) sample_a2a s1 =
      (Inr (p', d', ob, az_execution_ref z, b, cl), t1)"
proof -
  obtain d k ref b where all: "\<And>s. a2a_begin ref_host sample_schemas (sample_a2a_gate d k) (\<lambda>_. sample_now) sample_a2a s =
    (map_sum id (\<lambda>cl. (sample_a2a_prepared, d, sample_observation, ref, b, cl)) (fst (a2a_claim ref b (xs_executions s))),
     s\<lparr>xs_executions := snd (a2a_claim ref b (xs_executions s))\<rparr>)"
    using sample_a2a_begins by blast
  then have bg: "a2a_begin ref_host sample_schemas (sample_a2a_gate d k) (\<lambda>_. sample_now) sample_a2a fresh_a2a =
    (Inr (sample_a2a_prepared, d, sample_observation, ref, b, NewClaim), fresh_a2a\<lparr>xs_executions := [ref \<mapsto> InFlight b]\<rparr>)"
    by (simp add: fresh_a2a_def a2a_claim_def claim_execution_def)
  from a2a_process_completes [OF bg [unfolded sample_a2a_gate_def], where delegate = "\<lambda>_. ret (JStr ''done'')" and rid = "''receipt-1''",
      OF _ _ ref_host_sha _ _ sample_signer_ok _ sample_signer_signs]
  obtain z s1 where z: "a2a_process ref_host sample_schemas (sample_a2a_gate d k) (\<lambda>_. sample_now) ''receipt-1'' sample_a2a
      (\<lambda>_. ret (JStr ''done'')) fresh_a2a = (Inr z, s1)" "az_execution_ref z = ref"
      "xs_executions s1 ref = Some (Completed b (az_receipt z, JStr ''done''))"
    by (auto simp: sample_a2a_gate_def)
  then show ?thesis
    using all [of s1] by (intro exI [of _ d] exI [of _ k] exI [of _ z] exI [of _ s1]) (simp add: a2a_claim_def claim_execution_def)
qed

subsection \<open>A receipt\<close>

lemma sample_a2a_receipt:
  "\<exists>d r. create_a2a_receipt ref_host sample_signer ''receipt-1'' (''task-1'', ''ctx-1'') ''https://api.example/data'' ''sub-1''
    d sample_observation ''run-1'' (JStr ''done'') sample_now = Inr r"
proof -
  obtain d where d: "create_signed_decision ref_host sample_signer sample_action sample_input = Inr d"
    using sample_decision by blast
  have "decision_ok ref_host d"
    using create_signed_decision_correct [OF d] by simp
  moreover have "observation_ok ref_host sample_observation" "ao_settlement_ref sample_observation \<noteq> None"
    using sample_observed by (auto simp: parse_observation_json guard_opt_def sample_observation_def split: if_splits)
  ultimately have "\<exists>r. create_a2a_receipt ref_host sample_signer ''receipt-1'' (''task-1'', ''ctx-1'') ''https://api.example/data'' ''sub-1''
    d sample_observation ''run-1'' (JStr ''done'') sample_now = Inr r"
    by (intro create_a2a_receipt_total [OF ref_host_sha _ _ _ _ _ _ _ _ _ _ sample_signer_ok _ sample_signer_signs])
      (simp_all add: len_between_def)
  then show ?thesis by blast
qed

definition sample_receipt :: a2a_receipt where
  "sample_receipt = (let u = \<lparr>ar_receipt_id = ''receipt-1'', ar_fingerprint = [], ar_task = ''task-1'', ar_context = ''ctx-1'',
     ar_resource = ''https://api.example/data'', ar_submission = ''sub-1'', ar_decision_id = ''decision-1'',
     ar_decision_fingerprint = sample_hash, ar_action_hash = sample_hash, ar_settlement_ref = ''tx-1'',
     ar_evidence_hash = sample_hash, ar_execution_ref = ''run-1'', ar_result_hash = sample_hash,
     ar_executed_at = iso_text sample_now, ar_key_id = ''key-1'', ar_signature = ''c2ln''\<rparr>
   in u\<lparr>ar_fingerprint := receipt_fingerprint clear_host a2a_receipt_version (a2a_receipt_fields u) (ar_key_id u)\<rparr>)"

lemma sample_receipt_fingerprint:
  "ar_fingerprint sample_receipt = receipt_fingerprint clear_host a2a_receipt_version (a2a_receipt_fields sample_receipt) (ar_key_id sample_receipt)"
  by (simp add: sample_receipt_def a2a_receipt_fields_def Let_def)

subsection \<open>AP2\<close>

definition sample_mandates :: mandates where
  "sample_mandates = (let t = replicate 16 CHR ''t'' in
     \<lparr>md_checkout_token = t, md_payment_token = t, md_checkout_jwt = t, md_checkout_audience = ''aud'', md_checkout_nonce = ''n-1'',
      md_checkout_issuer = ''iss'', md_payment_audience = ''aud'', md_payment_nonce = ''n-2''\<rparr>)"

definition sample_ap2 :: ap2_input where
  "sample_ap2 = \<lparr>ai_mandates = sample_mandates, ai_principal_id = ''org-1'', ai_agent_id = ''agent-1'',
     ai_resource = ''https://api.example/data'', ai_purpose = ''data'', ai_merchant_id = ''m-1'', ai_amount = ''1250'',
     ai_currency = ''USD'', ai_extensions = None\<rparr>"

definition sample_verification :: ap2_verification where
  "sample_verification = \<lparr>av_intent_verified = True, av_checkout_open_hash = sample_hash, av_payment_open_hash = sample_hash,
     av_checkout_mandate = sample_hash, av_checkout_expires = iso_text (sample_now + 60000), av_checkout_hash = ''c2ln'',
     av_checkout_id = ''co-1'', av_merchant_id = ''m-1'', av_merchant_name = ''Shop'', av_payment_mandate = sample_hash,
     av_payment_expires = iso_text (sample_now + 60000), av_transaction_id = ''c2ln'', av_payee_id = ''m-1'',
     av_payee_name = ''Shop'', av_amount = ''1250'', av_currency = ''USD'', av_instrument = ''card'',
     av_verified_at = iso_text sample_now\<rparr>"

lemma sample_ap2_texts [simp]:
  "identifier_ok ''aud''" "identifier_ok ''n-1''" "identifier_ok ''n-2''" "identifier_ok ''iss''" "identifier_ok ''m-1''"
  "identifier_ok ''co-1''" "identifier_ok ''org-1''" "identifier_ok ''agent-1''" "len_between 1 128 ''org-1''"
  "len_between 1 128 ''agent-1''" "len_between 1 128 ''data''" "len_between 1 128 ''m-1''" "len_between 1 512 ''Shop''"
  "len_between 1 128 ''card''" "len_between 1 128 ''USD''" "len_between 1 512 ''m-1''" "compact_token (replicate 16 CHR ''t'')"
  by (simp_all add: identifier_ok_def len_between_def compact_token_def)

lemma sample_ap2_patterns [simp]: "base64url ''c2ln''" "uint_string ''1250''" "currency_ok ''USD''"
  by code_simp+

lemma sample_later [simp]: "timestamp_ok (iso_text (sample_now + 60000))" "time_of (iso_text (sample_now + 60000)) = sample_now + 60000"
  by (simp_all add: timestamp_ok_iso_text)

lemma sample_mandates_ok [simp]: "mandates_ok sample_mandates"
  by (simp add: mandates_ok_def sample_mandates_def Let_def)

lemma sample_verification_ok [simp]: "ap2_verification_ok sample_verification"
  using sample_ap2_texts by (simp add: ap2_verification_ok_def sample_verification_def)

lemma sample_ap2_sel [simp]:
  "ai_mandates sample_ap2 = sample_mandates" "ai_merchant_id sample_ap2 = ''m-1''" "ap2_input_ok ref_host sample_ap2"
  "av_currency sample_verification = ''USD''" "av_amount sample_verification = ''1250''"
  using sample_ap2_texts by (simp_all add: sample_ap2_def ap2_input_ok_def sample_verification_def)

lemma sample_minor: "format_minor_amount ''1250'' 2 = Inr ''12.50''"
proof -
  have "format_units ''1250'' 2 = ''12.50''" by code_simp
  then show ?thesis by (simp add: format_minor_amount_def)
qed

lemma sample_action_from_ap2: "\<exists>a. action_from_ap2 ref_host sample_ap2 sample_verification 2 = Inr a"
  using hash_canonical_hash_ok [OF ref_host_sha] sample_amounts(1) sample_ap2_texts
  by (simp add: action_from_ap2_def sample_minor check_action_def action_ok_def transaction_ok_def intent_hash_def)
    (simp add: sample_ap2_def sample_verification_def)

definition sample_ap2_gate :: "decision \<Rightarrow> key_entry \<Rightarrow> unit ap2_state ap2_gate" where
  "sample_ap2_gate d k = memory_ap2_gate (\<lambda>_. ret d)
     (\<lambda>c s. (Inr \<lparr>cr_success = True, cr_status = Consumed, cr_decision_id = co_decision_id c,
       cr_execution_ref = co_execution_ref c, cr_consumed_at = None, cr_reason = None\<rparr>, s))
     [k] (Some ''1.0.0'') (\<lambda>_. ret (ap2_verification_json sample_verification)) (\<lambda>_. ret ([], [])) sample_signer 30 [(''USD'', 2)]"

definition fresh_ap2 :: "unit ap2_state" where
  "fresh_ap2 = \<lparr>ys_outside = (), ys_executions = Map.empty, ys_executed = []\<rparr>"

lemma sample_ap2_gate_sel [simp]:
  "pg_evaluate (sample_ap2_gate d k) a s = (Inr d, s)"
  "pg_consume (sample_ap2_gate d k) c s = (Inr \<lparr>cr_success = True, cr_status = Consumed, cr_decision_id = co_decision_id c,
     cr_execution_ref = co_execution_ref c, cr_consumed_at = None, cr_reason = None\<rparr>, s)"
  "pg_registry (sample_ap2_gate d k) = [k]" "pg_policy_version (sample_ap2_gate d k) = Some ''1.0.0''"
  "pg_verify (sample_ap2_gate d k) q s = (Inr (ap2_verification_json sample_verification), s)"
  "pg_trust (sample_ap2_gate d k) m s = (Inr ([], []), s)"
  "pg_max_age (sample_ap2_gate d k) = 30" "pg_decimals (sample_ap2_gate d k) = [(''USD'', 2)]"
  "pg_claim (sample_ap2_gate d k) r b s = on_part ys_executions ys_executions_update (ap2_claim r b) s"
  by (simp_all add: sample_ap2_gate_def memory_ap2_gate_def on_part_def)

lemma sample_ap2_executes:
  "\<exists>d k. ys_executed (snd (ap2_process ref_host (sample_ap2_gate d k) (\<lambda>_. sample_now) ''receipt-1'' sample_ap2
      (\<lambda>x s. (Inl ZodError, s\<lparr>ys_executed := av_payment_mandate (pd_verification x) # ys_executed s\<rparr>)) fresh_ap2)) \<noteq> ys_executed fresh_ap2"
proof -
  obtain a where a: "action_from_ap2 ref_host sample_ap2 sample_verification 2 = Inr a" using sample_action_from_ap2 by blast
  from action_from_ap2_bound [OF a] have b: "action_ok ref_host a" "bound_requirements (a_reference a) = None"
    by (simp_all add: ap2_bound_def bound_requirements_def)
  obtain d k where v: "vr_valid (verify_decision ref_host
      \<lparr>vi_decision = decision_json d, vi_action = action_json a, vi_registry = registry_json [k], vi_at = sample_now,
       vi_policy_version = Some ''1.0.0'', vi_requirements_hash = None\<rparr>)" "d_verdict d = ALLOW"
    using sample_verified [OF b(1)] by (auto simp: b(2))
  have c: "require_current sample_verification sample_now 30 = Inr ()" "require_exact_binding sample_ap2 sample_verification = Inr ()"
    unfolding require_current_Inr require_exact_binding_Inr
    by (simp_all add: ap2_current_def ap2_matches_def sample_verification_def sample_ap2_def)
  have r: "read_ap2_verification (ap2_verification_json sample_verification) = Inr sample_verification"
    unfolding read_ap2_verification_Inr by (simp add: parse_ap2_verification_json)
  have q: "ap2_request_ok \<lparr>vq_mandates = sample_mandates, vq_issuer_jwk = [], vq_merchant_jwk = [], vq_merchant_id = ''m-1'',
      vq_time = sample_now div 1000\<rparr>"
    by (simp add: ap2_request_ok_def sample_now_def)
  have p: "ap2_prepare ref_host (sample_ap2_gate d k) sample_now sample_ap2 s = (Inr (sample_verification, a), s)" for s
    using q by (simp add: ap2_prepare_def bind_io_apply or_ap2_def catch_io_apply Let_def r c a)
  have "ap2_authorise ref_host (sample_ap2_gate d k) (\<lambda>_. sample_now) sample_ap2 s = (Inr (sample_verification, a, d), s)" for s
    using v by (simp add: ap2_authorise_def bind_io_apply p or_ap2_def catch_io_apply Let_def ap2_verify_decision_def c)
  then show ?thesis
    by (intro exI [of _ d] exI [of _ k])
      (simp add: ap2_process_def ap2_begin_def bind_io_apply or_ap2_def catch_io_apply Let_def on_part_def fresh_ap2_def
        ap2_claim_def claim_execution_def)
qed

text \<open>The events of a verifier process that prints an empty object and ends.\<close>

definition sample_events :: "child_event list" where
  "sample_events = [StderrData ''warning'', StdoutData ''{'', StdoutData ''}'', Closed (Some 0), Closed None]"

lemma sample_answer: "sdk_verify (\<lambda>b. if b = ''{}'' then Some (JObj []) else None) (\<lambda>b. b) 1024
    \<lparr>vq_mandates = sample_mandates, vq_issuer_jwk = [], vq_merchant_jwk = [], vq_merchant_id = ''m-1'', vq_time = 0\<rparr> sample_events =
    Some (Inr (JObj []))"
  by (simp add: sdk_verify_def ap2_request_ok_def run_child_def sample_events_def started_child_def finish_child_def Let_def)

end
