(* ===== verification/PgStore.thy ===== *)
theory PgStore
  imports LocalProvider
begin

section \<open>The PostgreSQL policy state store\<close>

text \<open>
  \<open>postgres-store/src/store.ts\<close> over the tables of \<open>migrations/001_initial.sql\<close>: each method is
  one SQL statement or one transaction, translated as a function on the tables with the keys and
  checks the migration declares; statements and transactions are taken in the order in which
  they commit. Lemmas: the store keeps the contracts of a decision store and of a nonce store, so
  that the local provider over it has every guarantee of the provider over the in-memory
  stores; \<open>consumeAndRecordSpend\<close> refines a ledger of consumptions with their spends, and no
  history of provider calls takes the spend of a principal and day above the daily limit.
\<close>

subsection \<open>Tables\<close>

text \<open>
  \<open>decisions\<close> by identifier (its \<open>jsonb\<close> columns hold the JSON forms), \<open>approval_claims\<close>, the rows of
  \<open>consumptions\<close> and \<open>daily_spend\<close> with exact numbers.
\<close>

record pg_tables =
  pg_decisions :: "string \<Rightarrow> (decision \<times> action) option"
  pg_claims :: "string list"
  pg_consumptions :: "consumption list"
  pg_spend :: "string \<times> string \<Rightarrow> rat option"

definition empty_tables :: pg_tables where
  "empty_tables = \<lparr>pg_decisions = Map.empty, pg_claims = [], pg_consumptions = [], pg_spend = Map.empty\<rparr>"

text \<open>Equality of \<open>jsonb\<close> values: the order of properties does not count.\<close>

definition jsonb_eq :: "json \<Rightarrow> json \<Rightarrow> bool" where
  "jsonb_eq v w \<longleftrightarrow> json_norm v = json_norm w"

text \<open>\<open>day_key ~ '^[0-9]{4}-[0-9]{2}-[0-9]{2}$'\<close>.\<close>

definition pg_day_ok :: "string \<Rightarrow> bool" where
  "pg_day_ok s \<longleftrightarrow> length s = 10 \<and> s ! 4 = CHR ''-'' \<and> s ! 7 = CHR ''-'' \<and>
     list_all (\<lambda>i. is_digit (s ! i)) [0, 1, 2, 3, 5, 6, 8, 9]"

definition pg_error :: "string \<Rightarrow> error" where
  "pg_error m = JsError ''error'' m"

text \<open>The input functions of the types \<open>uuid\<close> (with the text it prints) and \<open>timestamptz\<close> (in microseconds).\<close>

record pg_types =
  pt_uuid :: "string \<Rightarrow> string option"
  pt_timestamp :: "string \<Rightarrow> int option"

definition pg_iso :: "int \<Rightarrow> error + string" where
  "pg_iso us = (case to_iso_string (us div 1000) of
     None \<Rightarrow> Inl (JsError ''RangeError'' ''Invalid time value'') | Some t \<Rightarrow> Inr t)"

definition pg_decimal :: "host \<Rightarrow> string \<Rightarrow> string \<Rightarrow> error + rat" where
  "pg_decimal H v what =
     bind_sum (new_decimal H v) (\<lambda>q.
       if q < 0 \<or> take 1 v = ''-'' then Inl (JsError ''Error'' (what @ '' must be a non-negative decimal string'')) else Inr q)"

subsection \<open>The methods\<close>

text \<open>\<open>save\<close>: the upsert changes nothing on a row with equal \<open>jsonb\<close> values, which the columns hold
  without an order of properties; any other row makes it return no row.\<close>

definition pg_save :: "decision \<Rightarrow> action \<Rightarrow> (error, pg_tables, unit) io" where
  "pg_save d a s =
     (if (case pg_decisions s (d_decision_id d) of
            None \<Rightarrow> True
          | Some (e, b) \<Rightarrow> jsonb_eq (decision_json e) (decision_json d) \<and> jsonb_eq (action_json b) (action_json a))
      then (Inr (), s\<lparr>pg_decisions := (pg_decisions s)(d_decision_id d \<mapsto> (d, a))\<rparr>)
      else (Inl (JsError ''Error'' ''A signed decision with this decision_id already exists and is immutable''), s))"

definition pg_get :: "host \<Rightarrow> string \<Rightarrow> (error, pg_tables, (decision \<times> action) option) io" where
  "pg_get H i s =
     (case pg_decisions s i of
        None \<Rightarrow> (Inr None, s)
      | Some (d, a) \<Rightarrow>
          (case (parse_decision H (decision_json d), parse_action H (action_json a)) of
             (Some d', Some a') \<Rightarrow> (Inr (Some (d', a')), s)
           | _ \<Rightarrow> (Inl ZodError, s)))"

definition pg_claim :: "string \<Rightarrow> (error, pg_tables, bool) io" where
  "pg_claim i s =
     (if pg_decisions s i = None \<or> i \<in> set (pg_claims s) then (Inr False, s)
      else (Inr True, s\<lparr>pg_claims := i # pg_claims s\<rparr>))"

definition pg_stored_spend :: "pg_tables \<Rightarrow> string \<Rightarrow> string \<Rightarrow> rat" where
  "pg_stored_spend s q day = (case pg_spend s (q, day) of None \<Rightarrow> 0 | Some v \<Rightarrow> v)"

definition pg_daily_spend :: "host \<Rightarrow> string \<Rightarrow> string \<Rightarrow> (error, pg_tables, string) io" where
  "pg_daily_spend H q day s = (Inr (to_canonical_amount H (pg_stored_spend s q day)), s)"

definition pg_record_spend :: "host \<Rightarrow> spend \<Rightarrow> (error, pg_tables, unit) io" where
  "pg_record_spend H sp s =
     (case pg_decimal H (sp_amount sp) ''amount'' of
        Inl e \<Rightarrow> (Inl e, s)
      | Inr x \<Rightarrow>
          if \<not> pg_day_ok (sp_day sp) then (Inl (pg_error ''new row violates check constraint''), s)
          else (Inr (), s\<lparr>pg_spend := (pg_spend s)((sp_principal sp, sp_day sp) \<mapsto>
                 pg_stored_spend s (sp_principal sp) (sp_day sp) + x)\<rparr>))"

definition limit_rejection :: "consumption \<Rightarrow> reason_code \<Rightarrow> consume_result" where
  "limit_rejection c r =
     \<lparr>cr_success = False, cr_status = Rejected, cr_decision_id = nc_decision_id c, cr_execution_ref = nc_execution_ref c,
      cr_consumed_at = None, cr_reason = Some r\<rparr>"

text \<open>The row a consumption conflicts with: one of the same decision first, else one of the same nonce.\<close>

definition conflicting_row :: "consumption list \<Rightarrow> consumption \<Rightarrow> consumption option" where
  "conflicting_row rows c =
     (case find (\<lambda>r. nc_decision_id r = nc_decision_id c) rows of
        Some r \<Rightarrow> Some r
      | None \<Rightarrow> find (\<lambda>r. nc_nonce r = nc_nonce c) rows)"

text \<open>The conditional upsert of the transaction: \<open>None\<close> if it returns no row.\<close>

definition pg_add_within :: "spend \<Rightarrow> rat \<Rightarrow> rat \<Rightarrow> pg_tables \<Rightarrow> pg_tables option" where
  "pg_add_within sp x limit s =
     (if limit < x then None
      else case pg_spend s (sp_principal sp, sp_day sp) of
        None \<Rightarrow> Some (s\<lparr>pg_spend := (pg_spend s)((sp_principal sp, sp_day sp) \<mapsto> x)\<rparr>)
      | Some v \<Rightarrow> if limit < v + x then None
          else Some (s\<lparr>pg_spend := (pg_spend s)((sp_principal sp, sp_day sp) \<mapsto> v + x)\<rparr>))"

definition pg_consume :: "host \<Rightarrow> consumption \<Rightarrow> spend \<Rightarrow> string \<Rightarrow> (error, pg_tables, consume_result) io" where
  "pg_consume H c sp daily_limit s =
     (case (pg_decimal H (sp_amount sp) ''spend amount'', pg_decimal H daily_limit ''daily limit'') of
        (Inl e, _) \<Rightarrow> (Inl e, s)
      | (_, Inl e) \<Rightarrow> (Inl e, s)
      | (Inr x, Inr limit) \<Rightarrow>
          if nc_expires_at c \<le> nc_consumed_at c then (Inr (limit_rejection c DECISION_EXPIRED), s)
          else (case conflicting_row (pg_consumptions s) c of
            Some r \<Rightarrow>
              if nc_decision_id r = nc_decision_id c \<and> nc_nonce r = nc_nonce c \<and>
                 nc_action_hash r = nc_action_hash c \<and> nc_execution_ref r = nc_execution_ref c
              then (consumed_result c Idempotent (nc_consumed_at r), s)
              else (Inr (conflict_result c), s)
          | None \<Rightarrow>
              if pg_decisions s (nc_decision_id c) = None
              then (Inl (pg_error ''insert violates foreign key constraint''), s)
              else if x \<le> limit \<and> \<not> pg_day_ok (sp_day sp)
              then (Inl (pg_error ''new row violates check constraint''), s)
              else (case pg_add_within sp x limit (s\<lparr>pg_consumptions := pg_consumptions s @ [c]\<rparr>) of
                None \<Rightarrow> (Inr (limit_rejection c DAILY_LIMIT_EXCEEDED), s)
              | Some s1 \<Rightarrow> (consumed_result c Consumed (nc_consumed_at c), s1))))"

subsection \<open>A decision store\<close>

lemma pg_get_reads: "pg_get H i s = (r, s') \<longleftrightarrow> s' = s \<and>
    r = (case pg_decisions s i of None \<Rightarrow> Inr None
      | Some (d, a) \<Rightarrow> if decision_ok H d \<and> action_ok H a then Inr (Some (d, a)) else Inl ZodError)"
  by (auto simp: pg_get_def parse_decision_json parse_action_json guard_opt_def split: option.splits prod.splits)

interpretation pg_store: decision_store pg_save "pg_get H" pg_claim pg_decisions "\<lambda>s. set (pg_claims s)"
proof
  show "\<And>i s x s'. pg_get H i s = (Inr x, s') \<Longrightarrow> x = pg_decisions s i"
    by (auto simp: pg_get_reads split: option.splits if_splits)
  show "\<And>i s. pg_decisions (snd (pg_get H i s)) = pg_decisions s \<and> set (pg_claims (snd (pg_get H i s))) = set (pg_claims s)"
    by (metis pg_get_reads prod.collapse)
qed (auto simp: pg_save_def pg_claim_def split: if_splits option.splits)

text \<open>A saved decision is never replaced: a later save under its identifier is refused, unless it is
  the same decision for the same action.\<close>

lemma pg_save_immutable:
  assumes "pg_decisions s (d_decision_id d) = Some (e, b)"
  shows "(fst (pg_save d a s) = Inr () \<longleftrightarrow>
      jsonb_eq (decision_json e) (decision_json d) \<and> jsonb_eq (action_json b) (action_json a)) \<and>
    (fst (pg_save d a s) \<noteq> Inr () \<longrightarrow> snd (pg_save d a s) = s)"
  using assms by (auto simp: pg_save_def)

subsection \<open>A nonce store\<close>

definition pg_owner :: "pg_tables \<Rightarrow> string \<Rightarrow> string \<Rightarrow> (string \<times> string) option" where
  "pg_owner s d n = map_option (\<lambda>r. (nc_action_hash r, nc_execution_ref r))
     (find (\<lambda>r. nc_decision_id r = d \<and> nc_nonce r = n) (pg_consumptions s))"

lemma find_append: "find P (xs @ ys) = (case find P xs of None \<Rightarrow> find P ys | Some x \<Rightarrow> Some x)"
  by (induction xs) auto

lemma find_refine: "find P xs = Some x \<Longrightarrow> (\<And>y. Q y \<Longrightarrow> P y) \<Longrightarrow> Q x \<Longrightarrow> find Q xs = Some x"
  by (induction xs) (auto split: if_splits)

text \<open>The cases of a consumption: what it returns and which tables it leaves.\<close>

lemma pg_add_within_Some:
  "pg_add_within sp x limit s = Some s' \<longleftrightarrow> x \<le> limit \<and> pg_stored_spend s (sp_principal sp) (sp_day sp) + x \<le> limit \<and>
    s' = s\<lparr>pg_spend := (pg_spend s)((sp_principal sp, sp_day sp) \<mapsto> pg_stored_spend s (sp_principal sp) (sp_day sp) + x)\<rparr>"
  by (auto simp: pg_add_within_def pg_stored_spend_def split: option.splits)

lemma pg_consume_cases:
  assumes "pg_consume H c sp daily_limit s = (r, s')"
  shows "s' = s \<and> (\<forall>x. r = Inr x \<longrightarrow> cr_status x \<noteq> Consumed \<and> (cr_success x \<longleftrightarrow> cr_status x = Idempotent) \<and>
      (cr_status x = Idempotent \<longrightarrow> (\<exists>row. conflicting_row (pg_consumptions s) c = Some row \<and>
         nc_decision_id row = nc_decision_id c \<and> nc_nonce row = nc_nonce c \<and>
         nc_action_hash row = nc_action_hash c \<and> nc_execution_ref row = nc_execution_ref c))) \<or>
    conflicting_row (pg_consumptions s) c = None \<and> pg_decisions s (nc_decision_id c) \<noteq> None \<and>
      nc_consumed_at c < nc_expires_at c \<and>
      (\<exists>x limit. pg_decimal H (sp_amount sp) ''spend amount'' = Inr x \<and> pg_decimal H daily_limit ''daily limit'' = Inr limit \<and>
        x \<le> limit \<and> pg_stored_spend s (sp_principal sp) (sp_day sp) + x \<le> limit \<and>
        s' = s\<lparr>pg_consumptions := pg_consumptions s @ [c],
          pg_spend := (pg_spend s)((sp_principal sp, sp_day sp) \<mapsto> pg_stored_spend s (sp_principal sp) (sp_day sp) + x)\<rparr>) \<and>
      r = consumed_result c Consumed (nc_consumed_at c)"
  using assms
  by (auto simp: pg_consume_def pg_add_within_Some limit_rejection_def conflict_result_def pg_stored_spend_def
      dest!: consumed_result_Inr split: sum.splits if_splits option.splits)

lemma no_conflict:
  "conflicting_row rows c = None \<longleftrightarrow> (\<forall>r \<in> set rows. nc_decision_id r \<noteq> nc_decision_id c \<and> nc_nonce r \<noteq> nc_nonce c)"
  by (auto simp: conflicting_row_def find_None dest: find_Some_iff2 split: option.splits)

lemma no_conflict_find:
  "conflicting_row rows c = None \<Longrightarrow> find (\<lambda>r. nc_decision_id r = nc_decision_id c \<and> nc_nonce r = nc_nonce c) rows = None"
  by (simp add: no_conflict find_None)

interpretation pg_nonces: nonce_store "\<lambda>c. pg_consume H c sp daily_limit" pg_owner
proof
  fix s c d n w
  obtain r s' where e: "pg_consume H c sp daily_limit s = (r, s')" by fastforce
  show "pg_owner s d n = Some w \<Longrightarrow> pg_owner (snd (pg_consume H c sp daily_limit s)) d n = Some w"
    using pg_consume_cases [OF e] by (auto simp: e pg_owner_def find_append)
  show "(d, n) \<noteq> (nc_decision_id c, nc_nonce c) \<Longrightarrow> pg_owner (snd (pg_consume H c sp daily_limit s)) d n = pg_owner s d n"
    using pg_consume_cases [OF e] by (auto simp: e pg_owner_def find_append split: option.splits)
next
  fix s c r s'
  assume e: "pg_consume H c sp daily_limit s = (Inr r, s')"
  note cases = pg_consume_cases [OF e]
  show "cr_status r = Consumed \<Longrightarrow> pg_owner s (nc_decision_id c) (nc_nonce c) = None \<and>
      pg_owner s' (nc_decision_id c) (nc_nonce c) = Some (nc_action_hash c, nc_execution_ref c)"
    using cases no_conflict_find by (auto simp: pg_owner_def find_append)
  show "cr_status r = Idempotent \<Longrightarrow> pg_owner s (nc_decision_id c) (nc_nonce c) = Some (nc_action_hash c, nc_execution_ref c)"
  proof -
    assume "cr_status r = Idempotent"
    with cases obtain row where row: "conflicting_row (pg_consumptions s) c = Some row"
      and same: "nc_decision_id row = nc_decision_id c" "nc_nonce row = nc_nonce c"
        "nc_action_hash row = nc_action_hash c" "nc_execution_ref row = nc_execution_ref c"
      by (auto dest!: sym [of "Inr r"] consumed_result_Inr)
    have "find (\<lambda>r. nc_decision_id r = nc_decision_id c) (pg_consumptions s) = Some row"
      using row same(1) by (auto simp: conflicting_row_def find_None dest: find_Some_iff2 split: option.splits)
    from find_refine [OF this, of "\<lambda>r. nc_decision_id r = nc_decision_id c \<and> nc_nonce r = nc_nonce c"] same
    show ?thesis by (simp add: pg_owner_def)
  qed
  show "cr_success r \<longleftrightarrow> cr_status r \<in> {Consumed, Idempotent}"
    using cases by (auto dest!: sym [of "Inr r"] consumed_result_Inr)
qed

subsection \<open>The provider over the durable store\<close>

record pg_world =
  pw_tables :: pg_tables
  pw_metrics :: metrics_state

definition pg_provider :: "host \<Rightarrow> policy \<Rightarrow> signer \<Rightarrow> pg_world provider" where
  "pg_provider H p sg =
     \<lparr>lp_policy = p, lp_signer = sg,
      lp_save = (\<lambda>d a. on_part pw_tables pw_tables_update (pg_save d a)),
      lp_get = (\<lambda>i. on_part pw_tables pw_tables_update (pg_get H i)),
      lp_claim = (\<lambda>i. on_part pw_tables pw_tables_update (pg_claim i)),
      lp_daily = (\<lambda>q day. on_part pw_tables pw_tables_update (pg_daily_spend H q day)),
      lp_consumption = AtomicStore (\<lambda>c sp l. on_part pw_tables pw_tables_update (pg_consume H c sp l)),
      lp_metric = (\<lambda>m s. s\<lparr>pw_metrics := mem_metric m (pw_metrics s)\<rparr>)\<rparr>"

definition empty_world :: pg_world where
  "empty_world = \<lparr>pw_tables = empty_tables,
     pw_metrics = \<lparr>mt_decisions = [], mt_latencies = [], mt_failures = [], mt_replays = 0\<rparr>\<rparr>"

lemma pg_provider_sel [simp]:
  "lp_policy (pg_provider H p sg) = p" "lp_signer (pg_provider H p sg) = sg"
  "lp_save (pg_provider H p sg) d a = on_part pw_tables pw_tables_update (pg_save d a)"
  "lp_get (pg_provider H p sg) i = on_part pw_tables pw_tables_update (pg_get H i)"
  "lp_claim (pg_provider H p sg) i = on_part pw_tables pw_tables_update (pg_claim i)"
  "lp_daily (pg_provider H p sg) q day = on_part pw_tables pw_tables_update (pg_daily_spend H q day)"
  "lp_consumption (pg_provider H p sg) = AtomicStore (\<lambda>c sp l. on_part pw_tables pw_tables_update (pg_consume H c sp l))"
  "lp_metric (pg_provider H p sg) m s = s\<lparr>pw_metrics := mem_metric m (pw_metrics s)\<rparr>"
  by (simp_all add: pg_provider_def)

lemma pg_consume_keeps:
  "pg_decisions (snd (pg_consume H c sp l s)) = pg_decisions s" "pg_claims (snd (pg_consume H c sp l s)) = pg_claims s"
  using pg_consume_cases [of H c sp l s] by (cases "pg_consume H c sp l s"; fastforce)+

lemma pg_get_state [simp]: "snd (pg_get H i s) = s"
  by (metis pg_get_reads prod.collapse)

lemma pg_owner_update [simp]:
  "pg_owner (s\<lparr>pg_decisions := d\<rparr>) = pg_owner s" "pg_owner (s\<lparr>pg_claims := i\<rparr>) = pg_owner s"
  by (simp_all add: pg_owner_def fun_eq_iff)

lemma pg_owner_frame:
  "pg_owner (snd (pg_save d a s)) = pg_owner s" "pg_owner (snd (pg_claim i s)) = pg_owner s"
  by (simp_all add: pg_save_def pg_claim_def)

interpretation pg_provider: single_use_provider "pg_provider H p sg"
  "\<lambda>s. pg_decisions (pw_tables s)" "\<lambda>s. set (pg_claims (pw_tables s))" "\<lambda>s. pg_owner (pw_tables s)"
proof (intro single_use_provider.intro single_use_provider_axioms.intro)
  show "decision_provider (pg_provider H p sg) (\<lambda>s. pg_decisions (pw_tables s)) (\<lambda>s. set (pg_claims (pw_tables s)))"
  proof unfold_locales
    fix i s x s'
    show "lp_get (pg_provider H p sg) i s = (Inr x, s') \<Longrightarrow> x = pg_decisions (pw_tables s) i"
      by (auto simp: on_part_result dest: pg_store.get_reads)
    show "lp_claim (pg_provider H p sg) i s = (Inr True, s') \<Longrightarrow>
        i \<notin> set (pg_claims (pw_tables s)) \<and> set (pg_claims (pw_tables s')) = insert i (set (pg_claims (pw_tables s)))"
      by (auto simp: on_part_result dest: pg_store.claim_new)
    show "lp_claim (pg_provider H p sg) i s = (Inr False, s') \<Longrightarrow>
        set (pg_claims (pw_tables s')) = set (pg_claims (pw_tables s))"
      by (auto simp: on_part_result dest: pg_store.claim_old)
    show "lp_save (pg_provider H p sg) d a s = (Inr (), s') \<Longrightarrow> pg_decisions (pw_tables s') (d_decision_id d) = Some (d, a)" for d a
      by (auto simp: on_part_result dest: pg_store.save_stores)
  qed (auto simp: on_part_state keeps_def pg_consume_keeps pg_store.save_frame pg_store.save_claims pg_store.claim_frame
      pg_daily_spend_def pg_claim_def split: if_splits)
  have "nonce_store (\<lambda>c. on_part pw_tables pw_tables_update (pg_consume H c sp l)) (\<lambda>s. pg_owner (pw_tables s))" for sp l
  proof
    fix s c d n w
    show "pg_owner (pw_tables s) d n = Some w \<Longrightarrow>
        pg_owner (pw_tables (snd (on_part pw_tables pw_tables_update (pg_consume H c sp l) s))) d n = Some w"
      by (simp add: on_part_state pg_nonces.owner_kept)
    show "base64url n \<Longrightarrow> base64url (nc_nonce c) \<Longrightarrow> (d, n) \<noteq> (nc_decision_id c, nc_nonce c) \<Longrightarrow>
        pg_owner (pw_tables (snd (on_part pw_tables pw_tables_update (pg_consume H c sp l) s))) d n = pg_owner (pw_tables s) d n"
      using pg_nonces.owner_frame [of n c d H sp l "pw_tables s"] by (simp add: on_part_state)
    fix r s'
    assume "on_part pw_tables pw_tables_update (pg_consume H c sp l) s = (Inr r, s')"
    then have e: "pg_consume H c sp l (pw_tables s) = (Inr r, pw_tables s')" by (auto simp: on_part_result)
    show "cr_status r = Consumed \<Longrightarrow> pg_owner (pw_tables s) (nc_decision_id c) (nc_nonce c) = None \<and>
        pg_owner (pw_tables s') (nc_decision_id c) (nc_nonce c) = Some (nc_action_hash c, nc_execution_ref c)"
      "cr_status r = Idempotent \<Longrightarrow> pg_owner (pw_tables s) (nc_decision_id c) (nc_nonce c) = Some (nc_action_hash c, nc_execution_ref c)"
      "cr_success r \<longleftrightarrow> cr_status r \<in> {Consumed, Idempotent}"
      using pg_nonces.consumed [OF e] pg_nonces.idempotent [OF e] pg_nonces.success [OF e] by simp_all
  qed
  then show "nonce_store (consume_by (pg_provider H p sg) sp) (\<lambda>s. pg_owner (pw_tables s))" for sp
    by (simp add: consume_by_def [abs_def])
qed (auto simp: keeps_def on_part_state pg_owner_frame pg_daily_spend_def)

subsection \<open>No history exceeds the daily limit\<close>

definition within_limit :: "rat \<Rightarrow> pg_tables \<Rightarrow> bool" where
  "within_limit l s \<longleftrightarrow> (\<forall>q day. pg_stored_spend s q day \<le> l)"

lemma pg_stored_spend_update [simp]:
  "pg_stored_spend (s\<lparr>pg_decisions := x\<rparr>) = pg_stored_spend s" "pg_stored_spend (s\<lparr>pg_claims := y\<rparr>) = pg_stored_spend s"
  by (simp_all add: pg_stored_spend_def fun_eq_iff)

lemma pg_consume_within_limit:
  assumes "pg_decimal H daily_limit ''daily limit'' = Inr l" "within_limit l s"
  shows "within_limit l (snd (pg_consume H c sp daily_limit s))"
proof -
  obtain r s' where e: "pg_consume H c sp daily_limit s = (r, s')" by fastforce
  from pg_consume_cases [OF e] consider "s' = s"
    | x where "pg_stored_spend s (sp_principal sp) (sp_day sp) + x \<le> l"
      "s' = s\<lparr>pg_consumptions := pg_consumptions s @ [c],
        pg_spend := (pg_spend s)((sp_principal sp, sp_day sp) \<mapsto> pg_stored_spend s (sp_principal sp) (sp_day sp) + x)\<rparr>"
    using assms(1) by auto
  then have "within_limit l s'"
    by cases (use assms(2) in \<open>auto simp: within_limit_def pg_stored_spend_def\<close>)
  then show ?thesis by (simp add: e)
qed

lemma pg_provider_within_limit:
  assumes "pg_decimal H (pl_daily p) ''daily limit'' = Inr l" "within_limit l (pw_tables s)"
    and "run_ops (lp_step H (pg_provider H p sg)) cs s = (rs, s')"
  shows "within_limit l (pw_tables s')"
proof (rule run_ops_invariant [where P = "\<lambda>s. within_limit l (pw_tables s)", OF _ assms(2,3)])
  fix c s
  have "keeps (\<lambda>s s'. within_limit l (pw_tables s) \<longrightarrow> within_limit l (pw_tables s')) (lp_step H (pg_provider H p sg) c)"
  proof (intro pg_provider.keeps_step)
    show "keeps (\<lambda>s s'. within_limit l (pw_tables s) \<longrightarrow> within_limit l (pw_tables s')) (f x sp (pl_daily (lp_policy (pg_provider H p sg))))"
      if "lp_consumption (pg_provider H p sg) = AtomicStore f" for f x sp
      using that pg_consume_within_limit [OF assms(1)] by (auto simp: keeps_def on_part_state)
  qed (auto simp: keeps_def state_order_def on_part_state within_limit_def pg_save_def pg_claim_def pg_daily_spend_def)
  then show "within_limit l (pw_tables s) \<Longrightarrow> within_limit l (pw_tables (snd (lp_step H (pg_provider H p sg) c s)))"
    by (simp add: keeps_def)
qed

subsection \<open>Consumption refines a ledger\<close>

text \<open>The abstract store: the consumptions in order, each with the account (principal and day) it is
  charged to and its amount.\<close>

type_synonym ledger = "(consumption \<times> (string \<times> string) \<times> rat) list"

definition ledger_spent :: "ledger \<Rightarrow> string \<times> string \<Rightarrow> rat" where
  "ledger_spent L k = sum_list (map (\<lambda>e. snd (snd e)) (filter (\<lambda>e. fst (snd e) = k) L))"

definition ledger_consume :: "consumption \<Rightarrow> string \<times> string \<Rightarrow> rat \<Rightarrow> rat \<Rightarrow> (error, ledger, consume_result) io" where
  "ledger_consume c k x limit L =
     (if nc_expires_at c \<le> nc_consumed_at c then (Inr (limit_rejection c DECISION_EXPIRED), L)
      else case find (\<lambda>r. nc_decision_id r = nc_decision_id c) (map fst L) of
        Some r \<Rightarrow>
          if nc_nonce r = nc_nonce c \<and> nc_action_hash r = nc_action_hash c \<and> nc_execution_ref r = nc_execution_ref c
          then (consumed_result c Idempotent (nc_consumed_at r), L)
          else (Inr (conflict_result c), L)
      | None \<Rightarrow>
          if nc_nonce c \<in> set (map (\<lambda>e. nc_nonce (fst e)) L) then (Inr (conflict_result c), L)
          else if ledger_spent L k + x \<le> limit
          then (consumed_result c Consumed (nc_consumed_at c), L @ [(c, k, x)])
          else (Inr (limit_rejection c DAILY_LIMIT_EXCEEDED), L))"

definition ledger_of :: "pg_tables \<Rightarrow> ledger \<Rightarrow> bool" where
  "ledger_of s L \<longleftrightarrow> pg_consumptions s = map fst L \<and> (\<forall>e \<in> set L. 0 \<le> snd (snd e)) \<and>
     (\<forall>q day. pg_stored_spend s q day = ledger_spent L (q, day))"

lemma ledger_spent_append [simp]: "ledger_spent (L @ [(c, k, x)]) j = ledger_spent L j + (if k = j then x else 0)"
  by (simp add: ledger_spent_def)

lemma ledger_spent_nonneg: "(\<forall>e \<in> set L. 0 \<le> snd (snd e)) \<Longrightarrow> 0 \<le> ledger_spent L k"
  unfolding ledger_spent_def by (rule sum_list_nonneg) auto

lemma pg_decimal_nonneg: "pg_decimal H v what = Inr x \<Longrightarrow> 0 \<le> x"
  by (auto simp: pg_decimal_def bind_sum_Inr split: if_splits)

lemma nonce_found:
  assumes "find (\<lambda>r. nc_decision_id r = nc_decision_id c) (map fst L) = None" "nc_nonce c \<in> set (map (\<lambda>e. nc_nonce (fst e)) L)"
  shows "\<exists>r. find (\<lambda>r. nc_nonce r = nc_nonce c) (map fst L) = Some r \<and> nc_decision_id r \<noteq> nc_decision_id c"
proof -
  obtain r where r: "find (\<lambda>r. nc_nonce r = nc_nonce c) (map fst L) = Some r"
    using assms(2) by (cases "find (\<lambda>r. nc_nonce r = nc_nonce c) (map fst L)") (auto simp: find_None_iff)
  then have "r \<in> set (map fst L)" by (auto simp: find_Some_iff)
  with assms(1) r show ?thesis by (auto simp: find_None_iff)
qed

lemma pg_consume_refines:
  assumes L: "ledger_of s L" and "pg_decisions s (nc_decision_id c) \<noteq> None" "pg_day_ok (sp_day sp)"
    and x: "pg_decimal H (sp_amount sp) ''spend amount'' = Inr x" and l: "pg_decimal H daily_limit ''daily limit'' = Inr l"
  shows "\<exists>r s' L'. pg_consume H c sp daily_limit s = (r, s') \<and>
    ledger_consume c (sp_principal sp, sp_day sp) x l L = (r, L') \<and> ledger_of s' L'"
proof -
  let ?k = "(sp_principal sp, sp_day sp)"
  let ?s = "s\<lparr>pg_consumptions := map fst L @ [c]\<rparr>"
  have rows: "pg_consumptions s = map fst L" and spent: "pg_stored_spend s (sp_principal sp) (sp_day sp) = ledger_spent L ?k"
    using L by (simp_all add: ledger_of_def)
  have stored: "pg_stored_spend ?s (sp_principal sp) (sp_day sp) = ledger_spent L ?k"
    using spent by (simp add: pg_stored_spend_def)
  have "0 \<le> ledger_spent L ?k" using L by (intro ledger_spent_nonneg) (simp add: ledger_of_def)
  then have small: "ledger_spent L ?k + x \<le> l \<Longrightarrow> x \<le> l" by simp
  have add: "pg_add_within sp x l ?s = (if ledger_spent L ?k + x \<le> l
      then Some (?s\<lparr>pg_spend := (pg_spend s)(?k \<mapsto> ledger_spent L ?k + x)\<rparr>) else None)"
  proof (cases "pg_add_within sp x l ?s")
    case None
    then have "\<not> (x \<le> l \<and> ledger_spent L ?k + x \<le> l)"
      using pg_add_within_Some [of sp x l ?s] stored by auto
    with small None show ?thesis by auto
  next
    case (Some t)
    then show ?thesis using pg_add_within_Some [of sp x l ?s t] stored by simp
  qed
  have "ledger_of (?s\<lparr>pg_spend := (pg_spend s)(?k \<mapsto> ledger_spent L ?k + x)\<rparr>) (L @ [(c, ?k, x)])"
    using L pg_decimal_nonneg [OF x] by (auto simp: ledger_of_def pg_stored_spend_def)
  note next_ledger = this
  show ?thesis
  proof (cases "find (\<lambda>r. nc_decision_id r = nc_decision_id c) (map fst L)")
    case (Some r)
    then have "conflicting_row (pg_consumptions s) c = Some r" "nc_decision_id r = nc_decision_id c"
      by (auto simp: conflicting_row_def rows dest: find_Some_iff2)
    with Some L show ?thesis by (simp add: pg_consume_def ledger_consume_def x l)
  next
    case None
    show ?thesis
    proof (cases "nc_nonce c \<in> set (map (\<lambda>e. nc_nonce (fst e)) L)")
      case True
      then obtain r where "conflicting_row (pg_consumptions s) c = Some r" "nc_decision_id r \<noteq> nc_decision_id c"
        using nonce_found [OF None True] by (auto simp: conflicting_row_def rows None)
      with None True L show ?thesis by (simp add: pg_consume_def ledger_consume_def x l)
    next
      case False
      then have "conflicting_row (pg_consumptions s) c = None"
        by (force simp: conflicting_row_def rows None find_None_iff)
      with None False L assms(2,3) next_ledger show ?thesis
        by (cases "pg_decisions s (nc_decision_id c)") (simp_all add: pg_consume_def ledger_consume_def x l rows add)
    qed
  qed
qed

text \<open>The ledger never spends more than the limit from one account.\<close>

lemma ledger_within_limit:
  assumes "\<forall>j. ledger_spent L j \<le> l" and "ledger_consume c k x l L = (r, L')"
  shows "ledger_spent L' j \<le> l"
proof -
  have "L' = L \<or> ledger_spent L k + x \<le> l \<and> L' = L @ [(c, k, x)]"
    using assms(2) by (simp add: ledger_consume_def split: if_splits option.splits)
  then show ?thesis using assms(1) [THEN spec, of j] by auto
qed

end
