(* ===== verification/PgReconciliation.thy ===== *)
theory PgReconciliation
  imports PgStore Reconciliation "HOL-Library.Product_Lexorder"
begin

section \<open>The PostgreSQL journal of external executions\<close>

text \<open>
  \<open>postgres-store/src/reconciliation-store.ts\<close> over the table of \<open>003_execution_reconciliation.sql\<close>:
  each method is a conditional statement whose \<open>WHERE\<close> clause states from which rows it moves on.
  Lemmas: the journal keeps the contract \<open>operation_journal\<close> on tables its own statements have
  produced, and for instants in the four-digit years every call answers as the in-memory
  journal does on the operations the rows stand for.
\<close>

subsection \<open>Rows\<close>

text \<open>\<open>timestamptz\<close> columns hold instants; the other columns are those of the record.\<close>

record op_row =
  row_operation_id :: string
  row_rail :: rail
  row_kind :: operation_kind
  row_decision_id :: string
  row_action_hash :: string
  row_execution_ref :: string
  row_binding_hash :: string
  row_status :: op_status
  row_attempts :: nat
  row_prepared_at :: int
  row_started_at :: "int option"
  row_updated_at :: int
  row_resolved_at :: "int option"
  row_outcome_reference :: "string option"
  row_last_error :: "string option"
  row_resolved_by :: "string option"
  row_note :: "string option"

type_synonym op_table = "(string \<times> op_row) list"

definition record_of_row :: "op_row \<Rightarrow> operation" where
  "record_of_row r =
     \<lparr>xo_operation_id = row_operation_id r, xo_rail = row_rail r, xo_kind = row_kind r,
      xo_decision_id = row_decision_id r, xo_action_hash = row_action_hash r,
      xo_execution_ref = row_execution_ref r, xo_binding_hash = row_binding_hash r, xo_status = row_status r,
      xo_attempts = row_attempts r, xo_prepared_at = iso_text (row_prepared_at r),
      xo_started_at = map_option iso_text (row_started_at r), xo_updated_at = iso_text (row_updated_at r),
      xo_resolved_at = map_option iso_text (row_resolved_at r), xo_outcome_reference = row_outcome_reference r,
      xo_last_error = row_last_error r, xo_resolved_by = row_resolved_by r, xo_note = row_note r\<rparr>"

definition operation_from_row :: "op_row \<Rightarrow> error + operation" where
  "operation_from_row r = check_operation (record_of_row r)"

text \<open>The row a statement returns.\<close>

definition returned_operation :: "op_row option \<Rightarrow> error + operation" where
  "returned_operation x =
     (case x of
        None \<Rightarrow> Inl (reconciliation_error ''Execution operation transition was rejected'')
      | Some r \<Rightarrow> operation_from_row r)"

text \<open>The least \<open>timestamptz\<close> is the start of Julian day 0; the greatest is after every \<open>Date\<close>.\<close>

definition pg_instant :: "int \<Rightarrow> bool" where
  "pg_instant t \<longleftrightarrow> - 210866803200000 \<le> t"

definition row_identity :: "op_row \<Rightarrow> prepare_input \<Rightarrow> bool" where
  "row_identity r i \<longleftrightarrow>
     row_rail r = po_rail i \<and> row_kind r = po_kind i \<and> row_decision_id r = po_decision_id i \<and>
     row_action_hash r = po_action_hash i \<and> row_execution_ref r = po_execution_ref i \<and>
     row_binding_hash r = po_binding_hash i"

definition prepared_row :: "host \<Rightarrow> prepare_input \<Rightarrow> op_row" where
  "prepared_row H i =
     \<lparr>row_operation_id = operation_id H (po_rail i) (po_kind i) (po_execution_ref i), row_rail = po_rail i,
      row_kind = po_kind i, row_decision_id = po_decision_id i, row_action_hash = po_action_hash i,
      row_execution_ref = po_execution_ref i, row_binding_hash = po_binding_hash i, row_status = Prepared,
      row_attempts = 0, row_prepared_at = po_prepared_at i, row_started_at = None,
      row_updated_at = po_prepared_at i, row_resolved_at = None, row_outcome_reference = None,
      row_last_error = None, row_resolved_by = None, row_note = None\<rparr>"

subsection \<open>The methods\<close>

text \<open>\<open>UPDATE ... WHERE operation_id = $1 AND binding_hash = $2 AND ... RETURNING *\<close>.\<close>

definition pg_update :: "string \<Rightarrow> string \<Rightarrow> (op_row \<Rightarrow> bool) \<Rightarrow> (op_row \<Rightarrow> op_row) \<Rightarrow> op_table \<Rightarrow> op_row option \<times> op_table" where
  "pg_update k b P f s =
     (case map_of s k of
        None \<Rightarrow> (None, s)
      | Some r \<Rightarrow> if row_binding_hash r = b \<and> P r then (Some (f r), AList.update k (f r) s) else (None, s))"

definition pg_prepare :: "host \<Rightarrow> prepare_input \<Rightarrow> (error, op_table, operation) io" where
  "pg_prepare H i s =
     (if \<not> prepare_input_ok i then (Inl ZodError, s)
      else if \<not> pg_instant (po_prepared_at i) then (Inl (pg_error ''timestamp out of range''), s)
      else let k = operation_id H (po_rail i) (po_kind i) (po_execution_ref i) in
        case map_of s k of
          None \<Rightarrow> (returned_operation (Some (prepared_row H i)), AList.update k (prepared_row H i) s)
        | Some r \<Rightarrow>
            if row_identity r i then (returned_operation (Some r), s)
            else (Inl (reconciliation_error ''Execution reference is already bound to a different operation''), s))"

definition pg_operation :: "string \<Rightarrow> (error, op_table, operation option) io" where
  "pg_operation k s =
     (case map_of s k of
        None \<Rightarrow> (Inr None, s)
      | Some r \<Rightarrow> (case operation_from_row r of Inl e \<Rightarrow> (Inl e, s) | Inr x \<Rightarrow> (Inr (Some x), s)))"

definition start_row :: "int \<Rightarrow> op_row \<Rightarrow> op_row" where
  "start_row t r = r\<lparr>row_status := InProgress, row_attempts := row_attempts r + 1,
     row_started_at := Some t, row_updated_at := t\<rparr>"

text \<open>\<open>start\<close>: an \<open>UPDATE\<close> and, if it claims nothing, a \<open>SELECT\<close>; \<open>others\<close> is what other
  connections commit between the two.\<close>

definition pg_start :: "(op_table \<Rightarrow> op_table) \<Rightarrow> string \<Rightarrow> string \<Rightarrow> int \<Rightarrow> (error, op_table, start_result) io" where
  "pg_start others k b t s =
     (if \<not> (hash_ok k \<and> hash_ok b \<and> date_ok t) then (Inl ZodError, s)
      else if \<not> pg_instant t then (Inl (pg_error ''timestamp out of range''), s)
      else case pg_update k b (\<lambda>r. row_status r = Prepared) (start_row t) s of
        (Some r, s1) \<Rightarrow> (case operation_from_row r of Inl e \<Rightarrow> (Inl e, s1) | Inr x \<Rightarrow> (Inr (Claimed x), s1))
      | (None, s1) \<Rightarrow>
          (case pg_operation k (others s1) of
             (Inl e, s2) \<Rightarrow> (Inl e, s2)
           | (Inr None, s2) \<Rightarrow> (Inr StartMissing, s2)
           | (Inr (Some x), s2) \<Rightarrow>
               if xo_binding_hash x \<noteq> b then (Inr StartConflict, s2)
               else if xo_status x = Prepared
               then (Inl (reconciliation_error ''Execution operation could not be claimed''), s2)
               else (Inr (Existing x), s2)))"

definition succeed_row :: "string \<Rightarrow> int \<Rightarrow> op_row \<Rightarrow> op_row" where
  "succeed_row ref t r = r\<lparr>row_status := Succeeded, row_outcome_reference := Some ref,
     row_resolved_at := (case row_resolved_at r of None \<Rightarrow> Some t | Some u \<Rightarrow> Some u),
     row_updated_at := (if row_status r = InProgress then t else row_updated_at r)\<rparr>"

definition pg_mark_succeeded :: "string \<Rightarrow> string \<Rightarrow> string \<Rightarrow> int \<Rightarrow> (error, op_table, operation) io" where
  "pg_mark_succeeded k b ref t s =
     (if \<not> (hash_ok k \<and> hash_ok b \<and> len_between 1 512 ref \<and> date_ok t) then (Inl ZodError, s)
      else if \<not> pg_instant t then (Inl (pg_error ''timestamp out of range''), s)
      else map_prod returned_operation id (pg_update k b
        (\<lambda>r. row_status r = InProgress \<or> row_status r = Succeeded \<and> row_outcome_reference r = Some ref) (succeed_row ref t) s))"

definition fail_row :: "string \<Rightarrow> int \<Rightarrow> op_row \<Rightarrow> op_row" where
  "fail_row code t r = r\<lparr>row_status := FailedFinal, row_last_error := Some code,
     row_resolved_at := (case row_resolved_at r of None \<Rightarrow> Some t | Some u \<Rightarrow> Some u),
     row_updated_at := (if row_status r = InProgress then t else row_updated_at r)\<rparr>"

definition pg_mark_failed_final :: "string \<Rightarrow> string \<Rightarrow> string \<Rightarrow> int \<Rightarrow> (error, op_table, operation) io" where
  "pg_mark_failed_final k b code t s =
     (if \<not> (hash_ok k \<and> hash_ok b \<and> len_between 1 128 code \<and> date_ok t) then (Inl ZodError, s)
      else if \<not> pg_instant t then (Inl (pg_error ''timestamp out of range''), s)
      else map_prod returned_operation id (pg_update k b
        (\<lambda>r. row_status r = InProgress \<or> row_status r = FailedFinal \<and> row_last_error r = Some code) (fail_row code t) s))"

definition unknown_row :: "string \<Rightarrow> int \<Rightarrow> op_row \<Rightarrow> op_row" where
  "unknown_row code t r = r\<lparr>row_status := OutcomeUnknown,
     row_last_error := (case row_last_error r of None \<Rightarrow> Some code | Some e \<Rightarrow> Some e),
     row_updated_at := (if row_status r = InProgress then t else row_updated_at r)\<rparr>"

definition pg_mark_outcome_unknown :: "string \<Rightarrow> string \<Rightarrow> string \<Rightarrow> int \<Rightarrow> (error, op_table, operation) io" where
  "pg_mark_outcome_unknown k b code t s =
     (if \<not> (hash_ok k \<and> hash_ok b \<and> len_between 1 128 code \<and> date_ok t) then (Inl ZodError, s)
      else if \<not> pg_instant t then (Inl (pg_error ''timestamp out of range''), s)
      else map_prod returned_operation id (pg_update k b
        (\<lambda>r. row_status r = InProgress \<or> row_status r = OutcomeUnknown) (unknown_row code t) s))"

definition resolve_row :: "resolution_input \<Rightarrow> op_row \<Rightarrow> op_row" where
  "resolve_row i r = r\<lparr>row_status := (if rs_succeeded i then Succeeded else FailedFinal),
     row_outcome_reference := Some (rs_outcome_reference i),
     row_last_error := (if rs_succeeded i then None else rs_error_code i),
     row_resolved_by := Some (rs_resolved_by i), row_note := Some (rs_note i),
     row_resolved_at := Some (rs_resolved_at i), row_updated_at := rs_resolved_at i\<rparr>"

definition pg_resolve :: "resolution_input \<Rightarrow> (error, op_table, operation) io" where
  "pg_resolve i s =
     (if \<not> resolution_input_ok i then (Inl ZodError, s)
      else if \<not> pg_instant (rs_resolved_at i) then (Inl (pg_error ''timestamp out of range''), s)
      else map_prod returned_operation id (pg_update (rs_operation_id i) (rs_binding_hash i)
        (\<lambda>r. row_status r = InProgress \<or> row_status r = OutcomeUnknown) (resolve_row i) s))"

text \<open>\<open>validateLimit\<close>; a limit the schema accepts is an integer.\<close>

definition validate_limit :: "int option \<Rightarrow> error + nat" where
  "validate_limit l = (let v = (case l of None \<Rightarrow> 100 | Some n \<Rightarrow> n) in
     if v < 1 \<or> 500 < v then Inl (JsError ''TypeError'' ''Reconciliation query limit must be an integer from 1 to 500'')
     else Inr (nat v))"

fun sequence_rows :: "op_row list \<Rightarrow> error + operation list" where
  "sequence_rows [] = Inr []"
| "sequence_rows (r # rs) = bind_sum (operation_from_row r) (\<lambda>x. bind_sum (sequence_rows rs) (\<lambda>xs. Inr (x # xs)))"

text \<open>\<open>listUnresolved\<close>; 253402300799999 is 9999-12-31T23:59:59.999Z, and operation identifiers are hashes in
  hexadecimal, on which every collation agrees with the code units.\<close>

definition pg_list_unresolved :: "int option \<Rightarrow> int option \<Rightarrow> (error, op_table, operation list) io" where
  "pg_list_unresolved before limit s =
     (if \<not> (opt_ok date_ok before \<and> opt_ok (\<lambda>n. 1 \<le> n \<and> n \<le> 500) limit) then (Inl ZodError, s)
      else case validate_limit limit of
        Inl e \<Rightarrow> (Inl e, s)
      | Inr n \<Rightarrow>
          let t = (case before of None \<Rightarrow> 253402300799999 | Some t \<Rightarrow> t) in
          if \<not> pg_instant t then (Inl (pg_error ''timestamp out of range''), s)
          else (sequence_rows (take n (sort_key (\<lambda>r. (row_updated_at r, row_operation_id r))
            (filter (\<lambda>r. (row_status r = InProgress \<or> row_status r = OutcomeUnknown) \<and> row_updated_at r < t) (map snd s)))), s))"


fun pg_journal_step :: "host \<Rightarrow> journal_call \<Rightarrow> (error, op_table, journal_result) io" where
  "pg_journal_step H (PrepareCall i) = bind_io (pg_prepare H i) (\<lambda>x. ret (OperationResult x))"
| "pg_journal_step H (StartCall k b t) = bind_io (pg_start (\<lambda>s. s) k b t) (\<lambda>x. ret (StartResult x))"
| "pg_journal_step H (SucceedCall k b r t) = bind_io (pg_mark_succeeded k b r t) (\<lambda>x. ret (OperationResult x))"
| "pg_journal_step H (FailCall k b c t) = bind_io (pg_mark_failed_final k b c t) (\<lambda>x. ret (OperationResult x))"
| "pg_journal_step H (UnknownCall k b c t) = bind_io (pg_mark_outcome_unknown k b c t) (\<lambda>x. ret (OperationResult x))"
| "pg_journal_step H (ResolveCall i) = bind_io (pg_resolve i) (\<lambda>x. ret (OperationResult x))"

subsection \<open>The rows the statements produce\<close>

text \<open>A row under its own key, with the columns its status requires.\<close>

definition row_sound :: "string \<Rightarrow> op_row \<Rightarrow> bool" where
  "row_sound k r \<longleftrightarrow> row_operation_id r = k \<and> (final (row_status r) \<longrightarrow> row_resolved_at r \<noteq> None) \<and>
     (row_status r = OutcomeUnknown \<longrightarrow> row_last_error r \<noteq> None) \<and>
     (row_status r \<in> {Prepared, InProgress} \<longrightarrow> row_resolved_at r = None \<and> row_last_error r = None)"

definition table_sound :: "op_table \<Rightarrow> bool" where
  "table_sound s \<longleftrightarrow> (\<forall>k r. map_of s k = Some r \<longrightarrow> row_sound k r)"

lemma table_sound_empty [simp]: "table_sound []"
  by (simp add: table_sound_def)

lemma table_sound_update: "table_sound s \<Longrightarrow> row_sound k r \<Longrightarrow> table_sound (AList.update k r s)"
  by (simp add: table_sound_def update_conv')

lemma pg_update_sound:
  "table_sound s \<Longrightarrow> (\<And>r. row_sound k r \<Longrightarrow> P r \<Longrightarrow> row_sound k (f r)) \<Longrightarrow> table_sound (snd (pg_update k b P f s))"
  by (auto simp: pg_update_def table_sound_def [THEN iffD1, rule_format] intro!: table_sound_update split: option.split)

lemma new_row_sound:
  "row_sound k r \<Longrightarrow> row_status r = Prepared \<Longrightarrow> row_sound k (start_row t r)" "row_sound k r \<Longrightarrow> row_sound k (succeed_row ref t r)"
  "row_sound k r \<Longrightarrow> row_sound k (fail_row code t r)" "row_sound k r \<Longrightarrow> row_sound k (unknown_row code t r)"
  "row_sound k r \<Longrightarrow> row_sound k (resolve_row i r)"
  by (auto simp: row_sound_def start_row_def succeed_row_def fail_row_def unknown_row_def resolve_row_def final_def split: option.split)

lemma pg_operation_keeps: "pg_operation k s = (r, s') \<Longrightarrow> s' = s"
  by (simp add: pg_operation_def split: option.splits sum.splits)

lemma pg_operation_Inr:
  "pg_operation k s = (Inr x, s') \<longleftrightarrow> s' = s \<and>
    (case map_of s k of None \<Rightarrow> x = None | Some r \<Rightarrow> operation_ok (record_of_row r) \<and> x = Some (record_of_row r))"
  by (auto simp: pg_operation_def operation_from_row_def check_operation_def split: option.split)

lemma pg_start_state: "snd (pg_start others k b t s) =
    (if hash_ok k \<and> hash_ok b \<and> date_ok t \<and> pg_instant t
     then (case pg_update k b (\<lambda>r. row_status r = Prepared) (start_row t) s of (Some r, s1) \<Rightarrow> s1 | (None, s1) \<Rightarrow> others s1) else s)"
  by (auto simp: pg_start_def dest: pg_operation_keeps split: prod.split option.split sum.split)

lemma pg_journal_sound: "table_sound s \<Longrightarrow> table_sound (snd (pg_journal_step H c s))"
  by (cases c)
    (auto simp: bind_ret_state pg_prepare_def Let_def pg_start_state pg_mark_succeeded_def pg_mark_failed_final_def
      pg_mark_outcome_unknown_def pg_resolve_def prepared_row_def row_sound_def final_def
      intro!: table_sound_update pg_update_sound new_row_sound split: option.split prod.split
      dest: arg_cong [of _ _ snd])


subsection \<open>The contract of a journal\<close>

definition journal_of :: "op_table \<Rightarrow> journal" where
  "journal_of s = map (\<lambda>(k, r). (k, record_of_row r)) s"

lemma map_of_journal_of: "map_of (journal_of s) k = map_option record_of_row (map_of s k)"
  by (simp add: journal_of_def map_of_map)

lemma journal_of_update: "journal_of (AList.update k r s) = AList.update k (record_of_row r) (journal_of s)"
  by (induction s) (auto simp: journal_of_def)

lemma record_of_row_sel [simp]:
  "xo_operation_id (record_of_row r) = row_operation_id r" "xo_rail (record_of_row r) = row_rail r"
  "xo_kind (record_of_row r) = row_kind r" "xo_decision_id (record_of_row r) = row_decision_id r"
  "xo_action_hash (record_of_row r) = row_action_hash r" "xo_execution_ref (record_of_row r) = row_execution_ref r"
  "xo_binding_hash (record_of_row r) = row_binding_hash r" "xo_status (record_of_row r) = row_status r"
  "xo_attempts (record_of_row r) = row_attempts r" "xo_updated_at (record_of_row r) = iso_text (row_updated_at r)"
  "xo_outcome_reference (record_of_row r) = row_outcome_reference r" "xo_last_error (record_of_row r) = row_last_error r"
  by (simp_all add: record_of_row_def)

text \<open>What a statement makes of a row, against what the in-memory journal makes of its record.\<close>

lemma record_prepared: "record_of_row (prepared_row H i) = prepared_operation H i"
  by (simp add: record_of_row_def prepared_row_def prepared_operation_def)

lemma record_start: "record_of_row (start_row t r) = start_operation (record_of_row r) t"
  by (simp add: record_of_row_def start_row_def start_operation_def)

lemma record_resolve: "record_of_row (resolve_row i r) = resolved_operation i (record_of_row r)"
  by (simp add: record_of_row_def resolve_row_def resolved_operation_def)

lemma row_identity_record: "row_identity r i \<longleftrightarrow> same_identity (record_of_row r) i"
  by (simp add: row_identity_def same_identity_def)

text \<open>A repeated report of the same outcome leaves a sound row as it is.\<close>

lemma succeed_row_again: "row_sound k r \<Longrightarrow> row_status r = Succeeded \<Longrightarrow> row_outcome_reference r = Some ref \<Longrightarrow> succeed_row ref t r = r"
  by (cases r) (auto simp: succeed_row_def row_sound_def final_def)

lemma fail_row_again: "row_sound k r \<Longrightarrow> row_status r = FailedFinal \<Longrightarrow> row_last_error r = Some code \<Longrightarrow> fail_row code t r = r"
  by (cases r) (auto simp: fail_row_def row_sound_def final_def)

lemma unknown_row_again: "row_sound k r \<Longrightarrow> row_status r = OutcomeUnknown \<Longrightarrow> unknown_row code t r = r"
  by (cases r) (auto simp: unknown_row_def row_sound_def final_def)

lemmas rows_again = succeed_row_again fail_row_again unknown_row_again

lemma pg_update_evolves:
  assumes "table_sound s"
    and "\<And>r. row_sound k r \<Longrightarrow> P r \<Longrightarrow> f r = r \<or> operation_key (record_of_row (f r)) = operation_key (record_of_row r) \<and>
      op_transition (row_status r) (row_status (f r)) \<and> row_attempts (f r) = row_attempts r + (if row_status r = Prepared then 1 else 0)"
  shows "evolves (map_option record_of_row (map_of s j)) (map_option record_of_row (map_of (snd (pg_update k b P f s)) j))"
proof (cases "\<exists>r. map_of s k = Some r \<and> row_binding_hash r = b \<and> P r")
  case False
  then show ?thesis by (auto simp: pg_update_def split: option.split)
next
  case True
  then obtain r where r: "map_of s k = Some r" "row_binding_hash r = b" "P r" by blast
  then have "row_sound k r" using assms(1) by (simp add: table_sound_def)
  from assms(2) [OF this \<open>P r\<close>] r show ?thesis
    by (cases "j = k") (auto simp: pg_update_def update_conv' evolves_def)
qed

lemma pg_prepare_evolves:
  "evolves (map_option record_of_row (map_of s j)) (map_option record_of_row (map_of (snd (pg_prepare H i s)) j))"
  by (auto simp: pg_prepare_def Let_def update_conv' evolves_def prepared_row_def split: option.split)

lemma pg_start_is_update: "snd (pg_start (\<lambda>s. s) k b t s) =
    (if hash_ok k \<and> hash_ok b \<and> date_ok t \<and> pg_instant t
     then snd (pg_update k b (\<lambda>r. row_status r = Prepared) (start_row t) s) else s)"
  by (auto simp: pg_start_state split: prod.split option.split)

lemma row_key_simps [simp]:
  "operation_key (record_of_row (start_row t r)) = operation_key (record_of_row r)"
  "operation_key (record_of_row (succeed_row ref t r)) = operation_key (record_of_row r)"
  "operation_key (record_of_row (fail_row code t r)) = operation_key (record_of_row r)"
  "operation_key (record_of_row (unknown_row code t r)) = operation_key (record_of_row r)"
  "operation_key (record_of_row (resolve_row i r)) = operation_key (record_of_row r)"
  by (simp_all add: operation_key_def start_row_def succeed_row_def fail_row_def unknown_row_def resolve_row_def)

lemma row_status_simps [simp]:
  "row_status (start_row t r) = InProgress" "row_attempts (start_row t r) = row_attempts r + 1"
  "row_status (succeed_row ref t r) = Succeeded" "row_attempts (succeed_row ref t r) = row_attempts r"
  "row_status (fail_row code t r) = FailedFinal" "row_attempts (fail_row code t r) = row_attempts r"
  "row_status (unknown_row code t r) = OutcomeUnknown" "row_attempts (unknown_row code t r) = row_attempts r"
  "row_status (resolve_row i r) = (if rs_succeeded i then Succeeded else FailedFinal)"
  "row_attempts (resolve_row i r) = row_attempts r"
  by (simp_all add: start_row_def succeed_row_def fail_row_def unknown_row_def resolve_row_def)

lemma pg_journal_evolves:
  "table_sound s \<Longrightarrow> evolves (map_option record_of_row (map_of s j)) (map_option record_of_row (map_of (snd (pg_journal_step H c s)) j))"
  by (cases c)
    (auto simp: bind_ret_state pg_prepare_evolves pg_start_is_update pg_mark_succeeded_def pg_mark_failed_final_def
      pg_mark_outcome_unknown_def pg_resolve_def transition_simps intro!: pg_update_evolves rows_again)

lemma pg_start_claimed:
  assumes "pg_start others k b t s = (Inr (Claimed x), s')"
  shows "(\<exists>r. map_of s k = Some r \<and> row_status r = Prepared \<and> row_binding_hash r = b \<and> x = record_of_row (start_row t r)) \<and>
    map_option record_of_row (map_of s' k) = Some x \<and> xo_status x = InProgress"
  using assms
  by (auto simp: pg_start_def pg_update_def operation_from_row_def check_operation_def update_conv'
      split: if_splits option.splits sum.splits prod.splits)

lemma pg_start_existing:
  assumes "pg_start others k b t s = (Inr (Existing x), s')"
  shows "map_option record_of_row (map_of (others s) k) = Some x \<and> xo_binding_hash x = b \<and> xo_status x \<noteq> Prepared \<and> s' = others s"
  using assms
  by (auto simp: pg_start_def pg_operation_Inr split: if_splits option.splits sum.splits prod.splits)
    (auto simp: pg_update_def split: if_splits option.splits)

interpretation pg_journal: operation_journal "pg_journal_step H" "\<lambda>s k. map_option record_of_row (map_of s k)" table_sound
proof
  fix s s' :: op_table and c k b t x
  show "table_sound s \<Longrightarrow> table_sound (snd (pg_journal_step H c s))" by (rule pg_journal_sound)
  show "table_sound s \<Longrightarrow> evolves (map_option record_of_row (map_of s k))
      (map_option record_of_row (map_of (snd (pg_journal_step H c s)) k))" by (rule pg_journal_evolves)
  show "pg_journal_step H (StartCall k b t) s = (Inr (StartResult (Claimed x)), s') \<Longrightarrow>
      (\<exists>y. map_option record_of_row (map_of s k) = Some y \<and> xo_status y = Prepared \<and> xo_binding_hash y = b) \<and>
      map_option record_of_row (map_of s' k) = Some x \<and> xo_status x = InProgress"
    by (auto simp: bind_io_Inr dest!: pg_start_claimed)
  show "pg_journal_step H (StartCall k b t) s = (Inr (StartResult (Existing x)), s') \<Longrightarrow>
      map_option record_of_row (map_of s k) = Some x \<and> xo_binding_hash x = b"
    by (auto simp: bind_io_Inr dest!: pg_start_existing)
qed


subsection \<open>The two journals give the same answers\<close>

text \<open>Equal results, or a refusal of both, which may differ in its message.\<close>

definition same_answer :: "(error + 'a) \<Rightarrow> (error + 'a) \<Rightarrow> bool" where
  "same_answer x y \<longleftrightarrow> (case (x, y) of (Inr a, Inr b) \<Rightarrow> a = b | (Inl _, Inl _) \<Rightarrow> True | _ \<Rightarrow> False)"

fun call_instant :: "journal_call \<Rightarrow> int" where
  "call_instant (PrepareCall i) = po_prepared_at i"
| "call_instant (StartCall k b t) = t"
| "call_instant (SucceedCall k b r t) = t"
| "call_instant (FailCall k b c t) = t"
| "call_instant (UnknownCall k b c t) = t"
| "call_instant (ResolveCall i) = rs_resolved_at i"

definition table_ok :: "op_table \<Rightarrow> bool" where
  "table_ok s \<longleftrightarrow> table_sound s \<and> (\<forall>k r. map_of s k = Some r \<longrightarrow> operation_ok (record_of_row r))"

lemma four_digit_instants: "four_digit_years t \<Longrightarrow> date_ok t \<and> pg_instant t"
  by (auto simp: four_digit_years_def date_ok_def pg_instant_def abs_le_iff)

lemma record_ok:
  "operation_ok (record_of_row r) \<Longrightarrow> four_digit_years t \<Longrightarrow> operation_ok (record_of_row (start_row t r))"
  "operation_ok (record_of_row r) \<Longrightarrow> four_digit_years t \<Longrightarrow> len_between 1 512 ref \<Longrightarrow>
    operation_ok (record_of_row (succeed_row ref t r))"
  "operation_ok (record_of_row r) \<Longrightarrow> four_digit_years t \<Longrightarrow> len_between 1 128 code \<Longrightarrow>
    operation_ok (record_of_row (fail_row code t r))"
  "operation_ok (record_of_row r) \<Longrightarrow> four_digit_years t \<Longrightarrow> len_between 1 128 code \<Longrightarrow>
    operation_ok (record_of_row (unknown_row code t r))"
  "operation_ok (record_of_row r) \<Longrightarrow> resolution_input_ok i \<Longrightarrow> four_digit_years (rs_resolved_at i) \<Longrightarrow>
    operation_ok (record_of_row (resolve_row i r))"
  by (auto simp: operation_ok_def record_of_row_def start_row_def succeed_row_def fail_row_def unknown_row_def resolve_row_def
      resolution_input_ok_def timestamp_ok_iso_text opt_ok_def split: option.splits)

lemma record_ok_prepared:
  "sha_ok H \<Longrightarrow> prepare_input_ok i \<Longrightarrow> four_digit_years (po_prepared_at i) \<Longrightarrow> operation_ok (prepared_operation H i)"
  by (simp add: operation_ok_def prepared_operation_def prepare_input_ok_def operation_id_def hash_canonical_hash_ok
      timestamp_ok_iso_text opt_ok_def)

text \<open>One conditional statement against the mutator that checks, changes and validates.\<close>

definition mem_mutate :: "string \<Rightarrow> string \<Rightarrow> string \<Rightarrow> (operation \<Rightarrow> bool) \<Rightarrow> (operation \<Rightarrow> bool) \<Rightarrow> (operation \<Rightarrow> operation) \<Rightarrow>
    (error, journal, operation) io" where
  "mem_mutate m k b again P f s =
     (case assert_mutation (map_of s k) b of
        Inl e \<Rightarrow> (Inl e, s)
      | Inr x \<Rightarrow>
          if again x then (Inr x, s)
          else if \<not> P x then (Inl (reconciliation_error m), s)
          else store_validated k (f x) s)"

definition agree :: "(error + 'a) \<times> op_table \<Rightarrow> (error + 'a) \<times> journal \<Rightarrow> bool" where
  "agree x y \<longleftrightarrow> same_answer (fst x) (fst y) \<and> snd y = journal_of (snd x) \<and> table_ok (snd x)"

lemma agree_Inl: "table_ok s \<Longrightarrow> agree (Inl e, s) (Inl e', journal_of s)"
  by (simp add: agree_def same_answer_def)

lemma table_ok_update:
  "table_ok s \<Longrightarrow> row_sound k r \<Longrightarrow> operation_ok (record_of_row r) \<Longrightarrow> table_ok (AList.update k r s)"
  by (simp add: table_ok_def table_sound_update) (simp add: update_conv')

lemma update_agrees:
  assumes s: "table_ok s"
    and f: "\<And>r. row_sound k r \<Longrightarrow> operation_ok (record_of_row r) \<Longrightarrow> P r \<Longrightarrow>
      row_sound k (f r) \<and> operation_ok (record_of_row (f r)) \<and> (again (record_of_row r) \<longrightarrow> f r = r) \<and>
      (\<not> again (record_of_row r) \<longrightarrow> Q (record_of_row r) \<and> g (record_of_row r) = record_of_row (f r))"
    and P: "\<And>r. again (record_of_row r) \<or> Q (record_of_row r) \<Longrightarrow> P r"
  shows "agree (map_prod returned_operation id (pg_update k b P f s)) (mem_mutate m k b again Q g (journal_of s))"
proof (cases "\<exists>r. map_of s k = Some r \<and> row_binding_hash r = b \<and> P r")
  case False
  then show ?thesis using s P
    by (auto simp: pg_update_def mem_mutate_def assert_mutation_def map_of_journal_of agree_def same_answer_def returned_operation_def
        split: option.split)
next
  case True
  then obtain r where r: "map_of s k = Some r" "row_binding_hash r = b" "P r" by blast
  have ok: "row_sound k r" "operation_ok (record_of_row r)" using s r(1) by (simp_all add: table_ok_def table_sound_def)
  note fr = f [OF ok \<open>P r\<close>]
  have same: "AList.update k r s = s" if "f r = r"
    using r(1) by (induction s) (auto split: if_splits)
  show ?thesis
  proof (cases "again (record_of_row r)")
    case True
    then show ?thesis using fr r s ok same
      by (simp add: pg_update_def mem_mutate_def assert_mutation_def store_validated_def map_of_journal_of agree_def same_answer_def returned_operation_def
          operation_from_row_def check_operation_def)
  next
    case False
    then show ?thesis using fr r s ok
      by (simp add: pg_update_def mem_mutate_def assert_mutation_def store_validated_def map_of_journal_of agree_def same_answer_def returned_operation_def
          operation_from_row_def check_operation_def journal_of_update table_ok_update)
  qed
qed


lemma marks_are_mutations:
  "hash_ok k \<Longrightarrow> hash_ok b \<Longrightarrow> len_between 1 512 ref \<Longrightarrow> date_ok t \<Longrightarrow> mem_mark_succeeded k b ref t =
    mem_mutate ''Only an in-progress operation can succeed normally'' k b
      (\<lambda>x. xo_status x = Succeeded \<and> xo_outcome_reference x = Some ref) (\<lambda>x. xo_status x = InProgress)
      (\<lambda>x. x\<lparr>xo_status := Succeeded, xo_outcome_reference := Some ref, xo_resolved_at := Some (iso_text t), xo_updated_at := iso_text t\<rparr>)"
  "hash_ok k \<Longrightarrow> hash_ok b \<Longrightarrow> len_between 1 128 code \<Longrightarrow> date_ok t \<Longrightarrow> mem_mark_failed_final k b code t =
    mem_mutate ''Only an in-progress operation can fail finally without reconciliation'' k b
      (\<lambda>x. xo_status x = FailedFinal \<and> xo_last_error x = Some code) (\<lambda>x. xo_status x = InProgress)
      (\<lambda>x. x\<lparr>xo_status := FailedFinal, xo_last_error := Some code, xo_resolved_at := Some (iso_text t), xo_updated_at := iso_text t\<rparr>)"
  "hash_ok k \<Longrightarrow> hash_ok b \<Longrightarrow> len_between 1 128 code \<Longrightarrow> date_ok t \<Longrightarrow> mem_mark_outcome_unknown k b code t =
    mem_mutate ''Only an in-progress operation can become outcome-unknown'' k b
      (\<lambda>x. xo_status x = OutcomeUnknown) (\<lambda>x. xo_status x = InProgress)
      (\<lambda>x. x\<lparr>xo_status := OutcomeUnknown, xo_last_error := Some code, xo_updated_at := iso_text t\<rparr>)"
  "resolution_input_ok i \<Longrightarrow> mem_resolve i =
    mem_mutate ''Only an unresolved operation can receive an authoritative resolution'' (rs_operation_id i) (rs_binding_hash i)
      (\<lambda>x. False) (\<lambda>x. xo_status x = OutcomeUnknown \<or> xo_status x = InProgress) (resolved_operation i)"
  by (auto simp: fun_eq_iff mem_mutate_def mem_mark_succeeded_def mem_mark_failed_final_def mem_mark_outcome_unknown_def
      mem_resolve_def split: sum.split)

text \<open>On an operation in progress a report has the same effect on the row as on the record.\<close>

lemma record_marks:
  assumes "row_sound k r" "row_status r = InProgress"
  shows "record_of_row (succeed_row ref t r) = record_of_row r\<lparr>xo_status := Succeeded, xo_outcome_reference := Some ref,
      xo_resolved_at := Some (iso_text t), xo_updated_at := iso_text t\<rparr>"
    and "record_of_row (fail_row code t r) = record_of_row r\<lparr>xo_status := FailedFinal, xo_last_error := Some code,
      xo_resolved_at := Some (iso_text t), xo_updated_at := iso_text t\<rparr>"
    and "record_of_row (unknown_row code t r) = record_of_row r\<lparr>xo_status := OutcomeUnknown, xo_last_error := Some code,
      xo_updated_at := iso_text t\<rparr>"
  using assms by (simp_all add: record_of_row_def succeed_row_def fail_row_def unknown_row_def row_sound_def)

lemma marks_agree:
  assumes "table_ok s" "four_digit_years t"
  shows "agree (pg_mark_succeeded k b ref t s) (mem_mark_succeeded k b ref t (journal_of s))"
    and "agree (pg_mark_failed_final k b code t s) (mem_mark_failed_final k b code t (journal_of s))"
    and "agree (pg_mark_outcome_unknown k b code t s) (mem_mark_outcome_unknown k b code t (journal_of s))"
proof -
  note t = four_digit_instants [OF assms(2)]
  show "agree (pg_mark_succeeded k b ref t s) (mem_mark_succeeded k b ref t (journal_of s))"
  proof (cases "hash_ok k \<and> hash_ok b \<and> len_between 1 512 ref")
    case True
    then show ?thesis using t assms
      by (auto simp: pg_mark_succeeded_def marks_are_mutations record_ok record_marks [symmetric] new_row_sound rows_again intro!: update_agrees)
  qed (use assms(1) in \<open>auto simp: pg_mark_succeeded_def mem_mark_succeeded_def agree_Inl\<close>)
  show "agree (pg_mark_failed_final k b code t s) (mem_mark_failed_final k b code t (journal_of s))"
  proof (cases "hash_ok k \<and> hash_ok b \<and> len_between 1 128 code")
    case True
    then show ?thesis using t assms
      by (auto simp: pg_mark_failed_final_def marks_are_mutations record_ok record_marks [symmetric] new_row_sound rows_again intro!: update_agrees)
  qed (use assms(1) in \<open>auto simp: pg_mark_failed_final_def mem_mark_failed_final_def agree_Inl\<close>)
  show "agree (pg_mark_outcome_unknown k b code t s) (mem_mark_outcome_unknown k b code t (journal_of s))"
  proof (cases "hash_ok k \<and> hash_ok b \<and> len_between 1 128 code")
    case True
    then show ?thesis using t assms
      by (auto simp: pg_mark_outcome_unknown_def marks_are_mutations record_ok record_marks [symmetric] new_row_sound rows_again intro!: update_agrees)
  qed (use assms(1) in \<open>auto simp: pg_mark_outcome_unknown_def mem_mark_outcome_unknown_def agree_Inl\<close>)
qed

lemma resolve_agrees:
  assumes "table_ok s" "four_digit_years (rs_resolved_at i)"
  shows "agree (pg_resolve i s) (mem_resolve i (journal_of s))"
proof (cases "resolution_input_ok i")
  case True
  then show ?thesis using four_digit_instants [OF assms(2)] assms
    by (auto simp: pg_resolve_def marks_are_mutations record_ok record_resolve [symmetric] new_row_sound intro!: update_agrees)
qed (use assms(1) in \<open>simp add: pg_resolve_def mem_resolve_def agree_Inl\<close>)

lemma prepare_agrees:
  assumes "sha_ok H" "table_ok s" "four_digit_years (po_prepared_at i)"
  shows "agree (pg_prepare H i s) (mem_prepare H i (journal_of s))"
proof (cases "prepare_input_ok i")
  case True
  note ok = record_ok_prepared [OF assms(1) True assms(3)] four_digit_instants [OF assms(3)]
  let ?k = "operation_id H (po_rail i) (po_kind i) (po_execution_ref i)"
  have "row_sound ?k (prepared_row H i)" by (simp add: row_sound_def prepared_row_def final_def)
  then have "table_ok (AList.update ?k (prepared_row H i) s)" using ok assms(2) by (simp add: table_ok_update record_prepared)
  with True ok assms(2) show ?thesis
    by (auto simp: pg_prepare_def mem_prepare_def Let_def map_of_journal_of agree_def same_answer_def returned_operation_def
        operation_from_row_def check_operation_def record_prepared row_identity_record journal_of_update table_ok_def
        split: option.split)
qed (use assms(2) in \<open>simp add: pg_prepare_def mem_prepare_def agree_Inl\<close>)

lemma start_agrees:
  assumes "table_ok s" "four_digit_years t"
  shows "agree (pg_start (\<lambda>s. s) k b t s) (mem_start k b t (journal_of s))"
proof (cases "hash_ok k \<and> hash_ok b")
  case True
  note t = four_digit_instants [OF assms(2)]
  show ?thesis
  proof (cases "map_of s k")
    case None
    then show ?thesis using True t assms(1)
      by (simp add: pg_start_def pg_update_def mem_start_def map_of_journal_of pg_operation_def agree_def same_answer_def)
  next
    case (Some r)
    have ok: "row_sound k r" "operation_ok (record_of_row r)" using assms(1) Some by (simp_all add: table_ok_def table_sound_def)
    then have "row_status r = Prepared \<Longrightarrow> table_ok (AList.update k (start_row t r) s)"
      by (simp add: table_ok_update assms new_row_sound record_ok)
    then show ?thesis using Some True t assms ok record_ok(1) [OF ok(2) assms(2)]
      by (auto simp: pg_start_def pg_update_def mem_start_def map_of_journal_of pg_operation_def agree_def same_answer_def
          operation_from_row_def check_operation_def record_start journal_of_update)
  qed
qed (use assms(1) in \<open>auto simp: pg_start_def mem_start_def agree_Inl\<close>)

lemma agree_bind: "agree (m s) (m' s') \<Longrightarrow> agree (bind_io m (\<lambda>x. ret (f x)) s) (bind_io m' (\<lambda>x. ret (f x)) s')"
  by (cases "m s"; cases "m' s'") (auto simp: agree_def same_answer_def bind_io_apply ret_def split: sum.splits)

lemma pg_journal_step_agrees:
  assumes "sha_ok H" "table_ok s" "four_digit_years (call_instant c)"
  shows "agree (pg_journal_step H c s) (mem_journal_step H c (journal_of s))"
  using assms by (cases c) (simp_all add: agree_bind prepare_agrees start_agrees marks_agree resolve_agrees)

lemma pg_journal_agrees:
  assumes "sha_ok H" "table_ok s" "\<And>c. c \<in> set cs \<Longrightarrow> four_digit_years (call_instant c)"
  shows "list_all2 same_answer (fst (run_ops (pg_journal_step H) cs s)) (fst (run_ops (mem_journal_step H) cs (journal_of s))) \<and>
    snd (run_ops (mem_journal_step H) cs (journal_of s)) = journal_of (snd (run_ops (pg_journal_step H) cs s))"
  using assms(2,3)
proof (induction cs arbitrary: s)
  case (Cons c cs)
  have "agree (pg_journal_step H c s) (mem_journal_step H c (journal_of s))"
    using Cons.prems assms(1) by (simp add: pg_journal_step_agrees)
  then obtain r r' s1 where s1: "pg_journal_step H c s = (r, s1)" "mem_journal_step H c (journal_of s) = (r', journal_of s1)"
    "same_answer r r'" "table_ok s1"
    by (cases "pg_journal_step H c s"; cases "mem_journal_step H c (journal_of s)") (auto simp: agree_def)
  from Cons.IH [OF s1(4)] Cons.prems(2) s1(1-3) show ?case by (simp split: prod.split) fastforce
qed simp

end
