(* ===== verification/StoreSamples.thy ===== *)
theory StoreSamples
  imports Samples PgReconciliation
begin

section \<open>Concrete data for the durable stores\<close>

text \<open>A table with one saved decision, a consumption of it and its spend, over the reference host;
  a journal call and its instants.\<close>

definition sample_tables :: pg_tables where
  "sample_tables = empty_tables\<lparr>pg_decisions := [''decision-1'' \<mapsto> (sample_unsigned, sample_action)]\<rparr>"

definition sample_row_consumption :: consumption where
  "sample_row_consumption = \<lparr>nc_decision_id = ''decision-1'', nc_nonce = ''bm9uY2U'', nc_action_hash = sample_hash,
     nc_execution_ref = ''run-1'', nc_expires_at = sample_now + 60000, nc_consumed_at = sample_now\<rparr>"

definition sample_spend :: spend where
  "sample_spend = \<lparr>sp_principal = ''org-1'', sp_day = ''2023-11-14'', sp_amount = ''12.50''\<rparr>"

lemma sample_pg_decimal [simp]:
  "pg_decimal ref_host ''12.50'' what = Inr (25 / 2)" "pg_decimal ref_host ''500.00'' what = Inr 500"
  using new_decimal_canonical [OF ref_host_decimal sample_amounts(1) [unfolded canonical_amount_def]]
    new_decimal_canonical [OF ref_host_decimal sample_amounts(3) [unfolded canonical_amount_def]]
  by (simp_all add: pg_decimal_def)

lemma sample_spend_sel [simp]:
  "sp_principal sample_spend = ''org-1''" "sp_day sample_spend = ''2023-11-14''" "sp_amount sample_spend = ''12.50''"
  by (simp_all add: sample_spend_def)

lemma sample_pg_day [simp]: "pg_day_ok ''2023-11-14''"
  by code_simp

lemma sample_tables_consistent:
  "ledger_of sample_tables []" "pg_decisions sample_tables (nc_decision_id sample_row_consumption) \<noteq> None"
  "pg_day_ok (sp_day sample_spend)"
  by (simp_all add: ledger_of_def sample_tables_def empty_tables_def pg_stored_spend_def ledger_spent_def sample_row_consumption_def)

lemma sample_ledger:
  "ledger_consume sample_row_consumption (''org-1'', ''2023-11-14'') (25 / 2) 500 [] =
    (consumed_result sample_row_consumption Consumed sample_now, [(sample_row_consumption, (''org-1'', ''2023-11-14''), 25 / 2)])"
  by (simp add: ledger_consume_def sample_row_consumption_def conflicting_row_def ledger_spent_def)

end
