(* ===== verification/Http.thy ===== *)
theory Http
  imports Verifier
begin

section \<open>HTTP services and the managed signer\<close>

text \<open>
  What the clients of remote services share: the check of a service URL, the reply of \<open>fetch\<close>, and
  reading optional JSON properties. Then \<open>managed-signing/src/remote-signer.ts\<close> and
  \<open>registry.ts\<close>, and \<open>fetchExplicitKeyRegistry\<close> of \<open>decision-verifier/src/io.ts\<close>. The URL parser of
  the platform and the services behind \<open>fetch\<close> are parameters: nothing is assumed of what they answer.
  Lemmas: whatever the signing service replies, the managed signer keeps the contract of a signing
  provider; a signer accepted against a registry has the key under which its decisions verify.
\<close>

subsection \<open>Service URLs and replies\<close>

record url_parts =
  ur_protocol :: string
  ur_hostname :: string
  ur_username :: string
  ur_password :: string

type_synonym url_parser = "string \<Rightarrow> url_parts option"

definition loopback_hosts :: "string list" where
  "loopback_hosts = [''127.0.0.1'', ''localhost'', ''::1'', ''[::1]'']"

text \<open>The checks of the constructors: \<open>name\<close> starts their messages.\<close>

definition service_url :: "url_parser \<Rightarrow> string \<Rightarrow> string \<Rightarrow> error + url_parts" where
  "service_url parse_url name url =
     (case parse_url url of
        None \<Rightarrow> Inl (JsError ''TypeError'' ''Invalid URL'')
      | Some u \<Rightarrow>
          if ur_protocol u \<noteq> ''https:'' \<and> \<not> (ur_protocol u = ''http:'' \<and> ur_hostname u \<in> set loopback_hosts)
          then Inl (JsError ''TypeError'' (name @ '' must use HTTPS except for a loopback development URL''))
          else if ur_username u \<noteq> [] \<or> ur_password u \<noteq> []
          then Inl (JsError ''TypeError'' (name @ '' must not contain credentials''))
          else Inr u)"

text \<open>\<open>Unreachable\<close>: \<open>fetch\<close> has thrown, also on a redirect or a time-out. A body that is not JSON is \<open>None\<close>.\<close>

datatype reply = Unreachable | Reply int "json option"

definition reply_ok :: "int \<Rightarrow> bool" where
  "reply_ok status \<longleftrightarrow> 200 \<le> status \<and> status \<le> 299"

definition status_text :: "int \<Rightarrow> string" where
  "status_text n = (if n < 0 then CHR ''-'' # nat_string (nat (- n)) else nat_string (nat n))"

text \<open>\<open>z.string().optional()\<close> and \<open>z.string().nullable().optional()\<close>.\<close>

definition get_opt_str :: "(string \<times> json) list \<Rightarrow> string \<Rightarrow> string option option" where
  "get_opt_str ob k = (case map_of ob k of None \<Rightarrow> Some None | Some (JStr s) \<Rightarrow> Some (Some s) | Some _ \<Rightarrow> None)"

definition get_nullish_str :: "(string \<times> json) list \<Rightarrow> string \<Rightarrow> string option option" where
  "get_nullish_str ob k =
     (case map_of ob k of None \<Rightarrow> Some None | Some JNull \<Rightarrow> Some None | Some (JStr s) \<Rightarrow> Some (Some s) | Some _ \<Rightarrow> None)"

definition get_nullish_bool :: "(string \<times> json) list \<Rightarrow> string \<Rightarrow> bool option option" where
  "get_nullish_bool ob k =
     (case map_of ob k of None \<Rightarrow> Some None | Some JNull \<Rightarrow> Some None | Some (JBool b) \<Rightarrow> Some (Some b) | Some _ \<Rightarrow> None)"

lemma service_url_secure:
  assumes "service_url P name url = Inr u"
  shows "P url = Some u \<and> (ur_protocol u = ''https:'' \<or> ur_hostname u \<in> set loopback_hosts) \<and>
    ur_username u = [] \<and> ur_password u = []"
  using assms by (auto simp: service_url_def split: option.splits if_splits)

subsection \<open>The remote Ed25519 signer\<close>

text \<open>The fields of a constructed \<open>RemoteEd25519SigningProvider\<close>, with the service its \<open>fetch\<close> reaches.\<close>

record remote_signer =
  rm_endpoint :: url_parts
  rm_key_id :: string
  rm_public_key :: bytes
  rm_max_payload :: int
  rm_service :: "json \<Rightarrow> reply"

definition max_safe_integer :: int where
  "max_safe_integer = 9007199254740991"

definition positive_limit :: "int option \<Rightarrow> int \<Rightarrow> bool" where
  "positive_limit x d \<longleftrightarrow> (let n = (case x of None \<Rightarrow> d | Some m \<Rightarrow> m) in 0 < n \<and> n \<le> max_safe_integer)"

text \<open>\<open>trim\<close> of a token: white space of the code units below 256.\<close>

definition js_space :: "char \<Rightarrow> bool" where
  "js_space c \<longleftrightarrow> (let n = of_char c :: nat in n \<in> {9, 10, 11, 12, 13, 32, 160})"

definition blank :: "string \<Rightarrow> bool" where
  "blank s \<longleftrightarrow> list_all js_space s"

definition new_remote_signer ::
  "url_parser \<Rightarrow> string \<Rightarrow> string \<Rightarrow> string \<Rightarrow> string \<Rightarrow> int option \<Rightarrow> int option \<Rightarrow> (json \<Rightarrow> reply) \<Rightarrow> error + remote_signer" where
  "new_remote_signer P endpoint token kid key timeout max_payload service =
     bind_sum (service_url P ''Managed signer URL'' endpoint) (\<lambda>u.
     if \<not> (identifier_ok kid \<and> base64url key) then Inl ZodError
     else if length (b64url_decode key) \<noteq> 32
     then Inl (JsError ''TypeError'' ''Managed signer public key must decode to 32 bytes'')
     else if blank token then Inl (JsError ''TypeError'' ''Managed signer bearer token must not be empty'')
     else if \<not> positive_limit timeout 10000
     then Inl (JsError ''TypeError'' ''Managed signer timeout must be a positive integer'')
     else if \<not> positive_limit max_payload 1048576
     then Inl (JsError ''TypeError'' ''Managed signer payload limit must be a positive integer'')
     else Inr \<lparr>rm_endpoint = u, rm_key_id = kid, rm_public_key = b64url_decode key,
       rm_max_payload = (case max_payload of None \<Rightarrow> 1048576 | Some n \<Rightarrow> n), rm_service = service\<rparr>)"

definition managed_signing_error :: "string \<Rightarrow> error" where
  "managed_signing_error m = JsError ''ManagedSigningError'' m"

definition sign_request :: "host \<Rightarrow> remote_signer \<Rightarrow> bytes \<Rightarrow> json" where
  "sign_request H R payload = JObj
     [(''version'', JStr ''inntris-sign-request-v1''), (''alg'', JStr ''Ed25519''), (''key_id'', JStr (rm_key_id R)),
      (''payload_base64url'', JStr (b64url_encode payload)), (''payload_sha256'', JStr (sha256_bytes H payload))]"

text \<open>\<open>SignResponseSchema\<close>: the key identifier and the signature.\<close>

definition parse_sign_response :: "json \<Rightarrow> (string \<times> string) option" where
  "parse_sign_response v = do {
     ob \<leftarrow> strict_obj [''version'', ''alg'', ''key_id'', ''signature''] v;
     get_lit ob ''version'' ''inntris-sign-response-v1''; get_lit ob ''alg'' ''Ed25519'';
     kid \<leftarrow> get_str ob ''key_id''; sig \<leftarrow> get_str ob ''signature'';
     guard_opt (identifier_ok kid \<and> base64url sig) (kid, sig) }"

definition remote_sign :: "host \<Rightarrow> remote_signer \<Rightarrow> bytes \<Rightarrow> error + string" where
  "remote_sign H R payload =
     (if payload = [] \<or> rm_max_payload R < int (length payload)
      then Inl (managed_signing_error ''Signing payload size is outside the configured limit'')
      else case rm_service R (sign_request H R payload) of
        Unreachable \<Rightarrow> Inl (managed_signing_error ''Managed signing service is unavailable'')
      | Reply status body \<Rightarrow>
          if \<not> reply_ok status
          then Inl (managed_signing_error (''Managed signing request failed with HTTP '' @ status_text status))
          else (case body of
            None \<Rightarrow> Inl (managed_signing_error ''Managed signing service returned non-JSON data'')
          | Some v \<Rightarrow>
              (case parse_sign_response v of
                 None \<Rightarrow> Inl (managed_signing_error ''Managed signing service returned an invalid response'')
               | Some (kid, sig) \<Rightarrow>
                   if kid \<noteq> rm_key_id R
                   then Inl (managed_signing_error ''Managed signer returned a different key identity'')
                   else if \<not> verify_ed25519 H payload sig (rm_public_key R)
                   then Inl (managed_signing_error ''Managed signer returned an invalid Ed25519 signature'')
                   else Inr sig)))"

text \<open>The provider as the rest of the program sees it.\<close>

definition remote_signing_provider :: "host \<Rightarrow> remote_signer \<Rightarrow> signer" where
  "remote_signing_provider H R =
     \<lparr>s_key_id = rm_key_id R, s_public_key = rm_public_key R, s_sign = remote_sign H R\<rparr>"

lemma remote_sign_sound:
  "remote_sign H R m = Inr sig \<Longrightarrow> base64url sig \<and> verify_ed25519 H m sig (rm_public_key R)"
  by (auto simp: remote_sign_def parse_sign_response_def guard_opt_def
      split: if_splits reply.splits option.splits bind_splits)

text \<open>Whatever the service answers, its signatures are checked before they are used.\<close>

lemma remote_signer_ok: "signer_ok H (remote_signing_provider H R)"
  by (auto simp: signer_ok_def remote_signing_provider_def dest: remote_sign_sound)

subsection \<open>Registries of managed keys\<close>

definition assert_registered :: "host \<Rightarrow> signer \<Rightarrow> json \<Rightarrow> int \<Rightarrow> error + key_entry list" where
  "assert_registered H sg registry_input tm =
     (case parse_registry registry_input of
        None \<Rightarrow> Inl ZodError
      | Some ks \<Rightarrow>
          (case find (\<lambda>k. k_key_id k = s_key_id sg) ks of
             None \<Rightarrow> Inl (JsError ''Error'' ''Configured signing provider is not an active registry key'')
           | Some k \<Rightarrow>
               if k_status k \<noteq> Active
               then Inl (JsError ''Error'' ''Configured signing provider is not an active registry key'')
               else if tm < time_of (k_not_before k) \<or>
                  (case k_not_after k of None \<Rightarrow> False | Some t \<Rightarrow> time_of t \<le> tm)
               then Inl (JsError ''Error'' ''Configured signing provider is outside its registry validity window'')
               else if k_public_key k \<noteq> b64url_encode (s_public_key sg) \<or>
                  k_fingerprint k \<noteq> public_key_fingerprint H (s_public_key sg)
               then Inl (JsError ''Error'' ''Configured signing provider does not match its registry public key'')
               else Inr ks))"

fun rotation_check :: "key_entry list \<Rightarrow> error + unit" where
  "rotation_check [] = Inr ()"
| "rotation_check (k # ks) =
     (if k_status k = Retired \<and> k_not_after k = None
      then Inl (JsError ''Error'' (''Retired key '' @ k_key_id k @ '' requires not_after''))
      else if (case k_not_after k of None \<Rightarrow> False | Some t \<Rightarrow> time_of t \<le> time_of (k_not_before k))
      then Inl (JsError ''Error'' (''Key '' @ k_key_id k @ '' requires not_after later than not_before''))
      else rotation_check ks)"

definition assert_rotation :: "json \<Rightarrow> error + key_entry list" where
  "assert_rotation registry_input =
     (case parse_registry registry_input of
        None \<Rightarrow> Inl ZodError
      | Some ks \<Rightarrow>
          if \<not> list_ex (\<lambda>k. k_status k = Active) ks
          then Inl (JsError ''Error'' ''Key rotation registry must contain at least one active key'')
          else bind_sum (rotation_check ks) (\<lambda>_. Inr ks))"

text \<open>\<open>fetchExplicitKeyRegistry\<close>.\<close>

definition fetch_key_registry :: "url_parser \<Rightarrow> (string \<Rightarrow> reply) \<Rightarrow> string \<Rightarrow> error + key_entry list" where
  "fetch_key_registry P service url =
     (case P url of
        None \<Rightarrow> Inl (JsError ''TypeError'' ''Invalid URL'')
      | Some u \<Rightarrow>
          if ur_protocol u \<noteq> ''https:'' then Inl (JsError ''Error'' ''Remote key registry URLs must use HTTPS'')
          else (case service url of
            Unreachable \<Rightarrow> Inl (JsError ''TypeError'' ''fetch failed'')
          | Reply status body \<Rightarrow>
              if \<not> reply_ok status
              then Inl (JsError ''Error'' (''Key registry request failed with HTTP '' @ status_text status))
              else (case body of
                None \<Rightarrow> Inl (JsError ''SyntaxError'' [])
              | Some v \<Rightarrow> (case parse_registry v of None \<Rightarrow> Inl ZodError | Some ks \<Rightarrow> Inr ks))))"

lemma registered_key_is_usable:
  assumes "assert_registered H sg registry_input tm = Inr ks" "length (s_public_key sg) = 32"
    and "d_key_id d = s_key_id sg" "time_of (d_issued_at d) = tm"
  shows "find_usable_key H d ks = Some (s_public_key sg)"
  using assms
  by (auto simp: assert_registered_def find_usable_key_def b64url_roundtrip Let_def
      split: option.splits if_splits)

lemma rotation_check_Inr:
  "rotation_check ks = Inr () \<longleftrightarrow>
    (\<forall>k \<in> set ks. (k_status k = Retired \<longrightarrow> k_not_after k \<noteq> None) \<and>
      (\<forall>t. k_not_after k = Some t \<longrightarrow> time_of (k_not_before k) < time_of t))"
  by (induction ks) (auto split: option.splits)

end
