(* ===== verification/RemoteProvider.thy ===== *)
theory RemoteProvider
  imports Http Stores
begin

section \<open>The remote decision provider\<close>

text \<open>
  \<open>x402-adapter/src/remote-provider.ts\<close>: a \<open>DecisionProvider\<close> that asks a remote service and trusts
  none of its replies: each is parsed by a strict schema, compared with the request, and a decision is
  verified with the configured key registry before it is returned. The service is a stateful
  parameter. Lemmas: every returned decision verifies for the action asked about, every superseding
  decision refers to the resolved one and is signed by a registered key, and a successful
  consumption is one of the two successful statuses for this decision and execution.
\<close>

subsection \<open>The provider\<close>

record 's remote_provider =
  rp_key_registry :: json
  rp_policy_version :: "string option"
  rp_post :: "string \<Rightarrow> json \<Rightarrow> 's \<Rightarrow> reply \<times> 's"

definition remote_error :: "string \<Rightarrow> error" where
  "remote_error m = JsError ''RemoteInntrisDecisionProviderError'' m"

definition new_remote_provider ::
  "url_parser \<Rightarrow> string \<Rightarrow> string \<Rightarrow> json \<Rightarrow> string option \<Rightarrow> (string \<Rightarrow> json \<Rightarrow> 's \<Rightarrow> reply \<times> 's) \<Rightarrow> error + 's remote_provider" where
  "new_remote_provider P url key registry version post =
     bind_sum (service_url P ''INNTRIS_API_URL'' url) (\<lambda>_.
     if key = [] then Inl (JsError ''TypeError'' ''INNTRIS_API_KEY must not be empty'')
     else if parse_registry registry = None then Inl ZodError
     else Inr \<lparr>rp_key_registry = registry, rp_policy_version = version, rp_post = post\<rparr>)"

text \<open>\<open>#post\<close>; a body that is not JSON makes \<open>response.json()\<close> throw.\<close>

definition remote_post :: "'s remote_provider \<Rightarrow> string \<Rightarrow> json \<Rightarrow> int list \<Rightarrow> (error, 's, json) io" where
  "remote_post R path body accepted s =
     (case rp_post R path body s of
        (Unreachable, s') \<Rightarrow> (Inl (remote_error ''Remote Inntris service is unavailable''), s')
      | (Reply status v, s') \<Rightarrow>
          if \<not> reply_ok status \<and> status \<notin> set accepted
          then (Inl (remote_error (''Remote Inntris request failed with HTTP '' @ status_text status)), s')
          else (case v of None \<Rightarrow> (Inl (JsError ''SyntaxError'' []), s') | Some j \<Rightarrow> (Inr j, s')))"

subsection \<open>Reply schemas\<close>

fun consume_status_string :: "consume_status \<Rightarrow> string" where
  "consume_status_string Consumed = ''consumed''"
| "consume_status_string Idempotent = ''idempotent''"
| "consume_status_string Conflict = ''conflict''"
| "consume_status_string Rejected = ''rejected''"

fun resolve_status_string :: "resolve_status \<Rightarrow> string" where
  "resolve_status_string Superseded = ''superseded''"
| "resolve_status_string ResolveConflict = ''conflict''"
| "resolve_status_string ResolveRejected = ''rejected''"

definition get_opt_reason :: "(string \<times> json) list \<Rightarrow> string \<Rightarrow> reason_code option option" where
  "get_opt_reason ob k =
     (case map_of ob k of
        None \<Rightarrow> Some None
      | Some (JStr s) \<Rightarrow> (case enum_read reason_string all_reasons s of None \<Rightarrow> None | Some r \<Rightarrow> Some (Some r))
      | Some _ \<Rightarrow> None)"

definition consume_reply_ok :: "consume_result \<Rightarrow> bool" where
  "consume_reply_ok r \<longleftrightarrow>
     cr_success r = (cr_status r = Consumed \<or> cr_status r = Idempotent) \<and> (cr_success r \<or> cr_reason r \<noteq> None)"

definition read_bool :: "(string \<times> json) list \<Rightarrow> string \<Rightarrow> bool option" where
  "read_bool ob k = (case map_of ob k of Some (JBool b) \<Rightarrow> Some b | _ \<Rightarrow> None)"

text \<open>\<open>ConsumeResultSchema\<close>.\<close>

definition parse_consume_reply :: "json \<Rightarrow> consume_result option" where
  "parse_consume_reply v = do {
     ob \<leftarrow> strict_obj [''success'', ''status'', ''decision_id'', ''execution_ref'', ''consumed_at'', ''reason_code''] v;
     b \<leftarrow> read_bool ob ''success''; ss \<leftarrow> get_str ob ''status'';
     st \<leftarrow> enum_read consume_status_string [Consumed, Idempotent, Conflict, Rejected] ss;
     i \<leftarrow> get_str ob ''decision_id''; ref \<leftarrow> get_str ob ''execution_ref''; t \<leftarrow> get_opt_str ob ''consumed_at'';
     rc \<leftarrow> get_opt_reason ob ''reason_code'';
     let r = \<lparr>cr_success = b, cr_status = st, cr_decision_id = i, cr_execution_ref = ref, cr_consumed_at = t, cr_reason = rc\<rparr>;
     guard_opt (consume_reply_ok r) r }"

definition get_opt_decision :: "host \<Rightarrow> (string \<times> json) list \<Rightarrow> string \<Rightarrow> decision option option" where
  "get_opt_decision H ob k =
     (case map_of ob k of
        None \<Rightarrow> Some None
      | Some v \<Rightarrow> (case parse_decision H v of None \<Rightarrow> None | Some d \<Rightarrow> Some (Some d)))"

definition resolve_reply_ok :: "resolve_result \<Rightarrow> bool" where
  "resolve_reply_ok r \<longleftrightarrow>
     rr_success r = (rr_status r = Superseded) \<and> (rr_success r \<longrightarrow> rr_decision r \<noteq> None) \<and>
     (rr_success r \<or> rr_reason r \<noteq> None)"

text \<open>\<open>ResolveApprovalResultSchema\<close>.\<close>

definition parse_resolve_reply :: "host \<Rightarrow> json \<Rightarrow> resolve_result option" where
  "parse_resolve_reply H v = do {
     ob \<leftarrow> strict_obj [''success'', ''status'', ''decision_id'', ''decision'', ''reason_code''] v;
     b \<leftarrow> read_bool ob ''success''; ss \<leftarrow> get_str ob ''status'';
     st \<leftarrow> enum_read resolve_status_string [Superseded, ResolveConflict, ResolveRejected] ss;
     i \<leftarrow> get_str ob ''decision_id''; d \<leftarrow> get_opt_decision H ob ''decision''; rc \<leftarrow> get_opt_reason ob ''reason_code'';
     let r = \<lparr>rr_success = b, rr_status = st, rr_decision_id = i, rr_decision = d, rr_reason = rc\<rparr>;
     guard_opt (resolve_reply_ok r) r }"

subsection \<open>The calls\<close>

definition reason_list :: "reason_code list \<Rightarrow> string" where
  "reason_list rs = join_with '','' (map reason_string rs)"

definition remote_evaluate :: "host \<Rightarrow> 's remote_provider \<Rightarrow> int \<Rightarrow> action \<Rightarrow> (error, 's, decision) io" where
  "remote_evaluate H R now a =
     bind_io (remote_post R ''/v1/decisions/evaluate'' (JObj [(''action'', action_json a)]) []) (\<lambda>v.
     case Option.bind (strict_obj [''decision''] v) (\<lambda>ob. Option.bind (map_of ob ''decision'') (parse_decision H)) of
       None \<Rightarrow> throw ZodError
     | Some d \<Rightarrow>
         let r = verify_decision H \<lparr>vi_decision = decision_json d, vi_action = action_json a, vi_registry = rp_key_registry R,
                   vi_at = now, vi_policy_version = rp_policy_version R, vi_requirements_hash = None\<rparr>
         in if \<not> vr_valid r
            then throw (remote_error (''Remote decision verification failed: '' @ reason_list (vr_reasons r)))
            else ret d)"

definition resolve_request_json :: "resolve_input \<Rightarrow> json" where
  "resolve_request_json i = JObj
     [(''decision_id'', JStr (ri_decision_id i)), (''granted'', JBool (ri_granted i)),
      (''approval_reference'', JStr (ri_approval_reference i)), (''approver_ids'', JArr (map JStr (ri_approver_ids i)))]"

text \<open>What \<open>resolveApproval\<close> and \<open>consume\<close> check of a parsed reply.\<close>

definition check_resolve_reply :: "host \<Rightarrow> json \<Rightarrow> resolve_input \<Rightarrow> resolve_result \<Rightarrow> error + resolve_result" where
  "check_resolve_reply H registry i r =
     (if rr_decision_id r \<noteq> ri_decision_id i
      then Inl (remote_error ''Remote approval response does not match the request'')
      else case rr_decision r of
        None \<Rightarrow> Inr r
      | Some d \<Rightarrow>
          if d_supersedes d \<noteq> Some (ri_decision_id i)
          then Inl (remote_error ''The superseding decision does not reference the approved decision'')
          else let e = verify_signed_decision H (decision_json d) registry
            in if \<not> en_valid e
               then Inl (remote_error (''Superseding decision verification failed: '' @ reason_list (en_reasons e)))
               else Inr r)"

definition check_consume_reply :: "consume_input \<Rightarrow> consume_result \<Rightarrow> error + consume_result" where
  "check_consume_reply i r =
     (if cr_decision_id r \<noteq> co_decision_id i \<or> cr_execution_ref r \<noteq> co_execution_ref i
      then Inl (remote_error ''Remote consumption response does not match the request'') else Inr r)"

definition remote_resolve :: "host \<Rightarrow> 's remote_provider \<Rightarrow> resolve_input \<Rightarrow> (error, 's, resolve_result) io" where
  "remote_resolve H R i =
     bind_io (remote_post R ''/v1/decisions/approve'' (resolve_request_json i) [409, 422]) (\<lambda>v.
     case parse_resolve_reply H v of
       None \<Rightarrow> throw ZodError
     | Some r \<Rightarrow> lift_io (check_resolve_reply H (rp_key_registry R) i r))"

definition consume_request_json :: "consume_input \<Rightarrow> json" where
  "consume_request_json i = JObj
     [(''decision_id'', JStr (co_decision_id i)), (''action_hash'', JStr (co_action_hash i)),
      (''execution_ref'', JStr (co_execution_ref i))]"

definition remote_consume :: "'s remote_provider \<Rightarrow> consume_input \<Rightarrow> (error, 's, consume_result) io" where
  "remote_consume R i =
     bind_io (remote_post R ''/v1/decisions/consume'' (consume_request_json i) [409, 422]) (\<lambda>v.
     case parse_consume_reply v of None \<Rightarrow> throw ZodError | Some r \<Rightarrow> lift_io (check_consume_reply i r))"

definition remote_from_environment ::
  "url_parser \<Rightarrow> (string \<Rightarrow> reply) \<Rightarrow> (string \<rightharpoonup> string) \<Rightarrow> (string \<Rightarrow> json \<Rightarrow> 's \<Rightarrow> reply \<times> 's) \<Rightarrow>
    error + 's remote_provider" where
  "remote_from_environment P registry_service env post =
     (case (env ''INNTRIS_API_URL'', env ''INNTRIS_API_KEY'', env ''INNTRIS_KEY_REGISTRY_URL'') of
        (Some url, Some key, Some registry_url) \<Rightarrow>
          bind_sum (fetch_key_registry P registry_service registry_url) (\<lambda>ks.
          new_remote_provider P url key (registry_json ks) (env ''INNTRIS_EXPECTED_POLICY_VERSION'') post)
      | _ \<Rightarrow> Inl (remote_error ''INNTRIS_API_URL, INNTRIS_API_KEY and INNTRIS_KEY_REGISTRY_URL are required''))"

subsection \<open>Nothing the service says is believed without a check\<close>

lemma remote_evaluate_verified:
  assumes "remote_evaluate H R now a s = (Inr d, s')"
  shows "vr_valid (verify_decision H \<lparr>vi_decision = decision_json d, vi_action = action_json a, vi_registry = rp_key_registry R,
      vi_at = now, vi_policy_version = rp_policy_version R, vi_requirements_hash = None\<rparr>)"
  using assms by (auto simp: remote_evaluate_def bind_io_Inr Let_def split: option.splits if_splits)

lemma parse_resolve_reply_ok: "parse_resolve_reply H v = Some r \<Longrightarrow> resolve_reply_ok r"
  by (auto simp only: parse_resolve_reply_def guard_opt_def Let_def Option.bind_eq_Some_conv option.inject split: if_splits)

lemma parse_consume_reply_ok: "parse_consume_reply v = Some r \<Longrightarrow> consume_reply_ok r"
  by (auto simp only: parse_consume_reply_def guard_opt_def Let_def Option.bind_eq_Some_conv option.inject split: if_splits)

lemma check_resolve_reply_Inr:
  "check_resolve_reply H ks i r = Inr q \<Longrightarrow> q = r \<and> rr_decision_id r = ri_decision_id i \<and>
    (\<forall>d. rr_decision r = Some d \<longrightarrow> d_supersedes d = Some (ri_decision_id i) \<and>
       en_valid (verify_signed_decision H (decision_json d) ks))"
  by (simp add: check_resolve_reply_def Let_def split: if_splits option.splits)

lemma check_consume_reply_Inr:
  "check_consume_reply i r = Inr q \<Longrightarrow> q = r \<and> cr_decision_id r = co_decision_id i \<and> cr_execution_ref r = co_execution_ref i"
  by (simp add: check_consume_reply_def split: if_splits)

lemma remote_resolve_checked:
  assumes "remote_resolve H R i s = (Inr r, s')"
  shows "rr_decision_id r = ri_decision_id i \<and> resolve_reply_ok r \<and>
    (\<forall>d. rr_decision r = Some d \<longrightarrow> d_supersedes d = Some (ri_decision_id i) \<and>
       en_valid (verify_signed_decision H (decision_json d) (rp_key_registry R)))"
proof -
  obtain v q where "parse_resolve_reply H v = Some q" "check_resolve_reply H (rp_key_registry R) i q = Inr r"
    using assms unfolding remote_resolve_def bind_io_Inr by (auto split: option.splits)
  then show ?thesis using check_resolve_reply_Inr [of H "rp_key_registry R" i q r] parse_resolve_reply_ok [of H v q] by simp
qed

lemma remote_consume_checked:
  assumes "remote_consume R i s = (Inr r, s')"
  shows "cr_decision_id r = co_decision_id i \<and> cr_execution_ref r = co_execution_ref i \<and>
    (cr_success r \<longleftrightarrow> cr_status r \<in> {Consumed, Idempotent}) \<and> (cr_success r \<or> cr_reason r \<noteq> None)"
proof -
  obtain v q where "parse_consume_reply v = Some q" "check_consume_reply i q = Inr r"
    using assms unfolding remote_consume_def bind_io_Inr by (auto split: option.splits)
  then show ?thesis using check_consume_reply_Inr [of i q r] parse_consume_reply_ok [of v q] by (auto simp: consume_reply_ok_def)
qed

end
