(* ===== verification/Mtp.thy ===== *)
theory Mtp
  imports RemoteProvider
begin

section \<open>The MTP authority client\<close>

text \<open>
  \<open>mtp-authority/src/types.ts\<close> and \<open>client.ts\<close>: the signed verification request that binds an
  action and its decision, the replies of the authority, and the two calls of the client. The service
  is a stateful parameter; \<open>z.uuid\<close> and \<open>z.iso.datetime\<close> with offsets are parameters too. Lemmas: an
  authorisation is for exactly this decision and carries the hash that was signed; a consumption
  receipt is returned only for evidence of this agent, action and execution.
\<close>

subsection \<open>Schemas\<close>

record mtp_formats =
  mf_uuid :: "string \<Rightarrow> bool"
  mf_datetime :: "string \<Rightarrow> bool"

definition raw_hash_ok :: "string \<Rightarrow> bool" where
  "raw_hash_ok s \<longleftrightarrow> length s = 64 \<and> list_all hex_char s"

text \<open>\<open>MtpSignedVerifyRequestSchema\<close>; \<open>action_type\<close> and \<open>sig_version\<close> are literals.\<close>

record mtp_request =
  mq_agent_id :: string
  mq_payload :: "(string \<times> json) list"
  mq_nonce :: string
  mq_timestamp :: string
  mq_signature :: string
  mq_policy_hash :: "string option"

definition mtp_request_ok :: "mtp_formats \<Rightarrow> mtp_request \<Rightarrow> bool" where
  "mtp_request_ok F q \<longleftrightarrow> mf_uuid F (mq_agent_id q) \<and> len_between 1 64 (mq_nonce q) \<and> mf_datetime F (mq_timestamp q) \<and>
     mq_signature q \<noteq> [] \<and> (case mq_policy_hash q of None \<Rightarrow> True | Some h \<Rightarrow> raw_hash_ok h)"

definition mtp_request_json :: "mtp_request \<Rightarrow> json" where
  "mtp_request_json q = JObj
     ([(''agent_id'', JStr (mq_agent_id q)), (''action_type'', JStr ''financial_transaction''), (''payload'', JObj (mq_payload q)),
       (''nonce'', JStr (mq_nonce q)), (''timestamp'', JStr (mq_timestamp q)), (''signature'', JStr (mq_signature q)),
       (''sig_version'', JNum 3)] @
      (case mq_policy_hash q of None \<Rightarrow> [] | Some h \<Rightarrow> [(''policy_hash'', JStr h)]))"

definition parse_mtp_request :: "mtp_formats \<Rightarrow> json \<Rightarrow> mtp_request option" where
  "parse_mtp_request F v = do {
     ob \<leftarrow> strict_obj [''agent_id'', ''action_type'', ''payload'', ''nonce'', ''timestamp'', ''signature'', ''sig_version'',
       ''policy_hash''] v;
     i \<leftarrow> get_str ob ''agent_id''; get_lit ob ''action_type'' ''financial_transaction'';
     pl \<leftarrow> (case map_of ob ''payload'' of Some (JObj fs) \<Rightarrow> Some fs | _ \<Rightarrow> None);
     n \<leftarrow> get_str ob ''nonce''; t \<leftarrow> get_str ob ''timestamp''; sg \<leftarrow> get_str ob ''signature'';
     guard_opt (map_of ob ''sig_version'' = Some (JNum 3)) (); h \<leftarrow> get_opt_str ob ''policy_hash'';
     let q = \<lparr>mq_agent_id = i, mq_payload = pl, mq_nonce = n, mq_timestamp = t, mq_signature = sg, mq_policy_hash = h\<rparr>;
     guard_opt (mtp_request_ok F q) q }"

text \<open>\<open>MtpApprovedResponseSchema\<close>, stripped: the token, the audit identifier and the instant.\<close>

definition parse_mtp_approved :: "mtp_formats \<Rightarrow> json \<Rightarrow> (string \<times> string \<times> string) option" where
  "parse_mtp_approved F v = (case v of JObj ob \<Rightarrow> do {
     get_lit ob ''verdict'' ''approved''; tk \<leftarrow> get_str ob ''approval_token'';
     q \<leftarrow> (case map_of ob ''trust_score'' of Some (JNum q) \<Rightarrow> Some q | _ \<Rightarrow> None);
     ai \<leftarrow> get_str ob ''audit_id''; t \<leftarrow> get_str ob ''timestamp'';
     (case map_of ob ''limits_remaining'' of None \<Rightarrow> Some () | Some JNull \<Rightarrow> Some () | Some (JObj _) \<Rightarrow> Some () | Some _ \<Rightarrow> None);
     guard_opt (tk \<noteq> [] \<and> snd (quotient_of q) = 1 \<and> 0 \<le> q \<and> q \<le> 100 \<and> mf_uuid F ai \<and> mf_datetime F t) (tk, ai, t) }
   | _ \<Rightarrow> None)"

datatype mtp_status = MtpConsumed | MtpIdempotent

fun mtp_status_string :: "mtp_status \<Rightarrow> string" where
  "mtp_status_string MtpConsumed = ''consumed''"
| "mtp_status_string MtpIdempotent = ''idempotent''"

text \<open>\<open>MtpTokenResponseSchema\<close>, stripped: the properties the client reads.\<close>

record mtp_token =
  mt_valid :: bool
  mt_verdict :: "string option"
  mt_agent_id :: "string option"
  mt_action_hash :: "string option"
  mt_hash_matches :: "bool option"
  mt_audit_id :: "string option"
  mt_status :: "mtp_status option"
  mt_execution_ref :: "string option"
  mt_sandbox :: "bool option"

definition get_mtp_status :: "(string \<times> json) list \<Rightarrow> string \<Rightarrow> mtp_status option option" where
  "get_mtp_status ob k =
     (case map_of ob k of
        None \<Rightarrow> Some None | Some JNull \<Rightarrow> Some None
      | Some (JStr s) \<Rightarrow> (case enum_read mtp_status_string [MtpConsumed, MtpIdempotent] s of None \<Rightarrow> None | Some x \<Rightarrow> Some (Some x))
      | Some _ \<Rightarrow> None)"

definition parse_mtp_token :: "json \<Rightarrow> mtp_token option" where
  "parse_mtp_token v = (case v of JObj ob \<Rightarrow> do {
     b \<leftarrow> read_bool ob ''valid''; get_nullish_str ob ''reason''; vd \<leftarrow> get_nullish_str ob ''verdict'';
     ai \<leftarrow> get_nullish_str ob ''agent_id''; ah \<leftarrow> get_nullish_str ob ''action_hash''; get_nullish_str ob ''expires_at'';
     hm \<leftarrow> get_nullish_bool ob ''action_hash_matches''; ci \<leftarrow> get_nullish_str ob ''consumption_audit_id'';
     st \<leftarrow> get_mtp_status ob ''consumption_status''; er \<leftarrow> get_nullish_str ob ''execution_ref'';
     sb \<leftarrow> get_nullish_bool ob ''sandbox'';
     guard_opt (case ah of None \<Rightarrow> True | Some h \<Rightarrow> raw_hash_ok h)
       \<lparr>mt_valid = b, mt_verdict = vd, mt_agent_id = ai, mt_action_hash = ah, mt_hash_matches = hm, mt_audit_id = ci,
        mt_status = st, mt_execution_ref = er, mt_sandbox = sb\<rparr> }
   | _ \<Rightarrow> None)"

text \<open>\<open>MtpAuthorizationRecord\<close> and \<open>MtpConsumptionReceipt\<close>.\<close>

record mtp_record =
  mr_decision_id :: string
  mr_action_hash :: string
  mr_request :: mtp_request
  mr_mtp_hash :: string
  mr_token :: string
  mr_audit_id :: string
  mr_authorized_at :: string
  mr_execution_ref :: "string option"
  mr_consumption_id :: "string option"
  mr_consumption_status :: "mtp_status option"
  mr_completed_at :: "string option"

record mtp_receipt =
  mx_execution_ref :: string
  mx_audit_id :: string
  mx_status :: mtp_status

subsection \<open>Helpers of the client\<close>

definition assert_separate_signers :: "signer \<Rightarrow> signer \<Rightarrow> error + unit" where
  "assert_separate_signers decision_signer mtp_signer =
     (if s_public_key decision_signer = s_public_key mtp_signer
      then Inl (JsError ''Error'' ''The MTP agent signer must not reuse the Decision Envelope signing key'') else Inr ())"

definition raw_hash :: "host \<Rightarrow> json \<Rightarrow> string" where
  "raw_hash H v = drop 7 (hash_canonical H v)"

definition normalise_policy_hash :: "string option \<Rightarrow> error + string option" where
  "normalise_policy_hash x =
     (case x of
        None \<Rightarrow> Inr None
      | Some s \<Rightarrow> let raw = (if take 7 s = ''sha256:'' then drop 7 s else s) in
          if raw_hash_ok raw then Inr (Some raw)
          else Inl (JsError ''TypeError'' ''MTP policy hash must be a lowercase SHA-256 digest''))"

text \<open>\<open>^(.*)\.(\d{3})Z$\<close> on a text of \<open>toISOString\<close>, which ends in milliseconds and \<open>Z\<close>.\<close>

definition mtp_timestamp :: "int \<Rightarrow> error + string" where
  "mtp_timestamp t =
     (case to_iso_string t of
        None \<Rightarrow> Inl (JsError ''TypeError'' ''MTP request timestamp must be a valid date'')
      | Some wire \<Rightarrow>
          let n = length wire - 5; whole = take n wire; ms = take 3 (drop (n + 1) wire) in
          if take 1 (drop n wire) = ''.'' \<and> list_all is_digit ms \<and> length ms = 3 \<and> drop (n + 4) wire = ''Z''
          then Inr (if ms = ''000'' then whole @ ''Z'' else whole @ ''.'' @ ms @ ''000Z'')
          else Inl (JsError ''TypeError'' ''MTP request timestamp could not be canonicalised''))"

definition action_to_mtp_payload :: "host \<Rightarrow> action \<Rightarrow> decision \<Rightarrow> error + (string \<times> json) list" where
  "action_to_mtp_payload H a d =
     bind_sum (check_action H a) (\<lambda>va. bind_sum (check_decision H d) (\<lambda>vd.
     if hash_action H va \<noteq> Inr (d_action_hash vd)
     then Inl (JsError ''TypeError'' ''The MTP authorization decision is not bound to the supplied action'')
     else Inr
       [(''version'', JStr ''inntris-mtp-authority-v1''), (''amount'', JStr (tx_amount (a_transaction va))),
        (''currency'', JStr (tx_asset (a_transaction va))), (''recipient'', JStr (tx_payee (a_transaction va))),
        (''network'', JStr (tx_network (a_transaction va))), (''purpose'', JStr (tx_purpose (a_transaction va))),
        (''resource'', JStr (pr_resource (a_reference va))), (''rail'', JStr (rail_string (a_rail va))),
        (''principal_id'', JStr (a_principal_id va)), (''declared_agent_id'', JStr (a_agent_id va)),
        (''inntris_action'', action_json va), (''inntris_action_hash'', JStr (d_action_hash vd)),
        (''inntris_decision_id'', JStr (d_decision_id vd)), (''inntris_decision_fingerprint'', JStr (d_fingerprint vd)),
        (''inntris_policy_hash'', JStr (d_policy_hash vd)), (''inntris_policy_version'', JStr (d_policy_version vd))]))"

text \<open>\<open>Buffer.from(s, "hex")\<close> on an even number of hexadecimal digits, and \<open>toString("base64")\<close>.\<close>

definition hex_value :: "char \<Rightarrow> nat" where
  "hex_value c = (let n = of_char c :: nat in if n \<le> 57 then n - 48 else n - 87)"

fun hex_bytes :: "string \<Rightarrow> bytes" where
  "hex_bytes (a # b # s) = char_of (hex_value a * 16 + hex_value b) # hex_bytes s"
| "hex_bytes _ = []"

definition b64_standard :: "bytes \<Rightarrow> string" where
  "b64_standard bs =
     (let s = map (\<lambda>c. if c = CHR ''-'' then CHR ''+'' else if c = CHR ''_'' then CHR ''/'' else c) (b64url_encode bs)
      in s @ replicate ((4 - length s mod 4) mod 4) CHR ''='')"

subsection \<open>The client\<close>

record 's mtp_client =
  mc_agent_id :: string
  mc_signer :: signer
  mc_policy_hash :: "string option"
  mc_fetch :: "string \<Rightarrow> json \<Rightarrow> 's \<Rightarrow> reply \<times> 's"

definition mtp_error :: "string \<Rightarrow> error" where
  "mtp_error m = JsError ''MtpAuthorityError'' m"

definition mtp_rejected :: "string \<Rightarrow> error" where
  "mtp_rejected m = JsError ''MtpConsumptionRejectedError'' m"

text \<open>The denial keeps the HTTP status, here as its reason.\<close>

definition mtp_denied :: "string \<Rightarrow> int \<Rightarrow> error" where
  "mtp_denied m status = GateError ''MtpAuthorityDeniedError'' (status_text status) None m"

definition new_mtp_client ::
  "url_parser \<Rightarrow> mtp_formats \<Rightarrow> string \<Rightarrow> string \<Rightarrow> signer \<Rightarrow> string option \<Rightarrow> (string \<Rightarrow> json \<Rightarrow> 's \<Rightarrow> reply \<times> 's) \<Rightarrow> error + 's mtp_client" where
  "new_mtp_client P F url agent sg policy_hash service =
     bind_sum (service_url P ''MTP API URL'' url) (\<lambda>_.
     if \<not> mf_uuid F agent then Inl ZodError
     else bind_sum (normalise_policy_hash policy_hash) (\<lambda>h.
       Inr \<lparr>mc_agent_id = agent, mc_signer = sg, mc_policy_hash = h, mc_fetch = service\<rparr>))"

definition mtp_post :: "'s mtp_client \<Rightarrow> string \<Rightarrow> json \<Rightarrow> (error, 's, int \<times> json) io" where
  "mtp_post C path body s =
     (case mc_fetch C path body s of
        (Unreachable, s') \<Rightarrow> (Inl (mtp_error ''MTP service is unavailable''), s')
      | (Reply status None, s') \<Rightarrow> (Inl (mtp_error ''MTP returned a non-JSON response''), s')
      | (Reply status (Some v), s') \<Rightarrow> (Inr (status, v), s'))"

definition signing_envelope :: "host \<Rightarrow> string \<Rightarrow> (string \<times> json) list \<Rightarrow> string \<Rightarrow> string \<Rightarrow> json" where
  "signing_envelope H agent payload nonce timestamp = JObj
     [(''agent_id'', JStr agent), (''action_type'', JStr ''financial_transaction''),
      (''payload_hash'', JStr (raw_hash H (JObj payload))), (''nonce'', JStr nonce), (''timestamp'', JStr timestamp)]"

definition signed_request ::
  "host \<Rightarrow> mtp_formats \<Rightarrow> 's mtp_client \<Rightarrow> string \<Rightarrow> int \<Rightarrow> (string \<times> json) list \<Rightarrow> error + mtp_request \<times> string" where
  "signed_request H F C nonce now payload =
     bind_sum (mtp_timestamp now) (\<lambda>timestamp.
     let action_hash = raw_hash H (signing_envelope H (mc_agent_id C) payload nonce timestamp) in
     bind_sum (s_sign (mc_signer C) (hex_bytes action_hash)) (\<lambda>signature.
     let q = \<lparr>mq_agent_id = mc_agent_id C, mq_payload = payload, mq_nonce = nonce, mq_timestamp = timestamp,
              mq_signature = b64_standard (b64url_decode signature), mq_policy_hash = mc_policy_hash C\<rparr>
     in if mtp_request_ok F q then Inr (q, action_hash) else Inl ZodError))"

definition mtp_authorize ::
  "host \<Rightarrow> mtp_formats \<Rightarrow> 's mtp_client \<Rightarrow> string \<Rightarrow> int \<Rightarrow> action \<Rightarrow> decision \<Rightarrow> (error, 's, mtp_record) io" where
  "mtp_authorize H F C nonce now a d =
     bind_io (lift_io (action_to_mtp_payload H a d)) (\<lambda>payload.
     bind_io (lift_io (signed_request H F C nonce now payload)) (\<lambda>(q, h).
     bind_io (mtp_post C ''/verify'' (mtp_request_json q)) (\<lambda>(status, body).
     if status \<noteq> 200 then throw (mtp_denied ''MTP rejected the proposed execution'' status)
     else case parse_mtp_approved F body of
       None \<Rightarrow> throw ZodError
     | Some (tk, audit, t) \<Rightarrow>
         ret \<lparr>mr_decision_id = d_decision_id d, mr_action_hash = d_action_hash d, mr_request = q, mr_mtp_hash = h,
              mr_token = tk, mr_audit_id = audit, mr_authorized_at = t, mr_execution_ref = None,
              mr_consumption_id = None, mr_consumption_status = None, mr_completed_at = None\<rparr>)))"

definition token_request_json :: "mtp_record \<Rightarrow> string \<Rightarrow> json" where
  "token_request_json r ref = (let q = mr_request r in JObj
     [(''approval_token'', JStr (mr_token r)), (''agent_id'', JStr (mq_agent_id q)),
      (''action_type'', JStr ''financial_transaction''), (''payload'', JObj (mq_payload q)), (''nonce'', JStr (mq_nonce q)),
      (''timestamp'', JStr (mq_timestamp q)), (''sig_version'', JNum 3), (''consume'', JBool True), (''execution_ref'', JStr ref)])"

text \<open>The evidence the client accepts, and the receipt it makes of it.\<close>

definition check_token :: "mtp_record \<Rightarrow> string \<Rightarrow> mtp_token \<Rightarrow> error + mtp_receipt" where
  "check_token r ref t =
     (if \<not> mt_valid t then Inl (mtp_rejected ''MTP token is not valid for this execution'')
      else if mt_verdict t \<noteq> Some ''approved'' \<or> mt_agent_id t \<noteq> Some (mq_agent_id (mr_request r)) \<or>
        mt_action_hash t \<noteq> Some (mr_mtp_hash r) \<or> mt_hash_matches t \<noteq> Some True \<or> mt_execution_ref t \<noteq> Some ref \<or>
        mt_sandbox t \<noteq> Some False
      then Inl (mtp_rejected ''MTP consumption evidence does not match the request'')
      else case (mt_audit_id t, mt_status t) of
        (Some i, Some st) \<Rightarrow> Inr \<lparr>mx_execution_ref = ref, mx_audit_id = i, mx_status = st\<rparr>
      | _ \<Rightarrow> Inl (mtp_rejected ''MTP consumption evidence does not match the request''))"

definition mtp_consume :: "'s mtp_client \<Rightarrow> mtp_record \<Rightarrow> string \<Rightarrow> (error, 's, mtp_receipt) io" where
  "mtp_consume C r ref =
     bind_io (mtp_post C ''/verify-token'' (token_request_json r ref)) (\<lambda>(status, body).
     if status \<noteq> 200 then throw (mtp_rejected ''MTP token consumption was rejected'')
     else case parse_mtp_token body of
       None \<Rightarrow> throw ZodError
     | Some t \<Rightarrow> lift_io (check_token r ref t))"

subsection \<open>What a record and a receipt stand for\<close>

lemma action_to_mtp_payload_bound:
  assumes "action_to_mtp_payload H a d = Inr p"
  shows "action_ok H a \<and> decision_ok H d \<and> d_action_hash d = hash_canonical H (action_json a) \<and>
    map_of p ''inntris_action_hash'' = Some (JStr (d_action_hash d)) \<and>
    map_of p ''inntris_decision_id'' = Some (JStr (d_decision_id d)) \<and>
    map_of p ''inntris_action'' = Some (action_json a)"
proof -
  have ok: "action_ok H a" "decision_ok H d" using assms by (auto simp: action_to_mtp_payload_def bind_sum_Inr)
  with assms have h: "d_action_hash d = hash_canonical H (action_json a)"
    by (auto simp: action_to_mtp_payload_def check_action_def check_decision_def split: if_splits)
  from assms ok h show ?thesis
    by (auto simp: action_to_mtp_payload_def check_action_def check_decision_def)
qed

lemma signed_request_binds:
  assumes "signed_request H F C nonce now payload = Inr (q, h)"
  shows "mtp_request_ok F q \<and> mq_agent_id q = mc_agent_id C \<and> mq_payload q = payload \<and> mq_nonce q = nonce \<and>
    mtp_timestamp now = Inr (mq_timestamp q) \<and>
    h = raw_hash H (signing_envelope H (mq_agent_id q) (mq_payload q) (mq_nonce q) (mq_timestamp q)) \<and>
    (\<exists>sig. s_sign (mc_signer C) (hex_bytes h) = Inr sig \<and> mq_signature q = b64_standard (b64url_decode sig))"
  using assms by (auto simp: signed_request_def bind_sum_Inr Let_def split: if_splits)

lemma mtp_post_state: "mtp_post C path body s = (r, s') \<Longrightarrow> s' = snd (mc_fetch C path body s)"
  by (auto simp: mtp_post_def split: prod.splits reply.splits option.splits)

lemma mtp_authorize_record:
  assumes "mtp_authorize H F C nonce now a d s = (Inr r, s')"
  shows "\<exists>p. action_to_mtp_payload H a d = Inr p \<and> signed_request H F C nonce now p = Inr (mr_request r, mr_mtp_hash r) \<and>
    mr_decision_id r = d_decision_id d \<and> mr_action_hash r = d_action_hash d \<and> mr_execution_ref r = None \<and>
    mr_consumption_id r = None \<and> mr_consumption_status r = None \<and> mr_completed_at r = None \<and>
    (\<exists>body. fst (mc_fetch C ''/verify'' (mtp_request_json (mr_request r)) s) = Reply 200 (Some body) \<and>
       parse_mtp_approved F body = Some (mr_token r, mr_audit_id r, mr_authorized_at r))"
proof -
  obtain p q h status body s1 x where p: "action_to_mtp_payload H a d = Inr p" "signed_request H F C nonce now p = Inr (q, h)"
    and post: "mtp_post C ''/verify'' (mtp_request_json q) s = (Inr (status, body), s1)"
    and st: "status = 200" and x: "parse_mtp_approved F body = Some x"
    and r: "r = \<lparr>mr_decision_id = d_decision_id d, mr_action_hash = d_action_hash d, mr_request = q, mr_mtp_hash = h,
      mr_token = fst x, mr_audit_id = fst (snd x), mr_authorized_at = snd (snd x), mr_execution_ref = None,
      mr_consumption_id = None, mr_consumption_status = None, mr_completed_at = None\<rparr>"
    using assms by (auto simp: mtp_authorize_def bind_io_Inr split: if_splits option.splits prod.splits)
  have "fst (mc_fetch C ''/verify'' (mtp_request_json q) s) = Reply 200 (Some body)"
    using post st by (auto simp: mtp_post_def split: prod.splits reply.splits option.splits)
  with p x r show ?thesis by simp
qed

lemma check_token_Inr:
  assumes "check_token r ref t = Inr x"
  shows "mx_execution_ref x = ref \<and> mt_valid t \<and> mt_agent_id t = Some (mq_agent_id (mr_request r)) \<and>
    mt_action_hash t = Some (mr_mtp_hash r) \<and> mt_execution_ref t = Some ref \<and> mt_sandbox t = Some False \<and>
    mt_audit_id t = Some (mx_audit_id x) \<and> mt_status t = Some (mx_status x)"
proof -
  have v: "mt_valid t" using assms by (simp add: check_token_def split: if_splits)
  have c: "mt_agent_id t = Some (mq_agent_id (mr_request r)) \<and> mt_action_hash t = Some (mr_mtp_hash r) \<and>
      mt_execution_ref t = Some ref \<and> mt_sandbox t = Some False"
    using assms v by (simp add: check_token_def split: if_splits)
  show ?thesis
    using assms v c by (cases "mt_audit_id t"; cases "mt_status t") (auto simp: check_token_def split: if_splits)
qed

lemma mtp_consume_receipt:
  assumes "mtp_consume C r ref s = (Inr x, s')"
  shows "\<exists>body t. fst (mc_fetch C ''/verify-token'' (token_request_json r ref) s) = Reply 200 (Some body) \<and>
    parse_mtp_token body = Some t \<and> check_token r ref t = Inr x"
proof -
  obtain status body s1 where post: "mtp_post C ''/verify-token'' (token_request_json r ref) s = (Inr (status, body), s1)"
    and st: "status = 200" and t: "(case parse_mtp_token body of None \<Rightarrow> throw ZodError
      | Some t \<Rightarrow> lift_io (check_token r ref t)) s1 = (Inr x, s')"
    using assms unfolding mtp_consume_def bind_io_Inr by (auto split: if_splits)
  have "fst (mc_fetch C ''/verify-token'' (token_request_json r ref) s) = Reply 200 (Some body)"
    using post st by (auto simp: mtp_post_def split: prod.splits reply.splits option.splits)
  then show ?thesis using t by (cases "parse_mtp_token body") auto
qed

end
