(* ===== verification/MtpStore.thy ===== *)
theory MtpStore
  imports Mtp PgStore
begin

section \<open>The state of MTP authority\<close>

text \<open>
  \<open>mtp-authority/src/store.ts\<close> and \<open>postgres-store/src/mtp-store.ts\<close>: the authorisation of a decision,
  the one execution it is claimed for, the evidence of its consumption and its completion. The locale
  \<open>mtp_state_store\<close> is the contract both keep, over the view of a record that does not depend on
  how a store writes identifiers and instants: claims and evidence are never replaced, and no
  two decisions of one agent hold the same execution.
\<close>

datatype mtp_claim = MtpClaimed | MtpClaimIdempotent | MtpClaimConflict | MtpClaimMissing

subsection \<open>The in-memory store\<close>

type_synonym mtp_map = "(string \<times> mtp_record) list"

definition immutable_authorization :: "mtp_record \<Rightarrow> json" where
  "immutable_authorization r = JObj
     [(''decisionId'', JStr (mr_decision_id r)), (''actionHash'', JStr (mr_action_hash r)),
      (''request'', mtp_request_json (mr_request r)), (''mtpActionHash'', JStr (mr_mtp_hash r)),
      (''approvalToken'', JStr (mr_token r)), (''authorizationAuditId'', JStr (mr_audit_id r)),
      (''authorizedAt'', JStr (mr_authorized_at r))]"

definition mem_save_authorization :: "host \<Rightarrow> mtp_record \<Rightarrow> (error, mtp_map, unit) io" where
  "mem_save_authorization H r s =
     (case map_of s (mr_decision_id r) of
        None \<Rightarrow> (Inr (), AList.update (mr_decision_id r) r s)
      | Some e \<Rightarrow>
          if canonicalise H (Some (immutable_authorization e)) \<noteq> canonicalise H (Some (immutable_authorization r))
          then (Inl (JsError ''Error'' ''MTP authorization state is immutable for a decision''), s)
          else (Inr (), AList.update (mr_decision_id r) e s))"

definition mem_get_authorization :: "string \<Rightarrow> (error, mtp_map, mtp_record option) io" where
  "mem_get_authorization i s = (Inr (map_of s i), s)"

definition mem_claim_execution :: "string \<Rightarrow> string \<Rightarrow> string \<Rightarrow> (error, mtp_map, mtp_claim) io" where
  "mem_claim_execution i h ref s =
     (case map_of s i of
        None \<Rightarrow> (Inr MtpClaimMissing, s)
      | Some r \<Rightarrow>
          if mr_action_hash r \<noteq> h then (Inr MtpClaimConflict, s)
          else (case mr_execution_ref r of
            None \<Rightarrow>
              if list_ex (\<lambda>c. mr_decision_id c \<noteq> i \<and> mq_agent_id (mr_request c) = mq_agent_id (mr_request r) \<and>
                   mr_execution_ref c = Some ref) (map snd s)
              then (Inr MtpClaimConflict, s)
              else (Inr MtpClaimed, AList.update i (r\<lparr>mr_execution_ref := Some ref\<rparr>) s)
          | Some x \<Rightarrow> (Inr (if x = ref then MtpClaimIdempotent else MtpClaimConflict), s)))"

definition mem_mark_consumed :: "string \<Rightarrow> string \<Rightarrow> mtp_receipt \<Rightarrow> (error, mtp_map, unit) io" where
  "mem_mark_consumed i ref x s =
     (case map_of s i of
        None \<Rightarrow> (Inl (JsError ''Error'' ''MTP consumption receipt does not match the claimed execution''), s)
      | Some r \<Rightarrow>
          if mr_execution_ref r \<noteq> Some ref \<or> mx_execution_ref x \<noteq> ref
          then (Inl (JsError ''Error'' ''MTP consumption receipt does not match the claimed execution''), s)
          else if mr_consumption_id r \<noteq> None \<and> mr_consumption_id r \<noteq> Some (mx_audit_id x)
          then (Inl (JsError ''Error'' ''MTP consumption evidence is immutable''), s)
          else (Inr (), AList.update i (r\<lparr>mr_consumption_id := Some (mx_audit_id x), mr_consumption_status := Some (mx_status x)\<rparr>) s))"

definition mem_mark_complete :: "string \<Rightarrow> string \<Rightarrow> string \<Rightarrow> (error, mtp_map, unit) io" where
  "mem_mark_complete i ref t s =
     (case map_of s i of
        None \<Rightarrow> (Inl (JsError ''Error'' ''MTP execution cannot complete before authority consumption''), s)
      | Some r \<Rightarrow>
          if mr_execution_ref r \<noteq> Some ref \<or> mr_consumption_id r = None
          then (Inl (JsError ''Error'' ''MTP execution cannot complete before authority consumption''), s)
          else (Inr (), AList.update i
            (r\<lparr>mr_completed_at := (case mr_completed_at r of None \<Rightarrow> Some t | Some u \<Rightarrow> Some u)\<rparr>) s))"

subsection \<open>The PostgreSQL store\<close>

record mtp_row =
  pm_decision_id :: string
  pm_action_hash :: string
  pm_agent_id :: string
  pm_request :: json
  pm_mtp_hash :: string
  pm_token :: string
  pm_audit_id :: string
  pm_authorized_at :: int
  pm_execution_ref :: "string option"
  pm_consumption_id :: "string option"
  pm_consumption_status :: "mtp_status option"
  pm_completed_at :: "int option"

type_synonym mtp_table = "(string \<times> mtp_row) list"

definition mtp_record_from_row :: "mtp_formats \<Rightarrow> mtp_row \<Rightarrow> error + mtp_record" where
  "mtp_record_from_row F r =
     (case parse_mtp_request F (pm_request r) of
        None \<Rightarrow> Inl ZodError
      | Some q \<Rightarrow>
          bind_sum (pg_iso (pm_authorized_at r)) (\<lambda>t.
          bind_sum (case pm_completed_at r of None \<Rightarrow> Inr None | Some u \<Rightarrow> bind_sum (pg_iso u) (\<lambda>x. Inr (Some x))) (\<lambda>u.
          Inr \<lparr>mr_decision_id = pm_decision_id r, mr_action_hash = pm_action_hash r, mr_request = q, mr_mtp_hash = pm_mtp_hash r,
               mr_token = pm_token r, mr_audit_id = pm_audit_id r, mr_authorized_at = t, mr_execution_ref = pm_execution_ref r,
               mr_consumption_id = pm_consumption_id r, mr_consumption_status = pm_consumption_status r, mr_completed_at = u\<rparr>)))"

definition pg_save_authorization :: "pg_types \<Rightarrow> mtp_record \<Rightarrow> (error, mtp_table, unit) io" where
  "pg_save_authorization T r s =
     (case (pt_uuid T (mq_agent_id (mr_request r)), pt_uuid T (mr_audit_id r), pt_timestamp T (mr_authorized_at r)) of
        (Some agent, Some audit, Some t) \<Rightarrow>
          if \<not> (hash_ok (mr_action_hash r) \<and> raw_hash_ok (mr_mtp_hash r) \<and> mr_token r \<noteq> [])
          then (Inl (pg_error ''new row violates check constraint''), s)
          else (case map_of s (mr_decision_id r) of
            None \<Rightarrow> (Inr (), AList.update (mr_decision_id r)
              \<lparr>pm_decision_id = mr_decision_id r, pm_action_hash = mr_action_hash r, pm_agent_id = agent,
               pm_request = mtp_request_json (mr_request r), pm_mtp_hash = mr_mtp_hash r, pm_token = mr_token r,
               pm_audit_id = audit, pm_authorized_at = t, pm_execution_ref = None, pm_consumption_id = None,
               pm_consumption_status = None, pm_completed_at = None\<rparr> s)
          | Some e \<Rightarrow>
              if pm_action_hash e = mr_action_hash r \<and> pm_agent_id e = agent \<and>
                 jsonb_eq (pm_request e) (mtp_request_json (mr_request r)) \<and> pm_mtp_hash e = mr_mtp_hash r \<and>
                 pm_token e = mr_token r \<and> pm_audit_id e = audit \<and> pm_authorized_at e = t
              then (Inr (), s)
              else (Inl (JsError ''Error'' ''MTP authorization state is immutable for a decision''), s))
      | _ \<Rightarrow> (Inl (pg_error ''invalid input syntax''), s))"

definition pg_get_authorization :: "mtp_formats \<Rightarrow> string \<Rightarrow> (error, mtp_table, mtp_record option) io" where
  "pg_get_authorization F i s =
     (case map_of s i of
        None \<Rightarrow> (Inr None, s)
      | Some r \<Rightarrow> (case mtp_record_from_row F r of Inl e \<Rightarrow> (Inl e, s) | Inr x \<Rightarrow> (Inr (Some x), s)))"

text \<open>The check of the column \<open>execution_ref\<close>: \<open>btrim\<close> removes spaces only.\<close>

definition pg_reference_ok :: "string \<Rightarrow> bool" where
  "pg_reference_ok ref \<longleftrightarrow> \<not> list_all (\<lambda>c. c = CHR '' '') ref \<and> length ref \<le> 512"

definition pg_claim_execution :: "string \<Rightarrow> string \<Rightarrow> string \<Rightarrow> (error, mtp_table, mtp_claim) io" where
  "pg_claim_execution i h ref s =
     (case map_of s i of
        None \<Rightarrow> (Inr MtpClaimMissing, s)
      | Some r \<Rightarrow>
          if pm_action_hash r = h \<and> pm_execution_ref r = None
          then if \<not> pg_reference_ok ref then (Inl (pg_error ''new row violates check constraint''), s)
            else if list_ex (\<lambda>c. pm_decision_id c \<noteq> i \<and> pm_agent_id c = pm_agent_id r \<and> pm_execution_ref c = Some ref) (map snd s)
            then (Inr MtpClaimConflict, s)
            else (Inr MtpClaimed, AList.update i (r\<lparr>pm_execution_ref := Some ref\<rparr>) s)
          else (Inr (if pm_action_hash r = h \<and> pm_execution_ref r = Some ref then MtpClaimIdempotent else MtpClaimConflict), s))"

definition pg_mark_consumed :: "pg_types \<Rightarrow> string \<Rightarrow> string \<Rightarrow> mtp_receipt \<Rightarrow> (error, mtp_table, unit) io" where
  "pg_mark_consumed T i ref x s =
     (if mx_execution_ref x \<noteq> ref
      then (Inl (JsError ''Error'' ''MTP consumption receipt does not match the claimed execution''), s)
      else case pt_uuid T (mx_audit_id x) of
        None \<Rightarrow> (Inl (pg_error ''invalid input syntax''), s)
      | Some audit \<Rightarrow>
          (case map_of s i of
             None \<Rightarrow> (Inl (JsError ''Error'' ''MTP consumption receipt does not match the claimed execution''), s)
           | Some r \<Rightarrow>
               if pm_execution_ref r = Some ref \<and> (pm_consumption_id r = None \<or> pm_consumption_id r = Some audit) \<and>
                  (pm_consumption_status r = None \<or> pm_consumption_status r = Some (mx_status x))
               then (Inr (), AList.update i (r\<lparr>
                 pm_consumption_id := (case pm_consumption_id r of None \<Rightarrow> Some audit | Some a \<Rightarrow> Some a),
                 pm_consumption_status := (case pm_consumption_status r of None \<Rightarrow> Some (mx_status x) | Some st \<Rightarrow> Some st)\<rparr>) s)
               else (Inl (JsError ''Error'' ''MTP consumption receipt does not match the claimed execution''), s)))"

definition pg_mark_complete :: "pg_types \<Rightarrow> string \<Rightarrow> string \<Rightarrow> string \<Rightarrow> (error, mtp_table, unit) io" where
  "pg_mark_complete T i ref t s =
     (case pt_timestamp T t of
        None \<Rightarrow> (Inl (pg_error ''invalid input syntax''), s)
      | Some us \<Rightarrow>
          (case map_of s i of
             None \<Rightarrow> (Inl (JsError ''Error'' ''MTP execution cannot complete before authority consumption''), s)
           | Some r \<Rightarrow>
               if pm_execution_ref r = Some ref \<and> pm_consumption_id r \<noteq> None
               then (Inr (), AList.update i
                 (r\<lparr>pm_completed_at := (case pm_completed_at r of None \<Rightarrow> Some us | Some u \<Rightarrow> Some u)\<rparr>) s)
               else (Inl (JsError ''Error'' ''MTP execution cannot complete before authority consumption''), s)))"

subsection \<open>The contract\<close>

record mtp_view =
  mv_action_hash :: string
  mv_agent :: string
  mv_execution_ref :: "string option"
  mv_consumption_id :: "string option"

type_synonym mtp_views = "string \<Rightarrow> mtp_view option"

text \<open>What was claimed or consumed stays, and two decisions of one agent hold different executions.\<close>

definition view_grows :: "mtp_view \<Rightarrow> mtp_view \<Rightarrow> bool" where
  "view_grows v w \<longleftrightarrow> mv_action_hash w = mv_action_hash v \<and> mv_agent w = mv_agent v \<and>
     (mv_execution_ref v \<noteq> None \<longrightarrow> mv_execution_ref w = mv_execution_ref v) \<and>
     (mv_consumption_id v \<noteq> None \<longrightarrow> mv_consumption_id w = mv_consumption_id v)"

definition views_grow :: "mtp_views \<Rightarrow> mtp_views \<Rightarrow> bool" where
  "views_grow f g \<longleftrightarrow> (\<forall>i v. f i = Some v \<longrightarrow> (\<exists>w. g i = Some w \<and> view_grows v w))"

definition one_holder :: "mtp_views \<Rightarrow> bool" where
  "one_holder f \<longleftrightarrow> (\<forall>i j v w ref. f i = Some v \<longrightarrow> f j = Some w \<longrightarrow> mv_agent v = mv_agent w \<longrightarrow>
     mv_execution_ref v = Some ref \<longrightarrow> mv_execution_ref w = Some ref \<longrightarrow> i = j)"

definition holds_execution :: "mtp_views \<Rightarrow> string \<Rightarrow> string \<Rightarrow> bool" where
  "holds_execution f i ref \<longleftrightarrow> (\<exists>v. f i = Some v \<and> mv_execution_ref v = Some ref)"

definition checkpointed :: "mtp_views \<Rightarrow> string \<Rightarrow> string \<Rightarrow> bool" where
  "checkpointed f i ref \<longleftrightarrow> (\<exists>v. f i = Some v \<and> mv_execution_ref v = Some ref \<and> mv_consumption_id v \<noteq> None)"

lemma view_grows_refl [simp]: "view_grows v v"
  by (simp add: view_grows_def)

lemma views_grow_refl [simp]: "views_grow f f"
  by (simp add: views_grow_def)

lemma views_grow_trans: "views_grow f g \<Longrightarrow> views_grow g h \<Longrightarrow> views_grow f h"
  by (fastforce simp: views_grow_def view_grows_def)

lemma views_grow_update: "(\<And>v. f i = Some v \<Longrightarrow> view_grows v w) \<Longrightarrow> views_grow f (f(i \<mapsto> w))"
  by (auto simp: views_grow_def)

lemma holds_execution_stays: "views_grow f g \<Longrightarrow> holds_execution f i ref \<Longrightarrow> holds_execution g i ref"
  by (fastforce simp: views_grow_def view_grows_def holds_execution_def)

lemma checkpointed_stays: "views_grow f g \<Longrightarrow> checkpointed f i ref \<Longrightarrow> checkpointed g i ref"
  by (fastforce simp: views_grow_def view_grows_def checkpointed_def)

lemma checkpointed_holds: "checkpointed f i ref \<Longrightarrow> holds_execution f i ref"
  by (auto simp: checkpointed_def holds_execution_def)

lemma holds_execution_unique: "holds_execution f i ref \<Longrightarrow> holds_execution f i ref' \<Longrightarrow> ref' = ref"
  by (auto simp: holds_execution_def)

lemma one_holder_update:
  "one_holder f \<Longrightarrow> (\<And>v. f i = Some v \<Longrightarrow> mv_agent v = mv_agent w \<and> mv_execution_ref v = mv_execution_ref w) \<Longrightarrow>
    f i \<noteq> None \<or> mv_execution_ref w = None \<Longrightarrow> one_holder (f(i \<mapsto> w))"
  unfolding one_holder_def by (auto split: if_splits)

lemma one_holder_claim:
  "one_holder f \<Longrightarrow> (\<And>j v. j \<noteq> i \<Longrightarrow> f j = Some v \<Longrightarrow> mv_agent v = mv_agent w \<Longrightarrow> mv_execution_ref v \<noteq> mv_execution_ref w) \<Longrightarrow>
    one_holder (f(i \<mapsto> w))"
  unfolding one_holder_def by (auto split: if_splits)

locale mtp_state_store =
  fixes save :: "mtp_record \<Rightarrow> (error, 's, unit) io"
    and get :: "string \<Rightarrow> (error, 's, mtp_record option) io"
    and claim :: "string \<Rightarrow> string \<Rightarrow> string \<Rightarrow> (error, 's, mtp_claim) io"
    and mark :: "string \<Rightarrow> string \<Rightarrow> mtp_receipt \<Rightarrow> (error, 's, unit) io"
    and complete :: "string \<Rightarrow> string \<Rightarrow> string \<Rightarrow> (error, 's, unit) io"
    and views :: "'s \<Rightarrow> mtp_views"
    and sound :: "'s \<Rightarrow> bool"
  assumes sound_one_holder: "sound s \<Longrightarrow> one_holder (views s)"
    and get_state: "snd (get i s) = s"
    and get_reads: "get i s = (Inr (Some r), s') \<Longrightarrow>
      \<exists>v. views s i = Some v \<and> mv_action_hash v = mr_action_hash r \<and> mv_execution_ref v = mr_execution_ref r \<and>
        mv_consumption_id v = mr_consumption_id r"
    and save_law: "sound s \<Longrightarrow> mr_execution_ref r = None \<Longrightarrow> sound (snd (save r s)) \<and> views_grow (views s) (views (snd (save r s)))"
    and saved: "save r s = (Inr (), s') \<Longrightarrow> views s' (mr_decision_id r) \<noteq> None"
    and claim_law: "sound s \<Longrightarrow> sound (snd (claim i h ref s)) \<and> views_grow (views s) (views (snd (claim i h ref s)))"
    and claimed: "claim i h ref s = (Inr c, s') \<Longrightarrow> c \<in> {MtpClaimed, MtpClaimIdempotent} \<Longrightarrow> holds_execution (views s') i ref"
    and mark_law: "sound s \<Longrightarrow> sound (snd (mark i ref x s)) \<and> views_grow (views s) (views (snd (mark i ref x s)))"
    and marked: "mark i ref x s = (Inr (), s') \<Longrightarrow> checkpointed (views s') i ref"
    and complete_law: "sound s \<Longrightarrow> sound (snd (complete i ref t s)) \<and> views_grow (views s) (views (snd (complete i ref t s)))"
begin

text \<open>While the store grows, a decision stays with the execution it was claimed for.\<close>

lemma claimed_for_one:
  assumes "claim i h ref s = (Inr c, s1)" "c \<in> {MtpClaimed, MtpClaimIdempotent}" "views_grow (views s1) (views s2)" "sound s2"
    and "claim i h' ref' s2 = (Inr c', s3)" "c' \<in> {MtpClaimed, MtpClaimIdempotent}"
  shows "ref' = ref"
proof -
  have "holds_execution (views s3) i ref"
    using claimed [OF assms(1,2)] assms(3) claim_law [OF assms(4), of i h' ref'] assms(5)
    by (auto intro: holds_execution_stays)
  with claimed [OF assms(5,6)] show ?thesis by (rule holds_execution_unique [rotated])
qed

text \<open>No other decision of the same agent can take an execution that one of them holds.\<close>

lemma execution_has_one_decision:
  assumes "sound s" "holds_execution (views s) i ref" "holds_execution (views s) j ref"
    and "map_option mv_agent (views s i) = map_option mv_agent (views s j)"
  shows "i = j"
  using sound_one_holder [OF assms(1)] assms(2-4) unfolding one_holder_def holds_execution_def by auto

end

subsection \<open>Both stores keep it\<close>

text \<open>Tables of rows under their identifiers, seen through a projection.\<close>

definition views_of :: "('r \<Rightarrow> mtp_view) \<Rightarrow> (string \<times> 'r) list \<Rightarrow> mtp_views" where
  "views_of vw s i = map_option vw (map_of s i)"

definition rows_sound :: "('r \<Rightarrow> string) \<Rightarrow> ('r \<Rightarrow> mtp_view) \<Rightarrow> (string \<times> 'r) list \<Rightarrow> bool" where
  "rows_sound key vw s \<longleftrightarrow> one_holder (views_of vw s) \<and> (\<forall>i r. map_of s i = Some r \<longrightarrow> key r = i)"

lemma views_of_update: "views_of vw (AList.update i r s) = (views_of vw s)(i \<mapsto> vw r)"
  by (simp add: views_of_def fun_eq_iff update_conv')

lemma views_of_Some: "map_of s i = Some r \<Longrightarrow> views_of vw s i = Some (vw r)"
  by (simp add: views_of_def)

lemma rows_sound_update:
  "rows_sound key vw s \<Longrightarrow> key r = i \<Longrightarrow> one_holder (views_of vw (AList.update i r s)) \<Longrightarrow> rows_sound key vw (AList.update i r s)"
  by (auto simp: rows_sound_def update_conv')

text \<open>A new row that holds no execution; a row that keeps its agent and its execution; a row that takes an
  execution no other row of its agent holds.\<close>

lemma insert_row:
  assumes "rows_sound key vw s" "map_of s i = None" "key r = i" "mv_execution_ref (vw r) = None"
  shows "rows_sound key vw (AList.update i r s) \<and> views_grow (views_of vw s) (views_of vw (AList.update i r s))"
proof
  have v: "views_of vw s i = None" using assms(2) by (simp add: views_of_def)
  have "one_holder (views_of vw (AList.update i r s))"
    unfolding views_of_update by (rule one_holder_update) (use assms v in \<open>auto simp: rows_sound_def\<close>)
  with assms(1,3) show "rows_sound key vw (AList.update i r s)" by (rule rows_sound_update)
  show "views_grow (views_of vw s) (views_of vw (AList.update i r s))"
    unfolding views_of_update by (rule views_grow_update) (use v in auto)
qed

lemma replace_row:
  assumes "rows_sound key vw s" "map_of s i = Some r" "key q = key r" "mv_execution_ref (vw q) = mv_execution_ref (vw r)"
    and "view_grows (vw r) (vw q)"
  shows "rows_sound key vw (AList.update i q s) \<and> views_grow (views_of vw s) (views_of vw (AList.update i q s))"
proof
  have i: "key q = i" using assms by (simp add: rows_sound_def)
  have "one_holder (views_of vw (AList.update i q s))"
    unfolding views_of_update
    by (rule one_holder_update) (use assms in \<open>auto simp: rows_sound_def views_of_Some view_grows_def\<close>)
  with assms(1) i show "rows_sound key vw (AList.update i q s)" by (rule rows_sound_update)
  show "views_grow (views_of vw s) (views_of vw (AList.update i q s))"
    unfolding views_of_update by (rule views_grow_update) (use assms in \<open>auto simp: views_of_Some\<close>)
qed

lemma claim_row:
  assumes s: "rows_sound key vw s" "map_of s i = Some r" and q: "key q = key r" "view_grows (vw r) (vw q)"
    and free: "\<And>c. c \<in> set (map snd s) \<Longrightarrow> key c \<noteq> i \<Longrightarrow> mv_agent (vw c) = mv_agent (vw r) \<Longrightarrow>
      mv_execution_ref (vw c) \<noteq> mv_execution_ref (vw q)"
  shows "rows_sound key vw (AList.update i q s) \<and> views_grow (views_of vw s) (views_of vw (AList.update i q s))"
proof
  have "mv_execution_ref v \<noteq> mv_execution_ref (vw q)"
    if "j \<noteq> i" "views_of vw s j = Some v" "mv_agent v = mv_agent (vw q)" for j v
  proof -
    note j = that
    obtain c where c: "map_of s j = Some c" "v = vw c" using j(2) by (auto simp: views_of_def)
    then have "c \<in> set (map snd s)" "key c = j" using map_of_SomeD [OF c(1)] s(1) by (force simp: rows_sound_def)+
    then show ?thesis using free [of c] j c(2) q(2) by (simp add: view_grows_def)
  qed
  then have "one_holder (views_of vw (AList.update i q s))"
    unfolding views_of_update using s(1) by (intro one_holder_claim) (auto simp: rows_sound_def)
  then show "rows_sound key vw (AList.update i q s)" using s q(1) by (intro rows_sound_update) (auto simp: rows_sound_def)
  show "views_grow (views_of vw s) (views_of vw (AList.update i q s))"
    unfolding views_of_update by (rule views_grow_update) (use s q in \<open>auto simp: views_of_Some\<close>)
qed

definition mem_view :: "mtp_record \<Rightarrow> mtp_view" where
  "mem_view r = \<lparr>mv_action_hash = mr_action_hash r, mv_agent = mq_agent_id (mr_request r),
     mv_execution_ref = mr_execution_ref r, mv_consumption_id = mr_consumption_id r\<rparr>"

definition pg_view :: "mtp_row \<Rightarrow> mtp_view" where
  "pg_view r = \<lparr>mv_action_hash = pm_action_hash r, mv_agent = pm_agent_id r,
     mv_execution_ref = pm_execution_ref r, mv_consumption_id = pm_consumption_id r\<rparr>"

lemmas view_defs = mem_view_def pg_view_def view_grows_def

interpretation mem_mtp: mtp_state_store "mem_save_authorization H" mem_get_authorization mem_claim_execution mem_mark_consumed
  mem_mark_complete "views_of mem_view" "rows_sound mr_decision_id mem_view"
proof
  fix s s' :: mtp_map and i h ref t r c x
  let ?grows = "\<lambda>s'. rows_sound mr_decision_id mem_view s' \<and> views_grow (views_of mem_view s) (views_of mem_view s')"
  show "rows_sound mr_decision_id mem_view s \<Longrightarrow> one_holder (views_of mem_view s)" by (simp add: rows_sound_def)
  show "snd (mem_get_authorization i s) = s" by (simp add: mem_get_authorization_def)
  show "mem_get_authorization i s = (Inr (Some r), s') \<Longrightarrow>
      \<exists>v. views_of mem_view s i = Some v \<and> mv_action_hash v = mr_action_hash r \<and> mv_execution_ref v = mr_execution_ref r \<and>
        mv_consumption_id v = mr_consumption_id r"
    by (auto simp: mem_get_authorization_def views_of_def mem_view_def)
  show "rows_sound mr_decision_id mem_view s \<Longrightarrow> mr_execution_ref r = None \<Longrightarrow> ?grows (snd (mem_save_authorization H r s))"
    by (auto simp: mem_save_authorization_def view_defs dest: insert_row [where r = r] replace_row split: option.split)
  show "mem_save_authorization H r s = (Inr (), s') \<Longrightarrow> views_of mem_view s' (mr_decision_id r) \<noteq> None"
    by (auto simp: mem_save_authorization_def views_of_update split: option.splits if_splits)
  show "rows_sound mr_decision_id mem_view s \<Longrightarrow> ?grows (snd (mem_claim_execution i h ref s))"
    by (auto simp: mem_claim_execution_def view_defs list_ex_iff intro!: claim_row [where key = mr_decision_id, THEN conjunct1] claim_row [where key = mr_decision_id, THEN conjunct2] split: option.split)
  show "mem_claim_execution i h ref s = (Inr c, s') \<Longrightarrow> c \<in> {MtpClaimed, MtpClaimIdempotent} \<Longrightarrow> holds_execution (views_of mem_view s') i ref"
    by (auto simp: mem_claim_execution_def holds_execution_def views_of_update views_of_Some mem_view_def split: option.splits if_splits)
  show "rows_sound mr_decision_id mem_view s \<Longrightarrow> ?grows (snd (mem_mark_consumed i ref x s))"
    by (auto simp: mem_mark_consumed_def view_defs intro!: replace_row [where key = mr_decision_id, THEN conjunct1] replace_row [where key = mr_decision_id, THEN conjunct2] split: option.split)
  show "mem_mark_consumed i ref x s = (Inr (), s') \<Longrightarrow> checkpointed (views_of mem_view s') i ref"
    by (auto simp: mem_mark_consumed_def checkpointed_def views_of_update mem_view_def split: option.splits if_splits)
  show "rows_sound mr_decision_id mem_view s \<Longrightarrow> ?grows (snd (mem_mark_complete i ref t s))"
    by (auto simp: mem_mark_complete_def view_defs intro!: replace_row [where key = mr_decision_id, THEN conjunct1] replace_row [where key = mr_decision_id, THEN conjunct2] split: option.split)
qed

lemma mtp_record_from_row_fields:
  assumes "mtp_record_from_row F q = Inr r"
  shows "mr_action_hash r = pm_action_hash q \<and> mr_execution_ref r = pm_execution_ref q \<and> mr_consumption_id r = pm_consumption_id q"
  using assms by (auto simp: mtp_record_from_row_def bind_sum_Inr split: option.splits)

interpretation pg_mtp: mtp_state_store "pg_save_authorization T" "pg_get_authorization F" pg_claim_execution "pg_mark_consumed T"
  "pg_mark_complete T" "views_of pg_view" "rows_sound pm_decision_id pg_view"
proof
  fix s s' :: mtp_table and i h ref t r c x
  let ?grows = "\<lambda>s'. rows_sound pm_decision_id pg_view s' \<and> views_grow (views_of pg_view s) (views_of pg_view s')"
  show "rows_sound pm_decision_id pg_view s \<Longrightarrow> one_holder (views_of pg_view s)" by (simp add: rows_sound_def)
  show "snd (pg_get_authorization F i s) = s" by (simp add: pg_get_authorization_def split: option.split sum.split)
  show "pg_get_authorization F i s = (Inr (Some r), s') \<Longrightarrow>
      \<exists>v. views_of pg_view s i = Some v \<and> mv_action_hash v = mr_action_hash r \<and> mv_execution_ref v = mr_execution_ref r \<and>
        mv_consumption_id v = mr_consumption_id r"
    by (auto simp: pg_get_authorization_def views_of_def pg_view_def dest: mtp_record_from_row_fields split: option.splits sum.splits)
  show "rows_sound pm_decision_id pg_view s \<Longrightarrow> mr_execution_ref r = None \<Longrightarrow> ?grows (snd (pg_save_authorization T r s))"
    by (auto simp: pg_save_authorization_def view_defs intro!: insert_row [where key = pm_decision_id, THEN conjunct1] insert_row [where key = pm_decision_id, THEN conjunct2] split: option.split)
  show "pg_save_authorization T r s = (Inr (), s') \<Longrightarrow> views_of pg_view s' (mr_decision_id r) \<noteq> None"
    by (auto simp: pg_save_authorization_def views_of_update views_of_Some split: option.splits if_splits)
  show "rows_sound pm_decision_id pg_view s \<Longrightarrow> ?grows (snd (pg_claim_execution i h ref s))"
    by (auto simp: pg_claim_execution_def view_defs list_ex_iff intro!: claim_row [where key = pm_decision_id, THEN conjunct1] claim_row [where key = pm_decision_id, THEN conjunct2] split: option.split)
  show "pg_claim_execution i h ref s = (Inr c, s') \<Longrightarrow> c \<in> {MtpClaimed, MtpClaimIdempotent} \<Longrightarrow> holds_execution (views_of pg_view s') i ref"
    by (auto simp: pg_claim_execution_def holds_execution_def views_of_update views_of_Some pg_view_def split: option.splits if_splits)
  show "rows_sound pm_decision_id pg_view s \<Longrightarrow> ?grows (snd (pg_mark_consumed T i ref x s))"
    by (auto simp: pg_mark_consumed_def view_defs intro!: replace_row [where key = pm_decision_id, THEN conjunct1] replace_row [where key = pm_decision_id, THEN conjunct2] split: option.split)
  show "pg_mark_consumed T i ref x s = (Inr (), s') \<Longrightarrow> checkpointed (views_of pg_view s') i ref"
    by (auto simp: pg_mark_consumed_def checkpointed_def views_of_update pg_view_def split: option.splits if_splits)
  show "rows_sound pm_decision_id pg_view s \<Longrightarrow> ?grows (snd (pg_mark_complete T i ref t s))"
    by (auto simp: pg_mark_complete_def view_defs intro!: replace_row [where key = pm_decision_id, THEN conjunct1] replace_row [where key = pm_decision_id, THEN conjunct2] split: option.split)
qed

end
