(* ===== verification/MtpProvider.thy ===== *)
theory MtpProvider
  imports MtpStore
begin

section \<open>The composite provider with MTP authority\<close>

text \<open>
  \<open>mtp-authority/src/provider.ts\<close>: a decision provider that asks an inner provider for the decision
  and the MTP service for authority, and consumes the authority first, with a checkpoint in the
  state store, before it consumes the decision. The inner provider, the client's service and the store
  are operations on one state. The locale \<open>mtp_composite\<close> adds to the contract of the store that
  the inner provider and the service do not touch it. Facts: the inner provider's consumption runs only
  after the evidence of this decision and execution is in the store, and over any history a decision is
  consumed for one execution and an execution of an agent by one decision.
\<close>

subsection \<open>The provider\<close>

record 's mtp_ops =
  mo_evaluate :: "action \<Rightarrow> (error, 's, decision) io"
  mo_issue_block :: "action \<Rightarrow> reason_code list \<Rightarrow> (error, 's, decision) io"
  mo_resolve :: "(resolve_input \<Rightarrow> (error, 's, resolve_result) io) option"
  mo_resolve_with :: "resolve_input \<Rightarrow> action \<Rightarrow> (error, 's, resolve_result) io"
  mo_consume :: "consume_input \<Rightarrow> (error, 's, consume_result) io"
  mo_client :: "'s mtp_client"
  mo_save :: "mtp_record \<Rightarrow> (error, 's, unit) io"
  mo_get :: "string \<Rightarrow> (error, 's, mtp_record option) io"
  mo_claim :: "string \<Rightarrow> string \<Rightarrow> string \<Rightarrow> (error, 's, mtp_claim) io"
  mo_mark :: "string \<Rightarrow> string \<Rightarrow> mtp_receipt \<Rightarrow> (error, 's, unit) io"
  mo_complete :: "string \<Rightarrow> string \<Rightarrow> string \<Rightarrow> (error, 's, unit) io"

definition mtp_reject :: "consume_input \<Rightarrow> reason_code \<Rightarrow> consume_result" where
  "mtp_reject i r =
     \<lparr>cr_success = False, cr_status = (if r = NONCE_ALREADY_CONSUMED then Conflict else Rejected),
      cr_decision_id = co_decision_id i, cr_execution_ref = co_execution_ref i, cr_consumed_at = None, cr_reason = Some r\<rparr>"

text \<open>The nonce and the instant are those the client draws for its request.\<close>

definition authorise_and_save ::
  "host \<Rightarrow> mtp_formats \<Rightarrow> 's mtp_ops \<Rightarrow> string \<Rightarrow> int \<Rightarrow> action \<Rightarrow> decision \<Rightarrow> (error, 's, unit) io" where
  "authorise_and_save H F M nonce now a d =
     bind_io (mtp_authorize H F (mo_client M) nonce now a d) (\<lambda>r. mo_save M r)"

definition composite_evaluate ::
  "host \<Rightarrow> mtp_formats \<Rightarrow> 's mtp_ops \<Rightarrow> string \<Rightarrow> int \<Rightarrow> action \<Rightarrow> (error, 's, decision) io" where
  "composite_evaluate H F M nonce now a =
     bind_io (mo_evaluate M a) (\<lambda>d.
     if d_verdict d \<noteq> ALLOW then ret d
     else bind_io (authorise_and_save H F M nonce now a d) (\<lambda>_. ret d))"

definition authorise_result ::
  "host \<Rightarrow> mtp_formats \<Rightarrow> 's mtp_ops \<Rightarrow> string \<Rightarrow> int \<Rightarrow> action \<Rightarrow> resolve_result \<Rightarrow> (error, 's, resolve_result) io" where
  "authorise_result H F M nonce now a r =
     (case rr_decision r of
        None \<Rightarrow> ret r
      | Some d \<Rightarrow>
          if d_verdict d \<noteq> ALLOW then ret r
          else bind_io (authorise_and_save H F M nonce now a d) (\<lambda>_. ret r))"

text \<open>The action read back from a decision, which has no extensions.\<close>

definition action_of_decision :: "decision \<Rightarrow> action" where
  "action_of_decision d =
     \<lparr>a_principal_id = d_principal_id d, a_agent_id = d_agent_id d, a_rail = d_rail d, a_reference = d_reference d,
      a_transaction = d_transaction d, a_extensions = None\<rparr>"

definition composite_resolve ::
  "host \<Rightarrow> mtp_formats \<Rightarrow> 's mtp_ops \<Rightarrow> string \<Rightarrow> int \<Rightarrow> resolve_input \<Rightarrow> (error, 's, resolve_result) io" where
  "composite_resolve H F M nonce now i =
     (case mo_resolve M of
        None \<Rightarrow> ret \<lparr>rr_success = False, rr_status = ResolveRejected, rr_decision_id = ri_decision_id i, rr_decision = None,
                     rr_reason = Some APPROVAL_NOT_PENDING\<rparr>
      | Some resolve \<Rightarrow>
          bind_io (resolve i) (\<lambda>r.
          case rr_decision r of
            None \<Rightarrow> ret r
          | Some d \<Rightarrow>
              bind_io (lift_io (check_action H (action_of_decision d))) (\<lambda>a.
              authorise_result H F M nonce now a r)))"

definition composite_resolve_with ::
  "host \<Rightarrow> mtp_formats \<Rightarrow> 's mtp_ops \<Rightarrow> string \<Rightarrow> int \<Rightarrow> resolve_input \<Rightarrow> action \<Rightarrow> (error, 's, resolve_result) io" where
  "composite_resolve_with H F M nonce now i a =
     bind_io (mo_resolve_with M i a) (\<lambda>r. authorise_result H F M nonce now a r)"

text \<open>The authority is consumed and recorded, unless it was before; a rejection by MTP ends the call.\<close>

definition consume_authority :: "'s mtp_ops \<Rightarrow> consume_input \<Rightarrow> mtp_record \<Rightarrow> (error, 's, consume_result option) io" where
  "consume_authority M i r =
     (if mr_consumption_id r \<noteq> None then ret None
      else catch_io
        (bind_io (mtp_consume (mo_client M) r (co_execution_ref i)) (\<lambda>x.
         bind_io (mo_mark M (co_decision_id i) (co_execution_ref i) x) (\<lambda>_. ret None)))
        (\<lambda>e. if error_name e = ''MtpConsumptionRejectedError'' then ret (Some (mtp_reject i DECISION_NOT_ALLOW)) else throw e))"

definition finish_consumption :: "'s mtp_ops \<Rightarrow> int \<Rightarrow> consume_input \<Rightarrow> (error, 's, consume_result) io" where
  "finish_consumption M now i =
     bind_io (mo_consume M i) (\<lambda>r.
     if cr_success r
     then (case to_iso_string now of
             None \<Rightarrow> throw (JsError ''RangeError'' ''Invalid time value'')
           | Some t \<Rightarrow> bind_io (mo_complete M (co_decision_id i) (co_execution_ref i) t) (\<lambda>_. ret r))
     else ret r)"

definition composite_consume :: "'s mtp_ops \<Rightarrow> int \<Rightarrow> consume_input \<Rightarrow> (error, 's, consume_result) io" where
  "composite_consume M now i =
     (if blank (co_execution_ref i) \<or> 512 < length (co_execution_ref i) then ret (mtp_reject i DECISION_NOT_ALLOW)
      else bind_io (mo_get M (co_decision_id i)) (\<lambda>found.
      case found of
        None \<Rightarrow> ret (mtp_reject i DECISION_SERVICE_UNAVAILABLE)
      | Some r0 \<Rightarrow>
          if mr_action_hash r0 \<noteq> co_action_hash i then ret (mtp_reject i ACTION_HASH_MISMATCH)
          else bind_io (mo_claim M (co_decision_id i) (co_action_hash i) (co_execution_ref i)) (\<lambda>c.
          if c = MtpClaimMissing then ret (mtp_reject i DECISION_SERVICE_UNAVAILABLE)
          else if c = MtpClaimConflict then ret (mtp_reject i NONCE_ALREADY_CONSUMED)
          else bind_io (mo_get M (co_decision_id i)) (\<lambda>again.
          case again of
            None \<Rightarrow> ret (mtp_reject i DECISION_SERVICE_UNAVAILABLE)
          | Some r \<Rightarrow>
              bind_io (consume_authority M i r) (\<lambda>early.
              case early of Some x \<Rightarrow> ret x | None \<Rightarrow> finish_consumption M now i)))))"

subsection \<open>Histories\<close>

datatype mtp_call =
    MtpEvaluate string int action
  | MtpIssueBlock action "reason_code list"
  | MtpResolve string int resolve_input
  | MtpResolveWith string int resolve_input action
  | MtpConsume int consume_input

fun composite_step :: "host \<Rightarrow> mtp_formats \<Rightarrow> 's mtp_ops \<Rightarrow> mtp_call \<Rightarrow> (error, 's, provider_outcome) io" where
  "composite_step H F M (MtpEvaluate n t a) = bind_io (composite_evaluate H F M n t a) (\<lambda>d. ret (Issued d))"
| "composite_step H F M (MtpIssueBlock a rs) = bind_io (mo_issue_block M a rs) (\<lambda>d. ret (Issued d))"
| "composite_step H F M (MtpResolve n t i) = bind_io (composite_resolve H F M n t i) (\<lambda>x. ret (Resolved x))"
| "composite_step H F M (MtpResolveWith n t i a) = bind_io (composite_resolve_with H F M n t i a) (\<lambda>x. ret (Resolved x))"
| "composite_step H F M (MtpConsume t i) = bind_io (composite_consume M t i) (\<lambda>x. ret (ConsumeOutcome x))"

subsection \<open>What the composition guarantees\<close>

definition mtp_order :: "('s \<Rightarrow> mtp_views) \<Rightarrow> ('s \<Rightarrow> bool) \<Rightarrow> 's \<Rightarrow> 's \<Rightarrow> bool" where
  "mtp_order views sound s s' \<longleftrightarrow> (sound s \<longrightarrow> sound s' \<and> views_grow (views s) (views s'))"

lemma mtp_order_order: "state_order (mtp_order views sound)"
  by (auto simp: state_order_def mtp_order_def intro: views_grow_trans)

locale mtp_composite =
  mtp_state_store "mo_save M" "mo_get M" "mo_claim M" "mo_mark M" "mo_complete M" views sound
  for M :: "'s mtp_ops" and views :: "'s \<Rightarrow> mtp_views" and sound :: "'s \<Rightarrow> bool" +
  fixes consumed_inside :: "'s \<Rightarrow> consume_input list"
  assumes evaluate_frame: "keeps (\<lambda>s s'. views s' = views s \<and> sound s' = sound s) (mo_evaluate M a)"
    and block_frame: "keeps (\<lambda>s s'. views s' = views s \<and> sound s' = sound s) (mo_issue_block M a rs)"
    and resolve_frame: "mo_resolve M = Some f \<Longrightarrow> keeps (\<lambda>s s'. views s' = views s \<and> sound s' = sound s) (f ri)"
    and resolve_with_frame: "keeps (\<lambda>s s'. views s' = views s \<and> sound s' = sound s) (mo_resolve_with M ri a)"
    and consume_frame: "views (snd (mo_consume M i s)) = views s \<and> sound (snd (mo_consume M i s)) = sound s"
    and service_frame: "views (snd (mc_fetch (mo_client M) path body s)) = views s \<and>
      sound (snd (mc_fetch (mo_client M) path body s)) = sound s \<and>
      consumed_inside (snd (mc_fetch (mo_client M) path body s)) = consumed_inside s"
    and consume_logs: "consumed_inside (snd (mo_consume M i s)) = consumed_inside s @ [i]"
    and claim_quiet: "consumed_inside (snd (mo_claim M d h ref s)) = consumed_inside s"
    and mark_quiet: "consumed_inside (snd (mo_mark M d ref x s)) = consumed_inside s"
    and complete_quiet: "consumed_inside (snd (mo_complete M d ref t s)) = consumed_inside s"
begin

abbreviation grows :: "'s \<Rightarrow> 's \<Rightarrow> bool" where
  "grows \<equiv> mtp_order views sound"

lemma grows_order: "state_order grows"
  by (rule mtp_order_order)

lemma keeps_weaken: "keeps (\<lambda>s s'. views s' = views s \<and> sound s' = sound s) m \<Longrightarrow> keeps grows m"
  by (simp add: keeps_def mtp_order_def)

lemma post_keeps: "keeps grows (mtp_post (mo_client M) path body)"
  unfolding keeps_def
proof
  fix s
  obtain r s' where "mtp_post (mo_client M) path body s = (r, s')" by fastforce
  with mtp_post_state [OF this] service_frame [of path body s]
  show "grows s (snd (mtp_post (mo_client M) path body s))" by (simp add: mtp_order_def)
qed

lemma store_keeps:
  "keeps grows (mo_get M i)" "keeps grows (mo_claim M i h ref)" "keeps grows (mo_mark M i ref x)"
  "keeps grows (mo_complete M i ref t)"
  using get_state claim_law mark_law complete_law by (simp_all add: keeps_def mtp_order_def)

lemma authorise_keeps: "keeps grows (authorise_and_save H F M nonce now a d)"
  unfolding keeps_def
proof
  fix s
  have k: "keeps grows (mtp_authorize H F (mo_client M) nonce now a d)"
    unfolding mtp_authorize_def by (intro keeps_intros grows_order post_keeps)
  show "grows s (snd (authorise_and_save H F M nonce now a d s))"
  proof (cases "mtp_authorize H F (mo_client M) nonce now a d s")
    case (Pair r s1)
    have g: "grows s s1" by (rule keepsD [OF k Pair])
    show ?thesis
    proof (cases r)
      case (Inl e)
      with Pair g show ?thesis by (simp add: authorise_and_save_def bind_io_apply)
    next
      case (Inr x)
      have "mr_execution_ref x = None" using mtp_authorize_record [of H F "mo_client M" nonce now a d s x s1] Pair Inr by auto
      with save_law [of s1 x] have "grows s1 (snd (mo_save M x s1))" by (simp add: mtp_order_def)
      with g Pair Inr grows_order show ?thesis by (auto simp: authorise_and_save_def bind_io_apply state_order_def)
    qed
  qed
qed

lemma authority_keeps: "keeps grows (consume_authority M i r)"
  unfolding consume_authority_def mtp_consume_def by (intro keeps_intros grows_order post_keeps store_keeps)

lemma finish_keeps: "keeps grows (finish_consumption M now i)"
  unfolding finish_consumption_def
  by (intro keeps_intros grows_order store_keeps keeps_weaken) (simp add: keeps_def consume_frame)

lemma consume_keeps: "keeps grows (composite_consume M now i)"
  unfolding composite_consume_def
  by (intro keeps_intros grows_order store_keeps authority_keeps finish_keeps)

lemma step_keeps: "keeps grows (composite_step H F M c)"
proof (cases c)
  case (MtpEvaluate n t a)
  then show ?thesis unfolding MtpEvaluate composite_step.simps composite_evaluate_def
    by (intro keeps_intros grows_order authorise_keeps keeps_weaken evaluate_frame)
next
  case (MtpIssueBlock a rs)
  then show ?thesis unfolding MtpIssueBlock composite_step.simps
    by (intro keeps_intros grows_order keeps_weaken block_frame)
next
  case (MtpResolve n t i)
  then show ?thesis unfolding MtpResolve composite_step.simps composite_resolve_def authorise_result_def
    by (intro keeps_intros grows_order authorise_keeps keeps_weaken resolve_frame)
next
  case (MtpResolveWith n t i a)
  then show ?thesis unfolding MtpResolveWith composite_step.simps composite_resolve_with_def authorise_result_def
    by (intro keeps_intros grows_order authorise_keeps keeps_weaken resolve_with_frame)
next
  case (MtpConsume t i)
  then show ?thesis unfolding MtpConsume composite_step.simps by (intro keeps_intros grows_order consume_keeps)
qed


text \<open>What one consumption does.\<close>

lemma authority_outcome:
  assumes "consume_authority M i r s = (q, s')"
  shows "consumed_inside s' = consumed_inside s \<and> (\<forall>x. q = Inr (Some x) \<longrightarrow> \<not> cr_success x) \<and>
    (q = Inr None \<longrightarrow> s' = s \<and> mr_consumption_id r \<noteq> None \<or> checkpointed (views s') (co_decision_id i) (co_execution_ref i))"
proof (cases "mr_consumption_id r = None")
  case False
  with assms show ?thesis by (auto simp: consume_authority_def)
next
  case True
  let ?m = "bind_io (mtp_consume (mo_client M) r (co_execution_ref i)) (\<lambda>x.
         bind_io (mo_mark M (co_decision_id i) (co_execution_ref i) x) (\<lambda>_. ret (None :: consume_result option)))"
  obtain p s1 where p: "?m s = (p, s1)" by fastforce
  have post: "keeps (\<lambda>s s'. consumed_inside s' = consumed_inside s) (mtp_post (mo_client M) path body)" for path body
    unfolding keeps_def by (metis mtp_post_state service_frame prod.collapse)
  have quiet: "keeps (\<lambda>s s'. consumed_inside s' = consumed_inside s) ?m"
    unfolding mtp_consume_def
    by (intro keeps_intros post) (auto simp: state_order_def keeps_def mark_quiet)
  have s1: "consumed_inside s1 = consumed_inside s" using keepsD [OF quiet p] .
  show ?thesis
  proof (cases p)
    case (Inl e)
    with True assms p s1 show ?thesis
      by (auto simp: consume_authority_def catch_io_apply mtp_reject_def split: if_splits)
  next
    case (Inr x)
    then have "x = None \<and> checkpointed (views s1) (co_decision_id i) (co_execution_ref i)"
      using p by (auto simp: bind_io_Inr dest: marked)
    with True assms p s1 Inr show ?thesis by (auto simp: consume_authority_def catch_io_apply)
  qed
qed

lemma finish_outcome:
  assumes "finish_consumption M now i s = (r, s')"
  shows "consumed_inside s' = consumed_inside s @ [i] \<and>
    (\<forall>x. r = Inr x \<longrightarrow> (\<exists>s1. mo_consume M i s = (Inr x, s1)))"
proof -
  obtain q s1 where q: "mo_consume M i s = (q, s1)" by fastforce
  then have s1: "consumed_inside s1 = consumed_inside s @ [i]" using consume_logs [of i s] by simp
  show ?thesis
  proof (cases q)
    case (Inl e)
    with assms q s1 show ?thesis by (auto simp: finish_consumption_def bind_io_apply)
  next
    case (Inr x)
    show ?thesis
    proof (cases "cr_success x \<and> to_iso_string now \<noteq> None")
      case True
      then obtain t where t: "to_iso_string now = Some t" by auto
      obtain u s2 where u: "mo_complete M (co_decision_id i) (co_execution_ref i) t s1 = (u, s2)" by fastforce
      with complete_quiet [of "co_decision_id i" "co_execution_ref i" t s1] s1
      have "consumed_inside s2 = consumed_inside s @ [i]" by simp
      with assms q Inr True t u show ?thesis
        by (cases u) (auto simp: finish_consumption_def bind_io_apply)
    next
      case False
      with assms q Inr s1 show ?thesis
        by (auto simp: finish_consumption_def bind_io_apply split: if_splits option.splits)
    qed
  qed
qed

text \<open>The inner provider consumes only a decision whose authority has been consumed, for this execution,
  and recorded; without that the call does not succeed.\<close>

lemma consume_outcome:
  assumes "composite_consume M now i s = (r, s')" "sound s"
  shows "consumed_inside s' = consumed_inside s \<and> (\<forall>x. r = Inr x \<longrightarrow> \<not> cr_success x) \<or>
    (\<exists>s2. checkpointed (views s2) (co_decision_id i) (co_execution_ref i) \<and>
       map_option mv_action_hash (views s2 (co_decision_id i)) = Some (co_action_hash i) \<and>
       grows s s2 \<and> consumed_inside s2 = consumed_inside s \<and> finish_consumption M now i s2 = (r, s'))"
  (is "?rejected r s' \<or> ?reached")
proof -
  let ?d = "co_decision_id i" and ?ref = "co_execution_ref i"
  have reject: "\<not> cr_success (mtp_reject i c)" for c by (simp add: mtp_reject_def)
  show ?thesis
  proof (cases "\<exists>r0. mo_get M ?d s = (Inr (Some r0), s) \<and> mr_action_hash r0 = co_action_hash i \<and> \<not> (blank ?ref \<or> 512 < length ?ref)")
    case False
    obtain q s0 where q: "mo_get M ?d s = (q, s0)" by fastforce
    then have "s0 = s" using get_state [of ?d s] by simp
    with assms False q show ?thesis
      by (auto simp: composite_consume_def bind_io_apply reject split: if_splits sum.splits option.splits)
  next
    case True
    then obtain r0 where r0: "mo_get M ?d s = (Inr (Some r0), s)" "mr_action_hash r0 = co_action_hash i" "\<not> (blank ?ref \<or> 512 < length ?ref)"
      by blast
    obtain c s1 where c: "mo_claim M ?d (co_action_hash i) ?ref s = (c, s1)" by fastforce
    have s1: "sound s1" "views_grow (views s) (views s1)" "consumed_inside s1 = consumed_inside s"
      using claim_law [OF assms(2), of ?d "co_action_hash i" ?ref] claim_quiet [of ?d "co_action_hash i" ?ref s] c by simp_all
    obtain q s1' where q: "mo_get M ?d s1 = (q, s1')" by fastforce
    have "s1' = s1" using q get_state [of ?d s1] by simp
    note q = q [unfolded this]
    show ?thesis
    proof (cases "\<exists>x r. c = Inr x \<and> x \<in> {MtpClaimed, MtpClaimIdempotent} \<and> q = Inr (Some r)")
      case False
      have "x \<noteq> MtpClaimMissing \<Longrightarrow> x \<noteq> MtpClaimConflict \<Longrightarrow> x \<in> {MtpClaimed, MtpClaimIdempotent}" for x by (cases x) auto
      with assms(1) False r0 c q s1(3) show ?thesis
        by (auto simp: composite_consume_def bind_io_apply reject split: if_splits sum.splits option.splits)
    next
      case True
      then obtain x ra where x: "c = Inr x" "x \<in> {MtpClaimed, MtpClaimIdempotent}" "q = Inr (Some ra)" by blast
      have held: "holds_execution (views s1) ?d ?ref" using claimed [OF c [unfolded x(1)] x(2)] .
      obtain v where v: "views s1 ?d = Some v" "mv_consumption_id v = mr_consumption_id ra"
        using get_reads [of ?d s1 ra s1] q x(3) by auto
      obtain v0 where v0: "views s ?d = Some v0" "mv_action_hash v0 = co_action_hash i" using get_reads [OF r0(1)] r0(2) by auto
      obtain y s2 where y: "consume_authority M i ra s1 = (y, s2)" by fastforce
      note out = authority_outcome [OF y]
      have g2: "grows s1 s2" using keepsD [OF authority_keeps y] .
      then have g: "grows s s2" using s1 by (auto simp: mtp_order_def intro: views_grow_trans)
      have run: "composite_consume M now i s = (case y of Inl e \<Rightarrow> (Inl e, s2)
          | Inr e \<Rightarrow> (case e of Some z \<Rightarrow> (Inr z, s2) | None \<Rightarrow> finish_consumption M now i s2))"
        using r0 c x q y by (auto simp: composite_consume_def bind_io_apply split: sum.splits option.splits)
      show ?thesis
      proof (cases "y = Inr None")
        case False
        with run assms(1) out s1(3) show ?thesis by (auto split: sum.splits option.splits)
      next
        case True
        have "checkpointed (views s2) ?d ?ref"
        proof (cases "s2 = s1 \<and> mr_consumption_id ra \<noteq> None")
          case True
          with held v show ?thesis by (auto simp: holds_execution_def checkpointed_def)
        qed (use out \<open>y = Inr None\<close> in auto)
        moreover have "map_option mv_action_hash (views s2 ?d) = Some (co_action_hash i)"
        proof -
          from g assms(2) v0(1) obtain w where "views s2 ?d = Some w" "view_grows v0 w"
            unfolding mtp_order_def views_grow_def by blast
          with v0(2) show ?thesis by (simp add: view_grows_def)
        qed
        ultimately show ?thesis using True run assms(1) g out s1(3) by auto
      qed
    qed
  qed
qed


text \<open>Over any history: two successful consumptions of one decision are for one execution, and two
  decisions of one agent are never consumed for one execution.\<close>

lemma success_checkpointed:
  assumes "composite_consume M now i s = (Inr x, s')" "cr_success x" "sound s"
  shows "checkpointed (views s') (co_decision_id i) (co_execution_ref i) \<and> sound s' \<and>
    map_option mv_action_hash (views s' (co_decision_id i)) = Some (co_action_hash i)"
proof -
  have k: "grows s s'" by (rule keepsD [OF consume_keeps assms(1)])
  from consume_outcome [OF assms(1,3)] assms(2)
  obtain s2 where s2: "checkpointed (views s2) (co_decision_id i) (co_execution_ref i)"
    "map_option mv_action_hash (views s2 (co_decision_id i)) = Some (co_action_hash i)" "grows s s2"
    "finish_consumption M now i s2 = (Inr x, s')" by auto
  have "grows s2 s'" by (rule keepsD [OF finish_keeps s2(4)])
  with s2 assms(3) have g: "views_grow (views s2) (views s')" by (simp add: mtp_order_def)
  from s2(2) obtain w where w: "views s2 (co_decision_id i) = Some w" "mv_action_hash w = co_action_hash i" by auto
  with g obtain u where "views s' (co_decision_id i) = Some u" "view_grows w u" unfolding views_grow_def by blast
  with w k assms(3) g s2(1) show ?thesis by (auto simp: mtp_order_def view_grows_def intro: checkpointed_stays)
qed

lemma step_sound: "sound s \<Longrightarrow> sound (snd (composite_step H F M c s))"
  using step_keeps [of H F c] by (simp add: keeps_def mtp_order_def)

lemma step_stays: "sound s \<Longrightarrow> checkpointed (views s) d ref \<Longrightarrow> checkpointed (views (snd (composite_step H F M c s))) d ref"
  using step_keeps [of H F c] unfolding keeps_def mtp_order_def by (blast intro: checkpointed_stays)

lemma history_success:
  assumes run: "run_ops (composite_step H F M) cs s = (rs, s')" and s: "sound s"
    and n: "n < length cs" "cs ! n = MtpConsume t i" "rs ! n = Inr (ConsumeOutcome x)" "cr_success x"
  shows "checkpointed (views s') (co_decision_id i) (co_execution_ref i)"
proof -
  have order: "sound (state_at (composite_step H F M) cs s m)" for m
    by (rule state_at_invariant [where f = "composite_step H F M" and P = sound and i = 0])
      (simp_all add: s step_sound state_at_def)
  have "composite_step H F M (MtpConsume t i) (state_at (composite_step H F M) cs s n) =
      (Inr (ConsumeOutcome x), state_at (composite_step H F M) cs s (Suc n))"
    using run_ops_nth [OF run n(1)] n by simp
  then have "composite_consume M t i (state_at (composite_step H F M) cs s n) = (Inr x, state_at (composite_step H F M) cs s (Suc n))"
    by (auto simp: bind_io_Inr)
  from success_checkpointed [OF this n(4) order]
  have "checkpointed (views (state_at (composite_step H F M) cs s (Suc n))) (co_decision_id i) (co_execution_ref i)" by simp
  then have "sound (state_at (composite_step H F M) cs s (length cs)) \<and>
      checkpointed (views (state_at (composite_step H F M) cs s (length cs))) (co_decision_id i) (co_execution_ref i)"
    by (intro state_at_invariant [where f = "composite_step H F M" and i = "Suc n" and j = "length cs" and
          P = "\<lambda>s. sound s \<and> checkpointed (views s) (co_decision_id i) (co_execution_ref i)"])
      (use n(1) in \<open>simp_all add: step_sound step_stays order Suc_leI\<close>)
  then show ?thesis using run by (simp add: state_at_def)
qed

lemma one_execution_per_decision:
  assumes "run_ops (composite_step H F M) cs s = (rs, s')" "sound s"
    and "m < length cs" "cs ! m = MtpConsume t i" "rs ! m = Inr (ConsumeOutcome x)" "cr_success x"
    and "n < length cs" "cs ! n = MtpConsume u j" "rs ! n = Inr (ConsumeOutcome y)" "cr_success y"
    and "co_decision_id i = co_decision_id j"
  shows "co_execution_ref i = co_execution_ref j"
  using checkpointed_holds [OF history_success [OF assms(1,2,3,4,5,6)]]
    checkpointed_holds [OF history_success [OF assms(1,2,7,8,9,10)]] assms(11)
  by (auto dest: holds_execution_unique)

lemma one_decision_per_execution:
  assumes "run_ops (composite_step H F M) cs s = (rs, s')" "sound s"
    and "m < length cs" "cs ! m = MtpConsume t i" "rs ! m = Inr (ConsumeOutcome x)" "cr_success x"
    and "n < length cs" "cs ! n = MtpConsume u j" "rs ! n = Inr (ConsumeOutcome y)" "cr_success y"
    and "co_execution_ref i = co_execution_ref j"
    and "map_option mv_agent (views s' (co_decision_id i)) = map_option mv_agent (views s' (co_decision_id j))"
  shows "co_decision_id i = co_decision_id j"
proof (rule execution_has_one_decision [of s'])
  show "sound s'"
    by (rule run_ops_invariant [where f = "composite_step H F M" and P = sound, OF _ assms(2,1)])
      (rule step_sound)
  show "holds_execution (views s') (co_decision_id i) (co_execution_ref i)"
    by (rule checkpointed_holds [OF history_success [OF assms(1,2,3,4,5,6)]])
  show "holds_execution (views s') (co_decision_id j) (co_execution_ref i)"
    using checkpointed_holds [OF history_success [OF assms(1,2,7,8,9,10)]] assms(11) by simp
qed (rule assms(12))

end

subsection \<open>Approvals of actions with extensions\<close>

text \<open>\<open>resolveApproval\<close> authorises the action it reads back from the decision. If the decision was made for
  an action with extensions the hashes differ: the call fails after the inner provider has resolved
  the approval, and no authority is stored. \<open>resolveApprovalWithAction\<close> is the call for such actions.\<close>

lemma resolve_without_extensions_fails:
  assumes "mo_resolve M = Some resolve" "resolve i s = (Inr r, s1)" "rr_decision r = Some d" "d_verdict d = ALLOW"
    and "decision_ok H d" "action_ok H (action_of_decision d)"
    and "d_action_hash d \<noteq> hash_canonical H (action_json (action_of_decision d))"
  shows "composite_resolve H F M nonce now i s =
    (Inl (JsError ''TypeError'' ''The MTP authorization decision is not bound to the supplied action''), s1)"
  using assms
  by (simp add: composite_resolve_def bind_io_apply authorise_result_def authorise_and_save_def mtp_authorize_def
      action_to_mtp_payload_def check_action_def check_decision_def)

subsection \<open>A world over either store\<close>

text \<open>An inner provider, a state store and a service with states of their own, and the log of the inner
  provider's consumptions.\<close>

record ('p, 't, 'w) mtp_world =
  mw_inner :: 'p
  mw_store :: 't
  mw_service :: 'w
  mw_consumed :: "consume_input list"

record 'p inner_provider =
  in_evaluate :: "action \<Rightarrow> (error, 'p, decision) io"
  in_issue_block :: "action \<Rightarrow> reason_code list \<Rightarrow> (error, 'p, decision) io"
  in_resolve :: "(resolve_input \<Rightarrow> (error, 'p, resolve_result) io) option"
  in_resolve_with :: "resolve_input \<Rightarrow> action \<Rightarrow> (error, 'p, resolve_result) io"
  in_consume :: "consume_input \<Rightarrow> (error, 'p, consume_result) io"

definition log_consume :: "'p inner_provider \<Rightarrow> consume_input \<Rightarrow> (error, ('p, 't, 'w) mtp_world, consume_result) io" where
  "log_consume N i s = on_part mw_inner mw_inner_update (in_consume N i) (s\<lparr>mw_consumed := mw_consumed s @ [i]\<rparr>)"

definition world_client :: "'w mtp_client \<Rightarrow> ('p, 't, 'w) mtp_world mtp_client" where
  "world_client C = \<lparr>mc_agent_id = mc_agent_id C, mc_signer = mc_signer C, mc_policy_hash = mc_policy_hash C,
     mc_fetch = (\<lambda>path body s. case mc_fetch C path body (mw_service s) of (x, w) \<Rightarrow> (x, s\<lparr>mw_service := w\<rparr>))\<rparr>"

definition memory_mtp :: "host \<Rightarrow> 'p inner_provider \<Rightarrow> 'w mtp_client \<Rightarrow> ('p, mtp_map, 'w) mtp_world mtp_ops" where
  "memory_mtp H N C =
     \<lparr>mo_evaluate = (\<lambda>a. on_part mw_inner mw_inner_update (in_evaluate N a)),
      mo_issue_block = (\<lambda>a rs. on_part mw_inner mw_inner_update (in_issue_block N a rs)),
      mo_resolve = map_option (\<lambda>f i. on_part mw_inner mw_inner_update (f i)) (in_resolve N),
      mo_resolve_with = (\<lambda>i a. on_part mw_inner mw_inner_update (in_resolve_with N i a)),
      mo_consume = log_consume N, mo_client = world_client C,
      mo_save = (\<lambda>r. on_part mw_store mw_store_update (mem_save_authorization H r)),
      mo_get = (\<lambda>i. on_part mw_store mw_store_update (mem_get_authorization i)),
      mo_claim = (\<lambda>i h ref. on_part mw_store mw_store_update (mem_claim_execution i h ref)),
      mo_mark = (\<lambda>i ref x. on_part mw_store mw_store_update (mem_mark_consumed i ref x)),
      mo_complete = (\<lambda>i ref t. on_part mw_store mw_store_update (mem_mark_complete i ref t))\<rparr>"

definition postgres_mtp :: "mtp_formats \<Rightarrow> pg_types \<Rightarrow> 'p inner_provider \<Rightarrow> 'w mtp_client \<Rightarrow> ('p, mtp_table, 'w) mtp_world mtp_ops" where
  "postgres_mtp F T N C =
     \<lparr>mo_evaluate = (\<lambda>a. on_part mw_inner mw_inner_update (in_evaluate N a)),
      mo_issue_block = (\<lambda>a rs. on_part mw_inner mw_inner_update (in_issue_block N a rs)),
      mo_resolve = map_option (\<lambda>f i. on_part mw_inner mw_inner_update (f i)) (in_resolve N),
      mo_resolve_with = (\<lambda>i a. on_part mw_inner mw_inner_update (in_resolve_with N i a)),
      mo_consume = log_consume N, mo_client = world_client C,
      mo_save = (\<lambda>r. on_part mw_store mw_store_update (pg_save_authorization T r)),
      mo_get = (\<lambda>i. on_part mw_store mw_store_update (pg_get_authorization F i)),
      mo_claim = (\<lambda>i h ref. on_part mw_store mw_store_update (pg_claim_execution i h ref)),
      mo_mark = (\<lambda>i ref x. on_part mw_store mw_store_update (pg_mark_consumed T i ref x)),
      mo_complete = (\<lambda>i ref t. on_part mw_store mw_store_update (pg_mark_complete T i ref t))\<rparr>"

lemma world_frames:
  "keeps (\<lambda>s s'. mw_store s' = mw_store s \<and> mw_consumed s' = mw_consumed s) (on_part mw_inner mw_inner_update m)"
  "mw_store (snd (log_consume N i s)) = mw_store s" "mw_consumed (snd (log_consume N i s)) = mw_consumed s @ [i]"
  "mw_store (snd (mc_fetch (world_client C) path body s)) = mw_store s"
  "mw_consumed (snd (mc_fetch (world_client C) path body s)) = mw_consumed s"
  by (simp_all add: keeps_def on_part_state log_consume_def world_client_def split: prod.split)

interpretation memory_mtp: mtp_composite "memory_mtp H N C" "\<lambda>s. views_of mem_view (mw_store s)"
  "\<lambda>s. rows_sound mr_decision_id mem_view (mw_store s)" mw_consumed
proof (intro mtp_composite.intro mtp_composite_axioms.intro mtp_state_store.intro)
qed (auto simp: memory_mtp_def keeps_def on_part_state on_part_result world_frames
    mem_mtp.sound_one_holder mem_mtp.get_state mem_mtp.save_law mem_mtp.claim_law mem_mtp.mark_law mem_mtp.complete_law
    dest: mem_mtp.get_reads mem_mtp.saved mem_mtp.claimed mem_mtp.marked)

interpretation postgres_mtp: mtp_composite "postgres_mtp F T N C" "\<lambda>s. views_of pg_view (mw_store s)"
  "\<lambda>s. rows_sound pm_decision_id pg_view (mw_store s)" mw_consumed
proof (intro mtp_composite.intro mtp_composite_axioms.intro mtp_state_store.intro)
qed (auto simp: postgres_mtp_def keeps_def on_part_state on_part_result world_frames
    pg_mtp.sound_one_holder pg_mtp.get_state pg_mtp.save_law pg_mtp.claim_law pg_mtp.mark_law pg_mtp.complete_law
    dest: pg_mtp.get_reads pg_mtp.saved pg_mtp.claimed pg_mtp.marked)

end
