(* ===== verification/MtpSamples.thy ===== *)
theory MtpSamples
  imports MtpProvider Samples
begin

section \<open>Concrete data for the MTP property\<close>

text \<open>A stored authorisation that is not yet claimed, an authority that confirms the consumption of its token, and an
  inner provider that consumes.\<close>

definition mtp_sample_hash :: string where
  "mtp_sample_hash = replicate 64 CHR ''b''"

definition mtp_sample_record :: mtp_record where
  "mtp_sample_record = \<lparr>mr_decision_id = ''decision-1'', mr_action_hash = sample_hash,
     mr_request = \<lparr>mq_agent_id = ''agent-1'', mq_payload = [], mq_nonce = ''n-1'', mq_timestamp = ''t-1'', mq_signature = ''c2ln'',
       mq_policy_hash = None\<rparr>,
     mr_mtp_hash = mtp_sample_hash, mr_token = ''token-1'', mr_audit_id = ''audit-1'', mr_authorized_at = ''t-1'',
     mr_execution_ref = None, mr_consumption_id = None, mr_consumption_status = None, mr_completed_at = None\<rparr>"

definition mtp_sample_reply :: json where
  "mtp_sample_reply = JObj [(''valid'', JBool True), (''verdict'', JStr ''approved''), (''agent_id'', JStr ''agent-1''),
     (''action_hash'', JStr mtp_sample_hash), (''action_hash_matches'', JBool True), (''consumption_audit_id'', JStr ''audit-2''),
     (''consumption_status'', JStr ''consumed''), (''execution_ref'', JStr ''run-1''), (''sandbox'', JBool False)]"

definition mtp_sample_client :: "unit mtp_client" where
  "mtp_sample_client = \<lparr>mc_agent_id = ''agent-1'', mc_signer = sample_signer, mc_policy_hash = None,
     mc_fetch = (\<lambda>path body s. (Reply 200 (Some mtp_sample_reply), s))\<rparr>"

definition mtp_sample_result :: consume_result where
  "mtp_sample_result = \<lparr>cr_success = True, cr_status = Consumed, cr_decision_id = ''decision-1'', cr_execution_ref = ''run-1'',
     cr_consumed_at = Some ''2023-11-14T22:13:20.000Z'', cr_reason = None\<rparr>"

definition mtp_inner :: "unit inner_provider" where
  "mtp_inner = \<lparr>in_evaluate = (\<lambda>_. throw ZodError), in_issue_block = (\<lambda>_ _. throw ZodError), in_resolve = None,
     in_resolve_with = (\<lambda>_ _. throw ZodError), in_consume = (\<lambda>_. ret mtp_sample_result)\<rparr>"

definition mtp_sample_world :: "(unit, mtp_map, unit) mtp_world" where
  "mtp_sample_world = \<lparr>mw_inner = (), mw_store = [(''decision-1'', mtp_sample_record)], mw_service = (), mw_consumed = []\<rparr>"

definition mtp_sample_consume :: consume_input where
  "mtp_sample_consume = \<lparr>co_decision_id = ''decision-1'', co_action_hash = sample_hash, co_execution_ref = ''run-1''\<rparr>"

abbreviation mtp_sample_ops :: "(unit, mtp_map, unit) mtp_world mtp_ops" where
  "mtp_sample_ops \<equiv> memory_mtp ref_host mtp_inner mtp_sample_client"

lemma mtp_sample_sound: "rows_sound mr_decision_id mem_view (mw_store mtp_sample_world)"
  by (simp add: rows_sound_def mtp_sample_world_def one_holder_def views_of_def mem_view_def mtp_sample_record_def)

lemma mtp_sample_hash_ok: "raw_hash_ok mtp_sample_hash"
  by code_simp

lemma mtp_sample_consumed:
  obtains s' where "composite_consume mtp_sample_ops sample_now mtp_sample_consume mtp_sample_world = (Inr mtp_sample_result, s')"
    and "mw_consumed s' = [mtp_sample_consume]"
proof -
  have t: "parse_mtp_token mtp_sample_reply = Some \<lparr>mt_valid = True, mt_verdict = Some ''approved'', mt_agent_id = Some ''agent-1'',
     mt_action_hash = Some mtp_sample_hash, mt_hash_matches = Some True, mt_audit_id = Some ''audit-2'',
     mt_status = Some MtpConsumed, mt_execution_ref = Some ''run-1'', mt_sandbox = Some False\<rparr>"
    by (simp add: parse_mtp_token_def mtp_sample_reply_def read_bool_def get_nullish_str_def get_nullish_bool_def
        get_mtp_status_def enum_read_def guard_opt_def mtp_sample_hash_ok)
  have "\<exists>s'. composite_consume mtp_sample_ops sample_now mtp_sample_consume mtp_sample_world = (Inr mtp_sample_result, s') \<and>
      mw_consumed s' = [mtp_sample_consume]"
    by (simp add: composite_consume_def mtp_sample_consume_def blank_def js_space_def bind_io_apply memory_mtp_def on_part_def
        mem_get_authorization_def mem_claim_execution_def mtp_sample_world_def mtp_sample_record_def consume_authority_def
        mtp_consume_def mtp_post_def world_client_def mtp_sample_client_def t check_token_def catch_io_apply mem_mark_consumed_def
        finish_consumption_def log_consume_def mtp_inner_def mtp_sample_result_def to_iso_string_four_digit mem_mark_complete_def
        ret_def)
  with that show ?thesis by blast
qed

end
