(* ===== verification/Kya.thy ===== *)
theory Kya
  imports PolicyEval Verifier
begin

section \<open>KYA authority: data, policy and bindings\<close>

text \<open>
  \<open>kya-os-authority/src/schemas.ts\<close>, \<open>policy.ts\<close>, \<open>errors.ts\<close>, \<open>mapper.ts\<close> and \<open>binding.ts\<close>: the
  presentation of an agent's authority, the authority policy, and the binding of verified (or rejected)
  authority, which is carried in a reserved extension of the action and so in its hash. Lemmas: attaching
  and removing the extension are inverse to each other and touch nothing else of the action; the
  strict mapper accepts only the payment profile.
\<close>

subsection \<open>Presentations\<close>

definition kya_extension_key :: string where
  "kya_extension_key = ''org.inntris/kya-os''"

record tool_request =
  tq_method :: string
  tq_params :: "json option"

definition tool_request_ok :: "tool_request \<Rightarrow> bool" where
  "tool_request_ok q \<longleftrightarrow> len_between 1 128 (tq_method q)"

definition tool_request_json :: "tool_request \<Rightarrow> json" where
  "tool_request_json q = JObj ((''method'', JStr (tq_method q)) # opt_field ''params'' (\<lambda>v. v) (tq_params q))"

datatype kya_credential = CredentialText string | CredentialObject "(string \<times> json) list"

datatype kya_profile = EntityCardV1 | LegacyV1

fun profile_string :: "kya_profile \<Rightarrow> string" where
  "profile_string EntityCardV1 = ''entity-card-v1''"
| "profile_string LegacyV1 = ''legacy-v1''"

text \<open>\<open>KyaAuthorityPresentationSchema\<close>, a union on the profile; parts of type \<open>unknown\<close> are JSON.\<close>

datatype kya_presentation =
    EntityCardPresentation (kp_request: tool_request) (kp_proof: "json option") (kp_chain: "json list")
      (kp_card: "json option") (kp_jkt: "string option")
  | LegacyPresentation (kp_request: tool_request) (kp_credential: kya_credential) (kp_audience: string)
      (kp_proof: "json option")

fun kp_profile :: "kya_presentation \<Rightarrow> kya_profile" where
  "kp_profile (EntityCardPresentation _ _ _ _ _) = EntityCardV1"
| "kp_profile (LegacyPresentation _ _ _ _) = LegacyV1"

fun presentation_ok :: "kya_presentation \<Rightarrow> bool" where
  "presentation_ok (EntityCardPresentation q pf ch cd jk) \<longleftrightarrow>
     tool_request_ok q \<and> 1 \<le> length ch \<and> length ch \<le> 10 \<and> (case jk of None \<Rightarrow> True | Some s \<Rightarrow> s \<noteq> [])"
| "presentation_ok (LegacyPresentation q cr au pf) \<longleftrightarrow>
     tool_request_ok q \<and> (case cr of CredentialText s \<Rightarrow> s \<noteq> [] | CredentialObject _ \<Rightarrow> True) \<and> au \<noteq> []"

fun presentation_json :: "kya_presentation \<Rightarrow> json" where
  "presentation_json (EntityCardPresentation q pf ch cd jk) = JObj
     ([(''profile'', JStr ''entity-card-v1''), (''request'', tool_request_json q)] @ opt_field ''request_proof'' (\<lambda>v. v) pf @
      [(''delegation_chain'', JArr ch)] @ opt_field ''entity_card'' (\<lambda>v. v) cd @ opt_field ''token_cnf_jkt'' JStr jk)"
| "presentation_json (LegacyPresentation q cr au pf) = JObj
     ([(''profile'', JStr ''legacy-v1''), (''request'', tool_request_json q),
       (''credential'', (case cr of CredentialText s \<Rightarrow> JStr s | CredentialObject fs \<Rightarrow> JObj fs)), (''audience'', JStr au)] @
      opt_field ''proof'' (\<lambda>v. v) pf)"

subsection \<open>The authority policy\<close>

datatype did_method = DidKey | DidWeb

fun did_method_string :: "did_method \<Rightarrow> string" where
  "did_method_string DidKey = ''did:key''"
| "did_method_string DidWeb = ''did:web''"

datatype assurance = L3Minus | L3

fun assurance_string :: "assurance \<Rightarrow> string" where
  "assurance_string L3Minus = ''L3-minus''"
| "assurance_string L3 = ''L3''"

text \<open>Resource, currency and payee bindings are pairs, the Inntris side first. The allowed actions are copies of
  the one literal \<open>payments.transfer\<close>, so their number is kept.\<close>

record kya_policy =
  yp_policy_id :: string
  yp_policy_version :: string
  yp_required :: bool
  yp_profiles :: "kya_profile list"
  yp_audiences :: "string list"
  yp_did_methods :: "did_method list"
  yp_responsible :: "string list"
  yp_actions :: nat
  yp_min_assurance :: assurance
  yp_fresh_revocation :: bool
  yp_require_max :: bool
  yp_max_depth :: int
  yp_card_principal :: bool
  yp_resources :: "(string \<times> string) list"
  yp_currencies :: "(string \<times> string) list"
  yp_payees :: "(string \<times> string) list option"

definition kya_policy_ok :: "host \<Rightarrow> kya_policy \<Rightarrow> bool" where
  "kya_policy_ok H p \<longleftrightarrow>
     len_between 1 128 (yp_policy_id p) \<and> len_between 1 64 (yp_policy_version p) \<and>
     yp_profiles p \<noteq> [] \<and> distinct (yp_profiles p) \<and>
     yp_audiences p \<noteq> [] \<and> list_all (\<lambda>s. s \<noteq> []) (yp_audiences p) \<and> distinct (yp_audiences p) \<and>
     yp_did_methods p \<noteq> [] \<and> distinct (yp_did_methods p) \<and>
     yp_responsible p \<noteq> [] \<and> list_all (\<lambda>s. s \<noteq> []) (yp_responsible p) \<and> distinct (yp_responsible p) \<and>
     1 \<le> yp_actions p \<and> 1 \<le> yp_max_depth p \<and> yp_max_depth p \<le> 10 \<and>
     yp_resources p \<noteq> [] \<and> list_all (\<lambda>(a, b). url_ok H a \<and> len_between 1 1024 b) (yp_resources p) \<and>
     distinct (map fst (yp_resources p)) \<and>
     yp_currencies p \<noteq> [] \<and> list_all (\<lambda>(a, b). len_between 1 128 a \<and> len_between 1 128 b) (yp_currencies p) \<and>
     distinct (map fst (yp_currencies p)) \<and>
     (case yp_payees p of None \<Rightarrow> True | Some bs \<Rightarrow> list_all (\<lambda>(a, b). len_between 1 512 a \<and> len_between 1 512 b) bs)"

definition pairs_json :: "string \<Rightarrow> string \<Rightarrow> (string \<times> string) list \<Rightarrow> json" where
  "pairs_json k l ps = JArr (map (\<lambda>(a, b). JObj [(k, JStr a), (l, JStr b)]) ps)"

definition kya_policy_json :: "kya_policy \<Rightarrow> json" where
  "kya_policy_json p = JObj
     ([(''version'', JNum 1), (''policy_id'', JStr (yp_policy_id p)), (''policy_version'', JStr (yp_policy_version p)),
       (''mode'', JStr (if yp_required p then ''required'' else ''optional'')),
       (''profiles'', strs_json (map profile_string (yp_profiles p))), (''expected_audiences'', strs_json (yp_audiences p)),
       (''accepted_did_methods'', strs_json (map did_method_string (yp_did_methods p))),
       (''responsible_parties'', strs_json (yp_responsible p)),
       (''allowed_actions'', strs_json (replicate (yp_actions p) ''payments.transfer'')),
       (''min_proof_assurance'', JStr (assurance_string (yp_min_assurance p))),
       (''require_fresh_revocation'', JBool (yp_fresh_revocation p)), (''require_max_amount'', JBool (yp_require_max p)),
       (''max_delegation_depth'', JNum (of_int (yp_max_depth p))),
       (''principal_source'', JStr (if yp_card_principal p then ''card_principal'' else ''responsible_party'')),
       (''resource_bindings'', pairs_json ''inntris_resource'' ''kya_invocation_target'' (yp_resources p)),
       (''currency_bindings'', pairs_json ''inntris_asset'' ''kya_currency'' (yp_currencies p))] @
      opt_field ''payee_bindings'' (pairs_json ''inntris_payee'' ''kya_payee'') (yp_payees p))"

definition hash_kya_policy :: "host \<Rightarrow> kya_policy \<Rightarrow> error + string" where
  "hash_kya_policy H p = (if kya_policy_ok H p then Inr (hash_canonical H (kya_policy_json p)) else Inl ZodError)"

definition did_method_of :: "string \<Rightarrow> did_method option" where
  "did_method_of did =
     (if take 8 did = ''did:key:'' then Some DidKey else if take 8 did = ''did:web:'' then Some DidWeb else None)"

subsection \<open>Failures\<close>

datatype kya_stage =
  StagePresentation | StageRequestProof | StageDelegationSignature | StageDelegation | StageRevocation | StageFinancialJoin | StageState

fun stage_string :: "kya_stage \<Rightarrow> string" where
  "stage_string StagePresentation = ''presentation''"
| "stage_string StageRequestProof = ''request_proof''"
| "stage_string StageDelegationSignature = ''delegation_signature''"
| "stage_string StageDelegation = ''delegation''"
| "stage_string StageRevocation = ''revocation''"
| "stage_string StageFinancialJoin = ''financial_join''"
| "stage_string StageState = ''state''"

text \<open>What the KYA code throws: a \<open>KyaAuthorityError\<close>, or anything else.\<close>

datatype kya_error = KyaFailure reason_code kya_stage string | OtherError error

fun as_kya_failure :: "kya_error \<Rightarrow> reason_code \<times> kya_stage" where
  "as_kya_failure (KyaFailure r st m) = (r, st)"
| "as_kya_failure (OtherError e) = (KYA_PRESENTATION_INVALID, StagePresentation)"

definition other :: "error + 'a \<Rightarrow> kya_error + 'a" where
  "other x = (case x of Inl e \<Rightarrow> Inl (OtherError e) | Inr y \<Rightarrow> Inr y)"

lemma other_Inr [simp]: "other x = Inr y \<longleftrightarrow> x = Inr y"
  by (cases x) (simp_all add: other_def)

lemma other_simps [simp]: "other (Inr y) = Inr y" "other (Inl e) = Inl (OtherError e)"
  by (simp_all add: other_def)

subsection \<open>The strict payment profile\<close>

record kya_payment =
  ky_amount :: string
  ky_currency :: string
  ky_payee :: string
  ky_resource :: string

definition kya_amount_ok :: "string \<Rightarrow> bool" where
  "kya_amount_ok s \<longleftrightarrow> canonical_decimal 6 s"

text \<open>\<open>KyaPaymentRequestV1Schema\<close> on a request, and the mapper.\<close>

definition parse_payment_request :: "tool_request \<Rightarrow> kya_payment option" where
  "parse_payment_request q = do {
     guard_opt (tq_method q = ''tools/call'') ();
     pv \<leftarrow> tq_params q; po \<leftarrow> strict_obj [''name'', ''arguments''] pv; get_lit po ''name'' ''payments.transfer'';
     av \<leftarrow> map_of po ''arguments''; ao \<leftarrow> strict_obj [''to'', ''amount'', ''currency'', ''resource''] av;
     to \<leftarrow> get_str ao ''to''; am \<leftarrow> get_str ao ''amount''; cu \<leftarrow> get_str ao ''currency''; rs \<leftarrow> get_str ao ''resource'';
     guard_opt (len_between 1 512 to \<and> kya_amount_ok am \<and> len_between 1 128 cu \<and> len_between 1 1024 rs)
       \<lparr>ky_amount = am, ky_currency = cu, ky_payee = to, ky_resource = rs\<rparr> }"

definition map_payment :: "tool_request \<Rightarrow> kya_error + kya_payment" where
  "map_payment q =
     (case parse_payment_request q of
        None \<Rightarrow> Inl (KyaFailure KYA_PRESENTATION_INVALID StageFinancialJoin ''KYA request is not the strict payments.transfer profile'')
      | Some p \<Rightarrow> Inr p)"

lemma map_payment_amount: "map_payment q = Inr p \<Longrightarrow> kya_amount_ok (ky_amount p)"
  by (auto simp: map_payment_def parse_payment_request_def guard_opt_def bind_eq_Some_conv split: option.splits if_splits)

subsection \<open>Bindings\<close>

record kya_binding =
  kb_profile :: kya_profile
  kb_policy_hash :: string
  kb_presentation_hash :: string
  kb_proof_hash :: string
  kb_request_hash :: string
  kb_chain_hash :: string
  kb_card_hash :: "string option"
  kb_agent :: string
  kb_responsible :: string
  kb_principal :: "string option"
  kb_assurance :: assurance
  kb_target :: string
  kb_max :: "string option"
  kb_currency :: "string option"
  kb_depth :: int
  kb_fresh :: bool
  kb_verified_at :: string
  kb_expires_at :: string
  kb_authority_hash :: string

definition opt_check :: "('a \<Rightarrow> bool) \<Rightarrow> 'a option \<Rightarrow> bool" where
  "opt_check P x = (case x of None \<Rightarrow> True | Some y \<Rightarrow> P y)"

text \<open>\<open>VerifiedKyaAuthorityBindingV1Schema\<close>.\<close>

definition kya_binding_ok :: "kya_binding \<Rightarrow> bool" where
  "kya_binding_ok b \<longleftrightarrow>
     list_all hash_ok [kb_policy_hash b, kb_presentation_hash b, kb_proof_hash b, kb_request_hash b, kb_chain_hash b,
       kb_authority_hash b] \<and>
     opt_check hash_ok (kb_card_hash b) \<and> kb_agent b \<noteq> [] \<and> kb_responsible b \<noteq> [] \<and>
     opt_check (\<lambda>s. s \<noteq> []) (kb_principal b) \<and> kb_target b \<noteq> [] \<and> opt_check kya_amount_ok (kb_max b) \<and>
     opt_check (\<lambda>s. s \<noteq> []) (kb_currency b) \<and> 1 \<le> kb_depth b \<and> kb_depth b \<le> 10 \<and>
     timestamp_ok (kb_verified_at b) \<and> timestamp_ok (kb_expires_at b)"

definition binding_body :: "kya_binding \<Rightarrow> (string \<times> json) list" where
  "binding_body b =
     [(''version'', JStr ''inntris-kya-authority-binding-v1''), (''status'', JStr ''verified''),
      (''profile'', JStr (profile_string (kb_profile b))), (''protocol_version'', JStr ''1.0.0''),
      (''reference_implementation'', JObj [(''package'', JStr ''@kya-os/mcp''), (''version'', JStr ''1.12.0'')]),
      (''authority_policy_hash'', JStr (kb_policy_hash b)), (''presentation_hash'', JStr (kb_presentation_hash b)),
      (''proof_hash'', JStr (kb_proof_hash b)), (''request_hash'', JStr (kb_request_hash b)),
      (''delegation_chain_hash'', JStr (kb_chain_hash b)), (''entity_card_hash'', null_str (kb_card_hash b)),
      (''agent_did'', JStr (kb_agent b)), (''responsible_party_did'', JStr (kb_responsible b)),
      (''principal_did'', null_str (kb_principal b)), (''proof_assurance'', JStr (assurance_string (kb_assurance b))),
      (''invocation_target'', JStr (kb_target b)), (''allowed_action'', JStr ''payments.transfer''),
      (''max_amount'', null_str (kb_max b)), (''currency'', null_str (kb_currency b)),
      (''delegation_depth'', JNum (of_int (kb_depth b))), (''revocation_fresh'', JBool (kb_fresh b)),
      (''signatures_verified'', JBool True), (''verified_at'', JStr (kb_verified_at b)),
      (''authority_expires_at'', JStr (kb_expires_at b))]"

definition kya_binding_json :: "kya_binding \<Rightarrow> json" where
  "kya_binding_json b = JObj (binding_body b @ [(''authority_hash'', JStr (kb_authority_hash b))])"

text \<open>\<open>completeVerifiedBinding\<close>: the field \<open>kb_authority_hash\<close> of the argument is not read.\<close>

definition complete_binding :: "host \<Rightarrow> kya_binding \<Rightarrow> error + kya_binding" where
  "complete_binding H b =
     (let c = b\<lparr>kb_authority_hash := hash_canonical H (JObj (binding_body b))\<rparr> in if kya_binding_ok c then Inr c else Inl ZodError)"

record rejected_binding =
  rj_profile :: kya_profile
  rj_policy_hash :: string
  rj_presentation_hash :: string
  rj_stage :: kya_stage

definition rejected_ok :: "rejected_binding \<Rightarrow> bool" where
  "rejected_ok b \<longleftrightarrow> hash_ok (rj_policy_hash b) \<and> hash_ok (rj_presentation_hash b)"

definition rejected_json :: "rejected_binding \<Rightarrow> json" where
  "rejected_json b = JObj
     [(''version'', JStr ''inntris-kya-authority-binding-v1''), (''status'', JStr ''rejected''),
      (''profile'', JStr (profile_string (rj_profile b))), (''authority_policy_hash'', JStr (rj_policy_hash b)),
      (''presentation_hash'', JStr (rj_presentation_hash b)), (''failure_stage'', JStr (stage_string (rj_stage b)))]"

definition create_rejected_binding :: "host \<Rightarrow> kya_policy \<Rightarrow> kya_presentation \<Rightarrow> kya_stage \<Rightarrow> error + rejected_binding" where
  "create_rejected_binding H p pr st =
     bind_sum (hash_kya_policy H p) (\<lambda>h.
     let b = \<lparr>rj_profile = kp_profile pr, rj_policy_hash = h, rj_presentation_hash = hash_canonical H (presentation_json pr),
              rj_stage = st\<rparr> in if rejected_ok b then Inr b else Inl ZodError)"

datatype any_binding = VerifiedBinding kya_binding | RejectedBinding rejected_binding

fun any_binding_ok :: "any_binding \<Rightarrow> bool" where
  "any_binding_ok (VerifiedBinding b) \<longleftrightarrow> kya_binding_ok b"
| "any_binding_ok (RejectedBinding b) \<longleftrightarrow> rejected_ok b"

fun any_binding_json :: "any_binding \<Rightarrow> json" where
  "any_binding_json (VerifiedBinding b) = kya_binding_json b"
| "any_binding_json (RejectedBinding b) = rejected_json b"

subsection \<open>The reserved extension\<close>

definition kya_extension :: "action \<Rightarrow> json option" where
  "kya_extension a = Option.bind (a_extensions a) (\<lambda>fs. map_of fs kya_extension_key)"

definition assert_no_kya_extension :: "action \<Rightarrow> kya_error + unit" where
  "assert_no_kya_extension a =
     (if kya_extension a \<noteq> None
      then Inl (KyaFailure KYA_AUTHORITY_BINDING_MISMATCH StageFinancialJoin
        ''Caller supplied the reserved Inntris KYA authority extension'') else Inr ())"

definition without_kya_extension :: "host \<Rightarrow> action \<Rightarrow> error + action" where
  "without_kya_extension H a =
     (if kya_extension a = None then Inr a
      else let fs = filter (\<lambda>(k, v). k \<noteq> kya_extension_key) (case a_extensions a of None \<Rightarrow> [] | Some fs \<Rightarrow> fs)
        in check_action H (a\<lparr>a_extensions := (if fs = [] then None else Some fs)\<rparr>))"

definition attach_kya_binding :: "host \<Rightarrow> action \<Rightarrow> any_binding \<Rightarrow> error + action" where
  "attach_kya_binding H a b =
     bind_sum (without_kya_extension H a) (\<lambda>clean.
     if \<not> any_binding_ok b then Inl ZodError
     else check_action H (clean\<lparr>a_extensions :=
       Some ((case a_extensions clean of None \<Rightarrow> [] | Some fs \<Rightarrow> fs) @ [(kya_extension_key, any_binding_json b)])\<rparr>))"

lemma without_kya_extension_clean:
  assumes "without_kya_extension H a = Inr c"
  shows "kya_extension c = None \<and> a_principal_id c = a_principal_id a \<and> a_agent_id c = a_agent_id a \<and> a_rail c = a_rail a \<and>
    a_reference c = a_reference a \<and> a_transaction c = a_transaction a"
proof -
  have "map_of (filter (\<lambda>(k, v). k \<noteq> kya_extension_key) fs) kya_extension_key = None" for fs :: "(string \<times> json) list"
    by (induction fs) auto
  with assms show ?thesis
    by (auto simp: without_kya_extension_def kya_extension_def Let_def split: if_splits option.splits)
qed

lemma attach_kya_binding_carries:
  assumes "attach_kya_binding H a b = Inr c"
  shows "kya_extension c = Some (any_binding_json b) \<and> any_binding_ok b \<and> action_ok H c \<and>
    a_principal_id c = a_principal_id a \<and> a_agent_id c = a_agent_id a \<and> a_rail c = a_rail a \<and>
    a_reference c = a_reference a \<and> a_transaction c = a_transaction a"
proof -
  from assms obtain d where d: "without_kya_extension H a = Inr d" "any_binding_ok b"
    and c: "c = d\<lparr>a_extensions := Some ((case a_extensions d of None \<Rightarrow> [] | Some fs \<Rightarrow> fs) @ [(kya_extension_key, any_binding_json b)])\<rparr>"
      "action_ok H c"
    by (auto simp: attach_kya_binding_def bind_sum_Inr split: if_splits)
  note w = without_kya_extension_clean [OF d(1)]
  then have "map_of (case a_extensions d of None \<Rightarrow> [] | Some fs \<Rightarrow> fs) kya_extension_key = None"
    by (auto simp: kya_extension_def split: option.splits)
  then have "kya_extension c = Some (any_binding_json b)"
    by (simp add: c(1) kya_extension_def map_add_def)
  with w d(2) c show ?thesis by simp
qed

text \<open>Removing what was attached gives back the action without the extension.\<close>

lemma without_attach:
  assumes "attach_kya_binding H a b = Inr c" "kya_extension a = None" "a_extensions a \<noteq> Some []" "action_ok H a"
  shows "without_kya_extension H c = Inr a"
proof -
  have w: "without_kya_extension H a = Inr a" using assms(2) by (simp add: without_kya_extension_def)
  let ?fs = "case a_extensions a of None \<Rightarrow> [] | Some fs \<Rightarrow> fs"
  have c: "c = a\<lparr>a_extensions := Some (?fs @ [(kya_extension_key, any_binding_json b)])\<rparr>"
    using assms(1) w by (auto simp: attach_kya_binding_def split: if_splits)
  have none: "map_of ?fs kya_extension_key = None"
    using assms(2) by (auto simp: kya_extension_def split: option.splits)
  have "filter (\<lambda>(k, v). k \<noteq> kya_extension_key) fs = fs" if "map_of fs kya_extension_key = None" for fs :: "(string \<times> json) list"
    using that by (induction fs) (auto split: if_splits)
  with none have f: "filter (\<lambda>(k, v). k \<noteq> kya_extension_key) (?fs @ [(kya_extension_key, any_binding_json b)]) = ?fs" by simp
  have "a\<lparr>a_extensions := (if ?fs = [] then None else Some ?fs)\<rparr> = a"
    using assms(3) by (cases a) (auto split: option.splits)
  then show ?thesis
    using f none assms(4) attach_kya_binding_carries [OF assms(1)]
    by (simp add: without_kya_extension_def c check_action_def Let_def)
qed

end
