(* ===== verification/KyaVerifier.thy ===== *)
theory KyaVerifier
  imports Kya
begin

section \<open>Verifying KYA authority\<close>

text \<open>
  \<open>kya-os-authority/src/request-proof.ts\<close>, \<open>delegation.ts\<close> and \<open>verifier.ts\<close>: the live proof of the
  agent's request, its chain of delegations, and the join of both with the Inntris action
  under the authority policy. The functions of \<open>@kya-os/mcp\<close> (schemas, proof and chain evaluation), the
  signature verifier, the revocation checker and \<open>Date.parse\<close> are parameters; nothing is assumed of
  them. Lemmas: what a delegation verification yields was not revoked and expires no later than any part of
  it; verified authority is joined with the action in agent, principal, payee, resource, currency and amount.
\<close>

subsection \<open>Request proofs\<close>

text \<open>The parsed \<open>CardProofMeta\<close> and the result of \<open>verifyCardProof\<close>; instants are whole seconds.\<close>

record card_proof =
  cm_kid :: string
  cm_audience :: string
  cm_nonce :: string
  cm_created :: int
  cm_expires :: int
  cm_json :: json

record card_result =
  ct_ok :: bool
  ct_did :: "string option"
  ct_level :: "assurance option"
  ct_reasons :: "string list"

record kya_proof =
  kq_did :: string
  kq_kid :: string
  kq_assurance :: assurance
  kq_audience :: string
  kq_request_hash :: string
  kq_nonce :: string
  kq_created :: int
  kq_expires :: int
  kq_proof_hash :: string

definition replay_retention_skew :: int where
  "replay_retention_skew = 6"

definition map_proof_failure :: "string list \<Rightarrow> reason_code" where
  "map_proof_failure rs =
     (if ''nonce_replayed'' \<in> set rs then KYA_PROOF_REPLAYED
      else if ''audience_mismatch'' \<in> set rs then KYA_AUDIENCE_MISMATCH
      else if list_ex (\<lambda>r. r \<in> set [''kid_did_mismatch'', ''kid_not_in_did_document'', ''did_membership_unverifiable'',
        ''key_unresolvable'', ''did_keys_unresolvable'']) rs
      then KYA_AGENT_IDENTITY_MISMATCH else KYA_PROOF_INVALID)"

record nonce_use =
  nu_did :: string
  nu_nonce :: string
  nu_consumed_at :: int
  nu_expires_at :: int

text \<open>\<open>verifyCardProof\<close> gets the nonce consumer as a callback and may use it on its own terms.\<close>

record 's proof_ops =
  pf_parse :: "json option \<Rightarrow> card_proof option"
  pf_verify :: "card_proof \<Rightarrow> tool_request \<Rightarrow> string \<Rightarrow> string option \<Rightarrow> (string \<Rightarrow> string \<Rightarrow> (kya_error, 's, bool) io) \<Rightarrow>
    (kya_error, 's, card_result) io"
  pf_consume :: "nonce_use \<Rightarrow> (kya_error, 's, bool) io"
  pf_clock :: int

definition consume_nonce_if_fresh :: "'s proof_ops \<Rightarrow> card_proof \<Rightarrow> string \<Rightarrow> string \<Rightarrow> (kya_error, 's, bool) io" where
  "consume_nonce_if_fresh U pf nonce did = pf_consume U
     \<lparr>nu_did = did, nu_nonce = nonce, nu_consumed_at = pf_clock U,
      nu_expires_at = (cm_expires pf + replay_retention_skew) * 1000\<rparr>"

definition verify_request_proof ::
  "host \<Rightarrow> 's proof_ops \<Rightarrow> json option \<Rightarrow> tool_request \<Rightarrow> string \<Rightarrow> string option \<Rightarrow> (kya_error, 's, kya_proof) io" where
  "verify_request_proof H U proof q audience jkt =
     (case pf_parse U proof of
        None \<Rightarrow> throw (KyaFailure KYA_PROOF_INVALID StageRequestProof ''Malformed KYA request proof'')
      | Some pf \<Rightarrow>
          catch_io
            (bind_io (pf_verify U pf q audience jkt (consume_nonce_if_fresh U pf)) (\<lambda>r.
             case (ct_did r, ct_level r) of
               (Some did, Some level) \<Rightarrow>
                 if \<not> ct_ok r
                 then throw (KyaFailure (map_proof_failure (ct_reasons r)) StageRequestProof
                   (''KYA request proof rejected: '' @ join_with '', '' (ct_reasons r)))
                 else ret \<lparr>kq_did = did, kq_kid = cm_kid pf, kq_assurance = level, kq_audience = cm_audience pf,
                   kq_request_hash = hash_canonical H (tool_request_json q), kq_nonce = cm_nonce pf, kq_created = cm_created pf,
                   kq_expires = cm_expires pf, kq_proof_hash = hash_canonical H (cm_json pf)\<rparr>
             | _ \<Rightarrow> throw (KyaFailure (map_proof_failure (ct_reasons r)) StageRequestProof
                   (''KYA request proof rejected: '' @ join_with '', '' (ct_reasons r)))))
            (\<lambda>e. case e of
               KyaFailure r st m \<Rightarrow> throw e
             | OtherError x \<Rightarrow> throw (KyaFailure KYA_PROOF_INVALID StageRequestProof ''KYA request proof verification failed closed'')))"

subsection \<open>Delegations\<close>

record caveat =
  cv_type :: string
  cv_date :: "string option"
  cv_limit :: "json option"
  cv_currency :: "json option"

record credential =
  cr_json :: json
  cr_revocation :: "(string \<times> string) option"
  cr_valid_until :: "string option"
  cr_caveats :: "caveat list"

record chain_result =
  ce_ok :: bool
  ce_reasons :: "string list"
  ce_fresh :: bool
  ce_leaf :: "string option"
  ce_responsible :: "string option"
  ce_target :: "string option"
  ce_actions :: "string list"
  ce_depth :: int

record kya_delegation =
  kd_agent :: string
  kd_responsible :: string
  kd_principal :: "string option"
  kd_target :: string
  kd_actions :: "string list"
  kd_max :: "string option"
  kd_currency :: "string option"
  kd_expires_at :: int
  kd_depth :: int
  kd_fresh :: bool
  kd_chain_hash :: string
  kd_card_hash :: "string option"

text \<open>A checked entry: whether it is revoked, and whether that is fresh.\<close>

type_synonym revocation_state = "bool \<times> bool"

record 's delegation_ops =
  dl_parse :: "json \<Rightarrow> credential option"
  dl_signature :: "credential \<Rightarrow> (kya_error, 's, unit) io"
  dl_revocation :: "string \<times> string \<Rightarrow> (kya_error, 's, revocation_state) io"
  dl_chain :: "credential list \<Rightarrow> (string \<times> string \<Rightarrow> revocation_state option) \<Rightarrow> int \<Rightarrow> int \<Rightarrow> (kya_error, 's, chain_result) io"
  dl_parse_card :: "json \<Rightarrow> json option"
  dl_card_principal :: "(json \<Rightarrow> string \<Rightarrow> string \<Rightarrow> (kya_error, 's, string) io) option"
  dl_date_parse :: "string \<Rightarrow> int option"

definition credential_expiries :: "'s delegation_ops \<Rightarrow> credential \<Rightarrow> int option list" where
  "credential_expiries U c =
     map (dl_date_parse U) (option_list (cr_valid_until c) @
       concat (map (\<lambda>v. if cv_type v = ''ValidUntil'' then option_list (cv_date v) else []) (cr_caveats c)))"

definition expiry_of :: "'s delegation_ops \<Rightarrow> credential list \<Rightarrow> int \<Rightarrow> kya_error + int" where
  "expiry_of U cs proof_expires =
     (let xs = Some (proof_expires * 1000) # concat (map (credential_expiries U) cs) in
      if list_ex (\<lambda>x. x = None) xs
      then Inl (KyaFailure KYA_DELEGATION_EXPIRED StageDelegation ''Delegation contains an invalid expiry'')
      else Inr (fold min (map the (tl xs)) (the (hd xs))))"

definition effective_max :: "credential list \<Rightarrow> kya_error + string option \<times> string option" where
  "effective_max cs =
     (case (if cs = [] then None else find (\<lambda>v. cv_type v = ''MaxAmount'') (cr_caveats (last cs))) of
        None \<Rightarrow> Inr (None, None)
      | Some v \<Rightarrow>
          (case cv_limit v of
             Some (JStr l) \<Rightarrow>
               if \<not> kya_amount_ok l
               then Inl (KyaFailure KYA_DELEGATION_INVALID StageDelegation
                 ''MaxAmount must be a canonical decimal with no more than six fractional digits'')
               else (case cv_currency v of
                 Some (JStr c) \<Rightarrow>
                   if c = [] then Inl (KyaFailure KYA_CURRENCY_MISMATCH StageDelegation ''MaxAmount currency is required'')
                   else Inr (Some l, Some c)
               | _ \<Rightarrow> Inl (KyaFailure KYA_CURRENCY_MISMATCH StageDelegation ''MaxAmount currency is required''))
           | _ \<Rightarrow> Inl (KyaFailure KYA_DELEGATION_INVALID StageDelegation
               ''MaxAmount must be a canonical decimal with no more than six fractional digits'')))"

fun has_text :: "string \<Rightarrow> string \<Rightarrow> bool" where
  "has_text p [] \<longleftrightarrow> p = []"
| "has_text p (c # s) \<longleftrightarrow> take (length p) (c # s) = p \<or> has_text p s"

definition delegation_failure :: "string list \<Rightarrow> kya_error" where
  "delegation_failure rs =
     (if list_ex (\<lambda>r. has_text ''expired'' r \<or> has_text ''not yet valid'' r) rs
      then KyaFailure KYA_DELEGATION_EXPIRED StageDelegation ''Delegation is outside its validity window''
      else if list_ex (has_text ''revoked'') rs
      then KyaFailure KYA_DELEGATION_REVOKED StageRevocation ''Delegation chain is revoked''
      else KyaFailure KYA_DELEGATION_INVALID StageDelegation (''Delegation chain rejected: '' @ join_with '', '' rs))"

fun each_io :: "('a \<Rightarrow> ('e, 's, unit) io) \<Rightarrow> 'a list \<Rightarrow> ('e, 's, unit) io" where
  "each_io f [] = ret ()"
| "each_io f (x # xs) = bind_io (f x) (\<lambda>_. each_io f xs)"

definition entry_key :: "string \<times> string \<Rightarrow> string" where
  "entry_key x = fst x @ CHR ''#'' # snd x"

text \<open>The preflight: every status entry is checked once, in order, and its result kept under its key.\<close>

fun check_revocations ::
  "'s delegation_ops \<Rightarrow> bool \<Rightarrow> credential list \<Rightarrow> (string \<times> revocation_state) list \<Rightarrow>
    (kya_error, 's, (string \<times> revocation_state) list) io" where
  "check_revocations U fresh [] m = ret m"
| "check_revocations U fresh (c # cs) m =
     (case cr_revocation c of
        None \<Rightarrow> check_revocations U fresh cs m
      | Some x \<Rightarrow>
          bind_io (dl_revocation U x) (\<lambda>r.
          if fst r
          then throw (if snd r
            then KyaFailure KYA_DELEGATION_REVOKED StageRevocation ''Delegation chain contains a revoked credential''
            else KyaFailure KYA_REVOCATION_UNAVAILABLE StageRevocation ''Delegation revocation status could not be established'')
          else if fresh \<and> \<not> snd r
          then throw (KyaFailure KYA_REVOCATION_UNAVAILABLE StageRevocation ''Fresh delegation revocation state could not be established'')
          else check_revocations U fresh cs ((entry_key x, r) # m)))"

definition card_authority ::
  "host \<Rightarrow> 's delegation_ops \<Rightarrow> kya_policy \<Rightarrow> json option \<Rightarrow> string \<Rightarrow> string \<Rightarrow> (kya_error, 's, string option \<times> string option) io" where
  "card_authority H U p cdv agent responsible =
     bind_io (case cdv of None \<Rightarrow> ret None
       | Some v \<Rightarrow> (case dl_parse_card U v of None \<Rightarrow> throw (OtherError ZodError) | Some c \<Rightarrow> ret (Some c))) (\<lambda>c.
     let h = map_option (hash_canonical H) c in
     if \<not> yp_card_principal p then ret (None, h)
     else (case (c, dl_card_principal U) of
       (Some v, Some verify) \<Rightarrow> bind_io (verify v agent responsible) (\<lambda>d. ret (Some d, h))
     | _ \<Rightarrow> throw (KyaFailure KYA_PRINCIPAL_MISMATCH StageDelegation ''Policy requires a separately verified Entity Card principal'')))"

definition verify_delegation ::
  "host \<Rightarrow> 's delegation_ops \<Rightarrow> kya_presentation \<Rightarrow> kya_proof \<Rightarrow> kya_policy \<Rightarrow> int \<Rightarrow> (kya_error, 's, kya_delegation) io" where
  "verify_delegation H U pr pf p now =
     (case pr of
        LegacyPresentation _ _ _ _ \<Rightarrow>
          throw (KyaFailure KYA_PRESENTATION_INVALID StagePresentation ''Modern delegation verifier requires entity-card-v1'')
      | EntityCardPresentation _ _ raw cdv _ \<Rightarrow>
          (case read_all (dl_parse U) raw of
             None \<Rightarrow> throw (OtherError ZodError)
           | Some cs \<Rightarrow>
               bind_io (each_io (dl_signature U) cs) (\<lambda>_.
               bind_io (check_revocations U (yp_fresh_revocation p) cs []) (\<lambda>m.
               bind_io (dl_chain U cs (\<lambda>x. map_of m (entry_key x)) (yp_max_depth p) now) (\<lambda>r.
               if \<not> ce_ok r then throw (delegation_failure (ce_reasons r))
               else if yp_fresh_revocation p \<and> \<not> ce_fresh r
               then throw (KyaFailure KYA_REVOCATION_UNAVAILABLE StageRevocation ''Fresh delegation revocation state could not be established'')
               else if ce_leaf r \<noteq> Some (kq_did pf)
               then throw (KyaFailure KYA_AGENT_IDENTITY_MISMATCH StageDelegation
                 ''Delegation leaf invoker does not match the live request proof DID'')
               else (case (ce_responsible r, ce_target r) of
                 (Some responsible, Some target) \<Rightarrow>
                   bind_io (card_authority H U p cdv (kq_did pf) responsible) (\<lambda>(principal, card_hash).
                   bind_io (lift_io (effective_max cs)) (\<lambda>(mx, cu).
                   bind_io (lift_io (expiry_of U cs (kq_expires pf))) (\<lambda>t.
                   ret \<lparr>kd_agent = kq_did pf, kd_responsible = responsible, kd_principal = principal, kd_target = target,
                        kd_actions = ce_actions r, kd_max = mx, kd_currency = cu, kd_expires_at = t, kd_depth = ce_depth r,
                        kd_fresh = ce_fresh r, kd_chain_hash = hash_canonical H (JArr (map cr_json cs)), kd_card_hash = card_hash\<rparr>)))
               | _ \<Rightarrow> throw (KyaFailure KYA_DELEGATION_INVALID StageDelegation ''Delegation did not yield accountable authority'')))))))"

subsection \<open>The join with the action\<close>

definition need :: "bool \<Rightarrow> reason_code \<Rightarrow> kya_stage \<Rightarrow> string \<Rightarrow> kya_error + unit" where
  "need b r st m = (if b then Inr () else Inl (KyaFailure r st m))"

lemma need_Inr [simp]: "need b r st m = Inr u \<longleftrightarrow> b"
  by (simp add: need_def)

definition require_profile :: "kya_policy \<Rightarrow> kya_presentation \<Rightarrow> string \<Rightarrow> kya_error + unit" where
  "require_profile p pr audience =
     bind_sum (need (kp_profile pr \<in> set (yp_profiles p)) KYA_PRESENTATION_INVALID StagePresentation
       ''KYA presentation profile is not accepted by policy'') (\<lambda>_.
     need (audience \<in> set (yp_audiences p)) KYA_AUDIENCE_MISMATCH StageRequestProof
       ''Expected KYA audience is not authorised by policy'')"

definition accepted_did :: "kya_policy \<Rightarrow> string \<Rightarrow> bool" where
  "accepted_did p did \<longleftrightarrow> (case did_method_of did of None \<Rightarrow> False | Some m \<Rightarrow> m \<in> set (yp_did_methods p))"

definition require_accepted_did :: "string \<Rightarrow> kya_policy \<Rightarrow> kya_error + unit" where
  "require_accepted_did did p =
     need (accepted_did p did) KYA_AGENT_IDENTITY_MISMATCH StageDelegation ''Delegation uses an unaccepted DID method''"

definition assurance_enough :: "assurance \<Rightarrow> assurance \<Rightarrow> bool" where
  "assurance_enough actual required \<longleftrightarrow> \<not> (required = L3 \<and> actual \<noteq> L3)"

definition require_assurance :: "assurance \<Rightarrow> assurance \<Rightarrow> kya_error + unit" where
  "require_assurance actual required =
     need (assurance_enough actual required) KYA_PROOF_ASSURANCE_INSUFFICIENT StageRequestProof
       ''KYA request proof assurance is below policy''"

definition require_principal_join :: "action \<Rightarrow> string \<Rightarrow> string option \<Rightarrow> kya_policy \<Rightarrow> kya_error + string option" where
  "require_principal_join a responsible prn p =
     (let expected = (if \<not> yp_card_principal p then Some responsible else prn) in
      if expected = None \<or> Some (a_principal_id a) \<noteq> expected
      then Inl (KyaFailure KYA_PRINCIPAL_MISMATCH StageFinancialJoin
        ''Inntris principal does not match verified KYA accountability'')
      else Inr (if yp_card_principal p then expected else None))"

definition payees_join :: "kya_policy \<Rightarrow> string \<Rightarrow> string \<Rightarrow> bool" where
  "payees_join p inntris kya \<longleftrightarrow>
     inntris = kya \<or> (case yp_payees p of None \<Rightarrow> False | Some bs \<Rightarrow> list_ex (\<lambda>(a, b). a = inntris \<and> b = kya) bs)"

text \<open>\<open>resource_bindings.find\<close> and \<open>currency_bindings.find\<close> take the first binding of the Inntris side.\<close>

definition require_within_max :: "host \<Rightarrow> string \<Rightarrow> string option \<Rightarrow> string \<Rightarrow> kya_error + unit" where
  "require_within_max H amount mx m =
     (case mx of
        None \<Rightarrow> Inr ()
      | Some l \<Rightarrow> bind_sum (other (new_decimal H amount)) (\<lambda>x. bind_sum (other (new_decimal H l)) (\<lambda>y.
          need (\<not> x > y) KYA_AMOUNT_EXCEEDS_DELEGATION StageFinancialJoin m)))"

definition require_financial_join :: "host \<Rightarrow> action \<Rightarrow> kya_payment \<Rightarrow> kya_delegation \<Rightarrow> kya_policy \<Rightarrow> kya_error + unit" where
  "require_financial_join H a f d p =
     bind_sum (need (a_agent_id a = kd_agent d) KYA_AGENT_IDENTITY_MISMATCH StageFinancialJoin
       ''Inntris agent_id does not match verified KYA proof DID'') (\<lambda>_.
     bind_sum (need (''payments.transfer'' \<in> set (kd_actions d)) KYA_ACTION_NOT_DELEGATED StageFinancialJoin
       ''payments.transfer is not delegated'') (\<lambda>_.
     bind_sum (need (tx_amount (a_transaction a) = ky_amount f) KYA_AUTHORITY_BINDING_MISMATCH StageFinancialJoin
       ''KYA and Inntris payment amounts differ'') (\<lambda>_.
     bind_sum (need (payees_join p (tx_payee (a_transaction a)) (ky_payee f)) KYA_AUTHORITY_BINDING_MISMATCH StageFinancialJoin
       ''KYA and Inntris payment payees differ'') (\<lambda>_.
     bind_sum (need (map_of (yp_resources p) (pr_resource (a_reference a)) = Some (ky_resource f) \<and> ky_resource f = kd_target d)
       KYA_INVOCATION_TARGET_MISMATCH StageFinancialJoin
       ''KYA resource is not exactly mapped to the Inntris action resource'') (\<lambda>_.
     bind_sum (need (\<not> (kd_max d = None \<and> yp_require_max p)) KYA_MAX_AMOUNT_REQUIRED StageFinancialJoin
       ''KYA MaxAmount is required by policy'') (\<lambda>_.
     bind_sum (need (map_of (yp_currencies p) (tx_asset (a_transaction a)) = Some (ky_currency f) \<and>
         Some (ky_currency f) = kd_currency d)
       KYA_CURRENCY_MISMATCH StageFinancialJoin ''KYA currency is not explicitly mapped to the Inntris asset'') (\<lambda>_.
     require_within_max H (tx_amount (a_transaction a)) (kd_max d)
       ''Payment amount exceeds delegated KYA MaxAmount'')))))))"

subsection \<open>The authority verifier\<close>

record kya_authority =
  va_binding :: kya_binding
  va_agent :: string
  va_responsible :: string
  va_principal :: "string option"
  va_max :: "string option"
  va_currency :: "string option"
  va_target :: string
  va_expires_at :: int

type_synonym 's legacy_adapter =
  "kya_presentation \<Rightarrow> action \<Rightarrow> kya_policy \<Rightarrow> string \<Rightarrow> int \<Rightarrow> (kya_error, 's, kya_authority) io"

record 's authority_options =
  vo_proof :: "json option \<Rightarrow> tool_request \<Rightarrow> string \<Rightarrow> string option \<Rightarrow> (kya_error, 's, kya_proof) io"
  vo_delegation :: "kya_presentation \<Rightarrow> kya_proof \<Rightarrow> kya_policy \<Rightarrow> int \<Rightarrow> (kya_error, 's, kya_delegation) io"
  vo_mapper :: "(tool_request \<Rightarrow> kya_error + kya_payment) option"
  vo_legacy :: "'s legacy_adapter option"

definition disabled_legacy :: "'s legacy_adapter" where
  "disabled_legacy pr a p audience now =
     throw (KyaFailure KYA_PRESENTATION_INVALID StagePresentation ''legacy-v1 verification is not configured'')"

definition iso_or_throw :: "int \<Rightarrow> kya_error + string" where
  "iso_or_throw t =
     (case to_iso_string t of None \<Rightarrow> Inl (OtherError (JsError ''RangeError'' ''Invalid time value'')) | Some s \<Rightarrow> Inr s)"

text \<open>The checks of \<open>verify\<close> that follow proof, mapping and delegation, up to the principal it returns.\<close>

definition join_authority :: "host \<Rightarrow> action \<Rightarrow> kya_policy \<Rightarrow> kya_proof \<Rightarrow> kya_payment \<Rightarrow> kya_delegation \<Rightarrow> kya_error + string option" where
  "join_authority H a p pf f d =
     bind_sum (require_accepted_did (kq_did pf) p) (\<lambda>_.
     bind_sum (require_accepted_did (kd_responsible d) p) (\<lambda>_.
     bind_sum (case kd_principal d of None \<Rightarrow> Inr () | Some x \<Rightarrow> require_accepted_did x p) (\<lambda>_.
     bind_sum (need (kd_responsible d \<in> set (yp_responsible p)) KYA_RESPONSIBLE_PARTY_NOT_ALLOWED StageDelegation
       ''KYA Responsible Party is not allowlisted'') (\<lambda>_.
     bind_sum (require_assurance (kq_assurance pf) (yp_min_assurance p)) (\<lambda>_.
     bind_sum (need (0 < yp_actions p) KYA_ACTION_NOT_DELEGATED StageFinancialJoin
       ''KYA action is not permitted by authority policy'') (\<lambda>_.
     bind_sum (require_principal_join a (kd_responsible d) (kd_principal d) p) (\<lambda>principal.
     bind_sum (require_financial_join H a f d p) (\<lambda>_. Inr principal))))))))"

definition modern_binding ::
  "host \<Rightarrow> kya_policy \<Rightarrow> kya_presentation \<Rightarrow> kya_proof \<Rightarrow> kya_delegation \<Rightarrow> string option \<Rightarrow> int \<Rightarrow> kya_error + kya_binding" where
  "modern_binding H p pr pf d prn now =
     bind_sum (other (hash_kya_policy H p)) (\<lambda>ph.
     bind_sum (iso_or_throw now) (\<lambda>va.
     bind_sum (iso_or_throw (kd_expires_at d)) (\<lambda>ea.
     other (complete_binding H \<lparr>kb_profile = kp_profile pr, kb_policy_hash = ph,
       kb_presentation_hash = hash_canonical H (presentation_json pr), kb_proof_hash = kq_proof_hash pf,
       kb_request_hash = kq_request_hash pf, kb_chain_hash = kd_chain_hash d, kb_card_hash = kd_card_hash d,
       kb_agent = kq_did pf, kb_responsible = kd_responsible d, kb_principal = prn,
       kb_assurance = kq_assurance pf, kb_target = kd_target d, kb_max = kd_max d, kb_currency = kd_currency d,
       kb_depth = kd_depth d, kb_fresh = kd_fresh d, kb_verified_at = va, kb_expires_at = ea, kb_authority_hash = []\<rparr>))))"

definition verify_authority ::
  "host \<Rightarrow> 's authority_options \<Rightarrow> kya_presentation \<Rightarrow> action \<Rightarrow> kya_policy \<Rightarrow> string \<Rightarrow> int \<Rightarrow> (kya_error, 's, kya_authority) io" where
  "verify_authority H V pr a p audience now =
     (if \<not> presentation_ok pr then throw (OtherError ZodError)
      else bind_io (lift_io (assert_no_kya_extension a)) (\<lambda>_.
        bind_io (lift_io (require_profile p pr audience)) (\<lambda>_.
        case pr of
          LegacyPresentation _ _ _ _ \<Rightarrow>
            (case vo_legacy V of None \<Rightarrow> disabled_legacy | Some f \<Rightarrow> f) pr a p audience now
        | EntityCardPresentation q proof chain cdv jkt \<Rightarrow>
            bind_io (vo_proof V proof q audience jkt) (\<lambda>pf.
            bind_io (lift_io ((case vo_mapper V of None \<Rightarrow> map_payment | Some f \<Rightarrow> f) q)) (\<lambda>f.
            bind_io (vo_delegation V pr pf p now) (\<lambda>d.
            bind_io (lift_io (join_authority H a p pf f d)) (\<lambda>principal.
            bind_io (lift_io (modern_binding H p pr pf d principal now)) (\<lambda>b.
            ret \<lparr>va_binding = b, va_agent = kq_did pf, va_responsible = kd_responsible d, va_principal = principal,
                 va_max = kd_max d, va_currency = kd_currency d, va_target = kd_target d,
                 va_expires_at = kd_expires_at d\<rparr>))))))))"

subsection \<open>What verified delegations and authority promise\<close>

lemma fold_min_le: "fold min xs (t::int) \<le> t \<and> (\<forall>x\<in>set xs. fold min xs t \<le> x)"
proof (induction xs arbitrary: t)
  case (Cons x xs)
  from Cons.IH [of "min x t"] show ?case by auto
qed simp

lemma expiry_of_bounds:
  assumes "expiry_of U cs e = Inr t"
  shows "t \<le> e * 1000 \<and> (\<forall>c\<in>set cs. \<forall>x\<in>set (credential_expiries U c). x \<noteq> None \<and> t \<le> the x)"
proof -
  let ?ys = "concat (map (credential_expiries U) cs)"
  from assms have n: "None \<notin> set ?ys" and t: "t = fold min (map the ?ys) (e * 1000)"
    by (auto simp: expiry_of_def Let_def list_ex_iff split: if_splits)
  have "t \<le> the x" if "c \<in> set cs" "x \<in> set (credential_expiries U c)" for c x
  proof -
    from that have "the x \<in> set (map the ?ys)" by force
    then show ?thesis using t fold_min_le by blast
  qed
  moreover have "x \<noteq> None" if "c \<in> set cs" "x \<in> set (credential_expiries U c)" for c x
    using that n by (cases x) auto
  ultimately show ?thesis using t fold_min_le by blast
qed

lemma effective_max_pairs:
  "effective_max cs = Inr (mx, cu) \<Longrightarrow> (mx = None \<longleftrightarrow> cu = None) \<and> opt_check kya_amount_ok mx"
  by (auto simp: effective_max_def opt_check_def split: option.splits json.splits if_splits)

text \<open>The preflight lets no revoked entry through, and under a freshness policy no stale one.\<close>

lemma check_revocations_sound:
  assumes "check_revocations U fresh cs m s = (Inr m', s')"
    and "\<forall>(k, r)\<in>set m. \<not> fst r \<and> (fresh \<longrightarrow> snd r)"
  shows "(\<forall>(k, r)\<in>set m'. \<not> fst r \<and> (fresh \<longrightarrow> snd r)) \<and> set m \<subseteq> set m' \<and>
    (\<forall>c\<in>set cs. \<forall>x. cr_revocation c = Some x \<longrightarrow> entry_key x \<in> fst ` set m')"
  using assms
proof (induction cs arbitrary: m s)
  case (Cons c cs)
  show ?case
  proof (cases "cr_revocation c")
    case None
    with Cons show ?thesis by (auto simp: ret_def)
  next
    case (Some x)
    with Cons.prems(1) obtain r t where r: "\<not> fst r" "fresh \<longrightarrow> snd r"
      and rec: "check_revocations U fresh cs ((entry_key x, r) # m) t = (Inr m', s')"
      by (auto simp: bind_io_Inr throw_Inr split: if_splits) blast+
    from Cons.IH [OF rec] r Cons.prems(2) have ih: "\<forall>(k, r)\<in>set m'. \<not> fst r \<and> (fresh \<longrightarrow> snd r)"
      "set ((entry_key x, r) # m) \<subseteq> set m'"
      "\<forall>c\<in>set cs. \<forall>x. cr_revocation c = Some x \<longrightarrow> entry_key x \<in> fst ` set m'" by auto
    from ih(2) have "entry_key x \<in> fst ` set m'" by force
    with ih Some show ?thesis by auto
  qed
qed (simp add: ret_def)

lemma verify_delegation_sound:
  assumes "verify_delegation H U pr pf p now s = (Inr d, s')"
  shows "kd_agent d = kq_did pf \<and> kd_expires_at d \<le> kq_expires pf * 1000 \<and>
    (kd_max d = None \<longleftrightarrow> kd_currency d = None) \<and> opt_check kya_amount_ok (kd_max d) \<and>
    (yp_fresh_revocation p \<longrightarrow> kd_fresh d) \<and> (yp_card_principal p \<longleftrightarrow> kd_principal d \<noteq> None)"
proof -
  from assms obtain q pw raw cdv jkt where pr: "pr = EntityCardPresentation q pw raw cdv jkt"
    by (cases pr) (auto simp: verify_delegation_def throw_Inr)
  with assms obtain cs responsible s1 s2 where
    fresh: "yp_fresh_revocation p \<longrightarrow> kd_fresh d" and agent: "kd_agent d = kq_did pf"
    and card: "card_authority H U p cdv (kq_did pf) responsible s1 = (Inr (kd_principal d, kd_card_hash d), s2)"
    and mx: "effective_max cs = Inr (kd_max d, kd_currency d)" and t: "expiry_of U cs (kq_expires pf) = Inr (kd_expires_at d)"
    by (auto simp: verify_delegation_def bind_io_Inr throw_Inr ret_def split: option.splits if_splits prod.splits; fastforce)
  from card have "yp_card_principal p \<longleftrightarrow> kd_principal d \<noteq> None"
    by (cases "kd_principal d")
      (auto simp: card_authority_def bind_io_Inr throw_Inr ret_def Let_def split: option.splits if_splits)
  with fresh agent expiry_of_bounds [OF t] effective_max_pairs [OF mx] show ?thesis by auto
qed

lemma require_within_max_sound:
  "require_within_max H amount (Some l) m = Inr u \<Longrightarrow>
    \<exists>x y. dec_new H amount = Some x \<and> dec_new H l = Some y \<and> x \<le> y"
  by (auto simp: require_within_max_def bind_sum_Inr new_decimal_def split: option.splits)

text \<open>What the join establishes between the action, the proof, the payment and the delegation.\<close>

definition joined :: "host \<Rightarrow> action \<Rightarrow> kya_policy \<Rightarrow> kya_proof \<Rightarrow> kya_payment \<Rightarrow> kya_delegation \<Rightarrow> bool" where
  "joined H a p pf f d \<longleftrightarrow>
     accepted_did p (kq_did pf) \<and> accepted_did p (kd_responsible d) \<and> kd_responsible d \<in> set (yp_responsible p) \<and>
     assurance_enough (kq_assurance pf) (yp_min_assurance p) \<and>
     a_agent_id a = kd_agent d \<and> ''payments.transfer'' \<in> set (kd_actions d) \<and>
     tx_amount (a_transaction a) = ky_amount f \<and> payees_join p (tx_payee (a_transaction a)) (ky_payee f) \<and>
     map_of (yp_resources p) (pr_resource (a_reference a)) = Some (ky_resource f) \<and> ky_resource f = kd_target d \<and>
     map_of (yp_currencies p) (tx_asset (a_transaction a)) = Some (ky_currency f) \<and> kd_currency d = Some (ky_currency f) \<and>
     (\<forall>l. kd_max d = Some l \<longrightarrow> (\<exists>x y. dec_new H (tx_amount (a_transaction a)) = Some x \<and> dec_new H l = Some y \<and> x \<le> y))"

lemma join_authority_sound:
  assumes "join_authority H a p pf f d = Inr prn"
  shows "joined H a p pf f d \<and>
    (if yp_card_principal p then kd_principal d = Some (a_principal_id a) \<and> prn = kd_principal d
     else kd_responsible d = a_principal_id a \<and> prn = None)"
proof -
  from assms have w: "require_principal_join a (kd_responsible d) (kd_principal d) p = Inr prn"
    and f: "require_financial_join H a f d p = Inr ()"
    and r: "accepted_did p (kq_did pf)" "accepted_did p (kd_responsible d)" "kd_responsible d \<in> set (yp_responsible p)"
      "assurance_enough (kq_assurance pf) (yp_min_assurance p)"
    by (auto simp: join_authority_def bind_sum_Inr require_accepted_did_def require_assurance_def)
  from f have g: "a_agent_id a = kd_agent d" "''payments.transfer'' \<in> set (kd_actions d)"
    "tx_amount (a_transaction a) = ky_amount f" "payees_join p (tx_payee (a_transaction a)) (ky_payee f)"
    "map_of (yp_resources p) (pr_resource (a_reference a)) = Some (ky_resource f)" "ky_resource f = kd_target d"
    "map_of (yp_currencies p) (tx_asset (a_transaction a)) = Some (ky_currency f)" "kd_currency d = Some (ky_currency f)"
    and m: "require_within_max H (tx_amount (a_transaction a)) (kd_max d) ''Payment amount exceeds delegated KYA MaxAmount'' = Inr ()"
    by (simp_all only: require_financial_join_def bind_sum_Inr need_Inr) auto
  from w have "if yp_card_principal p then kd_principal d = Some (a_principal_id a) \<and> prn = kd_principal d
      else kd_responsible d = a_principal_id a \<and> prn = None"
    by (auto simp: require_principal_join_def Let_def split: if_splits)
  with r g m show ?thesis
    using require_within_max_sound [of H "tx_amount (a_transaction a)"] by (auto simp: joined_def)
qed

lemma modern_binding_fields:
  assumes "modern_binding H p pr pf d prn now = Inr b"
  shows "kya_binding_ok b \<and> kb_profile b = kp_profile pr \<and> hash_kya_policy H p = Inr (kb_policy_hash b) \<and>
    kb_presentation_hash b = hash_canonical H (presentation_json pr) \<and> kb_agent b = kq_did pf \<and>
    kb_responsible b = kd_responsible d \<and> kb_principal b = prn \<and> kb_target b = kd_target d \<and> kb_max b = kd_max d \<and>
    kb_currency b = kd_currency d \<and> kb_fresh b = kd_fresh d \<and> time_of (kb_verified_at b) = now \<and>
    time_of (kb_expires_at b) = kd_expires_at d \<and> kb_authority_hash b = hash_canonical H (JObj (binding_body b))"
proof -
  from assms obtain ph va ea c where h: "hash_kya_policy H p = Inr ph" and va: "to_iso_string now = Some va"
    and ea: "to_iso_string (kd_expires_at d) = Some ea"
    and c: "c = \<lparr>kb_profile = kp_profile pr, kb_policy_hash = ph,
       kb_presentation_hash = hash_canonical H (presentation_json pr), kb_proof_hash = kq_proof_hash pf,
       kb_request_hash = kq_request_hash pf, kb_chain_hash = kd_chain_hash d, kb_card_hash = kd_card_hash d,
       kb_agent = kq_did pf, kb_responsible = kd_responsible d, kb_principal = prn,
       kb_assurance = kq_assurance pf, kb_target = kd_target d, kb_max = kd_max d, kb_currency = kd_currency d,
       kb_depth = kd_depth d, kb_fresh = kd_fresh d, kb_verified_at = va, kb_expires_at = ea, kb_authority_hash = []\<rparr>"
    and b: "complete_binding H c = Inr b"
    by (auto simp: modern_binding_def bind_sum_Inr iso_or_throw_def split: option.splits)
  from b have e: "b = c\<lparr>kb_authority_hash := hash_canonical H (JObj (binding_body c))\<rparr>" and k: "kya_binding_ok b"
    by (auto simp: complete_binding_def Let_def split: if_splits)
  have body: "binding_body b = binding_body c" by (simp add: e binding_body_def)
  from k have "timestamp_ok (kb_verified_at b)" "timestamp_ok (kb_expires_at b)" by (simp_all add: kya_binding_ok_def)
  with e c to_iso_string_time [OF va] to_iso_string_time [OF ea]
  have "time_of (kb_verified_at b) = now" "time_of (kb_expires_at b) = kd_expires_at d" by simp_all
  moreover have "kb_authority_hash b = hash_canonical H (JObj (binding_body b))" by (simp add: body) (simp add: e)
  ultimately show ?thesis using h k by (simp add: e) (simp add: c)
qed

lemma verify_authority_checks:
  assumes "verify_authority H V pr a p audience now s = (Inr v, s')"
  shows "presentation_ok pr \<and> kya_extension a = None \<and> kp_profile pr \<in> set (yp_profiles p) \<and> audience \<in> set (yp_audiences p)"
  using assms
  by (auto simp: verify_authority_def bind_io_Inr throw_Inr assert_no_kya_extension_def require_profile_def bind_sum_Inr
      split: if_splits)

text \<open>Verified authority of the modern profile rests on one proof, one payment and one delegation, joined.\<close>

lemma verify_authority_modern:
  assumes "verify_authority H V (EntityCardPresentation q w ch cdv jkt) a p audience now s = (Inr v, s')"
  obtains pf f d s1 prn where "vo_proof V w q audience jkt s = (Inr pf, s1)"
    and "(case vo_mapper V of None \<Rightarrow> map_payment | Some m \<Rightarrow> m) q = Inr f"
    and "vo_delegation V (EntityCardPresentation q w ch cdv jkt) pf p now s1 = (Inr d, s')"
    and "join_authority H a p pf f d = Inr prn"
    and "modern_binding H p (EntityCardPresentation q w ch cdv jkt) pf d prn now = Inr (va_binding v)"
    and "va_max v = kd_max d" "va_currency v = kd_currency d" "va_expires_at v = kd_expires_at d" "va_agent v = kq_did pf"
      "va_responsible v = kd_responsible d" "va_principal v = prn" "va_target v = kd_target d"
  using assms
  by (simp only: verify_authority_def if_split_eq1 kya_presentation.case bind_io_Inr ret_def lift_io_apply prod.inject)
    (auto simp: bind_io_Inr throw_Inr split: if_splits)

text \<open>The policy may allow a delegation without \<open>MaxAmount\<close>, but no such delegation is ever verified: without the
  caveat there is no delegated currency either, and the currency join then fails.\<close>

lemma verified_authority_has_max:
  assumes "verify_authority H V (EntityCardPresentation q w ch cdv jkt) a p audience now s = (Inr v, s')"
    and "vo_delegation V = verify_delegation H U"
  shows "va_max v \<noteq> None"
proof -
  from assms(1) obtain pf f d s1 prn where d: "vo_delegation V (EntityCardPresentation q w ch cdv jkt) pf p now s1 = (Inr d, s')"
    and j: "join_authority H a p pf f d = Inr prn" and m: "va_max v = kd_max d"
    by (rule verify_authority_modern)
  from d assms(2) have "kd_max d = None \<longleftrightarrow> kd_currency d = None"
    using verify_delegation_sound [of H U] by simp
  with join_authority_sound [OF j] m show ?thesis by (auto simp: joined_def)
qed

text \<open>Verified authority as the caller sees it: the identities, the resource, the currency and the amount of the action
  are those the agent was delegated, and the binding that goes into the action says so.\<close>

definition authority_covers :: "host \<Rightarrow> kya_policy \<Rightarrow> action \<Rightarrow> kya_authority \<Rightarrow> bool" where
  "authority_covers H p a v \<longleftrightarrow>
     a_agent_id a = va_agent v \<and> accepted_did p (va_agent v) \<and> va_responsible v \<in> set (yp_responsible p) \<and>
     (if yp_card_principal p then va_principal v = Some (a_principal_id a) else va_responsible v = a_principal_id a) \<and>
     map_of (yp_resources p) (pr_resource (a_reference a)) = Some (va_target v) \<and>
     va_currency v \<noteq> None \<and> map_of (yp_currencies p) (tx_asset (a_transaction a)) = va_currency v \<and>
     (\<exists>l x y. va_max v = Some l \<and> dec_new H (tx_amount (a_transaction a)) = Some x \<and> dec_new H l = Some y \<and> x \<le> y)"

definition binding_reports :: "host \<Rightarrow> kya_policy \<Rightarrow> kya_presentation \<Rightarrow> int \<Rightarrow> kya_authority \<Rightarrow> bool" where
  "binding_reports H p pr now v \<longleftrightarrow> (let b = va_binding v in
     kya_binding_ok b \<and> hash_kya_policy H p = Inr (kb_policy_hash b) \<and>
     kb_presentation_hash b = hash_canonical H (presentation_json pr) \<and> kb_agent b = va_agent v \<and>
     kb_responsible b = va_responsible v \<and> kb_principal b = va_principal v \<and> kb_target b = va_target v \<and>
     kb_max b = va_max v \<and> kb_currency b = va_currency v \<and> time_of (kb_verified_at b) = now \<and>
     time_of (kb_expires_at b) = va_expires_at v \<and> (yp_fresh_revocation p \<longrightarrow> kb_fresh b) \<and>
     kb_authority_hash b = hash_canonical H (JObj (binding_body b)))"

lemma verified_authority_covers:
  assumes "verify_authority H V (EntityCardPresentation q w ch cdv jkt) a p audience now s = (Inr v, s')"
    and "vo_delegation V = verify_delegation H U"
  shows "authority_covers H p a v \<and> binding_reports H p (EntityCardPresentation q w ch cdv jkt) now v"
proof -
  let ?pr = "EntityCardPresentation q w ch cdv jkt"
  from assms(1) obtain pf f d s1 prn where
    d: "vo_delegation V ?pr pf p now s1 = (Inr d, s')" and j: "join_authority H a p pf f d = Inr prn"
    and b: "modern_binding H p ?pr pf d prn now = Inr (va_binding v)"
    and v: "va_max v = kd_max d" "va_currency v = kd_currency d" "va_expires_at v = kd_expires_at d" "va_agent v = kq_did pf"
      "va_responsible v = kd_responsible d" "va_principal v = prn" "va_target v = kd_target d"
    by (rule verify_authority_modern)
  have m: "va_max v \<noteq> None" by (rule verified_authority_has_max [OF assms])
  from d assms(2) have s: "verify_delegation H U ?pr pf p now s1 = (Inr d, s')" by simp
  note s = verify_delegation_sound [OF this] and j = join_authority_sound [OF j]
  have "authority_covers H p a v"
    unfolding authority_covers_def using s j v m by (auto simp: joined_def split: if_splits)
  moreover have "binding_reports H p ?pr now v"
    using modern_binding_fields [OF b] s v by (simp add: binding_reports_def Let_def)
  ultimately show ?thesis by blast
qed

end
