(* ===== verification/KyaDid.thy ===== *)
theory KyaDid
  imports KyaVerifier Http
begin

section \<open>DIDs, signatures of delegations and entity cards\<close>

text \<open>
  \<open>kya-os-authority/src/did-resolver.ts\<close>, \<open>delegation-signature.ts\<close> and \<open>entity-card.ts\<close>: reading DID documents,
  finding the key of a proof in them, checking the Data Integrity proof of a delegation and the
  principal of an entity card. Base58, the cryptosuite, \<open>resolveDidKeySync\<close>, \<open>verifyCard\<close>, the schemas of the KYA
  library, \<open>decodeURIComponent\<close> and the URL parser are parameters; nothing is assumed of them. Lemmas: a key that
  is resolved is published by the document of its own DID and controlled by it, also from the
  cache; a delegation whose signature is accepted was signed with a key of its issuer for assertions.
\<close>

subsection \<open>DID documents\<close>

record public_jwk =
  jk_kty :: string
  jk_crv :: string
  jk_x :: string
  jk_json :: json

record kya_method =
  vm_id :: string
  vm_type :: string
  vm_controller :: string
  vm_jwk :: "public_jwk option"
  vm_multibase :: "string option"

datatype did_relation = RelationId string | RelationMethod kya_method

record did_document =
  dd_id :: string
  dd_methods :: "kya_method list"
  dd_authentication :: "did_relation list"
  dd_assertion :: "did_relation list"

definition type_error :: "string \<Rightarrow> error" where
  "type_error m = JsError ''TypeError'' m"

text \<open>The own properties of a value with \<open>typeof\<close> \<open>object\<close> that are looked up by name: an array has none of them.\<close>

fun object_fields :: "json \<Rightarrow> (string \<times> json) list option" where
  "object_fields (JObj fs) = Some fs"
| "object_fields (JArr xs) = Some []"
| "object_fields _ = None"

text \<open>What an object spread copies: the characters of a string and the items of an array under their indices.\<close>

fun spread_fields :: "json \<Rightarrow> (string \<times> json) list" where
  "spread_fields (JObj fs) = fs"
| "spread_fields (JArr xs) = zip (map nat_string [0..<length xs]) xs"
| "spread_fields (JStr s) = zip (map nat_string [0..<length s]) (map (\<lambda>c. JStr [c]) s)"
| "spread_fields _ = []"

definition starts_with :: "string \<Rightarrow> string \<Rightarrow> bool" where
  "starts_with p s \<longleftrightarrow> take (length p) s = p"

definition check_jwk :: "(json \<Rightarrow> public_jwk option) \<Rightarrow> (string \<times> json) list \<Rightarrow> string \<Rightarrow> error + public_jwk option" where
  "check_jwk parse_jwk ob i =
     (case map_of ob ''publicKeyJwk'' of
        None \<Rightarrow> Inr None
      | Some v \<Rightarrow>
          (case parse_jwk (JObj (filter (\<lambda>(k, _). k \<noteq> ''kid'') (spread_fields v) @ [(''kid'', JStr i)])) of
             None \<Rightarrow> Inl ZodError | Some k \<Rightarrow> Inr (Some k)))"

definition parse_method :: "(json \<Rightarrow> public_jwk option) \<Rightarrow> string \<Rightarrow> json \<Rightarrow> error + kya_method" where
  "parse_method parse_jwk did v =
     (case object_fields v of
        None \<Rightarrow> Inl (type_error ''DID verification method must be an object'')
      | Some ob \<Rightarrow>
          (case (get_str ob ''id'', get_str ob ''type'') of
             (Some i, Some ty) \<Rightarrow>
               if get_str ob ''controller'' \<noteq> Some did \<or> \<not> starts_with (did @ ''#'') i
               then Inl (type_error ''DID verification method is not controlled by the expected DID'')
               else bind_sum (check_jwk parse_jwk ob i) (\<lambda>k.
                 if k = None \<and> get_str ob ''publicKeyMultibase'' = None
                 then Inl (type_error ''DID verification method has no supported public key'')
                 else Inr \<lparr>vm_id = i, vm_type = ty, vm_controller = did, vm_jwk = k,
                   vm_multibase = get_str ob ''publicKeyMultibase''\<rparr>)
           | _ \<Rightarrow> Inl (type_error ''DID verification method is not controlled by the expected DID'')))"

fun map_sum_list :: "('a \<Rightarrow> 'e + 'b) \<Rightarrow> 'a list \<Rightarrow> 'e + 'b list" where
  "map_sum_list f [] = Inr []"
| "map_sum_list f (x # xs) = bind_sum (f x) (\<lambda>y. bind_sum (map_sum_list f xs) (\<lambda>ys. Inr (y # ys)))"

text \<open>The map of the methods keeps the last one of an identifier.\<close>

definition method_by_id :: "kya_method list \<Rightarrow> string \<Rightarrow> kya_method option" where
  "method_by_id ms i = find (\<lambda>m. vm_id m = i) (rev ms)"

definition parse_relation :: "kya_method list \<Rightarrow> json \<Rightarrow> error + did_relation" where
  "parse_relation ms v =
     (case v of
        JStr s \<Rightarrow> Inr (RelationId s)
      | _ \<Rightarrow>
          (case Option.bind (object_fields v) (\<lambda>ob. get_str ob ''id'') of
             None \<Rightarrow> Inl (type_error ''Invalid DID relationship entry'')
           | Some i \<Rightarrow>
               (case method_by_id ms i of
                  None \<Rightarrow> Inl (type_error ''Embedded DID relationship key is not published'')
                | Some m \<Rightarrow> Inr (RelationMethod m))))"

definition purpose_entries :: "kya_method list \<Rightarrow> json option \<Rightarrow> error + did_relation list" where
  "purpose_entries ms v = (case v of Some (JArr xs) \<Rightarrow> map_sum_list (parse_relation ms) xs | _ \<Rightarrow> Inr [])"

definition parse_did_document :: "(json \<Rightarrow> public_jwk option) \<Rightarrow> string \<Rightarrow> json \<Rightarrow> error + did_document" where
  "parse_did_document parse_jwk did v =
     (case object_fields v of
        None \<Rightarrow> Inl (type_error ''DID document must be an object'')
      | Some ob \<Rightarrow>
          (case map_of ob ''verificationMethod'' of
             Some (JArr xs) \<Rightarrow>
               if get_str ob ''id'' \<noteq> Some did then Inl (type_error ''DID document id or verificationMethod is invalid'')
               else bind_sum (map_sum_list (parse_method parse_jwk did) xs) (\<lambda>ms.
                 bind_sum (purpose_entries ms (map_of ob ''authentication'')) (\<lambda>au.
                 bind_sum (purpose_entries ms (map_of ob ''assertionMethod'')) (\<lambda>as.
                 Inr \<lparr>dd_id = did, dd_methods = ms, dd_authentication = au, dd_assertion = as\<rparr>)))
           | _ \<Rightarrow> Inl (type_error ''DID document id or verificationMethod is invalid'')))"

fun relation_id :: "did_relation \<Rightarrow> string" where
  "relation_id (RelationId i) = i"
| "relation_id (RelationMethod m) = vm_id m"

definition relationship_contains :: "did_relation list \<Rightarrow> string \<Rightarrow> bool" where
  "relationship_contains es i \<longleftrightarrow> list_ex (\<lambda>e. relation_id e = i) es"

subsection \<open>The resolver\<close>

record 's did_ops =
  dr_fetch :: "string \<Rightarrow> 's \<Rightarrow> reply \<times> 's"
  dr_did_key :: "string \<Rightarrow> json option"
  dr_ttl :: int
  dr_now :: "'s \<Rightarrow> int"
  dr_decode :: "string \<Rightarrow> string option"
  dr_url :: "string \<Rightarrow> string \<Rightarrow> string option"
  dr_parse_jwk :: "json \<Rightarrow> public_jwk option"

record 's did_state =
  ds_cache :: "(string \<times> did_document \<times> int) list"
  ds_env :: 's

fun split_on :: "char \<Rightarrow> string \<Rightarrow> string list" where
  "split_on c [] = [[]]"
| "split_on c (d # s) = (if d = c then [] # split_on c s else (case split_on c s of w # ws \<Rightarrow> (d # w) # ws | [] \<Rightarrow> [[d]]))"

definition did_web_url :: "'s did_ops \<Rightarrow> string \<Rightarrow> error + string" where
  "did_web_url D did =
     (if \<not> starts_with ''did:web:'' did then Inl (type_error ''Not a did:web DID'')
      else case read_all (dr_decode D) (split_on CHR '':'' (drop 8 did)) of
        None \<Rightarrow> Inl (JsError ''URIError'' ''URI malformed'')
      | Some segments \<Rightarrow>
          let authority = (if segments = [] then [] else hd segments); rest = tl segments in
          if authority = [] then Inl (type_error ''Malformed did:web DID'')
          else let suffix = (if rest = [] then ''/.well-known/did.json'' else CHR ''/'' # join_with ''/'' rest @ ''/did.json'')
            in (case dr_url D suffix (''https://'' @ authority) of None \<Rightarrow> Inl (type_error ''Invalid URL'') | Some u \<Rightarrow> Inr u))"

definition fetch_did_web :: "'s did_ops \<Rightarrow> string \<Rightarrow> (error, 's did_state, json) io" where
  "fetch_did_web D did =
     bind_io (lift_io (did_web_url D did)) (\<lambda>url s.
     case dr_fetch D url (ds_env s) of
       (Unreachable, e) \<Rightarrow> (Inl (JsError ''Error'' ''fetch failed''), s\<lparr>ds_env := e\<rparr>)
     | (Reply status body, e) \<Rightarrow>
         if \<not> reply_ok status
         then (Inl (type_error (''did:web resolution returned HTTP '' @ status_text status)), s\<lparr>ds_env := e\<rparr>)
         else (case body of
             None \<Rightarrow> (Inl (JsError ''SyntaxError'' ''Unexpected token''), s\<lparr>ds_env := e\<rparr>)
           | Some v \<Rightarrow> (Inr v, s\<lparr>ds_env := e\<rparr>)))"

definition refresh_did :: "'s did_ops \<Rightarrow> string \<Rightarrow> (error, 's did_state, did_document) io" where
  "refresh_did D did =
     bind_io
       (if starts_with ''did:key:'' did
        then (case dr_did_key D did of None \<Rightarrow> throw (type_error ''Unsupported or malformed did:key'') | Some v \<Rightarrow> ret v)
        else if starts_with ''did:web:'' did then fetch_did_web D did
        else throw (type_error ''Unsupported DID method'')) (\<lambda>raw.
     bind_io (lift_io (parse_did_document (dr_parse_jwk D) did raw)) (\<lambda>doc s.
     (Inr doc, if 0 < dr_ttl D then s\<lparr>ds_cache := AList.update did (doc, dr_now D (ds_env s) + dr_ttl D) (ds_cache s)\<rparr> else s)))"

definition resolve_did_document :: "'s did_ops \<Rightarrow> string \<Rightarrow> (error, 's did_state, did_document) io" where
  "resolve_did_document D did s =
     (case map_of (ds_cache s) did of
        Some (doc, t) \<Rightarrow> if dr_now D (ds_env s) < t then (Inr doc, s) else refresh_did D did s
      | None \<Rightarrow> refresh_did D did s)"

definition index_of :: "char \<Rightarrow> string \<Rightarrow> nat option" where
  "index_of c s = (if c \<in> set s then Some (length (takeWhile (\<lambda>d. d \<noteq> c) s)) else None)"

definition resolve_verification_method :: "'s did_ops \<Rightarrow> string \<Rightarrow> (error, 's did_state, kya_method) io" where
  "resolve_verification_method D kid =
     (case index_of CHR ''#'' kid of
        None \<Rightarrow> throw (type_error ''An exact DID key fragment is required'')
      | Some n \<Rightarrow>
          if n = 0 \<or> n = length kid - 1 then throw (type_error ''An exact DID key fragment is required'')
          else bind_io (resolve_did_document D (take n kid)) (\<lambda>doc.
            case find (\<lambda>m. vm_id m = kid) (dd_methods doc) of
              None \<Rightarrow> throw (type_error ''Verification method is not published by the DID'')
            | Some m \<Rightarrow>
                if \<not> relationship_contains (dd_authentication doc) kid \<and> \<not> relationship_contains (dd_assertion doc) kid
                then throw (type_error ''Verification method is not authorised for authentication or assertion'')
                else ret m))"

definition resolve_did_keys :: "'s did_ops \<Rightarrow> string \<Rightarrow> (error, 's did_state, public_jwk list) io" where
  "resolve_did_keys D did =
     bind_io (resolve_did_document D did) (\<lambda>doc. ret (concat (map (\<lambda>m. option_list (vm_jwk m)) (dd_methods doc))))"

definition assert_assertion_method :: "did_document \<Rightarrow> string \<Rightarrow> kya_error + unit" where
  "assert_assertion_method doc kid =
     need (relationship_contains (dd_assertion doc) kid) KYA_DELEGATION_SIGNATURE_INVALID StageDelegationSignature
       ''Delegation verification method is not authorised for assertionMethod''"

subsection \<open>Signatures of delegations\<close>

text \<open>A parsed delegation credential with its issuer and its proof, if that is an object.\<close>

record signed_credential =
  sc_issuer :: string
  sc_fields :: "(string \<times> json) list"
  sc_proof :: "json option"

record integrity_proof =
  ip_method :: string
  ip_value :: string
  ip_fields :: "(string \<times> json) list"

definition proof_record :: "json option \<Rightarrow> error + integrity_proof" where
  "proof_record v =
     (case Option.bind v object_fields of
        None \<Rightarrow> Inl (type_error ''Proof must be an object'')
      | Some ob \<Rightarrow>
          (case (get_str ob ''verificationMethod'', get_str ob ''proofValue'') of
             (Some vm, Some pv) \<Rightarrow>
               if get_str ob ''type'' \<noteq> Some ''DataIntegrityProof'' \<or> get_str ob ''cryptosuite'' \<noteq> Some ''eddsa-jcs-2022'' \<or>
                 get_str ob ''proofPurpose'' \<noteq> Some ''assertionMethod'' \<or> \<not> starts_with ''z'' pv
               then Inl (type_error ''Delegation requires a complete eddsa-jcs-2022 assertion proof'')
               else Inr \<lparr>ip_method = vm, ip_value = pv, ip_fields = ob\<rparr>
           | _ \<Rightarrow> Inl (type_error ''Delegation requires a complete eddsa-jcs-2022 assertion proof'')))"

record signature_ops =
  so_parse :: "json \<Rightarrow> signed_credential option"
  so_b58_encode :: "bytes \<Rightarrow> string"
  so_b58_decode :: "string \<Rightarrow> bytes option"
  so_verify :: "kya_method \<Rightarrow> string \<Rightarrow> (string \<times> json) list \<Rightarrow> (string \<times> json) list \<Rightarrow> bytes \<Rightarrow> error + bool"

definition multikey_from_jwk :: "signature_ops \<Rightarrow> string \<Rightarrow> error + string" where
  "multikey_from_jwk S x =
     (let key = b64url_decode x in
      if length key \<noteq> 32 then Inl (type_error ''Ed25519 public key must contain 32 bytes'')
      else Inr (CHR ''z'' # so_b58_encode S (CHR 0xED # CHR 0x01 # key)))"

definition method_multibase :: "signature_ops \<Rightarrow> kya_method \<Rightarrow> error + string" where
  "method_multibase S m =
     (case vm_multibase m of
        Some k \<Rightarrow> Inr k
      | None \<Rightarrow>
          (case vm_jwk m of
             Some j \<Rightarrow> if jk_kty j = ''OKP'' \<and> jk_crv j = ''Ed25519'' then multikey_from_jwk S (jk_x j)
               else Inl (type_error ''Delegation proof uses an unsupported key type'')
           | None \<Rightarrow> Inl (type_error ''Delegation proof uses an unsupported key type'')))"

definition check_signature :: "signature_ops \<Rightarrow> signed_credential \<Rightarrow> integrity_proof \<Rightarrow> kya_method \<Rightarrow> error + unit" where
  "check_signature S c p m =
     bind_sum (method_multibase S m) (\<lambda>k.
     case so_b58_decode S (tl (ip_value p)) of
       None \<Rightarrow> Inl (JsError ''Error'' ''Invalid base58'')
     | Some sig \<Rightarrow>
         bind_sum (so_verify S m k (filter (\<lambda>(n, _). n \<noteq> ''proof'') (sc_fields c)) (ip_fields p) sig) (\<lambda>valid.
         if valid then Inr () else Inl (type_error ''Invalid eddsa-jcs-2022 signature'')))"

text \<open>The body of the \<open>try\<close>; whatever it throws becomes one failure.\<close>

definition verify_credential_inner :: "'s did_ops \<Rightarrow> signature_ops \<Rightarrow> json \<Rightarrow> (error, 's did_state, unit) io" where
  "verify_credential_inner D S v =
     (case so_parse S v of
        None \<Rightarrow> throw ZodError
      | Some c \<Rightarrow>
          bind_io (lift_io (proof_record (sc_proof c))) (\<lambda>p.
          bind_io (resolve_verification_method D (ip_method p)) (\<lambda>m.
          bind_io (resolve_did_document D (sc_issuer c)) (\<lambda>doc.
          if vm_controller m \<noteq> sc_issuer c \<or> \<not> starts_with (sc_issuer c @ ''#'') (ip_method p)
          then throw (type_error ''Delegation proof key is not controlled by the issuer'')
          else (case assert_assertion_method doc (ip_method p) of
              Inl e \<Rightarrow> throw (type_error ''Delegation verification method is not authorised for assertionMethod'')
            | Inr _ \<Rightarrow> lift_io (check_signature S c p m))))))"

definition verify_credential :: "'s did_ops \<Rightarrow> signature_ops \<Rightarrow> json \<Rightarrow> (kya_error, 's did_state, unit) io" where
  "verify_credential D S v =
     catch_io (verify_credential_inner D S v)
       (\<lambda>e. throw (KyaFailure KYA_DELEGATION_SIGNATURE_INVALID StageDelegationSignature
         ''Delegation Data Integrity proof failed verification''))"

subsection \<open>Entity cards\<close>

record card_attestation =
  ca_type :: string
  ca_subject :: string

record entity_card =
  ec_id :: string
  ec_responsible :: "string option"
  ec_principal :: "string option"
  ec_attestations :: "card_attestation list option"

text \<open>The result of \<open>verifyCard\<close>: whether it is good, whether accountability was verified, and each attestation.\<close>

record card_check =
  ch_ok :: bool
  ch_accountable :: "bool option"
  ch_attestations :: "bool list"

definition accountability_check :: "string \<Rightarrow> entity_card \<Rightarrow> string option \<Rightarrow> bool \<times> bool" where
  "accountability_check responsible c proof_did = (ec_responsible c = Some responsible \<and> proof_did = None, True)"

definition principal_mismatch :: "string \<Rightarrow> kya_error" where
  "principal_mismatch m = KyaFailure KYA_PRINCIPAL_MISMATCH StageDelegation m"

definition verify_principal ::
  "(json \<Rightarrow> entity_card option) \<Rightarrow> (entity_card \<Rightarrow> (entity_card \<Rightarrow> string option \<Rightarrow> bool \<times> bool) \<Rightarrow> (kya_error, 's, card_check) io) \<Rightarrow>
    json \<Rightarrow> string \<Rightarrow> string \<Rightarrow> (kya_error, 's, string) io" where
  "verify_principal parse_card verify_card v agent responsible =
     (case parse_card v of
        None \<Rightarrow> throw (OtherError ZodError)
      | Some c \<Rightarrow>
          (case ec_principal c of
             None \<Rightarrow> throw (principal_mismatch ''Entity Card accountability does not match verified delegated authority'')
           | Some q \<Rightarrow>
               if ec_id c \<noteq> agent \<or> ec_responsible c \<noteq> Some responsible
               then throw (principal_mismatch ''Entity Card accountability does not match verified delegated authority'')
               else
                 let ats = (case ec_attestations c of None \<Rightarrow> [] | Some xs \<Rightarrow> xs);
                     ns = filter (\<lambda>n. ca_type (ats ! n) = ''IdentityVerification'' \<and> ca_subject (ats ! n) = q) [0..<length ats] in
                 if ns = [] then throw (principal_mismatch ''Entity Card principal lacks an identity attestation'')
                 else bind_io (verify_card c (accountability_check responsible)) (\<lambda>r.
                   if \<not> ch_ok r \<or> ch_accountable r \<noteq> Some True \<or>
                     \<not> list_all (\<lambda>n. n < length (ch_attestations r) \<and> ch_attestations r ! n) ns
                   then throw (principal_mismatch ''Entity Card principal identity attestation was not verified'')
                   else ret q)))"

subsection \<open>Keys belong to their DID\<close>

definition document_of :: "string \<Rightarrow> did_document \<Rightarrow> bool" where
  "document_of did doc \<longleftrightarrow> dd_id doc = did \<and>
     (\<forall>m\<in>set (dd_methods doc). vm_controller m = did \<and> starts_with (did @ ''#'') (vm_id m))"

definition cache_ok :: "'s did_state \<Rightarrow> bool" where
  "cache_ok s \<longleftrightarrow> (\<forall>did doc t. map_of (ds_cache s) did = Some (doc, t) \<longrightarrow> document_of did doc)"

lemma map_sum_list_all:
  "map_sum_list f xs = Inr ys \<Longrightarrow> (\<And>x y. f x = Inr y \<Longrightarrow> P y) \<Longrightarrow> \<forall>y\<in>set ys. P y"
  by (induction xs arbitrary: ys) (auto simp: bind_sum_Inr)

lemma parse_method_of:
  "parse_method pj did v = Inr m \<Longrightarrow> vm_controller m = did \<and> starts_with (did @ ''#'') (vm_id m)"
  by (auto simp: parse_method_def bind_sum_Inr split: option.splits if_splits)

lemma parse_did_document_of:
  assumes "parse_did_document pj did v = Inr doc"
  shows "document_of did doc"
proof -
  from assms obtain xs ms where "map_sum_list (parse_method pj did) xs = Inr ms" "dd_methods doc = ms" "dd_id doc = did"
    by (auto simp: parse_did_document_def bind_sum_Inr split: option.splits if_splits json.splits)
  with map_sum_list_all [of "parse_method pj did" xs ms "\<lambda>m. vm_controller m = did \<and> starts_with (did @ ''#'') (vm_id m)"]
  show ?thesis using parse_method_of by (auto simp: document_of_def)
qed

lemma fetch_did_web_cache: "ds_cache (snd (fetch_did_web D did s)) = ds_cache s"
  by (auto simp: fetch_did_web_def bind_io_apply split: prod.split sum.split reply.split option.split)

lemma refresh_did_sound:
  assumes "refresh_did D did s = (r, s')" "cache_ok s"
  shows "cache_ok s' \<and> (\<forall>doc. r = Inr doc \<longrightarrow> document_of did doc)"
proof -
  let ?raw = "if starts_with ''did:key:'' did
        then (case dr_did_key D did of None \<Rightarrow> throw (type_error ''Unsupported or malformed did:key'') | Some v \<Rightarrow> ret v)
        else if starts_with ''did:web:'' did then fetch_did_web D did
        else throw (type_error ''Unsupported DID method'')"
  obtain q s1 where q: "?raw s = (q, s1)" by fastforce
  then have "ds_cache s1 = ds_cache s"
    using fetch_did_web_cache [of D did s] by (auto split: if_splits option.splits)
  with assms(2) have c: "cache_ok s1" by (simp add: cache_ok_def)
  show ?thesis
  proof (cases q)
    case (Inl e)
    with assms(1) q c show ?thesis by (auto simp: refresh_did_def bind_io_apply)
  next
    case (Inr raw)
    have "r = (case parse_did_document (dr_parse_jwk D) did raw of Inl e \<Rightarrow> Inl e | Inr doc \<Rightarrow> Inr doc) \<and>
      s' = (case parse_did_document (dr_parse_jwk D) did raw of Inl e \<Rightarrow> s1 | Inr doc \<Rightarrow>
        if 0 < dr_ttl D then s1\<lparr>ds_cache := AList.update did (doc, dr_now D (ds_env s1) + dr_ttl D) (ds_cache s1)\<rparr> else s1)"
      using assms(1) q Inr by (auto simp: refresh_did_def bind_io_apply split: sum.splits)
    then show ?thesis
      using c parse_did_document_of [of "dr_parse_jwk D" did raw]
      by (auto simp: cache_ok_def update_conv' split: sum.splits if_splits)
  qed
qed

lemma resolve_did_document_sound:
  assumes "resolve_did_document D did s = (r, s')" "cache_ok s"
  shows "cache_ok s' \<and> (\<forall>doc. r = Inr doc \<longrightarrow> document_of did doc)"
proof (cases "\<exists>doc t. map_of (ds_cache s) did = Some (doc, t) \<and> dr_now D (ds_env s) < t")
  case True
  with assms show ?thesis by (auto simp: resolve_did_document_def cache_ok_def)
next
  case False
  then have "refresh_did D did s = (r, s')"
    using assms(1) by (auto simp: resolve_did_document_def split: option.splits prod.splits if_splits)
  then show ?thesis using assms(2) by (rule refresh_did_sound)
qed

text \<open>A resolved key has the identifier asked for, and the DID before its fragment controls and publishes it.\<close>

lemma resolve_verification_method_sound:
  assumes "resolve_verification_method D kid s = (r, s')" "cache_ok s"
  shows "cache_ok s' \<and> (\<forall>m. r = Inr m \<longrightarrow> vm_id m = kid \<and> vm_controller m = takeWhile (\<lambda>c. c \<noteq> CHR ''#'') kid \<and> CHR ''#'' \<in> set kid)"
proof (cases "\<exists>n. index_of CHR ''#'' kid = Some n \<and> n \<noteq> 0 \<and> n \<noteq> length kid - 1")
  case False
  with assms show ?thesis by (auto simp: resolve_verification_method_def split: option.splits if_splits)
next
  case True
  then obtain n where n: "index_of CHR ''#'' kid = Some n" "n \<noteq> 0" "n \<noteq> length kid - 1" by blast
  obtain q s1 where q: "resolve_did_document D (take n kid) s = (q, s1)" by fastforce
  note doc = resolve_did_document_sound [OF q assms(2)]
  have t: "take n kid = takeWhile (\<lambda>c. c \<noteq> CHR ''#'') kid" "CHR ''#'' \<in> set kid"
    using n(1) takeWhile_eq_take [of "\<lambda>c. c \<noteq> CHR ''#''" kid] by (auto simp: index_of_def split: if_splits)
  have "s' = s1" using assms(1) n q
    by (auto simp: resolve_verification_method_def bind_io_apply split: sum.splits option.splits if_splits)
  moreover have "vm_id m = kid \<and> vm_controller m = take n kid" if "r = Inr m" for m
    using assms(1) n q doc that
    by (auto simp: resolve_verification_method_def bind_io_apply document_of_def
        split: sum.splits option.splits if_splits dest!: find_Some_iff2)
  ultimately show ?thesis using doc t by auto
qed

lemma bind_io_cases:
  "bind_io m f s = (r, s') \<Longrightarrow> (\<exists>e. m s = (Inl e, s') \<and> r = Inl e) \<or> (\<exists>x s1. m s = (Inr x, s1) \<and> f x s1 = (r, s'))"
  by (auto simp: bind_io_apply split: prod.splits sum.splits)

text \<open>The method that a key identifier resolves to is one of the resolved document of the DID before its fragment.\<close>

lemma resolve_verification_method_run:
  assumes "resolve_verification_method D kid s = (Inr m, s')"
  shows "\<exists>doc. resolve_did_document D (takeWhile (\<lambda>c. c \<noteq> CHR ''#'') kid) s = (Inr doc, s') \<and>
    find (\<lambda>m. vm_id m = kid) (dd_methods doc) = Some m"
  using assms takeWhile_eq_take [of "\<lambda>c. c \<noteq> CHR ''#''" kid]
  by (auto simp: resolve_verification_method_def index_of_def bind_io_Inr throw_Inr ret_def split: if_splits option.splits)

text \<open>A credential, verified from the state \<open>s\<close>, carries the signature of its issuer: its proof names the key \<open>m\<close> that the
  resolved document of the issuer publishes, the issuer's document as it is resolved then allows that key for assertions, and the
  cryptosuite accepted the signature by the key over the credential without its proof.\<close>

definition signed_by_issuer :: "'s did_ops \<Rightarrow> signature_ops \<Rightarrow> json \<Rightarrow> 's did_state \<Rightarrow> bool" where
  "signed_by_issuer D S v s \<longleftrightarrow> (\<exists>c p doc s1 m doc' s2 k sig. so_parse S v = Some c \<and> proof_record (sc_proof c) = Inr p \<and>
     resolve_did_document D (sc_issuer c) s = (Inr doc, s1) \<and> document_of (sc_issuer c) doc \<and>
     find (\<lambda>m. vm_id m = ip_method p) (dd_methods doc) = Some m \<and> vm_controller m = sc_issuer c \<and>
     resolve_did_document D (sc_issuer c) s1 = (Inr doc', s2) \<and> document_of (sc_issuer c) doc' \<and>
     relationship_contains (dd_assertion doc') (ip_method p) \<and>
     method_multibase S m = Inr k \<and> so_b58_decode S (tl (ip_value p)) = Some sig \<and>
     so_verify S m k (filter (\<lambda>(n, _). n \<noteq> ''proof'') (sc_fields c)) (ip_fields p) sig = Inr True)"

lemma verify_credential_sound:
  assumes "verify_credential D S v s = (Inr u, s')" "cache_ok s"
  shows "signed_by_issuer D S v s"
proof -
  from assms(1) have "verify_credential_inner D S v s = (Inr u, s')"
    by (auto simp: verify_credential_def catch_io_apply split: prod.splits sum.splits)
  then obtain c p where c: "so_parse S v = Some c" "proof_record (sc_proof c) = Inr p"
    and rest: "bind_io (resolve_verification_method D (ip_method p)) (\<lambda>m.
          bind_io (resolve_did_document D (sc_issuer c)) (\<lambda>doc.
          if vm_controller m \<noteq> sc_issuer c \<or> \<not> starts_with (sc_issuer c @ ''#'') (ip_method p)
          then throw (type_error ''Delegation proof key is not controlled by the issuer'')
          else (case assert_assertion_method doc (ip_method p) of
              Inl e \<Rightarrow> throw (type_error ''Delegation verification method is not authorised for assertionMethod'')
            | Inr _ \<Rightarrow> lift_io (check_signature S c p m)))) s = (Inr u, s')"
    by (auto simp: verify_credential_inner_def bind_io_apply split: option.splits sum.splits)
  from rest obtain m s1 where m: "resolve_verification_method D (ip_method p) s = (Inr m, s1)"
    and rest: "bind_io (resolve_did_document D (sc_issuer c)) (\<lambda>doc.
          if vm_controller m \<noteq> sc_issuer c \<or> \<not> starts_with (sc_issuer c @ ''#'') (ip_method p)
          then throw (type_error ''Delegation proof key is not controlled by the issuer'')
          else (case assert_assertion_method doc (ip_method p) of
              Inl e \<Rightarrow> throw (type_error ''Delegation verification method is not authorised for assertionMethod'')
            | Inr _ \<Rightarrow> lift_io (check_signature S c p m))) s1 = (Inr u, s')"
    by (auto simp only: bind_io_Inr)
  note km = resolve_verification_method_sound [OF m assms(2)]
  from rest obtain doc' s2 where doc': "resolve_did_document D (sc_issuer c) s1 = (Inr doc', s2)"
    and k: "vm_controller m = sc_issuer c" "relationship_contains (dd_assertion doc') (ip_method p)" "check_signature S c p m = Inr u"
    by (auto simp: bind_io_Inr assert_assertion_method_def need_def split: if_splits)
  from km k(1) have "takeWhile (\<lambda>c. c \<noteq> CHR ''#'') (ip_method p) = sc_issuer c" by auto
  with resolve_verification_method_run [OF m] obtain doc where doc: "resolve_did_document D (sc_issuer c) s = (Inr doc, s1)"
    and found: "find (\<lambda>m. vm_id m = ip_method p) (dd_methods doc) = Some m" by auto
  from resolve_did_document_sound [OF doc assms(2)] km resolve_did_document_sound [OF doc']
  have "document_of (sc_issuer c) doc" "document_of (sc_issuer c) doc'" by auto
  moreover from k(3) obtain b sig where "method_multibase S m = Inr b" "so_b58_decode S (tl (ip_value p)) = Some sig"
    "so_verify S m b (filter (\<lambda>(n, _). n \<noteq> ''proof'') (sc_fields c)) (ip_fields p) sig = Inr True"
    by (auto simp: check_signature_def bind_sum_Inr split: option.splits if_splits)
  ultimately show ?thesis unfolding signed_by_issuer_def using c k(1,2) doc found doc' by blast
qed

text \<open>The principal of a card is taken only from a card of this agent and this responsible party, with at least one
  identity attestation of the principal and every one of them verified.\<close>

lemma verify_principal_sound:
  assumes "verify_principal parse_card verify_card v agent responsible s = (Inr q, s')"
  shows "\<exists>c r s1. parse_card v = Some c \<and> ec_principal c = Some q \<and> ec_id c = agent \<and> ec_responsible c = Some responsible \<and>
    verify_card c (accountability_check responsible) s = (Inr r, s1) \<and> ch_ok r \<and>
    (\<exists>n<length (ch_attestations r). ch_attestations r ! n)"
  using assms
  by (auto simp: verify_principal_def Let_def bind_io_Inr throw_Inr ret_def list_all_iff filter_empty_conv
      split: option.splits if_splits) (metis atLeastLessThan_iff)+

end
