(* ===== verification/KyaLegacy.thy ===== *)
theory KyaLegacy
  imports KyaDid
begin

section \<open>Legacy KYA authority\<close>

text \<open>
  \<open>kya-os-authority/src/legacy.ts\<close>: the compatibility path, where one signed delegation credential with its
  constraints takes the place of a chain. The credential verifier of \<open>@kya-os/mcp\<close>, its JWT and schema checks, node's
  key and signature functions and \<open>Date.parse\<close> are parameters. The variable the status callback assigns
  is a component of the state the verifier runs on. Lemma: what the path accepts covers the action in identity, payee, resource,
  currency and amount, and is inside its validity window.
\<close>

subsection \<open>Credentials\<close>

datatype audience_constraint = OneAudience string | ManyAudiences "string list"

record legacy_constraints =
  lk_audience :: "audience_constraint option"
  lk_scopes :: "string list option"
  lk_not_before :: "rat option"
  lk_not_after :: "rat option"
  lk_target :: "string option"
  lk_max :: "json option"
  lk_currency :: "string option"

datatype credential_issuer = IssuerText string | IssuerObject string

record legacy_credential =
  lc_json :: "(string \<times> json) list"
  lc_issuer :: credential_issuer
  lc_subject :: string
  lc_delegation_issuer :: string
  lc_delegation_subject :: string
  lc_constraints :: legacy_constraints
  lc_expiration :: "string option"
  lc_proof_value :: "json option"

fun issuer_did :: "credential_issuer \<Rightarrow> string" where
  "issuer_did (IssuerText s) = s"
| "issuer_did (IssuerObject s) = s"

text \<open>\<open>toUpstreamDidResolver\<close>: the methods for assertions and their identifiers, without repetition.\<close>

definition upstream_document :: "did_document \<Rightarrow> did_document" where
  "upstream_document doc =
     (let ids = rev (remdups (rev (map relation_id (dd_assertion doc)))) in
      doc\<lparr>dd_methods := filter (\<lambda>m. vm_id m \<in> set ids) (dd_methods doc), dd_authentication := [],
          dd_assertion := map RelationId ids\<rparr>)"

definition upstream_resolve :: "'s did_ops \<Rightarrow> string \<Rightarrow> (error, 's did_state, did_document) io" where
  "upstream_resolve D did = bind_io (resolve_did_document D did) (\<lambda>doc. ret (upstream_document doc))"

text \<open>\<open>verifyLegacySignature\<close>: node's import of a JWK, its verification and the canonical form are parameters; an
  exception of any of them makes the signature invalid.\<close>

record legacy_crypto =
  ly_import :: "json \<Rightarrow> bytes option"
  ly_verify :: "string \<Rightarrow> bytes \<Rightarrow> bytes \<Rightarrow> bool option"
  ly_canonical :: "json \<Rightarrow> string option"

definition verify_legacy_signature :: "legacy_crypto \<Rightarrow> legacy_credential \<Rightarrow> json \<Rightarrow> bool \<times> string option" where
  "verify_legacy_signature Y c jwk =
     (case lc_proof_value c of
        Some (JStr pv) \<Rightarrow>
          if pv = [] \<or> \<not> list_all b64url_char pv then (False, Some ''Legacy proofValue is not base64url'')
          else (case (ly_import Y jwk, ly_canonical Y (JObj (filter (\<lambda>(n, _). n \<noteq> ''proof'') (lc_json c)))) of
              (Some key, Some text) \<Rightarrow>
                (case ly_verify Y text key (b64url_decode pv) of
                   Some b \<Rightarrow> (b, None)
                 | None \<Rightarrow> (False, Some ''Legacy credential signature verification failed''))
            | _ \<Rightarrow> (False, Some ''Legacy credential signature verification failed''))
      | _ \<Rightarrow> (False, Some ''Legacy proofValue is not base64url''))"

subsection \<open>The verification\<close>

record legacy_result =
  lr_valid :: bool
  lr_status :: "string option"
  lr_signature :: "bool option"

record 's legacy_options =
  lg_proof :: "json option \<Rightarrow> tool_request \<Rightarrow> string \<Rightarrow> string option \<Rightarrow> (kya_error, 's, kya_proof) io"
  lg_jwt :: "string \<Rightarrow> legacy_credential option"
  lg_object :: "(string \<times> json) list \<Rightarrow> legacy_credential option"
  lg_revocation :: "string \<times> string \<Rightarrow> (kya_error, 's, revocation_state) io"
  lg_verify_jwt :: "string \<Rightarrow> (string \<times> string \<Rightarrow> (kya_error, 's \<times> bool, bool) io) \<Rightarrow> (kya_error, 's \<times> bool, legacy_result) io"
  lg_verify_object :: "legacy_credential \<Rightarrow> (string \<times> string \<Rightarrow> (kya_error, 's \<times> bool, bool) io) \<Rightarrow>
    (kya_error, 's \<times> bool, legacy_result) io"
  lg_date_parse :: "string \<Rightarrow> int option"

definition extract_credential :: "'s legacy_options \<Rightarrow> kya_credential \<Rightarrow> kya_error + legacy_credential" where
  "extract_credential L v =
     (case v of
        CredentialText s \<Rightarrow>
          (case lg_jwt L s of
             None \<Rightarrow> Inl (KyaFailure KYA_DELEGATION_INVALID StageDelegation ''Legacy VC-JWT is malformed'')
           | Some c \<Rightarrow> Inr c)
      | CredentialObject fs \<Rightarrow>
          (case lg_object L fs of
             None \<Rightarrow> Inl (KyaFailure KYA_DELEGATION_INVALID StageDelegation ''Legacy DelegationCredential is malformed'')
           | Some c \<Rightarrow> Inr c))"

definition exact_audience :: "legacy_constraints \<Rightarrow> string \<Rightarrow> bool" where
  "exact_audience k expected \<longleftrightarrow>
     (case lk_audience k of Some (OneAudience a) \<Rightarrow> a = expected | Some (ManyAudiences as) \<Rightarrow> expected \<in> set as | None \<Rightarrow> False)"

text \<open>The status callback assigns \<open>revocationFresh\<close>, the second component, and throws on a stale answer.\<close>

definition check_status :: "'s legacy_options \<Rightarrow> string \<times> string \<Rightarrow> (kya_error, 's \<times> bool, bool) io" where
  "check_status L x s =
     (case lg_revocation L x (fst s) of
        (Inl e, t) \<Rightarrow> (Inl e, (t, snd s))
      | (Inr (revoked, fresh), t) \<Rightarrow>
          if \<not> fresh then (Inl (OtherError (JsError ''Error'' ''Legacy revocation status is stale'')), (t, fresh))
          else (Inr revoked, (t, fresh)))"

definition run_verifier ::
  "'s legacy_options \<Rightarrow> kya_credential \<Rightarrow> legacy_credential \<Rightarrow> (kya_error, 's, legacy_result \<times> bool) io" where
  "run_verifier L v c s =
     (case (case v of CredentialText t \<Rightarrow> lg_verify_jwt L t (check_status L)
            | CredentialObject _ \<Rightarrow> lg_verify_object L c (check_status L)) (s, False) of
        (Inl e, (t, fresh)) \<Rightarrow> (Inl e, t)
      | (Inr r, (t, fresh)) \<Rightarrow> (Inr (r, fresh), t))"

definition legacy_failure :: "legacy_result \<Rightarrow> kya_error" where
  "legacy_failure r =
     (if lr_status r = Some ''revoked'' then KyaFailure KYA_DELEGATION_REVOKED StageRevocation ''Legacy delegation is revoked''
      else if lr_status r = Some ''status_unresolvable''
      then KyaFailure KYA_REVOCATION_UNAVAILABLE StageRevocation ''Legacy delegation status could not be verified''
      else if lr_signature r = Some False
      then KyaFailure KYA_DELEGATION_SIGNATURE_INVALID StageDelegationSignature ''Legacy delegation verification failed''
      else KyaFailure KYA_DELEGATION_INVALID StageDelegation ''Legacy delegation verification failed'')"

definition legacy_max :: "legacy_constraints \<Rightarrow> string option" where
  "legacy_max k = (case lk_max k of Some (JStr s) \<Rightarrow> if kya_amount_ok s then Some s else None | _ \<Rightarrow> None)"

text \<open>The times a credential ends at, in milliseconds; \<open>None\<close> is \<open>NaN\<close>.\<close>

definition legacy_expiries :: "'s legacy_options \<Rightarrow> kya_proof \<Rightarrow> legacy_credential \<Rightarrow> rat option list" where
  "legacy_expiries L pf c =
     Some (of_int (kq_expires pf * 1000)) #
     map (\<lambda>t. map_option of_int (lg_date_parse L t)) (option_list (lc_expiration c)) @
     map (\<lambda>q. Some (q * 1000)) (option_list (lk_not_after (lc_constraints c)))"

definition outside_window :: "'s legacy_options \<Rightarrow> kya_proof \<Rightarrow> legacy_credential \<Rightarrow> int \<Rightarrow> bool" where
  "outside_window L pf c now \<longleftrightarrow>
     (case lk_not_before (lc_constraints c) of None \<Rightarrow> False | Some q \<Rightarrow> of_int now < q * 1000) \<or>
     list_ex (\<lambda>x. case x of None \<Rightarrow> True | Some t \<Rightarrow> t \<le> of_int now) (legacy_expiries L pf c)"

definition truncate_rat :: "rat \<Rightarrow> int" where
  "truncate_rat q = (if 0 \<le> q then \<lfloor>q\<rfloor> else \<lceil>q\<rceil>)"

definition legacy_expiry :: "'s legacy_options \<Rightarrow> kya_proof \<Rightarrow> legacy_credential \<Rightarrow> int" where
  "legacy_expiry L pf c =
     (let xs = map the (legacy_expiries L pf c) in truncate_rat (fold min (tl xs) (hd xs)))"

text \<open>The checks after the credential was verified, in the order of the code.\<close>

definition legacy_checks ::
  "host \<Rightarrow> 's legacy_options \<Rightarrow> action \<Rightarrow> kya_policy \<Rightarrow> string \<Rightarrow> int \<Rightarrow> kya_proof \<Rightarrow> kya_payment \<Rightarrow> legacy_credential \<Rightarrow> bool \<Rightarrow> kya_error + unit" where
  "legacy_checks H L a p audience now pf f c fresh =
     (let k = lc_constraints c; responsible = issuer_did (lc_issuer c) in
     bind_sum (need (\<not> (yp_fresh_revocation p \<and> \<not> fresh)) KYA_REVOCATION_UNAVAILABLE StageRevocation
       ''Fresh legacy revocation state is required'') (\<lambda>_.
     bind_sum (need (lc_delegation_issuer c = responsible \<and> lc_delegation_subject c = lc_subject c \<and> lc_delegation_subject c = kq_did pf)
       KYA_AGENT_IDENTITY_MISMATCH StageDelegation ''Legacy delegation identity continuity does not match the live proof'') (\<lambda>_.
     bind_sum (need (exact_audience k audience) KYA_AUDIENCE_MISMATCH StageDelegation
       ''Legacy delegation audience does not match'') (\<lambda>_.
     bind_sum (need (case lk_scopes k of None \<Rightarrow> False | Some xs \<Rightarrow> ''payments.transfer'' \<in> set xs) KYA_ACTION_NOT_DELEGATED StageDelegation
       ''Legacy delegation does not explicitly designate payments.transfer'') (\<lambda>_.
     bind_sum (need (accepted_did p (kq_did pf) \<and> accepted_did p responsible) KYA_AGENT_IDENTITY_MISMATCH StageDelegation
       ''Legacy delegation uses an unaccepted DID method'') (\<lambda>_.
     bind_sum (need (responsible \<in> set (yp_responsible p)) KYA_RESPONSIBLE_PARTY_NOT_ALLOWED StageDelegation
       ''Legacy Responsible Party is not allowlisted'') (\<lambda>_.
     bind_sum (need (assurance_enough (kq_assurance pf) (yp_min_assurance p)) KYA_PROOF_ASSURANCE_INSUFFICIENT StageRequestProof
       ''Legacy request proof assurance is below policy'') (\<lambda>_.
     bind_sum (need (\<not> (legacy_max k = None \<and> yp_require_max p)) KYA_MAX_AMOUNT_REQUIRED StageFinancialJoin
       ''Legacy signed constraints require canonical maxAmount'') (\<lambda>_.
     bind_sum (need (a_agent_id a = kq_did pf \<and> a_principal_id a = responsible) KYA_PRINCIPAL_MISMATCH StageFinancialJoin
       ''Inntris identities do not match legacy delegated authority'') (\<lambda>_.
     bind_sum (need (tx_amount (a_transaction a) = ky_amount f \<and> tx_payee (a_transaction a) = ky_payee f)
       KYA_AUTHORITY_BINDING_MISMATCH StageFinancialJoin ''Legacy payment request does not match the Inntris transaction'') (\<lambda>_.
     bind_sum (need (map_of (yp_resources p) (pr_resource (a_reference a)) = Some (ky_resource f) \<and> lk_target k = Some (ky_resource f))
       KYA_INVOCATION_TARGET_MISMATCH StageFinancialJoin ''Legacy invocation target is not exactly mapped'') (\<lambda>_.
     bind_sum (need (map_of (yp_currencies p) (tx_asset (a_transaction a)) = Some (ky_currency f) \<and> lk_currency k = Some (ky_currency f))
       KYA_CURRENCY_MISMATCH StageFinancialJoin ''Legacy currency is not explicitly mapped'') (\<lambda>_.
     bind_sum (require_within_max H (tx_amount (a_transaction a)) (legacy_max k) ''Payment exceeds legacy delegated maxAmount'') (\<lambda>_.
     need (\<not> outside_window L pf c now) KYA_DELEGATION_EXPIRED StageDelegation
       ''Legacy delegation is outside its signed validity window''))))))))))))))"

definition legacy_binding ::
  "host \<Rightarrow> kya_policy \<Rightarrow> kya_presentation \<Rightarrow> kya_proof \<Rightarrow> kya_payment \<Rightarrow> legacy_credential \<Rightarrow> bool \<Rightarrow> int \<Rightarrow> int \<Rightarrow> kya_error + kya_binding" where
  "legacy_binding H p pr pf f c fresh now expires =
     bind_sum (other (hash_kya_policy H p)) (\<lambda>ph.
     bind_sum (iso_or_throw now) (\<lambda>va.
     bind_sum (iso_or_throw expires) (\<lambda>ea.
     other (complete_binding H \<lparr>kb_profile = LegacyV1, kb_policy_hash = ph,
       kb_presentation_hash = hash_canonical H (presentation_json pr), kb_proof_hash = kq_proof_hash pf,
       kb_request_hash = kq_request_hash pf, kb_chain_hash = hash_canonical H (JObj (lc_json c)), kb_card_hash = None,
       kb_agent = kq_did pf, kb_responsible = issuer_did (lc_issuer c), kb_principal = None,
       kb_assurance = kq_assurance pf, kb_target = ky_resource f, kb_max = legacy_max (lc_constraints c),
       kb_currency = Some (ky_currency f), kb_depth = 1, kb_fresh = fresh, kb_verified_at = va, kb_expires_at = ea,
       kb_authority_hash = []\<rparr>))))"

definition verify_legacy :: "host \<Rightarrow> 's legacy_options \<Rightarrow> 's legacy_adapter" where
  "verify_legacy H L pr a p audience now =
     (case pr of
        EntityCardPresentation _ _ _ _ _ \<Rightarrow> disabled_legacy pr a p audience now
      | LegacyPresentation q v au w \<Rightarrow>
          if w = None
          then throw (KyaFailure KYA_PROOF_INVALID StageRequestProof ''Legacy financial authority requires a live request proof'')
          else if yp_card_principal p
          then throw (KyaFailure KYA_PRINCIPAL_MISMATCH StageDelegation ''Legacy compatibility does not establish an Entity Card principal'')
          else bind_io (lg_proof L w q audience None) (\<lambda>pf.
            bind_io (lift_io (map_payment q)) (\<lambda>f.
            bind_io (lift_io (extract_credential L v)) (\<lambda>c.
            bind_io (run_verifier L v c) (\<lambda>(r, fresh).
            if \<not> lr_valid r then throw (legacy_failure r)
            else bind_io (lift_io (legacy_checks H L a p audience now pf f c fresh)) (\<lambda>_.
              let expires = legacy_expiry L pf c in
              bind_io (lift_io (legacy_binding H p pr pf f c fresh now expires)) (\<lambda>b.
              ret \<lparr>va_binding = b, va_agent = kq_did pf, va_responsible = issuer_did (lc_issuer c), va_principal = None,
                   va_max = legacy_max (lc_constraints c), va_currency = Some (ky_currency f), va_target = ky_resource f,
                   va_expires_at = expires\<rparr>)))))))"

subsection \<open>What the legacy path accepts\<close>

lemma fold_min_mem: "fold min xs (t :: 'a :: linorder) = t \<or> fold min xs t \<in> set xs"
proof (induction xs arbitrary: t)
  case (Cons x xs)
  from Cons.IH [of "min x t"] show ?case by (auto simp: min_def split: if_splits)
qed simp

lemma truncate_above: "of_int n < q \<Longrightarrow> n \<le> truncate_rat q"
  by (simp add: truncate_rat_def le_floor_iff le_ceiling_iff)

lemma inside_window:
  assumes "\<not> outside_window L pf c now"
  shows "now \<le> legacy_expiry L pf c"
proof -
  let ?xs = "legacy_expiries L pf c"
  have all: "\<forall>x\<in>set (map the ?xs). of_int now < x"
    using assms by (auto simp: outside_window_def list_ex_iff split: option.splits)
  have "?xs \<noteq> []" by (simp add: legacy_expiries_def)
  then have "fold min (tl (map the ?xs)) (hd (map the ?xs)) \<in> set (map the ?xs)"
    using fold_min_mem [of "tl (map the ?xs)" "hd (map the ?xs)"] by (cases ?xs) auto
  with all have "of_int now < fold min (tl (map the ?xs)) (hd (map the ?xs))" by blast
  then show ?thesis unfolding legacy_expiry_def Let_def by (rule truncate_above)
qed

definition legacy_covers :: "host \<Rightarrow> kya_policy \<Rightarrow> action \<Rightarrow> int \<Rightarrow> kya_authority \<Rightarrow> bool" where
  "legacy_covers H p a now v \<longleftrightarrow>
     a_agent_id a = va_agent v \<and> a_principal_id a = va_responsible v \<and> va_responsible v \<in> set (yp_responsible p) \<and>
     accepted_did p (va_agent v) \<and> accepted_did p (va_responsible v) \<and>
     map_of (yp_resources p) (pr_resource (a_reference a)) = Some (va_target v) \<and>
     va_currency v \<noteq> None \<and> map_of (yp_currencies p) (tx_asset (a_transaction a)) = va_currency v \<and>
     (yp_require_max p \<longrightarrow> va_max v \<noteq> None) \<and>
     (\<forall>l. va_max v = Some l \<longrightarrow> (\<exists>x y. dec_new H (tx_amount (a_transaction a)) = Some x \<and> dec_new H l = Some y \<and> x \<le> y)) \<and>
     now \<le> va_expires_at v"

lemma legacy_checks_sound:
  assumes "legacy_checks H L a p audience now pf f c fresh = Inr u"
  shows "(yp_fresh_revocation p \<longrightarrow> fresh) \<and> a_agent_id a = kq_did pf \<and> a_principal_id a = issuer_did (lc_issuer c) \<and>
    issuer_did (lc_issuer c) \<in> set (yp_responsible p) \<and> accepted_did p (kq_did pf) \<and> accepted_did p (issuer_did (lc_issuer c)) \<and>
    tx_amount (a_transaction a) = ky_amount f \<and> tx_payee (a_transaction a) = ky_payee f \<and>
    map_of (yp_resources p) (pr_resource (a_reference a)) = Some (ky_resource f) \<and>
    map_of (yp_currencies p) (tx_asset (a_transaction a)) = Some (ky_currency f) \<and>
    (yp_require_max p \<longrightarrow> legacy_max (lc_constraints c) \<noteq> None) \<and>
    require_within_max H (tx_amount (a_transaction a)) (legacy_max (lc_constraints c)) ''Payment exceeds legacy delegated maxAmount'' = Inr () \<and>
    \<not> outside_window L pf c now"
  using assms by (simp only: legacy_checks_def Let_def bind_sum_Inr need_Inr) auto

lemma verify_legacy_covers:
  assumes "verify_legacy H L pr a p audience now s = (Inr v, s')"
  shows "legacy_covers H p a now v \<and> kya_binding_ok (va_binding v) \<and> (yp_fresh_revocation p \<longrightarrow> kb_fresh (va_binding v))"
proof -
  from assms obtain q cr au w where pr: "pr = LegacyPresentation q cr au w" "\<not> yp_card_principal p" "w \<noteq> None"
    by (cases pr) (auto simp: verify_legacy_def disabled_legacy_def throw_Inr split: if_splits)
  with assms obtain pf f c fresh where ck: "legacy_checks H L a p audience now pf f c fresh = Inr ()"
    and b: "legacy_binding H p pr pf f c fresh now (legacy_expiry L pf c) = Inr (va_binding v)"
    and v: "va_agent v = kq_did pf" "va_responsible v = issuer_did (lc_issuer c)" "va_max v = legacy_max (lc_constraints c)"
      "va_currency v = Some (ky_currency f)" "va_target v = ky_resource f" "va_expires_at v = legacy_expiry L pf c"
    by (auto simp: verify_legacy_def bind_io_Inr throw_Inr ret_def Let_def split: if_splits prod.splits)
  note k = legacy_checks_sound [OF ck]
  then have "legacy_covers H p a now v"
    using inside_window [of L pf c now] require_within_max_sound [of H "tx_amount (a_transaction a)"]
    by (auto simp: legacy_covers_def v)
  moreover have "kya_binding_ok (va_binding v) \<and> kb_fresh (va_binding v) = fresh"
    using b by (auto simp: legacy_binding_def bind_sum_Inr complete_binding_def Let_def split: if_splits)
  ultimately show ?thesis using k by simp
qed

end
