(* ===== verification/KyaX402.thy ===== *)
theory KyaX402
  imports X402 KyaDid
begin

section \<open>x402 actions of a KYA presentation\<close>

text \<open>
  \<open>x402-adapter/src/kya.ts\<close>: the provisional action of an x402 payment presented with an entity card. The agent is
  the one the request proof names, the principal the issuer of the root delegation or the principal of the card, as the
  policy says. Nothing is verified here; \<open>KyaGate\<close> recomputes and verifies both. The schemas of the KYA library
  are parameters. Lemmas: the action carries these identities and no binding of its own, so the gate does not refuse
  it for a caller's extension.
\<close>

text \<open>What the KYA library reads from the request proof, the root delegation and the card: the identity of
  the proof, the issuer of the credential and the card.\<close>

record kya_schemas =
  ks_proof :: "json \<Rightarrow> string option"
  ks_root_issuer :: "json \<Rightarrow> string option"
  ks_card :: "json \<Rightarrow> entity_card option"

record kya_x402_input =
  kx_requirements :: requirements
  kx_payload :: "payload option"
  kx_resource :: string
  kx_purpose :: string
  kx_asset_decimals :: rat
  kx_presentation :: kya_presentation
  kx_extensions :: "(string \<times> json) list option"

text \<open>Parsing \<open>undefined\<close> fails as parsing a malformed value does.\<close>

definition parse_present :: "(json \<Rightarrow> 'a option) \<Rightarrow> json option \<Rightarrow> error + 'a" where
  "parse_present f v = parse_or_zod (Option.bind v f)"

definition root_of :: "json list \<Rightarrow> json option" where
  "root_of ch = (case ch of [] \<Rightarrow> None | c # _ \<Rightarrow> Some c)"

definition provisional_principal ::
  "kya_schemas \<Rightarrow> kya_policy \<Rightarrow> string \<Rightarrow> json option \<Rightarrow> error + string" where
  "provisional_principal K p responsible v =
     (if \<not> yp_card_principal p then Inr responsible
      else bind_sum (parse_present (ks_card K) v) (\<lambda>c.
        case ec_principal c of
          None \<Rightarrow> Inl (type_error ''A verified Entity Card principal is required by KYA policy'')
        | Some q \<Rightarrow> Inr q))"

definition action_from_kya_x402 ::
  "host \<Rightarrow> x402_schemas \<Rightarrow> kya_schemas \<Rightarrow> kya_x402_input \<Rightarrow> kya_policy \<Rightarrow> error + action" where
  "action_from_kya_x402 H X K i p =
     (if Option.bind (kx_extensions i) (\<lambda>fs. map_of fs kya_extension_key) \<noteq> None
      then Inl (type_error ''The reserved Inntris KYA extension cannot be supplied by a caller'')
      else case kx_presentation i of
        LegacyPresentation _ _ _ _ \<Rightarrow> Inl (type_error ''The x402 reference path requires entity-card-v1'')
      | EntityCardPresentation _ pf ch cd _ \<Rightarrow>
          bind_sum (parse_present (ks_proof K) pf) (\<lambda>agent.
          bind_sum (parse_present (ks_root_issuer K) (root_of ch)) (\<lambda>responsible.
          bind_sum (provisional_principal K p responsible cd) (\<lambda>q.
          action_from_x402 H X
            \<lparr>xi_requirements = kx_requirements i, xi_payload = kx_payload i, xi_resource = kx_resource i,
             xi_principal_id = q, xi_agent_id = agent, xi_purpose = kx_purpose i,
             xi_asset_decimals = kx_asset_decimals i, xi_extensions = kx_extensions i\<rparr>))))"

lemma parse_present_Inr: "parse_present f v = Inr x \<longleftrightarrow> (\<exists>j. v = Some j \<and> f j = Some x)"
  by (cases v) (auto simp: parse_present_def parse_or_zod_def split: option.splits)

text \<open>Everything a caller can influence is in the presentation and the payment: the action is bound to the
  normalised requirements, and its identities are those of the presentation.\<close>

lemma action_from_kya_x402_bound:
  assumes "action_from_kya_x402 H X K i p = Inr a"
  obtains q pf ch cd jkt agent responsible where
    "kx_presentation i = EntityCardPresentation q (Some pf) ch cd jkt" "ks_proof K pf = Some agent"
    "ch \<noteq> []" "ks_root_issuer K (hd ch) = Some responsible"
    "action_ok H a" "a_agent_id a = agent" "pr_resource (a_reference a) = kx_resource i"
    "\<not> yp_card_principal p \<Longrightarrow> a_principal_id a = responsible"
    "yp_card_principal p \<Longrightarrow> \<exists>j c. cd = Some j \<and> ks_card K j = Some c \<and> ec_principal c = Some (a_principal_id a)"
    "assert_no_kya_extension a = Inr ()"
proof -
  from assms obtain q pf ch cd jkt agent responsible pr where
    e: "Option.bind (kx_extensions i) (\<lambda>fs. map_of fs kya_extension_key) = None"
    and pres: "kx_presentation i = EntityCardPresentation q pf ch cd jkt"
    and ag: "parse_present (ks_proof K) pf = Inr agent"
    and ro: "parse_present (ks_root_issuer K) (root_of ch) = Inr responsible"
    and pq: "provisional_principal K p responsible cd = Inr pr"
    and ac: "action_from_x402 H X
            \<lparr>xi_requirements = kx_requirements i, xi_payload = kx_payload i, xi_resource = kx_resource i,
             xi_principal_id = pr, xi_agent_id = agent, xi_purpose = kx_purpose i,
             xi_asset_decimals = kx_asset_decimals i, xi_extensions = kx_extensions i\<rparr> = Inr a"
    by (auto simp: action_from_kya_x402_def bind_sum_Inr split: if_splits kya_presentation.splits)
  from ag obtain j where j: "pf = Some j" "ks_proof K j = Some agent" by (auto simp: parse_present_Inr)
  from ro have c: "ch \<noteq> []" "ks_root_issuer K (hd ch) = Some responsible"
    by (auto simp: parse_present_Inr root_of_def split: list.splits)
  note b = action_from_x402_bound [OF ac, simplified]
  have x: "a_extensions a = kx_extensions i" using ac by (auto simp: action_from_x402_def bind_sum_Inr)
  show thesis
  proof (rule that [OF _ j(2) c])
    show "kx_presentation i = EntityCardPresentation q (Some j) ch cd jkt" using pres j by simp
    show "action_ok H a" "a_agent_id a = agent" "pr_resource (a_reference a) = kx_resource i" using b by auto
    show "a_principal_id a = responsible" if "\<not> yp_card_principal p"
      using pq b that by (simp add: provisional_principal_def)
    show "\<exists>j c. cd = Some j \<and> ks_card K j = Some c \<and> ec_principal c = Some (a_principal_id a)" if "yp_card_principal p"
      using pq b that by (auto simp: provisional_principal_def bind_sum_Inr parse_present_Inr split: option.splits)
    show "assert_no_kya_extension a = Inr ()" using e x by (simp add: assert_no_kya_extension_def kya_extension_def)
  qed
qed

end
