(* ===== verification/KyaStore.thy ===== *)
theory KyaStore
  imports KyaVerifier Mtp PgStore
begin

section \<open>The state of KYA authority\<close>

text \<open>
  \<open>kya-os-authority/src/state-store.ts\<close> and \<open>postgres-store/src/kya-store.ts\<close>: the nonces of request
  proofs, the authority a decision was made with, and the revalidations before approvals and
  consumptions. The locales \<open>replay_store\<close> and \<open>kya_state_store\<close> are the contracts the code relies on: a nonce is
  accepted once in its lifetime; an authority record is never replaced, and a consumption counts as
  revalidated exactly when a verified revalidation of it was appended.
\<close>

subsection \<open>Records\<close>

definition get_bool_lit :: "(string \<times> json) list \<Rightarrow> string \<Rightarrow> bool option" where
  "get_bool_lit ob k = (case map_of ob k of Some (JBool b) \<Rightarrow> Some b | _ \<Rightarrow> None)"

definition get_depth :: "(string \<times> json) list \<Rightarrow> string \<Rightarrow> int option" where
  "get_depth ob k = (case map_of ob k of Some (JNum q) \<Rightarrow> find (\<lambda>n. of_int n = q) [1..10] | _ \<Rightarrow> None)"

text \<open>\<open>VerifiedKyaAuthorityBindingV1Schema\<close> on JSON.\<close>

definition parse_binding :: "json \<Rightarrow> kya_binding option" where
  "parse_binding v = do {
     ob \<leftarrow> strict_obj [''version'', ''status'', ''profile'', ''protocol_version'', ''reference_implementation'',
       ''authority_policy_hash'', ''presentation_hash'', ''proof_hash'', ''request_hash'', ''delegation_chain_hash'',
       ''entity_card_hash'', ''agent_did'', ''responsible_party_did'', ''principal_did'', ''proof_assurance'',
       ''invocation_target'', ''allowed_action'', ''max_amount'', ''currency'', ''delegation_depth'', ''revocation_fresh'',
       ''signatures_verified'', ''verified_at'', ''authority_expires_at'', ''authority_hash''] v;
     get_lit ob ''version'' ''inntris-kya-authority-binding-v1''; get_lit ob ''status'' ''verified'';
     ps \<leftarrow> get_str ob ''profile''; pf \<leftarrow> enum_read profile_string [EntityCardV1, LegacyV1] ps;
     get_lit ob ''protocol_version'' ''1.0.0''; rv \<leftarrow> map_of ob ''reference_implementation'';
     ro \<leftarrow> strict_obj [''package'', ''version''] rv; get_lit ro ''package'' ''@kya-os/mcp''; get_lit ro ''version'' ''1.12.0'';
     ph \<leftarrow> get_str ob ''authority_policy_hash''; rh \<leftarrow> get_str ob ''presentation_hash''; oh \<leftarrow> get_str ob ''proof_hash'';
     qh \<leftarrow> get_str ob ''request_hash''; dh \<leftarrow> get_str ob ''delegation_chain_hash''; eh \<leftarrow> get_null_str ob ''entity_card_hash'';
     ag \<leftarrow> get_str ob ''agent_did''; rp \<leftarrow> get_str ob ''responsible_party_did''; pd \<leftarrow> get_null_str ob ''principal_did'';
     as \<leftarrow> get_str ob ''proof_assurance''; al \<leftarrow> enum_read assurance_string [L3Minus, L3] as;
     it \<leftarrow> get_str ob ''invocation_target''; get_lit ob ''allowed_action'' ''payments.transfer'';
     mx \<leftarrow> get_null_str ob ''max_amount''; cu \<leftarrow> get_null_str ob ''currency''; dp \<leftarrow> get_depth ob ''delegation_depth'';
     fr \<leftarrow> get_bool_lit ob ''revocation_fresh'';
     guard_opt (get_bool_lit ob ''signatures_verified'' = Some True) ();
     va \<leftarrow> get_str ob ''verified_at''; ea \<leftarrow> get_str ob ''authority_expires_at''; ah \<leftarrow> get_str ob ''authority_hash'';
     let b = \<lparr>kb_profile = pf, kb_policy_hash = ph, kb_presentation_hash = rh, kb_proof_hash = oh, kb_request_hash = qh,
       kb_chain_hash = dh, kb_card_hash = eh, kb_agent = ag, kb_responsible = rp, kb_principal = pd, kb_assurance = al,
       kb_target = it, kb_max = mx, kb_currency = cu, kb_depth = dp, kb_fresh = fr, kb_verified_at = va,
       kb_expires_at = ea, kb_authority_hash = ah\<rparr>;
     guard_opt (kya_binding_ok b) b }"

record kya_record =
  kr_decision_id :: string
  kr_action_hash :: string
  kr_action :: action
  kr_binding :: kya_binding
  kr_created_at :: string

definition kya_record_ok :: "host \<Rightarrow> kya_record \<Rightarrow> bool" where
  "kya_record_ok H r \<longleftrightarrow> kr_decision_id r \<noteq> [] \<and> hash_ok (kr_action_hash r) \<and> action_ok H (kr_action r) \<and>
     kya_binding_ok (kr_binding r) \<and> timestamp_ok (kr_created_at r)"

definition kya_record_json :: "kya_record \<Rightarrow> json" where
  "kya_record_json r = JObj
     [(''decision_id'', JStr (kr_decision_id r)), (''action_hash'', JStr (kr_action_hash r)),
      (''action'', action_json (kr_action r)), (''binding'', kya_binding_json (kr_binding r)),
      (''created_at'', JStr (kr_created_at r))]"

datatype revalidation_kind = ForApproval | ForConsumption

record kya_revalidation =
  kv_id :: string
  kv_decision_id :: string
  kv_action_hash :: string
  kv_kind :: revalidation_kind
  kv_execution_ref :: "string option"
  kv_approval_reference :: "string option"
  kv_presentation_hash :: string
  kv_authority_hash :: "string option"
  kv_verified :: bool
  kv_reason :: "string option"
  kv_verified_at :: string

text \<open>\<open>KyaAuthorityRevalidationRecordSchema\<close>; \<open>z.uuid\<close> is a parameter.\<close>

definition revalidation_ok :: "(string \<Rightarrow> bool) \<Rightarrow> kya_revalidation \<Rightarrow> bool" where
  "revalidation_ok uuid v \<longleftrightarrow>
     uuid (kv_id v) \<and> kv_decision_id v \<noteq> [] \<and> hash_ok (kv_action_hash v) \<and> opt_check (\<lambda>s. s \<noteq> []) (kv_execution_ref v) \<and>
     opt_check (\<lambda>s. s \<noteq> []) (kv_approval_reference v) \<and> hash_ok (kv_presentation_hash v) \<and>
     opt_check hash_ok (kv_authority_hash v) \<and> opt_check (\<lambda>s. s \<noteq> []) (kv_reason v) \<and> timestamp_ok (kv_verified_at v)"

text \<open>The records \<open>getSuccessfulExecutionRevalidation\<close> looks for.\<close>

definition successful_execution :: "string \<Rightarrow> string \<Rightarrow> string \<Rightarrow> kya_revalidation \<Rightarrow> bool" where
  "successful_execution i h ref v \<longleftrightarrow>
     kv_kind v = ForConsumption \<and> kv_verified v \<and> kv_decision_id v = i \<and> kv_action_hash v = h \<and> kv_execution_ref v = Some ref"

subsection \<open>The in-memory stores\<close>

text \<open>A \<open>Date\<close> made from a number of milliseconds; \<open>None\<close> is an invalid one, which compares false.\<close>

definition date_of_ms :: "int \<Rightarrow> int option" where
  "date_of_ms t = (if \<bar>t\<bar> \<le> 8640000000000000 then Some t else None)"

type_synonym kya_nonce_map = "(string \<times> int option) list"

definition kya_nonce_key :: "string \<Rightarrow> string \<Rightarrow> string" where
  "kya_nonce_key did nonce = did @ CHR 0x00 # nonce"

definition mem_consume_nonce :: "nonce_use \<Rightarrow> (error, kya_nonce_map, bool) io" where
  "mem_consume_nonce u s =
     (let k = kya_nonce_key (nu_did u) (nu_nonce u) in
      if (case map_of s k of Some (Some e) \<Rightarrow> nu_consumed_at u \<le> e | _ \<Rightarrow> False) then (Inr False, s)
      else (Inr True, AList.update k (date_of_ms (nu_expires_at u)) s))"

definition mem_purge_nonces :: "int \<Rightarrow> (error, kya_nonce_map, nat) io" where
  "mem_purge_nonces t s =
     (let old = (\<lambda>x. case x of Some e \<Rightarrow> e < t | None \<Rightarrow> False)
      in (Inr (length (filter (\<lambda>p. old (snd p)) s)), filter (\<lambda>p. \<not> old (snd p)) s))"

record kya_memory =
  km_decisions :: "(string \<times> kya_record) list"
  km_revalidations :: "kya_revalidation list"

definition empty_kya_memory :: kya_memory where
  "empty_kya_memory = \<lparr>km_decisions = [], km_revalidations = []\<rparr>"

definition mem_save_decision :: "host \<Rightarrow> kya_record \<Rightarrow> (error, kya_memory, unit) io" where
  "mem_save_decision H r s =
     (if \<not> kya_record_ok H r then (Inl ZodError, s)
      else if (case map_of (km_decisions s) (kr_decision_id r) of None \<Rightarrow> False
        | Some e \<Rightarrow> canonicalise H (Some (kya_record_json e)) \<noteq> canonicalise H (Some (kya_record_json r)))
      then (Inl (JsError ''Error'' ''KYA decision authority records are immutable''), s)
      else (Inr (), s\<lparr>km_decisions := AList.update (kr_decision_id r) r (km_decisions s)\<rparr>))"

definition mem_get_decision :: "string \<Rightarrow> (error, kya_memory, kya_record option) io" where
  "mem_get_decision i s = (Inr (map_of (km_decisions s) i), s)"

definition mem_find_success :: "string \<Rightarrow> string \<Rightarrow> string \<Rightarrow> (error, kya_memory, kya_revalidation option) io" where
  "mem_find_success i h ref s = (Inr (find (successful_execution i h ref) (km_revalidations s)), s)"

definition mem_append_revalidation :: "(string \<Rightarrow> bool) \<Rightarrow> kya_revalidation \<Rightarrow> (error, kya_memory, unit) io" where
  "mem_append_revalidation uuid v =
     (if \<not> revalidation_ok uuid v then throw ZodError
      else bind_io
        (case kv_execution_ref v of
           Some ref \<Rightarrow> if kv_kind v = ForConsumption \<and> kv_verified v
             then mem_find_success (kv_decision_id v) (kv_action_hash v) ref else ret None
         | None \<Rightarrow> ret None)
        (\<lambda>existing. if existing \<noteq> None then ret ()
           else modify_io (\<lambda>s. s\<lparr>km_revalidations := km_revalidations s @ [v]\<rparr>)))"

subsection \<open>The PostgreSQL stores\<close>

text \<open>\<open>migrations/004_kya_authority.sql\<close>. The rows of \<open>kya_proof_nonces\<close> by their key.\<close>

type_synonym nonce_table = "((string \<times> string) \<times> int) list"

definition pg_consume_nonce :: "nonce_use \<Rightarrow> (error, nonce_table, bool) io" where
  "pg_consume_nonce u s =
     (let k = (nu_did u, nu_nonce u) in
      case date_of_ms (nu_expires_at u) of
        None \<Rightarrow> (Inl (pg_error ''invalid input syntax''), s)
      | Some x \<Rightarrow>
          if \<not> (nu_did u \<noteq> [] \<and> nu_nonce u \<noteq> [] \<and> nu_consumed_at u < x)
          then (Inl (pg_error ''new row violates check constraint''), s)
          else if (case map_of s k of None \<Rightarrow> True | Some e \<Rightarrow> e < nu_consumed_at u)
          then (Inr True, AList.update k x s) else (Inr False, s))"

definition pg_purge_nonces :: "int \<Rightarrow> (error, nonce_table, nat) io" where
  "pg_purge_nonces t s = (Inr (length (filter (\<lambda>p. snd p < t) s)), filter (\<lambda>p. \<not> snd p < t) s)"

text \<open>The columns of \<open>kya_authority_decisions\<close> that are copies of parts of the binding are left out. The referenced
  decisions are those of the policy store.\<close>

record kya_row =
  kw_action_hash :: string
  kw_action :: json
  kw_binding :: json
  kw_created_at :: int

record kya_tables =
  kt_base :: pg_tables
  kt_decisions :: "(string \<times> kya_row) list"
  kt_revalidations :: "(kya_revalidation \<times> int) list"

definition kya_record_from_row :: "host \<Rightarrow> string \<Rightarrow> kya_row \<Rightarrow> error + kya_record" where
  "kya_record_from_row H i w =
     bind_sum (pg_iso (kw_created_at w)) (\<lambda>t.
     case (parse_action H (kw_action w), parse_binding (kw_binding w)) of
       (Some a, Some b) \<Rightarrow>
         (let r = \<lparr>kr_decision_id = i, kr_action_hash = kw_action_hash w, kr_action = a, kr_binding = b, kr_created_at = t\<rparr>
          in if kya_record_ok H r then Inr r else Inl ZodError)
     | _ \<Rightarrow> Inl ZodError)"

definition pg_get_kya_decision :: "host \<Rightarrow> string \<Rightarrow> (error, kya_tables, kya_record option) io" where
  "pg_get_kya_decision H i s =
     (case map_of (kt_decisions s) i of
        None \<Rightarrow> (Inr None, s)
      | Some w \<Rightarrow> (case kya_record_from_row H i w of Inl e \<Rightarrow> (Inl e, s) | Inr r \<Rightarrow> (Inr (Some r), s)))"

definition pg_insert_decision :: "pg_types \<Rightarrow> kya_record \<Rightarrow> (error, kya_tables, bool) io" where
  "pg_insert_decision T r s =
     (case (pt_timestamp T (kr_created_at r), pt_timestamp T (kb_expires_at (kr_binding r))) of
        (Some t, Some _) \<Rightarrow>
          if map_of (kt_decisions s) (kr_decision_id r) \<noteq> None then (Inr False, s)
          else if pg_decisions (kt_base s) (kr_decision_id r) = None
          then (Inl (pg_error ''insert violates foreign key constraint''), s)
          else (Inr True, s\<lparr>kt_decisions := AList.update (kr_decision_id r)
            \<lparr>kw_action_hash = kr_action_hash r, kw_action = action_json (kr_action r),
             kw_binding = kya_binding_json (kr_binding r), kw_created_at = t\<rparr> (kt_decisions s)\<rparr>)
      | _ \<Rightarrow> (Inl (pg_error ''invalid input syntax''), s))"

definition pg_save_kya_decision :: "host \<Rightarrow> pg_types \<Rightarrow> kya_record \<Rightarrow> (error, kya_tables, unit) io" where
  "pg_save_kya_decision H T r =
     (if \<not> kya_record_ok H r then throw ZodError
      else bind_io (pg_insert_decision T r) (\<lambda>inserted.
        if inserted then ret ()
        else bind_io (pg_get_kya_decision H (kr_decision_id r)) (\<lambda>existing.
          if (case existing of None \<Rightarrow> False
              | Some e \<Rightarrow> hash_canonical H (kya_record_json e) = hash_canonical H (kya_record_json r))
          then ret ()
          else throw (JsError ''Error'' ''A KYA decision authority record with this id already exists and is immutable''))))"

text \<open>The checks of the table, the partial unique index that makes a conflicting insert do nothing, the primary
  key and the foreign key, in the order in which PostgreSQL looks at them.\<close>

definition revalidation_checks :: "kya_revalidation \<Rightarrow> bool" where
  "revalidation_checks v \<longleftrightarrow>
     (kv_kind v = ForConsumption \<longleftrightarrow> kv_execution_ref v \<noteq> None) \<and>
     (kv_kind v = ForApproval \<longleftrightarrow> kv_approval_reference v \<noteq> None) \<and>
     (kv_verified v \<and> kv_authority_hash v \<noteq> None \<and> kv_reason v = None \<or>
      \<not> kv_verified v \<and> kv_authority_hash v = None \<and> kv_reason v \<noteq> None)"

definition indexed_revalidation :: "kya_revalidation \<Rightarrow> bool" where
  "indexed_revalidation v \<longleftrightarrow> kv_kind v = ForConsumption \<and> kv_verified v"

definition same_index_entry :: "kya_revalidation \<Rightarrow> kya_revalidation \<Rightarrow> bool" where
  "same_index_entry v w \<longleftrightarrow> kv_decision_id v = kv_decision_id w \<and> kv_action_hash v = kv_action_hash w \<and>
     kv_execution_ref v = kv_execution_ref w \<and> kv_execution_ref v \<noteq> None"

definition pg_append_revalidation :: "(string \<Rightarrow> bool) \<Rightarrow> pg_types \<Rightarrow> kya_revalidation \<Rightarrow> (error, kya_tables, unit) io" where
  "pg_append_revalidation uuid T v s =
     (if \<not> revalidation_ok uuid v then (Inl ZodError, s)
      else case (pt_uuid T (kv_id v), pt_timestamp T (kv_verified_at v)) of
        (Some k, Some t) \<Rightarrow>
          if \<not> revalidation_checks v then (Inl (pg_error ''new row violates check constraint''), s)
          else if indexed_revalidation v \<and>
            list_ex (\<lambda>(w, _). indexed_revalidation w \<and> same_index_entry v w) (kt_revalidations s)
          then (Inr (), s)
          else if list_ex (\<lambda>(w, _). kv_id w = k) (kt_revalidations s)
          then (Inl (pg_error ''duplicate key value violates unique constraint''), s)
          else if map_of (kt_decisions s) (kv_decision_id v) = None
          then (Inl (pg_error ''insert violates foreign key constraint''), s)
          else (Inr (), s\<lparr>kt_revalidations := kt_revalidations s @ [(v\<lparr>kv_id := k\<rparr>, t)]\<rparr>)
      | _ \<Rightarrow> (Inl (pg_error ''invalid input syntax''), s))"

definition pg_find_success :: "(string \<Rightarrow> bool) \<Rightarrow> string \<Rightarrow> string \<Rightarrow> string \<Rightarrow> (error, kya_tables, kya_revalidation option) io" where
  "pg_find_success uuid i h ref s =
     (case find (\<lambda>(w, _). successful_execution i h ref w) (kt_revalidations s) of
        None \<Rightarrow> (Inr None, s)
      | Some (w, us) \<Rightarrow>
          (case pg_iso us of
             Inl e \<Rightarrow> (Inl e, s)
           | Inr t \<Rightarrow> let v = w\<lparr>kv_verified_at := t\<rparr>
               in if revalidation_ok uuid v then (Inr (Some v), s) else (Inl ZodError, s)))"

subsection \<open>Reading what was written\<close>

lemma find_equal: "n \<in> set ns \<Longrightarrow> find (\<lambda>m. m = n) ns = Some n"
  by (induction ns) auto

lemma get_depth_written: "map_of ob k = Some (JNum (of_int n)) \<Longrightarrow> 1 \<le> n \<Longrightarrow> n \<le> 10 \<Longrightarrow> get_depth ob k = Some n"
  by (simp add: get_depth_def find_equal del: upto_rec_numeral)

lemma enum_read_profile [simp]: "enum_read profile_string [EntityCardV1, LegacyV1] (profile_string p) = Some p"
  by (cases p) (simp_all add: enum_read_def)

lemma enum_read_assurance [simp]: "enum_read assurance_string [L3Minus, L3] (assurance_string l) = Some l"
  by (cases l) (simp_all add: enum_read_def)

lemma get_null_str_null_str: "map_of ob k = Some (null_str x) \<Longrightarrow> get_null_str ob k = Some x"
  by (cases x) (simp_all add: get_null_str_def null_str_def)

lemma parse_binding_json: "kya_binding_ok b \<Longrightarrow> parse_binding (kya_binding_json b) = Some b"
proof -
  assume b: "kya_binding_ok b"
  then have d: "1 \<le> kb_depth b" "kb_depth b \<le> 10" by (simp_all add: kya_binding_ok_def)
  let ?ob = "binding_body b @ [(''authority_hash'', JStr (kb_authority_hash b))]"
  have "get_null_str ?ob ''entity_card_hash'' = Some (kb_card_hash b)" "get_null_str ?ob ''principal_did'' = Some (kb_principal b)"
    "get_null_str ?ob ''max_amount'' = Some (kb_max b)" "get_null_str ?ob ''currency'' = Some (kb_currency b)"
    by (rule get_null_str_null_str, simp add: binding_body_def)+
  moreover have "get_depth ?ob ''delegation_depth'' = Some (kb_depth b)"
    by (rule get_depth_written) (simp_all add: binding_body_def d)
  moreover have "get_str ?ob ''profile'' = Some (profile_string (kb_profile b))"
    "get_str ?ob ''authority_policy_hash'' = Some (kb_policy_hash b)" "get_str ?ob ''presentation_hash'' = Some (kb_presentation_hash b)"
    "get_str ?ob ''proof_hash'' = Some (kb_proof_hash b)" "get_str ?ob ''request_hash'' = Some (kb_request_hash b)"
    "get_str ?ob ''delegation_chain_hash'' = Some (kb_chain_hash b)" "get_str ?ob ''agent_did'' = Some (kb_agent b)"
    "get_str ?ob ''responsible_party_did'' = Some (kb_responsible b)"
    "get_str ?ob ''proof_assurance'' = Some (assurance_string (kb_assurance b))"
    "get_str ?ob ''invocation_target'' = Some (kb_target b)" "get_str ?ob ''verified_at'' = Some (kb_verified_at b)"
    "get_str ?ob ''authority_expires_at'' = Some (kb_expires_at b)" "get_str ?ob ''authority_hash'' = Some (kb_authority_hash b)"
    "get_lit ?ob ''version'' ''inntris-kya-authority-binding-v1'' = Some ()" "get_lit ?ob ''status'' ''verified'' = Some ()"
    "get_lit ?ob ''protocol_version'' ''1.0.0'' = Some ()" "get_lit ?ob ''allowed_action'' ''payments.transfer'' = Some ()"
    "get_bool_lit ?ob ''revocation_fresh'' = Some (kb_fresh b)" "get_bool_lit ?ob ''signatures_verified'' = Some True"
    "map_of ?ob ''reference_implementation'' = Some (JObj [(''package'', JStr ''@kya-os/mcp''), (''version'', JStr ''1.12.0'')])"
    by (simp_all add: binding_body_def get_str_def get_lit_def get_bool_lit_def)
  moreover have "strict_obj [''version'', ''status'', ''profile'', ''protocol_version'', ''reference_implementation'',
       ''authority_policy_hash'', ''presentation_hash'', ''proof_hash'', ''request_hash'', ''delegation_chain_hash'',
       ''entity_card_hash'', ''agent_did'', ''responsible_party_did'', ''principal_did'', ''proof_assurance'',
       ''invocation_target'', ''allowed_action'', ''max_amount'', ''currency'', ''delegation_depth'', ''revocation_fresh'',
       ''signatures_verified'', ''verified_at'', ''authority_expires_at'', ''authority_hash''] (kya_binding_json b) = Some ?ob"
    by (simp add: strict_obj_def kya_binding_json_def binding_body_def)
  ultimately show ?thesis
    by (simp add: parse_binding_def guard_opt_def strict_obj_def get_lit_def Let_def) (use b in \<open>cases b; simp\<close>)
qed

subsection \<open>The contract of a nonce store\<close>

lemma state_at_members:
  assumes "\<And>c s. c \<in> set cs \<Longrightarrow> P s \<Longrightarrow> P (snd (f c s))" and "P (state_at f cs s i)" "i \<le> j"
  shows "P (state_at f cs s j)"
  using assms(3)
proof (induction j rule: dec_induct)
  case (step n)
  show ?case
  proof (cases "n < length cs")
    case True
    obtain rs s' where "run_ops f cs s = (rs, s')" by fastforce
    from run_ops_nth [OF this True] have "snd (f (cs ! n) (state_at f cs s n)) = state_at f cs s (Suc n)" by simp
    with assms(1) [of "cs ! n"] step.IH True show ?thesis by force
  next
    case False
    with step.IH show ?thesis by (simp add: state_at_def)
  qed
qed (rule assms(2))

definition fair_use :: "nonce_use \<Rightarrow> bool" where
  "fair_use u \<longleftrightarrow> nu_consumed_at u \<le> nu_expires_at u \<and> date_of_ms (nu_expires_at u) = Some (nu_expires_at u)"

locale replay_store =
  fixes consume :: "nonce_use \<Rightarrow> (error, 's, bool) io"
    and expiry :: "'s \<Rightarrow> string \<Rightarrow> string \<Rightarrow> int option"
  assumes accepted: "fair_use u \<Longrightarrow> consume u s = (Inr True, s') \<Longrightarrow>
      expiry s' (nu_did u) (nu_nonce u) = Some (nu_expires_at u) \<and>
      (\<forall>t. expiry s (nu_did u) (nu_nonce u) = Some t \<longrightarrow> t < nu_consumed_at u)"
    and kept: "fair_use u \<Longrightarrow> expiry s d n = Some t \<Longrightarrow>
      expiry (snd (consume u s)) d n = Some t \<or> t < nu_consumed_at u \<and> expiry (snd (consume u s)) d n = Some (nu_expires_at u)"
begin

text \<open>Of two accepted uses of one nonce, the later one comes after the expiry of the earlier one.\<close>

lemma accepted_once:
  assumes run: "run_ops consume us s = (rs, s')" and fair: "\<And>u. u \<in> set us \<Longrightarrow> fair_use u"
    and ij: "i < j" "j < length us" "rs ! i = Inr True" "rs ! j = Inr True"
    and same: "nu_did (us ! i) = nu_did (us ! j)" "nu_nonce (us ! i) = nu_nonce (us ! j)"
  shows "nu_expires_at (us ! i) < nu_consumed_at (us ! j)"
proof -
  let ?P = "\<lambda>s. \<exists>t. expiry s (nu_did (us ! i)) (nu_nonce (us ! i)) = Some t \<and> nu_expires_at (us ! i) \<le> t"
  have f: "fair_use (us ! i)" "fair_use (us ! j)" using fair ij by simp_all
  have "?P (state_at consume us s (Suc i))"
    using accepted [OF f(1)] run_ops_nth [OF run, of i] ij by auto
  moreover have "?P (snd (consume u t))" if "u \<in> set us" "?P t" for u t
    using kept [OF fair [OF that(1)], of t "nu_did (us ! i)" "nu_nonce (us ! i)"] that(2) fair [OF that(1)]
    by (force simp: fair_use_def)
  ultimately have "?P (state_at consume us s j)"
    by (intro state_at_members [where f = consume and cs = us and i = "Suc i" and j = j and P = ?P]) (use ij in auto)
  then show ?thesis
    using accepted [OF f(2), of "state_at consume us s j"] run_ops_nth [OF run, of j] ij same by force
qed

end

definition mem_nonce_expiry :: "kya_nonce_map \<Rightarrow> string \<Rightarrow> string \<Rightarrow> int option" where
  "mem_nonce_expiry s d n = Option.bind (map_of s (kya_nonce_key d n)) (\<lambda>x. x)"

interpretation mem_nonces: replay_store mem_consume_nonce mem_nonce_expiry
  by unfold_locales
    (auto simp: mem_consume_nonce_def mem_nonce_expiry_def fair_use_def Let_def update_conv' split: if_splits option.splits)

definition pg_nonce_expiry :: "nonce_table \<Rightarrow> string \<Rightarrow> string \<Rightarrow> int option" where
  "pg_nonce_expiry s d n = map_of s (d, n)"

interpretation pg_nonces: replay_store pg_consume_nonce pg_nonce_expiry
  by unfold_locales
    (auto simp: pg_consume_nonce_def pg_nonce_expiry_def fair_use_def Let_def update_conv' split: if_splits option.splits)

subsection \<open>The contract of an authority state store\<close>

text \<open>\<open>known\<close>: the fingerprint of the record kept for a decision; \<open>revalidated\<close>: whether a verified consumption
  revalidation of a decision, an action and an execution is kept.\<close>

definition authority_grows ::
  "('s \<Rightarrow> string \<Rightarrow> string option) \<Rightarrow> ('s \<Rightarrow> string \<Rightarrow> string \<Rightarrow> string \<Rightarrow> bool) \<Rightarrow> 's \<Rightarrow> 's \<Rightarrow> bool" where
  "authority_grows known revalidated s s' \<longleftrightarrow>
     (\<forall>i x. known s i = Some x \<longrightarrow> known s' i = Some x) \<and>
     (\<forall>i h ref. revalidated s i h ref \<longrightarrow> revalidated s' i h ref)"

lemma authority_grows_order: "state_order (authority_grows known revalidated)"
  by (auto simp: state_order_def authority_grows_def)

definition record_print :: "host \<Rightarrow> kya_record \<Rightarrow> string" where
  "record_print H r = hash_canonical H (kya_record_json r)"

locale kya_state_store =
  fixes save :: "kya_record \<Rightarrow> (error, 's, unit) io"
    and get :: "string \<Rightarrow> (error, 's, kya_record option) io"
    and append :: "kya_revalidation \<Rightarrow> (error, 's, unit) io"
    and find_success :: "string \<Rightarrow> string \<Rightarrow> string \<Rightarrow> (error, 's, kya_revalidation option) io"
    and print :: "kya_record \<Rightarrow> string"
    and known :: "'s \<Rightarrow> string \<Rightarrow> string option"
    and revalidated :: "'s \<Rightarrow> string \<Rightarrow> string \<Rightarrow> string \<Rightarrow> bool"
  assumes get_state: "snd (get i s) = s"
    and find_state: "snd (find_success i h ref s) = s"
    and get_reads: "get i s = (Inr (Some r), s') \<Longrightarrow> known s i = Some (print r)"
    and found: "find_success i h ref s = (Inr (Some v), s') \<Longrightarrow> revalidated s i h ref"
    and save_grows: "authority_grows known revalidated s (snd (save r s))"
    and append_grows: "authority_grows known revalidated s (snd (append v s))"
    and save_quiet: "revalidated (snd (save r s)) = revalidated s"
    and appended: "append v s = (Inr (), s') \<Longrightarrow> successful_execution i h ref v \<Longrightarrow> revalidated s' i h ref"
    and append_only: "revalidated (snd (append v s)) i h ref \<Longrightarrow> revalidated s i h ref \<or> successful_execution i h ref v"
begin

text \<open>Whatever is read for a decision is the same record, however the store has grown between.\<close>

lemma reads_agree:
  "get i s = (Inr (Some r), s1) \<Longrightarrow> authority_grows known revalidated s t \<Longrightarrow> get i t = (Inr (Some q), t1) \<Longrightarrow> print r = print q"
  using get_reads [of i s r s1] get_reads [of i t q t1] by (auto simp: authority_grows_def)

end

definition mem_known :: "host \<Rightarrow> kya_memory \<Rightarrow> string \<Rightarrow> string option" where
  "mem_known H s i = map_option (record_print H) (map_of (km_decisions s) i)"

definition mem_revalidated :: "kya_memory \<Rightarrow> string \<Rightarrow> string \<Rightarrow> string \<Rightarrow> bool" where
  "mem_revalidated s i h ref \<longleftrightarrow> list_ex (successful_execution i h ref) (km_revalidations s)"

lemma find_successful: "find (successful_execution i h ref) vs = Some v \<Longrightarrow> list_ex (successful_execution i h ref) vs"
  by (auto simp: list_ex_iff dest: find_Some_iff2)

lemma find_not_None: "(\<exists>y. find P xs = Some y) \<longleftrightarrow> list_ex P xs"
  by (induction xs) auto

lemma mem_append_cases:
  "mem_append_revalidation uuid v s =
     (if \<not> revalidation_ok uuid v then (Inl ZodError, s)
      else if \<exists>ref. successful_execution (kv_decision_id v) (kv_action_hash v) ref v \<and>
        mem_revalidated s (kv_decision_id v) (kv_action_hash v) ref then (Inr (), s)
      else (Inr (), s\<lparr>km_revalidations := km_revalidations s @ [v]\<rparr>))"
  by (cases "kv_execution_ref v")
    (simp_all add: mem_append_revalidation_def mem_find_success_def bind_io_apply successful_execution_def [of _ _ _ v]
      mem_revalidated_def find_not_None)

interpretation mem_kya: kya_state_store "mem_save_decision H" mem_get_decision "mem_append_revalidation uuid" mem_find_success
  "record_print H" "mem_known H" mem_revalidated
proof
  fix s s' :: kya_memory and i h ref r v
  show "authority_grows (mem_known H) mem_revalidated s (snd (mem_save_decision H r s))"
    by (auto simp: mem_save_decision_def authority_grows_def mem_known_def mem_revalidated_def update_conv' record_print_def
        hash_canonical_def canonical_bytes_def canonicalise_def split: option.splits if_splits)
  show "authority_grows (mem_known H) mem_revalidated s (snd (mem_append_revalidation uuid v s))"
    by (auto simp: mem_append_cases authority_grows_def mem_known_def mem_revalidated_def)
  show "mem_append_revalidation uuid v s = (Inr (), s') \<Longrightarrow> successful_execution i h ref v \<Longrightarrow> mem_revalidated s' i h ref"
    by (auto simp: mem_append_cases mem_revalidated_def successful_execution_def split: if_splits)
  show "mem_revalidated (snd (mem_append_revalidation uuid v s)) i h ref \<Longrightarrow> mem_revalidated s i h ref \<or> successful_execution i h ref v"
    by (auto simp: mem_append_cases mem_revalidated_def split: if_splits)
qed (auto simp: mem_get_decision_def mem_find_success_def mem_known_def mem_revalidated_def mem_save_decision_def fun_eq_iff
    dest: find_successful)

definition pg_known :: "host \<Rightarrow> kya_tables \<Rightarrow> string \<Rightarrow> string option" where
  "pg_known H s i = Option.bind (map_of (kt_decisions s) i)
     (\<lambda>w. case kya_record_from_row H i w of Inl e \<Rightarrow> None | Inr r \<Rightarrow> Some (record_print H r))"

definition pg_revalidated :: "kya_tables \<Rightarrow> string \<Rightarrow> string \<Rightarrow> string \<Rightarrow> bool" where
  "pg_revalidated s i h ref \<longleftrightarrow> list_ex (\<lambda>(w, _). successful_execution i h ref w) (kt_revalidations s)"

lemma pg_save_cases:
  "snd (pg_save_kya_decision H T r s) = s \<or> (\<exists>w. map_of (kt_decisions s) (kr_decision_id r) = None \<and>
     snd (pg_save_kya_decision H T r s) = s\<lparr>kt_decisions := AList.update (kr_decision_id r) w (kt_decisions s)\<rparr>)"
  by (auto simp: pg_save_kya_decision_def pg_insert_decision_def bind_io_apply pg_get_kya_decision_def
      split: option.split sum.split)

interpretation pg_kya: kya_state_store "pg_save_kya_decision H T" "pg_get_kya_decision H" "pg_append_revalidation uuid T"
  "pg_find_success uuid" "record_print H" "pg_known H" pg_revalidated
proof
  fix s s' :: kya_tables and i h ref r v
  show "snd (pg_get_kya_decision H i s) = s" by (simp add: pg_get_kya_decision_def split: option.split sum.split)
  show "snd (pg_find_success uuid i h ref s) = s"
    by (simp add: pg_find_success_def Let_def split: option.split sum.split prod.split)
  show "pg_get_kya_decision H i s = (Inr (Some r), s') \<Longrightarrow> pg_known H s i = Some (record_print H r)"
    by (auto simp: pg_get_kya_decision_def pg_known_def split: option.splits sum.splits)
  show "pg_find_success uuid i h ref s = (Inr (Some v), s') \<Longrightarrow> pg_revalidated s i h ref"
    by (auto simp: pg_find_success_def pg_revalidated_def list_ex_iff split: option.splits dest!: find_Some_iff2)
  show "authority_grows (pg_known H) pg_revalidated s (snd (pg_save_kya_decision H T r s))"
    using pg_save_cases [of H T r s]
    by (auto simp: authority_grows_def pg_known_def pg_revalidated_def update_conv')
  show "pg_revalidated (snd (pg_save_kya_decision H T r s)) = pg_revalidated s"
    using pg_save_cases [of H T r s] by (auto simp: pg_revalidated_def fun_eq_iff)
  show "authority_grows (pg_known H) pg_revalidated s (snd (pg_append_revalidation uuid T v s))"
    by (auto simp: pg_append_revalidation_def authority_grows_def pg_known_def pg_revalidated_def split: option.split)
  show "pg_append_revalidation uuid T v s = (Inr (), s') \<Longrightarrow> successful_execution i h ref v \<Longrightarrow> pg_revalidated s' i h ref"
    by (auto simp: pg_append_revalidation_def pg_revalidated_def successful_execution_def same_index_entry_def
        indexed_revalidation_def list_ex_iff split: option.splits if_splits)
  show "pg_revalidated (snd (pg_append_revalidation uuid T v s)) i h ref \<Longrightarrow> pg_revalidated s i h ref \<or> successful_execution i h ref v"
    by (auto simp: pg_append_revalidation_def pg_revalidated_def successful_execution_def split: option.splits if_splits)
qed

subsection \<open>Well-formed states\<close>

text \<open>What the schemas and the keys, checks and references of the tables keep of every state: records are well formed and
  under their identifiers, revalidations are of known decisions, and one execution has one verified revalidation.\<close>

definition one_success :: "kya_revalidation list \<Rightarrow> bool" where
  "one_success vs \<longleftrightarrow> (\<forall>i h ref. length (filter (successful_execution i h ref) vs) \<le> 1)"

definition kya_memory_ok :: "host \<Rightarrow> (string \<Rightarrow> bool) \<Rightarrow> kya_memory \<Rightarrow> bool" where
  "kya_memory_ok H uuid s \<longleftrightarrow>
     (\<forall>i r. map_of (km_decisions s) i = Some r \<longrightarrow> kya_record_ok H r \<and> kr_decision_id r = i) \<and>
     list_all (revalidation_ok uuid) (km_revalidations s) \<and> one_success (km_revalidations s)"

definition kya_tables_ok :: "kya_tables \<Rightarrow> bool" where
  "kya_tables_ok s \<longleftrightarrow>
     (\<forall>i. map_of (kt_decisions s) i \<noteq> None \<longrightarrow> pg_decisions (kt_base s) i \<noteq> None) \<and>
     (\<forall>(v, t)\<in>set (kt_revalidations s). revalidation_checks v \<and> map_of (kt_decisions s) (kv_decision_id v) \<noteq> None) \<and>
     distinct (map (\<lambda>(v, t). kv_id v) (kt_revalidations s)) \<and> one_success (map fst (kt_revalidations s))"

datatype kya_store_call =
    SaveDecision kya_record
  | AppendRevalidation kya_revalidation
  | GetDecision string
  | FindSuccess string string string

datatype kya_store_result = KyaDone | KyaFound "kya_record option" | KyaPrior "kya_revalidation option"

definition kya_store_step ::
  "(kya_record \<Rightarrow> (error, 's, unit) io) \<Rightarrow> (kya_revalidation \<Rightarrow> (error, 's, unit) io) \<Rightarrow> (string \<Rightarrow> (error, 's, kya_record option) io) \<Rightarrow>
    (string \<Rightarrow> string \<Rightarrow> string \<Rightarrow> (error, 's, kya_revalidation option) io) \<Rightarrow> kya_store_call \<Rightarrow> (error, 's, kya_store_result) io" where
  "kya_store_step save add get find_success c =
     (case c of
        SaveDecision r \<Rightarrow> bind_io (save r) (\<lambda>_. ret KyaDone)
      | AppendRevalidation v \<Rightarrow> bind_io (add v) (\<lambda>_. ret KyaDone)
      | GetDecision i \<Rightarrow> bind_io (get i) (\<lambda>x. ret (KyaFound x))
      | FindSuccess i h ref \<Rightarrow> bind_io (find_success i h ref) (\<lambda>x. ret (KyaPrior x)))"

abbreviation mem_kya_step :: "host \<Rightarrow> (string \<Rightarrow> bool) \<Rightarrow> kya_store_call \<Rightarrow> (error, kya_memory, kya_store_result) io" where
  "mem_kya_step H uuid \<equiv> kya_store_step (mem_save_decision H) (mem_append_revalidation uuid) mem_get_decision mem_find_success"

abbreviation pg_kya_step :: "host \<Rightarrow> (string \<Rightarrow> bool) \<Rightarrow> pg_types \<Rightarrow> kya_store_call \<Rightarrow> (error, kya_tables, kya_store_result) io" where
  "pg_kya_step H uuid T \<equiv> kya_store_step (pg_save_kya_decision H T) (pg_append_revalidation uuid T) (pg_get_kya_decision H) (pg_find_success uuid)"

lemma one_success_append:
  assumes "one_success vs" "\<And>i h ref. successful_execution i h ref v \<Longrightarrow> \<not> list_ex (successful_execution i h ref) vs"
  shows "one_success (vs @ [v])"
  unfolding one_success_def
proof (intro allI)
  fix i h ref
  show "length (filter (successful_execution i h ref) (vs @ [v])) \<le> 1"
  proof (cases "successful_execution i h ref v")
    case True
    with assms(2) have "filter (successful_execution i h ref) vs = []" by (simp add: list_ex_iff filter_empty_conv)
    then show ?thesis by simp
  next
    case False
    with assms(1) show ?thesis by (simp add: one_success_def)
  qed
qed

lemma successful_execution_key: "successful_execution i h ref v \<Longrightarrow> i = kv_decision_id v \<and> h = kv_action_hash v \<and> kv_execution_ref v = Some ref"
  by (auto simp: successful_execution_def)

lemma mem_kya_step_ok: "kya_memory_ok H uuid s \<Longrightarrow> kya_memory_ok H uuid (snd (mem_kya_step H uuid c s))"
proof (cases c)
  case (AppendRevalidation v)
  assume ok: "kya_memory_ok H uuid s"
  have "one_success (km_revalidations s @ [v])"
    if "\<not> (\<exists>ref. successful_execution (kv_decision_id v) (kv_action_hash v) ref v \<and>
        mem_revalidated s (kv_decision_id v) (kv_action_hash v) ref)"
  proof (rule one_success_append)
    fix i h ref assume "successful_execution i h ref v"
    with that show "\<not> list_ex (successful_execution i h ref) (km_revalidations s)"
      using successful_execution_key [of i h ref v] by (auto simp: mem_revalidated_def)
  qed (use ok in \<open>simp add: kya_memory_ok_def\<close>)
  with ok show ?thesis
    by (simp add: AppendRevalidation kya_store_step_def bind_ret_state mem_append_cases kya_memory_ok_def)
qed (auto simp: kya_store_step_def bind_ret_state mem_get_decision_def mem_find_success_def mem_save_decision_def
    kya_memory_ok_def update_conv' split: option.split)

lemma pg_kya_step_ok: "kya_tables_ok s \<Longrightarrow> kya_tables_ok (snd (pg_kya_step H uuid T c s))"
proof (cases c)
  case (SaveDecision r)
  assume ok: "kya_tables_ok s"
  have "snd (pg_save_kya_decision H T r s) = snd (pg_insert_decision T r s) \<or> snd (pg_save_kya_decision H T r s) = s"
    by (auto simp: pg_save_kya_decision_def pg_insert_decision_def bind_io_apply pg_get_kya_decision_def
        split: option.split sum.split)
  moreover have "snd (pg_insert_decision T r s) = s \<or>
      (\<exists>w. snd (pg_insert_decision T r s) = s\<lparr>kt_decisions := AList.update (kr_decision_id r) w (kt_decisions s)\<rparr> \<and>
         pg_decisions (kt_base s) (kr_decision_id r) \<noteq> None)"
    by (auto simp: pg_insert_decision_def split: option.split)
  ultimately show ?thesis using ok
    by (auto simp: SaveDecision kya_store_step_def bind_ret_state kya_tables_ok_def update_conv' split: if_splits)
next
  case (AppendRevalidation v)
  assume ok: "kya_tables_ok s"
  have fresh: "one_success (map fst (kt_revalidations s) @ [v\<lparr>kv_id := k\<rparr>])"
    if "\<not> (indexed_revalidation v \<and> list_ex (\<lambda>(w, _). indexed_revalidation w \<and> same_index_entry v w) (kt_revalidations s))" for k
  proof (rule one_success_append)
    fix i h ref assume "successful_execution i h ref (v\<lparr>kv_id := k\<rparr>)"
    with that show "\<not> list_ex (successful_execution i h ref) (map fst (kt_revalidations s))"
      by (auto simp: successful_execution_def indexed_revalidation_def same_index_entry_def list_ex_iff)
  qed (use ok in \<open>simp add: kya_tables_ok_def\<close>)
  have "snd (pg_append_revalidation uuid T v s) = s \<or>
      (\<exists>k t. snd (pg_append_revalidation uuid T v s) = s\<lparr>kt_revalidations := kt_revalidations s @ [(v\<lparr>kv_id := k\<rparr>, t)]\<rparr> \<and>
         revalidation_checks v \<and> map_of (kt_decisions s) (kv_decision_id v) \<noteq> None \<and>
         \<not> list_ex (\<lambda>(w, _). kv_id w = k) (kt_revalidations s) \<and>
         \<not> (indexed_revalidation v \<and> list_ex (\<lambda>(w, _). indexed_revalidation w \<and> same_index_entry v w) (kt_revalidations s)))"
    by (simp add: pg_append_revalidation_def split: option.split) metis
  moreover have "revalidation_checks (v\<lparr>kv_id := k\<rparr>) = revalidation_checks v" for k by (simp add: revalidation_checks_def)
  ultimately show ?thesis using ok fresh
    by (force simp: AppendRevalidation kya_store_step_def bind_ret_state kya_tables_ok_def list_ex_iff)
qed (simp_all add: kya_store_step_def bind_ret_state pg_kya.get_state pg_kya.find_state)

end
