(* ===== verification/KyaGate.thy ===== *)
theory KyaGate
  imports KyaStore MtpProvider
begin

section \<open>The KYA authority gate\<close>

text \<open>
  \<open>kya-os-authority/src/gate.ts\<close> and \<open>metrics.ts\<close>: decisions for actions that come with an agent's authority,
  with the authority revalidated before an approval is resolved and before a decision is consumed.
  The inner provider, the verifier, the state store, the clock and the metrics recorder are operations on one state.
  The locale \<open>kya_guarded\<close> adds to the contract of the store that the others do not touch it. Facts: the inner
  provider consumes only what a verified revalidation of that decision, action and execution
  allows; a consumption that is let through without an earlier revalidation rests on freshly verified authority of the
  same accountable identity.
\<close>

subsection \<open>Metrics\<close>

datatype kya_metric =
    VerificationMetric bool "kya_stage option"
  | ProofReplayMetric
  | DelegationRejectionMetric reason_code
  | RevocationFailureMetric reason_code
  | AuthorityGateMetric verdict
  | RevalidationMetric revalidation_kind bool

record kya_metrics =
  ym_verifications :: "(string \<times> nat) list"
  ym_delegation_rejections :: "(string \<times> nat) list"
  ym_revocation_failures :: "(string \<times> nat) list"
  ym_authority_gates :: "(string \<times> nat) list"
  ym_revalidations :: "(string \<times> nat) list"
  ym_proof_replays :: nat

definition count_up :: "string \<Rightarrow> (string \<times> nat) list \<Rightarrow> (string \<times> nat) list" where
  "count_up k m = AList.update k (Suc (case map_of m k of None \<Rightarrow> 0 | Some n \<Rightarrow> n)) m"

definition verified_string :: "bool \<Rightarrow> string" where
  "verified_string b = (if b then ''verified'' else ''rejected'')"

fun revalidation_kind_string :: "revalidation_kind \<Rightarrow> string" where
  "revalidation_kind_string ForApproval = ''approval''"
| "revalidation_kind_string ForConsumption = ''consumption''"

fun record_kya_metric :: "kya_metric \<Rightarrow> kya_metrics \<Rightarrow> kya_metrics" where
  "record_kya_metric (VerificationMetric b st) m = m\<lparr>ym_verifications := count_up
     (verified_string b @ CHR '':'' # (case st of None \<Rightarrow> ''complete'' | Some x \<Rightarrow> stage_string x)) (ym_verifications m)\<rparr>"
| "record_kya_metric ProofReplayMetric m = m\<lparr>ym_proof_replays := ym_proof_replays m + 1\<rparr>"
| "record_kya_metric (DelegationRejectionMetric r) m =
     m\<lparr>ym_delegation_rejections := count_up (reason_string r) (ym_delegation_rejections m)\<rparr>"
| "record_kya_metric (RevocationFailureMetric r) m =
     m\<lparr>ym_revocation_failures := count_up (reason_string r) (ym_revocation_failures m)\<rparr>"
| "record_kya_metric (AuthorityGateMetric v) m = m\<lparr>ym_authority_gates := count_up (verdict_string v) (ym_authority_gates m)\<rparr>"
| "record_kya_metric (RevalidationMetric k b) m =
     m\<lparr>ym_revalidations := count_up (revalidation_kind_string k @ CHR '':'' # verified_string b) (ym_revalidations m)\<rparr>"

subsection \<open>The gate\<close>

record 's kya_gate =
  kg_evaluate :: "action \<Rightarrow> (error, 's, decision) io"
  kg_issue_block :: "action \<Rightarrow> reason_code list \<Rightarrow> (error, 's, decision) io"
  kg_resolve_with :: "resolve_input \<Rightarrow> action \<Rightarrow> (error, 's, resolve_result) io"
  kg_consume :: "consume_input \<Rightarrow> (error, 's, consume_result) io"
  kg_verify :: "kya_presentation \<Rightarrow> action \<Rightarrow> kya_policy \<Rightarrow> string \<Rightarrow> int \<Rightarrow> (kya_error, 's, kya_authority) io"
  kg_policy :: kya_policy
  kg_save :: "kya_record \<Rightarrow> (error, 's, unit) io"
  kg_get :: "string \<Rightarrow> (error, 's, kya_record option) io"
  kg_append :: "kya_revalidation \<Rightarrow> (error, 's, unit) io"
  kg_find :: "string \<Rightarrow> string \<Rightarrow> string \<Rightarrow> (error, 's, kya_revalidation option) io"
  kg_clock :: "'s \<Rightarrow> int"
  kg_metric :: "kya_metric \<Rightarrow> 's \<Rightarrow> 's"

definition other_io :: "(error, 's, 'a) io \<Rightarrow> (kya_error, 's, 'a) io" where
  "other_io m s = (case m s of (Inl e, s') \<Rightarrow> (Inl (OtherError e), s') | (Inr x, s') \<Rightarrow> (Inr x, s'))"

definition read_clock :: "'s kya_gate \<Rightarrow> (kya_error, 's, int) io" where
  "read_clock G s = (Inr (kg_clock G s), s)"

definition kya_count :: "'s kya_gate \<Rightarrow> kya_metric \<Rightarrow> (kya_error, 's, unit) io" where
  "kya_count G e = modify_io (kg_metric G e)"

definition kya_reject_approval :: "string \<Rightarrow> reason_code \<Rightarrow> resolve_result" where
  "kya_reject_approval i r =
     \<lparr>rr_success = False, rr_status = ResolveRejected, rr_decision_id = i, rr_decision = None, rr_reason = Some r\<rparr>"

definition kya_reject_consumption :: "consume_input \<Rightarrow> reason_code \<Rightarrow> consume_result" where
  "kya_reject_consumption i r =
     \<lparr>cr_success = False, cr_status = Rejected, cr_decision_id = co_decision_id i, cr_execution_ref = co_execution_ref i,
      cr_consumed_at = None, cr_reason = Some r\<rparr>"

definition same_authority_identity :: "kya_binding \<Rightarrow> kya_binding \<Rightarrow> bool" where
  "same_authority_identity b c \<longleftrightarrow>
     kb_agent b = kb_agent c \<and> kb_responsible b = kb_responsible c \<and> kb_principal b = kb_principal c \<and>
     kb_target b = kb_target c \<and> kb_currency b = kb_currency c \<and> kb_policy_hash b = kb_policy_hash c"

definition expected_audience :: "kya_policy \<Rightarrow> kya_presentation \<Rightarrow> string" where
  "expected_audience p pr =
     (case pr of LegacyPresentation _ _ au _ \<Rightarrow> au
      | EntityCardPresentation _ _ _ _ _ \<Rightarrow> (case yp_audiences p of [] \<Rightarrow> [] | a # _ \<Rightarrow> a))"

definition protects_decision :: "'s kya_gate \<Rightarrow> string \<Rightarrow> (error, 's, bool) io" where
  "protects_decision G i = bind_io (kg_get G i) (\<lambda>r. ret (r \<noteq> None))"

definition issue_rejected_block ::
  "host \<Rightarrow> 's kya_gate \<Rightarrow> action \<Rightarrow> kya_presentation option \<Rightarrow> reason_code \<times> kya_stage \<Rightarrow> (kya_error, 's, decision) io" where
  "issue_rejected_block H G a pr failure =
     bind_io (lift_io (other (without_kya_extension H a))) (\<lambda>clean.
     bind_io (case pr of
         None \<Rightarrow> ret clean
       | Some x \<Rightarrow>
           bind_io (lift_io (other (create_rejected_binding H (kg_policy G) x (snd failure)))) (\<lambda>b.
           lift_io (other (attach_kya_binding H clean (RejectedBinding b))))) (\<lambda>rejected.
     other_io (kg_issue_block G rejected [fst failure])))"

definition gated :: "'s kya_gate \<Rightarrow> decision \<Rightarrow> (kya_error, 's, decision) io" where
  "gated G d = bind_io (kya_count G (AuthorityGateMetric (d_verdict d))) (\<lambda>_. ret d)"

definition when_io :: "bool \<Rightarrow> (kya_error, 's, unit) io \<Rightarrow> (kya_error, 's, unit) io" where
  "when_io b m = (if b then m else ret ())"

definition rejection_metrics :: "'s kya_gate \<Rightarrow> reason_code \<times> kya_stage \<Rightarrow> (kya_error, 's, unit) io" where
  "rejection_metrics G failure =
     bind_io (kya_count G (VerificationMetric False (Some (snd failure)))) (\<lambda>_.
     bind_io (when_io (fst failure = KYA_PROOF_REPLAYED) (kya_count G ProofReplayMetric)) (\<lambda>_.
     bind_io (when_io (snd failure = StageDelegation \<or> snd failure = StageDelegationSignature)
       (kya_count G (DelegationRejectionMetric (fst failure)))) (\<lambda>_.
     when_io (snd failure = StageRevocation) (kya_count G (RevocationFailureMetric (fst failure))))))"

definition iso_now :: "'s kya_gate \<Rightarrow> (kya_error, 's, string) io" where
  "iso_now G = bind_io (read_clock G) (\<lambda>t. lift_io (iso_or_throw t))"

text \<open>The state is saved in a \<open>try\<close> whose error is always \<open>KYA_AUTHORITY_STATE_UNAVAILABLE\<close>.\<close>

definition evaluate_verified :: "host \<Rightarrow> 's kya_gate \<Rightarrow> action \<Rightarrow> kya_authority \<Rightarrow> (kya_error, 's, decision) io" where
  "evaluate_verified H G a v =
     bind_io (kya_count G (VerificationMetric True None)) (\<lambda>_.
     bind_io (lift_io (other (attach_kya_binding H a (VerifiedBinding (va_binding v))))) (\<lambda>bound.
     bind_io (other_io (kg_evaluate G bound)) (\<lambda>d.
     bind_io (catch_io
       (bind_io (iso_now G) (\<lambda>t.
        other_io (kg_save G \<lparr>kr_decision_id = d_decision_id d, kr_action_hash = d_action_hash d, kr_action = bound,
          kr_binding = va_binding v, kr_created_at = t\<rparr>)))
       (\<lambda>e. throw (KyaFailure KYA_AUTHORITY_STATE_UNAVAILABLE StageState ''KYA decision authority could not be persisted'')))
       (\<lambda>_. gated G d))))"

definition kya_evaluate :: "host \<Rightarrow> 's kya_gate \<Rightarrow> action \<Rightarrow> kya_presentation option \<Rightarrow> (kya_error, 's, decision) io" where
  "kya_evaluate H G a pr =
     (case assert_no_kya_extension a of
        Inl e \<Rightarrow>
          (let failure = as_kya_failure e in
           bind_io (kya_count G (VerificationMetric False (Some (snd failure)))) (\<lambda>_.
           bind_io (issue_rejected_block H G a pr failure) (gated G)))
      | Inr _ \<Rightarrow>
          (case pr of
             None \<Rightarrow>
               if yp_required (kg_policy G)
               then bind_io (kya_count G (VerificationMetric False (Some StagePresentation))) (\<lambda>_.
                 bind_io (other_io (kg_issue_block G a [KYA_AUTHORITY_REQUIRED])) (gated G))
               else bind_io (other_io (kg_evaluate G a)) (gated G)
           | Some x \<Rightarrow>
               bind_io (read_clock G) (\<lambda>now.
               bind_io (catch_io
                 (bind_io (kg_verify G x a (kg_policy G) (expected_audience (kg_policy G) x) now) (\<lambda>v. ret (Inr v)))
                 (\<lambda>e. ret (Inl (as_kya_failure e)))) (\<lambda>q.
               case q of
                 Inl failure \<Rightarrow>
                   bind_io (rejection_metrics G failure) (\<lambda>_.
                   bind_io (issue_rejected_block H G a pr failure) (gated G))
               | Inr v \<Rightarrow> evaluate_verified H G a v))))"

definition verify_fresh :: "host \<Rightarrow> 's kya_gate \<Rightarrow> action \<Rightarrow> kya_presentation \<Rightarrow> (kya_error, 's, kya_authority) io" where
  "verify_fresh H G a pr =
     bind_io (lift_io (other (without_kya_extension H a))) (\<lambda>clean.
     bind_io (read_clock G) (\<lambda>now.
     kg_verify G pr clean (kg_policy G) (expected_audience (kg_policy G) pr) now))"

text \<open>The \<open>try\<close> of both callers: fresh authority of the stored identity, or how it failed.\<close>

definition fresh_authority ::
  "host \<Rightarrow> 's kya_gate \<Rightarrow> kya_record \<Rightarrow> kya_presentation \<Rightarrow> string \<Rightarrow> (kya_error, 's, (reason_code \<times> kya_stage) + kya_authority) io" where
  "fresh_authority H G stored pr m =
     catch_io
       (bind_io (verify_fresh H G (kr_action stored) pr) (\<lambda>v.
        if \<not> same_authority_identity (kr_binding stored) (va_binding v)
        then throw (KyaFailure KYA_AUTHORITY_BINDING_MISMATCH StageFinancialJoin m) else ret (Inr v)))
       (\<lambda>e. ret (Inl (as_kya_failure e)))"

definition get_or_none :: "'s kya_gate \<Rightarrow> string \<Rightarrow> (kya_error, 's, kya_record option) io" where
  "get_or_none G i = catch_io (kg_get G i) (\<lambda>e. ret None)"

text \<open>The identifier is the one \<open>randomUUID\<close> draws in the call.\<close>

definition kya_resolve_approval ::
  "host \<Rightarrow> 's kya_gate \<Rightarrow> string \<Rightarrow> resolve_input \<Rightarrow> kya_presentation \<Rightarrow> (kya_error, 's, resolve_result) io" where
  "kya_resolve_approval H G uid i pr =
     bind_io (get_or_none G (ri_decision_id i)) (\<lambda>found.
     case found of
       None \<Rightarrow> ret (kya_reject_approval (ri_decision_id i) KYA_AUTHORITY_STATE_UNAVAILABLE)
     | Some stored \<Rightarrow>
         bind_io (fresh_authority H G stored pr ''Fresh KYA authority does not match the original accountable authority'') (\<lambda>q.
         case q of
           Inl failure \<Rightarrow>
             bind_io (iso_now G) (\<lambda>t.
             bind_io (other_io (kg_append G \<lparr>kv_id = uid, kv_decision_id = ri_decision_id i, kv_action_hash = kr_action_hash stored,
               kv_kind = ForApproval, kv_execution_ref = None, kv_approval_reference = Some (ri_approval_reference i),
               kv_presentation_hash = hash_canonical H (presentation_json pr), kv_authority_hash = None, kv_verified = False,
               kv_reason = Some (reason_string (fst failure)), kv_verified_at = t\<rparr>)) (\<lambda>_.
             bind_io (kya_count G (RevalidationMetric ForApproval False)) (\<lambda>_.
             ret (kya_reject_approval (ri_decision_id i) (fst failure)))))
         | Inr v \<Rightarrow>
             bind_io (iso_now G) (\<lambda>t.
             bind_io (other_io (kg_append G \<lparr>kv_id = uid, kv_decision_id = ri_decision_id i, kv_action_hash = kr_action_hash stored,
               kv_kind = ForApproval, kv_execution_ref = None, kv_approval_reference = Some (ri_approval_reference i),
               kv_presentation_hash = kb_presentation_hash (va_binding v), kv_authority_hash = Some (kb_authority_hash (va_binding v)),
               kv_verified = True, kv_reason = None, kv_verified_at = t\<rparr>)) (\<lambda>_.
             bind_io (kya_count G (RevalidationMetric ForApproval True)) (\<lambda>_.
             bind_io (lift_io (other (bind_sum (without_kya_extension H (kr_action stored)) (\<lambda>clean.
               attach_kya_binding H clean (VerifiedBinding (va_binding v)))))) (\<lambda>rebound.
             bind_io (other_io (kg_resolve_with G i rebound)) (\<lambda>result.
             case rr_decision result of
               None \<Rightarrow> ret result
             | Some d \<Rightarrow>
                 bind_io (iso_now G) (\<lambda>u.
                 bind_io (other_io (kg_save G \<lparr>kr_decision_id = d_decision_id d, kr_action_hash = d_action_hash d,
                   kr_action = rebound, kr_binding = va_binding v, kr_created_at = u\<rparr>)) (\<lambda>_. ret result)))))))))"

definition consumption_revalidation :: "string \<Rightarrow> consume_input \<Rightarrow> string \<Rightarrow> string \<Rightarrow> (reason_code + kya_authority) \<Rightarrow> kya_revalidation" where
  "consumption_revalidation uid i ph t q =
     \<lparr>kv_id = uid, kv_decision_id = co_decision_id i, kv_action_hash = co_action_hash i, kv_kind = ForConsumption,
      kv_execution_ref = Some (co_execution_ref i), kv_approval_reference = None,
      kv_presentation_hash = (case q of Inl _ \<Rightarrow> ph | Inr v \<Rightarrow> kb_presentation_hash (va_binding v)),
      kv_authority_hash = (case q of Inl _ \<Rightarrow> None | Inr v \<Rightarrow> Some (kb_authority_hash (va_binding v))),
      kv_verified = (case q of Inl _ \<Rightarrow> False | Inr _ \<Rightarrow> True),
      kv_reason = (case q of Inl r \<Rightarrow> Some (reason_string r) | Inr _ \<Rightarrow> None), kv_verified_at = t\<rparr>"

definition revalidate_consumption ::
  "host \<Rightarrow> 's kya_gate \<Rightarrow> string \<Rightarrow> consume_input \<Rightarrow> kya_presentation \<Rightarrow> kya_record \<Rightarrow> (kya_error, 's, reason_code option) io" where
  "revalidate_consumption H G uid i pr stored =
     bind_io (fresh_authority H G stored pr ''Fresh KYA authority does not match the decision authority'') (\<lambda>q.
     let r = (case q of Inl failure \<Rightarrow> Inl (fst failure) | Inr v \<Rightarrow> Inr v) in
     bind_io (iso_now G) (\<lambda>t.
     bind_io (other_io (kg_append G (consumption_revalidation uid i (hash_canonical H (presentation_json pr)) t r))) (\<lambda>_.
     bind_io (kya_count G (RevalidationMetric ForConsumption (case r of Inl _ \<Rightarrow> False | Inr _ \<Rightarrow> True))) (\<lambda>_.
     ret (case r of Inl c \<Rightarrow> Some c | Inr _ \<Rightarrow> None)))))"

definition kya_consume :: "host \<Rightarrow> 's kya_gate \<Rightarrow> string \<Rightarrow> consume_input \<Rightarrow> kya_presentation \<Rightarrow> (kya_error, 's, consume_result) io" where
  "kya_consume H G uid i pr =
     bind_io (get_or_none G (co_decision_id i)) (\<lambda>found.
     case found of
       None \<Rightarrow> ret (kya_reject_consumption i KYA_AUTHORITY_STATE_UNAVAILABLE)
     | Some stored \<Rightarrow>
         if kr_action_hash stored \<noteq> co_action_hash i then ret (kya_reject_consumption i ACTION_HASH_MISMATCH)
         else bind_io (lift_io (other (hash_action H (kr_action stored)))) (\<lambda>h.
         if h \<noteq> kr_action_hash stored then ret (kya_reject_consumption i ACTION_HASH_MISMATCH)
         else bind_io (other_io (kg_find G (co_decision_id i) (co_action_hash i) (co_execution_ref i))) (\<lambda>prior.
         case prior of
           Some _ \<Rightarrow> other_io (kg_consume G i)
         | None \<Rightarrow>
             bind_io (revalidate_consumption H G uid i pr stored) (\<lambda>rejected.
             case rejected of
               Some r \<Rightarrow> ret (kya_reject_consumption i r)
             | None \<Rightarrow> other_io (kg_consume G i)))))"

subsection \<open>Histories\<close>

datatype kya_call =
    KyaEvaluate action "kya_presentation option"
  | KyaResolve string resolve_input kya_presentation
  | KyaConsume string consume_input kya_presentation

fun kya_step :: "host \<Rightarrow> 's kya_gate \<Rightarrow> kya_call \<Rightarrow> (kya_error, 's, provider_outcome) io" where
  "kya_step H G (KyaEvaluate a pr) = bind_io (kya_evaluate H G a pr) (\<lambda>d. ret (Issued d))"
| "kya_step H G (KyaResolve uid i pr) = bind_io (kya_resolve_approval H G uid i pr) (\<lambda>x. ret (Resolved x))"
| "kya_step H G (KyaConsume uid i pr) = bind_io (kya_consume H G uid i pr) (\<lambda>x. ret (ConsumeOutcome x))"

subsection \<open>What the gate guarantees\<close>

lemma other_io_Inr: "other_io m s = (Inr x, s') \<longleftrightarrow> m s = (Inr x, s')"
  by (auto simp: other_io_def split: prod.splits sum.splits)

lemma other_io_state: "snd (other_io m s) = snd (m s)"
  by (simp add: other_io_def split: prod.split sum.split)

lemma keeps_other_io: "keeps R m \<Longrightarrow> keeps R (other_io m)"
  by (simp add: keeps_def other_io_state)

locale kya_guarded =
  kya_state_store "kg_save G" "kg_get G" "kg_append G" "kg_find G" print known revalidated
  for G :: "'s kya_gate" and print :: "kya_record \<Rightarrow> string" and known :: "'s \<Rightarrow> string \<Rightarrow> string option"
    and revalidated :: "'s \<Rightarrow> string \<Rightarrow> string \<Rightarrow> string \<Rightarrow> bool" +
  fixes consumed_inside :: "'s \<Rightarrow> consume_input list"
    and same :: "'s \<Rightarrow> 's \<Rightarrow> bool"
  assumes same_def: "same s s' \<longleftrightarrow> known s' = known s \<and> revalidated s' = revalidated s \<and> consumed_inside s' = consumed_inside s"
    and evaluate_frame: "keeps same (kg_evaluate G a)"
    and block_frame: "keeps same (kg_issue_block G a rs)"
    and resolve_frame: "keeps same (kg_resolve_with G ri a)"
    and verify_frame: "keeps same (kg_verify G pr a p aud now)"
    and metric_frame: "same s (kg_metric G e s)"
    and consume_frame: "known (snd (kg_consume G i s)) = known s \<and> revalidated (snd (kg_consume G i s)) = revalidated s \<and>
      consumed_inside (snd (kg_consume G i s)) = consumed_inside s @ [i]"
    and save_log: "consumed_inside (snd (kg_save G r s)) = consumed_inside s"
    and append_log: "consumed_inside (snd (kg_append G v s)) = consumed_inside s"
begin

definition authorised :: "'s \<Rightarrow> bool" where
  "authorised s \<longleftrightarrow> (\<forall>i\<in>set (consumed_inside s). known s (co_decision_id i) \<noteq> None \<and>
     revalidated s (co_decision_id i) (co_action_hash i) (co_execution_ref i))"

definition guarded :: "'s \<Rightarrow> 's \<Rightarrow> bool" where
  "guarded s s' \<longleftrightarrow> authority_grows known revalidated s s' \<and> consumed_inside s' = consumed_inside s"

lemma guarded_order: "state_order guarded"
  using authority_grows_order [of known revalidated] by (auto simp: state_order_def guarded_def)

lemma guarded_authorised: "guarded s s' \<Longrightarrow> authorised s \<Longrightarrow> authorised s'"
  by (force simp: guarded_def authorised_def authority_grows_def)

lemma same_guarded: "same s s' \<Longrightarrow> guarded s s'"
  by (simp add: same_def guarded_def authority_grows_def)

lemma same_order: "state_order same"
  by (auto simp: state_order_def same_def)

lemma keeps_same: "keeps same m \<Longrightarrow> keeps guarded m"
  by (simp add: keeps_def same_guarded)

lemma store_keeps:
  "keeps guarded (kg_get G i)" "keeps guarded (kg_find G i h ref)" "keeps guarded (kg_save G r)" "keeps guarded (kg_append G v)"
  using guarded_order
  by (simp_all add: keeps_def get_state find_state state_order_def)
    (simp_all add: guarded_def save_grows append_grows save_log append_log)

lemma count_keeps: "keeps same (kya_count G e)"
  by (simp add: kya_count_def keeps_def metric_frame)

lemma clock_keeps: "keeps same (read_clock G)" "keeps same (iso_now G)"
proof -
  show r: "keeps same (read_clock G)" by (simp add: keeps_def read_clock_def same_def)
  show "keeps same (iso_now G)" unfolding iso_now_def by (intro keeps_intros same_order r)
qed

lemmas frames = evaluate_frame block_frame resolve_frame verify_frame count_keeps clock_keeps

lemma fresh_keeps: "keeps same (fresh_authority H G stored pr m)"
  unfolding fresh_authority_def verify_fresh_def by (intro keeps_intros same_order frames)

lemma block_keeps: "keeps same (issue_rejected_block H G a pr failure)"
  unfolding issue_rejected_block_def by (intro keeps_intros same_order keeps_other_io frames)

lemma gated_keeps: "keeps same (gated G d)"
  unfolding gated_def by (intro keeps_intros same_order frames)

lemma rejection_keeps: "keeps same (rejection_metrics G failure)"
  unfolding rejection_metrics_def when_io_def by (intro keeps_intros same_order frames)

lemma verified_keeps: "keeps guarded (evaluate_verified H G a v)"
  unfolding evaluate_verified_def
  by (intro keeps_intros guarded_order keeps_other_io store_keeps) (intro keeps_same keeps_other_io frames gated_keeps)+

lemma evaluate_keeps: "keeps guarded (kya_evaluate H G a pr)"
  unfolding kya_evaluate_def Let_def
  by (intro keeps_intros guarded_order verified_keeps)
    (intro keeps_same keeps_other_io frames gated_keeps rejection_keeps block_keeps)+

lemma get_or_none_keeps: "keeps guarded (get_or_none G i)"
  unfolding get_or_none_def by (intro keeps_intros guarded_order store_keeps)

lemma resolve_keeps: "keeps guarded (kya_resolve_approval H G uid i pr)"
  unfolding kya_resolve_approval_def
  by (intro keeps_intros guarded_order get_or_none_keeps keeps_other_io store_keeps)
    (intro keeps_same keeps_other_io frames fresh_keeps)+

text \<open>Fresh authority comes from the verifier, for the stored action, with the stored identity.\<close>

lemma fresh_outcome:
  assumes "fresh_authority H G stored pr m s = (q, s1)"
  shows "\<exists>x. q = Inr x \<and> (\<forall>v. x = Inr v \<longrightarrow> same_authority_identity (kr_binding stored) (va_binding v) \<and>
    (\<exists>clean. without_kya_extension H (kr_action stored) = Inr clean \<and>
       kg_verify G pr clean (kg_policy G) (expected_audience (kg_policy G) pr) (kg_clock G s) s = (Inr v, s1)))"
  using assms
  by (auto simp: fresh_authority_def verify_fresh_def catch_io_apply bind_io_apply read_clock_def other_def
      split: prod.splits sum.splits if_splits)

lemma revalidate_keeps: "keeps guarded (revalidate_consumption H G uid i pr stored)"
  unfolding revalidate_consumption_def Let_def
  by (intro keeps_intros guarded_order keeps_other_io store_keeps)
    (intro keeps_same frames fresh_keeps)+

lemma revalidated_consumption:
  assumes "revalidate_consumption H G uid i pr stored s = (Inr None, s')"
  shows "revalidated s' (co_decision_id i) (co_action_hash i) (co_execution_ref i) \<and>
    (\<exists>v s1 clean. same_authority_identity (kr_binding stored) (va_binding v) \<and>
       without_kya_extension H (kr_action stored) = Inr clean \<and>
       kg_verify G pr clean (kg_policy G) (expected_audience (kg_policy G) pr) (kg_clock G s) s = (Inr v, s1))"
proof -
  from assms obtain q s1 where q: "fresh_authority H G stored pr ''Fresh KYA authority does not match the decision authority'' s = (Inr q, s1)"
    by (auto simp: revalidate_consumption_def bind_io_Inr)
  with assms obtain v where v: "q = Inr v"
    by (cases q) (auto simp: revalidate_consumption_def bind_io_Inr ret_def Let_def)
  with assms q obtain t s2 s3 where
    a: "kg_append G (consumption_revalidation uid i (hash_canonical H (presentation_json pr)) t (Inr v)) s2 = (Inr (), s3)"
    and m: "kya_count G (RevalidationMetric ForConsumption True) s3 = (Inr (), s')"
    by (auto simp: revalidate_consumption_def bind_io_Inr ret_def other_io_Inr Let_def)
  have "successful_execution (co_decision_id i) (co_action_hash i) (co_execution_ref i)
      (consumption_revalidation uid i (hash_canonical H (presentation_json pr)) t (Inr v))"
    by (simp add: successful_execution_def consumption_revalidation_def)
  from appended [OF a this] have "revalidated s3 (co_decision_id i) (co_action_hash i) (co_execution_ref i)" .
  moreover have "same s3 s'" by (rule keepsD [OF count_keeps m])
  ultimately show ?thesis using fresh_outcome [OF q] v by (auto simp: same_def)
qed

text \<open>What one consumption does: it is rejected without reaching the inner provider, or the inner provider consumes a
  decision whose record is for this action, after a verified revalidation of this execution.\<close>

lemma consume_outcome:
  assumes "kya_consume H G uid i pr s = (r, s')"
  shows "(consumed_inside s' = consumed_inside s \<and> (\<forall>x. r = Inr x \<longrightarrow> \<not> cr_success x) \<and> guarded s s') \<or>
    (\<exists>stored s2. kg_get G (co_decision_id i) s = (Inr (Some stored), s) \<and> kr_action_hash stored = co_action_hash i \<and>
       hash_action H (kr_action stored) = Inr (co_action_hash i) \<and> guarded s s2 \<and>
       revalidated s2 (co_decision_id i) (co_action_hash i) (co_execution_ref i) \<and>
       (revalidated s (co_decision_id i) (co_action_hash i) (co_execution_ref i) \<or>
        (\<exists>v s1 clean. same_authority_identity (kr_binding stored) (va_binding v) \<and>
           without_kya_extension H (kr_action stored) = Inr clean \<and>
           kg_verify G pr clean (kg_policy G) (expected_audience (kg_policy G) pr) (kg_clock G s) s = (Inr v, s1))) \<and>
       other_io (kg_consume G i) s2 = (r, s'))"
  (is "?rejected \<or> ?reached")
proof -
  let ?d = "co_decision_id i" and ?h = "co_action_hash i" and ?ref = "co_execution_ref i"
  have reject: "\<not> cr_success (kya_reject_consumption i c)" for c by (simp add: kya_reject_consumption_def)
  have refl: "guarded s s" using guarded_order by (simp add: state_order_def)
  show ?thesis
  proof (cases "\<exists>stored. kg_get G ?d s = (Inr (Some stored), s) \<and> kr_action_hash stored = ?h \<and> hash_action H (kr_action stored) = Inr ?h")
    case False
    obtain q s0 where q: "kg_get G ?d s = (q, s0)" by fastforce
    then have "s0 = s" using get_state [of ?d s] by simp
    with assms False q refl have ?rejected
      by (auto simp: kya_consume_def get_or_none_def catch_io_apply bind_io_apply other_def reject
          split: if_splits sum.splits option.splits)
    then show ?thesis ..
  next
    case True
    then obtain stored where st: "kg_get G ?d s = (Inr (Some stored), s)" "kr_action_hash stored = ?h"
      "hash_action H (kr_action stored) = Inr ?h" by blast
    obtain f s1 where f: "kg_find G ?d ?h ?ref s = (f, s1)" by fastforce
    then have s1: "s1 = s" using find_state [of ?d ?h ?ref s] by simp
    obtain q s2 where q: "revalidate_consumption H G uid i pr stored s = (q, s2)" by fastforce
    have g: "guarded s s2" by (rule keepsD [OF revalidate_keeps q])
    have run: "kya_consume H G uid i pr s = (case f of Inl e \<Rightarrow> (Inl (OtherError e), s)
        | Inr (Some v) \<Rightarrow> other_io (kg_consume G i) s
        | Inr None \<Rightarrow> (case q of Inl e \<Rightarrow> (Inl e, s2) | Inr (Some c) \<Rightarrow> (Inr (kya_reject_consumption i c), s2)
            | Inr None \<Rightarrow> other_io (kg_consume G i) s2))"
      using st f s1 q
      by (simp add: kya_consume_def get_or_none_def catch_io_apply bind_io_apply other_io_def split: sum.split option.split)
    consider (failed) "\<exists>e. f = Inl e" | (prior) v where "f = Inr (Some v)" | (fresh) "f = Inr None" "q = Inr None"
      | (rejected) "f = Inr None" "q \<noteq> Inr None" by (metis option.exhaust sum.exhaust)
    then show ?thesis
    proof cases
      case failed
      with run assms refl show ?thesis by auto
    next
      case prior
      with found [of ?d ?h ?ref s v] f s1 have "revalidated s ?d ?h ?ref" by simp
      with prior run assms st refl show ?thesis by auto
    next
      case fresh
      from revalidated_consumption [OF q [unfolded fresh(2)]] fresh run assms st g show ?thesis by auto
    next
      case rejected
      with run assms g reject have ?rejected by (auto simp: guarded_def split: sum.splits option.splits)
      then show ?thesis ..
    qed
  qed
qed

lemma consume_authorised:
  assumes "kya_consume H G uid i pr s = (r, s')" "authorised s"
  shows "authorised s'"
proof -
  from consume_outcome [OF assms(1)]
  consider "guarded s s'" | stored s2 where "kg_get G (co_decision_id i) s = (Inr (Some stored), s)" "guarded s s2"
    "revalidated s2 (co_decision_id i) (co_action_hash i) (co_execution_ref i)" "other_io (kg_consume G i) s2 = (r, s')"
    by blast
  then show ?thesis
  proof cases
    case 1
    then show ?thesis using assms(2) by (rule guarded_authorised)
  next
    case 2
    have a: "authorised s2" by (rule guarded_authorised [OF 2(2) assms(2)])
    have "known s (co_decision_id i) \<noteq> None" using get_reads [OF 2(1)] by simp
    with 2(2) have "known s2 (co_decision_id i) \<noteq> None" by (auto simp: guarded_def authority_grows_def)
    moreover have "s' = snd (kg_consume G i s2)" using other_io_state [of "kg_consume G i" s2] 2(4) by simp
    ultimately show ?thesis using a 2(3) consume_frame [of i s2] by (auto simp: authorised_def)
  qed
qed

lemma step_authorised: "authorised s \<Longrightarrow> authorised (snd (kya_step H G c s))"
proof (cases c)
  case (KyaEvaluate a pr)
  assume "authorised s"
  moreover have "keeps guarded (kya_step H G c)" unfolding KyaEvaluate kya_step.simps
    by (intro keeps_intros guarded_order evaluate_keeps)
  ultimately show ?thesis by (auto simp: keeps_def intro: guarded_authorised)
next
  case (KyaResolve uid i pr)
  assume "authorised s"
  moreover have "keeps guarded (kya_step H G c)" unfolding KyaResolve kya_step.simps
    by (intro keeps_intros guarded_order resolve_keeps)
  ultimately show ?thesis by (auto simp: keeps_def intro: guarded_authorised)
next
  case (KyaConsume uid i pr)
  assume a: "authorised s"
  obtain r s' where e: "kya_consume H G uid i pr s = (r, s')" by fastforce
  from consume_authorised [OF e a] e show ?thesis
    by (simp add: KyaConsume bind_io_apply split: sum.split)
qed

lemma history_authorised: "run_ops (kya_step H G) cs s = (rs, s') \<Longrightarrow> authorised s \<Longrightarrow> authorised s'"
  by (rule run_ops_invariant [where f = "kya_step H G" and P = authorised, OF step_authorised])

end

subsection \<open>A world over either store\<close>

text \<open>An inner provider, a state store and a verifier with states of their own, the metrics, and the log of the inner
  provider's consumptions. The clock is any function of the world.\<close>

record ('p, 't, 'w) kya_world =
  kx_inner :: 'p
  kx_store :: 't
  kx_verifier :: 'w
  kx_metrics :: kya_metrics
  kx_consumed :: "consume_input list"

record ('w, 's) kya_setup =
  ks_verify :: "kya_presentation \<Rightarrow> action \<Rightarrow> kya_policy \<Rightarrow> string \<Rightarrow> int \<Rightarrow> (kya_error, 'w, kya_authority) io"
  ks_policy :: kya_policy
  ks_clock :: "'s \<Rightarrow> int"

definition log_kya_consume :: "'p inner_provider \<Rightarrow> consume_input \<Rightarrow> (error, ('p, 't, 'w) kya_world, consume_result) io" where
  "log_kya_consume N i s = on_part kx_inner kx_inner_update (in_consume N i) (s\<lparr>kx_consumed := kx_consumed s @ [i]\<rparr>)"

definition memory_gate ::
  "host \<Rightarrow> (string \<Rightarrow> bool) \<Rightarrow> 'p inner_provider \<Rightarrow> ('w, ('p, kya_memory, 'w) kya_world) kya_setup \<Rightarrow> ('p, kya_memory, 'w) kya_world kya_gate" where
  "memory_gate H uuid N V =
     \<lparr>kg_evaluate = (\<lambda>a. on_part kx_inner kx_inner_update (in_evaluate N a)),
      kg_issue_block = (\<lambda>a rs. on_part kx_inner kx_inner_update (in_issue_block N a rs)),
      kg_resolve_with = (\<lambda>i a. on_part kx_inner kx_inner_update (in_resolve_with N i a)),
      kg_consume = log_kya_consume N,
      kg_verify = (\<lambda>pr a p au now. on_part kx_verifier kx_verifier_update (ks_verify V pr a p au now)),
      kg_policy = ks_policy V,
      kg_save = (\<lambda>r. on_part kx_store kx_store_update (mem_save_decision H r)),
      kg_get = (\<lambda>i. on_part kx_store kx_store_update (mem_get_decision i)),
      kg_append = (\<lambda>v. on_part kx_store kx_store_update (mem_append_revalidation uuid v)),
      kg_find = (\<lambda>i h ref. on_part kx_store kx_store_update (mem_find_success i h ref)),
      kg_clock = ks_clock V, kg_metric = (\<lambda>e. kx_metrics_update (record_kya_metric e))\<rparr>"

definition postgres_gate ::
  "host \<Rightarrow> (string \<Rightarrow> bool) \<Rightarrow> pg_types \<Rightarrow> 'p inner_provider \<Rightarrow> ('w, ('p, kya_tables, 'w) kya_world) kya_setup \<Rightarrow> ('p, kya_tables, 'w) kya_world kya_gate" where
  "postgres_gate H uuid T N V =
     \<lparr>kg_evaluate = (\<lambda>a. on_part kx_inner kx_inner_update (in_evaluate N a)),
      kg_issue_block = (\<lambda>a rs. on_part kx_inner kx_inner_update (in_issue_block N a rs)),
      kg_resolve_with = (\<lambda>i a. on_part kx_inner kx_inner_update (in_resolve_with N i a)),
      kg_consume = log_kya_consume N,
      kg_verify = (\<lambda>pr a p au now. on_part kx_verifier kx_verifier_update (ks_verify V pr a p au now)),
      kg_policy = ks_policy V,
      kg_save = (\<lambda>r. on_part kx_store kx_store_update (pg_save_kya_decision H T r)),
      kg_get = (\<lambda>i. on_part kx_store kx_store_update (pg_get_kya_decision H i)),
      kg_append = (\<lambda>v. on_part kx_store kx_store_update (pg_append_revalidation uuid T v)),
      kg_find = (\<lambda>i h ref. on_part kx_store kx_store_update (pg_find_success uuid i h ref)),
      kg_clock = ks_clock V, kg_metric = (\<lambda>e. kx_metrics_update (record_kya_metric e))\<rparr>"

abbreviation same_stores :: "('p, 't, 'w) kya_world \<Rightarrow> ('p, 't, 'w) kya_world \<Rightarrow> bool" where
  "same_stores s s' \<equiv> kx_store s' = kx_store s \<and> kx_consumed s' = kx_consumed s"

definition same_view :: "('s \<Rightarrow> string \<Rightarrow> string option) \<Rightarrow> ('s \<Rightarrow> string \<Rightarrow> string \<Rightarrow> string \<Rightarrow> bool) \<Rightarrow> ('s \<Rightarrow> consume_input list) \<Rightarrow> 's \<Rightarrow> 's \<Rightarrow> bool" where
  "same_view known revalidated consumed s s' \<longleftrightarrow>
     known s' = known s \<and> revalidated s' = revalidated s \<and> consumed s' = consumed s"

lemma kya_log_frames:
  "kx_store (snd (log_kya_consume N i s)) = kx_store s" "kx_consumed (snd (log_kya_consume N i s)) = kx_consumed s @ [i]"
  by (simp_all add: on_part_state log_kya_consume_def)

lemmas world_facts = keeps_def on_part_state on_part_result kya_log_frames same_view_def authority_grows_def

interpretation memory_kya: kya_guarded "memory_gate H uuid N V" "record_print H" "\<lambda>s. mem_known H (kx_store s)"
  "\<lambda>s. mem_revalidated (kx_store s)" kx_consumed
  "same_view (\<lambda>s. mem_known H (kx_store s)) (\<lambda>s. mem_revalidated (kx_store s)) kx_consumed"
proof (intro kya_guarded.intro kya_guarded_axioms.intro kya_state_store.intro)
qed (use mem_kya.save_grows mem_kya.append_grows in \<open>auto simp: memory_gate_def world_facts mem_kya.get_state mem_kya.find_state
    mem_kya.save_quiet dest: mem_kya.get_reads mem_kya.found mem_kya.appended mem_kya.append_only\<close>)

interpretation postgres_kya: kya_guarded "postgres_gate H uuid T N V" "record_print H" "\<lambda>s. pg_known H (kx_store s)"
  "\<lambda>s. pg_revalidated (kx_store s)" kx_consumed
  "same_view (\<lambda>s. pg_known H (kx_store s)) (\<lambda>s. pg_revalidated (kx_store s)) kx_consumed"
proof (intro kya_guarded.intro kya_guarded_axioms.intro kya_state_store.intro)
qed (use pg_kya.save_grows pg_kya.append_grows in \<open>auto simp: postgres_gate_def world_facts pg_kya.get_state pg_kya.find_state
    pg_kya.save_quiet dest: pg_kya.get_reads pg_kya.found pg_kya.appended pg_kya.append_only\<close>)

end
