(* ===== verification/KyaProduction.thy ===== *)
theory KyaProduction
  imports KyaLegacy KyaGate
begin

section \<open>The production authority verifier\<close>

text \<open>
  \<open>createProductionKyaAuthorityVerifier\<close> of \<open>kya-os-authority/src/verifier.ts\<close>: one resolver with its cache
  serves the request proof, the signatures of the delegations and the legacy path; they share the nonce store and the
  revocation checker. \<open>@kya-os/mcp\<close> gets them as callbacks and is a parameter. Lemmas: the cache keeps only documents of
  their DID through every part, so each credential of an accepted chain is signed by a key of the document that the resolver
  gave for its issuer; the verifier
  has no Entity Card verifier, so no policy that needs one is ever met.
\<close>

subsection \<open>The parts and their callbacks\<close>

text \<open>The options of \<open>verifyCardProof\<close> that are functions.\<close>

record 's proof_callbacks =
  pb_resolve_key :: "string \<Rightarrow> (kya_error, 's, public_jwk) io"
  pb_resolve_keys :: "string \<Rightarrow> (kya_error, 's, public_jwk list) io"
  pb_consume :: "string \<Rightarrow> string \<Rightarrow> (kya_error, 's, bool) io"

text \<open>The options of \<open>DelegationCredentialVerifier\<close>; it runs with the variable of the status callback.\<close>

record 's credential_callbacks =
  cb_resolve :: "string \<Rightarrow> (kya_error, 's \<times> bool, did_document) io"
  cb_status :: "string \<times> string \<Rightarrow> (kya_error, 's \<times> bool, bool) io"
  cb_signature :: "legacy_credential \<Rightarrow> json \<Rightarrow> bool \<times> string option"

text \<open>The functions of the KYA library; those that reach outside run on the environment of the resolver.\<close>

record 'e kya_library =
  kl_parse_proof :: "json option \<Rightarrow> card_proof option"
  kl_verify_proof :: "card_proof \<Rightarrow> tool_request \<Rightarrow> string \<Rightarrow> string option \<Rightarrow> int \<Rightarrow> 'e did_state proof_callbacks \<Rightarrow>
    (kya_error, 'e did_state, card_result) io"
  kl_parse_credential :: "json \<Rightarrow> credential option"
  kl_revocation :: "string \<times> string \<Rightarrow> (kya_error, 'e, revocation_state) io"
  kl_chain :: "credential list \<Rightarrow> (string \<times> string \<Rightarrow> revocation_state option) \<Rightarrow> int \<Rightarrow> int \<Rightarrow> kya_error + chain_result"
  kl_parse_card :: "json \<Rightarrow> json option"
  kl_jwt :: "string \<Rightarrow> legacy_credential option"
  kl_object :: "(string \<times> json) list \<Rightarrow> legacy_credential option"
  kl_verify_jwt :: "'e did_state credential_callbacks \<Rightarrow> string \<Rightarrow> (kya_error, 'e did_state \<times> bool, legacy_result) io"
  kl_verify_object :: "'e did_state credential_callbacks \<Rightarrow> legacy_credential \<Rightarrow> (kya_error, 'e did_state \<times> bool, legacy_result) io"
  kl_date_parse :: "string \<Rightarrow> int option"

record 'e production =
  pp_library :: "'e kya_library"
  pp_resolver :: "'e did_ops"
  pp_signatures :: signature_ops
  pp_legacy :: legacy_crypto
  pp_consume :: "nonce_use \<Rightarrow> (error, 'e, bool) io"
  pp_now :: int

definition on_env :: "('x, 'e, 'a) io \<Rightarrow> ('x, 'e did_state, 'a) io" where
  "on_env m = on_part ds_env ds_env_update m"

definition resolve_proof_key :: "'e did_ops \<Rightarrow> string \<Rightarrow> (error, 'e did_state, public_jwk) io" where
  "resolve_proof_key D kid =
     bind_io (resolve_verification_method D kid) (\<lambda>m.
     case vm_jwk m of
       None \<Rightarrow> throw (type_error ''Request proof verification method has no supported JWK'')
     | Some k \<Rightarrow> ret k)"

definition production_proof_ops :: "'e production \<Rightarrow> 'e did_state proof_ops" where
  "production_proof_ops P = \<lparr>pf_parse = kl_parse_proof (pp_library P),
     pf_verify = (\<lambda>pf q audience jkt consume. kl_verify_proof (pp_library P) pf q audience jkt (pp_now P)
       \<lparr>pb_resolve_key = (\<lambda>kid. other_io (resolve_proof_key (pp_resolver P) kid)),
        pb_resolve_keys = (\<lambda>did. other_io (resolve_did_keys (pp_resolver P) did)), pb_consume = consume\<rparr>),
     pf_consume = (\<lambda>u. other_io (on_env (pp_consume P u))), pf_clock = pp_now P\<rparr>"

definition production_request_proof ::
  "host \<Rightarrow> 'e production \<Rightarrow> json option \<Rightarrow> tool_request \<Rightarrow> string \<Rightarrow> string option \<Rightarrow> (kya_error, 'e did_state, kya_proof) io" where
  "production_request_proof H P = verify_request_proof H (production_proof_ops P)"

text \<open>No \<open>cardPrincipal\<close> is given.\<close>

definition production_delegation_ops :: "'e production \<Rightarrow> 'e did_state delegation_ops" where
  "production_delegation_ops P = (let K = pp_library P in \<lparr>dl_parse = kl_parse_credential K,
     dl_signature = (\<lambda>c. verify_credential (pp_resolver P) (pp_signatures P) (cr_json c)),
     dl_revocation = (\<lambda>x. on_env (kl_revocation K x)),
     dl_chain = (\<lambda>cs found depth now. lift_io (kl_chain K cs found depth now)),
     dl_parse_card = kl_parse_card K, dl_card_principal = None, dl_date_parse = kl_date_parse K\<rparr>)"

definition on_fst :: "('x, 's, 'a) io \<Rightarrow> ('x, 's \<times> bool, 'a) io" where
  "on_fst m s = (case m (fst s) of (r, t) \<Rightarrow> (r, (t, snd s)))"

definition production_callbacks ::
  "'e production \<Rightarrow> (string \<times> string \<Rightarrow> (kya_error, 'e did_state \<times> bool, bool) io) \<Rightarrow> 'e did_state credential_callbacks" where
  "production_callbacks P status = \<lparr>cb_resolve = (\<lambda>did. on_fst (other_io (upstream_resolve (pp_resolver P) did))),
     cb_status = status, cb_signature = verify_legacy_signature (pp_legacy P)\<rparr>"

definition production_legacy :: "host \<Rightarrow> 'e production \<Rightarrow> 'e did_state legacy_options" where
  "production_legacy H P = (let K = pp_library P in \<lparr>lg_proof = production_request_proof H P, lg_jwt = kl_jwt K, lg_object = kl_object K,
     lg_revocation = (\<lambda>x. on_env (kl_revocation K x)),
     lg_verify_jwt = (\<lambda>t status. kl_verify_jwt K (production_callbacks P status) t),
     lg_verify_object = (\<lambda>c status. kl_verify_object K (production_callbacks P status) c), lg_date_parse = kl_date_parse K\<rparr>)"

definition production_verifier :: "host \<Rightarrow> 'e production \<Rightarrow> 'e did_state authority_options" where
  "production_verifier H P = \<lparr>vo_proof = production_request_proof H P,
     vo_delegation = verify_delegation H (production_delegation_ops P), vo_mapper = None,
     vo_legacy = Some (verify_legacy H (production_legacy H P))\<rparr>"

subsection \<open>The cache through every part\<close>

definition keeps_cache :: "'e did_state \<Rightarrow> 'e did_state \<Rightarrow> bool" where
  "keeps_cache s s' \<longleftrightarrow> (cache_ok s \<longrightarrow> cache_ok s')"

lemma keeps_cache_order [keeps_intros]: "state_order keeps_cache"
  by (auto simp: state_order_def keeps_cache_def)

lemma resolve_document_keeps [keeps_intros]: "keeps keeps_cache (resolve_did_document D did)"
  using resolve_did_document_sound [of D did] unfolding keeps_def keeps_cache_def by (metis prod.collapse)

lemma resolve_method_keeps [keeps_intros]: "keeps keeps_cache (resolve_verification_method D kid)"
  using resolve_verification_method_sound [of D kid] unfolding keeps_def keeps_cache_def by (metis prod.collapse)

lemma on_env_keeps [keeps_intros]: "keeps keeps_cache (on_env m)"
  unfolding on_env_def by (rule keeps_on_part) (simp add: keeps_cache_def cache_ok_def)

lemma other_io_keeps [keeps_intros]: "keeps R m \<Longrightarrow> keeps R (other_io m)"
  by (simp add: keeps_def other_io_def split: prod.split sum.split) (metis snd_conv)

lemma credential_keeps [keeps_intros]: "keeps keeps_cache (verify_credential D S v)"
  unfolding verify_credential_def verify_credential_inner_def by (intro keeps_intros)

text \<open>\<open>verifyCardProof\<close> changes nothing but through the functions it is given.\<close>

definition through_callbacks :: "'e kya_library \<Rightarrow> bool" where
  "through_callbacks K \<longleftrightarrow> (\<forall>R pf q audience jkt now B. state_order R \<longrightarrow> (\<forall>kid. keeps R (pb_resolve_key B kid)) \<longrightarrow>
     (\<forall>did. keeps R (pb_resolve_keys B did)) \<longrightarrow> (\<forall>n did. keeps R (pb_consume B n did)) \<longrightarrow>
     keeps R (kl_verify_proof K pf q audience jkt now B))"

lemma production_proof_keeps:
  assumes "through_callbacks (pp_library P)"
  shows "keeps keeps_cache (production_request_proof H P w q audience jkt)"
proof -
  have "keeps keeps_cache (pf_verify (production_proof_ops P) pf q audience jkt (consume_nonce_if_fresh (production_proof_ops P) pf))" for pf
    unfolding production_proof_ops_def consume_nonce_if_fresh_def proof_ops.simps
    by (rule assms [unfolded through_callbacks_def, rule_format])
      (simp_all add: resolve_proof_key_def resolve_did_keys_def, (intro keeps_intros)+)
  then show ?thesis
    unfolding production_request_proof_def verify_request_proof_def
    by (intro keeps_intros) (auto split: option.split kya_error.split intro!: keeps_intros)
qed

text \<open>The steps of a sequence that succeeded, each from the state its predecessors left.\<close>

lemma each_io_nth:
  assumes "each_io f xs s = (Inr u, s')" "n < length xs"
  shows "\<exists>t t'. each_io f (take n xs) s = (Inr (), t) \<and> f (xs ! n) t = (Inr (), t')"
  using assms
proof (induction xs arbitrary: s n)
  case (Cons y ys)
  from Cons.prems(1) obtain s1 where y: "f y s = (Inr (), s1)" and ys: "each_io f ys s1 = (Inr u, s')"
    by (auto simp: bind_io_Inr)
  show ?case
  proof (cases n)
    case 0
    with y show ?thesis by (simp add: ret_def)
  next
    case (Suc m)
    with Cons.IH [OF ys, of m] Cons.prems(2) y show ?thesis by (auto simp: bind_io_apply)
  qed
qed simp

lemma each_io_keeps: "state_order R \<Longrightarrow> (\<And>x. keeps R (f x)) \<Longrightarrow> keeps R (each_io f xs)"
  by (induction xs) (auto intro!: keeps_intros)

subsection \<open>What the production verifier accepts\<close>

text \<open>An accepted delegation: every credential of its chain carries the signature of its issuer, by the documents that the
  shared resolver gave when it was verified, after the credentials before it; and the policy does not ask for a principal of
  an Entity Card.\<close>

definition signed_chain :: "host \<Rightarrow> 'e production \<Rightarrow> json list \<Rightarrow> string \<Rightarrow> 'e did_state \<Rightarrow> bool" where
  "signed_chain H P raw h s \<longleftrightarrow> (\<exists>cs. read_all (kl_parse_credential (pp_library P)) raw = Some cs \<and>
     h = hash_canonical H (JArr (map cr_json cs)) \<and>
     (\<forall>n<length cs. signed_by_issuer (pp_resolver P) (pp_signatures P) (cr_json (cs ! n))
        (snd (each_io (\<lambda>c. verify_credential (pp_resolver P) (pp_signatures P) (cr_json c)) (take n cs) s))))"

lemma production_delegation_ops_simps [simp]:
  "dl_parse (production_delegation_ops P) = kl_parse_credential (pp_library P)"
  "dl_signature (production_delegation_ops P) c = verify_credential (pp_resolver P) (pp_signatures P) (cr_json c)"
  "dl_card_principal (production_delegation_ops P) = None"
  by (simp_all add: production_delegation_ops_def Let_def)

lemma card_authority_none:
  assumes "card_authority H U p cdv agent responsible s = (Inr (prn, h), s')" "dl_card_principal U = None"
  shows "\<not> yp_card_principal p \<and> prn = None"
  using assms by (auto simp: card_authority_def bind_io_Inr throw_Inr ret_def Let_def split: option.splits if_splits)

lemma production_delegation_signed:
  assumes "verify_delegation H (production_delegation_ops P) (EntityCardPresentation q w ch cdv jkt) pf p now s = (Inr d, s')"
    and "cache_ok s"
  shows "signed_chain H P ch (kd_chain_hash d) s \<and> \<not> yp_card_principal p \<and> kd_principal d = None"
proof -
  let ?U = "production_delegation_ops P"
  from assms(1) obtain cs s1 agent responsible card t t' where cs: "read_all (kl_parse_credential (pp_library P)) ch = Some cs"
    and sig: "each_io (dl_signature ?U) cs s = (Inr (), s1)" and h: "kd_chain_hash d = hash_canonical H (JArr (map cr_json cs))"
    and c: "card_authority H ?U p cdv agent responsible t = (Inr (kd_principal d, card), t')"
    by (auto simp: verify_delegation_def bind_io_Inr throw_Inr ret_def split: option.splits if_splits prod.splits)
  let ?f = "\<lambda>c. verify_credential (pp_resolver P) (pp_signatures P) (cr_json c)"
  from card_authority_none [OF c] have p: "\<not> yp_card_principal p" "kd_principal d = None" by simp_all
  have f: "dl_signature ?U = ?f" by (simp add: fun_eq_iff)
  have "signed_by_issuer (pp_resolver P) (pp_signatures P) (cr_json (cs ! n)) (snd (each_io ?f (take n cs) s))" if "n < length cs" for n
  proof -
    from each_io_nth [OF sig [unfolded f] that] obtain t t' where t: "each_io ?f (take n cs) s = (Inr (), t)" "?f (cs ! n) t = (Inr (), t')"
      by blast
    have "keeps_cache s t"
      by (rule keepsD [OF each_io_keeps t(1)]) (simp_all add: keeps_cache_order credential_keeps)
    with assms(2) have "cache_ok t" by (simp add: keeps_cache_def)
    with t verify_credential_sound show ?thesis by auto
  qed
  with cs h p show ?thesis by (auto simp: signed_chain_def)
qed

text \<open>Any verifier over these parts, and the production verifier with its legacy path.\<close>

lemma production_parts_signed:
  assumes "verify_authority H V (EntityCardPresentation q w ch cdv jkt) a p audience now s = (Inr v, s')"
    and "vo_proof V = production_request_proof H P" "vo_delegation V = verify_delegation H (production_delegation_ops P)"
    and "through_callbacks (pp_library P)" "cache_ok s"
  shows "signed_chain H P ch (kb_chain_hash (va_binding v)) (snd (production_request_proof H P w q audience jkt s)) \<and>
    va_principal v = None \<and> va_responsible v = a_principal_id a"
proof -
  from assms(1) obtain pf f d s1 prn where pf: "vo_proof V w q audience jkt s = (Inr pf, s1)"
    and d: "vo_delegation V (EntityCardPresentation q w ch cdv jkt) pf p now s1 = (Inr d, s')"
    and j: "join_authority H a p pf f d = Inr prn"
    and b: "modern_binding H p (EntityCardPresentation q w ch cdv jkt) pf d prn now = Inr (va_binding v)"
    and v: "va_responsible v = kd_responsible d" "va_principal v = prn"
    by (rule verify_authority_modern)
  have "cache_ok s1" using keepsD [OF production_proof_keeps [OF assms(4)]] pf assms(2,5) by (auto simp: keeps_cache_def)
  note k = production_delegation_signed [OF d [unfolded assms(3)] this]
  have "kb_chain_hash (va_binding v) = kd_chain_hash d" using b
    by (auto simp: modern_binding_def bind_sum_Inr other_Inr complete_binding_def Let_def split: if_splits)
  moreover have "snd (production_request_proof H P w q audience jkt s) = s1" using pf assms(2) by simp
  ultimately show ?thesis using k v join_authority_sound [OF j] by (simp add: joined_def)
qed

lemma production_authority_signed:
  assumes "verify_authority H (production_verifier H P) (EntityCardPresentation q w ch cdv jkt) a p audience now s = (Inr v, s')"
    and "through_callbacks (pp_library P)" "cache_ok s"
  shows "signed_chain H P ch (kb_chain_hash (va_binding v)) (snd (production_request_proof H P w q audience jkt s)) \<and>
    va_principal v = None \<and> va_responsible v = a_principal_id a"
  by (rule production_parts_signed [OF assms(1) _ _ assms(2,3)]) (simp_all add: production_verifier_def)

end
