(* ===== verification/KyaSamples.thy ===== *)
theory KyaSamples
  imports KyaGate Samples
begin

section \<open>Concrete data for the KYA properties\<close>

text \<open>A payment action of an agent under \<open>did:key\<close>, its presentation, a policy that accepts both, and operations
  of the KYA library that answer for one credential with a maximum; a world in which the gate consumes.\<close>

definition kya_action :: action where
  "kya_action = sample_action\<lparr>a_principal_id := ''did:web:owner'', a_agent_id := ''did:key:agent''\<rparr>"

definition kya_sample_policy :: kya_policy where
  "kya_sample_policy = \<lparr>yp_policy_id = ''k-1'', yp_policy_version = ''1'', yp_required = True, yp_profiles = [EntityCardV1],
     yp_audiences = [''inntris''], yp_did_methods = [DidKey, DidWeb], yp_responsible = [''did:web:owner''], yp_actions = 1,
     yp_min_assurance = L3Minus, yp_fresh_revocation = True, yp_require_max = True, yp_max_depth = 3,
     yp_card_principal = False, yp_resources = [(''https://api.example/data'', ''urn:data'')],
     yp_currencies = [(''USDC'', ''USD'')], yp_payees = None\<rparr>"

definition kya_request :: tool_request where
  "kya_request = \<lparr>tq_method = ''tools/call'', tq_params = Some (JObj [(''name'', JStr ''payments.transfer''),
     (''arguments'', JObj [(''to'', JStr ''0xpayee''), (''amount'', JStr ''12.50''), (''currency'', JStr ''USD''),
       (''resource'', JStr ''urn:data'')])])\<rparr>"

definition kya_sample_proof :: kya_proof where
  "kya_sample_proof = \<lparr>kq_did = ''did:key:agent'', kq_kid = ''did:key:agent#1'', kq_assurance = L3, kq_audience = ''inntris'',
     kq_request_hash = sample_hash, kq_nonce = ''n-1'', kq_created = 1700000000, kq_expires = 1700000030,
     kq_proof_hash = sample_hash\<rparr>"

definition kya_sample_credential :: credential where
  "kya_sample_credential = \<lparr>cr_json = JNull, cr_revocation = Some (''https://status.example'', ''7''), cr_valid_until = None,
     cr_caveats = [\<lparr>cv_type = ''MaxAmount'', cv_date = None, cv_limit = Some (JStr ''100.00''), cv_currency = Some (JStr ''USD'')\<rparr>]\<rparr>"

definition kya_delegation_ops :: "'s delegation_ops" where
  "kya_delegation_ops = \<lparr>dl_parse = (\<lambda>_. Some kya_sample_credential), dl_signature = (\<lambda>_. ret ()),
     dl_revocation = (\<lambda>_. ret (False, True)),
     dl_chain = (\<lambda>cs st depth now. ret \<lparr>ce_ok = True, ce_reasons = [], ce_fresh = True, ce_leaf = Some ''did:key:agent'',
       ce_responsible = Some ''did:web:owner'', ce_target = Some ''urn:data'', ce_actions = [''payments.transfer''], ce_depth = 1\<rparr>),
     dl_parse_card = (\<lambda>_. None), dl_card_principal = None, dl_date_parse = (\<lambda>_. None)\<rparr>"

definition kya_options :: "'s authority_options" where
  "kya_options = \<lparr>vo_proof = (\<lambda>w q au jkt. ret kya_sample_proof), vo_delegation = verify_delegation ref_host kya_delegation_ops,
     vo_mapper = None, vo_legacy = None\<rparr>"

definition kya_sample_presentation :: kya_presentation where
  "kya_sample_presentation = EntityCardPresentation kya_request None [JNull] None None"

lemma kya_amounts [simp]: "kya_amount_ok ''12.50''" "kya_amount_ok ''100.00''" "canonical_decimal 6 ''12.50''" "canonical_decimal 6 ''100.00''"
  by code_simp+

lemma kya_decimals [simp]:
  "new_decimal ref_host ''12.50'' = Inr (25 / 2)" "new_decimal ref_host ''100.00'' = Inr 100"
  using new_decimal_canonical [OF ref_host_decimal kya_amounts(3)] new_decimal_canonical [OF ref_host_decimal kya_amounts(4)]
  by simp_all

lemma kya_map_payment: "map_payment kya_request =
    Inr \<lparr>ky_amount = ''12.50'', ky_currency = ''USD'', ky_payee = ''0xpayee'', ky_resource = ''urn:data''\<rparr>"
  by (simp add: map_payment_def parse_payment_request_def kya_request_def strict_obj_def get_lit_def get_str_def guard_opt_def
      len_between_def)

definition kya_sample_delegation :: kya_delegation where
  "kya_sample_delegation = \<lparr>kd_agent = ''did:key:agent'', kd_responsible = ''did:web:owner'', kd_principal = None,
     kd_target = ''urn:data'', kd_actions = [''payments.transfer''], kd_max = Some ''100.00'', kd_currency = Some ''USD'',
     kd_expires_at = 1700000030000, kd_depth = 1, kd_fresh = True, kd_chain_hash = hash_canonical ref_host (JArr [JNull]),
     kd_card_hash = None\<rparr>"

lemma kya_delegation_verified:
  "verify_delegation ref_host kya_delegation_ops kya_sample_presentation kya_sample_proof kya_sample_policy now s =
    (Inr kya_sample_delegation, s)"
  by (simp add: verify_delegation_def kya_sample_presentation_def kya_delegation_ops_def bind_io_apply kya_sample_proof_def
      kya_sample_policy_def kya_sample_credential_def card_authority_def effective_max_def expiry_of_def credential_expiries_def
      option_list_def kya_sample_delegation_def ret_def)

lemma kya_joined: "join_authority ref_host kya_action kya_sample_policy kya_sample_proof
    \<lparr>ky_amount = ''12.50'', ky_currency = ''USD'', ky_payee = ''0xpayee'', ky_resource = ''urn:data''\<rparr> kya_sample_delegation = Inr None"
  by (simp add: join_authority_def require_accepted_did_def accepted_did_def did_method_of_def kya_sample_policy_def
      kya_sample_proof_def kya_sample_delegation_def need_def require_assurance_def assurance_enough_def
      require_principal_join_def kya_action_def sample_action_def require_financial_join_def sample_transaction_def
      payees_join_def sample_reference_def require_within_max_def)

lemma kya_policy_fine [simp]: "kya_policy_ok ref_host kya_sample_policy"
  by (simp add: kya_policy_ok_def kya_sample_policy_def len_between_def)

lemma kya_hash_ok [simp]: "hash_ok (hash_canonical ref_host v)"
  by (rule hash_canonical_hash_ok) simp

lemma kya_years [simp]: "four_digit_years 1700000030000"
  by (simp add: four_digit_years_def)

lemma kya_binding_made:
  "\<exists>b. modern_binding ref_host kya_sample_policy kya_sample_presentation kya_sample_proof kya_sample_delegation None sample_now = Inr b"
proof -
  have "iso_or_throw sample_now = Inr (iso_text sample_now)" "iso_or_throw 1700000030000 = Inr (iso_text 1700000030000)"
    by (simp_all add: iso_or_throw_def to_iso_string_four_digit)
  then show ?thesis
    by (simp add: modern_binding_def hash_kya_policy_def kya_sample_delegation_def kya_sample_proof_def complete_binding_def
        Let_def kya_binding_ok_def opt_check_def timestamp_ok_iso_text)
qed

lemma kya_sample_verified:
  "\<exists>v. verify_authority ref_host kya_options kya_sample_presentation kya_action kya_sample_policy ''inntris'' sample_now s = (Inr v, s)"
proof -
  obtain b where b: "modern_binding ref_host kya_sample_policy kya_sample_presentation kya_sample_proof kya_sample_delegation None sample_now = Inr b"
    using kya_binding_made by blast
  have "presentation_ok kya_sample_presentation" "assert_no_kya_extension kya_action = Inr ()"
    "require_profile kya_sample_policy kya_sample_presentation ''inntris'' = Inr ()"
    by (simp_all add: kya_sample_presentation_def tool_request_ok_def kya_request_def len_between_def assert_no_kya_extension_def
        kya_extension_def kya_action_def sample_action_def require_profile_def need_def kya_sample_policy_def)
  with b kya_delegation_verified [of sample_now s] kya_map_payment kya_joined show ?thesis
    by (simp add: verify_authority_def kya_sample_presentation_def bind_io_apply kya_options_def ret_def)
qed

subsection \<open>A world in which a decision is consumed\<close>

definition kya_inner :: "unit inner_provider" where
  "kya_inner = \<lparr>in_evaluate = (\<lambda>_. throw ZodError), in_issue_block = (\<lambda>_ _. throw ZodError), in_resolve = None,
     in_resolve_with = (\<lambda>_ _. throw ZodError),
     in_consume = (\<lambda>i. ret \<lparr>cr_success = True, cr_status = Consumed, cr_decision_id = co_decision_id i,
       cr_execution_ref = co_execution_ref i, cr_consumed_at = Some ''2023-11-14T22:13:20.000Z'', cr_reason = None\<rparr>)\<rparr>"

definition kya_sample_setup :: "(unit, (unit, kya_memory, unit) kya_world) kya_setup" where
  "kya_sample_setup = \<lparr>ks_verify = verify_authority ref_host kya_options, ks_policy = kya_sample_policy, ks_clock = (\<lambda>_. sample_now)\<rparr>"

definition kya_hash :: string where
  "kya_hash = hash_canonical ref_host (action_json kya_action)"

definition kya_consumption :: consume_input where
  "kya_consumption = \<lparr>co_decision_id = ''decision-1'', co_action_hash = kya_hash, co_execution_ref = ''run-1''\<rparr>"

definition kya_sample_world :: "kya_binding \<Rightarrow> (unit, kya_memory, unit) kya_world" where
  "kya_sample_world b = \<lparr>kx_inner = (), kx_store = \<lparr>km_decisions = [(''decision-1'', \<lparr>kr_decision_id = ''decision-1'',
     kr_action_hash = kya_hash, kr_action = kya_action, kr_binding = b, kr_created_at = ''2023-11-14T22:13:20.000Z''\<rparr>)],
     km_revalidations = []\<rparr>, kx_verifier = (),
     kx_metrics = \<lparr>ym_verifications = [], ym_delegation_rejections = [], ym_revocation_failures = [], ym_authority_gates = [],
       ym_revalidations = [], ym_proof_replays = 0\<rparr>, kx_consumed = []\<rparr>"

abbreviation kya_sample_gate :: "(unit, kya_memory, unit) kya_world kya_gate" where
  "kya_sample_gate \<equiv> memory_gate ref_host (\<lambda>_. True) kya_inner kya_sample_setup"

lemma kya_action_fine [simp]: "action_ok ref_host kya_action"
  by (simp add: kya_action_def action_ok_def sample_action_def sample_reference_def identifier_ok_def len_between_def)

lemma kya_sample_consumes:
  obtains b r s' where "kya_consume ref_host kya_sample_gate ''u-1'' kya_consumption kya_sample_presentation (kya_sample_world b) = (Inr r, s')"
    and "cr_success r" "kx_consumed s' = [kya_consumption]"
proof -
  obtain v where v: "verify_authority ref_host kya_options kya_sample_presentation kya_action kya_sample_policy ''inntris'' sample_now () = (Inr v, ())"
    by (rule exE [OF kya_sample_verified [of "()"]])
  let ?b = "va_binding v" and ?G = "kya_sample_gate"
  let ?s = "kya_sample_world ?b"
  have bound: "kya_binding_ok ?b"
    using verified_authority_covers [OF v [unfolded kya_sample_presentation_def], of kya_delegation_ops]
    by (simp add: kya_options_def binding_reports_def Let_def)
  have clean: "without_kya_extension ref_host kya_action = Inr kya_action"
    by (simp add: without_kya_extension_def kya_extension_def kya_action_def sample_action_def)
  have get: "get_or_none ?G ''decision-1'' ?s = (Inr (Some \<lparr>kr_decision_id = ''decision-1'',
     kr_action_hash = kya_hash, kr_action = kya_action, kr_binding = ?b, kr_created_at = ''2023-11-14T22:13:20.000Z''\<rparr>), ?s)"
    by (simp add: get_or_none_def memory_gate_def on_part_def mem_get_decision_def kya_sample_world_def catch_io_apply)
  have find: "kg_find ?G ''decision-1'' kya_hash ''run-1'' ?s = (Inr None, ?s)"
    by (simp add: memory_gate_def on_part_def mem_find_success_def kya_sample_world_def)
  have verify: "kg_verify ?G kya_sample_presentation kya_action kya_sample_policy ''inntris'' sample_now ?s = (Inr v, ?s)"
    using v by (simp add: memory_gate_def on_part_def kya_sample_setup_def kya_sample_world_def)
  have gate: "kg_policy ?G = kya_sample_policy" "kg_clock ?G = (\<lambda>_. sample_now)"
    "expected_audience kya_sample_policy kya_sample_presentation = ''inntris''"
    by (simp_all add: memory_gate_def kya_sample_setup_def expected_audience_def kya_sample_presentation_def kya_sample_policy_def)
  let ?st = "\<lparr>kr_decision_id = ''decision-1'',
     kr_action_hash = kya_hash, kr_action = kya_action, kr_binding = ?b, kr_created_at = ''2023-11-14T22:13:20.000Z''\<rparr>"
  have fresh: "fresh_authority ref_host ?G ?st kya_sample_presentation m ?s = (Inr (Inr v), ?s)" for m
    using verify
    by (simp add: fresh_authority_def verify_fresh_def clean gate catch_io_apply bind_io_apply read_clock_def
        same_authority_identity_def)
  have now: "iso_now ?G s = (Inr (iso_text sample_now), s)" for s
    by (simp add: iso_now_def read_clock_def bind_io_apply gate iso_or_throw_def to_iso_string_four_digit)
  let ?v = "consumption_revalidation ''u-1'' kya_consumption (hash_canonical ref_host (presentation_json kya_sample_presentation))
    (iso_text sample_now) (Inr v)"
  have ok: "revalidation_ok (\<lambda>_. True) ?v"
    using bound by (simp add: revalidation_ok_def consumption_revalidation_def kya_consumption_def kya_hash_def
        opt_check_def timestamp_ok_iso_text kya_binding_ok_def)
  have app: "other_io (kg_append ?G ?v) ?s = (Inr (), ?s\<lparr>kx_store := snd (mem_append_revalidation (\<lambda>_. True) ?v (kx_store ?s))\<rparr>)"
    by (simp add: other_io_def memory_gate_def on_part_def mem_append_cases ok)
  obtain s2 where re: "revalidate_consumption ref_host ?G ''u-1'' kya_consumption kya_sample_presentation ?st ?s = (Inr None, s2)"
    and s2: "kx_consumed s2 = []"
    using fresh now app
    by (simp add: revalidate_consumption_def bind_io_apply kya_count_def memory_gate_def kya_sample_world_def)
  let ?r = "\<lparr>cr_success = True, cr_status = Consumed, cr_decision_id = ''decision-1'',
       cr_execution_ref = ''run-1'', cr_consumed_at = Some ''2023-11-14T22:13:20.000Z'', cr_reason = None\<rparr>"
  have con: "other_io (kg_consume ?G kya_consumption) s2 = (Inr ?r, s2\<lparr>kx_consumed := [kya_consumption], kx_inner := ()\<rparr>)"
    by (simp add: other_io_def memory_gate_def log_kya_consume_def on_part_def kya_inner_def s2 kya_consumption_def)
  have "kya_consume ref_host ?G ''u-1'' kya_consumption kya_sample_presentation ?s = (Inr ?r, s2\<lparr>kx_consumed := [kya_consumption], kx_inner := ()\<rparr>)"
    using get find re con
    by (simp add: kya_consume_def bind_io_apply kya_consumption_def other_io_def kya_hash_def [symmetric])
  then show ?thesis by (rule that) simp_all
qed

subsection \<open>Tables with one authority record\<close>

definition kya_sample_tables :: kya_tables where
  "kya_sample_tables = \<lparr>kt_base = empty_tables\<lparr>pg_decisions := [''decision-1'' \<mapsto> (sample_unsigned, sample_action)]\<rparr>,
     kt_decisions = [(''decision-1'', \<lparr>kw_action_hash = kya_hash, kw_action = action_json kya_action, kw_binding = JNull,
       kw_created_at = 0\<rparr>)], kt_revalidations = []\<rparr>"

lemma kya_sample_tables_ok: "kya_tables_ok kya_sample_tables"
  by (simp add: kya_tables_ok_def kya_sample_tables_def one_success_def)

end
