(* ===== verification/KyaProductionSamples.thy ===== *)
theory KyaProductionSamples
  imports KyaProduction KyaSamples
begin

section \<open>A production verifier on concrete data\<close>

text \<open>A library that accepts one proof with its nonce and one credential, a resolver with one \<open>did:key\<close> document, and the
  PostgreSQL nonce table as environment.\<close>

definition prod_document :: json where
  "prod_document = JObj [(''id'', JStr ''did:key:z1''),
     (''verificationMethod'', JArr [JObj [(''id'', JStr ''did:key:z1#k''), (''type'', JStr ''Multikey''),
       (''controller'', JStr ''did:key:z1''), (''publicKeyMultibase'', JStr ''z6'')]]),
     (''assertionMethod'', JArr [JStr ''did:key:z1#k''])]"

definition prod_resolver :: "nonce_table did_ops" where
  "prod_resolver = \<lparr>dr_fetch = (\<lambda>_ s. (Unreachable, s)), dr_did_key = (\<lambda>_. Some prod_document), dr_ttl = 300000,
     dr_now = (\<lambda>_. sample_now), dr_decode = Some, dr_url = (\<lambda>_ _. None), dr_parse_jwk = (\<lambda>_. None)\<rparr>"

definition prod_signatures :: signature_ops where
  "prod_signatures = \<lparr>so_parse = (\<lambda>_. Some \<lparr>sc_issuer = ''did:key:z1'', sc_fields = [],
       sc_proof = Some (JObj [(''type'', JStr ''DataIntegrityProof''), (''cryptosuite'', JStr ''eddsa-jcs-2022''),
         (''proofPurpose'', JStr ''assertionMethod''), (''verificationMethod'', JStr ''did:key:z1#k''), (''proofValue'', JStr ''z5'')])\<rparr>),
     so_b58_encode = (\<lambda>x. x), so_b58_decode = Some, so_verify = (\<lambda>m k doc pf sig. Inr True)\<rparr>"

definition prod_card_proof :: card_proof where
  "prod_card_proof = \<lparr>cm_kid = ''did:key:agent#1'', cm_audience = ''inntris'', cm_nonce = ''n-1'', cm_created = 1700000000,
     cm_expires = 1700000030, cm_json = JNull\<rparr>"

definition prod_library :: "'e kya_library" where
  "prod_library = \<lparr>kl_parse_proof = (\<lambda>_. Some prod_card_proof),
     kl_verify_proof = (\<lambda>pf q audience jkt now B. bind_io (pb_consume B (cm_nonce pf) ''did:key:agent'') (\<lambda>fresh.
       ret \<lparr>ct_ok = fresh, ct_did = Some ''did:key:agent'', ct_level = Some L3, ct_reasons = (if fresh then [] else [''nonce_replayed''])\<rparr>)),
     kl_parse_credential = (\<lambda>_. Some kya_sample_credential), kl_revocation = (\<lambda>_. ret (False, True)),
     kl_chain = (\<lambda>cs found depth now. Inr \<lparr>ce_ok = True, ce_reasons = [], ce_fresh = True, ce_leaf = Some ''did:key:agent'',
       ce_responsible = Some ''did:web:owner'', ce_target = Some ''urn:data'', ce_actions = [''payments.transfer''], ce_depth = 1\<rparr>),
     kl_parse_card = Some, kl_jwt = (\<lambda>_. None), kl_object = (\<lambda>_. None),
     kl_verify_jwt = (\<lambda>B t. throw (OtherError ZodError)), kl_verify_object = (\<lambda>B c. throw (OtherError ZodError)),
     kl_date_parse = (\<lambda>_. None)\<rparr>"

definition prod_parts :: "nonce_table production" where
  "prod_parts = \<lparr>pp_library = prod_library, pp_resolver = prod_resolver, pp_signatures = prod_signatures,
     pp_legacy = \<lparr>ly_import = (\<lambda>_. None), ly_verify = (\<lambda>_ _ _. None), ly_canonical = (\<lambda>_. None)\<rparr>,
     pp_consume = pg_consume_nonce, pp_now = sample_now\<rparr>"

definition prod_start :: "nonce_table did_state" where
  "prod_start = \<lparr>ds_cache = [], ds_env = []\<rparr>"

lemma prod_library_through: "through_callbacks prod_library"
  unfolding through_callbacks_def prod_library_def kya_library.simps by (intro allI impI keeps_intros) simp_all

lemma prod_start_cache: "cache_ok prod_start"
  by (simp add: cache_ok_def prod_start_def)

definition prod_proof :: kya_proof where
  "prod_proof = \<lparr>kq_did = ''did:key:agent'', kq_kid = ''did:key:agent#1'', kq_assurance = L3, kq_audience = ''inntris'',
     kq_request_hash = hash_canonical ref_host (tool_request_json kya_request), kq_nonce = ''n-1'', kq_created = 1700000000,
     kq_expires = 1700000030, kq_proof_hash = hash_canonical ref_host JNull\<rparr>"

definition prod_middle :: "nonce_table did_state" where
  "prod_middle = \<lparr>ds_cache = [], ds_env = [((''did:key:agent'', ''n-1''), 1700000036000)]\<rparr>"

lemma prod_proof_verified:
  "production_request_proof ref_host prod_parts None kya_request ''inntris'' None prod_start = (Inr prod_proof, prod_middle)"
  by (simp add: production_request_proof_def verify_request_proof_def production_proof_ops_def prod_parts_def prod_library_def
      prod_card_proof_def catch_io_apply bind_io_apply consume_nonce_if_fresh_def other_io_def on_env_def on_part_def
      pg_consume_nonce_def date_of_ms_def replay_retention_skew_def sample_now_def prod_start_def prod_middle_def prod_proof_def)

lemma prod_credential_verified: "\<exists>s'. verify_credential prod_resolver prod_signatures v prod_middle = (Inr (), s')"
  by (simp add: verify_credential_def verify_credential_inner_def prod_signatures_def prod_resolver_def prod_middle_def
      catch_io_apply bind_io_apply proof_record_def get_str_def starts_with_def resolve_verification_method_def index_of_def
      resolve_did_document_def refresh_did_def parse_did_document_def prod_document_def parse_method_def check_jwk_def
      purpose_entries_def parse_relation_def relationship_contains_def assert_assertion_method_def need_def
      check_signature_def method_multibase_def)

definition prod_delegation :: kya_delegation where
  "prod_delegation = kya_sample_delegation\<lparr>kd_expires_at := 1700000030000\<rparr>"

lemma prod_delegation_verified:
  "\<exists>s'. verify_delegation ref_host (production_delegation_ops prod_parts) kya_sample_presentation prod_proof kya_sample_policy sample_now
    prod_middle = (Inr prod_delegation, s')"
proof -
  obtain s1 where c: "verify_credential prod_resolver prod_signatures JNull prod_middle = (Inr (), s1)"
    using prod_credential_verified by blast
  show ?thesis
    by (simp add: verify_delegation_def kya_sample_presentation_def production_delegation_ops_def prod_parts_def prod_library_def
        kya_sample_credential_def c bind_io_apply prod_proof_def kya_sample_policy_def on_env_def on_part_def card_authority_def
        effective_max_def expiry_of_def credential_expiries_def option_list_def prod_delegation_def kya_sample_delegation_def ret_def)
qed

lemma prod_joined: "join_authority ref_host kya_action kya_sample_policy prod_proof
    \<lparr>ky_amount = ''12.50'', ky_currency = ''USD'', ky_payee = ''0xpayee'', ky_resource = ''urn:data''\<rparr> prod_delegation = Inr None"
  using kya_joined by (simp add: join_authority_def prod_proof_def prod_delegation_def kya_sample_proof_def require_financial_join_def)

lemma prod_binding_made:
  "\<exists>b. modern_binding ref_host kya_sample_policy kya_sample_presentation prod_proof prod_delegation None sample_now = Inr b"
proof -
  have "iso_or_throw sample_now = Inr (iso_text sample_now)" "iso_or_throw 1700000030000 = Inr (iso_text 1700000030000)"
    by (simp_all add: iso_or_throw_def to_iso_string_four_digit)
  then show ?thesis
    by (simp add: modern_binding_def hash_kya_policy_def prod_delegation_def kya_sample_delegation_def prod_proof_def
        complete_binding_def Let_def kya_binding_ok_def opt_check_def timestamp_ok_iso_text)
qed

lemma prod_verified:
  "\<exists>v s'. verify_authority ref_host (production_verifier ref_host prod_parts) kya_sample_presentation kya_action kya_sample_policy
    ''inntris'' sample_now prod_start = (Inr v, s')"
proof -
  obtain b where b: "modern_binding ref_host kya_sample_policy kya_sample_presentation prod_proof prod_delegation None sample_now = Inr b"
    using prod_binding_made by blast
  obtain s' where d: "verify_delegation ref_host (production_delegation_ops prod_parts) kya_sample_presentation prod_proof kya_sample_policy
      sample_now prod_middle = (Inr prod_delegation, s')"
    using prod_delegation_verified by blast
  have "presentation_ok kya_sample_presentation" "assert_no_kya_extension kya_action = Inr ()"
    "require_profile kya_sample_policy kya_sample_presentation ''inntris'' = Inr ()"
    by (simp_all add: kya_sample_presentation_def tool_request_ok_def kya_request_def len_between_def assert_no_kya_extension_def
        kya_extension_def kya_action_def sample_action_def require_profile_def need_def kya_sample_policy_def)
  with b d kya_map_payment prod_joined prod_proof_verified show ?thesis
    by (simp add: verify_authority_def kya_sample_presentation_def bind_io_apply production_verifier_def ret_def)
qed

end
