(* ===== verification/PulseJson.thy ===== *)
theory PulseJson
  imports Json "HOL-Library.Word"
begin

section \<open>The strict JSON reader of the conformance evaluator\<close>

text \<open>
  \<open>pulse-conformance-evaluator/src/strict-json.ts\<close>: a JSON parser that refuses duplicate member names before an object
  is built, and the guard on what is given to the canonical form. Text is a list of 16-bit code units, so
  surrogates and escapes are those of the code; a number is read as the runtime reads it, rounded to the nearest
  double. The depth a value may have is counted down from 101; a loop over the rest of the text has the length of the
  text as its bound, which is shown to be enough. The offset in an error message is left out. Lemmas: what is accepted
  has distinct member names in every object, no member of a refused name, no lone surrogate and at most 101
  levels.
\<close>

type_synonym units = "16 word list"

datatype ujson =
  UNull | UBool bool | UNum rat | UStr units | UArr "ujson list" | UObj "(units \<times> ujson) list"

text \<open>Code units of a text of the code units below 256.\<close>

definition latin :: "string \<Rightarrow> units" where
  "latin s = map (\<lambda>c. word_of_nat (of_char c)) s"

datatype json_fault =
  Malformed | TooDeep | LoneSurrogate | BadEscape | DuplicateMember units | HasExpected | UnsafeKey units

subsection \<open>The guard\<close>

definition high_surrogate :: "16 word \<Rightarrow> bool" where
  "high_surrogate c \<longleftrightarrow> 0xD800 \<le> c \<and> c \<le> 0xDBFF"

definition low_surrogate :: "16 word \<Rightarrow> bool" where
  "low_surrogate c \<longleftrightarrow> 0xDC00 \<le> c \<and> c \<le> 0xDFFF"

text \<open>\<open>String.prototype.isWellFormed\<close>.\<close>

fun well_formed :: "units \<Rightarrow> bool" where
  "well_formed [] = True"
| "well_formed [c] = (\<not> high_surrogate c \<and> \<not> low_surrogate c)"
| "well_formed (c # d # s) =
     (if high_surrogate c then low_surrogate d \<and> well_formed s else \<not> low_surrogate c \<and> well_formed (d # s))"

definition check_unicode :: "units \<Rightarrow> json_fault + unit" where
  "check_unicode s = (if well_formed s then Inr () else Inl LoneSurrogate)"

definition unsafe_keys :: "units list" where
  "unsafe_keys = [latin ''__proto__'', latin ''constructor'', latin ''prototype'']"

definition check_key :: "bool \<Rightarrow> units \<Rightarrow> json_fault + unit" where
  "check_key forbid k =
     bind_sum (check_unicode k) (\<lambda>_.
     if forbid \<and> k = latin ''expected'' then Inl HasExpected
     else if k \<in> set unsafe_keys then Inl (UnsafeKey k)
     else Inr ())"

fun check_all :: "('a \<Rightarrow> 'e + unit) \<Rightarrow> 'a list \<Rightarrow> 'e + unit" where
  "check_all f [] = Inr ()"
| "check_all f (x # xs) = bind_sum (f x) (\<lambda>_. check_all f xs)"

text \<open>The first number is how many levels are left; the guard starts with \<open>max_levels\<close>.\<close>

definition max_levels :: nat where
  "max_levels = 101"

fun assert_json_value :: "bool \<Rightarrow> nat \<Rightarrow> ujson \<Rightarrow> json_fault + unit" where
  "assert_json_value forbid 0 v = Inl TooDeep"
| "assert_json_value forbid (Suc n) v =
     (case v of
        UStr s \<Rightarrow> check_unicode s
      | UArr xs \<Rightarrow> check_all (assert_json_value forbid n) xs
      | UObj ms \<Rightarrow> check_all (\<lambda>m. bind_sum (check_key forbid (fst m)) (\<lambda>_. assert_json_value forbid n (snd m))) ms
      | _ \<Rightarrow> Inr ())"

subsection \<open>Numbers\<close>

fun bit_length :: "nat \<Rightarrow> nat" where
  "bit_length n = (if n = 0 then 0 else Suc (bit_length (n div 2)))"

declare bit_length.simps [simp del]

definition pow2 :: "int \<Rightarrow> rat" where
  "pow2 e = (if 0 \<le> e then 2 ^ nat e else 1 / 2 ^ nat (- e))"

text \<open>The exponent of the highest binary digit of a positive number.\<close>

definition floor_log2 :: "rat \<Rightarrow> int" where
  "floor_log2 q =
     (case quotient_of q of (a, b) \<Rightarrow>
        let e = int (bit_length (nat a)) - int (bit_length (nat b)) in if q < pow2 e then e - 1 else e)"

definition round_even :: "rat \<Rightarrow> int" where
  "round_even q = (let n = \<lfloor>q\<rfloor>; d = q - of_int n in if d < 1 / 2 \<or> d = 1 / 2 \<and> even n then n else n + 1)"

text \<open>The nearest double, ties to even; \<open>None\<close> is an infinity. A finite double is below 2^1024 and a multiple of
  2^-1074.\<close>

definition double_range :: nat where
  "double_range = 1024"

definition double_scale :: nat where
  "double_scale = 1074"

definition to_double :: "rat \<Rightarrow> rat option" where
  "to_double q =
     (if q = 0 then Some 0
      else let e = max (- int double_scale) (floor_log2 \<bar>q\<bar> - 52); r = of_int (round_even (\<bar>q\<bar> / pow2 e)) * pow2 e in
        if 2 ^ double_range \<le> r then None else Some (if q < 0 then - r else r))"

abbreviation cu :: "char \<Rightarrow> 16 word" where
  "cu c \<equiv> word_of_nat (of_char c)"

definition digit_unit :: "16 word \<Rightarrow> bool" where
  "digit_unit c \<longleftrightarrow> 48 \<le> c \<and> c \<le> 57"

definition units_value :: "units \<Rightarrow> nat" where
  "units_value ds = fold (\<lambda>c n. 10 * n + (unat c - 48)) ds 0"

text \<open>The parts of the pattern for numbers, each with what follows it. A fraction needs a digit after its point, an
  exponent a digit after its letter and sign; otherwise nothing of it is matched.\<close>

definition int_part :: "units \<Rightarrow> (units \<times> units) option" where
  "int_part s =
     (case s of
        [] \<Rightarrow> None
      | c # r \<Rightarrow>
          if c = cu CHR ''0'' then Some ([c], r)
          else if digit_unit c then Some (takeWhile digit_unit s, dropWhile digit_unit s) else None)"

definition frac_part :: "units \<Rightarrow> units \<times> units" where
  "frac_part s =
     (case s of
        c # d # r \<Rightarrow>
          if c = cu CHR ''.'' \<and> digit_unit d then (takeWhile digit_unit (d # r), dropWhile digit_unit (d # r)) else ([], s)
      | _ \<Rightarrow> ([], s))"

definition exp_sign :: "units \<Rightarrow> bool \<times> units" where
  "exp_sign s =
     (case s of
        c # r \<Rightarrow> if c = cu CHR ''-'' then (True, r) else if c = cu CHR ''+'' then (False, r) else (False, s)
      | [] \<Rightarrow> (False, s))"

definition exp_part :: "units \<Rightarrow> int \<times> units" where
  "exp_part s =
     (case s of
        c # r \<Rightarrow>
          if c = cu CHR ''e'' \<or> c = cu CHR ''E'' then
            (case exp_sign r of (neg, t) \<Rightarrow>
               let ds = takeWhile digit_unit t; n = int (units_value ds) in
               if ds = [] then (0, s) else (if neg then - n else n, dropWhile digit_unit t))
          else (0, s)
      | [] \<Rightarrow> (0, s))"

definition pow10 :: "int \<Rightarrow> rat" where
  "pow10 e = (if 0 \<le> e then 10 ^ nat e else 1 / 10 ^ nat (- e))"

definition read_number :: "units \<Rightarrow> json_fault + (rat \<times> units)" where
  "read_number s =
     (let neg = (s \<noteq> [] \<and> hd s = cu CHR ''-'') in
      case int_part (if neg then tl s else s) of
        None \<Rightarrow> Inl Malformed
      | Some (ip, r) \<Rightarrow>
          (case frac_part r of (fp, t) \<Rightarrow>
          (case exp_part t of (e, u) \<Rightarrow>
             let q = of_nat (units_value (ip @ fp)) * pow10 (e - int (length fp)) in
             (case to_double (if neg then - q else q) of
                None \<Rightarrow> Inl Malformed
              | Some x \<Rightarrow> Inr (x, u)))))"

subsection \<open>Strings\<close>

text \<open>The text up to the closing quote, escapes unread.\<close>

fun scan_body :: "units \<Rightarrow> (units \<times> units) option" where
  "scan_body [] = None"
| "scan_body (c # s) =
     (if c = cu CHR 0x5C then
        (case s of [] \<Rightarrow> None | d # r \<Rightarrow> map_option (\<lambda>(b, t). (c # d # b, t)) (scan_body r))
      else if c = cu CHR 0x22 then Some ([], s)
      else map_option (\<lambda>(b, t). (c # b, t)) (scan_body s))"

definition hex_unit :: "16 word \<Rightarrow> 16 word option" where
  "hex_unit c =
     (if 48 \<le> c \<and> c \<le> 57 then Some (c - 48) else if 97 \<le> c \<and> c \<le> 102 then Some (c - 87)
      else if 65 \<le> c \<and> c \<le> 70 then Some (c - 55) else None)"

definition hex4 :: "16 word \<Rightarrow> 16 word \<Rightarrow> 16 word \<Rightarrow> 16 word \<Rightarrow> 16 word option" where
  "hex4 a b c d =
     (case (hex_unit a, hex_unit b, hex_unit c, hex_unit d) of
        (Some w, Some x, Some y, Some z) \<Rightarrow> Some (4096 * w + 256 * x + 16 * y + z)
      | _ \<Rightarrow> None)"

definition simple_escape :: "16 word \<Rightarrow> 16 word option" where
  "simple_escape e =
     map_of [(cu CHR 0x22, 0x22), (cu CHR 0x5C, 0x5C), (cu CHR ''/'', 0x2F), (cu CHR ''b'', 8), (cu CHR ''f'', 12),
       (cu CHR ''n'', 10), (cu CHR ''r'', 13), (cu CHR ''t'', 9)] e"

text \<open>\<open>JSON.parse\<close> on the quoted text: a control unit or an unknown escape is a \<open>SyntaxError\<close>.\<close>

fun unescape :: "units \<Rightarrow> units option" where
  "unescape [] = Some []"
| "unescape (c # s) =
     (if c = cu CHR 0x5C then
        (case s of
           [] \<Rightarrow> None
         | e # r \<Rightarrow>
             if e = cu CHR ''u'' then
               (case r of
                  h1 # h2 # h3 # h4 # t \<Rightarrow>
                    (case hex4 h1 h2 h3 h4 of None \<Rightarrow> None | Some u \<Rightarrow> map_option ((#) u) (unescape t))
                | _ \<Rightarrow> None)
             else (case simple_escape e of None \<Rightarrow> None | Some u \<Rightarrow> map_option ((#) u) (unescape r)))
      else if c < 32 then None
      else map_option ((#) c) (unescape s))"

definition read_string :: "units \<Rightarrow> json_fault + (units \<times> units)" where
  "read_string s =
     (case scan_body s of
        None \<Rightarrow> Inl Malformed
      | Some (b, r) \<Rightarrow>
          (case unescape b of
             None \<Rightarrow> Inl BadEscape
           | Some u \<Rightarrow> bind_sum (check_unicode u) (\<lambda>_. Inr (u, r))))"

subsection \<open>Values\<close>

definition space_unit :: "16 word \<Rightarrow> bool" where
  "space_unit c \<longleftrightarrow> c = 32 \<or> c = 9 \<or> c = 13 \<or> c = 10"

definition skip_space :: "units \<Rightarrow> units" where
  "skip_space s = dropWhile space_unit s"

text \<open>The unit at the front, which the text must have, and the text after it.\<close>

definition next_unit :: "units \<Rightarrow> json_fault + (16 word \<times> units)" where
  "next_unit s = (case s of [] \<Rightarrow> Inl Malformed | c # r \<Rightarrow> Inr (c, r))"

definition expect_unit :: "16 word \<Rightarrow> units \<Rightarrow> json_fault + units" where
  "expect_unit c s = bind_sum (next_unit s) (\<lambda>(d, r). if d = c then Inr r else Inl Malformed)"

text \<open>The loop over the items of an array, after its opening bracket; \<open>p\<close> reads a value. The loop stops with an error
  at the end of the text, which the bound does too.\<close>

fun read_items :: "(units \<Rightarrow> json_fault + ('a \<times> units)) \<Rightarrow> nat \<Rightarrow> units \<Rightarrow> json_fault + ('a list \<times> units)" where
  "read_items p 0 s = Inl Malformed"
| "read_items p (Suc n) s =
     (if s = [] then Inl Malformed
      else bind_sum (p s) (\<lambda>(v, r).
        bind_sum (next_unit (skip_space r)) (\<lambda>(c, t).
        if c = cu CHR '']'' then Inr ([v], t)
        else if c \<noteq> cu CHR '','' then Inl Malformed
        else bind_sum (read_items p n t) (\<lambda>(vs, u). Inr (v # vs, u)))))"

definition read_name :: "units list \<Rightarrow> units \<Rightarrow> json_fault + (units \<times> units)" where
  "read_name seen s =
     bind_sum (expect_unit (cu CHR 0x22) (skip_space s)) (\<lambda>r.
     bind_sum (read_string r) (\<lambda>(k, t).
     if k \<in> set seen then Inl (DuplicateMember k)
     else bind_sum (expect_unit (cu CHR '':'') (skip_space t)) (\<lambda>u. Inr (k, u))))"

fun read_members ::
  "(units \<Rightarrow> json_fault + ('a \<times> units)) \<Rightarrow> nat \<Rightarrow> units list \<Rightarrow> units \<Rightarrow> json_fault + ((units \<times> 'a) list \<times> units)" where
  "read_members p 0 seen s = Inl Malformed"
| "read_members p (Suc n) seen s =
     (if s = [] then Inl Malformed
      else bind_sum (read_name seen s) (\<lambda>(k, r).
        bind_sum (p r) (\<lambda>(v, t).
        bind_sum (next_unit (skip_space t)) (\<lambda>(c, u).
        if c = cu CHR 0x7D then Inr ([(k, v)], u)
        else if c \<noteq> cu CHR '','' then Inl Malformed
        else bind_sum (read_members p n (k # seen) u) (\<lambda>(ms, w). Inr ((k, v) # ms, w))))))"

definition literals :: "(units \<times> ujson) list" where
  "literals = [(latin ''true'', UBool True), (latin ''false'', UBool False), (latin ''null'', UNull)]"

definition read_literal :: "units \<Rightarrow> (ujson \<times> units) option" where
  "read_literal s =
     map_option (\<lambda>(l, v). (v, drop (length l) s)) (find (\<lambda>(l, v). take (length l) s = l) literals)"

text \<open>A scalar: a literal, or else a number.\<close>

definition read_scalar :: "units \<Rightarrow> json_fault + (ujson \<times> units)" where
  "read_scalar s =
     (case read_literal s of
        Some r \<Rightarrow> Inr r
      | None \<Rightarrow> bind_sum (read_number s) (\<lambda>(q, r). Inr (UNum q, r)))"

definition starts_unit :: "16 word \<Rightarrow> units \<Rightarrow> bool" where
  "starts_unit c s \<longleftrightarrow> s \<noteq> [] \<and> hd s = c"

primrec read_value :: "nat \<Rightarrow> units \<Rightarrow> json_fault + (ujson \<times> units)" where
  "read_value 0 s = Inl TooDeep"
| "read_value (Suc n) s =
     (let t = skip_space s in
      if starts_unit (cu CHR 0x22) t then bind_sum (read_string (tl t)) (\<lambda>(u, r). Inr (UStr u, r))
      else if starts_unit (cu CHR 0x7B) t then
        (let r = skip_space (tl t) in
         if starts_unit (cu CHR 0x7D) r then Inr (UObj [], tl r)
         else bind_sum (read_members (read_value n) (length r) [] r) (\<lambda>(ms, u). Inr (UObj ms, u)))
      else if starts_unit (cu CHR ''['') t then
        (let r = skip_space (tl t) in
         if starts_unit (cu CHR '']'') r then Inr (UArr [], tl r)
         else bind_sum (read_items (read_value n) (length r) r) (\<lambda>(vs, u). Inr (UArr vs, u)))
      else read_scalar t)"

definition parse_strict_json :: "bool \<Rightarrow> units \<Rightarrow> json_fault + ujson" where
  "parse_strict_json forbid s =
     bind_sum (read_value max_levels s) (\<lambda>(v, r).
     if skip_space r \<noteq> [] then Inl Malformed
     else bind_sum (assert_json_value forbid max_levels v) (\<lambda>_. Inr v))"

lemma latin_unit: "unat (cu c :: 16 word) = of_char c"
proof -
  have "(of_char c :: nat) < 256" by (rule nat_of_char_less_256)
  then have "(of_char c :: nat) < 65536" by (rule less_trans) simp
  then show ?thesis by (simp add: unat_of_nat)
qed

subsection \<open>What is accepted\<close>

text \<open>The values the canonical form is given: bounded in depth, no lone surrogate, only allowed member names, and
  no name twice in an object.\<close>

fun names_distinct :: "ujson \<Rightarrow> bool" where
  "names_distinct (UArr xs) \<longleftrightarrow> list_all names_distinct xs"
| "names_distinct (UObj ms) \<longleftrightarrow> distinct (map fst ms) \<and> list_all (\<lambda>m. names_distinct (snd m)) ms"
| "names_distinct _ \<longleftrightarrow> True"

fun names_allowed :: "bool \<Rightarrow> ujson \<Rightarrow> bool" where
  "names_allowed fb (UArr xs) \<longleftrightarrow> list_all (names_allowed fb) xs"
| "names_allowed fb (UObj ms) \<longleftrightarrow>
     list_all (\<lambda>m. (fb \<longrightarrow> fst m \<noteq> latin ''expected'') \<and> fst m \<notin> set unsafe_keys \<and> well_formed (fst m) \<and>
       names_allowed fb (snd m)) ms"
| "names_allowed fb (UStr s) \<longleftrightarrow> well_formed s"
| "names_allowed fb _ \<longleftrightarrow> True"

fun levels :: "ujson \<Rightarrow> nat" where
  "levels (UArr xs) = Suc (fold max (map levels xs) 0)"
| "levels (UObj ms) = Suc (fold max (map (\<lambda>m. levels (snd m)) ms) 0)"
| "levels _ = 1"

lemma fold_max_le: "fold max xs (m :: nat) \<le> n \<longleftrightarrow> m \<le> n \<and> list_all (\<lambda>x. x \<le> n) xs"
  by (induction xs arbitrary: m) auto

lemma check_all_Inr: "check_all f xs = Inr () \<longleftrightarrow> list_all (\<lambda>x. f x = Inr ()) xs"
  by (induction xs) (auto simp: bind_sum_Inr)

lemma check_key_Inr:
  "check_key fb k = Inr u \<longleftrightarrow> (fb \<longrightarrow> k \<noteq> latin ''expected'') \<and> k \<notin> set unsafe_keys \<and> well_formed k"
  by (auto simp: check_key_def bind_sum_Inr check_unicode_def split: if_splits)

lemma assert_json_value_Inr:
  "assert_json_value fb n v = Inr () \<longleftrightarrow> levels v \<le> n \<and> names_allowed fb v"
proof (induction n arbitrary: v)
  case 0
  then show ?case by (cases v) auto
next
  case (Suc n)
  show ?case
    by (cases v) (auto simp: check_all_Inr Suc.IH check_unicode_def bind_sum_Inr check_key_Inr fold_max_le list_all_iff)
qed

text \<open>One round of each loop.\<close>

lemma read_items_Inr:
  "read_items p (Suc n) s = Inr (vs, r) \<longleftrightarrow>
     s \<noteq> [] \<and> (\<exists>v t c u. p s = Inr (v, t) \<and> next_unit (skip_space t) = Inr (c, u) \<and>
       (c = cu CHR '']'' \<and> vs = [v] \<and> r = u \<or>
        c = cu CHR '','' \<and> (\<exists>ws. read_items p n u = Inr (ws, r) \<and> vs = v # ws)))"
  unfolding read_items.simps
  by (simp add: bind_sum_Inr split: prod.splits if_splits, auto, rule exI [of _ 93], simp)

lemma read_members_Inr:
  "read_members p (Suc n) seen s = Inr (ms, r) \<longleftrightarrow>
     s \<noteq> [] \<and> (\<exists>k t v u c w. read_name seen s = Inr (k, t) \<and> p t = Inr (v, u) \<and>
       next_unit (skip_space u) = Inr (c, w) \<and>
       (c = cu CHR 0x7D \<and> ms = [(k, v)] \<and> r = w \<or>
        c = cu CHR '','' \<and> (\<exists>ns. read_members p n (k # seen) w = Inr (ns, r) \<and> ms = (k, v) # ns)))"
  unfolding read_members.simps
  by (simp add: bind_sum_Inr split: prod.splits if_splits, auto, rule exI [of _ 125], simp)

lemma read_name_Inr:
  "read_name seen s = Inr (k, r) \<longleftrightarrow> k \<notin> set seen \<and>
     (\<exists>t u. expect_unit (cu CHR 0x22) (skip_space s) = Inr t \<and> read_string t = Inr (k, u) \<and>
       expect_unit (cu CHR '':'') (skip_space u) = Inr r)"
  by (auto simp: read_name_def bind_sum_Inr split: if_splits)

lemma read_items_all:
  assumes "\<And>s v r. p s = Inr (v, r) \<Longrightarrow> P v"
  shows "read_items p n s = Inr (vs, r) \<Longrightarrow> list_all P vs"
proof (induction n arbitrary: s vs r)
  case (Suc n)
  then show ?case unfolding read_items_Inr using assms by fastforce
qed simp

lemma read_members_all:
  assumes "\<And>s v r. p s = Inr (v, r) \<Longrightarrow> P v"
  shows "read_members p n seen s = Inr (ms, r) \<Longrightarrow>
    list_all (\<lambda>m. P (snd m)) ms \<and> distinct (map fst ms) \<and> set (map fst ms) \<inter> set seen = {}"
proof (induction n arbitrary: seen s ms r)
  case (Suc n)
  from Suc.prems obtain k t v u c w where k: "k \<notin> set seen" and v: "P v"
    and ms: "ms = [(k, v)] \<or> (\<exists>ns. read_members p n (k # seen) w = Inr (ns, r) \<and> ms = (k, v) # ns)"
    unfolding read_members_Inr read_name_Inr by (metis assms)
  from ms show ?case
  proof
    assume "\<exists>ns. read_members p n (k # seen) w = Inr (ns, r) \<and> ms = (k, v) # ns"
    then obtain ns where "read_members p n (k # seen) w = Inr (ns, r)" "ms = (k, v) # ns" by blast
    with Suc.IH [OF this(1)] k v show ?thesis by auto
  qed (use k v in simp)
qed simp

lemma read_scalar_distinct: "read_scalar s = Inr (v, r) \<Longrightarrow> names_distinct v"
  by (auto simp: read_scalar_def read_literal_def literals_def bind_sum_Inr split: option.splits if_splits)

lemma read_value_distinct: "read_value n s = Inr (v, r) \<Longrightarrow> names_distinct v"
proof (induction n arbitrary: s v r)
  case (Suc n)
  have i: "list_all names_distinct vs" if "read_items (read_value n) k t = Inr (vs, u)" for k t vs u
    using Suc.IH that by (rule read_items_all)
  have m: "list_all (\<lambda>m. names_distinct (snd m)) ms \<and> distinct (map fst ms)"
    if "read_members (read_value n) k seen t = Inr (ms, u)" for k seen t ms u
    using read_members_all [of "read_value n" names_distinct k seen t ms u] Suc.IH that by blast
  from Suc.prems show ?case
    by (auto simp: Let_def bind_sum_Inr split: if_splits dest: i m read_scalar_distinct)
qed simp

lemma parse_strict_json_sound:
  assumes "parse_strict_json forbid s = Inr v"
  shows "names_distinct v \<and> names_allowed forbid v \<and> levels v \<le> 101"
  using assms read_value_distinct
  by (auto simp: parse_strict_json_def bind_sum_Inr max_levels_def assert_json_value_Inr split: if_splits)

subsection \<open>The bounds of the loops\<close>

lemma next_unit_Inr: "next_unit s = Inr (c, r) \<longleftrightarrow> s = c # r"
  by (auto simp: next_unit_def split: list.splits)

lemma skip_space_length: "length (skip_space s) \<le> length s"
  by (simp add: skip_space_def length_dropWhile_le)

text \<open>A bound that is at least the length of the text gives what any larger bound gives.\<close>

lemma read_items_enough:
  assumes "\<And>s v r. p s = Inr (v, r) \<Longrightarrow> length r \<le> length s"
  shows "length s \<le> n \<Longrightarrow> length s \<le> m \<Longrightarrow> read_items p n s = read_items p m s"
proof (induction n arbitrary: m s)
  case 0
  then show ?case by (cases m) auto
next
  case (Suc n)
  show ?case
  proof (cases m)
    case 0
    with Suc.prems show ?thesis by simp
  next
    case (Suc m')
    have "read_items p n t = read_items p m' t" if "p s = Inr (v, r)" "next_unit (skip_space r) = Inr (c, t)" for v r c t
    proof (rule Suc.IH)
      have "length t < length s"
        using assms [OF that(1)] that(2) skip_space_length [of r] by (simp add: next_unit_Inr)
      then show "length t \<le> n" "length t \<le> m'" using Suc.prems \<open>m = Suc m'\<close> by auto
    qed
    then show ?thesis using Suc
      by (cases "p s") (auto simp: bind_sum_def split: sum.splits)
  qed
qed

lemma read_members_enough:
  assumes "\<And>s v r. p s = Inr (v, r) \<Longrightarrow> length r \<le> length s"
    and "\<And>seen s k r. read_name seen s = Inr (k, r) \<Longrightarrow> length r \<le> length s"
  shows "length s \<le> n \<Longrightarrow> length s \<le> m \<Longrightarrow> read_members p n seen s = read_members p m seen s"
proof (induction n arbitrary: m s seen)
  case 0
  then show ?case by (cases m) auto
next
  case (Suc n)
  show ?case
  proof (cases m)
    case 0
    with Suc.prems show ?thesis by simp
  next
    case (Suc m')
    have "read_members p n (k # seen) t = read_members p m' (k # seen) t"
      if "read_name seen s = Inr (k, z)" "p z = Inr (v, r)" "next_unit (skip_space r) = Inr (c, t)" for k z v r c t
    proof (rule Suc.IH)
      have "length t < length s"
        using assms(2) [OF that(1)] assms(1) [OF that(2)] that(3) skip_space_length [of r] by (simp add: next_unit_Inr)
      then show "length t \<le> n" "length t \<le> m'" using Suc.prems \<open>m = Suc m'\<close> by auto
    qed
    then show ?thesis using Suc
      by (cases "read_name seen s") (auto simp: bind_sum_def split: sum.splits)
  qed
qed

lemma scan_body_length: "scan_body s = Some (b, r) \<Longrightarrow> length r < length s"
proof (induction s arbitrary: b rule: scan_body.induct)
  case (2 c s)
  then show ?case by (fastforce split: if_splits list.splits)
qed simp

lemma read_string_length: "read_string s = Inr (u, r) \<Longrightarrow> length r < length s"
  by (auto simp: read_string_def bind_sum_Inr dest: scan_body_length split: option.splits)

lemma expect_unit_length: "expect_unit c s = Inr r \<Longrightarrow> length r < length s"
  by (auto simp: expect_unit_def bind_sum_Inr next_unit_Inr split: if_splits)

lemma read_name_length:
  assumes "read_name seen s = Inr (k, r)"
  shows "length r \<le> length s"
proof -
  from assms obtain t u where "expect_unit (cu CHR 0x22) (skip_space s) = Inr t" "read_string t = Inr (k, u)"
    "expect_unit (cu CHR '':'') (skip_space u) = Inr r"
    unfolding read_name_Inr by blast
  then have "length t < length (skip_space s)" "length u < length t" "length r < length (skip_space u)"
    by (simp_all only: expect_unit_length read_string_length)
  with skip_space_length [of s] skip_space_length [of u] show ?thesis by linarith
qed

lemma int_part_length: "int_part s = Some (d, r) \<Longrightarrow> length r \<le> length s"
  by (auto simp: int_part_def length_dropWhile_le split: list.splits if_splits)
    (metis length_dropWhile_le le_SucI)

lemma frac_part_length: "frac_part s = (d, r) \<Longrightarrow> length r \<le> length s"
  using length_dropWhile_le [of digit_unit "tl s"]
  by (cases s rule: list.exhaust [case_names Nil Cons]; cases "tl s") (auto simp: frac_part_def split: if_splits)

lemma exp_sign_length: "exp_sign s = (b, r) \<Longrightarrow> length r \<le> length s"
  by (auto simp: exp_sign_def split: list.splits if_splits)

lemma exp_part_length: "exp_part s = (n, r) \<Longrightarrow> length r \<le> length s"
proof (cases s)
  case (Cons c t)
  obtain b u where u: "exp_sign t = (b, u)" by (cases "exp_sign t")
  from exp_sign_length [OF u] length_dropWhile_le [of digit_unit u] show "exp_part s = (n, r) \<Longrightarrow> length r \<le> length s"
    using Cons u by (auto simp: exp_part_def Let_def split: if_splits)
qed (simp add: exp_part_def)

lemma read_number_length: "read_number s = Inr (q, r) \<Longrightarrow> length r \<le> length s"
proof -
  assume a: "read_number s = Inr (q, r)"
  define t where "t = (if s \<noteq> [] \<and> hd s = cu CHR ''-'' then tl s else s)"
  have t: "length t \<le> length s" by (simp add: t_def)
  from a obtain d u f w e where "int_part t = Some (d, u)" "frac_part u = (f, w)" "exp_part w = (e, r)"
    by (auto simp: read_number_def Let_def t_def split: option.splits prod.splits)
  with t show ?thesis using int_part_length [of t d u] frac_part_length [of u f w] exp_part_length [of w e r] by linarith
qed

lemma read_items_length:
  assumes "\<And>s v r. p s = Inr (v, r) \<Longrightarrow> length r \<le> length s"
  shows "read_items p n s = Inr (vs, r) \<Longrightarrow> length r \<le> length s"
proof (induction n arbitrary: s vs)
  case (Suc n)
  from Suc.prems obtain v t c u where t: "p s = Inr (v, t)" "skip_space t = c # u"
    and r: "r = u \<or> (\<exists>ws. read_items p n u = Inr (ws, r))"
    unfolding read_items_Inr next_unit_Inr by blast
  have "length u \<le> length s" using assms [OF t(1)] skip_space_length [of t] t(2) by simp
  with r Suc.IH show ?case by fastforce
qed simp

lemma read_members_length:
  assumes "\<And>s v r. p s = Inr (v, r) \<Longrightarrow> length r \<le> length s"
  shows "read_members p n seen s = Inr (ms, r) \<Longrightarrow> length r \<le> length s"
proof (induction n arbitrary: seen s ms)
  case (Suc n)
  from Suc.prems obtain k z v t c u where t: "read_name seen s = Inr (k, z)" "p z = Inr (v, t)" "skip_space t = c # u"
    and r: "r = u \<or> (\<exists>ns. read_members p n (k # seen) u = Inr (ns, r))"
    unfolding read_members_Inr next_unit_Inr by blast
  have "length u \<le> length s"
    using read_name_length [OF t(1)] assms [OF t(2)] skip_space_length [of t] t(3) by simp
  with r Suc.IH show ?case by fastforce
qed simp

lemma read_scalar_length: "read_scalar s = Inr (v, r) \<Longrightarrow> length r \<le> length s"
  by (auto simp: read_scalar_def read_literal_def bind_sum_Inr dest: read_number_length split: option.splits)

lemma read_value_length: "read_value n s = Inr (v, r) \<Longrightarrow> length r \<le> length s"
proof (induction n arbitrary: s v r)
  case (Suc n)
  let ?t = "skip_space s" let ?u = "skip_space (tl ?t)"
  have l: "length ?t \<le> length s" "length (tl ?t) \<le> length s" "length ?u \<le> length s" "length (tl ?u) \<le> length s"
    using skip_space_length [of s] skip_space_length [of "tl ?t"] by simp_all
  have i: "length u \<le> length t" if "read_items (read_value n) k t = Inr (vs, u)" for k t vs u
    using Suc.IH that by (rule read_items_length)
  have m: "length u \<le> length t" if "read_members (read_value n) k seen t = Inr (ms, u)" for k seen t ms u
    using Suc.IH that by (rule read_members_length)
  consider u where "read_string (tl ?t) = Inr (u, r)" | "r = tl ?u"
    | k ms where "read_members (read_value n) k [] ?u = Inr (ms, r)"
    | k vs where "read_items (read_value n) k ?u = Inr (vs, r)" | "read_scalar ?t = Inr (v, r)"
    using Suc.prems by (auto simp: Let_def bind_sum_Inr split: if_splits)
  then show ?case
    by cases (use l i m read_string_length read_scalar_length in \<open>fastforce+\<close>)
qed simp

text \<open>So the bound of each loop, the length of the text it starts on, is as good as any larger one.\<close>

lemma loop_bounds_enough:
  assumes "length s \<le> m"
  shows "read_items (read_value n) m s = read_items (read_value n) (length s) s"
    and "read_members (read_value n) m seen s = read_members (read_value n) (length s) seen s"
  using read_items_enough [of "read_value n" s m "length s"] read_members_enough [of "read_value n" s m "length s" seen]
    assms read_value_length read_name_length by blast+

end
