(* ===== verification/PulseCase.thy ===== *)
theory PulseCase
  imports PulseJson Mtp EvmGate
begin

section \<open>Conformance cases\<close>

text \<open>
  The data of \<open>pulse-conformance-evaluator/src/types.ts\<close> with the strict schemas of \<open>schemas.ts\<close>, and the helpers of
  \<open>values.ts\<close> and \<open>hashing.ts\<close>. Every schema but those of the envelope gives back the object it was given, so a
  parsed record keeps its JSON value where the code hashes or compares it. The ISO date check of zod and the functions
  of \<open>viem\<close> are parameters. Lemmas: a parsed case passes the guard of the canonical form, so hashing it or
  a part of it does not throw.
\<close>

subsection \<open>What is taken from outside\<close>

text \<open>\<open>getAddress\<close> and \<open>recoverTypedDataAddress\<close> of \<open>viem\<close> (\<open>None\<close> is an exception) and \<open>z.iso.datetime\<close>.\<close>

record transfer_data =
  td_domain_name :: string
  td_domain_version :: string
  td_chain_id :: nat
  td_contract :: string
  td_from :: string
  td_to :: string
  td_value :: nat
  td_valid_after :: nat
  td_valid_before :: nat
  td_nonce :: string

record pulse_env =
  pe_host :: host
  pe_datetime :: "string \<Rightarrow> bool"
  pe_address :: "string \<Rightarrow> string option"
  pe_recover :: "transfer_data \<Rightarrow> string \<Rightarrow> string option"

subsection \<open>Scalars\<close>

definition base64url32 :: "string \<Rightarrow> bool" where
  "base64url32 s \<longleftrightarrow> length s = 43 \<and> list_all b64url_char s \<and> b64url_encode (b64url_decode s) = s"

definition max_uint256 :: nat where
  "max_uint256 = 2 ^ 256 - 1"

definition unsigned_atomic :: "string \<Rightarrow> bool" where
  "unsigned_atomic s \<longleftrightarrow> uint_string s \<and> digits_value s \<le> max_uint256"

definition hex32 :: "string \<Rightarrow> bool" where
  "hex32 s \<longleftrightarrow> hex_body s \<and> length s = 66"

definition hex_signature :: "string \<Rightarrow> bool" where
  "hex_signature s \<longleftrightarrow> hex_body s \<and> length s = 132"

definition caip2_network :: "string \<Rightarrow> bool" where
  "caip2_network s \<longleftrightarrow> take 7 s = ''eip155:'' \<and> unsigned_atomic (drop 7 s)"

definition non_empty_string :: "string \<Rightarrow> bool" where
  "non_empty_string s \<longleftrightarrow> len_between 1 2048 s"

definition pulse_identifier :: "string \<Rightarrow> bool" where
  "pulse_identifier s \<longleftrightarrow> len_between 1 512 s"

definition currency_code :: "string \<Rightarrow> bool" where
  "currency_code s \<longleftrightarrow> length s = 3 \<and> list_all (\<lambda>c. 65 \<le> (of_char c :: nat) \<and> (of_char c :: nat) \<le> 90) s"

text \<open>A property that is a string with the given check, and its optional and nullable forms.\<close>

definition str_where :: "(string \<Rightarrow> bool) \<Rightarrow> (string \<times> json) list \<Rightarrow> string \<Rightarrow> string option" where
  "str_where P ob k = do { s \<leftarrow> get_str ob k; guard_opt (P s) s }"

definition opt_where :: "(string \<Rightarrow> bool) \<Rightarrow> (string \<times> json) list \<Rightarrow> string \<Rightarrow> string option option" where
  "opt_where P ob k = do { x \<leftarrow> get_opt_str ob k; guard_opt (case x of None \<Rightarrow> True | Some s \<Rightarrow> P s) x }"

definition nullish_where :: "(string \<Rightarrow> bool) \<Rightarrow> (string \<times> json) list \<Rightarrow> string \<Rightarrow> string option option" where
  "nullish_where P ob k = do { x \<leftarrow> get_nullish_str ob k; guard_opt (case x of None \<Rightarrow> True | Some s \<Rightarrow> P s) x }"

text \<open>\<open>z.number().int()\<close> is a safe integer.\<close>

definition int_where :: "(int \<Rightarrow> bool) \<Rightarrow> (string \<times> json) list \<Rightarrow> string \<Rightarrow> int option" where
  "int_where P ob k =
     (case map_of ob k of
        Some (JNum q) \<Rightarrow> guard_opt (of_int \<lfloor>q\<rfloor> = q \<and> \<bar>\<lfloor>q\<rfloor>\<bar> \<le> max_safe_integer \<and> P \<lfloor>q\<rfloor>) \<lfloor>q\<rfloor>
      | _ \<Rightarrow> None)"

definition nonneg :: "int \<Rightarrow> bool" where
  "nonneg n \<longleftrightarrow> 0 \<le> n"

text \<open>\<open>z.array(...).min(1).max(128)\<close> of a property.\<close>

definition array_where :: "(json \<Rightarrow> 'a option) \<Rightarrow> (string \<times> json) list \<Rightarrow> string \<Rightarrow> 'a list option" where
  "array_where f ob k =
     (case map_of ob k of
        Some (JArr xs) \<Rightarrow> if 1 \<le> length xs \<and> length xs \<le> 128 then read_all f xs else None
      | _ \<Rightarrow> None)"

definition required :: "(json \<Rightarrow> 'a option) \<Rightarrow> (string \<times> json) list \<Rightarrow> string \<Rightarrow> 'a option" where
  "required f ob k = Option.bind (map_of ob k) f"

definition optional :: "(json \<Rightarrow> 'a option) \<Rightarrow> (string \<times> json) list \<Rightarrow> string \<Rightarrow> 'a option option" where
  "optional f ob k = (case map_of ob k of None \<Rightarrow> Some None | Some v \<Rightarrow> map_option Some (f v))"

subsection \<open>Pins and parties\<close>

definition pulse_ap2_commit :: string where
  "pulse_ap2_commit = ''e1ea56db72a6385bce3e5c1112b3a56ce60acb43''"

definition parse_pins :: "json \<Rightarrow> unit option" where
  "parse_pins v = do {
     ob \<leftarrow> strict_obj [''ap2Commit'', ''x402Commit'', ''x402PackageVersion''] v;
     get_lit ob ''ap2Commit'' pulse_ap2_commit;
     get_lit ob ''x402Commit'' ''17d319fab5c17a6b4873eb41197894db924f59ed'';
     get_lit ob ''x402PackageVersion'' ''2.23.0'' }"

record pulse_merchant =
  pmr_id :: string
  pmr_name :: string
  pmr_website :: "string option"

definition parse_merchant :: "pulse_env \<Rightarrow> json \<Rightarrow> pulse_merchant option" where
  "parse_merchant E v = do {
     ob \<leftarrow> strict_obj [''id'', ''name'', ''website''] v;
     i \<leftarrow> str_where (\<lambda>s. length s \<le> 512) ob ''id''; n \<leftarrow> str_where non_empty_string ob ''name'';
     w \<leftarrow> opt_where (\<lambda>s. url_ok (pe_host E) s \<and> length s \<le> 2048) ob ''website'';
     Some \<lparr>pmr_id = i, pmr_name = n, pmr_website = w\<rparr> }"

record pulse_amount =
  pam_amount :: int
  pam_currency :: string
  pam_json :: json

definition parse_pulse_amount :: "json \<Rightarrow> pulse_amount option" where
  "parse_pulse_amount v = do {
     ob \<leftarrow> strict_obj [''amount'', ''currency''] v;
     n \<leftarrow> int_where nonneg ob ''amount''; c \<leftarrow> str_where currency_code ob ''currency'';
     Some \<lparr>pam_amount = n, pam_currency = c, pam_json = v\<rparr> }"

definition parse_domain :: "json \<Rightarrow> (string \<times> string) option" where
  "parse_domain v = do {
     ob \<leftarrow> strict_obj [''name'', ''version''] v;
     n \<leftarrow> str_where non_empty_string ob ''name''; w \<leftarrow> str_where non_empty_string ob ''version''; Some (n, w) }"

record x402_extension =
  pxt_version :: int
  pxt_scheme :: string
  pxt_network :: string
  pxt_asset :: string
  pxt_amount :: string
  pxt_pay_to :: string
  pxt_payer :: string
  pxt_payee_id :: string
  pxt_payment_amount :: pulse_amount
  pxt_timeout :: int
  pxt_domain :: "string \<times> string"
  pxt_nonce_binding :: string
  pxt_json :: json

definition parse_extension :: "json \<Rightarrow> x402_extension option" where
  "parse_extension v = do {
     ob \<leftarrow> strict_obj [''version'', ''scheme'', ''network'', ''asset'', ''amount'', ''payTo'', ''payer'', ''ap2PayeeId'',
       ''ap2PaymentAmount'', ''maxTimeoutSeconds'', ''eip712Domain'', ''nonceBinding''] v;
     n \<leftarrow> int_where nonneg ob ''version''; sc \<leftarrow> str_where non_empty_string ob ''scheme'';
     nw \<leftarrow> str_where caip2_network ob ''network''; ad \<leftarrow> str_where evm_address_any ob ''asset'';
     q \<leftarrow> str_where unsigned_atomic ob ''amount''; t \<leftarrow> str_where evm_address_any ob ''payTo'';
     f \<leftarrow> str_where evm_address_any ob ''payer''; pid \<leftarrow> str_where (\<lambda>s. length s \<le> 512) ob ''ap2PayeeId'';
     pa \<leftarrow> required parse_pulse_amount ob ''ap2PaymentAmount'';
     m \<leftarrow> int_where (\<lambda>n. 0 < n) ob ''maxTimeoutSeconds''; d \<leftarrow> required parse_domain ob ''eip712Domain'';
     b \<leftarrow> str_where non_empty_string ob ''nonceBinding'';
     Some \<lparr>pxt_version = n, pxt_scheme = sc, pxt_network = nw, pxt_asset = ad, pxt_amount = q, pxt_pay_to = t,
       pxt_payer = f, pxt_payee_id = pid, pxt_payment_amount = pa, pxt_timeout = m, pxt_domain = d,
       pxt_nonce_binding = b, pxt_json = v\<rparr> }"

record pulse_instrument =
  pin_id :: string
  pin_type :: string
  pin_description :: string
  pin_x402 :: "x402_extension option"
  pin_json :: json

definition parse_instrument :: "json \<Rightarrow> pulse_instrument option" where
  "parse_instrument v = do {
     ob \<leftarrow> strict_obj [''id'', ''type'', ''description'', ''x402''] v;
     i \<leftarrow> str_where pulse_identifier ob ''id''; t \<leftarrow> str_where non_empty_string ob ''type'';
     d \<leftarrow> str_where non_empty_string ob ''description''; x \<leftarrow> optional parse_extension ob ''x402'';
     Some \<lparr>pin_id = i, pin_type = t, pin_description = d, pin_x402 = x, pin_json = v\<rparr> }"

definition parse_profile_instrument :: "json \<Rightarrow> pulse_instrument option" where
  "parse_profile_instrument v = do { i \<leftarrow> parse_instrument v; guard_opt (pin_x402 i \<noteq> None) i }"

subsection \<open>Constraints and mandates\<close>

datatype pulse_constraint =
    ReferenceConstraint string
  | InstrumentsConstraint "pulse_instrument list"
  | RangeConstraint string int int
  | PayeesConstraint "pulse_merchant list"
  | OtherConstraint string

definition supported_constraints :: "string list" where
  "supported_constraints =
     [''payment.reference'', ''payment.allowed_payment_instruments'', ''payment.amount_range'', ''payment.allowed_payees'']"

fun constraint_type :: "pulse_constraint \<Rightarrow> string" where
  "constraint_type (ReferenceConstraint _) = ''payment.reference''"
| "constraint_type (InstrumentsConstraint _) = ''payment.allowed_payment_instruments''"
| "constraint_type (RangeConstraint _ _ _) = ''payment.amount_range''"
| "constraint_type (PayeesConstraint _) = ''payment.allowed_payees''"
| "constraint_type (OtherConstraint t) = t"

definition parse_reference_constraint :: "json \<Rightarrow> pulse_constraint option" where
  "parse_reference_constraint v = do {
     ob \<leftarrow> strict_obj [''type'', ''conditional_transaction_id''] v; get_lit ob ''type'' ''payment.reference'';
     t \<leftarrow> str_where base64url32 ob ''conditional_transaction_id''; Some (ReferenceConstraint t) }"

definition parse_instruments_constraint :: "json \<Rightarrow> pulse_constraint option" where
  "parse_instruments_constraint v = do {
     ob \<leftarrow> strict_obj [''type'', ''allowed''] v; get_lit ob ''type'' ''payment.allowed_payment_instruments'';
     xs \<leftarrow> array_where parse_instrument ob ''allowed''; Some (InstrumentsConstraint xs) }"

definition parse_range_constraint :: "json \<Rightarrow> pulse_constraint option" where
  "parse_range_constraint v = do {
     ob \<leftarrow> strict_obj [''type'', ''currency'', ''max'', ''min''] v; get_lit ob ''type'' ''payment.amount_range'';
     c \<leftarrow> str_where currency_code ob ''currency''; hi \<leftarrow> int_where nonneg ob ''max''; lo \<leftarrow> int_where nonneg ob ''min'';
     Some (RangeConstraint c lo hi) }"

definition parse_payees_constraint :: "pulse_env \<Rightarrow> json \<Rightarrow> pulse_constraint option" where
  "parse_payees_constraint E v = do {
     ob \<leftarrow> strict_obj [''type'', ''allowed''] v; get_lit ob ''type'' ''payment.allowed_payees'';
     xs \<leftarrow> array_where (parse_merchant E) ob ''allowed''; Some (PayeesConstraint xs) }"

definition parse_other_constraint :: "json \<Rightarrow> pulse_constraint option" where
  "parse_other_constraint v =
     (case v of
        JObj ob \<Rightarrow> do { t \<leftarrow> str_where non_empty_string ob ''type'';
          guard_opt (t \<notin> set supported_constraints) (OtherConstraint t) }
      | _ \<Rightarrow> None)"

text \<open>\<open>z.union\<close>: the first schema that accepts.\<close>

definition first_some :: "'a option list \<Rightarrow> 'a option" where
  "first_some xs = Option.bind (find (\<lambda>x. x \<noteq> None) xs) (\<lambda>x. x)"

definition parse_constraint :: "pulse_env \<Rightarrow> json \<Rightarrow> pulse_constraint option" where
  "parse_constraint E v =
     first_some [parse_reference_constraint v, parse_instruments_constraint v, parse_range_constraint v,
       parse_payees_constraint E v, parse_other_constraint v]"

definition parse_p256_key :: "json \<Rightarrow> json option" where
  "parse_p256_key v = do {
     ob \<leftarrow> strict_obj [''kty'', ''crv'', ''alg'', ''kid'', ''x'', ''y''] v;
     get_lit ob ''kty'' ''EC''; get_lit ob ''crv'' ''P-256''; get_lit ob ''alg'' ''ES256'';
     str_where pulse_identifier ob ''kid''; str_where base64url32 ob ''x''; str_where base64url32 ob ''y''; Some v }"

definition parse_confirmation :: "json \<Rightarrow> json option" where
  "parse_confirmation v = do { ob \<leftarrow> strict_obj [''jwk''] v; required parse_p256_key ob ''jwk'' }"

record closed_mandate =
  pcm_transaction_id :: string
  pcm_payee :: pulse_merchant
  pcm_amount :: pulse_amount
  pcm_instrument :: pulse_instrument
  pcm_execution_date :: string
  pcm_iat :: int
  pcm_exp :: int
  pcm_json :: json

definition parse_closed_mandate :: "pulse_env \<Rightarrow> json \<Rightarrow> closed_mandate option" where
  "parse_closed_mandate E v = do {
     ob \<leftarrow> strict_obj [''vct'', ''transaction_id'', ''payee'', ''payment_amount'', ''payment_instrument'',
       ''execution_date'', ''iat'', ''exp''] v;
     get_lit ob ''vct'' ''mandate.payment.1''; t \<leftarrow> str_where base64url32 ob ''transaction_id'';
     m \<leftarrow> required (parse_merchant E) ob ''payee''; q \<leftarrow> required parse_pulse_amount ob ''payment_amount'';
     i \<leftarrow> required parse_profile_instrument ob ''payment_instrument'';
     d \<leftarrow> str_where (pe_datetime E) ob ''execution_date'';
     ia \<leftarrow> int_where nonneg ob ''iat''; ex \<leftarrow> int_where nonneg ob ''exp'';
     Some \<lparr>pcm_transaction_id = t, pcm_payee = m, pcm_amount = q, pcm_instrument = i, pcm_execution_date = d,
       pcm_iat = ia, pcm_exp = ex, pcm_json = v\<rparr> }"

record open_mandate =
  pom_constraints :: "pulse_constraint list"
  pom_payee :: "pulse_merchant option"
  pom_amount :: "pulse_amount option"
  pom_instrument :: "pulse_instrument option"
  pom_execution_date :: "string option"
  pom_iat :: int
  pom_exp :: int
  pom_json :: json

definition parse_open_mandate :: "pulse_env \<Rightarrow> json \<Rightarrow> open_mandate option" where
  "parse_open_mandate E v = do {
     ob \<leftarrow> strict_obj [''vct'', ''constraints'', ''cnf'', ''payee'', ''payment_amount'', ''payment_instrument'',
       ''execution_date'', ''iat'', ''exp''] v;
     get_lit ob ''vct'' ''mandate.payment.open.1''; cs \<leftarrow> array_where (parse_constraint E) ob ''constraints'';
     required parse_confirmation ob ''cnf'';
     m \<leftarrow> optional (parse_merchant E) ob ''payee''; q \<leftarrow> optional parse_pulse_amount ob ''payment_amount'';
     i \<leftarrow> optional parse_profile_instrument ob ''payment_instrument'';
     d \<leftarrow> opt_where (pe_datetime E) ob ''execution_date'';
     ia \<leftarrow> int_where nonneg ob ''iat''; ex \<leftarrow> int_where nonneg ob ''exp'';
     Some \<lparr>pom_constraints = cs, pom_payee = m, pom_amount = q, pom_instrument = i, pom_execution_date = d,
       pom_iat = ia, pom_exp = ex, pom_json = v\<rparr> }"

record payment_receipt =
  prc_success :: bool
  prc_reference :: string
  prc_network_confirmation :: "string option"
  prc_json :: json

definition parse_payment_receipt :: "json \<Rightarrow> payment_receipt option" where
  "parse_payment_receipt v = do {
     ob \<leftarrow> strict_obj [''status'', ''iss'', ''iat'', ''reference'', ''error'', ''error_description'', ''payment_id'',
       ''psp_confirmation_id'', ''network_confirmation_id''] v;
     s \<leftarrow> str_where (\<lambda>s. s = ''Success'' \<or> s = ''Error'') ob ''status''; str_where non_empty_string ob ''iss'';
     int_where nonneg ob ''iat''; r \<leftarrow> str_where base64url32 ob ''reference'';
     get_null_str ob ''error''; get_null_str ob ''error_description''; str_where pulse_identifier ob ''payment_id'';
     nullish_where pulse_identifier ob ''psp_confirmation_id'';
     n \<leftarrow> nullish_where hex32 ob ''network_confirmation_id'';
     Some \<lparr>prc_success = (s = ''Success''), prc_reference = r, prc_network_confirmation = n, prc_json = v\<rparr> }"

subsection \<open>The AP2 side\<close>

record ap2_evidence =
  pev_chain :: string
  pev_receipt_jwt :: string
  pev_root_key :: json
  pev_receipt_key :: json
  pev_audience :: string
  pev_nonce :: string

definition parse_evidence :: "json \<Rightarrow> ap2_evidence option" where
  "parse_evidence v = do {
     ob \<leftarrow> strict_obj [''mandateChain'', ''paymentReceiptJwt'', ''trustedRootPublicJwk'', ''trustedReceiptPublicJwk'',
       ''expectedAudience'', ''expectedNonce''] v;
     c \<leftarrow> str_where (len_between 16 1000000) ob ''mandateChain''; r \<leftarrow> str_where (len_between 16 1000000) ob ''paymentReceiptJwt'';
     k1 \<leftarrow> required parse_p256_key ob ''trustedRootPublicJwk''; k2 \<leftarrow> required parse_p256_key ob ''trustedReceiptPublicJwk'';
     a \<leftarrow> str_where non_empty_string ob ''expectedAudience''; n \<leftarrow> str_where non_empty_string ob ''expectedNonce'';
     Some \<lparr>pev_chain = c, pev_receipt_jwt = r, pev_root_key = k1, pev_receipt_key = k2, pev_audience = a, pev_nonce = n\<rparr> }"

record verification_record =
  pvr_verified_at :: int
  pvr_skew :: int
  pvr_checkout :: string
  pvr_closed_hash :: string
  pvr_open_hash :: string
  pvr_closed_reference :: string
  pvr_evidence :: ap2_evidence

definition parse_verification :: "json \<Rightarrow> verification_record option" where
  "parse_verification v = do {
     ob \<leftarrow> strict_obj [''verifier'', ''verifiedAtEpochSeconds'', ''clockSkewSeconds'', ''openCheckoutReference'',
       ''closedMandateClaimsHash'', ''openMandateClaimsHash'', ''closedMandateReference'', ''cryptographicEvidence''] v;
     str_where non_empty_string ob ''verifier''; t \<leftarrow> int_where nonneg ob ''verifiedAtEpochSeconds'';
     k \<leftarrow> int_where (\<lambda>n. 0 \<le> n \<and> n \<le> 300) ob ''clockSkewSeconds'';
     c \<leftarrow> str_where base64url32 ob ''openCheckoutReference''; h1 \<leftarrow> str_where base64url32 ob ''closedMandateClaimsHash'';
     h2 \<leftarrow> str_where base64url32 ob ''openMandateClaimsHash''; r \<leftarrow> str_where base64url32 ob ''closedMandateReference'';
     e \<leftarrow> required parse_evidence ob ''cryptographicEvidence'';
     Some \<lparr>pvr_verified_at = t, pvr_skew = k, pvr_checkout = c, pvr_closed_hash = h1, pvr_open_hash = h2,
       pvr_closed_reference = r, pvr_evidence = e\<rparr> }"

record ap2_side =
  pap_closed :: closed_mandate
  pap_open :: open_mandate
  pap_receipt :: "payment_receipt option"
  pap_verification :: verification_record

definition parse_ap2 :: "pulse_env \<Rightarrow> json \<Rightarrow> ap2_side option" where
  "parse_ap2 E v = do {
     ob \<leftarrow> strict_obj [''closedMandate'', ''openMandate'', ''paymentReceipt'', ''verification''] v;
     c \<leftarrow> required (parse_closed_mandate E) ob ''closedMandate''; q \<leftarrow> required (parse_open_mandate E) ob ''openMandate'';
     r \<leftarrow> optional parse_payment_receipt ob ''paymentReceipt''; w \<leftarrow> required parse_verification ob ''verification'';
     Some \<lparr>pap_closed = c, pap_open = q, pap_receipt = r, pap_verification = w\<rparr> }"

subsection \<open>The x402 side\<close>

record pulse_requirements =
  prq_scheme :: string
  prq_network :: string
  prq_asset :: string
  prq_amount :: string
  prq_pay_to :: string
  prq_timeout :: int
  prq_name :: string
  prq_version :: string
  prq_transfer_method :: string
  prq_mandate_reference :: string
  prq_nonce_derivation :: string
  prq_json :: json

definition parse_pulse_requirements :: "json \<Rightarrow> pulse_requirements option" where
  "parse_pulse_requirements v = do {
     ob \<leftarrow> strict_obj [''scheme'', ''network'', ''asset'', ''amount'', ''payTo'', ''maxTimeoutSeconds'', ''extra''] v;
     sc \<leftarrow> str_where non_empty_string ob ''scheme''; nw \<leftarrow> str_where caip2_network ob ''network'';
     ad \<leftarrow> str_where evm_address_any ob ''asset''; q \<leftarrow> str_where unsigned_atomic ob ''amount'';
     t \<leftarrow> str_where evm_address_any ob ''payTo''; m \<leftarrow> int_where (\<lambda>n. 0 < n) ob ''maxTimeoutSeconds'';
     xb \<leftarrow> required (strict_obj [''name'', ''version'', ''assetTransferMethod'', ''ap2MandateReference'',
       ''ap2NonceDerivation'']) ob ''extra'';
     n \<leftarrow> str_where non_empty_string xb ''name''; w \<leftarrow> str_where non_empty_string xb ''version'';
     tm \<leftarrow> str_where non_empty_string xb ''assetTransferMethod''; r \<leftarrow> str_where base64url32 xb ''ap2MandateReference'';
     nd \<leftarrow> str_where non_empty_string xb ''ap2NonceDerivation'';
     Some \<lparr>prq_scheme = sc, prq_network = nw, prq_asset = ad, prq_amount = q, prq_pay_to = t, prq_timeout = m, prq_name = n,
       prq_version = w, prq_transfer_method = tm, prq_mandate_reference = r, prq_nonce_derivation = nd, prq_json = v\<rparr> }"

record authorization =
  pau_from :: string
  pau_to :: string
  pau_value :: string
  pau_valid_after :: string
  pau_valid_before :: string
  pau_nonce :: string

definition parse_authorization :: "json \<Rightarrow> authorization option" where
  "parse_authorization v = do {
     ob \<leftarrow> strict_obj [''from'', ''to'', ''value'', ''validAfter'', ''validBefore'', ''nonce''] v;
     f \<leftarrow> str_where evm_address_any ob ''from''; t \<leftarrow> str_where evm_address_any ob ''to'';
     q \<leftarrow> str_where unsigned_atomic ob ''value''; va \<leftarrow> str_where unsigned_atomic ob ''validAfter'';
     vb \<leftarrow> str_where unsigned_atomic ob ''validBefore''; n \<leftarrow> str_where hex32 ob ''nonce'';
     Some \<lparr>pau_from = f, pau_to = t, pau_value = q, pau_valid_after = va, pau_valid_before = vb, pau_nonce = n\<rparr> }"

definition parse_signed_authorization :: "json \<Rightarrow> (string \<times> authorization) option" where
  "parse_signed_authorization v = do {
     ob \<leftarrow> strict_obj [''signature'', ''authorization''] v; s \<leftarrow> str_where hex_signature ob ''signature'';
     w \<leftarrow> required parse_authorization ob ''authorization''; Some (s, w) }"

definition parse_resource :: "pulse_env \<Rightarrow> json \<Rightarrow> unit option" where
  "parse_resource E v = do {
     ob \<leftarrow> strict_obj [''url'', ''description'', ''mimeType''] v;
     str_where (\<lambda>s. url_ok (pe_host E) s \<and> length s \<le> 2048) ob ''url'';
     str_where non_empty_string ob ''description''; str_where non_empty_string ob ''mimeType''; Some () }"

record pulse_payload =
  ppl_version :: int
  ppl_accepted :: pulse_requirements
  ppl_signature :: string
  ppl_authorization :: authorization
  ppl_extensions :: "json option"

definition parse_pulse_payload :: "pulse_env \<Rightarrow> json \<Rightarrow> pulse_payload option" where
  "parse_pulse_payload E v = do {
     ob \<leftarrow> strict_obj [''x402Version'', ''resource'', ''accepted'', ''payload'', ''extensions''] v;
     n \<leftarrow> int_where nonneg ob ''x402Version''; required (parse_resource E) ob ''resource'';
     q \<leftarrow> required parse_pulse_requirements ob ''accepted'';
     p \<leftarrow> required parse_signed_authorization ob ''payload'';
     Some \<lparr>ppl_version = n, ppl_accepted = q, ppl_signature = fst p, ppl_authorization = snd p,
       ppl_extensions = map_of ob ''extensions''\<rparr> }"

record settlement =
  pst_success :: bool
  pst_payer :: string
  pst_transaction :: string
  pst_network :: string
  pst_amount :: "string option"

definition parse_settlement :: "json \<Rightarrow> settlement option" where
  "parse_settlement v = do {
     ob \<leftarrow> strict_obj [''success'', ''payer'', ''transaction'', ''network'', ''amount'', ''errorReason''] v;
     b \<leftarrow> (case map_of ob ''success'' of Some (JBool b) \<Rightarrow> Some b | _ \<Rightarrow> None);
     p \<leftarrow> str_where evm_address_any ob ''payer'';
     t \<leftarrow> str_where (\<lambda>s. hex_body s \<and> 2 < length s \<and> length s \<le> 130) ob ''transaction'';
     nw \<leftarrow> str_where caip2_network ob ''network''; q \<leftarrow> opt_where unsigned_atomic ob ''amount'';
     opt_where non_empty_string ob ''errorReason'';
     Some \<lparr>pst_success = b, pst_payer = p, pst_transaction = t, pst_network = nw, pst_amount = q\<rparr> }"

record x402_side =
  pxs_requirements :: pulse_requirements
  pxs_payload :: pulse_payload
  pxs_settlement :: settlement

definition parse_x402 :: "pulse_env \<Rightarrow> json \<Rightarrow> x402_side option" where
  "parse_x402 E v = do {
     ob \<leftarrow> strict_obj [''requirements'', ''payload'', ''settlement''] v;
     q \<leftarrow> required parse_pulse_requirements ob ''requirements''; p \<leftarrow> required (parse_pulse_payload E) ob ''payload'';
     s \<leftarrow> required parse_settlement ob ''settlement'';
     Some \<lparr>pxs_requirements = q, pxs_payload = p, pxs_settlement = s\<rparr> }"

subsection \<open>Cases and bundles\<close>

definition case_version :: string where
  "case_version = ''ap2-x402-conformance/0.3''"

definition case_fields :: "string list" where
  "case_fields = [''caseVersion'', ''sourcePins'', ''id'', ''description'', ''nowEpochSeconds'', ''ap2'', ''x402'', ''inputHash'']"

record conformance_case =
  pcs_id :: string
  pcs_now :: int
  pcs_ap2 :: ap2_side
  pcs_x402 :: x402_side
  pcs_input_hash :: string
  pcs_fields :: "(string \<times> json) list"

definition parse_case_schema :: "pulse_env \<Rightarrow> json \<Rightarrow> conformance_case option" where
  "parse_case_schema E v = do {
     ob \<leftarrow> strict_obj case_fields v; get_lit ob ''caseVersion'' case_version; required parse_pins ob ''sourcePins'';
     i \<leftarrow> str_where pulse_identifier ob ''id''; str_where non_empty_string ob ''description'';
     n \<leftarrow> int_where nonneg ob ''nowEpochSeconds''; a \<leftarrow> required (parse_ap2 E) ob ''ap2'';
     x \<leftarrow> required (parse_x402 E) ob ''x402''; h \<leftarrow> str_where base64url32 ob ''inputHash'';
     Some \<lparr>pcs_id = i, pcs_now = n, pcs_ap2 = a, pcs_x402 = x, pcs_input_hash = h, pcs_fields = ob\<rparr> }"

text \<open>The guard of \<open>PulseJson\<close> on values of code units below 256.\<close>

primrec units_json :: "json \<Rightarrow> ujson" where
  "units_json JNull = UNull"
| "units_json (JBool b) = UBool b"
| "units_json (JNum q) = UNum q"
| "units_json (JStr s) = UStr (latin s)"
| "units_json (JArr xs) = UArr (map units_json xs)"
| "units_json (JObj ms) = UObj (map (map_prod latin (\<lambda>v. v)) (map (map_prod id units_json) ms))"

definition units_text :: "units \<Rightarrow> string" where
  "units_text s = map (\<lambda>u. char_of (unat u)) s"

fun json_fault_error :: "json_fault \<Rightarrow> error" where
  "json_fault_error TooDeep = JsError ''TypeError'' ''Input nesting exceeds the safety limit''"
| "json_fault_error LoneSurrogate = JsError ''TypeError'' ''Lone Unicode surrogate is not JCS input''"
| "json_fault_error HasExpected = JsError ''TypeError'' ''Evaluator input must not contain expected''"
| "json_fault_error (UnsafeKey k) = JsError ''TypeError'' (''Unsafe object key: '' @ units_text k)"
| "json_fault_error (DuplicateMember k) = JsError ''TypeError'' (''Duplicate JSON member: '' @ units_text k)"
| "json_fault_error BadEscape = JsError ''SyntaxError'' ''Bad string literal''"
| "json_fault_error Malformed = JsError ''TypeError'' ''Invalid JSON''"

definition with_error :: "json_fault + 'a \<Rightarrow> error + 'a" where
  "with_error r = (case r of Inl f \<Rightarrow> Inl (json_fault_error f) | Inr x \<Rightarrow> Inr x)"

definition assert_json :: "json \<Rightarrow> error + unit" where
  "assert_json v = with_error (assert_json_value True max_levels (units_json v))"

lemma with_error_Inr: "with_error r = Inr x \<longleftrightarrow> r = Inr x"
  by (cases r) (simp_all add: with_error_def)

definition parse_conformance_case :: "pulse_env \<Rightarrow> json \<Rightarrow> error + conformance_case" where
  "parse_conformance_case E v =
     bind_sum (assert_json v) (\<lambda>_. case parse_case_schema E v of None \<Rightarrow> Inl ZodError | Some c \<Rightarrow> Inr c)"

definition try_parse_case :: "pulse_env \<Rightarrow> json \<Rightarrow> conformance_case option" where
  "try_parse_case E v = (case parse_conformance_case E v of Inl _ \<Rightarrow> None | Inr c \<Rightarrow> Some c)"

record case_envelope =
  pce_id :: string
  pce_json :: json

definition parse_any_object :: "json \<Rightarrow> json option" where
  "parse_any_object v = (case v of JObj _ \<Rightarrow> Some v | _ \<Rightarrow> None)"

definition parse_envelope :: "json \<Rightarrow> case_envelope option" where
  "parse_envelope v = do {
     ob \<leftarrow> strict_obj case_fields v; get_lit ob ''caseVersion'' case_version; required parse_pins ob ''sourcePins'';
     i \<leftarrow> str_where pulse_identifier ob ''id''; str_where non_empty_string ob ''description'';
     int_where nonneg ob ''nowEpochSeconds''; required parse_any_object ob ''ap2''; required parse_any_object ob ''x402'';
     str_where base64url32 ob ''inputHash''; Some \<lparr>pce_id = i, pce_json = v\<rparr> }"

definition case_count :: nat where
  "case_count = 80"

definition parse_bundle_schema :: "pulse_env \<Rightarrow> json \<Rightarrow> case_envelope list option" where
  "parse_bundle_schema E v = do {
     ob \<leftarrow> strict_obj [''bundleVersion'', ''sourcePins'', ''generatedAt'', ''cases''] v;
     get_lit ob ''bundleVersion'' ''ap2-x402-conformance-bundle/0.3''; required parse_pins ob ''sourcePins'';
     str_where (pe_datetime E) ob ''generatedAt'';
     (case map_of ob ''cases'' of
        Some (JArr xs) \<Rightarrow> if length xs = case_count then read_all parse_envelope xs else None
      | _ \<Rightarrow> None) }"

text \<open>The loop stops at the first identifier that was seen before.\<close>

fun first_duplicate :: "string list \<Rightarrow> string list \<Rightarrow> string option" where
  "first_duplicate seen [] = None"
| "first_duplicate seen (i # is) = (if i \<in> set seen then Some i else first_duplicate (i # seen) is)"

definition parse_conformance_bundle :: "pulse_env \<Rightarrow> json \<Rightarrow> error + case_envelope list" where
  "parse_conformance_bundle E v =
     bind_sum (assert_json v) (\<lambda>_.
     case parse_bundle_schema E v of
       None \<Rightarrow> Inl ZodError
     | Some cs \<Rightarrow>
         (case first_duplicate [] (map pce_id cs) of
            Some i \<Rightarrow> Inl (JsError ''TypeError'' (''Duplicate case id: '' @ i))
          | None \<Rightarrow> Inr cs))"

subsection \<open>Values and hashes\<close>

definition canonical_equal :: "host \<Rightarrow> json \<Rightarrow> json \<Rightarrow> bool" where
  "canonical_equal H v w \<longleftrightarrow> canonical_bytes H v = canonical_bytes H w"

definition addresses_equal :: "pulse_env \<Rightarrow> string \<Rightarrow> string \<Rightarrow> bool" where
  "addresses_equal E a b \<longleftrightarrow> pe_address E a \<noteq> None \<and> pe_address E a = pe_address E b"

definition sha256_base64url :: "host \<Rightarrow> bytes \<Rightarrow> string" where
  "sha256_base64url H bs = b64url_encode (hex_bytes (sha256_hex H bs))"

definition canonical_hash :: "host \<Rightarrow> json \<Rightarrow> error + string" where
  "canonical_hash H v = bind_sum (assert_json v) (\<lambda>_. Inr (sha256_base64url H (canonical_bytes H v)))"

definition input_fields :: "string list" where
  "input_fields = [''caseVersion'', ''sourcePins'', ''nowEpochSeconds'', ''ap2'', ''x402'']"

definition calculate_input_hash :: "host \<Rightarrow> conformance_case \<Rightarrow> error + string" where
  "calculate_input_hash H c =
     canonical_hash H (JObj (filter (\<lambda>m. fst m \<in> set input_fields) (pcs_fields c)))"

subsection \<open>Parsed values can be hashed\<close>

definition json_guard :: "json \<Rightarrow> bool" where
  "json_guard v \<longleftrightarrow> assert_json v = Inr ()"

lemma json_guard_units: "json_guard v \<longleftrightarrow> levels (units_json v) \<le> max_levels \<and> names_allowed True (units_json v)"
proof -
  have "json_guard v \<longleftrightarrow> assert_json_value True max_levels (units_json v) = Inr ()"
    by (simp add: json_guard_def assert_json_def with_error_Inr)
  then show ?thesis by (simp only: assert_json_value_Inr)
qed

lemma latin_inject [simp]: "latin s = latin t \<longleftrightarrow> s = t"
proof -
  have "inj (\<lambda>c. cu c :: 16 word)" by (rule injI) (metis latin_unit char_of_char)
  then show ?thesis unfolding latin_def by (rule inj_map_eq_map)
qed

text \<open>Code units below 256 are no surrogates.\<close>

lemma well_formed_latin [simp]: "well_formed (latin s)"
proof -
  have ns: "\<not> high_surrogate (cu c)" "\<not> low_surrogate (cu c)" for c
  proof -
    have "(of_char c :: nat) < 256" by (rule nat_of_char_less_256)
    then have "\<not> 55296 \<le> (of_char c :: nat)" "\<not> 56320 \<le> (of_char c :: nat)" by linarith+
    then show "\<not> high_surrogate (cu c)" "\<not> low_surrogate (cu c)"
      by (simp_all add: high_surrogate_def low_surrogate_def word_le_nat_alt latin_unit)
  qed
  have w: "\<forall>c\<in>set u. \<not> high_surrogate c \<and> \<not> low_surrogate c \<Longrightarrow> well_formed u" for u
    by (induction u rule: well_formed.induct) auto
  show ?thesis by (rule w) (auto simp: latin_def ns)
qed

lemma json_guard_members:
  assumes "json_guard (JObj ob)" "set nb \<subseteq> set ob"
  shows "json_guard (JObj nb)"
  using assms by (auto simp: json_guard_units fold_max_le list_all_iff max_levels_def subset_iff)

lemma json_guard_member:
  assumes "json_guard (JObj ob)" "map_of ob k = Some w"
  shows "json_guard w"
proof -
  from assms(2) have "(k, w) \<in> set ob" by (rule map_of_SomeD)
  with assms(1) show ?thesis by (fastforce simp: json_guard_units fold_max_le list_all_iff max_levels_def)
qed

lemma canonical_hash_guarded: "json_guard v \<Longrightarrow> canonical_hash H v = Inr (sha256_base64url H (canonical_bytes H v))"
  by (simp add: canonical_hash_def json_guard_def)

lemma guard_opt_Some [simp]: "guard_opt b x = Some y \<longleftrightarrow> b \<and> x = y"
  by (auto simp: guard_opt_def)

lemma strict_obj_Some: "strict_obj ks v = Some ob \<Longrightarrow> v = JObj ob"
  by (auto simp: strict_obj_def split: json.splits if_splits)

lemma required_Some: "required f ob k = Some x \<longleftrightarrow> (\<exists>w. map_of ob k = Some w \<and> f w = Some x)"
  by (auto simp: required_def bind_eq_Some_conv)

lemma optional_Some:
  "optional f ob k = Some (Some x) \<longleftrightarrow> (\<exists>w. map_of ob k = Some w \<and> f w = Some x)"
  by (auto simp: optional_def split: option.splits)

lemma parsed_json:
  "parse_closed_mandate E v = Some c \<Longrightarrow> pcm_json c = v"
  "parse_open_mandate E v = Some q \<Longrightarrow> pom_json q = v"
  "parse_payment_receipt v = Some r \<Longrightarrow> prc_json r = v"
  "parse_pulse_requirements v = Some n \<Longrightarrow> prq_json n = v"
  by (auto simp: parse_closed_mandate_def parse_open_mandate_def parse_payment_receipt_def parse_pulse_requirements_def
      bind_eq_Some_conv)

lemma parse_ap2_parts:
  assumes "parse_ap2 E v = Some a"
  obtains ob where "v = JObj ob" "required (parse_closed_mandate E) ob ''closedMandate'' = Some (pap_closed a)"
    "required (parse_open_mandate E) ob ''openMandate'' = Some (pap_open a)"
  using assms by (auto simp: parse_ap2_def bind_eq_Some_conv dest!: strict_obj_Some)

lemma try_parse_case_guard:
  assumes "try_parse_case E v = Some c"
  shows "json_guard (pcm_json (pap_closed (pcs_ap2 c)))" "json_guard (pom_json (pap_open (pcs_ap2 c)))"
    "\<exists>h. calculate_input_hash H c = Inr h"
proof -
  from assms have g: "json_guard v" and p: "parse_case_schema E v = Some c"
    by (auto simp: try_parse_case_def parse_conformance_case_def bind_sum_def json_guard_def split: sum.splits option.splits)
  from p obtain ob where ob: "strict_obj case_fields v = Some ob" "required (parse_ap2 E) ob ''ap2'' = Some (pcs_ap2 c)"
      "pcs_fields c = ob"
    by (auto simp: parse_case_schema_def bind_eq_Some_conv)
  with g have gob: "json_guard (JObj ob)" using strict_obj_Some by fastforce
  from ob(2) obtain w where w: "map_of ob ''ap2'' = Some w" "parse_ap2 E w = Some (pcs_ap2 c)"
    by (auto simp: required_Some)
  from w(2) obtain ab where ab: "w = JObj ab"
    and cl: "required (parse_closed_mandate E) ab ''closedMandate'' = Some (pap_closed (pcs_ap2 c))"
    and op: "required (parse_open_mandate E) ab ''openMandate'' = Some (pap_open (pcs_ap2 c))"
    by (rule parse_ap2_parts)
  have gab: "json_guard (JObj ab)" using json_guard_member [OF gob w(1)] ab by simp
  show "json_guard (pcm_json (pap_closed (pcs_ap2 c)))" "json_guard (pom_json (pap_open (pcs_ap2 c)))"
    using cl op parsed_json json_guard_member [OF gab] by (auto simp: required_Some)
  have "json_guard (JObj (filter (\<lambda>m. fst m \<in> set input_fields) (pcs_fields c)))"
    using gob by (rule json_guard_members) (simp add: ob(3))
  then show "\<exists>h. calculate_input_hash H c = Inr h" by (simp add: calculate_input_hash_def canonical_hash_guarded)
qed

end
