(* ===== verification/PulseEval.thy ===== *)
theory PulseEval
  imports PulseCase
begin

section \<open>Evaluation of conformance cases\<close>

text \<open>
  \<open>pulse-conformance-evaluator/src\<close>: the failure collector (\<open>failures.ts\<close>), the result of the structured AP2 verifier
  and its schema (\<open>ap2-bridge.ts\<close>), the signature check (\<open>eip3009.ts\<close>) and the evaluator (\<open>evaluator.ts\<close>). The evaluator
  adds a code under a condition many times; here each part gives its list of pairs of code and condition, in the order
  of the code, and the collector adds them. The Python process behind the verifier is a parameter, in the state it runs
  on. Lemmas: the reported codes are the ones whose condition held, in the fixed order; a case is
  accepted exactly when no code is reported; what acceptance says of mandates, payment and settlement.
\<close>

subsection \<open>Failure codes\<close>

datatype failure_code =
    INPUT_SCHEMA_INVALID | INPUT_HASH_MISMATCH | AP2_CRYPTOGRAPHIC_EVIDENCE_INVALID | AP2_CLOSED_MANDATE_UNVERIFIED
  | AP2_OPEN_MANDATE_UNVERIFIED | AP2_KEY_BINDING_UNVERIFIED | AP2_CHECKOUT_BINDING_UNVERIFIED | AP2_RECEIPT_UNVERIFIED
  | AP2_CLOSED_MANDATE_REFERENCE_MISMATCH | AP2_CLOSED_MANDATE_CLAIMS_HASH_MISMATCH
  | AP2_OPEN_MANDATE_CLAIMS_HASH_MISMATCH | AP2_PAYMENT_REFERENCE_MISMATCH | AP2_CLOSED_TRANSACTION_ID_MISMATCH
  | AP2_CONSTRAINT_VIOLATION | AP2_UNSUPPORTED_CONSTRAINT | AP2_OPEN_PRESET_MISMATCH
  | AP2_VERIFICATION_CONTEXT_MISMATCH | AP2_MANDATE_TIME_INVALID | AP2_PAYMENT_INSTRUMENT_NOT_ALLOWED
  | AP2_RECEIPT_NOT_SUCCESSFUL | AP2_RECEIPT_REFERENCE_MISMATCH | AP2_RECEIPT_TRANSACTION_MISMATCH
  | AP2_X402_SCHEME_MISMATCH | AP2_X402_NETWORK_MISMATCH | AP2_X402_ASSET_MISMATCH | AP2_X402_AMOUNT_MISMATCH
  | AP2_X402_PAYEE_MISMATCH | AP2_X402_COMMERCE_BINDING_MISMATCH | AP2_X402_TIMEOUT_MISMATCH
  | AP2_X402_EIP712_DOMAIN_MISMATCH | X402_MANDATE_REFERENCE_MISMATCH | X402_ACCEPTED_REQUIREMENTS_MISMATCH
  | X402_UNSUPPORTED_EXTENSION | EIP3009_PAYER_MISMATCH | EIP3009_RECIPIENT_MISMATCH | EIP3009_VALUE_MISMATCH
  | EIP3009_VALID_AFTER_IN_FUTURE | EIP3009_VALID_BEFORE_EXPIRED | EIP3009_VALIDITY_EXCEEDS_TIMEOUT
  | EIP3009_VALIDITY_EXCEEDS_AP2_EXPIRY | EIP3009_NONCE_BINDING_MISMATCH | EIP3009_SIGNATURE_INVALID
  | SETTLEMENT_FAILED | SETTLEMENT_NETWORK_MISMATCH | SETTLEMENT_PAYER_MISMATCH | SETTLEMENT_AMOUNT_MISMATCH
  | SETTLEMENT_TRANSACTION_INVALID

definition all_codes :: "failure_code list" where
  "all_codes =
    [INPUT_SCHEMA_INVALID, INPUT_HASH_MISMATCH, AP2_CRYPTOGRAPHIC_EVIDENCE_INVALID, AP2_CLOSED_MANDATE_UNVERIFIED,
     AP2_OPEN_MANDATE_UNVERIFIED, AP2_KEY_BINDING_UNVERIFIED, AP2_CHECKOUT_BINDING_UNVERIFIED, AP2_RECEIPT_UNVERIFIED,
     AP2_CLOSED_MANDATE_REFERENCE_MISMATCH, AP2_CLOSED_MANDATE_CLAIMS_HASH_MISMATCH,
     AP2_OPEN_MANDATE_CLAIMS_HASH_MISMATCH, AP2_PAYMENT_REFERENCE_MISMATCH, AP2_CLOSED_TRANSACTION_ID_MISMATCH,
     AP2_CONSTRAINT_VIOLATION, AP2_UNSUPPORTED_CONSTRAINT, AP2_OPEN_PRESET_MISMATCH,
     AP2_VERIFICATION_CONTEXT_MISMATCH, AP2_MANDATE_TIME_INVALID, AP2_PAYMENT_INSTRUMENT_NOT_ALLOWED,
     AP2_RECEIPT_NOT_SUCCESSFUL, AP2_RECEIPT_REFERENCE_MISMATCH, AP2_RECEIPT_TRANSACTION_MISMATCH,
     AP2_X402_SCHEME_MISMATCH, AP2_X402_NETWORK_MISMATCH, AP2_X402_ASSET_MISMATCH, AP2_X402_AMOUNT_MISMATCH,
     AP2_X402_PAYEE_MISMATCH, AP2_X402_COMMERCE_BINDING_MISMATCH, AP2_X402_TIMEOUT_MISMATCH,
     AP2_X402_EIP712_DOMAIN_MISMATCH, X402_MANDATE_REFERENCE_MISMATCH, X402_ACCEPTED_REQUIREMENTS_MISMATCH,
     X402_UNSUPPORTED_EXTENSION, EIP3009_PAYER_MISMATCH, EIP3009_RECIPIENT_MISMATCH, EIP3009_VALUE_MISMATCH,
     EIP3009_VALID_AFTER_IN_FUTURE, EIP3009_VALID_BEFORE_EXPIRED, EIP3009_VALIDITY_EXCEEDS_TIMEOUT,
     EIP3009_VALIDITY_EXCEEDS_AP2_EXPIRY, EIP3009_NONCE_BINDING_MISMATCH, EIP3009_SIGNATURE_INVALID,
     SETTLEMENT_FAILED, SETTLEMENT_NETWORK_MISMATCH, SETTLEMENT_PAYER_MISMATCH, SETTLEMENT_AMOUNT_MISMATCH,
     SETTLEMENT_TRANSACTION_INVALID]"

definition code_index :: "failure_code \<Rightarrow> nat" where
  "code_index c = length (takeWhile (\<lambda>d. d \<noteq> c) all_codes)"

text \<open>A finding is a code with the condition under which it is added.\<close>

type_synonym finding = "failure_code \<times> bool"

definition add_failure :: "finding \<Rightarrow> failure_code list \<Rightarrow> failure_code list" where
  "add_failure f cs = (if snd f \<and> fst f \<notin> set cs then cs @ [fst f] else cs)"

definition collect_failures :: "finding list \<Rightarrow> failure_code list" where
  "collect_failures fs = fold add_failure fs []"

definition ordered_failures :: "failure_code list \<Rightarrow> failure_code list" where
  "ordered_failures cs = sort_key code_index cs"

subsection \<open>The structured AP2 verification\<close>

datatype stage_status = StatusVerified | StatusInvalid | StatusNotEvaluated

definition read_status :: "(string \<times> json) list \<Rightarrow> stage_status option" where
  "read_status ob =
     Option.bind (get_str ob ''status'')
       (\<lambda>s. map_of [(''verified'', StatusVerified), (''invalid'', StatusInvalid), (''notEvaluated'', StatusNotEvaluated)] s)"

datatype claims_result = ClaimsVerified json | ClaimsInvalid | ClaimsNotEvaluated

datatype closed_result = ClosedVerified json string | ClosedInvalid | ClosedNotEvaluated

definition parse_claims_result :: "json \<Rightarrow> claims_result option" where
  "parse_claims_result v = do {
     ob \<leftarrow> strict_obj [''status'', ''claims''] v; s \<leftarrow> read_status ob;
     (case s of
        StatusVerified \<Rightarrow> map_option ClaimsVerified (required parse_any_object ob ''claims'')
      | StatusInvalid \<Rightarrow> guard_opt (map_of ob ''claims'' = None) ClaimsInvalid
      | StatusNotEvaluated \<Rightarrow> guard_opt (map_of ob ''claims'' = None) ClaimsNotEvaluated) }"

definition parse_closed_result :: "json \<Rightarrow> closed_result option" where
  "parse_closed_result v = do {
     ob \<leftarrow> strict_obj [''status'', ''claims'', ''issuerJwt''] v; s \<leftarrow> read_status ob;
     (case s of
        StatusVerified \<Rightarrow> do { c \<leftarrow> required parse_any_object ob ''claims''; j \<leftarrow> str_where (\<lambda>s. s \<noteq> []) ob ''issuerJwt'';
          Some (ClosedVerified c j) }
      | StatusInvalid \<Rightarrow> guard_opt (map_of ob ''claims'' = None \<and> map_of ob ''issuerJwt'' = None) ClosedInvalid
      | StatusNotEvaluated \<Rightarrow> guard_opt (map_of ob ''claims'' = None \<and> map_of ob ''issuerJwt'' = None) ClosedNotEvaluated) }"

definition parse_status_result :: "json \<Rightarrow> stage_status option" where
  "parse_status_result v = do { ob \<leftarrow> strict_obj [''status''] v; read_status ob }"

datatype expiry_source = RootJwt | OpenMandateBound | ClosedJwt | ClosedMandateBound

definition read_source :: "(string \<times> json) list \<Rightarrow> expiry_source option" where
  "read_source ob =
     Option.bind (get_str ob ''source'')
       (\<lambda>s. map_of [(''rootJwt'', RootJwt), (''openMandate'', OpenMandateBound), (''closedJwt'', ClosedJwt),
         (''closedMandate'', ClosedMandateBound)] s)"

definition numeric_date :: "json \<Rightarrow> rat option" where
  "numeric_date v = (case v of JNum q \<Rightarrow> guard_opt (\<bar>q\<bar> \<le> of_int max_safe_integer) q | _ \<Rightarrow> None)"

definition parse_bound :: "json \<Rightarrow> (expiry_source \<times> rat) option" where
  "parse_bound v = do {
     ob \<leftarrow> strict_obj [''source'', ''expiresAt''] v; s \<leftarrow> read_source ob; t \<leftarrow> required numeric_date ob ''expiresAt'';
     Some (s, t) }"

record time_result =
  tmr_status :: stage_status
  tmr_bounds :: "(expiry_source \<times> rat) list"
  tmr_expiry :: "rat option"

definition minimum_of :: "rat list \<Rightarrow> rat option" where
  "minimum_of qs = (case qs of [] \<Rightarrow> None | q # ps \<Rightarrow> Some (fold min ps q))"

definition time_consistent :: "time_result \<Rightarrow> bool" where
  "time_consistent t \<longleftrightarrow>
     (let sources = map fst (tmr_bounds t) in
      distinct sources \<and> minimum_of (map snd (tmr_bounds t)) = tmr_expiry t \<and>
      (tmr_status t = StatusVerified \<longrightarrow> OpenMandateBound \<in> set sources \<and> ClosedMandateBound \<in> set sources))"

definition parse_time_result :: "json \<Rightarrow> time_result option" where
  "parse_time_result v = do {
     ob \<leftarrow> strict_obj [''status'', ''expiryBounds'', ''effectiveAuthorityExpiry''] v; s \<leftarrow> read_status ob;
     bs \<leftarrow> (case map_of ob ''expiryBounds'' of
              None \<Rightarrow> Some []
            | Some (JArr xs) \<Rightarrow> if length xs \<le> 4 then read_all parse_bound xs else None
            | _ \<Rightarrow> None);
     e \<leftarrow> optional numeric_date ob ''effectiveAuthorityExpiry'';
     let t = \<lparr>tmr_status = s, tmr_bounds = bs, tmr_expiry = e\<rparr>;
     guard_opt (time_consistent t) t }"

record structured_result =
  str_open :: claims_result
  str_closed :: closed_result
  str_key :: stage_status
  str_time :: time_result
  str_receipt :: claims_result

definition parse_sdk :: "json \<Rightarrow> unit option" where
  "parse_sdk v = do {
     ob \<leftarrow> strict_obj [''repository'', ''commit'', ''protocolVersion''] v;
     get_lit ob ''repository'' ''https://github.com/google-agentic-commerce/AP2''; get_lit ob ''commit'' pulse_ap2_commit;
     get_lit ob ''protocolVersion'' ''0.2'' }"

definition parse_structured_schema :: "json \<Rightarrow> structured_result option" where
  "parse_structured_schema v = do {
     ob \<leftarrow> strict_obj [''version'', ''sdk'', ''openMandate'', ''closedMandate'', ''keyBinding'', ''mandateTime'', ''receipt''] v;
     get_lit ob ''version'' ''inntris-pulse-ap2-structured-verification/0.1''; required parse_sdk ob ''sdk'';
     q \<leftarrow> required parse_claims_result ob ''openMandate''; c \<leftarrow> required parse_closed_result ob ''closedMandate'';
     k \<leftarrow> required parse_status_result ob ''keyBinding''; t \<leftarrow> required parse_time_result ob ''mandateTime'';
     r \<leftarrow> required parse_claims_result ob ''receipt'';
     Some \<lparr>str_open = q, str_closed = c, str_key = k, str_time = t, str_receipt = r\<rparr> }"

definition parse_structured_verification :: "json \<Rightarrow> error + structured_result" where
  "parse_structured_verification v =
     bind_sum (assert_json v) (\<lambda>_. case parse_structured_schema v of None \<Rightarrow> Inl ZodError | Some r \<Rightarrow> Inr r)"

fun claims_status :: "claims_result \<Rightarrow> stage_status" where
  "claims_status (ClaimsVerified _) = StatusVerified"
| "claims_status ClaimsInvalid = StatusInvalid"
| "claims_status ClaimsNotEvaluated = StatusNotEvaluated"

fun closed_status :: "closed_result \<Rightarrow> stage_status" where
  "closed_status (ClosedVerified _ _) = StatusVerified"
| "closed_status ClosedInvalid = StatusInvalid"
| "closed_status ClosedNotEvaluated = StatusNotEvaluated"

definition mandatory_stages :: "structured_result \<Rightarrow> stage_status list" where
  "mandatory_stages r =
     [claims_status (str_open r), closed_status (str_closed r), str_key r, tmr_status (str_time r), claims_status (str_receipt r)]"

definition all_stages_verified :: "structured_result option \<Rightarrow> bool" where
  "all_stages_verified x \<longleftrightarrow> (case x of None \<Rightarrow> False | Some r \<Rightarrow> list_all (\<lambda>s. s = StatusVerified) (mandatory_stages r))"

subsection \<open>The EIP-3009 signature\<close>

definition secp256k1_order :: nat where
  "secp256k1_order = 0xfffffffffffffffffffffffffffffffebaaedce6af48a03bbfd25e8cd0364141"

definition chain_id_from_network :: "string \<Rightarrow> nat option" where
  "chain_id_from_network nw =
     (if take 7 nw = ''eip155:'' \<and> uint_string (drop 7 nw)
      then let n = digits_value (drop 7 nw) in guard_opt (0 < n \<and> n \<le> max_uint256) n
      else None)"

definition hex_number :: "string \<Rightarrow> nat" where
  "hex_number s = foldl (\<lambda>n c. 16 * n + hex_value (lower_char c)) 0 s"

definition canonical_signature :: "string \<Rightarrow> bool" where
  "canonical_signature sg \<longleftrightarrow>
     hex_signature sg \<and>
     (let b = drop 2 sg; r = hex_number (take 64 b); s = hex_number (take 64 (drop 64 b)); v = hex_number (drop 128 b) in
      0 < r \<and> r < secp256k1_order \<and> 0 < s \<and> s \<le> secp256k1_order div 2 \<and> (v = 27 \<or> v = 28))"

definition transfer_of :: "pulse_env \<Rightarrow> pulse_requirements \<Rightarrow> authorization \<Rightarrow> transfer_data option" where
  "transfer_of E q a = do {
     n \<leftarrow> chain_id_from_network (prq_network q); ad \<leftarrow> pe_address E (prq_asset q);
     f \<leftarrow> pe_address E (pau_from a); t \<leftarrow> pe_address E (pau_to a);
     Some \<lparr>td_domain_name = prq_name q, td_domain_version = prq_version q, td_chain_id = n, td_contract = ad,
       td_from = f, td_to = t, td_value = digits_value (pau_value a), td_valid_after = digits_value (pau_valid_after a),
       td_valid_before = digits_value (pau_valid_before a), td_nonce = pau_nonce a\<rparr> }"

definition verify_eip3009 :: "pulse_env \<Rightarrow> pulse_requirements \<Rightarrow> authorization \<Rightarrow> string \<Rightarrow> bool" where
  "verify_eip3009 E q a sg \<longleftrightarrow>
     canonical_signature sg \<and>
     (case transfer_of E q a of None \<Rightarrow> False | Some d \<Rightarrow> pe_recover E d sg = Some (td_from d))"

subsection \<open>Mandates\<close>

definition instruments_match :: "host \<Rightarrow> pulse_instrument \<Rightarrow> pulse_instrument \<Rightarrow> bool" where
  "instruments_match H allowed selected \<longleftrightarrow>
     pin_id allowed = pin_id selected \<and> pin_type allowed = pin_type selected \<and>
     (case (pin_x402 allowed, pin_x402 selected) of
        (Some x, Some y) \<Rightarrow> canonical_equal H (pxt_json x) (pxt_json y)
      | _ \<Rightarrow> False)"

fun constraint_findings :: "host \<Rightarrow> closed_mandate \<Rightarrow> string \<Rightarrow> pulse_constraint \<Rightarrow> finding list" where
  "constraint_findings H c checkout (OtherConstraint t) = [(AP2_UNSUPPORTED_CONSTRAINT, True)]"
| "constraint_findings H c checkout (ReferenceConstraint r) = [(AP2_PAYMENT_REFERENCE_MISMATCH, r \<noteq> checkout)]"
| "constraint_findings H c checkout (InstrumentsConstraint xs) =
     (let mismatch = \<not> list_ex (\<lambda>i. instruments_match H i (pcm_instrument c)) xs in
      [(AP2_PAYMENT_INSTRUMENT_NOT_ALLOWED, mismatch), (AP2_CONSTRAINT_VIOLATION, mismatch)])"
| "constraint_findings H c checkout (RangeConstraint cur lo hi) =
     [(AP2_CONSTRAINT_VIOLATION,
       cur \<noteq> pam_currency (pcm_amount c) \<or> pam_amount (pcm_amount c) < lo \<or> hi < pam_amount (pcm_amount c))]"
| "constraint_findings H c checkout (PayeesConstraint ms) =
     [(AP2_CONSTRAINT_VIOLATION,
       pmr_id (pcm_payee c) = [] \<or> \<not> list_ex (\<lambda>m. pmr_id m \<noteq> [] \<and> pmr_id m = pmr_id (pcm_payee c)) ms)]"

definition constraints_findings :: "host \<Rightarrow> open_mandate \<Rightarrow> closed_mandate \<Rightarrow> string \<Rightarrow> finding list" where
  "constraints_findings H q c checkout =
     concat (map (constraint_findings H c checkout) (pom_constraints q)) @
     map (\<lambda>t. (AP2_CONSTRAINT_VIOLATION, t \<notin> set (map constraint_type (pom_constraints q)))) supported_constraints"

definition preset_mismatch :: "host \<Rightarrow> open_mandate \<Rightarrow> closed_mandate \<Rightarrow> bool" where
  "preset_mismatch H q c \<longleftrightarrow>
     (case pom_payee q of None \<Rightarrow> False
      | Some m \<Rightarrow> pmr_id m = [] \<or> pmr_id (pcm_payee c) = [] \<or> pmr_id m \<noteq> pmr_id (pcm_payee c)) \<or>
     (case pom_amount q of None \<Rightarrow> False | Some a \<Rightarrow> \<not> canonical_equal H (pam_json a) (pam_json (pcm_amount c))) \<or>
     (case pom_instrument q of None \<Rightarrow> False | Some i \<Rightarrow> \<not> canonical_equal H (pin_json i) (pin_json (pcm_instrument c))) \<or>
     (case pom_execution_date q of None \<Rightarrow> False | Some d \<Rightarrow> d \<noteq> pcm_execution_date c)"

definition required_nonce_derivation :: string where
  "required_nonce_derivation = ''base64url-decode-ap2-mandate-reference''"

definition ap2_x402_findings ::
  "pulse_env \<Rightarrow> x402_extension \<Rightarrow> pulse_requirements \<Rightarrow> closed_mandate \<Rightarrow> finding list" where
  "ap2_x402_findings E x q c =
     (let payee_mismatch = (pxt_payee_id x = [] \<or> pxt_payee_id x \<noteq> pmr_id (pcm_payee c)) in
      [(X402_UNSUPPORTED_EXTENSION, pxt_version x \<noteq> 2 \<or> pxt_nonce_binding x \<noteq> required_nonce_derivation),
       (AP2_X402_SCHEME_MISMATCH, pxt_scheme x \<noteq> ''exact'' \<or> prq_scheme q \<noteq> ''exact'' \<or> pxt_scheme x \<noteq> prq_scheme q),
       (AP2_X402_NETWORK_MISMATCH, pxt_network x \<noteq> prq_network q),
       (AP2_X402_ASSET_MISMATCH, \<not> addresses_equal E (pxt_asset x) (prq_asset q)),
       (AP2_X402_AMOUNT_MISMATCH, pxt_amount x \<noteq> prq_amount q),
       (AP2_X402_PAYEE_MISMATCH, \<not> addresses_equal E (pxt_pay_to x) (prq_pay_to q) \<or> payee_mismatch),
       (AP2_X402_COMMERCE_BINDING_MISMATCH, payee_mismatch \<or>
          \<not> canonical_equal (pe_host E) (pam_json (pxt_payment_amount x)) (pam_json (pcm_amount c))),
       (AP2_X402_TIMEOUT_MISMATCH, pxt_timeout x \<noteq> prq_timeout q),
       (AP2_X402_EIP712_DOMAIN_MISMATCH, fst (pxt_domain x) \<noteq> prq_name q \<or> snd (pxt_domain x) \<noteq> prq_version q)])"

text \<open>The references of an open mandate differ from the checkout, or it has none.\<close>

definition reference_mismatch :: "open_mandate \<Rightarrow> string \<Rightarrow> bool" where
  "reference_mismatch q checkout \<longleftrightarrow>
     (let rs = filter (\<lambda>k. constraint_type k = ''payment.reference'') (pom_constraints q) in
      rs = [] \<or> list_ex (\<lambda>k. k \<noteq> ReferenceConstraint checkout) rs)"

definition pair_findings :: "pulse_env \<Rightarrow> conformance_case \<Rightarrow> open_mandate \<times> closed_mandate \<Rightarrow> finding list" where
  "pair_findings E k p =
     (let q = fst p; c = snd p; checkout = pvr_checkout (pap_verification (pcs_ap2 k)); now = pcs_now k in
      [(AP2_PAYMENT_REFERENCE_MISMATCH, reference_mismatch q checkout),
       (AP2_CLOSED_TRANSACTION_ID_MISMATCH, pcm_transaction_id c \<noteq> checkout)] @
      constraints_findings (pe_host E) q c checkout @
      [(AP2_OPEN_PRESET_MISMATCH, preset_mismatch (pe_host E) q c),
       (AP2_MANDATE_TIME_INVALID, now < pom_iat q \<or> now < pcm_iat c \<or> pom_exp q \<le> now \<or> pcm_exp c \<le> now),
       (AP2_PAYMENT_INSTRUMENT_NOT_ALLOWED, pin_type (pcm_instrument c) \<noteq> ''x402'')] @
      (case pin_x402 (pcm_instrument c) of
         None \<Rightarrow> [] | Some x \<Rightarrow> ap2_x402_findings E x (pxs_requirements (pcs_x402 k)) c))"

subsection \<open>Verified claims\<close>

definition verified_open :: "pulse_env \<Rightarrow> structured_result option \<Rightarrow> open_mandate option" where
  "verified_open E x =
     (case x of Some r \<Rightarrow> (case str_open r of ClaimsVerified v \<Rightarrow> parse_open_mandate E v | _ \<Rightarrow> None) | None \<Rightarrow> None)"

definition verified_closed :: "pulse_env \<Rightarrow> structured_result option \<Rightarrow> closed_mandate option" where
  "verified_closed E x =
     (case x of Some r \<Rightarrow> (case str_closed r of ClosedVerified v _ \<Rightarrow> parse_closed_mandate E v | _ \<Rightarrow> None) | None \<Rightarrow> None)"

definition verified_receipt :: "structured_result option \<Rightarrow> payment_receipt option" where
  "verified_receipt x =
     (case x of Some r \<Rightarrow> (case str_receipt r of ClaimsVerified v \<Rightarrow> parse_payment_receipt v | _ \<Rightarrow> None) | None \<Rightarrow> None)"

definition stage_is :: "(structured_result \<Rightarrow> stage_status) \<Rightarrow> stage_status \<Rightarrow> structured_result option \<Rightarrow> bool" where
  "stage_is f s x \<longleftrightarrow> (case x of None \<Rightarrow> False | Some r \<Rightarrow> f r = s)"

definition all_mandatory_valid :: "pulse_env \<Rightarrow> structured_result option \<Rightarrow> bool" where
  "all_mandatory_valid E x \<longleftrightarrow>
     all_stages_verified x \<and> verified_open E x \<noteq> None \<and> verified_closed E x \<noteq> None \<and> verified_receipt x \<noteq> None"

definition explicit_invalid_stage :: "structured_result option \<Rightarrow> bool" where
  "explicit_invalid_stage x \<longleftrightarrow>
     (case x of None \<Rightarrow> False | Some r \<Rightarrow> list_ex (\<lambda>s. s = StatusInvalid) (mandatory_stages r))"

text \<open>The hash of the issuer-signed token of a verified closed mandate.\<close>

definition derived_reference :: "pulse_env \<Rightarrow> structured_result option \<Rightarrow> string option" where
  "derived_reference E x =
     (case x of
        Some r \<Rightarrow>
          (case str_closed r of
             ClosedVerified v j \<Rightarrow>
               if parse_closed_mandate E v \<noteq> None then Some (sha256_base64url (pe_host E) (utf8 j)) else None
           | _ \<Rightarrow> None)
      | None \<Rightarrow> None)"

definition mandate_pairs ::
  "pulse_env \<Rightarrow> conformance_case \<Rightarrow> structured_result option \<Rightarrow> (open_mandate \<times> closed_mandate) list" where
  "mandate_pairs E k x =
     (case (verified_open E x, verified_closed E x) of
        (Some q, Some c) \<Rightarrow>
          if stage_is str_key StatusVerified x then [(pap_open (pcs_ap2 k), pap_closed (pcs_ap2 k)), (q, c)] else []
      | _ \<Rightarrow> [])"

definition verification_findings :: "pulse_env \<Rightarrow> conformance_case \<Rightarrow> structured_result option \<Rightarrow> finding list" where
  "verification_findings E k x =
     (let w = pap_verification (pcs_ap2 k); rc = pap_receipt (pcs_ap2 k) in
      [(AP2_VERIFICATION_CONTEXT_MISMATCH, pvr_verified_at w \<noteq> pcs_now k \<or> pvr_skew w \<noteq> 0),
       (AP2_CRYPTOGRAPHIC_EVIDENCE_INVALID, x = None),
       (AP2_CRYPTOGRAPHIC_EVIDENCE_INVALID, \<not> all_stages_verified x \<and> \<not> explicit_invalid_stage x),
       (AP2_OPEN_MANDATE_UNVERIFIED, stage_is (\<lambda>r. claims_status (str_open r)) StatusInvalid x \<or>
          stage_is (\<lambda>r. claims_status (str_open r)) StatusVerified x \<and> verified_open E x = None),
       (AP2_CLOSED_MANDATE_UNVERIFIED, stage_is (\<lambda>r. closed_status (str_closed r)) StatusInvalid x \<or>
          stage_is (\<lambda>r. closed_status (str_closed r)) StatusVerified x \<and> verified_closed E x = None),
       (AP2_KEY_BINDING_UNVERIFIED, stage_is str_key StatusInvalid x),
       (AP2_RECEIPT_UNVERIFIED, stage_is (\<lambda>r. claims_status (str_receipt r)) StatusInvalid x \<or>
          stage_is (\<lambda>r. claims_status (str_receipt r)) StatusVerified x \<and> verified_receipt x = None \<or>
          (case verified_receipt x of None \<Rightarrow> False
           | Some r \<Rightarrow> (case rc of None \<Rightarrow> True | Some n \<Rightarrow> \<not> canonical_equal (pe_host E) (prc_json n) (prc_json r)))),
       (AP2_CLOSED_MANDATE_REFERENCE_MISMATCH,
          (case derived_reference E x of None \<Rightarrow> False | Some d \<Rightarrow> d \<noteq> pvr_closed_reference w))])"

text \<open>The claims of the input and the verified claims hash to what the verification record says.\<close>

definition claims_hash_mismatch :: "host \<Rightarrow> json \<Rightarrow> json option \<Rightarrow> string \<Rightarrow> error + bool" where
  "claims_hash_mismatch H v w expected =
     bind_sum (canonical_hash H v) (\<lambda>h.
     if h \<noteq> expected then Inr True
     else (case w of None \<Rightarrow> Inr False | Some u \<Rightarrow> bind_sum (canonical_hash H u) (\<lambda>g. Inr (g \<noteq> expected))))"

definition hash_findings :: "pulse_env \<Rightarrow> conformance_case \<Rightarrow> structured_result option \<Rightarrow> error + finding list" where
  "hash_findings E k x =
     (let w = pap_verification (pcs_ap2 k); a = pcs_ap2 k in
      bind_sum (claims_hash_mismatch (pe_host E) (pcm_json (pap_closed a)) (map_option pcm_json (verified_closed E x)) (pvr_closed_hash w)) (\<lambda>b1.
      bind_sum (claims_hash_mismatch (pe_host E) (pom_json (pap_open a)) (map_option pom_json (verified_open E x)) (pvr_open_hash w)) (\<lambda>b2.
      Inr [(AP2_CLOSED_MANDATE_CLAIMS_HASH_MISMATCH, b1), (AP2_OPEN_MANDATE_CLAIMS_HASH_MISMATCH, b2)])))"

definition mandate_findings :: "pulse_env \<Rightarrow> conformance_case \<Rightarrow> structured_result option \<Rightarrow> finding list" where
  "mandate_findings E k x =
     (let ps = mandate_pairs E k x; checkout = pvr_checkout (pap_verification (pcs_ap2 k)) in
      (case (verified_open E x, verified_closed E x) of
         (Some q, Some c) \<Rightarrow>
           if ps = [] then []
           else [(AP2_CHECKOUT_BINDING_UNVERIFIED, reference_mismatch q checkout \<or> pcm_transaction_id c \<noteq> checkout)]
       | _ \<Rightarrow> []) @
      concat (map (pair_findings E k) ps) @
      [(AP2_MANDATE_TIME_INVALID, stage_is (\<lambda>r. tmr_status (str_time r)) StatusInvalid x)])"

subsection \<open>Receipts, requirements, authorization and settlement\<close>

definition receipt_finding_list :: "conformance_case \<Rightarrow> string option \<Rightarrow> payment_receipt \<Rightarrow> finding list" where
  "receipt_finding_list k d r =
     [(AP2_RECEIPT_NOT_SUCCESSFUL, \<not> prc_success r),
      (AP2_RECEIPT_REFERENCE_MISMATCH, (case d of None \<Rightarrow> False | Some s \<Rightarrow> prc_reference r \<noteq> s)),
      (AP2_RECEIPT_TRANSACTION_MISMATCH,
        prc_success r \<and> prc_network_confirmation r \<noteq> Some (pst_transaction (pxs_settlement (pcs_x402 k))))]"

definition receipt_findings :: "pulse_env \<Rightarrow> conformance_case \<Rightarrow> structured_result option \<Rightarrow> finding list" where
  "receipt_findings E k x =
     (case verified_receipt x of
        None \<Rightarrow> []
      | Some r \<Rightarrow> concat (map (receipt_finding_list k (derived_reference E x)) (r # option_list (pap_receipt (pcs_ap2 k)))))"

definition requirement_findings :: "pulse_env \<Rightarrow> conformance_case \<Rightarrow> structured_result option \<Rightarrow> finding list" where
  "requirement_findings E k x =
     (let p = pxs_payload (pcs_x402 k); q = pxs_requirements (pcs_x402 k) in
      [(X402_ACCEPTED_REQUIREMENTS_MISMATCH, \<not> canonical_equal (pe_host E) (prq_json q) (prq_json (ppl_accepted p))),
       (X402_UNSUPPORTED_EXTENSION, ppl_extensions p \<noteq> None \<or> ppl_version p \<noteq> 2 \<or> prq_transfer_method q \<noteq> ''eip3009'' \<or>
          prq_nonce_derivation q \<noteq> required_nonce_derivation),
       (X402_MANDATE_REFERENCE_MISMATCH,
          (case derived_reference E x of None \<Rightarrow> False | Some d \<Rightarrow> prq_mandate_reference q \<noteq> d))])"

definition hex_text :: "bytes \<Rightarrow> string" where
  "hex_text bs = concat (map (\<lambda>b. let n = of_char b :: nat; d = (\<lambda>m. if m < 10 then char_of (m + 48) else char_of (m + 87))
     in [d (n div 16), d (n mod 16)]) bs)"

definition expected_nonce :: "string \<Rightarrow> string option" where
  "expected_nonce d = (let bs = b64url_decode d in if length bs = 32 then Some (''0x'' @ hex_text bs) else None)"

definition safety_buffer :: int where
  "safety_buffer = 6"

definition time_findings :: "pulse_env \<Rightarrow> conformance_case \<Rightarrow> structured_result option \<Rightarrow> finding list" where
  "time_findings E k x =
     (let a = ppl_authorization (pxs_payload (pcs_x402 k)); q = pxs_requirements (pcs_x402 k); now = pcs_now k;
          va = int (digits_value (pau_valid_after a)); vb = int (digits_value (pau_valid_before a)) in
      [(EIP3009_VALID_AFTER_IN_FUTURE, now \<le> va), (EIP3009_VALID_BEFORE_EXPIRED, vb < now + safety_buffer),
       (EIP3009_VALIDITY_EXCEEDS_TIMEOUT, now + prq_timeout q < vb)] @
      map (\<lambda>p. (EIP3009_VALIDITY_EXCEEDS_AP2_EXPIRY, min (pom_exp (fst p)) (pcm_exp (snd p)) < vb)) (mandate_pairs E k x) @
      [(EIP3009_VALIDITY_EXCEEDS_AP2_EXPIRY,
        (case Option.bind x (\<lambda>r. tmr_expiry (str_time r)) of None \<Rightarrow> False | Some t \<Rightarrow> \<lfloor>t\<rfloor> < vb))])"

definition authorization_findings :: "pulse_env \<Rightarrow> conformance_case \<Rightarrow> structured_result option \<Rightarrow> finding list" where
  "authorization_findings E k x =
     (let p = pxs_payload (pcs_x402 k); a = ppl_authorization p; q = pxs_requirements (pcs_x402 k) in
      map (\<lambda>m. (EIP3009_PAYER_MISMATCH,
        (case pin_x402 (pcm_instrument (snd m)) of None \<Rightarrow> False | Some e \<Rightarrow> \<not> addresses_equal E (pxt_payer e) (pau_from a))))
        (mandate_pairs E k x) @
      [(EIP3009_RECIPIENT_MISMATCH, \<not> addresses_equal E (pau_to a) (prq_pay_to q)),
       (EIP3009_VALUE_MISMATCH, pau_value a \<noteq> prq_amount q)] @
      time_findings E k x @
      [(EIP3009_NONCE_BINDING_MISMATCH,
         (case Option.bind (derived_reference E x) expected_nonce of None \<Rightarrow> False | Some n \<Rightarrow> to_lower (pau_nonce a) \<noteq> n)),
       (EIP3009_SIGNATURE_INVALID, \<not> verify_eip3009 E q a (ppl_signature p))])"

definition settlement_findings :: "pulse_env \<Rightarrow> conformance_case \<Rightarrow> finding list" where
  "settlement_findings E k =
     (let a = ppl_authorization (pxs_payload (pcs_x402 k)); q = pxs_requirements (pcs_x402 k); s = pxs_settlement (pcs_x402 k) in
      [(SETTLEMENT_FAILED, \<not> pst_success s), (SETTLEMENT_NETWORK_MISMATCH, pst_network s \<noteq> prq_network q),
       (SETTLEMENT_PAYER_MISMATCH, \<not> addresses_equal E (pst_payer s) (pau_from a)),
       (SETTLEMENT_AMOUNT_MISMATCH, (case pst_amount s of None \<Rightarrow> False | Some n \<Rightarrow> n \<noteq> prq_amount q)),
       (SETTLEMENT_TRANSACTION_INVALID, \<not> hex32 (pst_transaction s))])"

subsection \<open>Cases and bundles\<close>

record case_result =
  cr_id :: string
  cr_accept :: bool
  cr_codes :: "failure_code list"

text \<open>The findings, given the hash of the input.\<close>

definition case_findings ::
  "pulse_env \<Rightarrow> conformance_case \<Rightarrow> string \<Rightarrow> structured_result option \<Rightarrow> error + finding list" where
  "case_findings E k h x =
     bind_sum (hash_findings E k x) (\<lambda>hs.
     Inr ((INPUT_HASH_MISMATCH, h \<noteq> pcs_input_hash k) # verification_findings E k x @ hs @ mandate_findings E k x @
       receipt_findings E k x @ requirement_findings E k x @ authorization_findings E k x @ settlement_findings E k))"

definition case_outcome ::
  "pulse_env \<Rightarrow> conformance_case \<Rightarrow> string \<Rightarrow> structured_result option \<Rightarrow> error + case_result" where
  "case_outcome E k h x =
     bind_sum (case_findings E k h x) (\<lambda>fs.
       let codes = ordered_failures (collect_failures fs) in
       Inr \<lparr>cr_id = pcs_id k, cr_accept = (all_mandatory_valid E x \<and> codes = []), cr_codes = codes\<rparr>)"

text \<open>The request to the structured verifier: the evidence, the time and the allowed skew.\<close>

type_synonym 's structured_verifier = "ap2_evidence \<Rightarrow> int \<Rightarrow> int \<Rightarrow> (error, 's, json) io"

definition structured_of :: "error + json \<Rightarrow> structured_result option" where
  "structured_of r = (case bind_sum r parse_structured_verification of Inl _ \<Rightarrow> None | Inr x \<Rightarrow> Some x)"

definition evaluate_case :: "pulse_env \<Rightarrow> 's structured_verifier \<Rightarrow> case_envelope \<Rightarrow> (error, 's, case_result) io" where
  "evaluate_case E V i s =
     (case try_parse_case E (pce_json i) of
        None \<Rightarrow> (Inr \<lparr>cr_id = pce_id i, cr_accept = False, cr_codes = [INPUT_SCHEMA_INVALID]\<rparr>, s)
      | Some k \<Rightarrow>
          bind_io (lift_io (calculate_input_hash (pe_host E) k)) (\<lambda>h s.
            let w = pap_verification (pcs_ap2 k) in
            case V (pvr_evidence w) (pcs_now k) (pvr_skew w) s of
              (r, s') \<Rightarrow> (case_outcome E k h (structured_of r), s')) s)"

fun evaluate_bundle :: "pulse_env \<Rightarrow> 's structured_verifier \<Rightarrow> case_envelope list \<Rightarrow> (error, 's, case_result list) io" where
  "evaluate_bundle E V [] = ret []"
| "evaluate_bundle E V (i # is) =
     bind_io (evaluate_case E V i) (\<lambda>r. bind_io (evaluate_bundle E V is) (\<lambda>rs. ret (r # rs)))"

subsection \<open>The collector\<close>

lemma code_listed: "c \<in> set all_codes"
  by (cases c) (simp_all add: all_codes_def)

lemma takeWhile_shorter: "x \<in> set xs \<Longrightarrow> \<not> P x \<Longrightarrow> length (takeWhile P xs) < length xs"
  by (induction xs) auto

lemma all_codes_index: "code_index c < length all_codes \<and> all_codes ! code_index c = c"
proof -
  have "length (takeWhile (\<lambda>d. d \<noteq> c) all_codes) < length all_codes"
    using code_listed [of c] by (rule takeWhile_shorter) simp
  then show ?thesis unfolding code_index_def using nth_length_takeWhile by fastforce
qed

lemma code_index_inj: "code_index c = code_index d \<Longrightarrow> c = d"
  using all_codes_index by metis

instantiation failure_code :: linorder
begin

definition less_eq_failure_code :: "failure_code \<Rightarrow> failure_code \<Rightarrow> bool" where
  "c \<le> d \<longleftrightarrow> code_index c \<le> code_index d"

definition less_failure_code :: "failure_code \<Rightarrow> failure_code \<Rightarrow> bool" where
  "c < d \<longleftrightarrow> code_index c < code_index d"

instance
  by standard (auto simp: less_eq_failure_code_def less_failure_code_def dest: code_index_inj)

end

lemma distinct_all_codes: "distinct all_codes"
  by (simp add: all_codes_def)

lemma sorted_all_codes: "sorted_wrt (\<lambda>c d. code_index c < code_index d) all_codes"
  unfolding sorted_wrt_iff_nth_less
proof (intro allI impI)
  fix i j
  assume "i < j" "j < length all_codes"
  moreover note distinct_all_codes
  ultimately show "code_index (all_codes ! i) < code_index (all_codes ! j)"
    using all_codes_index by (metis nth_eq_iff_index_eq order_less_trans)
qed

lemma fold_add_failure:
  "distinct cs \<Longrightarrow> distinct (fold add_failure fs cs) \<and>
    set (fold add_failure fs cs) = set cs \<union> {c. (c, True) \<in> set fs}"
proof (induction fs arbitrary: cs)
  case (Cons f fs)
  have "distinct (add_failure f cs)" "set (add_failure f cs) = set cs \<union> {c. (c, True) = f}"
    using Cons.prems by (auto simp: add_failure_def split: prod.splits) (metis prod.collapse)+
  with Cons.IH [of "add_failure f cs"] show ?case by auto
qed simp

text \<open>What is reported: every code whose condition held, once, in the order of the list of codes.\<close>

lemma ordered_collect:
  "ordered_failures (collect_failures fs) = filter (\<lambda>c. (c, True) \<in> set fs) all_codes"
proof -
  have fc: "distinct (collect_failures fs)" "set (collect_failures fs) = {c. (c, True) \<in> set fs}"
    using fold_add_failure [of "[]" fs] by (simp_all add: collect_failures_def)
  show ?thesis unfolding ordered_failures_def
  proof (rule sorted_distinct_set_unique)
    have "sorted (map code_index (sort_key code_index (collect_failures fs)))" by (rule sorted_sort_key)
    then show "sorted (sort_key code_index (collect_failures fs))"
      by (simp add: sorted_map less_eq_failure_code_def [abs_def])
    have "sorted all_codes"
      using sorted_all_codes by (rule sorted_wrt_mono_rel [rotated]) (simp add: less_eq_failure_code_def)
    then show "sorted (filter (\<lambda>c. (c, True) \<in> set fs) all_codes)" by (rule sorted_wrt_filter)
    show "distinct (filter (\<lambda>c. (c, True) \<in> set fs) all_codes)" using distinct_all_codes by (rule distinct_filter)
  qed (use fc code_listed in auto)
qed

lemma no_codes: "ordered_failures (collect_failures fs) = [] \<longleftrightarrow> (\<forall>f\<in>set fs. \<not> snd f)"
  unfolding ordered_collect filter_empty_conv using code_listed by (metis prod.collapse snd_conv)

subsection \<open>Every case is judged\<close>

lemma parse_any_object_Some: "parse_any_object w = Some v \<longleftrightarrow> w = v \<and> (\<exists>fs. v = JObj fs)"
  by (cases w) (auto simp: parse_any_object_def)

lemma parse_claims_verified:
  assumes "parse_claims_result w = Some (ClaimsVerified v)"
  shows "\<exists>ob. w = JObj ob \<and> map_of ob ''claims'' = Some v"
proof -
  from assms obtain ob s where "strict_obj [''status'', ''claims''] w = Some ob"
    and s: "(case s of
        StatusVerified \<Rightarrow> map_option ClaimsVerified (required parse_any_object ob ''claims'')
      | StatusInvalid \<Rightarrow> guard_opt (map_of ob ''claims'' = None) ClaimsInvalid
      | StatusNotEvaluated \<Rightarrow> guard_opt (map_of ob ''claims'' = None) ClaimsNotEvaluated) = Some (ClaimsVerified v)"
    by (auto simp: parse_claims_result_def bind_eq_Some_conv)
  then show ?thesis
    by (cases s) (auto simp: required_Some parse_any_object_Some dest!: strict_obj_Some)
qed

lemma parse_closed_verified:
  assumes "parse_closed_result w = Some (ClosedVerified v j)"
  shows "\<exists>ob. w = JObj ob \<and> map_of ob ''claims'' = Some v"
proof -
  from assms obtain ob s where "strict_obj [''status'', ''claims'', ''issuerJwt''] w = Some ob"
    and s: "(case s of
        StatusVerified \<Rightarrow> do { c \<leftarrow> required parse_any_object ob ''claims''; j \<leftarrow> str_where (\<lambda>s. s \<noteq> []) ob ''issuerJwt'';
          Some (ClosedVerified c j) }
      | StatusInvalid \<Rightarrow> guard_opt (map_of ob ''claims'' = None \<and> map_of ob ''issuerJwt'' = None) ClosedInvalid
      | StatusNotEvaluated \<Rightarrow> guard_opt (map_of ob ''claims'' = None \<and> map_of ob ''issuerJwt'' = None) ClosedNotEvaluated)
      = Some (ClosedVerified v j)"
    by (auto simp: parse_closed_result_def bind_eq_Some_conv)
  then show ?thesis
    by (cases s) (auto simp: required_Some bind_eq_Some_conv parse_any_object_Some dest!: strict_obj_Some)
qed

lemma structured_guard:
  assumes "structured_of r = Some x"
  shows "str_open x = ClaimsVerified v \<Longrightarrow> json_guard v" "str_closed x = ClosedVerified v j \<Longrightarrow> json_guard v"
proof -
  from assms obtain u where g: "json_guard u" and p: "parse_structured_schema u = Some x"
    by (auto simp: structured_of_def bind_sum_def parse_structured_verification_def json_guard_def
        split: sum.splits option.splits)
  from p obtain ob where ob: "u = JObj ob" "required parse_claims_result ob ''openMandate'' = Some (str_open x)"
      "required parse_closed_result ob ''closedMandate'' = Some (str_closed x)"
    by (auto simp: parse_structured_schema_def bind_eq_Some_conv dest!: strict_obj_Some)
  have sub: "json_guard w" if "map_of ob k = Some w" for k w using json_guard_member [of ob k w] g ob(1) that by simp
  show "json_guard v" if "str_open x = ClaimsVerified v"
    using ob(2) that sub json_guard_member by (fastforce simp: required_Some dest: parse_claims_verified)
  show "json_guard v" if "str_closed x = ClosedVerified v j"
    using ob(3) that sub json_guard_member by (fastforce simp: required_Some dest: parse_closed_verified)
qed

lemma claims_hash_mismatch_total:
  assumes "json_guard v" "\<And>u. w = Some u \<Longrightarrow> json_guard u"
  shows "\<exists>b. claims_hash_mismatch H v w e = Inr b"
  using assms by (cases w) (auto simp: claims_hash_mismatch_def canonical_hash_guarded)

lemma hash_findings_total:
  assumes k: "try_parse_case E v = Some k"
  shows "\<exists>fs. hash_findings E k (structured_of r) = Inr fs"
proof -
  let ?x = "structured_of r"
  have c: "json_guard u" if "map_option pcm_json (verified_closed E ?x) = Some u" for u
    using that structured_guard(2) [of r]
    by (auto simp: verified_closed_def parsed_json split: option.splits closed_result.splits)
  have q: "json_guard u" if "map_option pom_json (verified_open E ?x) = Some u" for u
    using that structured_guard(1) [of r]
    by (auto simp: verified_open_def parsed_json split: option.splits claims_result.splits)
  note g = try_parse_case_guard(1,2) [OF k]
  obtain b1 where b1: "claims_hash_mismatch (pe_host E) (pcm_json (pap_closed (pcs_ap2 k)))
      (map_option pcm_json (verified_closed E ?x)) (pvr_closed_hash (pap_verification (pcs_ap2 k))) = Inr b1"
    using claims_hash_mismatch_total [OF g(1) c] by blast
  obtain b2 where "claims_hash_mismatch (pe_host E) (pom_json (pap_open (pcs_ap2 k)))
      (map_option pom_json (verified_open E ?x)) (pvr_open_hash (pap_verification (pcs_ap2 k))) = Inr b2"
    using claims_hash_mismatch_total [OF g(2) q] by blast
  with b1 show ?thesis by (simp add: hash_findings_def)
qed

text \<open>The evaluator never throws, whatever the verifier does.\<close>

lemma evaluate_case_total: "\<exists>r s'. evaluate_case E V i s = (Inr r, s') \<and> cr_id r = (case try_parse_case E (pce_json i) of
    None \<Rightarrow> pce_id i | Some k \<Rightarrow> pcs_id k)"
proof (cases "try_parse_case E (pce_json i)")
  case (Some k)
  obtain h where h: "calculate_input_hash (pe_host E) k = Inr h" using try_parse_case_guard(3) [OF Some] by blast
  let ?w = "pap_verification (pcs_ap2 k)"
  obtain r s' where v: "V (pvr_evidence ?w) (pcs_now k) (pvr_skew ?w) s = (r, s')" by (cases "V (pvr_evidence ?w) (pcs_now k) (pvr_skew ?w) s")
  obtain fs where "hash_findings E k (structured_of r) = Inr fs" using hash_findings_total [OF Some] by blast
  then show ?thesis by (simp add: evaluate_case_def Some bind_io_apply h v case_outcome_def case_findings_def Let_def)
qed (simp add: evaluate_case_def)

subsection \<open>Accepted means that nothing was found\<close>

definition nothing_found :: "finding list \<Rightarrow> bool" where
  "nothing_found fs \<longleftrightarrow> list_all (\<lambda>f. \<not> snd f) fs"

lemma nothing_found_simps [simp]:
  "nothing_found []" "nothing_found (f # fs) \<longleftrightarrow> \<not> snd f \<and> nothing_found fs"
  "nothing_found (fs @ gs) \<longleftrightarrow> nothing_found fs \<and> nothing_found gs"
  by (simp_all add: nothing_found_def)

lemma nothing_found_concat: "nothing_found (concat (map g xs)) \<longleftrightarrow> (\<forall>x\<in>set xs. nothing_found (g x))"
  by (induction xs) auto

lemma nothing_found_map: "nothing_found (map g xs) \<longleftrightarrow> (\<forall>x\<in>set xs. \<not> snd (g x))"
  by (simp add: nothing_found_def list_all_iff)

lemma no_codes_found: "ordered_failures (collect_failures fs) = [] \<longleftrightarrow> nothing_found fs"
  by (simp add: no_codes nothing_found_def list_all_iff)

text \<open>A stage that is not verified is reported: if nothing is found, every mandatory check was made and passed.\<close>

lemma nothing_found_complete:
  assumes "nothing_found (verification_findings E k x)" "nothing_found (mandate_findings E k x)"
  shows "all_mandatory_valid E x"
proof -
  from assms obtain r where x: "x = Some r"
    by (cases x) (auto simp: verification_findings_def Let_def)
  from assms have stages: "\<not> (\<not> all_stages_verified x \<and> \<not> explicit_invalid_stage x)"
    and op: "\<not> (stage_is (\<lambda>r. claims_status (str_open r)) StatusInvalid x \<or>
        stage_is (\<lambda>r. claims_status (str_open r)) StatusVerified x \<and> verified_open E x = None)"
    and cl: "\<not> (stage_is (\<lambda>r. closed_status (str_closed r)) StatusInvalid x \<or>
        stage_is (\<lambda>r. closed_status (str_closed r)) StatusVerified x \<and> verified_closed E x = None)"
    and ky: "\<not> stage_is str_key StatusInvalid x"
    and rc: "\<not> (stage_is (\<lambda>r. claims_status (str_receipt r)) StatusInvalid x \<or>
        stage_is (\<lambda>r. claims_status (str_receipt r)) StatusVerified x \<and> verified_receipt x = None)"
    and tm: "\<not> stage_is (\<lambda>r. tmr_status (str_time r)) StatusInvalid x"
    by (auto simp: verification_findings_def mandate_findings_def Let_def)
  have "\<not> explicit_invalid_stage x"
    using op cl ky rc tm by (auto simp: x explicit_invalid_stage_def mandatory_stages_def stage_is_def)
  with stages have all: "all_stages_verified x" by blast
  then have "stage_is (\<lambda>r. claims_status (str_open r)) StatusVerified x" "stage_is (\<lambda>r. closed_status (str_closed r)) StatusVerified x"
    "stage_is (\<lambda>r. claims_status (str_receipt r)) StatusVerified x"
    by (auto simp: x all_stages_verified_def mandatory_stages_def stage_is_def)
  with op cl rc all show ?thesis by (auto simp: all_mandatory_valid_def)
qed

lemma case_outcome_found:
  assumes "case_outcome E k h x = Inr r"
  obtains fs where "case_findings E k h x = Inr fs" "cr_id r = pcs_id k"
    "cr_codes r = ordered_failures (collect_failures fs)" "cr_accept r \<longleftrightarrow> nothing_found fs"
proof -
  from assms obtain fs where fs: "case_findings E k h x = Inr fs"
    and r: "r = \<lparr>cr_id = pcs_id k, cr_accept = (all_mandatory_valid E x \<and> ordered_failures (collect_failures fs) = []),
      cr_codes = ordered_failures (collect_failures fs)\<rparr>"
    by (auto simp: case_outcome_def bind_sum_Inr Let_def)
  have "all_mandatory_valid E x" if "nothing_found fs"
    using fs that nothing_found_complete by (auto simp: case_findings_def bind_sum_Inr)
  then have "cr_accept r \<longleftrightarrow> nothing_found fs" by (auto simp: r no_codes_found)
  with fs r that show thesis by simp
qed

lemma evaluate_case_accept:
  assumes "evaluate_case E V i s = (Inr r, s')"
  shows "cr_accept r \<longleftrightarrow> cr_codes r = []"
proof (cases "try_parse_case E (pce_json i)")
  case (Some k)
  with assms obtain h x where "case_outcome E k h x = Inr r"
    by (auto simp: evaluate_case_def bind_io_apply Let_def split: sum.splits prod.splits)
  then show ?thesis by (elim case_outcome_found) (simp add: no_codes_found)
qed (use assms in \<open>auto simp: evaluate_case_def\<close>)

lemma evaluate_bundle_total:
  "\<exists>rs s'. evaluate_bundle E V is s = (Inr rs, s') \<and> length rs = length is \<and>
    list_all (\<lambda>r. cr_accept r \<longleftrightarrow> cr_codes r = []) rs"
proof (induction "is" arbitrary: s)
  case (Cons i "is")
  obtain r s1 where r: "evaluate_case E V i s = (Inr r, s1)" using evaluate_case_total [of E V i s] by blast
  obtain rs s2 where "evaluate_bundle E V is s1 = (Inr rs, s2)" "length rs = length is"
    "list_all (\<lambda>r. cr_accept r \<longleftrightarrow> cr_codes r = []) rs"
    using Cons.IH [of s1] by blast
  with r evaluate_case_accept [OF r] show ?case by (simp add: bind_io_apply)
qed simp

end
