(* ===== verification/PulseSound.thy ===== *)
theory PulseSound
  imports PulseEval
begin

section \<open>What an accepted conformance case establishes\<close>

text \<open>
  The contract of the evaluator (\<open>pulse-conformance-evaluator/src/evaluator.ts\<close>), stated over mandates and
  payments instead of failure codes, with the proof that an accepted case meets it: the closed mandate obeys every
  constraint of the open one, both as given and as verified, the signed transfer is the payment of the mandate,
  its nonce is the hash of the signed mandate, and the settlement and the receipt report that transfer.
\<close>

subsection \<open>The contract\<close>

fun constraint_holds :: "host \<Rightarrow> closed_mandate \<Rightarrow> string \<Rightarrow> pulse_constraint \<Rightarrow> bool" where
  "constraint_holds H c checkout (OtherConstraint t) \<longleftrightarrow> False"
| "constraint_holds H c checkout (ReferenceConstraint r) \<longleftrightarrow> r = checkout"
| "constraint_holds H c checkout (InstrumentsConstraint xs) \<longleftrightarrow> (\<exists>i\<in>set xs. instruments_match H i (pcm_instrument c))"
| "constraint_holds H c checkout (RangeConstraint cur lo hi) \<longleftrightarrow>
     pam_currency (pcm_amount c) = cur \<and> lo \<le> pam_amount (pcm_amount c) \<and> pam_amount (pcm_amount c) \<le> hi"
| "constraint_holds H c checkout (PayeesConstraint ms) \<longleftrightarrow>
     pmr_id (pcm_payee c) \<noteq> [] \<and> pmr_id (pcm_payee c) \<in> set (map pmr_id ms)"

definition mandate_permits :: "host \<Rightarrow> open_mandate \<Rightarrow> closed_mandate \<Rightarrow> string \<Rightarrow> int \<Rightarrow> bool" where
  "mandate_permits H q c checkout now \<longleftrightarrow>
     pcm_transaction_id c = checkout \<and>
     list_all (constraint_holds H c checkout) (pom_constraints q) \<and>
     set supported_constraints \<subseteq> set (map constraint_type (pom_constraints q)) \<and>
     pom_iat q \<le> now \<and> now < pom_exp q \<and> pcm_iat c \<le> now \<and> now < pcm_exp c"

text \<open>The payment profile of the mandate and the requirements agree on amount, asset, network, recipient and payer.\<close>

definition profile_agrees :: "pulse_env \<Rightarrow> x402_extension \<Rightarrow> pulse_requirements \<Rightarrow> authorization \<Rightarrow> bool" where
  "profile_agrees E x q a \<longleftrightarrow>
     pxt_amount x = prq_amount q \<and> pxt_network x = prq_network q \<and> pxt_timeout x = prq_timeout q \<and>
     addresses_equal E (pxt_asset x) (prq_asset q) \<and> addresses_equal E (pxt_pay_to x) (prq_pay_to q) \<and>
     addresses_equal E (pxt_payer x) (pau_from a)"

definition transfer_signed :: "pulse_env \<Rightarrow> conformance_case \<Rightarrow> bool" where
  "transfer_signed E k \<longleftrightarrow>
     (let p = pxs_payload (pcs_x402 k); a = ppl_authorization p; q = pxs_requirements (pcs_x402 k);
          vb = int (digits_value (pau_valid_before a)) in
      pau_value a = prq_amount q \<and> addresses_equal E (pau_to a) (prq_pay_to q) \<and>
      int (digits_value (pau_valid_after a)) < pcs_now k \<and> pcs_now k + 6 \<le> vb \<and> vb \<le> pcs_now k + prq_timeout q \<and>
      verify_eip3009 E q a (ppl_signature p))"

definition settled_as_signed :: "pulse_env \<Rightarrow> conformance_case \<Rightarrow> bool" where
  "settled_as_signed E k \<longleftrightarrow>
     (let a = ppl_authorization (pxs_payload (pcs_x402 k)); q = pxs_requirements (pcs_x402 k); s = pxs_settlement (pcs_x402 k) in
      pst_success s \<and> pst_network s = prq_network q \<and> addresses_equal E (pst_payer s) (pau_from a) \<and>
      hex32 (pst_transaction s) \<and> (\<forall>n. pst_amount s = Some n \<longrightarrow> n = pau_value a))"

text \<open>The nonce of the transfer is the SHA-256 hash of the issuer-signed token.\<close>

definition nonce_of_token :: "pulse_env \<Rightarrow> conformance_case \<Rightarrow> string \<Rightarrow> bool" where
  "nonce_of_token E k j \<longleftrightarrow>
     to_lower (pau_nonce (ppl_authorization (pxs_payload (pcs_x402 k)))) = ''0x'' @ sha256_hex (pe_host E) (utf8 j)"

definition accepted_case :: "pulse_env \<Rightarrow> conformance_case \<Rightarrow> structured_result \<Rightarrow> bool" where
  "accepted_case E k r \<longleftrightarrow>
     (\<exists>q c rc v j. verified_open E (Some r) = Some q \<and> verified_closed E (Some r) = Some c \<and>
       verified_receipt (Some r) = Some rc \<and> str_closed r = ClosedVerified v j \<and>
       claims_status (str_open r) = StatusVerified \<and> closed_status (str_closed r) = StatusVerified \<and>
       str_key r = StatusVerified \<and> tmr_status (str_time r) = StatusVerified \<and> claims_status (str_receipt r) = StatusVerified \<and>
       (\<forall>p\<in>{(q, c), (pap_open (pcs_ap2 k), pap_closed (pcs_ap2 k))}.
          mandate_permits (pe_host E) (fst p) (snd p) (pvr_checkout (pap_verification (pcs_ap2 k))) (pcs_now k) \<and>
          (\<forall>x. pin_x402 (pcm_instrument (snd p)) = Some x \<longrightarrow>
             profile_agrees E x (pxs_requirements (pcs_x402 k)) (ppl_authorization (pxs_payload (pcs_x402 k)))) \<and>
          int (digits_value (pau_valid_before (ppl_authorization (pxs_payload (pcs_x402 k))))) \<le>
            min (pom_exp (fst p)) (pcm_exp (snd p))) \<and>
       prc_reference rc = sha256_base64url (pe_host E) (utf8 j) \<and> prc_success rc \<and>
       prc_network_confirmation rc = Some (pst_transaction (pxs_settlement (pcs_x402 k))) \<and>
       prq_mandate_reference (pxs_requirements (pcs_x402 k)) = sha256_base64url (pe_host E) (utf8 j) \<and>
       nonce_of_token E k j \<and> transfer_signed E k \<and> settled_as_signed E k)"

subsection \<open>Parts of the contract\<close>

lemma constraint_findings_sound:
  "nothing_found (constraint_findings H c checkout k) \<longleftrightarrow> constraint_holds H c checkout k"
  by (cases k) (auto simp: Let_def list_ex_iff image_iff intro: sym)

lemma constraints_findings_sound:
  assumes "nothing_found (constraints_findings H q c checkout)"
  shows "list_all (constraint_holds H c checkout) (pom_constraints q) \<and>
    set supported_constraints \<subseteq> set (map constraint_type (pom_constraints q))"
  using assms
  by (auto simp: constraints_findings_def nothing_found_concat nothing_found_map constraint_findings_sound list_all_iff)

lemma pair_findings_sound:
  assumes "nothing_found (pair_findings E k (q, c))"
  shows "mandate_permits (pe_host E) q c (pvr_checkout (pap_verification (pcs_ap2 k))) (pcs_now k)"
    and "pin_x402 (pcm_instrument c) = Some x \<Longrightarrow> nothing_found (ap2_x402_findings E x (pxs_requirements (pcs_x402 k)) c)"
proof -
  let ?checkout = "pvr_checkout (pap_verification (pcs_ap2 k))"
  from assms have f: "nothing_found (constraints_findings (pe_host E) q c ?checkout)" "pcm_transaction_id c = ?checkout"
      "pom_iat q \<le> pcs_now k" "pcs_now k < pom_exp q" "pcm_iat c \<le> pcs_now k" "pcs_now k < pcm_exp c"
    by (auto simp: pair_findings_def Let_def)
  with constraints_findings_sound [OF f(1)]
  show "mandate_permits (pe_host E) q c ?checkout (pcs_now k)" by (simp add: mandate_permits_def)
  show "pin_x402 (pcm_instrument c) = Some x \<Longrightarrow> nothing_found (ap2_x402_findings E x (pxs_requirements (pcs_x402 k)) c)"
    using assms by (auto simp: pair_findings_def Let_def)
qed

lemma authorization_findings_sound:
  assumes "nothing_found (authorization_findings E k x)"
  shows "transfer_signed E k"
    and "p \<in> set (mandate_pairs E k x) \<Longrightarrow>
      (\<forall>e. pin_x402 (pcm_instrument (snd p)) = Some e \<longrightarrow> addresses_equal E (pxt_payer e) (pau_from (ppl_authorization (pxs_payload (pcs_x402 k))))) \<and>
      int (digits_value (pau_valid_before (ppl_authorization (pxs_payload (pcs_x402 k))))) \<le> min (pom_exp (fst p)) (pcm_exp (snd p))"
  using assms
  by (auto simp: authorization_findings_def time_findings_def transfer_signed_def safety_buffer_def Let_def
      nothing_found_map split: option.splits)

lemma ap2_x402_findings_sound:
  assumes "nothing_found (ap2_x402_findings E x q c)" "addresses_equal E (pxt_payer x) (pau_from a)"
  shows "profile_agrees E x q a"
  using assms by (auto simp: ap2_x402_findings_def profile_agrees_def Let_def)

lemma settlement_findings_sound:
  assumes "nothing_found (settlement_findings E k)" "transfer_signed E k"
  shows "settled_as_signed E k"
  using assms by (auto simp: settlement_findings_def settled_as_signed_def transfer_signed_def Let_def split: option.splits)

subsection \<open>The nonce\<close>

lemma hex_char_digits:
  assumes "hex_char c"
  shows "hex_value c < 16 \<and> (if hex_value c < 10 then char_of (hex_value c + 48) else char_of (hex_value c + 87)) = c"
proof -
  let ?n = "of_char c :: nat"
  from assms have "48 \<le> ?n \<and> ?n \<le> 57 \<or> 97 \<le> ?n \<and> ?n \<le> 102" by (simp add: hex_char_def Let_def)
  then have "hex_value c < 16" "(if hex_value c < 10 then hex_value c + 48 else hex_value c + 87) = ?n"
    by (auto simp: hex_value_def Let_def)
  then show ?thesis by (metis char_of_char)
qed

lemma hex_text_bytes: "list_all hex_char s \<Longrightarrow> even (length s) \<Longrightarrow> hex_text (hex_bytes s) = s"
proof (induction s rule: hex_bytes.induct)
  case (1 a b s)
  then have a: "hex_value a < 16" "hex_value b < 16" using hex_char_digits by auto
  then have "(of_char (char_of (hex_value a * 16 + hex_value b) :: char) :: nat) = hex_value a * 16 + hex_value b" by simp
  then show ?case using 1 a hex_char_digits [of a] hex_char_digits [of b]
    by (simp add: hex_text_def Let_def split: if_splits)
qed (auto simp: hex_text_def)

lemma hex_bytes_length: "length (hex_bytes s) = length s div 2"
  by (induction s rule: hex_bytes.induct) auto

lemma expected_nonce_of_hash:
  assumes "sha_ok H"
  shows "expected_nonce (sha256_base64url H bs) = Some (''0x'' @ sha256_hex H bs)"
  using assms hex_text_bytes [of "sha256_hex H bs"]
  by (simp add: expected_nonce_def sha256_base64url_def b64url_roundtrip hex_bytes_length sha_ok_def)

subsection \<open>Acceptance\<close>

lemma verified_closed_reference:
  assumes "verified_closed E (Some r) = Some c"
  obtains v j where "str_closed r = ClosedVerified v j"
    "derived_reference E (Some r) = Some (sha256_base64url (pe_host E) (utf8 j))"
  using assms that by (auto simp: verified_closed_def derived_reference_def split: closed_result.splits)

lemma case_findings_sound:
  assumes "sha_ok (pe_host E)" "case_findings E k h x = Inr fs" "nothing_found fs"
  obtains r where "x = Some r" "accepted_case E k r"
proof -
  from assms(2,3) have f: "nothing_found (verification_findings E k x)" "nothing_found (mandate_findings E k x)"
      "nothing_found (receipt_findings E k x)" "nothing_found (requirement_findings E k x)"
      "nothing_found (authorization_findings E k x)" "nothing_found (settlement_findings E k)"
    by (auto simp: case_findings_def bind_sum_Inr)
  from nothing_found_complete [OF f(1,2)] obtain q c rc r where x: "x = Some r" and all: "all_stages_verified x"
    and v: "verified_open E x = Some q" "verified_closed E x = Some c" "verified_receipt x = Some rc"
    by (cases x) (auto simp: all_mandatory_valid_def all_stages_verified_def)
  have st: "claims_status (str_open r) = StatusVerified \<and> closed_status (str_closed r) = StatusVerified \<and>
      str_key r = StatusVerified \<and> tmr_status (str_time r) = StatusVerified \<and> claims_status (str_receipt r) = StatusVerified"
    using all x by (simp add: all_stages_verified_def mandatory_stages_def)
  then have pairs: "set (mandate_pairs E k x) = {(q, c), (pap_open (pcs_ap2 k), pap_closed (pcs_ap2 k))}"
    using v by (auto simp: mandate_pairs_def mandatory_stages_def stage_is_def x)
  obtain w j where j: "str_closed r = ClosedVerified w j"
      "derived_reference E x = Some (sha256_base64url (pe_host E) (utf8 j))"
    using verified_closed_reference v(2) x by blast
  have pair: "mandate_permits (pe_host E) (fst p) (snd p) (pvr_checkout (pap_verification (pcs_ap2 k))) (pcs_now k) \<and>
      (\<forall>e. pin_x402 (pcm_instrument (snd p)) = Some e \<longrightarrow>
         profile_agrees E e (pxs_requirements (pcs_x402 k)) (ppl_authorization (pxs_payload (pcs_x402 k)))) \<and>
      int (digits_value (pau_valid_before (ppl_authorization (pxs_payload (pcs_x402 k))))) \<le>
        min (pom_exp (fst p)) (pcm_exp (snd p))" if "p \<in> set (mandate_pairs E k x)" for p
  proof -
    have "nothing_found (pair_findings E k (fst p, snd p))"
      using f(2) that by (auto simp: mandate_findings_def Let_def nothing_found_concat)
    then show ?thesis
      using pair_findings_sound [of E k "fst p" "snd p"] authorization_findings_sound(2) [OF f(5) that] ap2_x402_findings_sound
      by blast
  qed
  have rc: "prc_reference rc = sha256_base64url (pe_host E) (utf8 j)" "prc_success rc"
      "prc_network_confirmation rc = Some (pst_transaction (pxs_settlement (pcs_x402 k)))"
    using f(3) v(3) j(2) by (auto simp: receipt_findings_def receipt_finding_list_def)
  have nn: "nonce_of_token E k j"
    using f(5) j(2) expected_nonce_of_hash [OF assms(1)]
    by (auto simp: authorization_findings_def Let_def nonce_of_token_def)
  have mr: "prq_mandate_reference (pxs_requirements (pcs_x402 k)) = sha256_base64url (pe_host E) (utf8 j)"
    using f(4) j(2) by (auto simp: requirement_findings_def Let_def)
  note ts = authorization_findings_sound(1) [OF f(5)]
  have "accepted_case E k r"
    unfolding accepted_case_def
    using v [unfolded x] j(1) st pair [unfolded pairs] rc mr nn ts settlement_findings_sound [OF f(6) ts] by blast
  with x show thesis by (rule that)
qed

lemma evaluate_case_sound:
  assumes "sha_ok (pe_host E)" "evaluate_case E V i s = (Inr r, s')" "cr_accept r"
  shows "\<exists>k raw x. try_parse_case E (pce_json i) = Some k \<and>
    V (pvr_evidence (pap_verification (pcs_ap2 k))) (pcs_now k) (pvr_skew (pap_verification (pcs_ap2 k))) s = (Inr raw, s') \<and>
    parse_structured_verification raw = Inr x \<and> accepted_case E k x \<and>
    calculate_input_hash (pe_host E) k = Inr (pcs_input_hash k)"
proof -
  let ?ask = "\<lambda>k. V (pvr_evidence (pap_verification (pcs_ap2 k))) (pcs_now k) (pvr_skew (pap_verification (pcs_ap2 k))) s"
  from assms(2,3) obtain k h q where k: "try_parse_case E (pce_json i) = Some k" "calculate_input_hash (pe_host E) k = Inr h"
    and q: "?ask k = (q, s')" and c: "case_outcome E k h (structured_of q) = Inr r"
    by (auto simp: evaluate_case_def bind_io_apply Let_def split: sum.splits prod.splits option.splits)
  from c assms(3) obtain fs where fs: "case_findings E k h (structured_of q) = Inr fs" "nothing_found fs"
    by (elim case_outcome_found) auto
  from case_findings_sound [OF assms(1) fs] obtain x where x: "structured_of q = Some x" "accepted_case E k x" by blast
  from x(1) obtain raw where "q = Inr raw" "parse_structured_verification raw = Inr x"
    by (auto simp: structured_of_def bind_sum_Inr split: sum.splits)
  moreover have "pcs_input_hash k = h" using fs by (auto simp: case_findings_def bind_sum_Inr)
  ultimately show ?thesis using k q x(2) by blast
qed

end
