(* ===== verification/PulsePrint.thy ===== *)
theory PulsePrint
  imports PulseJson
begin

section \<open>Printing what the strict reader reads\<close>

text \<open>
  \<open>JSON.stringify(value, null, 2)\<close>, which writes the blinded bundle that the evaluator reads
  (\<open>pulse-conformance-evaluator/src/input.ts\<close>). Lemmas: integers up to 2^53 are read exactly; reading back what is
  printed gives the value, for any printing of numbers that is read back as the same double; there is such a printing.
\<close>

subsection \<open>Numbers are doubles\<close>

lemma bit_length_bounds: "0 < n \<Longrightarrow> 2 ^ (bit_length n - 1) \<le> n \<and> n < 2 ^ bit_length n \<and> 0 < bit_length n"
proof (induction n rule: bit_length.induct)
  case (1 n)
  have b: "bit_length n = Suc (bit_length (n div 2))" using 1(2) by (subst bit_length.simps) simp
  show ?case
  proof (cases "n div 2 = 0")
    case True
    with 1(2) have "n = 1" by (simp add: div_eq_0_iff)
    then show ?thesis by (simp add: b bit_length.simps)
  next
    case False
    then have "2 ^ (bit_length (n div 2) - 1) \<le> n div 2 \<and> n div 2 < 2 ^ bit_length (n div 2) \<and> 0 < bit_length (n div 2)"
      using 1(1) 1(2) by blast
    moreover obtain k where "bit_length (n div 2) = Suc k" using calculation by (cases "bit_length (n div 2)") auto
    ultimately have k: "2 ^ k \<le> n div 2" "n div 2 < 2 * 2 ^ k" and n: "bit_length n = Suc (Suc k)" by (simp_all add: b)
    define p :: nat where "p = 2 ^ k"
    from k have "2 * p \<le> n" "n < 4 * p" unfolding p_def [symmetric] by linarith+
    then show ?thesis unfolding n p_def by simp
  qed
qed

lemma pow2_pos: "0 < pow2 e"
  by (simp add: pow2_def)

lemma pow2_powi: "pow2 e = 2 powi e"
  by (simp add: pow2_def power_int_def inverse_eq_divide power_one_over)

lemma pow2_mono: "e \<le> f \<Longrightarrow> pow2 e \<le> pow2 f"
  by (simp add: pow2_powi power_int_increasing)

lemma pow2_less: "pow2 e < pow2 f \<Longrightarrow> e < f"
  using pow2_mono [of f e] by (meson not_le)

lemma floor_log2_le:
  assumes "0 < q"
  shows "pow2 (floor_log2 q) \<le> q"
proof -
  obtain a b where ab: "quotient_of q = (a, b)" by (cases "quotient_of q")
  have b: "0 < b" using quotient_of_denom_pos [OF ab] .
  have q: "q = of_int a / of_int b" using quotient_of_div [OF ab] .
  with assms b have a: "0 < a" by (simp add: zero_less_divide_iff)
  obtain m where m: "bit_length (nat a) = Suc m" "2 ^ m \<le> nat a"
    using bit_length_bounds [of "nat a"] a by (cases "bit_length (nat a)") auto
  define n where "n = bit_length (nat b)"
  have bn: "nat b < 2 ^ n" using bit_length_bounds [of "nat b"] b by (simp add: n_def)
  have A: "2 ^ m \<le> (of_int a :: rat)" using m(2) a
    by (metis (mono_tags) of_nat_le_iff of_nat_nat of_nat_numeral of_nat_power order_less_imp_le)
  have B: "(of_int b :: rat) \<le> 2 ^ n" using bn b
    by (metis (mono_tags) of_nat_le_iff of_nat_nat of_nat_numeral of_nat_power order_less_imp_le)
  have "pow2 (int m - int n) = 2 ^ m / 2 ^ n" by (simp add: pow2_powi power_int_diff)
  also have "\<dots> \<le> of_int a / of_int b" using A B a b by (intro frac_le) auto
  finally have "pow2 (int m - int n) \<le> q" by (simp add: q)
  then show ?thesis using ab m(1) by (simp add: floor_log2_def Let_def flip: n_def)
qed

lemma round_even_of_int [simp]: "round_even (of_int n) = n"
  by (simp add: round_even_def)

text \<open>Integers up to 2^53 are doubles: they are read exactly.\<close>

lemma to_double_integer:
  assumes "\<bar>n\<bar> < 2 ^ 53"
  shows "to_double (of_int n) = Some (of_int n)"
proof (cases "n = 0")
  case False
  define f where "f = floor_log2 \<bar>of_int n\<bar>"
  have pf: "pow2 f \<le> \<bar>of_int n\<bar>" unfolding f_def using False by (intro floor_log2_le) simp
  have n53: "\<bar>of_int n :: rat\<bar> < 2 ^ 53"
    by (metis (mono_tags) assms of_int_abs of_int_less_iff of_int_numeral of_int_power)
  also have "2 ^ 53 = pow2 53" by (simp add: pow2_def)
  finally have "f < 53" using pf by (intro pow2_less) (rule le_less_trans)
  define k where "k = nat (- max (- int double_scale) (f - 52))"
  have e: "max (- int double_scale) (f - 52) = - int k" using \<open>f < 53\<close> by (simp add: k_def)
  have p: "pow2 (- int k) = 1 / 2 ^ k" by (simp add: pow2_def)
  have m: "\<bar>of_int n :: rat\<bar> / pow2 (- int k) = of_int (\<bar>n\<bar> * 2 ^ k)" by (simp add: p)
  have r: "of_int (round_even (\<bar>of_int n\<bar> / pow2 (- int k))) * pow2 (- int k) = (\<bar>of_int n\<bar> :: rat)"
    unfolding m round_even_of_int by (simp add: p)
  have "(2 :: rat) ^ 53 \<le> 2 ^ double_range" by (rule power_increasing) (simp_all add: double_range_def)
  with n53 have "\<not> 2 ^ double_range \<le> \<bar>of_int n :: rat\<bar>" by linarith
  moreover have "(if of_int n < (0 :: rat) then - \<bar>of_int n\<bar> else \<bar>of_int n\<bar>) = (of_int n :: rat)" by (simp add: abs_if)
  ultimately show ?thesis using False
    by (simp only: to_double_def Let_def e r f_def [symmetric] of_int_eq_0_iff if_False)
qed (simp add: to_double_def)

lemma to_double_scaled:
  assumes "to_double q = Some x"
  shows "\<exists>m :: int. x * 2 ^ double_scale = of_int m"
proof (cases "q = 0")
  case True
  with assms show ?thesis by (auto simp: to_double_def intro: exI [of _ 0])
next
  case False
  define e where "e = max (- int double_scale) (floor_log2 \<bar>q\<bar> - 52)"
  define r where "r = round_even (\<bar>q\<bar> / pow2 e)"
  have "pow2 e * 2 ^ double_scale = pow2 (e + int double_scale)" by (simp add: pow2_powi power_int_add)
  also have "\<dots> = of_int (2 ^ nat (e + int double_scale))" by (simp add: pow2_def e_def)
  finally have k: "of_int z * pow2 e * 2 ^ double_scale = of_int (z * 2 ^ nat (e + int double_scale))" for z
    by (simp add: mult.assoc)
  have "to_double q = (if 2 ^ double_range \<le> of_int r * pow2 e then None
      else Some (if q < 0 then - (of_int r * pow2 e) else of_int r * pow2 e))"
    unfolding to_double_def Let_def e_def r_def by (simp only: if_not_P [OF False])
  with assms have "x = of_int r * pow2 e \<or> x = of_int (- r) * pow2 e" by (auto split: if_splits)
  then show ?thesis using k [of r] k [of "- r"] by (elim disjE) (simp only:, blast)+
qed

lemma floor_log2_gt:
  assumes "0 < q"
  shows "q < pow2 (floor_log2 q + 1)"
proof -
  obtain a b where ab: "quotient_of q = (a, b)" by (cases "quotient_of q")
  have b: "0 < b" using quotient_of_denom_pos [OF ab] .
  have q: "q = of_int a / of_int b" using quotient_of_div [OF ab] .
  with assms b have a: "0 < a" by (simp add: zero_less_divide_iff)
  define m where "m = bit_length (nat a)"
  have am: "nat a < 2 ^ m" using bit_length_bounds [of "nat a"] a by (simp add: m_def)
  obtain n where n: "bit_length (nat b) = Suc n" "2 ^ n \<le> nat b"
    using bit_length_bounds [of "nat b"] b by (cases "bit_length (nat b)") auto
  have A: "(of_int a :: rat) < 2 ^ m" using am a
    by (metis (mono_tags) of_nat_less_iff of_nat_nat of_nat_numeral of_nat_power order_less_imp_le)
  have B: "2 ^ n \<le> (of_int b :: rat)" using n(2) b
    by (metis (mono_tags) of_nat_le_iff of_nat_nat of_nat_numeral of_nat_power order_less_imp_le)
  have "q < 2 ^ m / 2 ^ n" unfolding q using A B a b by (intro frac_less) auto
  also have "\<dots> = pow2 (int m - int n)" by (simp add: pow2_powi power_int_diff)
  finally have "q < pow2 (int m - int n)" .
  moreover have "floor_log2 q = (if q < pow2 (int m - int n - 1) then int m - int n - 1 - 1 else int m - int n - 1)"
    using ab n(1) by (simp add: floor_log2_def Let_def diff_diff_eq flip: m_def) (simp add: algebra_simps)
  ultimately show ?thesis by simp
qed

lemma round_even_bounds: "0 \<le> y \<Longrightarrow> y < of_int n \<Longrightarrow> 0 \<le> round_even y \<and> round_even y \<le> n"
proof -
  assume y: "0 \<le> y" "y < of_int n"
  then have "0 \<le> \<lfloor>y\<rfloor>" "\<lfloor>y\<rfloor> < n" by (simp_all add: floor_less_iff)
  then show ?thesis by (auto simp: round_even_def Let_def)
qed

text \<open>A double is rounded to itself.\<close>

lemma to_double_exact:
  assumes "0 < x" "x = of_int r * pow2 e" "0 \<le> r" "r \<le> 2 ^ 53" "- int double_scale \<le> e" "\<not> 2 ^ double_range \<le> x"
  shows "to_double x = Some x"
proof -
  define f where "f = max (- int double_scale) (floor_log2 x - 52)"
  have "(of_int r :: rat) \<le> 2 ^ 53"
    using assms(4) by (metis (mono_tags) of_int_le_iff of_int_numeral of_int_power)
  then have "x \<le> pow2 53 * pow2 e"
    unfolding assms(2) using pow2_pos [of e] by (intro mult_right_mono) (simp_all add: pow2_def)
  also have "\<dots> = pow2 (e + 53)" by (simp add: pow2_powi power_int_add)
  finally have xe: "x \<le> pow2 (e + 53)" .
  have "\<exists>n :: int. x / pow2 f = of_int n"
  proof (cases "f \<le> e")
    case True
    have "x / pow2 f = of_int r * pow2 (e - f)" by (simp add: assms(2) pow2_powi power_int_diff)
    also have "\<dots> = of_int (r * 2 ^ nat (e - f))" using True by (simp add: pow2_def)
    finally show ?thesis by blast
  next
    case False
    then have "e + 53 \<le> floor_log2 x" using assms(5) by (simp add: f_def)
    then have "pow2 (e + 53) \<le> pow2 (floor_log2 x)" by (rule pow2_mono)
    also have "\<dots> \<le> x" using assms(1) by (rule floor_log2_le)
    finally have x: "x = pow2 (e + 53)" using xe by simp
    have "\<not> e + 53 < floor_log2 x"
    proof
      assume "e + 53 < floor_log2 x"
      then have "pow2 (e + 53 + 1) \<le> x" using pow2_mono [of "e + 53 + 1" "floor_log2 x"] floor_log2_le [OF assms(1)] by simp
      then show False using x pow2_pos [of "e + 53"] by (simp add: pow2_powi power_int_add)
    qed
    then have "f \<le> e + 53" using assms(5) by (simp add: f_def)
    then have "x / pow2 f = of_int (2 ^ nat (e + 53 - f))" by (simp add: x pow2_powi power_int_diff [symmetric]) (simp add: power_int_def)
    then show ?thesis by blast
  qed
  then obtain n :: int where n: "x / pow2 f = of_int n" by blast
  have "of_int (round_even (\<bar>x\<bar> / pow2 f)) * pow2 f = x"
    using assms(1) pow2_pos [of f] by (simp add: n) (simp flip: n)
  then show ?thesis using assms(1,6) by (simp add: to_double_def Let_def flip: f_def)
qed

lemma to_double_idem:
  assumes "to_double q = Some x"
  shows "to_double x = Some x"
proof -
  have neg: "to_double (- y) = Some (- y)" if "to_double y = Some y" "0 < y" for y
    using that by (simp add: to_double_def Let_def split: if_splits)
  show ?thesis
  proof (cases "q = 0")
    case True
    with assms show ?thesis by (auto simp: to_double_def)
  next
    case False
    define e where "e = max (- int double_scale) (floor_log2 \<bar>q\<bar> - 52)"
    define r where "r = round_even (\<bar>q\<bar> / pow2 e)"
    define y where "y = of_int r * pow2 e"
    have d: "to_double q = (if 2 ^ double_range \<le> y then None else Some (if q < 0 then - y else y))"
      unfolding to_double_def Let_def e_def r_def y_def by (simp only: if_not_P [OF False])
    have "\<bar>q\<bar> < pow2 (floor_log2 \<bar>q\<bar> + 1)" using False by (intro floor_log2_gt) simp
    also have "\<dots> \<le> pow2 (53 + e)" by (intro pow2_mono) (simp add: e_def)
    also have "\<dots> = of_int (2 ^ 53) * pow2 e" by (simp add: pow2_powi power_int_add)
    finally have "\<bar>q\<bar> / pow2 e < of_int (2 ^ 53)" using pow2_pos [of e] by (simp only: divide_less_eq if_True)
    then have r: "0 \<le> r" "r \<le> 2 ^ 53"
      using round_even_bounds [of "\<bar>q\<bar> / pow2 e" "2 ^ 53"] pow2_pos [of e] by (simp_all add: r_def)
    show ?thesis
    proof (cases "y = 0")
      case True
      then show ?thesis using assms d by (auto simp: to_double_def split: if_splits)
    next
      case ny: False
      then have "0 < y" using r pow2_pos [of e] by (simp add: y_def zero_less_mult_iff)
      moreover have "\<not> 2 ^ double_range \<le> y" using assms d by (auto split: if_splits)
      ultimately have "to_double y = Some y"
        using r by (intro to_double_exact [of y r e]) (simp_all add: y_def e_def)
      with neg [OF this \<open>0 < y\<close>] assms d show ?thesis by (auto split: if_splits)
    qed
  qed
qed

subsection \<open>Reading back what \<open>JSON.stringify\<close> prints\<close>

text \<open>\<open>JSON.stringify(v, null, 2)\<close> on values without lone surrogates. How a number is printed is a parameter; ECMAScript
  prints a finite number so that reading the text gives the number again.\<close>

definition hex_digit_unit :: "16 word \<Rightarrow> 16 word" where
  "hex_digit_unit n = (if n < 10 then n + 48 else n + 87)"

definition escape_unit :: "16 word \<Rightarrow> units" where
  "escape_unit c =
     (case map_of [(0x22 :: 16 word, cu CHR 0x22), (0x5C, cu CHR 0x5C), (8, cu CHR ''b''), (12, cu CHR ''f''),
        (10, cu CHR ''n''), (13, cu CHR ''r''), (9, cu CHR ''t'')] c of
        Some e \<Rightarrow> [cu CHR 0x5C, e]
      | None \<Rightarrow>
          if c < 32 then [cu CHR 0x5C, cu CHR ''u'', 48, 48, hex_digit_unit (c div 16), hex_digit_unit (c mod 16)] else [c])"

definition quote_units :: "units \<Rightarrow> units" where
  "quote_units s = cu CHR 0x22 # concat (map escape_unit s) @ [cu CHR 0x22]"

definition new_line :: "nat \<Rightarrow> units" where
  "new_line l = 10 # replicate (2 * l) 32"

fun sep_units :: "units list \<Rightarrow> units" where
  "sep_units [] = []"
| "sep_units [x] = x"
| "sep_units (x # xs) = x @ cu CHR '','' # sep_units xs"

fun stringify :: "(rat \<Rightarrow> units) \<Rightarrow> nat \<Rightarrow> ujson \<Rightarrow> units" where
  "stringify nt l UNull = latin ''null''"
| "stringify nt l (UBool b) = latin (if b then ''true'' else ''false'')"
| "stringify nt l (UNum q) = nt q"
| "stringify nt l (UStr s) = quote_units s"
| "stringify nt l (UArr xs) =
     (if xs = [] then latin ''[]''
      else cu CHR ''['' # sep_units (map (\<lambda>x. new_line (Suc l) @ stringify nt (Suc l) x) xs) @ new_line l @ [cu CHR '']''])"
| "stringify nt l (UObj ms) =
     (if ms = [] then [cu CHR 0x7B, cu CHR 0x7D]
      else cu CHR 0x7B # sep_units (map (\<lambda>m. new_line (Suc l) @ quote_units (fst m) @ latin '': '' @ stringify nt (Suc l) (snd m)) ms)
        @ new_line l @ [cu CHR 0x7D])"

text \<open>What may follow a number: the end of the text, or no unit that a number could go on with.\<close>

definition number_end :: "units \<Rightarrow> bool" where
  "number_end r \<longleftrightarrow> (case r of [] \<Rightarrow> True | c # _ \<Rightarrow> c = 10 \<or> c = cu CHR '','')"

definition prints_numbers :: "(rat \<Rightarrow> units) \<Rightarrow> bool" where
  "prints_numbers nt \<longleftrightarrow> (\<forall>q r. to_double q = Some q \<longrightarrow> number_end r \<longrightarrow>
     (\<exists>c t. nt q = c # t \<and> (digit_unit c \<or> c = cu CHR ''-'')) \<and> read_number (nt q @ r) = Inr (q, r))"

fun doubles :: "ujson \<Rightarrow> bool" where
  "doubles (UNum q) \<longleftrightarrow> to_double q = Some q"
| "doubles (UArr xs) \<longleftrightarrow> list_all doubles xs"
| "doubles (UObj ms) \<longleftrightarrow> list_all (\<lambda>m. doubles (snd m)) ms"
| "doubles _ \<longleftrightarrow> True"

definition control_read :: "16 word \<Rightarrow> bool" where
  "control_read c \<longleftrightarrow> hex4 48 48 (hex_digit_unit (c div 16)) (hex_digit_unit (c mod 16)) = Some c \<and>
     hex_digit_unit (c div 16) \<notin> {0x22, 0x5C} \<and> hex_digit_unit (c mod 16) \<notin> {0x22, 0x5C}"

lemma control_read_all: "list_all (\<lambda>n. control_read (of_nat n)) [0..<32]"
  by code_simp

lemma control_read:
  assumes "c < 32"
  shows "control_read c"
proof -
  from assms have "unat c < 32" by (simp add: word_less_nat_alt)
  then have "unat c \<in> {0..<32}" by simp
  with control_read_all have "control_read (of_nat (unat c))" unfolding list_all_iff set_upt by (rule bspec)
  then show ?thesis by simp
qed

text \<open>The three forms of a printed unit.\<close>

lemma escape_unit_cases:
  obtains (plain) "escape_unit c = [c]" "c \<noteq> 0x22" "c \<noteq> 0x5C" "\<not> c < 32"
    | (short) e where "escape_unit c = [0x5C, e]" "e \<noteq> cu CHR ''u''" "simple_escape e = Some c"
    | (long) x y where "escape_unit c = [0x5C, cu CHR ''u'', 48, 48, x, y]" "hex4 48 48 x y = Some c"
        "x \<notin> {0x22, 0x5C}" "y \<notin> {0x22, 0x5C}"
proof (cases "c = 0x22 \<or> c = 0x5C \<or> c = 8 \<or> c = 12 \<or> c = 10 \<or> c = 13 \<or> c = 9")
  case True
  then have "\<exists>e. escape_unit c = [0x5C, e] \<and> e \<noteq> cu CHR ''u'' \<and> simple_escape e = Some c"
    by (elim disjE) (simp_all add: escape_unit_def simple_escape_def)
  then show thesis using short by blast
next
  case False
  then have e: "escape_unit c =
      (if c < 32 then [0x5C, cu CHR ''u'', 48, 48, hex_digit_unit (c div 16), hex_digit_unit (c mod 16)] else [c])"
    by (simp add: escape_unit_def)
  show thesis
  proof (cases "c < 32")
    case True
    from control_read [OF True] have "hex4 48 48 (hex_digit_unit (c div 16)) (hex_digit_unit (c mod 16)) = Some c"
      "hex_digit_unit (c div 16) \<notin> {0x22, 0x5C}" "hex_digit_unit (c mod 16) \<notin> {0x22, 0x5C}"
      unfolding control_read_def by blast+
    moreover have "escape_unit c = [0x5C, cu CHR ''u'', 48, 48, hex_digit_unit (c div 16), hex_digit_unit (c mod 16)]"
      using e True by (simp only: if_True)
    ultimately show thesis by (rule long [rotated])
  next
    case no: False
    with e False show thesis by (intro plain) auto
  qed
qed

lemma scan_escape: "scan_body (escape_unit c @ s) = map_option (\<lambda>(b, t). (escape_unit c @ b, t)) (scan_body s)"
  by (cases c rule: escape_unit_cases; cases "scan_body s") auto

lemma unescape_escape: "unescape (escape_unit c @ s) = map_option ((#) c) (unescape s)"
  by (cases c rule: escape_unit_cases) simp_all

lemma read_quoted:
  assumes "well_formed s"
  shows "read_string (tl (quote_units s) @ r) = Inr (s, r)"
proof -
  have "scan_body (concat (map escape_unit s) @ 0x22 # r) = Some (concat (map escape_unit s), r)"
    by (induction s) (simp_all add: scan_escape)
  moreover have "unescape (concat (map escape_unit s)) = Some s"
    by (induction s) (simp_all add: unescape_escape)
  ultimately show ?thesis using assms by (simp add: read_string_def quote_units_def check_unicode_def)
qed

lemma skip_new_line: "skip_space (new_line l @ s) = skip_space s"
proof -
  have "dropWhile space_unit (replicate n 32 @ s) = dropWhile space_unit s" for n
    by (induction n) (simp_all add: space_unit_def)
  then show ?thesis by (simp add: skip_space_def new_line_def space_unit_def)
qed

lemma skip_unit: "\<not> space_unit c \<Longrightarrow> skip_space (c # r) = c # r"
  by (simp add: skip_space_def)

lemma read_value_space: "skip_space s = skip_space t \<Longrightarrow> read_value n s = read_value n t"
  by (cases n) simp_all

lemma number_end_simps [simp]:
  "number_end []" "number_end (44 # r)" "number_end (new_line l @ r)"
  by (simp_all add: number_end_def new_line_def)

lemma sep_units_Cons: "xs \<noteq> [] \<Longrightarrow> sep_units (x # xs) = x @ 44 # sep_units xs"
  by (cases xs) simp_all

lemma read_printed_items:
  assumes "\<And>x r. x \<in> set xs \<Longrightarrow> number_end r \<Longrightarrow> p (f x @ r) = Inr (x, r)" "\<And>x. f x \<noteq> []"
  shows "xs \<noteq> [] \<Longrightarrow> length xs \<le> n \<Longrightarrow>
    read_items p n (sep_units (map f xs) @ new_line l @ 93 # r) = Inr (xs, r)"
  using assms(1)
proof (induction xs arbitrary: n)
  case (Cons x xs)
  obtain m where n: "n = Suc m" using Cons.prems by (cases n) auto
  have p: "p (f x @ t) = Inr (x, t)" if "number_end t" for t using that Cons.prems(3) [of x] by simp
  show ?case
  proof (cases "xs = []")
    case True
    with n p assms(2) show ?thesis
      by (simp add: skip_new_line next_unit_def skip_unit space_unit_def)
  next
    case False
    with Cons n have "read_items p m (sep_units (map f xs) @ new_line l @ 93 # r) = Inr (xs, r)" by simp
    with False n p assms(2) show ?thesis
      by (simp add: sep_units_Cons next_unit_def skip_unit space_unit_def)
  qed
qed simp

definition print_member :: "nat \<Rightarrow> ('a \<Rightarrow> units) \<Rightarrow> units \<times> 'a \<Rightarrow> units" where
  "print_member l f m = new_line l @ quote_units (fst m) @ latin '': '' @ f (snd m)"

lemma read_printed_name:
  assumes "well_formed k" "k \<notin> set seen"
  shows "read_name seen (new_line l @ quote_units k @ latin '': '' @ s) = Inr (k, 32 # s)"
proof -
  have q: "quote_units k = 34 # tl (quote_units k)" by (simp add: quote_units_def)
  have "expect_unit 34 (skip_space (new_line l @ quote_units k @ latin '': '' @ s)) = Inr (tl (quote_units k) @ latin '': '' @ s)"
    unfolding skip_new_line by (subst q) (simp add: skip_space_def space_unit_def expect_unit_def next_unit_def)
  then show ?thesis using assms read_quoted [OF assms(1), of "latin '': '' @ s"]
    by (simp add: read_name_def latin_def skip_space_def space_unit_def expect_unit_def next_unit_def)
qed

lemma read_printed_members:
  assumes "\<And>m r. m \<in> set ms \<Longrightarrow> number_end r \<Longrightarrow> p (32 # f (snd m) @ r) = Inr (snd m, r)"
  shows "ms \<noteq> [] \<Longrightarrow> length ms \<le> n \<Longrightarrow> distinct (map fst ms) \<Longrightarrow> set (map fst ms) \<inter> set seen = {} \<Longrightarrow>
    list_all (\<lambda>m. well_formed (fst m)) ms \<Longrightarrow>
    read_members p n seen (sep_units (map (print_member k f) ms) @ new_line l @ 125 # r) = Inr (ms, r)"
  using assms
proof (induction ms arbitrary: n seen)
  case (Cons m ms)
  obtain i where n: "n = Suc i" using Cons.prems by (cases n) auto
  have p: "p (32 # f (snd m) @ t) = Inr (snd m, t)" if "number_end t" for t using that Cons.prems(6) [of m] by simp
  have nm: "read_name seen (print_member k f m @ t) = Inr (fst m, 32 # f (snd m) @ t)" for t
    using read_printed_name [of "fst m" seen k "f (snd m) @ t"] Cons.prems by (simp add: print_member_def)
  have ne: "print_member k f m \<noteq> []" by (simp add: print_member_def new_line_def)
  show ?case
  proof (cases "ms = []")
    case True
    with n p nm ne show ?thesis
      by (simp add: skip_new_line next_unit_def skip_unit space_unit_def)
  next
    case False
    with Cons n have "read_members p i (fst m # seen) (sep_units (map (print_member k f) ms) @ new_line l @ 125 # r) = Inr (ms, r)"
      by simp
    with False n p nm ne show ?thesis
      by (simp add: sep_units_Cons next_unit_def skip_unit space_unit_def)
  qed
qed simp

lemma sep_units_length: "(\<And>x. x \<in> set xs \<Longrightarrow> x \<noteq> []) \<Longrightarrow> length xs \<le> length (sep_units xs)"
proof (induction xs rule: sep_units.induct)
  case (3 x y zs)
  then have "1 \<le> length x" by (simp add: Suc_le_eq)
  with 3 show ?case by simp
qed (simp_all add: Suc_le_eq)

lemma sep_units_length_map:
  assumes "\<And>x. f x \<noteq> []"
  shows "length xs \<le> length (sep_units (map f xs))"
proof -
  have "y \<noteq> []" if "y \<in> set (map f xs)" for y using that assms by auto
  then show ?thesis using sep_units_length [of "map f xs"] by simp
qed

lemma read_scalar_literal:
  "read_scalar (latin ''true'' @ r) = Inr (UBool True, r)"
  "read_scalar (latin ''false'' @ r) = Inr (UBool False, r)"
  "read_scalar (latin ''null'' @ r) = Inr (UNull, r)"
  by (simp_all add: read_scalar_def read_literal_def literals_def latin_def)

lemma read_printed_number:
  assumes "prints_numbers nt" "to_double q = Some q" "number_end r"
  shows "read_value (Suc n) (nt q @ r) = Inr (UNum q, r)"
proof -
  from assms obtain c t where c: "nt q = c # t" "digit_unit c \<or> c = 45" and q: "read_number (nt q @ r) = Inr (q, r)"
    unfolding prints_numbers_def by fastforce
  have cs: "c \<notin> {116, 102, 110, 34, 123, 91, 32, 9, 13, 10}"
  proof (cases "c = 45")
    case False
    with c have "48 \<le> unat c" "unat c \<le> 57" by (auto simp: digit_unit_def word_le_nat_alt)
    then show ?thesis by auto
  qed simp
  then have "read_literal (nt q @ r) = None"
    by (auto simp: c read_literal_def literals_def latin_def)
  then have "read_scalar (nt q @ r) = Inr (UNum q, r)" by (simp add: read_scalar_def q)
  moreover have "\<not> space_unit c" "c \<notin> {34, 123, 91}" using cs by (auto simp: space_unit_def)
  ultimately show ?thesis by (simp add: c skip_unit starts_unit_def)
qed

lemma skip_space_idem [simp]: "skip_space (skip_space s) = skip_space s"
  by (simp add: skip_space_def)

lemma read_array:
  assumes "read_items (read_value n) (length s) s = Inr (xs, r)" "skip_space s = c # t" "c \<noteq> 93"
  shows "read_value (Suc n) (91 # s) = Inr (UArr xs, r)"
proof -
  have "s \<noteq> []" using assms(2) by (auto simp: skip_space_def)
  moreover have "read_value n (c # t) = read_value n s" by (rule read_value_space) (simp flip: assms(2))
  ultimately have "read_items (read_value n) (length s) (c # t) = read_items (read_value n) (length s) s"
    by (cases "length s") (simp_all only: read_items.simps list.distinct if_False)
  moreover have "length (c # t) \<le> length s" using skip_space_length [of s] by (simp only: assms(2))
  ultimately have "read_items (read_value n) (length (c # t)) (c # t) = Inr (xs, r)"
    using loop_bounds_enough(1) [of "c # t" "length s" n] assms(1) by simp
  with assms(2,3) show ?thesis by (simp add: skip_unit space_unit_def starts_unit_def)
qed

lemma read_object:
  assumes "read_members (read_value n) (length s) [] s = Inr (ms, r)" "skip_space s = c # t" "c \<noteq> 125"
  shows "read_value (Suc n) (123 # s) = Inr (UObj ms, r)"
proof -
  have "s \<noteq> []" using assms(2) by (auto simp: skip_space_def)
  moreover have "read_name [] (c # t) = read_name [] s" by (simp add: read_name_def flip: assms(2))
  ultimately have "read_members (read_value n) (length s) [] (c # t) = read_members (read_value n) (length s) [] s"
    by (cases "length s") (simp_all only: read_members.simps list.distinct if_False)
  moreover have "length (c # t) \<le> length s" using skip_space_length [of s] by (simp only: assms(2))
  ultimately have "read_members (read_value n) (length (c # t)) [] (c # t) = Inr (ms, r)"
    using loop_bounds_enough(2) [of "c # t" "length s" n "[]"] assms(1) by simp
  with assms(2,3) show ?thesis by (simp add: skip_unit space_unit_def starts_unit_def)
qed

lemma printed_head:
  assumes "prints_numbers nt" "doubles v"
  shows "\<exists>c t. stringify nt l v = c # t \<and> c \<noteq> 93 \<and> \<not> space_unit c"
proof (cases v)
  case (UNum q)
  with assms obtain c t where "nt q = c # t" "digit_unit c \<or> c = 45"
    unfolding prints_numbers_def using number_end_simps(1) by fastforce
  then show ?thesis using UNum by (auto simp: digit_unit_def space_unit_def)
qed (auto simp: latin_def space_unit_def quote_units_def)

text \<open>Reading back what was printed, with anything behind it that cannot be part of a number.\<close>

lemma read_printed:
  assumes nt: "prints_numbers nt"
  shows "levels v \<le> n \<Longrightarrow> names_distinct v \<Longrightarrow> names_allowed fb v \<Longrightarrow> doubles v \<Longrightarrow> number_end r \<Longrightarrow>
    read_value n (stringify nt l v @ r) = Inr (v, r)"
proof (induction n arbitrary: v l r)
  case 0
  then show ?case by (cases v) auto
next
  case (Suc n)
  show ?case
  proof (cases v)
    case UNull
    then show ?thesis using read_scalar_literal(3) [of r]
      by (simp add: latin_def skip_unit space_unit_def starts_unit_def)
  next
    case (UBool b)
    then show ?thesis using read_scalar_literal(1,2) [of r]
      by (cases b) (simp_all add: latin_def skip_unit space_unit_def starts_unit_def)
  next
    case (UNum q)
    with Suc.prems nt show ?thesis by (simp add: read_printed_number del: read_value.simps)
  next
    case (UStr s)
    with Suc.prems read_quoted [of s r] show ?thesis
      by (simp add: quote_units_def skip_unit space_unit_def starts_unit_def)
  next
    case (UArr xs)
    define f where "f = (\<lambda>x. new_line (Suc l) @ stringify nt (Suc l) x)"
    have x: "read_value n (f x @ t) = Inr (x, t)" if "x \<in> set xs" "number_end t" for x t
    proof -
      have "read_value n (stringify nt (Suc l) x @ t) = Inr (x, t)"
        using Suc.prems UArr that by (intro Suc.IH) (auto simp: list_all_iff fold_max_le)
      then show ?thesis using read_value_space [of "f x @ t" "stringify nt (Suc l) x @ t" n]
        by (simp add: f_def skip_new_line)
    qed
    show ?thesis
    proof (cases "xs = []")
      case False
      let ?s = "sep_units (map f xs) @ new_line l @ 93 # r"
      have ne: "f x \<noteq> []" for x by (simp add: f_def new_line_def)
      have "length xs \<le> length (sep_units (map f xs))" using ne by (rule sep_units_length_map)
      then have "read_items (read_value n) (length ?s) ?s = Inr (xs, r)"
        using x ne False by (intro read_printed_items) auto
      moreover obtain y ys where xs: "xs = y # ys" using False by (cases xs) auto
      obtain c t where c: "stringify nt (Suc l) y = c # t" "c \<noteq> 93" "\<not> space_unit c"
        using printed_head [OF nt, of y "Suc l"] Suc.prems UArr xs by auto
      have "\<exists>w. skip_space ?s = c # w"
        using c by (cases ys) (simp_all add: xs f_def skip_new_line skip_unit)
      then obtain w where "skip_space ?s = c # w" by blast
      moreover have "stringify nt l v @ r = 91 # ?s" using UArr False by (simp add: f_def)
      ultimately show ?thesis using c(2) UArr by (simp only: ujson.inject) (rule read_array, assumption+)
    qed (simp add: UArr latin_def skip_unit space_unit_def starts_unit_def)
  next
    case (UObj ms)
    define f where "f = stringify nt (Suc l)"
    have x: "read_value n (32 # f (snd m) @ t) = Inr (snd m, t)" if "m \<in> set ms" "number_end t" for m t
    proof -
      have "read_value n (f (snd m) @ t) = Inr (snd m, t)"
        unfolding f_def using Suc.prems UObj that by (intro Suc.IH) (auto simp: list_all_iff fold_max_le)
      moreover have "read_value n (32 # f (snd m) @ t) = read_value n (f (snd m) @ t)"
        by (rule read_value_space) (simp add: skip_space_def space_unit_def)
      ultimately show ?thesis by simp
    qed
    show ?thesis
    proof (cases "ms = []")
      case False
      let ?s = "sep_units (map (print_member (Suc l) f) ms) @ new_line l @ 125 # r"
      have ne: "print_member k f m \<noteq> []" for k m by (simp add: print_member_def new_line_def)
      have "length ms \<le> length (sep_units (map (print_member (Suc l) f) ms))"
        using ne by (rule sep_units_length_map)
      then have "read_members (read_value n) (length ?s) [] ?s = Inr (ms, r)"
        using x False Suc.prems UObj by (intro read_printed_members) (auto simp: list_all_iff)
      moreover obtain y ys where ms: "ms = y # ys" using False by (cases ms) auto
      have "skip_space ?s = 34 # tl (skip_space ?s)"
        by (cases ys) (simp_all add: ms print_member_def skip_new_line skip_unit quote_units_def space_unit_def)
      moreover have "stringify nt l v @ r = 123 # ?s" using UObj False by (simp add: f_def print_member_def [abs_def])
      ultimately show ?thesis using UObj by (simp only: ujson.inject) (rule read_object, assumption+, simp)
    qed (simp add: UObj latin_def skip_unit space_unit_def starts_unit_def)
  qed
qed

lemma read_scalar_doubles: "read_scalar s = Inr (v, r) \<Longrightarrow> doubles v"
  by (auto simp: read_scalar_def read_literal_def literals_def read_number_def bind_sum_Inr Let_def
      split: option.splits if_splits prod.splits dest: to_double_idem)

lemma read_value_doubles: "read_value n s = Inr (v, r) \<Longrightarrow> doubles v"
proof (induction n arbitrary: s v r)
  case (Suc n)
  have i: "list_all doubles vs" if "read_items (read_value n) k t = Inr (vs, u)" for k t vs u
    using Suc.IH that by (rule read_items_all)
  have m: "list_all (\<lambda>m. doubles (snd m)) ms" if "read_members (read_value n) k seen t = Inr (ms, u)" for k seen t ms u
    using read_members_all [of "read_value n" doubles k seen t ms u] Suc.IH that by blast
  from Suc.prems show ?case
    by (auto simp: Let_def bind_sum_Inr split: if_splits dest: i m read_scalar_doubles)
qed simp

theorem parse_stringify:
  assumes "prints_numbers nt" "levels v \<le> 101" "names_distinct v" "names_allowed fb v" "doubles v"
  shows "parse_strict_json fb (stringify nt 0 v @ [10]) = Inr v"
proof -
  have "read_value max_levels (stringify nt 0 v @ [10]) = Inr (v, [10])"
    using assms by (intro read_printed) (auto simp: max_levels_def number_end_def)
  moreover have "assert_json_value fb max_levels v = Inr ()"
    using assms by (simp add: assert_json_value_Inr max_levels_def)
  ultimately show ?thesis by (simp add: parse_strict_json_def skip_space_def space_unit_def)
qed

text \<open>Whatever the strict reader accepted is printed to a text it reads the same.\<close>

lemma parse_stringify_parse:
  assumes "prints_numbers nt" "parse_strict_json fb s = Inr v"
  shows "parse_strict_json fb (stringify nt 0 v @ [10]) = Inr v"
proof -
  from assms(2) obtain r where "read_value max_levels s = Inr (v, r)"
    by (auto simp: parse_strict_json_def bind_sum_Inr split: if_splits)
  then have "doubles v" by (rule read_value_doubles)
  with parse_strict_json_sound [OF assms(2)] assms(1) show ?thesis by (intro parse_stringify) auto
qed

subsection \<open>Numbers can be printed\<close>

text \<open>Every double has a decimal text, if a long one: its multiple of 2^-1074 with an exponent.\<close>

definition exact_number :: "rat \<Rightarrow> units" where
  "exact_number q =
     (if q < 0 then latin ''-'' else []) @
       latin (nat_string (nat \<lfloor>\<bar>q\<bar> * 10 ^ double_scale\<rfloor>) @ ''e-'' @ nat_string double_scale)"

lemma digit_unit_latin: "digit_unit (cu c) \<longleftrightarrow> is_digit c"
  by (simp add: digit_unit_def is_digit_def word_le_nat_alt latin_unit)

lemma units_value_latin: "units_value (latin s) = digits_value s"
proof (induction s rule: rev_induct)
  case (snoc c s)
  then show ?case by (simp add: units_value_def latin_def latin_unit digit_value_def)
qed (simp add: units_value_def latin_def)

lemma digits_span:
  assumes "list_all is_digit s" "r = [] \<or> \<not> digit_unit (hd r)"
  shows "takeWhile digit_unit (latin s @ r) = latin s" "dropWhile digit_unit (latin s @ r) = r"
  using assms by (induction s) (auto simp: latin_def digit_unit_latin takeWhile_eq_Nil_iff dropWhile_eq_self_iff)

lemma int_part_latin:
  assumes "uint_string s" "r = [] \<or> \<not> digit_unit (hd r)"
  shows "int_part (latin s @ r) = Some (latin s, r)"
proof (cases "s = ''0''")
  case False
  with assms obtain c t where s: "s = c # t" "c \<noteq> CHR ''0''" "list_all is_digit (c # t)"
    unfolding uint_string_def by (cases s) auto
  have c: "cu c \<noteq> cu CHR ''0''"
  proof
    assume "(cu c :: 16 word) = cu CHR ''0''"
    then have "(of_char c :: nat) = of_char CHR ''0''" by (metis latin_unit)
    then have "c = CHR ''0''" by (metis char_of_char)
    with s(2) show False by blast
  qed
  show ?thesis using digits_span [OF s(3) assms(2)] c s
    by (simp add: int_part_def latin_def digit_unit_latin)
qed (simp add: int_part_def latin_def)

lemma prints_exact_number: "prints_numbers exact_number"
  unfolding prints_numbers_def
proof (intro allI impI conjI)
  fix q r
  assume d: "to_double q = Some q" and r: "number_end r"
  obtain m where m: "q * 2 ^ double_scale = of_int m" using to_double_scaled [OF d] by blast
  define N where "N = nat \<lfloor>\<bar>q\<bar> * 10 ^ double_scale\<rfloor>"
  have "\<bar>q\<bar> * 10 ^ double_scale = \<bar>q * 2 ^ double_scale\<bar> * 5 ^ double_scale"
    by (simp add: abs_mult power_mult_distrib [symmetric] mult.assoc)
  also have "\<dots> = of_int (\<bar>m\<bar> * 5 ^ double_scale)" by (simp add: m)
  finally have "of_nat N = \<bar>q\<bar> * 10 ^ double_scale" by (simp add: N_def)
  then have N: "of_nat N * pow10 (- int double_scale) = \<bar>q\<bar>" by (simp add: pow10_def)
  define z where "z = latin (''e-'' @ nat_string double_scale) @ r"
  let ?b = "latin (nat_string N) @ z"
  have rd: "r = [] \<or> \<not> digit_unit (hd r)" using r by (cases r) (auto simp: number_end_def digit_unit_def)
  have ip: "int_part ?b = Some (latin (nat_string N), z)"
    by (rule int_part_latin) (simp_all add: z_def latin_def digit_unit_def)
  have fp: "frac_part z = ([], z)"
    by (simp add: z_def frac_part_def latin_def)
  have "latin (nat_string double_scale) \<noteq> []" by (simp add: latin_def)
  then have ep: "exp_part z = (- int double_scale, r)"
    using digits_span [OF nat_string_digits rd, of double_scale] units_value_latin [of "nat_string double_scale"]
    by (simp add: z_def exp_part_def latin_def exp_sign_def)
  obtain c t where b: "nat_string N = c # t" "is_digit c"
    using nat_string_digits [of N] by (cases "nat_string N") auto
  have hd: "hd ?b \<noteq> 45" "?b \<noteq> []"
    using b digit_unit_latin [of c] by (auto simp: latin_def z_def digit_unit_def)
  have e: "exact_number q @ r = (if q < 0 then 45 # ?b else ?b)"
    by (simp add: exact_number_def latin_def z_def N_def)
  show "\<exists>c t. exact_number q = c # t \<and> (digit_unit c \<or> c = cu CHR ''-'')"
    using b digit_unit_latin [of c] by (auto simp: exact_number_def latin_def simp flip: N_def)
  show "read_number (exact_number q @ r) = Inr (q, r)"
  proof (cases "q < 0")
    case True
    then show ?thesis using N d by (simp add: e read_number_def Let_def ip fp ep units_value_latin)
  next
    case False
    then show ?thesis using N d hd by (simp add: e read_number_def Let_def ip fp ep units_value_latin)
  qed
qed

end
