(* ===== verification/PulseBundle.thy ===== *)
theory PulseBundle
  imports PulseSound PulsePrint
begin

section \<open>Bundles, blinding and the reproduction record\<close>

text \<open>
  \<open>pulse-conformance-evaluator/src\<close>: reading and blinding a bundle of cases (\<open>input.ts\<close>), the record of a run
  (\<open>record.ts\<close>) and the command line around them (\<open>cli.ts\<close>). Files, the URL parser, \<open>Date.parse\<close>, the clock and the
  description of the machine are parameters. The schemas work on code units below 256; a bundle with
  others is outside the model, and is told apart. Lemmas: a blinded bundle has no member \<open>expected\<close>
  at any depth and is read back as it was written; the record never refuses the results of the evaluator.
\<close>

subsection \<open>Bytes\<close>

text \<open>\<open>new TextDecoder("utf-8", { fatal: true })\<close>: well-formed UTF-8 only, as UTF-16, without a byte order mark.\<close>

definition tail_byte :: "nat \<Rightarrow> bool" where
  "tail_byte b \<longleftrightarrow> 128 \<le> b \<and> b \<le> 191"

definition utf16_units :: "nat \<Rightarrow> units" where
  "utf16_units p =
     (if p < 65536 then [of_nat p]
      else [of_nat (55296 + (p - 65536) div 1024), of_nat (56320 + (p - 65536) mod 1024)])"

fun utf8_points :: "nat list \<Rightarrow> nat list option" where
  "utf8_points [] = Some []"
| "utf8_points (a # r) =
     (if a < 128 then map_option ((#) a) (utf8_points r)
      else case r of
        b # r1 \<Rightarrow>
          if 194 \<le> a \<and> a \<le> 223 \<and> tail_byte b then map_option ((#) ((a - 192) * 64 + (b - 128))) (utf8_points r1)
          else (case r1 of
            c # r2 \<Rightarrow>
              if 224 \<le> a \<and> a \<le> 239 \<and> tail_byte b \<and> tail_byte c \<and> (a = 224 \<longrightarrow> 160 \<le> b) \<and> (a = 237 \<longrightarrow> b \<le> 159)
              then map_option ((#) ((a - 224) * 4096 + (b - 128) * 64 + (c - 128))) (utf8_points r2)
              else (case r2 of
                d # r3 \<Rightarrow>
                  if 240 \<le> a \<and> a \<le> 244 \<and> tail_byte b \<and> tail_byte c \<and> tail_byte d \<and> (a = 240 \<longrightarrow> 144 \<le> b) \<and> (a = 244 \<longrightarrow> b \<le> 143)
                  then map_option ((#) ((a - 240) * 262144 + (b - 128) * 4096 + (c - 128) * 64 + (d - 128))) (utf8_points r3)
                  else None
              | [] \<Rightarrow> None)
          | [] \<Rightarrow> None)
      | [] \<Rightarrow> None)"

definition decode_text :: "bytes \<Rightarrow> units option" where
  "decode_text bs =
     map_option (\<lambda>ps. concat (map utf16_units (case ps of p # qs \<Rightarrow> if p = 65279 then qs else ps | [] \<Rightarrow> [])))
       (utf8_points (map of_char bs))"

subsection \<open>Reading\<close>

definition max_input_bytes :: nat where
  "max_input_bytes = 16000000"

definition decode_error :: error where
  "decode_error = JsError ''TypeError'' ''The encoded data was not valid for encoding utf-8''"

definition parse_json_bytes :: "bytes \<Rightarrow> error + ujson" where
  "parse_json_bytes raw =
     (if raw = [] \<or> max_input_bytes < length raw
      then Inl (JsError ''TypeError'' ''Input size is outside the accepted range'')
      else case decode_text raw of
        None \<Rightarrow> Inl decode_error
      | Some t \<Rightarrow> with_error (parse_strict_json True t))"

text \<open>The value as the schemas take it, if its code units are below 256.\<close>

definition units_string :: "units \<Rightarrow> string option" where
  "units_string s = (if list_all (\<lambda>u. u < 256) s then Some (units_text s) else None)"

fun narrow_json :: "ujson \<Rightarrow> json option" where
  "narrow_json UNull = Some JNull"
| "narrow_json (UBool b) = Some (JBool b)"
| "narrow_json (UNum q) = Some (JNum q)"
| "narrow_json (UStr s) = map_option JStr (units_string s)"
| "narrow_json (UArr xs) = map_option JArr (those (map narrow_json xs))"
| "narrow_json (UObj ms) =
     map_option JObj (those (map (\<lambda>m. Option.bind (units_string (fst m)) (\<lambda>k. map_option (Pair k) (narrow_json (snd m)))) ms))"

definition wide_text :: error where
  "wide_text = JsError ''Unmodelled'' ''text with code units above 255''"

definition parse_bundle_units :: "pulse_env \<Rightarrow> ujson \<Rightarrow> error + case_envelope list" where
  "parse_bundle_units E v = (case narrow_json v of None \<Rightarrow> Inl wide_text | Some j \<Rightarrow> parse_conformance_bundle E j)"

definition parse_blinded_bundle :: "pulse_env \<Rightarrow> bytes \<Rightarrow> error + case_envelope list" where
  "parse_blinded_bundle E raw = bind_sum (parse_json_bytes raw) (parse_bundle_units E)"

subsection \<open>Blinding\<close>

definition fixture_sha256 :: string where
  "fixture_sha256 = ''8f40be1bdc3d4458f758100e91b418b6a335c5d8d358723f118e2d3e1ad84ee0''"

definition blind_case :: "ujson \<Rightarrow> error + ujson" where
  "blind_case v =
     (case v of
        UObj ms \<Rightarrow>
          if latin ''expected'' \<notin> set (map fst ms)
          then Inl (JsError ''TypeError'' ''Source fixture case is already missing expected'')
          else Inr (UObj (filter (\<lambda>m. fst m \<noteq> latin ''expected'') ms))
      | _ \<Rightarrow> Inl (JsError ''TypeError'' ''Fixture case must be an object''))"

fun blind_cases :: "ujson list \<Rightarrow> error + ujson list" where
  "blind_cases [] = Inr []"
| "blind_cases (v # vs) = bind_sum (blind_case v) (\<lambda>w. bind_sum (blind_cases vs) (\<lambda>ws. Inr (w # ws)))"

definition blind_bundle :: "ujson \<Rightarrow> error + ujson" where
  "blind_bundle v =
     (case v of
        UObj ms \<Rightarrow>
          (case map_of ms (latin ''cases'') of
             Some (UArr cs) \<Rightarrow> bind_sum (blind_cases cs) (\<lambda>ds. Inr (UObj (AList.update (latin ''cases'') (UArr ds) ms)))
           | _ \<Rightarrow> Inl (JsError ''TypeError'' ''Fixture cases must be an array''))
      | _ \<Rightarrow> Inl (JsError ''TypeError'' ''Fixture bundle must be an object''))"

text \<open>The text written to the output; \<open>nt\<close> prints numbers.\<close>

definition blind_fixture :: "pulse_env \<Rightarrow> (rat \<Rightarrow> units) \<Rightarrow> bytes \<Rightarrow> error + units" where
  "blind_fixture E nt raw =
     (if sha256_hex (pe_host E) raw \<noteq> fixture_sha256
      then Inl (JsError ''TypeError'' (''Raw fixture SHA-256 mismatch: expected '' @ fixture_sha256 @ '', received '' @
        sha256_hex (pe_host E) raw))
      else if raw = [] \<or> max_input_bytes < length raw
      then Inl (JsError ''TypeError'' ''Fixture size is outside the accepted range'')
      else case decode_text raw of
        None \<Rightarrow> Inl decode_error
      | Some t \<Rightarrow>
          bind_sum (with_error (parse_strict_json False t)) (\<lambda>v.
          bind_sum (blind_bundle v) (\<lambda>w.
          bind_sum (with_error (assert_json_value True max_levels w)) (\<lambda>_.
          bind_sum (parse_bundle_units E w) (\<lambda>_. Inr (stringify nt 0 w @ [10]))))))"

subsection \<open>The record of a run\<close>

fun code_string :: "failure_code \<Rightarrow> string" where
  "code_string INPUT_SCHEMA_INVALID = ''INPUT_SCHEMA_INVALID''"
| "code_string INPUT_HASH_MISMATCH = ''INPUT_HASH_MISMATCH''"
| "code_string AP2_CRYPTOGRAPHIC_EVIDENCE_INVALID = ''AP2_CRYPTOGRAPHIC_EVIDENCE_INVALID''"
| "code_string AP2_CLOSED_MANDATE_UNVERIFIED = ''AP2_CLOSED_MANDATE_UNVERIFIED''"
| "code_string AP2_OPEN_MANDATE_UNVERIFIED = ''AP2_OPEN_MANDATE_UNVERIFIED''"
| "code_string AP2_KEY_BINDING_UNVERIFIED = ''AP2_KEY_BINDING_UNVERIFIED''"
| "code_string AP2_CHECKOUT_BINDING_UNVERIFIED = ''AP2_CHECKOUT_BINDING_UNVERIFIED''"
| "code_string AP2_RECEIPT_UNVERIFIED = ''AP2_RECEIPT_UNVERIFIED''"
| "code_string AP2_CLOSED_MANDATE_REFERENCE_MISMATCH = ''AP2_CLOSED_MANDATE_REFERENCE_MISMATCH''"
| "code_string AP2_CLOSED_MANDATE_CLAIMS_HASH_MISMATCH = ''AP2_CLOSED_MANDATE_CLAIMS_HASH_MISMATCH''"
| "code_string AP2_OPEN_MANDATE_CLAIMS_HASH_MISMATCH = ''AP2_OPEN_MANDATE_CLAIMS_HASH_MISMATCH''"
| "code_string AP2_PAYMENT_REFERENCE_MISMATCH = ''AP2_PAYMENT_REFERENCE_MISMATCH''"
| "code_string AP2_CLOSED_TRANSACTION_ID_MISMATCH = ''AP2_CLOSED_TRANSACTION_ID_MISMATCH''"
| "code_string AP2_CONSTRAINT_VIOLATION = ''AP2_CONSTRAINT_VIOLATION''"
| "code_string AP2_UNSUPPORTED_CONSTRAINT = ''AP2_UNSUPPORTED_CONSTRAINT''"
| "code_string AP2_OPEN_PRESET_MISMATCH = ''AP2_OPEN_PRESET_MISMATCH''"
| "code_string AP2_VERIFICATION_CONTEXT_MISMATCH = ''AP2_VERIFICATION_CONTEXT_MISMATCH''"
| "code_string AP2_MANDATE_TIME_INVALID = ''AP2_MANDATE_TIME_INVALID''"
| "code_string AP2_PAYMENT_INSTRUMENT_NOT_ALLOWED = ''AP2_PAYMENT_INSTRUMENT_NOT_ALLOWED''"
| "code_string AP2_RECEIPT_NOT_SUCCESSFUL = ''AP2_RECEIPT_NOT_SUCCESSFUL''"
| "code_string AP2_RECEIPT_REFERENCE_MISMATCH = ''AP2_RECEIPT_REFERENCE_MISMATCH''"
| "code_string AP2_RECEIPT_TRANSACTION_MISMATCH = ''AP2_RECEIPT_TRANSACTION_MISMATCH''"
| "code_string AP2_X402_SCHEME_MISMATCH = ''AP2_X402_SCHEME_MISMATCH''"
| "code_string AP2_X402_NETWORK_MISMATCH = ''AP2_X402_NETWORK_MISMATCH''"
| "code_string AP2_X402_ASSET_MISMATCH = ''AP2_X402_ASSET_MISMATCH''"
| "code_string AP2_X402_AMOUNT_MISMATCH = ''AP2_X402_AMOUNT_MISMATCH''"
| "code_string AP2_X402_PAYEE_MISMATCH = ''AP2_X402_PAYEE_MISMATCH''"
| "code_string AP2_X402_COMMERCE_BINDING_MISMATCH = ''AP2_X402_COMMERCE_BINDING_MISMATCH''"
| "code_string AP2_X402_TIMEOUT_MISMATCH = ''AP2_X402_TIMEOUT_MISMATCH''"
| "code_string AP2_X402_EIP712_DOMAIN_MISMATCH = ''AP2_X402_EIP712_DOMAIN_MISMATCH''"
| "code_string X402_MANDATE_REFERENCE_MISMATCH = ''X402_MANDATE_REFERENCE_MISMATCH''"
| "code_string X402_ACCEPTED_REQUIREMENTS_MISMATCH = ''X402_ACCEPTED_REQUIREMENTS_MISMATCH''"
| "code_string X402_UNSUPPORTED_EXTENSION = ''X402_UNSUPPORTED_EXTENSION''"
| "code_string EIP3009_PAYER_MISMATCH = ''EIP3009_PAYER_MISMATCH''"
| "code_string EIP3009_RECIPIENT_MISMATCH = ''EIP3009_RECIPIENT_MISMATCH''"
| "code_string EIP3009_VALUE_MISMATCH = ''EIP3009_VALUE_MISMATCH''"
| "code_string EIP3009_VALID_AFTER_IN_FUTURE = ''EIP3009_VALID_AFTER_IN_FUTURE''"
| "code_string EIP3009_VALID_BEFORE_EXPIRED = ''EIP3009_VALID_BEFORE_EXPIRED''"
| "code_string EIP3009_VALIDITY_EXCEEDS_TIMEOUT = ''EIP3009_VALIDITY_EXCEEDS_TIMEOUT''"
| "code_string EIP3009_VALIDITY_EXCEEDS_AP2_EXPIRY = ''EIP3009_VALIDITY_EXCEEDS_AP2_EXPIRY''"
| "code_string EIP3009_NONCE_BINDING_MISMATCH = ''EIP3009_NONCE_BINDING_MISMATCH''"
| "code_string EIP3009_SIGNATURE_INVALID = ''EIP3009_SIGNATURE_INVALID''"
| "code_string SETTLEMENT_FAILED = ''SETTLEMENT_FAILED''"
| "code_string SETTLEMENT_NETWORK_MISMATCH = ''SETTLEMENT_NETWORK_MISMATCH''"
| "code_string SETTLEMENT_PAYER_MISMATCH = ''SETTLEMENT_PAYER_MISMATCH''"
| "code_string SETTLEMENT_AMOUNT_MISMATCH = ''SETTLEMENT_AMOUNT_MISMATCH''"
| "code_string SETTLEMENT_TRANSACTION_INVALID = ''SETTLEMENT_TRANSACTION_INVALID''"

definition result_json :: "case_result \<Rightarrow> json" where
  "result_json r = JObj
     [(''id'', JStr (cr_id r)), (''decision'', JStr (if cr_accept r then ''accept'' else ''reject'')),
      (''failureCodes'', JArr (map (\<lambda>c. JStr (code_string c)) (cr_codes r)))]"

record record_options =
  ro_commit :: string
  ro_organization :: string
  ro_published_url :: string
  ro_performed_at :: "string option"
  ro_repository_url :: "string option"
  ro_command :: "string option"
  ro_notes :: "string option"

text \<open>The machine and the runtime: the protocol of a URL it parses, whether \<open>Date.parse\<close> takes a text, the time now and
  the descriptions that go into the record.\<close>

record runtime =
  rt_protocol :: "string \<Rightarrow> string option"
  rt_date_ok :: "string \<Rightarrow> bool"
  rt_now :: string
  rt_version :: string
  rt_system :: string
  rt_arch :: string

definition require_url :: "runtime \<Rightarrow> string \<Rightarrow> string \<Rightarrow> error + string" where
  "require_url R url label =
     (case rt_protocol R url of
        None \<Rightarrow> Inl (JsError ''TypeError'' ''Invalid URL'')
      | Some p \<Rightarrow> if p \<noteq> ''https:'' then Inl (JsError ''TypeError'' (label @ '' must use HTTPS'')) else Inr url)"

definition git_sha :: "string \<Rightarrow> bool" where
  "git_sha s \<longleftrightarrow> length s = 40 \<and> list_all hex_char s"

definition record_dependencies :: "string list" where
  "record_dependencies =
     [''@x402/core 2.23.0'', ''@x402/evm 2.23.0'', ''canonicalize 3.0.0'', ''viem 2.55.8'', ''zod 4.4.3'',
      ''google-agentic-commerce/AP2 '' @ pulse_ap2_commit, ''cryptography 50.0.0'', ''jwcrypto 1.5.7'']"

definition reproduction_json :: "runtime \<Rightarrow> case_result list \<Rightarrow> record_options \<Rightarrow> string \<Rightarrow> string \<Rightarrow> string \<Rightarrow> json" where
  "reproduction_json R rs ro performed repository published = JObj
     [(''recordVersion'', JStr ''pulse-independent-reproduction/0.1''), (''performedAt'', JStr performed),
      (''implementation'', JObj
        [(''repositoryUrl'', JStr repository), (''commit'', JStr (ro_commit ro)), (''language'', JStr ''TypeScript and Python''),
         (''runtime'', JStr (''Node.js '' @ rt_version R @ ''; Python 3.12'')),
         (''command'', JStr (or_default (ro_command ro)
           ''pnpm pulse:evaluate -- --input evaluator-input.json --record reproduction.json'')),
         (''organization'', JStr (ro_organization ro)), (''independentOfPrimeBeat'', JBool True)]),
      (''fixture'', JObj
        [(''repositoryCommit'', JStr ''e06a6cbfe3ddb965c8fc70f50838f5014ec2038e''), (''path'', JStr ''fixtures/v0.3/cases.json''),
         (''sha256'', JStr fixture_sha256), (''caseCount'', JNum (of_nat case_count))]),
      (''environment'', JObj
        [(''operatingSystem'', JStr (rt_system R)), (''architecture'', JStr (rt_arch R)),
         (''dependencies'', JArr (map JStr record_dependencies))]),
      (''results'', JArr (map result_json rs)),
      (''notes'', JStr (or_default (ro_notes ro) ''Offline synthetic fixture evaluation only; no live settlement claim.'')),
      (''publishedUrl'', JStr published)]"

definition create_reproduction_record :: "runtime \<Rightarrow> case_result list \<Rightarrow> record_options \<Rightarrow> error + json" where
  "create_reproduction_record R rs ro =
     (if \<not> git_sha (ro_commit ro) then Inl (JsError ''TypeError'' ''implementationCommit must be a full lowercase Git SHA'')
      else if blank (ro_organization ro) then Inl (JsError ''TypeError'' ''organization is required'')
      else if length rs \<noteq> case_count \<or> length (remdups (map cr_id rs)) \<noteq> case_count
      then Inl (JsError ''TypeError'' ''The record must contain 80 unique case results'')
      else case find (\<lambda>r. cr_accept r \<noteq> (cr_codes r = [])) rs of
        Some r \<Rightarrow> Inl (JsError ''TypeError'' (''Decision and failure codes disagree for '' @ cr_id r))
      | None \<Rightarrow>
          let performed = or_default (ro_performed_at ro) (rt_now R) in
          if \<not> rt_date_ok R performed then Inl (JsError ''TypeError'' ''performedAt must be an ISO timestamp'')
          else bind_sum (require_url R (or_default (ro_repository_url ro)
              ''https://github.com/Inntris/inntris-x402-policy-adapter'') ''repositoryUrl'') (\<lambda>repository.
            bind_sum (require_url R (ro_published_url ro) ''publishedUrl'') (\<lambda>published.
            Inr (reproduction_json R rs ro performed repository published))))"

subsection \<open>The command line\<close>

definition dashed :: "string \<Rightarrow> bool" where
  "dashed s \<longleftrightarrow> take 2 s = ''--''"

fun parse_flags :: "(string \<times> string) list \<Rightarrow> string list \<Rightarrow> error + (string \<times> string) list" where
  "parse_flags flags [] = Inr flags"
| "parse_flags flags [k] =
     (if k = ''--'' then Inr flags else Inl (JsError ''TypeError'' (''Invalid command argument: '' @ k)))"
| "parse_flags flags (k # v # r) =
     (if k = ''--'' then parse_flags flags (v # r)
      else if \<not> dashed k \<or> dashed v then Inl (JsError ''TypeError'' (''Invalid command argument: '' @ k))
      else if k \<in> set (map fst flags) then Inl (JsError ''TypeError'' (''Duplicate command argument: '' @ k))
      else parse_flags (flags @ [(k, v)]) r)"

definition take_required :: "string \<Rightarrow> (string \<times> string) list \<Rightarrow> error + string \<times> (string \<times> string) list" where
  "take_required k flags =
     (case map_of flags k of
        None \<Rightarrow> Inl (JsError ''TypeError'' (k @ '' is required''))
      | Some v \<Rightarrow> if v = [] then Inl (JsError ''TypeError'' (k @ '' is required'')) else Inr (v, AList.delete k flags))"

definition take_optional :: "string \<Rightarrow> (string \<times> string) list \<Rightarrow> string option \<times> (string \<times> string) list" where
  "take_optional k flags = (map_of flags k, AList.delete k flags)"

definition reject_unknown :: "(string \<times> string) list \<Rightarrow> error + unit" where
  "reject_unknown flags =
     (case flags of [] \<Rightarrow> Inr () | f # _ \<Rightarrow> Inl (JsError ''TypeError'' (''Unknown command argument: '' @ fst f)))"

record evaluate_flags =
  ef_input :: string
  ef_record :: string
  ef_options :: record_options
  ef_python :: "string option"

definition evaluate_arguments :: "string list \<Rightarrow> error + evaluate_flags" where
  "evaluate_arguments args =
     bind_sum (parse_flags [] args) (\<lambda>f0.
     bind_sum (take_required ''--input'' f0) (\<lambda>(i, f1).
     bind_sum (take_required ''--record'' f1) (\<lambda>(p, f2).
     bind_sum (take_required ''--implementation-commit'' f2) (\<lambda>(c, f3).
     bind_sum (take_required ''--organization'' f3) (\<lambda>(z, f4).
     bind_sum (take_required ''--published-url'' f4) (\<lambda>(u, f5).
     case take_optional ''--repository-url'' f5 of (ru, f6) \<Rightarrow>
     case take_optional ''--performed-at'' f6 of (pa, f7) \<Rightarrow>
     case take_optional ''--notes'' f7 of (nt, f8) \<Rightarrow>
     case take_optional ''--command'' f8 of (cm, f9) \<Rightarrow>
     case take_optional ''--python'' f9 of (py, f10) \<Rightarrow>
     bind_sum (reject_unknown f10) (\<lambda>_.
     Inr \<lparr>ef_input = i, ef_record = p, ef_options = \<lparr>ro_commit = c, ro_organization = z, ro_published_url = u,
       ro_performed_at = pa, ro_repository_url = ru, ro_command = cm, ro_notes = nt\<rparr>, ef_python = py\<rparr>)))))))"

definition blind_arguments :: "string list \<Rightarrow> error + string \<times> string" where
  "blind_arguments args =
     bind_sum (parse_flags [] args) (\<lambda>f0.
     bind_sum (take_required ''--source'' f0) (\<lambda>(s, f1).
     bind_sum (take_required ''--output'' f1) (\<lambda>(t, f2).
     bind_sum (reject_unknown f2) (\<lambda>_. Inr (s, t)))))"

text \<open>The evaluation of the bytes of a bundle: the record that is written.\<close>

definition run_evaluate ::
  "pulse_env \<Rightarrow> runtime \<Rightarrow> 's structured_verifier \<Rightarrow> bytes \<Rightarrow> record_options \<Rightarrow> (error, 's, json) io" where
  "run_evaluate E R V raw ro =
     bind_io (lift_io (parse_blinded_bundle E raw)) (\<lambda>cs.
     bind_io (evaluate_bundle E V cs) (\<lambda>rs.
     lift_io (create_reproduction_record R rs ro)))"

subsection \<open>Blinding removes what was expected, and nothing is lost on the way\<close>

lemma list_all_update: "P (k, v) \<Longrightarrow> list_all P ms \<Longrightarrow> list_all P (AList.update k v ms)"
  by (induction ms) (auto split: if_splits)

lemma blind_case_keeps:
  assumes "blind_case v = Inr w"
  shows "names_distinct v \<Longrightarrow> names_distinct w" "doubles v \<Longrightarrow> doubles w"
  using assms by (auto simp: blind_case_def list_all_iff distinct_map_filter split: ujson.splits if_splits)

lemma blind_cases_keep:
  assumes "blind_cases vs = Inr ws"
  shows "list_all names_distinct vs \<Longrightarrow> list_all names_distinct ws" "list_all doubles vs \<Longrightarrow> list_all doubles ws"
proof -
  have "(list_all names_distinct vs \<longrightarrow> list_all names_distinct ws) \<and> (list_all doubles vs \<longrightarrow> list_all doubles ws)"
    using assms
  proof (induction vs arbitrary: ws)
    case (Cons v vs)
    then show ?case by (auto simp: bind_sum_Inr dest: blind_case_keeps)
  qed simp
  then show "list_all names_distinct vs \<Longrightarrow> list_all names_distinct ws" "list_all doubles vs \<Longrightarrow> list_all doubles ws" by blast+
qed

lemma blind_bundle_keeps:
  assumes "blind_bundle v = Inr w" "names_distinct v" "doubles v"
  shows "names_distinct w \<and> doubles w"
proof -
  from assms(1) obtain ms cs ds where v: "v = UObj ms" "map_of ms (latin ''cases'') = Some (UArr cs)" "blind_cases cs = Inr ds"
    and w: "w = UObj (AList.update (latin ''cases'') (UArr ds) ms)"
    by (auto simp: blind_bundle_def bind_sum_Inr split: ujson.splits option.splits)
  from v(2) have "(latin ''cases'', UArr cs) \<in> set ms" by (rule map_of_SomeD)
  then have "names_distinct (UArr cs)" "doubles (UArr cs)" using assms(2,3) v(1) by (auto simp: list_all_iff)
  then have "list_all names_distinct ds" "list_all doubles ds" using blind_cases_keep [OF v(3)] by simp_all
  then show ?thesis using assms(2,3) v(1) w by (simp add: list_all_update distinct_update)
qed

lemma blind_fixture_reads_back:
  assumes "prints_numbers nt" "blind_fixture E nt raw = Inr out"
  shows "\<exists>w cs. parse_strict_json True out = Inr w \<and> names_allowed True w \<and> parse_bundle_units E w = Inr cs"
proof -
  from assms(2) obtain t v w cs where t: "parse_strict_json False t = Inr v" and w: "blind_bundle v = Inr w"
    and g: "assert_json_value True max_levels w = Inr ()" and cs: "parse_bundle_units E w = Inr cs"
    and out: "out = stringify nt 0 w @ [10]"
    by (auto simp: blind_fixture_def bind_sum_Inr with_error_Inr split: if_splits option.splits)
  from t obtain r where "read_value max_levels t = Inr (v, r)"
    by (auto simp: parse_strict_json_def bind_sum_Inr split: if_splits)
  then have "names_distinct w" "doubles w"
    using blind_bundle_keeps [OF w] read_value_distinct read_value_doubles by blast+
  moreover have "levels w \<le> 101" "names_allowed True w" using g by (simp_all add: assert_json_value_Inr max_levels_def)
  ultimately have "parse_strict_json True out = Inr w" unfolding out using assms(1) by (intro parse_stringify)
  with cs \<open>names_allowed True w\<close> show ?thesis by blast
qed

subsection \<open>The record accepts what the evaluator gives\<close>

lemma parse_envelope_id:
  assumes "parse_envelope v = Some i"
  shows "pce_json i = v" "try_parse_case E v = Some k \<Longrightarrow> pcs_id k = pce_id i"
  using assms
  by (auto simp: parse_envelope_def try_parse_case_def parse_conformance_case_def parse_case_schema_def bind_eq_Some_conv
      bind_sum_def split: sum.splits option.splits)

lemma read_all_in: "read_all f xs = Some ys \<Longrightarrow> list_all (\<lambda>y. \<exists>x\<in>set xs. f x = Some y) ys \<and> length ys = length xs"
proof (induction xs arbitrary: ys)
  case (Cons x xs)
  from Cons.prems obtain y zs where "f x = Some y" "read_all f xs = Some zs" "ys = y # zs"
    by (auto simp: bind_eq_Some_conv split: option.splits)
  with Cons.IH [of zs] show ?case by (auto simp: list_all_iff)
qed simp

lemma first_duplicate_None: "first_duplicate seen is = None \<longleftrightarrow> distinct is \<and> set is \<inter> set seen = {}"
  by (induction seen "is" rule: first_duplicate.induct) auto

lemma parsed_bundle:
  assumes "parse_conformance_bundle E v = Inr cs"
  shows "length cs = case_count \<and> distinct (map pce_id cs) \<and> list_all (\<lambda>i. parse_envelope (pce_json i) = Some i) cs"
proof -
  from assms obtain ob xs where "read_all parse_envelope xs = Some cs" "length xs = case_count"
    and d: "first_duplicate [] (map pce_id cs) = None"
    by (auto simp: parse_conformance_bundle_def parse_bundle_schema_def bind_sum_Inr bind_eq_Some_conv
        split: option.splits json.splits if_splits)
  with read_all_in [of parse_envelope xs cs] parse_envelope_id(1) show ?thesis
    by (fastforce simp: first_duplicate_None list_all_iff)
qed

lemma evaluate_bundle_ids:
  assumes "list_all (\<lambda>i. parse_envelope (pce_json i) = Some i) cs" "evaluate_bundle E V cs s = (Inr rs, s')"
  shows "map cr_id rs = map pce_id cs"
  using assms
proof (induction cs arbitrary: s rs)
  case (Cons i cs)
  from Cons.prems obtain r s1 qs where r: "evaluate_case E V i s = (Inr r, s1)" and q: "evaluate_bundle E V cs s1 = (Inr qs, s')"
    and rs: "rs = r # qs"
    by (auto simp: bind_io_Inr)
  have "cr_id r = pce_id i"
    using evaluate_case_total [of E V i s] r Cons.prems(1) parse_envelope_id(2) by (auto split: option.splits)
  with Cons q rs show ?case by simp
qed simp

definition options_ok :: "runtime \<Rightarrow> record_options \<Rightarrow> bool" where
  "options_ok R ro \<longleftrightarrow>
     git_sha (ro_commit ro) \<and> \<not> blank (ro_organization ro) \<and> rt_date_ok R (or_default (ro_performed_at ro) (rt_now R)) \<and>
     rt_protocol R (or_default (ro_repository_url ro) ''https://github.com/Inntris/inntris-x402-policy-adapter'') = Some ''https:'' \<and>
     rt_protocol R (ro_published_url ro) = Some ''https:''"

lemma record_accepts_evaluation:
  assumes "parse_conformance_bundle E v = Inr cs" "options_ok R ro"
  shows "\<exists>rs s' j. evaluate_bundle E V cs s = (Inr rs, s') \<and> length rs = 80 \<and> create_reproduction_record R rs ro = Inr j"
proof -
  note b = parsed_bundle [OF assms(1)]
  obtain rs s' where rs: "evaluate_bundle E V cs s = (Inr rs, s')" "length rs = length cs"
    "list_all (\<lambda>r. cr_accept r \<longleftrightarrow> cr_codes r = []) rs"
    using evaluate_bundle_total [of E V cs s] by blast
  have ids: "map cr_id rs = map pce_id cs" using b rs(1) by (intro evaluate_bundle_ids) auto
  have "find (\<lambda>r. cr_accept r \<noteq> (cr_codes r = [])) rs = None" using rs(3) by (auto simp: find_None_iff list_all_iff)
  then have "\<exists>j. create_reproduction_record R rs ro = Inr j"
    using assms(2) b rs(2) by (simp add: create_reproduction_record_def options_ok_def require_url_def ids distinct_remdups_id Let_def)
  with rs(1,2) b show ?thesis by (auto simp: case_count_def)
qed

end
