(* ===== verification/PulseSamples.thy ===== *)
theory PulseSamples
  imports PulseBundle
begin

section \<open>A conformance case that is accepted\<close>

text \<open>
  A complete case of the conformance evaluator with its verification result, over the reference host of \<open>Host\<close>, and the
  evaluation of the model on it: every schema accepts its part and nothing is found.
\<close>

definition pulse_sample_env :: pulse_env where
  "pulse_sample_env = \<lparr>pe_host = ref_host, pe_datetime = (\<lambda>s. s \<noteq> []), pe_address = (\<lambda>s. Some (to_lower s)),
     pe_recover = (\<lambda>d sg. Some (td_from d))\<rparr>"

definition pulse_token :: string where
  "pulse_token = ''issuer.signed.token''"

definition token_reference :: string where
  "token_reference = sha256_base64url ref_host (utf8 pulse_token)"

definition checkout_reference :: string where
  "checkout_reference = sha256_base64url ref_host ''checkout''"

definition pulse_address :: "string \<Rightarrow> string" where
  "pulse_address s = ''0x'' @ pad_start 40 CHR ''0'' s"

subsection \<open>The schemas of hashes and addresses\<close>

lemma b64_sextets_length: "length (b64_sextets ns) = (4 * length ns + 2) div 3"
  by (induction ns rule: b64_sextets.induct) auto

lemma sha256_base64url_ok:
  assumes "sha_ok H"
  shows "base64url32 (sha256_base64url H bs)"
proof -
  have "length (hex_bytes (sha256_hex H bs)) = 32" using assms by (simp add: sha_ok_def hex_bytes_length)
  moreover have "base64url (sha256_base64url H bs)"
    unfolding sha256_base64url_def by (rule b64url_encode_ok) (use calculation in auto)
  ultimately show ?thesis
    by (simp add: base64url32_def base64url_def sha256_base64url_def b64url_roundtrip)
      (simp add: b64url_encode_def b64_sextets_length)
qed

lemma reference_ok [simp]: "base64url32 (sha256_base64url ref_host bs)" "base64url32 token_reference" "base64url32 checkout_reference"
  by (simp_all add: sha256_base64url_ok token_reference_def checkout_reference_def)

lemma pulse_lower_hex: "list_all hex_char s \<Longrightarrow> to_lower s = s"
  by (induction s) (auto simp: to_lower_def lower_char_def hex_char_def Let_def)

lemma hex_char_any: "list_all hex_char s \<Longrightarrow> list_all hex_any_char s"
  by (simp add: list_all_iff hex_any_char_def)

definition pulse_digest :: "string \<Rightarrow> string" where
  "pulse_digest s = ''0x'' @ sha256_hex ref_host (utf8 s)"

lemma pulse_sample_hash_ok [simp]: "hex32 (pulse_digest s)" "to_lower (pulse_digest s) = pulse_digest s"
  "hex_body (pulse_digest s)" "length (pulse_digest s) = 66"
proof -
  have h: "length (sha256_hex ref_host (utf8 s)) = 64" "list_all hex_char (sha256_hex ref_host (utf8 s))"
    using ref_host_sha by (simp_all add: sha_ok_def)
  then show b: "hex_body (pulse_digest s)" "length (pulse_digest s) = 66"
    by (simp_all add: pulse_digest_def hex_body_def hex_char_any)
  then show "hex32 (pulse_digest s)" by (simp add: hex32_def)
  have "to_lower ''0x'' = ''0x''" by (simp add: to_lower_def lower_char_def)
  then show "to_lower (pulse_digest s) = pulse_digest s"
    using pulse_lower_hex [OF h(2)] by (simp add: pulse_digest_def to_lower_def)
qed

subsection \<open>The mandates\<close>

definition pulse_sample_amount :: json where
  "pulse_sample_amount = JObj [(''amount'', JNum 500), (''currency'', JStr ''USD'')]"

definition pulse_sample_extension :: json where
  "pulse_sample_extension = JObj
     [(''version'', JNum 2), (''scheme'', JStr ''exact''), (''network'', JStr ''eip155:8453''),
      (''asset'', JStr (pulse_address ''aa'')), (''amount'', JStr ''5000000''), (''payTo'', JStr (pulse_address ''bb'')),
      (''payer'', JStr (pulse_address ''cc'')), (''ap2PayeeId'', JStr ''merchant-1''),
      (''ap2PaymentAmount'', pulse_sample_amount), (''maxTimeoutSeconds'', JNum 60),
      (''eip712Domain'', JObj [(''name'', JStr ''USD Coin''), (''version'', JStr ''2'')]),
      (''nonceBinding'', JStr required_nonce_derivation)]"

definition pulse_sample_instrument :: json where
  "pulse_sample_instrument = JObj
     [(''id'', JStr ''wallet-1''), (''type'', JStr ''x402''), (''description'', JStr ''wallet''), (''x402'', pulse_sample_extension)]"

definition pulse_sample_merchant :: json where
  "pulse_sample_merchant = JObj [(''id'', JStr ''merchant-1''), (''name'', JStr ''Merchant'')]"

definition pulse_sample_closed :: json where
  "pulse_sample_closed = JObj
     [(''vct'', JStr ''mandate.payment.1''), (''transaction_id'', JStr checkout_reference), (''payee'', pulse_sample_merchant),
      (''payment_amount'', pulse_sample_amount), (''payment_instrument'', pulse_sample_instrument),
      (''execution_date'', JStr ''2026-01-01T00:00:00Z''), (''iat'', JNum 900), (''exp'', JNum 2000)]"

definition pulse_sample_key :: json where
  "pulse_sample_key = JObj
     [(''kty'', JStr ''EC''), (''crv'', JStr ''P-256''), (''alg'', JStr ''ES256''), (''kid'', JStr ''key-1''),
      (''x'', JStr token_reference), (''y'', JStr checkout_reference)]"

definition pulse_sample_open :: json where
  "pulse_sample_open = JObj
     [(''vct'', JStr ''mandate.payment.open.1''),
      (''constraints'', JArr
        [JObj [(''type'', JStr ''payment.reference''), (''conditional_transaction_id'', JStr checkout_reference)],
         JObj [(''type'', JStr ''payment.allowed_payment_instruments''), (''allowed'', JArr [pulse_sample_instrument])],
         JObj [(''type'', JStr ''payment.amount_range''), (''currency'', JStr ''USD''), (''max'', JNum 1000), (''min'', JNum 0)],
         JObj [(''type'', JStr ''payment.allowed_payees''), (''allowed'', JArr [pulse_sample_merchant])]]),
      (''cnf'', JObj [(''jwk'', pulse_sample_key)]), (''iat'', JNum 800), (''exp'', JNum 3000)]"

definition pulse_sample_receipt :: json where
  "pulse_sample_receipt = JObj
     [(''status'', JStr ''Success''), (''iss'', JStr ''issuer''), (''iat'', JNum 990), (''reference'', JStr token_reference),
      (''error'', JNull), (''error_description'', JNull), (''payment_id'', JStr ''payment-1''),
      (''network_confirmation_id'', JStr (pulse_digest ''settled''))]"

lemmas schema_simps = str_where_def opt_where_def nullish_where_def int_where_def array_where_def required_def optional_def
  json_read_defs get_opt_str_def get_nullish_str_def guard_opt_def non_empty_string_def pulse_identifier_def len_between_def nonneg_def
  max_safe_integer_def

lemma pulse_address_any [simp]:
  "evm_address_any (pulse_address ''aa'')" "evm_address_any (pulse_address ''bb'')" "evm_address_any (pulse_address ''cc'')"
  by code_simp+

lemma pulse_sample_atomic [simp]: "unsigned_atomic ''5000000''" "unsigned_atomic ''999''" "unsigned_atomic ''1030''" "caip2_network ''eip155:8453''"
  by (simp_all add: unsigned_atomic_def caip2_network_def uint_string_def is_digit_def digits_value_def digit_value_def max_uint256_def)

lemma sample_currency [simp]: "currency_code ''USD''"
  by (simp add: currency_code_def)

definition sample_amount_parsed :: pulse_amount where
  "sample_amount_parsed = \<lparr>pam_amount = 500, pam_currency = ''USD'', pam_json = pulse_sample_amount\<rparr>"

lemma parse_sample_amount [simp]: "parse_pulse_amount pulse_sample_amount = Some sample_amount_parsed"
  by (simp add: parse_pulse_amount_def sample_amount_parsed_def pulse_sample_amount_def schema_simps)

definition sample_extension_parsed :: x402_extension where
  "sample_extension_parsed = \<lparr>pxt_version = 2, pxt_scheme = ''exact'', pxt_network = ''eip155:8453'', pxt_asset = pulse_address ''aa'',
     pxt_amount = ''5000000'', pxt_pay_to = pulse_address ''bb'', pxt_payer = pulse_address ''cc'', pxt_payee_id = ''merchant-1'',
     pxt_payment_amount = sample_amount_parsed, pxt_timeout = 60, pxt_domain = (''USD Coin'', ''2''),
     pxt_nonce_binding = required_nonce_derivation, pxt_json = pulse_sample_extension\<rparr>"

lemma parse_sample_extension [simp]: "parse_extension pulse_sample_extension = Some sample_extension_parsed"
  by (simp add: parse_extension_def parse_domain_def sample_extension_parsed_def pulse_sample_extension_def schema_simps
      required_nonce_derivation_def)

definition sample_instrument_parsed :: pulse_instrument where
  "sample_instrument_parsed = \<lparr>pin_id = ''wallet-1'', pin_type = ''x402'', pin_description = ''wallet'',
     pin_x402 = Some sample_extension_parsed, pin_json = pulse_sample_instrument\<rparr>"

lemma parse_sample_instrument [simp]: "parse_instrument pulse_sample_instrument = Some sample_instrument_parsed"
  by (simp add: parse_instrument_def sample_instrument_parsed_def pulse_sample_instrument_def schema_simps)

lemma parse_sample_profile [simp]: "parse_profile_instrument pulse_sample_instrument = Some sample_instrument_parsed"
  by (simp add: parse_profile_instrument_def sample_instrument_parsed_def guard_opt_def)

definition sample_merchant_parsed :: pulse_merchant where
  "sample_merchant_parsed = \<lparr>pmr_id = ''merchant-1'', pmr_name = ''Merchant'', pmr_website = None\<rparr>"

lemma parse_sample_merchant [simp]: "parse_merchant E pulse_sample_merchant = Some sample_merchant_parsed"
  by (simp add: parse_merchant_def sample_merchant_parsed_def pulse_sample_merchant_def schema_simps)

definition sample_closed_parsed :: closed_mandate where
  "sample_closed_parsed = \<lparr>pcm_transaction_id = checkout_reference, pcm_payee = sample_merchant_parsed,
     pcm_amount = sample_amount_parsed, pcm_instrument = sample_instrument_parsed,
     pcm_execution_date = ''2026-01-01T00:00:00Z'', pcm_iat = 900, pcm_exp = 2000, pcm_json = pulse_sample_closed\<rparr>"

lemma parse_sample_closed [simp]: "parse_closed_mandate pulse_sample_env pulse_sample_closed = Some sample_closed_parsed"
  by (simp add: parse_closed_mandate_def sample_closed_parsed_def pulse_sample_closed_def schema_simps pulse_sample_env_def)

lemma parse_sample_key [simp]: "parse_p256_key pulse_sample_key = Some pulse_sample_key"
  by (simp add: parse_p256_key_def pulse_sample_key_def schema_simps)

definition sample_open_parsed :: open_mandate where
  "sample_open_parsed = \<lparr>pom_constraints = [ReferenceConstraint checkout_reference, InstrumentsConstraint [sample_instrument_parsed],
       RangeConstraint ''USD'' 0 1000, PayeesConstraint [sample_merchant_parsed]],
     pom_payee = None, pom_amount = None, pom_instrument = None, pom_execution_date = None, pom_iat = 800, pom_exp = 3000,
     pom_json = pulse_sample_open\<rparr>"

lemma parse_sample_constraints [simp]:
  "parse_constraint E (JObj [(''type'', JStr ''payment.reference''), (''conditional_transaction_id'', JStr checkout_reference)])
     = Some (ReferenceConstraint checkout_reference)"
  "parse_constraint E (JObj [(''type'', JStr ''payment.allowed_payment_instruments''), (''allowed'', JArr [pulse_sample_instrument])])
     = Some (InstrumentsConstraint [sample_instrument_parsed])"
  "parse_constraint E (JObj [(''type'', JStr ''payment.amount_range''), (''currency'', JStr ''USD''), (''max'', JNum 1000), (''min'', JNum 0)])
     = Some (RangeConstraint ''USD'' 0 1000)"
  "parse_constraint E (JObj [(''type'', JStr ''payment.allowed_payees''), (''allowed'', JArr [pulse_sample_merchant])])
     = Some (PayeesConstraint [sample_merchant_parsed])"
  by (simp_all add: parse_constraint_def first_some_def parse_reference_constraint_def parse_instruments_constraint_def
      parse_range_constraint_def parse_payees_constraint_def schema_simps)

lemma parse_sample_open [simp]: "parse_open_mandate E pulse_sample_open = Some sample_open_parsed"
  by (simp add: parse_open_mandate_def parse_confirmation_def sample_open_parsed_def pulse_sample_open_def schema_simps)

definition sample_receipt_parsed :: payment_receipt where
  "sample_receipt_parsed = \<lparr>prc_success = True, prc_reference = token_reference,
     prc_network_confirmation = Some (pulse_digest ''settled''), prc_json = pulse_sample_receipt\<rparr>"

lemma parse_sample_receipt [simp]: "parse_payment_receipt pulse_sample_receipt = Some sample_receipt_parsed"
  by (simp add: parse_payment_receipt_def sample_receipt_parsed_def pulse_sample_receipt_def schema_simps)

subsection \<open>The payment\<close>

definition pulse_sample_requirements :: json where
  "pulse_sample_requirements = JObj
     [(''scheme'', JStr ''exact''), (''network'', JStr ''eip155:8453''), (''asset'', JStr (pulse_address ''aa'')),
      (''amount'', JStr ''5000000''), (''payTo'', JStr (pulse_address ''bb'')), (''maxTimeoutSeconds'', JNum 60),
      (''extra'', JObj [(''name'', JStr ''USD Coin''), (''version'', JStr ''2''), (''assetTransferMethod'', JStr ''eip3009''),
        (''ap2MandateReference'', JStr token_reference), (''ap2NonceDerivation'', JStr required_nonce_derivation)])]"

definition sample_requirements_parsed :: pulse_requirements where
  "sample_requirements_parsed = \<lparr>prq_scheme = ''exact'', prq_network = ''eip155:8453'', prq_asset = pulse_address ''aa'',
     prq_amount = ''5000000'', prq_pay_to = pulse_address ''bb'', prq_timeout = 60, prq_name = ''USD Coin'', prq_version = ''2'',
     prq_transfer_method = ''eip3009'', prq_mandate_reference = token_reference,
     prq_nonce_derivation = required_nonce_derivation, prq_json = pulse_sample_requirements\<rparr>"

lemma parse_sample_requirements [simp]:
  "parse_pulse_requirements pulse_sample_requirements = Some sample_requirements_parsed"
  by (simp add: parse_pulse_requirements_def sample_requirements_parsed_def pulse_sample_requirements_def schema_simps
      required_nonce_derivation_def)

definition pulse_sample_signature :: string where
  "pulse_sample_signature = ''0x'' @ replicate 63 CHR ''0'' @ ''1'' @ replicate 63 CHR ''0'' @ ''11b''"

definition sample_authorization :: authorization where
  "sample_authorization = \<lparr>pau_from = pulse_address ''cc'', pau_to = pulse_address ''bb'', pau_value = ''5000000'',
     pau_valid_after = ''999'', pau_valid_before = ''1030'', pau_nonce = pulse_digest pulse_token\<rparr>"

definition pulse_sample_payload :: json where
  "pulse_sample_payload = JObj
     [(''x402Version'', JNum 2),
      (''resource'', JObj [(''url'', JStr ''https://api.example/''), (''description'', JStr ''data''), (''mimeType'', JStr ''text/plain'')]),
      (''accepted'', pulse_sample_requirements),
      (''payload'', JObj [(''signature'', JStr pulse_sample_signature), (''authorization'', JObj
        [(''from'', JStr (pulse_address ''cc'')), (''to'', JStr (pulse_address ''bb'')), (''value'', JStr ''5000000''),
         (''validAfter'', JStr ''999''), (''validBefore'', JStr ''1030''), (''nonce'', JStr (pulse_digest pulse_token))])])]"

definition sample_payload_parsed :: pulse_payload where
  "sample_payload_parsed = \<lparr>ppl_version = 2, ppl_accepted = sample_requirements_parsed, ppl_signature = pulse_sample_signature,
     ppl_authorization = sample_authorization, ppl_extensions = None\<rparr>"

lemma pulse_sample_signature_ok [simp]: "hex_signature pulse_sample_signature"
  by code_simp

lemma sample_url [simp]: "url_ok ref_host ''https://api.example/''"
  by (simp add: ref_host_def)

lemma parse_sample_payload [simp]: "parse_pulse_payload pulse_sample_env pulse_sample_payload = Some sample_payload_parsed"
  by (simp add: parse_pulse_payload_def parse_resource_def parse_signed_authorization_def parse_authorization_def
      sample_payload_parsed_def sample_authorization_def pulse_sample_payload_def schema_simps pulse_sample_env_def)

definition pulse_sample_settlement :: json where
  "pulse_sample_settlement = JObj
     [(''success'', JBool True), (''payer'', JStr (pulse_address ''cc'')), (''transaction'', JStr (pulse_digest ''settled'')),
      (''network'', JStr ''eip155:8453''), (''amount'', JStr ''5000000'')]"

definition sample_settlement_parsed :: settlement where
  "sample_settlement_parsed = \<lparr>pst_success = True, pst_payer = pulse_address ''cc'', pst_transaction = pulse_digest ''settled'',
     pst_network = ''eip155:8453'', pst_amount = Some ''5000000''\<rparr>"

lemma parse_sample_settlement [simp]: "parse_settlement pulse_sample_settlement = Some sample_settlement_parsed"
  by (simp add: parse_settlement_def sample_settlement_parsed_def pulse_sample_settlement_def schema_simps)

subsection \<open>The case\<close>

definition claims_hash :: "json \<Rightarrow> string" where
  "claims_hash v = sha256_base64url ref_host (canonical_bytes ref_host v)"

lemma claims_hash_ok [simp]: "base64url32 (claims_hash v)"
  by (simp add: claims_hash_def)

definition pulse_sample_evidence :: json where
  "pulse_sample_evidence = JObj
     [(''mandateChain'', JStr ''mandate.chain.of.two.tokens''), (''paymentReceiptJwt'', JStr ''payment.receipt.token''),
      (''trustedRootPublicJwk'', pulse_sample_key), (''trustedReceiptPublicJwk'', pulse_sample_key),
      (''expectedAudience'', JStr ''merchant-1''), (''expectedNonce'', JStr ''nonce-1'')]"

definition sample_evidence_parsed :: ap2_evidence where
  "sample_evidence_parsed = \<lparr>pev_chain = ''mandate.chain.of.two.tokens'', pev_receipt_jwt = ''payment.receipt.token'',
     pev_root_key = pulse_sample_key, pev_receipt_key = pulse_sample_key, pev_audience = ''merchant-1'', pev_nonce = ''nonce-1''\<rparr>"

lemma parse_sample_evidence [simp]: "parse_evidence pulse_sample_evidence = Some sample_evidence_parsed"
  by (simp add: parse_evidence_def sample_evidence_parsed_def pulse_sample_evidence_def schema_simps)

definition pulse_sample_verification :: json where
  "pulse_sample_verification = JObj
     [(''verifier'', JStr ''reference''), (''verifiedAtEpochSeconds'', JNum 1000), (''clockSkewSeconds'', JNum 0),
      (''openCheckoutReference'', JStr checkout_reference), (''closedMandateClaimsHash'', JStr (claims_hash pulse_sample_closed)),
      (''openMandateClaimsHash'', JStr (claims_hash pulse_sample_open)), (''closedMandateReference'', JStr token_reference),
      (''cryptographicEvidence'', pulse_sample_evidence)]"

definition sample_verification_parsed :: verification_record where
  "sample_verification_parsed = \<lparr>pvr_verified_at = 1000, pvr_skew = 0, pvr_checkout = checkout_reference,
     pvr_closed_hash = claims_hash pulse_sample_closed, pvr_open_hash = claims_hash pulse_sample_open,
     pvr_closed_reference = token_reference, pvr_evidence = sample_evidence_parsed\<rparr>"

lemma parse_sample_verification [simp]: "parse_verification pulse_sample_verification = Some sample_verification_parsed"
  by (simp add: parse_verification_def sample_verification_parsed_def pulse_sample_verification_def schema_simps)

definition pulse_sample_ap2 :: json where
  "pulse_sample_ap2 = JObj
     [(''closedMandate'', pulse_sample_closed), (''openMandate'', pulse_sample_open), (''paymentReceipt'', pulse_sample_receipt),
      (''verification'', pulse_sample_verification)]"

definition sample_ap2_parsed :: ap2_side where
  "sample_ap2_parsed = \<lparr>pap_closed = sample_closed_parsed, pap_open = sample_open_parsed, pap_receipt = Some sample_receipt_parsed,
     pap_verification = sample_verification_parsed\<rparr>"

lemma parse_sample_ap2 [simp]: "parse_ap2 pulse_sample_env pulse_sample_ap2 = Some sample_ap2_parsed"
  by (simp add: parse_ap2_def sample_ap2_parsed_def pulse_sample_ap2_def schema_simps)

definition pulse_sample_x402 :: json where
  "pulse_sample_x402 = JObj
     [(''requirements'', pulse_sample_requirements), (''payload'', pulse_sample_payload), (''settlement'', pulse_sample_settlement)]"

definition sample_x402_parsed :: x402_side where
  "sample_x402_parsed = \<lparr>pxs_requirements = sample_requirements_parsed, pxs_payload = sample_payload_parsed,
     pxs_settlement = sample_settlement_parsed\<rparr>"

lemma parse_sample_x402 [simp]: "parse_x402 pulse_sample_env pulse_sample_x402 = Some sample_x402_parsed"
  by (simp add: parse_x402_def sample_x402_parsed_def pulse_sample_x402_def schema_simps)

definition pulse_sample_pins :: json where
  "pulse_sample_pins = JObj
     [(''ap2Commit'', JStr pulse_ap2_commit), (''x402Commit'', JStr ''17d319fab5c17a6b4873eb41197894db924f59ed''),
      (''x402PackageVersion'', JStr ''2.23.0'')]"

lemma parse_sample_pins [simp]: "parse_pins pulse_sample_pins = Some ()"
  by (simp add: parse_pins_def pulse_sample_pins_def schema_simps)

definition pulse_sample_input :: "(string \<times> json) list" where
  "pulse_sample_input =
     [(''caseVersion'', JStr case_version), (''sourcePins'', pulse_sample_pins), (''nowEpochSeconds'', JNum 1000),
      (''ap2'', pulse_sample_ap2), (''x402'', pulse_sample_x402)]"

definition pulse_sample_fields :: "(string \<times> json) list" where
  "pulse_sample_fields = pulse_sample_input @
     [(''id'', JStr ''case-1''), (''description'', JStr ''an accepted payment''),
      (''inputHash'', JStr (claims_hash (JObj pulse_sample_input)))]"

definition sample_case_parsed :: conformance_case where
  "sample_case_parsed = \<lparr>pcs_id = ''case-1'', pcs_now = 1000, pcs_ap2 = sample_ap2_parsed, pcs_x402 = sample_x402_parsed,
     pcs_input_hash = claims_hash (JObj pulse_sample_input), pcs_fields = pulse_sample_fields\<rparr>"

lemma parse_sample_case [simp]: "parse_case_schema pulse_sample_env (JObj pulse_sample_fields) = Some sample_case_parsed"
  by (simp add: parse_case_schema_def sample_case_parsed_def pulse_sample_fields_def pulse_sample_input_def case_fields_def schema_simps)

definition pulse_sample_envelope :: case_envelope where
  "pulse_sample_envelope = \<lparr>pce_id = ''case-1'', pce_json = JObj pulse_sample_fields\<rparr>"

lemma sample_case_guard: "json_guard (JObj pulse_sample_fields)"
  unfolding json_guard_units
  by (simp add: pulse_sample_fields_def pulse_sample_input_def pulse_sample_pins_def pulse_sample_ap2_def pulse_sample_x402_def
      pulse_sample_closed_def pulse_sample_open_def pulse_sample_receipt_def pulse_sample_verification_def
      pulse_sample_evidence_def pulse_sample_key_def pulse_sample_merchant_def pulse_sample_instrument_def
      pulse_sample_extension_def pulse_sample_amount_def pulse_sample_requirements_def pulse_sample_payload_def
      pulse_sample_settlement_def unsafe_keys_def max_levels_def)

lemma try_parse_sample: "try_parse_case pulse_sample_env (JObj pulse_sample_fields) = Some sample_case_parsed"
  using sample_case_guard by (simp add: try_parse_case_def parse_conformance_case_def json_guard_def)

lemma sample_input_hash: "calculate_input_hash ref_host sample_case_parsed = Inr (claims_hash (JObj pulse_sample_input))"
proof -
  have "filter (\<lambda>m. fst m \<in> set input_fields) pulse_sample_fields = pulse_sample_input"
    by (simp add: pulse_sample_fields_def pulse_sample_input_def input_fields_def)
  moreover have "json_guard (JObj pulse_sample_input)"
    using sample_case_guard by (rule json_guard_members) (auto simp: pulse_sample_fields_def)
  ultimately show ?thesis
    by (simp add: calculate_input_hash_def sample_case_parsed_def canonical_hash_guarded claims_hash_def)
qed

definition pulse_sample_structured :: json where
  "pulse_sample_structured = JObj
     [(''version'', JStr ''inntris-pulse-ap2-structured-verification/0.1''),
      (''sdk'', JObj [(''repository'', JStr ''https://github.com/google-agentic-commerce/AP2''), (''commit'', JStr pulse_ap2_commit),
        (''protocolVersion'', JStr ''0.2'')]),
      (''openMandate'', JObj [(''status'', JStr ''verified''), (''claims'', pulse_sample_open)]),
      (''closedMandate'', JObj [(''status'', JStr ''verified''), (''claims'', pulse_sample_closed), (''issuerJwt'', JStr pulse_token)]),
      (''keyBinding'', JObj [(''status'', JStr ''verified'')]),
      (''mandateTime'', JObj [(''status'', JStr ''verified''), (''expiryBounds'', JArr
        [JObj [(''source'', JStr ''openMandate''), (''expiresAt'', JNum 3000)],
         JObj [(''source'', JStr ''closedMandate''), (''expiresAt'', JNum 2000)]]), (''effectiveAuthorityExpiry'', JNum 2000)]),
      (''receipt'', JObj [(''status'', JStr ''verified''), (''claims'', pulse_sample_receipt)])]"

definition sample_structured_parsed :: structured_result where
  "sample_structured_parsed = \<lparr>str_open = ClaimsVerified pulse_sample_open, str_closed = ClosedVerified pulse_sample_closed pulse_token,
     str_key = StatusVerified, str_time = \<lparr>tmr_status = StatusVerified,
       tmr_bounds = [(OpenMandateBound, 3000), (ClosedMandateBound, 2000)], tmr_expiry = Some 2000\<rparr>,
     str_receipt = ClaimsVerified pulse_sample_receipt\<rparr>"

lemma sample_structured_guard: "json_guard pulse_sample_structured"
  unfolding json_guard_units
  by (simp add: pulse_sample_structured_def
      pulse_sample_closed_def pulse_sample_open_def pulse_sample_receipt_def pulse_sample_key_def pulse_sample_merchant_def
      pulse_sample_instrument_def pulse_sample_extension_def pulse_sample_amount_def unsafe_keys_def max_levels_def)

lemma sample_objects [simp]:
  "parse_any_object pulse_sample_open = Some pulse_sample_open" "parse_any_object pulse_sample_closed = Some pulse_sample_closed"
  "parse_any_object pulse_sample_receipt = Some pulse_sample_receipt"
  by (simp_all add: parse_any_object_def pulse_sample_open_def pulse_sample_closed_def pulse_sample_receipt_def)

lemma parse_sample_time [simp]:
  "parse_time_result (JObj [(''status'', JStr ''verified''), (''expiryBounds'', JArr
        [JObj [(''source'', JStr ''openMandate''), (''expiresAt'', JNum 3000)],
         JObj [(''source'', JStr ''closedMandate''), (''expiresAt'', JNum 2000)]]), (''effectiveAuthorityExpiry'', JNum 2000)])
     = Some \<lparr>tmr_status = StatusVerified, tmr_bounds = [(OpenMandateBound, 3000), (ClosedMandateBound, 2000)], tmr_expiry = Some 2000\<rparr>"
  by (simp add: parse_time_result_def parse_bound_def read_status_def read_source_def numeric_date_def time_consistent_def
      minimum_of_def schema_simps)

lemma structured_of_sample: "structured_of (Inr pulse_sample_structured) = Some sample_structured_parsed"
proof -
  have "parse_structured_schema pulse_sample_structured = Some sample_structured_parsed"
    by (simp add: parse_structured_schema_def pulse_sample_structured_def sample_structured_parsed_def parse_sdk_def
        parse_claims_result_def parse_closed_result_def parse_status_result_def read_status_def schema_simps pulse_token_def)
  then show ?thesis using sample_structured_guard
    by (simp add: structured_of_def parse_structured_verification_def json_guard_def)
qed

subsection \<open>The evaluation\<close>

definition sample_verifier :: "unit structured_verifier" where
  "sample_verifier e now skew = ret pulse_sample_structured"

lemma sample_pe_host [simp]: "pe_host pulse_sample_env = ref_host"
  by (simp add: pulse_sample_env_def)

lemma sample_addresses [simp]: "addresses_equal pulse_sample_env a a"
  by (simp add: addresses_equal_def pulse_sample_env_def)

lemma canonical_equal_refl [simp]: "canonical_equal H v v"
  by (simp add: canonical_equal_def)

lemma sample_mandate_guards:
  "json_guard pulse_sample_closed" "json_guard pulse_sample_open"
  using try_parse_case_guard(1,2) [OF try_parse_sample]
  by (simp_all add: sample_case_parsed_def sample_ap2_parsed_def sample_closed_parsed_def sample_open_parsed_def)

lemma sample_hash_findings:
  "hash_findings pulse_sample_env sample_case_parsed (Some sample_structured_parsed) =
     Inr [(AP2_CLOSED_MANDATE_CLAIMS_HASH_MISMATCH, False), (AP2_OPEN_MANDATE_CLAIMS_HASH_MISMATCH, False)]"
  using sample_mandate_guards
  by (simp add: hash_findings_def claims_hash_mismatch_def canonical_hash_guarded sample_case_parsed_def sample_ap2_parsed_def
      sample_verification_parsed_def sample_closed_parsed_def sample_open_parsed_def verified_closed_def verified_open_def
      sample_structured_parsed_def claims_hash_def)

lemma sample_claims [simp]:
  "verified_open pulse_sample_env (Some sample_structured_parsed) = Some sample_open_parsed"
  "verified_closed pulse_sample_env (Some sample_structured_parsed) = Some sample_closed_parsed"
  "verified_receipt (Some sample_structured_parsed) = Some sample_receipt_parsed"
  "derived_reference pulse_sample_env (Some sample_structured_parsed) = Some token_reference"
  "mandate_pairs pulse_sample_env sample_case_parsed (Some sample_structured_parsed) =
     [(sample_open_parsed, sample_closed_parsed), (sample_open_parsed, sample_closed_parsed)]"
  by (simp_all add: verified_open_def verified_closed_def verified_receipt_def derived_reference_def mandate_pairs_def
      sample_structured_parsed_def stage_is_def token_reference_def sample_case_parsed_def sample_ap2_parsed_def)

lemma sample_parts [simp]:
  "pcs_ap2 sample_case_parsed = sample_ap2_parsed" "pcs_x402 sample_case_parsed = sample_x402_parsed" "pcs_now sample_case_parsed = 1000"
  "pap_verification sample_ap2_parsed = sample_verification_parsed" "pap_receipt sample_ap2_parsed = Some sample_receipt_parsed"
  "pxs_payload sample_x402_parsed = sample_payload_parsed" "pxs_requirements sample_x402_parsed = sample_requirements_parsed"
  "pxs_settlement sample_x402_parsed = sample_settlement_parsed" "ppl_authorization sample_payload_parsed = sample_authorization"
  by (simp_all add: sample_case_parsed_def sample_ap2_parsed_def sample_x402_parsed_def sample_payload_parsed_def)

lemma sample_stages: "all_stages_verified (Some sample_structured_parsed)"
  by (simp add: all_stages_verified_def mandatory_stages_def sample_structured_parsed_def)

lemma sample_verification_clear:
  "nothing_found (verification_findings pulse_sample_env sample_case_parsed (Some sample_structured_parsed))"
  using sample_stages
  by (simp add: verification_findings_def Let_def) (simp add: sample_verification_parsed_def stage_is_def sample_structured_parsed_def)

lemma sample_pair_clear: "nothing_found (pair_findings pulse_sample_env sample_case_parsed (sample_open_parsed, sample_closed_parsed))"
  by (simp add: pair_findings_def Let_def reference_mismatch_def constraints_findings_def supported_constraints_def
      preset_mismatch_def ap2_x402_findings_def instruments_match_def sample_open_parsed_def sample_closed_parsed_def
      sample_instrument_parsed_def sample_extension_parsed_def sample_amount_parsed_def sample_merchant_parsed_def
      sample_requirements_parsed_def sample_verification_parsed_def)

lemma sample_mandates_clear:
  "nothing_found (mandate_findings pulse_sample_env sample_case_parsed (Some sample_structured_parsed))"
  using sample_pair_clear
  by (simp add: mandate_findings_def Let_def)
    (simp add: reference_mismatch_def stage_is_def sample_structured_parsed_def sample_open_parsed_def sample_closed_parsed_def
      sample_verification_parsed_def)

lemma sample_receipts_clear:
  "nothing_found (receipt_findings pulse_sample_env sample_case_parsed (Some sample_structured_parsed))"
  by (simp add: receipt_findings_def receipt_finding_list_def option_list_def)
    (simp add: sample_receipt_parsed_def sample_settlement_parsed_def)

lemma sample_requirements_clear:
  "nothing_found (requirement_findings pulse_sample_env sample_case_parsed (Some sample_structured_parsed))"
  by (simp add: requirement_findings_def Let_def) (simp add: sample_payload_parsed_def sample_requirements_parsed_def)

lemma hex_number_zeros: "hex_number (replicate n CHR ''0'' @ [c]) = hex_value (lower_char c)"
proof -
  have "foldl (\<lambda>n c. 16 * n + hex_value (lower_char c)) 0 (replicate n CHR ''0'') = 0"
    by (induction n) (simp_all add: hex_value_def lower_char_def)
  then show ?thesis by (simp add: hex_number_def)
qed

lemma pulse_sample_canonical: "canonical_signature pulse_sample_signature"
proof -
  let ?b = "replicate 63 CHR ''0'' @ ''1''"
  have "drop 2 pulse_sample_signature = ?b @ ?b @ ''1b''" by (simp add: pulse_sample_signature_def)
  moreover have "take 64 (?b @ x) = ?b" "drop 64 (?b @ x) = x" "drop 128 (?b @ ?b @ x) = x" for x by simp_all
  moreover have "hex_number ?b = 1" unfolding hex_number_zeros by (simp add: hex_value_def lower_char_def)
  moreover have "hex_number ''1b'' = 27" by (simp add: hex_number_def hex_value_def lower_char_def)
  ultimately show ?thesis by (simp add: canonical_signature_def Let_def secp256k1_order_def)
qed

lemma sample_signature_valid: "verify_eip3009 pulse_sample_env sample_requirements_parsed sample_authorization pulse_sample_signature"
  using pulse_sample_canonical
  by (simp add: verify_eip3009_def transfer_of_def chain_id_from_network_def sample_requirements_parsed_def pulse_sample_env_def
      uint_string_def is_digit_def digits_value_def digit_value_def max_uint256_def)

lemma sample_nonce: "expected_nonce token_reference = Some (pulse_digest pulse_token)"
  using expected_nonce_of_hash [OF ref_host_sha] by (simp add: token_reference_def pulse_digest_def)

lemma sample_times: "digits_value ''999'' = 999" "digits_value ''1030'' = 1030"
  by (simp_all add: digits_value_def digit_value_def)

lemma sample_time_clear: "nothing_found (time_findings pulse_sample_env sample_case_parsed (Some sample_structured_parsed))"
  by (simp add: time_findings_def Let_def)
    (simp add: sample_authorization_def sample_requirements_parsed_def sample_open_parsed_def sample_closed_parsed_def
      sample_structured_parsed_def sample_times safety_buffer_def)

lemma sample_authorization_clear:
  "nothing_found (authorization_findings pulse_sample_env sample_case_parsed (Some sample_structured_parsed))"
proof -
  have a: "pau_to sample_authorization = prq_pay_to sample_requirements_parsed" "pau_value sample_authorization = prq_amount sample_requirements_parsed"
    "pau_nonce sample_authorization = pulse_digest pulse_token" "ppl_signature sample_payload_parsed = pulse_sample_signature"
    "pin_x402 (pcm_instrument sample_closed_parsed) = Some sample_extension_parsed"
    "pxt_payer sample_extension_parsed = pau_from sample_authorization"
    by (simp_all add: sample_authorization_def sample_requirements_parsed_def sample_payload_parsed_def sample_closed_parsed_def
        sample_instrument_parsed_def sample_extension_parsed_def)
  show ?thesis using sample_time_clear sample_signature_valid sample_nonce
    by (simp add: authorization_findings_def Let_def a)
qed

lemma sample_settlement_clear: "nothing_found (settlement_findings pulse_sample_env sample_case_parsed)"
  by (simp add: settlement_findings_def Let_def) (simp add: sample_settlement_parsed_def sample_authorization_def sample_requirements_parsed_def)

lemma sample_case_accepted:
  "evaluate_case pulse_sample_env sample_verifier pulse_sample_envelope () = (Inr \<lparr>cr_id = ''case-1'', cr_accept = True, cr_codes = []\<rparr>, ())"
proof -
  let ?E = pulse_sample_env let ?k = sample_case_parsed let ?x = "Some sample_structured_parsed"
  have mandatory: "all_mandatory_valid ?E ?x" using sample_stages by (simp add: all_mandatory_valid_def)
  obtain fs where fs: "case_findings ?E ?k (claims_hash (JObj pulse_sample_input)) ?x = Inr fs" "nothing_found fs"
    using sample_verification_clear sample_mandates_clear sample_receipts_clear sample_requirements_clear
      sample_authorization_clear sample_settlement_clear
    by (simp add: case_findings_def sample_hash_findings) (simp add: sample_case_parsed_def)
  then have "ordered_failures (collect_failures fs) = []" by (simp add: no_codes_found)
  with fs mandatory have "case_outcome ?E ?k (claims_hash (JObj pulse_sample_input)) ?x =
      Inr \<lparr>cr_id = ''case-1'', cr_accept = True, cr_codes = []\<rparr>"
    by (simp add: case_outcome_def Let_def) (simp add: sample_case_parsed_def)
  then show ?thesis
    by (simp add: evaluate_case_def pulse_sample_envelope_def try_parse_sample bind_io_apply sample_input_hash sample_verifier_def
        structured_of_sample Let_def)
qed

end
