(* ===== verification/PulseProcess.thy ===== *)
theory PulseProcess
  imports PulseBundle Ap2Process
begin

section \<open>The process behind the structured AP2 verifier\<close>

text \<open>
  \<open>AP2StructuredPythonVerifier\<close> of \<open>pulse-conformance-evaluator/src/ap2-bridge.ts\<close>: the child process as a machine of
  events, like the one of \<open>Ap2Process\<close>, whose contract \<open>child_machine\<close> it keeps. Its answer is
  read by the strict reader and must have the shape of a structured verification; it is given back as the JSON value that
  was read, which the evaluator parses once more. An answer with code units above 255 is outside the model and
  counts as an invalid one. Lemmas: an answer passes the guard and the schema and was read from
  the complete output of a process that ended with status 0; the first outcome stays; the process is killed when it exceeds
  its time or its output.
\<close>

record bridge_options =
  bo_python :: "string option"
  bo_path :: "string option"
  bo_timeout :: "nat option"
  bo_max_output :: "nat option"

record bridge_config =
  bc_python :: string
  bc_path :: string
  bc_timeout :: nat
  bc_max_output :: nat

text \<open>\<open>env\<close> is \<open>PULSE_AP2_PYTHON\<close>, \<open>bundled\<close> the path of the script in the package.\<close>

definition new_bridge :: "string option \<Rightarrow> string \<Rightarrow> bridge_options \<Rightarrow> bridge_config" where
  "new_bridge env bundled opts =
     \<lparr>bc_python = or_default (bo_python opts) (or_default env ''python''), bc_path = or_default (bo_path opts) bundled,
      bc_timeout = or_default (bo_timeout opts) 30000, bc_max_output = or_default (bo_max_output opts) 2000000\<rparr>"

definition bridge_environment :: "(string \<Rightarrow> string) \<Rightarrow> (string \<times> string) list \<Rightarrow> (string \<times> string) list" where
  "bridge_environment upper env =
     foldl (\<lambda>e (k, v). if upper k \<in> set passed_variables then AList.update k v e else e) fixed_variables env"

text \<open>The request that is written to the standard input.\<close>

definition bridge_request :: "ap2_evidence \<Rightarrow> int \<Rightarrow> int \<Rightarrow> json" where
  "bridge_request ev now skew = JObj
     [(''version'', JStr ''inntris-pulse-ap2-structured-request/0.1''), (''mandateChain'', JStr (pev_chain ev)),
      (''paymentReceiptJwt'', JStr (pev_receipt_jwt ev)), (''trustedRootPublicJwk'', pev_root_key ev),
      (''trustedReceiptPublicJwk'', pev_receipt_key ev), (''expectedAudience'', JStr (pev_audience ev)),
      (''expectedNonce'', JStr (pev_nonce ev)), (''currentTimeEpoch'', JNum (of_int now)),
      (''clockSkewSeconds'', JNum (of_int skew))]"

definition bridge_error :: "string \<Rightarrow> error" where
  "bridge_error m = JsError ''AP2StructuredPythonVerifierError'' m"

text \<open>Every error of reading the answer is caught.\<close>

definition right_of :: "'e + 'a \<Rightarrow> 'a option" where
  "right_of r = (case r of Inl _ \<Rightarrow> None | Inr x \<Rightarrow> Some x)"

lemma right_of_Some [simp]: "right_of r = Some x \<longleftrightarrow> r = Inr x"
  by (cases r) (simp_all add: right_of_def)

definition bridge_read :: "bytes \<Rightarrow> json option" where
  "bridge_read bs = do {
     t \<leftarrow> decode_text bs;
     v \<leftarrow> right_of (parse_strict_json True t);
     j \<leftarrow> narrow_json v;
     r \<leftarrow> right_of (parse_structured_verification j);
     Some j }"

record bridge =
  br_stdout :: "bytes list"
  br_stderr :: "bytes list"
  br_bytes :: nat
  br_killed :: bool
  br_result :: "(error + json) option"

definition started_bridge :: bridge where
  "started_bridge = \<lparr>br_stdout = [], br_stderr = [], br_bytes = 0, br_killed = False, br_result = None\<rparr>"

definition finish_bridge :: "error + json \<Rightarrow> bridge \<Rightarrow> bridge" where
  "finish_bridge r s = (if br_result s \<noteq> None then s else s\<lparr>br_result := Some r\<rparr>)"

text \<open>One event; \<open>decode\<close> decodes and trims the error output. The timer is cleared when the outcome is known.\<close>

fun on_bridge_event :: "(bytes \<Rightarrow> string) \<Rightarrow> nat \<Rightarrow> child_event \<Rightarrow> bridge \<Rightarrow> bridge" where
  "on_bridge_event decode bound Deadline s =
     (if br_result s \<noteq> None then s
      else finish_bridge (Inl (bridge_error ''Structured AP2 verification timed out'')) (s\<lparr>br_killed := True\<rparr>))"
| "on_bridge_event decode bound (StdoutData chunk) s =
     (let s1 = s\<lparr>br_bytes := br_bytes s + length chunk\<rparr>
      in if bound < br_bytes s1
         then finish_bridge (Inl (bridge_error ''Structured AP2 output exceeded the limit'')) (s1\<lparr>br_killed := True\<rparr>)
         else s1\<lparr>br_stdout := br_stdout s1 @ [chunk]\<rparr>)"
| "on_bridge_event decode bound (StderrData chunk) s =
     (if length (concat (br_stderr s)) < 8192 then s\<lparr>br_stderr := br_stderr s @ [take 8192 chunk]\<rparr> else s)"
| "on_bridge_event decode bound SpawnError s =
     finish_bridge (Inl (bridge_error ''Structured AP2 verifier could not start'')) s"
| "on_bridge_event decode bound StdinError s =
     finish_bridge (Inl (bridge_error ''Structured AP2 verifier rejected its input'')) s"
| "on_bridge_event decode bound (Closed code) s =
     (if br_result s \<noteq> None then s
      else if code \<noteq> Some 0
      then (let detail = decode (concat (br_stderr s)) in
        finish_bridge (Inl (bridge_error (if detail = [] then ''Structured AP2 verifier failed''
          else ''Structured AP2 verifier failed: '' @ detail))) s)
      else (case bridge_read (concat (br_stdout s)) of
          None \<Rightarrow> finish_bridge (Inl (bridge_error ''Structured AP2 verifier returned invalid JSON'')) s
        | Some j \<Rightarrow> finish_bridge (Inr j) s))"

definition run_bridge :: "(bytes \<Rightarrow> string) \<Rightarrow> nat \<Rightarrow> child_event list \<Rightarrow> bridge" where
  "run_bridge decode bound es = foldl (\<lambda>s e. on_bridge_event decode bound e s) started_bridge es"

text \<open>\<open>verify\<close>: the outcome of its promise after some events, \<^const>\<open>None\<close> while it is pending.\<close>

definition bridge_verify :: "bridge_config \<Rightarrow> (bytes \<Rightarrow> string) \<Rightarrow> child_event list \<Rightarrow> (error + json) option" where
  "bridge_verify B decode es = br_result (run_bridge decode (bc_max_output B) es)"

subsection \<open>The contract of the process\<close>

text \<open>The count covers what is kept; what exceeded the bound has settled the outcome; the error output takes
  one chunk beyond its limit at most.\<close>

definition bridge_bounded :: "nat \<Rightarrow> bridge \<Rightarrow> bool" where
  "bridge_bounded bound s \<longleftrightarrow>
     length (concat (br_stdout s)) \<le> br_bytes s \<and> length (concat (br_stdout s)) \<le> bound \<and>
     length (concat (br_stderr s)) < 2 * 8192 \<and> (br_killed s \<longrightarrow> br_result s \<noteq> None)"

lemma bridge_bounded_event: "bridge_bounded bound s \<Longrightarrow> bridge_bounded bound (on_bridge_event decode bound e s)"
  by (cases e) (auto simp: bridge_bounded_def finish_bridge_def Let_def min_def split: option.splits if_splits)

interpretation bridge_process: child_machine "on_bridge_event decode bound" started_bridge "bridge_bounded bound" br_result
  "\<lambda>s. concat (br_stdout s)" bridge_read bound
  for decode bound
proof
  show "bridge_bounded bound started_bridge" by (simp add: bridge_bounded_def started_bridge_def)
  show "br_result started_bridge = None" "concat (br_stdout started_bridge) = []" by (simp_all add: started_bridge_def)
  fix s :: bridge and e r
  show "bridge_bounded bound (on_bridge_event decode bound e s)" if "bridge_bounded bound s" using that by (rule bridge_bounded_event)
  show "length (concat (br_stdout s)) \<le> bound" if "bridge_bounded bound s" using that by (simp add: bridge_bounded_def)
  show "br_result (on_bridge_event decode bound e s) = Some r" if "br_result s = Some r"
    using that by (cases e) (auto simp: Let_def finish_bridge_def split: option.splits)
  show "concat (br_stdout (on_bridge_event decode bound e s)) = concat (br_stdout s) @ written [e]"
    if "br_result (on_bridge_event decode bound e s) = None"
    using that by (cases e) (auto simp: Let_def finish_bridge_def split: option.splits if_splits)
  show "e = Closed (Some 0) \<and> bridge_read (concat (br_stdout s)) = Some x"
    if "br_result s = None" "br_result (on_bridge_event decode bound e s) = Some (Inr x)" for x
    using that by (cases e) (auto simp: Let_def finish_bridge_def split: option.splits if_splits)
  show "br_result (on_bridge_event decode bound e s) \<noteq> None" if "settling e"
    using that by (cases e) (auto simp: settling_def finish_bridge_def Let_def split: option.splits)
qed

lemma after_run_bridge: "bridge_process.after decode bound es = run_bridge decode bound es"
  by (simp add: bridge_process.after_def run_bridge_def)

lemmas bridge_outcome_stays = bridge_process.outcome_stays [unfolded after_run_bridge]
lemmas bridge_settled = bridge_process.settled_after [unfolded after_run_bridge]
lemmas bridge_answer_complete = bridge_process.answer_complete [unfolded after_run_bridge]
lemmas run_bridge_bounded = bridge_process.valid_after [unfolded after_run_bridge]

subsection \<open>What an answer is\<close>

lemma bridge_read_Some:
  "bridge_read bs = Some j \<Longrightarrow> (\<exists>t v. decode_text bs = Some t \<and> parse_strict_json True t = Inr v \<and> narrow_json v = Some j) \<and>
    (\<exists>r. parse_structured_verification j = Inr r)"
  by (auto simp: bridge_read_def bind_eq_Some_conv)

lemma bridge_answer:
  assumes "bridge_verify B decode es = Some (Inr j)"
  shows "\<exists>pre post t v r. es = pre @ Closed (Some 0) # post \<and> length (written pre) \<le> bc_max_output B \<and>
    decode_text (written pre) = Some t \<and> parse_strict_json True t = Inr v \<and> narrow_json v = Some j \<and>
    parse_structured_verification j = Inr r"
proof -
  from bridge_answer_complete [of decode "bc_max_output B" es j] assms obtain pre post where
    e: "es = pre @ Closed (Some 0) # post" "bridge_read (written pre) = Some j" "length (written pre) \<le> bc_max_output B"
    by (auto simp: bridge_verify_def)
  from bridge_read_Some [OF e(2)] e show ?thesis by blast
qed

text \<open>What the bridge answers is a result the evaluator takes: it never counts an answer as missing evidence.\<close>

lemma bridge_answer_structured:
  "bridge_verify B decode es = Some (Inr j) \<Longrightarrow> structured_of (Inr j) \<noteq> None"
  by (auto simp: structured_of_def dest!: bridge_answer)

end
