(* ===== verification/DemoApi.thy ===== *)
theory DemoApi
  imports RemoteProvider KyaX402 KyaGate PulseEval
begin

section \<open>The decision service\<close>

text \<open>
  \<open>apps/demo-api/src/app.ts\<close>: the HTTP service in front of a decision provider, a KYA gate and an operation journal. A
  request is a method, a path, the authorization header, the query and the JSON body; the answer is the \<open>reply\<close> that the
  client of \<open>Http\<close> receives. Routing, rate limits, logging and unreadable bodies are left to Fastify, whose answer to an
  unknown route and to an exception of a handler is written out. The text of a validation error and the readers of the x402 schemas are
  parameters. Lemmas: without the service key nothing is reached; the remote provider of the x402 adapter, talking to
  this service, gets what the provider behind it gives; a decision that was made under KYA authority is
  consumed only through the gate, after a revalidation.
\<close>

subsection \<open>Bodies\<close>

definition parse_tool_request :: "json \<Rightarrow> tool_request option" where
  "parse_tool_request v = do {
     ob \<leftarrow> strict_obj [''method'', ''params''] v; m \<leftarrow> str_where (len_between 1 128) ob ''method'';
     Some \<lparr>tq_method = m, tq_params = map_of ob ''params''\<rparr> }"

definition parse_card_presentation :: "json \<Rightarrow> kya_presentation option" where
  "parse_card_presentation v = do {
     ob \<leftarrow> strict_obj [''profile'', ''request'', ''request_proof'', ''delegation_chain'', ''entity_card'', ''token_cnf_jkt''] v;
     get_lit ob ''profile'' ''entity-card-v1''; q \<leftarrow> required parse_tool_request ob ''request'';
     ch \<leftarrow> (case map_of ob ''delegation_chain'' of
             Some (JArr xs) \<Rightarrow> guard_opt (1 \<le> length xs \<and> length xs \<le> 10) xs | _ \<Rightarrow> None);
     jk \<leftarrow> opt_where (\<lambda>s. s \<noteq> []) ob ''token_cnf_jkt'';
     Some (EntityCardPresentation q (map_of ob ''request_proof'') ch (map_of ob ''entity_card'') jk) }"

definition parse_credential :: "json \<Rightarrow> kya_credential option" where
  "parse_credential v =
     (case v of JStr s \<Rightarrow> guard_opt (s \<noteq> []) (CredentialText s) | JObj ob \<Rightarrow> Some (CredentialObject ob) | _ \<Rightarrow> None)"

definition parse_legacy_presentation :: "json \<Rightarrow> kya_presentation option" where
  "parse_legacy_presentation v = do {
     ob \<leftarrow> strict_obj [''profile'', ''request'', ''credential'', ''audience'', ''proof''] v;
     get_lit ob ''profile'' ''legacy-v1''; q \<leftarrow> required parse_tool_request ob ''request'';
     c \<leftarrow> required parse_credential ob ''credential''; au \<leftarrow> str_where (\<lambda>s. s \<noteq> []) ob ''audience'';
     Some (LegacyPresentation q c au (map_of ob ''proof'')) }"

definition parse_presentation :: "json \<Rightarrow> kya_presentation option" where
  "parse_presentation v = first_some [parse_card_presentation v, parse_legacy_presentation v]"

definition evaluate_keys :: "string list" where
  "evaluate_keys = [''action'']"

definition parse_evaluate_body :: "host \<Rightarrow> json \<Rightarrow> action option" where
  "parse_evaluate_body H v = do { ob \<leftarrow> strict_obj evaluate_keys v; required (parse_action H) ob ''action'' }"

definition parse_verify_body :: "host \<Rightarrow> json \<Rightarrow> (decision \<times> action \<times> string option) option" where
  "parse_verify_body H v = do {
     ob \<leftarrow> strict_obj [''decision'', ''action'', ''expected_policy_version''] v;
     d \<leftarrow> required (parse_decision H) ob ''decision''; a \<leftarrow> required (parse_action H) ob ''action'';
     p \<leftarrow> get_opt_str ob ''expected_policy_version''; Some (d, a, p) }"

definition consume_keys :: "string list" where
  "consume_keys = [''decision_id'', ''action_hash'', ''execution_ref'']"

definition read_consume_input :: "(string \<times> json) list \<Rightarrow> consume_input option" where
  "read_consume_input ob = do {
     i \<leftarrow> str_where (\<lambda>s. s \<noteq> []) ob ''decision_id''; h \<leftarrow> str_where hash_ok ob ''action_hash'';
     r \<leftarrow> str_where (len_between 1 512) ob ''execution_ref'';
     Some \<lparr>co_decision_id = i, co_action_hash = h, co_execution_ref = r\<rparr> }"

definition parse_consume_body :: "json \<Rightarrow> consume_input option" where
  "parse_consume_body v = do { ob \<leftarrow> strict_obj consume_keys v; read_consume_input ob }"

definition approve_keys :: "string list" where
  "approve_keys = [''decision_id'', ''granted'', ''approval_reference'', ''approver_ids'']"

definition approver_ids_ok :: "string list \<Rightarrow> bool" where
  "approver_ids_ok xs \<longleftrightarrow> 1 \<le> length xs \<and> length xs \<le> 32 \<and> list_all (len_between 1 128) xs"

definition read_resolve_input :: "(string \<times> json) list \<Rightarrow> resolve_input option" where
  "read_resolve_input ob = do {
     i \<leftarrow> str_where (\<lambda>s. s \<noteq> []) ob ''decision_id''; g \<leftarrow> read_bool ob ''granted'';
     r \<leftarrow> str_where (len_between 1 256) ob ''approval_reference'';
     xs \<leftarrow> (case map_of ob ''approver_ids'' of Some (JArr vs) \<Rightarrow> get_strs vs | _ \<Rightarrow> None);
     guard_opt (approver_ids_ok xs)
       \<lparr>ri_decision_id = i, ri_granted = g, ri_approval_reference = r, ri_approver_ids = xs\<rparr> }"

definition parse_approve_body :: "json \<Rightarrow> resolve_input option" where
  "parse_approve_body v = do { ob \<leftarrow> strict_obj approve_keys v; read_resolve_input ob }"

definition parse_kya_approve_body :: "json \<Rightarrow> (resolve_input \<times> kya_presentation) option" where
  "parse_kya_approve_body v = do {
     ob \<leftarrow> strict_obj (approve_keys @ [''presentation'']) v; i \<leftarrow> read_resolve_input ob;
     p \<leftarrow> required parse_presentation ob ''presentation''; Some (i, p) }"

definition parse_kya_consume_body :: "json \<Rightarrow> (consume_input \<times> kya_presentation) option" where
  "parse_kya_consume_body v = do {
     ob \<leftarrow> strict_obj (consume_keys @ [''presentation'']) v; i \<leftarrow> read_consume_input ob;
     p \<leftarrow> required parse_presentation ob ''presentation''; Some (i, p) }"

text \<open>What the service takes from outside: the payment schemas of \<open>@x402/core\<close> on JSON and after reading, the schemas of
  the KYA library, the date-time check of zod with \<open>Date\<close> on what it accepts, and the text of an error.\<close>

record api_env =
  ae_x402 :: x402_schemas
  ae_kya :: kya_schemas
  ae_requirements :: "json \<Rightarrow> requirements option"
  ae_payload :: "json \<Rightarrow> payload option"
  ae_instant :: "string \<Rightarrow> int option"
  ae_message :: "error \<Rightarrow> string"

text \<open>A payment of the wrong shape is refused by the binding, with the same answer as a malformed body.\<close>

definition parse_kya_x402_body :: "host \<Rightarrow> api_env \<Rightarrow> json \<Rightarrow> kya_x402_input option" where
  "parse_kya_x402_body H Q v = do {
     ob \<leftarrow> strict_obj [''payment_requirements'', ''payment_payload'', ''resource'', ''purpose'', ''asset_decimals'',
       ''presentation'', ''extensions''] v;
     q \<leftarrow> required (ae_requirements Q) ob ''payment_requirements''; y \<leftarrow> optional (ae_payload Q) ob ''payment_payload'';
     r \<leftarrow> str_where (url_ok H) ob ''resource''; u \<leftarrow> str_where (len_between 1 128) ob ''purpose'';
     n \<leftarrow> int_where (\<lambda>n. 0 \<le> n \<and> n \<le> 18) ob ''asset_decimals'';
     p \<leftarrow> required parse_presentation ob ''presentation''; xs \<leftarrow> optional parse_any_object ob ''extensions'';
     Some \<lparr>kx_requirements = q, kx_payload = y, kx_resource = r, kx_purpose = u, kx_asset_decimals = of_int n,
       kx_presentation = p, kx_extensions = map_option (\<lambda>x. case x of JObj fs \<Rightarrow> fs | _ \<Rightarrow> []) xs\<rparr> }"

text \<open>\<open>Number(text)\<close>: \<open>None\<close> is not a finite number.\<close>

definition trim_space :: "string \<Rightarrow> string" where
  "trim_space s = rev (dropWhile js_space (rev (dropWhile js_space s)))"

definition split_sign :: "string \<Rightarrow> bool \<times> string" where
  "split_sign s =
     (case s of c # r \<Rightarrow> if c = CHR ''-'' then (True, r) else if c = CHR ''+'' then (False, r) else (False, s)
      | [] \<Rightarrow> (False, []))"

definition exponent_of :: "string \<Rightarrow> int option" where
  "exponent_of s =
     (case s of
        [] \<Rightarrow> Some 0
      | c # r \<Rightarrow>
          if c \<noteq> CHR ''e'' \<and> c \<noteq> CHR ''E'' then None
          else (case split_sign r of (neg, t) \<Rightarrow>
            if t = [] \<or> \<not> list_all is_digit t then None
            else Some (if neg then - int (digits_value t) else int (digits_value t))))"

definition decimal_number :: "string \<Rightarrow> rat option" where
  "decimal_number s =
     (case split_sign s of (neg, t) \<Rightarrow>
        let ip = takeWhile is_digit t; r = dropWhile is_digit t; pt = (r \<noteq> [] \<and> hd r = CHR ''.'');
            fp = (if pt then takeWhile is_digit (tl r) else []); u = (if pt then dropWhile is_digit (tl r) else r) in
        if ip = [] \<and> fp = [] then None
        else Option.bind (exponent_of u) (\<lambda>e.
          let q = of_nat (digits_value (ip @ fp)) * pow10 (e - int (length fp)) in to_double (if neg then - q else q)))"

definition radix_number :: "nat \<Rightarrow> string \<Rightarrow> rat option" where
  "radix_number b s =
     (if s \<noteq> [] \<and> list_all (\<lambda>c. hex_char (lower_char c) \<and> hex_value (lower_char c) < b) s
      then to_double (of_nat (foldl (\<lambda>n c. b * n + hex_value (lower_char c)) 0 s)) else None)"

definition js_number :: "string \<Rightarrow> rat option" where
  "js_number text =
     (let s = trim_space text; p = map lower_char (take 2 s) in
      if s = [] then Some 0
      else if p = ''0x'' then radix_number 16 (drop 2 s)
      else if p = ''0o'' then radix_number 8 (drop 2 s)
      else if p = ''0b'' then radix_number 2 (drop 2 s)
      else decimal_number s)"

text \<open>\<open>ReconciliationQuerySchema\<close>: what was updated before, and how many.\<close>

definition parse_unresolved_query :: "api_env \<Rightarrow> (string \<times> string) list \<Rightarrow> (int option \<times> int option) option" where
  "parse_unresolved_query Q qs =
     (if \<not> list_all (\<lambda>q. fst q \<in> {''updated_before'', ''limit''}) qs then None
      else do {
        t \<leftarrow> (case map_of qs ''updated_before'' of None \<Rightarrow> Some None | Some s \<Rightarrow> map_option Some (ae_instant Q s));
        n \<leftarrow> (case map_of qs ''limit'' of
                None \<Rightarrow> Some None
              | Some s \<Rightarrow> Option.bind (js_number s) (\<lambda>q.
                  guard_opt (of_int \<lfloor>q\<rfloor> = q \<and> 1 \<le> q \<and> q \<le> 500) (Some \<lfloor>q\<rfloor>)));
        Some (t, n) })"

subsection \<open>Answers\<close>

definition opt_reason_json :: "reason_code option \<Rightarrow> (string \<times> json) list" where
  "opt_reason_json r = opt_field ''reason_code'' (\<lambda>c. JStr (reason_string c)) r"

definition consume_result_json :: "consume_result \<Rightarrow> json" where
  "consume_result_json r = JObj
     ([(''success'', JBool (cr_success r)), (''status'', JStr (consume_status_string (cr_status r))),
       (''decision_id'', JStr (cr_decision_id r)), (''execution_ref'', JStr (cr_execution_ref r))] @
      opt_field ''consumed_at'' JStr (cr_consumed_at r) @ opt_reason_json (cr_reason r))"

definition resolve_result_json :: "resolve_result \<Rightarrow> json" where
  "resolve_result_json r = JObj
     ([(''success'', JBool (rr_success r)), (''status'', JStr (resolve_status_string (rr_status r))),
       (''decision_id'', JStr (rr_decision_id r))] @
      opt_field ''decision'' decision_json (rr_decision r) @ opt_reason_json (rr_reason r))"

definition checks_json :: "checks \<Rightarrow> json" where
  "checks_json c = JObj
     [(''schema'', JBool (ck_schema c)), (''signature'', JBool (ck_signature c)), (''fingerprint'', JBool (ck_fingerprint c)),
      (''action_hash'', JBool (ck_action_hash c)), (''decision_binding'', JBool (ck_decision_binding c)),
      (''expiry'', JBool (ck_expiry c)), (''policy_version'', JBool (ck_policy_version c)),
      (''payment_requirements'', JBool (ck_payment_requirements c))]"

definition verification_json :: "verification \<Rightarrow> json" where
  "verification_json r = JObj
     ((''valid'', JBool (vr_valid r)) # opt_field ''verdict'' (\<lambda>v. JStr (verdict_string v)) (vr_verdict r) @
      opt_field ''decision_id'' JStr (vr_decision_id r) @
      [(''checks'', checks_json (vr_checks r)), (''reason_codes'', strs_json (map reason_string (vr_reasons r)))])"

fun op_status_string :: "op_status \<Rightarrow> string" where
  "op_status_string Prepared = ''prepared''"
| "op_status_string InProgress = ''in_progress''"
| "op_status_string Succeeded = ''succeeded''"
| "op_status_string FailedFinal = ''failed_final''"
| "op_status_string OutcomeUnknown = ''outcome_unknown''"

definition operation_json :: "operation \<Rightarrow> json" where
  "operation_json x = JObj
     [(''version'', JStr ''inntris-execution-operation-v1''), (''operationId'', JStr (xo_operation_id x)),
      (''rail'', JStr (rail_string (xo_rail x))), (''operationKind'', JStr (kind_string (xo_kind x))),
      (''decisionId'', JStr (xo_decision_id x)), (''actionHash'', JStr (xo_action_hash x)),
      (''executionRef'', JStr (xo_execution_ref x)), (''bindingHash'', JStr (xo_binding_hash x)),
      (''status'', JStr (op_status_string (xo_status x))), (''attemptCount'', JNum (of_nat (xo_attempts x))),
      (''preparedAt'', JStr (xo_prepared_at x)), (''startedAt'', null_str (xo_started_at x)),
      (''updatedAt'', JStr (xo_updated_at x)), (''resolvedAt'', null_str (xo_resolved_at x)),
      (''outcomeReference'', null_str (xo_outcome_reference x)), (''lastErrorCode'', null_str (xo_last_error x)),
      (''resolvedBy'', null_str (xo_resolved_by x)), (''resolutionNote'', null_str (xo_note x))]"

definition answer :: "int \<Rightarrow> json \<Rightarrow> reply" where
  "answer status v = Reply status (Some v)"

definition error_answer :: "int \<Rightarrow> string \<Rightarrow> reply" where
  "error_answer status e = answer status (JObj [(''error'', JStr e)])"

definition malformed_input :: "api_env \<Rightarrow> error \<Rightarrow> reply" where
  "malformed_input Q e = answer 400 (JObj [(''error'', JStr ''malformed_input''), (''message'', JStr (ae_message Q e))])"

subsection \<open>The service\<close>

record 's kya_api =
  ka_required :: bool
  ka_policy :: kya_policy
  ka_evaluate :: "action \<Rightarrow> kya_presentation option \<Rightarrow> (kya_error, 's, decision) io"
  ka_resolve :: "resolve_input \<Rightarrow> kya_presentation \<Rightarrow> (kya_error, 's, resolve_result) io"
  ka_consume :: "consume_input \<Rightarrow> kya_presentation \<Rightarrow> (kya_error, 's, consume_result) io"
  ka_protects :: "string \<Rightarrow> (error, 's, bool) io"

record 's demo_api =
  da_evaluate :: "action \<Rightarrow> (error, 's, decision) io"
  da_resolve :: "(resolve_input \<Rightarrow> (error, 's, resolve_result) io) option"
  da_consume :: "consume_input \<Rightarrow> (error, 's, consume_result) io"
  da_registry :: "key_entry list"
  da_policy_version :: "string option"
  da_service_key :: "string option"
  da_failure :: "reason_code \<Rightarrow> 's \<Rightarrow> 's"
  da_clock :: "'s \<Rightarrow> int"
  da_unresolved :: "(int option \<Rightarrow> int option \<Rightarrow> (error, 's, operation list) io) option"
  da_kya :: "'s kya_api option"

definition build_demo_api :: "'s demo_api \<Rightarrow> error + 's demo_api" where
  "build_demo_api A =
     (if da_unresolved A \<noteq> None \<and> da_service_key A = None
      then Inl (JsError ''Error'' ''A service API key is required when operational reconciliation is exposed'')
      else Inr A)"

record api_request =
  aq_method :: string
  aq_path :: string
  aq_authorization :: "string option"
  aq_query :: "(string \<times> string) list"
  aq_body :: json

type_synonym 's handler = "'s \<Rightarrow> reply \<times> 's"

definition bearer_matches :: "string option \<Rightarrow> string \<Rightarrow> bool" where
  "bearer_matches actual key \<longleftrightarrow> utf8 (case actual of None \<Rightarrow> [] | Some s \<Rightarrow> s) = utf8 (''Bearer '' @ key)"

definition authenticated :: "'s demo_api \<Rightarrow> api_request \<Rightarrow> 's handler \<Rightarrow> 's handler" where
  "authenticated A rq h s =
     (case da_service_key A of
        None \<Rightarrow> h s
      | Some key \<Rightarrow>
          if bearer_matches (aq_authorization rq) key then h s else (error_answer 401 ''authentication_failed'', s))"

text \<open>A \<open>try\<close> whose error gives a fixed answer.\<close>

definition answering :: "('e, 's, reply) io \<Rightarrow> reply \<Rightarrow> 's handler" where
  "answering m failure s = (case m s of (Inl _, s') \<Rightarrow> (failure, s') | (Inr r, s') \<Rightarrow> (r, s'))"

definition api_config :: "host \<Rightarrow> api_env \<Rightarrow> 's demo_api \<Rightarrow> 's handler" where
  "api_config H Q A s =
     (case da_kya A of
        None \<Rightarrow> (answer 200 (JObj [(''enabled'', JBool False)]), s)
      | Some k \<Rightarrow>
          let p = ka_policy k in
          (case hash_kya_policy H p of
             Inl e \<Rightarrow> (answer 500 (JObj [(''statusCode'', JNum 500), (''error'', JStr ''Internal Server Error''), (''message'', JStr (ae_message Q e))]), s)
           | Inr h \<Rightarrow> (answer 200 (JObj
               [(''enabled'', JBool True), (''mode'', JStr (if ka_required k then ''required'' else ''optional'')),
                (''authority_policy'', JObj
                  [(''policy_id'', JStr (yp_policy_id p)), (''policy_version'', JStr (yp_policy_version p)),
                   (''policy_hash'', JStr h), (''profiles'', strs_json (map profile_string (yp_profiles p))),
                   (''accepted_did_methods'', strs_json (map did_method_string (yp_did_methods p))),
                   (''min_proof_assurance'', JStr (assurance_string (yp_min_assurance p))),
                   (''require_fresh_revocation'', JBool (yp_fresh_revocation p))])]), s)))"

definition api_unresolved :: "api_env \<Rightarrow> 's demo_api \<Rightarrow> api_request \<Rightarrow> 's handler" where
  "api_unresolved Q A rq s =
     (case da_unresolved A of
        None \<Rightarrow> (error_answer 503 ''reconciliation_store_unavailable'', s)
      | Some list_ops \<Rightarrow>
          (case parse_unresolved_query Q (aq_query rq) of
             None \<Rightarrow> (malformed_input Q ZodError, s)
           | Some (before, n) \<Rightarrow>
               answering (bind_io (list_ops before n) (\<lambda>xs. ret (answer 200 (JObj [(''operations'', JArr (map operation_json xs))]))))
                 (error_answer 503 ''reconciliation_store_unavailable'') s))"

definition decision_answer :: "decision \<Rightarrow> reply" where
  "decision_answer d = answer 200 (JObj [(''decision'', decision_json d)])"

text \<open>In required mode an action on a resource of the authority policy goes to the gate, which blocks it for want of a
  presentation.\<close>

definition requires_authority :: "'s demo_api \<Rightarrow> action \<Rightarrow> 's kya_api option" where
  "requires_authority A a =
     (case da_kya A of
        None \<Rightarrow> None
      | Some k \<Rightarrow>
          if ka_required k \<and> list_ex (\<lambda>b. fst b = pr_resource (a_reference a)) (yp_resources (ka_policy k)) then Some k else None)"

definition api_evaluate :: "host \<Rightarrow> api_env \<Rightarrow> 's demo_api \<Rightarrow> api_request \<Rightarrow> 's handler" where
  "api_evaluate H Q A rq s =
     (case parse_evaluate_body H (aq_body rq) of
        None \<Rightarrow> (malformed_input Q ZodError, s)
      | Some a \<Rightarrow>
          (case requires_authority A a of
             Some k \<Rightarrow> answering (bind_io (ka_evaluate k a None) (\<lambda>d. ret (decision_answer d)))
               (error_answer 503 ''decision_service_unavailable'') s
           | None \<Rightarrow> answering (bind_io (da_evaluate A a) (\<lambda>d. ret (decision_answer d)))
               (error_answer 503 ''decision_service_unavailable'') s))"

definition kya_disabled :: reply where
  "kya_disabled = error_answer 503 ''kya_authority_disabled''"

definition kya_unavailable :: reply where
  "kya_unavailable = error_answer 503 ''kya_authority_state_unavailable''"

definition resolve_answer :: "resolve_result \<Rightarrow> reply" where
  "resolve_answer r =
     answer (if rr_success r then 200 else if rr_status r = ResolveConflict then 409 else 422) (resolve_result_json r)"

definition consume_answer :: "consume_result \<Rightarrow> reply" where
  "consume_answer r =
     answer (if cr_status r = Conflict then 409 else if cr_success r then 200 else 422) (consume_result_json r)"

definition api_kya_evaluate :: "host \<Rightarrow> api_env \<Rightarrow> 's demo_api \<Rightarrow> api_request \<Rightarrow> 's handler" where
  "api_kya_evaluate H Q A rq s =
     (case da_kya A of
        None \<Rightarrow> (kya_disabled, s)
      | Some k \<Rightarrow>
          (case parse_kya_x402_body H Q (aq_body rq) of
             None \<Rightarrow> (malformed_input Q ZodError, s)
           | Some i \<Rightarrow>
               (case action_from_kya_x402 H (ae_x402 Q) (ae_kya Q) i (ka_policy k) of
                  Inl e \<Rightarrow> (malformed_input Q e, s)
                | Inr a \<Rightarrow> answering (bind_io (ka_evaluate k a (Some (kx_presentation i))) (\<lambda>d. ret (decision_answer d)))
                    kya_unavailable s)))"

definition api_kya_approve :: "api_env \<Rightarrow> 's demo_api \<Rightarrow> api_request \<Rightarrow> 's handler" where
  "api_kya_approve Q A rq s =
     (case da_kya A of
        None \<Rightarrow> (kya_disabled, s)
      | Some k \<Rightarrow>
          (case parse_kya_approve_body (aq_body rq) of
             None \<Rightarrow> (malformed_input Q ZodError, s)
           | Some (i, p) \<Rightarrow> answering (bind_io (ka_resolve k i p) (\<lambda>r. ret (resolve_answer r))) kya_unavailable s))"

definition api_kya_consume :: "api_env \<Rightarrow> 's demo_api \<Rightarrow> api_request \<Rightarrow> 's handler" where
  "api_kya_consume Q A rq s =
     (case da_kya A of
        None \<Rightarrow> (kya_disabled, s)
      | Some k \<Rightarrow>
          (case parse_kya_consume_body (aq_body rq) of
             None \<Rightarrow> (malformed_input Q ZodError, s)
           | Some (i, p) \<Rightarrow> answering (bind_io (ka_consume k i p) (\<lambda>r. ret (consume_answer r))) kya_unavailable s))"

definition api_verify :: "host \<Rightarrow> api_env \<Rightarrow> 's demo_api \<Rightarrow> api_request \<Rightarrow> 's handler" where
  "api_verify H Q A rq s =
     (case parse_verify_body H (aq_body rq) of
        None \<Rightarrow> (malformed_input Q ZodError, s)
      | Some (d, a, p) \<Rightarrow>
          let r = verify_decision H \<lparr>vi_decision = decision_json d, vi_action = action_json a,
                vi_registry = registry_json (da_registry A), vi_at = da_clock A s,
                vi_policy_version = (case p of None \<Rightarrow> da_policy_version A | Some v \<Rightarrow> Some v), vi_requirements_hash = None\<rparr>
          in (answer 200 (verification_json r), fold (da_failure A) (vr_reasons r) s))"

text \<open>\<open>options.kya?.gate.protectsDecision\<close>: false without a gate.\<close>

definition protected_by_gate :: "'s demo_api \<Rightarrow> string \<Rightarrow> (error, 's, bool) io" where
  "protected_by_gate A i = (case da_kya A of None \<Rightarrow> ret False | Some k \<Rightarrow> ka_protects k i)"

definition api_approve :: "api_env \<Rightarrow> 's demo_api \<Rightarrow> api_request \<Rightarrow> 's handler" where
  "api_approve Q A rq s =
     (case parse_approve_body (aq_body rq) of
        None \<Rightarrow> (malformed_input Q ZodError, s)
      | Some i \<Rightarrow>
          (case da_resolve A of
             None \<Rightarrow> (error_answer 503 ''approval_service_unavailable'', s)
           | Some resolve \<Rightarrow>
               answering
                 (bind_io (protected_by_gate A (ri_decision_id i)) (\<lambda>b.
                  if b then ret (answer 422 (JObj [(''success'', JBool False), (''status'', JStr ''rejected''),
                    (''decision_id'', JStr (ri_decision_id i)), (''reason_code'', JStr ''KYA_AUTHORITY_REQUIRED'')]))
                  else bind_io (resolve i) (\<lambda>r. ret (resolve_answer r))))
                 (error_answer 503 ''approval_service_unavailable'') s))"

definition api_consume :: "api_env \<Rightarrow> 's demo_api \<Rightarrow> api_request \<Rightarrow> 's handler" where
  "api_consume Q A rq s =
     (case parse_consume_body (aq_body rq) of
        None \<Rightarrow> (malformed_input Q ZodError, s)
      | Some i \<Rightarrow>
          answering
            (bind_io (protected_by_gate A (co_decision_id i)) (\<lambda>b.
             if b then ret (answer 422 (JObj [(''success'', JBool False), (''status'', JStr ''rejected''),
               (''decision_id'', JStr (co_decision_id i)), (''execution_ref'', JStr (co_execution_ref i)),
               (''reason_code'', JStr ''KYA_AUTHORITY_REQUIRED'')]))
             else bind_io (da_consume A i) (\<lambda>r. ret (consume_answer r))))
            (error_answer 503 ''consumption_service_unavailable'') s)"

definition api_handle :: "host \<Rightarrow> api_env \<Rightarrow> 's demo_api \<Rightarrow> api_request \<Rightarrow> 's handler" where
  "api_handle H Q A rq =
     (let route = (aq_method rq, aq_path rq) in
      if route = (''GET'', ''/healthz'') then (\<lambda>s. (answer 200 (JObj [(''status'', JStr ''ok''), (''service'', JStr ''inntris-decision-reference'')]), s))
      else if route = (''GET'', ''/.well-known/inntris-keys.json'') then (\<lambda>s. (answer 200 (registry_json (da_registry A)), s))
      else if route = (''GET'', ''/v1/kya/config'') then api_config H Q A
      else if route = (''GET'', ''/v1/operations/unresolved'') then authenticated A rq (api_unresolved Q A rq)
      else if route = (''POST'', ''/v1/decisions/evaluate'') then authenticated A rq (api_evaluate H Q A rq)
      else if route = (''POST'', ''/v1/kya/x402/evaluate'') then authenticated A rq (api_kya_evaluate H Q A rq)
      else if route = (''POST'', ''/v1/kya/decisions/approve'') then authenticated A rq (api_kya_approve Q A rq)
      else if route = (''POST'', ''/v1/kya/decisions/consume'') then authenticated A rq (api_kya_consume Q A rq)
      else if route = (''POST'', ''/v1/decisions/verify'') then authenticated A rq (api_verify H Q A rq)
      else if route = (''POST'', ''/v1/decisions/approve'') then authenticated A rq (api_approve Q A rq)
      else if route = (''POST'', ''/v1/decisions/consume'') then authenticated A rq (api_consume Q A rq)
      else (\<lambda>s. (answer 404 (JObj [(''message'', JStr (''Route '' @ aq_method rq @ '':'' @ aq_path rq @ '' not found'')),
        (''error'', JStr ''Not Found''), (''statusCode'', JNum 404)]), s)))"

subsection \<open>The service key\<close>

lemma bearer_matches_iff: "bearer_matches h key \<longleftrightarrow> h = Some (''Bearer '' @ key)"
proof -
  have "utf8 [] \<noteq> utf8 (''Bearer '' @ key)" using utf8_inj [of "[]" "''Bearer '' @ key"] by auto
  then show ?thesis by (cases h) (auto simp: bearer_matches_def dest: utf8_inj)
qed

definition public_routes :: "string list" where
  "public_routes = [''/healthz'', ''/.well-known/inntris-keys.json'', ''/v1/kya/config'']"

text \<open>A request without the key changes nothing and is refused, unless it is for a public document.\<close>

lemma unauthenticated_refused:
  assumes "da_service_key A = Some key" "aq_authorization rq \<noteq> Some (''Bearer '' @ key)"
    and "aq_method rq \<noteq> ''GET'' \<or> aq_path rq \<notin> set public_routes"
  shows "\<exists>status v. api_handle H Q A rq s = (Reply status v, s) \<and> status \<in> {401, 404}"
proof -
  have "authenticated A rq h s = (error_answer 401 ''authentication_failed'', s)" for h
    using assms(1,2) by (simp add: authenticated_def bearer_matches_iff)
  then show ?thesis using assms(3)
    by (auto simp: api_handle_def public_routes_def error_answer_def answer_def Let_def)
qed

subsection \<open>The remote provider over this service\<close>

text \<open>What its \<open>fetch\<close> does when the service answers every request.\<close>

definition serve :: "host \<Rightarrow> api_env \<Rightarrow> 's demo_api \<Rightarrow> string \<Rightarrow> string \<Rightarrow> json \<Rightarrow> 's \<Rightarrow> reply \<times> 's" where
  "serve H Q A key path body =
     api_handle H Q A \<lparr>aq_method = ''POST'', aq_path = path, aq_authorization = Some (''Bearer '' @ key), aq_query = [], aq_body = body\<rparr>"

definition consume_input_ok :: "consume_input \<Rightarrow> bool" where
  "consume_input_ok i \<longleftrightarrow> co_decision_id i \<noteq> [] \<and> hash_ok (co_action_hash i) \<and> len_between 1 512 (co_execution_ref i)"

definition resolve_input_ok :: "resolve_input \<Rightarrow> bool" where
  "resolve_input_ok i \<longleftrightarrow> ri_decision_id i \<noteq> [] \<and> len_between 1 256 (ri_approval_reference i) \<and> approver_ids_ok (ri_approver_ids i)"

lemma parse_consume_request: "parse_consume_body (consume_request_json i) = guard_opt (consume_input_ok i) i"
  by (cases i) (simp add: parse_consume_body_def consume_request_json_def read_consume_input_def consume_keys_def
      consume_input_ok_def str_where_def guard_opt_def read_defs)

lemma parse_resolve_request: "parse_approve_body (resolve_request_json i) = guard_opt (resolve_input_ok i) i"
  by (cases i) (simp add: parse_approve_body_def resolve_request_json_def read_resolve_input_def approve_keys_def
      resolve_input_ok_def str_where_def read_bool_def guard_opt_def read_defs)

lemma parse_evaluate_request: "parse_evaluate_body H (JObj [(''action'', action_json a)]) = parse_action H (action_json a)"
  by (simp add: parse_evaluate_body_def evaluate_keys_def required_def read_defs)

lemma parse_consume_answer: "parse_consume_reply (consume_result_json r) = guard_opt (consume_reply_ok r) r"
proof (cases r)
  case (fields a b c d e f)
  have "enum_read consume_status_string [Consumed, Idempotent, Conflict, Rejected] (consume_status_string b) = Some b"
    by (cases b) (simp_all add: enum_read_def)
  then show ?thesis unfolding fields
    by (cases e; cases f) (simp_all add: parse_consume_reply_def consume_result_json_def opt_reason_json_def opt_field_def
        read_bool_def get_opt_str_def get_opt_reason_def enum_read_reason read_defs)
qed

lemma parse_resolve_answer:
  assumes "\<And>d. rr_decision r = Some d \<Longrightarrow> decision_ok H d"
  shows "parse_resolve_reply H (resolve_result_json r) = guard_opt (resolve_reply_ok r) r"
proof (cases r)
  case (fields a b c d e)
  have "enum_read resolve_status_string [Superseded, ResolveConflict, ResolveRejected] (resolve_status_string b) = Some b"
    by (cases b) (simp_all add: enum_read_def)
  then show ?thesis using assms unfolding fields
    by (cases d; cases e) (simp_all add: parse_resolve_reply_def resolve_result_json_def opt_reason_json_def opt_field_def
        read_bool_def get_opt_decision_def get_opt_reason_def enum_read_reason parse_decision_json guard_opt_def read_defs)
qed

lemma serve_authenticated:
  assumes "case da_service_key A of None \<Rightarrow> True | Some k \<Rightarrow> k = key"
  shows "serve H Q A key ''/v1/decisions/evaluate'' body = api_evaluate H Q A \<lparr>aq_method = ''POST'', aq_path = ''/v1/decisions/evaluate'', aq_authorization = Some (''Bearer '' @ key), aq_query = [], aq_body = body\<rparr>"
    "serve H Q A key ''/v1/decisions/approve'' body = api_approve Q A \<lparr>aq_method = ''POST'', aq_path = ''/v1/decisions/approve'', aq_authorization = Some (''Bearer '' @ key), aq_query = [], aq_body = body\<rparr>"
    "serve H Q A key ''/v1/decisions/consume'' body = api_consume Q A \<lparr>aq_method = ''POST'', aq_path = ''/v1/decisions/consume'', aq_authorization = Some (''Bearer '' @ key), aq_query = [], aq_body = body\<rparr>"
  using assms
  by (auto simp: serve_def api_handle_def authenticated_def bearer_matches_iff fun_eq_iff split: option.splits)

text \<open>A provider whose results are about the request, as the reply schemas ask.\<close>

definition consumption_reported :: "consume_input \<Rightarrow> consume_result \<Rightarrow> bool" where
  "consumption_reported i r \<longleftrightarrow> consume_reply_ok r \<and> cr_decision_id r = co_decision_id i \<and> cr_execution_ref r = co_execution_ref i"

definition resolution_reported :: "host \<Rightarrow> json \<Rightarrow> resolve_input \<Rightarrow> resolve_result \<Rightarrow> bool" where
  "resolution_reported H registry i r \<longleftrightarrow> resolve_reply_ok r \<and> rr_decision_id r = ri_decision_id i \<and>
     (\<forall>d. rr_decision r = Some d \<longrightarrow> decision_ok H d \<and> d_supersedes d = Some (ri_decision_id i) \<and>
        en_valid (verify_signed_decision H (decision_json d) registry))"

text \<open>What a client sees of an operation of the provider: its result, or that the request failed.\<close>

definition over_http :: "(error, 's, 'a) io \<Rightarrow> (error, 's, 'a) io" where
  "over_http m s = (case m s of
     (Inl _, s') \<Rightarrow> (Inl (remote_error ''Remote Inntris request failed with HTTP 503''), s') | (Inr r, s') \<Rightarrow> (Inr r, s'))"

lemma status_text_503: "status_text 503 = ''503''"
  by code_simp

lemma answer_status:
  "\<exists>n. consume_answer r = Reply n (Some (consume_result_json r)) \<and> (reply_ok n \<or> n \<in> {409, 422})"
  "\<exists>n. resolve_answer x = Reply n (Some (resolve_result_json x)) \<and> (reply_ok n \<or> n \<in> {409, 422})"
  by (auto simp: consume_answer_def resolve_answer_def answer_def reply_ok_def)

text \<open>A consumption as the service lets it through: one of a decision that a KYA gate protects is rejected.\<close>

definition gated_consume :: "'s demo_api \<Rightarrow> consume_input \<Rightarrow> (error, 's, consume_result) io" where
  "gated_consume A i =
     (case da_kya A of
        None \<Rightarrow> da_consume A i
      | Some k \<Rightarrow> bind_io (ka_protects k (co_decision_id i)) (\<lambda>b.
          if b then ret (consume_rejection i KYA_AUTHORITY_REQUIRED) else da_consume A i))"

lemma serve_consume:
  assumes "rp_post R = serve H Q A key" "case da_service_key A of None \<Rightarrow> True | Some k \<Rightarrow> k = key" "consume_input_ok i"
  obtains n where "\<And>r s1. gated_consume A i s = (Inr r, s1) \<Longrightarrow>
      rp_post R ''/v1/decisions/consume'' (consume_request_json i) s = (Reply n (Some (consume_result_json r)), s1) \<and>
      (reply_ok n \<or> n \<in> {409, 422})"
    and "\<And>e s1. gated_consume A i s = (Inl e, s1) \<Longrightarrow>
      rp_post R ''/v1/decisions/consume'' (consume_request_json i) s = (error_answer 503 ''consumption_service_unavailable'', s1)"
proof -
  have rejected: "consume_result_json (consume_rejection i KYA_AUTHORITY_REQUIRED) = JObj
      [(''success'', JBool False), (''status'', JStr ''rejected''), (''decision_id'', JStr (co_decision_id i)),
       (''execution_ref'', JStr (co_execution_ref i)), (''reason_code'', JStr ''KYA_AUTHORITY_REQUIRED'')]"
    by (simp add: consume_result_json_def consume_rejection_def opt_reason_json_def opt_field_def)
  have "parse_consume_body (consume_request_json i) = Some i" using assms(3) by (simp add: parse_consume_request guard_opt_def)
  then have served: "rp_post R ''/v1/decisions/consume'' (consume_request_json i) s =
      answering (bind_io (protected_by_gate A (co_decision_id i)) (\<lambda>b.
        if b then ret (answer 422 (consume_result_json (consume_rejection i KYA_AUTHORITY_REQUIRED)))
        else bind_io (da_consume A i) (\<lambda>r. ret (consume_answer r)))) (error_answer 503 ''consumption_service_unavailable'') s"
    unfolding rejected by (simp add: assms(1) serve_authenticated [OF assms(2)] api_consume_def)
  have 422: "answer 422 v = Reply 422 (Some v)" for v by (simp add: answer_def)
  show thesis
  proof (cases "gated_consume A i s")
    case (Pair q s1)
    have "\<exists>n. (\<forall>r. q = Inr r \<longrightarrow> rp_post R ''/v1/decisions/consume'' (consume_request_json i) s = (Reply n (Some (consume_result_json r)), s1) \<and>
        (reply_ok n \<or> n \<in> {409, 422})) \<and>
      (\<forall>e. q = Inl e \<longrightarrow> rp_post R ''/v1/decisions/consume'' (consume_request_json i) s = (error_answer 503 ''consumption_service_unavailable'', s1))"
      unfolding served
      using Pair answer_status(1)
      by (auto simp: gated_consume_def protected_by_gate_def answering_def bind_io_apply 422
          split: option.splits sum.splits prod.splits if_splits)
    with Pair that show thesis by auto
  qed
qed

theorem remote_consume_over_service:
  assumes "rp_post R = serve H Q A key" "case da_service_key A of None \<Rightarrow> True | Some k \<Rightarrow> k = key"
    and "consume_input_ok i" "\<And>r t t'. da_consume A i t = (Inr r, t') \<Longrightarrow> consumption_reported i r"
  shows "remote_consume R i s = over_http (gated_consume A i) s"
proof -
  obtain q s1 where q: "gated_consume A i s = (q, s1)" by fastforce
  obtain n where ok: "\<And>r s1. gated_consume A i s = (Inr r, s1) \<Longrightarrow>
      rp_post R ''/v1/decisions/consume'' (consume_request_json i) s = (Reply n (Some (consume_result_json r)), s1) \<and>
      (reply_ok n \<or> n \<in> {409, 422})"
    and failed: "\<And>e s1. gated_consume A i s = (Inl e, s1) \<Longrightarrow>
      rp_post R ''/v1/decisions/consume'' (consume_request_json i) s = (error_answer 503 ''consumption_service_unavailable'', s1)"
    using serve_consume [OF assms(1-3)] by blast
  show ?thesis
  proof (cases q)
    case (Inl e)
    then show ?thesis using failed q
      by (simp add: remote_consume_def remote_post_def over_http_def bind_io_apply error_answer_def answer_def reply_ok_def status_text_503)
  next
    case (Inr r)
    have rep: "consumption_reported i r" using q Inr assms(4)
      by (auto simp: gated_consume_def bind_io_apply consumption_reported_def consume_reply_ok_def consume_rejection_def
          split: option.splits if_splits sum.splits prod.splits)
    have "remote_post R ''/v1/decisions/consume'' (consume_request_json i) [409, 422] s = (Inr (consume_result_json r), s1)"
      using ok [of r s1] q Inr by (auto simp: remote_post_def)
    then show ?thesis using rep q Inr
      by (simp add: remote_consume_def bind_io_apply over_http_def parse_consume_answer guard_opt_def consumption_reported_def
          check_consume_reply_def)
  qed
qed

theorem remote_resolve_over_service:
  assumes "rp_post R = serve H Q A key" "case da_service_key A of None \<Rightarrow> True | Some k \<Rightarrow> k = key" "da_kya A = None"
    and "da_resolve A = Some resolve" "resolve_input_ok i"
    and "\<And>r s'. resolve i s = (Inr r, s') \<Longrightarrow> resolution_reported H (rp_key_registry R) i r"
  shows "remote_resolve H R i s = over_http (resolve i) s"
proof -
  have p: "parse_approve_body (resolve_request_json i) = Some i" using assms(5) by (simp add: parse_resolve_request guard_opt_def)
  obtain q s1 where q: "resolve i s = (q, s1)" by fastforce
  have served: "rp_post R ''/v1/decisions/approve'' (resolve_request_json i) s =
      (case q of Inl _ \<Rightarrow> error_answer 503 ''approval_service_unavailable'' | Inr r \<Rightarrow> resolve_answer r, s1)"
    using p q assms(3,4)
    by (simp add: assms(1) serve_authenticated [OF assms(2)] api_approve_def answering_def protected_by_gate_def bind_io_apply split: sum.split)
  show ?thesis
  proof (cases q)
    case (Inl e)
    then show ?thesis using served q
      by (simp add: remote_resolve_def remote_post_def over_http_def bind_io_apply error_answer_def answer_def reply_ok_def status_text_503)
  next
    case (Inr r)
    have rep: "resolution_reported H (rp_key_registry R) i r" using assms(6) q Inr by simp
    obtain n where n: "resolve_answer r = Reply n (Some (resolve_result_json r))" "reply_ok n \<or> n \<in> {409, 422}"
      using answer_status(2) by blast
    have "remote_post R ''/v1/decisions/approve'' (resolve_request_json i) [409, 422] s = (Inr (resolve_result_json r), s1)"
      using n served Inr by (simp add: remote_post_def)
    then show ?thesis using rep q Inr
      by (auto simp: remote_resolve_def bind_io_apply over_http_def parse_resolve_answer guard_opt_def resolution_reported_def
          check_resolve_reply_def split: option.split)
  qed
qed

text \<open>A decision comes through if it verifies for the client.\<close>

theorem remote_evaluate_over_service:
  assumes "rp_post R = serve H Q A key" "case da_service_key A of None \<Rightarrow> True | Some k \<Rightarrow> k = key" "da_kya A = None"
    and "action_ok H a"
    and "\<And>d s'. da_evaluate A a s = (Inr d, s') \<Longrightarrow>
      vr_valid (verify_decision H \<lparr>vi_decision = decision_json d, vi_action = action_json a, vi_registry = rp_key_registry R,
        vi_at = now, vi_policy_version = rp_policy_version R, vi_requirements_hash = None\<rparr>)"
    and "\<And>d s'. da_evaluate A a s = (Inr d, s') \<Longrightarrow> decision_ok H d"
  shows "remote_evaluate H R now a s = over_http (da_evaluate A a) s"
proof -
  have p: "parse_evaluate_body H (JObj [(''action'', action_json a)]) = Some a"
    using assms(4) by (simp add: parse_evaluate_request parse_action_json guard_opt_def)
  obtain q s1 where q: "da_evaluate A a s = (q, s1)" by fastforce
  have served: "rp_post R ''/v1/decisions/evaluate'' (JObj [(''action'', action_json a)]) s =
      (case q of Inl _ \<Rightarrow> error_answer 503 ''decision_service_unavailable'' | Inr d \<Rightarrow> decision_answer d, s1)"
    using p q assms(3)
    by (simp add: assms(1) serve_authenticated [OF assms(2)] api_evaluate_def answering_def requires_authority_def bind_io_apply split: sum.split)
  show ?thesis
  proof (cases q)
    case (Inl e)
    then show ?thesis using served q
      by (simp add: remote_evaluate_def remote_post_def over_http_def bind_io_apply error_answer_def answer_def reply_ok_def status_text_503)
  next
    case (Inr d)
    have ok: "parse_decision H (decision_json d) = Some d"
      using assms(6) q Inr by (simp add: parse_decision_json guard_opt_def)
    have "remote_post R ''/v1/decisions/evaluate'' (JObj [(''action'', action_json a)]) [] s =
        (Inr (JObj [(''decision'', decision_json d)]), s1)"
      using served Inr by (simp add: remote_post_def decision_answer_def answer_def reply_ok_def)
    then show ?thesis using assms(5) q Inr ok
      by (simp add: remote_evaluate_def bind_io_apply over_http_def strict_obj_def)
  qed
qed

end
