(* ===== verification/DemoGuard.thy ===== *)
theory DemoGuard
  imports DemoApi
begin

section \<open>The decision service with a KYA gate\<close>

text \<open>
  The service of \<open>DemoApi\<close> as \<open>apps/demo-api/src/start.ts\<close> wires it: the provider behind the plain routes is the inner
  provider of the gate behind the KYA routes. The locale \<open>guarded_service\<close> adds to \<open>kya_guarded\<close> that the
  other operations of the service leave the authority records alone. Lemma: one request lets the inner provider consume at most one
  decision, and if that decision has an authority record, the consumption was revalidated.
\<close>

definition with_gate ::
  "host \<Rightarrow> 's kya_gate \<Rightarrow> string \<Rightarrow> (resolve_input \<Rightarrow> (error, 's, resolve_result) io) option \<Rightarrow> 's demo_api \<Rightarrow> 's demo_api" where
  "with_gate H G uid plain A =
     A\<lparr>da_evaluate := kg_evaluate G, da_resolve := plain, da_consume := kg_consume G,
       da_kya := Some \<lparr>ka_required = yp_required (kg_policy G), ka_policy = kg_policy G, ka_evaluate = kya_evaluate H G,
         ka_resolve = kya_resolve_approval H G uid, ka_consume = kya_consume H G uid, ka_protects = protects_decision G\<rparr>\<rparr>"

locale guarded_service = kya_guarded G print known revalidated consumed_inside same
  for G :: "'s kya_gate" and print :: "kya_record \<Rightarrow> string" and known :: "'s \<Rightarrow> string \<Rightarrow> string option"
    and revalidated :: "'s \<Rightarrow> string \<Rightarrow> string \<Rightarrow> string \<Rightarrow> bool" and consumed_inside :: "'s \<Rightarrow> consume_input list"
    and same :: "'s \<Rightarrow> 's \<Rightarrow> bool" +
  fixes plain :: "(resolve_input \<Rightarrow> (error, 's, resolve_result) io) option" and A :: "'s demo_api"
  assumes get_complete: "kg_get G i s = (Inr None, s') \<Longrightarrow> known s i = None"
    and plain_frame: "plain = Some r \<Longrightarrow> keeps same (r ri)"
    and failure_frame: "same s (da_failure A c s)"
    and unresolved_frame: "da_unresolved A = Some f \<Longrightarrow> keeps same (f b n)"
begin

text \<open>What one request may do: nothing that the others rely on, or one consumption.\<close>

definition request_allowed :: "'s \<Rightarrow> 's \<Rightarrow> bool" where
  "request_allowed s s' \<longleftrightarrow> guarded s s' \<or>
     (\<exists>i. consumed_inside s' = consumed_inside s @ [i] \<and>
       (known s (co_decision_id i) \<noteq> None \<longrightarrow> revalidated s' (co_decision_id i) (co_action_hash i) (co_execution_ref i)))"

lemma allowed_refl [simp]: "request_allowed s s"
  using guarded_order by (simp add: request_allowed_def state_order_def)

lemma answering_state: "snd (answering m r s) = snd (m s)"
  by (simp add: answering_def split: prod.split sum.split)

lemma answering_allowed: "keeps guarded m \<Longrightarrow> request_allowed s (snd (answering (bind_io m (\<lambda>x. ret (f x))) r s))"
  by (simp add: answering_state bind_ret_state request_allowed_def keeps_def)

lemma kya_consume_allowed: "request_allowed s (snd (kya_consume H G uid i pr s))"
proof -
  obtain r s' where e: "kya_consume H G uid i pr s = (r, s')" by fastforce
  from consume_outcome [OF e] consider "guarded s s'" | s2 where "guarded s s2"
    "revalidated s2 (co_decision_id i) (co_action_hash i) (co_execution_ref i)" "other_io (kg_consume G i) s2 = (r, s')" by blast
  then show ?thesis
  proof cases
    case 2
    have "s' = snd (kg_consume G i s2)" using other_io_state [of "kg_consume G i" s2] 2(3) by simp
    with 2 consume_frame [of i s2] have "consumed_inside s' = consumed_inside s @ [i]"
      "revalidated s' (co_decision_id i) (co_action_hash i) (co_execution_ref i)" by (simp_all add: guarded_def)
    then show ?thesis using e by (auto simp: request_allowed_def)
  qed (simp add: e request_allowed_def)
qed

lemma protects_cases:
  obtains e where "protects_decision G i s = (Inl e, s)" | "protects_decision G i s = (Inr True, s)"
    | "protects_decision G i s = (Inr False, s)" "known s i = None"
proof -
  obtain q s1 where q: "kg_get G i s = (q, s1)" by fastforce
  then have "s1 = s" using get_state [of i s] by simp
  with q get_complete [of i s s1] that show thesis
    by (cases q) (auto simp: protects_decision_def bind_io_apply split: option.splits)
qed

lemma plain_consume_allowed: "request_allowed s (snd (api_consume Q (with_gate H G uid plain A) rq s))"
proof (cases "parse_consume_body (aq_body rq)")
  case (Some i)
  have run: "api_consume Q (with_gate H G uid plain A) rq s = answering (bind_io (protects_decision G (co_decision_id i)) (\<lambda>b.
      if b then ret (answer 422 (JObj [(''success'', JBool False), (''status'', JStr ''rejected''),
        (''decision_id'', JStr (co_decision_id i)), (''execution_ref'', JStr (co_execution_ref i)),
        (''reason_code'', JStr ''KYA_AUTHORITY_REQUIRED'')]))
      else bind_io (kg_consume G i) (\<lambda>r. ret (consume_answer r)))) (error_answer 503 ''consumption_service_unavailable'') s"
    by (simp add: api_consume_def Some protected_by_gate_def with_gate_def cong: if_cong)
  show ?thesis
  proof (rule protects_cases [of "co_decision_id i" s])
    fix e assume "protects_decision G (co_decision_id i) s = (Inl e, s)"
    then show ?thesis unfolding run by (simp add: answering_state bind_io_apply)
  next
    assume "protects_decision G (co_decision_id i) s = (Inr True, s)"
    then show ?thesis unfolding run by (simp add: answering_state bind_io_apply)
  next
    assume p: "protects_decision G (co_decision_id i) s = (Inr False, s)" and k: "known s (co_decision_id i) = None"
    have "snd (api_consume Q (with_gate H G uid plain A) rq s) = snd (kg_consume G i s)"
      unfolding run answering_state bind_io_apply p by (simp split: prod.split sum.split)
    then show ?thesis using consume_frame [of i s] k by (auto simp: request_allowed_def)
  qed
qed (simp add: api_consume_def)

lemma plain_approve_allowed: "request_allowed s (snd (api_approve Q (with_gate H G uid plain A) rq s))"
proof (cases "parse_approve_body (aq_body rq)")
  case (Some i)
  show ?thesis
  proof (cases plain)
    case p: (Some resolve)
    have "keeps guarded (bind_io (protects_decision G (ri_decision_id i)) (\<lambda>b.
        if b then ret (answer 422 (JObj [(''success'', JBool False), (''status'', JStr ''rejected''),
          (''decision_id'', JStr (ri_decision_id i)), (''reason_code'', JStr ''KYA_AUTHORITY_REQUIRED'')]))
        else bind_io (resolve i) (\<lambda>r. ret (resolve_answer r))))"
      unfolding protects_decision_def
      by (intro keeps_intros guarded_order store_keeps conjI impI keeps_same [OF plain_frame [OF p]])
    then show ?thesis
      by (simp add: api_approve_def Some p with_gate_def protected_by_gate_def answering_state request_allowed_def keeps_def)
  qed (simp add: api_approve_def Some with_gate_def)
qed (simp add: api_approve_def)

lemma fold_failure: "same s (fold (da_failure A) cs s)"
proof (induction cs arbitrary: s)
  case (Cons c cs)
  have "same s (da_failure A c s)" "same (da_failure A c s) (fold (da_failure A) cs (da_failure A c s))"
    using failure_frame Cons.IH by blast+
  then show ?case using same_order unfolding state_order_def by (metis fold.simps(2) comp_apply)
qed (use same_order in \<open>simp add: state_order_def\<close>)

lemma request_step: "request_allowed s (snd (api_handle H Q (with_gate H G uid plain A) rq s))"
proof -
  let ?A = "with_gate H G uid plain A"
  have auth: "request_allowed s (snd (authenticated ?A rq h s))" if "request_allowed s (snd (h s))" for h
    using that by (simp add: authenticated_def split: option.split)
  have k: "keeps guarded (kg_evaluate G a)" for a by (rule keeps_same [OF evaluate_frame])
  have unresolved: "request_allowed s (snd (api_unresolved Q ?A rq s))"
    by (auto simp: api_unresolved_def with_gate_def split: option.split
        intro!: answering_allowed keeps_same dest: unresolved_frame)
  have ev: "request_allowed s (snd (api_evaluate H Q ?A rq s))"
    using answering_allowed [OF evaluate_keeps] answering_allowed [OF k]
    by (auto simp: api_evaluate_def requires_authority_def with_gate_def split: option.split)
  have kev: "request_allowed s (snd (api_kya_evaluate H Q ?A rq s))"
    using answering_allowed [OF evaluate_keeps]
    by (auto simp: api_kya_evaluate_def with_gate_def split: option.split sum.split)
  have kap: "request_allowed s (snd (api_kya_approve Q ?A rq s))"
    using answering_allowed [OF resolve_keeps]
    by (auto simp: api_kya_approve_def with_gate_def split: option.split)
  have kco: "request_allowed s (snd (api_kya_consume Q ?A rq s))"
    using kya_consume_allowed
    by (auto simp: api_kya_consume_def with_gate_def answering_state bind_ret_state split: option.split)
  have vf: "request_allowed s (snd (api_verify H Q ?A rq s))"
    using same_guarded [OF fold_failure] allowed_refl
    by (cases "parse_verify_body H (aq_body rq)") (auto simp: api_verify_def with_gate_def request_allowed_def Let_def)
  show ?thesis
    unfolding api_handle_def Let_def
    by (simp add: auth unresolved ev kev kap kco vf plain_approve_allowed plain_consume_allowed)
      (simp add: api_config_def with_gate_def Let_def split: sum.split)
qed

lemma request_revalidated:
  assumes "api_handle H Q (with_gate H G uid plain A) rq s = (reply, s')"
    and "consumed_inside s' = consumed_inside s @ is" "i \<in> set is" "known s (co_decision_id i) \<noteq> None"
  shows "is = [i] \<and> revalidated s' (co_decision_id i) (co_action_hash i) (co_execution_ref i)"
  using request_step [of s H Q uid rq] assms by (auto simp: request_allowed_def guarded_def)

end

subsection \<open>The service over either store\<close>

text \<open>The metrics and the journal of the service are part of the state of the inner provider.\<close>

definition lift_service :: "'p demo_api \<Rightarrow> ('p, 't, 'w) kya_world demo_api" where
  "lift_service B =
     \<lparr>da_evaluate = (\<lambda>a. on_part kx_inner kx_inner_update (da_evaluate B a)),
      da_resolve = map_option (\<lambda>r i. on_part kx_inner kx_inner_update (r i)) (da_resolve B),
      da_consume = (\<lambda>i. on_part kx_inner kx_inner_update (da_consume B i)),
      da_registry = da_registry B, da_policy_version = da_policy_version B, da_service_key = da_service_key B,
      da_failure = (\<lambda>c. kx_inner_update (da_failure B c)), da_clock = (\<lambda>s. da_clock B (kx_inner s)),
      da_unresolved = map_option (\<lambda>f b n. on_part kx_inner kx_inner_update (f b n)) (da_unresolved B), da_kya = None\<rparr>"

abbreviation lift_resolve ::
  "'p inner_provider \<Rightarrow> (resolve_input \<Rightarrow> (error, ('p, 't, 'w) kya_world, resolve_result) io) option" where
  "lift_resolve N \<equiv> map_option (\<lambda>r i. on_part kx_inner kx_inner_update (r i)) (in_resolve N)"

definition memory_service ::
  "host \<Rightarrow> (string \<Rightarrow> bool) \<Rightarrow> 'p inner_provider \<Rightarrow> ('w, ('p, kya_memory, 'w) kya_world) kya_setup \<Rightarrow> string \<Rightarrow> 'p demo_api \<Rightarrow>
    ('p, kya_memory, 'w) kya_world demo_api" where
  "memory_service H uuid N V uid B = with_gate H (memory_gate H uuid N V) uid (lift_resolve N) (lift_service B)"

definition postgres_service ::
  "host \<Rightarrow> (string \<Rightarrow> bool) \<Rightarrow> pg_types \<Rightarrow> 'p inner_provider \<Rightarrow> ('w, ('p, kya_tables, 'w) kya_world) kya_setup \<Rightarrow> string \<Rightarrow>
    'p demo_api \<Rightarrow> ('p, kya_tables, 'w) kya_world demo_api" where
  "postgres_service H uuid T N V uid B = with_gate H (postgres_gate H uuid T N V) uid (lift_resolve N) (lift_service B)"

abbreviation same_part :: "('t \<Rightarrow> string \<Rightarrow> string option) \<Rightarrow> ('t \<Rightarrow> string \<Rightarrow> string \<Rightarrow> string \<Rightarrow> bool) \<Rightarrow>
    ('p, 't, 'w) kya_world \<Rightarrow> ('p, 't, 'w) kya_world \<Rightarrow> bool" where
  "same_part f g \<equiv> same_view (\<lambda>s. f (kx_store s)) (\<lambda>s. g (kx_store s)) kx_consumed"

lemma lifted_frames:
  "lift_resolve N = Some r \<Longrightarrow> keeps (same_part f g) (r i)"
  "same_part f g s (da_failure (lift_service B) c s)"
  "da_unresolved (lift_service B) = Some h \<Longrightarrow> keeps (same_part f g) (h b n)"
  by (auto simp: lift_service_def on_part_state keeps_def same_view_def)

interpretation memory_guard: guarded_service "memory_gate H uuid N V" "record_print H" "\<lambda>s. mem_known H (kx_store s)"
  "\<lambda>s. mem_revalidated (kx_store s)" kx_consumed
  "same_view (\<lambda>s. mem_known H (kx_store s)) (\<lambda>s. mem_revalidated (kx_store s)) kx_consumed" "lift_resolve N" "lift_service B"
proof
  fix s s' :: "('a, kya_memory, 'b) kya_world" and i
  show "mem_known H (kx_store s) i = None" if "kg_get (memory_gate H uuid N V) i s = (Inr None, s')"
    using that by (auto simp: memory_gate_def mem_get_decision_def mem_known_def on_part_def split: prod.splits)
qed (rule lifted_frames; assumption)+

interpretation postgres_guard: guarded_service "postgres_gate H uuid T N V" "record_print H" "\<lambda>s. pg_known H (kx_store s)"
  "\<lambda>s. pg_revalidated (kx_store s)" kx_consumed
  "same_view (\<lambda>s. pg_known H (kx_store s)) (\<lambda>s. pg_revalidated (kx_store s)) kx_consumed" "lift_resolve N" "lift_service B"
proof
  fix s s' :: "('a, kya_tables, 'b) kya_world" and i
  show "pg_known H (kx_store s) i = None" if "kg_get (postgres_gate H uuid T N V) i s = (Inr None, s')"
    using that by (auto simp: postgres_gate_def pg_get_kya_decision_def pg_known_def on_part_def
        split: prod.splits option.splits sum.splits)
qed (rule lifted_frames; assumption)+

end
