(* ===== verification/PolicyText.thy ===== *)
theory PolicyText
  imports PulseCase X402 Kya
begin

section \<open>Reading policy documents\<close>

text \<open>
  The strict schemas of the two policy documents on the value a YAML text stands for:
  \<open>policy-engine/src/policy.ts\<close> (\<open>InntrisPolicyV1Schema\<close>, \<open>parsePolicyText\<close>) and
  \<open>kya-os-authority/src/policy.ts\<close> with \<open>schemas.ts\<close>. The \<open>yaml\<close> package is a parameter. Lemmas: what is read is valid, and a
  valid policy is read back from its JSON form, so the hash of a policy is the hash of a document that reads as it.
\<close>

subsection \<open>Lists and names\<close>

definition text_of :: "json \<Rightarrow> string option" where
  "text_of v = (case v of JStr s \<Rightarrow> Some s | _ \<Rightarrow> None)"

definition list_of :: "(json \<Rightarrow> 'a option) \<Rightarrow> json \<Rightarrow> 'a list option" where
  "list_of f v = (case v of JArr xs \<Rightarrow> read_all f xs | _ \<Rightarrow> None)"

definition name_of :: "('a \<Rightarrow> string) \<Rightarrow> 'a list \<Rightarrow> json \<Rightarrow> 'a option" where
  "name_of f xs v = Option.bind (text_of v) (enum_read f xs)"

definition bool_of :: "json \<Rightarrow> bool option" where
  "bool_of v = (case v of JBool b \<Rightarrow> Some b | _ \<Rightarrow> None)"

definition is_one :: "(string \<times> json) list \<Rightarrow> string \<Rightarrow> unit option" where
  "is_one ob k = guard_opt (map_of ob k = Some (JNum 1)) ()"

definition optional_int :: "(string \<times> json) list \<Rightarrow> string \<Rightarrow> int option option" where
  "optional_int ob k = (if map_of ob k = None then Some None else map_option Some (int_where (\<lambda>_. True) ob k))"

text \<open>\<open>default([])\<close>.\<close>

definition texts_or_none :: "(string \<times> json) list \<Rightarrow> string \<Rightarrow> string list option" where
  "texts_or_none ob k = map_option (\<lambda>x. case x of None \<Rightarrow> [] | Some xs \<Rightarrow> xs) (optional (list_of text_of) ob k)"

lemma text_of_JStr [simp]: "text_of (JStr s) = Some s"
  by (simp add: text_of_def)

lemma list_of_strs [simp]: "list_of text_of (strs_json xs) = Some xs"
  by (simp add: list_of_def strs_json_def read_all_map)

lemma list_of_map: "(\<And>x. x \<in> set xs \<Longrightarrow> f (g x) = Some x) \<Longrightarrow> list_of f (JArr (map g xs)) = Some xs"
  by (simp add: list_of_def read_all_map)

lemma list_of_names:
  "distinct (map g ys) \<Longrightarrow> set xs \<subseteq> set ys \<Longrightarrow> list_of (name_of g ys) (strs_json (map g xs)) = Some xs"
  unfolding strs_json_def map_map by (rule list_of_map) (auto simp: name_of_def enum_read_ok)

subsection \<open>The policy of the engine\<close>

definition all_weekdays :: "weekday list" where
  "all_weekdays = [MONDAY, TUESDAY, WEDNESDAY, THURSDAY, FRIDAY, SATURDAY, SUNDAY]"

definition read_merchant :: "json \<Rightarrow> merchant option" where
  "read_merchant v = do {
     ob \<leftarrow> strict_obj [''merchant_id'', ''payees'', ''purposes'', ''resources'', ''per_transaction_limit''] v;
     i \<leftarrow> get_str ob ''merchant_id''; ps \<leftarrow> required (list_of text_of) ob ''payees''; us \<leftarrow> required (list_of text_of) ob ''purposes'';
     rs \<leftarrow> required (list_of text_of) ob ''resources''; n \<leftarrow> get_str ob ''per_transaction_limit'';
     Some \<lparr>m_merchant_id = i, m_payees = ps, m_purposes = us, m_resources = rs, m_limit = n\<rparr> }"

definition read_deny :: "json \<Rightarrow> deny_rules option" where
  "read_deny v = do {
     ob \<leftarrow> strict_obj [''networks'', ''assets'', ''payees'', ''purposes'', ''resources''] v;
     ns \<leftarrow> texts_or_none ob ''networks''; as \<leftarrow> texts_or_none ob ''assets''; ps \<leftarrow> texts_or_none ob ''payees'';
     us \<leftarrow> texts_or_none ob ''purposes''; rs \<leftarrow> texts_or_none ob ''resources'';
     Some \<lparr>dn_networks = ns, dn_assets = as, dn_payees = ps, dn_purposes = us, dn_resources = rs\<rparr> }"

definition read_rail_policy :: "json \<Rightarrow> rail_policy option" where
  "read_rail_policy v = do {
     ob \<leftarrow> strict_obj [''allowed_networks'', ''allowed_assets''] v;
     ns \<leftarrow> required (list_of text_of) ob ''allowed_networks''; as \<leftarrow> required (list_of text_of) ob ''allowed_assets'';
     Some \<lparr>rp_networks = ns, rp_assets = as\<rparr> }"

definition read_windows :: "json \<Rightarrow> time_windows option" where
  "read_windows v = do {
     ob \<leftarrow> strict_obj [''timezone'', ''allowed_weekdays'', ''start'', ''end''] v;
     z \<leftarrow> get_str ob ''timezone''; ds \<leftarrow> required (list_of (name_of weekday_string all_weekdays)) ob ''allowed_weekdays'';
     s \<leftarrow> get_str ob ''start''; e \<leftarrow> get_str ob ''end'';
     Some \<lparr>tw_timezone = z, tw_weekdays = ds, tw_start = s, tw_end = e\<rparr> }"

definition read_policy :: "host \<Rightarrow> int \<Rightarrow> json \<Rightarrow> policy option" where
  "read_policy H now v = do {
     ob \<leftarrow> strict_obj [''version'', ''policy_id'', ''policy_version'', ''expires_at'', ''defaults'', ''deny'', ''rails'', ''limits'',
       ''approval'', ''merchants'', ''time_windows''] v;
     is_one ob ''version''; i \<leftarrow> get_str ob ''policy_id''; pv \<leftarrow> get_str ob ''policy_version''; ex \<leftarrow> get_opt_str ob ''expires_at'';
     df \<leftarrow> required (strict_obj [''verdict'', ''decision_ttl_seconds'']) ob ''defaults'';
     get_lit df ''verdict'' ''BLOCK''; ttl \<leftarrow> int_where (\<lambda>_. True) df ''decision_ttl_seconds'';
     dn \<leftarrow> optional read_deny ob ''deny'';
     rl \<leftarrow> required (strict_obj [''x402'', ''ap2'', ''evm'', ''card'', ''mcp'']) ob ''rails'';
     rx \<leftarrow> required read_rail_policy rl ''x402''; ra \<leftarrow> optional read_rail_policy rl ''ap2'';
     re \<leftarrow> optional read_rail_policy rl ''evm''; rc \<leftarrow> optional read_rail_policy rl ''card''; rm \<leftarrow> optional read_rail_policy rl ''mcp'';
     lm \<leftarrow> required (strict_obj [''per_transaction'', ''daily'']) ob ''limits'';
     pt \<leftarrow> get_str lm ''per_transaction''; dy \<leftarrow> get_str lm ''daily'';
     ap \<leftarrow> required (strict_obj [''require_human_above'', ''request_ttl_seconds'']) ob ''approval'';
     hu \<leftarrow> get_str ap ''require_human_above'';
     rt \<leftarrow> optional_int ap ''request_ttl_seconds'';
     ms \<leftarrow> required (list_of read_merchant) ob ''merchants''; tw \<leftarrow> required read_windows ob ''time_windows'';
     let p = \<lparr>pl_policy_id = i, pl_version = pv, pl_expires_at = ex, pl_ttl_seconds = ttl, pl_deny = dn, pl_x402 = rx, pl_ap2 = ra,
       pl_evm = re, pl_card = rc, pl_mcp = rm, pl_per_transaction = pt, pl_daily = dy, pl_require_human_above = hu,
       pl_request_ttl = rt, pl_merchants = ms, pl_windows = tw\<rparr>;
     guard_opt (policy_ok H now p) p }"

definition parse_policy_text :: "(string \<Rightarrow> error + json) \<Rightarrow> host \<Rightarrow> int \<Rightarrow> string \<Rightarrow> error + policy" where
  "parse_policy_text yaml H now s = bind_sum (yaml s) (\<lambda>v. parse_or_zod (read_policy H now v))"

lemma read_merchant_json [simp]: "read_merchant (merchant_json m) = Some m"
  by (simp add: read_merchant_def merchant_json_def strict_obj_def get_str_def required_def)

lemma read_deny_json [simp]: "read_deny (deny_json d) = Some d"
  by (simp add: read_deny_def deny_json_def strict_obj_def texts_or_none_def optional_def)

lemma read_rail_policy_json [simp]: "read_rail_policy (rail_policy_json r) = Some r"
  by (simp add: read_rail_policy_def rail_policy_json_def strict_obj_def required_def)

lemma all_weekdays_names: "distinct (map weekday_string all_weekdays)" "set ds \<subseteq> set all_weekdays"
proof -
  show "distinct (map weekday_string all_weekdays)" by code_simp
  have "d \<in> set all_weekdays" for d by (cases d) (simp_all add: all_weekdays_def)
  then show "set ds \<subseteq> set all_weekdays" by blast
qed

definition windows_json :: "time_windows \<Rightarrow> json" where
  "windows_json w = JObj [(''timezone'', JStr (tw_timezone w)),
     (''allowed_weekdays'', strs_json (map weekday_string (tw_weekdays w))), (''start'', JStr (tw_start w)), (''end'', JStr (tw_end w))]"

lemma read_windows_json [simp]: "read_windows (windows_json w) = Some w"
  by (simp add: read_windows_def windows_json_def strict_obj_def get_str_def required_def list_of_names all_weekdays_names)

lemma read_policy_ok: "read_policy H now v = Some p \<Longrightarrow> policy_ok H now p"
  by (auto simp: read_policy_def bind_eq_Some_conv guard_opt_def Let_def split: if_splits)

text \<open>The round trip, one part of the document at a time.\<close>

lemma policy_json_parts:
  "policy_json p = JObj
     ([(''version'', JNum 1), (''policy_id'', JStr (pl_policy_id p)), (''policy_version'', JStr (pl_version p))]
      @ opt_field ''expires_at'' JStr (pl_expires_at p)
      @ [(''defaults'', JObj [(''verdict'', JStr ''BLOCK''), (''decision_ttl_seconds'', JNum (of_int (pl_ttl_seconds p)))])]
      @ opt_field ''deny'' deny_json (pl_deny p)
      @ [(''rails'', JObj ([(''x402'', rail_policy_json (pl_x402 p))]
            @ opt_field ''ap2'' rail_policy_json (pl_ap2 p) @ opt_field ''evm'' rail_policy_json (pl_evm p)
            @ opt_field ''card'' rail_policy_json (pl_card p) @ opt_field ''mcp'' rail_policy_json (pl_mcp p))),
         (''limits'', JObj [(''per_transaction'', JStr (pl_per_transaction p)), (''daily'', JStr (pl_daily p))]),
         (''approval'', JObj ((''require_human_above'', JStr (pl_require_human_above p))
            # opt_field ''request_ttl_seconds'' (\<lambda>n. JNum (of_int n)) (pl_request_ttl p))),
         (''merchants'', JArr (map merchant_json (pl_merchants p))), (''time_windows'', windows_json (pl_windows p))])"
  by (simp add: policy_json_def windows_json_def)

lemma map_of_opt_field: "map_of (opt_field k f x) l = (if k = l then map_option f x else None)"
  by (cases x) (auto simp: opt_field_def)

lemma strict_obj_names: "strict_obj ks (JObj ob) = (if fst ` set ob \<subseteq> set ks then Some ob else None)"
  by (auto simp: strict_obj_def list_all_iff)

lemma opt_field_names: "fst ` set (opt_field k f x) \<subseteq> A \<longleftrightarrow> x = None \<or> k \<in> A"
  by (cases x) (auto simp: opt_field_def)

lemma optional_opt: "map_of ob k = map_option f x \<Longrightarrow> (\<And>y. g (f y) = Some y) \<Longrightarrow> optional g ob k = Some x"
  by (cases x) (simp_all add: optional_def)

lemma get_opt_str_opt: "map_of ob k = map_option JStr x \<Longrightarrow> get_opt_str ob k = Some x"
  by (cases x) (simp_all add: get_opt_str_def)

lemma int_where_int: "map_of ob k = Some (JNum (of_int n)) \<Longrightarrow> \<bar>n\<bar> \<le> max_safe_integer \<Longrightarrow> int_where (\<lambda>_. True) ob k = Some n"
  by (simp add: int_where_def guard_opt_def)

lemma optional_int_opt:
  "map_of ob k = map_option (\<lambda>n. JNum (of_int n)) x \<Longrightarrow> (\<And>n. x = Some n \<Longrightarrow> \<bar>n\<bar> \<le> max_safe_integer) \<Longrightarrow> optional_int ob k = Some x"
  by (cases x) (simp_all add: optional_int_def int_where_int)

lemma get_str_Some: "map_of ob k = Some (JStr s) \<Longrightarrow> get_str ob k = Some s"
  by (simp add: get_str_def)

lemma map_of_opt_append: "map_of (opt_field k f x @ r) l =
    (if k = l then (case x of None \<Rightarrow> map_of r l | Some y \<Rightarrow> Some (f y)) else map_of r l)"
  by (cases x) (auto simp: opt_field_def)

lemma case_Some_map: "(case x of None \<Rightarrow> None | Some y \<Rightarrow> Some (f y)) = map_option f x"
  by (cases x) simp_all

lemmas document_simps = strict_obj_names image_Un opt_field_names map_of_opt_field map_of_opt_append case_Some_map

lemma read_rails:
  fixes p :: policy
  defines "rl \<equiv> [(''x402'', rail_policy_json (pl_x402 p))]
    @ opt_field ''ap2'' rail_policy_json (pl_ap2 p) @ opt_field ''evm'' rail_policy_json (pl_evm p)
    @ opt_field ''card'' rail_policy_json (pl_card p) @ opt_field ''mcp'' rail_policy_json (pl_mcp p)"
  shows "strict_obj [''x402'', ''ap2'', ''evm'', ''card'', ''mcp''] (JObj rl) = Some rl"
    "required read_rail_policy rl ''x402'' = Some (pl_x402 p)" "optional read_rail_policy rl ''ap2'' = Some (pl_ap2 p)"
    "optional read_rail_policy rl ''evm'' = Some (pl_evm p)" "optional read_rail_policy rl ''card'' = Some (pl_card p)"
    "optional read_rail_policy rl ''mcp'' = Some (pl_mcp p)"
proof -
  show "strict_obj [''x402'', ''ap2'', ''evm'', ''card'', ''mcp''] (JObj rl) = Some rl" "required read_rail_policy rl ''x402'' = Some (pl_x402 p)"
    by (simp_all add: rl_def document_simps required_def del: map_of_append cong: option.case_cong)
  show "optional read_rail_policy rl ''ap2'' = Some (pl_ap2 p)" "optional read_rail_policy rl ''evm'' = Some (pl_evm p)"
    "optional read_rail_policy rl ''card'' = Some (pl_card p)" "optional read_rail_policy rl ''mcp'' = Some (pl_mcp p)"
    by (rule optional_opt [where f = rail_policy_json]; simp add: rl_def document_simps del: map_of_append cong: option.case_cong)+
qed

theorem read_policy_json:
  assumes "policy_ok H now p"
  shows "read_policy H now (policy_json p) = Some p"
proof -
  define rl where "rl = [(''x402'', rail_policy_json (pl_x402 p))]
    @ opt_field ''ap2'' rail_policy_json (pl_ap2 p) @ opt_field ''evm'' rail_policy_json (pl_evm p)
    @ opt_field ''card'' rail_policy_json (pl_card p) @ opt_field ''mcp'' rail_policy_json (pl_mcp p)"
  define ap where "ap = (''require_human_above'', JStr (pl_require_human_above p))
    # opt_field ''request_ttl_seconds'' (\<lambda>n. JNum (of_int n)) (pl_request_ttl p)"
  define ob where "ob = [(''version'', JNum 1), (''policy_id'', JStr (pl_policy_id p)), (''policy_version'', JStr (pl_version p))]
    @ opt_field ''expires_at'' JStr (pl_expires_at p)
    @ [(''defaults'', JObj [(''verdict'', JStr ''BLOCK''), (''decision_ttl_seconds'', JNum (of_int (pl_ttl_seconds p)))])]
    @ opt_field ''deny'' deny_json (pl_deny p)
    @ [(''rails'', JObj rl), (''limits'', JObj [(''per_transaction'', JStr (pl_per_transaction p)), (''daily'', JStr (pl_daily p))]),
       (''approval'', JObj ap), (''merchants'', JArr (map merchant_json (pl_merchants p))), (''time_windows'', windows_json (pl_windows p))]"
  have pj: "policy_json p = JObj ob" by (simp add: policy_json_parts ob_def ap_def rl_def)
  have ttl: "\<bar>pl_ttl_seconds p\<bar> \<le> max_safe_integer" and rt: "\<And>n. pl_request_ttl p = Some n \<Longrightarrow> \<bar>n\<bar> \<le> max_safe_integer"
    using assms by (auto simp: policy_ok_def max_safe_integer_def)
  have ms: "list_of read_merchant (JArr (map merchant_json (pl_merchants p))) = Some (pl_merchants p)"
    by (rule list_of_map) simp
  have approval: "strict_obj [''require_human_above'', ''request_ttl_seconds''] (JObj ap) = Some ap"
      "get_str ap ''require_human_above'' = Some (pl_require_human_above p)" "optional_int ap ''request_ttl_seconds'' = Some (pl_request_ttl p)"
    using rt by (simp_all add: ap_def document_simps get_str_def optional_int_opt)
  have top: "strict_obj [''version'', ''policy_id'', ''policy_version'', ''expires_at'', ''defaults'', ''deny'', ''rails'', ''limits'',
       ''approval'', ''merchants'', ''time_windows''] (JObj ob) = Some ob" "is_one ob ''version'' = Some ()"
    by (simp_all add: ob_def document_simps is_one_def guard_opt_def del: map_of_append cong: option.case_cong)
  have at: "map_of ob ''policy_id'' = Some (JStr (pl_policy_id p))" "map_of ob ''policy_version'' = Some (JStr (pl_version p))"
    "map_of ob ''expires_at'' = map_option JStr (pl_expires_at p)" "map_of ob ''deny'' = map_option deny_json (pl_deny p)"
    "map_of ob ''defaults'' = Some (JObj [(''verdict'', JStr ''BLOCK''), (''decision_ttl_seconds'', JNum (of_int (pl_ttl_seconds p)))])"
    "map_of ob ''rails'' = Some (JObj rl)" "map_of ob ''limits'' = Some (JObj [(''per_transaction'', JStr (pl_per_transaction p)), (''daily'', JStr (pl_daily p))])"
    "map_of ob ''approval'' = Some (JObj ap)" "map_of ob ''merchants'' = Some (JArr (map merchant_json (pl_merchants p)))"
    "map_of ob ''time_windows'' = Some (windows_json (pl_windows p))"
    by (simp_all add: ob_def document_simps del: map_of_append cong: option.case_cong)
  have sub: "optional read_deny ob ''deny'' = Some (pl_deny p)" "get_opt_str ob ''expires_at'' = Some (pl_expires_at p)"
    using at(3,4) by (auto intro: optional_opt get_opt_str_opt)
  have ints: "int_where (\<lambda>_. True) [(''verdict'', JStr ''BLOCK''), (''decision_ttl_seconds'', JNum (of_int (pl_ttl_seconds p)))] ''decision_ttl_seconds''
      = Some (pl_ttl_seconds p)"
    using ttl by (intro int_where_int) simp_all
  have rx: "map_of rl ''x402'' = Some (rail_policy_json (pl_x402 p))"
    by (simp add: rl_def)
  have eta: "\<lparr>pl_policy_id = pl_policy_id p, pl_version = pl_version p, pl_expires_at = pl_expires_at p,
      pl_ttl_seconds = pl_ttl_seconds p, pl_deny = pl_deny p, pl_x402 = pl_x402 p, pl_ap2 = pl_ap2 p, pl_evm = pl_evm p,
      pl_card = pl_card p, pl_mcp = pl_mcp p, pl_per_transaction = pl_per_transaction p, pl_daily = pl_daily p,
      pl_require_human_above = pl_require_human_above p, pl_request_ttl = pl_request_ttl p, pl_merchants = pl_merchants p,
      pl_windows = pl_windows p\<rparr> = p"
    by (cases p) simp
  show ?thesis
    using top sub approval read_rails [of p, folded rl_def] rx ints ms assms at(1,2,5-)
    by (simp add: pj read_policy_def get_str_Some required_def get_lit_def strict_obj_names guard_opt_def Let_def eta)
qed

subsection \<open>The authority policy\<close>

definition read_pair :: "string \<Rightarrow> string \<Rightarrow> json \<Rightarrow> (string \<times> string) option" where
  "read_pair k l v = do { ob \<leftarrow> strict_obj [k, l] v; a \<leftarrow> get_str ob k; b \<leftarrow> get_str ob l; Some (a, b) }"

definition read_pairs :: "string \<Rightarrow> string \<Rightarrow> json \<Rightarrow> (string \<times> string) list option" where
  "read_pairs k l = list_of (read_pair k l)"

text \<open>The allowed actions are copies of one literal: what is read is how many there are.\<close>

definition count_actions :: "json \<Rightarrow> nat option" where
  "count_actions v = Option.bind (list_of text_of v) (\<lambda>xs. guard_opt (list_all (\<lambda>s. s = ''payments.transfer'') xs) (length xs))"

definition read_kya_policy :: "host \<Rightarrow> json \<Rightarrow> kya_policy option" where
  "read_kya_policy H v = do {
     ob \<leftarrow> strict_obj [''version'', ''policy_id'', ''policy_version'', ''mode'', ''profiles'', ''expected_audiences'',
       ''accepted_did_methods'', ''responsible_parties'', ''allowed_actions'', ''min_proof_assurance'', ''require_fresh_revocation'',
       ''require_max_amount'', ''max_delegation_depth'', ''principal_source'', ''resource_bindings'', ''currency_bindings'',
       ''payee_bindings''] v;
     is_one ob ''version''; i \<leftarrow> get_str ob ''policy_id''; pv \<leftarrow> get_str ob ''policy_version'';
     md \<leftarrow> required (name_of (\<lambda>b. if b then ''required'' else ''optional'') [True, False]) ob ''mode'';
     pf \<leftarrow> required (list_of (name_of profile_string [EntityCardV1, LegacyV1])) ob ''profiles'';
     au \<leftarrow> required (list_of text_of) ob ''expected_audiences'';
     dm \<leftarrow> required (list_of (name_of did_method_string [DidKey, DidWeb])) ob ''accepted_did_methods'';
     rp \<leftarrow> required (list_of text_of) ob ''responsible_parties''; ac \<leftarrow> required count_actions ob ''allowed_actions'';
     pa \<leftarrow> required (name_of assurance_string [L3Minus, L3]) ob ''min_proof_assurance'';
     fr \<leftarrow> required bool_of ob ''require_fresh_revocation''; rm \<leftarrow> required bool_of ob ''require_max_amount'';
     dd \<leftarrow> int_where (\<lambda>_. True) ob ''max_delegation_depth'';
     ps \<leftarrow> required (name_of (\<lambda>b. if b then ''card_principal'' else ''responsible_party'') [True, False]) ob ''principal_source'';
     rb \<leftarrow> required (read_pairs ''inntris_resource'' ''kya_invocation_target'') ob ''resource_bindings'';
     cb \<leftarrow> required (read_pairs ''inntris_asset'' ''kya_currency'') ob ''currency_bindings'';
     pb \<leftarrow> optional (read_pairs ''inntris_payee'' ''kya_payee'') ob ''payee_bindings'';
     let p = \<lparr>yp_policy_id = i, yp_policy_version = pv, yp_required = md, yp_profiles = pf, yp_audiences = au, yp_did_methods = dm,
       yp_responsible = rp, yp_actions = ac, yp_min_assurance = pa, yp_fresh_revocation = fr, yp_require_max = rm, yp_max_depth = dd,
       yp_card_principal = ps, yp_resources = rb, yp_currencies = cb, yp_payees = pb\<rparr>;
     guard_opt (kya_policy_ok H p) p }"

definition parse_kya_policy_text :: "(string \<Rightarrow> error + json) \<Rightarrow> host \<Rightarrow> string \<Rightarrow> error + kya_policy" where
  "parse_kya_policy_text yaml H s = bind_sum (yaml s) (\<lambda>v. parse_or_zod (read_kya_policy H v))"

lemma read_kya_policy_ok: "read_kya_policy H v = Some p \<Longrightarrow> kya_policy_ok H p"
  by (auto simp: read_kya_policy_def bind_eq_Some_conv guard_opt_def Let_def split: if_splits)

lemma read_pairs_json: "k \<noteq> l \<Longrightarrow> read_pairs k l (pairs_json k l ps) = Some ps"
  unfolding read_pairs_def pairs_json_def
  by (rule list_of_map) (auto simp: read_pair_def strict_obj_def get_str_def split: prod.split)

lemma count_actions_strs: "count_actions (strs_json (replicate n ''payments.transfer'')) = Some n"
  by (simp add: count_actions_def guard_opt_def list_all_iff)

lemma kya_names:
  "list_of (name_of profile_string [EntityCardV1, LegacyV1]) (strs_json (map profile_string pf)) = Some pf"
  "list_of (name_of did_method_string [DidKey, DidWeb]) (strs_json (map did_method_string dm)) = Some dm"
  "name_of assurance_string [L3Minus, L3] (JStr (assurance_string pa)) = Some pa"
  "name_of (\<lambda>b. if b then ''required'' else ''optional'') [True, False] (JStr (if b then ''required'' else ''optional'')) = Some b"
  "name_of (\<lambda>b. if b then ''card_principal'' else ''responsible_party'') [True, False]
    (JStr (if b then ''card_principal'' else ''responsible_party'')) = Some b"
proof -
  have "p \<in> set [EntityCardV1, LegacyV1]" for p by (cases p) simp_all
  then show "list_of (name_of profile_string [EntityCardV1, LegacyV1]) (strs_json (map profile_string pf)) = Some pf"
    by (intro list_of_names) auto
  have "p \<in> set [DidKey, DidWeb]" for p by (cases p) simp_all
  then show "list_of (name_of did_method_string [DidKey, DidWeb]) (strs_json (map did_method_string dm)) = Some dm"
    by (intro list_of_names) auto
  show "name_of assurance_string [L3Minus, L3] (JStr (assurance_string pa)) = Some pa"
    by (cases pa) (simp_all add: name_of_def enum_read_def)
  show "name_of (\<lambda>b. if b then ''required'' else ''optional'') [True, False] (JStr (if b then ''required'' else ''optional'')) = Some b"
    "name_of (\<lambda>b. if b then ''card_principal'' else ''responsible_party'') [True, False]
      (JStr (if b then ''card_principal'' else ''responsible_party'')) = Some b"
    by (cases b; simp add: name_of_def enum_read_def)+
qed

theorem read_kya_policy_json:
  assumes "kya_policy_ok H p"
  shows "read_kya_policy H (kya_policy_json p) = Some p"
proof -
  obtain ob where ob: "kya_policy_json p = JObj ob" and
    def: "ob = [(''version'', JNum 1), (''policy_id'', JStr (yp_policy_id p)), (''policy_version'', JStr (yp_policy_version p)),
       (''mode'', JStr (if yp_required p then ''required'' else ''optional'')),
       (''profiles'', strs_json (map profile_string (yp_profiles p))), (''expected_audiences'', strs_json (yp_audiences p)),
       (''accepted_did_methods'', strs_json (map did_method_string (yp_did_methods p))),
       (''responsible_parties'', strs_json (yp_responsible p)),
       (''allowed_actions'', strs_json (replicate (yp_actions p) ''payments.transfer'')),
       (''min_proof_assurance'', JStr (assurance_string (yp_min_assurance p))),
       (''require_fresh_revocation'', JBool (yp_fresh_revocation p)), (''require_max_amount'', JBool (yp_require_max p)),
       (''max_delegation_depth'', JNum (of_int (yp_max_depth p))),
       (''principal_source'', JStr (if yp_card_principal p then ''card_principal'' else ''responsible_party'')),
       (''resource_bindings'', pairs_json ''inntris_resource'' ''kya_invocation_target'' (yp_resources p)),
       (''currency_bindings'', pairs_json ''inntris_asset'' ''kya_currency'' (yp_currencies p))] @
      opt_field ''payee_bindings'' (pairs_json ''inntris_payee'' ''kya_payee'') (yp_payees p)"
    by (simp add: kya_policy_json_def)
  have top: "strict_obj [''version'', ''policy_id'', ''policy_version'', ''mode'', ''profiles'', ''expected_audiences'',
       ''accepted_did_methods'', ''responsible_parties'', ''allowed_actions'', ''min_proof_assurance'', ''require_fresh_revocation'',
       ''require_max_amount'', ''max_delegation_depth'', ''principal_source'', ''resource_bindings'', ''currency_bindings'',
       ''payee_bindings''] (JObj ob) = Some ob" "is_one ob ''version'' = Some ()"
    by (simp_all add: def document_simps is_one_def guard_opt_def)
  have at: "map_of ob ''policy_id'' = Some (JStr (yp_policy_id p))" "map_of ob ''policy_version'' = Some (JStr (yp_policy_version p))"
    "map_of ob ''mode'' = Some (JStr (if yp_required p then ''required'' else ''optional''))"
    "map_of ob ''profiles'' = Some (strs_json (map profile_string (yp_profiles p)))"
    "map_of ob ''expected_audiences'' = Some (strs_json (yp_audiences p))"
    "map_of ob ''accepted_did_methods'' = Some (strs_json (map did_method_string (yp_did_methods p)))"
    "map_of ob ''responsible_parties'' = Some (strs_json (yp_responsible p))"
    "map_of ob ''allowed_actions'' = Some (strs_json (replicate (yp_actions p) ''payments.transfer''))"
    "map_of ob ''min_proof_assurance'' = Some (JStr (assurance_string (yp_min_assurance p)))"
    "map_of ob ''require_fresh_revocation'' = Some (JBool (yp_fresh_revocation p))"
    "map_of ob ''require_max_amount'' = Some (JBool (yp_require_max p))"
    "map_of ob ''max_delegation_depth'' = Some (JNum (of_int (yp_max_depth p)))"
    "map_of ob ''principal_source'' = Some (JStr (if yp_card_principal p then ''card_principal'' else ''responsible_party''))"
    "map_of ob ''resource_bindings'' = Some (pairs_json ''inntris_resource'' ''kya_invocation_target'' (yp_resources p))"
    "map_of ob ''currency_bindings'' = Some (pairs_json ''inntris_asset'' ''kya_currency'' (yp_currencies p))"
    "map_of ob ''payee_bindings'' = map_option (pairs_json ''inntris_payee'' ''kya_payee'') (yp_payees p)"
    by (simp_all add: def document_simps)
  have depth: "\<bar>yp_max_depth p\<bar> \<le> max_safe_integer" using assms by (simp add: kya_policy_ok_def max_safe_integer_def)
  have eta: "\<lparr>yp_policy_id = yp_policy_id p, yp_policy_version = yp_policy_version p, yp_required = yp_required p, yp_profiles = yp_profiles p,
      yp_audiences = yp_audiences p, yp_did_methods = yp_did_methods p, yp_responsible = yp_responsible p, yp_actions = yp_actions p,
      yp_min_assurance = yp_min_assurance p, yp_fresh_revocation = yp_fresh_revocation p, yp_require_max = yp_require_max p,
      yp_max_depth = yp_max_depth p, yp_card_principal = yp_card_principal p, yp_resources = yp_resources p,
      yp_currencies = yp_currencies p, yp_payees = yp_payees p\<rparr> = p"
    by (cases p) simp
  show ?thesis
    using top assms optional_opt [OF at(16)] int_where_int [OF at(12) depth] at(1-11,13-15)
    by (simp only: ob read_kya_policy_def get_str_Some required_def bind.simps kya_names list_of_strs count_actions_strs bool_of_def
        json.case read_pairs_json Let_def eta guard_opt_def) (simp add: read_pairs_json eta)
qed

end
