(* ===== verification/DemoStart.thy ===== *)
theory DemoStart
  imports DemoGuard PolicyText
begin

section \<open>Starting the decision service\<close>

text \<open>
  \<open>apps/demo-api/src/start.ts\<close> and \<open>decision-core/src/demo.ts\<close>: what the process accepts as its configuration. Reading files,
  the values of YAML texts, the check of the database and the services are parameters; the environment is a map. The
  result is what the service is built from. Lemma: a service that starts has valid policies, signs with a key of
  its registry, keeps the keys of decisions and of the MTP agent apart, has a database wherever state must survive, and
  exposes its journal only behind a service key.
\<close>

definition public_demo_signer :: "host \<Rightarrow> error + signer" where
  "public_demo_signer H =
     signer_from_seed H ''test-key-1'' (hex_bytes (sha256_hex H (utf8 ''inntris-public-demo-key-v1-not-for-production'')))"

type_synonym environment = "string \<Rightarrow> string option"

record 's machine =
  sm_url :: url_parser
  sm_formats :: mtp_formats
  sm_read_file :: "string \<Rightarrow> error + string"
  sm_yaml :: "string \<Rightarrow> error + json"
  sm_registry_file :: "string \<Rightarrow> error + json"
  sm_database_ready :: "string \<Rightarrow> error + unit"
  sm_signing_service :: "json \<Rightarrow> reply"
  sm_mtp_service :: "string \<Rightarrow> json \<Rightarrow> 's \<Rightarrow> reply \<times> 's"
  sm_now :: int

definition trimmed :: "environment \<Rightarrow> string \<Rightarrow> string option" where
  "trimmed env k = map_option trim_space (env k)"

definition configured_value :: "environment \<Rightarrow> string \<Rightarrow> string option" where
  "configured_value env k = (case trimmed env k of None \<Rightarrow> None | Some s \<Rightarrow> if s = [] then None else Some s)"

definition load_policy_file :: "host \<Rightarrow> 's machine \<Rightarrow> string \<Rightarrow> error + policy" where
  "load_policy_file H M path = bind_sum (sm_read_file M path) (parse_policy_text (sm_yaml M) H (sm_now M))"

definition load_kya_policy_file :: "host \<Rightarrow> 's machine \<Rightarrow> string \<Rightarrow> error + kya_policy" where
  "load_kya_policy_file H M path = bind_sum (sm_read_file M path) (parse_kya_policy_text (sm_yaml M) H)"

definition startup_error :: "string \<Rightarrow> error" where
  "startup_error m = JsError ''Error'' m"

subsection \<open>Signers\<close>

definition managed_signer ::
  "host \<Rightarrow> 's machine \<Rightarrow> environment \<Rightarrow> string \<Rightarrow> string \<Rightarrow> string \<Rightarrow> string \<Rightarrow> string \<Rightarrow> string \<Rightarrow> error + signer" where
  "managed_signer H M env url token_key public_key_key id_key default_id message =
     (case (trimmed env token_key, trimmed env public_key_key) of
        (Some token, Some pk) \<Rightarrow>
          bind_sum (new_remote_signer (sm_url M) url token (or_default (configured_value env id_key) default_id) pk None None
            (sm_signing_service M)) (\<lambda>R. Inr (remote_signing_provider H R))
      | _ \<Rightarrow> Inl (startup_error message))"

definition seed_signer :: "host \<Rightarrow> 's machine \<Rightarrow> string option \<Rightarrow> string option \<Rightarrow> string \<Rightarrow> string \<Rightarrow> error + signer" where
  "seed_signer H M direct file kid message =
     bind_sum (case direct of
         Some s \<Rightarrow> Inr s
       | None \<Rightarrow> (case file of
           Some f \<Rightarrow> bind_sum (sm_read_file M f) (\<lambda>t. Inr (trim_space t))
         | None \<Rightarrow> Inl (startup_error message)))
       (\<lambda>seed. signer_from_base64 H kid seed)"

definition load_signer :: "host \<Rightarrow> 's machine \<Rightarrow> environment \<Rightarrow> error + signer" where
  "load_signer H M env =
     (let direct = configured_value env ''INNTRIS_SIGNING_SEED_BASE64URL'';
          file = configured_value env ''INNTRIS_SIGNING_SEED_FILE'';
          demo = (env ''INNTRIS_DEMO_MODE'' = Some ''true'');
          managed = configured_value env ''INNTRIS_MANAGED_SIGNER_URL'' in
      if length (filter id [direct \<noteq> None, file \<noteq> None, demo, managed \<noteq> None]) \<noteq> 1
      then Inl (startup_error ''Configure exactly one signing source: seed environment variable, mounted file, managed signer or explicit demo mode'')
      else if demo then public_demo_signer H
      else case managed of
        Some url \<Rightarrow> managed_signer H M env url ''INNTRIS_MANAGED_SIGNER_BEARER_TOKEN'' ''INNTRIS_MANAGED_SIGNER_PUBLIC_KEY_BASE64URL''
          ''INNTRIS_SIGNING_KEY_ID'' ''decision-key-1''
          ''Managed signing requires INNTRIS_MANAGED_SIGNER_BEARER_TOKEN and INNTRIS_MANAGED_SIGNER_PUBLIC_KEY_BASE64URL''
      | None \<Rightarrow> seed_signer H M direct file (or_default (env ''INNTRIS_SIGNING_KEY_ID'') ''dev-key-1'')
          ''No signing seed source was configured'')"

definition load_mtp_signer :: "host \<Rightarrow> 's machine \<Rightarrow> environment \<Rightarrow> error + signer" where
  "load_mtp_signer H M env =
     (let direct = configured_value env ''INNTRIS_MTP_SIGNING_SEED_BASE64URL'';
          file = configured_value env ''INNTRIS_MTP_SIGNING_SEED_FILE'';
          managed = configured_value env ''INNTRIS_MTP_MANAGED_SIGNER_URL'' in
      if length (filter id [direct \<noteq> None, file \<noteq> None, managed \<noteq> None]) \<noteq> 1
      then Inl (startup_error ''Configure exactly one MTP signing source: seed environment variable, mounted file or managed signer'')
      else case managed of
        Some url \<Rightarrow> managed_signer H M env url ''INNTRIS_MTP_MANAGED_SIGNER_BEARER_TOKEN'' ''INNTRIS_MTP_MANAGED_SIGNER_PUBLIC_KEY_BASE64URL''
          ''INNTRIS_MTP_SIGNING_KEY_ID'' ''mtp-agent-key-1''
          ''Managed MTP signing requires its bearer token and public key configuration''
      | None \<Rightarrow> seed_signer H M direct file (or_default (env ''INNTRIS_MTP_SIGNING_KEY_ID'') ''mtp-agent-key-1'')
          ''No MTP signing seed source was configured'')"

subsection \<open>The parts of the service\<close>

text \<open>The MTP client with its signer, when an MTP service is configured.\<close>

definition start_mtp ::
  "host \<Rightarrow> 's machine \<Rightarrow> environment \<Rightarrow> signer \<Rightarrow> string option \<Rightarrow> error + 's mtp_client option" where
  "start_mtp H M env sg database =
     (case configured_value env ''INNTRIS_MTP_API_URL'' of
        None \<Rightarrow> Inr None
      | Some url \<Rightarrow>
          (case configured_value env ''INNTRIS_MTP_AGENT_ID'' of
             None \<Rightarrow> Inl (startup_error ''INNTRIS_MTP_AGENT_ID is required when MTP authority is enabled'')
           | Some agent \<Rightarrow>
               if database = None then Inl (startup_error ''INNTRIS_POSTGRES_URL is required when MTP authority is enabled'')
               else bind_sum (load_mtp_signer H M env) (\<lambda>msg.
                 bind_sum (assert_separate_signers sg msg) (\<lambda>_.
                 bind_sum (new_mtp_client (sm_url M) (sm_formats M) url agent msg (env ''INNTRIS_MTP_POLICY_HASH'') (sm_mtp_service M))
                   (\<lambda>C. Inr (Some C))))))"

text \<open>The instant 2026-01-01T00:00:00.000Z.\<close>

definition demo_not_before :: int where
  "demo_not_before = 1767225600000"

definition start_registry :: "host \<Rightarrow> 's machine \<Rightarrow> environment \<Rightarrow> signer \<Rightarrow> error + key_entry list" where
  "start_registry H M env sg =
     (let file = configured_value env ''INNTRIS_KEY_REGISTRY_FILE'' in
      if configured_value env ''INNTRIS_MANAGED_SIGNER_URL'' \<noteq> None \<and> file = None
      then Inl (startup_error ''INNTRIS_KEY_REGISTRY_FILE is required with managed Decision Envelope signing'')
      else case file of
        None \<Rightarrow> bind_sum (key_registry_entry H sg demo_not_before None None) (\<lambda>k. Inr [k])
      | Some f \<Rightarrow>
          bind_sum (sm_registry_file M f) (\<lambda>v.
          bind_sum (assert_rotation v) (\<lambda>ks. assert_registered H sg (registry_json ks) (sm_now M))))"

text \<open>The authority policy and its mode. Both stores are durable when they are over PostgreSQL.\<close>

definition start_kya :: "host \<Rightarrow> 's machine \<Rightarrow> environment \<Rightarrow> string option \<Rightarrow> error + kya_policy option" where
  "start_kya H M env database =
     (let mode = or_default (configured_value env ''INNTRIS_KYA_MODE'') ''disabled'' in
      if mode \<notin> {''disabled'', ''optional'', ''required''}
      then Inl (startup_error ''INNTRIS_KYA_MODE must be disabled, optional or required'')
      else if mode = ''disabled'' then Inr None
      else case configured_value env ''INNTRIS_KYA_POLICY_FILE'' of
        None \<Rightarrow> Inl (startup_error ''INNTRIS_KYA_POLICY_FILE is required when KYA authority is enabled'')
      | Some f \<Rightarrow>
          bind_sum (load_kya_policy_file H M f) (\<lambda>p.
          if yp_required p \<noteq> (mode = ''required'')
          then Inl (startup_error ''INNTRIS_KYA_MODE must match the configured KYA authority policy mode'')
          else if yp_card_principal p
          then Inl (startup_error ''This reference startup does not configure a trusted Entity Card principal verifier'')
          else if mode = ''required'' \<and> database = None
          then Inl (startup_error ''INNTRIS_POSTGRES_URL is required when KYA authority is required'')
          else if mode = ''required'' \<and> \<not> (database \<noteq> None)
          then Inl (startup_error ''KYA required mode needs atomic durable authority state'')
          else Inr (Some p)))"

record 's start_config =
  st_signer :: signer
  st_policy :: policy
  st_database :: "string option"
  st_mtp :: "'s mtp_client option"
  st_registry :: "key_entry list"
  st_kya :: "kya_policy option"
  st_service_key :: "string option"

text \<open>\<open>buildDemoApi\<close> is given the journal when there is a database.\<close>

definition start_service :: "host \<Rightarrow> 's machine \<Rightarrow> environment \<Rightarrow> error + 's start_config" where
  "start_service H M env =
     bind_sum (load_signer H M env) (\<lambda>sg.
     bind_sum (load_policy_file H M (or_default (env ''INNTRIS_POLICY_FILE'') ''policies/demo-x402-policy.yml'')) (\<lambda>p.
     let database = configured_value env ''INNTRIS_POSTGRES_URL''; key = configured_value env ''INNTRIS_SERVICE_API_KEY'' in
     bind_sum (case database of None \<Rightarrow> Inr () | Some url \<Rightarrow> sm_database_ready M url) (\<lambda>_.
     bind_sum (start_mtp H M env sg database) (\<lambda>mtp.
     bind_sum (start_registry H M env sg) (\<lambda>ks.
     bind_sum (start_kya H M env database) (\<lambda>kya.
     if database \<noteq> None \<and> key = None
     then Inl (startup_error ''A service API key is required when operational reconciliation is exposed'')
     else Inr \<lparr>st_signer = sg, st_policy = p, st_database = database, st_mtp = mtp, st_registry = ks, st_kya = kya,
       st_service_key = key\<rparr>))))))"

subsection \<open>What a started service has\<close>

lemma start_mtp_Inr:
  assumes "start_mtp H M env sg database = Inr (Some C)"
  shows "database \<noteq> None \<and> s_public_key (mc_signer C) \<noteq> s_public_key sg"
  using assms
  by (auto simp: start_mtp_def bind_sum_Inr assert_separate_signers_def new_mtp_client_def split: option.splits if_splits)

definition registered :: "signer \<Rightarrow> key_entry list \<Rightarrow> bool" where
  "registered sg ks \<longleftrightarrow>
     (\<exists>k\<in>set ks. k_key_id k = s_key_id sg \<and> k_public_key k = b64url_encode (s_public_key sg) \<and> k_status k = Active)"

lemma start_registry_Inr:
  assumes "start_registry H M env sg = Inr ks"
  shows "registered sg ks"
proof (cases "configured_value env ''INNTRIS_KEY_REGISTRY_FILE''")
  case None
  with assms obtain k where "key_registry_entry H sg demo_not_before None None = Inr k" "ks = [k]"
    by (auto simp: start_registry_def bind_sum_Inr Let_def split: if_splits)
  then show ?thesis by (auto simp: registered_def key_registry_entry_def Let_def split: option.splits if_splits)
next
  case (Some f)
  with assms obtain js tm where "assert_registered H sg js tm = Inr ks"
    by (auto simp: start_registry_def bind_sum_Inr Let_def split: if_splits)
  then show ?thesis
    by (auto simp: registered_def assert_registered_def find_Some_iff split: option.splits if_splits dest!: nth_mem)
qed

lemma load_kya_policy_file_ok: "load_kya_policy_file H M path = Inr p \<Longrightarrow> kya_policy_ok H p"
  by (auto simp: load_kya_policy_file_def parse_kya_policy_text_def bind_sum_Inr parse_or_zod_def split: option.splits
      dest: read_kya_policy_ok)

lemma start_kya_Inr:
  "start_kya H M env database = Inr (Some p) \<Longrightarrow>
    kya_policy_ok H p \<and> \<not> yp_card_principal p \<and> (yp_required p \<longrightarrow> database \<noteq> None)"
  by (auto simp: start_kya_def bind_sum_Inr Let_def split: option.splits if_splits dest: load_kya_policy_file_ok)

lemma load_policy_file_ok: "load_policy_file H M path = Inr p \<Longrightarrow> policy_ok H (sm_now M) p"
  by (auto simp: load_policy_file_def parse_policy_text_def bind_sum_Inr parse_or_zod_def split: option.splits dest: read_policy_ok)

definition start_ok :: "host \<Rightarrow> int \<Rightarrow> 's start_config \<Rightarrow> bool" where
  "start_ok H now c \<longleftrightarrow>
     policy_ok H now (st_policy c) \<and> registered (st_signer c) (st_registry c) \<and>
     (case st_mtp c of None \<Rightarrow> True | Some C \<Rightarrow>
        st_database c \<noteq> None \<and> s_public_key (mc_signer C) \<noteq> s_public_key (st_signer c)) \<and>
     (case st_kya c of None \<Rightarrow> True | Some p \<Rightarrow>
        kya_policy_ok H p \<and> \<not> yp_card_principal p \<and> (yp_required p \<longrightarrow> st_database c \<noteq> None)) \<and>
     (st_database c \<noteq> None \<longrightarrow> st_service_key c \<noteq> None)"

theorem start_service_ok:
  assumes "start_service H M env = Inr c"
  shows "start_ok H (sm_now M) c"
proof -
  from assms obtain sg p mtp ks kya where
    m: "start_mtp H M env sg (configured_value env ''INNTRIS_POSTGRES_URL'') = Inr mtp"
    and r: "start_registry H M env sg = Inr ks"
    and p: "policy_ok H (sm_now M) p"
    and k: "start_kya H M env (configured_value env ''INNTRIS_POSTGRES_URL'') = Inr kya"
    and d: "configured_value env ''INNTRIS_POSTGRES_URL'' \<noteq> None \<longrightarrow> configured_value env ''INNTRIS_SERVICE_API_KEY'' \<noteq> None"
    and c: "c = \<lparr>st_signer = sg, st_policy = p, st_database = configured_value env ''INNTRIS_POSTGRES_URL'', st_mtp = mtp,
      st_registry = ks, st_kya = kya, st_service_key = configured_value env ''INNTRIS_SERVICE_API_KEY''\<rparr>"
    by (auto simp: start_service_def bind_sum_Inr Let_def split: if_splits dest: load_policy_file_ok)
  show ?thesis using start_registry_Inr [OF r] d m k p
    by (auto simp: c start_ok_def split: option.splits dest: start_mtp_Inr start_kya_Inr)
qed

end
