(* ===== verification/DemoSamples.thy ===== *)
theory DemoSamples
  imports DemoGuard KyaSamples
begin

section \<open>Concrete services\<close>

text \<open>
  Instances for the witnesses about the demo service: a service whose provider answers every consumption, the
  remote provider over it, and the service over the sample KYA gate with a request that consumes.
\<close>

definition sample_api_env :: api_env where
  "sample_api_env =
     \<lparr>ae_x402 = \<lparr>xs_requirements = Some, xs_payload = Some\<rparr>,
      ae_kya = \<lparr>ks_proof = (\<lambda>_. None), ks_root_issuer = (\<lambda>_. None), ks_card = (\<lambda>_. None)\<rparr>,
      ae_requirements = (\<lambda>_. None), ae_payload = (\<lambda>_. None), ae_instant = (\<lambda>_. None), ae_message = (\<lambda>_. ''refused'')\<rparr>"

definition sample_consumed :: consume_result where
  "sample_consumed = \<lparr>cr_success = True, cr_status = Consumed, cr_decision_id = ''decision-1'', cr_execution_ref = ''run-1'',
     cr_consumed_at = None, cr_reason = None\<rparr>"

definition sample_service :: "nat demo_api" where
  "sample_service =
     \<lparr>da_evaluate = (\<lambda>_. throw ZodError), da_resolve = None, da_consume = (\<lambda>i n. (Inr sample_consumed, Suc n)), da_registry = [],
      da_policy_version = None, da_service_key = Some ''secret'', da_failure = (\<lambda>_. id), da_clock = (\<lambda>_. 0),
      da_unresolved = None, da_kya = None\<rparr>"

definition sample_anonymous :: api_request where
  "sample_anonymous = \<lparr>aq_method = ''POST'', aq_path = ''/v1/decisions/consume'', aq_authorization = None, aq_query = [],
     aq_body = consume_request_json kya_consumption\<rparr>"

definition sample_remote :: "nat remote_provider" where
  "sample_remote = \<lparr>rp_key_registry = registry_json [], rp_policy_version = None,
     rp_post = serve ref_host sample_api_env sample_service ''secret''\<rparr>"

lemma sample_consumption_ok: "consume_input_ok kya_consumption"
  using hash_canonical_hash_ok [OF ref_host_sha] by (simp add: consume_input_ok_def kya_consumption_def kya_hash_def len_between_def)

lemma sample_consumption_reported: "consumption_reported kya_consumption sample_consumed"
  by (simp add: consumption_reported_def consume_reply_ok_def sample_consumed_def kya_consumption_def)

subsection \<open>The service over the KYA gate\<close>

definition sample_inner_service :: "unit demo_api" where
  "sample_inner_service =
     \<lparr>da_evaluate = (\<lambda>_. throw ZodError), da_resolve = None, da_consume = (\<lambda>_. throw ZodError), da_registry = [],
      da_policy_version = None, da_service_key = None, da_failure = (\<lambda>_. id), da_clock = (\<lambda>_. 0), da_unresolved = None, da_kya = None\<rparr>"

definition sample_kya_service :: "(unit, kya_memory, unit) kya_world demo_api" where
  "sample_kya_service = memory_service ref_host (\<lambda>_. True) kya_inner kya_sample_setup ''u-1'' sample_inner_service"

definition sample_kya_request :: api_request where
  "sample_kya_request =
     \<lparr>aq_method = ''POST'', aq_path = ''/v1/kya/decisions/consume'', aq_authorization = None, aq_query = [],
      aq_body = JObj [(''decision_id'', JStr ''decision-1''), (''action_hash'', JStr kya_hash), (''execution_ref'', JStr ''run-1''),
        (''presentation'', JObj [(''profile'', JStr ''entity-card-v1''),
          (''request'', JObj [(''method'', JStr ''tools/call''), (''params'', JObj [(''name'', JStr ''payments.transfer''),
            (''arguments'', JObj [(''to'', JStr ''0xpayee''), (''amount'', JStr ''12.50''), (''currency'', JStr ''USD''),
              (''resource'', JStr ''urn:data'')])])]),
          (''delegation_chain'', JArr [JNull])])]\<rparr>"

lemma sample_kya_body: "parse_kya_consume_body (aq_body sample_kya_request) = Some (kya_consumption, kya_sample_presentation)"
proof -
  have "hash_ok kya_hash" using hash_canonical_hash_ok [OF ref_host_sha] by (simp add: kya_hash_def)
  then show ?thesis
    by (simp add: parse_kya_consume_body_def sample_kya_request_def strict_obj_def consume_keys_def read_consume_input_def str_where_def
        get_str_def guard_opt_def len_between_def required_def parse_presentation_def parse_card_presentation_def get_lit_def
        parse_tool_request_def opt_where_def get_opt_str_def first_some_def kya_consumption_def kya_sample_presentation_def kya_request_def)
qed

lemma sample_kya_request_consumes:
  obtains b reply s' where "api_handle ref_host sample_api_env sample_kya_service sample_kya_request (kya_sample_world b) = (reply, s')"
    and "kx_consumed s' = kx_consumed (kya_sample_world b) @ [kya_consumption]"
    and "mem_known ref_host (kx_store (kya_sample_world b)) (co_decision_id kya_consumption) \<noteq> None"
proof -
  obtain b r s' where c: "kya_consume ref_host kya_sample_gate ''u-1'' kya_consumption kya_sample_presentation (kya_sample_world b) = (Inr r, s')"
    "kx_consumed s' = [kya_consumption]" by (rule kya_sample_consumes)
  have "api_handle ref_host sample_api_env sample_kya_service sample_kya_request (kya_sample_world b) = (consume_answer r, s')"
    using c(1) sample_kya_body
    by (simp add: api_handle_def Let_def sample_kya_request_def authenticated_def sample_kya_service_def memory_service_def with_gate_def
        lift_service_def sample_inner_service_def api_kya_consume_def answering_def bind_io_apply)
  then show thesis
    by (rule that) (use c(2) in \<open>simp_all add: kya_sample_world_def mem_known_def kya_consumption_def\<close>)
qed

end
