(* ===== verification/Conformance.thy ===== *)
theory Conformance
  imports EvmGate Ap2Gate KyaGate
begin

section \<open>The conformance suites\<close>

text \<open>
  \<open>multi-rail-conformance/src\<close>: \<open>bindings.ts\<close> (card authorisations and paid MCP tool calls as actions),
  \<open>suite.ts\<close> (the suite that runs a provider over one case for each rail), \<open>kya-suite.ts\<close> (the suite
  that runs an authority gate) and \<open>fixtures.ts\<close> (the public cases). The provider, the gate's
  collaborators and the clock are operations on one state. Facts: two card authorisations, or two tool calls, with
  the same action are the same; a suite that passes has found a verified \<open>ALLOW\<close> for every rail under one policy and key, and a mutated
  action that hashes differently; an exact mutation is always reported as \<open>ACTION_HASH_MISMATCH\<close>.
\<close>

subsection \<open>bindings.ts\<close>

record card_input =
  mi_request_id :: string
  mi_principal_id :: string
  mi_agent_id :: string
  mi_resource :: string
  mi_purpose :: string
  mi_amount :: string
  mi_asset :: string
  mi_merchant_id :: string
  mi_network :: string
  mi_credential :: string

definition card_input_ok :: "host \<Rightarrow> card_input \<Rightarrow> bool" where
  "card_input_ok H i \<longleftrightarrow>
     identifier_ok (mi_request_id i) \<and> identifier_ok (mi_principal_id i) \<and> identifier_ok (mi_agent_id i) \<and>
     url_ok H (mi_resource i) \<and> len_between 1 128 (mi_purpose i) \<and> canonical_amount (mi_amount i) \<and>
     len_between 1 128 (mi_asset i) \<and> identifier_ok (mi_merchant_id i) \<and> len_between 1 64 (mi_network i) \<and>
     len_between 1 256 (mi_credential i)"

record tool_input =
  ti_call_id :: string
  ti_principal_id :: string
  ti_agent_id :: string
  ti_resource :: string
  ti_purpose :: string
  ti_amount :: string
  ti_asset :: string
  ti_server_id :: string
  ti_tool_name :: string
  ti_arguments :: "(string \<times> json) list"
  ti_payment :: string

definition tool_input_ok :: "host \<Rightarrow> tool_input \<Rightarrow> bool" where
  "tool_input_ok H i \<longleftrightarrow>
     identifier_ok (ti_call_id i) \<and> identifier_ok (ti_principal_id i) \<and> identifier_ok (ti_agent_id i) \<and>
     url_ok H (ti_resource i) \<and> len_between 1 128 (ti_purpose i) \<and> canonical_amount (ti_amount i) \<and>
     len_between 1 128 (ti_asset i) \<and> len_between 1 100 (ti_server_id i) \<and> identifier_ok (ti_tool_name i) \<and>
     len_between 1 256 (ti_payment i)"

definition mock_rail :: "(string \<times> json) list" where
  "mock_rail = [(''inntris_conformance'', JObj [(''mock_rail'', JBool True)])]"

definition card_request_json :: "host \<Rightarrow> card_input \<Rightarrow> json" where
  "card_request_json H i = JObj
     [(''version'', JStr ''inntris-mock-card-authorisation-v1''), (''authorisation_request_id'', JStr (mi_request_id i)),
      (''amount'', JStr (mi_amount i)), (''asset'', JStr (mi_asset i)), (''merchant_id'', JStr (mi_merchant_id i)),
      (''card_network'', JStr (to_lower (mi_network i))),
      (''credential_reference_hash'', JStr (hash_canonical H (JStr (mi_credential i))))]"

definition action_from_card :: "host \<Rightarrow> card_input \<Rightarrow> error + action" where
  "action_from_card H i =
     (if \<not> card_input_ok H i then Inl ZodError
      else check_action H
        \<lparr>a_principal_id = mi_principal_id i, a_agent_id = mi_agent_id i, a_rail = CARD,
         a_reference = CardRef (mi_resource i) (mi_request_id i) (mi_merchant_id i) (to_lower (mi_network i))
           (hash_canonical H (JStr (mi_credential i))) (hash_canonical H (card_request_json H i)),
         a_transaction = \<lparr>tx_amount = mi_amount i, tx_asset = mi_asset i, tx_network = ''card:'' @ to_lower (mi_network i),
           tx_payee = mi_merchant_id i, tx_purpose = mi_purpose i\<rparr>,
         a_extensions = Some mock_rail\<rparr>)"

definition action_from_tool_call :: "host \<Rightarrow> tool_input \<Rightarrow> error + action" where
  "action_from_tool_call H i =
     (if \<not> tool_input_ok H i then Inl ZodError
      else check_action H
        \<lparr>a_principal_id = ti_principal_id i, a_agent_id = ti_agent_id i, a_rail = MCP,
         a_reference = MCPRef (ti_resource i) (ti_server_id i) (ti_tool_name i) (ti_call_id i)
           (hash_canonical H (JObj (ti_arguments i))) (hash_canonical H (JStr (ti_payment i))),
         a_transaction = \<lparr>tx_amount = ti_amount i, tx_asset = ti_asset i, tx_network = ''mcp:'' @ ti_server_id i,
           tx_payee = ti_server_id i, tx_purpose = ti_purpose i\<rparr>,
         a_extensions = Some mock_rail\<rparr>)"

subsection \<open>suite.ts\<close>

definition required_rails :: "rail list" where
  "required_rails = [X402, AP2, EVM, CARD, MCP]"

record rail_case =
  rc_rail :: rail
  rc_action :: action
  rc_mutated :: action

record rail_outcome =
  ro_rail :: rail
  ro_decision :: decision
  ro_verification :: verification
  ro_mutation :: verification

record rail_report =
  rt_policy_hash :: string
  rt_policy_version :: string
  rt_key_id :: string
  rt_outcomes :: "rail_outcome list"

record 's rail_suite =
  su_evaluate :: "action \<Rightarrow> (error, 's, decision) io"
  su_registry :: "key_entry list"
  su_policy_version :: string
  su_clock :: "'s \<Rightarrow> int"

definition suite_error :: "string \<Rightarrow> error" where
  "suite_error m = JsError ''MultiRailConformanceError'' m"

definition unless_io :: "'e \<Rightarrow> bool \<Rightarrow> ('e, 's, unit) io" where
  "unless_io e b = (if b then ret () else throw e)"

text \<open>\<open>verifyDecision\<close> at the time the clock shows.\<close>

definition suite_verify :: "host \<Rightarrow> key_entry list \<Rightarrow> string \<Rightarrow> decision \<Rightarrow> action \<Rightarrow> int \<Rightarrow> verification" where
  "suite_verify H ks v d a t = verify_decision H
     \<lparr>vi_decision = decision_json d, vi_action = action_json a, vi_registry = registry_json ks, vi_at = t,
      vi_policy_version = Some v, vi_requirements_hash = None\<rparr>"

definition one_case_each :: "rail_case list \<Rightarrow> bool" where
  "one_case_each cs \<longleftrightarrow>
     length cs = length required_rails \<and>
     list_all (\<lambda>r. length (filter (\<lambda>c. rc_rail c = r) cs) = 1) required_rails"

definition run_case :: "host \<Rightarrow> 's rail_suite \<Rightarrow> rail_case \<Rightarrow> (error, 's, rail_outcome) io" where
  "run_case H S c =
     bind_io (lift_io (check_action H (rc_action c))) (\<lambda>a.
     bind_io (lift_io (check_action H (rc_mutated c))) (\<lambda>m.
     bind_io (unless_io (suite_error (''The '' @ rail_string (rc_rail c) @ '' case contains an action for another rail''))
       (a_rail a = rc_rail c \<and> a_rail m = rc_rail c)) (\<lambda>_.
     bind_io (su_evaluate S a) (\<lambda>answer.
     bind_io (lift_io (check_decision H answer)) (\<lambda>d.
     bind_io (\<lambda>s. (Inr (su_clock S s), s)) (\<lambda>t.
     let v = suite_verify H (su_registry S) (su_policy_version S) d a t in
     bind_io (unless_io (suite_error (rail_string (rc_rail c) @ '' did not produce a valid ALLOW decision''))
       (vr_valid v \<and> d_verdict d = ALLOW)) (\<lambda>_.
     bind_io (\<lambda>s. (Inr (su_clock S s), s)) (\<lambda>t.
     let w = suite_verify H (su_registry S) (su_policy_version S) d m t in
     bind_io (unless_io (suite_error (rail_string (rc_rail c) @ '' did not invalidate its exact action mutation''))
       (\<not> vr_valid w \<and> ACTION_HASH_MISMATCH \<in> set (vr_reasons w))) (\<lambda>_.
     ret \<lparr>ro_rail = rc_rail c, ro_decision = d, ro_verification = v, ro_mutation = w\<rparr>)))))))))"

fun run_cases :: "host \<Rightarrow> 's rail_suite \<Rightarrow> rail_case list \<Rightarrow> (error, 's, rail_outcome list) io" where
  "run_cases H S [] = ret []"
| "run_cases H S (c # cs) = bind_io (run_case H S c) (\<lambda>x. bind_io (run_cases H S cs) (\<lambda>xs. ret (x # xs)))"

text \<open>The names of the members of a decision, in order. Its version and the algorithm of its
  signature are literals of its schema.\<close>

definition envelope_shape :: "decision \<Rightarrow> string list" where
  "envelope_shape d = (case decision_json d of JObj kvs \<Rightarrow> sort (map fst kvs) | _ \<Rightarrow> [])"

definition shares_envelope :: "decision \<Rightarrow> rail_outcome \<Rightarrow> bool" where
  "shares_envelope first x \<longleftrightarrow>
     d_policy_hash (ro_decision x) = d_policy_hash first \<and> d_policy_version (ro_decision x) = d_policy_version first \<and>
     d_key_id (ro_decision x) = d_key_id first \<and> reference_rail (d_reference (ro_decision x)) = ro_rail x \<and>
     envelope_shape (ro_decision x) = envelope_shape first"

definition run_multi_rail :: "host \<Rightarrow> 's rail_suite \<Rightarrow> rail_case list \<Rightarrow> (error, 's, rail_report) io" where
  "run_multi_rail H S cs =
     bind_io (unless_io (suite_error ''Conformance requires exactly one x402, AP2, EVM, card and MCP case'')
       (one_case_each cs)) (\<lambda>_.
     bind_io (run_cases H S cs) (\<lambda>xs.
     case xs of
       [] \<Rightarrow> throw (suite_error ''Conformance produced no decisions'')
     | x # _ \<Rightarrow>
         bind_io (unless_io (suite_error ''Rail outcomes did not preserve one shared Decision Envelope contract'')
           (list_all (shares_envelope (ro_decision x)) xs)) (\<lambda>_.
         ret \<lparr>rt_policy_hash = d_policy_hash (ro_decision x), rt_policy_version = d_policy_version (ro_decision x),
           rt_key_id = d_key_id (ro_decision x), rt_outcomes = xs\<rparr>)))"

subsection \<open>kya-suite.ts\<close>

record 's kya_suite =
  ku_gate :: "'s kya_gate"
  ku_registry :: "key_entry list"
  ku_clock :: "'s \<Rightarrow> int"
  ku_policy_version :: string
  ku_valid :: "action \<times> kya_presentation option"
  ku_mutated_request :: "action \<times> kya_presentation option"
  ku_bound_action :: "string \<Rightarrow> (kya_error, 's, action) io"
  ku_mutate_payment :: "action \<Rightarrow> action"
  ku_over_delegation :: "action \<times> kya_presentation option"
  ku_policy_deny :: "action \<times> kya_presentation option"

definition assert_that :: "bool \<Rightarrow> string \<Rightarrow> (kya_error, 's, unit) io" where
  "assert_that b m = unless_io (OtherError (JsError ''Error'' (''KYA conformance failed: '' @ m))) b"

definition suite_evaluate :: "host \<Rightarrow> 's kya_suite \<Rightarrow> action \<times> kya_presentation option \<Rightarrow> (kya_error, 's, decision) io" where
  "suite_evaluate H K x = kya_evaluate H (ku_gate K) (fst x) (snd x)"

definition is_kya_code :: "reason_code \<Rightarrow> bool" where
  "is_kya_code r \<longleftrightarrow> take 4 (reason_string r) = ''KYA_''"

definition suite_checks :: "string list" where
  "suite_checks = [''valid_authority'', ''request_mutation'', ''payment_mutation'', ''delegation_cap'', ''organisational_policy'']"

definition run_kya_suite :: "host \<Rightarrow> 's kya_suite \<Rightarrow> (kya_error, 's, string \<times> string list) io" where
  "run_kya_suite H K =
     bind_io (suite_evaluate H K (ku_valid K)) (\<lambda>valid.
     bind_io (assert_that (d_verdict valid = ALLOW) ''valid delegated authority did not reach Inntris ALLOW'') (\<lambda>_.
     bind_io (suite_evaluate H K (ku_mutated_request K)) (\<lambda>rm.
     bind_io (assert_that (d_verdict rm = BLOCK \<and> list_ex (\<lambda>r. r \<in> {KYA_PROOF_INVALID, KYA_PROOF_REPLAYED}) (d_reason_codes rm))
       ''exact request mutation did not invalidate KYA proof'') (\<lambda>_.
     bind_io (ku_bound_action K (d_decision_id valid)) (\<lambda>a.
     bind_io (\<lambda>s. (Inr (ku_clock K s), s)) (\<lambda>t.
     bind_io (assert_that (vr_valid (suite_verify H (ku_registry K) (ku_policy_version K) valid a t))
       ''valid bound Decision Envelope did not verify'') (\<lambda>_.
     bind_io (\<lambda>s. (Inr (ku_clock K s), s)) (\<lambda>t.
     let pm = suite_verify H (ku_registry K) (ku_policy_version K) valid (ku_mutate_payment K a) t in
     bind_io (assert_that (\<not> vr_valid pm \<and> ACTION_HASH_MISMATCH \<in> set (vr_reasons pm))
       ''exact payment mutation did not invalidate the Decision Envelope'') (\<lambda>_.
     bind_io (suite_evaluate H K (ku_over_delegation K)) (\<lambda>od.
     bind_io (assert_that (d_verdict od = BLOCK \<and> KYA_AMOUNT_EXCEEDS_DELEGATION \<in> set (d_reason_codes od))
       ''KYA MaxAmount did not block'') (\<lambda>_.
     bind_io (suite_evaluate H K (ku_policy_deny K)) (\<lambda>deny.
     bind_io (assert_that (d_verdict deny = BLOCK \<and> \<not> list_ex is_kya_code (d_reason_codes deny))
       ''verified KYA authority bypassed Inntris organisational policy'') (\<lambda>_.
     ret (d_decision_id valid, suite_checks))))))))))))))"

subsection \<open>fixtures.ts\<close>

definition hash_of :: "char \<Rightarrow> string" where
  "hash_of c = ''sha256:'' @ replicate 64 c"

definition public_payee :: string where
  "public_payee = ''0x'' @ replicate 39 (CHR ''0'') @ ''1''"

definition public_x402 :: "string \<Rightarrow> x402_input" where
  "public_x402 amt =
     \<lparr>xi_requirements = \<lparr>pq_scheme = ''exact'', pq_network = ''eip155:8453'', pq_asset = ''USDC'', pq_amount = amt,
        pq_pay_to = public_payee, pq_max_timeout = 60, pq_extra = Some []\<rparr>,
      xi_payload = None, xi_resource = ''https://example.test/research'', xi_principal_id = ''org_conformance'',
      xi_agent_id = ''agent_conformance_01'', xi_purpose = ''research_api'', xi_asset_decimals = 6, xi_extensions = None\<rparr>"

definition public_ap2 :: ap2_input where
  "public_ap2 =
     \<lparr>ai_mandates = \<lparr>md_checkout_token = ''checkout.open~~checkout.closed'', md_payment_token = ''payment.open~~payment.closed'',
        md_checkout_jwt = ''merchant.checkout.jwt'', md_checkout_audience = ''merchant-research-api'',
        md_checkout_nonce = ''checkout-nonce'', md_checkout_issuer = ''merchant-research-api'',
        md_payment_audience = ''payment-processor'', md_payment_nonce = ''payment-nonce''\<rparr>,
      ai_principal_id = ''org_conformance'', ai_agent_id = ''agent_conformance_01'',
      ai_resource = ''https://example.test/research'', ai_purpose = ''research_api'',
      ai_merchant_id = ''merchant-research-api'', ai_amount = ''450'', ai_currency = ''USD'', ai_extensions = None\<rparr>"

definition public_ap2_verification :: "string \<Rightarrow> string \<Rightarrow> ap2_verification" where
  "public_ap2_verification amt mandate =
     \<lparr>av_intent_verified = True, av_checkout_open_hash = hash_of (CHR ''1''), av_payment_open_hash = hash_of (CHR ''2''),
      av_checkout_mandate = hash_of (CHR ''3''), av_checkout_expires = ''2026-07-29T12:05:00.000Z'',
      av_checkout_hash = ''checkoutHashConformance'', av_checkout_id = ''checkout-conformance'',
      av_merchant_id = ''merchant-research-api'', av_merchant_name = ''Research API'', av_payment_mandate = mandate,
      av_payment_expires = ''2026-07-29T12:05:00.000Z'', av_transaction_id = ''checkoutHashConformance'',
      av_payee_id = ''merchant-research-api'', av_payee_name = ''Research API'', av_amount = amt, av_currency = ''USD'',
      av_instrument = ''card'', av_verified_at = ''2026-07-29T12:00:00.000Z''\<rparr>"

definition public_evm :: "string \<Rightarrow> evm_input" where
  "public_evm n =
     \<lparr>ei_transaction = \<lparr>et_type = EIP1559, et_chain_id = ''8453'', et_from = ''0x'' @ replicate 39 (CHR ''0'') @ ''2'',
        et_to = public_payee, et_value = ''4500000000000000000'', et_data = ''0x'', et_nonce = n, et_gas_limit = ''21000'',
        et_max_fee = Some ''2000000000'', et_max_priority_fee = Some ''1000000000'', et_gas_price = None, et_access_list = []\<rparr>,
      ei_principal_id = ''org_conformance'', ei_agent_id = ''agent_conformance_01'',
      ei_resource = ''https://example.test/research'', ei_purpose = ''research_api'', ei_asset = ''ETH'',
      ei_asset_decimals = 18, ei_extensions = None\<rparr>"

definition public_card :: "string \<Rightarrow> card_input" where
  "public_card amt =
     \<lparr>mi_request_id = ''card-request-001'', mi_principal_id = ''org_conformance'', mi_agent_id = ''agent_conformance_01'',
      mi_resource = ''https://card.example.test/authorise'', mi_purpose = ''research_api'', mi_amount = amt,
      mi_asset = ''USD'', mi_merchant_id = ''merchant-card-demo'', mi_network = ''visa'',
      mi_credential = ''tokenised-card-reference''\<rparr>"

definition public_tool_call :: "rat \<Rightarrow> tool_input" where
  "public_tool_call n =
     \<lparr>ti_call_id = ''tool-call-001'', ti_principal_id = ''org_conformance'', ti_agent_id = ''agent_conformance_01'',
      ti_resource = ''https://mcp.example.test/tools/research'', ti_purpose = ''research_api'', ti_amount = ''4.50'',
      ti_asset = ''USD'', ti_server_id = ''mcp-research-server'', ti_tool_name = ''paid_research'',
      ti_arguments = [(''query'', JStr ''renewable energy''), (''limit'', JNum n)], ti_payment = ''mcp-payment-001''\<rparr>"

definition case_of :: "rail \<Rightarrow> error + action \<Rightarrow> error + action \<Rightarrow> error + rail_case" where
  "case_of r x y = bind_sum x (\<lambda>a. bind_sum y (\<lambda>m. Inr \<lparr>rc_rail = r, rc_action = a, rc_mutated = m\<rparr>))"

definition create_public_cases :: "host \<Rightarrow> x402_schemas \<Rightarrow> error + rail_case list" where
  "create_public_cases H X =
     bind_sum (case_of X402 (action_from_x402 H X (public_x402 ''4500000'')) (action_from_x402 H X (public_x402 ''4600000''))) (\<lambda>c1.
     bind_sum (case_of AP2 (action_from_ap2 H public_ap2 (public_ap2_verification ''450'' (hash_of (CHR ''4''))) 2)
       (action_from_ap2 H public_ap2 (public_ap2_verification ''460'' (hash_of (CHR ''5''))) 2)) (\<lambda>c2.
     bind_sum (case_of EVM (action_from_evm H (public_evm ''7'')) (action_from_evm H (public_evm ''8''))) (\<lambda>c3.
     bind_sum (case_of CARD (action_from_card H (public_card ''4.50'')) (action_from_card H (public_card ''4.60''))) (\<lambda>c4.
     bind_sum (case_of MCP (action_from_tool_call H (public_tool_call 5)) (action_from_tool_call H (public_tool_call 6))) (\<lambda>c5.
       Inr [c1, c2, c3, c4, c5])))))"

subsection \<open>The bindings\<close>

lemma action_from_card_Inr:
  "action_from_card H i = Inr a \<Longrightarrow> card_input_ok H i \<and> action_ok H a \<and> a_rail a = CARD \<and>
    a_principal_id a = mi_principal_id i \<and> a_agent_id a = mi_agent_id i \<and>
    a_reference a = CardRef (mi_resource i) (mi_request_id i) (mi_merchant_id i) (to_lower (mi_network i))
      (hash_canonical H (JStr (mi_credential i))) (hash_canonical H (card_request_json H i)) \<and>
    a_transaction a = \<lparr>tx_amount = mi_amount i, tx_asset = mi_asset i, tx_network = ''card:'' @ to_lower (mi_network i),
      tx_payee = mi_merchant_id i, tx_purpose = mi_purpose i\<rparr>"
  by (auto simp: action_from_card_def check_action_def split: if_splits)

lemma action_from_tool_call_Inr:
  "action_from_tool_call H i = Inr a \<Longrightarrow> tool_input_ok H i \<and> action_ok H a \<and> a_rail a = MCP \<and>
    a_principal_id a = ti_principal_id i \<and> a_agent_id a = ti_agent_id i \<and>
    a_reference a = MCPRef (ti_resource i) (ti_server_id i) (ti_tool_name i) (ti_call_id i)
      (hash_canonical H (JObj (ti_arguments i))) (hash_canonical H (JStr (ti_payment i))) \<and>
    a_transaction a = \<lparr>tx_amount = ti_amount i, tx_asset = ti_asset i, tx_network = ''mcp:'' @ ti_server_id i,
      tx_payee = ti_server_id i, tx_purpose = ti_purpose i\<rparr>"
  by (auto simp: action_from_tool_call_def check_action_def split: if_splits)

text \<open>The action determines the authorisation, up to the case of the name of the card network.\<close>

lemma card_action_binds:
  assumes "jcs_ok H" "hash_binds H (JStr (mi_credential i)) (JStr (mi_credential j))"
    and "action_from_card H i = Inr a" "action_from_card H j = Inr b" "same_action a b"
  shows "i\<lparr>mi_network := to_lower (mi_network i)\<rparr> = j\<lparr>mi_network := to_lower (mi_network j)\<rparr>"
  using action_from_card_Inr [OF assms(3)] action_from_card_Inr [OF assms(4)] assms(5)
    hash_canonical_inj [OF assms(1,2)]
  by (cases i; cases j) (auto simp: same_action_def)

text \<open>The action determines the tool call, up to the order of the members of its arguments.\<close>

lemma tool_action_binds:
  assumes "jcs_ok H" "hash_binds H (JStr (ti_payment i)) (JStr (ti_payment j))"
    and "hash_binds H (JObj (ti_arguments i)) (JObj (ti_arguments j))"
    and "action_from_tool_call H i = Inr a" "action_from_tool_call H j = Inr b" "same_action a b"
  shows "json_norm (JObj (ti_arguments i)) = json_norm (JObj (ti_arguments j)) \<and>
    i\<lparr>ti_arguments := []\<rparr> = j\<lparr>ti_arguments := []\<rparr>"
proof -
  note f = action_from_tool_call_Inr [OF assms(4)] action_from_tool_call_Inr [OF assms(5)]
  have "hash_canonical H (JObj (ti_arguments i)) = hash_canonical H (JObj (ti_arguments j))"
    "hash_canonical H (JStr (ti_payment i)) = hash_canonical H (JStr (ti_payment j))"
    using f assms(6) by (simp_all add: same_action_def)
  then have "json_norm (JObj (ti_arguments i)) = json_norm (JObj (ti_arguments j))" "ti_payment i = ti_payment j"
    using hash_canonical_inj [OF assms(1,2)] hash_canonical_inj [OF assms(1,3)] by simp_all
  with f assms(6) show ?thesis by (cases i; cases j) (auto simp: same_action_def)
qed

subsection \<open>What a passing suite has found\<close>

lemma unless_io_Inr [simp]: "unless_io e b s = (Inr u, s') \<longleftrightarrow> b \<and> s' = s"
  by (auto simp: unless_io_def)

lemma suite_verify_parsed:
  assumes "decision_ok H d" "action_ok H a" "registry_ok ks"
  shows "ACTION_HASH_MISMATCH \<in> set (vr_reasons (suite_verify H ks v d a t)) \<longleftrightarrow>
    hash_canonical H (action_json a) \<noteq> d_action_hash d"
  using assms
  by (auto simp: suite_verify_def verify_decision_def parse_decision_json parse_action_json parse_registry_json Let_def
      note_failure_def add_reason_def split: option.splits)

text \<open>A case whose outcome the suite may report: a verified \<open>ALLOW\<close> for the action, which the mutated
  action does not hash to.\<close>

definition case_conforms :: "host \<Rightarrow> 's rail_suite \<Rightarrow> rail_case \<Rightarrow> rail_outcome \<Rightarrow> bool" where
  "case_conforms H S c x \<longleftrightarrow>
     ro_rail x = rc_rail c \<and> a_rail (rc_action c) = rc_rail c \<and> a_rail (rc_mutated c) = rc_rail c \<and>
     action_ok H (rc_action c) \<and> action_ok H (rc_mutated c) \<and> d_verdict (ro_decision x) = ALLOW \<and>
     (\<exists>t. vr_valid (suite_verify H (su_registry S) (su_policy_version S) (ro_decision x) (rc_action c) t)) \<and>
     hash_action H (rc_action c) = Inr (d_action_hash (ro_decision x)) \<and>
     hash_action H (rc_mutated c) \<noteq> Inr (d_action_hash (ro_decision x))"

lemma suite_verify_valid:
  "vr_valid (suite_verify H ks v d a t) \<Longrightarrow>
    decision_ok H d \<and> action_ok H a \<and> registry_ok ks \<and> d_action_hash d = hash_canonical H (action_json a) \<and>
    d_policy_version d = v"
  by (auto simp: suite_verify_def verify_decision_valid verified_def parse_decision_json parse_action_json
      parse_registry_json guard_opt_def split: if_splits)

lemma run_case_Inr:
  assumes "run_case H S c s = (Inr x, s')"
  shows "case_conforms H S c x"
proof -
  from assms obtain s1 d t t' where c: "action_ok H (rc_action c)" "action_ok H (rc_mutated c)"
      "a_rail (rc_action c) = rc_rail c" "a_rail (rc_mutated c) = rc_rail c" "su_evaluate S (rc_action c) s = (Inr d, s1)"
    and v: "vr_valid (suite_verify H (su_registry S) (su_policy_version S) d (rc_action c) t)" "d_verdict d = ALLOW"
    and m: "ACTION_HASH_MISMATCH \<in> set (vr_reasons (suite_verify H (su_registry S) (su_policy_version S) d (rc_mutated c) t'))"
    and x: "ro_rail x = rc_rail c" "ro_decision x = d"
    by (auto simp: run_case_def bind_io_Inr Let_def check_action_def check_decision_def lift_io_def split: if_splits)
  note f = suite_verify_valid [OF v(1)]
  then have "hash_canonical H (action_json (rc_mutated c)) \<noteq> d_action_hash d"
    using m suite_verify_parsed [of H d "rc_mutated c"] c(2) by blast
  with f c v x show ?thesis by (auto simp: case_conforms_def)
qed

lemma run_cases_Inr: "run_cases H S cs s = (Inr xs, s') \<Longrightarrow> list_all2 (case_conforms H S) cs xs"
  by (induction cs arbitrary: s xs) (auto simp: bind_io_Inr dest: run_case_Inr)

lemma run_multi_rail_Inr:
  assumes "run_multi_rail H S cs s = (Inr r, s')"
  shows "one_case_each cs \<and> list_all2 (case_conforms H S) cs (rt_outcomes r) \<and> rt_policy_version r = su_policy_version S \<and>
    (\<forall>x \<in> set (rt_outcomes r). d_policy_hash (ro_decision x) = rt_policy_hash r \<and>
      d_policy_version (ro_decision x) = rt_policy_version r \<and> d_key_id (ro_decision x) = rt_key_id r \<and>
      reference_rail (d_reference (ro_decision x)) = ro_rail x)"
proof -
  from assms obtain ys s1 where one: "one_case_each cs" and ys: "run_cases H S cs s = (Inr ys, s1)"
    and rest: "(case ys of [] \<Rightarrow> throw (suite_error ''Conformance produced no decisions'')
     | x # _ \<Rightarrow> bind_io (unless_io (suite_error ''Rail outcomes did not preserve one shared Decision Envelope contract'')
         (list_all (shares_envelope (ro_decision x)) ys)) (\<lambda>_.
       ret \<lparr>rt_policy_hash = d_policy_hash (ro_decision x), rt_policy_version = d_policy_version (ro_decision x),
         rt_key_id = d_key_id (ro_decision x), rt_outcomes = ys\<rparr>)) s1 = (Inr r, s')"
    unfolding run_multi_rail_def by (auto simp: bind_io_Inr simp del: run_cases.simps)
  then obtain x xs where cons: "ys = x # xs" by (cases ys) auto
  note xs = ys [unfolded cons]
  from rest have sh: "list_all (shares_envelope (ro_decision x)) (x # xs)"
    and r: "r = \<lparr>rt_policy_hash = d_policy_hash (ro_decision x), rt_policy_version = d_policy_version (ro_decision x),
      rt_key_id = d_key_id (ro_decision x), rt_outcomes = x # xs\<rparr>"
    unfolding cons by (simp_all add: bind_io_Inr)
  note all = run_cases_Inr [OF xs]
  then obtain c cs' where "cs = c # cs'" "case_conforms H S c x" by (auto simp: list_all2_Cons2)
  then have "d_policy_version (ro_decision x) = su_policy_version S"
    by (auto simp: case_conforms_def dest: suite_verify_valid)
  with one all sh r show ?thesis by (auto simp: shares_envelope_def list_all_iff)
qed

text \<open>The converse for one case: a provider that answers with a decision that verifies passes it,
  because an exact mutation changes the hash of the action.\<close>

lemma run_case_passes:
  assumes "jcs_ok H" "action_ok H (rc_action c)" "action_ok H (rc_mutated c)"
    and "a_rail (rc_action c) = rc_rail c" "a_rail (rc_mutated c) = rc_rail c"
    and e: "su_evaluate S (rc_action c) s = (Inr d, s')" and al: "d_verdict d = ALLOW"
    and v: "vr_valid (suite_verify H (su_registry S) (su_policy_version S) d (rc_action c) (su_clock S s'))"
    and "\<not> same_action (rc_action c) (rc_mutated c)" "hash_binds H (action_json (rc_action c)) (action_json (rc_mutated c))"
  shows "\<exists>w. run_case H S c s = (Inr \<lparr>ro_rail = rc_rail c, ro_decision = d,
      ro_verification = suite_verify H (su_registry S) (su_policy_version S) d (rc_action c) (su_clock S s'),
      ro_mutation = w\<rparr>, s')"
proof -
  note f = suite_verify_valid [OF v]
  let ?w = "suite_verify H (su_registry S) (su_policy_version S) d (rc_mutated c) (su_clock S s')"
  have "hash_canonical H (action_json (rc_mutated c)) \<noteq> d_action_hash d"
    using hash_canonical_inj [OF assms(1,10)] action_json_inj [of "rc_action c" "rc_mutated c"] assms(9) f by auto
  then have "\<not> vr_valid ?w" "ACTION_HASH_MISMATCH \<in> set (vr_reasons ?w)"
    using suite_verify_parsed [of H d "rc_mutated c"] f assms(3) suite_verify_valid [of H _ _ d "rc_mutated c"] by metis+
  then show ?thesis
    using assms f by (simp add: run_case_def bind_io_apply check_action_def check_decision_def lift_io_def unless_io_def ret_def Let_def)
qed

text \<open>The authority suite.\<close>

lemma run_kya_suite_Inr:
  assumes "run_kya_suite H K s = (Inr (i, cks), s')"
  shows "\<exists>d a t s1. suite_evaluate H K (ku_valid K) s = (Inr d, s1) \<and> d_verdict d = ALLOW \<and> i = d_decision_id d \<and>
    vr_valid (suite_verify H (ku_registry K) (ku_policy_version K) d a t) \<and>
    (action_ok H (ku_mutate_payment K a) \<longrightarrow> hash_action H (ku_mutate_payment K a) \<noteq> hash_action H a) \<and> cks = suite_checks"
proof -
  from assms obtain d a t t' s1 where d: "suite_evaluate H K (ku_valid K) s = (Inr d, s1)" "d_verdict d = ALLOW" "i = d_decision_id d"
    and v: "vr_valid (suite_verify H (ku_registry K) (ku_policy_version K) d a t)" and k: "cks = suite_checks"
    and m: "ACTION_HASH_MISMATCH \<in> set (vr_reasons (suite_verify H (ku_registry K) (ku_policy_version K) d (ku_mutate_payment K a) t'))"
    by (auto simp: run_kya_suite_def bind_io_Inr Let_def assert_that_def)
  note f = suite_verify_valid [OF v]
  have "hash_action H (ku_mutate_payment K a) \<noteq> hash_action H a" if "action_ok H (ku_mutate_payment K a)"
    using m that f suite_verify_parsed [of H d "ku_mutate_payment K a"] by auto
  with d v k show ?thesis by blast
qed

end
