(* ===== verification/ConformanceCases.thy ===== *)
theory ConformanceCases
  imports Conformance Samples
begin

section \<open>The public conformance cases\<close>

text \<open>
  The cases of \<open>fixtures.ts\<close> are bound without an error, one for each rail, and no mutated action
  of them is the action itself, so that the suite passes for every provider that signs an \<open>ALLOW\<close>
  with a key of the registry.
\<close>

definition good_case :: "host \<Rightarrow> rail_case \<Rightarrow> bool" where
  "good_case H c \<longleftrightarrow>
     action_ok H (rc_action c) \<and> action_ok H (rc_mutated c) \<and> a_rail (rc_action c) = rc_rail c \<and>
     a_rail (rc_mutated c) = rc_rail c \<and> \<not> same_action (rc_action c) (rc_mutated c)"

lemma public_strings:
  "hash_ok (hash_of (CHR ''1''))" "hash_ok (hash_of (CHR ''2''))" "hash_ok (hash_of (CHR ''3''))"
  "hash_ok (hash_of (CHR ''4''))" "hash_ok (hash_of (CHR ''5''))"
  "timestamp_ok ''2026-07-29T12:05:00.000Z''" "timestamp_ok ''2026-07-29T12:00:00.000Z''"
  "canonical_amount ''4.50''" "canonical_amount ''4.60''"
  "evm_address public_payee" "evm_address (''0x'' @ replicate 39 (CHR ''0'') @ ''2'')"
  by code_simp+

lemma public_texts:
  "format_atomic_amount ''4500000'' 6 = Inr ''4.50''" "format_atomic_amount ''4600000'' 6 = Inr ''4.60''"
  "format_minor_amount ''450'' 2 = Inr ''4.50''" "format_minor_amount ''460'' 2 = Inr ''4.60''"
  "format_evm_amount ''4500000000000000000'' 18 = Inr ''4.50''"
  by code_simp+

definition public_transaction :: "string \<Rightarrow> string \<Rightarrow> string \<Rightarrow> string \<Rightarrow> transaction" where
  "public_transaction amt asset network payee =
     \<lparr>tx_amount = amt, tx_asset = asset, tx_network = network, tx_payee = payee, tx_purpose = ''research_api''\<rparr>"

lemma public_transaction_ok:
  "transaction_ok (public_transaction ''4.50'' ''USDC'' ''eip155:8453'' public_payee)"
  "transaction_ok (public_transaction ''4.60'' ''USDC'' ''eip155:8453'' public_payee)"
  "transaction_ok (public_transaction ''4.50'' ''USD'' ''card'' ''merchant-research-api'')"
  "transaction_ok (public_transaction ''4.60'' ''USD'' ''card'' ''merchant-research-api'')"
  "transaction_ok (public_transaction ''4.50'' ''ETH'' ''eip155:8453'' public_payee)"
  "transaction_ok (public_transaction ''4.50'' ''USD'' ''card:visa'' ''merchant-card-demo'')"
  "transaction_ok (public_transaction ''4.60'' ''USD'' ''card:visa'' ''merchant-card-demo'')"
  "transaction_ok (public_transaction ''4.50'' ''USD'' ''mcp:mcp-research-server'' ''mcp-research-server'')"
  by code_simp+

lemma public_ids: "identifier_ok ''org_conformance''" "identifier_ok ''agent_conformance_01''" "len_between 1 64 ''exact''"
  "identifier_ok ''card-request-001''" "identifier_ok ''merchant-card-demo''" "len_between 1 64 ''visa''"
  "identifier_ok ''tool-call-001''" "identifier_ok ''mcp-research-server''" "identifier_ok ''paid_research''"
  "positive_string ''8453''" "uint_string ''7''" "uint_string ''8''" "uint_string ''4500000000000000000''"
  "base64url ''checkoutHashConformance''" "to_lower ''visa'' = ''visa''"
  by code_simp+

lemma public_evm_parts:
  "safe_integer ''8453''" "safe_integer ''7''" "safe_integer ''8''"
  by (simp_all add: safe_integer_def digits_value_def digit_value_def)

lemma public_evm_texts:
  "evm_address_any public_payee" "evm_address_any (''0x'' @ replicate 39 (CHR ''0'') @ ''2'')" "hex_data ''0x''"
  "positive_string ''21000''" "uint_string ''2000000000''" "uint_string ''1000000000''"
  by code_simp+

lemma public_evm_ok: "evm_tx_ok (ei_transaction (public_evm ''7''))" "evm_tx_ok (ei_transaction (public_evm ''8''))"
  using public_evm_parts public_evm_texts public_ids by (simp_all add: evm_tx_ok_def public_evm_def option_list_def)

lemma public_evm_normal: "normalise_evm (ei_transaction (public_evm n)) = ei_transaction (public_evm n)"
proof -
  have "to_lower (''0x'' @ replicate 39 (CHR ''0'') @ ''2'') = ''0x'' @ replicate 39 (CHR ''0'') @ ''2''"
    "to_lower public_payee = public_payee" "to_lower ''0x'' = ''0x''"
    by code_simp+
  then show ?thesis by (simp add: normalise_evm_def public_evm_def)
qed

lemma public_ap2_ok: "mandates_ok (ai_mandates public_ap2)"
  "ap2_verification_ok (public_ap2_verification ''450'' (hash_of (CHR ''4'')))"
  "ap2_verification_ok (public_ap2_verification ''460'' (hash_of (CHR ''5'')))"
proof -
  show "mandates_ok (ai_mandates public_ap2)"
    by (simp add: mandates_ok_def public_ap2_def compact_token_def identifier_ok_def len_between_def)
  have "len_between 1 512 ''Research API''" "identifier_ok ''checkout-conformance''" "identifier_ok ''merchant-research-api''"
    "uint_string ''450''" "uint_string ''460''" "currency_ok ''USD''" "len_between 1 128 ''card''"
    by code_simp+
  with public_strings public_ids show "ap2_verification_ok (public_ap2_verification ''450'' (hash_of (CHR ''4'')))"
    "ap2_verification_ok (public_ap2_verification ''460'' (hash_of (CHR ''5'')))"
    by (simp_all add: ap2_verification_ok_def public_ap2_verification_def)
qed

subsection \<open>The cases\<close>

lemma case_of_Inr [simp]: "case_of r (Inr a) (Inr m) = Inr \<lparr>rc_rail = r, rc_action = a, rc_mutated = m\<rparr>"
  by (simp add: case_of_def)

definition public_urls_ok :: "host \<Rightarrow> bool" where
  "public_urls_ok H \<longleftrightarrow>
     list_all (url_ok H) [''https://example.test/research'', ''https://card.example.test/authorise'',
       ''https://mcp.example.test/tools/research'']"

text \<open>An action of a rail with a given amount and, where the amounts agree, a given reference.\<close>

definition bound_action :: "host \<Rightarrow> rail \<Rightarrow> string \<Rightarrow> error + action \<Rightarrow> bool" where
  "bound_action H r amt x \<longleftrightarrow> (case x of Inl _ \<Rightarrow> False | Inr a \<Rightarrow> action_ok H a \<and> a_rail a = r \<and> tx_amount (a_transaction a) = amt)"

lemma public_x402_bound:
  assumes "sha_ok H" "public_urls_ok H" "\<And>r. xs_requirements X r = Some r"
  shows "bound_action H X402 ''4.50'' (action_from_x402 H X (public_x402 ''4500000''))"
    "bound_action H X402 ''4.60'' (action_from_x402 H X (public_x402 ''4600000''))"
proof -
  have b: "bound_action H X402 y (action_from_x402 H X (public_x402 x))"
    if "format_atomic_amount x 6 = Inr y" "transaction_ok (public_transaction y ''USDC'' ''eip155:8453'' public_payee)" for x y
  proof -
    have n: "normalise_requirements X (xi_requirements (public_x402 x)) = Inr (xi_requirements (public_x402 x))"
      by (simp add: normalise_requirements_def parse_or_zod_def assms(3) public_x402_def)
    have sel: "pq_amount (xi_requirements (public_x402 x)) = x" "xi_asset_decimals (public_x402 x) = 6"
      "xi_payload (public_x402 x) = None" "pq_scheme (xi_requirements (public_x402 x)) = ''exact''"
      "pq_asset (xi_requirements (public_x402 x)) = ''USDC''" "pq_network (xi_requirements (public_x402 x)) = ''eip155:8453''"
      "pq_pay_to (xi_requirements (public_x402 x)) = public_payee" "xi_resource (public_x402 x) = ''https://example.test/research''"
      "xi_principal_id (public_x402 x) = ''org_conformance''" "xi_agent_id (public_x402 x) = ''agent_conformance_01''"
      "xi_purpose (public_x402 x) = ''research_api''" "xi_extensions (public_x402 x) = None"
      by (simp_all add: public_x402_def)
    show ?thesis
      using assms(2) public_ids hash_canonical_hash_ok [OF assms(1)] that(2)
      by (simp add: action_from_x402_def n sel that(1) requirements_hash_def check_action_def action_ok_def public_urls_ok_def
          bound_action_def public_transaction_def)
  qed
  show "bound_action H X402 ''4.50'' (action_from_x402 H X (public_x402 ''4500000''))"
    "bound_action H X402 ''4.60'' (action_from_x402 H X (public_x402 ''4600000''))"
    using b public_texts public_transaction_ok by simp_all
qed

lemma public_ap2_bound:
  assumes "sha_ok H" "public_urls_ok H"
  shows "bound_action H AP2 ''4.50'' (action_from_ap2 H public_ap2 (public_ap2_verification ''450'' (hash_of (CHR ''4''))) 2)"
    "bound_action H AP2 ''4.60'' (action_from_ap2 H public_ap2 (public_ap2_verification ''460'' (hash_of (CHR ''5''))) 2)"
proof -
  have b: "bound_action H AP2 y (action_from_ap2 H public_ap2 (public_ap2_verification x h) 2)"
    if "format_minor_amount x 2 = Inr y" "ap2_verification_ok (public_ap2_verification x h)"
      "transaction_ok (public_transaction y ''USD'' ''card'' ''merchant-research-api'')" "hash_ok h" for x y h
  proof -
    have sel: "av_amount (public_ap2_verification x h) = x" "av_currency (public_ap2_verification x h) = ''USD''"
      "av_instrument (public_ap2_verification x h) = ''card''" "av_payee_id (public_ap2_verification x h) = ''merchant-research-api''"
      "av_checkout_mandate (public_ap2_verification x h) = hash_of (CHR ''3'')" "av_payment_mandate (public_ap2_verification x h) = h"
      "av_checkout_hash (public_ap2_verification x h) = ''checkoutHashConformance''"
      "av_transaction_id (public_ap2_verification x h) = ''checkoutHashConformance''"
      "ai_principal_id public_ap2 = ''org_conformance''" "ai_agent_id public_ap2 = ''agent_conformance_01''"
      "ai_resource public_ap2 = ''https://example.test/research''" "ai_purpose public_ap2 = ''research_api''"
      by (simp_all add: public_ap2_verification_def public_ap2_def)
    show ?thesis
      using assms(2) public_ids public_strings hash_canonical_hash_ok [OF assms(1)] that(3,4)
      by (simp add: action_from_ap2_def sel that(1,2) public_ap2_ok check_action_def action_ok_def public_urls_ok_def
          bound_action_def public_transaction_def intent_hash_def)
  qed
  show "bound_action H AP2 ''4.50'' (action_from_ap2 H public_ap2 (public_ap2_verification ''450'' (hash_of (CHR ''4''))) 2)"
    "bound_action H AP2 ''4.60'' (action_from_ap2 H public_ap2 (public_ap2_verification ''460'' (hash_of (CHR ''5''))) 2)"
    using b public_texts public_transaction_ok public_ap2_ok public_strings by simp_all
qed

lemma public_card_bound:
  assumes "sha_ok H" "public_urls_ok H"
  shows "bound_action H CARD ''4.50'' (action_from_card H (public_card ''4.50''))"
    "bound_action H CARD ''4.60'' (action_from_card H (public_card ''4.60''))"
proof -
  have c: "len_between 1 128 ''research_api''" "len_between 1 128 ''USD''" "len_between 1 256 ''tokenised-card-reference''"
    by code_simp+
  have b: "bound_action H CARD x (action_from_card H (public_card x))"
    if "transaction_ok (public_transaction x ''USD'' ''card:visa'' ''merchant-card-demo'')" for x
    using assms(2) public_ids public_strings hash_canonical_hash_ok [OF assms(1)] that c
    by (simp add: action_from_card_def card_input_ok_def public_card_def check_action_def action_ok_def public_urls_ok_def
        bound_action_def public_transaction_def transaction_ok_def)
  show "bound_action H CARD ''4.50'' (action_from_card H (public_card ''4.50''))"
    "bound_action H CARD ''4.60'' (action_from_card H (public_card ''4.60''))"
    using b public_transaction_ok by simp_all
qed

lemma public_tool_bound:
  assumes "sha_ok H" "public_urls_ok H"
  shows "bound_action H MCP ''4.50'' (action_from_tool_call H (public_tool_call n))"
proof -
  have c: "len_between 1 128 ''research_api''" "len_between 1 128 ''USD''" "len_between 1 256 ''mcp-payment-001''"
    "len_between 1 100 ''mcp-research-server''"
    by code_simp+
  show ?thesis
    using assms(2) public_ids public_strings hash_canonical_hash_ok [OF assms(1)] public_transaction_ok(8) c
    by (simp add: action_from_tool_call_def tool_input_ok_def public_tool_call_def check_action_def action_ok_def
        public_urls_ok_def bound_action_def public_transaction_def transaction_ok_def)
qed

lemma public_evm_bound:
  assumes "sha_ok H" "public_urls_ok H" "n \<in> {''7'', ''8''}"
  shows "\<exists>a. action_from_evm H (public_evm n) = Inr a \<and> action_ok H a \<and> a_rail a = EVM \<and> evm_nonce (a_reference a) = n"
proof -
  have e: "evm_tx_ok (ei_transaction (public_evm n))" "uint_string n"
    using public_evm_ok public_ids assms(3) by (elim insertE, simp_all)+
  have l: "len_between 1 128 ''research_api''" "len_between 1 128 ''ETH''"
    by code_simp+
  have sel: "et_value (ei_transaction (public_evm n)) = ''4500000000000000000''" "et_chain_id (ei_transaction (public_evm n)) = ''8453''"
    "et_from (ei_transaction (public_evm n)) = ''0x'' @ replicate 39 (CHR ''0'') @ ''2''" "et_to (ei_transaction (public_evm n)) = public_payee"
    "et_nonce (ei_transaction (public_evm n)) = n" "ei_principal_id (public_evm n) = ''org_conformance''"
    "ei_agent_id (public_evm n) = ''agent_conformance_01''" "ei_resource (public_evm n) = ''https://example.test/research''"
    "ei_purpose (public_evm n) = ''research_api''" "ei_asset (public_evm n) = ''ETH''" "ei_asset_decimals (public_evm n) = 18"
    "ei_extensions (public_evm n) = None" "et_type (ei_transaction (public_evm n)) = EIP1559" "et_data (ei_transaction (public_evm n)) = ''0x''"
    by (simp_all add: public_evm_def)
  define sender where "sender = ''0x'' @ replicate 39 (CHR ''0'') @ ''2''"
  have addr: "evm_address sender" "evm_address public_payee"
    unfolding sender_def by (rule public_strings)+
  define uh where "uh = hash_canonical H (evm_tx_json (ei_transaction (public_evm n)))"
  define ex where "ex = AList.update ''inntris_evm'' (JObj [(''unsigned_transaction'', evm_tx_json (ei_transaction (public_evm n)))]) []"
  define a where "a = \<lparr>a_principal_id = ''org_conformance'', a_agent_id = ''agent_conformance_01'', a_rail = EVM,
    a_reference = EVMRef ''https://example.test/research'' EIP1559 ''8453'' sender public_payee ''4500000000000000000'' n uh (hash_canonical H (JStr ''0x'')),
    a_transaction = public_transaction ''4.50'' ''ETH'' ''eip155:8453'' public_payee, a_extensions = Some ex\<rparr>"
  have ok: "action_ok H a"
    using assms(2) public_ids e(2) addr hash_canonical_hash_ok [OF assms(1)] public_transaction_ok(5)
    by (simp add: a_def action_ok_def public_urls_ok_def uh_def)
  have i: "evm_input_ok H (public_evm n)"
    using assms(2) e l public_ids by (simp add: evm_input_ok_def sel public_urls_ok_def)
  have h: "normalise_evm_transaction (ei_transaction (public_evm n)) = Inr (ei_transaction (public_evm n))"
    by (simp only: normalise_evm_transaction_def e public_evm_normal if_True)
  have "action_from_evm H (public_evm n) = check_action H a"
    by (simp only: action_from_evm_def i h bind_sum_simps sel public_texts evm_unsigned_hash_def a_def uh_def ex_def sender_def
        public_transaction_def append.simps option.case not_True_eq_False if_False)
  with ok show ?thesis by (simp add: check_action_def a_def)
qed

definition public_hashes_bind :: "host \<Rightarrow> bool" where
  "public_hashes_bind H \<longleftrightarrow> hash_binds H (JObj (ti_arguments (public_tool_call 5))) (JObj (ti_arguments (public_tool_call 6))) \<and>
     hash_binds H (JStr ''mcp-payment-001'') (JStr ''mcp-payment-001'')"

lemma public_tool_differs:
  assumes "jcs_ok H" "public_hashes_bind H"
    and "action_from_tool_call H (public_tool_call 5) = Inr a" "action_from_tool_call H (public_tool_call 6) = Inr m"
  shows "\<not> same_action a m"
  using tool_action_binds [OF assms(1) _ _ assms(3,4)] assms(2)
  by (auto simp: public_hashes_bind_def public_tool_call_def sort_key_const)

theorem public_cases:
  assumes "jcs_ok H" "sha_ok H" "public_urls_ok H" "public_hashes_bind H" "\<And>r. xs_requirements X r = Some r"
  shows "\<exists>cs. create_public_cases H X = Inr cs \<and> one_case_each cs \<and> list_all (good_case H) cs"
proof -
  note x = public_x402_bound [OF assms(2,3,5)] and ap = public_ap2_bound [OF assms(2,3)] and cd = public_card_bound [OF assms(2,3)]
  obtain x1 x2 p1 p2 c1 c2 where x12: "action_from_x402 H X (public_x402 ''4500000'') = Inr x1" "action_from_x402 H X (public_x402 ''4600000'') = Inr x2"
    and p12: "action_from_ap2 H public_ap2 (public_ap2_verification ''450'' (hash_of (CHR ''4''))) 2 = Inr p1"
      "action_from_ap2 H public_ap2 (public_ap2_verification ''460'' (hash_of (CHR ''5''))) 2 = Inr p2"
    and c12: "action_from_card H (public_card ''4.50'') = Inr c1" "action_from_card H (public_card ''4.60'') = Inr c2"
    using x ap cd by (auto simp: bound_action_def split: sum.splits)
  obtain m1 m2 where m12: "action_from_tool_call H (public_tool_call 5) = Inr m1" "action_from_tool_call H (public_tool_call 6) = Inr m2"
    using public_tool_bound [OF assms(2,3), of 5] public_tool_bound [OF assms(2,3), of 6]
    by (auto simp: bound_action_def split: sum.splits)
  have mm: "action_ok H m1" "action_ok H m2" "a_rail m1 = MCP" "a_rail m2 = MCP"
    using m12 public_tool_bound [OF assms(2,3), of 5] public_tool_bound [OF assms(2,3), of 6] by (simp_all add: bound_action_def)
  obtain e1 e2 where e12: "action_from_evm H (public_evm ''7'') = Inr e1" "action_from_evm H (public_evm ''8'') = Inr e2"
    and ee: "action_ok H e1" "action_ok H e2" "a_rail e1 = EVM" "a_rail e2 = EVM" "evm_nonce (a_reference e1) \<noteq> evm_nonce (a_reference e2)"
    using public_evm_bound [OF assms(2,3), of "''7''"] public_evm_bound [OF assms(2,3), of "''8''"] by auto
  have "good_case H \<lparr>rc_rail = X402, rc_action = x1, rc_mutated = x2\<rparr>" "good_case H \<lparr>rc_rail = AP2, rc_action = p1, rc_mutated = p2\<rparr>"
    "good_case H \<lparr>rc_rail = CARD, rc_action = c1, rc_mutated = c2\<rparr>" "good_case H \<lparr>rc_rail = EVM, rc_action = e1, rc_mutated = e2\<rparr>"
    "good_case H \<lparr>rc_rail = MCP, rc_action = m1, rc_mutated = m2\<rparr>"
    using x ap cd x12 p12 c12 ee mm public_tool_differs [OF assms(1,4) m12] by (auto simp: good_case_def bound_action_def same_action_def)
  then show ?thesis
    using x12 p12 c12 m12 e12 by (simp add: create_public_cases_def one_case_each_def required_rails_def)
qed

subsection \<open>The suite passes\<close>

lemma envelope_shape_const: "envelope_shape d = envelope_shape e"
  by (simp add: envelope_shape_def decision_json_def decision_body_def)

text \<open>A suite whose provider signs an \<open>ALLOW\<close> for every action, with one key and policy, at a time the
  decision and the key are good for.\<close>

definition allowing_suite :: "host \<Rightarrow> 's rail_suite \<Rightarrow> signer \<Rightarrow> create_input \<Rightarrow> bool" where
  "allowing_suite H S sg ci \<longleftrightarrow>
     su_evaluate S = (\<lambda>a s. (create_signed_decision H sg a ci, s)) \<and> su_policy_version S = ci_policy_version ci \<and>
     ev_verdict (ci_evaluation ci) = ALLOW \<and>
     (\<exists>nb na st k. key_registry_entry H sg nb na st = Inr k \<and> st \<noteq> Some Revoked \<and> registry_ok (su_registry S) \<and>
        k \<in> set (su_registry S) \<and> nb \<le> ci_now ci \<and> (\<forall>t. na = Some t \<longrightarrow> ci_now ci < t)) \<and>
     (\<forall>s. ci_now ci \<le> su_clock S s \<and> su_clock S s < ci_now ci + ci_ttl_seconds ci * 1000)"

lemma allowing_suite_verifies:
  assumes "allowing_suite H S sg ci" "signer_ok H sg" "length (s_public_key sg) = 32" "create_signed_decision H sg a ci = Inr d"
  shows "vr_valid (suite_verify H (su_registry S) (su_policy_version S) d a (su_clock S s))"
proof -
  from assms(1) obtain nb na st k where k: "key_registry_entry H sg nb na st = Inr k" "st \<noteq> Some Revoked" "registry_ok (su_registry S)"
      "k \<in> set (su_registry S)" "nb \<le> ci_now ci" "\<forall>t. na = Some t \<longrightarrow> ci_now ci < t"
    and v: "su_policy_version S = ci_policy_version ci"
    and t: "ci_now ci \<le> su_clock S s" "su_clock S s < ci_now ci + ci_ttl_seconds ci * 1000"
    by (auto simp: allowing_suite_def)
  have "vr_valid (verify_decision H \<lparr>vi_decision = decision_json d, vi_action = action_json a,
      vi_registry = registry_json (su_registry S), vi_at = su_clock S s, vi_policy_version = Some (ci_policy_version ci),
      vi_requirements_hash = bound_requirements (a_reference a)\<rparr>)"
    using issued_decision_verifies [OF assms(4,2,3) k t refl] by blast
  then show ?thesis by (auto simp: suite_verify_def v verify_decision_valid verified_def)
qed

lemma run_cases_pass:
  assumes "jcs_ok H" "sha_ok H" "allowing_suite H S sg ci" "signer_ok H sg" "length (s_public_key sg) = 32"
    and "create_input_ok ci" "identifier_ok (s_key_id sg)" "\<And>m. \<exists>sig. s_sign sg m = Inr sig"
  shows "list_all (good_case H) cs \<Longrightarrow> list_all (\<lambda>c. hash_binds H (action_json (rc_action c)) (action_json (rc_mutated c))) cs \<Longrightarrow>
    \<exists>xs. run_cases H S cs s = (Inr xs, s) \<and> length xs = length cs \<and>
      list_all (\<lambda>x. \<exists>a. create_signed_decision H sg a ci = Inr (ro_decision x) \<and> a_rail a = ro_rail x) xs"
proof (induction cs)
  case (Cons c cs)
  then obtain xs where xs: "run_cases H S cs s = (Inr xs, s)" "length xs = length cs"
      "list_all (\<lambda>x. \<exists>a. create_signed_decision H sg a ci = Inr (ro_decision x) \<and> a_rail a = ro_rail x) xs"
    by auto
  have g: "action_ok H (rc_action c)" "action_ok H (rc_mutated c)" "a_rail (rc_action c) = rc_rail c" "a_rail (rc_mutated c) = rc_rail c"
    "\<not> same_action (rc_action c) (rc_mutated c)" "hash_binds H (action_json (rc_action c)) (action_json (rc_mutated c))"
    using Cons.prems by (simp_all add: good_case_def)
  obtain d where d: "create_signed_decision H sg (rc_action c) ci = Inr d"
    using create_signed_decision_total [OF assms(2) g(1) assms(6,7,4,8)] by blast
  have e: "su_evaluate S (rc_action c) s = (Inr d, s)" "d_verdict d = ALLOW"
    using assms(3) d create_signed_decision_fields(2) [OF d] by (simp_all add: allowing_suite_def)
  obtain w where "run_case H S c s = (Inr \<lparr>ro_rail = rc_rail c, ro_decision = d,
      ro_verification = suite_verify H (su_registry S) (su_policy_version S) d (rc_action c) (su_clock S s), ro_mutation = w\<rparr>, s)"
    using run_case_passes [OF assms(1) g(1-4) e allowing_suite_verifies [OF assms(3-5) d] g(5,6)] by blast
  with xs d g(3) show ?case by (auto simp: bind_io_apply ret_def)
qed (simp add: ret_def)

lemma created_policy_hash:
  assumes "create_signed_decision H sg a ci = Inr d"
  shows "d_policy_hash d = ci_policy_hash ci"
proof -
  obtain issued expires where "same_content d (unsigned_decision H sg a ci issued expires)"
    using create_signed_decision_correct [OF assms] by (auto simp: issued_for_def)
  then show ?thesis by (cases d) (simp add: same_content_def unsigned_decision_def)
qed

theorem allowing_suite_passes:
  assumes "jcs_ok H" "sha_ok H" "allowing_suite H S sg ci" "signer_ok H sg" "length (s_public_key sg) = 32"
    and "create_input_ok ci" "identifier_ok (s_key_id sg)" "\<And>m. \<exists>sig. s_sign sg m = Inr sig"
    and "one_case_each cs" "list_all (good_case H) cs"
    and "list_all (\<lambda>c. hash_binds H (action_json (rc_action c)) (action_json (rc_mutated c))) cs"
  shows "\<exists>r. run_multi_rail H S cs s = (Inr r, s) \<and> rt_policy_hash r = ci_policy_hash ci \<and> rt_key_id r = s_key_id sg"
proof -
  obtain xs where xs: "run_cases H S cs s = (Inr xs, s)" "length xs = length cs"
      "list_all (\<lambda>x. \<exists>a. create_signed_decision H sg a ci = Inr (ro_decision x) \<and> a_rail a = ro_rail x) xs"
    using run_cases_pass [OF assms(1-8,10,11)] by blast
  moreover have "cs \<noteq> []" using assms(9) by (auto simp: one_case_each_def required_rails_def)
  ultimately obtain x ys where cons: "xs = x # ys" by (cases xs) auto
  have f: "d_policy_hash (ro_decision y) = ci_policy_hash ci \<and> d_policy_version (ro_decision y) = ci_policy_version ci \<and>
      d_key_id (ro_decision y) = s_key_id sg \<and> reference_rail (d_reference (ro_decision y)) = ro_rail y" if "y \<in> set xs" for y
  proof -
    from that xs(3) obtain a where a: "create_signed_decision H sg a ci = Inr (ro_decision y)" "a_rail a = ro_rail y"
      by (auto simp: list_all_iff)
    have "action_ok H a" using a(1) by (simp add: create_signed_decision_def check_action_def split: if_splits)
    then have "reference_rail (a_reference a) = a_rail a" by (simp add: action_ok_def)
    with a create_signed_decision_fields [OF a(1)] created_policy_hash [OF a(1)] show ?thesis by simp
  qed
  have "list_all (shares_envelope (ro_decision x)) xs"
    using f by (auto simp: list_all_iff shares_envelope_def cons envelope_shape_const)
  with xs(1) assms(9) f [of x] show ?thesis
    by (simp add: run_multi_rail_def bind_io_apply unless_io_def ret_def cons)
qed

end
