(* ===== verification/Tools.thy ===== *)
theory Tools
  imports DemoApi PolicyText
begin

section \<open>Migrations, the verifier's command line and the sandbox probe\<close>

text \<open>
  Three programs around the packages: \<open>postgres-store/src/migrate.ts\<close> with \<open>cli.ts\<close>, which brings a database to the current
  tables in one transaction; \<open>decision-verifier/src/cli.ts\<close> with \<open>io.ts\<close>; and
  \<open>x402-adapter/src/sandbox.ts\<close>, which asks a facilitator to refuse an unsigned payment. The SQL files and their effect, the
  file system, the arguments read by \<open>commander\<close> and the facilitator are parameters. Facts: a migration that succeeds leaves a
  database that is ready, runs each file at most once and in order, and changes nothing when it is repeated or fails; the
  command line exits with 0 exactly when the decision it was given verifies.
\<close>

subsection \<open>Migrations\<close>

definition migration_versions :: "string list" where
  "migration_versions = [''001_initial'', ''002_mtp_authority'', ''003_execution_reconciliation'', ''004_kya_authority'']"

text \<open>A database: the versions of the table \<open>schema_migrations\<close>, when there is one, and everything else.\<close>

record 'd database =
  db_versions :: "string list option"
  db_data :: 'd

record 'd migrations =
  mg_read :: "string \<Rightarrow> error + string"
  mg_run :: "string \<Rightarrow> 'd \<Rightarrow> error + 'd"

definition assert_store_ready :: "'d database \<Rightarrow> error + unit" where
  "assert_store_ready d =
     (case db_versions d of
        None \<Rightarrow> Inl (JsError ''Error'' ''Inntris PostgreSQL migrations have not been applied'')
      | Some vs \<Rightarrow>
          let missing = filter (\<lambda>v. v \<notin> set vs) migration_versions in
          if missing \<noteq> []
          then Inl (JsError ''Error'' (''Required Inntris PostgreSQL migrations are missing: '' @ join_with '', '' missing))
          else Inr ())"

fun apply_migrations :: "'d migrations \<Rightarrow> string list \<Rightarrow> string list \<Rightarrow> 'd \<Rightarrow> error + string list \<times> 'd" where
  "apply_migrations M [] vs d = Inr (vs, d)"
| "apply_migrations M (v # rest) vs d =
     (if v \<in> set vs then apply_migrations M rest vs d
      else bind_sum (mg_read M v) (\<lambda>sql. bind_sum (mg_run M sql d) (\<lambda>d'. apply_migrations M rest (vs @ [v]) d')))"

text \<open>The advisory lock makes the transactions of concurrent runs follow one another; an error rolls the transaction back.\<close>

definition migrate_store :: "'d migrations \<Rightarrow> (error, 'd database, unit) io" where
  "migrate_store M d =
     (case apply_migrations M migration_versions (case db_versions d of None \<Rightarrow> [] | Some vs \<Rightarrow> vs) (db_data d) of
        Inl e \<Rightarrow> (Inl e, d)
      | Inr (vs, x) \<Rightarrow> (Inr (), d\<lparr>db_versions := Some vs, db_data := x\<rparr>))"

definition migration_program :: "string option \<Rightarrow> 'd migrations \<Rightarrow> (error, 'd database, string) io" where
  "migration_program url M =
     (if (case url of None \<Rightarrow> True | Some u \<Rightarrow> blank u) then throw (JsError ''Error'' ''INNTRIS_POSTGRES_URL is required'')
      else bind_io (migrate_store M) (\<lambda>_. ret (''Inntris PostgreSQL migrations applied successfully'' @ [CHR 0x0A])))"

lemma apply_migrations_Inr:
  "apply_migrations M us vs d = Inr (ws, e) \<Longrightarrow> distinct us \<Longrightarrow>
    ws = vs @ filter (\<lambda>u. u \<notin> set vs) us \<and> (set us \<subseteq> set vs \<longrightarrow> e = d)"
proof (induction us arbitrary: vs d)
  case (Cons u us)
  show ?case
  proof (cases "u \<in> set vs")
    case False
    then obtain sql d' where "apply_migrations M us (vs @ [u]) d' = Inr (ws, e)"
      using Cons.prems(1) by (auto simp: bind_sum_Inr)
    then have "ws = (vs @ [u]) @ filter (\<lambda>x. x \<notin> set (vs @ [u])) us"
      using Cons.IH Cons.prems(2) by (metis distinct.simps(2))
    moreover have "filter (\<lambda>x. x \<notin> set (vs @ [u])) us = filter (\<lambda>x. x \<notin> set vs) us"
      using Cons.prems(2) by (intro filter_cong) auto
    ultimately show ?thesis using False by simp
  qed (use Cons in auto)
qed simp

lemma apply_migrations_none: "set us \<subseteq> set vs \<Longrightarrow> apply_migrations M us vs d = Inr (vs, d)"
  by (induction us) auto

lemma migrate_store_Inr:
  assumes "migrate_store M d = (Inr (), d')"
  shows "assert_store_ready d' = Inr () \<and> migrate_store M d' = (Inr (), d') \<and>
    db_versions d' = Some (let vs = (case db_versions d of None \<Rightarrow> [] | Some vs \<Rightarrow> vs) in vs @ filter (\<lambda>v. v \<notin> set vs) migration_versions)"
proof -
  define vs where "vs = (case db_versions d of None \<Rightarrow> [] | Some vs \<Rightarrow> vs)"
  have dist: "distinct migration_versions" by (simp add: migration_versions_def)
  from assms obtain ws x where ap: "apply_migrations M migration_versions vs (db_data d) = Inr (ws, x)"
    and d': "d' = d\<lparr>db_versions := Some ws, db_data := x\<rparr>"
    by (auto simp: migrate_store_def vs_def split: sum.splits)
  from apply_migrations_Inr [OF ap dist] have ws: "ws = vs @ filter (\<lambda>v. v \<notin> set vs) migration_versions" by simp
  then have sub: "set migration_versions \<subseteq> set ws" by auto
  then have "filter (\<lambda>v. v \<notin> set ws) migration_versions = []" by (auto simp: filter_empty_conv)
  with sub show ?thesis
    by (simp add: d' assert_store_ready_def migrate_store_def apply_migrations_none Let_def ws [symmetric] vs_def [symmetric])
qed

lemma migrate_store_Inl: "migrate_store M d = (Inl e, d') \<Longrightarrow> d' = d"
  by (auto simp: migrate_store_def split: sum.splits prod.splits)

text \<open>Each file is run at most once over any number of runs, in the order of the versions: with a log of what was run.\<close>

definition logging :: "(string \<Rightarrow> error + string) \<Rightarrow> (string \<Rightarrow> 'd \<Rightarrow> error + 'd) \<Rightarrow> ('d \<times> string list) migrations" where
  "logging read run = \<lparr>mg_read = (\<lambda>v. bind_sum (read v) (\<lambda>sql. Inr v)),
     mg_run = (\<lambda>v (d, files). bind_sum (read v) (\<lambda>sql. bind_sum (run sql d) (\<lambda>d'. Inr (d', files @ [v]))))\<rparr>"

lemma apply_migrations_log:
  "apply_migrations (logging read run) us vs (d, files) = Inr (ws, d', files') \<Longrightarrow> \<exists>new. ws = vs @ new \<and> files' = files @ new"
proof (induction us arbitrary: vs d files)
  case (Cons u us)
  show ?case
  proof (cases "u \<in> set vs")
    case False
    then obtain d1 where "apply_migrations (logging read run) us (vs @ [u]) (d1, files @ [u]) = Inr (ws, d', files')"
      using Cons.prems by (auto simp: bind_sum_Inr logging_def)
    from Cons.IH [OF this] show ?thesis by auto
  qed (use Cons in auto)
qed simp

text \<open>A database made by these migrations only: its versions are the log.\<close>

definition migrated_only :: "('d \<times> string list) database \<Rightarrow> bool" where
  "migrated_only d \<longleftrightarrow>
     (case db_versions d of None \<Rightarrow> [] | Some vs \<Rightarrow> vs) = snd (db_data d) \<and> distinct (snd (db_data d)) \<and>
     set (snd (db_data d)) \<subseteq> set migration_versions"

lemma migrate_store_log:
  assumes "migrated_only d"
  shows "migrated_only (snd (migrate_store (logging read run) d)) \<and>
    (\<exists>new. snd (db_data (snd (migrate_store (logging read run) d))) = snd (db_data d) @ new)"
proof -
  obtain x files where x: "db_data d = (x, files)" by (cases "db_data d")
  define vs where "vs = (case db_versions d of None \<Rightarrow> [] | Some vs \<Rightarrow> vs)"
  from assms have vs: "vs = files" "distinct files" "set files \<subseteq> set migration_versions" by (simp_all add: migrated_only_def x vs_def)
  have dist: "distinct migration_versions" by (simp add: migration_versions_def)
  show ?thesis
  proof (cases "apply_migrations (logging read run) migration_versions vs (db_data d)")
    case (Inl e)
    then show ?thesis using assms by (simp add: migrate_store_def vs_def)
  next
    case (Inr r)
    obtain ws y files' where r: "r = (ws, y, files')" by (cases r) auto
    note ap = Inr [unfolded r x]
    from apply_migrations_log [OF ap] vs(1) have "ws = files'" "\<exists>new. files' = files @ new" by auto
    moreover have "ws = files @ filter (\<lambda>u. u \<notin> set files) migration_versions"
      using apply_migrations_Inr [OF ap dist] vs(1) by simp
    ultimately show ?thesis
      using Inr vs dist by (auto simp: migrate_store_def migrated_only_def vs_def [symmetric] r x)
  qed
qed

subsection \<open>The verifier's command line\<close>

text \<open>What is written to the standard output: a JSON value, printed with two spaces, or a text.\<close>

datatype cli_output = CliJson json | CliText string

text \<open>The files, the network and \<open>Date\<close>; \<open>JSON.stringify\<close> on one line, and the value of a YAML text.\<close>

record cli_env =
  ce_json_file :: "string \<Rightarrow> error + json"
  ce_text_file :: "string \<Rightarrow> error + string"
  ce_yaml :: "string \<Rightarrow> error + json"
  ce_url :: url_parser
  ce_fetch :: "string \<Rightarrow> reply"
  ce_date :: "string \<Rightarrow> int option"
  ce_now :: int
  ce_stringify :: "json \<Rightarrow> string"

record decision_options =
  dq_action :: string
  dq_keys :: "string option"
  dq_keys_url :: "string option"
  dq_policy_version :: "string option"
  dq_at :: "string option"
  dq_requirements_hash :: "string option"
  dq_json :: bool

datatype cli_command =
    DecisionCommand string decision_options
  | HashActionCommand string
  | HashPolicyCommand string
  | InspectCommand string bool

definition parse_at :: "cli_env \<Rightarrow> string option \<Rightarrow> error + int" where
  "parse_at E v =
     (case (case v of None \<Rightarrow> Some (ce_now E) | Some s \<Rightarrow> ce_date E s) of
        None \<Rightarrow> Inl (JsError ''Error'' ''--at must be an ISO 8601 timestamp'')
      | Some t \<Rightarrow> Inr t)"

definition read_local_registry :: "cli_env \<Rightarrow> string \<Rightarrow> error + key_entry list" where
  "read_local_registry E path = bind_sum (ce_json_file E path) (\<lambda>v. parse_or_zod (parse_registry v))"

definition cli_registry :: "cli_env \<Rightarrow> decision_options \<Rightarrow> error + key_entry list" where
  "cli_registry E q =
     (if (dq_keys q = None) = (dq_keys_url q = None)
      then Inl (JsError ''Error'' ''Supply exactly one of --keys or --keys-url'')
      else case dq_keys q of
        Some path \<Rightarrow> read_local_registry E path
      | None \<Rightarrow> (case dq_keys_url q of
          None \<Rightarrow> Inl (JsError ''Error'' ''--keys-url is required when --keys is absent'')
        | Some url \<Rightarrow> fetch_key_registry (ce_url E) (ce_fetch E) url))"

text \<open>The result of the verification the command asks for.\<close>

definition cli_verify :: "host \<Rightarrow> cli_env \<Rightarrow> string \<Rightarrow> decision_options \<Rightarrow> error + verification" where
  "cli_verify H E path q =
     bind_sum (cli_registry E q) (\<lambda>ks.
     bind_sum (ce_json_file E path) (\<lambda>d.
     bind_sum (ce_json_file E (dq_action q)) (\<lambda>a.
     bind_sum (parse_at E (dq_at q)) (\<lambda>t.
     Inr (verify_decision H \<lparr>vi_decision = d, vi_action = a, vi_registry = registry_json ks, vi_at = t,
       vi_policy_version = dq_policy_version q, vi_requirements_hash = dq_requirements_hash q\<rparr>)))))"

definition decision_summary :: "decision \<Rightarrow> (string \<times> json) list" where
  "decision_summary d =
     [(''version'', JStr ''inntris-decision-v1''), (''decision_id'', JStr (d_decision_id d)),
      (''verdict'', JStr (verdict_string (d_verdict d))), (''action_hash'', JStr (d_action_hash d)),
      (''policy'', JObj [(''policy_hash'', JStr (d_policy_hash d)), (''policy_version'', JStr (d_policy_version d))]),
      (''issued_at'', JStr (d_issued_at d)), (''expires_at'', JStr (d_expires_at d)), (''key_id'', JStr (d_key_id d))]"

definition new_line :: string where
  "new_line = [CHR 0x0A]"

text \<open>The output of a command, and whether it sets a failing exit code.\<close>

fun cli_run :: "host \<Rightarrow> cli_env \<Rightarrow> cli_command \<Rightarrow> error + cli_output \<times> bool" where
  "cli_run H E (DecisionCommand path q) =
     bind_sum (cli_verify H E path q) (\<lambda>r.
       Inr (if dq_json q then CliJson (verification_json r) else CliText (human_verification_output r @ new_line), \<not> vr_valid r))"
| "cli_run H E (HashActionCommand path) =
     bind_sum (ce_json_file E path) (\<lambda>v.
     bind_sum (parse_or_zod (parse_action H v)) (\<lambda>a.
     bind_sum (hash_action H a) (\<lambda>h. Inr (CliText (h @ new_line), False))))"
| "cli_run H E (HashPolicyCommand path) =
     bind_sum (bind_sum (ce_text_file E path) (parse_policy_text (ce_yaml E) H (ce_now E))) (\<lambda>p. Inr (CliText (hash_policy H p @ new_line), False))"
| "cli_run H E (InspectCommand path js) =
     bind_sum (ce_json_file E path) (\<lambda>v.
     bind_sum (parse_or_zod (parse_decision H v)) (\<lambda>d.
       Inr (if js then CliJson (JObj (decision_summary d))
            else CliText (join_with new_line (map (\<lambda>(k, x). k @ '': '' @ ce_stringify E x) (decision_summary d)) @ new_line), False)))"

text \<open>The outputs, a message on the error output, and the exit code. A message is the error itself here.\<close>

definition run_cli :: "host \<Rightarrow> cli_env \<Rightarrow> cli_command \<Rightarrow> cli_output option \<times> error option \<times> nat" where
  "run_cli H E c =
     (case cli_run H E c of
        Inl e \<Rightarrow> (None, Some e, 1)
      | Inr (x, failed) \<Rightarrow> (Some x, None, if failed then 1 else 0))"

lemma fetch_key_registry_ok: "fetch_key_registry P f url = Inr ks \<Longrightarrow> registry_ok ks"
  by (auto simp: fetch_key_registry_def split: option.splits if_splits reply.splits dest: parse_registry_ok)

lemma cli_registry_ok: "cli_registry E q = Inr ks \<Longrightarrow> registry_ok ks"
  by (auto simp: cli_registry_def read_local_registry_def parse_or_zod_def bind_sum_Inr
      split: if_splits option.splits dest: parse_registry_ok fetch_key_registry_ok)

text \<open>The exit code of a verification.\<close>

lemma run_cli_decision:
  "snd (snd (run_cli H E (DecisionCommand path q))) = 0 \<longleftrightarrow>
    (\<exists>r. cli_verify H E path q = Inr r \<and> vr_valid r)"
  by (cases "cli_verify H E path q") (simp_all add: run_cli_def)

lemma cli_verify_valid:
  assumes "cli_verify H E path q = Inr r" "vr_valid r"
  shows "\<exists>d a ks dj aj t. ce_json_file E path = Inr dj \<and> parse_decision H dj = Some d \<and>
    ce_json_file E (dq_action q) = Inr aj \<and> parse_action H aj = Some a \<and> cli_registry E q = Inr ks \<and>
    parse_at E (dq_at q) = Inr t \<and> d_action_hash d = hash_canonical H (action_json a) \<and>
    (\<exists>pk. find_usable_key H d ks = Some pk \<and> verify_signature H d pk) \<and>
    time_of (d_issued_at d) \<le> t \<and> t < time_of (d_expires_at d)"
proof -
  from assms(1) obtain ks dj aj t where k: "cli_registry E q = Inr ks" "ce_json_file E path = Inr dj"
      "ce_json_file E (dq_action q) = Inr aj" "parse_at E (dq_at q) = Inr t"
    and r: "r = verify_decision H \<lparr>vi_decision = dj, vi_action = aj, vi_registry = registry_json ks, vi_at = t,
      vi_policy_version = dq_policy_version q, vi_requirements_hash = dq_requirements_hash q\<rparr>"
    by (auto simp: cli_verify_def bind_sum_Inr)
  from assms(2) r cli_registry_ok [OF k(1)] k show ?thesis
    by (auto simp: verify_decision_valid verified_def parse_registry_json guard_opt_def)
qed

subsection \<open>The sandbox probe\<close>

text \<open>The parts of a URL, with its text, and the facilitator. A \<open>VerifyError\<close> of \<open>@x402/core\<close> carries the reason, if any.\<close>

record probe_url =
  pu_protocol :: string
  pu_username :: string
  pu_password :: string
  pu_search :: string
  pu_hash :: string
  pu_path :: string

datatype probe_failure = VerifyFailure "string option" | OtherFailure error

record facilitator =
  fa_parse :: "string \<Rightarrow> probe_url option"
  fa_print :: "probe_url \<Rightarrow> string"
  fa_supported :: "error + (int \<times> string \<times> string) list"
  fa_verify :: "json \<Rightarrow> json \<Rightarrow> probe_failure + bool \<times> string option"

definition probe_error :: "string \<Rightarrow> error" where
  "probe_error m = JsError ''X402SandboxProbeError'' m"

definition drop_slashes :: "string \<Rightarrow> string" where
  "drop_slashes s = rev (dropWhile (\<lambda>c. c = CHR ''/'') (rev s))"

definition drop_slash :: "string \<Rightarrow> string" where
  "drop_slash s = (if s \<noteq> [] \<and> last s = CHR ''/'' then butlast s else s)"

definition validated_facilitator_url :: "facilitator \<Rightarrow> string \<Rightarrow> error + string" where
  "validated_facilitator_url F url =
     (case fa_parse F url of
        None \<Rightarrow> Inl (JsError ''TypeError'' ''Invalid URL'')
      | Some u \<Rightarrow>
          if pu_protocol u \<noteq> ''https:'' then Inl (probe_error ''The x402 sandbox facilitator URL must use HTTPS'')
          else if pu_username u \<noteq> [] \<or> pu_password u \<noteq> []
          then Inl (probe_error ''The x402 sandbox facilitator URL must not contain credentials'')
          else if pu_search u \<noteq> [] \<or> pu_hash u \<noteq> []
          then Inl (probe_error ''The x402 sandbox facilitator URL must not contain query or fragment data'')
          else Inr (drop_slash (fa_print F (u\<lparr>pu_path := drop_slashes (pu_path u)\<rparr>))))"

definition probe_requirements :: json where
  "probe_requirements = JObj
     [(''scheme'', JStr ''exact''), (''network'', JStr ''eip155:84532''), (''amount'', JStr ''1''),
      (''asset'', JStr ''0x036CbD53842c5426634e7929541eC2318f3dCF7e''),
      (''payTo'', JStr ''0x0000000000000000000000000000000000000001''), (''maxTimeoutSeconds'', JNum 60),
      (''extra'', JObj [(''name'', JStr ''USDC''), (''version'', JStr ''2'')])]"

definition probe_payment :: "int \<Rightarrow> json" where
  "probe_payment now = JObj
     [(''x402Version'', JNum 2),
      (''resource'', JObj [(''url'', JStr ''https://example.test/inntris-x402-sandbox-probe''),
        (''description'', JStr ''Deliberately invalid Inntris facilitator verification probe''),
        (''mimeType'', JStr ''application/json'')]),
      (''accepted'', probe_requirements),
      (''payload'', JObj
        [(''signature'', JStr (''0x'' @ replicate 130 (CHR ''0''))),
         (''authorization'', JObj
           [(''from'', JStr ''0x0000000000000000000000000000000000000002''),
            (''to'', JStr ''0x0000000000000000000000000000000000000001''), (''value'', JStr ''1''),
            (''validAfter'', JStr ''0''), (''validBefore'', JStr (status_text (now div 1000 + 300))),
            (''nonce'', JStr (''0x'' @ replicate 64 (CHR ''0'')))])])]"

text \<open>The report: the facilitator's URL, the reason it gave, and the time.\<close>

definition probe_sandbox :: "facilitator \<Rightarrow> string option \<Rightarrow> int \<Rightarrow> error + string \<times> string \<times> string" where
  "probe_sandbox F url now =
     bind_sum (validated_facilitator_url F (case url of None \<Rightarrow> ''https://x402.org/facilitator'' | Some u \<Rightarrow> u)) (\<lambda>base.
     bind_sum (fa_supported F) (\<lambda>kinds.
     if \<not> list_ex (\<lambda>(v, sch, nw). v = 2 \<and> sch = ''exact'' \<and> nw = ''eip155:84532'') kinds
     then Inl (probe_error ''The facilitator does not advertise x402 v2 exact on Base Sepolia'')
     else
       bind_sum (case fa_verify F (probe_payment now) probe_requirements of
           Inr (True, _) \<Rightarrow> Inl (probe_error ''The facilitator accepted the deliberately invalid unsigned payment'')
         | Inr (False, why) \<Rightarrow> Inr (case why of None \<Rightarrow> ''invalid_payment'' | Some r \<Rightarrow> r)
         | Inl (VerifyFailure why) \<Rightarrow> Inr (case why of None \<Rightarrow> ''invalid_payment'' | Some r \<Rightarrow> r)
         | Inl (OtherFailure e) \<Rightarrow> Inl e) (\<lambda>reason.
       (case to_iso_string now of
          None \<Rightarrow> Inl (JsError ''RangeError'' ''Invalid time value'')
        | Some t \<Rightarrow> Inr (base, reason, t)))))"

text \<open>A report means that the unsigned payment was refused over a URL without credentials.\<close>

lemma probe_sandbox_Inr:
  assumes "probe_sandbox F url now = Inr (base, reason, t)"
  shows "(\<forall>why. fa_verify F (probe_payment now) probe_requirements \<noteq> Inr (True, why)) \<and>
    (\<exists>ks. fa_supported F = Inr ks \<and> (2, ''exact'', ''eip155:84532'') \<in> set ks) \<and>
    (\<exists>u. fa_parse F (case url of None \<Rightarrow> ''https://x402.org/facilitator'' | Some x \<Rightarrow> x) = Some u \<and>
      pu_protocol u = ''https:'' \<and> pu_username u = [] \<and> pu_password u = [])"
  using assms
  by (auto simp: probe_sandbox_def bind_sum_Inr validated_facilitator_url_def list_ex_iff
      split: option.splits if_splits sum.splits prod.splits bool.splits probe_failure.splits)

end
