(* ===== verification/Programs.thy ===== *)
theory Programs
  imports KyaProduction ConformanceCases DemoStart Tools
begin

section \<open>Programs that check the repository\<close>

text \<open>
  \<open>multi-rail-conformance/src/cli.ts\<close>, which runs the suite on the public cases with the demo signer and a provider in memory,
  and \<open>scripts/src/verify-kya-evidence.ts\<close>, which checks the committed evidence of the KYA authority against the code;
  also \<open>verify-evidence.ts\<close> and \<open>generate-dev-key.ts\<close>.
  Reading files is a parameter; a program is its text on the standard output, or the error it ends with. Facts: the first one prints its report only when
  every public case conforms; the second one only when no artefact has a key of private material, the hashes are those
  of the manifest, the authority of the presentation is verified again with every credential signed, and the decision is a
  verified \<open>ALLOW\<close> for the action.
\<close>

subsection \<open>The conformance program\<close>

definition conformance_now :: int where
  "conformance_now = 1785326400000"

text \<open>The provider draws a new identifier and nonce for each decision; its clock stands still.\<close>

definition conformance_suite ::
  "host \<Rightarrow> policy \<Rightarrow> signer \<Rightarrow> key_entry \<Rightarrow> (nat \<Rightarrow> ambient) \<Rightarrow> (memory \<times> nat) rail_suite" where
  "conformance_suite H p sg k draws =
     \<lparr>su_evaluate = (\<lambda>a (m, n). case lp_evaluate H (memory_provider H p sg) (draws n\<lparr>am_clock := \<lambda>_. conformance_now\<rparr>) a m of
        (r, m') \<Rightarrow> (r, (m', Suc n))),
      su_registry = [k], su_policy_version = pl_version p, su_clock = (\<lambda>_. conformance_now)\<rparr>"

definition conformance_text :: "rail_report \<Rightarrow> string" where
  "conformance_text r =
     ''Inntris multi-rail conformance'' @ new_line @ new_line @
     ''PASS one shared policy '' @ rt_policy_hash r @ new_line @
     ''PASS one inntris-decision-v1 envelope and one offline verifier'' @ new_line @
     concat (map (\<lambda>x. ''PASS '' @ rail_string (ro_rail x) @ '': ALLOW verifies; exact action mutation is rejected'' @ new_line)
       (rt_outcomes r)) @
     new_line @ ''CONFORMANCE: PASS'' @ new_line"

definition conformance_program ::
  "host \<Rightarrow> x402_schemas \<Rightarrow> 's machine \<Rightarrow> (nat \<Rightarrow> ambient) \<Rightarrow> error + string" where
  "conformance_program H X M draws =
     bind_sum (load_policy_file H M ''policies/multi-rail-conformance.yml'') (\<lambda>p.
     bind_sum (public_demo_signer H) (\<lambda>sg.
     bind_sum (key_registry_entry H sg demo_not_before None None) (\<lambda>k.
     bind_sum (create_public_cases H X) (\<lambda>cs.
     bind_sum (fst (run_multi_rail H (conformance_suite H p sg k draws) cs (empty_memory, 0))) (\<lambda>r.
     Inr (conformance_text r))))))"

theorem conformance_program_sound:
  assumes "conformance_program H X M draws = Inr t"
  shows "\<exists>p sg k cs r. policy_ok H (sm_now M) p \<and> public_demo_signer H = Inr sg \<and> create_public_cases H X = Inr cs \<and>
    one_case_each cs \<and> list_all2 (case_conforms H (conformance_suite H p sg k draws)) cs (rt_outcomes r) \<and>
    t = conformance_text r"
proof -
  from assms obtain p sg k cs r where p: "load_policy_file H M ''policies/multi-rail-conformance.yml'' = Inr p"
    and s: "public_demo_signer H = Inr sg" and c: "create_public_cases H X = Inr cs"
    and r: "fst (run_multi_rail H (conformance_suite H p sg k draws) cs (empty_memory, 0)) = Inr r" and t: "t = conformance_text r"
    by (auto simp: conformance_program_def bind_sum_Inr)
  from r obtain s' where "run_multi_rail H (conformance_suite H p sg k draws) cs (empty_memory, 0) = (Inr r, s')"
    by (metis prod.collapse)
  from run_multi_rail_Inr [OF this] load_policy_file_ok [OF p] s c t show ?thesis by blast
qed

subsection \<open>Private material\<close>

definition private_names :: "string list" where
  "private_names = [''api_key'', ''bearer_token'', ''d'', ''password'', ''private_jwk'', ''private_key'', ''secret'']"

fun no_private :: "string \<Rightarrow> json \<Rightarrow> error + unit"
  and no_private_items :: "string \<Rightarrow> nat \<Rightarrow> json list \<Rightarrow> error + unit"
  and no_private_members :: "string \<Rightarrow> (string \<times> json) list \<Rightarrow> error + unit" where
  "no_private loc (JArr xs) = no_private_items loc 0 xs"
| "no_private loc (JObj kvs) = no_private_members loc kvs"
| "no_private loc _ = Inr ()"
| "no_private_items loc n [] = Inr ()"
| "no_private_items loc n (x # xs) =
     bind_sum (no_private (loc @ ''['' @ nat_string n @ '']'') x) (\<lambda>_. no_private_items loc (Suc n) xs)"
| "no_private_members loc [] = Inr ()"
| "no_private_members loc ((k, x) # kvs) =
     (if to_lower k \<in> set private_names
      then Inl (startup_error (''Private material key '' @ k @ '' found in public KYA artefact '' @ loc))
      else bind_sum (no_private (loc @ ''.'' @ k) x) (\<lambda>_. no_private_members loc kvs))"

text \<open>Every member name at any depth.\<close>

fun member_names :: "json \<Rightarrow> string list" where
  "member_names (JArr xs) = concat (map member_names xs)"
| "member_names (JObj kvs) = concat (map (\<lambda>(k, x). k # member_names x) kvs)"
| "member_names _ = []"

definition public_only :: "json \<Rightarrow> bool" where
  "public_only v \<longleftrightarrow> list_all (\<lambda>k. to_lower k \<notin> set private_names) (member_names v)"

lemma no_private_Inr:
  "no_private loc v = Inr () \<longleftrightarrow> public_only v"
  "no_private_items loc n xs = Inr () \<longleftrightarrow> list_all public_only xs"
  "no_private_members loc kvs = Inr () \<longleftrightarrow> list_all (\<lambda>(k, x). to_lower k \<notin> set private_names \<and> public_only x) kvs"
  by (induction loc v and loc n xs and loc kvs rule: no_private_no_private_items_no_private_members.induct)
    (auto simp: public_only_def bind_sum_Inr list_all_iff)

subsection \<open>The evidence of the KYA authority\<close>

text \<open>\<open>readFile\<close> by the path given to \<open>resolve\<close>, \<open>JSON.parse\<close>, and the parts of the verifier that are parameters.\<close>

record evidence_world =
  ew_read :: "string \<Rightarrow> error + bytes"
  ew_parse :: "bytes \<Rightarrow> error + json"
  ew_parts :: "kya_nonce_map production"

definition read_json :: "evidence_world \<Rightarrow> string \<Rightarrow> error + json" where
  "read_json W path = bind_sum (ew_read W path) (ew_parse W)"

definition evidence_now :: int where
  "evidence_now = 1786442400000"

text \<open>The property of a value that is cast to a record; \<open>null\<close> has none to look up.\<close>

definition member_of :: "json \<Rightarrow> string \<Rightarrow> error + json option" where
  "member_of v k =
     (if v = JNull then Inl (type_error ''Cannot read properties of null'')
      else Inr (case v of JObj kvs \<Rightarrow> map_of kvs k | _ \<Rightarrow> None))"

record evidence =
  ed_manifest :: json
  ed_policy :: kya_policy
  ed_binding :: kya_binding
  ed_action :: action
  ed_presentation :: kya_presentation
  ed_decision :: json
  ed_registry :: json

definition evidence_path :: "string \<Rightarrow> string" where
  "evidence_path name = ''evidence/kya-os/'' @ name"

definition load_evidence :: "host \<Rightarrow> evidence_world \<Rightarrow> error + evidence" where
  "load_evidence H W =
     bind_sum (read_json W (evidence_path ''manifest.json'')) (\<lambda>m.
     bind_sum (bind_sum (read_json W (evidence_path ''authority-policy.json'')) (\<lambda>v. parse_or_zod (read_kya_policy H v))) (\<lambda>p.
     bind_sum (bind_sum (read_json W (evidence_path ''verified-authority-binding.json'')) (\<lambda>v. parse_or_zod (parse_binding v))) (\<lambda>b.
     bind_sum (bind_sum (read_json W (evidence_path ''inntris-action.json'')) (\<lambda>v. parse_or_zod (parse_action H v))) (\<lambda>a.
     bind_sum (bind_sum (read_json W (evidence_path ''valid-presentation.json'')) (\<lambda>v. parse_or_zod (parse_presentation v))) (\<lambda>pr.
     bind_sum (read_json W (evidence_path ''signed-allow.json'')) (\<lambda>d.
     bind_sum (read_json W ''fixtures/keys/registry.json'') (\<lambda>ks.
     Inr \<lparr>ed_manifest = m, ed_policy = p, ed_binding = b, ed_action = a, ed_presentation = pr, ed_decision = d,
       ed_registry = ks\<rparr>)))))))"

definition evidence_public :: "evidence \<Rightarrow> error + unit" where
  "evidence_public e =
     bind_sum (map_sum_list (\<lambda>(name, v). no_private (evidence_path name) v)
       [(''manifest'', ed_manifest e), (''policy'', kya_policy_json (ed_policy e)), (''binding'', kya_binding_json (ed_binding e)),
        (''action'', action_json (ed_action e)), (''presentation'', presentation_json (ed_presentation e)),
        (''decision'', ed_decision e)]) (\<lambda>_. Inr ())"

definition must :: "bool \<Rightarrow> string \<Rightarrow> error + unit" where
  "must b m = (if b then Inr () else Inl (startup_error m))"

lemma must_Inr [simp]: "must b m = Inr u \<longleftrightarrow> b"
  by (simp add: must_def)

definition evidence_hashes :: "host \<Rightarrow> evidence \<Rightarrow> error + unit" where
  "evidence_hashes H e =
     bind_sum (member_of (ed_manifest e) ''authority_policy_hash'') (\<lambda>x.
     bind_sum (hash_kya_policy H (ed_policy e)) (\<lambda>h.
     bind_sum (must (x = Some (JStr h)) ''KYA authority policy hash mismatch'') (\<lambda>_.
     bind_sum (member_of (ed_manifest e) ''expected_authority_hash'') (\<lambda>x.
     bind_sum (must (x = Some (JStr (kb_authority_hash (ed_binding e)))) ''KYA authority binding hash mismatch'') (\<lambda>_.
     bind_sum (member_of (ed_manifest e) ''expected_action_hash'') (\<lambda>x.
     bind_sum (hash_action H (ed_action e)) (\<lambda>h.
     must (x = Some (JStr h)) ''KYA action hash mismatch'')))))))"

text \<open>\<open>authorityVerifier\<close>: new nonces and a new cache for each call, and a revocation checker that finds nothing revoked.\<close>

definition evidence_parts :: "evidence_world \<Rightarrow> kya_nonce_map did_ops \<Rightarrow> kya_nonce_map production" where
  "evidence_parts W D = (ew_parts W)
     \<lparr>pp_resolver := D, pp_consume := mem_consume_nonce, pp_now := evidence_now,
      pp_library := (pp_library (ew_parts W))\<lparr>kl_revocation := (\<lambda>_. ret (False, True))\<rparr>\<rparr>"

definition evidence_verifier :: "host \<Rightarrow> kya_nonce_map production \<Rightarrow> kya_nonce_map did_state authority_options" where
  "evidence_verifier H P = \<lparr>vo_proof = production_request_proof H P,
     vo_delegation = verify_delegation H (production_delegation_ops P), vo_mapper = None, vo_legacy = None\<rparr>"

definition fresh_resolver :: "kya_nonce_map did_state" where
  "fresh_resolver = \<lparr>ds_cache = [], ds_env = []\<rparr>"

definition evidence_authority ::
  "host \<Rightarrow> evidence_world \<Rightarrow> kya_nonce_map did_ops \<Rightarrow> kya_presentation \<Rightarrow> action \<Rightarrow> kya_policy \<Rightarrow> kya_error + kya_authority" where
  "evidence_authority H W D pr a p =
     fst (verify_authority H (evidence_verifier H (evidence_parts W D)) pr a p
       (case yp_audiences p of [] \<Rightarrow> [] | x # _ \<Rightarrow> x) evidence_now fresh_resolver)"

definition evidence_reproduced :: "host \<Rightarrow> evidence_world \<Rightarrow> evidence \<Rightarrow> kya_error + unit" where
  "evidence_reproduced H W e =
     bind_sum (other (without_kya_extension H (ed_action e))) (\<lambda>a.
     bind_sum (evidence_authority H W (pp_resolver (ew_parts W)) (ed_presentation e) a (ed_policy e)) (\<lambda>v.
     other (must (hash_canonical H (kya_binding_json (va_binding v)) = hash_canonical H (kya_binding_json (ed_binding e)))
       ''KYA authority presentation does not reproduce the committed binding'')))"

definition evidence_decision :: "host \<Rightarrow> evidence \<Rightarrow> verification" where
  "evidence_decision H e = verify_decision H
     \<lparr>vi_decision = ed_decision e, vi_action = action_json (ed_action e), vi_registry = ed_registry e,
      vi_at = evidence_now + 30000, vi_policy_version = Some ''1'', vi_requirements_hash = None\<rparr>"

definition evidence_allowed :: "host \<Rightarrow> evidence \<Rightarrow> error + unit" where
  "evidence_allowed H e = (let r = evidence_decision H e in
     must (vr_valid r \<and> vr_verdict r = Some ALLOW)
       (''KYA signed ALLOW did not verify: '' @ join_with '','' (map reason_string (vr_reasons r))))"

definition block_files :: "string list" where
  "block_files = [''amount-over-delegation-block.json'', ''wrong-agent-block.json'', ''revoked-delegation-block.json'']"

definition signed_block :: "host \<Rightarrow> json \<Rightarrow> json \<Rightarrow> bool" where
  "signed_block H registry v \<longleftrightarrow>
     en_valid (verify_signed_decision H v registry) \<and> member_of v ''verdict'' = Inr (Some (JStr ''BLOCK''))"

definition evidence_block :: "host \<Rightarrow> evidence_world \<Rightarrow> evidence \<Rightarrow> string \<Rightarrow> error + unit" where
  "evidence_block H W e name =
     bind_sum (read_json W (evidence_path name)) (\<lambda>v.
     bind_sum (no_private (evidence_path name) v) (\<lambda>_.
     must (signed_block H (ed_registry e) v) (name @ '' is not a valid signed BLOCK'')))"

text \<open>\<open>Object.entries\<close> of the hashes of the manifest.\<close>

definition fixture_entries :: "evidence \<Rightarrow> error + (string \<times> json) list" where
  "fixture_entries e =
     bind_sum (member_of (ed_manifest e) ''fixture_hashes'') (\<lambda>x.
     case x of
       None \<Rightarrow> Inl (type_error ''Cannot convert undefined or null to object'')
     | Some v \<Rightarrow> if v = JNull then Inl (type_error ''Cannot convert undefined or null to object'') else Inr (spread_fields v))"

definition evidence_fixture :: "host \<Rightarrow> evidence_world \<Rightarrow> string \<times> json \<Rightarrow> error + unit" where
  "evidence_fixture H W = (\<lambda>(path, expected).
     bind_sum (ew_read W (''fixtures/kya-os/'' @ path)) (\<lambda>content.
     bind_sum (must (JStr (''sha256:'' @ sha256_hex H content) = expected) (''KYA fixture hash mismatch: '' @ path)) (\<lambda>_.
     bind_sum (ew_parse W content) (\<lambda>v. no_private path v))))"

text \<open>The presentation under \<open>did:web\<close>, whose document is served at its one address.\<close>

definition did_web_resolver :: "evidence_world \<Rightarrow> json \<Rightarrow> kya_nonce_map did_ops" where
  "did_web_resolver W doc = (pp_resolver (ew_parts W))
     \<lparr>dr_fetch := (\<lambda>url s. (if url \<noteq> ''https://agent.example/.well-known/did.json'' then Unreachable else Reply 200 (Some doc), s))\<rparr>"

definition did_web_agent :: "kya_presentation \<Rightarrow> error + string" where
  "did_web_agent pr =
     (case pr of
        LegacyPresentation _ _ _ _ \<Rightarrow> Inl (startup_error ''Missing did:web proof DID'')
      | EntityCardPresentation _ w _ _ _ \<Rightarrow>
          (case w of
             None \<Rightarrow> Inl (type_error ''Cannot read properties of undefined'')
           | Some v \<Rightarrow> bind_sum (member_of v ''did'') (\<lambda>x.
               case x of Some (JStr did) \<Rightarrow> Inr did | _ \<Rightarrow> Inl (startup_error ''Missing did:web proof DID''))))"

definition evidence_did_web :: "host \<Rightarrow> evidence_world \<Rightarrow> evidence \<Rightarrow> kya_error + kya_authority" where
  "evidence_did_web H W e =
     bind_sum (other (bind_sum (read_json W ''fixtures/kya-os/presentations/valid-did-web.json'')
       (\<lambda>v. parse_or_zod (parse_presentation v)))) (\<lambda>pr.
     bind_sum (other (must (kp_profile pr = EntityCardV1) ''Expected an entity-card-v1 did:web fixture'')) (\<lambda>_.
     bind_sum (other (read_json W ''fixtures/kya-os/entity-card/did-web-agent-document.json'')) (\<lambda>doc.
     bind_sum (other (did_web_agent pr)) (\<lambda>did.
     bind_sum (other (without_kya_extension H (ed_action e))) (\<lambda>a.
     bind_sum (other (check_action H (a\<lparr>a_agent_id := did\<rparr>))) (\<lambda>b.
     evidence_authority H W (did_web_resolver W doc) pr b (ed_policy e)))))))"

definition verify_kya_evidence :: "host \<Rightarrow> evidence_world \<Rightarrow> kya_error + string" where
  "verify_kya_evidence H W =
     bind_sum (other (load_evidence H W)) (\<lambda>e.
     bind_sum (other (evidence_public e)) (\<lambda>_.
     bind_sum (other (evidence_hashes H e)) (\<lambda>_.
     bind_sum (evidence_reproduced H W e) (\<lambda>_.
     bind_sum (other (evidence_allowed H e)) (\<lambda>_.
     bind_sum (other (map_sum_list (evidence_block H W e) block_files)) (\<lambda>_.
     bind_sum (other (bind_sum (fixture_entries e) (map_sum_list (evidence_fixture H W)))) (\<lambda>_.
     bind_sum (evidence_did_web H W e) (\<lambda>_.
     Inr (''KYA EVIDENCE: PASS'' @ new_line)))))))))"

subsection \<open>What passing evidence shows\<close>

lemma map_sum_list_each: "map_sum_list f xs = Inr ys \<Longrightarrow> x \<in> set xs \<Longrightarrow> \<exists>y. f x = Inr y"
  by (induction xs arbitrary: ys) (auto simp: bind_sum_Inr)

lemma evidence_public_Inr:
  "evidence_public e = Inr u \<Longrightarrow> list_all public_only [ed_manifest e, kya_policy_json (ed_policy e), kya_binding_json (ed_binding e),
    action_json (ed_action e), presentation_json (ed_presentation e), ed_decision e]"
  by (auto simp: evidence_public_def bind_sum_Inr no_private_Inr)

text \<open>The authority that the evidence reproduces: joined with the action, every credential of the presentation's chain signed by
  its issuer in the run that starts with the empty resolver.\<close>

definition evidence_signed ::
  "host \<Rightarrow> evidence_world \<Rightarrow> kya_nonce_map did_ops \<Rightarrow> kya_presentation \<Rightarrow> kya_policy \<Rightarrow> string \<Rightarrow> bool" where
  "evidence_signed H W D pr p h \<longleftrightarrow>
     (case pr of
        EntityCardPresentation q w ch cdv jkt \<Rightarrow> signed_chain H (evidence_parts W D) ch h
          (snd (production_request_proof H (evidence_parts W D) w q (case yp_audiences p of [] \<Rightarrow> [] | x # _ \<Rightarrow> x) jkt fresh_resolver))
      | LegacyPresentation _ _ _ _ \<Rightarrow> False)"

lemma evidence_authority_signed:
  assumes "evidence_authority H W D pr a p = Inr v" "through_callbacks (pp_library (ew_parts W))"
  shows "authority_covers H p a v \<and> evidence_signed H W D pr p (kb_chain_hash (va_binding v))"
proof -
  let ?P = "evidence_parts W D"
  obtain s' where v: "verify_authority H (evidence_verifier H ?P) pr a p (case yp_audiences p of [] \<Rightarrow> [] | x # _ \<Rightarrow> x)
      evidence_now fresh_resolver = (Inr v, s')"
    using assms(1) unfolding evidence_authority_def by (metis prod.collapse)
  have V: "vo_proof (evidence_verifier H ?P) = production_request_proof H ?P"
    "vo_delegation (evidence_verifier H ?P) = verify_delegation H (production_delegation_ops ?P)"
    by (simp_all add: evidence_verifier_def)
  have t: "through_callbacks (pp_library ?P)" "cache_ok fresh_resolver"
    using assms(2) by (simp_all add: through_callbacks_def evidence_parts_def cache_ok_def fresh_resolver_def)
  show ?thesis
  proof (cases pr)
    case (EntityCardPresentation q w ch cdv jkt)
    note v = v [unfolded this]
    from verified_authority_covers [OF v V(2)] production_parts_signed [OF v V t] EntityCardPresentation
    show ?thesis by (simp add: evidence_signed_def)
  next
    case (LegacyPresentation q c au w)
    with v show ?thesis
      by (simp add: verify_authority_def evidence_verifier_def disabled_legacy_def bind_io_Inr throw_Inr split: if_splits)
  qed
qed

definition evidence_sound :: "host \<Rightarrow> evidence_world \<Rightarrow> evidence \<Rightarrow> bool" where
  "evidence_sound H W e \<longleftrightarrow>
     list_all public_only [ed_manifest e, kya_policy_json (ed_policy e), kya_binding_json (ed_binding e),
       action_json (ed_action e), presentation_json (ed_presentation e), ed_decision e] \<and>
     member_of (ed_manifest e) ''expected_action_hash'' = Inr (Some (JStr (hash_canonical H (action_json (ed_action e))))) \<and>
     vr_valid (evidence_decision H e) \<and> vr_verdict (evidence_decision H e) = Some ALLOW \<and>
     (\<exists>a v. without_kya_extension H (ed_action e) = Inr a \<and>
        evidence_authority H W (pp_resolver (ew_parts W)) (ed_presentation e) a (ed_policy e) = Inr v \<and>
        authority_covers H (ed_policy e) a v \<and>
        evidence_signed H W (pp_resolver (ew_parts W)) (ed_presentation e) (ed_policy e) (kb_chain_hash (va_binding v)) \<and>
        hash_canonical H (kya_binding_json (va_binding v)) = hash_canonical H (kya_binding_json (ed_binding e))) \<and>
     (\<forall>name\<in>set block_files. \<exists>v. read_json W (evidence_path name) = Inr v \<and> public_only v \<and> signed_block H (ed_registry e) v)"

theorem verify_kya_evidence_sound:
  assumes "verify_kya_evidence H W = Inr t" "through_callbacks (pp_library (ew_parts W))"
  shows "\<exists>e. load_evidence H W = Inr e \<and> evidence_sound H W e"
proof -
  from assms(1) obtain e us where e: "load_evidence H W = Inr e" and pub: "evidence_public e = Inr ()"
    and h: "evidence_hashes H e = Inr ()" and rep: "evidence_reproduced H W e = Inr ()" and al: "evidence_allowed H e = Inr ()"
    and bl: "map_sum_list (evidence_block H W e) block_files = Inr us"
    by (auto simp: verify_kya_evidence_def bind_sum_Inr)
  from rep obtain a v where a: "without_kya_extension H (ed_action e) = Inr a"
    and v: "evidence_authority H W (pp_resolver (ew_parts W)) (ed_presentation e) a (ed_policy e) = Inr v"
    and eq: "hash_canonical H (kya_binding_json (va_binding v)) = hash_canonical H (kya_binding_json (ed_binding e))"
    by (auto simp: evidence_reproduced_def bind_sum_Inr)
  have blocks: "\<exists>v. read_json W (evidence_path n) = Inr v \<and> public_only v \<and> signed_block H (ed_registry e) v"
    if "n \<in> set block_files" for n
    using map_sum_list_each [OF bl that] by (auto simp: evidence_block_def bind_sum_Inr no_private_Inr)
  have hash: "member_of (ed_manifest e) ''expected_action_hash'' = Inr (Some (JStr (hash_canonical H (action_json (ed_action e)))))"
    using h by (auto simp: evidence_hashes_def bind_sum_Inr hash_action_def check_action_def split: if_splits)
  have "evidence_sound H W e"
    using evidence_authority_signed [OF v assms(2)] evidence_public_Inr [OF pub] hash blocks a eq al v
    by (auto simp: evidence_sound_def evidence_allowed_def Let_def)
  with e show ?thesis by blast
qed

subsection \<open>The evidence of the policy engine and the development key\<close>

definition verify_evidence :: "host \<Rightarrow> (string \<Rightarrow> error + json) \<Rightarrow> error + string \<times> bool" where
  "verify_evidence H read =
     bind_sum (read ''evidence/allow.json'') (\<lambda>d.
     bind_sum (read ''evidence/action.json'') (\<lambda>a.
     bind_sum (read ''fixtures/keys/registry.json'') (\<lambda>ks.
     let r = verify_decision H \<lparr>vi_decision = d, vi_action = a, vi_registry = ks, vi_at = 1785317430000,
       vi_policy_version = Some ''1'', vi_requirements_hash = None\<rparr> in
     Inr (human_verification_output r @ new_line, vr_valid r \<and> vr_verdict r = Some ALLOW))))"

text \<open>\<open>writeFile\<close> with the flag \<open>wx\<close>.\<close>

definition write_new :: "string \<Rightarrow> string \<Rightarrow> (error, string \<Rightarrow> string option, unit) io" where
  "write_new path content f =
     (if f path \<noteq> None then (Inl (JsError ''Error'' (''EEXIST: file already exists, open '' @ path)), f)
      else (Inr (), f(path \<mapsto> content)))"

definition generate_dev_key ::
  "host \<Rightarrow> (json \<Rightarrow> string) \<Rightarrow> string option \<Rightarrow> string option \<Rightarrow> string option \<Rightarrow> bytes \<Rightarrow> int \<Rightarrow>
    (error, string \<Rightarrow> string option, string) io" where
  "generate_dev_key H stringify seed_arg registry_arg key_env seed now =
     (let seed_path = or_default seed_arg ''.dev/decision-signing.seed''; registry_path = or_default registry_arg ''.dev/inntris-keys.json'' in
      bind_io (lift_io (signer_from_seed H (or_default key_env ''dev-key-1'') seed)) (\<lambda>sg.
      bind_io (write_new seed_path (b64url_encode seed @ new_line)) (\<lambda>_.
      bind_io (lift_io (key_registry_entry H sg now None None)) (\<lambda>k.
      bind_io (write_new registry_path (stringify (registry_json [k]) @ new_line)) (\<lambda>_.
      ret (join_with new_line
        [''Development seed written to '' @ seed_path, ''Public registry written to '' @ registry_path, ''Key ID: '' @ s_key_id sg,
         ''Public key: '' @ b64url_encode (s_public_key sg), ''Fingerprint: '' @ public_key_fingerprint H (s_public_key sg),
         ''The private seed was not printed. This development key is not suitable for production.'', []]))))))"

text \<open>No run overwrites a file, and one that succeeds leaves the seed of exactly the key its registry declares active.\<close>

definition keeps_files :: "(string \<Rightarrow> string option) \<Rightarrow> (string \<Rightarrow> string option) \<Rightarrow> bool" where
  "keeps_files f g \<longleftrightarrow> f \<subseteq>\<^sub>m g"

lemma keeps_files_order: "state_order keeps_files"
  by (auto simp: state_order_def keeps_files_def intro: map_le_trans)

lemma write_new_keeps: "keeps keeps_files (write_new path content)"
  by (auto simp: keeps_def keeps_files_def write_new_def map_le_def)

theorem dev_key_overwrites_nothing: "keeps keeps_files (generate_dev_key H stringify sp rp kid seed now)"
  unfolding generate_dev_key_def Let_def by (intro keeps_intros keeps_files_order write_new_keeps)

lemma dev_key_registered:
  assumes "generate_dev_key H stringify sp rp kid seed now f = (Inr t, f')"
  shows "\<exists>sg k. signer_from_seed H (or_default kid ''dev-key-1'') seed = Inr sg \<and> key_registry_entry H sg now None None = Inr k \<and>
    registered sg [k] \<and> f' (or_default sp ''.dev/decision-signing.seed'') = Some (b64url_encode seed @ new_line) \<and>
    f' (or_default rp ''.dev/inntris-keys.json'') = Some (stringify (registry_json [k]) @ new_line)"
proof -
  from assms obtain sg k where k: "signer_from_seed H (or_default kid ''dev-key-1'') seed = Inr sg" "key_registry_entry H sg now None None = Inr k"
    and f: "f' = f(or_default sp ''.dev/decision-signing.seed'' \<mapsto> b64url_encode seed @ new_line,
      or_default rp ''.dev/inntris-keys.json'' \<mapsto> stringify (registry_json [k]) @ new_line)"
      "or_default sp ''.dev/decision-signing.seed'' \<noteq> or_default rp ''.dev/inntris-keys.json''"
    by (auto simp: generate_dev_key_def Let_def bind_io_Inr write_new_def ret_def split: if_splits)
  moreover have "registered sg [k]" using k(2)
    by (auto simp: registered_def key_registry_entry_def Let_def split: option.splits if_splits)
  ultimately show ?thesis by auto
qed

end
