(* ===== verification/Spec2Isabelle.thy ===== *)
theory Spec2Isabelle
  imports GateSamples StoreSamples MtpSamples KyaLegacy KyaX402 KyaProductionSamples PulseSamples PulseProcess DemoStart DemoSamples ConformanceCases Tools Programs
begin

text \<open>
  A model of the policy adapter of this repository, which stands between an agent and the systems that move its
  money: an action is submitted, a policy gives a signed verdict on it, and a gate lets the payment, signature
  or task go ahead only under a verdict that verifies for this very action and is consumed once.

  \<^bold>\<open>How the parts interact.\<close> A gate (x402 guard, EVM wallet gate, A2A settlement gate, AP2 runtime gate)
  binds a request of its rail to an action, takes a decision from a decision provider or from its caller, verifies it
  with \<open>verifyDecision\<close> against the action it has bound itself, consumes it with the provider, and only then performs its
  effect, with an execution store or journal that admits each execution once. A provider is the local one (policy,
  decision store, nonce store, spend), a remote one, or one of two that wrap an inner provider: the MTP composite,
  which asks an external authority before the decision is consumed, and the KYA gate, which verifies the delegated
  authority of the agent. The stores exist in memory and over PostgreSQL. The demo
  service puts a provider, with the KYA gate around it, behind HTTP; the remote provider is its client. The conformance evaluator
  stands apart: it judges recorded AP2 and x402 payments; the conformance suites run a provider or a gate over fixed cases.

  \<^bold>\<open>Theories and sources\<close> (paths under \<open>src/packages\<close>).
  \<^item> Foundations: \<open>Prelude\<close> (results and asynchronous methods, digits, strings), \<open>Amounts\<close> (canonical amounts), \<open>JsDate\<close>
    (\<open>Date.parse\<close>, \<open>toISOString\<close>), \<open>Json\<close>, \<open>Host\<close> (packages and services the code calls, with named laws), \<open>Http\<close>
    (clients of services, \<open>managed-signing\<close>, registries fetched by \<open>decision-verifier/src/io.ts\<close>).
  \<^item> \<open>decision-core\<close>: \<open>Schemas\<close>, \<open>SchemaJson\<close> (\<open>schemas.ts\<close>), \<open>Signing\<close> (\<open>canonical.ts\<close>, \<open>signing.ts\<close>, \<open>decision.ts\<close>),
    \<open>Stores\<close> (\<open>provider.ts\<close>, \<open>metrics.ts\<close> and \<open>policy-engine/src/decision-store.ts\<close>).
  \<^item> \<open>policy-engine\<close>: \<open>PolicyEval\<close> (\<open>policy.ts\<close>, \<open>evaluate.ts\<close>), \<open>PolicyText\<close> (reading policy documents), \<open>LocalProvider\<close> (\<open>local-provider.ts\<close>).
  \<^item> \<open>decision-verifier\<close>: \<open>Verifier\<close>. \<open>execution-reconciliation\<close>: \<open>Reconciliation\<close>.
  \<^item> \<open>postgres-store\<close> with its migrations: \<open>PgStore\<close>, \<open>PgReconciliation\<close>, and parts of \<open>MtpStore\<close> and \<open>KyaStore\<close>.
  \<^item> The gates: \<open>Effects\<close> (the execution stores of three gates, and effect logs), \<open>X402\<close> and \<open>RemoteProvider\<close> (\<open>x402-adapter\<close>),
    \<open>EvmGate\<close> (\<open>wallet-signing-gate\<close>), \<open>Receipts\<close> and \<open>A2aGate\<close> (\<open>a2a-settlement-gate\<close>), \<open>Ap2Gate\<close> and \<open>Ap2Process\<close>
    (\<open>ap2-runtime-gate\<close>).
  \<^item> \<open>mtp-authority\<close>: \<open>Mtp\<close>, \<open>MtpStore\<close>, \<open>MtpProvider\<close>.
  \<^item> \<open>kya-os-authority\<close>: \<open>Kya\<close>, \<open>KyaVerifier\<close>, \<open>KyaDid\<close>, \<open>KyaLegacy\<close>, \<open>KyaStore\<close>, \<open>KyaGate\<close>, \<open>KyaProduction\<close>
    (the verifier with its parts in place); \<open>KyaX402\<close> is \<open>x402-adapter/src/kya.ts\<close>.
  \<^item> \<open>pulse-conformance-evaluator\<close>: \<open>PulseJson\<close>, \<open>PulsePrint\<close>, \<open>PulseCase\<close>, \<open>PulseEval\<close>, \<open>PulseSound\<close>, \<open>PulseBundle\<close>,
    \<open>PulseProcess\<close>.
  \<^item> \<open>multi-rail-conformance\<close>: \<open>Conformance\<close>, \<open>ConformanceCases\<close>.
  \<^item> \<open>apps/demo-api\<close>: \<open>DemoApi\<close> (\<open>app.ts\<close>), \<open>DemoGuard\<close> (the service over the gate), \<open>DemoStart\<close> (\<open>start.ts\<close>).
  \<^item> \<open>Tools\<close>: \<open>postgres-store/src/migrate.ts\<close>, \<open>decision-verifier/src/cli.ts\<close>, \<open>x402-adapter/src/sandbox.ts\<close>. \<open>Programs\<close>:
    \<open>multi-rail-conformance/src/cli.ts\<close> and, of \<open>scripts/src\<close>, the checks of the evidence and the development key.
  \<^item> Concrete inputs for the witnesses: \<open>Samples\<close>, \<open>RailSamples\<close>, \<open>GateSamples\<close>, \<open>StoreSamples\<close>, \<open>MtpSamples\<close>, \<open>KyaSamples\<close>,
    \<open>KyaProductionSamples\<close>, \<open>PulseSamples\<close>, \<open>DemoSamples\<close>.

  \<^bold>\<open>How state and effects are modelled.\<close> A method of the code that awaits is a function from a state to an error or a value
  and the state it leaves; an exception keeps the writes made before it. Stores are records of such operations over any
  state, so a client is stated once and runs over the in-memory and the PostgreSQL stores. A history is a list of
  calls; a call of one method runs to its end before the next, except where the code itself separates claim and effect,
  which the execution stores and the journal expose as separate calls; the verifier process is a machine of events
  in any order. A statement or transaction of PostgreSQL is one step on the tables. Clock readings, random identifiers
  and latencies are arguments.

  \<^bold>\<open>Contracts.\<close> The locales \<open>nonce_store\<close> and \<open>decision_store\<close> (\<open>Stores\<close>), \<open>decision_provider\<close> and \<open>single_use_provider\<close> (\<open>LocalProvider\<close>),
  \<open>operation_journal\<close> (\<open>Reconciliation\<close>), \<open>execution_store\<close> and \<open>effect_log\<close> (\<open>Effects\<close>), \<open>child_machine\<close> (\<open>Ap2Process\<close>),
  \<open>mtp_state_store\<close>, \<open>mtp_composite\<close>, \<open>replay_store\<close>, \<open>kya_state_store\<close>, \<open>kya_guarded\<close> and \<open>guarded_service\<close> (\<open>DemoGuard\<close>)
  state what a client relies on; their facts are proved once in the locale. Every one is interpreted on the definitions
  of the code in the theory of the component that provides them.

  \<^bold>\<open>What the lemmas show.\<close> Data: strict schemas read back what the JSON form of a value prints, hashes bind what they cover up to
  collisions of SHA-256, amounts and instants are exact. Decisions: what is issued verifies, what was altered does
  not; the policy verdict is the first failing check; approvals are claimed once, decisions consumed once. Gates:
  an effect happens only under a verified and consumed \<open>ALLOW\<close> for the bound request, at most once for each execution,
  and every failed step ends without it. Authorities: the inner provider is reached only after the external authority
  was consumed, or the agent's authority revalidated, for this execution. PostgreSQL: the stores keep the same contracts, refine
  a ledger and keep the daily limit. Conformance: the evaluator never throws, accepts exactly when it finds nothing, and
  an accepted case meets a contract stated without its failure codes; a suite that passes has found what it promises, and the
  public cases pass for every provider that signs an \<open>ALLOW\<close>. Service: without its key nothing happens, one request consumes only
  what was revalidated, a started service has its keys and stores in place, and the remote provider over the service is
  the provider behind it. Migrations run each file once, in order, or leave the database as it was.

  \<^bold>\<open>Parameters.\<close> Third-party packages and services (zod's formats, \<open>canonicalize\<close>, SHA-256, Ed25519, \<open>decimal.js\<close>, \<open>Intl\<close>, \<open>viem\<close>,
  \<open>@x402/core\<close>, \<open>@kya-os/mcp\<close>, \<open>fetch\<close>, child processes) are arguments of the definitions that call them. Where a theorem needs a law
  of one, the law is a named predicate of \<open>Host\<close> or of the theory that uses it, and is shown to be satisfiable by
  concrete functions.

  \<^bold>\<open>Bounds.\<close> A HOL \<open>string\<close> is a JavaScript string of code units below 256; the strict reader and the printer of the
  evaluator work on 16-bit units. Values of JSON carry rationals; the strict reader rounds to doubles. The reader has a
  depth of 101 levels, which is the bound of the code, and the length of the text as the bound of its loops, which is shown
  to be as good as any larger one (\<open>loop_bounds_enough\<close>). The journals agree for instants in years of four digits.

  \<^bold>\<open>Not modelled.\<close> Reading files and YAML, the arguments of command lines (\<open>commander\<close>), the rate limit and the parsing of bodies by
  \<open>fastify\<close>; connections, pools and driver errors of PostgreSQL and the SQL of its migrations beyond the tables they declare; the Python
  programs around the AP2 SDK; the programs under \<open>scripts\<close> that generate evidence and schemas, and those under \<open>examples\<close>,
  which write or compare fixtures and evidence. They are glue around packages and services or programs of the build.
\<close>

section \<open>Properties of decisions and their verification\<close>

text \<open>C1. A decision whose covered fields were altered while its fingerprint was kept does not
  verify, whatever action, registry and instant it is presented with, unless SHA-256 collides on
  the two canonical preimages.\<close>

theorem tampered_decision_is_rejected:
  assumes "jcs_ok H" "d_fingerprint d = calculate_fingerprint H d" "d_fingerprint e = d_fingerprint d"
    and "\<not> same_content d e" "fingerprint_binds H d e" "vi_decision i = decision_json e"
  shows "\<not> vr_valid (verify_decision H i)"
  by (rule altered_decision_rejected [OF assms])

theorem tampered_decision_is_rejected_witness:
  "\<not> vr_valid (verify_decision clear_host
    \<lparr>vi_decision = decision_json (sample_fingerprinted\<lparr>d_verdict := BLOCK\<rparr>), vi_action = action_json sample_action,
     vi_registry = JNull, vi_at = sample_now, vi_policy_version = None, vi_requirements_hash = None\<rparr>)"
  by (rule tampered_decision_is_rejected
      [where d = sample_fingerprinted and e = "sample_fingerprinted\<lparr>d_verdict := BLOCK\<rparr>"])
    (simp_all add: sample_fingerprinted_ok sample_altered)

text \<open>C2. A decision issued by \<open>createSignedDecision\<close> verifies against the action it was made for,
  with a registry that holds the signer's entry, from its issue until it expires.\<close>

theorem issued_decision_is_valid:
  assumes "create_signed_decision H sg a ci = Inr d" "signer_ok H sg" "length (s_public_key sg) = 32"
    and "key_registry_entry H sg nb na st = Inr k" "st \<noteq> Some Revoked" "registry_ok ks" "k \<in> set ks"
    and "nb \<le> ci_now ci" "\<forall>t. na = Some t \<longrightarrow> ci_now ci < t"
    and "ci_now ci \<le> now" "now < ci_now ci + ci_ttl_seconds ci * 1000"
    and "i = \<lparr>vi_decision = decision_json d, vi_action = action_json a, vi_registry = registry_json ks,
      vi_at = now, vi_policy_version = Some (ci_policy_version ci),
      vi_requirements_hash = bound_requirements (a_reference a)\<rparr>"
  shows "vr_valid (verify_decision H i) \<and> vr_verdict (verify_decision H i) = Some (ev_verdict (ci_evaluation ci))"
  by (rule issued_decision_verifies [OF assms])

theorem issued_decision_is_valid_witness:
  "\<exists>d k. create_signed_decision ref_host sample_signer sample_action sample_input = Inr d \<and>
    (let r = verify_decision ref_host \<lparr>vi_decision = decision_json d, vi_action = action_json sample_action,
      vi_registry = registry_json [k], vi_at = sample_now, vi_policy_version = Some ''1.0.0'',
      vi_requirements_hash = Some sample_hash\<rparr>
     in vr_valid r \<and> vr_verdict r = Some ALLOW)"
proof -
  obtain d where d: "create_signed_decision ref_host sample_signer sample_action sample_input = Inr d"
    using sample_decision by blast
  obtain k where k: "key_registry_entry ref_host sample_signer sample_now None None = Inr k" "registry_ok [k]"
    using sample_key by blast
  have "ci_now sample_input = sample_now" "ci_ttl_seconds sample_input = 60"
    "ci_policy_version sample_input = ''1.0.0''" "ev_verdict (ci_evaluation sample_input) = ALLOW"
    "bound_requirements (a_reference sample_action) = Some sample_hash"
    by (simp_all add: sample_input_def sample_evaluation_def sample_action_def sample_reference_def bound_requirements_def)
  with d k issued_decision_is_valid [OF d sample_signer_ok _ k(1) _ k(2), of sample_now]
  show ?thesis by (auto simp: Let_def)
qed

text \<open>C3. Two valid actions that differ have different action hashes, unless SHA-256 collides on
  their canonical texts: the hash binds principal, agent, rail, reference, transaction and
  extensions.\<close>

theorem action_hash_binds:
  assumes "jcs_ok H" "action_ok H a" "action_ok H b" "hash_binds H (action_json a) (action_json b)"
    and "\<not> same_action a b"
  shows "hash_action H a \<noteq> hash_action H b"
  using hash_action_binds [OF assms(1) hash_action_ok [OF assms(2)], of b] assms by auto

theorem action_hash_binds_witness:
  "hash_action clear_host sample_action \<noteq> hash_action clear_host (sample_request ''35.00'')"
proof -
  have ok: "action_ok clear_host a \<longleftrightarrow> action_ok ref_host a" for a
    by (cases "a_reference a") (simp_all add: action_ok_def clear_host_def)
  show ?thesis
  proof (rule action_hash_binds)
    show "action_ok clear_host sample_action" "action_ok clear_host (sample_request ''35.00'')"
      using sample_request_ok(1) by (simp_all add: ok sample_large_def)
    show "\<not> same_action sample_action (sample_request ''35.00'')"
      by (simp add: same_action_def sample_request_def sample_action_def sample_transaction_def)
  qed simp_all
qed


section \<open>Properties of policies and the local provider\<close>

text \<open>C5. With exact decimals, \<open>evaluatePolicy\<close> returns the verdict of the first failing check of
  the documented order (expiry, deny list, rail, merchant, limits, daily limit, time window), and
  \<open>ALLOW\<close> or \<open>REQUIRE_APPROVAL\<close> by the human threshold when none fails.\<close>

theorem policy_verdict_is_first_failure:
  assumes "decimal_ok H" "policy_ok H t p" "action_ok H a"
    and "local_time_parts H now (tw_timezone (pl_windows p)) = Inr lt" "time_shape (lt_time lt)"
    and "get_daily (a_principal_id a) (lt_day_key lt) s = (Inr spent, s')" "canonical_amount spent"
    and "decimal_digits 20 (decimal_value spent + decimal_value (tx_amount (a_transaction a)))"
  shows "fst (evaluate_policy H p get_daily now a s) =
    Inr (verdict_of_checks p a (first_failure (policy_checks now p lt (decimal_value spent) a)))"
  by (rule evaluate_policy_spec [where get_daily = get_daily and s = s, OF assms])

theorem policy_verdict_is_first_failure_witness:
  "fst (evaluate_policy ref_host sample_policy (\<lambda>_ _ s. (Inr ''0.00'', s)) sample_now sample_action ()) =
    Inr (verdict_of_checks sample_policy sample_action None)"
proof -
  have "decimal_digits 20 (25 / 2)"
    unfolding decimal_digits_def by (intro exI [of _ 125] exI [of _ 1]) simp
  then have "fst (evaluate_policy ref_host sample_policy (\<lambda>_ _ s. (Inr ''0.00'', s)) sample_now (sample_request ''12.50'') ()) =
      Inr (verdict_of_checks sample_policy (sample_request ''12.50'')
        (first_failure (policy_checks sample_now sample_policy sample_local (decimal_value ''0.00'') (sample_request ''12.50''))))"
    using sample_local_time
    by (intro policy_verdict_is_first_failure [where t = sample_now and s' = "()"])
      (simp_all add: sample_timezone sample_local_def)
  with sample_checks [of "''12.50''"] show ?thesis by simp
qed

text \<open>C6. \<open>evaluate\<close> of the local provider returns a decision that the signer made for this action with
  the verdict of the policy, and has saved it under its identifier together with the action.\<close>

theorem provider_issues_policy_verdict:
  assumes "lp_evaluate H (memory_provider H p sg) am a s = (Inr d, s')"
  shows "\<exists>ev s1. evaluate_policy H p (lp_daily (memory_provider H p sg)) (am_clock am 0) a s = (Inr ev, s1) \<and>
    create_signed_decision H sg a (lp_create_input H (memory_provider H p sg) am 1 ev None) = Inr d \<and>
    d_verdict d = ev_verdict ev \<and> dm_records (me_decisions s') (d_decision_id d) = Some (d, a)"
  using memory_provider.evaluate_correct [OF assms] by simp

theorem provider_issues_policy_verdict_witness:
  "\<exists>d s'. lp_evaluate ref_host (memory_provider ref_host sample_policy sample_signer) (sample_ambient ''decision-1'')
      sample_action empty_memory = (Inr d, s') \<and> d_verdict d = ALLOW \<and> dm_records (me_decisions s') (d_decision_id d) = Some (d, sample_action)"
proof -
  obtain d s' where e: "lp_evaluate ref_host (memory_provider ref_host sample_policy sample_signer)
      (sample_ambient ''decision-1'') sample_action empty_memory = (Inr d, s')"
    and v: "d_verdict d = ALLOW"
    using sample_first_decision by blast
  with provider_issues_policy_verdict [OF e] show ?thesis by blast
qed

text \<open>C7. Whatever \<open>resolveApproval\<close> resolves was a stored, unexpired \<open>REQUIRE_APPROVAL\<close> decision, unclaimed before, and the
  replacement action, if one is given, is the same request. The policy is evaluated again on that action, at the time of the
  resolution and against the daily spend recorded in the state of the call (\<open>me_spend s\<close>); the superseding decision is made by
  the signer from this evaluation and saved, and is \<open>ALLOW\<close> exactly if the human granted it and this evaluation does not block: a
  grant never overrides a blocking policy.\<close>

theorem resolution_is_correct:
  assumes "lp_resolve H (memory_provider H p sg) am ri rep s = (Inr r, s')" "rr_success r"
  shows "\<exists>d issued stored_action a pe. rr_decision r = Some d \<and>
    dm_records (me_decisions s) (ri_decision_id ri) = Some (issued, stored_action) \<and>
    a = (case rep of None \<Rightarrow> stored_action | Some x \<Rightarrow> x) \<and> same_request a stored_action \<and>
    d_verdict issued = REQUIRE_APPROVAL \<and> \<not> approval_closed p issued (am_clock am 0) \<and>
    ri_decision_id ri \<notin> set (dm_claimed (me_decisions s)) \<and> ri_decision_id ri \<in> set (dm_claimed (me_decisions s')) \<and>
    fst (evaluate_policy H p (\<lambda>q day m. (Inr (stored_spend m (spend_key q day)), m)) (am_clock am 1) a (me_spend s)) = Inr pe \<and>
    create_signed_decision H sg a (lp_create_input H (memory_provider H p sg) am 2 (resolved_evaluation ri pe)
      (Some (d_decision_id issued))) = Inr d \<and>
    dm_records (me_decisions s') (d_decision_id d) = Some (d, a) \<and>
    d_supersedes d = Some (d_decision_id issued) \<and> ap_mode (d_approval d) = Human \<and>
    d_verdict d = (if ri_granted ri \<and> ev_verdict pe \<noteq> BLOCK then ALLOW else BLOCK)"
  by (rule memory_resolution [OF assms])

theorem resolution_is_correct_witness:
  "\<exists>r s s' d. lp_resolve ref_host (memory_provider ref_host sample_policy sample_signer) (sample_ambient ''decision-2'')
      (sample_grant ''decision-1'') None s = (Inr r, s') \<and> rr_success r \<and> rr_decision r = Some d \<and>
    d_verdict d \<in> {ALLOW, BLOCK} \<and> ap_mode (d_approval d) = Human"
proof -
  obtain r s s' where "lp_resolve ref_host (memory_provider ref_host sample_policy sample_signer) (sample_ambient ''decision-2'')
      (sample_grant ''decision-1'') None s = (Inr r, s')" "rr_success r"
    using sample_resolution by blast
  from this resolution_is_correct [OF this] show ?thesis by fastforce
qed

text \<open>C8. Over any sequence of calls of the local provider, no decision is resolved twice: once a
  resolution of it has succeeded, every later one fails.\<close>

theorem approval_resolved_at_most_once:
  assumes "run_ops (lp_step H (memory_provider H p sg)) cs s = (rs, s')" "m < n" "n < length cs"
    and "cs ! m = ResolveApproval am ri rep" "rs ! m = Inr (Resolved r)" "rr_success r"
    and "cs ! n = ResolveApproval am' ri' rep'" "rs ! n = Inr (Resolved r')" "ri_decision_id ri' = ri_decision_id ri"
  shows "\<not> rr_success r'"
  by (rule memory_provider.resolved_once [OF assms])

theorem approval_resolved_at_most_once_witness:
  "\<exists>d r x s'. run_ops (lp_step ref_host sample_provider)
      [Evaluate (sample_ambient ''decision-1'') sample_large, ResolveApproval (sample_ambient ''decision-2'') (sample_grant ''decision-1'') None,
       ResolveApproval (sample_ambient ''decision-3'') (sample_grant ''decision-1'') None] empty_memory =
      ([Inr (Issued d), Inr (Resolved r), Inr (Resolved x)], s') \<and> rr_success r \<and> \<not> rr_success x"
proof -
  obtain d r x s' where run: "run_ops (lp_step ref_host (memory_provider ref_host sample_policy sample_signer))
      [Evaluate (sample_ambient ''decision-1'') sample_large, ResolveApproval (sample_ambient ''decision-2'') (sample_grant ''decision-1'') None,
       ResolveApproval (sample_ambient ''decision-3'') (sample_grant ''decision-1'') None] empty_memory =
      ([Inr (Issued d), Inr (Resolved r), Inr (Resolved x)], s')" and r: "rr_success r"
    using sample_approval_history unfolding sample_provider_def by blast
  have "\<not> rr_success x"
    by (rule approval_resolved_at_most_once [OF run, where m = 1 and n = 2 and r = r]) (simp_all add: r)
  with run r show ?thesis unfolding sample_provider_def by blast
qed

text \<open>C9. Only a stored \<open>ALLOW\<close> decision with the presented action hash that has not expired can be
  consumed.\<close>

theorem consumption_is_authorised:
  assumes "lp_consume H (memory_provider H p sg) am ci s = (Inr r, s')" "cr_success r"
  shows "\<exists>d a. dm_records (me_decisions s) (co_decision_id ci) = Some (d, a) \<and> d_verdict d = ALLOW \<and>
    d_action_hash d = co_action_hash ci \<and>
    (case date_parse (d_expires_at d) of None \<Rightarrow> True | Some t \<Rightarrow> am_clock am 0 < t)"
  by (rule memory_provider.consume_correct [OF assms])

theorem consumption_is_authorised_witness:
  "\<exists>am ci s r s' d a. lp_consume ref_host (memory_provider ref_host sample_policy sample_signer) am ci s = (Inr r, s') \<and>
    cr_success r \<and> dm_records (me_decisions s) (co_decision_id ci) = Some (d, a) \<and> d_verdict d = ALLOW"
proof -
  obtain am ci s r s' where c: "lp_consume ref_host (memory_provider ref_host sample_policy sample_signer) am ci s = (Inr r, s')" "cr_success r"
    using sample_consumption_step by blast
  from c consumption_is_authorised [OF c] show ?thesis by blast
qed

text \<open>C10. Over any sequence of calls with fresh identifiers, all successful consumptions of one
  decision are for one execution reference, and only the first of them is a new consumption.\<close>

theorem decision_consumed_at_most_once:
  assumes "run_ops (lp_step H (memory_provider H p sg)) cs s = (rs, s')" "m < n" "n < length cs"
    and "distinct (map (am_uuid \<circ> call_ambient) cs)"
      "\<forall>c \<in> set cs. dm_records (me_decisions s) (am_uuid (call_ambient c)) = None"
    and "cs ! m = Consume am ci" "rs ! m = Inr (ConsumeOutcome r)" "cr_success r"
    and "cs ! n = Consume am' ci'" "rs ! n = Inr (ConsumeOutcome r')" "cr_success r'"
    and "co_decision_id ci' = co_decision_id ci"
  shows "co_execution_ref ci' = co_execution_ref ci \<and> cr_status r' \<noteq> Consumed"
  by (rule memory_provider.consumed_once [OF assms])

theorem decision_consumed_at_most_once_witness:
  "\<exists>d r r' s'. run_ops (lp_step ref_host sample_provider)
      [Evaluate (sample_ambient ''decision-1'') sample_action, Consume (sample_ambient ''decision-2'') (sample_consume d ''run-1''),
       Consume (sample_ambient ''decision-3'') (sample_consume d ''run-1'')] empty_memory =
      ([Inr (Issued d), Inr (ConsumeOutcome r), Inr (ConsumeOutcome r')], s') \<and>
    cr_success r \<and> cr_success r' \<and> cr_status r' \<noteq> Consumed"
proof -
  obtain d r r' s' where run: "run_ops (lp_step ref_host (memory_provider ref_host sample_policy sample_signer))
      [Evaluate (sample_ambient ''decision-1'') sample_action, Consume (sample_ambient ''decision-2'') (sample_consume d ''run-1''),
       Consume (sample_ambient ''decision-3'') (sample_consume d ''run-1'')] empty_memory =
      ([Inr (Issued d), Inr (ConsumeOutcome r), Inr (ConsumeOutcome r')], s')" and r: "cr_success r" "cr_success r'"
    using sample_consume_history unfolding sample_provider_def by blast
  have "cr_status r' \<noteq> Consumed"
    using decision_consumed_at_most_once [OF run, of 1 2, OF _ _ _ _ _ _ r(1) _ _ r(2)] by simp
  with run r show ?thesis unfolding sample_provider_def by blast
qed

section \<open>Properties of amounts, instants and encodings\<close>

text \<open>C11. Formatting atomic units with up to 18 decimals is exact, canonical and injective: the text
  denotes the units divided by the power of ten, and different unit counts give different texts.\<close>

theorem format_is_exact:
  assumes "uint_string a" "d \<le> 18"
  shows "canonical_amount (format_units a d) \<and> decimal_value (format_units a d) = of_nat (digits_value a) / 10 ^ d \<and>
    (uint_string b \<and> format_units b d = format_units a d) = (b = a)"
  using format_units_exact [OF assms] format_units_inj [of b a d] assms by (auto simp: canonical_amount_def)

theorem format_is_exact_witness:
  "canonical_amount (format_units ''12500000'' 6) \<and> decimal_value (format_units ''12500000'' 6) = of_nat (digits_value ''12500000'') / 10 ^ 6"
proof -
  have "uint_string ''12500000''" by code_simp
  from format_is_exact [OF this, of 6 "''1''"] show ?thesis by simp
qed

section \<open>Properties of the reconciliation journal\<close>

text \<open>Over any sequence of journal calls an operation is claimed at most once: after one
  \<open>start\<close> of it has been answered \<open>claimed\<close>, no later one is.\<close>

theorem operation_claimed_at_most_once:
  assumes "run_ops (mem_journal_step H) cs s = (rs, s')" "m < n" "n < length cs"
    and "cs ! m = StartCall k b t" "rs ! m = Inr (StartResult (Claimed x))" "cs ! n = StartCall k b' t'"
  shows "rs ! n \<noteq> Inr (StartResult (Claimed y))"
  by (rule mem_journal.claimed_at_most_once [OF TrueI assms])

theorem operation_claimed_at_most_once_witness:
  "\<exists>x r s'. run_ops (mem_journal_step ref_host) [StartCall sample_hash sample_hash sample_now, StartCall sample_hash sample_hash sample_now]
      [(sample_hash, sample_operation)] = ([Inr (StartResult (Claimed x)), r], s') \<and> (\<forall>y. r \<noteq> Inr (StartResult (Claimed y)))"
proof -
  obtain x r s' where run: "run_ops (mem_journal_step ref_host) [StartCall sample_hash sample_hash sample_now, StartCall sample_hash sample_hash sample_now]
      [(sample_hash, sample_operation)] = ([Inr (StartResult (Claimed x)), r], s')"
    using sample_start by blast
  have "r \<noteq> Inr (StartResult (Claimed y))" for y
    using operation_claimed_at_most_once [OF run, of 0 1 sample_hash sample_hash sample_now x sample_hash sample_now y] by simp
  with run show ?thesis by blast
qed

text \<open>A final operation (succeeded or failed) is never changed again, whatever calls follow.\<close>

theorem final_operation_stays:
  assumes "map_of s k = Some x" "final (xo_status x)" "run_ops (mem_journal_step H) cs s = (rs, s')"
  shows "map_of s' k = Some x"
  using mem_journal.final_stays [of H cs s 0 k x "length cs"] assms by (simp add: state_at_def)

theorem final_operation_stays_witness:
  "map_of (snd (run_ops (mem_journal_step ref_host) [StartCall sample_hash sample_hash sample_now]
    [(sample_hash, sample_operation\<lparr>xo_status := Succeeded\<rparr>)])) sample_hash = Some (sample_operation\<lparr>xo_status := Succeeded\<rparr>)"
proof -
  obtain rs s' where run: "run_ops (mem_journal_step ref_host) [StartCall sample_hash sample_hash sample_now]
      [(sample_hash, sample_operation\<lparr>xo_status := Succeeded\<rparr>)] = (rs, s')" by fastforce
  from final_operation_stays [OF _ _ run, of sample_hash "sample_operation\<lparr>xo_status := Succeeded\<rparr>"] run
  show ?thesis by (simp add: final_def)
qed

section \<open>Properties of the x402 guard\<close>

text \<open>The action bound to an x402 request carries the payee, asset and network of the payment
  requirements and exactly the requested amount, and refers to their hash.\<close>

theorem x402_action_is_bound:
  assumes "action_from_x402 H X i = Inr a"
  shows "\<exists>req. normalise_requirements X (xi_requirements i) = Inr req \<and> action_ok H a \<and>
    a_principal_id a = xi_principal_id i \<and> a_agent_id a = xi_agent_id i \<and>
    tx_payee (a_transaction a) = pq_pay_to req \<and> tx_asset (a_transaction a) = pq_asset req \<and>
    tx_network (a_transaction a) = pq_network req \<and>
    decimal_value (tx_amount (a_transaction a)) = of_nat (digits_value (pq_amount req)) / 10 ^ nat \<lfloor>xi_asset_decimals i\<rfloor> \<and>
    requirements_hash H X req = Inr (x_requirements_hash (a_reference a))"
  using action_from_x402_bound [OF assms] by blast

theorem x402_action_is_bound_witness:
  "decimal_value (tx_amount (a_transaction sample_x402_action)) = of_nat (digits_value ''12500000'') / 10 ^ 6"
  using x402_action_is_bound [OF sample_action_from_x402]
  by (auto simp: sample_x402_def sample_normalised) (simp add: sample_requirements_def)

text \<open>C12. \<open>settleIfAuthorised\<close> reaches the settlement only if the decision is an \<open>ALLOW\<close> that
  verifies, at that instant, for the action of this very request and its requirements hash, and the
  provider has consumed it for this execution reference.\<close>

theorem settlement_is_authorised:
  assumes "prepare_settlement H X G clk i d ref s = (Inr rec, s')"
  shows "\<exists>a rh. action_from_x402 H X i = Inr a \<and> d_verdict d = ALLOW \<and>
    verified H \<lparr>vi_decision = decision_json d, vi_action = action_json a, vi_registry = registry_json (gd_registry G),
      vi_at = clk 0, vi_policy_version = gd_policy_version G, vi_requirements_hash = Some rh\<rparr> d a (gd_registry G) \<and>
    (\<exists>c s1 s2. gd_consume G \<lparr>co_decision_id = d_decision_id d, co_action_hash = d_action_hash d,
       co_execution_ref = ref\<rparr> s1 = (Inr c, s2) \<and> cr_success c)"
  by (rule prepare_settlement_sound [OF assms])

theorem settlement_is_authorised_witness:
  "\<exists>d k. prepare_settlement ref_host sample_schemas (open_guard k) (\<lambda>_. sample_now) sample_x402 d ''run-1'' () = (Inr None, ()) \<and>
    d_verdict d = ALLOW"
proof -
  obtain d k where p: "prepare_settlement ref_host sample_schemas (open_guard k) (\<lambda>_. sample_now) sample_x402 d ''run-1'' () = (Inr None, ())"
    using sample_prepared by blast
  from p settlement_is_authorised [OF p] show ?thesis by blast
qed

text \<open>C13. Settlement fails closed, whatever \<open>settle\<close> is. Without an \<open>ALLOW\<close> that verifies now for the action of the request
  (\<open>settlement_verified\<close>) \<open>settleIfAuthorised\<close> ends with an error in the state it started from: no journal and no decision
  provider was called. With one, a journal that cannot prepare the operation, a consumption that throws or is not successful, and
  a journal that does not newly claim the operation each end it with their own error, in the state their call left.\<close>

theorem settlement_fails_closed:
  "(\<not> settlement_verified H X G (clk 0) i d \<longrightarrow> (\<exists>e. settle_if_authorised H X G clk i d ref settle s = (Inl e, s))) \<and>
   (settlement_verified H X G (clk 0) i d \<longrightarrow>
     (\<forall>J e s1. gd_journal G = Some J \<and> jo_prepare J (prepare_request H clk d ref) s = (Inl e, s1) \<longrightarrow>
        settle_if_authorised H X G clk i d ref settle s = (Inl state_unavailable, s1)) \<and>
     (\<forall>rec s1 c s2. settlement_prepared H G clk d ref s rec s1 \<and>
        gd_consume G \<lparr>co_decision_id = d_decision_id d, co_action_hash = d_action_hash d, co_execution_ref = ref\<rparr> s1 = (c, s2) \<and>
        (\<forall>r. c = Inr r \<longrightarrow> \<not> cr_success r) \<longrightarrow>
        settle_if_authorised H X G clk i d ref settle s =
          (Inl (guard_error ''Settlement blocked because decision consumption failed''
             [case c of Inl _ \<Rightarrow> DECISION_SERVICE_UNAVAILABLE
              | Inr r \<Rightarrow> (case cr_reason r of None \<Rightarrow> DECISION_NOT_ALLOW | Some q \<Rightarrow> q)]), s2)) \<and>
     (\<forall>J k s1 c s2 q s3. settlement_prepared H G clk d ref s (Some (J, k)) s1 \<and>
        gd_consume G \<lparr>co_decision_id = d_decision_id d, co_action_hash = d_action_hash d, co_execution_ref = ref\<rparr> s1 = (Inr c, s2) \<and>
        cr_success c \<and> jo_start J k (settlement_binding H d ref) (clk 2) s2 = (q, s3) \<and>
        (\<forall>r. q = Inr r \<longrightarrow> start_error r \<noteq> None) \<longrightarrow>
        settle_if_authorised H X G clk i d ref settle s =
          (Inl (case q of Inl _ \<Rightarrow> state_unavailable | Inr r \<Rightarrow> the (start_error r)), s3)))"
  by (intro conjI impI allI; (elim conjE)?)
    (rule settle_unverified settle_unprepared settle_unconsumed settle_unclaimed; (assumption | blast))+

theorem settlement_fails_closed_witness:
  "\<exists>k d. settlement_verified ref_host sample_schemas (open_guard k) sample_now sample_x402 d \<and>
    settle_if_authorised ref_host sample_schemas ((open_guard k)\<lparr>gd_consume := \<lambda>c. throw state_unavailable\<rparr>)
      (\<lambda>_. sample_now) sample_x402 d ''run-1'' (ret ()) () =
    (Inl (guard_error ''Settlement blocked because decision consumption failed'' [DECISION_SERVICE_UNAVAILABLE]), ())"
proof -
  obtain d k where p: "prepare_settlement ref_host sample_schemas (open_guard k) (\<lambda>_. sample_now) sample_x402 d ''run-1'' () = (Inr None, ())"
    using sample_prepared by blast
  have v: "settlement_verified ref_host sample_schemas (open_guard k) sample_now sample_x402 d"
  proof (rule ccontr)
    assume "\<not> settlement_verified ref_host sample_schemas (open_guard k) sample_now sample_x402 d"
    from settle_unverified [where clk = "\<lambda>_. sample_now" and ref = "''run-1''" and settle = "ret ()" and s = "()", OF this] p
    show False by (auto simp: settle_if_authorised_def bind_io_apply finish_settlement_def)
  qed
  let ?G = "(open_guard k)\<lparr>gd_consume := \<lambda>c. throw state_unavailable\<rparr>"
  have "settlement_verified ref_host sample_schemas ?G sample_now sample_x402 d" "settlement_prepared ref_host ?G (\<lambda>_. sample_now) d ''run-1'' () None ()"
    using v by (simp_all add: settlement_verified_def settlement_prepared_def open_guard_def)
  with settlement_fails_closed [where G = ?G and clk = "\<lambda>_. sample_now" and H = ref_host and X = sample_schemas
      and i = sample_x402 and d = d and ref = "''run-1''" and settle = "ret ()" and s = "()"]
  have "settle_if_authorised ref_host sample_schemas ?G (\<lambda>_. sample_now) sample_x402 d ''run-1'' (ret ()) () =
    (Inl (guard_error ''Settlement blocked because decision consumption failed'' [DECISION_SERVICE_UNAVAILABLE]), ())"
    by auto
  with v show ?thesis by blast
qed

text \<open>C14. Over any sequence of guarded settlement attempts with the in-memory journal, whatever the
  decision provider and however each settlement ends, each operation is settled at most once.\<close>

theorem operation_settled_at_most_once:
  "count_list (wd_settled (snd (run_ops (\<lambda>c :: 't settle_call. settle_if_authorised H X (world_guard H ev con ks pv cls) (sc_clock c)
      (sc_input c) (sc_decision c) (sc_ref c)
      (\<lambda>s. (sc_result c, log_settlement (operation_id H X402 X402Settlement (sc_ref c)) s)))
    cs \<lparr>wd_provider = p, wd_journal = [], wd_settled = []\<rparr>))) k \<le> 1"
  by (rule world_settled_once)

section \<open>Properties of the EVM wallet gate\<close>

text \<open>C15. Signed bytes that \<open>verifySignedEvmTransaction\<close> accepts recover to the authorised sender and parse to a transaction
  with every authorised field: type, chain, recipient, value, nonce, gas limit, calldata, the gas price or the two fees, and the
  access list, absent fields being absent in both.\<close>

theorem signed_bytes_are_authorised:
  assumes "verify_signed_evm V stx t = Inr True"
  shows "\<exists>p r. vm_parse V stx = Some p \<and> vm_recover V stx = Some r \<and> to_lower r = to_lower (et_from t) \<and>
    pt_type p = evm_type_string (et_type t) \<and> map_option nat_string (pt_chain_id p) = Some (et_chain_id t) \<and>
    map_option to_lower (pt_to p) = Some (to_lower (et_to t)) \<and>
    nat_string (case pt_value p of None \<Rightarrow> 0 | Some v \<Rightarrow> v) = et_value t \<and>
    map_option nat_string (pt_nonce p) = Some (et_nonce t) \<and> map_option nat_string (pt_gas p) = Some (et_gas_limit t) \<and>
    to_lower (case pt_data p of None \<Rightarrow> ''0x'' | Some x \<Rightarrow> x) = to_lower (et_data t) \<and>
    map_option nat_string (pt_max_fee p) = et_max_fee t \<and> map_option nat_string (pt_max_priority_fee p) = et_max_priority_fee t \<and>
    map_option nat_string (pt_gas_price p) = et_gas_price t \<and>
    map (\<lambda>x. (to_lower (fst x), map to_lower (snd x))) (case pt_access_list p of None \<Rightarrow> [] | Some l \<Rightarrow> l) =
      map (\<lambda>x. (to_lower (fst x), map to_lower (snd x))) (et_access_list t)"
  by (rule verify_signed_evm_sound [OF assms])

theorem signed_bytes_are_authorised_witness:
  "vm_recover sample_viem ''0x'' = Some (et_from sample_tx) \<and> (\<exists>p. vm_parse sample_viem ''0x'' = Some p \<and> pt_chain_id p = Some 1)"
  using signed_bytes_are_authorised [OF sample_signed [of "''0x''"]] by (auto simp: sample_viem_def sample_parsed_def)

text \<open>C16. The gate gives a transaction to the wallet only under an \<open>ALLOW\<close> decision that verifies for
  the action bound to this request: same sender, recipient, chain and hash, and its exact value.\<close>

theorem wallet_signs_only_when_authorised:
  assumes "es_signed (snd (sign_and_broadcast H V (memory_evm_gate H ev con ks pv addr w bc) now i d s)) \<noteq> es_signed s"
  shows "\<exists>t a. evm_bound H i t a \<and> vr_valid (evm_verify H (memory_evm_gate H ev con ks pv addr w bc) d a now) \<and> d_verdict d = ALLOW"
  by (rule memory_signing_authorised [OF assms])

theorem wallet_signs_only_when_authorised_witness:
  "\<exists>d k t a. evm_bound ref_host sample_evm t a \<and> vr_valid (evm_verify ref_host (sample_evm_gate k) d a sample_now)"
proof -
  obtain d k where "es_signed (snd (sign_and_broadcast ref_host sample_viem (sample_evm_gate k) sample_now sample_evm d fresh_evm)) \<noteq> es_signed fresh_evm"
    using sample_evm_signs by blast
  from wallet_signs_only_when_authorised [OF this [unfolded sample_evm_gate_def]]
  show ?thesis unfolding sample_evm_gate_def by blast
qed

text \<open>C17. Over any sequence of gate calls with the in-memory execution store, one unsigned
  transaction is given to the wallet at most once.\<close>

theorem wallet_signs_at_most_once:
  "count_list (es_signed (snd (run_ops (\<lambda>c :: evm_call. sign_and_broadcast H V (memory_evm_gate H ev con ks pv addr w bc)
      (ec_now c) (ec_input c) (ec_decision c)) cs \<lparr>es_outside = p, es_executions = Map.empty, es_signed = []\<rparr>))) k \<le> 1"
  by (rule memory_signed_once)

section \<open>Properties of signed receipts and the A2A settlement gate\<close>

text \<open>A receipt made by \<open>createA2AActionReceipt\<close> verifies with a registry that holds the
  signer's entry, if the execution falls into the key's window.\<close>

theorem created_receipt_is_valid:
  assumes "create_a2a_receipt H sg rid task resource sub d ob ref result executed = Inr r"
    and "signer_ok H sg" "length (s_public_key sg) = 32"
    and "key_registry_entry H sg nb na st = Inr k" "st \<noteq> Some Revoked" "registry_ok ks" "k \<in> set ks"
    and "nb \<le> executed" "\<forall>t. na = Some t \<longrightarrow> executed < t"
  shows "rk_valid (verify_a2a_receipt H (a2a_receipt_json r) (registry_json ks))"
  by (rule created_a2a_receipt_verifies [OF assms])

theorem created_receipt_is_valid_witness:
  "\<exists>r k. rk_valid (verify_a2a_receipt ref_host (a2a_receipt_json r) (registry_json [k]))"
proof -
  obtain d r where r: "create_a2a_receipt ref_host sample_signer ''receipt-1'' (''task-1'', ''ctx-1'') ''https://api.example/data'' ''sub-1''
    d sample_observation ''run-1'' (JStr ''done'') sample_now = Inr r"
    using sample_a2a_receipt by blast
  obtain k where k: "key_registry_entry ref_host sample_signer sample_now None None = Inr k" "registry_ok [k]"
    using sample_key by blast
  from created_receipt_is_valid [OF r sample_signer_ok _ k(1) _ k(2)] show ?thesis by auto
qed

text \<open>C4. An A2A receipt of which any text or the signing key was altered while its fingerprint was kept
  does not verify with any registry, unless SHA-256 collides on the two canonical preimages.\<close>

theorem altered_receipt_is_rejected:
  assumes "jcs_ok H" "ar_fingerprint r = receipt_fingerprint H a2a_receipt_version (a2a_receipt_fields r) (ar_key_id r)"
    and "hash_binds H (receipt_payload a2a_receipt_version (a2a_receipt_fields r) (ar_key_id r))
      (receipt_payload a2a_receipt_version (a2a_receipt_fields r') (ar_key_id r'))"
    and "ar_fingerprint r' = ar_fingerprint r" "a2a_receipt_fields r' \<noteq> a2a_receipt_fields r \<or> ar_key_id r' \<noteq> ar_key_id r"
  shows "\<not> rk_valid (verify_a2a_receipt H (a2a_receipt_json r') reg)"
  by (rule altered_a2a_receipt_rejected [OF assms])

theorem altered_receipt_is_rejected_witness:
  "\<not> rk_valid (verify_a2a_receipt clear_host (a2a_receipt_json (sample_receipt\<lparr>ar_task := ''task-2''\<rparr>)) JNull)"
  by (rule altered_receipt_is_rejected [where r = sample_receipt])
    (simp_all add: sample_receipt_fingerprint, simp_all add: sample_receipt_def a2a_receipt_fields_def Let_def)

text \<open>C19. The delegate runs only after the whole run of the gate up to it: the decision \<open>d\<close> that the provider gave for this payment
  and the guard verified is \<open>ALLOW\<close>, the settlement provider's answer to that decision parses to an observation \<open>ob\<close>, and
  \<open>ob\<close> is final, of the required finality and bound to this task, submission, challenge and resource; \<open>d\<close> verifies
  again after settlement and is consumed for the execution reference of \<open>ob\<close>. The delegate runs for that reference, once.\<close>

theorem delegate_runs_only_when_settled:
  fixes s :: "'p a2a_state"
  assumes "G = memory_a2a_gate ev con ks pv st cf sg fin"
    and "a2a_process H X G clk rid i (\<lambda>x s. (out, s\<lparr>xs_delegated := dl_execution_ref x # xs_delegated s\<rparr>)) s = (result, s')"
    and "xs_delegated s' \<noteq> xs_delegated s"
  shows "\<exists>p d s1 raw s2 ob v r s3. a2a_prepare H X i fin = Inr p \<and>
    guard_authorise H X (ag_guard G) (clk 0) (pa_payment p) s = (Inr d, s1) \<and> d_verdict d = ALLOW \<and>
    a2a_settlement H G p d s1 = (Inr raw, s2) \<and> parse_observation H raw = Some ob \<and> final_and_bound ob p \<and>
    verify_before_settlement H X (ag_guard G) (clk 1) (pa_payment p) d = Inr v \<and> vr_valid v \<and>
    consume_before_execution (ag_guard G) d (a2a_execution_ref H p ob d) s2 = (Inr r, s3) \<and> cr_success r \<and>
    xs_delegated s' = a2a_execution_ref H p ob d # xs_delegated s"
  by (rule memory_delegation_authorised [OF assms])

theorem delegate_runs_only_when_settled_witness:
  "\<exists>d k p e s1 raw s2 ob. a2a_prepare ref_host sample_schemas sample_a2a ''FINAL'' = Inr p \<and>
    guard_authorise ref_host sample_schemas (ag_guard (sample_a2a_gate d k)) sample_now (pa_payment p) fresh_a2a = (Inr e, s1) \<and>
    a2a_settlement ref_host (sample_a2a_gate d k) p e s1 = (Inr raw, s2) \<and> parse_observation ref_host raw = Some ob \<and>
    final_and_bound ob p"
proof -
  obtain d k where x: "xs_delegated (snd (a2a_process ref_host sample_schemas (sample_a2a_gate d k) (\<lambda>_. sample_now) ''receipt-1'' sample_a2a
      (\<lambda>x s. (Inl ZodError, s\<lparr>xs_delegated := dl_execution_ref x # xs_delegated s\<rparr>)) fresh_a2a)) \<noteq> xs_delegated fresh_a2a"
    using sample_a2a_delegates by blast
  from delegate_runs_only_when_settled [OF sample_a2a_gate_def prod.collapse [symmetric] x] show ?thesis by blast
qed

text \<open>C20. Over any sequence of gate calls with the in-memory execution store, the delegate runs at
  most once for an execution reference.\<close>

theorem delegate_runs_at_most_once:
  "count_list (xs_delegated (snd (run_ops (\<lambda>c :: a2a_call. a2a_process H X (memory_a2a_gate ev con ks pv st cf sg fin)
      (xc_clock c) (xc_receipt_id c) (xc_input c)
      (\<lambda>x s. (xc_outcome c, s\<lparr>xs_delegated := dl_execution_ref x # xs_delegated s\<rparr>)))
    cs \<lparr>xs_outside = p, xs_executions = Map.empty, xs_delegated = []\<rparr>))) k \<le> 1"
  by (rule memory_delegated_once)

text \<open>C21. A claimed execution whose delegate returns is completed: the call returns the result with
  a new receipt for it, and the execution is recorded with both.\<close>

theorem claimed_execution_completes:
  assumes "a2a_begin H X (memory_a2a_gate ev con ks pv st cf sg fin) clk i s = (Inr (p, d, ob, ref, b, NewClaim), s1)"
    and "delegate \<lparr>dl_task = pa_task p, dl_decision = d, dl_settlement = ob, dl_execution_ref = ref\<rparr> s1 = (Inr v, s2)"
    and "xs_executions s2 = xs_executions s1"
    and "sha_ok H" "four_digit_years (clk 2)" "identifier_ok rid"
    and "signer_ok H sg" "identifier_ok (s_key_id sg)" "\<And>m. \<exists>sig. s_sign sg m = Inr sig"
  shows "\<exists>z s'. a2a_process H X (memory_a2a_gate ev con ks pv st cf sg fin) clk rid i delegate s = (Inr z, s') \<and>
    az_result z = v \<and> \<not> az_replayed z \<and> az_execution_ref z = ref \<and>
    create_a2a_receipt H sg rid (pa_task p) (xi_resource (pa_payment p)) (as_id (pa_submission p)) d ob ref v (clk 2) = Inr (az_receipt z) \<and>
    xs_executions s' ref = Some (Completed b (az_receipt z, v))"
  using assms by (rule a2a_process_completes)

theorem claimed_execution_completes_witness:
  "\<exists>d k z s'. a2a_process ref_host sample_schemas (sample_a2a_gate d k) (\<lambda>_. sample_now) ''receipt-1'' sample_a2a
    (\<lambda>_. ret (JStr ''done'')) fresh_a2a = (Inr z, s') \<and> az_result z = JStr ''done'' \<and> \<not> az_replayed z"
proof -
  obtain d k ref b where bg: "a2a_begin ref_host sample_schemas (sample_a2a_gate d k) (\<lambda>_. sample_now) sample_a2a fresh_a2a =
    (Inr (sample_a2a_prepared, d, sample_observation, ref, b, NewClaim), fresh_a2a\<lparr>xs_executions := [ref \<mapsto> InFlight b]\<rparr>)"
    using sample_a2a_starts by blast
  from claimed_execution_completes [OF bg [unfolded sample_a2a_gate_def], where delegate = "\<lambda>_. ret (JStr ''done'')" and rid = "''receipt-1''",
      OF _ _ ref_host_sha _ _ sample_signer_ok _ sample_signer_signs]
  show ?thesis unfolding sample_a2a_gate_def by fastforce
qed

text \<open>A call that reaches the execution reference of a completed execution never runs the
  delegate: it returns the recorded receipt and result, or refuses if its evidence differs.\<close>

theorem completed_execution_is_replayed:
  assumes "a2a_process H X (memory_a2a_gate ev con ks pv st cf sg fin) clk rid i delegate s = (Inr z, s1)"
    and "a2a_begin H X (memory_a2a_gate ev con ks pv st cf sg fin) clk' j t = (Inr (p, d, ob, az_execution_ref z, b, cl), t1)"
    and "xs_executions t (az_execution_ref z) = xs_executions s1 (az_execution_ref z)"
  shows "a2a_process H X (memory_a2a_gate ev con ks pv st cf sg fin) clk' rid' j delegate' t =
    (if cl = ClaimConflict
     then Inl (a2a_error ''DELEGATE_EXECUTION_CONFLICT'' None ''Execution reference is already bound to different A2A evidence'')
     else Inr \<lparr>az_decision = d, az_settlement = ob, az_execution_ref = az_execution_ref z, az_receipt = az_receipt z,
       az_result = az_result z, az_replayed = True\<rparr>, t1)"
  by (rule a2a_process_again [OF assms])

theorem completed_execution_is_replayed_witness:
  "\<exists>d k r r' s s'. a2a_process ref_host sample_schemas (sample_a2a_gate d k) (\<lambda>_. sample_now) ''receipt-1'' sample_a2a
      (\<lambda>_. throw ZodError) s = (r', s') \<and> (\<forall>z. r' = Inr z \<longrightarrow> az_replayed z) \<and>
    a2a_process ref_host sample_schemas (sample_a2a_gate d k) (\<lambda>_. sample_now) ''receipt-1'' sample_a2a
      (\<lambda>_. ret (JStr ''done'')) fresh_a2a = (Inr r, s)"
proof -
  obtain d k z s1 p' d' ob b cl t1 where
    run: "a2a_process ref_host sample_schemas (sample_a2a_gate d k) (\<lambda>_. sample_now) ''receipt-1'' sample_a2a (\<lambda>_. ret (JStr ''done'')) fresh_a2a = (Inr z, s1)"
    and again: "a2a_begin ref_host sample_schemas (sample_a2a_gate d k) (\<lambda>_. sample_now) sample_a2a s1 =
      (Inr (p', d', ob, az_execution_ref z, b, cl), t1)"
    using sample_a2a_twice by blast
  note r = completed_execution_is_replayed [OF run [unfolded sample_a2a_gate_def] again [unfolded sample_a2a_gate_def] refl,
      where rid' = "''receipt-1''" and delegate' = "\<lambda>_. throw ZodError"]
  show ?thesis
  proof (cases "cl = ClaimConflict")
    case True
    with r run show ?thesis unfolding sample_a2a_gate_def [symmetric] by fastforce
  next
    case False
    with r run show ?thesis unfolding sample_a2a_gate_def [symmetric] by fastforce
  qed
qed

section \<open>Properties of the AP2 runtime gate\<close>

text \<open>C22. The delegate of the AP2 gate runs only after the whole run of the gate up to it: \<open>v\<close> is the official verifier's answer
  to the request for this input's mandates with the trust material of its merchant; \<open>v\<close> is current before the policy is
  evaluated and again after the decision is verified, and agrees with the expected merchant, amount and currency; the action
  bound to \<open>v\<close> is the one the decision provider answered, its decision is an \<open>ALLOW\<close> that verifies and that is consumed for
  the execution reference of \<open>v\<close>. The delegate runs for the payment mandate of \<open>v\<close>, once.\<close>

theorem mandate_executed_only_when_verified:
  fixes s :: "'p ap2_state"
  assumes "G = memory_ap2_gate ev con ks pv vf tr sg age cur"
    and "ap2_process H G clk rid i (\<lambda>x s. (out, s\<lparr>ys_executed := av_payment_mandate (pd_verification x) # ys_executed s\<rparr>)) s = (result, s')"
    and "ys_executed s' \<noteq> ys_executed s"
  shows "\<exists>trust s1 raw s2 v decimals a d s3 r s4. pg_trust G (ai_merchant_id i) s = (Inr trust, s1) \<and>
    pg_verify G (ap2_trust_request i (clk 0) trust) s1 = (Inr raw, s2) \<and> parse_ap2_verification raw = Some v \<and>
    ap2_matches i v \<and> ap2_current v (clk 0) (pg_max_age G) \<and> ap2_current v (clk 2) (pg_max_age G) \<and>
    map_of (pg_decimals G) (av_currency v) = Some decimals \<and> ap2_bound H i v decimals a \<and>
    pg_evaluate G a s2 = (Inr d, s3) \<and>
    vr_valid (verify_decision H \<lparr>vi_decision = decision_json d, vi_action = action_json a, vi_registry = registry_json ks,
      vi_at = clk 1, vi_policy_version = pv, vi_requirements_hash = None\<rparr>) \<and> d_verdict d = ALLOW \<and>
    ap2_gate.pg_consume G \<lparr>co_decision_id = d_decision_id d, co_action_hash = d_action_hash d,
      co_execution_ref = ap2_execution_ref H v d\<rparr> s3 = (Inr r, s4) \<and> cr_success r \<and>
    ys_executed s' = av_payment_mandate v # ys_executed s"
  by (rule memory_execution_authorised [OF assms])

theorem mandate_executed_only_when_verified_witness:
  "\<exists>d k v a. parse_ap2_verification (ap2_verification_json sample_verification) = Some v \<and> ap2_current v sample_now 30 \<and>
    ap2_matches sample_ap2 v \<and> ap2_bound ref_host sample_ap2 v 2 a \<and> pg_evaluate (sample_ap2_gate d k) a fresh_ap2 = (Inr d, fresh_ap2)"
proof -
  obtain d k where x: "ys_executed (snd (ap2_process ref_host (sample_ap2_gate d k) (\<lambda>_. sample_now) ''receipt-1'' sample_ap2
      (\<lambda>x s. (Inl ZodError, s\<lparr>ys_executed := av_payment_mandate (pd_verification x) # ys_executed s\<rparr>)) fresh_ap2)) \<noteq> ys_executed fresh_ap2"
    using sample_ap2_executes by blast
  from mandate_executed_only_when_verified [OF sample_ap2_gate_def prod.collapse [symmetric] x]
  obtain v a decimals where "parse_ap2_verification (ap2_verification_json sample_verification) = Some v" "ap2_current v sample_now 30"
    "ap2_matches sample_ap2 v" "map_of [(''USD'', 2)] (av_currency v) = Some decimals" "ap2_bound ref_host sample_ap2 v decimals a"
    by auto
  then show ?thesis by (intro exI [of _ d] exI [of _ k] exI [of _ v] exI [of _ a]) (auto split: if_splits)
qed

text \<open>C23. Over any sequence of gate calls with the in-memory execution store, one payment mandate is
  executed at most once.\<close>

theorem mandate_executed_at_most_once:
  "count_list (ys_executed (snd (run_ops (\<lambda>c :: ap2_call. ap2_process H (memory_ap2_gate ev con ks pv vf tr sg age cur)
      (pl_clock c) (pl_receipt_id c) (pl_input c)
      (\<lambda>x s. (pl_outcome c, s\<lparr>ys_executed := av_payment_mandate (pd_verification x) # ys_executed s\<rparr>)))
    cs \<lparr>ys_outside = p, ys_executions = Map.empty, ys_executed = []\<rparr>))) k \<le> 1"
  by (rule memory_executed_once)

text \<open>C24. Whatever events the verifier process produces, in whatever order, the gate keeps at most the
  configured number of bytes of its output and 8192 bytes of its errors; a process that exceeds the limit
  or is killed has failed the verification.\<close>

theorem verifier_buffers_are_bounded:
  assumes "child_reachable bound s"
  shows "length (concat (ch_stdout s)) \<le> bound \<and> length (concat (ch_stderr s)) \<le> 8192 \<and>
    (bound < ch_output_bytes s \<or> ch_killed s \<longrightarrow> ch_result s \<noteq> None)"
  using child_reachable_bounded [OF assms] by (auto simp: child_bounded_def)

theorem verifier_buffers_are_bounded_witness:
  "length (concat (ch_stdout (run_child (\<lambda>_. None) (\<lambda>b. b) 1 sample_events))) \<le> 1"
  using verifier_buffers_are_bounded [OF run_child_reachable [of 1 "\<lambda>_. None" "\<lambda>b. b" sample_events]] by blast

text \<open>An answer of the verifier is read from everything the process has written before it ended
  with status 0, within the limit: never from truncated output or from a failed process.\<close>

theorem verifier_answer_is_whole_output:
  assumes "sdk_verify read decode bound q es = Some (Inr j)"
  shows "ap2_request_ok q \<and> (\<exists>pre post. es = pre @ Closed (Some 0) # post \<and> read (written pre) = Some j \<and>
    length (written pre) \<le> bound)"
  using assms answer_is_complete [of read decode bound es j] by (auto simp: sdk_verify_def split: if_splits)

theorem verifier_answer_is_whole_output_witness:
  "written (take 3 sample_events) = ''{}'' \<and> (\<exists>pre post. sample_events = pre @ Closed (Some 0) # post)"
proof -
  have "\<exists>pre post. sample_events = pre @ Closed (Some 0) # post"
    using verifier_answer_is_whole_output [OF sample_answer] by blast
  then show ?thesis by (simp add: sample_events_def)
qed

text \<open>C25. Verification ends: once the deadline has passed, the process has ended, could not start or
  refused its input, the promise is settled, and its outcome never changes after that.\<close>

theorem verifier_settles_once:
  assumes "e \<in> set es" "e \<in> {Deadline, SpawnError, StdinError} \<or> (\<exists>c. e = Closed c)"
  shows "\<exists>r. sdk_verify read decode bound q es = Some r \<and> (\<forall>fs. sdk_verify read decode bound q (es @ fs) = Some r)"
proof -
  obtain r where r: "ch_result (run_child read decode bound es) = Some r"
    using run_child_settles [OF assms, of read decode bound] by blast
  then show ?thesis using run_child_result_stays [OF r] by (simp add: sdk_verify_def)
qed

theorem verifier_settles_once_witness:
  "\<forall>q. \<exists>r. \<forall>fs. sdk_verify (\<lambda>_. None) (\<lambda>b. b) 1024 q (sample_events @ fs) = Some r"
  using verifier_settles_once [of "Closed (Some 0)" sample_events "\<lambda>_. None" "\<lambda>b. b" 1024]
  by (simp add: sample_events_def) blast

section \<open>Properties of the durable stores\<close>

text \<open>C26. \<open>consumeAndRecordSpend\<close> of the PostgreSQL store, over tables that a ledger describes, answers
  as the ledger does and leaves tables that the new ledger describes: the consumption is recorded with
  its spend, or neither is. The ledger, a list of consumptions with their spends, is specified on its own terms: the consumption
  of a decision is repeated only as it was recorded, a nonce of any other consumption is refused, and a new entry is added only
  within the limit.\<close>

theorem consumption_refines_ledger:
  assumes "ledger_of s L" "pg_decisions s (nc_decision_id c) \<noteq> None" "pg_day_ok (sp_day sp)"
    and "pg_decimal H (sp_amount sp) ''spend amount'' = Inr x" "pg_decimal H daily_limit ''daily limit'' = Inr l"
  shows "\<exists>r s' L'. pg_consume H c sp daily_limit s = (r, s') \<and>
    ledger_consume c (sp_principal sp, sp_day sp) x l L = (r, L') \<and> ledger_of s' L'"
  by (rule pg_consume_refines [OF assms])

theorem consumption_refines_ledger_witness:
  "\<exists>s'. pg_consume ref_host sample_row_consumption sample_spend ''500.00'' sample_tables =
      (consumed_result sample_row_consumption Consumed sample_now, s') \<and>
    ledger_of s' [(sample_row_consumption, (''org-1'', ''2023-11-14''), 25 / 2)]"
  using consumption_refines_ledger [OF sample_tables_consistent, of ref_host "25 / 2" "''500.00''" 500]
  by (simp add: sample_ledger)

text \<open>C27. Over any sequence of calls of a provider on the PostgreSQL store that starts empty, the
  spend of no principal on no day exceeds the daily limit of the policy.\<close>

theorem spend_never_exceeds_limit:
  assumes "pg_decimal H (pl_daily p) ''daily limit'' = Inr l"
  shows "pg_stored_spend (pw_tables (snd (run_ops (lp_step H (pg_provider H p sg)) cs empty_world))) q day \<le> l"
proof -
  have "0 \<le> l" by (rule pg_decimal_nonneg [OF assms])
  then have "within_limit l (pw_tables empty_world)"
    by (simp add: within_limit_def empty_world_def empty_tables_def pg_stored_spend_def)
  from pg_provider_within_limit [OF assms this prod.collapse [symmetric]] show ?thesis
    by (simp add: within_limit_def)
qed

theorem spend_never_exceeds_limit_witness:
  "\<forall>cs. pg_stored_spend (pw_tables (snd (run_ops (lp_step ref_host (pg_provider ref_host sample_policy sample_signer)) cs empty_world)))
    ''org-1'' ''2023-11-14'' \<le> 500"
proof -
  have "pg_decimal ref_host (pl_daily sample_policy) ''daily limit'' = Inr 500" by (simp add: sample_policy_def)
  from spend_never_exceeds_limit [OF this] show ?thesis by blast
qed

text \<open>C28. For instants in the four-digit years, the PostgreSQL journal and the in-memory journal give the
  same answers to any sequence of calls, up to the message of a refusal, and end in states that
  describe the same operations.\<close>

theorem journals_agree:
  assumes "sha_ok H" "\<forall>c \<in> set cs. four_digit_years (call_instant c)"
  shows "list_all2 same_answer (fst (run_ops (pg_journal_step H) cs [])) (fst (run_ops (mem_journal_step H) cs [])) \<and>
    snd (run_ops (mem_journal_step H) cs []) = journal_of (snd (run_ops (pg_journal_step H) cs []))"
  using pg_journal_agrees [of H "[]" cs] assms by (simp add: table_ok_def journal_of_def)

theorem journals_agree_witness:
  "list_all2 same_answer
    (fst (run_ops (pg_journal_step ref_host) [PrepareCall sample_prepare, StartCall sample_hash sample_hash sample_now] []))
    (fst (run_ops (mem_journal_step ref_host) [PrepareCall sample_prepare, StartCall sample_hash sample_hash sample_now] []))"
  using journals_agree [of ref_host "[PrepareCall sample_prepare, StartCall sample_hash sample_hash sample_now]"]
  by (simp add: sample_prepare_def)

section \<open>Properties of external authority\<close>

text \<open>C29. Over any history of calls of the MTP composite provider with the in-memory store, a decision is consumed with
  success only with the evidence of the authority's consumption, for its action and for this execution, in the store.\<close>

theorem mtp_authority_is_consumed_first:
  assumes "run_ops (composite_step H F (memory_mtp H N C)) cs s = (rs, s')" "rows_sound mr_decision_id mem_view (mw_store s)"
    and "n < length cs" "cs ! n = MtpConsume t i" "rs ! n = Inr (ConsumeOutcome x)" "cr_success x"
  shows "\<exists>r. map_of (mw_store s') (co_decision_id i) = Some r \<and> mr_execution_ref r = Some (co_execution_ref i) \<and>
    mr_consumption_id r \<noteq> None"
proof -
  have "checkpointed (views_of mem_view (mw_store s')) (co_decision_id i) (co_execution_ref i)"
    by (rule memory_mtp.history_success [OF assms])
  then show ?thesis by (auto simp: checkpointed_def views_of_def mem_view_def)
qed

theorem mtp_authority_is_consumed_first_witness:
  "\<exists>r s'. run_ops (composite_step ref_host \<lparr>mf_uuid = (\<lambda>_. True), mf_datetime = (\<lambda>_. True)\<rparr> mtp_sample_ops)
      [MtpConsume sample_now mtp_sample_consume] mtp_sample_world = ([Inr (ConsumeOutcome mtp_sample_result)], s') \<and>
    map_of (mw_store s') ''decision-1'' = Some r \<and> mr_execution_ref r = Some ''run-1'' \<and> mr_consumption_id r \<noteq> None"
proof -
  obtain s' where "composite_consume mtp_sample_ops sample_now mtp_sample_consume mtp_sample_world = (Inr mtp_sample_result, s')"
    by (rule mtp_sample_consumed)
  then have r: "run_ops (composite_step ref_host \<lparr>mf_uuid = (\<lambda>_. True), mf_datetime = (\<lambda>_. True)\<rparr> mtp_sample_ops)
      [MtpConsume sample_now mtp_sample_consume] mtp_sample_world = ([Inr (ConsumeOutcome mtp_sample_result)], s')"
    by (simp add: bind_io_apply)
  have "cr_success mtp_sample_result" by (simp add: mtp_sample_result_def)
  with mtp_authority_is_consumed_first [OF r mtp_sample_sound, of 0 sample_now mtp_sample_consume mtp_sample_result] r
  show ?thesis by (auto simp: mtp_sample_consume_def)
qed

text \<open>C30. Over any history of the KYA gate with the in-memory store, whatever its inner provider, verifier and
  clock do, every consumption handed to the inner provider is of a decision with a stored authority
  record, after a verified revalidation of this decision, action and execution.\<close>

theorem kya_consumption_is_revalidated:
  assumes "run_ops (kya_step H (memory_gate H uuid N V)) cs s = (rs, s')" "kx_consumed s = []" "i \<in> set (kx_consumed s')"
  shows "map_of (km_decisions (kx_store s')) (co_decision_id i) \<noteq> None \<and>
    list_ex (successful_execution (co_decision_id i) (co_action_hash i) (co_execution_ref i)) (km_revalidations (kx_store s'))"
proof -
  have "memory_kya.authorised H s" by (simp add: memory_kya.authorised_def assms(2))
  from memory_kya.history_authorised [OF assms(1) this] assms(3) show ?thesis
    by (auto simp: memory_kya.authorised_def mem_known_def mem_revalidated_def)
qed

theorem kya_consumption_is_revalidated_witness:
  "\<exists>b rs s'. run_ops (kya_step ref_host kya_sample_gate) [KyaConsume ''u-1'' kya_consumption kya_sample_presentation]
      (kya_sample_world b) = (rs, s') \<and>
    kx_consumed s' = [kya_consumption] \<and> list_ex (successful_execution ''decision-1'' kya_hash ''run-1'') (km_revalidations (kx_store s'))"
proof -
  obtain b r s' where c: "kya_consume ref_host kya_sample_gate ''u-1'' kya_consumption kya_sample_presentation (kya_sample_world b) = (Inr r, s')"
    "kx_consumed s' = [kya_consumption]" by (rule kya_sample_consumes)
  then have r: "run_ops (kya_step ref_host kya_sample_gate) [KyaConsume ''u-1'' kya_consumption kya_sample_presentation]
      (kya_sample_world b) = ([Inr (ConsumeOutcome r)], s')" by (simp add: bind_io_apply)
  have "kx_consumed (kya_sample_world b) = []" by (simp add: kya_sample_world_def)
  with kya_consumption_is_revalidated [OF r this, of kya_consumption] c(2) r show ?thesis
    by (auto simp: kya_consumption_def)
qed

text \<open>C31. A successful consumption through the KYA gate is of the action the record was made for; if this execution
  was not revalidated before, the verifier accepted the presented authority in this call, for that action,
  and its accountable identity is the one the decision was made with.\<close>

theorem kya_consumption_needs_same_authority:
  assumes "kya_consume H (memory_gate H uuid N V) uid i pr s = (Inr r, s')" "cr_success r"
  shows "\<exists>stored. map_of (km_decisions (kx_store s)) (co_decision_id i) = Some stored \<and>
    hash_action H (kr_action stored) = Inr (co_action_hash i) \<and>
    (list_ex (successful_execution (co_decision_id i) (co_action_hash i) (co_execution_ref i)) (km_revalidations (kx_store s)) \<or>
     (\<exists>clean v w. without_kya_extension H (kr_action stored) = Inr clean \<and>
        ks_verify V pr clean (ks_policy V) (expected_audience (ks_policy V) pr) (ks_clock V s) (kx_verifier s) = (Inr v, w) \<and>
        same_authority_identity (kr_binding stored) (va_binding v)))"
  using memory_kya.consume_outcome [OF assms(1)] assms(2)
  by (auto simp: memory_gate_def on_part_result mem_get_decision_def mem_revalidated_def)

theorem kya_consumption_needs_same_authority_witness:
  "\<exists>b. hash_action ref_host kya_action = Inr kya_hash \<and> (\<exists>v w. verify_authority ref_host kya_options kya_sample_presentation kya_action
      kya_sample_policy ''inntris'' sample_now () = (Inr v, w) \<and> same_authority_identity b (va_binding v))"
proof -
  obtain b r s' where c: "kya_consume ref_host kya_sample_gate ''u-1'' kya_consumption kya_sample_presentation (kya_sample_world b) = (Inr r, s')"
    "cr_success r" by (rule kya_sample_consumes)
  have "expected_audience kya_sample_policy kya_sample_presentation = ''inntris''"
    by (simp add: expected_audience_def kya_sample_presentation_def kya_sample_policy_def)
  moreover have "without_kya_extension ref_host kya_action = Inr clean \<longleftrightarrow> clean = kya_action" for clean
    by (auto simp: without_kya_extension_def kya_extension_def kya_action_def sample_action_def)
  ultimately show ?thesis
    using kya_consumption_needs_same_authority [OF c]
    by (auto simp: kya_sample_world_def kya_consumption_def kya_sample_setup_def)
qed

text \<open>C32. Authority that the modern verifier accepts covers the action: agent, principal, resource, currency and amount
  are those delegated, by an allowlisted party, and the binding reports exactly this.\<close>

theorem verified_authority_covers_action:
  assumes "verify_authority H V (EntityCardPresentation q w ch cdv jkt) a p audience now s = (Inr v, s')"
    and "vo_delegation V = verify_delegation H U"
  shows "authority_covers H p a v \<and> binding_reports H p (EntityCardPresentation q w ch cdv jkt) now v"
  by (rule verified_authority_covers [OF assms])

theorem verified_authority_covers_action_witness:
  "\<exists>v. authority_covers ref_host kya_sample_policy kya_action v \<and>
    binding_reports ref_host kya_sample_policy kya_sample_presentation sample_now v"
proof -
  obtain v where v: "verify_authority ref_host kya_options kya_sample_presentation kya_action kya_sample_policy ''inntris'' sample_now () = (Inr v, ())"
    by (rule exE [OF kya_sample_verified [of "()"]])
  have "vo_delegation kya_options = verify_delegation ref_host kya_delegation_ops" by (simp add: kya_options_def)
  from verified_authority_covers_action [OF v [unfolded kya_sample_presentation_def] this] show ?thesis
    unfolding kya_sample_presentation_def by (intro exI)
qed

text \<open>C18. The production verifier, whose parts share one resolver and its cache: when it accepts authority, every credential
  of the chain that the binding hashes was signed by its issuer in this run. In the state after the request proof and the credentials
  before it, the resolver gives a document of the issuer that publishes the key the proof names, then a document of the issuer that
  allows this key for assertions, and the cryptosuite accepts the signature by that key. The accountable party is the principal of
  the action, and no principal is taken from an Entity Card. The KYA library changes state only through the functions it is given.\<close>

theorem production_authority_is_signed:
  assumes "verify_authority H (production_verifier H P) (EntityCardPresentation q w ch cdv jkt) a p audience now s = (Inr v, s')"
    and "through_callbacks (pp_library P)" "cache_ok s"
  shows "signed_chain H P ch (kb_chain_hash (va_binding v)) (snd (production_request_proof H P w q audience jkt s)) \<and>
    va_principal v = None \<and> va_responsible v = a_principal_id a"
  by (rule production_authority_signed [OF assms])

theorem production_authority_is_signed_witness:
  "\<exists>v s'. verify_authority ref_host (production_verifier ref_host prod_parts) kya_sample_presentation kya_action kya_sample_policy
      ''inntris'' sample_now prod_start = (Inr v, s') \<and>
    signed_chain ref_host prod_parts [JNull] (kb_chain_hash (va_binding v)) prod_middle \<and> va_responsible v = a_principal_id kya_action"
proof -
  obtain v s' where v: "verify_authority ref_host (production_verifier ref_host prod_parts) kya_sample_presentation kya_action
      kya_sample_policy ''inntris'' sample_now prod_start = (Inr v, s')"
    using prod_verified by blast
  have "through_callbacks (pp_library prod_parts)" by (simp add: prod_parts_def prod_library_through)
  from production_authority_is_signed [OF v [unfolded kya_sample_presentation_def] this prod_start_cache] v
  show ?thesis by (auto simp: prod_proof_verified)
qed

text \<open>C33. A nonce of a request proof is accepted once in its lifetime: of two uses the PostgreSQL store accepts, the later one
  comes after the earlier one has expired.\<close>

theorem proof_nonce_is_accepted_once:
  assumes "run_ops pg_consume_nonce us s = (rs, s')" "\<And>u. u \<in> set us \<Longrightarrow> fair_use u"
    and "i < j" "j < length us" "rs ! i = Inr True" "rs ! j = Inr True"
    and "nu_did (us ! i) = nu_did (us ! j)" "nu_nonce (us ! i) = nu_nonce (us ! j)"
  shows "nu_expires_at (us ! i) < nu_consumed_at (us ! j)"
  by (rule pg_nonces.accepted_once [OF assms])

theorem proof_nonce_is_accepted_once_witness:
  "let u = \<lparr>nu_did = ''did:key:agent'', nu_nonce = ''n-1'', nu_consumed_at = 10, nu_expires_at = 20\<rparr>; us = [u, u\<lparr>nu_consumed_at := 21, nu_expires_at := 30\<rparr>]
   in fst (run_ops pg_consume_nonce us []) = [Inr True, Inr True] \<and> nu_expires_at (us ! 0) < nu_consumed_at (us ! 1)"
proof -
  let ?u = "\<lparr>nu_did = ''did:key:agent'', nu_nonce = ''n-1'', nu_consumed_at = 10, nu_expires_at = 20\<rparr>"
  let ?us = "[?u, ?u\<lparr>nu_consumed_at := 21, nu_expires_at := 30\<rparr>]"
  obtain s' where r: "run_ops pg_consume_nonce ?us [] = ([Inr True, Inr True], s')"
    by (simp add: pg_consume_nonce_def Let_def date_of_ms_def)
  have "\<And>u. u \<in> set ?us \<Longrightarrow> fair_use u" by (auto simp: fair_use_def date_of_ms_def)
  from proof_nonce_is_accepted_once [OF r this, of 0 1] r show ?thesis by (simp add: Let_def)
qed

text \<open>C34. Every operation of the PostgreSQL store of KYA authority keeps its tables well formed: records refer to stored
  decisions, revalidations to stored records and pass the checks, identifiers are distinct, and no
  execution has two verified revalidations.\<close>

theorem kya_tables_stay_well_formed:
  assumes "run_ops (pg_kya_step H uuid T) cs s = (rs, s')" "kya_tables_ok s"
  shows "kya_tables_ok s'"
  by (rule run_ops_invariant [where f = "pg_kya_step H uuid T" and P = kya_tables_ok, OF pg_kya_step_ok assms(2,1)])

theorem kya_tables_stay_well_formed_witness:
  "let v = \<lparr>kv_id = ''u-1'', kv_decision_id = ''decision-1'', kv_action_hash = sample_hash, kv_kind = ForConsumption,
      kv_execution_ref = Some ''run-1'', kv_approval_reference = None, kv_presentation_hash = sample_hash,
      kv_authority_hash = Some sample_hash, kv_verified = True, kv_reason = None, kv_verified_at = iso_text sample_now\<rparr>;
     s' = snd (run_ops (pg_kya_step ref_host (\<lambda>_. True) \<lparr>pt_uuid = Some, pt_timestamp = (\<lambda>_. Some 0)\<rparr>)
       [AppendRevalidation v, AppendRevalidation (v\<lparr>kv_id := ''u-2''\<rparr>)] kya_sample_tables)
   in length (kt_revalidations s') = 1 \<and> kya_tables_ok s'"
proof -
  let ?v = "\<lparr>kv_id = ''u-1'', kv_decision_id = ''decision-1'', kv_action_hash = sample_hash, kv_kind = ForConsumption,
      kv_execution_ref = Some ''run-1'', kv_approval_reference = None, kv_presentation_hash = sample_hash,
      kv_authority_hash = Some sample_hash, kv_verified = True, kv_reason = None, kv_verified_at = iso_text sample_now\<rparr>"
  let ?run = "run_ops (pg_kya_step ref_host (\<lambda>_. True) \<lparr>pt_uuid = Some, pt_timestamp = (\<lambda>_. Some 0)\<rparr>)
       [AppendRevalidation ?v, AppendRevalidation (?v\<lparr>kv_id := ''u-2''\<rparr>)] kya_sample_tables"
  have "length (kt_revalidations (snd ?run)) = 1"
    by (simp add: kya_store_step_def bind_io_apply pg_append_revalidation_def revalidation_ok_def opt_check_def timestamp_ok_iso_text
        revalidation_checks_def indexed_revalidation_def same_index_entry_def kya_sample_tables_def)
  moreover have "run_ops (pg_kya_step ref_host (\<lambda>_. True) \<lparr>pt_uuid = Some, pt_timestamp = (\<lambda>_. Some 0)\<rparr>)
       [AppendRevalidation ?v, AppendRevalidation (?v\<lparr>kv_id := ''u-2''\<rparr>)] kya_sample_tables = (fst ?run, snd ?run)" by simp
  from kya_tables_stay_well_formed [OF this kya_sample_tables_ok] have "kya_tables_ok (snd ?run)" .
  ultimately show ?thesis by (simp only: Let_def)
qed

section \<open>The conformance evaluator and the demo service\<close>

text \<open>C35. A conformance case that the evaluator accepts is sound. The structured verifier, asked for the evidence of this case at
  its time and with its skew, answered; its input hash is the one the case states; and \<open>accepted_case\<close> holds of the case and of that
  answer: the status of each of the five mandatory stages is \<open>verified\<close>, both pairs of mandates permit the payment, the
  transfer is signed by the payer for the stated amount, payee and time, it was settled as signed, and the receipt and the
  nonce are tied to the verified mandate token.\<close>

theorem accepted_case_is_sound:
  assumes "sha_ok (pe_host E)" "evaluate_case E V i s = (Inr r, s')" "cr_accept r"
  shows "\<exists>k raw x. try_parse_case E (pce_json i) = Some k \<and>
    V (pvr_evidence (pap_verification (pcs_ap2 k))) (pcs_now k) (pvr_skew (pap_verification (pcs_ap2 k))) s = (Inr raw, s') \<and>
    parse_structured_verification raw = Inr x \<and> accepted_case E k x \<and>
    calculate_input_hash (pe_host E) k = Inr (pcs_input_hash k)"
  by (rule evaluate_case_sound [OF assms])

theorem accepted_case_is_sound_witness:
  "\<exists>k x. try_parse_case pulse_sample_env (pce_json pulse_sample_envelope) = Some k \<and> accepted_case pulse_sample_env k x"
proof -
  have "sha_ok (pe_host pulse_sample_env)" by (simp add: pulse_sample_env_def)
  from accepted_case_is_sound [OF this sample_case_accepted] show ?thesis by auto
qed

text \<open>C36. The evaluator judges every case, whatever its input and whatever the structured verifier answers, throws or leaves
  behind: it returns a result, which accepts exactly when it reports no code, and it reports codes once and in the published order.\<close>

lemma evaluate_case_codes:
  assumes "evaluate_case E V i s = (Inr r, s')"
  shows "cr_codes r = filter (\<lambda>c. c \<in> set (cr_codes r)) all_codes"
proof (cases "try_parse_case E (pce_json i)")
  case None
  with assms have "cr_codes r = [INPUT_SCHEMA_INVALID]" by (auto simp: evaluate_case_def)
  then show ?thesis by (simp add: all_codes_def)
next
  case (Some k)
  with assms obtain h x where "case_outcome E k h x = Inr r"
    by (auto simp: evaluate_case_def bind_io_apply Let_def split: sum.splits prod.splits)
  then obtain fs where "cr_codes r = ordered_failures (collect_failures fs)" by (elim case_outcome_found)
  then have c: "cr_codes r = filter (\<lambda>c. (c, True) \<in> set fs) all_codes" by (simp add: ordered_collect)
  show ?thesis unfolding c by (intro filter_cong) auto
qed

theorem every_case_is_judged:
  "\<exists>r s'. evaluate_case E V i s = (Inr r, s') \<and> (cr_accept r = (cr_codes r = [])) \<and>
    cr_codes r = filter (\<lambda>c. c \<in> set (cr_codes r)) all_codes"
  using evaluate_case_total [of E V i s] evaluate_case_accept [of E V i s] evaluate_case_codes [of E V i s] by blast

text \<open>C37. The strict reader of the conformance bundle: what it accepts has no repeated and no forbidden member name and is not
  nested deeper than the limit, and printing it with two spaces and reading the text back gives the same value, for every
  printing of numbers that is read as the same double.\<close>

theorem strict_json_round_trips:
  assumes "prints_numbers nt" "parse_strict_json fb s = Inr v"
  shows "parse_strict_json fb (stringify nt 0 v @ [10]) = Inr v \<and> names_distinct v \<and> names_allowed fb v \<and> levels v \<le> 101"
  using parse_stringify_parse [OF assms] parse_strict_json_sound [OF assms(2)] by blast

theorem strict_json_round_trips_witness:
  "parse_strict_json True (stringify exact_number 0 (UObj [(latin ''a'', UArr [UBool True, UNull])]) @ [10]) =
    Inr (UObj [(latin ''a'', UArr [UBool True, UNull])])"
proof -
  have "parse_strict_json True (latin ''{ \"a\" : [true,null] }'') = Inr (UObj [(latin ''a'', UArr [UBool True, UNull])])"
    by code_simp
  from strict_json_round_trips [OF prints_exact_number this] show ?thesis by blast
qed

text \<open>C38. When the service has a key, a request that does not present it as its bearer token is answered 401 or 404 and
  leaves the state as it was, unless it asks for one of the three public documents.\<close>

theorem service_needs_its_key:
  assumes "da_service_key A = Some key" "aq_authorization rq \<noteq> Some (''Bearer '' @ key)"
    and "aq_method rq \<noteq> ''GET'' \<or> aq_path rq \<notin> set public_routes"
  shows "\<exists>status v. api_handle H Q A rq s = (Reply status v, s) \<and> status \<in> {401, 404}"
  by (rule unauthenticated_refused [OF assms])

theorem service_needs_its_key_witness:
  "\<exists>status v. api_handle ref_host sample_api_env sample_service sample_anonymous 0 = (Reply status v, 0) \<and> status \<in> {401, 404}"
  by (rule service_needs_its_key) (simp_all add: sample_service_def sample_anonymous_def)

text \<open>C39. Over the KYA gate with its in-memory store, one request to the service, on whatever route, lets the inner provider consume
  at most one decision if one of those consumed has an authority record, and this consumption was revalidated for this decision,
  action and execution.\<close>

theorem request_consumes_only_revalidated:
  assumes "api_handle H Q (memory_service H uuid N V uid B) rq s = (reply, s')"
    and "kx_consumed s' = kx_consumed s @ is" "i \<in> set is" "mem_known H (kx_store s) (co_decision_id i) \<noteq> None"
  shows "is = [i] \<and> list_ex (successful_execution (co_decision_id i) (co_action_hash i) (co_execution_ref i)) (km_revalidations (kx_store s'))"
  using memory_guard.request_revalidated [OF assms(1) [unfolded memory_service_def] assms(2-4)] by (simp add: mem_revalidated_def)

theorem request_consumes_only_revalidated_witness:
  "\<exists>b reply s'. api_handle ref_host sample_api_env sample_kya_service sample_kya_request (kya_sample_world b) = (reply, s') \<and>
    list_ex (successful_execution ''decision-1'' kya_hash ''run-1'') (km_revalidations (kx_store s'))"
proof -
  obtain b reply s' where r: "api_handle ref_host sample_api_env sample_kya_service sample_kya_request (kya_sample_world b) = (reply, s')"
    and c: "kx_consumed s' = kx_consumed (kya_sample_world b) @ [kya_consumption]"
      "mem_known ref_host (kx_store (kya_sample_world b)) (co_decision_id kya_consumption) \<noteq> None"
    by (rule sample_kya_request_consumes)
  from request_consumes_only_revalidated [OF r [unfolded sample_kya_service_def] c(1) _ c(2)] r show ?thesis
    by (auto simp: kya_consumption_def)
qed

text \<open>C40. A remote provider whose \<open>fetch\<close> reaches the service with its key consumes as the service itself does, for a well-formed
  input and a provider whose results are about the request. Without a KYA gate that is the provider behind the service: the
  same result, the same state. With one, the gate is asked first: a decision it protects is rejected with
  \<open>KYA_AUTHORITY_REQUIRED\<close> and the provider is not called. An error of the gate or the provider is the failure of the request.\<close>

theorem remote_consumption_is_local:
  assumes "rp_post R = serve H Q A key" "case da_service_key A of None \<Rightarrow> True | Some k \<Rightarrow> k = key"
    and "consume_input_ok i" "\<And>r t t'. da_consume A i t = (Inr r, t') \<Longrightarrow> consumption_reported i r"
  shows "remote_consume R i s = over_http (case da_kya A of
       None \<Rightarrow> da_consume A i
     | Some k \<Rightarrow> bind_io (ka_protects k (co_decision_id i)) (\<lambda>b.
         if b then ret (consume_rejection i KYA_AUTHORITY_REQUIRED) else da_consume A i)) s"
  by (rule remote_consume_over_service [OF assms, unfolded gated_consume_def])

theorem remote_consumption_is_local_witness:
  "remote_consume sample_remote kya_consumption 0 = (Inr sample_consumed, 1) \<and>
   (\<forall>k. remote_consume (sample_remote\<lparr>rp_post := serve ref_host sample_api_env
       (sample_service\<lparr>da_kya := Some (k\<lparr>ka_protects := \<lambda>_. ret True\<rparr>)\<rparr>) ''secret''\<rparr>) kya_consumption 0 =
     (Inr (consume_rejection kya_consumption KYA_AUTHORITY_REQUIRED), 0))"
proof (intro conjI allI)
  have "remote_consume sample_remote kya_consumption 0 = over_http (case da_kya sample_service of
       None \<Rightarrow> da_consume sample_service kya_consumption
     | Some k \<Rightarrow> bind_io (ka_protects k (co_decision_id kya_consumption)) (\<lambda>b.
         if b then ret (consume_rejection kya_consumption KYA_AUTHORITY_REQUIRED) else da_consume sample_service kya_consumption)) 0"
    by (rule remote_consumption_is_local [where H = ref_host and Q = sample_api_env and key = "''secret''"])
      (auto simp: sample_remote_def sample_service_def sample_consumption_ok sample_consumption_reported)
  then show "remote_consume sample_remote kya_consumption 0 = (Inr sample_consumed, 1)" by (simp add: over_http_def sample_service_def)
next
  fix k
  let ?A = "sample_service\<lparr>da_kya := Some (k\<lparr>ka_protects := \<lambda>_. ret True\<rparr>)\<rparr>"
  let ?R = "sample_remote\<lparr>rp_post := serve ref_host sample_api_env ?A ''secret''\<rparr>"
  have "remote_consume ?R kya_consumption 0 = over_http (case da_kya ?A of
       None \<Rightarrow> da_consume ?A kya_consumption
     | Some k \<Rightarrow> bind_io (ka_protects k (co_decision_id kya_consumption)) (\<lambda>b.
         if b then ret (consume_rejection kya_consumption KYA_AUTHORITY_REQUIRED) else da_consume ?A kya_consumption)) 0"
    by (rule remote_consumption_is_local [where H = ref_host and Q = sample_api_env and key = "''secret''"])
      (auto simp: sample_remote_def sample_service_def sample_consumption_ok sample_consumption_reported)
  then show "remote_consume ?R kya_consumption 0 = (Inr (consume_rejection kya_consumption KYA_AUTHORITY_REQUIRED), 0)"
    by (simp add: over_http_def bind_io_apply)
qed

text \<open>A suite of the multi-rail conformance that passes has one case for every rail, and for each a decision that verified for its
  action as \<open>ALLOW\<close> under one policy and key, and that the mutated action does not hash to; a suite in which some mutated
  action hashes as its action does not pass.\<close>

theorem passing_suite_conforms:
  "case run_multi_rail H S cs s of
     (Inl e, s') \<Rightarrow> True
   | (Inr r, s') \<Rightarrow> one_case_each cs \<and> list_all2 (case_conforms H S) cs (rt_outcomes r) \<and>
       rt_policy_version r = su_policy_version S \<and>
       list_all (\<lambda>x. d_policy_hash (ro_decision x) = rt_policy_hash r \<and> d_key_id (ro_decision x) = rt_key_id r) (rt_outcomes r)"
proof -
  obtain q s' where q: "run_multi_rail H S cs s = (q, s')" by fastforce
  show ?thesis
  proof (cases q)
    case (Inr r)
    from run_multi_rail_Inr [OF q [unfolded Inr]] show ?thesis by (simp add: q Inr list_all_iff)
  qed (simp add: q)
qed

end
